(* ===== verification/Prelude.thy ===== *)
theory Prelude
  imports Main "HOL-Library.Word" "HOL-Library.State_Monad" "HOL-Library.Multiset" "HOL-Library.While_Combinator"
begin

text \<open>
  Shared vocabulary of the development: the machine-integer types the C++ code computes with, the
  C operators that HOL does not have under the same meaning (arithmetic shift right, truncating
  signed division, sign extension), the counted loop over a state, and the word lemmas every
  component uses.

  Conventions. A C++ \<open>uint32_t\<close> and the two's-complement bit pattern of an \<open>int32_t\<close>
  are both \<open>32 word\<close>; \<open>sint\<close> reads the signed value.
  Values of type \<open>uint8_t\<close> and \<open>uint16_t\<close> are kept zero-extended at 32 bits, which is what the
  integral promotions of C++ make of them in every expression of the modelled code.
\<close>

unbundle bit_operations_syntax

text \<open>Sizes and offsets of 1 stay the numeral \<open>1\<close>.\<close>
declare One_nat_def [simp del]

lemma take_bit_num_1 [simp]:
  "take_bit_num 1 num.One = Some num.One" "take_bit_num 1 (num.Bit0 n) = None"
  "take_bit_num 1 (num.Bit1 n) = Some num.One"
  by (simp_all add: One_nat_def)

type_synonym u8 = "8 word"
type_synonym u16 = "16 word"
type_synonym u32 = "32 word"

named_theorems core_simps \<open>rewriting of reads after writes on the guest core\<close>
named_theorems footprint \<open>introduction rules for what a computation may write\<close>

section \<open>C operators on 32-bit words\<close>

text \<open>\<open>(int32_t)x >> n\<close>\<close>
abbreviation sar :: "nat \<Rightarrow> u32 \<Rightarrow> u32" where
  "sar n x \<equiv> signed_drop_bit n x"

text \<open>\<open>x << n\<close> and \<open>x >> n\<close> on \<open>uint32_t\<close>\<close>
abbreviation shl :: "u32 \<Rightarrow> nat \<Rightarrow> u32" where
  "shl x n \<equiv> push_bit n x"

abbreviation shr :: "u32 \<Rightarrow> nat \<Rightarrow> u32" where
  "shr x n \<equiv> drop_bit n x"

text \<open>\<open>(uint8_t)x\<close>, \<open>(uint16_t)x\<close>, \<open>(int8_t)x\<close> and \<open>(int16_t)x\<close> as 32-bit values\<close>
definition as_u8 :: "u32 \<Rightarrow> u32" where
  "as_u8 x = x AND 0xFF"

definition as_u16 :: "u32 \<Rightarrow> u32" where
  "as_u16 x = x AND 0xFFFF"

definition as_s8 :: "u32 \<Rightarrow> u32" where
  "as_s8 x = scast (ucast x :: u8)"

definition as_s16 :: "u32 \<Rightarrow> u32" where
  "as_s16 x = scast (ucast x :: u16)"

text \<open>The truncating quotient of two signed values, for a non-zero divisor.\<close>
definition cdiv :: "int \<Rightarrow> int \<Rightarrow> int" where
  "cdiv a b = sgn a * sgn b * (\<bar>a\<bar> div \<bar>b\<bar>)"

text \<open>\<open>a / b\<close> on \<open>int32_t\<close>, for a non-zero divisor\<close>
definition sdiv :: "u32 \<Rightarrow> u32 \<Rightarrow> u32" where
  "sdiv a b = word_of_int (cdiv (sint a) (sint b))"

text \<open>\<open>a % b\<close> on \<open>int32_t\<close>: what the truncated quotient leaves\<close>
definition srem :: "u32 \<Rightarrow> u32 \<Rightarrow> u32" where
  "srem a b = a - sdiv a b * b"

section \<open>Loops over a state\<close>

text \<open>\<open>for (x : xs) f(x)\<close>\<close>
fun for_each :: "'x list \<Rightarrow> ('x \<Rightarrow> ('c, unit) state) \<Rightarrow> ('c, unit) state" where
  "for_each [] f = State_Monad.return ()"
| "for_each (x # xs) f = do { f x; for_each xs f }"

text \<open>The same loop with the locals it updates.\<close>
fun fold_each :: "'x list \<Rightarrow> 'a \<Rightarrow> ('x \<Rightarrow> 'a \<Rightarrow> ('c, 'a) state) \<Rightarrow> ('c, 'a) state" where
  "fold_each [] a f = State_Monad.return a"
| "fold_each (x # xs) a f = do { b \<leftarrow> f x a; fold_each xs b f }"

text \<open>The same loop when its body may leave it: \<open>Inl\<close> leaves, \<open>Inr\<close> goes on.\<close>
fun each_until ::
  "'x list \<Rightarrow> 'a \<Rightarrow> ('x \<Rightarrow> 'a \<Rightarrow> ('c, 'r + 'a) state) \<Rightarrow> ('c, 'r + 'a) state" where
  "each_until [] a f = State_Monad.return (Inr a)"
| "each_until (x # xs) a f = do {
     r \<leftarrow> f x a;
     (case r of Inl e \<Rightarrow> State_Monad.return (Inl e) | Inr b \<Rightarrow> each_until xs b f)
   }"

text \<open>The locals after a loop left by \<open>break\<close> or at its end.\<close>
definition loop_value :: "'a + 'a \<Rightarrow> 'a" where
  "loop_value r = (case r of Inl a \<Rightarrow> a | Inr a \<Rightarrow> a)"

text \<open>A \<open>while\<close>, a \<open>do\<close>, a \<open>for\<close> whose bound is not a number of the source, and the jumps backwards of a
  \<open>goto\<close>: the body is run on the locals it updates until it answers \<open>Inl\<close>. \<open>loop_run\<close> is \<open>None\<close> for a loop
  that does not return; \<open>loop\<close> is its outcome, about which nothing is known in that case.\<close>
partial_function (option) loop_run ::
  "('a \<Rightarrow> ('c, 'r + 'a) state) \<Rightarrow> 'a \<Rightarrow> 'c \<Rightarrow> ('r \<times> 'c) option" where
  "loop_run f a c =
     (case run_state (f a) c of
        (Inl r, d) \<Rightarrow> Some (r, d)
      | (Inr b, d) \<Rightarrow> loop_run f b d)"

definition loop :: "('a \<Rightarrow> ('c, 'r + 'a) state) \<Rightarrow> 'a \<Rightarrow> ('c, 'r) state" where
  "loop f a = State (\<lambda>c. the (loop_run f a c))"

text \<open>What follows \<open>abort()\<close>: the process has ended, and nothing is known of a state after it.\<close>
definition or_abort :: "('c, bool) state \<Rightarrow> ('c, unit) state" where
  "or_abort m = State (\<lambda>c. case run_state m c of (True, d) \<Rightarrow> ((), d) | (False, d) \<Rightarrow> the None)"

text \<open>The values of \<open>for (uint32_t i = 0; i < n; i++)\<close>.\<close>
definition upto_u32 :: "nat \<Rightarrow> u32 list" where
  "upto_u32 n = map of_nat [0..<n]"

definition only_if :: "bool \<Rightarrow> ('c, unit) state \<Rightarrow> ('c, unit) state" where
  "only_if b m = (if b then m else State_Monad.return ())"

abbreviation exec :: "('c, 'a) state \<Rightarrow> 'c \<Rightarrow> 'c" where
  "exec m c \<equiv> snd (run_state m c)"

abbreviation result :: "('c, 'a) state \<Rightarrow> 'c \<Rightarrow> 'a" where
  "result m c \<equiv> fst (run_state m c)"

lemma run_only_if [simp]:
  "run_state (only_if b m) c = (if b then run_state m c else ((), c))"
  by (simp add: only_if_def)

lemma exec_bind: "exec (Monad_Syntax.bind m f) c = exec (f (result m c)) (exec m c)"
  by (simp add: split_beta)

lemma exec_for_each_Cons:
  "exec (for_each (x # xs) f) c = exec (for_each xs f) (exec (f x) c)"
  by (simp add: split_beta)

lemma exec_for_each_append:
  "exec (for_each (xs @ ys) f) c = exec (for_each ys f) (exec (for_each xs f) c)"
  by (induction xs arbitrary: c) (simp_all add: split_beta)

lemma unit_state_eq: "(run_state (m :: ('c, unit) state) c = (u, c')) = (exec m c = c')"
  by (cases "run_state m c") auto

text \<open>A loop keeps what its body keeps.\<close>
lemma for_each_invariant:
  assumes "\<And>x c. x \<in> set xs \<Longrightarrow> P c \<Longrightarrow> P (exec (f x) c)" and "P c"
  shows "P (exec (for_each xs f) c)"
  using assms by (induction xs arbitrary: c) (auto simp: split_beta)

lemma loop_run_leave:
  "run_state (f a) c = (Inl r, d) \<Longrightarrow> loop_run f a c = Some (r, d)"
  by (simp add: loop_run.simps [of f a c])

lemma loop_run_again:
  "run_state (f a) c = (Inr b, d) \<Longrightarrow> loop_run f a c = loop_run f b d"
  by (simp add: loop_run.simps [of f a c])

lemma run_loop: "loop_run f a c = Some (r, d) \<Longrightarrow> run_state (loop f a) c = (r, d)"
  by (simp add: loop_def)

text \<open>A loop whose every further turn lowers a rank returns, and keeps what its turns keep.\<close>
lemma loop_returns:
  assumes turn: "\<And>a c. P a c \<Longrightarrow> case run_state (f a) c of
      (Inl r, d) \<Rightarrow> Q r d | (Inr b, d) \<Rightarrow> P b d \<and> rank b d < (rank a c :: nat)"
    and "P a c"
  shows "\<exists>r d. loop_run f a c = Some (r, d) \<and> Q r d"
  using assms(2)
proof (induction "rank a c" arbitrary: a c rule: less_induct)
  case less
  obtain o1 d where o1: "run_state (f a) c = (o1, d)" by (cases "run_state (f a) c")
  show ?case
  proof (cases o1)
    case (Inl r)
    then show ?thesis using turn [OF less.prems] o1 by (simp add: loop_run_leave)
  next
    case (Inr b)
    then have "P b d" "rank b d < rank a c" using turn [OF less.prems] o1 by simp_all
    then show ?thesis using less.hyps [of b d] o1 Inr by (simp add: loop_run_again)
  qed
qed

lemma set_upto_u32: "n \<le> 2 ^ 32 \<Longrightarrow> set (upto_u32 n) = {i. unat i < n}"
proof -
  assume n: "n \<le> 2 ^ 32"
  have "i \<in> of_nat ` {0..<n}" if "unat i < n" for i :: u32
    using that by (intro image_eqI [of _ _ "unat i"]) auto
  then show ?thesis
    using n by (auto simp: upto_u32_def unat_of_nat)
qed

lemma length_upto_u32 [simp]: "length (upto_u32 n) = n"
  by (simp add: upto_u32_def)

lemma upto_u32_Suc: "upto_u32 (Suc n) = upto_u32 n @ [of_nat n]"
  by (simp add: upto_u32_def)

section \<open>Words\<close>

lemma word_cat_16_split:
  "(word_cat (ucast (drop_bit 8 v) :: u8) (ucast v :: u8) :: u16) = v"
  by (rule bit_word_eqI) (auto simp: bit_simps)

lemma word_cat_32_split:
  "(word_cat (ucast (drop_bit 16 v) :: u16) (ucast v :: u16) :: u32) = v"
  by (rule bit_word_eqI) (auto simp: bit_simps)

lemma word_cat_bytes:
  "(word_cat (word_cat (ucast (drop_bit 24 v) :: u8) (ucast (drop_bit 16 v) :: u8) :: u16)
     (word_cat (ucast (drop_bit 8 v) :: u8) (ucast v :: u8) :: u16) :: u32) = v"
  by (rule bit_word_eqI) (auto simp: bit_simps)

lemma ucast_u8_u32 [simp]: "(ucast (ucast (x::u8) :: u32) :: u8) = x"
  by (rule bit_word_eqI) (auto simp: bit_simps)

lemma ucast_u16_u32 [simp]: "(ucast (ucast (x::u16) :: u32) :: u16) = x"
  by (rule bit_word_eqI) (auto simp: bit_simps)

lemma ucast_down_up_u8: "(ucast (ucast (x::u32) :: u8) :: u32) = x AND 0xFF"
proof -
  have "(0xFF :: u32) = mask 8" by (simp add: mask_eq_exp_minus_1)
  then show ?thesis
    by (simp only: take_bit_eq_mask [symmetric]) (rule bit_word_eqI, auto simp: bit_simps)
qed

lemma ucast_down_up_u16: "(ucast (ucast (x::u32) :: u16) :: u32) = x AND 0xFFFF"
proof -
  have "(0xFFFF :: u32) = mask 16" by (simp add: mask_eq_exp_minus_1)
  then show ?thesis
    by (simp only: take_bit_eq_mask [symmetric]) (rule bit_word_eqI, auto simp: bit_simps)
qed

lemma unat_ucast_u8 [simp]: "unat (ucast (x::u8) :: u32) = unat x"
proof -
  have "uint (ucast x :: u32) = uint x"
    by (rule uint_up_ucast) (simp add: is_up)
  then show ?thesis by (metis nat_uint_eq)
qed

lemma unat_ucast_u16 [simp]: "unat (ucast (x::u16) :: u32) = unat x"
proof -
  have "uint (ucast x :: u32) = uint x"
    by (rule uint_up_ucast) (simp add: is_up)
  then show ?thesis by (metis nat_uint_eq)
qed

section \<open>Signed and unsigned readings\<close>

lemma unat_and_mask: "unat (x AND mask n :: 'a::len word) = unat x mod 2 ^ n"
  by (simp only: take_bit_eq_mask [symmetric] unsigned_take_bit_eq) (simp add: take_bit_eq_mod)

lemma mask_numerals:
  "(31 :: u32) = mask 5" "(0xFF :: u32) = mask 8" "(0xFFF :: u32) = mask 12"
  "(0x7FFF :: u32) = mask 15" "(0xFFFF :: u32) = mask 16"
  by (simp_all add: mask_eq_exp_minus_1)

lemma unat_mask5: "unat (x AND 31 :: u32) = unat x mod 32"
  by (simp only: mask_numerals unat_and_mask) simp

lemma unat_mask8: "unat (x AND 0xFF :: u32) = unat x mod 256"
  by (simp only: mask_numerals unat_and_mask) simp

lemma unat_mask12: "unat (x AND 0xFFF :: u32) = unat x mod 4096"
  by (simp only: mask_numerals unat_and_mask) simp

lemma unat_mask15: "unat (x AND 0x7FFF :: u32) = unat x mod 32768"
  by (simp only: mask_numerals unat_and_mask) simp

lemma unat_mask16: "unat (x AND 0xFFFF :: u32) = unat x mod 65536"
  by (simp only: mask_numerals unat_and_mask) simp

lemma unat_shr: "unat (drop_bit n (w :: 'a::len word)) = unat w div 2 ^ n"
  by (simp only: unat_drop_bit_eq) (simp only: drop_bit_eq_div)

lemma sint_mult_small:
  assumes "- (2 ^ 31) \<le> sint (a::u32) * sint (b::u32)" "sint a * sint b < 2 ^ 31"
  shows "sint (a * b) = sint a * sint b"
  using assms by (simp add: sint_word_ariths signed_take_bit_int_eq_self)

lemma sint_add_small:
  assumes "- (2 ^ 31) \<le> sint (a::u32) + sint (b::u32)" "sint a + sint b < 2 ^ 31"
  shows "sint (a + b) = sint a + sint b"
  using assms by (simp add: sint_word_ariths signed_take_bit_int_eq_self)

lemma sint_sub_small:
  assumes "- (2 ^ 31) \<le> sint (a::u32) - sint (b::u32)" "sint a - sint b < 2 ^ 31"
  shows "sint (a - b) = sint a - sint b"
  using assms by (simp add: sint_word_ariths signed_take_bit_int_eq_self)

lemma sint_range32: "- (2 ^ 31) \<le> sint (a::u32)" "sint a < 2 ^ 31"
  using sint_greater_eq [of a] sint_less [of a] by simp_all

lemma sint_eq_unat: "unat (a::u32) < 2 ^ 31 \<Longrightarrow> sint a = int (unat a)"
proof -
  assume "unat a < 2 ^ 31"
  then have "int (unat a) < int (2 ^ 31)" by (simp only: of_nat_less_iff)
  then have "uint a < 2 ^ 31" and "- (2 ^ 31) \<le> uint a"
    using order_trans [OF _ uint_ge_0 [of a], of "- (2 ^ 31)"] by simp_all
  then show ?thesis by (simp add: sint_uint signed_take_bit_int_eq_self)
qed

lemma sint_sar: "sint (sar n x) = sint x div 2 ^ n"
  by (simp add: sint_signed_drop_bit_eq drop_bit_eq_div)

lemma sint_word_of_int_small: "- (2 ^ 31) \<le> k \<Longrightarrow> k < 2 ^ 31 \<Longrightarrow> sint (word_of_int k :: u32) = k"
  by (simp add: sint_sbintrunc' signed_take_bit_int_eq_self)

lemma cdiv_nonneg: "0 \<le> a \<Longrightarrow> 0 < b \<Longrightarrow> cdiv a b = a div b"
  by (cases "a = 0") (auto simp: cdiv_def)

lemma shl_small: "unat (w::u32) * 2 ^ n < 2 ^ 32 \<Longrightarrow> unat (shl w n) = unat w * 2 ^ n"
  by (simp only: unsigned_push_bit_eq) (simp add: push_bit_eq_mult take_bit_nat_eq_self_iff)

lemma sless_unat:
  "unat (x :: u32) < 2 ^ 31 \<Longrightarrow> unat y < 2 ^ 31 \<Longrightarrow> (x <s y) = (unat x < unat y)"
  using sint_eq_unat [of x] sint_eq_unat [of y]
  by (simp only: word_sless_alt of_nat_less_iff)

lemma sless_zero: "(x <s (0 :: u32)) = (\<not> unat x < 2 ^ 31)"
proof (cases "unat x < 2 ^ 31")
  case True
  then show ?thesis using sless_unat [of x 0] by simp
next
  case False
  have "sint x = uint x - 2 ^ 32"
  proof -
    have "int (2 ^ 31) \<le> int (unat x)" using False by (simp only: of_nat_le_iff not_less)
    then have "2 ^ 31 \<le> uint x" by simp
    moreover have "uint x < 2 ^ 32" using uint_lt2p [of x] by simp
    moreover from calculation have "uint x div 2 ^ 31 = 1" by simp
    ultimately show ?thesis
      by (simp add: sint_uint signed_take_bit_eq_take_bit_minus bit_iff_odd take_bit_int_eq_self)
  qed
  moreover have "uint x < 2 ^ 32" using uint_lt2p [of x] by simp
  ultimately show ?thesis using False by (simp add: word_sless_alt)
qed

text \<open>The signed reading of a halfword, and of its sign extension.\<close>
lemma sint_u16: "sint (w :: u16) = (if unat w < 0x8000 then int (unat w) else int (unat w) - 0x10000)"
proof -
  have w: "0 \<le> uint w" "uint w < 0x10000" using uint_lt2p [of w] by simp_all
  have small: "(unat w < 0x8000) = (uint w < 0x8000)"
    using of_nat_less_iff [of "unat w" "0x8000", where 'a = int] by simp
  show ?thesis
  proof (cases "uint w < 0x8000")
    case True
    have "- 0x8000 \<le> uint w" using w(1) by (rule order_trans [rotated]) simp
    then have "sint w = uint w"
      using True by (simp add: sint_uint signed_take_bit_int_eq_self)
    then show ?thesis using True by (simp add: small)
  next
    case False
    then have "uint w div 2 ^ 15 = 1" using w by simp
    then have "sint w = uint w - 0x10000"
      using w by (simp add: sint_uint signed_take_bit_eq_take_bit_minus bit_iff_odd take_bit_int_eq_self)
    then show ?thesis using False by (simp add: small)
  qed
qed

lemma scast_u16_negative: "((scast (w :: u16) :: u32) <s 0) = (\<not> unat w < 0x8000)"
  using uint_lt2p [of w] by (simp add: word_sless_alt sint_u16 sint_up_scast is_up)

lemma sint_scast_u16 [simp]: "sint (scast (w :: u16) :: u32) = sint w"
  by (rule sint_up_scast) (simp add: is_up)

lemma bit_extract: "(drop_bit n w AND 1) = (of_bool (bit w n) :: u32)"
  by (simp add: and_one_eq mod_2_eq_odd bit_iff_odd_drop_bit)

section \<open>Truncation\<close>

lemma take_bit_plus_narrow:
  "m \<le> n \<Longrightarrow> take_bit m (take_bit n x + take_bit n y) = take_bit m (x + y :: int)"
  using take_bit_add [of m "take_bit n x" "take_bit n y"] take_bit_add [of m x y]
  by (simp add: min_def)

lemma ucast_plus_u8: "(ucast (x + y :: u32) :: u8) = ucast x + ucast y"
  by transfer (simp add: take_bit_plus_narrow take_bit_add)

lemma ucast_minus_u8: "(ucast (x - y :: u32) :: u8) = ucast x - ucast y"
  using ucast_plus_u8 [of "x - y" y] by (simp add: eq_diff_eq)

lemma ucast_plus_u16: "(ucast (x + y :: u32) :: u16) = ucast x + ucast y"
  by transfer (simp add: take_bit_plus_narrow take_bit_add)

lemma ucast_minus_u16: "(ucast (x - y :: u32) :: u16) = ucast x - ucast y"
  using ucast_plus_u16 [of "x - y" y] by (simp add: eq_diff_eq)

lemma ucast_u8_mask: "(ucast (x AND 0xFF :: u32) :: u8) = ucast x"
  by (simp only: mask_numerals) (rule bit_word_eqI, auto simp: bit_simps)

lemma ucast_u16_mask: "(ucast (x AND 0xFFFF :: u32) :: u16) = ucast x"
  by (simp only: mask_numerals) (rule bit_word_eqI, auto simp: bit_simps)

lemma ucast_u8_zero [simp]: "((ucast (x :: u8) :: u32) = 0) = (x = 0)"
  by (metis unat_ucast_u8 unat_eq_zero)

lemma ucast_u16_zero [simp]: "((ucast (x :: u16) :: u32) = 0) = (x = 0)"
  by (metis unat_ucast_u16 unat_eq_zero)

lemma ucast_u8_eq: "((ucast (x :: u8) :: u32) = ucast y) = (x = y)"
  by (metis ucast_u8_u32)

lemma ucast_u8_less: "((ucast (x :: u8) :: u32) < ucast y) = (x < y)"
  by (simp add: word_less_nat_alt)

lemma unat_u8_less [simp]: "unat (x :: u8) < 256"
  using unsigned_less [of x] by simp

lemma unat_u16_less [simp]: "unat (x :: u16) < 65536"
  using unsigned_less [of x] by simp

lemma u8_row: "unat (ucast (x :: u8) :: u32) < 256"
  by simp

lemma unat_u32_less: "unat (x :: u32) < 2 ^ 32"
  using unsigned_less [of x] by simp

lemma unat_minus_1 [simp]: "unat (- 1 :: u32) = 0xFFFFFFFF"
proof -
  have "(- 1 :: u32) = 0xFFFFFFFF" by simp
  then show ?thesis by (simp only:) simp
qed

section \<open>Small indices\<close>

lemma below_three: "l < (3 :: nat) \<Longrightarrow> l = 0 \<or> l = 1 \<or> l = 2"
  and below_five: "k < (5 :: nat) \<Longrightarrow> k = 0 \<or> k = 1 \<or> k = 2 \<or> k = 3 \<or> k = 4"
  by linarith+

end
