(* ===== verification/GuestCore.thy ===== *)
theory GuestCore
  imports Prelude
begin

text \<open>
  The machine every component works on. The class \<open>Core\<close> (guest memory, register file, dispatch
  into translated guest code) belongs to the shared runtime, whose source is not part of this
  repository: it is a parameter \<open>K\<close> of every definition that touches guest state, a record of the
  accessors the code calls, together with the runtime's entry points for guest code
  (\<open>dispatchGuestToReturn0\<close>, \<open>callGuestNowResult\<close>), its scoped guest stack frame \<open>GuestFrame\<close> and
  its multiply and divide, its \<open>break\<close> trap, its geometry coprocessor (GTE) and the margin of the host's display plan; \<open>GuestReg<n>\<close>, the runtime's proxy of one register, is that register. What the code relies on is the locale \<open>guest_core\<close>: a byte-addressed,
  little-endian store over main RAM and the scratchpad, and a register file independent of it.

  From these laws the theory derives the read-after-write rules that carry the component proofs
  (collection \<open>core_simps\<close>), and the footprint calculus \<open>writes_within\<close>: which bytes a
  computation may change (collection \<open>footprint\<close>).
\<close>

section \<open>The accessors the code calls\<close>

record 'c core_ops =
  mem_r8 :: "'c \<Rightarrow> u32 \<Rightarrow> u8"
  mem_r16 :: "'c \<Rightarrow> u32 \<Rightarrow> u16"
  mem_r32 :: "'c \<Rightarrow> u32 \<Rightarrow> u32"
  mem_w8 :: "'c \<Rightarrow> u32 \<Rightarrow> u8 \<Rightarrow> 'c"
  mem_w16 :: "'c \<Rightarrow> u32 \<Rightarrow> u16 \<Rightarrow> 'c"
  mem_w32 :: "'c \<Rightarrow> u32 \<Rightarrow> u32 \<Rightarrow> 'c"
  get_reg :: "'c \<Rightarrow> nat \<Rightarrow> u32"
  set_reg :: "'c \<Rightarrow> nat \<Rightarrow> u32 \<Rightarrow> 'c"
  dispatch :: "'c \<Rightarrow> u32 \<Rightarrow> 'c"
  call_now :: "'c \<Rightarrow> u32 \<Rightarrow> u32 list \<Rightarrow> u32 \<times> 'c"
  frame_enter :: "'c \<Rightarrow> u32 \<Rightarrow> (nat \<times> u32) list \<Rightarrow> 'c"
  frame_leave :: "'c \<Rightarrow> u32 \<Rightarrow> (nat \<times> u32) list \<Rightarrow> 'c"
  cpu_multiply :: "'c \<Rightarrow> u32 \<Rightarrow> u32 \<Rightarrow> 64 word \<times> 'c"
  cpu_divide :: "'c \<Rightarrow> bool \<Rightarrow> u32 \<Rightarrow> u32 \<Rightarrow> 'c"
  cpu_break :: "'c \<Rightarrow> u32 \<Rightarrow> 'c"
  gte_get_data :: "'c \<Rightarrow> u32 \<Rightarrow> u32"
  gte_put_data :: "'c \<Rightarrow> u32 \<Rightarrow> u32 \<Rightarrow> 'c"
  gte_get_control :: "'c \<Rightarrow> u32 \<Rightarrow> u32"
  gte_put_control :: "'c \<Rightarrow> u32 \<Rightarrow> u32 \<Rightarrow> 'c"
  gte_execute :: "'c \<Rightarrow> u32 \<Rightarrow> 'c"
  gte_code :: "string \<Rightarrow> u32"
  store_gte_xy :: "'c \<Rightarrow> u32 \<Rightarrow> u32 \<Rightarrow> 'c"
  set_redirect :: "'c \<Rightarrow> u32 \<Rightarrow> 'c"
  display_margin :: "'c \<Rightarrow> u32"
  native_call :: "'c \<Rightarrow> u32 \<Rightarrow> bool \<times> 'c"

text \<open>The accessors as computations; narrow values come zero-extended and are stored truncated.\<close>

definition r8 :: "'c core_ops \<Rightarrow> u32 \<Rightarrow> ('c, u32) state" where
  "r8 K a = State (\<lambda>c. (ucast (mem_r8 K c a), c))"

definition r16 :: "'c core_ops \<Rightarrow> u32 \<Rightarrow> ('c, u32) state" where
  "r16 K a = State (\<lambda>c. (ucast (mem_r16 K c a), c))"

definition r32 :: "'c core_ops \<Rightarrow> u32 \<Rightarrow> ('c, u32) state" where
  "r32 K a = State (\<lambda>c. (mem_r32 K c a, c))"

definition r8s :: "'c core_ops \<Rightarrow> u32 \<Rightarrow> ('c, u32) state" where
  "r8s K a = State (\<lambda>c. (scast (mem_r8 K c a), c))"

definition r16s :: "'c core_ops \<Rightarrow> u32 \<Rightarrow> ('c, u32) state" where
  "r16s K a = State (\<lambda>c. (scast (mem_r16 K c a), c))"

definition w8 :: "'c core_ops \<Rightarrow> u32 \<Rightarrow> u32 \<Rightarrow> ('c, unit) state" where
  "w8 K a v = State (\<lambda>c. ((), mem_w8 K c a (ucast v)))"

definition w16 :: "'c core_ops \<Rightarrow> u32 \<Rightarrow> u32 \<Rightarrow> ('c, unit) state" where
  "w16 K a v = State (\<lambda>c. ((), mem_w16 K c a (ucast v)))"

definition w32 :: "'c core_ops \<Rightarrow> u32 \<Rightarrow> u32 \<Rightarrow> ('c, unit) state" where
  "w32 K a v = State (\<lambda>c. ((), mem_w32 K c a v))"

definition reg :: "'c core_ops \<Rightarrow> nat \<Rightarrow> ('c, u32) state" where
  "reg K i = State (\<lambda>c. (get_reg K c i, c))"

definition setr :: "'c core_ops \<Rightarrow> nat \<Rightarrow> u32 \<Rightarrow> ('c, unit) state" where
  "setr K i v = State (\<lambda>c. ((), set_reg K c i v))"

definition call_guest :: "'c core_ops \<Rightarrow> u32 \<Rightarrow> ('c, unit) state" where
  "call_guest K a = State (\<lambda>c. ((), dispatch K c a))"

text \<open>\<open>psx::cpu::callGuestNowResult(core, owner, address, arguments...)\<close>\<close>
definition guest_call :: "'c core_ops \<Rightarrow> u32 \<Rightarrow> u32 list \<Rightarrow> ('c, u32) state" where
  "guest_call K a args = State (\<lambda>c. call_now K c a args)"

text \<open>\<open>guest::dispatchJalToReturn\<close> of \<open>guest_jal.h\<close>: a guest \<open>jal\<close> with the return address its call
  site leaves.\<close>
definition dispatch_jal :: "'c core_ops \<Rightarrow> u32 \<Rightarrow> u32 \<Rightarrow> u32 list \<Rightarrow> ('c, u32) state" where
  "dispatch_jal K target returnAddress args = do {
     setr K 31 returnAddress;
     guest_call K target args
   }"

text \<open>\<open>psx::cpu::multiply\<close> (the 64-bit product, and HI and LO), \<open>psx::cpu::divide\<close> and
  \<open>divideUnsigned\<close> (HI and LO). In the register file HI is entry 32 and LO entry 33.\<close>
definition guest_multiply :: "'c core_ops \<Rightarrow> u32 \<Rightarrow> u32 \<Rightarrow> ('c, 64 word) state" where
  "guest_multiply K a b = State (\<lambda>c. cpu_multiply K c a b)"

definition guest_divide :: "'c core_ops \<Rightarrow> bool \<Rightarrow> u32 \<Rightarrow> u32 \<Rightarrow> ('c, unit) state" where
  "guest_divide K sgd a b = State (\<lambda>c. ((), cpu_divide K c sgd a b))"

definition guest_break :: "'c core_ops \<Rightarrow> u32 \<Rightarrow> ('c, unit) state" where
  "guest_break K code = State (\<lambda>c. ((), cpu_break K c code))"

text \<open>The coprocessor \<open>core.gte()\<close>: its data and control registers and its commands. \<open>gte_code K name\<close>
  is the register number or command word the runtime calls \<open>psx::gte::name\<close>.\<close>
definition gte_data :: "'c core_ops \<Rightarrow> u32 \<Rightarrow> ('c, u32) state" where
  "gte_data K i = State (\<lambda>c. (gte_get_data K c i, c))"

definition gte_set_data :: "'c core_ops \<Rightarrow> u32 \<Rightarrow> u32 \<Rightarrow> ('c, unit) state" where
  "gte_set_data K i v = State (\<lambda>c. ((), gte_put_data K c i v))"

definition gte_control :: "'c core_ops \<Rightarrow> u32 \<Rightarrow> ('c, u32) state" where
  "gte_control K i = State (\<lambda>c. (gte_get_control K c i, c))"

definition gte_set_control :: "'c core_ops \<Rightarrow> u32 \<Rightarrow> u32 \<Rightarrow> ('c, unit) state" where
  "gte_set_control K i v = State (\<lambda>c. ((), gte_put_control K c i v))"

definition gte_run :: "'c core_ops \<Rightarrow> u32 \<Rightarrow> ('c, unit) state" where
  "gte_run K command = State (\<lambda>c. ((), gte_execute K c command))"

text \<open>\<open>EmitMemory::storeGteXy\<close>: a screen coordinate of the coprocessor goes to memory.
  \<open>requestGuestContinuation\<close> leaves the address at which the task loop resumes guest code.\<close>
definition gte_store_xy :: "'c core_ops \<Rightarrow> u32 \<Rightarrow> u32 \<Rightarrow> ('c, unit) state" where
  "gte_store_xy K a i = State (\<lambda>c. ((), store_gte_xy K c a i))"

definition request_guest_continuation :: "'c core_ops \<Rightarrow> u32 \<Rightarrow> ('c, unit) state" where
  "request_guest_continuation K address = State (\<lambda>c. ((), set_redirect K c address))"

text \<open>The lookup of a native behaviour by the address of its guest body, run when there is one.
  Handlers reach other handlers through it, so its table can only be built over all of them: the
  code below the table takes it from \<open>K\<close>, and \<open>BehaviorTable\<close> builds it.\<close>
definition native_behavior :: "'c core_ops \<Rightarrow> u32 \<Rightarrow> ('c, bool) state" where
  "native_behavior K handler = State (\<lambda>c. native_call K c handler)"

text \<open>\<open>GuestFrame<size, n> frame(c, spills)\<close>, the runtime's scoped guest stack frame: the frame is
  entered before the body and left after it, on every path. A spill is a register and its slot.\<close>
definition with_frame ::
  "'c core_ops \<Rightarrow> u32 \<Rightarrow> (nat \<times> u32) list \<Rightarrow> ('c, 'a) state \<Rightarrow> ('c, 'a) state" where
  "with_frame K n spills body = do {
     State (\<lambda>c. ((), frame_enter K c n spills));
     x \<leftarrow> body;
     State (\<lambda>c. ((), frame_leave K c n spills));
     State_Monad.return x
   }"

lemma run_core [simp]:
  "run_state (r8 K a) c = (ucast (mem_r8 K c a), c)"
  "run_state (r16 K a) c = (ucast (mem_r16 K c a), c)"
  "run_state (r32 K a) c = (mem_r32 K c a, c)"
  "run_state (r8s K a) c = (scast (mem_r8 K c a), c)"
  "run_state (r16s K a) c = (scast (mem_r16 K c a), c)"
  "run_state (w8 K a v) c = ((), mem_w8 K c a (ucast v))"
  "run_state (w16 K a v) c = ((), mem_w16 K c a (ucast v))"
  "run_state (w32 K a v) c = ((), mem_w32 K c a v)"
  "run_state (reg K i) c = (get_reg K c i, c)"
  "run_state (setr K i v) c = ((), set_reg K c i v)"
  "run_state (call_guest K a) c = ((), dispatch K c a)"
  "run_state (guest_call K a args) c = call_now K c a args"
  "run_state (guest_multiply K v w) c = cpu_multiply K c v w"
  "run_state (guest_divide K sgd v w) c = ((), cpu_divide K c sgd v w)"
  "run_state (guest_break K v) c = ((), cpu_break K c v)"
  "run_state (gte_data K v) c = (gte_get_data K c v, c)"
  "run_state (gte_set_data K v w) c = ((), gte_put_data K c v w)"
  "run_state (gte_control K v) c = (gte_get_control K c v, c)"
  "run_state (gte_set_control K v w) c = ((), gte_put_control K c v w)"
  "run_state (gte_run K v) c = ((), gte_execute K c v)"
  "run_state (gte_store_xy K a v) c = ((), store_gte_xy K c a v)"
  "run_state (request_guest_continuation K a) c = ((), set_redirect K c a)"
  "run_state (native_behavior K a) c = native_call K c a"
  by (simp_all add: gte_store_xy_def request_guest_continuation_def native_behavior_def guest_multiply_def guest_divide_def guest_break_def gte_data_def gte_set_data_def
      gte_control_def gte_set_control_def gte_run_def r8_def r16_def r32_def r8s_def r16s_def w8_def w16_def w32_def reg_def
      setr_def call_guest_def guest_call_def)

lemma exec_with_frame:
  "exec (with_frame K n s m) c = frame_leave K (exec m (frame_enter K c n s)) n s"
  "result (with_frame K n s m) c = result m (frame_enter K c n s)"
  by (simp_all add: with_frame_def split_beta)

section \<open>Addresses\<close>

text \<open>The \<open>n\<close> bytes from \<open>a\<close> lie in main RAM (2 MB) or in the scratchpad (1 KB).\<close>
definition in_ram :: "u32 \<Rightarrow> nat \<Rightarrow> bool" where
  "in_ram a n \<longleftrightarrow>
     0x80000000 \<le> unat a \<and> unat a + n \<le> 0x80200000 \<or>
     0x1F800000 \<le> unat a \<and> unat a + n \<le> 0x1F800400"

text \<open>The \<open>n\<close> bytes from \<open>a\<close> and the \<open>m\<close> bytes from \<open>b\<close> do not overlap (modulo \<open>2^32\<close>).\<close>
definition apart :: "u32 \<Rightarrow> nat \<Rightarrow> u32 \<Rightarrow> nat \<Rightarrow> bool" where
  "apart a n b m \<longleftrightarrow> n \<le> unat (b - a) \<and> m \<le> unat (a - b)"

text \<open>The set of the \<open>n\<close> byte addresses from \<open>a\<close>.\<close>
definition span :: "u32 \<Rightarrow> nat \<Rightarrow> u32 set" where
  "span a n = {b. unat (b - a) < n}"

lemma mem_span [simp]: "b \<in> span a n \<longleftrightarrow> unat (b - a) < n"
  by (simp add: span_def)

lemma unat_add_small: "unat (a :: u32) + unat b < 2 ^ 32 \<Longrightarrow> unat (a + b) = unat a + unat b"
  by (simp add: unat_word_ariths)

lemma in_ram_bound: "in_ram a n \<Longrightarrow> unat a + n \<le> 0x80200000"
  by (auto simp: in_ram_def)

lemma in_ram_offset:
  assumes "in_ram p n" and "unat off + m \<le> n"
  shows "in_ram (p + off) m"
proof -
  have "unat (p + off) = unat p + unat off"
    using assms in_ram_bound [OF assms(1)] by (intro unat_add_small) simp
  then show ?thesis
    using assms by (auto simp: in_ram_def)
qed

lemma in_ram_shorter: "in_ram p n \<Longrightarrow> m \<le> n \<Longrightarrow> in_ram p m"
  by (auto simp: in_ram_def)

lemma in_ram_span: "in_ram b m \<Longrightarrow> x \<in> span b m \<Longrightarrow> in_ram x 1"
  using in_ram_offset [of b m "x - b" 1] by (simp add: Suc_le_eq)

lemma offset_less_iff:
  "unat (a :: u32) + n \<le> 2 ^ 32 \<Longrightarrow> (unat (b - a) < n) = (unat a \<le> unat b \<and> unat b < unat a + n)"
  using unsigned_less [of b] by (auto simp: unat_sub_if')

lemma apart_sym: "apart a n b m \<Longrightarrow> apart b m a n"
  by (simp add: apart_def)

section \<open>The contract of the core\<close>

locale guest_core =
  fixes K :: "'c core_ops"
  assumes r8_w8: "in_ram a 1 \<Longrightarrow> in_ram b 1 \<Longrightarrow>
      mem_r8 K (mem_w8 K c a v) b = (if a = b then v else mem_r8 K c b)"
    and r16_bytes: "in_ram a 2 \<Longrightarrow> mem_r16 K c a = word_cat (mem_r8 K c (a + 1)) (mem_r8 K c a)"
    and r32_halves: "in_ram a 4 \<Longrightarrow> mem_r32 K c a = word_cat (mem_r16 K c (a + 2)) (mem_r16 K c a)"
    and r8_w16: "in_ram a 2 \<Longrightarrow> in_ram b 1 \<Longrightarrow>
      mem_r8 K (mem_w16 K c a h) b =
      (if b = a then ucast h else if b = a + 1 then ucast (drop_bit 8 h) else mem_r8 K c b)"
    and r8_w32: "in_ram a 4 \<Longrightarrow> in_ram b 1 \<Longrightarrow>
      mem_r8 K (mem_w32 K c a w) b =
      (if b = a then ucast w else if b = a + 1 then ucast (drop_bit 8 w)
       else if b = a + 2 then ucast (drop_bit 16 w) else if b = a + 3 then ucast (drop_bit 24 w)
       else mem_r8 K c b)"
    and r8_set_reg: "in_ram a 1 \<Longrightarrow> mem_r8 K (set_reg K c i w) a = mem_r8 K c a"
    and reg_set_reg: "get_reg K (set_reg K c i w) j = (if i = j then w else get_reg K c j)"
    and reg_w8: "get_reg K (mem_w8 K c a v) i = get_reg K c i"
    and reg_w16: "get_reg K (mem_w16 K c a h) i = get_reg K c i"
    and reg_w32: "get_reg K (mem_w32 K c a w) i = get_reg K c i"

section \<open>Read-after-write rules\<close>

lemma word_self_minus: "(p :: u32) - (p + b) = - b"
  by simp

lemma apart_neq:
  assumes "apart a n b m" "unat i < n" "unat j < m"
  shows "a + i \<noteq> b + j"
proof
  assume eq: "a + i = b + j"
  show False
  proof (cases "j \<le> i")
    case True
    have "b - a = i - j" using eq by (simp add: algebra_simps)
    then have "unat (b - a) \<le> unat i" using True by (simp add: unat_sub)
    then show False using assms by (simp add: apart_def)
  next
    case False
    have "a - b = j - i" using eq by (simp add: algebra_simps)
    then have "unat (a - b) \<le> unat j" using False by (simp add: unat_sub)
    then show False using assms by (simp add: apart_def)
  qed
qed

lemma apart_neqs:
  assumes "apart a n b m"
  shows "0 < n \<Longrightarrow> 0 < m \<Longrightarrow> a \<noteq> b"
    and "unat i < n \<Longrightarrow> 0 < m \<Longrightarrow> a + i \<noteq> b"
    and "0 < n \<Longrightarrow> unat j < m \<Longrightarrow> a \<noteq> b + j"
  using apart_neq [OF assms, of 0 0] apart_neq [OF assms, of i 0] apart_neq [OF assms, of 0 j]
  by simp_all

text \<open>The bytes of a wide access.\<close>
lemma in_ram_bytes:
  "in_ram a 2 \<Longrightarrow> in_ram a 1" "in_ram a 2 \<Longrightarrow> in_ram (a + 1) 1"
  "in_ram a 4 \<Longrightarrow> in_ram a 1" "in_ram a 4 \<Longrightarrow> in_ram (a + 1) 1"
  "in_ram a 4 \<Longrightarrow> in_ram (a + 2) 1" "in_ram a 4 \<Longrightarrow> in_ram (a + 3) 1"
  "in_ram a 4 \<Longrightarrow> in_ram a 2" "in_ram a 4 \<Longrightarrow> in_ram (a + 2) 2"
  by (simp_all add: in_ram_shorter in_ram_offset)

lemmas in_ram_parts = in_ram_bytes in_ram_bytes [simplified]

lemma apart_byte:
  assumes "apart a n b m" "x \<in> span b m" "0 < n"
  shows "apart a n x 1"
proof -
  let ?i = "x - b"
  have x: "x = b + ?i" and i: "unat ?i < m" using assms(2) by simp_all
  have "n \<le> unat (x - a)"
    using apart_neq [OF assms(1) _ i, of "x - a"] by (rule_tac ccontr) simp
  moreover have "a \<noteq> x"
    using apart_neq [OF assms(1) _ i, of 0] assms(3) by simp
  then have "1 \<le> unat (a - x)"
    by (simp add: One_nat_def Suc_le_eq unat_gt_0)
  ultimately show ?thesis by (simp add: apart_def)
qed

lemma apart_below:
  assumes "unat (a :: u32) + n \<le> unat b" "unat b + m \<le> 2 ^ 32" "0 < n" 
  shows "apart a n b m" "apart b m a n"
  using assms unsigned_less [of b] by (auto simp: apart_def unat_sub_if')

lemma apart_parts:
  assumes "apart a n b m" "unat i + k \<le> n" "unat j + l \<le> m" "0 < k" "0 < l"
  shows "apart (a + i) k (b + j) l"
proof -
  have far: "a + i + x \<noteq> b + j + y" if "unat x < k" "unat y < l" for x y
  proof -
    have "unat i + unat x < 2 ^ 32" "unat j + unat y < 2 ^ 32"
      using that assms(1-3) unat_u32_less [of "b - a"] unat_u32_less [of "a - b"]
      by (auto simp: apart_def)
    then have "unat (i + x) = unat i + unat x" "unat (j + y) = unat j + unat y"
      by (simp_all add: unat_add_small)
    then show ?thesis
      using apart_neq [OF assms(1), of "i + x" "j + y"] assms that by (simp add: add.assoc)
  qed
  show ?thesis unfolding apart_def
  proof (intro conjI; rule ccontr)
    assume "\<not> k \<le> unat ((b + j) - (a + i))"
    then show False using far [of "(b + j) - (a + i)" 0] assms(5) by simp
  next
    assume "\<not> l \<le> unat ((a + i) - (b + j))"
    then show False using far [of 0 "(a + i) - (b + j)"] assms(4) by simp
  qed
qed

lemma apart_same: "apart (n + i) k (n + j) l = apart i k j l"
  by (simp add: apart_def)

context guest_core
begin

lemma r8_w8_same: "in_ram a 1 \<Longrightarrow> mem_r8 K (mem_w8 K c a v) a = v"
  by (simp add: r8_w8)

lemma r16_w16_same: "in_ram a 2 \<Longrightarrow> mem_r16 K (mem_w16 K c a h) a = h"
  by (simp add: r16_bytes r8_w16 in_ram_parts word_cat_16_split)

lemma r16_high: "in_ram a 4 \<Longrightarrow>
    mem_r16 K c (a + 2) = word_cat (mem_r8 K c (a + 3)) (mem_r8 K c (a + 2))"
proof -
  assume a: "in_ram a 4"
  have "a + 2 + 1 = a + 3" by (simp only: add.assoc) simp
  then show ?thesis
    using r16_bytes [OF in_ram_bytes(8) [OF a], of c] by (simp only:)
qed

lemma r32_bytes: "in_ram a 4 \<Longrightarrow> mem_r32 K c a =
    word_cat (word_cat (mem_r8 K c (a + 3)) (mem_r8 K c (a + 2)) :: u16)
      (word_cat (mem_r8 K c (a + 1)) (mem_r8 K c a) :: u16)"
  using r32_halves [of a c] r16_high [of a c] r16_bytes [of a c] by (simp add: in_ram_parts)

lemma r32_w32_same: "in_ram a 4 \<Longrightarrow> mem_r32 K (mem_w32 K c a w) a = w"
  by (simp add: r32_bytes r8_w32 in_ram_parts word_cat_bytes)

text \<open>A read depends on its own bytes only.\<close>
lemma r16_cong:
  assumes "in_ram b 2" and "\<And>x. x \<in> span b 2 \<Longrightarrow> mem_r8 K c' x = mem_r8 K c x"
  shows "mem_r16 K c' b = mem_r16 K c b"
  using assms(1) assms(2) [of b] assms(2) [of "b + 1"] by (simp add: r16_bytes)

lemma r32_cong:
  assumes "in_ram b 4" and "\<And>x. x \<in> span b 4 \<Longrightarrow> mem_r8 K c' x = mem_r8 K c x"
  shows "mem_r32 K c' b = mem_r32 K c b"
proof -
  have "mem_r8 K c' (b + k) = mem_r8 K c (b + k)" if "unat k < 4" for k
    using that by (intro assms(2)) simp
  from this [of 0] this [of 1] this [of 2] this [of 3] show ?thesis
    using assms(1) by (simp add: r32_bytes)
qed

lemma r8_w8_apart: "apart a 1 b 1 \<Longrightarrow> in_ram a 1 \<Longrightarrow> in_ram b 1 \<Longrightarrow>
    mem_r8 K (mem_w8 K c a v) b = mem_r8 K c b"
  by (auto simp: r8_w8 dest: apart_neqs)

lemma r8_w16_apart: "apart a 2 b 1 \<Longrightarrow> in_ram a 2 \<Longrightarrow> in_ram b 1 \<Longrightarrow>
    mem_r8 K (mem_w16 K c a h) b = mem_r8 K c b"
  using apart_neqs(1) [of a 2 b 1] apart_neqs(2) [of a 2 b 1 1] by (auto simp: r8_w16)

lemma r8_w32_apart: "apart a 4 b 1 \<Longrightarrow> in_ram a 4 \<Longrightarrow> in_ram b 1 \<Longrightarrow>
    mem_r8 K (mem_w32 K c a w) b = mem_r8 K c b"
  using apart_neqs(1) [of a 4 b 1] apart_neqs(2) [of a 4 b 1 1] apart_neqs(2) [of a 4 b 1 2]
    apart_neqs(2) [of a 4 b 1 3]
  by (auto simp: r8_w32)

text \<open>Wide reads over writes elsewhere, and registers against memory.\<close>

lemma r16_apart:
  "apart a 1 b 2 \<Longrightarrow> in_ram a 1 \<Longrightarrow> in_ram b 2 \<Longrightarrow> mem_r16 K (mem_w8 K c a v) b = mem_r16 K c b"
  "apart a 2 b 2 \<Longrightarrow> in_ram a 2 \<Longrightarrow> in_ram b 2 \<Longrightarrow> mem_r16 K (mem_w16 K c a h) b = mem_r16 K c b"
  "apart a 4 b 2 \<Longrightarrow> in_ram a 4 \<Longrightarrow> in_ram b 2 \<Longrightarrow> mem_r16 K (mem_w32 K c a w) b = mem_r16 K c b"
  by (rule r16_cong, assumption,
      auto intro!: r8_w8_apart r8_w16_apart r8_w32_apart intro: apart_byte in_ram_span)+

lemma r32_apart:
  "apart a 1 b 4 \<Longrightarrow> in_ram a 1 \<Longrightarrow> in_ram b 4 \<Longrightarrow> mem_r32 K (mem_w8 K c a v) b = mem_r32 K c b"
  "apart a 2 b 4 \<Longrightarrow> in_ram a 2 \<Longrightarrow> in_ram b 4 \<Longrightarrow> mem_r32 K (mem_w16 K c a h) b = mem_r32 K c b"
  "apart a 4 b 4 \<Longrightarrow> in_ram a 4 \<Longrightarrow> in_ram b 4 \<Longrightarrow> mem_r32 K (mem_w32 K c a w) b = mem_r32 K c b"
  by (rule r32_cong, assumption,
      auto intro!: r8_w8_apart r8_w16_apart r8_w32_apart intro: apart_byte in_ram_span)+

lemma mem_set_reg:
  "in_ram a 1 \<Longrightarrow> mem_r8 K (set_reg K c i v) a = mem_r8 K c a"
  "in_ram a 2 \<Longrightarrow> mem_r16 K (set_reg K c i v) a = mem_r16 K c a"
  "in_ram a 4 \<Longrightarrow> mem_r32 K (set_reg K c i v) a = mem_r32 K c a"
  by (auto intro!: r16_cong r32_cong r8_set_reg in_ram_span)

lemmas read_write =
  r8_w8_same r16_w16_same r32_w32_same r8_w8_apart r8_w16_apart r8_w32_apart r16_apart r32_apart
  mem_set_reg reg_set_reg reg_w8 reg_w16 reg_w32

end

text \<open>A core whose coprocessor is apart from its memory and its register file.\<close>
locale guest_gte = guest_core +
  assumes r8_gte_data: "in_ram a 1 \<Longrightarrow> mem_r8 K (gte_put_data K c g v) a = mem_r8 K c a"
    and r8_gte_control: "in_ram a 1 \<Longrightarrow> mem_r8 K (gte_put_control K c g v) a = mem_r8 K c a"
    and control_gte_control: "gte_get_control K (gte_put_control K c g v) h =
      (if g = h then v else gte_get_control K c h)"
begin

lemma mem_gte:
  "in_ram a 1 \<Longrightarrow> mem_r8 K (gte_put_data K c g v) a = mem_r8 K c a"
  "in_ram a 2 \<Longrightarrow> mem_r16 K (gte_put_data K c g v) a = mem_r16 K c a"
  "in_ram a 4 \<Longrightarrow> mem_r32 K (gte_put_data K c g v) a = mem_r32 K c a"
  "in_ram a 1 \<Longrightarrow> mem_r8 K (gte_put_control K c g v) a = mem_r8 K c a"
  "in_ram a 2 \<Longrightarrow> mem_r16 K (gte_put_control K c g v) a = mem_r16 K c a"
  "in_ram a 4 \<Longrightarrow> mem_r32 K (gte_put_control K c g v) a = mem_r32 K c a"
  by (auto intro!: r16_cong r32_cong r8_gte_data r8_gte_control in_ram_span)

end

lemmas address_simps = in_ram_def apart_def word_self_minus

section \<open>Footprints\<close>

text \<open>
  \<open>writes_within K A m\<close>: from every state, \<open>m\<close> leaves every guest byte outside \<open>A\<close> as it was.
\<close>
definition writes_within :: "'c core_ops \<Rightarrow> u32 set \<Rightarrow> ('c, 'a) state \<Rightarrow> bool" where
  "writes_within K A m \<longleftrightarrow>
     (\<forall>c b. in_ram b 1 \<longrightarrow> b \<notin> A \<longrightarrow> mem_r8 K (exec m c) b = mem_r8 K c b)"

lemma writes_withinD:
  "writes_within K A m \<Longrightarrow> in_ram b 1 \<Longrightarrow> b \<notin> A \<Longrightarrow> mem_r8 K (exec m c) b = mem_r8 K c b"
  by (simp add: writes_within_def)

lemma writes_within_mono: "writes_within K A m \<Longrightarrow> A \<subseteq> B \<Longrightarrow> writes_within K B m"
  by (auto simp: writes_within_def)

lemma writes_within_bind [footprint]:
  "writes_within K A m \<Longrightarrow> (\<And>x. writes_within K A (f x)) \<Longrightarrow>
   writes_within K A (Monad_Syntax.bind m f)"
  by (auto simp: writes_within_def split_beta)

lemma writes_within_if [footprint]:
  "(b \<Longrightarrow> writes_within K A m) \<Longrightarrow> (\<not> b \<Longrightarrow> writes_within K A n) \<Longrightarrow>
   writes_within K A (if b then m else n)"
  by simp

lemma writes_within_only_if [footprint]:
  "(b \<Longrightarrow> writes_within K A m) \<Longrightarrow> writes_within K A (only_if b m)"
  by (simp add: writes_within_def)

lemma writes_within_let [footprint]:
  "writes_within K A (f x) \<Longrightarrow> writes_within K A (let y = x in f y)"
  by simp

lemma writes_within_pure [footprint]:
  "writes_within K A (State_Monad.return x)"
  "writes_within K A (r8 K a)" "writes_within K A (r16 K a)" "writes_within K A (r32 K a)"
  "writes_within K A (r8s K a)" "writes_within K A (r16s K a)" "writes_within K A (reg K i)"
  by (simp_all add: writes_within_def)

lemma writes_within_for_each [footprint]:
  "(\<And>x. x \<in> set xs \<Longrightarrow> writes_within K A (f x)) \<Longrightarrow> writes_within K A (for_each xs f)"
  by (induction xs) (auto intro!: footprint)

context guest_core
begin

lemma writes_within_setr [footprint]: "writes_within K A (setr K i v)"
  by (simp add: writes_within_def r8_set_reg)

lemma writes_within_w8 [footprint]: "in_ram a 1 \<Longrightarrow> a \<in> A \<Longrightarrow> writes_within K A (w8 K a v)"
  by (auto simp: writes_within_def r8_w8)

lemma writes_within_w16 [footprint]:
  "in_ram a 2 \<Longrightarrow> a \<in> A \<Longrightarrow> a + 1 \<in> A \<Longrightarrow> writes_within K A (w16 K a v)"
  by (auto simp: writes_within_def r8_w16)

lemma writes_within_w32 [footprint]:
  "in_ram a 4 \<Longrightarrow> a \<in> A \<Longrightarrow> a + 1 \<in> A \<Longrightarrow> a + 2 \<in> A \<Longrightarrow> a + 3 \<in> A \<Longrightarrow>
   writes_within K A (w32 K a v)"
  by (auto simp: writes_within_def r8_w32)

end

section \<open>A flat core\<close>

text \<open>
  The least core with the contract: one byte per address and a register file; dispatching guest
  code is a parameter. The witnesses of the development run on it.
\<close>

record flat =
  flat_mem :: "u32 \<Rightarrow> u8"
  flat_reg :: "nat \<Rightarrow> u32"

definition flat_core :: "(flat \<Rightarrow> u32 \<Rightarrow> flat) \<Rightarrow> flat core_ops" where
  "flat_core d =
     \<lparr>mem_r8 = (\<lambda>c a. flat_mem c a),
      mem_r16 = (\<lambda>c a. word_cat (flat_mem c (a + 1)) (flat_mem c a)),
      mem_r32 = (\<lambda>c a. word_cat (word_cat (flat_mem c (a + 3)) (flat_mem c (a + 2)) :: u16)
        (word_cat (flat_mem c (a + 1)) (flat_mem c a) :: u16)),
      mem_w8 = (\<lambda>c a v. c\<lparr>flat_mem := (flat_mem c)(a := v)\<rparr>),
      mem_w16 = (\<lambda>c a h. c\<lparr>flat_mem := (flat_mem c)(a + 1 := ucast (drop_bit 8 h), a := ucast h)\<rparr>),
      mem_w32 = (\<lambda>c a w. c\<lparr>flat_mem := (flat_mem c)(a + 3 := ucast (drop_bit 24 w),
        a + 2 := ucast (drop_bit 16 w), a + 1 := ucast (drop_bit 8 w), a := ucast w)\<rparr>),
      get_reg = (\<lambda>c i. flat_reg c i),
      set_reg = (\<lambda>c i w. c\<lparr>flat_reg := (flat_reg c)(i := w)\<rparr>),
      dispatch = d,
      call_now = (\<lambda>c t args. (flat_reg (d c t) 2, d c t)),
      frame_enter = (\<lambda>c n spills. c),
      frame_leave = (\<lambda>c n spills. c),
      cpu_multiply = (\<lambda>c a b. let p = scast a * scast b :: 64 word in
        (p, c\<lparr>flat_reg := (flat_reg c)(32 := ucast (drop_bit 32 p), 33 := ucast p)\<rparr>)),
      cpu_divide = (\<lambda>c sgd a b. c\<lparr>flat_reg := (flat_reg c)
        (32 := if sgd then a - sdiv a b * b else a mod b, 33 := if sgd then sdiv a b else a div b)\<rparr>),
      cpu_break = (\<lambda>c code. c),
      gte_get_data = (\<lambda>c i. flat_reg c (64 + unat i)),
      gte_put_data = (\<lambda>c i w. c\<lparr>flat_reg := (flat_reg c)(64 + unat i := w)\<rparr>),
      gte_get_control = (\<lambda>c i. flat_reg c (128 + unat i)),
      gte_put_control = (\<lambda>c i w. c\<lparr>flat_reg := (flat_reg c)(128 + unat i := w)\<rparr>),
      gte_execute = (\<lambda>c command. c),
      gte_code = (\<lambda>name. 0),
      store_gte_xy = (\<lambda>c a i. c),
      set_redirect = (\<lambda>c a. c),
      display_margin = (\<lambda>c. 0),
      native_call = (\<lambda>c h. (False, c))\<rparr>"

lemma flat_core_sel [simp]:
  "mem_r8 (flat_core d) c a = flat_mem c a"
  "mem_r16 (flat_core d) c a = word_cat (flat_mem c (a + 1)) (flat_mem c a)"
  "mem_r32 (flat_core d) c a = word_cat (word_cat (flat_mem c (a + 3)) (flat_mem c (a + 2)) :: u16)
     (word_cat (flat_mem c (a + 1)) (flat_mem c a) :: u16)"
  "mem_w8 (flat_core d) c a v = c\<lparr>flat_mem := (flat_mem c)(a := v)\<rparr>"
  "mem_w16 (flat_core d) c a h =
     c\<lparr>flat_mem := (flat_mem c)(a + 1 := ucast (drop_bit 8 h), a := ucast h)\<rparr>"
  "mem_w32 (flat_core d) c a w = c\<lparr>flat_mem := (flat_mem c)(a + 3 := ucast (drop_bit 24 w),
     a + 2 := ucast (drop_bit 16 w), a + 1 := ucast (drop_bit 8 w), a := ucast w)\<rparr>"
  "get_reg (flat_core d) c i = flat_reg c i"
  "set_reg (flat_core d) c i w = c\<lparr>flat_reg := (flat_reg c)(i := w)\<rparr>"
  "dispatch (flat_core d) c t = d c t"
  "call_now (flat_core d) c t args = (flat_reg (d c t) 2, d c t)"
  "frame_enter (flat_core d) c n spills = c"
  "frame_leave (flat_core d) c n spills = c"
  "display_margin (flat_core d) c = 0"
  "native_call (flat_core d) c t = (False, c)"
  by (simp_all add: flat_core_def)

text \<open>All memory zero, all registers zero; dispatched guest code returns at once.\<close>
definition zero_flat :: flat where
  "zero_flat = \<lparr>flat_mem = (\<lambda>_. 0), flat_reg = (\<lambda>_. 0)\<rparr>"

lemma zero_reads:
  "mem_r8 (flat_core d) zero_flat a = 0" "mem_r16 (flat_core d) zero_flat a = 0"
  "mem_r32 (flat_core d) zero_flat a = 0" "get_reg (flat_core d) zero_flat i = 0"
  by (simp_all add: zero_flat_def)

abbreviation idle_core :: "flat core_ops" where
  "idle_core \<equiv> flat_core (\<lambda>c a. c)"

interpretation flat: guest_core "flat_core d"
proof
  fix a :: u32 and c h
  have "a + 1 + 1 = a + 2" "a + 2 + 1 = a + 3"
    by (simp_all only: add.assoc) simp_all
  then show "mem_r32 (flat_core d) c a =
      word_cat (mem_r16 (flat_core d) c (a + 2)) (mem_r16 (flat_core d) c a)"
    by (simp only: flat_core_sel)
qed auto

interpretation flat_gte: guest_gte "flat_core d"
  by unfold_locales (auto simp: flat_core_def word_unat_eq_iff)

end
