(* ===== verification/HorizontalCull.thy ===== *)
theory HorizontalCull
  imports GuestCore
begin

text \<open>
  The horizontal visibility cull (\<open>game/render/horizontal_visibility_cull.h\<close>) and the draw window it
  is decided in (\<open>game/render/wide_window.cpp\<close>): a primitive is kept when some corner is inside the
  window and some corner is inside the frame's height, each test an unsigned compare. The margin the
  display plan of the host adds on each side is the parameter \<open>display_margin\<close>.
\<close>

record window =
  win_left :: u32
  win_right :: u32

definition kGuestWidth :: u32 where "kGuestWidth = 320"

definition margin_columns :: "'c core_ops \<Rightarrow> ('c, u32) state" where
  "margin_columns K = State (\<lambda>c. (display_margin K c, c))"

definition draw_window :: "'c core_ops \<Rightarrow> ('c, window) state" where
  "draw_window K = do {
     margin \<leftarrow> margin_columns K;
     State_Monad.return \<lparr>win_left = - margin, win_right = kGuestWidth + margin\<rparr>
   }"

datatype domain = Packed16 | Fixed16_16

definition kGuestFrameWidth :: u32 where "kGuestFrameWidth = 320"

definition kGuestFrameHeight :: u32 where "kGuestFrameHeight = 240"

definition inside_axis :: "u32 \<Rightarrow> domain \<Rightarrow> u32 \<Rightarrow> bool" where
  "inside_axis coordinate domain bound =
     (let limit = (if domain = Fixed16_16 then shl bound 16 else bound) in coordinate < limit)"

record visibility =
  vis_left :: u32
  vis_right :: u32

definition visibility_of :: "window \<Rightarrow> visibility" where
  "visibility_of w = \<lparr>vis_left = win_left w, vis_right = win_right w\<rparr>"

definition shifted :: "visibility \<Rightarrow> u32 \<Rightarrow> domain \<Rightarrow> u32" where
  "shifted v coordinate domain =
     (if domain = Fixed16_16 then coordinate - shl (vis_left v) 16
      else (coordinate - vis_left v) AND 0xFFFF)"

text \<open>The corner arrays are lists; \<open>n\<close> is the C \<open>int\<close> the loop is bounded by.\<close>
definition keeps_x :: "visibility \<Rightarrow> u32 list \<Rightarrow> u32 \<Rightarrow> domain \<Rightarrow> bool" where
  "keeps_x v corners n domain =
     list_ex (\<lambda>index. inside_axis (shifted v (corners ! index) domain) domain (vis_right v - vis_left v))
       [0..<nat (sint n)]"

definition keeps_y :: "visibility \<Rightarrow> u32 list \<Rightarrow> u32 \<Rightarrow> domain \<Rightarrow> bool" where
  "keeps_y v corners n domain =
     list_ex (\<lambda>index. inside_axis (corners ! index) domain kGuestFrameHeight) [0..<nat (sint n)]"

definition keeps :: "visibility \<Rightarrow> u32 list \<Rightarrow> u32 list \<Rightarrow> u32 \<Rightarrow> domain \<Rightarrow> bool" where
  "keeps v xs ys n domain = (keeps_x v xs n domain \<and> keeps_y v ys n domain)"

definition is_guest_frame :: "visibility \<Rightarrow> bool" where
  "is_guest_frame v = (vis_left v = 0 \<and> vis_right v = kGuestFrameWidth)"

definition for_draw_window :: "'c core_ops \<Rightarrow> ('c, visibility) state" where
  "for_draw_window K = do {
     w \<leftarrow> draw_window K;
     State_Monad.return (visibility_of w)
   }"

section \<open>The kept interval\<close>

text \<open>The signed column a packed corner stands for.\<close>
definition column :: "u32 \<Rightarrow> int" where
  "column c = sint (ucast c :: u16)"

lemma column_unat:
  "column c = (if unat c mod 65536 < 32768 then int (unat c mod 65536) else int (unat c mod 65536) - 65536)"
  by (simp add: column_def sint_u16 unsigned_ucast_eq take_bit_eq_mod)

lemma word_below: "(a < b) = (uint a < uint b)" for a b :: u32
  by (rule word_less_def)

lemma interval_mod:
  assumes "b \<le> 32448" "a < 65536"
  shows "((a + b) mod 65536 < 320 + 2 * b) =
     (- int b \<le> (if a < 32768 then int a else int a - 65536) \<and>
      (if a < 32768 then int a else int a - 65536) < 320 + int b)"
  using assms by (cases "a + b < 65536") (auto simp: mod_if)

lemma shifted_column:
  assumes "uint m \<le> 32448"
  shows "inside_axis (shifted (visibility_of \<lparr>win_left = - m, win_right = kGuestWidth + m\<rparr>) x Packed16) Packed16
           (kGuestWidth + m - (- m)) = (- uint m \<le> column x \<and> column x < 320 + uint m)"
proof -
  have a: "unat m \<le> 32448" using assms by (simp only: uint_nat)
  have w: "unat (kGuestWidth + m - (- m)) = 320 + 2 * unat m"
  proof -
    have "kGuestWidth + m - (- m) = word_of_nat (320 + 2 * unat m)" by (simp add: kGuestWidth_def)
    then have "unat (kGuestWidth + m - (- m)) = (320 + 2 * unat m) mod 2 ^ 32" by (simp only: unat_of_nat) simp
    also have "\<dots> = 320 + 2 * unat m" by (rule mod_less) (use a in simp)
    finally show ?thesis .
  qed
  have s: "unat ((x - (- m)) AND 0xFFFF) = (unat x mod 65536 + unat m) mod 65536"
    using a by (simp add: unat_mask16 unat_word_ariths mod_mod_cancel mod_simps)
  have r: "unat x mod 65536 < 65536" by simp
  have i: "inside_axis (shifted (visibility_of \<lparr>win_left = - m, win_right = kGuestWidth + m\<rparr>) x Packed16) Packed16
      (kGuestWidth + m - (- m)) = ((unat x mod 65536 + unat m) mod 65536 < 320 + 2 * unat m)"
    by (simp only: inside_axis_def shifted_def visibility_of_def word_less_nat_alt s w Let_def domain.distinct
        visibility.select_convs window.select_convs if_False refl)
  show ?thesis
    unfolding i column_unat uint_nat by (rule interval_mod [OF a r])
qed

lemma keeps_x_cong:
  assumes "\<And>i. i < nat (sint n) \<Longrightarrow>
      inside_axis (shifted v (xs ! i) d) d (vis_right v - vis_left v) =
      inside_axis (shifted w (ys ! i) e) e (vis_right w - vis_left w)"
  shows "keeps_x v xs n d = keeps_x w ys n e"
  using assms by (auto simp: keeps_x_def list_ex_iff)

lemma result_for_draw_window:
  "result (for_draw_window K) c =
     visibility_of \<lparr>win_left = - display_margin K c, win_right = kGuestWidth + display_margin K c\<rparr>"
  by (simp add: for_draw_window_def draw_window_def margin_columns_def)

text \<open>C34. The horizontal gate in the draw window with a margin of up to 32448 columns a side keeps a
  primitive exactly when some corner's signed column lies in the window: in particular a coordinate
  left of the window, which reads as a large unsigned number, is dropped.\<close>
theorem keeps_x_interval:
  assumes "uint (display_margin K c) \<le> 32448"
  shows "keeps_x (result (for_draw_window K) c) corners n Packed16 =
     (\<exists>i < nat (sint n). - uint (display_margin K c) \<le> column (corners ! i) \<and>
        column (corners ! i) < 320 + uint (display_margin K c))"
  unfolding result_for_draw_window keeps_x_def list_ex_iff
  using shifted_column [OF assms] by (auto simp: visibility_of_def)

theorem keeps_x_interval_witness:
  "\<not> keeps_x (result (for_draw_window (idle_core\<lparr>display_margin := \<lambda>_. 16\<rparr>)) zero_flat)
     [0xFFEF, 336] 2 Packed16 \<and>
   keeps_x (result (for_draw_window (idle_core\<lparr>display_margin := \<lambda>_. 16\<rparr>)) zero_flat)
     [0xFFF0, 336] 2 Packed16"
  using keeps_x_interval [of "idle_core\<lparr>display_margin := \<lambda>_. 16\<rparr>" zero_flat "[0xFFEF, 336]" 2]
    keeps_x_interval [of "idle_core\<lparr>display_margin := \<lambda>_. 16\<rparr>" zero_flat "[0xFFF0, 336]" 2]
  by (simp add: less_2_cases_iff conj_disj_distribR ex_disj_distrib column_unat)

section \<open>The two representations\<close>

lemma unat_shl16: "unat (shl x 16) = 65536 * (unat x mod 65536)"
  by (simp add: push_bit_eq_mult unat_word_ariths mult_mod_right mult.commute)

lemma shl_minus: "shl a n - shl b n = shl (a - b) n"
  by (simp add: push_bit_eq_mult left_diff_distrib)

lemma shl_below: "unat w < 65536 \<Longrightarrow> (shl x 16 < shl w 16) = (x AND 0xFFFF < w)"
  by (simp add: word_less_nat_alt unat_shl16 unat_mask16)

lemma below_shl: "unat w < 65536 \<Longrightarrow> (y < shl w 16) = (shr y 16 < w)"
  by (simp add: word_less_nat_alt unat_shl16 unat_shr) linarith

lemma kGuestFrameHeight_below: "unat kGuestFrameHeight < 65536"
  by (simp add: kGuestFrameHeight_def)

text \<open>C35. The two representations decide alike: on coprocessor words, whose X is shifted into the upper
  half and whose Y sits there, the cull answers as on the packed halfwords, whatever the lower halves
  hold, as long as the window is narrower than 65536 columns.\<close>
theorem representations_agree:
  assumes width: "unat (vis_right v - vis_left v) < 65536"
    and x: "\<And>i. i < nat (sint n) \<Longrightarrow> xf ! i = shl (xs ! i) 16"
    and y: "\<And>i. i < nat (sint n) \<Longrightarrow> ys ! i = shr (yf ! i) 16"
  shows "keeps v xf yf n Fixed16_16 = keeps v xs ys n Packed16"
proof -
  have "keeps_x v xf n Fixed16_16 = keeps_x v xs n Packed16"
    using width by (intro keeps_x_cong) (simp add: x inside_axis_def shifted_def shl_minus shl_below)
  moreover have "keeps_y v yf n Fixed16_16 = keeps_y v ys n Packed16"
    by (auto simp: keeps_y_def list_ex_iff inside_axis_def y below_shl [OF kGuestFrameHeight_below] Let_def)
  ultimately show ?thesis by (simp add: keeps_def)
qed
theorem representations_agree_witness:
  "keeps \<lparr>vis_left = - 16, vis_right = 336\<rparr> [shl 0xFFF0 16, shl 400 16] [0x00EFFFF0, 0x00F00190] 2 Fixed16_16 =
   keeps \<lparr>vis_left = - 16, vis_right = 336\<rparr> [0xFFF0, 400] [0xEF, 0xF0] 2 Packed16"
  by (rule representations_agree) (auto dest!: less_2_cases simp: drop_bit_eq_div)

end
