(* ===== verification/Inventory.thy ===== *)
theory Inventory
  imports GuestCore
begin

text \<open>
  The item collection of \<open>game/items\<close>: class \<open>Inventory\<close> (\<open>inventory.cpp\<close>) and the debug grant
  \<open>ItemGrant::all\<close> (\<open>item_grant.cpp\<close>), over the save block at \<open>0x800BF870\<close>. The guest-shaped
  entries are modelled with the A/B channel \<open>invverify\<close> off. The abstract inventory is a record of
  the count and cross-reference rows, the two event counters and the recently-acquired ring;
  the byte-level \<open>add\<close> refines its one-line specification.
\<close>

section \<open>Layout\<close>

definition INV_BASE :: u32 where "INV_BASE = 0x800BF870"
definition INV_RING_LEN :: u32 where "INV_RING_LEN = INV_BASE + 0x13"
definition INV_RING_DATA :: u32 where "INV_RING_DATA = INV_BASE + 0x14"
definition INV_EVT_B :: u32 where "INV_EVT_B = INV_BASE + 0x31"
definition INV_EVT_A :: u32 where "INV_EVT_A = INV_BASE + 0x32"
definition INV_COUNT :: u32 where "INV_COUNT = INV_BASE + 0x244"
definition INV_QUESTREF :: u32 where "INV_QUESTREF = INV_BASE + 0x344"
definition INV_QUEST_TABLE :: u32 where "INV_QUEST_TABLE = 0x800A2BE8"

lemmas inv_layout = INV_BASE_def INV_RING_LEN_def INV_RING_DATA_def INV_EVT_B_def INV_EVT_A_def
  INV_COUNT_def INV_QUESTREF_def INV_QUEST_TABLE_def

section \<open>Operations\<close>

definition inv_count :: "'c core_ops \<Rightarrow> u32 \<Rightarrow> ('c, u32) state" where
  "inv_count K item =
     (if item <s 0 \<or> 0xff <s item then State_Monad.return 0
      else r8 K (INV_COUNT + item))"

definition inv_has :: "'c core_ops \<Rightarrow> u32 \<Rightarrow> ('c, bool) state" where
  "inv_has K item = do { n \<leftarrow> inv_count K item; State_Monad.return (0 <s n) }"

text \<open>One round of the cross-reference loops: an owned item whose quest row is in the class
  \<open>sel\<close> has its reference counter bumped.\<close>
definition quest_bump :: "'c core_ops \<Rightarrow> (u32 \<Rightarrow> bool) \<Rightarrow> u32 \<Rightarrow> ('c, unit) state" where
  "quest_bump K sel i = do {
     n \<leftarrow> r8 K (INV_COUNT + i);
     row \<leftarrow> r8 K (INV_QUEST_TABLE + i * 12);
     only_if (n \<noteq> 0 \<and> sel row)
       (do { q \<leftarrow> r8 K (INV_QUESTREF + i); w8 K (INV_QUESTREF + i) (q + 1) })
   }"

text \<open>The three numbered parts of \<open>Inventory::addNative\<close>.\<close>
definition add_ring :: "'c core_ops \<Rightarrow> u32 \<Rightarrow> ('c, unit) state" where
  "add_ring K type =
     only_if (type - 23 < 6)
       (do { len \<leftarrow> r8 K INV_RING_LEN;
             w8 K (INV_RING_DATA + len) type;
             w8 K INV_RING_LEN (len + 1) })"

definition add_questref :: "'c core_ops \<Rightarrow> u32 \<Rightarrow> ('c, unit) state" where
  "add_questref K type = do {
     owned \<leftarrow> r8 K (INV_COUNT + type);
     only_if (owned = 0)
       (do { row0 \<leftarrow> r8 K (INV_QUEST_TABLE + type * 12);
             (if row0 = 0 then do {
                for_each (upto_u32 256) (quest_bump K (\<lambda>row. row = 0));
                w8 K (INV_QUESTREF + type) 0;
                e \<leftarrow> r8 K INV_EVT_A;
                w8 K INV_EVT_A (e + 1)
              } else do {
                for_each (upto_u32 256) (quest_bump K (\<lambda>row. row \<noteq> 0));
                w8 K (INV_QUESTREF + type) 0;
                e \<leftarrow> r8 K INV_EVT_B;
                w8 K INV_EVT_B (e + 1)
              }) })
   }"

definition add_clamped :: "'c core_ops \<Rightarrow> u32 \<Rightarrow> u32 \<Rightarrow> ('c, unit) state" where
  "add_clamped K type amount = do {
     had \<leftarrow> r8 K (INV_COUNT + type);
     let n = (had + amount) AND 0xff;
     w8 K (INV_COUNT + type) n;
     only_if (100 \<le> n) (w8 K (INV_COUNT + type) 99)
   }"

definition add_native :: "'c core_ops \<Rightarrow> u32 \<Rightarrow> u32 \<Rightarrow> ('c, unit) state" where
  "add_native K type amount = do {
     add_ring K type;
     add_questref K type;
     add_clamped K type amount
   }"

definition add_body :: "'c core_ops \<Rightarrow> ('c, unit) state" where
  "add_body K = do { type \<leftarrow> reg K 4; amount \<leftarrow> reg K 5; add_native K type amount }"

definition add_entry :: "'c core_ops \<Rightarrow> ('c, unit) state" where
  "add_entry K = add_body K"

definition give_and_flag_body :: "'c core_ops \<Rightarrow> ('c, unit) state" where
  "give_and_flag_body K = do {
     type \<leftarrow> reg K 4;
     amount \<leftarrow> reg K 5;
     add_native K type amount;
     setr K 4 type;
     setr K 5 2;
     call_guest K 0x8004ED0C
   }"

definition give_and_flag_entry :: "'c core_ops \<Rightarrow> ('c, unit) state" where
  "give_and_flag_entry K = give_and_flag_body K"

definition give_body :: "'c core_ops \<Rightarrow> ('c, unit) state" where
  "give_body K = do { type \<leftarrow> reg K 4; amount \<leftarrow> reg K 5; add_native K type amount }"

definition give_entry :: "'c core_ops \<Rightarrow> ('c, unit) state" where
  "give_entry K = give_body K"

definition inv_add :: "'c core_ops \<Rightarrow> u32 \<Rightarrow> u32 \<Rightarrow> ('c, unit) state" where
  "inv_add K type amount = do { setr K 4 type; setr K 5 amount; add_entry K }"

definition inv_give :: "'c core_ops \<Rightarrow> u32 \<Rightarrow> u32 \<Rightarrow> ('c, unit) state" where
  "inv_give K type amount = do { setr K 4 type; setr K 5 amount; give_entry K }"

definition inv_give_and_flag :: "'c core_ops \<Rightarrow> u32 \<Rightarrow> u32 \<Rightarrow> ('c, unit) state" where
  "inv_give_and_flag K type amount = do { setr K 4 type; setr K 5 amount; give_and_flag_entry K }"

section \<open>The debug grant\<close>

text \<open>First item id, run length, count.\<close>
definition kGrantAllRuns :: "(u32 \<times> nat \<times> u32) list" where
  "kGrantAllRuns = [(0, 13, 1), (14, 9, 1), (28, 11, 9), (40, 1, 9), (42, 42, 9), (84, 1, 9),
     (86, 1, 9), (88, 49, 9), (146, 22, 9)]"

definition kQuestPass :: u32 where "kQuestPass = 0xff"

definition grant_all :: "'c core_ops \<Rightarrow> ('c, unit) state" where
  "grant_all K = do {
     for_each kGrantAllRuns (\<lambda>(first, length, count).
       for_each (upto_u32 length) (\<lambda>i. w8 K (INV_COUNT + (first + i)) count));
     w8 K INV_EVT_B kQuestPass
   }"

section \<open>The abstract inventory\<close>

record inventory =
  counts :: "u8 \<Rightarrow> u8"
  refs :: "u8 \<Rightarrow> u8"
  passes_a :: u8
  passes_b :: u8
  ring :: "u8 list"

definition quest_class :: "'c core_ops \<Rightarrow> 'c \<Rightarrow> u8 \<Rightarrow> bool" where
  "quest_class K c t = (mem_r8 K c (INV_QUEST_TABLE + ucast t * 12) \<noteq> 0)"

definition inventory_of :: "'c core_ops \<Rightarrow> 'c \<Rightarrow> inventory" where
  "inventory_of K c =
     \<lparr>counts = (\<lambda>t. mem_r8 K c (INV_COUNT + ucast t)),
      refs = (\<lambda>t. mem_r8 K c (INV_QUESTREF + ucast t)),
      passes_a = mem_r8 K c INV_EVT_A,
      passes_b = mem_r8 K c INV_EVT_B,
      ring = map (\<lambda>i. mem_r8 K c (INV_RING_DATA + of_nat i)) [0..<unat (mem_r8 K c INV_RING_LEN)]\<rparr>"

definition acquire :: "(u8 \<Rightarrow> bool) \<Rightarrow> u8 \<Rightarrow> inventory \<Rightarrow> inventory" where
  "acquire cls t s =
     (let s' = s\<lparr>refs := (\<lambda>i. if counts s i \<noteq> 0 \<and> cls i = cls t then refs s i + 1 else refs s i)(t := 0)\<rparr>
      in if cls t then s'\<lparr>passes_b := passes_b s + 1\<rparr> else s'\<lparr>passes_a := passes_a s + 1\<rparr>)"

definition spec_add :: "(u8 \<Rightarrow> bool) \<Rightarrow> u8 \<Rightarrow> u8 \<Rightarrow> inventory \<Rightarrow> inventory" where
  "spec_add cls t n s =
     (let s1 = (if 23 \<le> t \<and> t \<le> 28 then s\<lparr>ring := ring s @ [t]\<rparr> else s);
          s2 = (if counts s t = 0 then acquire cls t s1 else s1);
          k = counts s t + n
      in s2\<lparr>counts := (counts s)(t := if 100 \<le> k then 99 else k)\<rparr>)"

section \<open>The cross-reference loop\<close>

lemma in_ram_row:
  "unat i < 256 \<Longrightarrow> in_ram (INV_COUNT + i) 1" "unat i < 256 \<Longrightarrow> in_ram (INV_QUESTREF + i) 1"
  "unat i < 256 \<Longrightarrow> in_ram (INV_QUEST_TABLE + i * 12) 1"
proof -
  assume i: "unat i < 256"
  show "in_ram (INV_COUNT + i) 1" "in_ram (INV_QUESTREF + i) 1"
    using i in_ram_offset [of INV_COUNT 256 i 1] in_ram_offset [of INV_QUESTREF 256 i 1]
    by (simp_all add: inv_layout in_ram_def)
  have "unat (i * 12) = unat i * 12" using i by (simp add: unat_word_ariths)
  then show "in_ram (INV_QUEST_TABLE + i * 12) 1"
    using i by (intro in_ram_offset [of _ 3072]) (auto simp: inv_layout in_ram_def)
qed

lemma row_address:
  "unat i < 256 \<Longrightarrow> unat (INV_COUNT + i) = 0x800BFAB4 + unat i"
  "unat i < 256 \<Longrightarrow> unat (INV_QUESTREF + i) = 0x800BFBB4 + unat i"
  "unat i < 256 \<Longrightarrow> unat (INV_QUEST_TABLE + i * 12) = 0x800A2BE8 + unat i * 12"
  by (simp_all add: inv_layout unat_word_ariths)

lemma questref_iff: "n \<le> 256 \<Longrightarrow>
    (unat (b - INV_QUESTREF) < n) = (0x800BFBB4 \<le> unat b \<and> unat b < 0x800BFBB4 + n)"
  by (subst offset_less_iff) (auto simp: inv_layout)

lemma quest_bump_byte:
  assumes "guest_core K" "in_ram b 1" "unat i < 256"
  shows "mem_r8 K (exec (quest_bump K sel i) c) b =
    (if b = INV_QUESTREF + i \<and> mem_r8 K c (INV_COUNT + i) \<noteq> 0 \<and>
        sel (ucast (mem_r8 K c (INV_QUEST_TABLE + i * 12)))
     then mem_r8 K c b + 1 else mem_r8 K c b)"
proof -
  have "in_ram (INV_QUESTREF + i) 1"
    using assms(3) by (intro in_ram_offset [of _ 256]) (auto simp: inv_layout in_ram_def)
  then show ?thesis
    using assms by (simp add: quest_bump_def guest_core.r8_w8 [OF assms(1)] ucast_plus_u8)
qed

lemma quest_loop_byte:
  assumes K: "guest_core K" and "n \<le> 256" "in_ram b 1"
  shows "mem_r8 K (exec (for_each (upto_u32 n) (quest_bump K sel)) c) b =
    (if unat (b - INV_QUESTREF) < n \<and> mem_r8 K c (INV_COUNT + (b - INV_QUESTREF)) \<noteq> 0 \<and>
        sel (ucast (mem_r8 K c (INV_QUEST_TABLE + (b - INV_QUESTREF) * 12)))
     then mem_r8 K c b + 1 else mem_r8 K c b)"
  using assms(2,3)
proof (induction n arbitrary: b)
  case 0
  then show ?case by (simp add: upto_u32_def)
next
  case (Suc n)
  let ?c = "exec (for_each (upto_u32 n) (quest_bump K sel)) c"
  have n: "n < 256" "unat (of_nat n :: u32) = n" using Suc.prems by (simp_all add: unat_of_nat)
  have same: "mem_r8 K ?c (INV_COUNT + of_nat n) = mem_r8 K c (INV_COUNT + of_nat n)"
    "mem_r8 K ?c (INV_QUEST_TABLE + of_nat n * 12) = mem_r8 K c (INV_QUEST_TABLE + of_nat n * 12)"
    using n by (subst Suc.IH, auto simp: in_ram_row questref_iff row_address)+
  have step: "mem_r8 K (exec (for_each (upto_u32 (Suc n)) (quest_bump K sel)) c) b =
    (if b = INV_QUESTREF + of_nat n \<and> mem_r8 K c (INV_COUNT + of_nat n) \<noteq> 0 \<and>
        sel (ucast (mem_r8 K c (INV_QUEST_TABLE + of_nat n * 12)))
     then mem_r8 K ?c b + 1 else mem_r8 K ?c b)"
    using n quest_bump_byte [OF K Suc.prems(2), of "of_nat n" sel ?c]
    by (simp only: upto_u32_Suc exec_for_each_append exec_for_each_Cons same) simp
  show ?case
  proof (cases "b = INV_QUESTREF + of_nat n")
    case True
    then show ?thesis using n Suc step by simp
  next
    case False
    then have "unat (b - INV_QUESTREF) \<noteq> n"
      using n by (metis add.commute diff_add_cancel word_unat_eq_iff)
    then show ?thesis using n Suc.IH [OF _ Suc.prems(2)] step False by auto
  qed
qed


section \<open>The three parts, byte by byte\<close>

lemma ring_types: "(ucast (t :: u8) - 23 < (6 :: u32)) = (23 \<le> t \<and> t \<le> 28)"
  using unat_u8_less [of t] by (auto simp: word_less_nat_alt word_le_nat_alt unat_sub_if')

lemma inv_cells:
  "in_ram INV_RING_LEN 1" "in_ram INV_EVT_A 1" "in_ram INV_EVT_B 1"
  "unat INV_RING_LEN = 0x800BF883" "unat INV_EVT_A = 0x800BF8A2" "unat INV_EVT_B = 0x800BF8A1"
  by (simp_all add: inv_layout in_ram_def)

lemma ring_slot:
  "unat i < 256 \<Longrightarrow> in_ram (INV_RING_DATA + i) 1"
  "unat i < 256 \<Longrightarrow> unat (INV_RING_DATA + i) = 0x800BF884 + unat i"
  by (simp_all add: inv_layout in_ram_def unat_word_ariths)

lemmas inv_addresses = word_unat_eq_iff [where 'a = 32] row_address ring_slot(2) inv_cells(4-6)

lemma inv_apart [simp]:
  fixes i t :: u8
  shows "INV_EVT_A \<noteq> INV_EVT_B" "INV_EVT_B \<noteq> INV_EVT_A"
    "INV_QUESTREF + ucast i \<noteq> INV_EVT_A" "INV_QUESTREF + ucast i \<noteq> INV_EVT_B"
    "INV_EVT_A \<noteq> INV_QUESTREF + ucast i" "INV_EVT_B \<noteq> INV_QUESTREF + ucast i"
    "INV_COUNT + ucast i \<noteq> INV_EVT_A" "INV_COUNT + ucast i \<noteq> INV_EVT_B"
    "INV_EVT_A \<noteq> INV_COUNT + ucast i" "INV_EVT_B \<noteq> INV_COUNT + ucast i"
    "INV_RING_LEN \<noteq> INV_RING_DATA + ucast i"
    and "INV_QUESTREF + ucast i \<noteq> INV_COUNT + ucast t"
    and "\<not> unat (INV_EVT_A - INV_QUESTREF) < 256" "\<not> unat (INV_EVT_B - INV_QUESTREF) < 256"
proof -
  have "256 + unat i \<noteq> unat t" using unat_u8_less [of t] by linarith
  then show "INV_QUESTREF + ucast i \<noteq> INV_COUNT + ucast t" by (simp add: inv_addresses)
  show "\<not> unat (INV_EVT_A - INV_QUESTREF) < 256" "\<not> unat (INV_EVT_B - INV_QUESTREF) < 256"
    by (simp_all add: inv_layout)
qed (simp_all add: inv_addresses)

lemma add_ring_byte:
  assumes K: "guest_core K" and b: "in_ram b 1"
  shows "mem_r8 K (exec (add_ring K (ucast t)) c) b =
    (if 23 \<le> t \<and> t \<le> 28 then
       if b = INV_RING_LEN then mem_r8 K c INV_RING_LEN + 1
       else if b = INV_RING_DATA + ucast (mem_r8 K c INV_RING_LEN) then t else mem_r8 K c b
     else mem_r8 K c b)"
  using b by (simp add: add_ring_def ring_types guest_core.r8_w8 [OF K] ring_slot inv_cells
      ucast_plus_u8)

lemma add_questref_byte:
  assumes K: "guest_core K" and b: "in_ram b 1"
  shows "mem_r8 K (exec (add_questref K (ucast t)) c) b =
    (if mem_r8 K c (INV_COUNT + ucast t) \<noteq> 0 then mem_r8 K c b
     else if b = (if quest_class K c t then INV_EVT_B else INV_EVT_A) then mem_r8 K c b + 1
     else if b = INV_QUESTREF + ucast t then 0
     else if unat (b - INV_QUESTREF) < 256 \<and> mem_r8 K c (INV_COUNT + (b - INV_QUESTREF)) \<noteq> 0 \<and>
       (mem_r8 K c (INV_QUEST_TABLE + (b - INV_QUESTREF) * 12) \<noteq> 0) = quest_class K c t
     then mem_r8 K c b + 1 else mem_r8 K c b)"
proof -
  show ?thesis
    using b by (auto simp: add_questref_def quest_class_def guest_core.r8_w8 [OF K] in_ram_row
        inv_cells quest_loop_byte [OF K] ucast_plus_u8 split_beta)
qed

lemma add_clamped_byte:
  assumes K: "guest_core K" and b: "in_ram b 1"
  shows "mem_r8 K (exec (add_clamped K (ucast (t :: u8)) n) c) b =
    (if b = INV_COUNT + ucast t
     then let k = mem_r8 K c b + ucast n in if 100 \<le> k then 99 else k
     else mem_r8 K c b)"
proof -
  have "(100 \<le> (ucast x + n) AND 0xff) = (100 \<le> x + ucast n)" for x :: u8
  proof -
    have "(ucast x + n) AND 0xff = (ucast (x + ucast n) :: u32)"
      by (simp only: ucast_down_up_u8 [symmetric] ucast_plus_u8 ucast_u8_u32)
    then show ?thesis by (simp add: word_le_nat_alt)
  qed
  then show ?thesis
    using b by (simp add: add_clamped_def guest_core.r8_w8 [OF K] in_ram_row Let_def
        ucast_u8_mask ucast_plus_u8)
qed

lemma add_questref_elsewhere:
  assumes "guest_core K" "in_ram b 1" "\<not> (0x800BFBB4 \<le> unat b \<and> unat b < 0x800BFCB4)"
    "b \<noteq> INV_EVT_A" "b \<noteq> INV_EVT_B"
  shows "mem_r8 K (exec (add_questref K (ucast (t :: u8))) c) b = mem_r8 K c b"
  using assms by (auto simp: add_questref_byte questref_iff row_address)

lemma add_questref_events:
  assumes "guest_core K"
  shows "mem_r8 K (exec (add_questref K (ucast (t :: u8))) c) INV_EVT_A =
      (if mem_r8 K c (INV_COUNT + ucast t) = 0 \<and> \<not> quest_class K c t
       then mem_r8 K c INV_EVT_A + 1 else mem_r8 K c INV_EVT_A)"
    and "mem_r8 K (exec (add_questref K (ucast (t :: u8))) c) INV_EVT_B =
      (if mem_r8 K c (INV_COUNT + ucast t) = 0 \<and> quest_class K c t
       then mem_r8 K c INV_EVT_B + 1 else mem_r8 K c INV_EVT_B)"
  using assms by (simp_all add: add_questref_byte inv_cells)

lemma add_questref_row:
  assumes "guest_core K"
  shows "mem_r8 K (exec (add_questref K (ucast (t :: u8))) c) (INV_QUESTREF + ucast (i :: u8)) =
      (if mem_r8 K c (INV_COUNT + ucast t) \<noteq> 0 then mem_r8 K c (INV_QUESTREF + ucast i)
       else if i = t then 0
       else if mem_r8 K c (INV_COUNT + ucast i) \<noteq> 0 \<and> quest_class K c i = quest_class K c t
       then mem_r8 K c (INV_QUESTREF + ucast i) + 1 else mem_r8 K c (INV_QUESTREF + ucast i))"
  using assms by (simp add: add_questref_byte in_ram_row ucast_u8_eq quest_class_def [of K c i])

section \<open>Refinement\<close>

lemma add_native_byte:
  "exec (add_native K type n) c = exec (add_clamped K type n) (exec (add_questref K type) (exec (add_ring K type) c))"
  by (simp add: add_native_def split_beta)

lemma add_native_refines:
  assumes K: "guest_core K" and room: "length (ring (inventory_of K c)) < 29"
  shows "inventory_of K (exec (add_native K (ucast t) n) c) =
    spec_add (quest_class K c) t (ucast n) (inventory_of K c)"
proof -
  let ?c1 = "exec (add_ring K (ucast t)) c"
  let ?c2 = "exec (add_questref K (ucast t)) ?c1"
  let ?c3 = "exec (add_native K (ucast t) n) c"
  let ?len = "mem_r8 K c INV_RING_LEN"
  have len: "unat ?len < 29" using room by (simp add: inventory_of_def)
  have ring: "mem_r8 K ?c1 b = mem_r8 K c b"
    if "in_ram b 1" "unat b < 0x800BF883 \<or> 0x800BF8A0 < unat b" for b
    using that len by (auto simp: add_ring_byte [OF K] inv_addresses)
  have cls: "quest_class K ?c1 i = quest_class K c i" for i
  proof -
    have "unat (INV_QUEST_TABLE + ucast i * 12) < 0x800BF883"
      using unat_u8_less [of i] by (simp only: row_address(3) [OF u8_row] unat_ucast_u8)
    then show ?thesis unfolding quest_class_def by (subst ring) (auto simp: in_ram_row)
  qed
  have c1: "mem_r8 K ?c1 (INV_COUNT + ucast i) = mem_r8 K c (INV_COUNT + ucast i)"
    "mem_r8 K ?c1 (INV_QUESTREF + ucast i) = mem_r8 K c (INV_QUESTREF + ucast i)"
    "mem_r8 K ?c1 INV_EVT_A = mem_r8 K c INV_EVT_A" "mem_r8 K ?c1 INV_EVT_B = mem_r8 K c INV_EVT_B"
    for i :: u8
    by (simp_all add: ring in_ram_row inv_cells row_address)
  have c2: "mem_r8 K ?c2 b = mem_r8 K ?c1 b"
    if "in_ram b 1" "b \<noteq> INV_EVT_A" "b \<noteq> INV_EVT_B" "unat b < 0x800BFBB4" for b
    using that by (intro add_questref_elsewhere [OF K]) auto
  have counts2: "mem_r8 K ?c2 (INV_COUNT + ucast i) = mem_r8 K c (INV_COUNT + ucast i)" for i :: u8
    by (subst c2) (simp_all add: in_ram_row row_address c1)
  have clamp: "mem_r8 K ?c3 b = mem_r8 K ?c2 b" if "in_ram b 1" "b \<noteq> INV_COUNT + ucast t" for b
    using that by (simp add: add_native_byte add_clamped_byte [OF K])
  let ?s = "spec_add (quest_class K c) t (ucast n) (inventory_of K c)"
  note spec = spec_add_def inventory_of_def acquire_def Let_def
  have "mem_r8 K ?c3 (INV_COUNT + ucast i) = counts ?s i" for i
    by (simp add: add_native_byte add_clamped_byte [OF K] in_ram_row counts2)
      (simp add: spec ucast_u8_eq)
  moreover have "mem_r8 K ?c3 (INV_QUESTREF + ucast i) = refs ?s i" for i
    by (simp add: clamp in_ram_row add_questref_row [OF K] c1 cls) (simp add: spec)
  moreover have "mem_r8 K ?c3 INV_EVT_A = passes_a ?s" "mem_r8 K ?c3 INV_EVT_B = passes_b ?s"
    by (simp_all add: clamp inv_cells add_questref_events [OF K] c1 cls) (simp_all add: spec)
  moreover have "ring (inventory_of K ?c3) = ring ?s"
  proof -
    have low: "mem_r8 K ?c3 b = mem_r8 K ?c1 b" if "in_ram b 1" "unat b < 0x800BF8A1" for b
      using that by (simp add: clamp c2 inv_addresses)
    let ?len1 = "unat (mem_r8 K ?c1 INV_RING_LEN)"
    have len1: "?len1 = (if 23 \<le> t \<and> t \<le> 28 then Suc (unat ?len) else unat ?len)"
      using len by (simp add: add_ring_byte [OF K] inv_cells unat_word_ariths)
    have slot: "mem_r8 K ?c1 (INV_RING_DATA + of_nat i) =
        (if (23 \<le> t \<and> t \<le> 28) \<and> i = unat ?len then t else mem_r8 K c (INV_RING_DATA + of_nat i))"
      if "i < 256" for i
      using that by (simp add: add_ring_byte [OF K] ring_slot unat_of_nat inv_addresses)
    have "ring (inventory_of K ?c3) = map (\<lambda>i. mem_r8 K ?c3 (INV_RING_DATA + of_nat i)) [0..<?len1]"
      by (simp add: inventory_of_def low inv_cells)
    also have "\<dots> = map (\<lambda>i. mem_r8 K ?c1 (INV_RING_DATA + of_nat i)) [0..<?len1]"
      using len by (intro map_cong low) (auto simp: len1 ring_slot unat_of_nat split: if_splits)
    also have "\<dots> = ring ?s"
      using len slot [of "unat ?len"] by (auto simp: spec slot len1)
    finally show ?thesis .
  qed
  ultimately show ?thesis
    by (intro inventory.equality) (simp_all add: inventory_of_def fun_eq_iff)
qed

lemma add_native_below:
  assumes K: "guest_core K" and b: "in_ram b 1" "unat b < 0x800BF883"
  shows "mem_r8 K (exec (add_native K (ucast (t :: u8)) n) c) b = mem_r8 K c b"
  using b by (simp add: add_native_byte add_clamped_byte [OF K] add_questref_elsewhere [OF K]
      add_ring_byte [OF K] inv_addresses)

lemma quest_class_add_native:
  assumes K: "guest_core K"
  shows "quest_class K (exec (add_native K (ucast (t :: u8)) n) c) = quest_class K c"
proof
  fix i :: u8
  have "unat (INV_QUEST_TABLE + ucast i * 12) < 0x800BF883"
    using unat_u8_less [of i] by (simp only: row_address(3) [OF u8_row] unat_ucast_u8)
  then show "quest_class K (exec (add_native K (ucast t) n) c) i = quest_class K c i"
    by (simp add: quest_class_def add_native_below [OF K] in_ram_row)
qed

lemma ring_slot_nat: "i < unat (x :: u8) \<Longrightarrow> in_ram (INV_RING_DATA + of_nat i) 1"
proof -
  assume "i < unat x"
  then have "i < 256" using unat_u8_less [of x] by linarith
  then show "in_ram (INV_RING_DATA + of_nat i) 1" by (intro ring_slot) (simp add: unat_of_nat)
qed

lemma inventory_of_set_reg:
  "guest_core K \<Longrightarrow> inventory_of K (set_reg K c i v) = inventory_of K c"
  by (auto simp: inventory_of_def guest_core.mem_set_reg in_ram_row inv_cells ring_slot_nat)

lemma quest_class_set_reg: "guest_core K \<Longrightarrow> quest_class K (set_reg K c i v) = quest_class K c"
  by (auto simp: quest_class_def guest_core.mem_set_reg in_ram_row)

lemma exec_inv_give:
  "guest_core K \<Longrightarrow> exec (inv_give K type n) c =
     exec (add_native K type n) (set_reg K (set_reg K c 4 type) 5 n)"
  "guest_core K \<Longrightarrow> exec (inv_add K type n) c =
     exec (add_native K type n) (set_reg K (set_reg K c 4 type) 5 n)"
  by (simp_all add: inv_give_def give_entry_def give_body_def inv_add_def add_entry_def add_body_def
      guest_core.reg_set_reg)

lemma quest_class_give:
  "guest_core K \<Longrightarrow> quest_class K (exec (inv_give K (ucast (t :: u8)) n) c) = quest_class K c"
  by (simp add: exec_inv_give quest_class_add_native quest_class_set_reg)

text \<open>Every count is at most 99.\<close>
definition capped :: "'c core_ops \<Rightarrow> 'c \<Rightarrow> bool" where
  "capped K c \<longleftrightarrow> (\<forall>t. counts (inventory_of K c) t \<le> 99)"

lemma capped_set_reg: "guest_core K \<Longrightarrow> capped K (set_reg K c i v) = capped K c"
  by (simp add: capped_def inventory_of_set_reg)

lemma capped_add_native:
  assumes K: "guest_core K" and c: "capped K c"
  shows "capped K (exec (add_native K (ucast (t :: u8)) n) c)"
proof -
  have ring: "mem_r8 K (exec (add_ring K (ucast t)) c) (INV_COUNT + ucast i) =
      mem_r8 K c (INV_COUNT + ucast i)" for i :: u8
  proof -
    have "INV_COUNT + ucast i \<noteq> INV_RING_LEN" by (simp add: inv_addresses)
    moreover have "INV_COUNT + ucast i \<noteq> INV_RING_DATA + ucast (mem_r8 K c INV_RING_LEN)"
      using unat_u8_less [of "mem_r8 K c INV_RING_LEN"]
      by (simp only: word_unat_eq_iff row_address(1) [OF u8_row] ring_slot(2) [OF u8_row]
          unat_ucast_u8)
    ultimately show ?thesis by (simp add: add_ring_byte [OF K] in_ram_row)
  qed
  have "mem_r8 K (exec (add_questref K (ucast t)) (exec (add_ring K (ucast t)) c)) (INV_COUNT + ucast i) =
      mem_r8 K c (INV_COUNT + ucast i)" for i :: u8
    using unat_u8_less [of i]
    by (subst add_questref_elsewhere [OF K])
      (simp_all add: in_ram_row row_address(1) [OF u8_row] ring del: unat_u8_less)
  then show ?thesis
    using c by (auto simp: capped_def inventory_of_def add_native_byte add_clamped_byte [OF K]
        in_ram_row Let_def not_le) (simp_all add: word_less_nat_alt word_le_nat_alt)
qed

lemma capped_grant_all:
  assumes K: "guest_core K" and c: "capped K c"
  shows "capped K (exec (grant_all K) c)"
proof -
  have w: "capped K (mem_w8 K d a v)" if "capped K d" "v \<le> 99" "in_ram a 1" for d a v
    using that by (simp add: capped_def inventory_of_def guest_core.r8_w8 [OF K] in_ram_row)
  have run: "unat (first + i) < 256 \<and> ucast count \<le> (99 :: u8)"
    if "(first, len, count) \<in> set kGrantAllRuns" "i \<in> set (upto_u32 len)" for first len count i
    using that by (auto simp: kGrantAllRuns_def set_upto_u32 unat_word_ariths)
  have "capped K (exec (for_each kGrantAllRuns (\<lambda>(first, length, count).
       for_each (upto_u32 length) (\<lambda>i. w8 K (INV_COUNT + (first + i)) count))) c)"
    using c by (intro for_each_invariant [where P = "capped K"])
      (auto intro!: for_each_invariant [where P = "capped K"] w in_ram_row dest: run)
  moreover have "capped K (mem_w8 K d INV_EVT_B v)" if "capped K d" for d v
    using that by (simp add: capped_def inventory_of_def guest_core.r8_w8 [OF K] in_ram_row inv_cells)
  ultimately show ?thesis by (simp add: grant_all_def split_beta)
qed

section \<open>Properties\<close>

text \<open>C6. \<open>Inventory::give\<close> implements its specification: seen through the abstract inventory, the
  byte-level routine appends types 23 to 28 to the recently-acquired ring, on the first acquisition
  bumps the cross-reference of every owned item of the same quest class, zeroes the new item's and
  counts the event of that class, and adds the amount modulo 256 with the 99 cap, as long as the ring
  (29 bytes before the event counters) has room.\<close>
theorem inv_give_refines:
  assumes "guest_core K" "length (ring (inventory_of K c)) < 29"
  shows "inventory_of K (exec (inv_give K (ucast t) n) c) =
    spec_add (quest_class K c) t (ucast n) (inventory_of K c)"
  using assms
  by (simp add: exec_inv_give add_native_refines inventory_of_set_reg quest_class_set_reg)

lemma inv_give_refines_witness:
  "counts (inventory_of idle_core (exec (inv_give idle_core (ucast (25 :: u8)) 120) zero_flat)) 25 = 99"
proof -
  have "length (ring (inventory_of idle_core zero_flat)) < 29"
    by (simp add: inventory_of_def zero_flat_def)
  from inv_give_refines [OF flat.guest_core_axioms this, of 25 120] show ?thesis
    by (simp add: spec_add_def Let_def inventory_of_def zero_flat_def)
qed

text \<open>The public mutators as a sequence.\<close>
datatype inv_op = Add u8 u32 | Give u8 u32 | GrantAll

fun run_inv_op :: "'c core_ops \<Rightarrow> inv_op \<Rightarrow> ('c, unit) state" where
  "run_inv_op K (Add t n) = inv_add K (ucast t) n"
| "run_inv_op K (Give t n) = inv_give K (ucast t) n"
| "run_inv_op K GrantAll = grant_all K"

text \<open>C7. The item cap is an invariant: from a state where no count exceeds 99, no sequence of
  additions, gives and debug grants, with any amounts (the 8-bit sum may wrap), makes one do so.\<close>
theorem counts_stay_capped:
  assumes "guest_core K" "capped K c"
  shows "capped K (exec (for_each ops (run_inv_op K)) c)"
proof (rule for_each_invariant [where P = "capped K"])
  fix d op
  assume "capped K d"
  then show "capped K (exec (run_inv_op K op) d)"
    using assms(1)
    by (cases op) (simp_all add: exec_inv_give capped_add_native capped_set_reg capped_grant_all)
qed (rule assms(2))

lemma counts_stay_capped_witness:
  "capped idle_core (exec (for_each [GrantAll, Give 23 250, Add 23 250] (run_inv_op idle_core)) zero_flat)"
  by (rule counts_stay_capped [OF flat.guest_core_axioms])
    (simp add: capped_def inventory_of_def zero_flat_def)

section \<open>Age ranks\<close>

lemma ring_types_few: "distinct ts \<Longrightarrow> length (filter (\<lambda>t :: u8. 23 \<le> t \<and> t \<le> 28) ts) \<le> 6"
proof -
  assume "distinct ts"
  have "t \<in> {23, 24, 25, 26, 27, 28}" if "23 \<le> t" "t \<le> 28" for t :: u8
  proof -
    have "unat t \<in> {23, 24, 25, 26, 27, 28}" using that by (auto simp: word_le_nat_alt)
    then show ?thesis by (auto simp: word_unat_eq_iff)
  qed
  then have "set (filter (\<lambda>t :: u8. 23 \<le> t \<and> t \<le> 28) ts) \<subseteq> {23, 24, 25, 26, 27, 28}"
    by auto
  then have "card (set (filter (\<lambda>t :: u8. 23 \<le> t \<and> t \<le> 28) ts)) \<le> card {23, 24, 25, 26, 27, 28 :: u8}"
    by (intro card_mono) auto
  then show ?thesis
    using \<open>distinct ts\<close> by (simp add: distinct_card [symmetric])
qed

lemma spec_add_fields:
  "ring (spec_add cls t n s) = ring s @ (if 23 \<le> t \<and> t \<le> 28 then [t] else [])"
  "counts (spec_add cls t n s) = (counts s)(t := let k = counts s t + n in if 100 \<le> k then 99 else k)"
  "refs (spec_add cls t n s) i = (if counts s t \<noteq> 0 then refs s i else if i = t then 0
     else if counts s i \<noteq> 0 \<and> cls i = cls t then refs s i + 1 else refs s i)"
  by (simp_all add: spec_add_def acquire_def Let_def)

lemma give_distinct:
  assumes K: "guest_core K" and "distinct ts"
    and empty: "\<And>t. counts (inventory_of K c) t = 0" "ring (inventory_of K c) = []"
  defines "give_one \<equiv> \<lambda>t. inv_give K (ucast t) 1"
  shows "ring (inventory_of K (exec (for_each ts give_one) c)) = filter (\<lambda>t. 23 \<le> t \<and> t \<le> 28) ts"
    and "counts (inventory_of K (exec (for_each ts give_one) c)) = (\<lambda>t. if t \<in> set ts then 1 else 0)"
    and "i < length ts \<Longrightarrow> refs (inventory_of K (exec (for_each ts give_one) c)) (ts ! i) =
      of_nat (length (filter (\<lambda>t. quest_class K c t = quest_class K c (ts ! i)) (drop (i + 1) ts)))"
    and "quest_class K (exec (for_each ts give_one) c) = quest_class K c"
  using \<open>distinct ts\<close>
proof (induction ts arbitrary: i rule: rev_induct)
  case Nil
  {
    case 1 show ?case using empty by simp
  next
    case 2 show ?case using empty by auto
  next
    case 3 then show ?case by simp
  next
    case 4 show ?case by simp
  }
next
  case (snoc t ts)
  let ?c = "exec (for_each ts give_one) c"
  have d: "distinct ts" "t \<notin> set ts" if "distinct (ts @ [t])" using that by auto
  have step: "inventory_of K (exec (for_each (ts @ [t]) give_one) c) =
      spec_add (quest_class K c) t 1 (inventory_of K ?c)" if "distinct (ts @ [t])"
    using snoc.IH(1,4) [OF d(1) [OF that]] ring_types_few [OF d(1) [OF that]]
      inv_give_refines [OF K, of ?c t 1]
    by (simp add: exec_for_each_append exec_for_each_Cons give_one_def)
  {
    case 1
    from step [OF 1] snoc.IH(1) [OF d(1) [OF 1]] show ?case by (simp add: spec_add_fields)
  next
    case 2
    from step [OF 2] snoc.IH(2) [OF d(1) [OF 2]] d(2) [OF 2] show ?case
      by (simp add: spec_add_fields fun_eq_iff word_le_nat_alt)
  next
    case 3
    note IH = snoc.IH(2) [OF d(1) [OF 3(2)]] snoc.IH(3) [OF _ d(1) [OF 3(2)]]
    have other: "i < length ts \<Longrightarrow> ts ! i \<noteq> t" using d(2) [OF 3(2)] by auto
    show ?case
      using 3(1) IH other d(2) [OF 3(2)]
      by (cases "i < length ts") (auto simp: step [OF 3(2)] spec_add_fields nth_append)
  next
    case 4
    from snoc.IH(4) [OF d(1) [OF 4]] quest_class_give [OF K, of t 1 ?c] show ?case
      by (simp add: exec_for_each_append exec_for_each_Cons give_one_def)
  }
qed

text \<open>C8. The cross-reference row ranks items by age: starting from an empty inventory and giving one
  each of distinct types \<open>ts\<close>, the entry of \<open>ts ! i\<close> ends up counting the items of its quest class
  given after it, so the newest item of each class has rank 0.\<close>
theorem quest_refs_rank_by_age:
  assumes "guest_core K" "distinct ts"
    "\<And>t. counts (inventory_of K c) t = 0" "ring (inventory_of K c) = []" "i < length ts"
  shows "refs (inventory_of K (exec (for_each ts (\<lambda>t. inv_give K (ucast t) 1)) c)) (ts ! i) =
    of_nat (length (filter (\<lambda>t. quest_class K c t = quest_class K c (ts ! i)) (drop (i + 1) ts)))"
  by (rule give_distinct(3) [OF assms])

lemma quest_refs_rank_by_age_witness:
  "refs (inventory_of idle_core
     (exec (for_each [7, 24, 3 :: u8] (\<lambda>t. inv_give idle_core (ucast t) 1)) zero_flat))
     ([7, 24, 3] ! 0) = 2"
  by (subst quest_refs_rank_by_age [OF flat.guest_core_axioms])
    (simp_all add: inventory_of_def zero_flat_def quest_class_def)

end
