(* ===== verification/LookupLeaves.thy ===== *)
theory LookupLeaves
  imports GuestCore
begin

text \<open>
  Leaves whose C++ result is a pair, an optional, a pointer into a table or a span: the emitter a
  render mode selects (\<open>game/render/perobj_dispatch.cpp\<close>), the camera prologue of a render mode
  and the table of camera modes (\<open>game/camera\<close>), one step of a steered value (\<open>game/ai/beh_twin_record_steer.cpp\<close>),
  the extreme of a list of depths and the texture scroll of a packet (\<open>game/render\<close>).
\<close>

section \<open>The emitter of a render mode\<close>

definition per_mode_case_target :: "u32 \<Rightarrow> u32" where
  "per_mode_case_target caseLabel =
     (if caseLabel = 0x8003F6E8 then 0x80146478
      else if caseLabel = 0x8003F6F8 then 0x80132DC0
      else if caseLabel = 0x8003F708 then 0x8012555C
      else if caseLabel = 0x8003F718 then 0x8013DAFC
      else if caseLabel = 0x8003F728 then 0x801362CC
      else if caseLabel = 0x8003F738 then 0x8013D568
      else if caseLabel = 0x8003F748 then 0x8012E1A0
      else if caseLabel = 0x8003F758 then 0x8012A9DC
      else if caseLabel = 0x8003F768 then 0x80116B14
      else if caseLabel = 0x8003F778 then 0x8010B1B8
      else 0)"

definition per_mode_case_return_addr :: "u32 \<Rightarrow> u32" where
  "per_mode_case_return_addr caseLabel = caseLabel + 8"

definition MODE_FORCE :: u32 where "MODE_FORCE = 0x1F800234"
definition MODE_BYTE :: u32 where "MODE_BYTE = 0x800BF870"
definition MODE_TABLE :: u32 where "MODE_TABLE = 0x80015268"
definition GENERIC_EMITTER :: u32 where "GENERIC_EMITTER = 0x800803DC"

text \<open>The emitter and the case label it was found under; the out parameter \<open>caseLabelOut\<close> is the
  second component, 0 for the generic emitter.\<close>
definition resolve_per_mode_emitter :: "'c core_ops \<Rightarrow> u32 \<Rightarrow> ('c, u32 \<times> u32) state" where
  "resolve_per_mode_emitter K flag = do {
     force \<leftarrow> r8 K MODE_FORCE;
     (if force = 0 \<and> (flag AND 1) = 0 then do {
        mode \<leftarrow> r8 K MODE_BYTE;
        (if mode < 22 then do {
           caseLabel \<leftarrow> r32 K (MODE_TABLE + mode * 4);
           let target = per_mode_case_target caseLabel;
           (if target \<noteq> 0 then State_Monad.return (target, caseLabel)
            else if caseLabel \<noteq> 0x8003F788 then State_Monad.return (caseLabel, caseLabel)
            else State_Monad.return (GENERIC_EMITTER, 0))
         }
         else State_Monad.return (GENERIC_EMITTER, 0))
      }
      else State_Monad.return (GENERIC_EMITTER, 0))
   }"

definition per_mode_dispatch :: "'c core_ops \<Rightarrow> ('c, unit) state" where
  "per_mode_dispatch K = with_frame K 24 [(31, 16)] (do {
     flag \<leftarrow> reg K 6;
     (emitter, caseLabel) \<leftarrow> resolve_per_mode_emitter K flag;
     (if caseLabel \<noteq> 0 then do {
        _ \<leftarrow> dispatch_jal K emitter (per_mode_case_return_addr caseLabel) [];
        State_Monad.return ()
      }
      else do {
        setr K 31 0x8003F790;
        call_guest K 0x800803DC
      })
   })"

section \<open>The camera prologue of a render mode\<close>

record render_mode_prologue =
  render_mode :: u32
  for_main_follow :: u32
  for_track_follow :: u32
  main_follow_return :: u32
  track_follow_return :: u32

definition kRenderModePrologues :: "render_mode_prologue list" where
  "kRenderModePrologues =
     [\<lparr>render_mode = 2, for_main_follow = 0x80115F58, for_track_follow = 0x80116918,
       main_follow_return = 0x8006ED38, track_follow_return = 0x8006EE0C\<rparr>,
      \<lparr>render_mode = 7, for_main_follow = 0x80112DEC, for_track_follow = 0x80113660,
       main_follow_return = 0x8006ED48, track_follow_return = 0x8006EDFC\<rparr>,
      \<lparr>render_mode = 20, for_main_follow = 0x8010AD0C, for_track_follow = 0x8010B2F0,
       main_follow_return = 0x8006ED58, track_follow_return = 0x8006EE1C\<rparr>]"

definition prologue_for :: "u32 \<Rightarrow> render_mode_prologue option" where
  "prologue_for renderMode = List.find (\<lambda>row. render_mode row = renderMode) kRenderModePrologues"

section \<open>The camera modes\<close>

text \<open>\<open>CameraMode\<close> and \<open>FollowTarget\<close> by their values.\<close>
record mode_descriptor =
  mode_id :: u32
  mode_follows :: u32
  mode_entry :: u32

definition kCameraModes :: "mode_descriptor list" where
  "kCameraModes =
     [\<lparr>mode_id = 0, mode_follows = 4, mode_entry = 0x8006E0F0\<rparr>,
      \<lparr>mode_id = 1, mode_follows = 1, mode_entry = 0x8006E228\<rparr>,
      \<lparr>mode_id = 2, mode_follows = 1, mode_entry = 0x8006E294\<rparr>,
      \<lparr>mode_id = 3, mode_follows = 1, mode_entry = 0x8006E360\<rparr>,
      \<lparr>mode_id = 4, mode_follows = 1, mode_entry = 0x8006E2FC\<rparr>,
      \<lparr>mode_id = 5, mode_follows = 2, mode_entry = 0x8006E3B0\<rparr>,
      \<lparr>mode_id = 6, mode_follows = 0, mode_entry = 0\<rparr>,
      \<lparr>mode_id = 7, mode_follows = 1, mode_entry = 0x8006E3B0\<rparr>,
      \<lparr>mode_id = 8, mode_follows = 1, mode_entry = 0x8006E3F4\<rparr>,
      \<lparr>mode_id = 9, mode_follows = 3, mode_entry = 0x8018B924\<rparr>,
      \<lparr>mode_id = 10, mode_follows = 3, mode_entry = 0x8010D89C\<rparr>,
      \<lparr>mode_id = 11, mode_follows = 0, mode_entry = 0\<rparr>,
      \<lparr>mode_id = 12, mode_follows = 0, mode_entry = 0\<rparr>,
      \<lparr>mode_id = 13, mode_follows = 0, mode_entry = 0\<rparr>,
      \<lparr>mode_id = 14, mode_follows = 1, mode_entry = 0x8006E3B0\<rparr>,
      \<lparr>mode_id = 15, mode_follows = 2, mode_entry = 0x8006E3F4\<rparr>,
      \<lparr>mode_id = 16, mode_follows = 0, mode_entry = 0\<rparr>,
      \<lparr>mode_id = 17, mode_follows = 3, mode_entry = 0x80111AB4\<rparr>]"

definition descriptor_for :: "u32 \<Rightarrow> mode_descriptor option" where
  "descriptor_for m = List.find (\<lambda>row. mode_id row = m) kCameraModes"

definition guest_entry_for :: "u32 \<Rightarrow> u32" where
  "guest_entry_for m = (case descriptor_for m of Some row \<Rightarrow> mode_entry row | None \<Rightarrow> 0)"

section \<open>One step of a steered value\<close>

definition clamp_step :: "u32 \<Rightarrow> u32 \<Rightarrow> u32 \<Rightarrow> u32 option" where
  "clamp_step cur snap step =
     (let tgt = as_s16 snap in
      if cur = tgt then None
      else
        let v1 =
          (if cur <s tgt then
             let nv = cur + step; s = as_s16 nv in (if tgt <s s then snap else nv)
           else
             let nv = cur - step; s = as_s16 nv in (if s <s tgt then snap else nv))
        in Some (as_u16 v1))"

section \<open>Depths and texture scroll\<close>

text \<open>\<open>OrderingTable::extremeDepth\<close> over a non-empty list of signed depths.\<close>
definition extreme_depth :: "bool \<Rightarrow> u32 list \<Rightarrow> u32" where
  "extreme_depth farthest depths =
     sar 2 (fold (\<lambda>d m. if farthest then (if m <s d then d else m) else (if d <s m then d else m))
       (tl depths) (hd depths))"

definition scroll_uv :: "'c core_ops \<Rightarrow> u32 \<Rightarrow> u32 \<Rightarrow> u32 list \<Rightarrow> ('c, unit) state" where
  "scroll_uv K pool uvScroll halfwords = do {
     v \<leftarrow> r16 K uvScroll;
     let offset = as_s16 v;
     for_each halfwords (\<lambda>halfword. do {
       uv \<leftarrow> r16 K (pool + halfword);
       w16 K (pool + halfword) (as_s16 uv + offset)
     })
   }"

end
