(* ===== verification/GuestMath.thy ===== *)
theory GuestMath
  imports GuestCore
begin

text \<open>
  The math leaves of \<open>game/math\<close>: the shared linear congruential generator (\<open>Rng\<close>), the 12-bit
  angle functions over the guest's sine and arctangent tables (\<open>Trig\<close>), the flag-bit leaves and the
  link-request mailbox (\<open>Bit\<close>), and the identity matrix (\<open>Mtx\<close>).
  The two bit tests of \<open>mathlib.cpp\<close> are modelled with their A/B verification channel off, which is
  how the product runs them.
\<close>

section \<open>The pseudo-random generator\<close>

definition SEED_ADDR :: u32 where
  "SEED_ADDR = 0x80105EE8"

definition rng_next :: "'c core_ops \<Rightarrow> ('c, u32) state" where
  "rng_next K = do {
     seed \<leftarrow> r32 K SEED_ADDR;
     let s = seed * 0x41C64E6D + 0x3039;
     w32 K SEED_ADDR s;
     State_Monad.return (shr s 16 AND 0x7FFF)
   }"

definition rng_in_range :: "'c core_ops \<Rightarrow> u32 \<Rightarrow> u32 \<Rightarrow> ('c, u32) state" where
  "rng_in_range K lo hi = do {
     r \<leftarrow> rng_next K;
     let span = hi - lo;
     let prod = r * span;
     State_Monad.return (sar 15 prod + lo)
   }"

section \<open>Angles\<close>

definition SIN_TAB :: u32 where "SIN_TAB = 0x800A5AF0"

definition ATAN_TAB :: u32 where "ATAN_TAB = 0x800AA490"

text \<open>The lambda \<open>lh\<close> of \<open>rsin\<close> and \<open>rcos\<close>: a signed halfword of the sine table.\<close>
definition sin_lh :: "'c core_ops \<Rightarrow> u32 \<Rightarrow> ('c, u32) state" where
  "sin_lh K off = r16s K (SIN_TAB + off)"

definition rsin :: "'c core_ops \<Rightarrow> u32 \<Rightarrow> ('c, u32) state" where
  "rsin K angle0 = do {
     let sign = (if angle0 <s 0 then -1 else 1);
     let angle = (if angle0 <s 0 then - angle0 else angle0) AND 0xFFF;
     r \<leftarrow> (if angle <s 1025 then sin_lh K (angle * 2)
           else if angle <s 2049 then sin_lh K ((2048 - angle) * 2)
           else if angle <s 3073 then do { v \<leftarrow> sin_lh K ((angle - 2048) * 2); State_Monad.return (- v) }
           else do { v \<leftarrow> sin_lh K ((4096 - angle) * 2); State_Monad.return (- v) });
     State_Monad.return (sign * r)
   }"

definition rcos :: "'c core_ops \<Rightarrow> u32 \<Rightarrow> ('c, u32) state" where
  "rcos K angle0 = do {
     let angle = (if angle0 <s 0 then - angle0 else angle0) AND 0xFFF;
     (if angle <s 1025 then sin_lh K ((1024 - angle) * 2)
      else if angle <s 2049 then do { v \<leftarrow> sin_lh K ((angle - 1024) * 2); State_Monad.return (- v) }
      else if angle <s 3073 then do { v \<leftarrow> sin_lh K ((3072 - angle) * 2); State_Monad.return (- v) }
      else sin_lh K ((angle - 3072) * 2))
   }"

text \<open>\<open>a / b\<close> on \<open>int32_t\<close>: \<open>None\<close> where C++ divides by zero.\<close>
definition sdiv32 :: "u32 \<Rightarrow> u32 \<Rightarrow> u32 option" where
  "sdiv32 a b = (if b = 0 then None else Some (word_of_int (cdiv (sint a) (sint b))))"

text \<open>The table index \<open>q\<close> of \<open>ratan2\<close> for the two sign-stripped operands.\<close>
definition atan_index :: "u32 \<Rightarrow> u32 \<Rightarrow> u32 option" where
  "atan_index small big =
     (if small AND 0x7FE00000 \<noteq> 0 then sdiv32 small (sar 10 big)
      else sdiv32 (shl small 10) big)"

definition ratan2 :: "'c core_ops \<Rightarrow> u32 \<Rightarrow> u32 \<Rightarrow> ('c, u32 option) state" where
  "ratan2 K y_in x_in = do {
     let x_neg = x_in <s 0;
     let a1 = (if x_in <s 0 then 0 - x_in else x_in);
     let y_neg = y_in <s 0;
     let a0 = (if y_in <s 0 then 0 - y_in else y_in);
     (if a1 = 0 \<and> a0 = 0 then State_Monad.return (Some 0)
      else do {
        v1 \<leftarrow> (if a0 <s a1
               then (case atan_index a0 a1 of
                       None \<Rightarrow> State_Monad.return None
                     | Some q \<Rightarrow> do { v \<leftarrow> r16s K (ATAN_TAB + q * 2); State_Monad.return (Some v) })
               else (case atan_index a1 a0 of
                       None \<Rightarrow> State_Monad.return None
                     | Some q \<Rightarrow> do { v \<leftarrow> r16s K (ATAN_TAB + q * 2);
                                       State_Monad.return (Some (1024 - v)) }));
        let v2 = map_option (\<lambda>v. if x_neg then 2048 - v else v) v1;
        State_Monad.return (map_option (\<lambda>v. if y_neg then - v else v) v2)
      })
   }"

definition angle_cmp :: "u32 \<Rightarrow> u32 \<Rightarrow> u32 \<Rightarrow> u32" where
  "angle_cmp a b mode =
     (let d = (a - b - 1024) AND 0xFFF;
          inFirstHalf = (if d < 2048 then 1 else 0)
      in if mode = 0 then inFirstHalf else inFirstHalf XOR 1)"

definition vec_len :: "u32 \<Rightarrow> u32 \<Rightarrow> u32 \<Rightarrow> u32" where
  "vec_len x0 y0 z0 =
     (let x1 = (if x0 <s 0 then - x0 else x0);
          y1 = (if y0 <s 0 then - y0 else y0);
          z1 = (if z0 <s 0 then - z0 else z0);
          (x2, y2) = (if x1 <s y1 then (y1, x1) else (x1, y1));
          (x3, z3) = (if x2 <s z1 then (z1, x2) else (x2, z1));
          rest = y2 + z3
      in x3 - sar 4 x3 + sar 2 rest + sar 3 rest)"

section \<open>Flag bits\<close>

text \<open>The byte and bit a signed index selects, as both bit tests compute them.\<close>
definition bit_test :: "'c core_ops \<Rightarrow> u32 \<Rightarrow> u32 \<Rightarrow> ('c, u32) state" where
  "bit_test K base idx = do {
     let q = (if 0 \<le>s idx then idx else idx + 7);
     let a2 = sar 3 q;
     let a3 = idx - shl a2 3;
     byte \<leftarrow> r8 K (base + as_s16 a2);
     let mine = byte AND shl 1 (unat (as_s16 a3 AND 31));
     setr K 2 mine;
     State_Monad.return mine
   }"

definition test7EC :: "'c core_ops \<Rightarrow> u32 \<Rightarrow> u32 \<Rightarrow> ('c, u32) state" where
  "test7EC K idx sel =
     bit_test K (if sel AND 0xff \<noteq> 0 then 0x800BF870 + 1220 else 0x800BF870 + 1092) idx"

definition test868 :: "'c core_ops \<Rightarrow> u32 \<Rightarrow> ('c, u32) state" where
  "test868 K idx = bit_test K (0x800BF870 + 1348) idx"

definition testFE48 :: "'c core_ops \<Rightarrow> u32 \<Rightarrow> ('c, u32) state" where
  "testFE48 K idx = do {
     w \<leftarrow> r32 K 0x800BFE48;
     State_Monad.return (shr w (unat (idx AND 31)) AND 1)
   }"

definition setFE34 :: "'c core_ops \<Rightarrow> u32 \<Rightarrow> ('c, unit) state" where
  "setFE34 K idx = do {
     w \<leftarrow> r32 K 0x800BFE34;
     w32 K 0x800BFE34 (w OR shl 1 (unat (idx AND 31)))
   }"

definition setFE48 :: "'c core_ops \<Rightarrow> u32 \<Rightarrow> ('c, unit) state" where
  "setFE48 K idx = do {
     w \<leftarrow> r32 K 0x800BFE48;
     w32 K 0x800BFE48 (w OR shl 1 (unat (idx AND 31)))
   }"

definition process_link_request :: "'c core_ops \<Rightarrow> ('c, unit) state" where
  "process_link_request K = do {
     mailbox \<leftarrow> r8 K 0x800BF840;
     (if mailbox AND 0x80 = 0 then State_Monad.return ()
      else do {
        let id = mailbox AND 0xF;
        (if id < 9 then
           (if id = 0 \<or> id = 1 \<or> id = 6 then do {
              let addr = 0x800BFE3A + id;
              cnt \<leftarrow> r8 K addr;
              (if cnt < 3 then do { w8 K addr (cnt + 1); w8 K 0x800BF840 0 }
               else do { setFE48 K id; w8 K 0x800BF840 0 })
            }
            else if id = 7 \<or> id = 8 then do { setFE34 K id; setFE48 K id; w8 K 0x800BF840 0 }
            else w8 K 0x800BF840 0)
         else w8 K 0x800BF840 0)
      })
   }"

section \<open>The identity matrix\<close>

definition mtx_identity :: "'c core_ops \<Rightarrow> u32 \<Rightarrow> ('c, unit) state" where
  "mtx_identity K addr = do {
     w32 K (addr + 0) 0x00001000;
     w32 K (addr + 4) 0;
     w32 K (addr + 8) 0x00001000;
     w32 K (addr + 12) 0;
     w32 K (addr + 16) 0x00001000;
     w32 K (addr + 20) 0;
     w32 K (addr + 24) 0;
     w32 K (addr + 28) 0
   }"

definition eov_identity :: "'c core_ops \<Rightarrow> ('c, unit) state" where
  "eov_identity K = do {
     a \<leftarrow> reg K 4;
     mtx_identity K a;
     setr K 2 4096
   }"

section \<open>Lemmas\<close>

lemma top_bits_zero_iff:
  assumes "unat (w :: u32) < 2 ^ 31"
  shows "(w AND 0x7FE00000 = 0) = (unat w < 2 ^ 21)"
proof -
  have m: "(0x7FE00000 :: u32) = push_bit 21 (mask 10)"
    by (simp add: mask_eq_exp_minus_1 One_nat_def)
  have "(w AND 0x7FE00000 = 0) = (\<forall>n < 32. bit w n \<longrightarrow> \<not> (21 \<le> n \<and> n < 31))"
    unfolding m by (auto simp: bit_eq_iff bit_simps)
  also have "\<dots> = (drop_bit 21 w = 0)"
  proof
    have "drop_bit 31 w = 0"
      using assms by (simp only: unat_eq_zero [symmetric] unat_shr) simp
    then have no31: "\<not> bit w 31"
      by (simp add: bit_iff_odd_drop_bit)
    assume mid: "\<forall>n < 32. bit w n \<longrightarrow> \<not> (21 \<le> n \<and> n < 31)"
    show "drop_bit 21 w = 0"
    proof (rule bit_word_eqI)
      fix n
      have "\<not> bit w (21 + n)"
      proof
        assume b: "bit w (21 + n)"
        then have "21 + n < 32" using bit_imp_le_length [OF b] by simp
        moreover have "21 + n \<noteq> 31" using b no31 by metis
        ultimately show False using mid [THEN spec, of "21 + n"] b by simp
      qed
      then show "bit (drop_bit 21 w) n = bit (0 :: u32) n" by (simp add: bit_simps)
    qed
  next
    assume "drop_bit 21 w = 0"
    then have "\<not> bit w (21 + k)" for k
      by (metis bit_0_eq bit_drop_bit_eq bot_apply bot_bool_def comp_apply)
    then show "\<forall>n < 32. bit w n \<longrightarrow> \<not> (21 \<le> n \<and> n < 31)"
      by (metis le_Suc_ex)
  qed
  also have "\<dots> = (unat w < 2 ^ 21)"
    by (simp only: unat_eq_zero [symmetric] unat_shr) (simp add: div_eq_0_iff)
  finally show ?thesis .
qed

lemma quotient_le_1024:
  fixes s b :: int
  assumes "0 \<le> s" "s \<le> b" "0 < b"
  shows "s * 1024 div b \<le> 1024" and "2 ^ 21 \<le> s \<Longrightarrow> s div (b div 1024) \<le> 1024"
proof -
  have "s * 1024 div b \<le> b * 1024 div b" using assms by (intro zdiv_mono1) auto
  then show "s * 1024 div b \<le> 1024" using assms by simp
  assume "2 ^ 21 \<le> s"
  let ?k = "b div 1024"
  have k: "2048 \<le> ?k" using \<open>2 ^ 21 \<le> s\<close> assms by simp
  have "s \<le> 1024 * ?k + 1023" using assms by presburger
  then have "s < 1025 * ?k" using k by simp
  show "s div ?k \<le> 1024"
  proof (rule ccontr)
    assume "\<not> s div ?k \<le> 1024"
    then have "1025 * ?k \<le> s div ?k * ?k" using k by (intro mult_right_mono) auto
    also have "\<dots> \<le> s" using k by (simp add: minus_mod_eq_div_mult [symmetric])
    finally show False using \<open>s < 1025 * ?k\<close> by simp
  qed
qed

lemma sdiv32_nonneg:
  assumes "0 \<le> sint a" "0 < sint b"
  shows "\<exists>q. sdiv32 a b = Some q \<and> unat q = nat (sint a div sint b)"
proof -
  have "0 \<le> sint a div sint b" using assms by (simp add: pos_imp_zdiv_nonneg_iff)
  moreover have "sint a div sint b < 2 ^ 31"
    using zdiv_mono2 [of "sint a" 1 "sint b"] sint_range32 [of a] assms by simp
  ultimately have "unat (word_of_int (sint a div sint b) :: u32) = nat (sint a div sint b)"
    by (simp add: unat_eq_nat_uint uint_word_of_int)
  then show ?thesis using assms by (auto simp: sdiv32_def cdiv_nonneg)
qed

lemma atan_index_ok:
  assumes "unat small \<le> unat big" "0 < unat big" "unat big < 2 ^ 31"
  shows "\<exists>q. atan_index small big = Some q \<and> unat q \<le> 1024"
proof -
  have si: "sint small = int (unat small)" "sint big = int (unat big)"
    using assms sint_eq_unat [of small] sint_eq_unat [of big] by (simp_all del: of_nat_unat)
  have le: "sint small \<le> sint big" "0 < sint big" "0 \<le> sint small"
    using assms by (simp_all only: si of_nat_le_iff of_nat_0_less_iff of_nat_0_le_iff)
  have top: "(small AND 0x7FE00000 = 0) = (unat small < 2 ^ 21)"
    using assms by (intro top_bits_zero_iff) simp
  show ?thesis
  proof (cases "unat small < 2 ^ 21")
    case True
    then have "sint (shl small 10) = sint small * 1024"
      using sint_eq_unat [of "shl small 10"] shl_small [of small 10] by (simp add: si)
    with sdiv32_nonneg [of "shl small 10" big] quotient_le_1024(1) [OF le(3,1,2)] True top le
    show ?thesis by (auto simp: atan_index_def)
  next
    case False
    then have big: "2 ^ 21 \<le> sint small"
      using of_nat_le_iff [of "2 ^ 21" "unat small", where 'a = int] by (simp add: si)
    then have "0 < sint (sar 10 big)" using le by (simp add: sint_sar)
    with sdiv32_nonneg [of small "sar 10 big"] quotient_le_1024(2) [OF le(3,1,2) big] False top le
    show ?thesis by (auto simp: atan_index_def sint_sar)
  qed
qed

lemma rng_scale_bounds:
  assumes "0 \<le> r" "r \<le> 0x7FFF" "0 < d" "d \<le> (65536 :: int)"
  shows "0 \<le> r * d" "r * d < 2 ^ 31" "0 \<le> r * d div 2 ^ 15" "r * d div 2 ^ 15 < d"
proof -
  show p: "0 \<le> r * d" using assms by simp
  have le: "r * d \<le> 0x7FFF * d" using assms by (intro mult_right_mono) auto
  have "0x7FFF * d < 2 ^ 31" using assms by simp
  with le show "r * d < 2 ^ 31" by (rule order_le_less_trans)
  have "r * d div 2 ^ 15 \<le> 0x7FFF * d div 2 ^ 15" using le by (intro zdiv_mono1) auto
  also have "\<dots> < d" using assms by simp
  finally show "r * d div 2 ^ 15 < d" .
  show "0 \<le> r * d div 2 ^ 15" using p by simp
qed

lemma mod_quarter_aux: "(m :: nat) < 4096 \<Longrightarrow> \<not> m < 3072 \<Longrightarrow> (m + 1024) mod 4096 = m - 3072"
proof -
  assume m: "m < 4096" "\<not> m < 3072"
  then have "m + 1024 = (m - 3072) + 4096" by simp
  then have "(m + 1024) mod 4096 = (m - 3072) mod 4096" by (simp only: mod_add_self2)
  with m show ?thesis by simp
qed

lemma mod_quarter: "((n :: nat) + 1024) mod 4096 =
    (if n mod 4096 < 3072 then n mod 4096 + 1024 else n mod 4096 - 3072)"
proof -
  have "(n + 1024) mod 4096 = (n mod 4096 + 1024) mod 4096"
    by (simp only: mod_add_left_eq)
  moreover have "n mod 4096 < 4096" by simp
  ultimately show ?thesis
    using mod_quarter_aux [of "n mod 4096"]
    by (cases "n mod 4096 < 3072")
      (simp_all only: if_True if_False mod_less not_False_eq_True simp_thms)
qed

lemma mask12_quarter:
  assumes "unat a < 2 ^ 31"
  shows "(a + 1024) AND 0xFFF =
    (if unat (a AND 0xFFF) < 3072 then (a AND 0xFFF) + 1024 else (a AND 0xFFF) - 3072 :: u32)"
proof -
  have sum: "unat (a + 1024) = unat a + 1024"
    using assms by (subst unat_add_small) auto
  show ?thesis
  proof (cases "unat a mod 4096 < 3072")
    case True
    have "unat ((a AND 0xFFF) + 1024) = unat a mod 4096 + 1024"
      using True by (subst unat_add_small) (auto simp: unat_mask12)
    moreover have "(unat a + 1024) mod 4096 = unat a mod 4096 + 1024"
      using True by (simp add: mod_quarter)
    ultimately show ?thesis using True by (intro word_unat_eq_iff [THEN iffD2]) (simp add: unat_mask12 sum)
  next
    case False
    have "unat ((a AND 0xFFF) - 3072) = unat a mod 4096 - 3072"
      using False by (subst unat_sub) (auto simp: unat_mask12 word_le_nat_alt)
    moreover have "(unat a + 1024) mod 4096 = unat a mod 4096 - 3072"
      using False by (simp add: mod_quarter)
    ultimately show ?thesis using False by (intro word_unat_eq_iff [THEN iffD2]) (simp add: unat_mask12 sum)
  qed
qed

section \<open>Properties\<close>

text \<open>What \<open>ratan2\<close> computes from, in its own vocabulary.\<close>
definition magnitude :: "u32 \<Rightarrow> u32" where
  "magnitude z = (if z <s 0 then 0 - z else z)"

definition quadrant :: "bool \<Rightarrow> bool \<Rightarrow> u32 \<Rightarrow> u32" where
  "quadrant x_neg y_neg v =
     (let w = (if x_neg then 2048 - v else v) in if y_neg then - w else w)"

definition atan_entry :: "'c core_ops \<Rightarrow> 'c \<Rightarrow> u32 \<Rightarrow> u32" where
  "atan_entry K c q = scast (mem_r16 K c (ATAN_TAB + q * 2))"

lemma magnitude_bound: "z \<noteq> 0x80000000 \<Longrightarrow> unat (magnitude z) < 2 ^ 31"
proof -
  assume "z \<noteq> 0x80000000"
  then have "unat z \<noteq> 2 ^ 31" by (auto simp: word_unat_eq_iff)
  moreover have "unat (0 - z) = (if unat z = 0 then 0 else 2 ^ 32 - unat z)"
    by (subst unat_sub_if') simp
  ultimately show ?thesis by (auto simp: sless_zero magnitude_def)
qed

lemma ratan2_quadrant:
  "magnitude x \<noteq> 0 \<or> magnitude y \<noteq> 0 \<Longrightarrow> result (ratan2 K y x) c =
     map_option (quadrant (x <s 0) (y <s 0))
       (if magnitude y <s magnitude x
        then map_option (atan_entry K c) (atan_index (magnitude y) (magnitude x))
        else map_option (\<lambda>q. 1024 - atan_entry K c q) (atan_index (magnitude x) (magnitude y)))"
  by (auto simp: ratan2_def magnitude_def [symmetric] quadrant_def atan_entry_def Let_def
      split: option.split)

lemma mailbox_pending: "((ucast (m :: u8) AND 0x80 :: u32) = 0) = (m AND 0x80 = 0)"
proof -
  have "(0x80 :: u32) = ucast (0x80 :: u8)" by simp
  then have "ucast m AND 0x80 = (ucast (m AND 0x80) :: u32)"
    by (simp only: unsigned_and_eq)
  then show ?thesis by (simp add: unat_eq_zero [symmetric] del: unat_eq_0)
qed

text \<open>C1. A scaled random draw stays in its half-open interval: for signed bounds \<open>lo < hi\<close> no more
  than 65536 apart, \<open>Rng::inRange\<close> returns a value in \<open>[lo, hi)\<close>, so the 32-bit product does not
  overflow into the sign bit.\<close>
theorem rng_in_range_bounds:
  assumes "sint lo < sint hi" "sint hi - sint lo \<le> 65536"
  shows "sint lo \<le> sint (result (rng_in_range K lo hi) c) \<and>
         sint (result (rng_in_range K lo hi) c) < sint hi"
proof -
  let ?r = "shr (mem_r32 K c SEED_ADDR * 0x41C64E6D + 0x3039) 16 AND 0x7FFF"
  let ?d = "sint hi - sint lo"
  have span: "sint (hi - lo) = ?d"
    using assms by (intro sint_sub_small) auto
  have small: "unat ?r < 32768" by (simp add: unat_mask15)
  then have "sint ?r = int (unat ?r)" by (intro sint_eq_unat) simp
  then have r: "0 \<le> sint ?r" "sint ?r \<le> 0x7FFF"
    using small by linarith+
  note b = rng_scale_bounds [OF r, of ?d]
  have prod: "sint (?r * (hi - lo)) = sint ?r * ?d"
    using b assms span by (subst sint_mult_small) auto
  have "sint (sar 15 (?r * (hi - lo)) + lo) = sint ?r * ?d div 2 ^ 15 + sint lo"
    using b assms sint_range32 [of lo] sint_range32 [of hi]
    by (subst sint_add_small) (auto simp: sint_sar prod)
  moreover have "result (rng_in_range K lo hi) c = sar 15 (?r * (hi - lo)) + lo"
    by (simp add: rng_in_range_def rng_next_def Let_def)
  ultimately show ?thesis using b assms by simp
qed

lemma rng_in_range_bounds_witness:
  "sint (-5 :: u32) \<le> sint (result (rng_in_range idle_core (-5) 20) zero_flat) \<and>
   sint (result (rng_in_range idle_core (-5) 20) zero_flat) < sint (20 :: u32)"
  by (rule rng_in_range_bounds) simp_all

text \<open>C2. \<open>Trig::ratan2\<close> never divides by zero when neither operand is \<open>INT_MIN\<close>: it is 0 at the
  origin, and elsewhere the entry of the 1025-entry arctangent table at an index of at most 1024,
  folded into the octant and quadrant of the operands.\<close>
theorem ratan2_defined:
  assumes "y \<noteq> 0x80000000" "x \<noteq> 0x80000000"
  shows "if x = 0 \<and> y = 0 then result (ratan2 K y x) c = Some 0
    else \<exists>q. unat q \<le> 1024 \<and>
      result (ratan2 K y x) c = Some (quadrant (x <s 0) (y <s 0)
        (if magnitude y <s magnitude x then atan_entry K c q else 1024 - atan_entry K c q))"
proof (cases "x = 0 \<and> y = 0")
  case True
  then show ?thesis by (simp add: ratan2_def)
next
  case False
  have m: "unat (magnitude y) < 2 ^ 31" "unat (magnitude x) < 2 ^ 31"
    using assms magnitude_bound by blast+
  have s: "magnitude y <s magnitude x = (unat (magnitude y) < unat (magnitude x))"
    using m by (intro sless_unat)
  have nz: "magnitude x \<noteq> 0 \<or> magnitude y \<noteq> 0"
    using False by (auto simp: magnitude_def split: if_splits)
  show ?thesis
  proof (cases "magnitude y <s magnitude x")
    case True
    then obtain q where "atan_index (magnitude y) (magnitude x) = Some q" "unat q \<le> 1024"
      using atan_index_ok [of "magnitude y" "magnitude x"] m s by auto
    then show ?thesis
      using True False nz by (auto simp: ratan2_quadrant intro!: exI [of _ q])
  next
    case other: False
    then have "0 < unat (magnitude y)" using s nz by (auto simp: unat_gt_0 unat_eq_zero)
    then obtain q where "atan_index (magnitude x) (magnitude y) = Some q" "unat q \<le> 1024"
      using atan_index_ok [of "magnitude x" "magnitude y"] m s other by auto
    then show ?thesis
      using other False nz by (auto simp: ratan2_quadrant intro!: exI [of _ q])
  qed
qed

lemma ratan2_defined_witness:
  "\<exists>q. unat q \<le> 1024 \<and> result (ratan2 idle_core (-3) 4) zero_flat =
    Some (quadrant False True (atan_entry idle_core zero_flat q))"
  using ratan2_defined [of "-3" 4 idle_core zero_flat]
  by (simp add: magnitude_def word_sless_alt)

text \<open>The one input the guard of \<open>ratan2\<close> misses: \<open>INT_MIN\<close> is its own negation, so it compares as
  negative, is taken for the smaller operand and is divided by the other one, 0.\<close>
lemma ratan2_int_min: "result (ratan2 K 0x80000000 0) c = None"
  by (simp add: ratan2_def atan_index_def sdiv32_def word_sless_alt One_nat_def)



text \<open>C4. The flag word at \<open>0x800BFE48\<close> is a set of 32 flags: after \<open>Bit::setFE48(i)\<close>,
  \<open>Bit::testFE48(j)\<close> answers 1 for every \<open>j\<close> that names the same flag (equal modulo 32) and is
  unchanged for every other.\<close>
theorem set_test_FE48:
  assumes "guest_core K"
  shows "result (testFE48 K j) (exec (setFE48 K i) c) =
    (if unat i mod 32 = unat j mod 32 then 1 else result (testFE48 K j) c)"
proof -
  have "unat j mod 32 < 32" by simp
  then show ?thesis
    by (auto simp: testFE48_def setFE48_def guest_core.r32_w32_same [OF assms] in_ram_def
        bit_extract bit_simps unat_mask5)
qed

lemma set_test_FE48_witness:
  "result (testFE48 idle_core 40) (exec (setFE48 idle_core 8) zero_flat) = 1 \<and>
   result (testFE48 idle_core 9) (exec (setFE48 idle_core 8) zero_flat) =
     result (testFE48 idle_core 9) zero_flat"
  using set_test_FE48 [OF flat.guest_core_axioms, of _ 40 8]
    set_test_FE48 [OF flat.guest_core_axioms, of _ 9 8] by simp

text \<open>C5. The link-request mailbox is a one-shot handshake: whatever was posted, one call of
  \<open>Bit::processLinkRequest\<close> leaves the pending bit clear, and it grants the requester's flag in the
  word at \<open>0x800BFE48\<close> exactly when the request was pending and its id is 7 or 8, or is 0, 1 or 6
  with its retry counter already at 3 or more.\<close>
theorem link_request_handshake:
  assumes "guest_core K"
  shows "mem_r8 K (exec (process_link_request K) c) 0x800BF840 AND 0x80 = 0 \<and>
    mem_r32 K (exec (process_link_request K) c) 0x800BFE48 =
      (let m = mem_r8 K c 0x800BF840; id = ucast m AND 0xF :: u32 in
       if m AND 0x80 \<noteq> 0 \<and> (id \<in> {7, 8} \<or>
            id \<in> {0, 1, 6} \<and> 3 \<le> mem_r8 K c (0x800BFE3A + id))
       then mem_r32 K c 0x800BFE48 OR shl 1 (unat id) else mem_r32 K c 0x800BFE48)"
proof -
  note rw = guest_core.read_write [OF assms] address_simps
  let ?m = "mem_r8 K c 0x800BF840"
  define id where "id = (ucast ?m AND 0xF :: u32)"
  have pending: "((ucast ?m AND 0x80 :: u32) = 0) = (?m AND 0x80 = 0)"
    by (rule mailbox_pending)
  have few: "(ucast (mem_r8 K c a) < (3 :: u32)) = (\<not> 3 \<le> mem_r8 K c a)" for a
    by (simp add: word_less_nat_alt word_le_nat_alt not_le)
  consider "id = 0" | "id = 1" | "id = 6" | "id = 7" | "id = 8" | "id \<notin> {0, 1, 6, 7, 8}"
    by blast
  then show ?thesis
    by cases (auto simp: process_link_request_def setFE48_def setFE34_def id_def [symmetric]
        pending few rw Let_def)
qed

lemma link_request_handshake_witness:
  "mem_r32 idle_core (exec (process_link_request idle_core)
     (zero_flat\<lparr>flat_mem := (\<lambda>_. 0)(0x800BF840 := 0x87)\<rparr>)) 0x800BFE48 = 0x80"
  using link_request_handshake [OF flat.guest_core_axioms, of _
      "zero_flat\<lparr>flat_mem := (\<lambda>_. 0)(0x800BF840 := 0x87)\<rparr>"]
  by (simp add: Let_def)

end
