(* ===== verification/MatrixMath.thy ===== *)
theory MatrixMath
  imports GuestMath
begin

text \<open>
  The 3x3 fixed-point matrices of \<open>game/math/gte_math.cpp\<close>: the products \<open>Math::matMul\<close>, \<open>matLoadLV\<close>,
  \<open>applyMatlv\<close>, \<open>applyMatrixLV\<close> and \<open>applyMatrixSV\<close>, which do in C++ what the coprocessor's MVMVA does,
  and the rotation builders \<open>rotmat\<close>, \<open>rotMatSoft\<close>, \<open>rotMatSoftInverse\<close>, \<open>rotMatSoftYXZ\<close> and \<open>rotX/Y/Z\<close>.

  A matrix in a C++ array \<open>int16_t m[3][3]\<close> is the list of its rows, each a list of three sign-extended
  values. The coprocessor's registers, which the code keeps up to date for readers that are still
  guest code, belong to the runtime \<open>K\<close>.

  The lemmas show that the 44-bit running sum of the products never wraps, so that every entry is the
  exact dot product, rounded down and clamped to 16 bits.
\<close>

section \<open>The accumulator and the clamp\<close>

text \<open>\<open>sign44\<close>: bit 43 of the accumulator extended\<close>
definition sign44 :: "64 word \<Rightarrow> 64 word" where
  "sign44 v = (let v = v AND (push_bit 44 1 - 1) in
     if v AND push_bit 43 1 \<noteq> 0 then v OR NOT (push_bit 44 1 - 1) else v)"

definition clamp16s :: "u32 \<Rightarrow> u32" where
  "clamp16s v = as_s16 (if v <s - 32768 then - 32768 else if 32767 <s v then 32767 else v)"

text \<open>The three multiply-accumulate steps of one row, and the shift that follows them\<close>
definition row_mac :: "u32 list \<Rightarrow> u32 list \<Rightarrow> u32" where
  "row_mac r v = (let
     t = sign44 (0 + scast (r ! 0) * scast (v ! 0));
     t = sign44 (t + scast (r ! 1) * scast (v ! 1));
     t = sign44 (t + scast (r ! 2) * scast (v ! 2))
     in ucast (signed_drop_bit 12 t))"

section \<open>Matrices in guest memory\<close>

text \<open>\<open>(int16_t)w\<close> and \<open>(int16_t)(w >> 16)\<close>\<close>
definition lo16 :: "u32 \<Rightarrow> u32" where
  "lo16 w = as_s16 w"

definition hi16 :: "u32 \<Rightarrow> u32" where
  "hi16 w = as_s16 (shr w 16)"

text \<open>\<open>(uint16_t)lo | ((uint32_t)(uint16_t)hi << 16)\<close>\<close>
definition pack16 :: "u32 \<Rightarrow> u32 \<Rightarrow> u32" where
  "pack16 lo hi = as_u16 lo OR shl (as_u16 hi) 16"

definition mat_of_words :: "u32 \<Rightarrow> u32 \<Rightarrow> u32 \<Rightarrow> u32 \<Rightarrow> u32 \<Rightarrow> u32 list list" where
  "mat_of_words w0 w1 w2 w3 w4 =
     [[lo16 w0, hi16 w0, lo16 w1], [hi16 w1, lo16 w2, hi16 w2], [lo16 w3, hi16 w3, lo16 w4]]"

definition load_mat3 :: "'c core_ops \<Rightarrow> u32 \<Rightarrow> ('c, u32 list list) state" where
  "load_mat3 K p = do {
     w0 \<leftarrow> r32 K p; w1 \<leftarrow> r32 K (p + 4); w2 \<leftarrow> r32 K (p + 8); w3 \<leftarrow> r32 K (p + 12);
     w4 \<leftarrow> r32 K (p + 16);
     State_Monad.return (mat_of_words w0 w1 w2 w3 w4)
   }"

text \<open>Column \<open>j\<close> of a matrix, the vector of one MVMVA\<close>
definition column :: "u32 list list \<Rightarrow> nat \<Rightarrow> u32 list" where
  "column M j = [M ! 0 ! j, M ! 1 ! j, M ! 2 ! j]"

text \<open>\<open>P[i][j] = clamp16s(mac)\<close> of the two nested loops\<close>
definition mat_product :: "u32 list list \<Rightarrow> u32 list list \<Rightarrow> u32 list list" where
  "mat_product R M = map (\<lambda>i. map (\<lambda>j. clamp16s (row_mac (R ! i) (column M j))) [0, 1, 2]) [0, 1, 2]"

text \<open>\<open>for (i < 5) writeControl(i, mem_r32(p + i * 4))\<close>\<close>
definition load_rotation :: "'c core_ops \<Rightarrow> u32 \<Rightarrow> ('c, unit) state" where
  "load_rotation K p = for_each [0, 1, 2, 3, 4] (\<lambda>i. do { w \<leftarrow> r32 K (p + i * 4); gte_set_control K i w })"

text \<open>The five stores of a product.\<close>
definition store_mat3 :: "'c core_ops \<Rightarrow> u32 \<Rightarrow> u32 list list \<Rightarrow> ('c, unit) state" where
  "store_mat3 K p P = do {
     w32 K p (pack16 (P ! 0 ! 0) (P ! 0 ! 1));
     w32 K (p + 4) (pack16 (P ! 0 ! 2) (P ! 1 ! 0));
     w32 K (p + 8) (pack16 (P ! 1 ! 1) (P ! 1 ! 2));
     w32 K (p + 12) (pack16 (P ! 2 ! 0) (P ! 2 ! 1));
     w32 K (p + 16) (P ! 2 ! 2)
   }"

text \<open>\<open>Math::matMul\<close>, FUN_80084110\<close>
definition mat_mul :: "'c core_ops \<Rightarrow> u32 \<Rightarrow> u32 \<Rightarrow> u32 \<Rightarrow> ('c, u32) state" where
  "mat_mul K rPtr mPtr outPtr = do {
     R \<leftarrow> load_mat3 K rPtr;
     M \<leftarrow> load_mat3 K mPtr;
     load_rotation K rPtr;
     let P = mat_product R M;
     let mac1 = row_mac (R ! 0) (column M 2);
     let mac2 = row_mac (R ! 1) (column M 2);
     let mac3 = row_mac (R ! 2) (column M 2);
     store_mat3 K outPtr P;
     gte_set_data K 0 (pack16 (M ! 0 ! 2) (M ! 1 ! 2));
     gte_set_data K 1 (as_u16 (M ! 2 ! 2));
     gte_set_data K 9 (as_u16 (P ! 0 ! 2));
     gte_set_data K 10 (as_u16 (P ! 1 ! 2));
     gte_set_data K 11 (as_u16 (P ! 2 ! 2));
     gte_set_data K 25 mac1;
     gte_set_data K 26 mac2;
     gte_set_data K 27 mac3;
     State_Monad.return outPtr
   }"

text \<open>\<open>Math::matLoadLV\<close>, FUN_80084360: the same product, in place\<close>
definition mat_load_lv :: "'c core_ops \<Rightarrow> u32 \<Rightarrow> u32 \<Rightarrow> ('c, u32) state" where
  "mat_load_lv K rPtr vPtr = do {
     R \<leftarrow> load_mat3 K rPtr;
     M \<leftarrow> load_mat3 K vPtr;
     load_rotation K rPtr;
     vw4 \<leftarrow> r32 K (vPtr + 16);
     let P = mat_product R M;
     let mac1 = row_mac (R ! 0) (column M 2);
     let mac2 = row_mac (R ! 1) (column M 2);
     let mac3 = row_mac (R ! 2) (column M 2);
     store_mat3 K vPtr P;
     gte_set_data K 0 (pack16 (M ! 0 ! 2) (M ! 1 ! 2));
     gte_set_data K 1 vw4;
     gte_set_data K 9 (P ! 0 ! 2);
     gte_set_data K 10 (P ! 1 ! 2);
     gte_set_data K 11 (P ! 2 ! 2);
     gte_set_data K 25 mac1;
     gte_set_data K 26 mac2;
     gte_set_data K 27 mac3;
     State_Monad.return vPtr
   }"

section \<open>A matrix applied to a vector\<close>

text \<open>\<open>{(int16_t)w0, (int16_t)(w0 >> 16), (int16_t)w1}\<close>\<close>
definition vec_of_words :: "u32 \<Rightarrow> u32 \<Rightarrow> u32 list" where
  "vec_of_words w0 w1 = [lo16 w0, hi16 w0, lo16 w1]"

text \<open>What the coprocessor is left with: the vector, the clamped results and the accumulators.\<close>
definition leave_vector :: "'c core_ops \<Rightarrow> u32 \<Rightarrow> u32 \<Rightarrow> u32 list \<Rightarrow> u32 list \<Rightarrow> ('c, unit) state" where
  "leave_vector K w0 w1 ir mac = do {
     gte_set_data K 0 w0;
     gte_set_data K 1 w1;
     gte_set_data K 9 (ir ! 0);
     gte_set_data K 10 (ir ! 1);
     gte_set_data K 11 (ir ! 2);
     gte_set_data K 25 (mac ! 0);
     gte_set_data K 26 (mac ! 1);
     gte_set_data K 27 (mac ! 2)
   }"

text \<open>\<open>Math::applyMatrixLV\<close>, FUN_80084470: stores the accumulators\<close>
definition apply_matrix_lv :: "'c core_ops \<Rightarrow> u32 \<Rightarrow> u32 \<Rightarrow> u32 \<Rightarrow> ('c, u32) state" where
  "apply_matrix_lv K mPtr inPtr out = do {
     load_rotation K mPtr;
     R \<leftarrow> load_mat3 K mPtr;
     w0 \<leftarrow> r32 K inPtr;
     w1 \<leftarrow> r32 K (inPtr + 4);
     let v = vec_of_words w0 w1;
     let mac = map (\<lambda>r. row_mac r v) R;
     let ir = map clamp16s mac;
     w32 K out (mac ! 0);
     w32 K (out + 4) (mac ! 1);
     w32 K (out + 8) (mac ! 2);
     leave_vector K w0 w1 ir mac;
     State_Monad.return out
   }"

text \<open>\<open>Math::applyMatrixSV\<close>, FUN_800844C0: stores the clamped results as three shorts\<close>
definition apply_matrix_sv :: "'c core_ops \<Rightarrow> u32 \<Rightarrow> u32 \<Rightarrow> u32 \<Rightarrow> ('c, u32) state" where
  "apply_matrix_sv K mPtr inPtr out = do {
     load_rotation K mPtr;
     R \<leftarrow> load_mat3 K mPtr;
     vxy \<leftarrow> r32 K inPtr;
     vz \<leftarrow> r32 K (inPtr + 4);
     let v = vec_of_words vxy vz;
     let mac = map (\<lambda>r. row_mac r v) R;
     let ir = map clamp16s mac;
     w16 K out (as_u16 (ir ! 0));
     w16 K (out + 2) (as_u16 (ir ! 1));
     w16 K (out + 4) (as_u16 (ir ! 2));
     leave_vector K vxy vz ir mac;
     State_Monad.return out
   }"

text \<open>\<open>Math::applyMatlv\<close>, FUN_80084220: the matrix is the one already in the control registers\<close>
definition apply_matlv :: "'c core_ops \<Rightarrow> u32 \<Rightarrow> u32 \<Rightarrow> ('c, u32) state" where
  "apply_matlv K inPtr out = do {
     w0 \<leftarrow> r32 K inPtr;
     w1 \<leftarrow> r32 K (inPtr + 4);
     let v = vec_of_words w0 w1;
     cr0 \<leftarrow> gte_control K 0; cr1 \<leftarrow> gte_control K 1; cr2 \<leftarrow> gte_control K 2; cr3 \<leftarrow> gte_control K 3;
     cr4 \<leftarrow> gte_control K 4;
     let R = mat_of_words cr0 cr1 cr2 cr3 cr4;
     let mac = map (\<lambda>r. row_mac r v) R;
     let ir = map clamp16s mac;
     w32 K out (ir ! 0);
     w32 K (out + 4) (ir ! 1);
     w32 K (out + 8) (ir ! 2);
     leave_vector K w0 w1 ir mac;
     State_Monad.return out
   }"

section \<open>Rotations\<close>

definition kSinCosTable :: u32 where "kSinCosTable = 0x800A6490"
definition kAngleMask :: u32 where "kAngleMask = 0xFFF"

text \<open>\<open>lutSinCos\<close>: the pair of sine and cosine\<close>
definition lut_sin_cos :: "'c core_ops \<Rightarrow> u32 \<Rightarrow> ('c, u32 \<times> u32) state" where
  "lut_sin_cos K angle = do {
     let index = (if 0 \<le>s angle then angle AND kAngleMask else (0 - angle) AND kAngleMask);
     word \<leftarrow> r32 K (kSinCosTable + shl index 2);
     let sinv = lo16 word;
     State_Monad.return (if angle <s 0 then - sinv else sinv, sar 16 word)
   }"

text \<open>\<open>gpf1\<close>, one product of the coprocessor's GPF, and \<open>lmC\<close>, its colour limiter\<close>
definition gpf1 :: "u32 \<Rightarrow> u32 \<Rightarrow> u32" where
  "gpf1 ir0 ir = clamp16s (sar 12 (ir0 * ir))"

definition lmC :: "u32 \<Rightarrow> u32" where
  "lmC v = as_u8 (if v <s 0 then 0 else if 255 <s v then 255 else v)"

text \<open>\<open>MKCOL\<close>\<close>
definition mkcol :: "u32 \<Rightarrow> u32 \<Rightarrow> u32 \<Rightarrow> u32 \<Rightarrow> u32" where
  "mkcol cd a b d =
     ((lmC (sar 4 a) OR shl (lmC (sar 4 b)) 8) OR shl (lmC (sar 4 d)) 16) OR shl cd 24"

text \<open>\<open>Math::rotmat\<close>, FUN_80085480\<close>
definition rotmat :: "'c core_ops \<Rightarrow> u32 \<Rightarrow> u32 \<Rightarrow> ('c, u32) state" where
  "rotmat K anglesPtr out = do {
     w0 \<leftarrow> r32 K anglesPtr;
     (sx, cx) \<leftarrow> lut_sin_cos K (lo16 w0);
     (sy, cy) \<leftarrow> lut_sin_cos K (hi16 w0);
     vz \<leftarrow> r16s K (anglesPtr + 4);
     (sz, cz) \<leftarrow> lut_sin_cos K vz;
     let cxsz = gpf1 cx sz; let cxsy = gpf1 cx sy; let cxcz = gpf1 cx cz;
     let sxsy = gpf1 sx sy; let sxsz = gpf1 sx sz; let sxcz = gpf1 sx cz;
     let czcy = gpf1 cz cy; let cz_sxsy = gpf1 cz sxsy; let cz_cxsy = gpf1 cz cxsy;
     let szcy = gpf1 sz cy; let sz_sxsy = gpf1 sz sxsy; let sz_cxsy = gpf1 sz cxsy;
     let cycx = as_s16 (sar 12 (cy * cx));
     let cysx = as_s16 (sar 12 (cy * sx));
     let m00 = czcy; let m01 = as_s16 (- szcy); let m02 = as_s16 sy;
     let m10 = as_s16 (cz_sxsy + cxsz); let m11 = as_s16 (cxcz - sz_sxsy); let m12 = as_s16 (- cysx);
     let m20 = as_s16 (sxsz - cz_cxsy); let m21 = as_s16 (sxcz + sz_cxsy); let m22 = cycx;
     w32 K out (pack16 m00 m01);
     w32 K (out + 4) (pack16 m02 m10);
     w32 K (out + 8) (pack16 m11 m12);
     w32 K (out + 12) (pack16 m20 m21);
     w16 K (out + 16) (as_u16 m22);
     let r4m1 = sar 12 (sz * cy); let r4m2 = sar 12 (sz * sxsy); let r4m3 = sar 12 (sz * cxsy);
     gte_set_data K 8 (as_s16 sz);
     gte_set_data K 9 szcy;
     gte_set_data K 10 sz_sxsy;
     gte_set_data K 11 sz_cxsy;
     gte_set_data K 25 r4m1;
     gte_set_data K 26 r4m2;
     gte_set_data K 27 r4m3;
     g6 \<leftarrow> gte_data K 6;
     let cd = shr g6 24 AND 0xFF;
     let r2m1 = sar 12 (sx * sy); let r2m2 = sar 12 (sx * sz); let r2m3 = sar 12 (sx * cz);
     let r3m1 = sar 12 (cz * cy); let r3m2 = sar 12 (cz * sxsy); let r3m3 = sar 12 (cz * cxsy);
     gte_set_data K 20 (mkcol cd r2m1 r2m2 r2m3);
     gte_set_data K 21 (mkcol cd r3m1 r3m2 r3m3);
     gte_set_data K 22 (mkcol cd r4m1 r4m2 r4m3);
     State_Monad.return out
   }"

text \<open>\<open>rotpair\<close>: two rows turned in their plane; \<open>negate\<close> is \<open>sinSign < 0\<close>\<close>
definition rotpair :: "'c core_ops \<Rightarrow> u32 \<Rightarrow> u32 \<Rightarrow> u32 \<Rightarrow> bool \<Rightarrow> u32 \<Rightarrow> ('c, u32) state" where
  "rotpair K angle rowA rowB negate matPtr = do {
     (s0, co) \<leftarrow> lut_sin_cos K angle;
     let s = (if negate then - s0 else s0);
     a0 \<leftarrow> r16s K (matPtr + rowA); b0 \<leftarrow> r16s K (matPtr + rowB);
     a1 \<leftarrow> r16s K (matPtr + rowA + 2); b1 \<leftarrow> r16s K (matPtr + rowB + 2);
     a2 \<leftarrow> r16s K (matPtr + rowA + 4); b2 \<leftarrow> r16s K (matPtr + rowB + 4);
     for_each [(0, a0, b0), (2, a1, b1), (4, a2, b2)]
       (\<lambda>(o1, a, b). w16 K (matPtr + rowA + o1) (as_u16 (sar 12 (co * a - s * b))));
     for_each [(0, a0, b0), (2, a1, b1), (4, a2, b2)]
       (\<lambda>(o1, a, b). w16 K (matPtr + rowB + o1) (as_u16 (sar 12 (s * a + co * b))));
     State_Monad.return matPtr
   }"

definition rotZ :: "'c core_ops \<Rightarrow> u32 \<Rightarrow> u32 \<Rightarrow> ('c, u32) state" where
  "rotZ K angle matPtr = rotpair K angle 0 6 False matPtr"

definition rotY :: "'c core_ops \<Rightarrow> u32 \<Rightarrow> u32 \<Rightarrow> ('c, u32) state" where
  "rotY K angle matPtr = rotpair K angle 0 12 True matPtr"

definition rotX :: "'c core_ops \<Rightarrow> u32 \<Rightarrow> u32 \<Rightarrow> ('c, u32) state" where
  "rotX K angle matPtr = rotpair K angle 6 12 False matPtr"

text \<open>The lambda \<open>q\<close> of the software builders\<close>
definition q12 :: "u32 \<Rightarrow> u32" where
  "q12 x = sar 12 x"

text \<open>\<open>Math::rotMatSoft\<close>, FUN_800847F0\<close>
definition rot_mat_soft :: "'c core_ops \<Rightarrow> u32 \<Rightarrow> u32 \<Rightarrow> ('c, u32) state" where
  "rot_mat_soft K anglesPtr out = do {
     vx \<leftarrow> r16s K anglesPtr; (sA, cA) \<leftarrow> lut_sin_cos K vx;
     vy \<leftarrow> r16s K (anglesPtr + 2); (sB, cB) \<leftarrow> lut_sin_cos K vy;
     vz \<leftarrow> r16s K (anglesPtr + 4); (sC, cC) \<leftarrow> lut_sin_cos K vz;
     let t1 = q12 (- (cC * sB));
     let t2 = q12 (- (sC * sB));
     w16 K out (as_u16 (q12 (cC * cB)));
     w16 K (out + 2) (as_u16 (q12 (- (sC * cB))));
     w16 K (out + 4) (as_u16 sB);
     w16 K (out + 6) (as_u16 (q12 (sC * cA) - q12 (t1 * sA)));
     w16 K (out + 8) (as_u16 (q12 (cC * cA) + q12 (t2 * sA)));
     w16 K (out + 10) (as_u16 (q12 (- (cB * sA))));
     w16 K (out + 12) (as_u16 (q12 (sC * sA) + q12 (t1 * cA)));
     w16 K (out + 14) (as_u16 (q12 (cC * sA) - q12 (t2 * cA)));
     w16 K (out + 16) (as_u16 (q12 (cB * cA)));
     State_Monad.return out
   }"

text \<open>\<open>Math::rotMatSoftInverse\<close>, FUN_80084A80\<close>
definition rot_mat_soft_inverse :: "'c core_ops \<Rightarrow> u32 \<Rightarrow> u32 \<Rightarrow> ('c, u32) state" where
  "rot_mat_soft_inverse K anglesPtr out = do {
     vx \<leftarrow> r16s K anglesPtr; (sA, cA) \<leftarrow> lut_sin_cos K vx;
     vy \<leftarrow> r16s K (anglesPtr + 2); (sB, cB) \<leftarrow> lut_sin_cos K vy;
     vz \<leftarrow> r16s K (anglesPtr + 4); (sC, cC) \<leftarrow> lut_sin_cos K vz;
     let sAsB = q12 (sA * sB);
     let cAsB = q12 (cA * sB);
     w16 K (out + 12) (as_u16 (- sB));
     w16 K (out + 14) (as_u16 (q12 (sA * cB)));
     w16 K (out + 16) (as_u16 (q12 (cA * cB)));
     w16 K out (as_u16 (q12 (cB * cC)));
     w16 K (out + 6) (as_u16 (q12 (sC * cB)));
     w16 K (out + 2) (as_u16 (q12 (sAsB * cC) - q12 (sC * cA)));
     w16 K (out + 8) (as_u16 (q12 (sAsB * sC) + q12 (cA * cC)));
     w16 K (out + 4) (as_u16 (q12 (cAsB * cC) + q12 (sA * sC)));
     w16 K (out + 10) (as_u16 (q12 (cAsB * sC) - q12 (sA * cC)));
     State_Monad.return out
   }"

text \<open>\<open>Math::rotMatSoftYXZ\<close>, FUN_800851F0\<close>
definition rot_mat_soft_yxz :: "'c core_ops \<Rightarrow> u32 \<Rightarrow> u32 \<Rightarrow> ('c, u32) state" where
  "rot_mat_soft_yxz K anglesPtr out = do {
     vx \<leftarrow> r16s K anglesPtr; (sX, cX) \<leftarrow> lut_sin_cos K vx;
     vy \<leftarrow> r16s K (anglesPtr + 2); (sY, cY) \<leftarrow> lut_sin_cos K vy;
     vz \<leftarrow> r16s K (anglesPtr + 4); (sZ, cZ) \<leftarrow> lut_sin_cos K vz;
     let sXsY = q12 (sX * sY);
     let sXcY = q12 (sX * cY);
     w16 K (out + 14) (as_u16 sX);
     w16 K (out + 12) (as_u16 (q12 (- (cX * sY))));
     w16 K (out + 16) (as_u16 (q12 (cX * cY)));
     w16 K (out + 8) (as_u16 (q12 (cZ * cX)));
     w16 K (out + 2) (as_u16 (q12 (- (sZ * cX))));
     w16 K out (as_u16 (q12 (cZ * cY) - q12 (sXsY * sZ)));
     w16 K (out + 6) (as_u16 (q12 (sZ * cY) + q12 (sXsY * cZ)));
     w16 K (out + 4) (as_u16 (q12 (cZ * sY) + q12 (sXcY * sZ)));
     w16 K (out + 10) (as_u16 (q12 (sZ * sY) - q12 (sXcY * cZ)));
     State_Monad.return out
   }"

section \<open>The accumulator is exact\<close>

lemma sint_word64:
  assumes "- (2 ^ 43) \<le> k" "k < 2 ^ 43"
  shows "sint (word_of_int k :: 64 word) = k"
  using assms by (simp add: sint_sbintrunc' signed_take_bit_int_eq_self)

lemma sign44_masks:
  "push_bit 44 1 - 1 = (mask 44 :: 64 word)"
  "(v AND push_bit 43 1 \<noteq> 0) = bit (v :: 64 word) 43"
  by (simp_all only: mask_eq_exp_minus_1 push_bit_of_1 and_exp_eq_0_iff_not_bit not_not)

lemma sign44_signed: "sign44 v = word_of_int (signed_take_bit 43 (sint v))"
proof (rule bit_word_eqI)
  fix n assume n: "n < LENGTH(64)"
  have high: "bit (v AND mask 44) 43 = bit v 43"
    by (simp only: bit_and_iff bit_mask_iff) simp
  have top: "bit (sint v) 43 = bit v 43"
    by (simp add: bit_sint_iff)
  have split: "bit (sign44 v) n = (if bit v 43 then bit v n \<and> n < 44 \<or> 44 \<le> n else bit v n \<and> n < 44)"
    using n unfolding sign44_def Let_def sign44_masks high
    by (auto simp: bit_or_iff bit_and_iff bit_not_iff bit_mask_iff not_less)
  show "bit (sign44 v) n = bit (word_of_int (signed_take_bit 43 (sint v)) :: 64 word) n"
    using n unfolding split
    by (cases "n = 43") (auto simp: min_def not_less top bit_sint_iff bit_signed_take_bit_iff bit_word_of_int_iff)
qed

lemma sign44_exact: "- (2 ^ 43) \<le> sint v \<Longrightarrow> sint v < 2 ^ 43 \<Longrightarrow> sign44 v = v"
  by (simp add: sign44_signed signed_take_bit_int_eq_self)

text \<open>A 16-bit value, sign extended.\<close>
definition short_val :: "u32 \<Rightarrow> bool" where
  "short_val x \<longleftrightarrow> - 32768 \<le> sint x \<and> sint x < 32768"

lemma short_as_s16 [simp]: "short_val (as_s16 x)"
  using sint_greater_eq [of "ucast x :: u16"] sint_less [of "ucast x :: u16"]
  by (simp add: short_val_def as_s16_def)

lemma short_lo16 [simp]: "short_val (lo16 w)" and short_hi16 [simp]: "short_val (hi16 w)"
  and short_clamp [simp]: "short_val (clamp16s w)"
  by (simp_all add: lo16_def hi16_def clamp16s_def)

lemma as_s16_short: "short_val x \<Longrightarrow> as_s16 x = x"
proof -
  assume "short_val x"
  then have "signed_take_bit 15 (sint x) = sint x"
    by (simp add: short_val_def signed_take_bit_int_eq_self)
  then have "sint (word_of_int (sint x) :: u16) = sint x"
    by (simp only: sint_sbintrunc') simp
  moreover have "(word_of_int (sint x) :: u16) = ucast x"
    by (rule bit_word_eqI) (simp add: bit_simps min_def)
  ultimately have "sint (as_s16 x) = sint x" by (simp add: as_s16_def)
  then show ?thesis by (rule signed_word_eqI)
qed

lemma short_product:
  assumes "short_val x" "short_val y"
  shows "\<bar>sint x * sint y\<bar> \<le> 2 ^ 30"
proof -
  have "\<bar>sint x\<bar> \<le> 2 ^ 15" "\<bar>sint y\<bar> \<le> 2 ^ 15" using assms by (auto simp: short_val_def)
  then have "\<bar>sint x\<bar> * \<bar>sint y\<bar> \<le> 2 ^ 15 * 2 ^ 15" by (intro mult_mono) auto
  then show ?thesis by (simp add: abs_mult)
qed

lemma wide_product:
  "(scast x * scast y :: 64 word) = word_of_int (sint x * sint (y :: u32))"
  by (simp only: scast_eq of_int_mult)

lemma nth_row: "[a, b, c] ! 1 = b" "[a, b, c] ! 2 = c"
  by simp_all

text \<open>The sum of three products of 16-bit values fits the 44-bit accumulator at every step.\<close>
lemma row_mac_exact:
  assumes "short_val a1" "short_val a2" "short_val a3" "short_val b1" "short_val b2" "short_val b3"
  shows "sint (row_mac [a1, a2, a3] [b1, b2, b3]) =
    (sint a1 * sint b1 + sint a2 * sint b2 + sint a3 * sint b3) div 4096"
proof -
  define p q r where "p = sint a1 * sint b1" and "q = sint a2 * sint b2" and "r = sint a3 * sint b3"
  have bounds: "\<bar>p\<bar> \<le> 2 ^ 30" "\<bar>q\<bar> \<le> 2 ^ 30" "\<bar>r\<bar> \<le> 2 ^ 30"
    unfolding p_def q_def r_def by (rule short_product; fact)+
  have s1: "sign44 (word_of_int p) = word_of_int p"
    and s2: "sign44 (word_of_int (p + q)) = word_of_int (p + q)"
    and s3: "sign44 (word_of_int (p + q + r)) = word_of_int (p + q + r)"
    using bounds by (auto intro!: sign44_exact simp: sint_word64 simp del: of_int_add)
  have "row_mac [a1, a2, a3] [b1, b2, b3] = ucast (signed_drop_bit 12 (word_of_int (p + q + r) :: 64 word))"
    unfolding row_mac_def Let_def by (simp only: nth_Cons_0 nth_row wide_product add_0 of_int_add [symmetric]
        p_def [symmetric] q_def [symmetric] r_def [symmetric] s1 s2 s3)
  also have "\<dots> = word_of_int (sint (signed_drop_bit 12 (word_of_int (p + q + r) :: 64 word)))"
    by (rule bit_word_eqI) (simp add: bit_simps min_def)
  also have "\<dots> = word_of_int ((p + q + r) div 4096)"
    using bounds by (simp add: sint_signed_drop_bit_eq drop_bit_eq_div sint_word64 del: of_int_add)
  finally show ?thesis
    using bounds by (simp add: sint_word_of_int_small p_def q_def r_def)
qed

lemma sint_clamp16s: "sint (clamp16s w) = max (- 32768) (min 32767 (sint w))"
proof -
  have "sint (- 32768 :: u32) = - 32768" "sint (32767 :: u32) = 32767" by simp_all
  then show ?thesis
    unfolding clamp16s_def by (subst as_s16_short) (auto simp: short_val_def word_sless_alt)
qed

section \<open>Matrices\<close>

text \<open>Three rows of three 16-bit values.\<close>
definition short_matrix :: "u32 list list \<Rightarrow> bool" where
  "short_matrix M \<longleftrightarrow> length M = 3 \<and> (\<forall>r \<in> set M. length r = 3 \<and> (\<forall>x \<in> set r. short_val x))"

lemma short_mat_of_words [simp]: "short_matrix (mat_of_words w0 w1 w2 w3 w4)"
  by (simp add: short_matrix_def mat_of_words_def)

lemma length_3: "length xs = 3 \<longleftrightarrow> (\<exists>a b c. xs = [a, b, c])"
  by (auto simp: numeral_3_eq_3 length_Suc_conv)

lemma three_list: "length xs = 3 \<Longrightarrow> xs = [xs ! 0, xs ! 1, xs ! 2]"
  by (auto simp: length_3)

lemma short_entry:
  assumes "short_matrix M" "i < 3"
  shows "length (M ! i) = 3" "j < 3 \<Longrightarrow> short_val (M ! i ! j)"
proof -
  have row: "M ! i \<in> set M" using assms by (simp add: short_matrix_def)
  then show len: "length (M ! i) = 3" using assms by (simp add: short_matrix_def)
  show "short_val (M ! i ! j)" if "j < 3"
  proof -
    have "M ! i ! j \<in> set (M ! i)" using that len by simp
    then show ?thesis using row assms by (auto simp: short_matrix_def)
  qed
qed

lemma mat_product_entry:
  assumes "short_matrix R" "short_matrix M" "i < 3" "j < 3"
  shows "sint (mat_product R M ! i ! j) = max (- 32768) (min 32767
    ((sint (R ! i ! 0) * sint (M ! 0 ! j) + sint (R ! i ! 1) * sint (M ! 1 ! j)
      + sint (R ! i ! 2) * sint (M ! 2 ! j)) div 4096))"
proof -
  have "mat_product R M ! i ! j = clamp16s (row_mac (R ! i) (column M j))"
    using below_three [OF assms(3)] below_three [OF assms(4)]
    by (elim disjE) (simp_all add: mat_product_def)
  moreover have "R ! i = [R ! i ! 0, R ! i ! 1, R ! i ! 2]"
    using short_entry(1) [OF assms(1,3)] by (rule three_list)
  moreover have "short_val (R ! i ! 0)" "short_val (R ! i ! 1)" "short_val (R ! i ! 2)"
    "short_val (M ! 0 ! j)" "short_val (M ! 1 ! j)" "short_val (M ! 2 ! j)"
    using assms by (auto intro: short_entry(2))
  ultimately show ?thesis
    unfolding column_def by (metis sint_clamp16s row_mac_exact)
qed

lemma short_mat_product [simp]: "short_matrix (mat_product R M)"
  by (simp add: short_matrix_def mat_product_def)

lemma hi_lo_pack:
  "lo16 (pack16 x y) = as_s16 x" "hi16 (pack16 x y) = as_s16 y"
  unfolding lo16_def hi16_def pack16_def as_u16_def as_s16_def mask_numerals
  by (rule arg_cong [where f = scast], rule bit_word_eqI, auto simp: bit_simps)+

lemma three_shorts: "length r = 3 \<Longrightarrow> \<forall>x \<in> set r. short_val x \<Longrightarrow> map as_s16 r = r"
  by (auto simp: as_s16_short intro: map_idI)

lemma matrix_entries: "short_matrix P \<Longrightarrow>
  P = [[P ! 0 ! 0, P ! 0 ! 1, P ! 0 ! 2], [P ! 1 ! 0, P ! 1 ! 1, P ! 1 ! 2], [P ! 2 ! 0, P ! 2 ! 1, P ! 2 ! 2]]"
  by (auto simp: short_matrix_def length_3)

lemma lo16_short: "short_val x \<Longrightarrow> lo16 x = x"
  by (simp add: lo16_def as_s16_short)

lemma mat_of_packed:
  assumes "short_matrix P"
  shows "mat_of_words (pack16 (P ! 0 ! 0) (P ! 0 ! 1)) (pack16 (P ! 0 ! 2) (P ! 1 ! 0))
     (pack16 (P ! 1 ! 1) (P ! 1 ! 2)) (pack16 (P ! 2 ! 0) (P ! 2 ! 1)) (P ! 2 ! 2) = P"
  using assms short_entry(2) [OF assms]
  by (subst (10) matrix_entries [OF assms]) (simp add: mat_of_words_def hi_lo_pack as_s16_short lo16_short)

lemma mat3_words:
  "in_ram p 20 \<Longrightarrow> in_ram p 4" "in_ram p 20 \<Longrightarrow> in_ram (p + 4) 4" "in_ram p 20 \<Longrightarrow> in_ram (p + 8) 4"
  "in_ram p 20 \<Longrightarrow> in_ram (p + 12) 4" "in_ram p 20 \<Longrightarrow> in_ram (p + 16) 4"
  by (simp_all add: in_ram_offset in_ram_shorter)

lemma exec_load_mat3 [simp]: "exec (load_mat3 K p) c = c"
  by (simp add: load_mat3_def)

lemma short_load_mat3 [simp]: "short_matrix (result (load_mat3 K p) c)"
  by (simp add: load_mat3_def)

context guest_gte
begin

lemma load_mat3_gte_data: "in_ram p 20 \<Longrightarrow>
    result (load_mat3 K p) (gte_put_data K c g v) = result (load_mat3 K p) c"
  by (simp add: load_mat3_def mem_gte mat3_words)

lemma load_store_mat3:
  assumes out: "in_ram p 20" and P: "short_matrix P"
  shows "result (load_mat3 K p) (exec (store_mat3 K p P) c) = P"
  using mat3_words [OF out]
  by (simp add: store_mat3_def load_mat3_def read_write apart_def mat_of_packed [OF P])

lemma load_mat3_mat_mul:
  assumes "in_ram outPtr 20"
  shows "result (load_mat3 K outPtr) (exec (mat_mul K rPtr mPtr outPtr) c) =
    mat_product (result (load_mat3 K rPtr) c) (result (load_mat3 K mPtr) c)"
  using assms by (simp add: mat_mul_def Let_def split_beta exec_load_mat3 load_mat3_gte_data load_store_mat3)

text \<open>\<open>matLoadLV\<close> is \<open>matMul\<close> with the destination in the place of the second factor.\<close>
lemma mat_load_lv_memory:
  assumes "in_ram a 1"
  shows "mem_r8 K (exec (mat_load_lv K rPtr vPtr) c) a = mem_r8 K (exec (mat_mul K rPtr vPtr vPtr) c) a"
  using assms by (simp add: mat_load_lv_def mat_mul_def Let_def split_beta exec_load_mat3 mem_gte)

lemma control_keeps_memory:
  assumes "in_ram a 1"
  shows "mem_r8 K (exec (load_rotation K p) c) a = mem_r8 K c a"
  by (simp add: load_rotation_def split_beta mem_gte assms)

end

section \<open>The identity\<close>

definition unit_matrix :: "u32 list list" where
  "unit_matrix = [[0x1000, 0, 0], [0, 0x1000, 0], [0, 0, 0x1000]]"

lemma mat_of_unit_words: "mat_of_words 0x1000 0 0x1000 0 0x1000 = unit_matrix"
proof -
  have "lo16 0x1000 = 0x1000" "lo16 0 = 0"
    by (simp_all add: lo16_short short_val_def)
  then show ?thesis by (simp add: mat_of_words_def unit_matrix_def hi16_def lo16_def)
qed

lemma unit_matrix_left:
  assumes M: "short_matrix M"
  shows "mat_product unit_matrix M = M"
proof (rule nth_equalityI)
  have R: "short_matrix unit_matrix"
    by (simp add: unit_matrix_def short_matrix_def short_val_def)
  show len: "length (mat_product unit_matrix M) = length M"
    using M short_mat_product [of unit_matrix M] by (simp add: short_matrix_def)
  fix i assume "i < length (mat_product unit_matrix M)"
  then have i: "i < 3" using len M by (simp add: short_matrix_def)
  show "mat_product unit_matrix M ! i = M ! i"
  proof (rule nth_equalityI)
    show rows: "length (mat_product unit_matrix M ! i) = length (M ! i)"
      using short_entry(1) [OF M i] short_entry(1) [OF short_mat_product i] by simp
    fix j assume "j < length (mat_product unit_matrix M ! i)"
    then have j: "j < 3" using rows short_entry(1) [OF M i] by simp
    have "sint (mat_product unit_matrix M ! i ! j) = sint (M ! i ! j)"
      using mat_product_entry [OF R M i j] short_entry(2) [OF M i j] below_three [OF i]
      by (elim disjE) (simp_all add: unit_matrix_def short_val_def)
    then show "mat_product unit_matrix M ! i ! j = M ! i ! j" by (rule signed_word_eqI)
  qed
qed

context guest_core
begin

lemma load_mat3_cong:
  assumes p: "in_ram p 20" and same: "\<And>x. x \<in> span p 20 \<Longrightarrow> mem_r8 K c' x = mem_r8 K c x"
  shows "result (load_mat3 K p) c' = result (load_mat3 K p) c"
proof -
  have "mem_r32 K c' (p + o1) = mem_r32 K c (p + o1)" if "unat o1 + 4 \<le> 20" for o1
  proof (rule r32_cong)
    show "in_ram (p + o1) 4" using p that by (rule in_ram_offset)
    fix x assume "x \<in> span (p + o1) 4"
    then have "unat (x - (p + o1)) < 4" by simp
    moreover from this have "unat (x - p) = unat (x - (p + o1)) + unat o1"
      using that unat_add_small [of "x - (p + o1)" o1] by (simp add: algebra_simps)
    ultimately show "mem_r8 K c' x = mem_r8 K c x" using that by (intro same) simp
  qed
  from this [of 0] this [of 4] this [of 8] this [of 12] this [of 16] show ?thesis
    by (simp add: load_mat3_def)
qed

lemma mtx_identity_words:
  assumes "in_ram p 32"
  shows "in_ram p 4" "in_ram (p + 4) 4" "in_ram (p + 8) 4" "in_ram (p + 12) 4" "in_ram (p + 16) 4"
    "in_ram (p + 20) 4" "in_ram (p + 24) 4" "in_ram (p + 28) 4"
  using assms by (simp_all add: in_ram_offset in_ram_shorter)

lemma load_mat3_identity:
  "in_ram p 32 \<Longrightarrow> result (load_mat3 K p) (exec (mtx_identity K p) c) = unit_matrix"
  using mtx_identity_words [of p]
  by (simp add: mtx_identity_def load_mat3_def read_write apart_def mat_of_unit_words)

lemma mtx_identity_writes: "in_ram p 32 \<Longrightarrow> writes_within K (span p 32) (mtx_identity K p)"
  using mtx_identity_words [of p] unfolding mtx_identity_def
  by (auto intro!: footprint writes_within_w32 simp: add.assoc)

lemma load_mat3_beside_identity:
  assumes p: "in_ram p 32" and q: "in_ram q 20" and far: "apart p 32 q 20"
  shows "result (load_mat3 K q) (exec (mtx_identity K p) c) = result (load_mat3 K q) c"
proof (rule load_mat3_cong [OF q])
  fix x assume x: "x \<in> span q 20"
  have "apart p 32 x 1" using far x by (rule apart_byte) simp
  then have "x \<notin> span p 32" by (simp add: apart_def)
  with in_ram_span [OF q x] show "mem_r8 K (exec (mtx_identity K p) c) x = mem_r8 K c x"
    using mtx_identity_writes [OF p] by (rule writes_withinD [rotated])
qed

end

section \<open>Properties\<close>

text \<open>C22. \<open>Math::matMul\<close> leaves at its destination the fixed-point product of the two matrices it was
  given: every entry is the exact integer dot product of a row and a column, shifted down by 12
  and clamped to 16 bits, also where the destination overlaps a factor.\<close>
theorem mat_mul_exact:
  assumes "guest_gte K" and "in_ram outPtr 20" and "i < 3" and "j < 3"
    and "R = result (load_mat3 K rPtr) c" and "M = result (load_mat3 K mPtr) c"
  shows "sint (result (load_mat3 K outPtr) (exec (mat_mul K rPtr mPtr outPtr) c) ! i ! j) =
    max (- 32768) (min 32767 ((\<Sum>k < 3. sint (R ! i ! k) * sint (M ! k ! j)) div 4096))"
proof -
  have "{..<3} = {0, 1, 2 :: nat}" by auto
  then show ?thesis
    using mat_product_entry [of R M i j] guest_gte.load_mat3_mat_mul [OF assms(1,2), of rPtr mPtr c] assms
    by (simp add: add.assoc)
qed

definition two_matrices :: flat where
  "two_matrices = mem_w32 idle_core (mem_w32 idle_core zero_flat 0x80001000 0x7FFF) 0x80001020 0x7FFF"

lemma two_matrices_words:
  "mem_r32 idle_core two_matrices 0x80001000 = 0x7FFF" "mem_r32 idle_core two_matrices 0x80001020 = 0x7FFF"
  "mem_r32 idle_core two_matrices 0x80001004 = 0" "mem_r32 idle_core two_matrices 0x80001024 = 0"
  "mem_r32 idle_core two_matrices 0x8000102C = 0"
  by (simp_all add: two_matrices_def flat.read_write zero_reads address_simps del: flat_core_sel)

theorem mat_mul_exact_witness:
  "sint (result (load_mat3 idle_core 0x80001020)
      (exec (mat_mul idle_core 0x80001000 0x80001020 0x80001020) two_matrices) ! 0 ! 0) = 32767"
proof -
  let ?R = "result (load_mat3 idle_core 0x80001000) two_matrices"
  let ?M = "result (load_mat3 idle_core 0x80001020) two_matrices"
  have "as_s16 32767 = 32767" "as_s16 0 = 0" by (simp_all add: as_s16_short short_val_def)
  then have "?R ! 0 ! 0 = 32767" "?M ! 0 ! 0 = 32767" "?R ! 0 ! 1 = 0" "?R ! 0 ! 2 = 0"
    by (simp_all add: two_matrices_words load_mat3_def mat_of_words_def lo16_def hi16_def del: flat_core_sel)
  moreover have "{..<3} = {0, 1, 2 :: nat}" by auto
  ultimately show ?thesis
    using mat_mul_exact [OF flat_gte.guest_gte_axioms, of "0x80001020" 0 0 ?R "\<lambda>c a. c" "0x80001000"
        two_matrices ?M "0x80001020"]
    by (simp add: in_ram_def)
qed

text \<open>C23. The identity matrix of \<open>Mtx\<close> is neutral for \<open>Math::matMul\<close>: a matrix multiplied from the left
  by the identity just built in guest memory is stored at the destination unchanged.\<close>
theorem identity_neutral:
  assumes "guest_gte K" and "in_ram idPtr 32" and "in_ram mPtr 20" and "apart idPtr 32 mPtr 20"
    and "in_ram outPtr 20"
  shows "result (load_mat3 K outPtr)
      (exec (do { mtx_identity K idPtr; mat_mul K idPtr mPtr outPtr }) c) = result (load_mat3 K mPtr) c"
proof -
  let ?c = "exec (mtx_identity K idPtr) c"
  have core: "guest_core K" using assms(1) by (simp add: guest_gte_def)
  have "result (load_mat3 K idPtr) ?c = unit_matrix"
    and "result (load_mat3 K mPtr) ?c = result (load_mat3 K mPtr) c"
    using guest_core.load_mat3_identity [OF core] guest_core.load_mat3_beside_identity [OF core] assms
    by blast+
  then show ?thesis
    using guest_gte.load_mat3_mat_mul [OF assms(1,5), of idPtr mPtr ?c]
    by (simp add: split_beta unit_matrix_left)
qed

theorem identity_neutral_witness:
  "result (load_mat3 idle_core 0x80003000)
     (exec (do { mtx_identity idle_core 0x80002000; mat_mul idle_core 0x80002000 0x80001000 0x80003000 })
       two_matrices) ! 0 ! 0 = 0x7FFF"
proof -
  have "as_s16 0x7FFF = 0x7FFF" by (simp add: as_s16_short short_val_def)
  then have "result (load_mat3 idle_core 0x80001000) two_matrices ! 0 ! 0 = 0x7FFF"
    by (simp add: two_matrices_words load_mat3_def mat_of_words_def lo16_def del: flat_core_sel)
  then show ?thesis
    using identity_neutral [OF flat_gte.guest_gte_axioms, of "0x80002000" "0x80001000" "0x80003000"
        "\<lambda>c a. c" two_matrices] by (simp add: address_simps)
qed

section \<open>The two vector forms\<close>

lemma sint_short_half: "short_val x \<Longrightarrow> sint (ucast (as_u16 x) :: u16) = sint x"
  using as_s16_short [of x] sint_scast_u16 [of "ucast x"]
  by (simp add: as_u16_def ucast_u16_mask as_s16_def)

lemma rows_of_three: "length R = 3 \<Longrightarrow> k < 3 \<Longrightarrow> map f R ! k = f (R ! k)"
  by simp

context guest_gte
begin

lemma load_mat3_rotation [simp]: "in_ram p 20 \<Longrightarrow>
    result (load_mat3 K p) (exec (load_rotation K q) c) = result (load_mat3 K p) c"
  by (intro load_mat3_cong) (simp_all add: control_keeps_memory in_ram_span)

lemma r32_rotation [simp]: "in_ram p 4 \<Longrightarrow> mem_r32 K (exec (load_rotation K q) c) p = mem_r32 K c p"
  by (intro r32_cong) (simp_all add: control_keeps_memory in_ram_span)

lemma mem_leave_vector:
  "in_ram a 2 \<Longrightarrow> mem_r16 K (exec (leave_vector K w0 w1 ir mac) c) a = mem_r16 K c a"
  "in_ram a 4 \<Longrightarrow> mem_r32 K (exec (leave_vector K w0 w1 ir mac) c) a = mem_r32 K c a"
  by (simp_all add: leave_vector_def mem_gte)

lemma apply_matrix_lv_words:
  assumes "in_ram mPtr 20" and "in_ram inPtr 8" and out: "in_ram outPtr 12" and k: "k < 3"
  shows "mem_r32 K (exec (apply_matrix_lv K mPtr inPtr outPtr) c) (outPtr + 4 * of_nat k) =
    row_mac (result (load_mat3 K mPtr) c ! k) (vec_of_words (mem_r32 K c inPtr) (mem_r32 K c (inPtr + 4)))"
proof -
  have "in_ram outPtr 4" "in_ram (outPtr + 4) 4" "in_ram (outPtr + 8) 4" "in_ram inPtr 4" "in_ram (inPtr + 4) 4"
    using assms by (simp_all add: in_ram_offset in_ram_shorter)
  then show ?thesis
    using assms(1) below_three [OF k] short_load_mat3 [of K mPtr c]
    by (elim disjE) (simp_all add: apply_matrix_lv_def Let_def split_beta mem_leave_vector read_write
        apart_def short_matrix_def)
qed

lemma apply_matrix_sv_shorts:
  assumes "in_ram mPtr 20" and "in_ram inPtr 8" and out: "in_ram outPtr 6" and k: "k < 3"
  shows "mem_r16 K (exec (apply_matrix_sv K mPtr inPtr outPtr) c) (outPtr + 2 * of_nat k) =
    ucast (as_u16 (clamp16s
      (row_mac (result (load_mat3 K mPtr) c ! k) (vec_of_words (mem_r32 K c inPtr) (mem_r32 K c (inPtr + 4))))))"
proof -
  have "in_ram outPtr 2" "in_ram (outPtr + 2) 2" "in_ram (outPtr + 4) 2" "in_ram inPtr 4" "in_ram (inPtr + 4) 4"
    using assms by (simp_all add: in_ram_offset in_ram_shorter)
  then show ?thesis
    using assms(1) below_three [OF k] short_load_mat3 [of K mPtr c]
    by (elim disjE) (simp_all add: apply_matrix_sv_def Let_def split_beta mem_leave_vector read_write
        apart_def short_matrix_def)
qed

end

text \<open>C24. \<open>Math::applyMatrixLV\<close> stores the full dot products of the matrix rows with the vector, and
  \<open>Math::applyMatrixSV\<close>, run on the same input, stores those very values saturated to 16 bits:
  an overflowing component is clamped to the nearest representable value, never wrapped.\<close>
theorem apply_matrix_saturates:
  assumes "guest_gte K" and "in_ram mPtr 20" and "in_ram inPtr 8" and "in_ram outPtr 12" and "k < 3"
    and "R = result (load_mat3 K mPtr) c"
    and "v = vec_of_words (mem_r32 K c inPtr) (mem_r32 K c (inPtr + 4))"
    and "long = sint (mem_r32 K (exec (apply_matrix_lv K mPtr inPtr outPtr) c) (outPtr + 4 * of_nat k))"
    and "short = sint (mem_r16 K (exec (apply_matrix_sv K mPtr inPtr outPtr) c) (outPtr + 2 * of_nat k))"
  shows "long = (\<Sum>l < 3. sint (R ! k ! l) * sint (v ! l)) div 4096 \<and>
    short = max (- 32768) (min 32767 long)"
proof -
  have R: "short_matrix R" using assms(6) by simp
  have row: "R ! k = [R ! k ! 0, R ! k ! 1, R ! k ! 2]"
    using short_entry(1) [OF R assms(5)] by (rule three_list)
  have v: "v = [v ! 0, v ! 1, v ! 2]" "short_val (v ! 0)" "short_val (v ! 1)" "short_val (v ! 2)"
    by (simp_all add: assms(7) vec_of_words_def)
  have sum: "{..<3} = {0, 1, 2 :: nat}" by auto
  have entries: "short_val (R ! k ! 0)" "short_val (R ! k ! 1)" "short_val (R ! k ! 2)"
    using short_entry(2) [OF R assms(5)] by simp_all
  have mac: "sint (row_mac (R ! k) v) = (\<Sum>l < 3. sint (R ! k ! l) * sint (v ! l)) div 4096"
    using row_mac_exact [OF entries v(2-4)] row v(1) by (simp add: sum add.assoc)
  have long: "long = (\<Sum>l < 3. sint (R ! k ! l) * sint (v ! l)) div 4096"
    using guest_gte.apply_matrix_lv_words [OF assms(1-5), of c] mac by (simp add: assms)
  have "in_ram outPtr 6" using assms(4) by (rule in_ram_shorter) simp
  then have "short = sint (clamp16s (row_mac (R ! k) v))"
    using guest_gte.apply_matrix_sv_shorts [OF assms(1-3) _ assms(5), of outPtr c]
    by (simp add: assms(6,7,9) sint_short_half)
  then have "short = max (- 32768) (min 32767 long)"
    using mac long by (simp add: sint_clamp16s)
  with long show ?thesis ..
qed

theorem apply_matrix_saturates_witness:
  "sint (mem_r32 idle_core (exec (apply_matrix_lv idle_core 0x80001000 0x80001020 0x80003000) two_matrices)
     0x80003000) = 262128 \<and>
   sint (mem_r16 idle_core (exec (apply_matrix_sv idle_core 0x80001000 0x80001020 0x80003000) two_matrices)
     0x80003000) = 32767"
proof -
  let ?R = "result (load_mat3 idle_core 0x80001000) two_matrices"
  have "as_s16 32767 = 32767" "as_s16 0 = 0" by (simp_all add: as_s16_short short_val_def)
  then have "?R ! 0 ! 0 = 32767" "?R ! 0 ! 1 = 0" "?R ! 0 ! 2 = 0" "lo16 0x7FFF = 0x7FFF"
    by (simp_all add: two_matrices_words load_mat3_def mat_of_words_def lo16_def hi16_def del: flat_core_sel)
  moreover have "{..<3} = {0, 1, 2 :: nat}" by auto
  ultimately show ?thesis
    using apply_matrix_saturates [OF flat_gte.guest_gte_axioms _ _ _ _ refl refl refl refl, of "0x80001000"
        "0x80001020" "0x80003000" 0 "\<lambda>c a. c" two_matrices]
    by (simp add: in_ram_def two_matrices_words vec_of_words_def del: flat_core_sel)
qed

section \<open>Rounding in the rotation builders\<close>

lemma sint_narrow: "short_val x \<Longrightarrow> sint (ucast x :: u16) = sint x"
  using as_s16_short [of x] sint_scast_u16 [of "ucast x"] by (simp add: as_s16_def)

lemma ucast_of_s16 [simp]: "(ucast (as_s16 x) :: u16) = ucast x" "(ucast (as_u16 x) :: u16) = ucast x"
  by (simp_all add: as_u16_def ucast_u16_mask as_s16_def)
    (rule bit_word_eqI, auto simp: bit_simps min_def le_eq_less_or_eq)

lemma exec_lut [simp]: "exec (lut_sin_cos K a) c = c"
  by (simp add: lut_sin_cos_def Let_def)

text \<open>A sine or a cosine: at most 1 in the 12-bit fixed point.\<close>
definition unit_val :: "u32 \<Rightarrow> bool" where
  "unit_val x \<longleftrightarrow> \<bar>sint x\<bar> \<le> 4096"

lemma unit_product:
  assumes "unit_val x" "unit_val y"
  shows "\<bar>sint x * sint y\<bar> \<le> 2 ^ 24" "sint (x * y) = sint x * sint y"
proof -
  have "\<bar>sint x\<bar> * \<bar>sint y\<bar> \<le> 2 ^ 12 * 2 ^ 12"
    using assms by (intro mult_mono) (auto simp: unit_val_def)
  then show p: "\<bar>sint x * sint y\<bar> \<le> 2 ^ 24" by (simp add: abs_mult)
  then show "sint (x * y) = sint x * sint y" by (intro sint_mult_small) auto
qed

lemma gpf1_unit:
  assumes "unit_val x" "unit_val y"
  shows "sint (gpf1 x y) = (sint x * sint y) div 4096" "\<bar>(sint x * sint y) div 4096\<bar> \<le> 4096"
proof -
  show b: "\<bar>(sint x * sint y) div 4096\<bar> \<le> 4096"
    using unit_product(1) [OF assms] by (simp add: abs_le_iff) linarith
  then show "sint (gpf1 x y) = (sint x * sint y) div 4096"
    using unit_product(2) [OF assms] by (simp add: gpf1_def sint_clamp16s sint_sar abs_le_iff)
qed

lemma sint_negate: "\<bar>sint (x :: u32)\<bar> \<le> 2 ^ 30 \<Longrightarrow> sint (- x) = - sint x"
  using sint_sub_small [of 0 x] by simp

context guest_core
begin

lemma r16_upper: "in_ram a 4 \<Longrightarrow> mem_r16 K c (a + 2) = ucast (drop_bit 16 (mem_r32 K c a))"
  by (simp only: r32_halves) (rule bit_word_eqI, auto simp: bit_simps)

lemma r16_lower: "in_ram a 4 \<Longrightarrow> mem_r16 K c a = ucast (mem_r32 K c a)"
  by (simp only: r32_halves) (rule bit_word_eqI, auto simp: bit_simps)

lemma rot_mat_soft_m01:
  assumes "in_ram out 18"
    and "(sy, cy) = result (lut_sin_cos K (scast (mem_r16 K c (p + 2)))) c"
    and "(sz, cz) = result (lut_sin_cos K (scast (mem_r16 K c (p + 4)))) c"
  shows "mem_r16 K (exec (rot_mat_soft K p out) c) (out + 2) = ucast (q12 (- (sz * cy)))"
proof -
  have "in_ram out 2" "in_ram (out + 2) 2" "in_ram (out + 4) 2" "in_ram (out + 6) 2" "in_ram (out + 8) 2"
    "in_ram (out + 10) 2" "in_ram (out + 12) 2" "in_ram (out + 14) 2" "in_ram (out + 16) 2"
    using assms(1) by (simp_all add: in_ram_offset in_ram_shorter)
  then show ?thesis
    using assms(2,3) by (simp add: rot_mat_soft_def Let_def split_beta read_write apart_def prod_eq_iff)
qed

end

context guest_gte
begin

lemma rotmat_m01:
  assumes p: "in_ram p 4" and out: "in_ram out 18"
    and "(sy, cy) = result (lut_sin_cos K (scast (mem_r16 K c (p + 2)))) c"
    and "(sz, cz) = result (lut_sin_cos K (scast (mem_r16 K c (p + 4)))) c"
  shows "mem_r16 K (exec (rotmat K p out) c) (out + 2) = ucast (- gpf1 sz cy)"
proof -
  have parts: "in_ram out 4" "in_ram (out + 4) 4" "in_ram (out + 8) 4" "in_ram (out + 12) 4" "in_ram (out + 16) 2"
    using out by (simp_all add: in_ram_offset in_ram_shorter)
  have hi: "hi16 (mem_r32 K c p) = scast (mem_r16 K c (p + 2))"
    using r16_upper [OF p, of c] by (simp add: hi16_def as_s16_def)
  have half: "(ucast (drop_bit 16 (pack16 x y)) :: u16) = ucast y" for x y
    using hi_lo_pack(2) [of x y] unfolding hi16_def as_s16_def
    by (metis ucast_of_s16(1) as_s16_def)
  have "mem_r32 K (exec (rotmat K p out) c) out =
      pack16 (gpf1 cz cy) (as_s16 (- gpf1 sz cy))"
    using assms(3,4) parts by (simp add: rotmat_def Let_def split_beta read_write apart_def prod_eq_iff mem_gte hi)
  then show ?thesis
    using r16_upper [OF parts(1)] half by simp
qed

end


text \<open>C25. \<open>rotmat\<close> and its software companion \<open>rotMatSoft\<close> do not store the same matrix: the first
  negates the rounded product of sine and cosine, the second rounds the negated product, so that
  their entry \<open>m01\<close> differs by one unit exactly when the product is not a whole multiple of 4096.\<close>
theorem rotation_rounding:
  assumes "guest_gte K" and "in_ram p 4" and "in_ram out 18"
    and "(sy, cy) = result (lut_sin_cos K (scast (mem_r16 K c (p + 2)))) c"
    and "(sz, cz) = result (lut_sin_cos K (scast (mem_r16 K c (p + 4)))) c"
    and "unit_val sz" and "unit_val cy"
    and "hard = sint (mem_r16 K (exec (rotmat K p out) c) (out + 2))"
    and "soft = sint (mem_r16 K (exec (rot_mat_soft K p out) c) (out + 2))"
  shows "hard = - (sint sz * sint cy div 4096) \<and>
    soft = hard - (if 4096 dvd sint sz * sint cy then 0 else 1)"
proof -
  let ?n = "sint sz * sint cy"
  have core: "guest_core K" using assms(1) by (simp add: guest_gte_def)
  note g = gpf1_unit [OF assms(6,7)] and u = unit_product [OF assms(6,7)]
  have neg: "sint (- gpf1 sz cy) = - (?n div 4096)"
    using g by (subst sint_negate) auto
  then have "short_val (- gpf1 sz cy)" using g(2) by (simp add: short_val_def abs_le_iff)
  then have hard: "hard = - (?n div 4096)"
    using guest_gte.rotmat_m01 [OF assms(1-5)] neg by (simp add: assms(8) sint_narrow)
  have "sint (q12 (- (sz * cy))) = - ?n div 4096"
    using u by (simp add: q12_def sint_sar sint_negate)
  moreover have soft_value: "- ?n div 4096 = - (?n div 4096) - (if 4096 dvd ?n then 0 else 1)"
    using zdiv_zminus1_eq_if [of 4096 ?n] by (simp add: dvd_eq_mod_eq_0)
  moreover have "short_val (q12 (- (sz * cy)))"
    using g(2) calculation by (simp add: short_val_def abs_le_iff)
  ultimately have "soft = - (?n div 4096) - (if 4096 dvd ?n then 0 else 1)"
    using guest_core.rot_mat_soft_m01 [OF core assms(3-5)] by (simp add: assms(9) sint_narrow)
  with hard show ?thesis by simp
qed


text \<open>Angles (0, 1, 2) and a table with cosine 4095 at 1 and sine 1 at 2.\<close>
definition two_angles :: flat where
  "two_angles = mem_w32 idle_core (mem_w32 idle_core (mem_w32 idle_core (mem_w32 idle_core zero_flat
     0x80001000 0x00010000) 0x80001004 2) 0x800A6494 0x0FFF0000) 0x800A6498 1"

lemma two_angles_words:
  "mem_r32 idle_core two_angles 0x80001000 = 0x00010000" "mem_r32 idle_core two_angles 0x80001004 = 2"
  "mem_r32 idle_core two_angles 0x800A6494 = 0x0FFF0000" "mem_r32 idle_core two_angles 0x800A6498 = 1"
  by (simp_all add: two_angles_def flat.read_write zero_reads address_simps del: flat_core_sel)

lemma drop_one: "drop_bit 1 (k :: int) = k div 2" and push_one: "push_bit 1 (w :: u32) = 2 * w"
  by (simp_all add: drop_bit_eq_div push_bit_eq_mult mult.commute)

lemma two_angles_halves:
  "mem_r16 idle_core two_angles 0x80001002 = 1" "mem_r16 idle_core two_angles 0x80001004 = 2"
  using flat.r16_upper [of "0x80001000" _ two_angles] flat.r16_lower [of "0x80001004" _ two_angles]
  by (simp_all add: two_angles_words in_ram_def drop_one del: flat_core_sel)

theorem rotation_rounding_witness:
  "sint (mem_r16 idle_core (exec (rotmat idle_core 0x80001000 0x80003000) two_angles) 0x80003002) = 0 \<and>
   sint (mem_r16 idle_core (exec (rot_mat_soft idle_core 0x80001000 0x80003000) two_angles) 0x80003002) = - 1"
proof -
  have small: "as_s16 1 = 1" "as_s16 0 = 0" by (simp_all add: as_s16_short short_val_def)
  have mask: "(1 AND kAngleMask) = 1" "(2 AND kAngleMask) = 2" by (simp_all add: kAngleMask_def)
  have "signed_drop_bit 16 (0x0FFF0000 :: u32) = 0xFFF"
    by (simp add: drop_one)
  then have y: "result (lut_sin_cos idle_core (scast (mem_r16 idle_core two_angles (0x80001000 + 2)))) two_angles
      = (lo16 0x0FFF0000, 0xFFF)"
    by (simp add: lut_sin_cos_def two_angles_words two_angles_halves kSinCosTable_def kAngleMask_def Let_def
        word_sless_alt word_sle_eq drop_one push_one del: flat_core_sel)
  have z: "result (lut_sin_cos idle_core (scast (mem_r16 idle_core two_angles (0x80001000 + 4)))) two_angles
      = (1, 0)"
    by (simp add: lut_sin_cos_def two_angles_words two_angles_halves kSinCosTable_def kAngleMask_def lo16_def
        Let_def word_sless_alt word_sle_eq drop_one push_one
        small del: flat_core_sel)
  show ?thesis
    using rotation_rounding [OF flat_gte.guest_gte_axioms _ _ y [symmetric] z [symmetric] _ _ refl refl,
        of "0x80003000"]
    by (simp add: in_ram_def unit_val_def)
qed

end
