(* ===== verification/PacketEffects.thy ===== *)
theory PacketEffects
  imports GuestMath
begin

text \<open>
  The post-passes over emitted GPU packets of \<open>game/render/effect_mod.cpp\<close>. A pass walks the packets
  between two addresses of the packet pool, steps over those that carry no colour and changes the
  command byte, the palette id or the colour words of the others. A packet is an address (its
  \<open>struct GpuPacket\<close> is a view on guest memory); its shape follows from its opcode. An opcode outside
  the table makes the code log and \<open>abort()\<close>: the walk answers \<open>False\<close> there.
\<close>

section \<open>Packets\<close>

definition kSemiBit :: u32 where "kSemiBit = 0x02"

definition kColourWord :: "u32 list" where "kColourWord = [0x04, 0x10, 0x1C, 0x28]"

text \<open>\<open>GpuPacket::command\<close> and \<open>setCommand\<close>\<close>
definition packet_command :: "'c core_ops \<Rightarrow> u32 \<Rightarrow> ('c, u32) state" where
  "packet_command K p = r8 K (p + 0x07)"

definition set_packet_command :: "'c core_ops \<Rightarrow> u32 \<Rightarrow> u32 \<Rightarrow> ('c, unit) state" where
  "set_packet_command K p v = w8 K (p + 0x07) v"

text \<open>\<open>shapeOf\<close>: the bytes to the next packet and the number of colour words; \<open>(0, 0)\<close> for an opcode outside
  the table\<close>
definition packet_shape :: "u32 \<Rightarrow> u32 \<times> nat" where
  "packet_shape opcode =
     (if opcode = 0x20 then (20, 0) else if opcode = 0x24 then (32, 1)
      else if opcode = 0x28 then (24, 0) else if opcode = 0x2C then (40, 1)
      else if opcode = 0x30 then (28, 0) else if opcode = 0x34 then (40, 3)
      else if opcode = 0x38 then (36, 0) else if opcode = 0x3C then (52, 4)
      else (0, 0))"

section \<open>The walk\<close>

text \<open>One turn of \<open>walkPackets\<close> at packet \<open>p\<close>\<close>
definition walk_turn ::
  "'c core_ops \<Rightarrow> (u32 \<Rightarrow> nat \<Rightarrow> ('c, unit) state) \<Rightarrow> u32 \<Rightarrow> u32 \<Rightarrow> ('c, bool + u32) state" where
  "walk_turn K apply1 hi p =
     (if p < hi then do {
        command \<leftarrow> packet_command K p;
        let shape = packet_shape (command AND 0xFC);
        (if fst shape = 0 then State_Monad.return (Inl False) else do {
          only_if (snd shape \<noteq> 0) (apply1 p (snd shape));
          State_Monad.return (Inr (p + fst shape))
        })
      } else State_Monad.return (Inl True))"

definition walk_packets ::
  "'c core_ops \<Rightarrow> u32 \<Rightarrow> u32 \<Rightarrow> (u32 \<Rightarrow> nat \<Rightarrow> ('c, unit) state) \<Rightarrow> ('c, bool) state" where
  "walk_packets K lo hi apply1 = loop (walk_turn K apply1 hi) lo"

section \<open>The passes\<close>

text \<open>What each pass does to one packet\<close>
definition semi_on :: "'c core_ops \<Rightarrow> u32 \<Rightarrow> nat \<Rightarrow> ('c, unit) state" where
  "semi_on K p words = do { v \<leftarrow> packet_command K p; set_packet_command K p (v OR kSemiBit) }"

definition semi_off :: "'c core_ops \<Rightarrow> u32 \<Rightarrow> nat \<Rightarrow> ('c, unit) state" where
  "semi_off K p words = do { v \<leftarrow> packet_command K p; set_packet_command K p (v AND as_u8 (NOT kSemiBit)) }"

definition clut_swap :: "'c core_ops \<Rightarrow> u32 \<Rightarrow> u32 \<Rightarrow> nat \<Rightarrow> ('c, unit) state" where
  "clut_swap K node p words = do { v \<leftarrow> r16 K (node + 0x5C); w16 K (p + 0x0E) v }"

definition flat_tint :: "'c core_ops \<Rightarrow> u32 \<Rightarrow> u32 \<Rightarrow> nat \<Rightarrow> ('c, unit) state" where
  "flat_tint K rgb p words = do {
     cmd \<leftarrow> packet_command K p;
     for_each (take words kColourWord) (\<lambda>o1. w32 K (p + o1) rgb);
     set_packet_command K p (cmd OR kSemiBit)
   }"

text \<open>One channel of the modulating pass: the value it stores, or none for the amount \<open>0x80\<close>\<close>
definition modulated :: "u32 \<Rightarrow> u32 \<Rightarrow> u32 option" where
  "modulated t p =
     (if t = 0x80 then None
      else let v = (if t < 0x80 then p + (t - 0x7F) else p + t)
        in Some (if t < 0x80 then (if v <s 0 then 0 else v) else (if 255 <s v then 255 else v)))"

definition add_channel :: "'c core_ops \<Rightarrow> u32 \<Rightarrow> u32 \<Rightarrow> ('c, unit) state" where
  "add_channel K t a =
     (if t = 0x80 then State_Monad.return () else do {
        p \<leftarrow> r8 K a;
        (case modulated t p of None \<Rightarrow> State_Monad.return () | Some v \<Rightarrow> w8 K a v)
      })"

definition colour_add :: "'c core_ops \<Rightarrow> u32 \<Rightarrow> u32 \<Rightarrow> nat \<Rightarrow> ('c, unit) state" where
  "colour_add K node p words = do {
     r \<leftarrow> r8 K (node + 0x18); g \<leftarrow> r8 K (node + 0x19); b \<leftarrow> r8 K (node + 0x1A);
     for_each (take words kColourWord) (\<lambda>o1. do {
       add_channel K r (p + o1);
       add_channel K g (p + o1 + 1);
       add_channel K b (p + o1 + 2)
     })
   }"

text \<open>\<open>Render::effectSemiOn\<close>, \<open>effectSemiOff\<close>, \<open>effectClutSwap\<close>, \<open>effectFlatTint\<close> and \<open>effectColorAdd\<close>;
  \<open>False\<close> where the code aborts\<close>
definition effect_semi_on :: "'c core_ops \<Rightarrow> u32 \<Rightarrow> u32 \<Rightarrow> ('c, bool) state" where
  "effect_semi_on K lo hi = walk_packets K lo hi (semi_on K)"

definition effect_semi_off :: "'c core_ops \<Rightarrow> u32 \<Rightarrow> u32 \<Rightarrow> ('c, bool) state" where
  "effect_semi_off K lo hi = walk_packets K lo hi (semi_off K)"

definition effect_clut_swap :: "'c core_ops \<Rightarrow> u32 \<Rightarrow> u32 \<Rightarrow> u32 \<Rightarrow> ('c, bool) state" where
  "effect_clut_swap K node lo hi = walk_packets K lo hi (clut_swap K node)"

definition effect_flat_tint :: "'c core_ops \<Rightarrow> u32 \<Rightarrow> u32 \<Rightarrow> u32 \<Rightarrow> ('c, bool) state" where
  "effect_flat_tint K node lo hi = do {
     rgb \<leftarrow> r32 K (node + 0x18);
     walk_packets K lo hi (flat_tint K rgb)
   }"

definition effect_color_add :: "'c core_ops \<Rightarrow> u32 \<Rightarrow> u32 \<Rightarrow> u32 \<Rightarrow> ('c, bool) state" where
  "effect_color_add K node lo hi = walk_packets K lo hi (colour_add K node)"

text \<open>The passes as their callers run them: nothing follows an abort.\<close>
definition run_effect_semi_on :: "'c core_ops \<Rightarrow> u32 \<Rightarrow> u32 \<Rightarrow> u32 \<Rightarrow> ('c, unit) state" where
  "run_effect_semi_on K node lo hi = or_abort (effect_semi_on K lo hi)"

definition run_effect_semi_off :: "'c core_ops \<Rightarrow> u32 \<Rightarrow> u32 \<Rightarrow> u32 \<Rightarrow> ('c, unit) state" where
  "run_effect_semi_off K node lo hi = or_abort (effect_semi_off K lo hi)"

definition run_effect_clut_swap :: "'c core_ops \<Rightarrow> u32 \<Rightarrow> u32 \<Rightarrow> u32 \<Rightarrow> ('c, unit) state" where
  "run_effect_clut_swap K node lo hi = or_abort (effect_clut_swap K node lo hi)"

definition run_effect_flat_tint :: "'c core_ops \<Rightarrow> u32 \<Rightarrow> u32 \<Rightarrow> u32 \<Rightarrow> ('c, unit) state" where
  "run_effect_flat_tint K node lo hi = or_abort (effect_flat_tint K node lo hi)"

definition run_effect_color_add :: "'c core_ops \<Rightarrow> u32 \<Rightarrow> u32 \<Rightarrow> u32 \<Rightarrow> ('c, unit) state" where
  "run_effect_color_add K node lo hi = or_abort (effect_color_add K node lo hi)"

section \<open>Spans of packets\<close>

text \<open>The packets the walk meets from \<open>p\<close>, each with its size and its number of colour words, up to the
  address \<open>q\<close> where it stands after them; all of them lie in RAM.\<close>
inductive packet_run ::
  "'c core_ops \<Rightarrow> 'c \<Rightarrow> u32 \<Rightarrow> u32 \<Rightarrow> (u32 \<times> u32 \<times> nat) list \<Rightarrow> u32 \<Rightarrow> bool"
  for K c hi where
  run_none: "packet_run K c hi p [] p"
| run_packet: "p < hi \<Longrightarrow> packet_shape (ucast (mem_r8 K c (p + 7)) AND 0xFC) = (s, w) \<Longrightarrow> s \<noteq> 0 \<Longrightarrow>
    in_ram p (unat s) \<Longrightarrow> packet_run K c hi (p + s) ps q \<Longrightarrow> packet_run K c hi p ((p, s, w) # ps) q"

inductive_simps packet_run_Nil: "packet_run K c hi p [] q"
inductive_cases packet_run_ConsE: "packet_run K c hi p (x # ps) q"

definition coloured :: "(u32 \<times> u32 \<times> nat) list \<Rightarrow> (u32 \<times> nat) list" where
  "coloured ps = [(p, w). (p, s, w) \<leftarrow> ps, w \<noteq> 0]"

lemma coloured_simps [simp]:
  "coloured [] = []"
  "coloured ((p, s, w) # ps) = (if w = 0 then coloured ps else (p, w) # coloured ps)"
  by (simp_all add: coloured_def)

lemma set_coloured: "(p, w) \<in> set (coloured ps) \<longleftrightarrow> w \<noteq> 0 \<and> (\<exists>s. (p, s, w) \<in> set ps)"
  by (auto simp: coloured_def)

lemma packet_shape_size:
  "packet_shape v = (s, w) \<Longrightarrow> s \<noteq> 0 \<Longrightarrow> 20 \<le> unat s \<and> unat s \<le> 52 \<and> (w \<noteq> 0 \<longrightarrow> 32 \<le> unat s)"
  by (auto simp: packet_shape_def split: if_splits)

lemma packet_shape_words:
  "packet_shape v = (s, w) \<Longrightarrow> w \<noteq> 0 \<Longrightarrow> (s, w) \<in> {(32, 1), (40, 1), (40, 3), (52, 4)}"
  by (auto simp: packet_shape_def split: if_splits)

lemma in_ram_next: "in_ram p (unat s) \<Longrightarrow> unat (p + s) = unat p + unat s"
  using in_ram_bound [of p "unat s"] by (intro unat_add_small) simp

lemma packet_run_above:
  assumes "packet_run K c hi p ps q"
  shows "unat p \<le> unat q"
    and "(r, s, w) \<in> set ps \<Longrightarrow> unat p \<le> unat r \<and> unat r + unat s \<le> unat q \<and> in_ram r (unat s) \<and> 20 \<le> unat s
      \<and> (w \<noteq> 0 \<longrightarrow> (s, w) \<in> {(32, 1), (40, 1), (40, 3), (52, 4)})"
  using assms
proof (induction rule: packet_run.induct)
  case (run_packet p s' w' ps q)
  { case 1 then show ?case using run_packet by (simp add: in_ram_next) }
  { case 2
    show ?case
    proof (cases "(r, s, w) \<in> set ps")
      case True
      then show ?thesis using run_packet.IH(2) run_packet.hyps in_ram_next [OF run_packet.hyps(4)] by auto
    next
      case False
      then have "(r, s, w) = (p, s', w')" using 2 by simp
      then show ?thesis
        using run_packet.IH(1) run_packet.hyps in_ram_next [OF run_packet.hyps(4)] packet_shape_size
          packet_shape_words [OF run_packet.hyps(2)]
        by auto
    qed }
qed simp_all

lemma packet_run_cong:
  assumes "packet_run K c hi p ps q"
    and "\<And>r s w. (r, s, w) \<in> set ps \<Longrightarrow> mem_r8 K c' (r + 7) = mem_r8 K c (r + 7)"
  shows "packet_run K c' hi p ps q"
  using assms
proof (induction rule: packet_run.induct)
  case (run_packet p s w ps q)
  have "mem_r8 K c' (p + 7) = mem_r8 K c (p + 7)" by (rule run_packet.prems [of p s w]) simp
  moreover have "packet_run K c' hi (p + s) ps q"
    using run_packet.prems by (intro run_packet.IH) auto
  ultimately show ?case using run_packet.hyps by (intro packet_run.run_packet) simp_all
qed (rule packet_run.run_none)

section \<open>The contract of a pass\<close>

locale packet_pass = guest_core +
  fixes pass :: "u32 \<Rightarrow> nat \<Rightarrow> ('a, unit) state"
  assumes inside: "in_ram p n \<Longrightarrow> (n, w) \<in> {(32, 1), (40, 1), (40, 3), (52, 4)} \<Longrightarrow>
      writes_within K (span p n) (pass p w)"
begin

lemma walk_turn_packet:
  "p < hi \<Longrightarrow> packet_shape (ucast (mem_r8 K c (p + 7)) AND 0xFC) = (s, w) \<Longrightarrow> s \<noteq> 0 \<Longrightarrow>
   run_state (walk_turn K pass hi p) c = (Inr (p + s), exec (for_each (coloured [(p, s, w)]) (\<lambda>(p, w). pass p w)) c)"
  by (simp add: walk_turn_def packet_command_def Let_def split_beta)

lemma coloured_inside:
  assumes "in_ram p (unat s)" "packet_shape v = (s, w)"
  shows "writes_within K (span p (unat s)) (for_each (coloured [(p, s, w)]) (\<lambda>(p, w). pass p w))"
  using inside [OF assms(1), of w] packet_shape_words [OF assms(2)]
  by (auto intro!: footprint)

text \<open>The walk does to the packets, one after the other, what the pass does to one.\<close>
lemma walk_run:
  "packet_run K c hi p ps q \<Longrightarrow> loop_run (walk_turn K pass hi) p c =
     loop_run (walk_turn K pass hi) q (exec (for_each (coloured ps) (\<lambda>(p, w). pass p w)) c)"
proof (induction ps arbitrary: p c)
  case Nil
  then show ?case by (simp add: packet_run_Nil)
next
  case (Cons x ps)
  from Cons.prems obtain s w where x: "x = (p, s, w)" and here: "p < hi"
    "packet_shape (ucast (mem_r8 K c (p + 7)) AND 0xFC) = (s, w)" "s \<noteq> 0" "in_ram p (unat s)"
    and rest: "packet_run K c hi (p + s) ps q"
    by (rule packet_run_ConsE)
  let ?c = "exec (for_each (coloured [(p, s, w)]) (\<lambda>(p, w). pass p w)) c"
  have "packet_run K ?c hi (p + s) ps q"
  proof (rule packet_run_cong [OF rest])
    fix r s' w' assume "(r, s', w') \<in> set ps"
    from packet_run_above(2) [OF rest this] have r: "unat p + unat s \<le> unat r" "in_ram r (unat s')" "20 \<le> unat s'"
      using in_ram_next [OF here(4)] by simp_all
    have "in_ram (r + 7) 1" using r by (simp add: in_ram_offset)
    moreover have "r + 7 \<notin> span p (unat s)"
    proof -
      have "unat (r + 7) = unat r + 7" using in_ram_bound [OF r(2)] r(3) by (subst unat_add_small) auto
      moreover have "unat p + unat s \<le> 2 ^ 32" using in_ram_bound [OF here(4)] by simp
      ultimately show ?thesis using r(1) by (simp add: offset_less_iff)
    qed
    ultimately show "mem_r8 K ?c (r + 7) = mem_r8 K c (r + 7)"
      using coloured_inside [OF here(4) here(2)] by (rule writes_withinD [rotated])
  qed
  moreover have "loop_run (walk_turn K pass hi) p c = loop_run (walk_turn K pass hi) (p + s) ?c"
    by (rule loop_run_again) (rule walk_turn_packet [OF here(1-3)])
  moreover have "exec (for_each (coloured ps) (\<lambda>(p, w). pass p w)) ?c =
      exec (for_each (coloured (x # ps)) (\<lambda>(p, w). pass p w)) c"
    by (simp add: x split_beta)
  ultimately show ?case using Cons.IH by simp
qed

lemma walk_all:
  assumes "packet_run K c hi lo ps q" "\<not> q < hi"
  shows "run_state (walk_packets K lo hi pass) c = (True, exec (for_each (coloured ps) (\<lambda>(p, w). pass p w)) c)"
  unfolding walk_packets_def
  by (rule run_loop) (simp add: walk_run [OF assms(1)] loop_run_leave walk_turn_def assms(2))

end

section \<open>The five passes keep the contract\<close>

context guest_core
begin

lemma in_packet:
  assumes "in_ram p n" "unat off + m \<le> n" "0 < m"
  shows "in_ram (p + off) m" "unat off < n"
  using assms in_ram_offset by auto

lemma semi_inside:
  assumes "in_ram p n" "8 \<le> n"
  shows "writes_within K (span p n) (semi_on K p w)" "writes_within K (span p n) (semi_off K p w)"
  using in_packet [OF assms(1), of 7 1] assms(2)
  by (auto intro!: footprint simp: semi_on_def semi_off_def packet_command_def set_packet_command_def)

lemma clut_inside: "in_ram p n \<Longrightarrow> 16 \<le> n \<Longrightarrow> writes_within K (span p n) (clut_swap K node p w)"
  using in_packet [of p n "0x0E" 2]
  by (auto intro!: footprint simp: clut_swap_def add.assoc)

lemma colour_words:
  assumes "(n, w) \<in> {(32, 1), (40, 1), (40, 3), (52, 4)}" "o1 \<in> set (take w kColourWord)"
  shows "4 \<le> unat o1 \<and> unat o1 + 4 \<le> n"
  using assms by (auto simp: kColourWord_def take_Cons' split: if_splits)

lemma colour_bytes:
  assumes p: "in_ram p n" and o1: "unat o1 + 4 \<le> n"
  shows "in_ram (p + o1) 4" "p + o1 \<in> span p n" "p + o1 + 1 \<in> span p n" "p + o1 + 2 \<in> span p n"
    "p + o1 + 3 \<in> span p n" "in_ram (p + o1 + 1) 1" "in_ram (p + o1 + 2) 1" "in_ram (p + o1) 1"
proof -
  show word: "in_ram (p + o1) 4" using p o1 by (rule in_ram_offset)
  have "unat (o1 + 1) = unat o1 + 1" "unat (o1 + 2) = unat o1 + 2" "unat (o1 + 3) = unat o1 + 3"
    using o1 in_ram_bound [OF p] by (simp_all add: unat_add_small)
  then show "p + o1 \<in> span p n" "p + o1 + 1 \<in> span p n" "p + o1 + 2 \<in> span p n" "p + o1 + 3 \<in> span p n"
    using o1 by (simp_all add: add.assoc)
  show "in_ram (p + o1 + 1) 1" "in_ram (p + o1 + 2) 1" "in_ram (p + o1) 1"
    using word by (rule in_ram_parts)+
qed

lemma flat_tint_inside:
  assumes "in_ram p n" and shape: "(n, w) \<in> {(32, 1), (40, 1), (40, 3), (52, 4)}"
  shows "writes_within K (span p n) (flat_tint K rgb p w)"
proof -
  have "writes_within K (span p n) (w32 K (p + o1) rgb)" if "o1 \<in> set (take w kColourWord)" for o1
    using colour_bytes [OF assms(1)] colour_words [OF shape that] by (intro writes_within_w32) auto
  moreover have "writes_within K (span p n) (packet_command K p)" "8 \<le> n"
    using shape by (auto simp: packet_command_def intro!: footprint)
  moreover have "writes_within K (span p n) (set_packet_command K p v)" for v
    using in_packet [OF assms(1), of 7 1] calculation(3)
    by (auto intro!: footprint simp: set_packet_command_def)
  ultimately show ?thesis
    unfolding flat_tint_def by (blast intro: writes_within_bind writes_within_for_each)
qed

lemma add_channel_inside: "in_ram a 1 \<Longrightarrow> a \<in> A \<Longrightarrow> writes_within K A (add_channel K t a)"
  unfolding add_channel_def by (auto intro!: footprint split: option.splits)

lemma colour_add_inside:
  assumes "in_ram p n" and shape: "(n, w) \<in> {(32, 1), (40, 1), (40, 3), (52, 4)}"
  shows "writes_within K (span p n) (colour_add K node p w)"
proof -
  have "writes_within K (span p n) (add_channel K v (p + o1))"
    "writes_within K (span p n) (add_channel K v (p + o1 + 1))"
    "writes_within K (span p n) (add_channel K v (p + o1 + 2))"
    if "o1 \<in> set (take w kColourWord)" for o1 v
    using colour_bytes [OF assms(1)] colour_words [OF shape that] by (auto intro!: add_channel_inside)
  then show ?thesis
    unfolding colour_add_def by (intro writes_within_bind writes_within_for_each writes_within_pure)
qed

end

sublocale guest_core \<subseteq> semi_on: packet_pass K "semi_on K"
  by unfold_locales (auto intro!: semi_inside)

sublocale guest_core \<subseteq> semi_off: packet_pass K "semi_off K"
  by unfold_locales (auto intro!: semi_inside)

sublocale guest_core \<subseteq> clut_swap: packet_pass K "clut_swap K node" for node
  by unfold_locales (auto intro!: clut_inside)

sublocale guest_core \<subseteq> flat_tint: packet_pass K "flat_tint K rgb" for rgb
  by unfold_locales (rule flat_tint_inside)

sublocale guest_core \<subseteq> colour_add: packet_pass K "colour_add K node" for node
  by unfold_locales (rule colour_add_inside)

section \<open>What the semi-transparency passes do to memory\<close>

definition command_bytes :: "(u32 \<times> u32 \<times> nat) list \<Rightarrow> u32 set" where
  "command_bytes ps = {p + 7 | p s w. (p, s, w) \<in> set ps \<and> w \<noteq> 0}"

lemma command_bytes_coloured: "a \<in> command_bytes ps \<longleftrightarrow> (\<exists>p w. (p, w) \<in> set (coloured ps) \<and> a = p + 7)"
  by (auto simp: command_bytes_def set_coloured)

lemma ucast_u8_bitwise:
  "(ucast (ucast v AND ucast w :: u32) :: u8) = v AND w" "(ucast (ucast v OR ucast w :: u32) :: u8) = v OR w"
  "(ucast v AND ucast w :: u32) = ucast (v AND w :: u8)"
  by (rule bit_word_eqI, auto simp: bit_simps dest: bit_imp_le_length)+

lemma semi_bits:
  "(ucast (ucast v OR kSemiBit) :: u8) = v OR 2" "(ucast (ucast v AND as_u8 (NOT kSemiBit)) :: u8) = v AND NOT 2"
proof -
  have "(0xFD :: u8) = NOT 2" by simp
  then show "(ucast (ucast v AND as_u8 (NOT kSemiBit)) :: u8) = v AND NOT 2"
    using ucast_u8_bitwise(1) [of v "0xFD"] by (simp only: kSemiBit_def as_u8_def) simp
  show "(ucast (ucast v OR kSemiBit) :: u8) = v OR 2"
    using ucast_u8_bitwise(2) [of v 2] by (simp add: kSemiBit_def)
qed

lemma or_semi_idem: "(v OR 2) OR 2 = (v OR 2 :: u8)" "(v AND NOT 2) AND NOT 2 = (v AND NOT 2 :: u8)"
  "(v OR 2) AND NOT 2 = (v AND NOT 2 :: u8)"
  by (rule bit_word_eqI, auto simp: bit_simps)+

context guest_core
begin

lemma semi_byte:
  assumes "in_ram (p + 7) 1" "in_ram a 1"
  shows "mem_r8 K (exec (semi_on K p w) c) a = (if a = p + 7 then mem_r8 K c a OR 2 else mem_r8 K c a)"
    "mem_r8 K (exec (semi_off K p w) c) a = (if a = p + 7 then mem_r8 K c a AND NOT 2 else mem_r8 K c a)"
  using assms by (auto simp: semi_on_def semi_off_def packet_command_def set_packet_command_def r8_w8 semi_bits)

lemma semi_bytes:
  assumes "in_ram a 1" "\<forall>(p, w) \<in> set xs. in_ram (p + 7) 1"
  shows "mem_r8 K (exec (for_each xs (\<lambda>(p, w). semi_on K p w)) c) a =
      (if \<exists>p w. (p, w) \<in> set xs \<and> a = p + 7 then mem_r8 K c a OR 2 else mem_r8 K c a)"
    and "mem_r8 K (exec (for_each xs (\<lambda>(p, w). semi_off K p w)) c) a =
      (if \<exists>p w. (p, w) \<in> set xs \<and> a = p + 7 then mem_r8 K c a AND NOT 2 else mem_r8 K c a)"
  using assms(2)
  by (induction xs arbitrary: c) (auto simp: split_beta semi_byte [OF _ assms(1)] or_semi_idem)

lemma packet_commands_in_ram:
  assumes "packet_run K c hi lo ps q"
  shows "\<forall>(p, w) \<in> set (coloured ps). in_ram (p + 7) 1"
  using packet_run_above(2) [OF assms] in_packet(1) [of _ _ 7 1] by (fastforce simp: set_coloured)

lemma effect_semi_bytes:
  assumes "packet_run K c hi lo ps q" "\<not> q < hi" "in_ram a 1"
  shows "result (effect_semi_on K lo hi) c"
    "mem_r8 K (exec (effect_semi_on K lo hi) c) a = (if a \<in> command_bytes ps then mem_r8 K c a OR 2 else mem_r8 K c a)"
    "result (effect_semi_off K lo hi) c"
    "mem_r8 K (exec (effect_semi_off K lo hi) c) a =
      (if a \<in> command_bytes ps then mem_r8 K c a AND NOT 2 else mem_r8 K c a)"
  using semi_bytes [OF assms(3) packet_commands_in_ram [OF assms(1)]]
  by (simp_all add: effect_semi_on_def effect_semi_off_def semi_on.walk_all [OF assms(1,2)]
      semi_off.walk_all [OF assms(1,2)] command_bytes_coloured)

lemma packet_run_command:
  assumes "packet_run K c hi p ps q"
    and "\<And>r s w. (r, s, w) \<in> set ps \<Longrightarrow> mem_r8 K c' (r + 7) AND 0xFC = mem_r8 K c (r + 7) AND 0xFC"
  shows "packet_run K c' hi p ps q"
  using assms
proof (induction rule: packet_run.induct)
  case (run_packet p s w ps q)
  have mask: "(ucast (v :: u8) :: u32) AND 0xFC = ucast (v AND 0xFC)" for v
    using ucast_u8_bitwise(3) [of v "0xFC"] by simp
  have "mem_r8 K c' (p + 7) AND 0xFC = mem_r8 K c (p + 7) AND 0xFC" by (rule run_packet.prems [of p s w]) simp
  moreover have "packet_run K c' hi (p + s) ps q"
    using run_packet.prems by (intro run_packet.IH) auto
  ultimately show ?case using run_packet.hyps by (intro packet_run.run_packet) (simp_all add: mask)
qed (rule packet_run.run_none)

end

inductive_simps packet_run_Cons: "packet_run K c hi p ((r, s, w) # ps) q"

context packet_pass
begin

lemma walk_bad:
  assumes "packet_run K c hi lo ps q" "q < hi" "in_ram q 8"
    "fst (packet_shape (ucast (mem_r8 K c (q + 7)) AND 0xFC)) = 0"
  shows "run_state (walk_packets K lo hi pass) c = (False, exec (for_each (coloured ps) (\<lambda>(p, w). pass p w)) c)"
    and "in_ram a 1 \<Longrightarrow> unat q \<le> unat a \<Longrightarrow>
      mem_r8 K (exec (for_each (coloured ps) (\<lambda>(p, w). pass p w)) c) a = mem_r8 K c a"
proof -
  let ?c = "exec (for_each (coloured ps) (\<lambda>(p, w). pass p w)) c"
  have far: "mem_r8 K ?c a = mem_r8 K c a" if a: "in_ram a 1" "unat q \<le> unat a" for a
  proof -
    have "writes_within K (- {a}) (for_each (coloured ps) (\<lambda>(p, w). pass p w))"
    proof (rule writes_within_for_each, clarify)
      fix r w assume "(r, w) \<in> set (coloured ps)"
      then obtain s where "(r, s, w) \<in> set ps" "w \<noteq> 0" by (auto simp: set_coloured)
      then have r: "unat r + unat s \<le> unat q" "in_ram r (unat s)" "(unat s, w) \<in> {(32, 1), (40, 1), (40, 3), (52, 4)}"
        using packet_run_above(2) [OF assms(1), of r s w] by auto
      have "a \<notin> span r (unat s)"
        using r(1) a(2) in_ram_bound [OF r(2)] by (simp add: offset_less_iff)
      then show "writes_within K (- {a}) (pass r w)"
        by (intro writes_within_mono [OF inside [OF r(2,3)]]) auto
    qed
    then show ?thesis using a(1) by (rule writes_withinD) simp
  qed
  then show "in_ram a 1 \<Longrightarrow> unat q \<le> unat a \<Longrightarrow> mem_r8 K ?c a = mem_r8 K c a" .
  have "unat (q + 7) = unat q + 7" using in_ram_bound [OF assms(3)] by (subst unat_add_small) auto
  then have "mem_r8 K ?c (q + 7) = mem_r8 K c (q + 7)"
    using in_ram_offset [OF assms(3), of 7 1] by (intro far) auto
  then have "run_state (walk_turn K pass hi q) ?c = (Inl False, ?c)"
    using assms(2,4) by (simp add: walk_turn_def packet_command_def Let_def split_beta)
  then show "run_state (walk_packets K lo hi pass) c = (False, ?c)"
    unfolding walk_packets_def by (intro run_loop) (simp add: walk_run [OF assms(1)] loop_run_leave)
qed

end

lemma packet_shape_bound: "unat (fst (packet_shape v)) \<le> 52"
  by (simp add: packet_shape_def)

section \<open>Properties\<close>

text \<open>C26. The packet walk of the effect passes returns from every state of memory, well formed or not, and
  whatever a pass does to the packets: an unknown opcode ends it, and every other turn moves the
  cursor on by the size of a packet, which cannot wrap around when the end of the span is at least a
  packet below \<open>2^32\<close>.\<close>
theorem walk_terminates:
  assumes "unat hi + 52 \<le> 2 ^ 32"
  shows "\<exists>ok d. loop_run (walk_turn K apply1 hi) lo c = Some (ok, d) \<and>
    run_state (walk_packets K lo hi apply1) c = (ok, d)"
proof -
  let ?f = "walk_turn K apply1 hi"
  have turn: "case run_state (?f p) c of (Inl r, d) \<Rightarrow> True
      | (Inr p', d) \<Rightarrow> True \<and> unat hi - unat p' < unat hi - unat p" for p c
  proof (cases "p < hi")
    case True
    let ?s = "fst (packet_shape (ucast (mem_r8 K c (p + 7)) AND 0xFC))"
    have "unat p < unat hi" using True by (simp add: word_less_nat_alt)
    then have "unat (p + ?s) = unat p + unat ?s"
      using assms packet_shape_bound [of "ucast (mem_r8 K c (p + 7)) AND 0xFC"] by (intro unat_add_small) linarith
    moreover have "?s \<noteq> 0 \<Longrightarrow> 0 < unat ?s" by (simp add: unat_gt_0)
    ultimately have "?s \<noteq> 0 \<Longrightarrow> unat hi - unat (p + ?s) < unat hi - unat p"
      using \<open>unat p < unat hi\<close> by linarith
    then show ?thesis
      using True
      by (simp add: walk_turn_def packet_command_def Let_def split_beta)
  next
    case False
    then show ?thesis by (simp add: walk_turn_def)
  qed
  have "\<exists>ok d. loop_run ?f lo c = Some (ok, d) \<and> True"
    by (rule loop_returns [where P = "\<lambda>p c. True" and rank = "\<lambda>p c. unat hi - unat p"]) (rule turn, simp)
  then show ?thesis unfolding walk_packets_def by (blast intro: run_loop)
qed

theorem walk_terminates_witness:
  "\<exists>ok d. loop_run (walk_turn idle_core (semi_on idle_core) 0x80001040) 0x80001000 zero_flat = Some (ok, d) \<and>
    run_state (walk_packets idle_core 0x80001000 0x80001040 (semi_on idle_core)) zero_flat = (ok, d)"
  by (rule walk_terminates) simp

text \<open>C27. Over a span of well-formed packets \<open>Render::effectSemiOn\<close> sets the semi-transparency bit in
  the command byte of every colour-bearing packet and \<open>Render::effectSemiOff\<close> clears it; no other
  byte of RAM changes, and neither pass aborts.\<close>
theorem semi_passes:
  assumes "guest_core K" and "packet_run K c hi lo ps q" and "\<not> q < hi" and "in_ram a 1"
  shows "result (effect_semi_on K lo hi) c \<and> result (effect_semi_off K lo hi) c \<and>
    mem_r8 K (exec (effect_semi_on K lo hi) c) a =
      (if a \<in> command_bytes ps then mem_r8 K c a OR 2 else mem_r8 K c a) \<and>
    mem_r8 K (exec (effect_semi_off K lo hi) c) a =
      (if a \<in> command_bytes ps then mem_r8 K c a AND NOT 2 else mem_r8 K c a)"
  using guest_core.effect_semi_bytes [OF assms] by simp

text \<open>Two packets: a flat triangle, which carries no colour here, and a textured quad.\<close>
definition two_packets :: flat where
  "two_packets = mem_w8 idle_core (mem_w8 idle_core zero_flat 0x80001007 0x20) 0x8000101B 0x2C"

lemma two_packets_run:
  "packet_run idle_core two_packets 0x8000103C 0x80001000
     [(0x80001000, 20, 0), (0x80001014, 40, 1)] 0x8000103C"
  by (simp add: packet_run_Cons packet_run_Nil two_packets_def zero_flat_def packet_shape_def in_ram_def)

theorem semi_passes_witness:
  "mem_r8 idle_core (exec (effect_semi_on idle_core 0x80001000 0x8000103C) two_packets) 0x8000101B = 0x2E \<and>
   mem_r8 idle_core (exec (effect_semi_on idle_core 0x80001000 0x8000103C) two_packets) 0x80001007 = 0x20"
  using semi_passes [OF flat.guest_core_axioms two_packets_run, of "0x8000101B"]
    semi_passes [OF flat.guest_core_axioms two_packets_run, of "0x80001007"]
  by (simp add: in_ram_def command_bytes_def two_packets_def)

context guest_core
begin

lemma passes:
  "packet_pass K (semi_on K)" "packet_pass K (semi_off K)" "packet_pass K (clut_swap K node)"
  "packet_pass K (flat_tint K rgb)" "packet_pass K (colour_add K node)"
  by (rule semi_on.packet_pass_axioms semi_off.packet_pass_axioms clut_swap.packet_pass_axioms
      flat_tint.packet_pass_axioms colour_add.packet_pass_axioms)+

end

lemma semi_mask: "(v OR 2) AND 0xFC = (v AND 0xFC :: u8)"
proof -
  have "(2 :: u8) AND 0xFC = 0" by simp
  then show ?thesis by (simp only: bit.conj_disj_distrib2) simp
qed

text \<open>C28. \<open>Render::effectSemiOff\<close> is the inverse of \<open>Render::effectSemiOn\<close>: over a span of well-formed
  packets none of which is semi-transparent, switching the bit on and off again restores every byte
  of RAM.\<close>
theorem semi_round_trip:
  assumes "guest_core K" and "packet_run K c hi lo ps q" and "\<not> q < hi" and "in_ram a 1"
    and "\<forall>b \<in> command_bytes ps. mem_r8 K c b AND 2 = 0"
  shows "mem_r8 K (exec (do { effect_semi_on K lo hi; effect_semi_off K lo hi }) c) a = mem_r8 K c a"
proof -
  let ?c = "exec (effect_semi_on K lo hi) c"
  note on = guest_core.effect_semi_bytes(2) [OF assms(1-3)]
  have "packet_run K ?c hi lo ps q"
  proof (rule guest_core.packet_run_command [OF assms(1,2)])
    fix r s w assume "(r, s, w) \<in> set ps"
    then have "in_ram r (unat s)" "20 \<le> unat s" using packet_run_above(2) [OF assms(2)] by auto
    then have "in_ram (r + 7) 1" by (simp add: in_ram_offset)
    then show "mem_r8 K ?c (r + 7) AND 0xFC = mem_r8 K c (r + 7) AND 0xFC"
      using on by (simp add: semi_mask)
  qed
  from guest_core.effect_semi_bytes(4) [OF assms(1) this assms(3,4)]
  have "mem_r8 K (exec (effect_semi_off K lo hi) ?c) a =
      (if a \<in> command_bytes ps then (mem_r8 K c a OR 2) AND NOT 2 else mem_r8 K c a)"
    using on [OF assms(4)] by simp
  moreover have "(v OR 2) AND NOT 2 = (v :: u8)" if "v AND 2 = 0" for v
  proof -
    have "v = (v AND 2) OR (v AND NOT 2)" by (rule bit_word_eqI) (auto simp: bit_simps)
    then have "v = v AND NOT 2" by (simp only: that or.left_neutral)
    then show ?thesis by (simp only: or_semi_idem(3))
  qed
  ultimately show ?thesis using assms(5) by (simp add: split_beta)
qed

theorem semi_round_trip_witness:
  "mem_r8 idle_core (exec (do { effect_semi_on idle_core 0x80001000 0x8000103C;
      effect_semi_off idle_core 0x80001000 0x8000103C }) two_packets) 0x8000101B = 0x2C"
proof -
  have "command_bytes [(0x80001000, 20, 0), (0x80001014, 40, 1)] = {0x8000101B}"
    by (auto simp: command_bytes_def)
  moreover have "mem_r8 idle_core two_packets 0x8000101B = 0x2C" by (simp add: two_packets_def)
  ultimately show ?thesis
    using semi_round_trip [OF flat.guest_core_axioms two_packets_run, of "0x8000101B"]
    by (simp add: in_ram_def del: flat_core_sel)
qed

text \<open>C29. A malformed packet pool is refused: where the walk meets an opcode outside the table, inside
  the span, every one of the five passes aborts, having changed no byte from the bad packet on.\<close>
theorem malformed_refused:
  assumes "guest_core K" and "packet_run K c hi lo ps q" and "q < hi" and "in_ram q 8"
    and "fst (packet_shape (ucast (mem_r8 K c (q + 7)) AND 0xFC)) = 0"
    and "m \<in> {effect_semi_on K lo hi, effect_semi_off K lo hi, effect_clut_swap K node lo hi,
      effect_flat_tint K node lo hi, effect_color_add K node lo hi}"
    and "in_ram a 1" and "unat q \<le> unat a"
  shows "\<not> result m c \<and> mem_r8 K (exec m c) a = mem_r8 K c a"
proof -
  note bad = packet_pass.walk_bad [OF _ assms(2-5)]
  have pass: "\<not> result (walk_packets K lo hi pass) c \<and>
      mem_r8 K (exec (walk_packets K lo hi pass) c) a = mem_r8 K c a" if "packet_pass K pass" for pass
    using bad(1) [OF that] bad(2) [OF that assms(7,8)] by simp
  show ?thesis
    using assms(6) guest_core.passes [OF assms(1), THEN pass]
    by (auto simp: effect_semi_on_def effect_semi_off_def effect_clut_swap_def effect_flat_tint_def
        effect_color_add_def)
qed

theorem malformed_refused_witness:
  "\<not> result (effect_color_add idle_core 0x80002000 0x80001000 0x80001040) two_packets"
proof -
  have "packet_run idle_core two_packets 0x80001040 0x80001000
     [(0x80001000, 20, 0), (0x80001014, 40, 1)] 0x8000103C"
    by (simp add: packet_run_Cons packet_run_Nil two_packets_def zero_flat_def packet_shape_def in_ram_def)
  from malformed_refused [OF flat.guest_core_axioms this, of "effect_color_add idle_core 0x80002000 0x80001000 0x80001040"
      "0x80002000" "0x8000103C"]
  show ?thesis by (simp add: in_ram_def two_packets_def zero_flat_def packet_shape_def)
qed

lemma unat_nonneg: "0 \<le> sint (x :: u32) \<Longrightarrow> int (unat x) = sint x"
proof -
  assume "0 \<le> sint x"
  then have "unat x < 2 ^ 31" using sless_zero [of x] by (simp add: word_sless_alt)
  then show ?thesis by (simp only: sint_eq_unat)
qed



end
