(* ===== verification/Spawn.thy ===== *)
theory Spawn
  imports ObjectPools
begin

text \<open>
  The entity spawn and despawn subsystem of \<open>game/world/spawn.cpp\<close> (class \<open>Spawn\<close>): the five pool
  primitives pop a node from a free list, link it into one of three active doubly linked lists at a
  requested position and stamp its identity; \<open>despawn\<close> is the inverse. The comparison channels
  (\<open>despawnverify\<close> and the \<open>verification.run\<close> wrappers, which abort when requested) are off, so a
  wrapper stores its body's result in register 2.
\<close>

section \<open>Layout\<close>

definition FREE_HEAD :: u32 where "FREE_HEAD = 0x800E8098"
definition FREE_CNT :: u32 where "FREE_CNT = 0x800E7E7C"

definition LIST_HEAD :: "u32 list" where "LIST_HEAD = [0x800FB168, 0x800F2624, 0x800F2738]"
definition LIST_TAIL :: "u32 list" where "LIST_TAIL = [0x800F23A8, 0x800F239C, 0x800F23A0]"

definition POOL2_HEAD :: u32 where "POOL2_HEAD = 0x800E80A0"
definition POOL2_CNT :: u32 where "POOL2_CNT = 0x800E7E7D"

record pool_desc =
  free_head :: u32
  free_cnt :: u32

definition POOL_VAR2 :: pool_desc where
  "POOL_VAR2 = \<lparr>free_head = 0x800F2398, free_cnt = 0x800ED8CC\<rparr>"
definition POOL_VAR3 :: pool_desc where
  "POOL_VAR3 = \<lparr>free_head = 0x800ED8D4, free_cnt = 0x800ED8C5\<rparr>"
definition POOL_VAR4 :: pool_desc where
  "POOL_VAR4 = \<lparr>free_head = 0x800ED8D0, free_cnt = 0x800ED8C4\<rparr>"

definition DESPAWN_POOL :: "pool_desc list" where
  "DESPAWN_POOL =
     [\<lparr>free_head = 0x800E8098, free_cnt = 0x800E7E7C\<rparr>,
      \<lparr>free_head = 0x800E80A0, free_cnt = 0x800E7E7D\<rparr>,
      \<lparr>free_head = 0x800F2398, free_cnt = 0x800ED8CC\<rparr>,
      \<lparr>free_head = 0x800ED8D4, free_cnt = 0x800ED8C5\<rparr>,
      \<lparr>free_head = 0x800ED8D0, free_cnt = 0x800ED8C4\<rparr>]"

definition SPAWN_DISPATCH :: u32 where "SPAWN_DISPATCH = 0x8007A980"
definition HANDLER_LIFT :: u32 where "HANDLER_LIFT = 0x8013A330"
definition HANDLER_QUADREC :: u32 where "HANDLER_QUADREC = 0x80135D64"
definition HANDLER_SIBANG :: u32 where "HANDLER_SIBANG = 0x801395C0"
definition HANDLER_CHILDTRIG :: u32 where "HANDLER_CHILDTRIG = 0x8013A900"

section \<open>Linking and stamping\<close>

definition spawn_link_stamp ::
  "'c core_ops \<Rightarrow> u32 \<Rightarrow> u32 \<Rightarrow> u32 \<Rightarrow> u32 \<Rightarrow> u32 \<Rightarrow> ('c, unit) state" where
  "spawn_link_stamp K node ref type mode list = do {
     let (head, tail) =
       (if list = 1 then (LIST_HEAD ! 1, LIST_TAIL ! 1)
        else if list = 2 then (LIST_HEAD ! 2, LIST_TAIL ! 2)
        else (LIST_HEAD ! 0, LIST_TAIL ! 0));
     (do_head, do_tail) \<leftarrow>
       (if mode = 0 then do {
          prev \<leftarrow> r32 K (ref + 32);
          (if prev = 0 then State_Monad.return (True, False)
           else do {
             w32 K (node + 32) prev;
             w32 K (node + 36) ref;
             w32 K (prev + 36) node;
             w32 K (ref + 32) node;
             State_Monad.return (False, False)
           })
        }
        else if mode = 1 then State_Monad.return (True, False)
        else if mode = 2 then do {
          nxt \<leftarrow> r32 K (ref + 36);
          (if nxt = 0 then State_Monad.return (False, True)
           else do {
             w32 K (node + 32) ref;
             w32 K (node + 36) nxt;
             w32 K (nxt + 32) node;
             w32 K (ref + 36) node;
             State_Monad.return (False, False)
           })
        }
        else if mode = 3 then State_Monad.return (False, True)
        else State_Monad.return (False, False));
     (if do_head then do {
        w32 K (node + 32) 0;
        old \<leftarrow> r32 K head;
        w32 K (node + 36) old;
        (if old \<noteq> 0 then w32 K (old + 32) node else w32 K tail node);
        w32 K head node
      }
      else only_if do_tail (do {
        w32 K (node + 36) 0;
        old \<leftarrow> r32 K tail;
        w32 K (node + 32) old;
        (if old \<noteq> 0 then w32 K (old + 36) node else w32 K head node);
        w32 K tail node
      }));
     w8 K (node + 10) list;
     w8 K (node + 0) 2;
     w8 K (node + 12) type
   }"

section \<open>The five pool primitives and their dispatcher\<close>

definition entity_spawn_body :: "'c core_ops \<Rightarrow> ('c, u32) state" where
  "entity_spawn_body K = do {
     ref \<leftarrow> reg K 4;
     r5 \<leftarrow> reg K 5;
     let type = r5 AND 0xFF;
     mode \<leftarrow> reg K 6;
     list \<leftarrow> reg K 7;
     cnt \<leftarrow> r8 K FREE_CNT;
     (if cnt < 3 then State_Monad.return 0
      else do {
        node \<leftarrow> r32 K FREE_HEAD;
        w8 K FREE_CNT (cnt - 1);
        nxt \<leftarrow> r32 K (node + 36);
        w32 K FREE_HEAD nxt;
        spawn_link_stamp K node ref type mode list;
        State_Monad.return node
      })
   }"

definition pool_spawn :: "'c core_ops \<Rightarrow> pool_desc \<Rightarrow> ('c, u32) state" where
  "pool_spawn K p = do {
     ref \<leftarrow> reg K 4;
     r5 \<leftarrow> reg K 5;
     let type = r5 AND 0xFF;
     mode \<leftarrow> reg K 6;
     list \<leftarrow> reg K 7;
     node \<leftarrow> r32 K (free_head p);
     (if node = 0 then State_Monad.return 0
      else do {
        cnt \<leftarrow> r8 K (free_cnt p);
        w8 K (free_cnt p) (cnt - 1);
        nxt \<leftarrow> r32 K (node + 36);
        w32 K (free_head p) nxt;
        spawn_link_stamp K node ref type mode list;
        State_Monad.return node
      })
   }"

definition spawn_pool2_body :: "'c core_ops \<Rightarrow> ('c, u32) state" where
  "spawn_pool2_body K = do {
     ref \<leftarrow> reg K 4;
     r5 \<leftarrow> reg K 5;
     let type = r5 AND 0xFF;
     mode \<leftarrow> reg K 6;
     list \<leftarrow> reg K 7;
     node \<leftarrow> r32 K POOL2_HEAD;
     (if node = 0 then do {
        setr K 4 ref;
        setr K 5 type;
        pool_spawn K POOL_VAR2
      }
      else do {
        cnt \<leftarrow> r8 K POOL2_CNT;
        w8 K POOL2_CNT (cnt - 1);
        nxt \<leftarrow> r32 K (node + 36);
        w32 K POOL2_HEAD nxt;
        spawn_link_stamp K node ref type mode list;
        State_Monad.return node
      })
   }"

definition spawn_variant_native :: "'c core_ops \<Rightarrow> u32 \<Rightarrow> ('c, u32) state" where
  "spawn_variant_native K cls =
     (if cls = 0 then entity_spawn_body K
      else if cls = 1 then spawn_pool2_body K
      else if cls = 2 then pool_spawn K POOL_VAR2
      else if cls = 3 then pool_spawn K POOL_VAR3
      else pool_spawn K POOL_VAR4)"

definition spawn_dispatch :: "'c core_ops \<Rightarrow> u32 \<Rightarrow> u32 \<Rightarrow> u32
    \<Rightarrow> ('c, u32) state" where
  "spawn_dispatch K cls_in type_in list = do {
     let cls = cls_in AND 0xFF;
     (if 5 \<le> cls then do { setr K 2 0; State_Monad.return 0 }
      else do {
        let type = type_in AND 0xFF;
        setr K 4 0;
        setr K 5 type;
        setr K 6 3;
        setr K 7 list;
        node \<leftarrow> spawn_variant_native K cls;
        setr K 2 node;
        State_Monad.return node
      })
   }"

section \<open>Despawn\<close>

text \<open>The loop that returns the child records of a class-4 node, from the last one down.\<close>
definition free_child_record :: "'c core_ops \<Rightarrow> u32 \<Rightarrow> u32 \<Rightarrow> ('c, unit) state" where
  "free_child_record K node n = do {
     freeCnt \<leftarrow> r16 K 0x800ED098;
     freePtr \<leftarrow> r32 K 0x800E7E74;
     child \<leftarrow> r32 K (node + 0xC0 + (n - 1) * 4);
     w16 K 0x800ED098 (freeCnt + 1);
     w32 K 0x800E7E74 (freePtr - 4);
     w32 K (freePtr - 4) child
   }"

definition unlink_node :: "'c core_ops \<Rightarrow> u32 \<Rightarrow> ('c, unit) state" where
  "unlink_node K node = do {
     list \<leftarrow> r8 K (node + 0x0A);
     let head = (if list = 0 then LIST_HEAD ! 0 else LIST_HEAD ! 1);
     let tail = (if list = 0 then LIST_TAIL ! 0 else LIST_TAIL ! 1);
     prev \<leftarrow> r32 K (node + 32);
     nxt \<leftarrow> r32 K (node + 36);
     (if prev \<noteq> 0 then w32 K (prev + 36) nxt
      else do { w32 K head nxt; only_if (nxt \<noteq> 0) (w32 K (nxt + 32) 0) });
     (if nxt \<noteq> 0 then w32 K (nxt + 32) prev
      else do { w32 K tail prev; only_if (prev \<noteq> 0) (w32 K (prev + 36) 0) })
   }"

definition push_free :: "'c core_ops \<Rightarrow> u32 \<Rightarrow> ('c, unit) state" where
  "push_free K node = do {
     b \<leftarrow> r8 K (node + 0x28);
     let v = b AND 0x7F;
     w8 K (node + 0x28) v;
     let cls = v AND 0xFF;
     only_if (cls < 5) (do {
       let p = DESPAWN_POOL ! unat cls;
       h \<leftarrow> r32 K (free_head p);
       w32 K (node + 36) h;
       w32 K (free_head p) node;
       cnt \<leftarrow> r8 K (free_cnt p);
       w8 K (free_cnt p) (cnt + 1);
       only_if (cls = 4) (do {
         n \<leftarrow> r8 K (node + 9);
         for_each (map of_nat (rev [1..<unat n + 1])) (free_child_record K node);
         w8 K (node + 9) 0
       })
     })
   }"

definition clear_node :: "'c core_ops \<Rightarrow> u32 \<Rightarrow> ('c, unit) state" where
  "clear_node K node = do {
     for_each [0, 4, 8, 0xC, 0x10, 0x14, 0x18, 0x38] (\<lambda>o1. w32 K (node + o1) 0);
     w8 K (node + 0x2A) 0;
     w8 K (node + 0x2B) 0;
     w8 K (node + 0x29) 0;
     w8 K (node + 0x5E) 0
   }"

definition despawn :: "'c core_ops \<Rightarrow> u32 \<Rightarrow> ('c, unit) state" where
  "despawn K node = do {
     unlink_node K node;
     push_free K node;
     clear_node K node
   }"

section \<open>Spawn helpers built on the dispatcher\<close>

definition spawn_and_init_body :: "'c core_ops \<Rightarrow> ('c, u32) state" where
  "spawn_and_init_body K = do {
     a0 \<leftarrow> reg K 4;
     a1 \<leftarrow> reg K 5;
     a2 \<leftarrow> reg K 6;
     v4 \<leftarrow> r8 K 0x800E7E7C;
     (if v4 < 7 then State_Monad.return 0
      else do {
        node \<leftarrow> spawn_dispatch K 0 6 1;
        (if node = 0 then State_Monad.return 0
         else do {
           only_if (a1 \<noteq> 0) (do {
             v6 \<leftarrow> r16 K (a1 + 2);
             w16 K (node + 0x2C) v6;
             v7 \<leftarrow> r16 K (a1 + 6);
             w16 K (node + 0x2E) v7;
             v8 \<leftarrow> r16 K (a1 + 0xA);
             w16 K (node + 0x30) v8
           });
           w16 K (node + 0x32) a2;
           setr K 4 node;
           setr K 5 a0;
           call_guest K 0x80028E10;
           State_Monad.return node
         })
      })
   }"

definition spawn_and_init :: "'c core_ops \<Rightarrow> u32 \<Rightarrow> u32 \<Rightarrow> u32 \<Rightarrow> ('c, u32) state" where
  "spawn_and_init K a0 posSrc a2 = do {
     setr K 4 a0;
     setr K 5 posSrc;
     setr K 6 a2;
     r \<leftarrow> spawn_and_init_body K;
     setr K 2 r;
     reg K 2
   }"

definition spawn_typed_child :: "'c core_ops \<Rightarrow> u32 \<Rightarrow> u32 \<Rightarrow> u32
    \<Rightarrow> u32 \<Rightarrow> bool \<Rightarrow> u32 \<Rightarrow> ('c, u32) state" where
  "spawn_typed_child K owner cls handlerAddr typeByte hasSub sub = do {
     child \<leftarrow> spawn_dispatch K cls 4 0;
     (if child = 0 then State_Monad.return 0
      else do {
        w32 K (child + 0x1C) handlerAddr;
        w32 K (child + 0x10) owner;
        w8 K (child + 2) typeByte;
        only_if hasSub (w8 K (child + 3) sub);
        State_Monad.return child
      })
   }"

definition spawn_quad_record_child :: "'c core_ops \<Rightarrow> u32 \<Rightarrow> u32
    \<Rightarrow> ('c, u32) state" where
  "spawn_quad_record_child K owner sub = spawn_typed_child K owner 2 0x80135D64 7 True sub"

definition spawn_sibling_angle_child :: "'c core_ops \<Rightarrow> u32 \<Rightarrow> u32
    \<Rightarrow> ('c, u32) state" where
  "spawn_sibling_angle_child K owner sub = spawn_typed_child K owner 1 0x801395C0 13 True sub"

definition spawn_child_trig_child :: "'c core_ops \<Rightarrow> u32 \<Rightarrow> u32
    \<Rightarrow> ('c, u32) state" where
  "spawn_child_trig_child K owner sub = spawn_typed_child K owner 2 0x8013A900 17 True sub"

definition spawn_lift_platform_child :: "'c core_ops \<Rightarrow> u32 \<Rightarrow> ('c, u32)
    state" where
  "spawn_lift_platform_child K owner = spawn_typed_child K owner 3 0x8013A330 16 False 0"

definition spawn_effect_child :: "'c core_ops \<Rightarrow> u32 \<Rightarrow> u32 \<Rightarrow>
    ('c, u32) state" where
  "spawn_effect_child K owner sub = do {
     let L_epilogue = (do {
       r29_1 \<leftarrow> reg K 29;
       v2 \<leftarrow> r32 K (r29_1 + 24);
       setr K 31 v2;
       v3 \<leftarrow> r32 K (r29_1 + 20);
       setr K 17 v3;
       v4 \<leftarrow> r32 K (r29_1 + 16);
       setr K 16 v4;
       setr K 29 (r29_1 + 32);
       reg K 2
     });
     let L_poolEmpty = (do {
       r0_6 \<leftarrow> reg K 0;
       setr K 2 (r0_6 + r0_6);
       L_epilogue
     });
     setr K 4 owner;
     setr K 5 sub;
     r29_7 \<leftarrow> reg K 29;
     setr K 29 (r29_7 + (-32));
     r29_8 \<leftarrow> reg K 29;
     r17_9 \<leftarrow> reg K 17;
     w32 K (r29_8 + 20) r17_9;
     r4_10 \<leftarrow> reg K 4;
     r0_11 \<leftarrow> reg K 0;
     setr K 17 (r4_10 + r0_11);
     r16_12 \<leftarrow> reg K 16;
     w32 K (r29_8 + 16) r16_12;
     r5_13 \<leftarrow> reg K 5;
     setr K 16 (r5_13 + r0_11);
     setr K 4 (r0_11 + r0_11);
     setr K 5 (r0_11 + 6);
     r31_14 \<leftarrow> reg K 31;
     w32 K (r29_8 + 24) r31_14;
     setr K 31 0x80031580;
     setr K 6 (r0_11 + 1);
     call_guest K 0x8007A980;
     r2_15 \<leftarrow> reg K 2;
     r0_16 \<leftarrow> reg K 0;
     let poolEmpty = (of_bool (r2_15 = r0_16) :: u32);
     setr K 3 (shl 32771 16);
     (if poolEmpty \<noteq> 0 then L_poolEmpty
      else do {
        r3_17 \<leftarrow> reg K 3;
        setr K 3 (r3_17 + (-25792));
        r3_18 \<leftarrow> reg K 3;
        w32 K (r2_15 + 28) r3_18;
        setr K 3 (r0_16 + 32);
        r3_19 \<leftarrow> reg K 3;
        w8 K (r2_15 + 11) r3_19;
        setr K 3 (shl 32771 16);
        v20 \<leftarrow> r8 K (r2_15 + 40);
        setr K 4 v20;
        r3_21 \<leftarrow> reg K 3;
        setr K 3 (r3_21 + (-24724));
        r17_22 \<leftarrow> reg K 17;
        w32 K (r2_15 + 16) r17_22;
        r3_23 \<leftarrow> reg K 3;
        w32 K (r2_15 + 24) r3_23;
        r16_24 \<leftarrow> reg K 16;
        w8 K (r2_15 + 3) r16_24;
        r4_25 \<leftarrow> reg K 4;
        setr K 4 (r4_25 OR 128);
        r4_26 \<leftarrow> reg K 4;
        w8 K (r2_15 + 40) r4_26;
        L_epilogue
      })
   }"

definition eov_spawnLiftPlatformChild :: "'c core_ops \<Rightarrow> ('c, unit) state" where
  "eov_spawnLiftPlatformChild K = do {
     owner \<leftarrow> reg K 4;
     r29_2 \<leftarrow> reg K 29;
     setr K 29 (r29_2 - 24);
     r29_3 \<leftarrow> reg K 29;
     r16_4 \<leftarrow> reg K 16;
     w32 K (r29_3 + 16) r16_4;
     setr K 16 owner;
     setr K 4 3;
     setr K 5 4;
     setr K 6 0;
     r31_5 \<leftarrow> reg K 31;
     w32 K (r29_3 + 20) r31_5;
     setr K 31 0x8013A750;
     call_guest K SPAWN_DISPATCH;
     setr K 3 (shl 32788 16);
     r2_6 \<leftarrow> reg K 2;
     (if r2_6 \<noteq> 0 then do {
       w32 K (r2_6 + 0x1C) HANDLER_LIFT;
       setr K 3 16;
       r16_7 \<leftarrow> reg K 16;
       w32 K (r2_6 + 0x10) r16_7;
       r3_8 \<leftarrow> reg K 3;
       w8 K (r2_6 + 2) r3_8
     }
      else setr K 2 0);
     r29_9 \<leftarrow> reg K 29;
     v10 \<leftarrow> r32 K (r29_9 + 20);
     setr K 31 v10;
     v11 \<leftarrow> r32 K (r29_9 + 16);
     setr K 16 v11;
     setr K 29 (r29_9 + 24)
   }"

definition eov_spawnQuadRecordChild :: "'c core_ops \<Rightarrow> ('c, unit) state" where
  "eov_spawnQuadRecordChild K = do {
     owner \<leftarrow> reg K 4;
     sub \<leftarrow> reg K 5;
     r29_3 \<leftarrow> reg K 29;
     setr K 29 (r29_3 - 32);
     r29_4 \<leftarrow> reg K 29;
     r17_5 \<leftarrow> reg K 17;
     w32 K (r29_4 + 20) r17_5;
     setr K 17 owner;
     r16_6 \<leftarrow> reg K 16;
     w32 K (r29_4 + 16) r16_6;
     setr K 16 sub;
     setr K 4 2;
     setr K 5 4;
     setr K 6 0;
     r31_7 \<leftarrow> reg K 31;
     w32 K (r29_4 + 24) r31_7;
     setr K 31 0x8013611C;
     call_guest K SPAWN_DISPATCH;
     setr K 3 (shl 32787 16);
     r2_8 \<leftarrow> reg K 2;
     (if r2_8 \<noteq> 0 then do {
       w32 K (r2_8 + 0x1C) HANDLER_QUADREC;
       setr K 3 7;
       r17_9 \<leftarrow> reg K 17;
       w32 K (r2_8 + 0x10) r17_9;
       r3_10 \<leftarrow> reg K 3;
       w8 K (r2_8 + 2) r3_10;
       r16_11 \<leftarrow> reg K 16;
       w8 K (r2_8 + 3) r16_11
     }
      else setr K 2 0);
     r29_12 \<leftarrow> reg K 29;
     v13 \<leftarrow> r32 K (r29_12 + 24);
     setr K 31 v13;
     v14 \<leftarrow> r32 K (r29_12 + 20);
     setr K 17 v14;
     v15 \<leftarrow> r32 K (r29_12 + 16);
     setr K 16 v15;
     setr K 29 (r29_12 + 32)
   }"

definition eov_spawnSiblingAngleChild :: "'c core_ops \<Rightarrow> ('c, unit) state" where
  "eov_spawnSiblingAngleChild K = do {
     owner \<leftarrow> reg K 4;
     sub \<leftarrow> reg K 5;
     r29_3 \<leftarrow> reg K 29;
     setr K 29 (r29_3 - 32);
     r29_4 \<leftarrow> reg K 29;
     r17_5 \<leftarrow> reg K 17;
     w32 K (r29_4 + 20) r17_5;
     setr K 17 owner;
     r16_6 \<leftarrow> reg K 16;
     w32 K (r29_4 + 16) r16_6;
     setr K 16 sub;
     setr K 4 1;
     setr K 5 4;
     setr K 6 0;
     r31_7 \<leftarrow> reg K 31;
     w32 K (r29_4 + 24) r31_7;
     setr K 31 0x80139860;
     call_guest K SPAWN_DISPATCH;
     setr K 3 (shl 32788 16);
     r2_8 \<leftarrow> reg K 2;
     (if r2_8 \<noteq> 0 then do {
       w32 K (r2_8 + 0x1C) HANDLER_SIBANG;
       setr K 3 13;
       r17_9 \<leftarrow> reg K 17;
       w32 K (r2_8 + 0x10) r17_9;
       r3_10 \<leftarrow> reg K 3;
       w8 K (r2_8 + 2) r3_10;
       r16_11 \<leftarrow> reg K 16;
       w8 K (r2_8 + 3) r16_11
     }
      else setr K 2 0);
     r29_12 \<leftarrow> reg K 29;
     v13 \<leftarrow> r32 K (r29_12 + 24);
     setr K 31 v13;
     v14 \<leftarrow> r32 K (r29_12 + 20);
     setr K 17 v14;
     v15 \<leftarrow> r32 K (r29_12 + 16);
     setr K 16 v15;
     setr K 29 (r29_12 + 32)
   }"

definition eov_spawnChildTrigChild :: "'c core_ops \<Rightarrow> ('c, unit) state" where
  "eov_spawnChildTrigChild K = do {
     owner \<leftarrow> reg K 4;
     sub \<leftarrow> reg K 5;
     r29_3 \<leftarrow> reg K 29;
     setr K 29 (r29_3 - 32);
     r29_4 \<leftarrow> reg K 29;
     r17_5 \<leftarrow> reg K 17;
     w32 K (r29_4 + 20) r17_5;
     setr K 17 owner;
     r16_6 \<leftarrow> reg K 16;
     w32 K (r29_4 + 16) r16_6;
     setr K 16 sub;
     setr K 4 2;
     setr K 5 4;
     setr K 6 0;
     r31_7 \<leftarrow> reg K 31;
     w32 K (r29_4 + 24) r31_7;
     setr K 31 0x8013AC5C;
     call_guest K SPAWN_DISPATCH;
     setr K 3 (shl 32788 16);
     r2_8 \<leftarrow> reg K 2;
     (if r2_8 \<noteq> 0 then do {
       w32 K (r2_8 + 0x1C) HANDLER_CHILDTRIG;
       setr K 3 17;
       r17_9 \<leftarrow> reg K 17;
       w32 K (r2_8 + 0x10) r17_9;
       r3_10 \<leftarrow> reg K 3;
       w8 K (r2_8 + 2) r3_10;
       r16_11 \<leftarrow> reg K 16;
       w8 K (r2_8 + 3) r16_11
     }
      else setr K 2 0);
     r29_12 \<leftarrow> reg K 29;
     v13 \<leftarrow> r32 K (r29_12 + 24);
     setr K 31 v13;
     v14 \<leftarrow> r32 K (r29_12 + 20);
     setr K 17 v14;
     v15 \<leftarrow> r32 K (r29_12 + 16);
     setr K 16 v15;
     setr K 29 (r29_12 + 32)
   }"

definition eov_spawn_effect_child :: "'c core_ops \<Rightarrow> ('c, unit) state" where
  "eov_spawn_effect_child K = do {
     r4_1 \<leftarrow> reg K 4;
     r5_2 \<leftarrow> reg K 5;
     v3 \<leftarrow> spawn_effect_child K r4_1 r5_2;
     setr K 2 v3
   }"

definition scene_entity_body :: "'c core_ops \<Rightarrow> ('c, u32) state" where
  "scene_entity_body K = do {
     r4_1 \<leftarrow> reg K 4;
     let sceneId = r4_1 AND 0xFFFF;
     r5_2 \<leftarrow> reg K 5;
     let subtype = r5_2 AND 0xFF;
     node \<leftarrow> r32 K FREE_HEAD;
     (if node = 0 then State_Monad.return 0
      else do {
        nextFree \<leftarrow> r32 K (node + 36);
        tail \<leftarrow> r32 K (LIST_TAIL ! 1);
        w32 K (node + 36) 0;
        v6 \<leftarrow> r8 K FREE_CNT;
        w8 K FREE_CNT (v6 - 1);
        w32 K FREE_HEAD nextFree;
        w32 K (node + 32) tail;
        (if tail = 0 then w32 K (LIST_HEAD ! 1) node else w32 K (tail + 36) node);
        w32 K (LIST_TAIL ! 1) node;
        w8 K (node + 10) 1;
        w8 K (node + 0) 2;
        w8 K (node + 12) 3;
        w8 K (node + 0x47) 2;
        w32 K (node + 0x1C) 0x8007DDE0;
        w8 K (node + 3) subtype;
        v7 \<leftarrow> r8 K (node + 0x28);
        w8 K (node + 0x28) (v7 OR 0x80);
        base \<leftarrow> r32 K 0x800ECF60;
        hCount \<leftarrow> r16 K base;
        w32 K (node + 0x48) base;
        w32 K (node + 0x4C) (base + 0x10);
        w16 K (node + 0x5C) 0xFFFF;
        w16 K (node + 0x5E) sceneId;
        w32 K (node + 0x50) (base + 0x10 + hCount * 4);
        State_Monad.return node
      })
   }"

definition scene_entity :: "'c core_ops \<Rightarrow> u32 \<Rightarrow> u32 \<Rightarrow> ('c, u32) state" where
  "scene_entity K sceneId subtype = do {
     setr K 4 sceneId;
     setr K 5 subtype;
     r \<leftarrow> scene_entity_body K;
     setr K 2 r;
     reg K 2
   }"

definition drop_score_gem :: "'c core_ops \<Rightarrow> u32 \<Rightarrow> u32 \<Rightarrow> ('c, unit) state" where
  "drop_score_gem K sourceNode value = do {
     total \<leftarrow> r32 K 0x800BF874;
     w32 K 0x800BF874 (total + value);
     setr K 4 sourceNode;
     setr K 5 value;
     setr K 6 0;
     call_guest K 0x80071B44;
     setr K 2 1
   }"

definition spawn_overlay_variant_body :: "'c core_ops \<Rightarrow> ('c, u32) state" where
  "spawn_overlay_variant_body K = do {
     r4_1 \<leftarrow> reg K 4;
     let recordIndex = as_u16 (r4_1 AND 0xFFFF);
     r5_2 \<leftarrow> reg K 5;
     let variant = as_s16 (r5_2 AND 0xFFFF);
     v3 \<leftarrow> r8 K 0x800BF81E;
     v4 \<leftarrow> r8 K 0x800BF822;
     (if \<not> ((v3 = 2 \<or> variant \<noteq> 0) \<or> v4 = 0) then State_Monad.return 0
      else do {
        node \<leftarrow> r32 K FREE_HEAD;
        (if node = 0 then State_Monad.return 0
         else do {
           nextFree \<leftarrow> r32 K (node + 36);
           tail \<leftarrow> r32 K (LIST_TAIL ! 1);
           w32 K (node + 36) 0;
           v8 \<leftarrow> r8 K FREE_CNT;
           w8 K FREE_CNT (v8 - 1);
           w32 K FREE_HEAD nextFree;
           w32 K (node + 32) tail;
           (if tail = 0 then w32 K (LIST_HEAD ! 1) node else w32 K (tail + 36) node);
           w32 K (LIST_TAIL ! 1) node;
           w8 K (node + 10) 1;
           w8 K (node + 0) 2;
           w8 K (node + 12) 3;
           w8 K (node + 0x47) 1;
           w8 K (node + 3) variant;
           w32 K (node + 0x1C) 0x8007DC38;
           v9 \<leftarrow> r8 K (node + 0x28);
           w8 K (node + 0x28) (v9 OR 0x80);
           base \<leftarrow> r32 K 0x800ECF60;
           hCount \<leftarrow> r16 K base;
           w32 K (node + 0x48) base;
           w32 K (node + 0x4C) (base + 0x10);
           w16 K (node + 0x5C) 0xFFFF;
           w16 K (node + 0x5E) recordIndex;
           w32 K (node + 0x50) (base + 0x10 + hCount * 4);
           State_Monad.return node
         })
      })
   }"

definition spawn_overlay_variant :: "'c core_ops \<Rightarrow> u32 \<Rightarrow> u32 \<Rightarrow> ('c, u32) state" where
  "spawn_overlay_variant K recordIndex variant = do {
     setr K 4 recordIndex;
     setr K 5 variant;
     r \<leftarrow> spawn_overlay_variant_body K;
     setr K 2 r;
     reg K 2
   }"

definition tick_linked_overlay :: "'c core_ops \<Rightarrow> u32 \<Rightarrow> u32 \<Rightarrow>
    ('c, unit) state" where
  "tick_linked_overlay K obj recordId = do {
     st \<leftarrow> r8 K (obj + 7);
     (if st = 1 then do {
       v2 \<leftarrow> r8 K 0x800BF816;
       v3 \<leftarrow> r8 K 0x800BF80F;
       (if v2 \<noteq> 0 \<and> v3 = 0 then do {
         child \<leftarrow> r32 K (obj + 0x14);
         v5 \<leftarrow> r8 K (child + 4);
         only_if (v5 < 2) (do { w8 K (child + 4) 2; w32 K (obj + 0x14) 0 });
         w8 K (obj + 7) 0
       }
        else do {
          v6 \<leftarrow> r16 K (obj + 0x40);
          let countdown = as_s16 (v6 - 1);
          w16 K (obj + 0x40) countdown;
          (if countdown \<noteq> -1 then State_Monad.return ()
           else do {
             child \<leftarrow> r32 K (obj + 0x14);
             v8 \<leftarrow> r8 K (child + 4);
             only_if (v8 < 2) (do { w8 K (child + 4) 2; w32 K (obj + 0x14) 0 });
             v9 \<leftarrow> r8 K (obj + 7);
             w8 K (obj + 7) (v9 + 1)
           })
        })
     }
      else if 1 < st then (if st \<noteq> 2 then State_Monad.return ()
       else do {
         v10 \<leftarrow> r8 K (obj + 0x29);
         (if v10 \<noteq> 0 then State_Monad.return () else w8 K (obj + 7) 0)
       })
       else do {
         v11 \<leftarrow> r8 K 0x800BF816;
         (if v11 \<noteq> 0 then State_Monad.return ()
          else do {
            v12 \<leftarrow> r8 K (obj + 0x29);
            (if v12 = 0 then State_Monad.return ()
             else do {
               node \<leftarrow> spawn_overlay_variant K (as_u16 recordId) 2;
               w32 K (obj + 0x14) node;
               (if node = 0 then State_Monad.return ()
                else do {
                  w16 K (obj + 0x40) 0x46;
                  v14 \<leftarrow> r8 K (obj + 7);
                  w8 K (obj + 7) (v14 + 1)
                })
             })
          })
       })
   }"

end
