(* ===== verification/StackFrames.thy ===== *)
theory StackFrames
  imports GuestCore
begin

text \<open>
  The scoped stack frames the render walkers declare for themselves: a constructor that lowers the
  stack pointer and stores registers, a destructor that loads them back and raises it. A frame is
  a wrapper around the rest of its function, so the destructor runs on every path out of it.
\<close>

fun regs_of :: "'c core_ops \<Rightarrow> nat list \<Rightarrow> ('c, u32 list) state" where
  "regs_of K [] = State_Monad.return []"
| "regs_of K (r # rs) = do { v \<leftarrow> reg K r; vs \<leftarrow> regs_of K rs; State_Monad.return (v # vs) }"

text \<open>The registers are captured first (the member initialisers), then stored in the order of
  \<open>saves\<close>; the destructor loads in the order of \<open>loads\<close>.\<close>
definition open_frame :: "'c core_ops \<Rightarrow> u32 \<Rightarrow> (nat \<times> u32) list \<Rightarrow> ('c, unit) state" where
  "open_frame K sz saves = do {
     vs \<leftarrow> regs_of K (map fst saves);
     sp \<leftarrow> reg K 29;
     setr K 29 (sp - sz);
     for_each (zip (map snd saves) vs) (\<lambda>(off, v). do { sp \<leftarrow> reg K 29; w32 K (sp + off) v })
   }"

definition close_frame :: "'c core_ops \<Rightarrow> u32 \<Rightarrow> (nat \<times> u32) list \<Rightarrow> ('c, unit) state" where
  "close_frame K sz loads = do {
     for_each loads (\<lambda>(r, off). do { sp \<leftarrow> reg K 29; v \<leftarrow> r32 K (sp + off); setr K r v });
     sp \<leftarrow> reg K 29;
     setr K 29 (sp + sz)
   }"

definition local_frame :: "'c core_ops \<Rightarrow> u32 \<Rightarrow> (nat \<times> u32) list \<Rightarrow> (nat \<times> u32) list \<Rightarrow>
    ('c, 'a) state \<Rightarrow> ('c, 'a) state" where
  "local_frame K sz saves loads body = do {
     open_frame K sz saves;
     x \<leftarrow> body;
     close_frame K sz loads;
     State_Monad.return x
   }"

section \<open>The frames of the walkers\<close>

text \<open>\<open>GuestFrame\<close> of \<open>perobj_billboard.cpp\<close> moves the stack pointer only.\<close>
definition sp_frame :: "'c core_ops \<Rightarrow> u32 \<Rightarrow> ('c, 'a) state \<Rightarrow> ('c, 'a) state" where
  "sp_frame K sz body = local_frame K sz [] [] body"

definition cca4_frame :: "'c core_ops \<Rightarrow> ('c, 'a) state \<Rightarrow> ('c, 'a) state" where
  "cca4_frame K body = local_frame K 32 [(18, 24), (31, 28), (17, 20), (16, 16)]
     [(31, 28), (18, 24), (17, 20), (16, 16)] body"

definition record_array_init_frame :: "'c core_ops \<Rightarrow> ('c, 'a) state \<Rightarrow> ('c, 'a) state" where
  "record_array_init_frame K body = local_frame K 48
     [(16, 16), (17, 20), (18, 24), (19, 28), (20, 32), (21, 36), (22, 40), (31, 44)]
     [(31, 44), (22, 40), (21, 36), (20, 32), (19, 28), (18, 24), (17, 20), (16, 16)] body"

definition walk_frame :: "'c core_ops \<Rightarrow> ('c, 'a) state \<Rightarrow> ('c, 'a) state" where
  "walk_frame K body = local_frame K 112 [(16, 88), (31, 104), (19, 100), (18, 96), (17, 92)]
     [(31, 104), (19, 100), (18, 96), (17, 92), (16, 88)] body"

definition cmd_list_frame :: "'c core_ops \<Rightarrow> ('c, 'a) state \<Rightarrow> ('c, 'a) state" where
  "cmd_list_frame K body = local_frame K 56
     [(16, 16), (17, 20), (18, 24), (19, 28), (20, 32), (21, 36), (22, 40), (23, 44), (31, 48)]
     [(31, 48), (23, 44), (22, 40), (21, 36), (20, 32), (19, 28), (18, 24), (17, 20), (16, 16)] body"

definition dispatch_frame :: "'c core_ops \<Rightarrow> ('c, 'a) state \<Rightarrow> ('c, 'a) state" where
  "dispatch_frame K body = local_frame K 24 [(31, 16)] [(31, 16)] body"

text \<open>The frame of \<open>Animation::attach\<close>: the stores stand in its body, a local \<open>Restore\<close> undoes them.\<close>
definition attach_frame :: "'c core_ops \<Rightarrow> ('c, 'a) state \<Rightarrow> ('c, 'a) state" where
  "attach_frame K body = local_frame K 32 [(31, 24), (17, 20), (16, 16)] [(31, 24), (17, 20), (16, 16)] body"

section \<open>A frame gives its registers back\<close>

definition frame_ok :: "u32 \<Rightarrow> (nat \<times> u32) list \<Rightarrow> (nat \<times> u32) list \<Rightarrow> bool" where
  "frame_ok sz saves loads \<longleftrightarrow>
     set loads = set saves \<and> distinct (map fst loads) \<and> 29 \<notin> fst ` set saves \<and>
     (\<forall>x \<in> set saves. unat (snd x) + 4 \<le> unat sz) \<and>
     sorted_wrt (\<lambda>x y. unat (snd x) + 4 \<le> unat (snd y) \<or> unat (snd y) + 4 \<le> unat (snd x)) saves"

lemma run_regs_of: "run_state (regs_of K rs) c = (map (get_reg K c) rs, c)"
  by (induction rs) simp_all

lemma zip_saves: "zip (map snd saves) (map g (map fst saves)) = map (\<lambda>(r, off). (off, g r)) saves"
  by (induction saves) auto

context guest_core
begin

lemma frame_slots:
  assumes "in_ram sp n" "unat a + 4 \<le> n" "unat b + 4 \<le> n" "unat a + 4 \<le> unat b \<or> unat b + 4 \<le> unat a"
  shows "apart (sp + a) 4 (sp + b) 4"
proof -
  have "apart a 4 b 4" using assms in_ram_bound [OF assms(1)]
    by (auto intro: apart_below apart_sym)
  then show ?thesis by (simp add: apart_same)
qed

lemma frame_stores:
  assumes "in_ram sp n" "\<forall>x \<in> set l. unat (fst x) + 4 \<le> n" "get_reg K c 29 = sp"
    "sorted_wrt (\<lambda>x y. unat (fst x) + 4 \<le> unat (fst y) \<or> unat (fst y) + 4 \<le> unat (fst x)) l"
  defines "d \<equiv> exec (for_each l (\<lambda>(off, v). do { sp \<leftarrow> reg K 29; w32 K (sp + off) v })) c"
  shows "get_reg K d i = get_reg K c i"
    and "x \<in> set l \<Longrightarrow> mem_r32 K d (sp + fst x) = snd x"
    and "unat b + 4 \<le> n \<Longrightarrow> \<forall>x \<in> set l. unat (fst x) + 4 \<le> unat b \<or> unat b + 4 \<le> unat (fst x) \<Longrightarrow>
      mem_r32 K d (sp + b) = mem_r32 K c (sp + b)"
  using assms(2-4) unfolding d_def
proof (induction l arbitrary: c x b)
  case (Cons y l)
  { case 1
    show ?case using Cons.IH(1) [of "mem_w32 K c (sp + fst y) (snd y)"] 1 by (simp add: split_beta reg_w32)
  next
    case 2
    have w: "mem_r32 K (mem_w32 K c (sp + fst y) (snd y)) (sp + fst y) = snd y"
      using 2 in_ram_offset [OF assms(1), of "fst y" 4] by (simp add: read_write)
    show ?case
    proof (cases "x \<in> set l")
      case True
      then show ?thesis using Cons.IH(2) [of x "mem_w32 K c (sp + fst y) (snd y)"] 2 by (simp add: split_beta reg_w32)
    next
      case False
      then show ?thesis
        using Cons.IH(3) [of "fst y" "mem_w32 K c (sp + fst y) (snd y)"] 2 w by (auto simp: split_beta reg_w32)
    qed
  next
    case 3
    have "apart (sp + fst y) 4 (sp + b) 4" using 3 by (intro frame_slots [OF assms(1)]) auto
    then have "mem_r32 K (mem_w32 K c (sp + fst y) (snd y)) (sp + b) = mem_r32 K c (sp + b)"
      using 3 in_ram_offset [OF assms(1)] by (simp add: read_write)
    then show ?case
      using Cons.IH(3) [of b "mem_w32 K c (sp + fst y) (snd y)"] 3 by (simp add: split_beta reg_w32) }
qed simp_all

lemma frame_loads:
  assumes "distinct (map fst l)" "29 \<notin> fst ` set l" "get_reg K c 29 = sp"
  defines "d \<equiv> exec (for_each l (\<lambda>(r, off). do { sp \<leftarrow> reg K 29; v \<leftarrow> r32 K (sp + off); setr K r v })) c"
  shows "x \<in> set l \<Longrightarrow> \<forall>x \<in> set l. in_ram (sp + snd x) 4 \<Longrightarrow> get_reg K d (fst x) = mem_r32 K c (sp + snd x)"
    and "i \<notin> fst ` set l \<Longrightarrow> get_reg K d i = get_reg K c i"
    and "in_ram a 1 \<Longrightarrow> mem_r8 K d a = mem_r8 K c a"
  using assms(1-3) unfolding d_def
proof (induction l arbitrary: c x i)
  case (Cons y l)
  { case 1
    let ?e = "set_reg K c (fst y) (mem_r32 K c (sp + snd y))"
    have "fst y \<noteq> 29" using 1 by auto
    then have k: "get_reg K ?e 29 = sp" using 1 by (simp add: reg_set_reg)
    show ?case
    proof (cases "x = y")
      case True
      then have "fst x \<notin> fst ` set l" using 1 by auto
      then show ?thesis using Cons.IH(2) [of "fst x" ?e] 1 k True by (simp add: split_beta reg_set_reg)
    next
      case False
      then have "x \<in> set l" using 1 by simp
      then show ?thesis using Cons.IH(1) [of x ?e] 1 k by (simp add: split_beta mem_set_reg)
    qed
  next
    case 2
    let ?e = "set_reg K c (fst y) (mem_r32 K c (sp + snd y))"
    have "get_reg K ?e 29 = sp" using 2 by (auto simp: reg_set_reg)
    then show ?case using Cons.IH(2) [of i ?e] 2 by (auto simp: split_beta reg_set_reg)
  next
    case 3
    let ?e = "set_reg K c (fst y) (mem_r32 K c (sp + snd y))"
    have "get_reg K ?e 29 = sp" using 3 by (auto simp: reg_set_reg)
    then show ?case using Cons.IH(3) [of ?e] 3 by (auto simp: split_beta reg_set_reg r8_set_reg) }
qed simp_all


lemma local_frame_world:
  assumes ok: "frame_ok sz saves loads" and ram: "in_ram (get_reg K c 29 - sz) (unat sz)"
  defines "d \<equiv> exec (open_frame K sz saves) c" and "sp \<equiv> get_reg K c 29 - sz"
  assumes body: "get_reg K (exec body d) 29 = get_reg K d 29"
    "\<And>x. x \<in> set saves \<Longrightarrow> mem_r32 K (exec body d) (sp + snd x) = mem_r32 K d (sp + snd x)"
  defines "e \<equiv> exec (local_frame K sz saves loads body) c"
  shows "get_reg K d 29 = sp" "get_reg K e 29 = get_reg K c 29"
    and "x \<in> set saves \<Longrightarrow> get_reg K e (fst x) = get_reg K c (fst x)"
    and "i \<noteq> 29 \<Longrightarrow> i \<notin> fst ` set saves \<Longrightarrow> get_reg K e i = get_reg K (exec body d) i"
    and "in_ram a 1 \<Longrightarrow> mem_r8 K e a = mem_r8 K (exec body d) a"
    and "result (local_frame K sz saves loads body) c = result body d"
proof -
  let ?c = "set_reg K c 29 sp"
  let ?l = "map (\<lambda>(r, off). (off, get_reg K c r)) saves"
  have d: "d = exec (for_each ?l (\<lambda>(off, v). do { sp \<leftarrow> reg K 29; w32 K (sp + off) v })) ?c"
    by (simp add: d_def open_frame_def run_regs_of zip_saves sp_def split_beta del: map_map)
  have fits: "\<forall>x \<in> set ?l. unat (fst x) + 4 \<le> unat sz" using ok by (auto simp: frame_ok_def)
  have c29: "get_reg K ?c 29 = sp" by (simp add: reg_set_reg)
  have spread: "sorted_wrt (\<lambda>x y. unat (fst x) + 4 \<le> unat (fst y) \<or> unat (fst y) + 4 \<le> unat (fst x)) ?l"
    using ok by (simp add: frame_ok_def sorted_wrt_map split_beta)
  note st = frame_stores [OF ram [folded sp_def] fits c29 spread, folded d]
  show sp: "get_reg K d 29 = sp" by (simp add: st(1) c29)
  have saved: "mem_r32 K d (sp + snd x) = get_reg K c (fst x)" if "x \<in> set saves" for x
    using st(2) [of "(snd x, get_reg K c (fst x))"] that by (force simp: split_beta)
  have l: "distinct (map fst loads)" "29 \<notin> fst ` set loads" "set loads = set saves"
    using ok by (auto simp: frame_ok_def)
  define f where "f = exec (for_each loads (\<lambda>(r, off). do { sp \<leftarrow> reg K 29; v \<leftarrow> r32 K (sp + off); setr K r v })) (exec body d)"
  note ld = frame_loads [OF l(1,2), of "exec body d" sp, folded f_def, unfolded body(1), OF sp]
  have e: "e = set_reg K f 29 (get_reg K f 29 + sz)"
    by (simp add: e_def local_frame_def close_frame_def f_def d_def split_beta)
  have f29: "get_reg K f 29 = sp" using ld(2) [of 29] l(2) body(1) sp by simp
  have slots: "\<forall>x \<in> set loads. in_ram (sp + snd x) 4"
    using ok in_ram_offset [OF ram [folded sp_def]] by (auto simp: frame_ok_def)
  show "get_reg K e 29 = get_reg K c 29" by (simp add: e reg_set_reg f29 sp_def)
  show "x \<in> set saves \<Longrightarrow> get_reg K e (fst x) = get_reg K c (fst x)"
    using ld(1) [OF _ slots, of x] l body(2) saved by (auto simp: e reg_set_reg)
  show "i \<noteq> 29 \<Longrightarrow> i \<notin> fst ` set saves \<Longrightarrow> get_reg K e i = get_reg K (exec body d) i"
    using ld(2) [of i] l(3) by (simp add: e reg_set_reg)
  show "in_ram a 1 \<Longrightarrow> mem_r8 K e a = mem_r8 K (exec body d) a"
    using ld(3) by (simp add: e r8_set_reg)
  show "result (local_frame K sz saves loads body) c = result body d"
    by (simp add: local_frame_def d_def split_beta)
qed

end


text \<open>The frames of the walkers have that shape.\<close>
lemma frames_ok:
  "frame_ok 32 [(18, 24), (31, 28), (17, 20), (16, 16)] [(31, 28), (18, 24), (17, 20), (16, 16)]"
  "frame_ok 48 [(16, 16), (17, 20), (18, 24), (19, 28), (20, 32), (21, 36), (22, 40), (31, 44)]
     [(31, 44), (22, 40), (21, 36), (20, 32), (19, 28), (18, 24), (17, 20), (16, 16)]"
  "frame_ok 112 [(16, 88), (31, 104), (19, 100), (18, 96), (17, 92)]
     [(31, 104), (19, 100), (18, 96), (17, 92), (16, 88)]"
  "frame_ok 56
     [(16, 16), (17, 20), (18, 24), (19, 28), (20, 32), (21, 36), (22, 40), (23, 44), (31, 48)]
     [(31, 48), (23, 44), (22, 40), (21, 36), (20, 32), (19, 28), (18, 24), (17, 20), (16, 16)]"
  "frame_ok 24 [(31, 16)] [(31, 16)]"
  "frame_ok 32 [(31, 24), (17, 20), (16, 16)] [(31, 24), (17, 20), (16, 16)]"
  by (auto simp: frame_ok_def)


end
