(* ===== verification/VisibilityCull.thy ===== *)
theory VisibilityCull
  imports GuestCore
begin

text \<open>
  The per-object visibility decision (\<open>game/render/cull.cpp\<close>, class \<open>Cull\<close>) and the rounding
  square root it measures distances with (\<open>isqrt16\<close> of \<open>game/math/gte_math.cpp\<close>). An object is
  kept when its distance to the camera lies in the window of its class and the cosine of its angle
  with the view direction reaches the threshold of that class; a kept object is marked visible and
  pushed on the render queue of its class. The three queues are stacks that grow downwards, with a
  count and a capacity each.

  The submission census \<open>mSubmit\<close> lives in host memory and is only printed: \<open>submitLogRoll\<close> and
  \<open>noteQueuePush\<close> have no counterpart here. \<open>objectCull\<close> adds a host-side collection of margin nodes
  to \<open>performBaseCull\<close> and is not modelled.

  The lemmas show that \<open>isqrt16\<close> is the nearest integer to the square root, that the dividing and
  the multiplying form of the cone test decide alike, that a push is \<open>Cons\<close> on the abstract queue,
  bounded by the capacity, and what the whole body does to the object, the queues and \<open>v0\<close>.
\<close>

section \<open>The rounding square root\<close>

text \<open>Bits \<open>2^(k-1)\<close> down to \<open>1\<close>: a candidate is accepted when its square does not exceed \<open>a0\<close>.\<close>
fun isqrt_loop :: "u32 \<Rightarrow> nat \<Rightarrow> u32 \<Rightarrow> u32" where
  "isqrt_loop a0 0 a1 = a1"
| "isqrt_loop a0 (Suc k) a1 =
     (let v1 = a1 + shl 1 k;
          v0 = v1 AND 0xffff;
          a3 = v0 * v0
      in isqrt_loop a0 k (if \<not> a0 < a3 then v1 else a1))"

definition isqrt16 :: "u32 \<Rightarrow> u32" where
  "isqrt16 a0 =
     (let hi = (if 0x3fffffff < a0 then 0xffff8000 else 0);
          a2 = hi + 0x4000;
          v1 = a2 AND 0xc000;
          a3 = v1 * v1;
          a1 = (if \<not> a0 < a3 then a2 else hi);
          a1 = isqrt_loop a0 14 a1;
          r = a1 AND 0xffff;
          a3 = r * r;
          s = a3 + r;
          a1 = (if r \<noteq> 0xffff \<and> s < a0 then a1 + 1 else a1)
      in a1 AND 0xffff)"

definition eng_isqrt16 :: "u32 \<Rightarrow> u32" where
  "eng_isqrt16 a0 = isqrt16 a0"

definition eov_isqrt16 :: "'c core_ops \<Rightarrow> ('c, unit) state" where
  "eov_isqrt16 K = do { a \<leftarrow> reg K 4; setr K 2 (eng_isqrt16 a) }"

section \<open>The decision\<close>

definition CULL_QPTR :: "u32 list" where
  "CULL_QPTR = [0x1f80013c, 0x1f800148, 0x1f800154]"

definition CULL_QCNT :: "u32 list" where
  "CULL_QCNT = [0x1f800144, 0x1f800150, 0x1f80015c]"

definition CULL_QCAP :: "u32 list" where
  "CULL_QCAP = [24, 40, 28]"

text \<open>\<open>struct Decision\<close>\<close>
record cull_decision =
  kept :: bool
  wrote_state2 :: bool
  queue :: nat

text \<open>The near limit, the far limit and the cone threshold of a state below 5 and an object type.\<close>
definition cull_limits :: "u32 \<Rightarrow> u32 \<Rightarrow> u32 \<times> u32 \<times> u32" where
  "cull_limits st t =
     (if st = 0 then
        (if t = 4 then (512, 7169, 856)
         else if t = 2 \<or> t = 9 then (512, 5121, 880)
         else if t = 5 then (512, 6657, 872)
         else (512, 6145, 872))
      else if st = 1 then (512, 7169, 856)
      else if st = 2 then (768, 4097, 880)
      else if st = 3 then (512, 4097, 848)
      else (1024, 6657, 872))"

text \<open>The distance window, then the cone: \<open>depth / (dist * 4)\<close> against the threshold.\<close>
definition cull_keeps :: "u32 \<times> u32 \<times> u32 \<Rightarrow> u32 \<Rightarrow> u32 \<Rightarrow> bool" where
  "cull_keeps limits dist depth =
     (let (nr, fr, thr) = limits in
      if dist <s nr \<or> fr \<le>s dist then False
      else let den = shr (dist * 4096) 10; q = sdiv depth den in thr \<le>s q)"

text \<open>The queue of an object type; 0 is none.\<close>
definition cull_queue :: "u32 \<Rightarrow> nat" where
  "cull_queue t = (if t = 4 then 2 else if t = 2 \<or> t = 9 then 1 else if t = 5 then 3 else 0)"

definition cull_decide :: "'c core_ops \<Rightarrow> ('c, cull_decision) state" where
  "cull_decide K = do {
     obj \<leftarrow> reg K 4;
     r5 \<leftarrow> reg K 5;
     r6 \<leftarrow> reg K 6;
     r7 \<leftarrow> reg K 7;
     let dx = as_s16 r5;
     let dy = as_s16 r6;
     let dz = as_s16 r7;
     let sum = dx * dx + dy * dy + dz * dz;
     let dist = eng_isqrt16 sum AND 0xffff;
     fx \<leftarrow> r16s K 0x1F8000E8;
     fy \<leftarrow> r16s K 0x1F8000EA;
     fz \<leftarrow> r16s K 0x1F8000EC;
     mode \<leftarrow> r8 K 0x800BF870;
     (wrote, st) \<leftarrow> (if mode = 4 then State_Monad.return (True, 2)
       else do { s \<leftarrow> r32 K 0x1F800084; State_Monad.return (False, s) });
     t \<leftarrow> r8 K (obj + 0x0c);
     let keep = (5 \<le> st \<or> cull_keeps (cull_limits st t) dist (fx * dx + fy * dy + fz * dz));
     gate \<leftarrow> r32 K 0x1F800080;
     State_Monad.return \<lparr>kept = keep, wrote_state2 = wrote,
       queue = (if keep \<and> gate = 0 then cull_queue t else 0)\<rparr>
   }"

section \<open>The queues\<close>

text \<open>The guarded push of queue \<open>qi\<close>: the new count, or 0 when the queue is full.\<close>
definition cull_push :: "'c core_ops \<Rightarrow> nat \<Rightarrow> u32 \<Rightarrow> ('c, u32) state" where
  "cull_push K qi obj = do {
     cnt \<leftarrow> r16s K (CULL_QCNT ! qi);
     (if CULL_QCAP ! qi \<le>s cnt then State_Monad.return 0
      else do {
        ptr \<leftarrow> r32 K (CULL_QPTR ! qi);
        w32 K (CULL_QPTR ! qi) (ptr - 4);
        w32 K (ptr - 4) obj;
        let newCnt = cnt + 1;
        w16 K (CULL_QCNT ! qi) newCnt;
        State_Monad.return newCnt
      })
   }"

definition enqueue_visible_class4 :: "'c core_ops \<Rightarrow> u32 \<Rightarrow> ('c, u32) state" where
  "enqueue_visible_class4 K obj = cull_push K 1 obj"

definition enqueue_queue_a :: "'c core_ops \<Rightarrow> u32 \<Rightarrow> ('c, u32) state" where
  "enqueue_queue_a K obj = cull_push K 0 obj"

definition enqueue_queue_c :: "'c core_ops \<Rightarrow> u32 \<Rightarrow> ('c, u32) state" where
  "enqueue_queue_c K obj = cull_push K 2 obj"

definition enqueue_by_class :: "'c core_ops \<Rightarrow> u32 \<Rightarrow> ('c, u32) state" where
  "enqueue_by_class K obj = do {
     w8 K (obj + 1) 1;
     cls \<leftarrow> r8 K (obj + 0xC);
     (if cls = 4 then enqueue_visible_class4 K obj
      else if cls = 2 \<or> cls = 9 then enqueue_queue_a K obj
      else if cls = 5 then enqueue_queue_c K obj
      else State_Monad.return 0)
   }"

section \<open>The body\<close>

definition perform_base_cull :: "'c core_ops \<Rightarrow> ('c, unit) state" where
  "perform_base_cull K = do {
     obj \<leftarrow> reg K 4;
     R \<leftarrow> cull_decide K;
     w8 K (obj + 1) 0;
     only_if (wrote_state2 R) (w32 K 0x1F800084 2);
     (if \<not> kept R then setr K 2 0
      else do {
        w8 K (obj + 1) 1;
        setr K 2 1;
        only_if (queue R \<noteq> 0) (do { _ \<leftarrow> cull_push K (queue R - 1) obj; State_Monad.return () })
      })
   }"

section \<open>The standalone cone\<close>

definition kConeNear :: u32 where "kConeNear = 512"
definition kConeFar :: u32 where "kConeFar = 7169"
definition kConeDotPerDist :: u32 where "kConeDotPerDist = 3424"

definition cone_keeps :: "u32 \<Rightarrow> u32 \<Rightarrow> bool" where
  "cone_keeps dist dot =
     (if dist < kConeNear \<or> kConeFar \<le> dist then False
      else \<not> dot <s dist * kConeDotPerDist)"

definition cone_cull_body :: "'c core_ops \<Rightarrow> u32 \<Rightarrow> ('c, u32) state" where
  "cone_cull_body K commit = do {
     node \<leftarrow> reg K 4;
     x \<leftarrow> r16s K (node + 0x2C);
     cx \<leftarrow> r16s K 0x1F8000D2;
     y \<leftarrow> r16s K (node + 0x2E);
     cy \<leftarrow> r16s K 0x1F8000D6;
     z \<leftarrow> r16s K (node + 0x30);
     cz \<leftarrow> r16s K 0x1F8000DA;
     let dx = x - cx;
     let dy = y - cy;
     let dz = z - cz;
     let sum = dx * dx + dy * dy + dz * dz;
     let dist = eng_isqrt16 sum AND 0xffff;
     fx \<leftarrow> r16s K 0x1F8000E8;
     fy \<leftarrow> r16s K 0x1F8000EA;
     fz \<leftarrow> r16s K 0x1F8000EC;
     (if cone_keeps dist (fx * dx + fy * dy + fz * dz) then do {
        only_if (commit \<noteq> 0) (w8 K (node + 1) 1);
        State_Monad.return 1
      }
      else State_Monad.return 0)
   }"

definition cone_cull_2b278 :: "'c core_ops \<Rightarrow> ('c, unit) state" where
  "cone_cull_2b278 K = do { v \<leftarrow> cone_cull_body K 1; setr K 2 v }"

section \<open>The square root is the nearest integer\<close>

lemma unat_mult_16: "unat (x :: u32) < 65536 \<Longrightarrow> unat (x * x) = unat x * unat x"
proof -
  assume "unat x < 65536"
  then have "unat x * unat x < 65536 * 65536"
    by (intro mult_strict_mono) auto
  then show ?thesis by (simp add: unat_word_ariths)
qed

text \<open>One accepted or refused bit keeps the root bracketed.\<close>
lemma isqrt_loop_bracket:
  assumes "2 ^ k dvd R" "R + 2 ^ k \<le> 65536" "R * R \<le> unat a" "unat a < (R + 2 ^ k) * (R + 2 ^ k)"
    and "unat a1 mod 65536 = R"
  shows "\<exists>s. unat (isqrt_loop a k a1) mod 65536 = s \<and> s < 65536 \<and> s * s \<le> unat a \<and>
             unat a < (s + 1) * (s + 1)"
  using assms
proof (induction k arbitrary: R a1)
  case 0
  then show ?case by auto
next
  case (Suc k)
  let ?v1 = "a1 + shl 1 k" and ?C = "R + 2 ^ k"
  have k: "(2 :: nat) ^ k < 65536"
    using Suc.prems(2) by simp
  have p: "unat (shl 1 k :: u32) = 2 ^ k"
    using shl_small [of 1 k] k by simp
  have C: "?C < 65536"
  proof -
    have "0 < (2 :: nat) ^ k" by simp
    moreover have "R + (2 ^ k + 2 ^ k) \<le> 65536" using Suc.prems(2) by (simp add: mult_2)
    ultimately show ?thesis by linarith
  qed
  have v1: "unat ?v1 mod 65536 = ?C"
  proof -
    have "unat ?v1 mod 65536 = (unat a1 + 2 ^ k) mod 65536"
      using p by (simp add: unat_word_ariths mod_mod_cancel)
    also have "\<dots> = (R + 2 ^ k) mod 65536"
      using Suc.prems(5) by (metis mod_add_left_eq)
    finally show ?thesis using C by simp
  qed
  then have v0: "unat (?v1 AND 0xffff) = ?C" by (simp add: unat_mask16)
  have sq: "unat ((?v1 AND 0xffff) * (?v1 AND 0xffff)) = ?C * ?C"
    using unat_mult_16 [of "?v1 AND 0xffff"] v0 C by simp
  show ?case
  proof (cases "unat a < ?C * ?C")
    case True
    have "isqrt_loop a (Suc k) a1 = isqrt_loop a k a1"
      using True sq by (simp add: Let_def word_less_nat_alt)
    moreover have "2 ^ k dvd R"
      using Suc.prems(1) by (metis dvd_mult_right power_Suc)
    ultimately show ?thesis
      using Suc.IH [of R a1] Suc.prems True by simp
  next
    case False
    have "isqrt_loop a (Suc k) a1 = isqrt_loop a k ?v1"
      using False sq by (simp add: Let_def word_less_nat_alt)
    moreover have "2 ^ k dvd ?C"
      using Suc.prems(1) by (metis dvd_add dvd_mult_right dvd_refl power_Suc)
    ultimately show ?thesis
      using Suc.IH [of ?C ?v1] Suc.prems False v1 by (simp add: mult_2 add.assoc)
  qed
qed

lemma isqrt16_floor:
  "\<exists>a1 s. unat a1 mod 65536 = s \<and> s < 65536 \<and> s * s \<le> unat a \<and> unat a < (s + 1) * (s + 1) \<and>
     isqrt16 a = ((if a1 AND 0xffff \<noteq> 0xffff \<and>
       (a1 AND 0xffff) * (a1 AND 0xffff) + (a1 AND 0xffff) < a then a1 + 1 else a1) AND 0xffff)"
proof -
  let ?hi = "(if 0x3fffffff < a then 0xffff8000 else 0) :: u32"
  let ?a1 = "(if \<not> a < ((?hi + 0x4000) AND 0xc000) * ((?hi + 0x4000) AND 0xc000) then ?hi + 0x4000 else ?hi)"
  have a: "unat a < 2 ^ 32" by (rule unat_u32_less)
  have "\<exists>R. 2 ^ 14 dvd R \<and> R + 2 ^ 14 \<le> 65536 \<and> R * R \<le> unat a \<and>
      unat a < (R + 2 ^ 14) * (R + 2 ^ 14) \<and> unat ?a1 mod 65536 = R"
  proof (cases "0x3fffffff < a")
    case True
    then have "0x3fffffff < unat a" by (simp add: word_less_nat_alt)
    then show ?thesis
      using True a by (cases "a < 0x90000000") (auto simp: word_less_nat_alt)
  next
    case False
    then have "unat a \<le> 0x3fffffff" by (simp add: word_less_nat_alt)
    then show ?thesis
      using False by (cases "a < 0x10000000") (auto simp: word_less_nat_alt)
  qed
  then obtain s where "unat (isqrt_loop a 14 ?a1) mod 65536 = s" "s < 65536" "s * s \<le> unat a"
    "unat a < (s + 1) * (s + 1)"
    using isqrt_loop_bracket [of 14 _ a ?a1] by blast
  then show ?thesis
    unfolding isqrt16_def Let_def by blast
qed


lemma isqrt16_cases:
  "\<exists>s. s < 65536 \<and> s * s \<le> unat a \<and> unat a < (s + 1) * (s + 1) \<and>
     unat (isqrt16 a) = (if s \<noteq> 65535 \<and> s * s + s < unat a then s + 1 else s)"
proof -
  obtain a1 s where a1: "unat a1 mod 65536 = s" and s: "s < 65536" "s * s \<le> unat a"
      "unat a < (s + 1) * (s + 1)"
    and r: "isqrt16 a = ((if a1 AND 0xffff \<noteq> 0xffff \<and>
       (a1 AND 0xffff) * (a1 AND 0xffff) + (a1 AND 0xffff) < a then a1 + 1 else a1) AND 0xffff)"
    using isqrt16_floor [of a] by blast
  have m: "unat (a1 AND 0xffff) = s" using a1 by (simp add: unat_mask16)
  have top: "(a1 AND 0xffff = 0xffff) = (s = 65535)"
    using m by (simp add: word_unat_eq_iff)
  have sq: "unat ((a1 AND 0xffff) * (a1 AND 0xffff) + (a1 AND 0xffff)) = s * s + s" if "s \<noteq> 65535"
  proof -
    have "s * (s + 1) \<le> 65534 * 65535" using that s(1) by (intro mult_le_mono) auto
    then have "s * s + s < 2 ^ 32" by (simp add: algebra_simps)
    then show ?thesis
      using unat_mult_16 [of "a1 AND 0xffff"] m s(1) unat_add_small [of "(a1 AND 0xffff) * (a1 AND 0xffff)" "a1 AND 0xffff"]
      by simp
  qed
  have up: "unat ((a1 + 1) AND 0xffff) = s + 1" if "s \<noteq> 65535"
  proof -
    have "unat ((a1 + 1) AND 0xffff) = (unat a1 + 1) mod 65536"
      by (simp add: unat_mask16 unat_word_ariths mod_mod_cancel)
    also have "\<dots> = (s + 1) mod 65536" using a1 by (metis mod_add_left_eq)
    finally show ?thesis using that s(1) by simp
  qed
  have "unat (isqrt16 a) = (if s \<noteq> 65535 \<and> s * s + s < unat a then s + 1 else s)"
  proof (cases "s = 65535")
    case True
    then show ?thesis using r top m by simp
  next
    case False
    then show ?thesis using r top m sq [OF False] up [OF False] by (simp add: word_less_nat_alt)
  qed
  then show ?thesis using s by blast
qed

lemma isqrt16_nearest_core:
  "(let r = unat (isqrt16 a) in
    r \<le> 65535 \<and> (r = 0 \<or> r * (r - 1) < unat a) \<and> (unat a \<le> r * (r + 1) \<or> r = 65535))"
proof -
  obtain s where s: "s < 65536" "s * s \<le> unat a" "unat a < (s + 1) * (s + 1)"
    and r: "unat (isqrt16 a) = (if s \<noteq> 65535 \<and> s * s + s < unat a then s + 1 else s)"
    using isqrt16_cases [of a] by blast
  show ?thesis
  proof (cases "s \<noteq> 65535 \<and> s * s + s < unat a")
    case True
    then show ?thesis using s r by (simp add: algebra_simps)
  next
    case False
    have "s * (s - 1) < unat a" if "s \<noteq> 0"
    proof -
      have "s * (s - 1) < s * s" using that by simp
      then show ?thesis using s(2) by linarith
    qed
    then show ?thesis using s r False by (auto simp: algebra_simps)
  qed
qed

section \<open>The two forms of the cone test\<close>

lemma le_div_iff:
  assumes "0 < (N :: int)"
  shows "t \<le> D div N \<longleftrightarrow> t * N \<le> D"
proof
  assume "t \<le> D div N"
  then have "t * N \<le> D div N * N" using assms by (simp add: mult_right_mono)
  also have "\<dots> \<le> D" using assms pos_mod_sign [of N D] by (simp add: minus_mod_eq_div_mult [symmetric])
  finally show "t * N \<le> D" .
next
  assume "t * N \<le> D"
  then have "t * N div N \<le> D div N" using assms by (intro zdiv_mono1)
  then show "t \<le> D div N" using assms by simp
qed

lemma cdiv_at_least:
  assumes "0 < N" "0 < t"
  shows "t \<le> cdiv D N \<longleftrightarrow> t * N \<le> D"
proof (cases "0 \<le> D")
  case True
  then show ?thesis using assms by (simp add: cdiv_nonneg le_div_iff)
next
  case False
  then have "cdiv D N \<le> 0"
    using assms by (simp add: cdiv_def mult_nonpos_nonneg pos_imp_zdiv_nonneg_iff)
  moreover have "0 < t * N" using assms by simp
  ultimately show ?thesis using False assms by linarith
qed

lemma cdiv_bounds:
  assumes "0 < N"
  shows "\<bar>cdiv D N\<bar> \<le> \<bar>D\<bar>"
proof -
  have "\<bar>cdiv D N\<bar> = \<bar>D\<bar> div N"
    using assms by (auto simp: cdiv_def abs_mult sgn_if pos_imp_zdiv_nonneg_iff)
  moreover have "\<bar>D\<bar> div N \<le> \<bar>D\<bar>"
    using assms int_div_less_self [of "\<bar>D\<bar>" N] by (cases "D = 0"; cases "N = 1") auto
  ultimately show ?thesis by simp
qed

lemma sle_iff: "(a <=s b) = (\<not> b <s (a :: u32))"
  by (simp add: word_sle_eq word_sless_alt not_less)

lemma sint_sdiv_small:
  assumes "0 < sint d"
  shows "sint (sdiv n d) = cdiv (sint n) (sint d)"
proof (cases "sint n = - (2 ^ 31)")
  case False
  then have "\<bar>sint n\<bar> < 2 ^ 31" using sint_range32 [of n] by auto
  then show ?thesis
    using cdiv_bounds [OF assms, of "sint n"] unfolding sdiv_def by (intro sint_word_of_int_small) auto
next
  case True
  then have "cdiv (sint n) (sint d) = - (2 ^ 31 div sint d)" using assms by (simp add: cdiv_def)
  moreover have "0 \<le> 2 ^ 31 div sint d" "2 ^ 31 div sint d \<le> 2 ^ 31"
    using assms int_div_less_self [of "2 ^ 31" "sint d"]
    by (auto simp: pos_imp_zdiv_nonneg_iff) (cases "sint d = 1"; auto)
  ultimately show ?thesis unfolding sdiv_def by (intro sint_word_of_int_small) auto
qed

text \<open>The quotient by \<open>dist * 4\<close> reaches a threshold when the depth reaches the product.\<close>
lemma cone_quotient:
  assumes "unat dist < 65536" "0 < unat dist" "0 < unat thr" "unat thr < 1024"
  shows "(thr \<le>s sdiv depth (shr (dist * 4096) 10)) =
    (int (unat thr) * (4 * int (unat dist)) \<le> sint depth)"
proof -
  define N where "N = int (unat dist * 4)"
  have "unat (dist * 4096) = unat dist * 4096" using assms(1) by (simp add: unat_word_ariths)
  then have "unat (shr (dist * 4096) 10) = unat dist * 4" by (simp add: unat_shr)
  then have den: "sint (shr (dist * 4096) 10) = N"
    using assms(1) sint_eq_unat [of "shr (dist * 4096) 10"] by (simp add: N_def)
  have N: "0 < N" using assms(2) by (simp only: N_def of_nat_0_less_iff)
  have thr: "sint thr = int (unat thr)" using assms(4) by (intro sint_eq_unat) simp
  have t: "0 < int (unat thr)" using assms(3) by (simp only: of_nat_0_less_iff)
  have "(thr \<le>s sdiv depth (shr (dist * 4096) 10)) = (int (unat thr) \<le> cdiv (sint depth) N)"
    using sint_sdiv_small [of "shr (dist * 4096) 10" depth] N by (simp only: word_sle_eq den thr)
  also have "\<dots> = (int (unat thr) * N \<le> sint depth)"
    by (rule cdiv_at_least [OF N t])
  also have "int (unat thr) * N = int (unat thr) * (4 * int (unat dist))"
    by (simp add: N_def)
  finally show ?thesis .
qed

text \<open>The window and the cone as they are meant: distance and depth as integers.\<close>
lemma cull_keeps_iff:
  assumes "unat dist < 65536" "0 < unat nr" "unat nr < 65536" "unat fr < 65536"
    "0 < unat thr" "unat thr < 1024"
  shows "cull_keeps (nr, fr, thr) dist depth \<longleftrightarrow>
    unat nr \<le> unat dist \<and> unat dist < unat fr \<and>
    int (unat thr) * (4 * int (unat dist)) \<le> sint depth"
proof (cases "unat dist < unat nr \<or> unat fr \<le> unat dist")
  case True
  then show ?thesis
    using assms sless_unat [of dist nr] sless_unat [of dist fr]
    by (auto simp: cull_keeps_def sle_iff)
next
  case False
  then have "\<not> dist <s nr" "\<not> fr \<le>s dist" "0 < unat dist"
    using assms sless_unat [of dist nr] sless_unat [of dist fr] by (auto simp: sle_iff)
  then show ?thesis
    using False cone_quotient [OF assms(1) _ assms(5,6), of depth]
    by (simp only: cull_keeps_def Let_def prod.case if_False simp_thms not_less not_le de_Morgan_disj)
qed

lemma cone_keeps_iff:
  assumes "unat dist < 65536"
  shows "cone_keeps dist dot \<longleftrightarrow>
    512 \<le> unat dist \<and> unat dist < 7169 \<and> 3424 * int (unat dist) \<le> sint dot"
proof (cases "dist < kConeNear \<or> kConeFar \<le> dist")
  case True
  then show ?thesis
    by (auto simp: cone_keeps_def kConeNear_def kConeFar_def word_less_nat_alt word_le_nat_alt)
next
  case False
  then have d: "512 \<le> unat dist" "unat dist < 7169"
    by (auto simp: kConeNear_def kConeFar_def word_less_nat_alt word_le_nat_alt)
  then have "unat (dist * kConeDotPerDist) = unat dist * 3424"
    by (simp add: kConeDotPerDist_def unat_word_ariths)
  then have "sint (dist * kConeDotPerDist) = int (unat dist * 3424)"
    using d sint_eq_unat [of "dist * kConeDotPerDist"] by simp
  then have "(\<not> dot <s dist * kConeDotPerDist) = (int (unat dist * 3424) \<le> sint dot)"
    by (simp only: word_sless_alt not_less)
  then show ?thesis using False d by (simp add: cone_keeps_def mult.commute)
qed

lemma cone_forms_agree_core:
  "unat dist < 65536 \<Longrightarrow> cull_keeps (512, 7169, 856) dist depth = cone_keeps dist depth"
  using cull_keeps_iff [of dist 512 7169 856 depth] cone_keeps_iff [of dist depth] by simp

lemma cull_limits_small:
  "cull_limits st t = (nr, fr, thr) \<Longrightarrow>
   0 < unat nr \<and> unat nr < 65536 \<and> unat fr < 65536 \<and> 0 < unat thr \<and> unat thr < 1024"
  by (auto simp: cull_limits_def split: if_splits)

section \<open>The queues as lists\<close>

definition queue_slot :: "u32 \<Rightarrow> nat \<Rightarrow> u32" where
  "queue_slot lo j = lo + of_nat (4 * j)"

text \<open>Queue \<open>qi\<close> holds the objects \<open>xs\<close>, newest first, in the slots from \<open>lo\<close> upwards: the stack pointer
  stands at the newest, the free slots lie below it.\<close>
definition queue_at :: "'c core_ops \<Rightarrow> 'c \<Rightarrow> nat \<Rightarrow> u32 \<Rightarrow> u32 list \<Rightarrow> bool" where
  "queue_at K c qi lo xs \<longleftrightarrow>
     length xs \<le> unat (CULL_QCAP ! qi) \<and>
     mem_r16 K c (CULL_QCNT ! qi) = of_nat (length xs) \<and>
     mem_r32 K c (CULL_QPTR ! qi) = queue_slot lo (unat (CULL_QCAP ! qi) - length xs) \<and>
     (\<forall>j < length xs. mem_r32 K c (queue_slot lo (unat (CULL_QCAP ! qi) - length xs + j)) = xs ! j)"

text \<open>The slots of queue \<open>qi\<close> lie in guest memory, away from its own count and pointer.\<close>
definition queue_slots :: "nat \<Rightarrow> u32 \<Rightarrow> bool" where
  "queue_slots qi lo \<longleftrightarrow>
     in_ram lo (4 * unat (CULL_QCAP ! qi)) \<and>
     apart (CULL_QCNT ! qi) 2 lo (4 * unat (CULL_QCAP ! qi)) \<and>
     apart (CULL_QPTR ! qi) 4 lo (4 * unat (CULL_QCAP ! qi))"

text \<open>What a push means: \<open>Cons\<close> below the capacity, nothing at it.\<close>
definition push_bounded :: "nat \<Rightarrow> 'x \<Rightarrow> 'x list \<Rightarrow> 'x list" where
  "push_bounded cap x xs = (if length xs < cap then x # xs else xs)"

lemma cull_words:
  "qi < 3 \<Longrightarrow> in_ram (CULL_QCNT ! qi) 2" "qi < 3 \<Longrightarrow> in_ram (CULL_QPTR ! qi) 4"
  "qi < 3 \<Longrightarrow> apart (CULL_QCNT ! qi) 2 (CULL_QPTR ! qi) 4"
  "qi < 3 \<Longrightarrow> unat (CULL_QCAP ! qi) < 64"
  by (auto simp: CULL_QCNT_def CULL_QPTR_def CULL_QCAP_def in_ram_def apart_def
      dest!: below_three)


lemma scast_small_u16:
  assumes "unat (h :: u16) < 2 ^ 15"
  shows "(scast h :: u32) = ucast h"
proof -
  have "sint h = uint h"
  proof -
    have "int (unat h) < int (2 ^ 15)" using assms by (simp only: of_nat_less_iff)
    then have "uint h < 2 ^ 15" by simp
    moreover have "- (2 ^ 15) \<le> uint h"
      by (rule order_trans [OF _ uint_ge_0]) simp
    ultimately show ?thesis by (simp add: sint_uint signed_take_bit_int_eq_self)
  qed
  then show ?thesis by (simp only: scast_eq ucast_eq)
qed

lemma unat_of_nat_small: "n < 2 ^ 32 \<Longrightarrow> unat (of_nat n :: u32) = n"
  by (simp add: unat_of_nat)

lemma slot_apart:
  assumes "i < n" "j < n" "i \<noteq> j" "in_ram lo (4 * n)"
  shows "apart (queue_slot lo i) 4 (queue_slot lo j) 4"
proof -
  have n: "4 * n \<le> 0x80200000" using in_ram_bound [OF assms(4)] by linarith
  then have "4 * i < 2 ^ 32" "4 * j < 2 ^ 32" using assms by simp_all
  then have u: "unat (of_nat (4 * i) :: u32) = 4 * i" "unat (of_nat (4 * j) :: u32) = 4 * j"
    by (simp_all only: unat_of_nat_small)
  show ?thesis
  proof (cases "i < j")
    case True
    then have "4 * i + 4 \<le> 4 * j" by linarith
    then show ?thesis
      using assms(2) n unfolding queue_slot_def apart_same by (intro apart_below(1)) (simp_all only: u, simp_all)
  next
    case False
    then have "4 * j + 4 \<le> 4 * i" using assms(3) by linarith
    then show ?thesis
      using assms(1) n unfolding queue_slot_def apart_same by (intro apart_below(2)) (simp_all only: u, simp_all)
  qed
qed

lemma slot_in_ram:
  assumes "i < n" "in_ram lo (4 * n)"
  shows "in_ram (queue_slot lo i) 4"
proof -
  have "unat (of_nat (4 * i) :: u32) = 4 * i"
    using assms in_ram_bound [OF assms(2)] by (intro unat_of_nat_small) simp
  then show ?thesis
    using assms(1) unfolding queue_slot_def by (intro in_ram_offset [OF assms(2)]) simp
qed

lemma slot_beside:
  assumes "i < n" "in_ram lo (4 * n)" "apart a k lo (4 * n)" "0 < k"
  shows "apart a k (queue_slot lo i) 4" "apart (queue_slot lo i) 4 a k"
proof -
  have "unat (of_nat (4 * i) :: u32) = 4 * i"
    using assms in_ram_bound [OF assms(2)] by (intro unat_of_nat_small) simp
  then have "unat (of_nat (4 * i) :: u32) + 4 \<le> 4 * n"
    using assms(1) by linarith
  then show "apart a k (queue_slot lo i) 4"
    using apart_parts [OF assms(3), of 0 k "of_nat (4 * i)" 4] assms(4) by (simp add: queue_slot_def)
  then show "apart (queue_slot lo i) 4 a k" by (rule apart_sym)
qed


text \<open>One push.\<close>
lemma cull_push_full:
  assumes "qi < 3" "mem_r16 K c (CULL_QCNT ! qi) = of_nat n" "n < 64" "unat (CULL_QCAP ! qi) \<le> n"
  shows "run_state (cull_push K qi obj) c = (0, c)"
proof -
  have h: "unat (of_nat n :: u16) = n" using assms(3) by (simp add: unat_of_nat)
  then have "(scast (mem_r16 K c (CULL_QCNT ! qi)) :: u32) = ucast (of_nat n :: u16)"
    using assms(2,3) by (simp add: scast_small_u16)
  moreover have "CULL_QCAP ! qi \<le>s ucast (of_nat n :: u16)"
    using assms(3,4) cull_words(4) [OF assms(1)] sless_unat [of "ucast (of_nat n :: u16)" "CULL_QCAP ! qi"]
    by (simp add: sle_iff h)
  ultimately show ?thesis by (simp add: cull_push_def)
qed

lemma cull_push_room:
  assumes "qi < 3" "mem_r16 K c (CULL_QCNT ! qi) = of_nat n" "n < unat (CULL_QCAP ! qi)"
  shows "run_state (cull_push K qi obj) c =
    (of_nat (n + 1),
     mem_w16 K (mem_w32 K (mem_w32 K c (CULL_QPTR ! qi) (mem_r32 K c (CULL_QPTR ! qi) - 4))
       (mem_r32 K c (CULL_QPTR ! qi) - 4) obj) (CULL_QCNT ! qi) (of_nat (n + 1)))"
proof -
  have n: "n < 64" using assms(3) cull_words(4) [OF assms(1)] by linarith
  have h: "unat (of_nat n :: u16) = n" using n by (simp add: unat_of_nat)
  have "(scast (of_nat n :: u16) :: u32) = of_nat n"
    using n h scast_small_u16 [of "of_nat n"] by (simp add: word_unat_eq_iff unat_of_nat)
  then have s: "(scast (mem_r16 K c (CULL_QCNT ! qi)) :: u32) = of_nat n"
    by (simp only: assms(2))
  have "\<not> CULL_QCAP ! qi \<le>s of_nat n"
    using assms(3) n cull_words(4) [OF assms(1)] sless_unat [of "of_nat n" "CULL_QCAP ! qi"]
    by (simp add: sle_iff unat_of_nat)
  moreover have "(ucast (of_nat n + 1 :: u32) :: u16) = of_nat n + 1"
    using n by (simp add: ucast_plus_u16 unsigned_of_nat take_bit_nat_eq_self)
  ultimately show ?thesis by (simp add: cull_push_def s Let_def)
qed


context guest_core
begin

lemma cull_push_refines:
  assumes qi: "qi < 3" and slots: "queue_slots qi lo" and q: "queue_at K c qi lo xs"
  defines "cap \<equiv> unat (CULL_QCAP ! qi)"
  shows "queue_at K (exec (cull_push K qi obj) c) qi lo (push_bounded cap obj xs)"
    and "result (cull_push K qi obj) c = (if length xs < cap then of_nat (length xs + 1) else 0)"
proof -
  have len: "length xs \<le> cap" and cnt: "mem_r16 K c (CULL_QCNT ! qi) = of_nat (length xs)"
    and ptr: "mem_r32 K c (CULL_QPTR ! qi) = queue_slot lo (cap - length xs)"
    and elem: "\<And>j. j < length xs \<Longrightarrow> mem_r32 K c (queue_slot lo (cap - length xs + j)) = xs ! j"
    using q by (auto simp: queue_at_def cap_def)
  have ram: "in_ram lo (4 * cap)" and cs: "apart (CULL_QCNT ! qi) 2 lo (4 * cap)"
    and ps: "apart (CULL_QPTR ! qi) 4 lo (4 * cap)"
    using slots by (simp_all add: queue_slots_def cap_def)
  have cap: "cap < 64" using cull_words(4) [OF qi] by (simp add: cap_def)
  have "queue_at K (exec (cull_push K qi obj) c) qi lo (push_bounded cap obj xs) \<and>
    result (cull_push K qi obj) c = (if length xs < cap then of_nat (length xs + 1) else 0)"
  proof (cases "length xs < cap")
    case False
    then show ?thesis
      using cull_push_full [OF qi cnt] len cap q by (simp add: push_bounded_def cap_def)
  next
    case True
    define k where "k = cap - (length xs + 1)"
    define P where "P = queue_slot lo k"
    have k: "k < cap" and rest: "cap - length xs = k + 1" using True by (simp_all add: k_def)
    have top: "mem_r32 K c (CULL_QPTR ! qi) - 4 = P"
      by (simp add: ptr rest P_def queue_slot_def algebra_simps)
    let ?c1 = "mem_w32 K c (CULL_QPTR ! qi) P"
    let ?c2 = "mem_w32 K ?c1 P obj"
    let ?c3 = "mem_w16 K ?c2 (CULL_QCNT ! qi) (of_nat (length xs + 1))"
    have run: "run_state (cull_push K qi obj) c = (of_nat (length xs + 1), ?c3)"
      using cull_push_room [OF qi cnt] True by (simp add: top cap_def)
    have P: "in_ram P 4" "apart P 4 (CULL_QPTR ! qi) 4" "apart (CULL_QCNT ! qi) 2 P 4"
      using slot_in_ram [OF k ram] slot_beside [OF k ram cs] slot_beside [OF k ram ps]
      by (simp_all add: P_def)
    note ctl = cull_words [OF qi]
    have old: "mem_r32 K ?c3 (queue_slot lo i) = mem_r32 K c (queue_slot lo i)"
      if "i < cap" "i \<noteq> k" for i
      using slot_in_ram [OF that(1) ram] slot_beside [OF that(1) ram cs]
        slot_beside [OF that(1) ram ps] slot_apart [OF k that(1) _ ram] that(2) P ctl
      by (simp add: read_write P_def [symmetric])
    have new: "mem_r32 K ?c3 P = obj"
      using P ctl by (simp add: read_write)
    have "mem_r32 K ?c3 (queue_slot lo (k + j)) = (obj # xs) ! j" if "j < length xs + 1" for j
    proof (cases j)
      case 0
      then show ?thesis using new by (simp add: P_def)
    next
      case (Suc i)
      then have i: "i < length xs" "k + j < cap" "k + j \<noteq> k" "cap - length xs + i = k + j"
        using that True unfolding k_def by linarith+
      show ?thesis
        using old [OF i(2,3)] elem [OF i(1)] Suc by (simp only: i(4) nth_Cons_Suc)
    qed
    moreover have "mem_r16 K ?c3 (CULL_QCNT ! qi) = of_nat (length xs + 1)"
      using ctl by (simp add: read_write)
    moreover have "mem_r32 K ?c3 (CULL_QPTR ! qi) = P"
      using P ctl by (simp add: read_write)
    moreover have k': "cap - length (obj # xs) = k" by (simp add: k_def)
    ultimately have "queue_at K ?c3 qi lo (obj # xs)"
      using True unfolding queue_at_def cap_def [symmetric] k' P_def by simp
    then show ?thesis using run True by (simp add: push_bounded_def)
  qed
  then show "queue_at K (exec (cull_push K qi obj) c) qi lo (push_bounded cap obj xs)"
    and "result (cull_push K qi obj) c = (if length xs < cap then of_nat (length xs + 1) else 0)"
    by blast+
qed

end

section \<open>The body on the queues\<close>

lemma outside_apart: "x \<notin> span a n \<Longrightarrow> 0 < n \<Longrightarrow> apart a n x 1"
  by (auto simp: apart_def One_nat_def Suc_le_eq unat_gt_0 not_less)

lemma apart_outside: "apart a n b m \<Longrightarrow> x \<in> span b m \<Longrightarrow> 0 < n \<Longrightarrow> x \<notin> span a n"
  using apart_byte [of a n b m x] by (auto simp: apart_def)

text \<open>The bytes a queue consists of.\<close>
definition queue_bytes :: "nat \<Rightarrow> u32 \<Rightarrow> u32 set" where
  "queue_bytes qi lo =
     span (CULL_QCNT ! qi) 2 \<union> span (CULL_QPTR ! qi) 4 \<union> span lo (4 * unat (CULL_QCAP ! qi))"

text \<open>Three queues that do not touch each other.\<close>
definition queue_layout :: "(nat \<Rightarrow> u32) \<Rightarrow> bool" where
  "queue_layout lo \<longleftrightarrow>
     (\<forall>qi < 3. queue_slots qi (lo qi)) \<and>
     (\<forall>qi < 3. \<forall>qj < 3. qi \<noteq> qj \<longrightarrow> queue_bytes qi (lo qi) \<inter> queue_bytes qj (lo qj) = {})"

definition queues_at :: "'c core_ops \<Rightarrow> 'c \<Rightarrow> (nat \<Rightarrow> u32) \<Rightarrow> (nat \<Rightarrow> u32 list) \<Rightarrow> bool" where
  "queues_at K c lo qs \<longleftrightarrow> (\<forall>qi < 3. queue_at K c qi (lo qi) (qs qi))"

lemma queue_slot_span:
  assumes "i < n" "in_ram lo (4 * n)" "x \<in> span (queue_slot lo i) 4"
  shows "x \<in> span lo (4 * n)"
proof -
  have i: "unat (of_nat (4 * i) :: u32) = 4 * i"
    using assms in_ram_bound [OF assms(2)] by (intro unat_of_nat_small) simp
  have "x - lo = of_nat (4 * i) + (x - queue_slot lo i)"
    by (simp add: queue_slot_def algebra_simps)
  moreover have "unat (of_nat (4 * i) + (x - queue_slot lo i)) = 4 * i + unat (x - queue_slot lo i)"
    using assms in_ram_bound [OF assms(2)]
    by (subst unat_add_small) (simp_all only: i, simp_all)
  ultimately have "unat (x - lo) = 4 * i + unat (x - queue_slot lo i)" by (simp only:)
  moreover have "unat (x - queue_slot lo i) < 4" using assms(3) by simp
  ultimately show ?thesis using assms(1) unfolding mem_span by linarith
qed

context guest_core
begin

lemma queue_at_frame:
  assumes qi: "qi < 3" and slots: "queue_slots qi lo" and q: "queue_at K c qi lo xs"
    and same: "\<And>x. x \<in> queue_bytes qi lo \<Longrightarrow> mem_r8 K c' x = mem_r8 K c x"
  shows "queue_at K c' qi lo xs"
proof -
  let ?cap = "unat (CULL_QCAP ! qi)"
  have ram: "in_ram lo (4 * ?cap)" using slots by (simp add: queue_slots_def)
  have "mem_r16 K c' (CULL_QCNT ! qi) = mem_r16 K c (CULL_QCNT ! qi)"
    "mem_r32 K c' (CULL_QPTR ! qi) = mem_r32 K c (CULL_QPTR ! qi)"
    using cull_words [OF qi] by (auto intro!: r16_cong r32_cong same simp: queue_bytes_def)
  moreover have "mem_r32 K c' (queue_slot lo i) = mem_r32 K c (queue_slot lo i)" if "i < ?cap" for i
    using slot_in_ram [OF that ram] queue_slot_span [OF that ram]
    by (auto intro!: r32_cong same simp: queue_bytes_def)
  moreover define t where "t = ?cap - length xs"
  moreover have "t + j < ?cap" if "j < length xs" for j
    using that q unfolding queue_at_def t_def by linarith
  ultimately show ?thesis using q unfolding queue_at_def t_def [symmetric] by simp
qed

lemma cull_push_frame:
  assumes qi: "qi < 3" and slots: "queue_slots qi lo" and q: "queue_at K c qi lo xs"
    and x: "in_ram x 1" "x \<notin> queue_bytes qi lo"
  shows "mem_r8 K (exec (cull_push K qi obj) c) x = mem_r8 K c x"
proof -
  let ?cap = "unat (CULL_QCAP ! qi)"
  have len: "length xs \<le> ?cap" and cnt: "mem_r16 K c (CULL_QCNT ! qi) = of_nat (length xs)"
    and ptr: "mem_r32 K c (CULL_QPTR ! qi) = queue_slot lo (?cap - length xs)"
    using q by (simp_all add: queue_at_def)
  have ram: "in_ram lo (4 * ?cap)" using slots by (simp add: queue_slots_def)
  have cap: "?cap < 64" using cull_words(4) [OF qi] .
  show ?thesis
  proof (cases "length xs < ?cap")
    case False
    then show ?thesis using cull_push_full [OF qi cnt] len cap by simp
  next
    case True
    define k where "k = ?cap - (length xs + 1)"
    have k: "k < ?cap" "?cap - length xs = k + 1" using True by (simp_all add: k_def)
    have top: "mem_r32 K c (CULL_QPTR ! qi) - 4 = queue_slot lo k"
      by (simp add: ptr k(2) queue_slot_def algebra_simps)
    have "x \<notin> span (queue_slot lo k) 4"
      using x(2) queue_slot_span [OF k(1) ram] by (auto simp: queue_bytes_def)
    then have "apart (queue_slot lo k) 4 x 1" "apart (CULL_QCNT ! qi) 2 x 1" "apart (CULL_QPTR ! qi) 4 x 1"
      using x(2) by (auto intro!: outside_apart simp: queue_bytes_def)
    then show ?thesis
      using cull_push_room [OF qi cnt True] slot_in_ram [OF k(1) ram] cull_words [OF qi] x(1)
      by (simp add: top read_write)
  qed
qed

lemma queues_push:
  assumes lay: "queue_layout lo" and qs: "queues_at K c lo qs" and qi: "qi < 3"
  shows "queues_at K (exec (cull_push K qi obj) c) lo
    (qs(qi := push_bounded (unat (CULL_QCAP ! qi)) obj (qs qi)))"
  unfolding queues_at_def
proof (intro allI impI)
  fix qj :: nat assume qj: "qj < 3"
  have slots: "queue_slots qi (lo qi)" "queue_slots qj (lo qj)"
    using lay qi qj by (auto simp: queue_layout_def)
  have q: "queue_at K c qi (lo qi) (qs qi)" "queue_at K c qj (lo qj) (qs qj)"
    using qs qi qj by (auto simp: queues_at_def)
  show "queue_at K (exec (cull_push K qi obj) c) qj (lo qj)
      ((qs(qi := push_bounded (unat (CULL_QCAP ! qi)) obj (qs qi))) qj)"
  proof (cases "qj = qi")
    case True
    then show ?thesis using cull_push_refines(1) [OF qi slots(1) q(1)] by simp
  next
    case False
    have "mem_r8 K (exec (cull_push K qi obj) c) x = mem_r8 K c x" if "x \<in> queue_bytes qj (lo qj)" for x
    proof (rule cull_push_frame [OF qi slots(1) q(1)])
      show "in_ram x 1"
        using that slots(2) cull_words [OF qj] in_ram_span
        by (auto simp: queue_bytes_def queue_slots_def simp del: mem_span)
      show "x \<notin> queue_bytes qi (lo qi)"
        using lay that qi qj False by (auto simp: queue_layout_def)
    qed
    then show ?thesis using queue_at_frame [OF qj slots(2) q(2)] False by simp
  qed
qed

end

section \<open>The body on the object\<close>

text \<open>The distance and the depth the decision is about.\<close>
definition cull_distance :: "'c core_ops \<Rightarrow> 'c \<Rightarrow> nat" where
  "cull_distance K c =
     (let dx = as_s16 (get_reg K c 5); dy = as_s16 (get_reg K c 6); dz = as_s16 (get_reg K c 7)
      in unat (isqrt16 (dx * dx + dy * dy + dz * dz)))"

definition cull_depth :: "'c core_ops \<Rightarrow> 'c \<Rightarrow> int" where
  "cull_depth K c =
     (let dx = as_s16 (get_reg K c 5); dy = as_s16 (get_reg K c 6); dz = as_s16 (get_reg K c 7);
          fx = scast (mem_r16 K c 0x1F8000E8); fy = scast (mem_r16 K c 0x1F8000EA);
          fz = scast (mem_r16 K c 0x1F8000EC)
      in sint (fx * dx + fy * dy + fz * dz :: u32))"

definition cull_state :: "'c core_ops \<Rightarrow> 'c \<Rightarrow> u32" where
  "cull_state K c = (if mem_r8 K c 0x800BF870 = 4 then 2 else mem_r32 K c 0x1F800084)"

text \<open>When an object is visible: always from state 5 on, else inside its window and its cone.\<close>
definition spec_visible :: "u32 \<Rightarrow> u32 \<Rightarrow> nat \<Rightarrow> int \<Rightarrow> bool" where
  "spec_visible st t dist depth \<longleftrightarrow> 5 \<le> st \<or>
     (let (nr, fr, thr) = cull_limits st t in
      unat nr \<le> dist \<and> dist < unat fr \<and> int (unat thr) * (4 * int dist) \<le> depth)"

lemma isqrt16_masked: "isqrt16 a AND 0xffff = isqrt16 a"
  by (simp add: isqrt16_def Let_def and.assoc)

lemma isqrt16_small: "unat (isqrt16 a) < 65536"
  using isqrt16_nearest_core [of a] by (simp add: Let_def)

lemma ucast_u8_4: "((ucast (x :: u8) :: u32) = 4) = (x = 4)"
  using ucast_u8_eq [of x 4] by simp

lemma cull_decide_result:
  "run_state (cull_decide K) c =
    (let keep = spec_visible (cull_state K c) (ucast (mem_r8 K c (get_reg K c 4 + 0xC)))
           (cull_distance K c) (cull_depth K c)
     in \<lparr>kept = keep, wrote_state2 = (mem_r8 K c 0x800BF870 = 4),
         queue = (if keep \<and> mem_r32 K c 0x1F800080 = 0
           then cull_queue (ucast (mem_r8 K c (get_reg K c 4 + 0xC))) else 0)\<rparr>, c)"
proof -
  obtain nr fr thr where lim:
      "cull_limits (cull_state K c) (ucast (mem_r8 K c (get_reg K c 4 + 0xC))) = (nr, fr, thr)"
    by (cases "cull_limits (cull_state K c) (ucast (mem_r8 K c (get_reg K c 4 + 0xC)))") auto
  have "cull_keeps (nr, fr, thr) dist depth \<longleftrightarrow>
      unat nr \<le> unat dist \<and> unat dist < unat fr \<and> int (unat thr) * (4 * int (unat dist)) \<le> sint depth"
    if "unat dist < 65536" for dist depth
    using cull_limits_small [OF lim] that by (intro cull_keeps_iff) auto
  then show ?thesis
    using lim isqrt16_small
    by (cases "mem_r8 K c 0x800BF870 = 4")
      (simp_all add: cull_decide_def spec_visible_def cull_state_def cull_distance_def cull_depth_def
        eng_isqrt16_def isqrt16_masked ucast_u8_4 Let_def)
qed

lemma queue_below: "cull_queue t < 4"
  by (simp add: cull_queue_def)

context guest_core
begin

lemma queue_bytes_ram: "qi < 3 \<Longrightarrow> queue_slots qi lo \<Longrightarrow> x \<in> queue_bytes qi lo \<Longrightarrow> in_ram x 1"
  using cull_words [of qi] in_ram_span
  by (auto simp: queue_bytes_def queue_slots_def simp del: mem_span)

lemma queues_at_frame:
  assumes "queue_layout lo" "queues_at K c lo qs"
    and "\<And>qi x. qi < 3 \<Longrightarrow> x \<in> queue_bytes qi (lo qi) \<Longrightarrow> in_ram x 1 \<Longrightarrow> mem_r8 K c' x = mem_r8 K c x"
  shows "queues_at K c' lo qs"
  unfolding queues_at_def
proof (intro allI impI)
  fix qi :: nat assume qi: "qi < 3"
  have slots: "queue_slots qi (lo qi)" and q: "queue_at K c qi (lo qi) (qs qi)"
    using assms(1,2) qi by (auto simp: queue_layout_def queues_at_def)
  show "queue_at K c' qi (lo qi) (qs qi)"
    by (rule queue_at_frame [OF qi slots q])
      (rule assms(3) [OF qi _ queue_bytes_ram [OF qi slots]], assumption+)
qed

lemma cull_push_reg:
  assumes "qi < 3" "queue_at K c qi lo xs"
  shows "get_reg K (exec (cull_push K qi obj) c) i = get_reg K c i"
proof -
  have len: "length xs \<le> unat (CULL_QCAP ! qi)" and cnt: "mem_r16 K c (CULL_QCNT ! qi) = of_nat (length xs)"
    using assms(2) by (simp_all add: queue_at_def)
  show ?thesis
  proof (cases "length xs < unat (CULL_QCAP ! qi)")
    case True
    then show ?thesis using cull_push_room [OF assms(1) cnt] by (simp add: reg_w16 reg_w32)
  next
    case False
    then show ?thesis
      using cull_push_full [OF assms(1) cnt] len cull_words(4) [OF assms(1)] by simp
  qed
qed

lemma base_cull_effect:
  assumes lay: "queue_layout lo" and qs: "queues_at K c lo qs"
    and obj: "obj = get_reg K c 4" "in_ram (obj + 1) 1" "obj + 1 \<notin> span 0x1F800084 4"
    and aside: "\<And>qi. qi < 3 \<Longrightarrow> obj + 1 \<notin> queue_bytes qi (lo qi)"
      "\<And>qi. qi < 3 \<Longrightarrow> span 0x1F800084 4 \<inter> queue_bytes qi (lo qi) = {}"
  defines "d \<equiv> result (cull_decide K) c" and "c' \<equiv> exec (perform_base_cull K) c"
  shows "get_reg K c' 2 = of_bool (kept d) \<and> mem_r8 K c' (obj + 1) = of_bool (kept d) \<and>
    queues_at K c' lo (if queue d = 0 then qs
      else qs(queue d - 1 := push_bounded (unat (CULL_QCAP ! (queue d - 1))) obj (qs (queue d - 1))))"
proof -
  define c2 where "c2 = (if wrote_state2 d then mem_w32 K (mem_w8 K c (obj + 1) 0) 0x1F800084 2
    else mem_w8 K c (obj + 1) 0)"
  have st: "in_ram 0x1F800084 4" by (simp add: in_ram_def)
  have far: "apart 0x1F800084 4 (obj + 1) 1" using obj(3) by (intro outside_apart) simp_all
  have run: "exec (cull_decide K) c = c" "run_state (cull_decide K) c = (d, c)"
    by (simp_all add: d_def cull_decide_result Let_def)
  have body: "exec (perform_base_cull K) c =
    (if \<not> kept d then set_reg K c2 2 0
     else exec (only_if (queue d \<noteq> 0) (do { _ \<leftarrow> cull_push K (queue d - 1) obj; State_Monad.return () }))
       (set_reg K (mem_w8 K c2 (obj + 1) 1) 2 1))"
    by (simp add: perform_base_cull_def run obj(1) [symmetric] c2_def split_beta)
  have q2: "queues_at K (set_reg K c2 2 v) lo qs"
    "queues_at K (set_reg K (mem_w8 K c2 (obj + 1) w) 2 v) lo qs" for v w
  proof -
    have "mem_r8 K c2 x = mem_r8 K c x" if "qi < 3" "x \<in> queue_bytes qi (lo qi)" "in_ram x 1" for qi x
    proof -
      have "x \<noteq> obj + 1" "x \<notin> span 0x1F800084 4"
        using aside(1) [OF that(1)] aside(2) [OF that(1)] that(2) by (auto simp del: mem_span)
      then have "apart 0x1F800084 4 x 1" by (intro outside_apart) simp_all
      then show ?thesis
        using \<open>x \<noteq> obj + 1\<close> that(3) obj(2) st by (auto simp: c2_def r8_w32_apart r8_w8)
    qed
    then show "queues_at K (set_reg K c2 2 v) lo qs"
      "queues_at K (set_reg K (mem_w8 K c2 (obj + 1) w) 2 v) lo qs"
      using obj(2) by (auto intro!: queues_at_frame [OF lay qs] simp: r8_set_reg r8_w8 aside(1))
  qed
  show ?thesis
  proof (cases "kept d")
    case False
    then have "queue d = 0" by (simp add: d_def cull_decide_result Let_def)
    moreover have "mem_r8 K c2 (obj + 1) = 0"
      using obj(2) far st by (simp add: c2_def r8_w32_apart r8_w8)
    ultimately show ?thesis
      using False body q2(1) obj(2) by (simp add: c'_def reg_set_reg r8_set_reg)
  next
    case True
    let ?c4 = "set_reg K (mem_w8 K c2 (obj + 1) 1) 2 1"
    have vis: "mem_r8 K ?c4 (obj + 1) = 1" "get_reg K ?c4 2 = 1"
      using obj(2) by (simp_all add: r8_set_reg r8_w8 reg_set_reg)
    show ?thesis
    proof (cases "queue d = 0")
      case True
      then show ?thesis using \<open>kept d\<close> body vis q2(2) by (simp add: c'_def)
    next
      case False
      let ?qi = "queue d - 1"
      have "queue d < 4"
        by (auto simp: d_def cull_decide_result Let_def queue_below)
      then have qi: "?qi < 3" using False by linarith
      have slots: "queue_slots ?qi (lo ?qi)" and q: "queue_at K ?c4 ?qi (lo ?qi) (qs ?qi)"
        using lay q2(2) qi by (auto simp: queue_layout_def queues_at_def)
      have "c' = exec (cull_push K ?qi obj) ?c4"
        using False \<open>kept d\<close> body by (simp add: c'_def split_beta)
      then show ?thesis
        using False \<open>kept d\<close> vis queues_push [OF lay q2(2) qi] cull_push_reg [OF qi q]
          cull_push_frame [OF qi slots q obj(2) aside(1) [OF qi]] by simp
    qed
  qed
qed

end

context guest_core
begin

lemma class_queue_full:
  assumes "in_ram (obj + 1) 1" "in_ram (obj + 0xC) 1"
    and queue: "cull_queue (ucast (mem_r8 K c (obj + 0xC))) = Suc qi"
    and slots: "queue_slots qi lo" and q: "queue_at K c qi lo xs" and aside: "obj + 1 \<notin> queue_bytes qi lo"
    and full: "length xs = unat (CULL_QCAP ! qi)"
  shows "run_state (enqueue_by_class K obj) c = (0, mem_w8 K c (obj + 1) 1)"
proof -
  let ?c1 = "mem_w8 K c (obj + 1) 1" and ?t = "ucast (mem_r8 K c (obj + 0xC)) :: u32"
  have qi: "qi < 3" using queue queue_below [of ?t] by simp
  have "queue_at K ?c1 qi lo xs"
    using aside assms(1)
    by (intro queue_at_frame [OF qi slots q]) (auto simp: r8_w8 queue_bytes_ram [OF qi slots])
  then have "mem_r16 K ?c1 (CULL_QCNT ! qi) = of_nat (unat (CULL_QCAP ! qi))"
    by (simp add: queue_at_def full)
  then have "run_state (cull_push K qi obj) ?c1 = (0, ?c1)"
    using cull_push_full [OF qi _ cull_words(4) [OF qi] order_refl] by simp
  moreover have "?t = 4 \<and> qi = 1 \<or> (?t = 2 \<or> ?t = 9) \<and> qi = 0 \<or> ?t = 5 \<and> qi = 2"
    using queue by (auto simp: cull_queue_def split: if_splits)
  ultimately show ?thesis
    using assms(1,2)
    by (auto simp: enqueue_by_class_def enqueue_visible_class4_def enqueue_queue_a_def
        enqueue_queue_c_def r8_w8)
qed

end

section \<open>Properties\<close>

text \<open>C13. \<open>isqrt16\<close> returns the integer nearest to the square root of its argument: \<open>r (r - 1) < a \<le> r (r + 1)\<close>,
  saturating at 65535.\<close>
theorem isqrt16_nearest:
  "unat (eng_isqrt16 a) \<le> 65535 \<and>
   (unat (eng_isqrt16 a) = 0 \<or> unat (eng_isqrt16 a) * (unat (eng_isqrt16 a) - 1) < unat a) \<and>
   (unat a \<le> unat (eng_isqrt16 a) * (unat (eng_isqrt16 a) + 1) \<or> unat (eng_isqrt16 a) = 65535)"
  using isqrt16_nearest_core [of a] by (simp add: eng_isqrt16_def Let_def)

text \<open>C14. The standalone cone of \<open>FUN_8002B278\<close>, which multiplies, keeps exactly the distances and depths
  that the dividing test of \<open>FUN_8007712C\<close> keeps with near 512, far 7169 and threshold 856, the window of state 1.\<close>
theorem cone_forms_agree:
  "unat dist < 65536 \<Longrightarrow> cone_keeps dist depth = cull_keeps (cull_limits 1 t) dist depth"
  using cone_forms_agree_core [of dist depth] by (simp add: cull_limits_def)

theorem cone_forms_agree_witness:
  "cone_keeps 1000 3424000 = cull_keeps (cull_limits 1 4) 1000 3424000 \<and> cone_keeps 1000 3424000"
  using cone_forms_agree [of 1000 3424000 4] cone_keeps_iff [of 1000 3424000] by simp

text \<open>C15. The body of the visibility test: \<open>v0\<close> and the object's visible byte say whether the specification finds
  the object inside its window and cone, and the render queues, as lists, get exactly a kept object
  of a queued type while the gate word is 0, at the front and within the capacity.\<close>
theorem base_cull_refines:
  assumes "guest_core K" "queue_layout lo" "queues_at K c lo qs"
    and "obj = get_reg K c 4" "in_ram (obj + 1) 1" "obj + 1 \<notin> span 0x1F800084 4"
    and "\<forall>qi < 3. obj + 1 \<notin> queue_bytes qi (lo qi) \<and> span 0x1F800084 4 \<inter> queue_bytes qi (lo qi) = {}"
  shows "let t = ucast (mem_r8 K c (obj + 0xC));
             keep = spec_visible (cull_state K c) t (cull_distance K c) (cull_depth K c);
             q = (if keep \<and> mem_r32 K c 0x1F800080 = 0 then cull_queue t else 0);
             c' = exec (perform_base_cull K) c
         in get_reg K c' 2 = of_bool keep \<and> mem_r8 K c' (obj + 1) = of_bool keep \<and>
            queues_at K c' lo (if q = 0 then qs
              else qs(q - 1 := push_bounded (unat (CULL_QCAP ! (q - 1))) obj (qs (q - 1))))"
proof -
  have aside: "\<And>qi. qi < 3 \<Longrightarrow> obj + 1 \<notin> queue_bytes qi (lo qi)"
    "\<And>qi. qi < 3 \<Longrightarrow> span 0x1F800084 4 \<inter> queue_bytes qi (lo qi) = {}"
    using assms(7) by blast+
  show ?thesis
    using guest_core.base_cull_effect [OF assms(1-6) aside]
    by (simp only: cull_decide_result fst_conv Let_def cull_decision.select_convs assms(4) [symmetric])
qed

text \<open>C16. A full queue refuses: queueing an object of class 2, 9, 4 or 5 whose queue is at its capacity returns 0 and
  changes nothing but the object's visible byte.\<close>
theorem enqueue_by_class_full:
  assumes "guest_core K" "in_ram (obj + 1) 1" "in_ram (obj + 0xC) 1"
    and "cull_queue (ucast (mem_r8 K c (obj + 0xC))) = Suc qi"
    and "queue_slots qi lo" "queue_at K c qi lo xs" "obj + 1 \<notin> queue_bytes qi lo"
    and "length xs = unat (CULL_QCAP ! qi)"
  shows "run_state (enqueue_by_class K obj) c = (0, mem_w8 K c (obj + 1) 1)"
  by (rule guest_core.class_queue_full [OF assms])


section \<open>A concrete frame\<close>

text \<open>Empty queues at \<open>0x80100000\<close>, \<open>0x80100100\<close> and \<open>0x80100200\<close>, cull state 5, and an object of type 4.\<close>

definition demo_lo :: "nat \<Rightarrow> u32" where
  "demo_lo qi = [0x80100000, 0x80100100, 0x80100200] ! qi"

definition demo_frame :: flat where
  "demo_frame = (let K = idle_core in
     mem_w8 K (mem_w32 K (mem_w32 K (mem_w32 K (mem_w32 K (set_reg K zero_flat 4 0x80000100)
       0x1f80013c 0x80100060) 0x1f800148 0x801001A0) 0x1f800154 0x80100270) 0x1F800084 5) 0x8000010C 4)"

lemma demo_frame_words:
  "mem_r32 idle_core demo_frame 0x1f80013c = 0x80100060"
  "mem_r32 idle_core demo_frame 0x1f800148 = 0x801001A0"
  "mem_r32 idle_core demo_frame 0x1f800154 = 0x80100270"
  "mem_r16 idle_core demo_frame 0x1f800144 = 0" "mem_r16 idle_core demo_frame 0x1f800150 = 0"
  "mem_r16 idle_core demo_frame 0x1f80015c = 0"
  "mem_r32 idle_core demo_frame 0x1F800080 = 0"
  "mem_r32 idle_core demo_frame 0x1F800084 = 5" "mem_r8 idle_core demo_frame 0x8000010C = 4"
  "mem_r8 idle_core demo_frame 0x800BF870 = 0" "get_reg idle_core demo_frame 4 = 0x80000100"
  by (simp_all add: demo_frame_def Let_def flat.read_write zero_reads address_simps del: flat_core_sel)

lemmas demo_tables = CULL_QCNT_def CULL_QPTR_def CULL_QCAP_def demo_lo_def

lemma spans_disjoint: "apart a n b m \<Longrightarrow> 0 < n \<Longrightarrow> span a n \<inter> span b m = {}"
  using apart_outside [of a n b m] by blast

lemma demo_layout: "queue_layout demo_lo"
proof -
  have "queue_slots qi (demo_lo qi)" if "qi < 3" for qi
    using below_three [OF that]
    by (elim disjE) (simp_all add: queue_slots_def demo_tables in_ram_def apart_def)
  moreover have "queue_bytes qi (demo_lo qi) \<inter> queue_bytes qj (demo_lo qj) = {}"
    if "qi < 3" "qj < 3" "qi \<noteq> qj" for qi qj
    using below_three [OF that(1)] below_three [OF that(2)] that(3)
    by (elim disjE) (simp_all add: queue_bytes_def demo_tables Int_Un_distrib Int_Un_distrib2
        spans_disjoint apart_def)
  ultimately show ?thesis by (simp add: queue_layout_def)
qed

lemma demo_queues: "queues_at idle_core demo_frame demo_lo (\<lambda>_. [])"
  by (auto simp: queues_at_def queue_at_def demo_tables queue_slot_def demo_frame_words
      dest!: below_three simp del: flat_core_sel)

theorem base_cull_refines_witness:
  "get_reg idle_core (exec (perform_base_cull idle_core) demo_frame) 2 = 1 \<and>
   mem_r8 idle_core (exec (perform_base_cull idle_core) demo_frame) 0x80000101 = 1 \<and>
   queues_at idle_core (exec (perform_base_cull idle_core) demo_frame) demo_lo ((\<lambda>_. [])(1 := [0x80000100]))"
proof -
  have "\<forall>qi < 3. 0x80000100 + 1 \<notin> queue_bytes qi (demo_lo qi) \<and>
      span 0x1F800084 4 \<inter> queue_bytes qi (demo_lo qi) = {}"
  proof (intro allI impI)
    fix qi :: nat assume "qi < 3"
    from below_three [OF this] show "0x80000100 + 1 \<notin> queue_bytes qi (demo_lo qi) \<and>
        span 0x1F800084 4 \<inter> queue_bytes qi (demo_lo qi) = {}"
      by (elim disjE) (simp_all add: queue_bytes_def demo_tables Int_Un_distrib spans_disjoint apart_def)
  qed
  then have "let t = ucast (mem_r8 idle_core demo_frame (0x80000100 + 0xC));
             keep = spec_visible (cull_state idle_core demo_frame) t
               (cull_distance idle_core demo_frame) (cull_depth idle_core demo_frame);
             q = (if keep \<and> mem_r32 idle_core demo_frame 0x1F800080 = 0 then cull_queue t else 0);
             c' = exec (perform_base_cull idle_core) demo_frame
         in get_reg idle_core c' 2 = of_bool keep \<and>
            mem_r8 idle_core c' (0x80000100 + 1) = of_bool keep \<and>
            queues_at idle_core c' demo_lo (if q = 0 then (\<lambda>_. [])
              else (\<lambda>_. [])(q - 1 := push_bounded (unat (CULL_QCAP ! (q - 1))) 0x80000100 []))"
    using demo_frame_words(11)
    by (intro base_cull_refines flat.guest_core_axioms demo_layout demo_queues)
      (simp_all add: in_ram_def del: flat_core_sel)
  then show ?thesis
    by (simp add: Let_def spec_visible_def cull_state_def demo_frame_words cull_queue_def
        push_bounded_def CULL_QCAP_def One_nat_def del: flat_core_sel)
qed

text \<open>Queue 1 of the demonstration frame filled with forty objects.\<close>
definition full_frame :: flat where
  "full_frame = mem_w32 idle_core (mem_w16 idle_core demo_frame 0x1f800150 40) 0x1f800148 0x80100100"

theorem enqueue_by_class_full_witness:
  "run_state (enqueue_by_class idle_core 0x80000100) full_frame =
    (0, mem_w8 idle_core full_frame (0x80000100 + 1) 1)"
proof (rule enqueue_by_class_full [where qi = 1 and lo = "0x80100100" and xs = "replicate 40 0"])
  have w: "mem_r32 idle_core full_frame 0x1f800148 = 0x80100100"
    "mem_r16 idle_core full_frame 0x1f800150 = 40" "mem_r8 idle_core full_frame 0x8000010C = 4"
    by (simp_all add: full_frame_def flat.read_write demo_frame_words address_simps del: flat_core_sel)
  show "cull_queue (ucast (mem_r8 idle_core full_frame (0x80000100 + 0xC))) = Suc 1"
    using w(3) by (simp add: cull_queue_def del: flat_core_sel)
  have z: "mem_r32 idle_core full_frame (queue_slot 0x80100100 j) = 0" if "j < 40" for j
  proof -
    have "in_ram (queue_slot 0x80100100 j) 4"
      using that by (intro slot_in_ram [of _ 40]) (simp_all add: in_ram_def)
    moreover have "apart a 4 (queue_slot 0x80100100 j) 4"
      if "a \<in> {0x1f80013c, 0x1f800148, 0x1f800154, 0x1F800084}" for a
      using that \<open>j < 40\<close> by (intro slot_beside(1) [of _ 40]) (auto simp: in_ram_def apart_def)
    moreover have "apart 0x1f800150 2 (queue_slot 0x80100100 j) 4" "apart 0x8000010C 1 (queue_slot 0x80100100 j) 4"
      using \<open>j < 40\<close> by (intro slot_beside(1) [of _ 40]; simp add: in_ram_def apart_def)+
    ultimately show ?thesis
      by (simp add: full_frame_def demo_frame_def Let_def flat.read_write zero_reads in_ram_def
          del: flat_core_sel)
  qed
  show "queue_at idle_core full_frame 1 0x80100100 (replicate 40 0)"
    using w z by (simp add: queue_at_def CULL_QCAP_def CULL_QCNT_def CULL_QPTR_def queue_slot_def
        del: flat_core_sel)
qed (auto simp: queue_slots_def queue_bytes_def demo_tables in_ram_def apart_def
    intro: flat.guest_core_axioms)

end
