(* ===== verification/ObjectViews.thy ===== *)
theory ObjectViews
  imports HorizontalCull Inventory LookupLeaves MatrixMath PacketEffects Spawn StackFrames VisibilityCull
begin

text \<open>
  The typed views of guest objects that the handlers share: the accessors of \<open>Actor\<close>,
  \<open>ScriptObject\<close>, the player state, the task state machine and the smaller
  per-handler views, each a read or write at its field offset from the object's address, and the
  helpers used by more than one of the theories below. A view is modelled by the base addresses
  its class stores; the constants of the layout come first.
\<close>

section \<open>Layout\<close>

definition kFacing :: u32 where "kFacing = 86"
definition kWalkState :: u32 where "kWalkState = 324"
definition kRecoilTimer :: u32 where "kRecoilTimer = 370"
definition kStateFlags :: u32 where "kStateFlags = 382"
definition kPausedBit :: u32 where "kPausedBit = 512"
definition kContactState :: u32 where "kContactState = 43"
definition kReachXZ :: u32 where "kReachXZ = 128"
definition kHeightOffset :: u32 where "kHeightOffset = 132"
definition kReachY :: u32 where "kReachY = 134"
definition kState :: u32 where "kState = 0"
definition kKind :: u32 where "kKind = 3"
definition kPhase :: u32 where "kPhase = 4"
definition kSubPhase :: u32 where "kSubPhase = 5"
definition kTimer :: u32 where "kTimer = 6"
definition kCapability :: u32 where "kCapability = 98"
definition kProximityBit :: u32 where "kProximityBit = 8"
definition kBodyRecord :: u32 where "kBodyRecord = 252"
definition O_KIND :: u32 where "O_KIND = 0x00"
definition O_VARIANT :: u32 where "O_VARIANT = 0x03"
definition O_H_54 :: u32 where "O_H_54 = 0x54"
definition O_H_56 :: u32 where "O_H_56 = 0x56"
definition O_H_58 :: u32 where "O_H_58 = 0x58"
definition O_H_80 :: u32 where "O_H_80 = 0x80"
definition O_H_82 :: u32 where "O_H_82 = 0x82"
definition O_H_84 :: u32 where "O_H_84 = 0x84"
definition O_H_86 :: u32 where "O_H_86 = 0x86"
definition O_B_5F :: u32 where "O_B_5F = 0x5F"
definition O_D_3C :: u32 where "O_D_3C = 0x3C"
definition O_D_C4 :: u32 where "O_D_C4 = 0xC4"
definition G_eac :: u32 where "G_eac = 0x800E7EAC"
definition G_eb2 :: u32 where "G_eb2 = 0x800E7EB2"
definition G_eb4 :: u32 where "G_eb4 = 0x800E7EB4"
definition Sta_Active :: u32 where "Sta_Active = 1"
definition Sta_Init :: u32 where "Sta_Init = 0"
definition kOffActive :: u32 where "kOffActive = 0x00"
definition kOffVisible :: u32 where "kOffVisible = 0x01"
definition kOffVariant :: u32 where "kOffVariant = 0x03"
definition kOffState :: u32 where "kOffState = 0x04"
definition kOffSub :: u32 where "kOffSub = 0x05"
definition kOffOwner :: u32 where "kOffOwner = 0x10"
definition kOffFlags28 :: u32 where "kOffFlags28 = 0x28"
definition kOffGate :: u32 where "kOffGate = 0x29"
definition kOffCollHandled :: u32 where "kOffCollHandled = 0x2B"
definition kOffFlag46 :: u32 where "kOffFlag46 = 0x46"
definition kOffKind :: u32 where "kOffKind = 0x5E"
definition kOffStatus :: u32 where "kOffStatus = 0x5F"
definition kOffRoomId :: u32 where "kOffRoomId = 0x6A"
definition kOffXzRadius :: u32 where "kOffXzRadius = 0x80"
definition kOffHeight :: u32 where "kOffHeight = 0x82"
definition kOffYBandLo :: u32 where "kOffYBandLo = 0x84"
definition kOffYBandHi :: u32 where "kOffYBandHi = 0x86"
definition kOutAngle :: u32 where "kOutAngle = 0"
definition kOutSecond :: u32 where "kOutSecond = 2"
definition kRestAngle :: u32 where "kRestAngle = 6"
definition kBias :: u32 where "kBias = 8"
definition kAngle :: u32 where "kAngle = 18"
definition kSwingVel :: u32 where "kSwingVel = 20"
definition kImpulse :: u32 where "kImpulse = 26"
definition kTargetAngle :: u32 where "kTargetAngle = 28"
definition kSegmentCount :: u32 where "kSegmentCount = 0x08"
definition kSegmentTable :: u32 where "kSegmentTable = 0xC0"
definition kSegmentBendZ :: u32 where "kSegmentBendZ = 0x0C"
definition kVariant :: u32 where "kVariant = 0x03"
definition sway_schedule_kPhase :: u32 where "sway_schedule_kPhase = 0x05"
definition kRate :: u32 where "kRate = 0x50"
definition kFinishedFlag :: u32 where "kFinishedFlag = 0x800BF8B8"
definition kEventStep :: u32 where "kEventStep = 0x800BF9E0"
definition kFinishedSentinel :: u32 where "kFinishedSentinel = 255"
definition kOwner :: u32 where "kOwner = 0x10"
definition tilt_follower_kContactState :: u32 where "tilt_follower_kContactState = 0x2B"
definition kRotX :: u32 where "kRotX = 0x54"
definition kChildTable :: u32 where "kChildTable = 0xC0"
definition kChildEulerX :: u32 where "kChildEulerX = 0x08"
definition kRngRead :: u32 where "kRngRead = 0x8009A450"
definition kDist2D :: u32 where "kDist2D = 0x800781E0"
definition kSetAnimStateCue :: u32 where "kSetAnimStateCue = 0x801402B8"
definition kMotionAnimStep :: u32 where "kMotionAnimStep = 0x801406E4"
definition kGateTimer :: u32 where "kGateTimer = 0x800E7EAA"
definition kS_1F800160 :: u32 where "kS_1F800160 = 0x1F800160"
definition kS_1F800164 :: u32 where "kS_1F800164 = 0x1F800164"
definition kS_800E7FFE :: u32 where "kS_800E7FFE = 0x800E7FFE"
definition kSeqPtrArray :: u32 where "kSeqPtrArray = 0x80104C30"
definition kKonArmedMaskLo :: u32 where "kKonArmedMaskLo = 0x80105BF0"
definition kKonArmedMaskHi :: u32 where "kKonArmedMaskHi = 0x80105BF2"
definition kActiveVoiceMaskLo :: u32 where "kActiveVoiceMaskLo = 0x801054B8"
definition kActiveVoiceMaskHi :: u32 where "kActiveVoiceMaskHi = 0x801054BA"
definition kPerVoiceConsumedFlag :: u32 where "kPerVoiceConsumedFlag = 21733"
definition kSpuKeyScanCount :: u32 where "kSpuKeyScanCount = 23788"
definition kFlags :: u32 where "kFlags = 152"
definition kMulMatrix0 :: u32 where "kMulMatrix0 = 0x80084250"
definition kCameraObject :: u32 where "kCameraObject = 0x800E8008"
definition kTaskTableBase :: u32 where "kTaskTableBase = 0x801FE000"
definition kTaskSlotStride :: u32 where "kTaskSlotStride = 0x70"
definition R_A1 :: u32 where "R_A1 = 5"
definition R_A2 :: u32 where "R_A2 = 6"
definition R_A3 :: u32 where "R_A3 = 7"
definition R_V0 :: u32 where "R_V0 = 2"
definition G_800E7F50 :: u32 where "G_800E7F50 = 0x800E7F50"
definition G_800E7F5C :: u32 where "G_800E7F5C = 0x800E7F5C"
definition G_BF870 :: u32 where "G_BF870 = 0x800BF870"
definition kTypeByte :: u32 where "kTypeByte = 2"
definition kContact :: u32 where "kContact = 43"
definition kPosX :: u32 where "kPosX = 46"
definition kPosY :: u32 where "kPosY = 50"
definition kPosZ :: u32 where "kPosZ = 54"
definition kGuardByte :: u32 where "kGuardByte = 97"
definition kReach :: u32 where "kReach = 128"
definition kHeightOff :: u32 where "kHeightOff = 132"
definition kBandY :: u32 where "kBandY = 134"
definition kHeading :: u32 where "kHeading = 320"
definition actor_targeting_kWalkState :: u32 where "actor_targeting_kWalkState = 325"
definition G_ADDR :: u32 where "G_ADDR = 0x800E7E80"
definition kScaleByte :: u32 where "kScaleByte = 0x06"
definition kWorldAnchorXY :: u32 where "kWorldAnchorXY = 0x2C"
definition kWorldAnchorZ :: u32 where "kWorldAnchorZ = 0x30"
definition kRecordTail :: u32 where "kRecordTail = 0x38"
definition kOtKey :: u32 where "kOtKey = 0x1F800080"
definition kScaleX :: u32 where "kScaleX = 0x1F800084"
definition kScaleY :: u32 where "kScaleY = 0x1F800088"
definition kScreenXY :: u32 where "kScreenXY = 0x1F80008C"
definition kSizeClass :: u32 where "kSizeClass = 0x03"
definition kOtBias :: u32 where "kOtBias = 0x32"
definition kRecordHead :: u32 where "kRecordHead = 0x34"
definition kClut :: u32 where "kClut = 0x44"
definition kTexturePage :: u32 where "kTexturePage = 0x46"
definition kParticleCount :: u32 where "kParticleCount = 0x4E"
definition kParticleArray :: u32 where "kParticleArray = 0x50"
definition kPartPosXY :: u32 where "kPartPosXY = 0x00"
definition kPartPosZ :: u32 where "kPartPosZ = 0x04"
definition kPartSizeMul :: u32 where "kPartSizeMul = 0x06"
definition kBasePointer :: u32 where "kBasePointer = 0x800ED8C8"
definition kBasePointerPage :: u32 where "kBasePointerPage = 0x800F0000"
definition kNearestBucket :: u32 where "kNearestBucket = 4"
definition kFarthestBucket :: u32 where "kFarthestBucket = 0x7FF"
definition kNoBucket :: u32 where "kNoBucket = - 1"
definition kCursor :: u32 where "kCursor = 0x800BF544"
definition kCursorPage :: u32 where "kCursorPage = 0x800C0000"
definition kClipX :: u32 where "kClipX = 0"
definition kClipY :: u32 where "kClipY = 2"
definition kClipW :: u32 where "kClipW = 4"
definition kClipH :: u32 where "kClipH = 6"
definition kOffsetX :: u32 where "kOffsetX = 8"
definition kOffsetY :: u32 where "kOffsetY = 10"
definition kTexWindow :: u32 where "kTexWindow = 12"
definition libgpu_draw_env_kTexturePage :: u32 where "libgpu_draw_env_kTexturePage = 20"
definition kDither :: u32 where "kDither = 22"
definition kDrawOnDisp :: u32 where "kDrawOnDisp = 23"
definition kClearFlag :: u32 where "kClearFlag = 24"
definition kClearRed :: u32 where "kClearRed = 25"
definition kClearGreen :: u32 where "kClearGreen = 26"
definition kClearBlue :: u32 where "kClearBlue = 27"
definition kTagWordCount :: u32 where "kTagWordCount = 3"
definition kClipTopLeft :: u32 where "kClipTopLeft = 4"
definition kClipBottomRight :: u32 where "kClipBottomRight = 8"
definition kDrawOffset :: u32 where "kDrawOffset = 12"
definition kDrawMode :: u32 where "kDrawMode = 16"
definition kMaskBits :: u32 where "kMaskBits = 24"
definition kClearCommand :: u32 where "kClearCommand = 28"
definition kClearTopLeft :: u32 where "kClearTopLeft = 32"
definition kClearSize :: u32 where "kClearSize = 36"
definition kX :: u32 where "kX = 16"
definition kY :: u32 where "kY = 18"
definition kW :: u32 where "kW = 20"
definition kH :: u32 where "kH = 22"
definition kComposeTrans :: u32 where "kComposeTrans = 20"
definition kDepthCue :: u32 where "kDepthCue = 0x1F800090"
definition kLeaf :: u32 where "kLeaf = 0x8007E9C8"
definition kSubtractive :: u32 where "kSubtractive = 0"
definition kAdditive :: u32 where "kAdditive = 1"
definition kSceneCamera :: u32 where "kSceneCamera = 0x1F8000F8"
definition kSceneCameraWords :: u32 where "kSceneCameraWords = 8"
definition GPU_CLIP_MAXW :: u32 where "GPU_CLIP_MAXW = 0x800A59A4"
definition GPU_CLIP_MAXH :: u32 where "GPU_CLIP_MAXH = 0x800A59A6"
definition GPU_DMA_FLAGS_PTR :: u32 where "GPU_DMA_FLAGS_PTR = 0x800A5AA8"
definition GPU_DMA_ARG0_PTR :: u32 where "GPU_DMA_ARG0_PTR = 0x800A5AAC"
definition GPU_DMA_ARG1_PTR :: u32 where "GPU_DMA_ARG1_PTR = 0x800A5AB0"
definition GPU_DMA_STATE_PTR :: u32 where "GPU_DMA_STATE_PTR = 0x800A5AB4"
definition kFlagTable :: u32 where "kFlagTable = 0x800BF9B4"
definition kStatusByteMirror :: u32 where "kStatusByteMirror = 0x1F800207"
definition kRuntimeScratch :: u32 where "kRuntimeScratch = 0x10"
definition kPositionZ :: u32 where "kPositionZ = 0x2E"
definition kPositionY :: u32 where "kPositionY = 0x32"
definition kPositionX :: u32 where "kPositionX = 0x36"
definition kOwnerPointer :: u32 where "kOwnerPointer = 0x38"
definition kTailNode :: u32 where "kTailNode = 0x3C"
definition kTailCache :: u32 where "kTailCache = 0x40"
definition kStepsRemaining :: u32 where "kStepsRemaining = 0x44"
definition kInitMarker :: u32 where "kInitMarker = 0x46"
definition kDeltaZ :: u32 where "kDeltaZ = 0x48"
definition kDeltaY :: u32 where "kDeltaY = 0x4A"
definition kDeltaX :: u32 where "kDeltaX = 0x4C"
definition kFacingAngle :: u32 where "kFacingAngle = 0x56"
definition kFacingCompanion :: u32 where "kFacingCompanion = 0x58"
definition kExtraBlock :: u32 where "kExtraBlock = 0x64"
definition script_object_kCursor :: u32 where "script_object_kCursor = 0x6C"
definition kProgress :: u32 where "kProgress = 0x70"
definition script_object_kStateFlags :: u32 where "script_object_kStateFlags = 0x71"
definition kArgA :: u32 where "kArgA = 0x72"
definition kArgB :: u32 where "kArgB = 0x74"
definition kArgC :: u32 where "kArgC = 0x76"
definition script_object_kPhase :: u32 where "script_object_kPhase = 0x78"
definition kSecondaryTable :: u32 where "kSecondaryTable = 0x7C"
definition kInitMarkerByte :: u32 where "kInitMarkerByte = 0xFF"
definition kProgressStoppedByte :: u32 where "kProgressStoppedByte = 0xFF"
definition kFlagBitPaused :: u32 where "kFlagBitPaused = 0x01"
definition AdvanceKind_kStop :: u32 where "AdvanceKind_kStop = 0x8000"
definition kAdvanceKindMask :: u32 where "kAdvanceKindMask = 0xE000"
definition kAdvanceStopBit :: u32 where "kAdvanceStopBit = 0x8000"
definition SCENE_BEAT :: u32 where "SCENE_BEAT = 0x800BF9B4"
definition R_A0 :: u32 where "R_A0 = 4"
definition kScratchpadBase :: u32 where "kScratchpadBase = 0x1F800000"
definition kContactAngleSlot :: u32 where "kContactAngleSlot = 156"
definition render_record_pool_kCursorPage :: u32 where "render_record_pool_kCursorPage = 0x800E0000"
definition kCountPage :: u32 where "kCountPage = 0x800F0000"
definition kFreeCount :: u32 where "kFreeCount = 0x800ED098"
definition kFreeCursor :: u32 where "kFreeCursor = 0x800E7E74"

text \<open>\<open>Trig::ratan2\<close> as its callers use it: the quotient is only undefined at \<open>INT_MIN\<close>.\<close>
definition trig_ratan2 :: "'c core_ops \<Rightarrow> u32 \<Rightarrow> u32 \<Rightarrow> ('c, u32) state" where
  "trig_ratan2 K y x = do { q \<leftarrow> ratan2 K y x; State_Monad.return (the q) }"

section \<open>\<open>game/ai/actor_bump.h\<close>\<close>

definition bump_actor_paused :: "'c core_ops \<Rightarrow> u32 \<Rightarrow> ('c, bool) state"
    where
  "bump_actor_paused K mAt = do {
     v1 \<leftarrow> r16 K (mAt + kStateFlags);
     State_Monad.return ((v1 AND kPausedBit) \<noteq> 0)
   }"

definition bump_actor_state_flags :: "'c core_ops \<Rightarrow> u32 \<Rightarrow> ('c, u32) state"
    where
  "bump_actor_state_flags K mAt = r16s K (mAt + kStateFlags)"

definition bump_actor_state :: "'c core_ops \<Rightarrow> u32 \<Rightarrow> ('c, u32) state" where
  "bump_actor_state K mAt = r8 K (mAt + kState)"

definition bump_actor_walk_state :: "'c core_ops \<Rightarrow> u32 \<Rightarrow> ('c, u32) state"
    where
  "bump_actor_walk_state K mAt = r8 K (mAt + kWalkState)"

definition bump_actor_facing :: "'c core_ops \<Rightarrow> u32 \<Rightarrow> ('c, u32) state"
    where
  "bump_actor_facing K mAt = r16s K (mAt + kFacing)"

definition bump_actor_reach :: "'c core_ops \<Rightarrow> u32 \<Rightarrow> ('c, u32) state" where
  "bump_actor_reach K mAt = r16s K (mAt + kReach)"

definition bump_actor_set_pos_x :: "'c core_ops \<Rightarrow> u32 \<Rightarrow> u32 \<Rightarrow>
    ('c, unit) state" where
  "bump_actor_set_pos_x K mAt v = w16 K (mAt + kPosX) v"

definition bump_actor_set_pos_z :: "'c core_ops \<Rightarrow> u32 \<Rightarrow> u32 \<Rightarrow>
    ('c, unit) state" where
  "bump_actor_set_pos_z K mAt v = w16 K (mAt + kPosZ) v"

definition bump_actor_set_contact :: "'c core_ops \<Rightarrow> u32 \<Rightarrow> u32
    \<Rightarrow> ('c, unit) state" where
  "bump_actor_set_contact K mAt v = w8 K (mAt + kContact) v"

definition bump_actor_set_phase :: "'c core_ops \<Rightarrow> u32 \<Rightarrow> u32 \<Rightarrow>
    ('c, unit) state" where
  "bump_actor_set_phase K mAt v = w8 K (mAt + kPhase) v"

definition bump_actor_set_sub_phase :: "'c core_ops \<Rightarrow> u32 \<Rightarrow> u32
    \<Rightarrow> ('c, unit) state" where
  "bump_actor_set_sub_phase K mAt v = w8 K (mAt + kSubPhase) v"

definition bump_actor_set_state :: "'c core_ops \<Rightarrow> u32 \<Rightarrow> u32 \<Rightarrow>
    ('c, unit) state" where
  "bump_actor_set_state K mAt v = w8 K (mAt + kState) v"

definition bump_actor_set_timer :: "'c core_ops \<Rightarrow> u32 \<Rightarrow> u32 \<Rightarrow>
    ('c, unit) state" where
  "bump_actor_set_timer K mAt v = w8 K (mAt + kTimer) v"

definition bump_actor_set_recoil_timer :: "'c core_ops \<Rightarrow> u32 \<Rightarrow> u32
    \<Rightarrow> ('c, unit) state" where
  "bump_actor_set_recoil_timer K mAt v = w16 K (mAt + kRecoilTimer) v"

definition bump_other_state :: "'c core_ops \<Rightarrow> u32 \<Rightarrow> ('c, u32) state" where
  "bump_other_state K mAt = r8 K (mAt + kState)"

definition bump_other_reach :: "'c core_ops \<Rightarrow> u32 \<Rightarrow> ('c, u32) state" where
  "bump_other_reach K mAt = r16s K (mAt + kReach)"

definition bump_other_pos_x :: "'c core_ops \<Rightarrow> u32 \<Rightarrow> ('c, u32) state" where
  "bump_other_pos_x K mAt = r16 K (mAt + kPosX)"

definition bump_other_pos_z :: "'c core_ops \<Rightarrow> u32 \<Rightarrow> ('c, u32) state" where
  "bump_other_pos_z K mAt = r16 K (mAt + kPosZ)"

section \<open>\<open>game/ai/actor_object_contact.h\<close>\<close>

definition contact_actor_paused :: "'c core_ops \<Rightarrow> u32 \<Rightarrow> ('c, bool) state"
    where
  "contact_actor_paused K mAt = do {
     v1 \<leftarrow> r16 K (mAt + kStateFlags);
     State_Monad.return ((v1 AND kPausedBit) \<noteq> 0)
   }"

definition contact_actor_pos_x :: "'c core_ops \<Rightarrow> u32 \<Rightarrow> ('c, u32) state"
    where
  "contact_actor_pos_x K mAt = r16 K (mAt + kPosX)"

definition contact_actor_pos_y :: "'c core_ops \<Rightarrow> u32 \<Rightarrow> ('c, u32) state"
    where
  "contact_actor_pos_y K mAt = r16 K (mAt + kPosY)"

definition contact_actor_pos_z :: "'c core_ops \<Rightarrow> u32 \<Rightarrow> ('c, u32) state"
    where
  "contact_actor_pos_z K mAt = r16 K (mAt + kPosZ)"

definition contact_actor_reach_xz :: "'c core_ops \<Rightarrow> u32 \<Rightarrow> ('c, u32) state"
    where
  "contact_actor_reach_xz K mAt = r16s K (mAt + kReachXZ)"

definition contact_actor_height_offset :: "'c core_ops \<Rightarrow> u32 \<Rightarrow> ('c, u32)
    state" where
  "contact_actor_height_offset K mAt = r16 K (mAt + kHeightOffset)"

definition contact_actor_reach_y :: "'c core_ops \<Rightarrow> u32 \<Rightarrow> ('c, u32) state"
    where
  "contact_actor_reach_y K mAt = r16s K (mAt + kReachY)"

definition contact_actor_set_contact_state :: "'c core_ops \<Rightarrow> u32 \<Rightarrow> u32
    \<Rightarrow> ('c, unit) state" where
  "contact_actor_set_contact_state K mAt v = w8 K (mAt + kContactState) v"

definition contact_object_kind :: "'c core_ops \<Rightarrow> u32 \<Rightarrow> ('c, u32) state"
    where
  "contact_object_kind K mAt = r8 K (mAt + kKind)"

definition contact_object_phase :: "'c core_ops \<Rightarrow> u32 \<Rightarrow> ('c, u32) state"
    where
  "contact_object_phase K mAt = r8 K (mAt + kPhase)"

definition contact_object_in_proximity_set :: "'c core_ops \<Rightarrow> u32 \<Rightarrow> ('c,
    bool) state" where
  "contact_object_in_proximity_set K mAt = do {
     v1 \<leftarrow> r16 K (mAt + kCapability);
     State_Monad.return ((v1 AND kProximityBit) \<noteq> 0)
   }"

definition contact_object_body_record :: "'c core_ops \<Rightarrow> u32 \<Rightarrow> ('c, u32)
    state" where
  "contact_object_body_record K mAt = r32 K (mAt + kBodyRecord)"

definition contact_object_set_state :: "'c core_ops \<Rightarrow> u32 \<Rightarrow> u32
    \<Rightarrow> ('c, unit) state" where
  "contact_object_set_state K mAt v = w8 K (mAt + kState) v"

definition contact_object_set_phase :: "'c core_ops \<Rightarrow> u32 \<Rightarrow> u32
    \<Rightarrow> ('c, unit) state" where
  "contact_object_set_phase K mAt v = w8 K (mAt + kPhase) v"

definition contact_object_set_sub_phase :: "'c core_ops \<Rightarrow> u32 \<Rightarrow> u32
    \<Rightarrow> ('c, unit) state" where
  "contact_object_set_sub_phase K mAt v = w8 K (mAt + kSubPhase) v"

definition contact_object_set_timer :: "'c core_ops \<Rightarrow> u32 \<Rightarrow> u32
    \<Rightarrow> ('c, unit) state" where
  "contact_object_set_timer K mAt v = w8 K (mAt + kTimer) v"

definition contact_object_set_contact_state :: "'c core_ops \<Rightarrow> u32 \<Rightarrow> u32
    \<Rightarrow> ('c, unit) state" where
  "contact_object_set_contact_state K mAt v = w8 K (mAt + kContactState) v"

definition contact_body_pos_x :: "'c core_ops \<Rightarrow> u32 \<Rightarrow> ('c, u32) state"
    where
  "contact_body_pos_x K mAt = r16 K (mAt + 44)"

definition contact_body_pos_y :: "'c core_ops \<Rightarrow> u32 \<Rightarrow> ('c, u32) state"
    where
  "contact_body_pos_y K mAt = r16 K (mAt + 48)"

definition contact_body_pos_z :: "'c core_ops \<Rightarrow> u32 \<Rightarrow> ('c, u32) state"
    where
  "contact_body_pos_z K mAt = r16 K (mAt + 52)"

section \<open>\<open>game/ai/assembly_companion.h\<close>\<close>

definition assembly_companion_parent :: "'c core_ops \<Rightarrow> u32 \<Rightarrow> ('c, u32)
    state" where
  "assembly_companion_parent K mAt = r32 K (mAt + 0x10)"

definition assembly_companion_role :: "'c core_ops \<Rightarrow> u32 \<Rightarrow> ('c, u32)
    state" where
  "assembly_companion_role K mAt = r8 K (mAt + 0x03)"

definition assembly_companion_sub_state :: "'c core_ops \<Rightarrow> u32 \<Rightarrow> ('c, u32)
    state" where
  "assembly_companion_sub_state K mAt = r8 K (mAt + 0x05)"

definition assembly_companion_set_sub_state :: "'c core_ops \<Rightarrow> u32 \<Rightarrow> u32
    \<Rightarrow> ('c, unit) state" where
  "assembly_companion_set_sub_state K mAt v = w8 K (mAt + 0x05) v"

definition assembly_companion_set_step :: "'c core_ops \<Rightarrow> u32 \<Rightarrow> u32
    \<Rightarrow> ('c, unit) state" where
  "assembly_companion_set_step K mAt v = w8 K (mAt + 0x06) v"

definition assembly_companion_part_count :: "'c core_ops \<Rightarrow> u32 \<Rightarrow> ('c, u32)
    state" where
  "assembly_companion_part_count K mAt = r8 K (mAt + 0x08)"

definition assembly_companion_cam_hold_timer :: "'c core_ops \<Rightarrow> u32 \<Rightarrow> ('c,
    u32) state" where
  "assembly_companion_cam_hold_timer K mAt = r16 K (mAt + 0x40)"

definition assembly_companion_set_cam_hold_timer :: "'c core_ops \<Rightarrow> u32 \<Rightarrow>
    u32 \<Rightarrow> ('c, unit) state" where
  "assembly_companion_set_cam_hold_timer K mAt v = w16 K (mAt + 0x40) v"

definition assembly_companion_seq_marker :: "'c core_ops \<Rightarrow> u32 \<Rightarrow> ('c, u32)
    state" where
  "assembly_companion_seq_marker K mAt = r16s K (mAt + 0x6A)"

definition assembly_companion_set_seq_marker :: "'c core_ops \<Rightarrow> u32 \<Rightarrow> u32
    \<Rightarrow> ('c, unit) state" where
  "assembly_companion_set_seq_marker K mAt v = w16 K (mAt + 0x6A) v"

section \<open>\<open>game/ai/assembly_node.h\<close>\<close>

definition assembly_child_frame_matrix_ptr :: "'c core_ops \<Rightarrow> u32 \<Rightarrow> ('c,
    u32) state" where
  "assembly_child_frame_matrix_ptr K mAt = State_Monad.return (mAt + 0x18)"

definition assembly_child_scale_x :: "'c core_ops \<Rightarrow> u32 \<Rightarrow> ('c, u32) state"
    where
  "assembly_child_scale_x K mAt = r16s K (mAt + 0x38)"

definition assembly_child_scale_y :: "'c core_ops \<Rightarrow> u32 \<Rightarrow> ('c, u32) state"
    where
  "assembly_child_scale_y K mAt = r16s K (mAt + 0x3A)"

definition assembly_child_scale_z :: "'c core_ops \<Rightarrow> u32 \<Rightarrow> ('c, u32) state"
    where
  "assembly_child_scale_z K mAt = r16s K (mAt + 0x3C)"

definition assembly_node_addr :: "'c core_ops \<Rightarrow> u32 \<Rightarrow> ('c, u32) state"
    where
  "assembly_node_addr K mAt = State_Monad.return mAt"

definition assembly_node_child_ptr :: "'c core_ops \<Rightarrow> u32 \<Rightarrow> u32
    \<Rightarrow> ('c, u32) state" where
  "assembly_node_child_ptr K mAt slot1 = r32 K (mAt + kChildTable + slot1 * 4)"

definition assembly_node_config_word :: "'c core_ops \<Rightarrow> u32 \<Rightarrow> ('c, u32)
    state" where
  "assembly_node_config_word K mAt = r16 K (mAt + 0x60)"

definition assembly_node_has_oscillating_parts :: "'c core_ops \<Rightarrow> u32 \<Rightarrow>
    ('c, bool) state" where
  "assembly_node_has_oscillating_parts K mAt = do {
     v1 \<leftarrow> assembly_node_config_word K mAt;
     State_Monad.return ((v1 AND 0x4) \<noteq> 0)
   }"

definition assembly_node_oscillator_pair_mode :: "'c core_ops \<Rightarrow> u32 \<Rightarrow> ('c,
    bool) state" where
  "assembly_node_oscillator_pair_mode K mAt = do {
     v1 \<leftarrow> assembly_node_config_word K mAt;
     State_Monad.return ((v1 AND 0x2) \<noteq> 0)
   }"

definition assembly_node_u8_at :: "'c core_ops \<Rightarrow> u32 \<Rightarrow> u32 \<Rightarrow>
    ('c, u32) state" where
  "assembly_node_u8_at K mAt off = r8 K (mAt + off)"

definition assembly_node_mode_byte :: "'c core_ops \<Rightarrow> u32 \<Rightarrow> ('c, u32)
    state" where
  "assembly_node_mode_byte K mAt = assembly_node_u8_at K mAt 0x5E"

definition assembly_node_s16_at :: "'c core_ops \<Rightarrow> u32 \<Rightarrow> u32 \<Rightarrow>
    ('c, u32) state" where
  "assembly_node_s16_at K mAt off = r16s K (mAt + off)"

definition assembly_node_angle_selector :: "'c core_ops \<Rightarrow> u32 \<Rightarrow> ('c, u32)
    state" where
  "assembly_node_angle_selector K mAt = assembly_node_s16_at K mAt 0x6C"

definition assembly_node_stroke_phase :: "'c core_ops \<Rightarrow> u32 \<Rightarrow> ('c, u32)
    state" where
  "assembly_node_stroke_phase K mAt = assembly_node_s16_at K mAt 0x76"

definition assembly_node_stroke_flags :: "'c core_ops \<Rightarrow> u32 \<Rightarrow> ('c, u32)
    state" where
  "assembly_node_stroke_flags K mAt = assembly_node_s16_at K mAt 0x78"

section \<open>\<open>game/ai/assembly_rider.h\<close>\<close>

definition ridden_assembly_visible :: "'c core_ops \<Rightarrow> u32 \<Rightarrow> ('c, u32)
    state" where
  "ridden_assembly_visible K mAt = r8 K (mAt + 0x01)"

definition assembly_part_anchor_x16 :: "'c core_ops \<Rightarrow> u32 \<Rightarrow> ('c, u32)
    state" where
  "assembly_part_anchor_x16 K mAt = r16 K (mAt + 0x2C)"

definition assembly_part_anchor_y16 :: "'c core_ops \<Rightarrow> u32 \<Rightarrow> ('c, u32)
    state" where
  "assembly_part_anchor_y16 K mAt = r16 K (mAt + 0x30)"

definition assembly_part_anchor_z16 :: "'c core_ops \<Rightarrow> u32 \<Rightarrow> ('c, u32)
    state" where
  "assembly_part_anchor_z16 K mAt = r16 K (mAt + 0x34)"

definition assembly_part_anchor_y32 :: "'c core_ops \<Rightarrow> u32 \<Rightarrow> ('c, u32)
    state" where
  "assembly_part_anchor_y32 K mAt = r32 K (mAt + 0x30)"

definition assembly_rider_owner :: "'c core_ops \<Rightarrow> u32 \<Rightarrow> ('c, u32) state"
    where
  "assembly_rider_owner K mAt = r32 K (mAt + 0x10)"

definition assembly_rider_variant_tag :: "'c core_ops \<Rightarrow> u32 \<Rightarrow> ('c, u32)
    state" where
  "assembly_rider_variant_tag K mAt = r16s K (mAt + 0x62)"

definition assembly_rider_slot :: "'c core_ops \<Rightarrow> u32 \<Rightarrow> ('c, u32) state"
    where
  "assembly_rider_slot K mAt = r8 K (mAt + 0x18)"

definition assembly_rider_set_slot :: "'c core_ops \<Rightarrow> u32 \<Rightarrow> u32
    \<Rightarrow> ('c, unit) state" where
  "assembly_rider_set_slot K mAt v = w8 K (mAt + 0x18) v"

definition assembly_rider_set_alive :: "'c core_ops \<Rightarrow> u32 \<Rightarrow> u32
    \<Rightarrow> ('c, unit) state" where
  "assembly_rider_set_alive K mAt v = w8 K (mAt + 0x00) v"

definition assembly_rider_set_visible :: "'c core_ops \<Rightarrow> u32 \<Rightarrow> u32
    \<Rightarrow> ('c, unit) state" where
  "assembly_rider_set_visible K mAt v = w8 K (mAt + 0x01) v"

definition assembly_rider_ride_state :: "'c core_ops \<Rightarrow> u32 \<Rightarrow> ('c, u32)
    state" where
  "assembly_rider_ride_state K mAt = r8 K (mAt + 0x05)"

definition assembly_rider_set_ride_state :: "'c core_ops \<Rightarrow> u32 \<Rightarrow> u32
    \<Rightarrow> ('c, unit) state" where
  "assembly_rider_set_ride_state K mAt v = w8 K (mAt + 0x05) v"

definition assembly_rider_motion_phase :: "'c core_ops \<Rightarrow> u32 \<Rightarrow> ('c, u32)
    state" where
  "assembly_rider_motion_phase K mAt = r8 K (mAt + 0x06)"

definition assembly_rider_set_motion_phase :: "'c core_ops \<Rightarrow> u32 \<Rightarrow> u32
    \<Rightarrow> ('c, unit) state" where
  "assembly_rider_set_motion_phase K mAt v = w8 K (mAt + 0x06) v"

definition assembly_rider_set_scene_tag :: "'c core_ops \<Rightarrow> u32 \<Rightarrow> u32
    \<Rightarrow> ('c, unit) state" where
  "assembly_rider_set_scene_tag K mAt v = w8 K (mAt + 0x2A) v"

definition assembly_rider_contact_state :: "'c core_ops \<Rightarrow> u32 \<Rightarrow> ('c, u32)
    state" where
  "assembly_rider_contact_state K mAt = r8 K (mAt + 0x2B)"

definition assembly_rider_pos_y :: "'c core_ops \<Rightarrow> u32 \<Rightarrow> ('c, u32) state"
    where
  "assembly_rider_pos_y K mAt = r16s K (mAt + 0x32)"

definition assembly_rider_pos_y_fixed :: "'c core_ops \<Rightarrow> u32 \<Rightarrow> ('c, u32)
    state" where
  "assembly_rider_pos_y_fixed K mAt = r32 K (mAt + 0x30)"

definition assembly_rider_set_pos_x :: "'c core_ops \<Rightarrow> u32 \<Rightarrow> u32
    \<Rightarrow> ('c, unit) state" where
  "assembly_rider_set_pos_x K mAt v = w16 K (mAt + 0x2E) v"

definition assembly_rider_set_pos_y :: "'c core_ops \<Rightarrow> u32 \<Rightarrow> u32
    \<Rightarrow> ('c, unit) state" where
  "assembly_rider_set_pos_y K mAt v = w16 K (mAt + 0x32) v"

definition assembly_rider_set_pos_z :: "'c core_ops \<Rightarrow> u32 \<Rightarrow> u32
    \<Rightarrow> ('c, unit) state" where
  "assembly_rider_set_pos_z K mAt v = w16 K (mAt + 0x36) v"

definition assembly_rider_set_pos_y_fixed :: "'c core_ops \<Rightarrow> u32 \<Rightarrow> u32
    \<Rightarrow> ('c, unit) state" where
  "assembly_rider_set_pos_y_fixed K mAt v = w32 K (mAt + 0x30) v"

definition assembly_rider_vel_y :: "'c core_ops \<Rightarrow> u32 \<Rightarrow> ('c, u32) state"
    where
  "assembly_rider_vel_y K mAt = r16s K (mAt + 0x4A)"

definition assembly_rider_vel_y_u :: "'c core_ops \<Rightarrow> u32 \<Rightarrow> ('c, u32) state"
    where
  "assembly_rider_vel_y_u K mAt = r16 K (mAt + 0x4A)"

definition assembly_rider_accel_y_u :: "'c core_ops \<Rightarrow> u32 \<Rightarrow> ('c, u32)
    state" where
  "assembly_rider_accel_y_u K mAt = r16 K (mAt + 0x50)"

definition assembly_rider_set_vel_y :: "'c core_ops \<Rightarrow> u32 \<Rightarrow> u32
    \<Rightarrow> ('c, unit) state" where
  "assembly_rider_set_vel_y K mAt v = w16 K (mAt + 0x4A) v"

definition assembly_rider_set_accel_y :: "'c core_ops \<Rightarrow> u32 \<Rightarrow> u32
    \<Rightarrow> ('c, unit) state" where
  "assembly_rider_set_accel_y K mAt v = w16 K (mAt + 0x50) v"

definition assembly_rider_set_fling_side :: "'c core_ops \<Rightarrow> u32 \<Rightarrow> u32
    \<Rightarrow> ('c, unit) state" where
  "assembly_rider_set_fling_side K mAt v = w8 K (mAt + 0x47) v"

section \<open>\<open>game/ai/placed_prop_sm.h\<close>\<close>

definition placed_prop_state :: "'c core_ops \<Rightarrow> u32 \<Rightarrow> ('c, u32) state"
    where
  "placed_prop_state K n = r8 K (n + kOffState)"

definition placed_prop_sub :: "'c core_ops \<Rightarrow> u32 \<Rightarrow> ('c, u32) state" where
  "placed_prop_sub K n = r8 K (n + kOffSub)"

definition placed_prop_variant :: "'c core_ops \<Rightarrow> u32 \<Rightarrow> ('c, u32) state"
    where
  "placed_prop_variant K n = r8 K (n + kOffVariant)"

definition placed_prop_kind :: "'c core_ops \<Rightarrow> u32 \<Rightarrow> ('c, u32) state" where
  "placed_prop_kind K n = r8 K (n + kOffKind)"

definition placed_prop_flags28 :: "'c core_ops \<Rightarrow> u32 \<Rightarrow> ('c, u32) state"
    where
  "placed_prop_flags28 K n = r8 K (n + kOffFlags28)"

definition placed_prop_owner :: "'c core_ops \<Rightarrow> u32 \<Rightarrow> ('c, u32) state"
    where
  "placed_prop_owner K n = r32 K (n + kOffOwner)"

definition placed_prop_room_id :: "'c core_ops \<Rightarrow> u32 \<Rightarrow> ('c, u32) state"
    where
  "placed_prop_room_id K n = r16s K (n + kOffRoomId)"

definition placed_prop_set_prop_active :: "'c core_ops \<Rightarrow> u32 \<Rightarrow> u32
    \<Rightarrow> ('c, unit) state" where
  "placed_prop_set_prop_active K n v = w8 K (n + kOffActive) v"

definition placed_prop_set_prop_visible :: "'c core_ops \<Rightarrow> u32 \<Rightarrow> u32
    \<Rightarrow> ('c, unit) state" where
  "placed_prop_set_prop_visible K n v = w8 K (n + kOffVisible) v"

definition placed_prop_set_prop_state :: "'c core_ops \<Rightarrow> u32 \<Rightarrow> u32
    \<Rightarrow> ('c, unit) state" where
  "placed_prop_set_prop_state K n v = w8 K (n + kOffState) v"

definition placed_prop_set_prop_sub :: "'c core_ops \<Rightarrow> u32 \<Rightarrow> u32
    \<Rightarrow> ('c, unit) state" where
  "placed_prop_set_prop_sub K n v = w8 K (n + kOffSub) v"

definition placed_prop_set_prop_gate :: "'c core_ops \<Rightarrow> u32 \<Rightarrow> u32
    \<Rightarrow> ('c, unit) state" where
  "placed_prop_set_prop_gate K n v = w8 K (n + kOffGate) v"

definition placed_prop_set_prop_coll_done :: "'c core_ops \<Rightarrow> u32 \<Rightarrow> u32
    \<Rightarrow> ('c, unit) state" where
  "placed_prop_set_prop_coll_done K n v = w8 K (n + kOffCollHandled) v"

definition placed_prop_set_prop_flag46 :: "'c core_ops \<Rightarrow> u32 \<Rightarrow> u32
    \<Rightarrow> ('c, unit) state" where
  "placed_prop_set_prop_flag46 K n v = w8 K (n + kOffFlag46) v"

definition placed_prop_set_prop_kind :: "'c core_ops \<Rightarrow> u32 \<Rightarrow> u32
    \<Rightarrow> ('c, unit) state" where
  "placed_prop_set_prop_kind K n v = w8 K (n + kOffKind) v"

definition placed_prop_set_prop_status :: "'c core_ops \<Rightarrow> u32 \<Rightarrow> u32
    \<Rightarrow> ('c, unit) state" where
  "placed_prop_set_prop_status K n v = w8 K (n + kOffStatus) v"

definition placed_prop_set_prop_xz_radius :: "'c core_ops \<Rightarrow> u32 \<Rightarrow> u32
    \<Rightarrow> ('c, unit) state" where
  "placed_prop_set_prop_xz_radius K n v = w16 K (n + kOffXzRadius) v"

definition placed_prop_set_prop_height :: "'c core_ops \<Rightarrow> u32 \<Rightarrow> u32
    \<Rightarrow> ('c, unit) state" where
  "placed_prop_set_prop_height K n v = w16 K (n + kOffHeight) v"

definition placed_prop_set_prop_y_band_lo :: "'c core_ops \<Rightarrow> u32 \<Rightarrow> u32
    \<Rightarrow> ('c, unit) state" where
  "placed_prop_set_prop_y_band_lo K n v = w16 K (n + kOffYBandLo) v"

definition placed_prop_set_prop_y_band_hi :: "'c core_ops \<Rightarrow> u32 \<Rightarrow> u32
    \<Rightarrow> ('c, unit) state" where
  "placed_prop_set_prop_y_band_hi K n v = w16 K (n + kOffYBandHi) v"

section \<open>\<open>game/ai/rope_swing.h\<close>\<close>

definition rope_swing_state_swing_vel_raw :: "'c core_ops \<Rightarrow> u32 \<Rightarrow> ('c,
    u32) state" where
  "rope_swing_state_swing_vel_raw K mAt = r16 K (mAt + kSwingVel)"

definition rope_swing_state_swing_vel :: "'c core_ops \<Rightarrow> u32 \<Rightarrow> ('c, u32)
    state" where
  "rope_swing_state_swing_vel K mAt = r16s K (mAt + kSwingVel)"

definition rope_swing_state_impulse :: "'c core_ops \<Rightarrow> u32 \<Rightarrow> ('c, u32)
    state" where
  "rope_swing_state_impulse K mAt = r16 K (mAt + kImpulse)"

definition rope_swing_state_angle :: "'c core_ops \<Rightarrow> u32 \<Rightarrow> ('c, u32) state"
    where
  "rope_swing_state_angle K mAt = r16s K (mAt + kAngle)"

definition rope_swing_state_angle_raw :: "'c core_ops \<Rightarrow> u32 \<Rightarrow> ('c, u32)
    state" where
  "rope_swing_state_angle_raw K mAt = r16 K (mAt + kAngle)"

definition rope_swing_state_target_angle :: "'c core_ops \<Rightarrow> u32 \<Rightarrow> ('c, u32)
    state" where
  "rope_swing_state_target_angle K mAt = r16s K (mAt + kTargetAngle)"

definition rope_swing_state_target_raw :: "'c core_ops \<Rightarrow> u32 \<Rightarrow> ('c, u32)
    state" where
  "rope_swing_state_target_raw K mAt = r16 K (mAt + kTargetAngle)"

definition rope_swing_state_rest_angle :: "'c core_ops \<Rightarrow> u32 \<Rightarrow> ('c, u32)
    state" where
  "rope_swing_state_rest_angle K mAt = r16 K (mAt + kRestAngle)"

definition rope_swing_state_bias :: "'c core_ops \<Rightarrow> u32 \<Rightarrow> ('c, u32) state"
    where
  "rope_swing_state_bias K mAt = r16 K (mAt + kBias)"

definition rope_swing_state_set_swing_vel :: "'c core_ops \<Rightarrow> u32 \<Rightarrow> u32
    \<Rightarrow> ('c, unit) state" where
  "rope_swing_state_set_swing_vel K mAt v = w16 K (mAt + kSwingVel) v"

definition rope_swing_state_set_angle :: "'c core_ops \<Rightarrow> u32 \<Rightarrow> u32
    \<Rightarrow> ('c, unit) state" where
  "rope_swing_state_set_angle K mAt v = w16 K (mAt + kAngle) v"

definition rope_swing_state_set_out_angle :: "'c core_ops \<Rightarrow> u32 \<Rightarrow> u32
    \<Rightarrow> ('c, unit) state" where
  "rope_swing_state_set_out_angle K mAt v = w16 K (mAt + kOutAngle) v"

definition rope_swing_state_set_out_second :: "'c core_ops \<Rightarrow> u32 \<Rightarrow> u32
    \<Rightarrow> ('c, unit) state" where
  "rope_swing_state_set_out_second K mAt v = w16 K (mAt + kOutSecond) v"

definition rope_node_segment_count :: "'c core_ops \<Rightarrow> u32 \<Rightarrow> ('c, u32)
    state" where
  "rope_node_segment_count K mAt = r8 K (mAt + kSegmentCount)"

definition rope_node_segment_ptr :: "'c core_ops \<Rightarrow> u32 \<Rightarrow> u32 \<Rightarrow>
    ('c, u32) state" where
  "rope_node_segment_ptr K mAt i = r32 K (mAt + kSegmentTable + i * 4)"

definition rope_segment_set_bend_z :: "'c core_ops \<Rightarrow> u32 \<Rightarrow> u32
    \<Rightarrow> ('c, unit) state" where
  "rope_segment_set_bend_z K mAt v = w16 K (mAt + kSegmentBendZ) v"

section \<open>\<open>game/ai/sway_schedule.h\<close>\<close>

definition sway_node_variant :: "'c core_ops \<Rightarrow> u32 \<Rightarrow> ('c, u32) state"
    where
  "sway_node_variant K mAt = r8 K (mAt + kVariant)"

definition sway_node_phase :: "'c core_ops \<Rightarrow> u32 \<Rightarrow> ('c, u32) state" where
  "sway_node_phase K mAt = r8 K (mAt + sway_schedule_kPhase)"

definition sway_node_rate :: "'c core_ops \<Rightarrow> u32 \<Rightarrow> ('c, u32) state" where
  "sway_node_rate K mAt = do {
     v1 \<leftarrow> r16 K (mAt + kRate);
     State_Monad.return (as_s16 v1)
   }"

definition sway_node_rate_u :: "'c core_ops \<Rightarrow> u32 \<Rightarrow> ('c, u32) state" where
  "sway_node_rate_u K mAt = r16 K (mAt + kRate)"

definition sway_node_set_phase :: "'c core_ops \<Rightarrow> u32 \<Rightarrow> u32 \<Rightarrow>
    ('c, unit) state" where
  "sway_node_set_phase K mAt v = w8 K (mAt + sway_schedule_kPhase) v"

definition sway_node_set_rate :: "'c core_ops \<Rightarrow> u32 \<Rightarrow> u32 \<Rightarrow>
    ('c, unit) state" where
  "sway_node_set_rate K mAt v = w16 K (mAt + kRate) v"

definition area_sequence_event_step :: "'c core_ops \<Rightarrow> ('c, u32) state" where
  "area_sequence_event_step K = r8 K kEventStep"

definition area_sequence_is_finished :: "'c core_ops \<Rightarrow> ('c, bool) state" where
  "area_sequence_is_finished K = do {
     v1 \<leftarrow> r8 K kFinishedFlag;
     State_Monad.return (v1 = kFinishedSentinel)
   }"

section \<open>\<open>game/ai/tilt_follower.h\<close>\<close>

definition tilt_follower_node_owner :: "'c core_ops \<Rightarrow> u32 \<Rightarrow> ('c, u32)
    state" where
  "tilt_follower_node_owner K mAt = r32 K (mAt + kOwner)"

definition tilt_follower_node_contact_state :: "'c core_ops \<Rightarrow> u32 \<Rightarrow> ('c,
    u32) state" where
  "tilt_follower_node_contact_state K mAt = r8 K (mAt + tilt_follower_kContactState)"

definition tilt_follower_node_set_pitch :: "'c core_ops \<Rightarrow> u32 \<Rightarrow> u32
    \<Rightarrow> ('c, unit) state" where
  "tilt_follower_node_set_pitch K mAt v = w16 K (mAt + kRotX) v"

definition tilt_source_part_child_euler_x :: "'c core_ops \<Rightarrow> u32 \<Rightarrow> ('c,
    u32) state" where
  "tilt_source_part_child_euler_x K mAt = r16s K (mAt + kChildEulerX)"

section \<open>\<open>game/audio/sequencer_record.h\<close>\<close>

definition sext16 :: "'c core_ops \<Rightarrow> u32 \<Rightarrow> ('c, u32) state" where
  "sext16 K v = State_Monad.return (as_s16 (as_u16 v))"

definition ch_stride :: "'c core_ops \<Rightarrow> u32 \<Rightarrow> ('c, u32) state" where
  "ch_stride K chan = State_Monad.return (shl (chan * 11) 4)"

definition seq_ptr_slot :: "'c core_ops \<Rightarrow> u32 \<Rightarrow> ('c, u32) state" where
  "seq_ptr_slot K seqRaw = do {
     v1 \<leftarrow> sext16 K seqRaw;
     State_Monad.return (kSeqPtrArray + shl v1 2)
   }"

definition channel_record_flags :: "'c core_ops \<Rightarrow> u32 \<Rightarrow> ('c, u32) state"
    where
  "channel_record_flags K base1 = r32 K (base1 + kFlags)"

definition channel_record_set_flags :: "'c core_ops \<Rightarrow> u32 \<Rightarrow> u32
    \<Rightarrow> ('c, unit) state" where
  "channel_record_set_flags K base1 v = w32 K (base1 + kFlags) v"

definition channel_record_clear_flag_bits :: "'c core_ops \<Rightarrow> u32 \<Rightarrow> u32
    \<Rightarrow> ('c, unit) state" where
  "channel_record_clear_flag_bits K base1 mask1 = do {
     v1 \<leftarrow> channel_record_flags K base1;
     channel_record_set_flags K base1 (v1 AND (NOT mask1))
   }"

definition channel_record_set_busy :: "'c core_ops \<Rightarrow> u32 \<Rightarrow> u32
    \<Rightarrow> ('c, unit) state" where
  "channel_record_set_busy K base1 v = w8 K (base1 + 20) v"

definition channel_record_vol_l :: "'c core_ops \<Rightarrow> u32 \<Rightarrow> ('c, u32) state"
    where
  "channel_record_vol_l K base1 = r16 K (base1 + 88)"

definition channel_record_vol_r :: "'c core_ops \<Rightarrow> u32 \<Rightarrow> ('c, u32) state"
    where
  "channel_record_vol_r K base1 = r16 K (base1 + 90)"

definition channel_record_snapshot_target_l_ptr :: "'c core_ops \<Rightarrow> u32 \<Rightarrow>
    ('c, u32) state" where
  "channel_record_snapshot_target_l_ptr K base1 = State_Monad.return (base1 + 92)"

definition channel_record_snapshot_target_r_ptr :: "'c core_ops \<Rightarrow> u32 \<Rightarrow>
    ('c, u32) state" where
  "channel_record_snapshot_target_r_ptr K base1 = State_Monad.return (base1 + 94)"

section \<open>\<open>game/camera/camera_state.h\<close>\<close>

definition camera_state_r8 :: "'c core_ops \<Rightarrow> u32 \<Rightarrow> u32 \<Rightarrow> ('c,
    u32) state" where
  "camera_state_r8 K cam a = r8 K a"

definition camera_state_r16 :: "'c core_ops \<Rightarrow> u32 \<Rightarrow> u32 \<Rightarrow> ('c,
    u32) state" where
  "camera_state_r16 K cam a = r16 K a"

definition camera_state_r32 :: "'c core_ops \<Rightarrow> u32 \<Rightarrow> u32 \<Rightarrow> ('c,
    u32) state" where
  "camera_state_r32 K cam a = r32 K a"

definition camera_state_w16 :: "'c core_ops \<Rightarrow> u32 \<Rightarrow> u32 \<Rightarrow> u32
    \<Rightarrow> ('c, unit) state" where
  "camera_state_w16 K cam a v = w16 K a v"

definition camera_state_w32 :: "'c core_ops \<Rightarrow> u32 \<Rightarrow> u32 \<Rightarrow> u32
    \<Rightarrow> ('c, unit) state" where
  "camera_state_w32 K cam a v = w32 K a v"

definition camera_state_cam_r8 :: "'c core_ops \<Rightarrow> u32 \<Rightarrow> u32 \<Rightarrow>
    ('c, u32) state" where
  "camera_state_cam_r8 K cam off = r8 K (cam + off)"

definition camera_state_cam_r16 :: "'c core_ops \<Rightarrow> u32 \<Rightarrow> u32 \<Rightarrow>
    ('c, u32) state" where
  "camera_state_cam_r16 K cam off = r16 K (cam + off)"

definition camera_state_cam_r32 :: "'c core_ops \<Rightarrow> u32 \<Rightarrow> u32 \<Rightarrow>
    ('c, u32) state" where
  "camera_state_cam_r32 K cam off = r32 K (cam + off)"

definition camera_state_cam_w8 :: "'c core_ops \<Rightarrow> u32 \<Rightarrow> u32 \<Rightarrow>
    u32 \<Rightarrow> ('c, unit) state" where
  "camera_state_cam_w8 K cam off v = w8 K (cam + off) v"

definition camera_state_cam_w16 :: "'c core_ops \<Rightarrow> u32 \<Rightarrow> u32 \<Rightarrow>
    u32 \<Rightarrow> ('c, unit) state" where
  "camera_state_cam_w16 K cam off v = w16 K (cam + off) v"

definition camera_state_cam_w32 :: "'c core_ops \<Rightarrow> u32 \<Rightarrow> u32 \<Rightarrow>
    u32 \<Rightarrow> ('c, unit) state" where
  "camera_state_cam_w32 K cam off v = w32 K (cam + off) v"

section \<open>\<open>game/camera/cutscene_camera.h\<close>\<close>

definition cutscene_camera_sub :: "'c core_ops \<Rightarrow> u32 \<Rightarrow> u32 \<Rightarrow>
    ('c, unit) state" where
  "cutscene_camera_sub K cam fn = do {
     setr K 4 cam;
     call_guest K fn
   }"

section \<open>\<open>game/core/engine/task_sm.h\<close>\<close>

definition task_sm_set_top :: "'c core_ops \<Rightarrow> u32 \<Rightarrow> u32 \<Rightarrow> ('c,
    unit) state" where
  "task_sm_set_top K base1 v = w16 K (base1 + 0x48) v"

definition task_sm_set_sub_mode :: "'c core_ops \<Rightarrow> u32 \<Rightarrow> u32 \<Rightarrow>
    ('c, unit) state" where
  "task_sm_set_sub_mode K base1 v = w16 K (base1 + 0x4A) v"

definition task_sm_set_stage4c :: "'c core_ops \<Rightarrow> u32 \<Rightarrow> u32 \<Rightarrow>
    ('c, unit) state" where
  "task_sm_set_stage4c K base1 v = w16 K (base1 + 0x4C) v"

definition task_sm_set_f69 :: "'c core_ops \<Rightarrow> u32 \<Rightarrow> u32 \<Rightarrow> ('c,
    unit) state" where
  "task_sm_set_f69 K base1 v = w8 K (base1 + 0x69) v"

section \<open>\<open>game/core/sched/task_slot_layout.h\<close>\<close>

definition task_slot_base :: "'c core_ops \<Rightarrow> u32 \<Rightarrow> ('c, u32) state" where
  "task_slot_base K slot1 = State_Monad.return (kTaskTableBase + slot1 * kTaskSlotStride)"

section \<open>\<open>game/math/rng.cpp\<close>\<close>

definition in_range :: "'c core_ops \<Rightarrow> u32 \<Rightarrow> u32 \<Rightarrow> ('c, u32)
    state" where
  "in_range K lo hi = do {
     r \<leftarrow> rng_next K;
     let span1 = hi - lo;
     let prod1 = (ucast ((scast r :: 64 word) * (scast span1 :: 64 word)) :: u32);
     State_Monad.return (sar 15 prod1 + lo)
   }"

section \<open>\<open>game/object/actor.h\<close>\<close>

definition actor_addr :: "'c core_ops \<Rightarrow> u32 \<Rightarrow> ('c, u32) state" where
  "actor_addr K obj = State_Monad.return obj"

definition actor_state :: "'c core_ops \<Rightarrow> u32 \<Rightarrow> ('c, u32) state" where
  "actor_state K obj = r8 K (obj + 0x04)"

definition actor_set_state :: "'c core_ops \<Rightarrow> u32 \<Rightarrow> u32 \<Rightarrow> ('c,
    unit) state" where
  "actor_set_state K obj v = w8 K (obj + 0x04) v"

definition actor_alive :: "'c core_ops \<Rightarrow> u32 \<Rightarrow> ('c, u32) state" where
  "actor_alive K obj = r8 K (obj + 0x00)"

definition actor_set_alive :: "'c core_ops \<Rightarrow> u32 \<Rightarrow> u32 \<Rightarrow> ('c,
    unit) state" where
  "actor_set_alive K obj v = w8 K (obj + 0x00) v"

definition actor_set_render_mode :: "'c core_ops \<Rightarrow> u32 \<Rightarrow> u32 \<Rightarrow>
    ('c, unit) state" where
  "actor_set_render_mode K obj v = w8 K (obj + 0x01) v"

definition actor_type :: "'c core_ops \<Rightarrow> u32 \<Rightarrow> ('c, u32) state" where
  "actor_type K obj = r8 K (obj + 0x03)"

definition actor_counter_a :: "'c core_ops \<Rightarrow> u32 \<Rightarrow> ('c, u32) state" where
  "actor_counter_a K obj = r8 K (obj + 0x29)"

definition actor_set_counter_a :: "'c core_ops \<Rightarrow> u32 \<Rightarrow> u32 \<Rightarrow>
    ('c, unit) state" where
  "actor_set_counter_a K obj v = w8 K (obj + 0x29) v"

definition actor_set_scene_mode :: "'c core_ops \<Rightarrow> u32 \<Rightarrow> u32 \<Rightarrow>
    ('c, unit) state" where
  "actor_set_scene_mode K obj v = w8 K (obj + 0x2A) v"

definition actor_trigger_sub :: "'c core_ops \<Rightarrow> u32 \<Rightarrow> ('c, u32) state"
    where
  "actor_trigger_sub K obj = r8 K (obj + 0x05)"

definition actor_set_trigger_sub :: "'c core_ops \<Rightarrow> u32 \<Rightarrow> u32 \<Rightarrow>
    ('c, unit) state" where
  "actor_set_trigger_sub K obj v = w8 K (obj + 0x05) v"

definition actor_sub_state :: "'c core_ops \<Rightarrow> u32 \<Rightarrow> ('c, u32) state" where
  "actor_sub_state K obj = r8 K (obj + 0x06)"

definition actor_set_sub_state :: "'c core_ops \<Rightarrow> u32 \<Rightarrow> u32 \<Rightarrow>
    ('c, unit) state" where
  "actor_set_sub_state K obj v = w8 K (obj + 0x06) v"

definition actor_interact_state :: "'c core_ops \<Rightarrow> u32 \<Rightarrow> ('c, u32) state"
    where
  "actor_interact_state K obj = r8 K (obj + 0x2B)"

definition actor_set_interact_state :: "'c core_ops \<Rightarrow> u32 \<Rightarrow> u32
    \<Rightarrow> ('c, unit) state" where
  "actor_set_interact_state K obj v = w8 K (obj + 0x2B) v"

definition actor_retry_delay :: "'c core_ops \<Rightarrow> u32 \<Rightarrow> ('c, u32) state"
    where
  "actor_retry_delay K obj = r8 K (obj + 0x46)"

definition actor_set_retry_delay :: "'c core_ops \<Rightarrow> u32 \<Rightarrow> u32 \<Rightarrow>
    ('c, unit) state" where
  "actor_set_retry_delay K obj v = w8 K (obj + 0x46) v"

definition actor_set_counter_b :: "'c core_ops \<Rightarrow> u32 \<Rightarrow> u32 \<Rightarrow>
    ('c, unit) state" where
  "actor_set_counter_b K obj v = w8 K (obj + 0x46) v"

definition actor_target_delta :: "'c core_ops \<Rightarrow> u32 \<Rightarrow> ('c, u32) state"
    where
  "actor_target_delta K obj = do {
     v1 \<leftarrow> r16 K (obj + 0x44);
     State_Monad.return (as_s16 v1)
   }"

definition actor_set_target_delta :: "'c core_ops \<Rightarrow> u32 \<Rightarrow> u32
    \<Rightarrow> ('c, unit) state" where
  "actor_set_target_delta K obj v = w16 K (obj + 0x44) v"

definition actor_render_rec :: "'c core_ops \<Rightarrow> u32 \<Rightarrow> ('c, u32) state" where
  "actor_render_rec K obj = r32 K (obj + 0xC0)"

definition actor_osc_phase :: "'c core_ops \<Rightarrow> u32 \<Rightarrow> ('c, u32) state" where
  "actor_osc_phase K obj = do {
     v1 \<leftarrow> r16 K (obj + 0x42);
     State_Monad.return (as_s16 v1)
   }"

definition actor_osc_phase_u :: "'c core_ops \<Rightarrow> u32 \<Rightarrow> ('c, u32) state"
    where
  "actor_osc_phase_u K obj = r16 K (obj + 0x42)"

definition actor_set_osc_phase :: "'c core_ops \<Rightarrow> u32 \<Rightarrow> u32 \<Rightarrow>
    ('c, unit) state" where
  "actor_set_osc_phase K obj v = w16 K (obj + 0x42) v"

definition actor_pos_x :: "'c core_ops \<Rightarrow> u32 \<Rightarrow> ('c, u32) state" where
  "actor_pos_x K obj = do {
     v1 \<leftarrow> r16 K (obj + 0x2E);
     State_Monad.return (as_s16 v1)
   }"

definition actor_pos_y :: "'c core_ops \<Rightarrow> u32 \<Rightarrow> ('c, u32) state" where
  "actor_pos_y K obj = do {
     v1 \<leftarrow> r16 K (obj + 0x32);
     State_Monad.return (as_s16 v1)
   }"

definition actor_pos_z :: "'c core_ops \<Rightarrow> u32 \<Rightarrow> ('c, u32) state" where
  "actor_pos_z K obj = do {
     v1 \<leftarrow> r16 K (obj + 0x36);
     State_Monad.return (as_s16 v1)
   }"

definition actor_pos_x_fixed :: "'c core_ops \<Rightarrow> u32 \<Rightarrow> ('c, u32) state"
    where
  "actor_pos_x_fixed K obj = r32 K (obj + 0x2C)"

definition actor_pos_y_fixed :: "'c core_ops \<Rightarrow> u32 \<Rightarrow> ('c, u32) state"
    where
  "actor_pos_y_fixed K obj = r32 K (obj + 0x30)"

definition actor_pos_z_fixed :: "'c core_ops \<Rightarrow> u32 \<Rightarrow> ('c, u32) state"
    where
  "actor_pos_z_fixed K obj = r32 K (obj + 0x34)"

definition actor_set_pos_x_fixed :: "'c core_ops \<Rightarrow> u32 \<Rightarrow> u32 \<Rightarrow>
    ('c, unit) state" where
  "actor_set_pos_x_fixed K obj v = w32 K (obj + 0x2C) v"

definition actor_set_pos_y_fixed :: "'c core_ops \<Rightarrow> u32 \<Rightarrow> u32 \<Rightarrow>
    ('c, unit) state" where
  "actor_set_pos_y_fixed K obj v = w32 K (obj + 0x30) v"

definition actor_set_pos_z_fixed :: "'c core_ops \<Rightarrow> u32 \<Rightarrow> u32 \<Rightarrow>
    ('c, unit) state" where
  "actor_set_pos_z_fixed K obj v = w32 K (obj + 0x34) v"

definition actor_vel_x :: "'c core_ops \<Rightarrow> u32 \<Rightarrow> ('c, u32) state" where
  "actor_vel_x K obj = do {
     v1 \<leftarrow> r16 K (obj + 0x48);
     State_Monad.return (as_s16 v1)
   }"

definition actor_vel_y :: "'c core_ops \<Rightarrow> u32 \<Rightarrow> ('c, u32) state" where
  "actor_vel_y K obj = do {
     v1 \<leftarrow> r16 K (obj + 0x4A);
     State_Monad.return (as_s16 v1)
   }"

definition actor_vel_z :: "'c core_ops \<Rightarrow> u32 \<Rightarrow> ('c, u32) state" where
  "actor_vel_z K obj = do {
     v1 \<leftarrow> r16 K (obj + 0x4C);
     State_Monad.return (as_s16 v1)
   }"

definition actor_set_vel_x :: "'c core_ops \<Rightarrow> u32 \<Rightarrow> u32 \<Rightarrow> ('c,
    unit) state" where
  "actor_set_vel_x K obj v = w16 K (obj + 0x48) v"

definition actor_set_vel_y :: "'c core_ops \<Rightarrow> u32 \<Rightarrow> u32 \<Rightarrow> ('c,
    unit) state" where
  "actor_set_vel_y K obj v = w16 K (obj + 0x4A) v"

definition actor_accel_y :: "'c core_ops \<Rightarrow> u32 \<Rightarrow> ('c, u32) state" where
  "actor_accel_y K obj = do {
     v1 \<leftarrow> r16 K (obj + 0x50);
     State_Monad.return (as_s16 v1)
   }"

definition actor_set_accel_y :: "'c core_ops \<Rightarrow> u32 \<Rightarrow> u32 \<Rightarrow>
    ('c, unit) state" where
  "actor_set_accel_y K obj v = w16 K (obj + 0x50) v"

definition actor_pos_x_u :: "'c core_ops \<Rightarrow> u32 \<Rightarrow> ('c, u32) state" where
  "actor_pos_x_u K obj = r16 K (obj + 0x2E)"

definition actor_pos_y_u :: "'c core_ops \<Rightarrow> u32 \<Rightarrow> ('c, u32) state" where
  "actor_pos_y_u K obj = r16 K (obj + 0x32)"

definition actor_pos_z_u :: "'c core_ops \<Rightarrow> u32 \<Rightarrow> ('c, u32) state" where
  "actor_pos_z_u K obj = r16 K (obj + 0x36)"

definition actor_set_pos_x :: "'c core_ops \<Rightarrow> u32 \<Rightarrow> u32 \<Rightarrow> ('c,
    unit) state" where
  "actor_set_pos_x K obj v = w16 K (obj + 0x2E) v"

definition actor_set_pos_y :: "'c core_ops \<Rightarrow> u32 \<Rightarrow> u32 \<Rightarrow> ('c,
    unit) state" where
  "actor_set_pos_y K obj v = w16 K (obj + 0x32) v"

definition actor_bounds_cull :: "'c core_ops \<Rightarrow> u32 \<Rightarrow> ('c, u32) state"
    where
  "actor_bounds_cull K obj = do {
     v1 \<leftarrow> actor_pos_x_u K obj;
     v2 \<leftarrow> r16 K 0x1F8000D2;
     let dx = as_s16 (v1 - v2);
     v3 \<leftarrow> actor_pos_y_u K obj;
     v4 \<leftarrow> r16 K 0x1F8000D6;
     let dy = as_s16 (v3 - v4);
     v5 \<leftarrow> actor_pos_z_u K obj;
     v6 \<leftarrow> r16 K 0x1F8000DA;
     let dz = as_s16 (v5 - v6);
     w32 K 0x1F800080 0;
     w32 K 0x1F800084 0;
     setr K 4 obj;
     setr K 5 dx;
     setr K 6 dy;
     setr K 7 dz;
     perform_base_cull K;
     reg K 2
   }"

definition actor_bounds_cull_y_offset :: "'c core_ops \<Rightarrow> u32 \<Rightarrow> u32
    \<Rightarrow> ('c, u32) state" where
  "actor_bounds_cull_y_offset K obj yOffset = do {
     v1 \<leftarrow> actor_pos_x_u K obj;
     v2 \<leftarrow> r16 K 0x1F8000D2;
     let dx = as_s16 (v1 - v2);
     v3 \<leftarrow> actor_pos_y_u K obj;
     v4 \<leftarrow> r16 K 0x1F8000D6;
     let dy = as_s16 (as_u16 (v3 + as_u16 yOffset) - v4);
     v5 \<leftarrow> actor_pos_z_u K obj;
     v6 \<leftarrow> r16 K 0x1F8000DA;
     let dz = as_s16 (v5 - v6);
     w32 K 0x1F800080 0;
     w32 K 0x1F800084 0;
     setr K 4 obj;
     setr K 5 dx;
     setr K 6 dy;
     setr K 7 dz;
     perform_base_cull K;
     reg K 2
   }"

definition actor_rot_y :: "'c core_ops \<Rightarrow> u32 \<Rightarrow> ('c, u32) state" where
  "actor_rot_y K obj = do {
     v1 \<leftarrow> r16 K (obj + 0x56);
     State_Monad.return (as_s16 v1)
   }"

definition actor_rot_y_u :: "'c core_ops \<Rightarrow> u32 \<Rightarrow> ('c, u32) state" where
  "actor_rot_y_u K obj = r16 K (obj + 0x56)"

definition actor_rot_z :: "'c core_ops \<Rightarrow> u32 \<Rightarrow> ('c, u32) state" where
  "actor_rot_z K obj = do {
     v1 \<leftarrow> r16 K (obj + 0x58);
     State_Monad.return (as_s16 v1)
   }"

definition actor_set_rot_x :: "'c core_ops \<Rightarrow> u32 \<Rightarrow> u32 \<Rightarrow> ('c,
    unit) state" where
  "actor_set_rot_x K obj v = w16 K (obj + 0x54) v"

definition actor_set_rot_y :: "'c core_ops \<Rightarrow> u32 \<Rightarrow> u32 \<Rightarrow> ('c,
    unit) state" where
  "actor_set_rot_y K obj v = w16 K (obj + 0x56) v"

definition actor_set_rot_z :: "'c core_ops \<Rightarrow> u32 \<Rightarrow> u32 \<Rightarrow> ('c,
    unit) state" where
  "actor_set_rot_z K obj v = w16 K (obj + 0x58) v"

definition actor_scene_handle :: "'c core_ops \<Rightarrow> u32 \<Rightarrow> ('c, u32) state"
    where
  "actor_scene_handle K obj = r32 K (obj + 0x14)"

definition actor_set_scene_handle :: "'c core_ops \<Rightarrow> u32 \<Rightarrow> u32
    \<Rightarrow> ('c, unit) state" where
  "actor_set_scene_handle K obj v = w32 K (obj + 0x14) v"

definition actor_trigger_param :: "'c core_ops \<Rightarrow> u32 \<Rightarrow> ('c, u32) state"
    where
  "actor_trigger_param K obj = do {
     v1 \<leftarrow> r16 K (obj + 0x60);
     State_Monad.return (as_s16 v1)
   }"

definition actor_set_trigger_param :: "'c core_ops \<Rightarrow> u32 \<Rightarrow> u32
    \<Rightarrow> ('c, unit) state" where
  "actor_set_trigger_param K obj v = w16 K (obj + 0x60) v"

definition actor_state_echo :: "'c core_ops \<Rightarrow> u32 \<Rightarrow> ('c, u32) state" where
  "actor_state_echo K obj = do {
     v1 \<leftarrow> r16 K (obj + 0x62);
     State_Monad.return (as_s16 v1)
   }"

definition actor_state_echo_u :: "'c core_ops \<Rightarrow> u32 \<Rightarrow> ('c, u32) state"
    where
  "actor_state_echo_u K obj = r16 K (obj + 0x62)"

definition actor_set_state_echo :: "'c core_ops \<Rightarrow> u32 \<Rightarrow> u32 \<Rightarrow>
    ('c, unit) state" where
  "actor_set_state_echo K obj v = w16 K (obj + 0x62) v"

definition actor_set_box_x :: "'c core_ops \<Rightarrow> u32 \<Rightarrow> u32 \<Rightarrow> ('c,
    unit) state" where
  "actor_set_box_x K obj v = w16 K (obj + 0x80) v"

definition actor_set_box_y :: "'c core_ops \<Rightarrow> u32 \<Rightarrow> u32 \<Rightarrow> ('c,
    unit) state" where
  "actor_set_box_y K obj v = w16 K (obj + 0x82) v"

definition actor_set_box_z :: "'c core_ops \<Rightarrow> u32 \<Rightarrow> u32 \<Rightarrow> ('c,
    unit) state" where
  "actor_set_box_z K obj v = w16 K (obj + 0x84) v"

definition actor_set_box_w :: "'c core_ops \<Rightarrow> u32 \<Rightarrow> u32 \<Rightarrow> ('c,
    unit) state" where
  "actor_set_box_w K obj v = w16 K (obj + 0x86) v"

definition scene_phase :: "'c core_ops \<Rightarrow> ('c, u32) state" where
  "scene_phase K = r8 K 0x800E7EAA"

definition osc_base_table :: "'c core_ops \<Rightarrow> u32 \<Rightarrow> ('c, u32) state" where
  "osc_base_table K ty = r16 K (0x8014A6E4 + ty * 2)"

section \<open>\<open>game/player/actor_targeting.h\<close>\<close>

definition targeting_body_type_byte :: "'c core_ops \<Rightarrow> u32 \<Rightarrow> ('c, u32)
    state" where
  "targeting_body_type_byte K mAt = r8 K (mAt + kTypeByte)"

definition targeting_body_guard_byte :: "'c core_ops \<Rightarrow> u32 \<Rightarrow> ('c, u32)
    state" where
  "targeting_body_guard_byte K mAt = r8 K (mAt + kGuardByte)"

definition targeting_body_walk_state :: "'c core_ops \<Rightarrow> u32 \<Rightarrow> ('c, u32)
    state" where
  "targeting_body_walk_state K mAt = r8 K (mAt + actor_targeting_kWalkState)"

definition targeting_body_pos_x :: "'c core_ops \<Rightarrow> u32 \<Rightarrow> ('c, u32) state"
    where
  "targeting_body_pos_x K mAt = r16 K (mAt + kPosX)"

definition targeting_body_pos_y :: "'c core_ops \<Rightarrow> u32 \<Rightarrow> ('c, u32) state"
    where
  "targeting_body_pos_y K mAt = r16 K (mAt + kPosY)"

definition targeting_body_pos_z :: "'c core_ops \<Rightarrow> u32 \<Rightarrow> ('c, u32) state"
    where
  "targeting_body_pos_z K mAt = r16 K (mAt + kPosZ)"

definition targeting_body_heading :: "'c core_ops \<Rightarrow> u32 \<Rightarrow> ('c, u32) state"
    where
  "targeting_body_heading K mAt = r16 K (mAt + kHeading)"

definition targeting_body_height_off :: "'c core_ops \<Rightarrow> u32 \<Rightarrow> ('c, u32)
    state" where
  "targeting_body_height_off K mAt = r16 K (mAt + kHeightOff)"

definition targeting_body_reach :: "'c core_ops \<Rightarrow> u32 \<Rightarrow> ('c, u32) state"
    where
  "targeting_body_reach K mAt = r16s K (mAt + kReach)"

definition targeting_body_band_y :: "'c core_ops \<Rightarrow> u32 \<Rightarrow> ('c, u32) state"
    where
  "targeting_body_band_y K mAt = r16s K (mAt + kBandY)"

definition targeting_body_set_contact :: "'c core_ops \<Rightarrow> u32 \<Rightarrow> u32
    \<Rightarrow> ('c, unit) state" where
  "targeting_body_set_contact K mAt v = w8 K (mAt + kContact) v"

section \<open>\<open>game/player/tomba_state.h\<close>\<close>

definition mark_item_consumed :: "'c core_ops \<Rightarrow> u32 \<Rightarrow> ('c, unit) state"
    where
  "mark_item_consumed K item = do {
     w8 K (item + 0) 2;
     w8 K (item + 4) 2;
     w8 K (item + 5) 0;
     w8 K (item + 6) 0
   }"

definition tomba_state_outer_state :: "'c core_ops \<Rightarrow> u32 \<Rightarrow> ('c, u32)
    state" where
  "tomba_state_outer_state K base1 = r8 K (base1 + 0x4)"

definition tomba_state_set_outer_state :: "'c core_ops \<Rightarrow> u32 \<Rightarrow> u32
    \<Rightarrow> ('c, unit) state" where
  "tomba_state_set_outer_state K base1 v = w8 K (base1 + 0x4) v"

definition tomba_state_load_step :: "'c core_ops \<Rightarrow> u32 \<Rightarrow> ('c, u32) state"
    where
  "tomba_state_load_step K base1 = r8 K (base1 + 0x5)"

definition tomba_state_set_load_step :: "'c core_ops \<Rightarrow> u32 \<Rightarrow> u32
    \<Rightarrow> ('c, unit) state" where
  "tomba_state_set_load_step K base1 v = w8 K (base1 + 0x5) v"

definition tomba_state_set_load_sub :: "'c core_ops \<Rightarrow> u32 \<Rightarrow> u32
    \<Rightarrow> ('c, unit) state" where
  "tomba_state_set_load_sub K base1 v = w8 K (base1 + 0x6) v"

definition tomba_state_set_load_sub2 :: "'c core_ops \<Rightarrow> u32 \<Rightarrow> u32
    \<Rightarrow> ('c, unit) state" where
  "tomba_state_set_load_sub2 K base1 v = w8 K (base1 + 0x7) v"

definition tomba_state_status_flags :: "'c core_ops \<Rightarrow> u32 \<Rightarrow> ('c, u32)
    state" where
  "tomba_state_status_flags K base1 = r8 K (base1 + 0x0)"

definition tomba_state_set_status_flags :: "'c core_ops \<Rightarrow> u32 \<Rightarrow> u32
    \<Rightarrow> ('c, unit) state" where
  "tomba_state_set_status_flags K base1 v = w8 K (base1 + 0x0) v"

definition tomba_state_latch_flags :: "'c core_ops \<Rightarrow> u32 \<Rightarrow> ('c, u32)
    state" where
  "tomba_state_latch_flags K base1 = r8 K (base1 + 0xD)"

definition tomba_state_set_latch_flags :: "'c core_ops \<Rightarrow> u32 \<Rightarrow> u32
    \<Rightarrow> ('c, unit) state" where
  "tomba_state_set_latch_flags K base1 v = w8 K (base1 + 0xD) v"

definition tomba_state_set_stop_motion_aux :: "'c core_ops \<Rightarrow> u32 \<Rightarrow> u32
    \<Rightarrow> ('c, unit) state" where
  "tomba_state_set_stop_motion_aux K base1 v = w8 K (base1 + 0x61) v"

definition tomba_state_facing :: "'c core_ops \<Rightarrow> u32 \<Rightarrow> ('c, u32) state"
    where
  "tomba_state_facing K base1 = do {
     v1 \<leftarrow> r16 K (base1 + 0x140);
     State_Monad.return (as_s16 v1)
   }"

definition tomba_state_turn_suppress_gate :: "'c core_ops \<Rightarrow> u32 \<Rightarrow> ('c,
    u32) state" where
  "tomba_state_turn_suppress_gate K base1 = r8 K (base1 + 0x146)"

definition tomba_state_set_turn_suppress_gate :: "'c core_ops \<Rightarrow> u32 \<Rightarrow> u32
    \<Rightarrow> ('c, unit) state" where
  "tomba_state_set_turn_suppress_gate K base1 v = w8 K (base1 + 0x146) v"

definition tomba_state_transition_slot :: "'c core_ops \<Rightarrow> u32 \<Rightarrow> ('c, u32)
    state" where
  "tomba_state_transition_slot K base1 = r8 K (base1 + 0x164)"

definition tomba_state_set_extra_clear :: "'c core_ops \<Rightarrow> u32 \<Rightarrow> u32
    \<Rightarrow> ('c, unit) state" where
  "tomba_state_set_extra_clear K base1 v = w8 K (base1 + 0x16A) v"

definition tomba_state_turn_current :: "'c core_ops \<Rightarrow> u32 \<Rightarrow> ('c, u32)
    state" where
  "tomba_state_turn_current K base1 = do {
     v1 \<leftarrow> r16 K (base1 + 0x16E);
     State_Monad.return (as_s16 v1)
   }"

definition tomba_state_set_turn_current :: "'c core_ops \<Rightarrow> u32 \<Rightarrow> u32
    \<Rightarrow> ('c, unit) state" where
  "tomba_state_set_turn_current K base1 v = w16 K (base1 + 0x16E) v"

definition tomba_state_turn_target :: "'c core_ops \<Rightarrow> u32 \<Rightarrow> ('c, u32)
    state" where
  "tomba_state_turn_target K base1 = do {
     v1 \<leftarrow> r16 K (base1 + 0x170);
     State_Monad.return (as_s16 v1)
   }"

definition tomba_state_set_turn_target :: "'c core_ops \<Rightarrow> u32 \<Rightarrow> u32
    \<Rightarrow> ('c, unit) state" where
  "tomba_state_set_turn_target K base1 v = w16 K (base1 + 0x170) v"

definition tomba_state_settle_counter :: "'c core_ops \<Rightarrow> u32 \<Rightarrow> ('c, u32)
    state" where
  "tomba_state_settle_counter K base1 = do {
     v1 \<leftarrow> r16 K (base1 + 0x172);
     State_Monad.return (as_s16 v1)
   }"

definition tomba_state_set_settle_counter :: "'c core_ops \<Rightarrow> u32 \<Rightarrow> u32
    \<Rightarrow> ('c, unit) state" where
  "tomba_state_set_settle_counter K base1 v = w16 K (base1 + 0x172) v"

definition tomba_state_set_committing :: "'c core_ops \<Rightarrow> u32 \<Rightarrow> u32
    \<Rightarrow> ('c, unit) state" where
  "tomba_state_set_committing K base1 v = w8 K (base1 + 0x17B) v"

definition tomba_state_pos_addr :: "'c core_ops \<Rightarrow> u32 \<Rightarrow> ('c, u32) state"
    where
  "tomba_state_pos_addr K base1 = State_Monad.return (base1 + 0x2C)"

definition tomba_state_pos_x :: "'c core_ops \<Rightarrow> u32 \<Rightarrow> ('c, u32) state"
    where
  "tomba_state_pos_x K base1 = do {
     v1 \<leftarrow> r16 K (base1 + 0x2E);
     State_Monad.return (as_s16 v1)
   }"

definition tomba_state_set_pos_x :: "'c core_ops \<Rightarrow> u32 \<Rightarrow> u32 \<Rightarrow>
    ('c, unit) state" where
  "tomba_state_set_pos_x K base1 v = w16 K (base1 + 0x2E) v"

definition tomba_state_pos_y :: "'c core_ops \<Rightarrow> u32 \<Rightarrow> ('c, u32) state"
    where
  "tomba_state_pos_y K base1 = do {
     v1 \<leftarrow> r16 K (base1 + 0x32);
     State_Monad.return (as_s16 v1)
   }"

definition tomba_state_set_pos_y :: "'c core_ops \<Rightarrow> u32 \<Rightarrow> u32 \<Rightarrow>
    ('c, unit) state" where
  "tomba_state_set_pos_y K base1 v = w16 K (base1 + 0x32) v"

definition tomba_state_pos_z :: "'c core_ops \<Rightarrow> u32 \<Rightarrow> ('c, u32) state"
    where
  "tomba_state_pos_z K base1 = do {
     v1 \<leftarrow> r16 K (base1 + 0x36);
     State_Monad.return (as_s16 v1)
   }"

definition tomba_state_set_pos_z :: "'c core_ops \<Rightarrow> u32 \<Rightarrow> u32 \<Rightarrow>
    ('c, unit) state" where
  "tomba_state_set_pos_z K base1 v = w16 K (base1 + 0x36) v"

definition tomba_state_bound_xz :: "'c core_ops \<Rightarrow> u32 \<Rightarrow> ('c, u32) state"
    where
  "tomba_state_bound_xz K base1 = r16s K (base1 + 0x80)"

definition tomba_state_bound_y_up :: "'c core_ops \<Rightarrow> u32 \<Rightarrow> ('c, u32) state"
    where
  "tomba_state_bound_y_up K base1 = r16 K (base1 + 0x84)"

definition tomba_state_bound_y_down :: "'c core_ops \<Rightarrow> u32 \<Rightarrow> ('c, u32)
    state" where
  "tomba_state_bound_y_down K base1 = r16s K (base1 + 0x86)"

definition tomba_state_growth_flags :: "'c core_ops \<Rightarrow> u32 \<Rightarrow> ('c, u32)
    state" where
  "tomba_state_growth_flags K base1 = r16 K (base1 + 0x17E)"

definition tomba_state_just_transitioned :: "'c core_ops \<Rightarrow> u32 \<Rightarrow> ('c, u32)
    state" where
  "tomba_state_just_transitioned K base1 = r8 K (base1 + 0x144)"

definition tomba_state_grounded_gate :: "'c core_ops \<Rightarrow> u32 \<Rightarrow> ('c, u32)
    state" where
  "tomba_state_grounded_gate K base1 = r8 K (base1 + 0x145)"

definition tomba_state_frozen_flag :: "'c core_ops \<Rightarrow> u32 \<Rightarrow> ('c, u32)
    state" where
  "tomba_state_frozen_flag K base1 = r8 K (base1 + 0x78)"

definition tomba_state_set_flag95 :: "'c core_ops \<Rightarrow> u32 \<Rightarrow> u32
    \<Rightarrow> ('c, unit) state" where
  "tomba_state_set_flag95 K base1 v = w8 K (base1 + 0x5F) v"

definition tomba_state_set_ground_contact_flag :: "'c core_ops \<Rightarrow> u32 \<Rightarrow> u32
    \<Rightarrow> ('c, unit) state" where
  "tomba_state_set_ground_contact_flag K base1 v = w8 K (base1 + 0x60) v"

definition tomba_state_phys_offset_y :: "'c core_ops \<Rightarrow> u32 \<Rightarrow> ('c, u32)
    state" where
  "tomba_state_phys_offset_y K base1 = r16s K (base1 + 0x62)"

definition tomba_state_committing :: "'c core_ops \<Rightarrow> u32 \<Rightarrow> ('c, u32) state"
    where
  "tomba_state_committing K base1 = r8 K (base1 + 0x17B)"

section \<open>\<open>game/render/fx_sprite_anchored.h\<close>\<close>

definition fx_anchored_node_scale_byte :: "'c core_ops \<Rightarrow> u32 \<Rightarrow> ('c, u32)
    state" where
  "fx_anchored_node_scale_byte K mBase = r8 K (mBase + kScaleByte)"

definition fx_anchored_node_world_anchor_xy :: "'c core_ops \<Rightarrow> u32 \<Rightarrow> ('c,
    u32) state" where
  "fx_anchored_node_world_anchor_xy K mBase = r32 K (mBase + kWorldAnchorXY)"

definition fx_anchored_node_world_anchor_z :: "'c core_ops \<Rightarrow> u32 \<Rightarrow> ('c,
    u32) state" where
  "fx_anchored_node_world_anchor_z K mBase = r32 K (mBase + kWorldAnchorZ)"

definition fx_anchored_node_ot_bias :: "'c core_ops \<Rightarrow> u32 \<Rightarrow> ('c, u32)
    state" where
  "fx_anchored_node_ot_bias K mBase = r16s K (mBase + kOtBias)"

definition fx_anchored_node_record_head :: "'c core_ops \<Rightarrow> u32 \<Rightarrow> ('c, u32)
    state" where
  "fx_anchored_node_record_head K mBase = r32 K (mBase + kRecordHead)"

definition fx_anchored_node_clut :: "'c core_ops \<Rightarrow> u32 \<Rightarrow> ('c, u32) state"
    where
  "fx_anchored_node_clut K mBase = r16 K (mBase + kClut)"

definition fx_anchored_node_texture_page :: "'c core_ops \<Rightarrow> u32 \<Rightarrow> ('c, u32)
    state" where
  "fx_anchored_node_texture_page K mBase = r16 K (mBase + kTexturePage)"

definition fx_anchored_node_set_record_tail :: "'c core_ops \<Rightarrow> u32 \<Rightarrow> u32
    \<Rightarrow> ('c, unit) state" where
  "fx_anchored_node_set_record_tail K mBase v = w32 K (mBase + kRecordTail) v"

section \<open>\<open>game/render/fx_sprite_publish.h\<close>\<close>

definition fx_sprite_publish_set_ot_key :: "'c core_ops \<Rightarrow> u32 \<Rightarrow> ('c, unit)
    state" where
  "fx_sprite_publish_set_ot_key K v = w32 K kOtKey v"

definition fx_sprite_publish_set_scale_x :: "'c core_ops \<Rightarrow> u32 \<Rightarrow> ('c,
    unit) state" where
  "fx_sprite_publish_set_scale_x K v = w32 K kScaleX v"

definition fx_sprite_publish_set_scale_y :: "'c core_ops \<Rightarrow> u32 \<Rightarrow> ('c,
    unit) state" where
  "fx_sprite_publish_set_scale_y K v = w32 K kScaleY v"

definition fx_sprite_publish_set_screen_xy :: "'c core_ops \<Rightarrow> u32 \<Rightarrow> ('c,
    unit) state" where
  "fx_sprite_publish_set_screen_xy K v = w32 K kScreenXY v"

definition fx_sprite_publish_set_depth_cue :: "'c core_ops \<Rightarrow> u32 \<Rightarrow> ('c,
    unit) state" where
  "fx_sprite_publish_set_depth_cue K v = w32 K kDepthCue v"

definition fx_sprite_publish_ot_key :: "'c core_ops \<Rightarrow> ('c, u32) state" where
  "fx_sprite_publish_ot_key K = r32 K kOtKey"

definition fx_sprite_publish_scale_x :: "'c core_ops \<Rightarrow> ('c, u32) state" where
  "fx_sprite_publish_scale_x K = r32 K kScaleX"

section \<open>\<open>game/render/fx_sprite_swarm.h\<close>\<close>

definition fx_swarm_node_size_class_tag :: "'c core_ops \<Rightarrow> u32 \<Rightarrow> ('c, u32)
    state" where
  "fx_swarm_node_size_class_tag K mBase = r8 K (mBase + kSizeClass)"

definition fx_swarm_node_ot_bias :: "'c core_ops \<Rightarrow> u32 \<Rightarrow> ('c, u32) state"
    where
  "fx_swarm_node_ot_bias K mBase = r16s K (mBase + kOtBias)"

definition fx_swarm_node_record_head :: "'c core_ops \<Rightarrow> u32 \<Rightarrow> ('c, u32)
    state" where
  "fx_swarm_node_record_head K mBase = r32 K (mBase + kRecordHead)"

definition fx_swarm_node_clut :: "'c core_ops \<Rightarrow> u32 \<Rightarrow> ('c, u32) state"
    where
  "fx_swarm_node_clut K mBase = r16 K (mBase + kClut)"

definition fx_swarm_node_texture_page :: "'c core_ops \<Rightarrow> u32 \<Rightarrow> ('c, u32)
    state" where
  "fx_swarm_node_texture_page K mBase = r16 K (mBase + kTexturePage)"

definition fx_swarm_node_particle_count :: "'c core_ops \<Rightarrow> u32 \<Rightarrow> ('c, u32)
    state" where
  "fx_swarm_node_particle_count K mBase = r16s K (mBase + kParticleCount)"

definition fx_swarm_node_particle_array :: "'c core_ops \<Rightarrow> u32 \<Rightarrow> ('c, u32)
    state" where
  "fx_swarm_node_particle_array K mBase = State_Monad.return (mBase + kParticleArray)"

definition fx_swarm_particle_world_xy :: "'c core_ops \<Rightarrow> u32 \<Rightarrow> ('c, u32)
    state" where
  "fx_swarm_particle_world_xy K mBase = r32 K (mBase + kPartPosXY)"

definition fx_swarm_particle_world_z :: "'c core_ops \<Rightarrow> u32 \<Rightarrow> ('c, u32)
    state" where
  "fx_swarm_particle_world_z K mBase = r32 K (mBase + kPartPosZ)"

definition fx_swarm_particle_size_mul :: "'c core_ops \<Rightarrow> u32 \<Rightarrow> ('c, u32)
    state" where
  "fx_swarm_particle_size_mul K mBase = r16s K (mBase + kPartSizeMul)"

section \<open>\<open>game/render/guest_ordering_table.h\<close>\<close>

definition ordering_table_base :: "'c core_ops \<Rightarrow> u32 \<Rightarrow> ('c, u32) state"
    where
  "ordering_table_base K mBase = State_Monad.return mBase"

definition ordering_table_slot :: "'c core_ops \<Rightarrow> u32 \<Rightarrow> u32 \<Rightarrow>
    ('c, u32) state" where
  "ordering_table_slot K mBase bucket = State_Monad.return (mBase + bucket * 4)"

definition ordering_table_compress_depth :: "'c core_ops \<Rightarrow> u32 \<Rightarrow> ('c, u32)
    state" where
  "ordering_table_compress_depth K depth = do {
     let band = sar 10 depth;
     State_Monad.return ((sar (unat (band AND 31)) depth) + band * 0x200)
   }"

definition ordering_table_in_depth_range :: "'c core_ops \<Rightarrow> u32 \<Rightarrow> ('c,
    bool) state" where
  "ordering_table_in_depth_range K bucket = State_Monad.return (bucket - kNearestBucket <
      kFarthestBucket - kNearestBucket + 1)"

definition ordering_table_in_depth_range_exclusive :: "'c core_ops \<Rightarrow> u32 \<Rightarrow>
    ('c, bool) state" where
  "ordering_table_in_depth_range_exclusive K bucket = State_Monad.return (kNearestBucket <s bucket
      \<and> bucket <s kFarthestBucket)"

section \<open>\<open>game/render/libgpu_draw_env.h\<close>\<close>

definition draw_env_fields_clip_x :: "'c core_ops \<Rightarrow> u32 \<Rightarrow> ('c, u32) state"
    where
  "draw_env_fields_clip_x K mBase = r16s K (mBase + kClipX)"

definition draw_env_fields_clip_y :: "'c core_ops \<Rightarrow> u32 \<Rightarrow> ('c, u32) state"
    where
  "draw_env_fields_clip_y K mBase = r16s K (mBase + kClipY)"

definition draw_env_fields_clip_w :: "'c core_ops \<Rightarrow> u32 \<Rightarrow> ('c, u32) state"
    where
  "draw_env_fields_clip_w K mBase = r16s K (mBase + kClipW)"

definition draw_env_fields_clip_x_raw :: "'c core_ops \<Rightarrow> u32 \<Rightarrow> ('c, u32)
    state" where
  "draw_env_fields_clip_x_raw K mBase = r16 K (mBase + kClipX)"

definition draw_env_fields_clip_y_raw :: "'c core_ops \<Rightarrow> u32 \<Rightarrow> ('c, u32)
    state" where
  "draw_env_fields_clip_y_raw K mBase = r16 K (mBase + kClipY)"

definition draw_env_fields_clip_w_raw :: "'c core_ops \<Rightarrow> u32 \<Rightarrow> ('c, u32)
    state" where
  "draw_env_fields_clip_w_raw K mBase = r16 K (mBase + kClipW)"

definition draw_env_fields_clip_h_raw :: "'c core_ops \<Rightarrow> u32 \<Rightarrow> ('c, u32)
    state" where
  "draw_env_fields_clip_h_raw K mBase = r16 K (mBase + kClipH)"

definition draw_env_fields_offset_x :: "'c core_ops \<Rightarrow> u32 \<Rightarrow> ('c, u32)
    state" where
  "draw_env_fields_offset_x K mBase = r16s K (mBase + kOffsetX)"

definition draw_env_fields_offset_y :: "'c core_ops \<Rightarrow> u32 \<Rightarrow> ('c, u32)
    state" where
  "draw_env_fields_offset_y K mBase = r16s K (mBase + kOffsetY)"

definition draw_env_fields_offset_x_raw :: "'c core_ops \<Rightarrow> u32 \<Rightarrow> ('c, u32)
    state" where
  "draw_env_fields_offset_x_raw K mBase = r16 K (mBase + kOffsetX)"

definition draw_env_fields_offset_y_raw :: "'c core_ops \<Rightarrow> u32 \<Rightarrow> ('c, u32)
    state" where
  "draw_env_fields_offset_y_raw K mBase = r16 K (mBase + kOffsetY)"

definition draw_env_fields_tex_window_addr :: "'c core_ops \<Rightarrow> u32 \<Rightarrow> ('c,
    u32) state" where
  "draw_env_fields_tex_window_addr K mBase = State_Monad.return (mBase + kTexWindow)"

definition draw_env_fields_texture_page :: "'c core_ops \<Rightarrow> u32 \<Rightarrow> ('c, u32)
    state" where
  "draw_env_fields_texture_page K mBase = r16 K (mBase + libgpu_draw_env_kTexturePage)"

definition draw_env_fields_dither :: "'c core_ops \<Rightarrow> u32 \<Rightarrow> ('c, u32) state"
    where
  "draw_env_fields_dither K mBase = r8 K (mBase + kDither)"

definition draw_env_fields_draw_on_display :: "'c core_ops \<Rightarrow> u32 \<Rightarrow> ('c,
    u32) state" where
  "draw_env_fields_draw_on_display K mBase = r8 K (mBase + kDrawOnDisp)"

definition draw_env_fields_clears_background :: "'c core_ops \<Rightarrow> u32 \<Rightarrow> ('c,
    bool) state" where
  "draw_env_fields_clears_background K mBase = do {
     v1 \<leftarrow> r8 K (mBase + kClearFlag);
     State_Monad.return (v1 \<noteq> 0)
   }"

definition draw_env_fields_clear_color :: "'c core_ops \<Rightarrow> u32 \<Rightarrow> ('c, u32)
    state" where
  "draw_env_fields_clear_color K mBase = do {
     v1 \<leftarrow> r8 K (mBase + kClearBlue);
     v2 \<leftarrow> r8 K (mBase + kClearGreen);
     v3 \<leftarrow> r8 K (mBase + kClearRed);
     State_Monad.return (((shl v1 16) OR (shl v2 8)) OR v3)
   }"

definition draw_env_packet_set_clip_top_left :: "'c core_ops \<Rightarrow> u32 \<Rightarrow> u32
    \<Rightarrow> ('c, unit) state" where
  "draw_env_packet_set_clip_top_left K mBase v = w32 K (mBase + kClipTopLeft) v"

definition draw_env_packet_set_clip_bottom_right :: "'c core_ops \<Rightarrow> u32 \<Rightarrow>
    u32 \<Rightarrow> ('c, unit) state" where
  "draw_env_packet_set_clip_bottom_right K mBase v = w32 K (mBase + kClipBottomRight) v"

definition draw_env_packet_set_draw_offset :: "'c core_ops \<Rightarrow> u32 \<Rightarrow> u32
    \<Rightarrow> ('c, unit) state" where
  "draw_env_packet_set_draw_offset K mBase v = w32 K (mBase + kDrawOffset) v"

definition draw_env_packet_set_draw_mode :: "'c core_ops \<Rightarrow> u32 \<Rightarrow> u32
    \<Rightarrow> ('c, unit) state" where
  "draw_env_packet_set_draw_mode K mBase v = w32 K (mBase + kDrawMode) v"

definition draw_env_packet_set_tex_window :: "'c core_ops \<Rightarrow> u32 \<Rightarrow> u32
    \<Rightarrow> ('c, unit) state" where
  "draw_env_packet_set_tex_window K mBase v = w32 K (mBase + kTexWindow) v"

definition draw_env_packet_set_mask_bits :: "'c core_ops \<Rightarrow> u32 \<Rightarrow> u32
    \<Rightarrow> ('c, unit) state" where
  "draw_env_packet_set_mask_bits K mBase v = w32 K (mBase + kMaskBits) v"

definition draw_env_packet_set_clear_command :: "'c core_ops \<Rightarrow> u32 \<Rightarrow> u32
    \<Rightarrow> ('c, unit) state" where
  "draw_env_packet_set_clear_command K mBase v = w32 K (mBase + kClearCommand) v"

definition draw_env_packet_set_clear_top_left :: "'c core_ops \<Rightarrow> u32 \<Rightarrow> u32
    \<Rightarrow> ('c, unit) state" where
  "draw_env_packet_set_clear_top_left K mBase v = w32 K (mBase + kClearTopLeft) v"

definition draw_env_packet_set_clear_size :: "'c core_ops \<Rightarrow> u32 \<Rightarrow> u32
    \<Rightarrow> ('c, unit) state" where
  "draw_env_packet_set_clear_size K mBase v = w32 K (mBase + kClearSize) v"

definition draw_env_packet_set_tag_word_count :: "'c core_ops \<Rightarrow> u32 \<Rightarrow> u32
    \<Rightarrow> ('c, unit) state" where
  "draw_env_packet_set_tag_word_count K mBase v = w8 K (mBase + kTagWordCount) v"

definition clear_rect_scratch_base :: "'c core_ops \<Rightarrow> ('c, u32) state" where
  "clear_rect_scratch_base K = reg K 29"

definition clear_rect_scratch_set_clear_x :: "'c core_ops \<Rightarrow> u32 \<Rightarrow> ('c,
    unit) state" where
  "clear_rect_scratch_set_clear_x K v = do {
     v1 \<leftarrow> clear_rect_scratch_base K;
     w16 K (v1 + kX) v
   }"

definition clear_rect_scratch_set_clear_y :: "'c core_ops \<Rightarrow> u32 \<Rightarrow> ('c,
    unit) state" where
  "clear_rect_scratch_set_clear_y K v = do {
     v1 \<leftarrow> clear_rect_scratch_base K;
     w16 K (v1 + kY) v
   }"

definition clear_rect_scratch_set_clear_w :: "'c core_ops \<Rightarrow> u32 \<Rightarrow> ('c,
    unit) state" where
  "clear_rect_scratch_set_clear_w K v = do {
     v1 \<leftarrow> clear_rect_scratch_base K;
     w16 K (v1 + kW) v
   }"

definition clear_rect_scratch_set_clear_h :: "'c core_ops \<Rightarrow> u32 \<Rightarrow> ('c,
    unit) state" where
  "clear_rect_scratch_set_clear_h K v = do {
     v1 \<leftarrow> clear_rect_scratch_base K;
     w16 K (v1 + kH) v
   }"

definition clear_rect_scratch_clear_x :: "'c core_ops \<Rightarrow> ('c, u32) state" where
  "clear_rect_scratch_clear_x K = do {
     v1 \<leftarrow> clear_rect_scratch_base K;
     r16 K (v1 + kX)
   }"

definition clear_rect_scratch_clear_y :: "'c core_ops \<Rightarrow> ('c, u32) state" where
  "clear_rect_scratch_clear_y K = do {
     v1 \<leftarrow> clear_rect_scratch_base K;
     r16 K (v1 + kY)
   }"

definition clear_rect_scratch_clear_w :: "'c core_ops \<Rightarrow> ('c, u32) state" where
  "clear_rect_scratch_clear_w K = do {
     v1 \<leftarrow> clear_rect_scratch_base K;
     r16 K (v1 + kW)
   }"

definition clear_rect_scratch_clear_h_signed :: "'c core_ops \<Rightarrow> ('c, u32) state" where
  "clear_rect_scratch_clear_h_signed K = do {
     v1 \<leftarrow> clear_rect_scratch_base K;
     r16s K (v1 + kH)
   }"

definition clear_rect_scratch_top_left_word :: "'c core_ops \<Rightarrow> ('c, u32) state" where
  "clear_rect_scratch_top_left_word K = do {
     v1 \<leftarrow> clear_rect_scratch_base K;
     r32 K (v1 + kX)
   }"

definition clear_rect_scratch_size_word :: "'c core_ops \<Rightarrow> ('c, u32) state" where
  "clear_rect_scratch_size_word K = do {
     v1 \<leftarrow> clear_rect_scratch_base K;
     r32 K (v1 + kW)
   }"

section \<open>\<open>game/render/obj_model_view.h\<close>\<close>

definition compose_area_base :: "'c core_ops \<Rightarrow> ('c, u32) state" where
  "compose_area_base K = reg K 16"

definition compose_area_elem :: "'c core_ops \<Rightarrow> u32 \<Rightarrow> ('c, u32) state"
    where
  "compose_area_elem K off = do {
     v1 \<leftarrow> compose_area_base K;
     r16 K (v1 + off)
   }"

definition compose_area_set_elem :: "'c core_ops \<Rightarrow> u32 \<Rightarrow> u32 \<Rightarrow>
    ('c, unit) state" where
  "compose_area_set_elem K off v = do {
     v1 \<leftarrow> compose_area_base K;
     w16 K (v1 + off) v
   }"

definition compose_area_rot_word :: "'c core_ops \<Rightarrow> u32 \<Rightarrow> ('c, u32) state"
    where
  "compose_area_rot_word K i = do {
     v1 \<leftarrow> compose_area_base K;
     r32 K (v1 + 4 * i)
   }"

definition compose_area_trans :: "'c core_ops \<Rightarrow> u32 \<Rightarrow> ('c, u32) state"
    where
  "compose_area_trans K axis = do {
     v1 \<leftarrow> compose_area_base K;
     r32 K (v1 + kComposeTrans + 4 * axis)
   }"

definition compose_area_set_trans :: "'c core_ops \<Rightarrow> u32 \<Rightarrow> u32
    \<Rightarrow> ('c, unit) state" where
  "compose_area_set_trans K axis v = do {
     v1 \<leftarrow> compose_area_base K;
     w32 K (v1 + kComposeTrans + 4 * axis) v
   }"

section \<open>\<open>game/render/render_frame.cpp\<close>\<close>

definition render_frame :: "'c core_ops \<Rightarrow> ('c, unit) state" where
  "render_frame K = do {
     _ \<leftarrow> guest_call K 0x8003F9A8 [];
     State_Monad.return ()
   }"

definition render_frame_x :: "'c core_ops \<Rightarrow> ('c, unit) state" where
  "render_frame_x K = do {
     _ \<leftarrow> guest_call K 0x8003FA44 [];
     State_Monad.return ()
   }"

section \<open>\<open>game/render/screen_fade.cpp\<close>\<close>

definition screen_fade_apply_leaf_call :: "'c core_ops \<Rightarrow> u32 \<Rightarrow> u32
    \<Rightarrow> u32 \<Rightarrow> ('c, unit) state" where
  "screen_fade_apply_leaf_call K color blend otSlot = do {
     _ \<leftarrow> guest_call K kLeaf [color, blend, otSlot];
     State_Monad.return ()
   }"

section \<open>\<open>game/scene/parallax_scroll.h\<close>\<close>

definition guest_reduce :: "'c core_ops \<Rightarrow> u32 \<Rightarrow> u32 \<Rightarrow> ('c,
    u32) state" where
  "guest_reduce K v mod1 = do {
     v \<leftarrow> (if v <s 0 then do {
       let v = v + mod1;
       v \<leftarrow> loop (\<lambda>v. (if v <s 0 then do {
         let v = v + mod1;
         State_Monad.return (Inr v)
       }
        else State_Monad.return (Inl v))) v;
       State_Monad.return (v - mod1)
     }
      else State_Monad.return v);
     (if mod1 \<le>s v then do {
       let v = v - mod1;
       v \<leftarrow> loop (\<lambda>v. (if mod1 \<le>s v then do {
         let v = v - mod1;
         State_Monad.return (Inr v)
       }
        else State_Monad.return (Inl v))) v;
       State_Monad.return (v + mod1)
     }
      else State_Monad.return v)
   }"

section \<open>\<open>game/scene/scene_flags.h\<close>\<close>

definition flag_addr :: "'c core_ops \<Rightarrow> u32 \<Rightarrow> ('c, u32) state" where
  "flag_addr K index = State_Monad.return (kFlagTable + index)"

section \<open>\<open>game/scene/script_object.h\<close>\<close>

definition script_object_progress :: "'c core_ops \<Rightarrow> u32 \<Rightarrow> ('c, u32) state"
    where
  "script_object_progress K base1 = do {
     v1 \<leftarrow> r8 K (base1 + kProgress);
     State_Monad.return (as_s8 v1)
   }"

definition script_object_set_progress :: "'c core_ops \<Rightarrow> u32 \<Rightarrow> u32
    \<Rightarrow> ('c, unit) state" where
  "script_object_set_progress K base1 v = w8 K (base1 + kProgress) v"

definition script_object_set_progress_stopped :: "'c core_ops \<Rightarrow> u32 \<Rightarrow> ('c,
    unit) state" where
  "script_object_set_progress_stopped K base1 = w8 K (base1 + kProgress) kProgressStoppedByte"

definition script_object_state_flags :: "'c core_ops \<Rightarrow> u32 \<Rightarrow> ('c, u32)
    state" where
  "script_object_state_flags K base1 = r8 K (base1 + script_object_kStateFlags)"

definition script_object_set_state_flags :: "'c core_ops \<Rightarrow> u32 \<Rightarrow> u32
    \<Rightarrow> ('c, unit) state" where
  "script_object_set_state_flags K base1 v = w8 K (base1 + script_object_kStateFlags) v"

definition script_object_pause_requested :: "'c core_ops \<Rightarrow> u32 \<Rightarrow> ('c,
    unit) state" where
  "script_object_pause_requested K base1 = do {
     v1 \<leftarrow> script_object_state_flags K base1;
     script_object_set_state_flags K base1 (as_u8 (v1 OR kFlagBitPaused))
   }"

definition script_object_arg_a :: "'c core_ops \<Rightarrow> u32 \<Rightarrow> ('c, u32) state"
    where
  "script_object_arg_a K base1 = r16 K (base1 + kArgA)"

definition script_object_set_arg_a :: "'c core_ops \<Rightarrow> u32 \<Rightarrow> u32
    \<Rightarrow> ('c, unit) state" where
  "script_object_set_arg_a K base1 v = w16 K (base1 + kArgA) v"

definition script_object_arg_b :: "'c core_ops \<Rightarrow> u32 \<Rightarrow> ('c, u32) state"
    where
  "script_object_arg_b K base1 = r16 K (base1 + kArgB)"

definition script_object_set_arg_b :: "'c core_ops \<Rightarrow> u32 \<Rightarrow> u32
    \<Rightarrow> ('c, unit) state" where
  "script_object_set_arg_b K base1 v = w16 K (base1 + kArgB) v"

definition script_object_arg_c :: "'c core_ops \<Rightarrow> u32 \<Rightarrow> ('c, u32) state"
    where
  "script_object_arg_c K base1 = r16 K (base1 + kArgC)"

definition script_object_set_arg_c :: "'c core_ops \<Rightarrow> u32 \<Rightarrow> u32
    \<Rightarrow> ('c, unit) state" where
  "script_object_set_arg_c K base1 v = w16 K (base1 + kArgC) v"

definition script_object_function_pointer :: "'c core_ops \<Rightarrow> u32 \<Rightarrow> ('c,
    u32) state" where
  "script_object_function_pointer K base1 = do {
     v1 \<leftarrow> script_object_arg_c K base1;
     v2 \<leftarrow> script_object_arg_b K base1;
     State_Monad.return ((shl v1 16) OR v2)
   }"

definition script_object_cursor :: "'c core_ops \<Rightarrow> u32 \<Rightarrow> ('c, u32) state"
    where
  "script_object_cursor K base1 = r32 K (base1 + script_object_kCursor)"

definition script_object_set_cursor :: "'c core_ops \<Rightarrow> u32 \<Rightarrow> u32
    \<Rightarrow> ('c, unit) state" where
  "script_object_set_cursor K base1 v = w32 K (base1 + script_object_kCursor) v"

definition script_object_phase :: "'c core_ops \<Rightarrow> u32 \<Rightarrow> ('c, u32) state"
    where
  "script_object_phase K base1 = r8 K (base1 + script_object_kPhase)"

definition script_object_set_phase :: "'c core_ops \<Rightarrow> u32 \<Rightarrow> u32
    \<Rightarrow> ('c, unit) state" where
  "script_object_set_phase K base1 v = w8 K (base1 + script_object_kPhase) v"

definition script_object_advance_phase :: "'c core_ops \<Rightarrow> u32 \<Rightarrow> ('c, unit)
    state" where
  "script_object_advance_phase K base1 = do {
     v1 \<leftarrow> script_object_phase K base1;
     script_object_set_phase K base1 (as_u8 (v1 + 1))
   }"

definition script_object_set_secondary_table :: "'c core_ops \<Rightarrow> u32 \<Rightarrow> u32
    \<Rightarrow> ('c, unit) state" where
  "script_object_set_secondary_table K base1 v = w32 K (base1 + kSecondaryTable) v"

definition script_object_clear_runtime_scratch :: "'c core_ops \<Rightarrow> u32 \<Rightarrow>
    ('c, unit) state" where
  "script_object_clear_runtime_scratch K base1 = w32 K (base1 + kRuntimeScratch) 0"

definition script_object_stamp_init_marker :: "'c core_ops \<Rightarrow> u32 \<Rightarrow> ('c,
    unit) state" where
  "script_object_stamp_init_marker K base1 = w8 K (base1 + kInitMarker) kInitMarkerByte"

definition script_object_extra_halfword0 :: "'c core_ops \<Rightarrow> u32 \<Rightarrow> ('c, u32)
    state" where
  "script_object_extra_halfword0 K base1 = r16 K (base1 + kExtraBlock)"

definition script_object_set_extra_halfword0 :: "'c core_ops \<Rightarrow> u32 \<Rightarrow> u32
    \<Rightarrow> ('c, unit) state" where
  "script_object_set_extra_halfword0 K base1 v = w16 K (base1 + kExtraBlock) v"

definition script_object_extra_halfword1 :: "'c core_ops \<Rightarrow> u32 \<Rightarrow> ('c, u32)
    state" where
  "script_object_extra_halfword1 K base1 = r16 K (base1 + kExtraBlock + 2)"

definition script_object_set_extra_halfword1 :: "'c core_ops \<Rightarrow> u32 \<Rightarrow> u32
    \<Rightarrow> ('c, unit) state" where
  "script_object_set_extra_halfword1 K base1 v = w16 K (base1 + kExtraBlock + 2) v"

definition script_object_set_extra_halfword2 :: "'c core_ops \<Rightarrow> u32 \<Rightarrow> u32
    \<Rightarrow> ('c, unit) state" where
  "script_object_set_extra_halfword2 K base1 v = w16 K (base1 + kExtraBlock + 4) v"

definition script_object_set_extra_halfword3 :: "'c core_ops \<Rightarrow> u32 \<Rightarrow> u32
    \<Rightarrow> ('c, unit) state" where
  "script_object_set_extra_halfword3 K base1 v = w16 K (base1 + kExtraBlock + 6) v"

definition script_object_requested_step_count :: "'c core_ops \<Rightarrow> u32 \<Rightarrow> ('c,
    u32) state" where
  "script_object_requested_step_count K base1 = do {
     v1 \<leftarrow> script_object_extra_halfword0 K base1;
     State_Monad.return (sar 24 (shl v1 16))
   }"

definition script_object_step_divisor :: "'c core_ops \<Rightarrow> u32 \<Rightarrow> ('c, u32)
    state" where
  "script_object_step_divisor K base1 = script_object_extra_halfword0 K base1"

definition script_object_set_step_divisor :: "'c core_ops \<Rightarrow> u32 \<Rightarrow> u32
    \<Rightarrow> ('c, unit) state" where
  "script_object_set_step_divisor K base1 v = script_object_set_extra_halfword0 K base1 v"

definition script_object_turn_angle2 :: "'c core_ops \<Rightarrow> u32 \<Rightarrow> ('c, u32)
    state" where
  "script_object_turn_angle2 K base1 = script_object_extra_halfword1 K base1"

definition script_object_set_turn_angle2 :: "'c core_ops \<Rightarrow> u32 \<Rightarrow> u32
    \<Rightarrow> ('c, unit) state" where
  "script_object_set_turn_angle2 K base1 v = w16 K (base1 + kExtraBlock + 2) v"

definition script_object_event_flags_pointer :: "'c core_ops \<Rightarrow> u32 \<Rightarrow> ('c,
    u32) state" where
  "script_object_event_flags_pointer K base1 = State_Monad.return (base1 + kExtraBlock + 4)"

definition script_object_event_packed_arg :: "'c core_ops \<Rightarrow> u32 \<Rightarrow> ('c,
    u32) state" where
  "script_object_event_packed_arg K base1 = do {
     v1 \<leftarrow> r16 K (base1 + kExtraBlock + 6);
     State_Monad.return (as_s16 v1)
   }"

definition script_object_position_x :: "'c core_ops \<Rightarrow> u32 \<Rightarrow> ('c, u32)
    state" where
  "script_object_position_x K base1 = do {
     v1 \<leftarrow> r16 K (base1 + kPositionX);
     State_Monad.return (as_s16 v1)
   }"

definition script_object_set_position_x :: "'c core_ops \<Rightarrow> u32 \<Rightarrow> u32
    \<Rightarrow> ('c, unit) state" where
  "script_object_set_position_x K base1 v = w16 K (base1 + kPositionX) v"

definition script_object_position_y :: "'c core_ops \<Rightarrow> u32 \<Rightarrow> ('c, u32)
    state" where
  "script_object_position_y K base1 = do {
     v1 \<leftarrow> r16 K (base1 + kPositionY);
     State_Monad.return (as_s16 v1)
   }"

definition script_object_set_position_y :: "'c core_ops \<Rightarrow> u32 \<Rightarrow> u32
    \<Rightarrow> ('c, unit) state" where
  "script_object_set_position_y K base1 v = w16 K (base1 + kPositionY) v"

definition script_object_position_z :: "'c core_ops \<Rightarrow> u32 \<Rightarrow> ('c, u32)
    state" where
  "script_object_position_z K base1 = do {
     v1 \<leftarrow> r16 K (base1 + kPositionZ);
     State_Monad.return (as_s16 v1)
   }"

definition script_object_set_position_z :: "'c core_ops \<Rightarrow> u32 \<Rightarrow> u32
    \<Rightarrow> ('c, unit) state" where
  "script_object_set_position_z K base1 v = w16 K (base1 + kPositionZ) v"

definition script_object_delta_x :: "'c core_ops \<Rightarrow> u32 \<Rightarrow> ('c, u32) state"
    where
  "script_object_delta_x K base1 = do {
     v1 \<leftarrow> r16 K (base1 + kDeltaX);
     State_Monad.return (as_s16 v1)
   }"

definition script_object_delta_y :: "'c core_ops \<Rightarrow> u32 \<Rightarrow> ('c, u32) state"
    where
  "script_object_delta_y K base1 = do {
     v1 \<leftarrow> r16 K (base1 + kDeltaY);
     State_Monad.return (as_s16 v1)
   }"

definition script_object_delta_z :: "'c core_ops \<Rightarrow> u32 \<Rightarrow> ('c, u32) state"
    where
  "script_object_delta_z K base1 = do {
     v1 \<leftarrow> r16 K (base1 + kDeltaZ);
     State_Monad.return (as_s16 v1)
   }"

definition script_object_set_deltas :: "'c core_ops \<Rightarrow> u32 \<Rightarrow> u32
    \<Rightarrow> u32 \<Rightarrow> u32 \<Rightarrow> ('c, unit) state" where
  "script_object_set_deltas K base1 dz dy dx = do {
     w16 K (base1 + kDeltaZ) dz;
     w16 K (base1 + kDeltaY) dy;
     w16 K (base1 + kDeltaX) dx
   }"

definition script_object_steps_remaining :: "'c core_ops \<Rightarrow> u32 \<Rightarrow> ('c, u32)
    state" where
  "script_object_steps_remaining K base1 = r16 K (base1 + kStepsRemaining)"

definition script_object_set_steps_remaining :: "'c core_ops \<Rightarrow> u32 \<Rightarrow> u32
    \<Rightarrow> ('c, unit) state" where
  "script_object_set_steps_remaining K base1 v = w16 K (base1 + kStepsRemaining) v"

definition script_object_facing_angle :: "'c core_ops \<Rightarrow> u32 \<Rightarrow> ('c, u32)
    state" where
  "script_object_facing_angle K base1 = do {
     v1 \<leftarrow> r16 K (base1 + kFacingAngle);
     State_Monad.return (as_s16 v1)
   }"

definition script_object_set_facing_angle :: "'c core_ops \<Rightarrow> u32 \<Rightarrow> u32
    \<Rightarrow> ('c, unit) state" where
  "script_object_set_facing_angle K base1 v = w16 K (base1 + kFacingAngle) v"

definition script_object_clear_facing_companion :: "'c core_ops \<Rightarrow> u32 \<Rightarrow>
    ('c, unit) state" where
  "script_object_clear_facing_companion K base1 = w16 K (base1 + kFacingCompanion) 0"

definition script_object_owner_pointer :: "'c core_ops \<Rightarrow> u32 \<Rightarrow> ('c, u32)
    state" where
  "script_object_owner_pointer K base1 = r32 K (base1 + kOwnerPointer)"

definition script_object_tail_node :: "'c core_ops \<Rightarrow> u32 \<Rightarrow> ('c, u32)
    state" where
  "script_object_tail_node K base1 = r32 K (base1 + kTailNode)"

definition script_object_clear_tail :: "'c core_ops \<Rightarrow> u32 \<Rightarrow> ('c, unit)
    state" where
  "script_object_clear_tail K base1 = do {
     w32 K (base1 + kTailCache) 0;
     w32 K (base1 + kTailNode) 0
   }"

definition script_object_set_tail_cache :: "'c core_ops \<Rightarrow> u32 \<Rightarrow> u32
    \<Rightarrow> ('c, unit) state" where
  "script_object_set_tail_cache K base1 v = w32 K (base1 + kTailCache) v"

section \<open>\<open>game/scene/script_opcode.h\<close>\<close>

definition decode_advance_kind :: "'c core_ops \<Rightarrow> u32 \<Rightarrow> ('c, u32) state"
    where
  "decode_advance_kind K opcodeWord = do {
     let bits = as_u16 (opcodeWord AND kAdvanceKindMask);
     State_Monad.return (if (bits AND kAdvanceStopBit) \<noteq> 0 then AdvanceKind_kStop else
         bits)
   }"

section \<open>\<open>game/world/render_record_pool.cpp\<close>\<close>

definition render_record_pool_allocate :: "'c core_ops \<Rightarrow> ('c, u32) state" where
  "render_record_pool_allocate K = do {
     v1 \<leftarrow> r16 K kFreeCount;
     let count1 = as_s16 v1;
     (if count1 \<le>s 0 then State_Monad.return 0
      else do {
        cursor \<leftarrow> r32 K kFreeCursor;
        w16 K kFreeCount (count1 - 1);
        record1 \<leftarrow> r32 K cursor;
        w32 K kFreeCursor (cursor + 4);
        State_Monad.return record1
      })
   }"

definition render_record_pool_allocate_for_guest :: "'c core_ops \<Rightarrow> ('c, unit) state"
    where
  "render_record_pool_allocate_for_guest K = do {
     count1 \<leftarrow> r16 K kFreeCount;
     v2 \<leftarrow> render_record_pool_allocate K;
     setr K 2 v2;
     setr K 4 render_record_pool_kCursorPage;
     setr K 5 count1;
     setr K 6 kCountPage;
     only_if (0 <s as_s16 count1) (do { v3 \<leftarrow> r32 K kFreeCursor; setr K 3 v3 })
   }"

end
