(* ===== verification/ActorReward.thy ===== *)
theory ActorReward
  imports ObjectViews
begin

text \<open>
  The reward state machine of \<open>game/object/actor_sm_reward.cpp\<close>: the states of a
  reward object as it appears, is thrown, bounces and is collected.
\<close>

section \<open>Layout\<close>

definition FN_766C :: u32 where "FN_766C = 0x8004766C"
definition FN_49250 :: u32 where "FN_49250 = 0x80049250"
definition FN_493E8 :: u32 where "FN_493E8 = 0x800493E8"
definition FN_41194 :: u32 where "FN_41194 = 0x80041194"
definition FN_77ACC :: u32 where "FN_77ACC = 0x80077ACC"
definition FN_72114 :: u32 where "FN_72114 = 0x80072114"
definition FN_D4C4 :: u32 where "FN_D4C4 = 0x8004D4C4"
definition FN_D4F4 :: u32 where "FN_D4F4 = 0x8004D4F4"
definition FN_ED0C :: u32 where "FN_ED0C = 0x8004ED0C"
definition FN_ED94 :: u32 where "FN_ED94 = 0x8004ED94"
definition FN_40B48 :: u32 where "FN_40B48 = 0x80040B48"
definition FN_40C00 :: u32 where "FN_40C00 = 0x80040C00"
definition FN_D650 :: u32 where "FN_D650 = 0x8004D650"
definition FN_67DA8 :: u32 where "FN_67DA8 = 0x80067DA8"
definition FN_310F4 :: u32 where "FN_310F4 = 0x800310F4"
definition FN_74590 :: u32 where "FN_74590 = 0x80074590"
definition FN_115AEC :: u32 where "FN_115AEC = 0x80115AEC"
definition FN_114F24 :: u32 where "FN_114F24 = 0x80114F24"
definition FN_71B44 :: u32 where "FN_71B44 = 0x80071B44"
definition FN_A624 :: u32 where "FN_A624 = 0x8007A624"
definition FN_B3F4 :: u32 where "FN_B3F4 = 0x8004B3F4"
definition FN_A118 :: u32 where "FN_A118 = 0x8004A118"
definition FN_A2A0 :: u32 where "FN_A2A0 = 0x8004A2A0"
definition FN_B428 :: u32 where "FN_B428 = 0x8004B428"
definition FN_517F8 :: u32 where "FN_517F8 = 0x800517F8"
definition FN_77B5C :: u32 where "FN_77B5C = 0x80077B5C"
definition G_800E7ED6 :: u32 where "G_800E7ED6 = 0x800E7ED6"
definition SC_1F80017C :: u32 where "SC_1F80017C = 0x1F80017C"
definition SC_1F8001A6 :: u32 where "SC_1F8001A6 = 0x1F8001A6"
definition G_TALLY_CUR :: u32 where "G_TALLY_CUR = 0x800E7FEE"
definition G_TALLY_PREV :: u32 where "G_TALLY_PREV = 0x800E7FF0"
definition G_TALLY_BUSY :: u32 where "G_TALLY_BUSY = 0x800ED061"
definition G_TALLY_CAP :: u32 where "G_TALLY_CAP = 0x800BF87D"
definition G_TALLY_CAP2 :: u32 where "G_TALLY_CAP2 = 0x800BF87C"
definition G_BF816 :: u32 where "G_BF816 = 0x800BF816"
definition G_BF817 :: u32 where "G_BF817 = 0x800BF817"
definition G_BF812 :: u32 where "G_BF812 = 0x800BF812"
definition G_E7FEB :: u32 where "G_E7FEB = 0x800E7FEB"
definition G_BF9CF :: u32 where "G_BF9CF = 0x800BF9CF"
definition G_BFB24 :: u32 where "G_BFB24 = 0x800BFB24"
definition G_BFB26 :: u32 where "G_BFB26 = 0x800BFB26"
definition G_BFB28 :: u32 where "G_BFB28 = 0x800BFB28"
definition G_BF88C :: u32 where "G_BF88C = 0x800BF88C"
definition G_E7EEC :: u32 where "G_E7EEC = 0x800E7EEC"
definition G_BF88D :: u32 where "G_BF88D = 0x800BF88D"
definition G_E7EED :: u32 where "G_E7EED = 0x800E7EED"
definition G_BF874 :: u32 where "G_BF874 = 0x800BF874"

section \<open>\<open>game/object/actor_sm_reward.cpp\<close>\<close>

definition apply_blink_tail :: "'c core_ops \<Rightarrow> u32 \<Rightarrow> u32 \<Rightarrow> ('c,
    unit) state" where
  "apply_blink_tail K obj side = do {
     v1 \<leftarrow> r16 K SC_1F80017C;
     let tick1 = (v1 AND 0x1F) = 0;
     let bit1 = as_u8 (if side = 0 then 0x20 else 0x02);
     v \<leftarrow> r8 K (obj + 0xD);
     let v = (if tick1 then as_u8 (v OR bit1) else as_u8 (v AND (NOT bit1)));
     w8 K (obj + 0xD) v
   }"

definition actor_reward_sm_blink_a :: "'c core_ops \<Rightarrow> ('c, unit) state" where
  "actor_reward_sm_blink_a K = do {
     obj \<leftarrow> reg K (unat R_A0);
     side \<leftarrow> reg K (unat R_A1);
     v3 \<leftarrow> r8 K (obj + 5);
     only_if (v3 = 0) (do {
       w8 K (obj + 5) 1;
       w8 K (obj + 0) 1;
       (if side = 0 then w8 K (obj + 0x18) 0
        else do { w8 K (obj + 0x18) 0xFF; w8 K (obj + 0x19) 0xFF; w8 K (obj + 0x1A) 0xFF })
     });
     apply_blink_tail K obj side
   }"

definition actor_reward_sm_blink_b :: "'c core_ops \<Rightarrow> ('c, unit) state" where
  "actor_reward_sm_blink_b K = with_frame K 32 [(16, 16), (31, 24), (17, 20)] (do {
     obj \<leftarrow> reg K (unat R_A0);
     side \<leftarrow> reg K (unat R_A1);
     v3 \<leftarrow> r8 K (obj + 5);
     only_if (v3 = 0) (do {
       w8 K (obj + 5) 1;
       w8 K (obj + 0) 1;
       v4 \<leftarrow> r16s K (obj + 0x86);
       v5 \<leftarrow> r16s K (obj + 0x84);
       let delta = v4 - v5;
       setr K (unat R_A0) obj;
       setr K (unat R_A1) delta;
       setr K (unat R_A2) 0;
       setr K (unat R_A3) 0;
       call_guest K FN_41194;
       (if side = 0 then w8 K (obj + 0x18) 0
        else do { w8 K (obj + 0x18) 0xFF; w8 K (obj + 0x19) 0xFF; w8 K (obj + 0x1A) 0xFF })
     });
     apply_blink_tail K obj side
   })"

definition actor_reward_sm_window_scroll_l258 :: "'c core_ops \<Rightarrow> u32 \<Rightarrow> u32
    \<Rightarrow> u32 \<Rightarrow> ('c, unit) state" where
  "actor_reward_sm_window_scroll_l258 K obj st870 side = do {
     v23 \<leftarrow> r8 K (obj + 2);
     only_if (st870 \<noteq> 1 \<or> v23 = 0) (w8 K (obj + 5) 6);
     apply_blink_tail K obj side
   }"

definition actor_reward_sm_window_scroll_l255 :: "'c core_ops \<Rightarrow> u32 \<Rightarrow> u32
    \<Rightarrow> ('c, unit) state" where
  "actor_reward_sm_window_scroll_l255 K obj side = do {
     a6 \<leftarrow> r16 K SC_1F8001A6;
     st870 \<leftarrow> r8 K G_BF870;
     (if (a6 AND 0x8000) \<noteq> 0 \<and> st870 \<noteq> 8 then
         actor_reward_sm_window_scroll_l258 K obj st870 side
      else do {
        let setState5 = True;
        only_if setState5 (w8 K (obj + 5) 5);
        actor_set_vel_y K obj 0;
        apply_blink_tail K obj side
      })
   }"

definition actor_reward_sm_window_scroll_l244 :: "'c core_ops \<Rightarrow> u32 \<Rightarrow> u32
    \<Rightarrow> bool \<Rightarrow> ('c, unit) state" where
  "actor_reward_sm_window_scroll_l244 K obj side setState5 = do {
     setr K (unat R_A0) obj;
     call_guest K FN_766C;
     v18 \<leftarrow> r16 K (obj + 0x86);
     v19 \<leftarrow> r16 K (obj + 0x84);
     let delta = as_s16 (v18 - v19);
     setr K (unat R_A0) obj;
     setr K (unat R_A1) 0;
     setr K (unat R_A2) delta;
     call_guest K FN_49250;
     tag1 \<leftarrow> reg K (unat R_V0);
     (if tag1 = 1 then do {
       let setState5 = True;
       only_if setState5 (w8 K (obj + 5) 5);
       actor_set_vel_y K obj 0;
       apply_blink_tail K obj side
     }
      else if tag1 = 2 then actor_reward_sm_window_scroll_l255 K obj side
       else do {
         only_if setState5 (w8 K (obj + 5) 5);
         actor_set_vel_y K obj 0;
         apply_blink_tail K obj side
       })
   }"

definition actor_reward_sm_window_scroll_l268 :: "'c core_ops \<Rightarrow> u32 \<Rightarrow> u32
    \<Rightarrow> ('c, unit) state" where
  "actor_reward_sm_window_scroll_l268 K obj side = do {
     v25 \<leftarrow> r8 K G_BF816;
     v26 \<leftarrow> r8 K G_BF817;
     v27 \<leftarrow> r16 K (obj + 0x6A);
     v28 \<leftarrow> r16s K (obj + 0x32);
     v29 \<leftarrow> r16s K (obj + 0x86);
     v30 \<leftarrow> r16s K (obj + 0x84);
     v31 \<leftarrow> r16s K G_BF812;
     let cond = (v25 \<noteq> 1 \<or> v26 \<noteq> v27) \<or> v28 + (v29 - v30) <s v31;
     (if cond then apply_blink_tail K obj side
      else do {
        v32 \<leftarrow> r16s K G_BF812;
        v33 \<leftarrow> r16s K (obj + 0x86);
        v34 \<leftarrow> r16s K (obj + 0x84);
        w16 K (obj + 0x32) (v32 - (v33 - v34));
        let setState5 = True;
        only_if setState5 (w8 K (obj + 5) 5);
        actor_set_vel_y K obj 0;
        apply_blink_tail K obj side
      })
   }"

definition actor_reward_sm_window_scroll_l279 :: "'c core_ops \<Rightarrow> u32 \<Rightarrow> u32
    \<Rightarrow> ('c, unit) state" where
  "actor_reward_sm_window_scroll_l279 K obj side = do {
     setr K (unat R_A0) obj;
     call_guest K FN_766C;
     v35 \<leftarrow> r16 K (obj + 0x86);
     v36 \<leftarrow> r16 K (obj + 0x84);
     let delta = as_s16 (v35 - v36);
     setr K (unat R_A0) obj;
     setr K (unat R_A1) 0;
     setr K (unat R_A2) delta;
     call_guest K FN_49250;
     v37 \<leftarrow> reg K (unat R_V0);
     (if v37 = 0 then apply_blink_tail K obj side
      else do {
        let setState5 = True;
        only_if setState5 (w8 K (obj + 5) 5);
        actor_set_vel_y K obj 0;
        apply_blink_tail K obj side
      })
   }"

definition actor_reward_sm_window_scroll_l242 :: "'c core_ops \<Rightarrow> u32 \<Rightarrow> u32
    \<Rightarrow> ('c, unit) state" where
  "actor_reward_sm_window_scroll_l242 K obj side = do {
     let setState5 = False;
     v17 \<leftarrow> r8 K (obj + 0x28);
     (if (v17 AND 0x80) = 0 then actor_reward_sm_window_scroll_l244 K obj side setState5
      else do {
        v24 \<leftarrow> r8 K G_E7FEB;
        (if v24 = 8 then actor_reward_sm_window_scroll_l268 K obj side
         else actor_reward_sm_window_scroll_l279 K obj side)
      })
   }"

definition actor_reward_sm_window_scroll_l234 :: "'c core_ops \<Rightarrow> u32 \<Rightarrow> u32
    \<Rightarrow> ('c, unit) state" where
  "actor_reward_sm_window_scroll_l234 K obj side = do {
     scroll \<leftarrow> actor_vel_y K obj;
     v14 \<leftarrow> actor_pos_y_fixed K obj;
     let accum = v14 + scroll * 0x100;
     actor_set_pos_y_fixed K obj accum;
     only_if (scroll <s 0x3000) (do {
       speed \<leftarrow> actor_accel_y K obj;
       actor_set_vel_y K obj (as_u16 (as_s16 (scroll + speed)))
     });
     v16 \<leftarrow> r8 K (obj + 0x29);
     (if v16 = 0 then actor_reward_sm_window_scroll_l242 K obj side
      else do {
        st \<leftarrow> r8 K (obj + 5);
        actor_set_vel_y K obj 0;
        w8 K (obj + 5) (st + 1);
        apply_blink_tail K obj side
      })
   }"

definition actor_reward_sm_window_scroll_l305 :: "'c core_ops \<Rightarrow> u32 \<Rightarrow> u32
    \<Rightarrow> u32 \<Rightarrow> ('c, unit) state" where
  "actor_reward_sm_window_scroll_l305 K state1 obj side = do {
     (if state1 = 3 then do {
       v39 \<leftarrow> r8 K (obj + 0x28);
       let condA = (v39 AND 0x80) = 0;
       v40 \<leftarrow> r8 K G_BF816;
       v41 \<leftarrow> r8 K G_BF817;
       v42 \<leftarrow> r16 K (obj + 0x6A);
       let condB = v40 \<noteq> 0 \<and> v41 = v42;
       v43 \<leftarrow> r8 K (obj + 0x29);
       only_if ((condA \<or> condB) \<and> v43 = 0) (do {
         actor_set_vel_y K obj 0x2000;
         v44 \<leftarrow> r8 K (obj + 5);
         w8 K (obj + 5) (v44 - 1)
       })
     }
      else only_if (state1 = 6) (do {
        scroll \<leftarrow> actor_vel_y K obj;
        v46 \<leftarrow> actor_pos_y_fixed K obj;
        let accum = v46 + scroll * 0x100;
        actor_set_pos_y_fixed K obj accum;
        only_if (scroll <s 0x3000) (do {
          speed \<leftarrow> actor_accel_y K obj;
          actor_set_vel_y K obj (as_u16 (as_s16 (scroll + speed)))
        });
        setr K (unat R_A0) obj;
        v48 \<leftarrow> r16s K (obj + 0x2E);
        setr K (unat R_A1) v48;
        v49 \<leftarrow> r16s K (obj + 0x32);
        setr K (unat R_A2) v49;
        v50 \<leftarrow> r16s K (obj + 0x36);
        setr K (unat R_A3) v50;
        call_guest K FN_77ACC;
        v51 \<leftarrow> reg K (unat R_V0);
        only_if (v51 = 0) (w8 K (obj + 4) 3)
      }));
     apply_blink_tail K obj side
   }"

definition actor_reward_sm_window_scroll :: "'c core_ops \<Rightarrow> ('c, unit) state" where
  "actor_reward_sm_window_scroll K = with_frame K 32 [(16, 16), (31, 24), (17, 20)] (do {
     obj \<leftarrow> reg K (unat R_A0);
     side \<leftarrow> reg K (unat R_A1);
     state1 \<leftarrow> r8 K (obj + 5);
     (if state1 = 0 then do {
       actor_set_vel_y K obj 0xD000;
       actor_set_accel_y K obj 0x200;
       v4 \<leftarrow> r8 K (obj + 5);
       w8 K (obj + 5) (v4 + 1);
       (if side = 0 then w8 K (obj + 0x18) 0
        else do {
          w8 K (obj + 0x18) 0xFF;
          w8 K (obj + 0x19) 0xFF;
          w8 K (obj + 0x1A) 0xFF
        });
       apply_blink_tail K obj side
     }
      else if state1 = 1 then do {
        prevScroll \<leftarrow> actor_vel_y K obj;
        v6 \<leftarrow> r16 K (obj + 0x4A);
        v7 \<leftarrow> r16 K (obj + 0x50);
        let newScroll = as_u16 (v6 + v7);
        actor_set_vel_y K obj newScroll;
        v8 \<leftarrow> actor_pos_y_fixed K obj;
        let accum = v8 + prevScroll * 0x100;
        actor_set_pos_y_fixed K obj accum;
        let iv = as_s16 newScroll;
        (if iv <s 0 then do {
          only_if (- 0x1800 <s iv) (w8 K (obj + 0) 1);
          setr K (unat R_A0) obj;
          call_guest K FN_766C;
          setr K (unat R_A0) obj;
          setr K (unat R_A1) 0;
          v9 \<leftarrow> r16s K (obj + 0x84);
          setr K (unat R_A2) (- v9);
          call_guest K FN_493E8;
          v10 \<leftarrow> reg K (unat R_V0);
          only_if (v10 \<noteq> 0) (do {
            w8 K (obj + 0) 1;
            actor_set_vel_y K obj 0;
            v11 \<leftarrow> r8 K (obj + 5);
            w8 K (obj + 5) (v11 + 1)
          })
        }
         else do { v12 \<leftarrow> r8 K (obj + 5); w8 K (obj + 5) (v12 + 1) });
        apply_blink_tail K obj side
      }
       else if state1 = 2 then actor_reward_sm_window_scroll_l234 K obj side
        else actor_reward_sm_window_scroll_l305 K state1 obj side)
   })"

definition actor_reward_sm_tally_tick :: "'c core_ops \<Rightarrow> ('c, unit) state" where
  "actor_reward_sm_tally_tick K = with_frame K 24 [(31, 16)] (do {
     obj \<leftarrow> reg K (unat R_A0);
     step1 \<leftarrow> reg K (unat R_A1);
     before \<leftarrow> r16 K G_TALLY_CUR;
     let ret = (0 :: u32);
     v4 \<leftarrow> r8 K (obj + 7);
     ret \<leftarrow> (if v4 = 0 then (if as_s16 before <s 1 then State_Monad.return (0 :: u32)
      else do {
        w8 K (obj + 7) 1;
        w16 K (obj + 0x40) 0x10;
        let sum1 = before + step1;
        v5 \<leftarrow> r8 K G_TALLY_BUSY;
        w8 K G_TALLY_BUSY (v5 OR 2);
        w16 K G_TALLY_CUR sum1;
        v6 \<leftarrow> r16 K G_TALLY_PREV;
        let changed = v6 \<noteq> before;
        cap \<leftarrow> r8 K G_TALLY_CAP;
        only_if (cap \<le>s as_s16 (as_u16 sum1)) (w16 K G_TALLY_CUR cap);
        cur \<leftarrow> r16 K G_TALLY_CUR;
        w16 K G_TALLY_PREV cur;
        only_if changed (w16 K G_TALLY_PREV (cur - 1));
        let savedA1 = step1;
        setr K (unat R_A0) obj;
        setr K (unat R_A1) savedA1;
        call_guest K FN_72114;
        State_Monad.return (0 :: u32)
      })
      else do {
        let ret = (0 :: u32);
        v9 \<leftarrow> r8 K (obj + 7);
        (if v9 = 1 then do {
          v10 \<leftarrow> r16 K (obj + 0x40);
          let cd = as_s16 (v10 - 1);
          w16 K (obj + 0x40) cd;
          let ret = (0 :: u32);
          (if cd = -1 then do {
            let ret = (1 :: u32);
            v11 \<leftarrow> r8 K G_TALLY_BUSY;
            w8 K G_TALLY_BUSY (v11 AND 0xFD);
            State_Monad.return ret
          }
           else State_Monad.return ret)
        }
         else State_Monad.return ret)
      });
     setr K (unat R_V0) ret
   })"

definition actor_reward_sm_event_dispatch_l524 :: "'c core_ops \<Rightarrow> u32 \<Rightarrow>
    ('c, unit) state" where
  "actor_reward_sm_event_dispatch_l524 K key = do {
     cue \<leftarrow> (if key = 0x6F then do {
       v12 \<leftarrow> r8 K G_BFB24;
       (if v12 = 0 then do {
         setr K (unat R_A0) 0x70;
         setr K (unat R_A1) 1;
         call_guest K FN_D4F4;
         State_Monad.return (0x10 :: u32)
       }
        else do {
          setr K (unat R_A0) 0x6F;
          setr K (unat R_A1) 1;
          call_guest K FN_D4F4;
          setr K (unat R_A0) 0x70;
          setr K (unat R_A1) 1;
          call_guest K FN_D650;
          State_Monad.return (0x11 :: u32)
        })
     }
      else if key = 0x71 then do {
        v13 \<leftarrow> r8 K G_BFB26;
        (if v13 = 0 then do {
          setr K (unat R_A0) 0x72;
          setr K (unat R_A1) 1;
          call_guest K FN_D4F4;
          State_Monad.return (0x12 :: u32)
        }
         else do {
           setr K (unat R_A0) 0x71;
           setr K (unat R_A1) 1;
           call_guest K FN_D4F4;
           setr K (unat R_A0) 0x72;
           setr K (unat R_A1) 1;
           call_guest K FN_D650;
           State_Monad.return (0x13 :: u32)
         })
      }
       else do {
         v14 \<leftarrow> r8 K G_BFB28;
         (if v14 = 0 then do {
           setr K (unat R_A0) 0x74;
           setr K (unat R_A1) 1;
           call_guest K FN_D4F4;
           State_Monad.return (0x14 :: u32)
         }
          else do {
            setr K (unat R_A0) 0x73;
            setr K (unat R_A1) 1;
            call_guest K FN_D4F4;
            setr K (unat R_A0) 0x74;
            setr K (unat R_A1) 1;
            call_guest K FN_D650;
            State_Monad.return (0x15 :: u32)
          })
       });
     setr K (unat R_A0) cue;
     setr K (unat R_A1) 0x41;
     call_guest K FN_ED94
   }"

definition actor_reward_sm_event_dispatch_l587 :: "'c core_ops \<Rightarrow> u32 \<Rightarrow> u32
    \<Rightarrow> u32 \<Rightarrow> ('c, unit) state" where
  "actor_reward_sm_event_dispatch_l587 K key obj evt = (if key = 0x88 then do {
     setr K (unat R_A0) 0x60;
     setr K (unat R_A1) 2;
     call_guest K FN_D4F4;
     setr K (unat R_A0) 0x89;
     setr K (unat R_A1) 2;
     call_guest K FN_ED0C
   }
    else if key = 0x89 then do {
      setr K (unat R_A0) 0x7C;
      setr K (unat R_A1) 3;
      call_guest K FN_D4F4;
      setr K (unat R_A0) 0x8A;
      setr K (unat R_A1) 2;
      call_guest K FN_ED0C;
      setr K (unat R_A0) 0x50;
      setr K 31 0x8004A6D4;
      call_guest K FN_40B48
    }
     else if key = 0x90 then do {
       v15 \<leftarrow> r8 K G_TALLY_CAP;
       only_if (v15 = 8) (do { v16 \<leftarrow> r8 K G_TALLY_CAP2; w8 K G_TALLY_CAP v16 });
       w8 K G_TALLY_CAP2 0x10;
       v17 \<leftarrow> r8 K G_TALLY_CAP;
       w16 K G_TALLY_CUR v17;
       v18 \<leftarrow> r16 K G_TALLY_CUR;
       w16 K G_TALLY_PREV v18;
       setr K (unat R_A0) 0x0F;
       setr K (unat R_A1) 0x41;
       call_guest K FN_ED94;
       setr K (unat R_A0) 0x711;
       setr K (unat R_A1) 0;
       call_guest K FN_310F4;
       o2 \<leftarrow> reg K (unat R_V0);
       only_if (o2 \<noteq> 0) (do {
         v20 \<leftarrow> r8 K (o2 + 0x28);
         w8 K (o2 + 0x28) (v20 OR 0x80)
       })
     }
      else if ((key = 0x95 \<or> key = 0x96) \<or> key = 0x98) \<or> key = 0x99 then do {
        v21 \<leftarrow> r32 K G_BF874;
        w32 K G_BF874 (v21 + 100000);
        setr K (unat R_A0) obj;
        setr K (unat R_A1) 100000;
        setr K (unat R_A2) 0;
        call_guest K FN_71B44;
        setr K (unat R_A0) evt;
        setr K (unat R_A1) 1;
        call_guest K FN_D4C4
      }
       else if ((key = 0x9F \<or> key = 0xA0) \<or> key = 0xA1) \<or> key = 0xA2 then do {
         setr K (unat R_A0) obj;
         call_guest K FN_115AEC
       }
        else if key = 0xA5 then do {
          setr K (unat R_A0) evt;
          setr K (unat R_A1) 1;
          call_guest K FN_D4C4;
          setr K (unat R_A0) obj;
          call_guest K FN_114F24
        }
         else do { setr K (unat R_A0) evt; setr K (unat R_A1) 1; call_guest K FN_D4C4 })"

definition actor_reward_sm_event_dispatch_l494 :: "'c core_ops \<Rightarrow> u32 \<Rightarrow> u32
    \<Rightarrow> u32 \<Rightarrow> ('c, unit) state" where
  "actor_reward_sm_event_dispatch_l494 K key evt obj = (if key = 0x56 then do {
     setr K (unat R_A0) 0x4D;
     setr K (unat R_A1) 2;
     call_guest K FN_D4F4;
     setr K (unat R_A0) 0x57;
     setr K (unat R_A1) 2;
     call_guest K FN_ED0C;
     setr K (unat R_A0) 0x3E;
     setr K 31 0x8004A548;
     call_guest K FN_40B48
   }
    else if key = 0x69 then do {
      setr K (unat R_A0) evt;
      setr K (unat R_A1) 1;
      call_guest K FN_D4C4;
      setr K (unat R_A0) 0x58;
      call_guest K FN_40C00
    }
     else if key = 0x6A then do {
       setr K (unat R_A0) evt;
       setr K (unat R_A1) 1;
       call_guest K FN_D4C4;
       setr K (unat R_A0) 0x59;
       call_guest K FN_40C00
     }
      else if (key = 0x6F \<or> key = 0x71) \<or> key = 0x73 then
          actor_reward_sm_event_dispatch_l524 K key
       else if key = 0x7B then do {
         setr K (unat R_A0) evt;
         setr K (unat R_A1) 1;
         call_guest K FN_D4C4;
         setr K (unat R_A0) 0x50;
         setr K 31 0x8004A6D4;
         call_guest K FN_40B48
       }
        else actor_reward_sm_event_dispatch_l587 K key obj evt)"

definition actor_reward_sm_event_dispatch_l664 :: "'c core_ops \<Rightarrow> u32 \<Rightarrow>
    ('c, unit) state" where
  "actor_reward_sm_event_dispatch_l664 K obj = do {
     setr K (unat R_A0) 0x1F;
     setr K (unat R_A1) (-140);
     call_guest K FN_310F4;
     o2 \<leftarrow> reg K (unat R_V0);
     only_if (o2 \<noteq> 0) (do {
       v23 \<leftarrow> r8 K (o2 + 0x28);
       w8 K (o2 + 0x28) (v23 OR 0x80);
       v24 \<leftarrow> r16 K (obj + 0x2E);
       w16 K (o2 + 0x2C) v24;
       v25 \<leftarrow> r16 K (obj + 0x32);
       w16 K (o2 + 0x2E) v25;
       v26 \<leftarrow> r16 K (obj + 0x36);
       w16 K (o2 + 0x30) v26
     });
     setr K (unat R_A0) 0x28;
     setr K (unat R_A1) 0;
     setr K (unat R_A2) 0;
     call_guest K FN_74590;
     setr K (unat R_V0) 1
   }"

definition actor_reward_sm_event_dispatch :: "'c core_ops \<Rightarrow> ('c, unit) state" where
  "actor_reward_sm_event_dispatch K = with_frame K 32 [(17, 20), (31, 24), (16, 16)] (do {
     obj \<leftarrow> reg K (unat R_A0);
     v2 \<leftarrow> r16 K G_TALLY_CUR;
     (if v2 = 0 then setr K (unat R_V0) 0
      else do {
        v3 \<leftarrow> r16 K (obj + 0x68);
        let evt = as_s16 v3;
        let key = as_s16 (as_u16 (evt - 1));
        (if key = 0 then do {
          setr K (unat R_A0) evt;
          setr K (unat R_A1) 1;
          call_guest K FN_D4C4;
          w8 K G_BF88C evt;
          v4 \<leftarrow> r8 K G_BF88C;
          w8 K G_E7EEC v4;
          setr K (unat R_A0) 0x1E;
          call_guest K FN_40C00
        }
         else if key = 5 then do {
           setr K (unat R_A0) evt;
           setr K (unat R_A1) 1;
           call_guest K FN_D4C4;
           w8 K G_BF88C evt;
           v5 \<leftarrow> r8 K G_BF88C;
           w8 K G_E7EEC v5;
           setr K (unat R_A0) 0x0F;
           call_guest K FN_40C00
         }
          else if key = 3 then do {
            setr K (unat R_A0) 9;
            setr K 31 0x8004A458;
            call_guest K FN_40B48;
            setr K (unat R_A0) evt;
            setr K (unat R_A1) 1;
            call_guest K FN_D4C4;
            w8 K G_BF88C evt;
            v6 \<leftarrow> r8 K G_BF88C;
            w8 K G_E7EEC v6
          }
           else if ((((key = 1 \<or> key = 2) \<or> key = 4) \<or> key = 6) \<or> key = 7) \<or>
               key = 8 then do {
             setr K (unat R_A0) evt;
             setr K (unat R_A1) 1;
             call_guest K FN_D4C4;
             w8 K G_BF88C evt;
             v7 \<leftarrow> r8 K G_BF88C;
             w8 K G_E7EEC v7
           }
            else if key = 10 then do {
              setr K (unat R_A0) 0x0B;
              setr K (unat R_A1) 1;
              call_guest K FN_D4C4;
              w8 K G_BF88D 1;
              v8 \<leftarrow> r8 K G_BF88D;
              w8 K G_E7EED v8;
              setr K (unat R_A0) 0;
              call_guest K FN_67DA8;
              v9 \<leftarrow> r8 K G_BF9CF;
              w8 K G_BF9CF (v9 + 1)
            }
             else if key = 0xB then do {
               setr K (unat R_A0) 0x0C;
               setr K (unat R_A1) 1;
               call_guest K FN_D4C4;
               w8 K G_BF88D 2;
               v10 \<leftarrow> r8 K G_BF88D;
               w8 K G_E7EED v10;
               setr K (unat R_A0) 0;
               call_guest K FN_67DA8;
               v11 \<leftarrow> r8 K G_BF9CF;
               w8 K G_BF9CF (v11 + 1)
             }
              else if key = 0x2E then do {
                setr K (unat R_A0) evt;
                setr K (unat R_A1) 1;
                call_guest K FN_D4C4;
                setr K (unat R_A0) 0x18;
                setr K 31 0x8004A664;
                call_guest K FN_40B48
              }
               else if key = 0x46 then do {
                 setr K (unat R_A0) evt;
                 setr K (unat R_A1) 1;
                 call_guest K FN_D4C4;
                 setr K (unat R_A0) 0x4D;
                 setr K 31 0x8004A680;
                 call_guest K FN_40B48
               }
                else actor_reward_sm_event_dispatch_l494 K key evt obj);
        actor_reward_sm_event_dispatch_l664 K obj
      })
   })"

definition update_epilogue :: "'c core_ops \<Rightarrow> ('c, unit) state" where
  "update_epilogue K = do {
     r29_1 \<leftarrow> reg K 29;
     v2 \<leftarrow> r32 K (r29_1 + 24);
     setr K 31 v2;
     v3 \<leftarrow> r32 K (r29_1 + 20);
     setr K 17 v3;
     v4 \<leftarrow> r32 K (r29_1 + 16);
     setr K 16 v4;
     setr K 29 (r29_1 + 32)
   }"

definition actor_reward_approach_target_x :: "'c core_ops \<Rightarrow> ('c, unit) state" where
  "actor_reward_approach_target_x K = do {
     obj \<leftarrow> reg K (unat R_A0);
     target \<leftarrow> r16s K (obj + 0x60);
     only_if (target \<noteq> 0) (do {
       v3 \<leftarrow> r16s K (obj + 0x2E);
       let x = v3 + 8;
       w16 K (obj + 0x2E) x;
       only_if (target \<le>s x) (do { w16 K (obj + 0x2E) target; w16 K (obj + 0x60) 0 })
     })
   }"

definition resolve_position_epilogue :: "'c core_ops \<Rightarrow> ('c, unit) state" where
  "resolve_position_epilogue K = do {
     r29_1 \<leftarrow> reg K 29;
     v2 \<leftarrow> r32 K (r29_1 + 32);
     setr K 31 v2;
     v3 \<leftarrow> r32 K (r29_1 + 28);
     setr K 19 v3;
     v4 \<leftarrow> r32 K (r29_1 + 24);
     setr K 18 v4;
     v5 \<leftarrow> r32 K (r29_1 + 20);
     setr K 17 v5;
     v6 \<leftarrow> r32 K (r29_1 + 16);
     setr K 16 v6;
     setr K 29 (r29_1 + 40)
   }"

definition actor_reward_resolve_position :: "'c core_ops \<Rightarrow> ('c, unit) state" where
  "actor_reward_resolve_position K = do {
     ra \<leftarrow> reg K 31;
     sp \<leftarrow> reg K 29;
     s0 \<leftarrow> reg K 16;
     s1 \<leftarrow> reg K 17;
     s2 \<leftarrow> reg K 18;
     s3 \<leftarrow> reg K 19;
     setr K 29 (sp - 40);
     r29_7 \<leftarrow> reg K 29;
     w32 K (r29_7 + 24) s2;
     v8 \<leftarrow> reg K (unat R_A0);
     setr K 18 v8;
     w32 K (r29_7 + 32) ra;
     w32 K (r29_7 + 28) s3;
     w32 K (r29_7 + 20) s1;
     w32 K (r29_7 + 16) s0;
     obj \<leftarrow> reg K 18;
     radius \<leftarrow> r16s K (obj + 0x62);
     owner \<leftarrow> r32 K (obj + 0x10);
     setr K 16 owner;
     angle \<leftarrow> r16s K (owner + 0x56);
     sel \<leftarrow> r8 K (obj + 0x5E);
     (radius, angle) \<leftarrow> (if sel < 8 then (if sel = 0 then do {
       entA \<leftarrow> r32 K G_800E7F50;
       entB \<leftarrow> r32 K G_800E7F5C;
       v16 \<leftarrow> r32 K (entA + 0x2C);
       v17 \<leftarrow> r32 K (entB + 0x2C);
       let sumX = v16 + v17;
       w16 K (obj + 0x2E) (sdiv sumX 2);
       v18 \<leftarrow> r32 K (entA + 0x30);
       v19 \<leftarrow> r32 K (entB + 0x30);
       let sumY = v18 + v19;
       v20 \<leftarrow> r16s K (obj + 0x60);
       w16 K (obj + 0x32) (sdiv sumY 2 + v20);
       v21 \<leftarrow> r32 K (entA + 0x34);
       v22 \<leftarrow> r32 K (entB + 0x34);
       let sumZ = v21 + v22;
       w16 K (obj + 0x36) (sdiv sumZ 2);
       let radius = (0x20 :: u32);
       angle \<leftarrow> r16s K G_800E7ED6;
       State_Monad.return (radius, angle)
     }
      else do {
        (if sel = 1 then do {
          e1 \<leftarrow> r32 K (owner + 0xDC);
          v25 \<leftarrow> r16 K (e1 + 0x2C);
          w16 K (obj + 0x2E) v25;
          v26 \<leftarrow> r16s K (e1 + 0x30);
          v27 \<leftarrow> r16s K (obj + 0x60);
          w16 K (obj + 0x32) (v26 + v27);
          v28 \<leftarrow> r16 K (e1 + 0x34);
          w16 K (obj + 0x36) v28
        }
         else if sel = 2 then do {
           eA \<leftarrow> r32 K (owner + 0xD0);
           eB \<leftarrow> r32 K (owner + 0xDC);
           v31 \<leftarrow> r32 K (eA + 0x2C);
           v32 \<leftarrow> r32 K (eB + 0x2C);
           let sumX = v31 + v32;
           w16 K (obj + 0x2E) (sdiv sumX 2);
           v33 \<leftarrow> r32 K (eA + 0x30);
           v34 \<leftarrow> r32 K (eB + 0x30);
           let sumY = v33 + v34;
           v35 \<leftarrow> r16s K (obj + 0x60);
           w16 K (obj + 0x32) (sdiv sumY 2 + v35);
           v36 \<leftarrow> r32 K (eA + 0x34);
           v37 \<leftarrow> r32 K (eB + 0x34);
           let sumZ = v36 + v37;
           w16 K (obj + 0x36) (sdiv sumZ 2)
         }
          else if sel = 3 then do {
            let roundShiftR13 = (\<lambda>v. State_Monad.return (sar 13 (v - (sar 31 v))));
            e1 \<leftarrow> r32 K (owner + 0xC0);
            ownerAngle \<leftarrow> r16s K (owner + 0x56);
            ownerRadius \<leftarrow> r16s K (owner + 0x80);
            v41 \<leftarrow> rcos K ownerAngle;
            let px = v41 * ownerRadius;
            v42 \<leftarrow> r16s K (e1 + 0x2C);
            v43 \<leftarrow> roundShiftR13 px;
            w16 K (obj + 0x2E) (v42 - (as_s16 v43));
            v44 \<leftarrow> r16 K (e1 + 0x30);
            w16 K (obj + 0x32) v44;
            v45 \<leftarrow> rsin K ownerAngle;
            let pz = v45 * ownerRadius;
            v46 \<leftarrow> r16s K (obj + 0x32);
            v47 \<leftarrow> r16s K (obj + 0x60);
            w16 K (obj + 0x32) (v46 + v47);
            v48 \<leftarrow> r16s K (e1 + 0x34);
            v49 \<leftarrow> roundShiftR13 pz;
            w16 K (obj + 0x36) (v48 + as_s16 v49)
          }
           else if sel = 4 then do {
             e1 \<leftarrow> r32 K (owner + 0xD0);
             v51 \<leftarrow> r16 K (e1 + 0x2C);
             w16 K (obj + 0x2E) v51;
             v52 \<leftarrow> r16s K (e1 + 0x30);
             v53 \<leftarrow> r16s K (obj + 0x60);
             w16 K (obj + 0x32) (v52 + v53);
             v54 \<leftarrow> r16 K (e1 + 0x34);
             w16 K (obj + 0x36) v54
           }
            else if sel = 5 then do {
              e1 \<leftarrow> r32 K G_800E7F5C;
              v56 \<leftarrow> r16 K (e1 + 0x2C);
              w16 K (obj + 0x2E) v56;
              v57 \<leftarrow> r16s K (e1 + 0x30);
              v58 \<leftarrow> r16s K (obj + 0x60);
              w16 K (obj + 0x32) (v57 + v58);
              v59 \<leftarrow> r16 K (e1 + 0x34);
              w16 K (obj + 0x36) v59
            }
             else if sel = 6 then do {
               e1 \<leftarrow> r32 K G_800E7F50;
               v61 \<leftarrow> r16 K (e1 + 0x2C);
               w16 K (obj + 0x2E) v61;
               v62 \<leftarrow> r16s K (e1 + 0x30);
               v63 \<leftarrow> r16s K (obj + 0x60);
               w16 K (obj + 0x32) (v62 + v63);
               v64 \<leftarrow> r16 K (e1 + 0x34);
               w16 K (obj + 0x36) v64
             }
              else only_if (sel = 7) (do {
                e1 \<leftarrow> r32 K (owner + 0xE4);
                v66 \<leftarrow> r16 K (e1 + 0x2C);
                w16 K (obj + 0x2E) v66;
                v67 \<leftarrow> r16s K (e1 + 0x30);
                v68 \<leftarrow> r16s K (obj + 0x60);
                w16 K (obj + 0x32) (v67 + v68);
                v69 \<leftarrow> r16 K (e1 + 0x34);
                w16 K (obj + 0x36) v69
              }));
        State_Monad.return (radius, angle)
      })
      else State_Monad.return (radius, angle));
     v70 \<leftarrow> rcos K angle;
     let xOff = v70 * radius;
     v71 \<leftarrow> r16s K (obj + 0x2E);
     w16 K (obj + 0x2E) (v71 + (as_s16 (sar 12 xOff)));
     v72 \<leftarrow> rsin K angle;
     let zOff = v72 * radius;
     v73 \<leftarrow> r16s K (obj + 0x36);
     w16 K (obj + 0x36) (v73 + (as_s16 (sar 12 (- zOff))));
     resolve_position_epilogue K
   }"

definition actor_reward_update_l889 :: "'c core_ops \<Rightarrow> u32 \<Rightarrow> u32
    \<Rightarrow> ('c, unit) state" where
  "actor_reward_update_l889 K flags5f obj = do {
     (if (flags5f AND 0x80) = 0 then do {
       setr K (unat R_A0) obj;
       setr K 31 0x80070168;
       call_guest K FN_517F8
     }
      else do {
        setr K (unat R_A0) obj;
        setr K 31 0x80070158;
        call_guest K FN_77B5C
      });
     update_epilogue K
   }"

definition actor_reward_update_l784 :: "'c core_ops \<Rightarrow> u32 \<Rightarrow> ('c, unit)
    state" where
  "actor_reward_update_l784 K obj = do {
     let result1 = (0 :: u32);
     v20 \<leftarrow> r8 K (obj + 3);
     result1 \<leftarrow> (if v20 = 0 then do {
       setr K (unat R_A0) obj;
       setr K (unat R_A1) 1;
       setr K 31 0x800701C8;
       actor_reward_sm_tally_tick K;
       reg K (unat R_V0)
     }
      else if v20 = 1 then do {
        setr K (unat R_A0) obj;
        setr K (unat R_A1) 2;
        setr K 31 0x800701DC;
        actor_reward_sm_tally_tick K;
        reg K (unat R_V0)
      }
       else if v20 = 4 then do {
         setr K (unat R_A0) obj;
         setr K (unat R_A1) 100;
         setr K 31 0x800701F0;
         call_guest K FN_B3F4;
         reg K (unat R_V0)
       }
        else if v20 = 5 then do {
          setr K (unat R_A0) obj;
          setr K (unat R_A1) 200;
          setr K 31 0x80070204;
          call_guest K FN_B3F4;
          reg K (unat R_V0)
        }
         else if v20 = 6 then do {
           setr K (unat R_A0) obj;
           setr K (unat R_A1) 500;
           setr K 31 0x80070218;
           call_guest K FN_B3F4;
           reg K (unat R_V0)
         }
          else if v20 = 7 then do {
            setr K (unat R_A0) obj;
            setr K (unat R_A1) 1000;
            setr K 31 0x8007022C;
            call_guest K FN_B3F4;
            reg K (unat R_V0)
          }
           else if v20 = 0xB then do {
             setr K (unat R_A0) obj;
             setr K (unat R_A1) 100000;
             setr K 31 0x80070244;
             call_guest K FN_B3F4;
             reg K (unat R_V0)
           }
            else if v20 = 0xF then do {
              setr K (unat R_A0) obj;
              setr K 31 0x80070254;
              call_guest K FN_A118;
              reg K (unat R_V0)
            }
             else if v20 = 0x10 then do {
               setr K (unat R_A0) obj;
               setr K 31 0x80070264;
               call_guest K FN_A2A0;
               reg K (unat R_V0)
             }
              else if v20 = 0x11 then do {
                setr K (unat R_A0) obj;
                setr K 31 0x80070274;
                call_guest K FN_B428;
                reg K (unat R_V0)
              }
               else State_Monad.return result1);
     (if result1 = 0 then update_epilogue K else do { w8 K (obj + 4) 3; update_epilogue K })
   }"

definition actor_reward_update_l784b where
  "actor_reward_update_l784b K obj = do {
     v19 \<leftarrow> r8 K (obj + 0x5F);
     (if (v19 AND 2) \<noteq> 0 then actor_reward_update_l784 K obj
      else do {
        setr K (unat R_A0) obj;
        setr K 31 0x80070290;
        actor_reward_sm_event_dispatch K;
        v31 \<leftarrow> reg K (unat R_V0);
        (if v31 = 0 then update_epilogue K else do { w8 K (obj + 4) 3; update_epilogue K })
      })
   }"

definition actor_reward_update_l784c where
  "actor_reward_update_l784c K obj = do {
     v18 \<leftarrow> r8 K (obj + 0x5F);
     (if (v18 AND 1) \<noteq> 0 then actor_reward_update_l784b K obj
      else do { w8 K (obj + 4) 3; update_epilogue K })
   }"

definition actor_reward_update_l757 :: "'c core_ops \<Rightarrow> u32 \<Rightarrow> u32
    \<Rightarrow> (u32 \<Rightarrow> bool \<Rightarrow> ('c, unit) state) \<Rightarrow> ('c, unit)
    state" where
  "actor_reward_update_l757 K state1 obj rest1 = (if state1 < 2 then (if state1 \<noteq> 0 then
      update_epilogue K
    else do { w8 K (obj + 4) 1; update_epilogue K })
    else if state1 \<noteq> 2 then (if state1 \<noteq> 3 then update_epilogue K
     else do {
       setr K (unat R_A0) obj;
       setr K 31 0x800702AC;
       call_guest K FN_A624;
       update_epilogue K
     })
     else do {
       v17 \<leftarrow> r16s K (obj + 0x74);
       (if v17 = 0 then actor_reward_update_l784c K obj
        else do {
          v32 \<leftarrow> r16s K (obj + 0x74);
          w16 K (obj + 0x74) (v32 - 1);
          v33 \<leftarrow> r32 K (obj + 0x10);
          setr K 17 v33;
          r17_34 \<leftarrow> reg K 17;
          v35 \<leftarrow> r8 K (r17_34 + 1);
          let next1 = as_s8 v35;
          w8 K (obj + 1) next1;
          (if next1 = 0 then update_epilogue K
           else do {
             flags5f \<leftarrow> r8 K (obj + 0x5F);
             let haveFlags = True;
             rest1 flags5f haveFlags
           })
        })
     })"

definition actor_reward_update :: "'c core_ops \<Rightarrow> ('c, unit) state" where
  "actor_reward_update K = do {
     ra \<leftarrow> reg K 31;
     sp \<leftarrow> reg K 29;
     s0 \<leftarrow> reg K 16;
     s1 \<leftarrow> reg K 17;
     setr K 29 (sp - 32);
     r29_5 \<leftarrow> reg K 29;
     w32 K (r29_5 + 16) s0;
     v6 \<leftarrow> reg K (unat R_A0);
     setr K 16 v6;
     w32 K (r29_5 + 24) ra;
     w32 K (r29_5 + 20) s1;
     obj \<leftarrow> reg K 16;
     state1 \<leftarrow> r8 K (obj + 4);
     let flags5f = (0 :: u32);
     let haveFlags = False;
     let rest1 = (\<lambda>flags5f haveFlags. actor_reward_update_l889 K flags5f obj);
     (if state1 = 1 then do {
       v9 \<leftarrow> r8s K (obj + 0xBE);
       v10 \<leftarrow> r8 K G_BF816;
       (if v9 \<noteq> 0 \<and> v10 = 0 then do { w8 K (obj + 4) 2; update_epilogue K }
        else do {
          v11 \<leftarrow> r32 K (obj + 0x10);
          setr K 17 v11;
          v12 \<leftarrow> r8 K (obj + 5);
          (if v12 = 0 then do {
            setr K (unat R_A0) obj;
            setr K 31 0x800700C8;
            actor_reward_resolve_position K
          }
           else do {
             v13 \<leftarrow> r8 K (obj + 5);
             only_if (v13 = 1) (do {
               setr K (unat R_A0) obj;
               setr K 31 0x800700D8;
               actor_reward_approach_target_x K
             })
           });
          r17_14 \<leftarrow> reg K 17;
          v15 \<leftarrow> r8 K (r17_14 + 1);
          let next1 = as_s8 v15;
          w8 K (obj + 1) next1;
          (if next1 = 0 then update_epilogue K
           else do {
             flags5f \<leftarrow> r8 K (obj + 0x5F);
             let haveFlags = True;
             rest1 flags5f haveFlags
           })
        })
     }
      else actor_reward_update_l757 K state1 obj rest1)
   }"

end
