(* ===== verification/AssemblyRiders.thy ===== *)
theory AssemblyRiders
  imports ObjectViews
begin

text \<open>
  Riders and companions of a moving assembly, and its sway schedule.
\<close>

section \<open>Layout\<close>

definition kRideStateJumpTable :: u32 where "kRideStateJumpTable = 0x8010970C"
definition kRideStateCount :: u32 where "kRideStateCount = 5"
definition kRideStateRide :: u32 where "kRideStateRide = 1"
definition kRideStateHop :: u32 where "kRideStateHop = 2"
definition kRideStateFling :: u32 where "kRideStateFling = 3"
definition kRideStateDormant :: u32 where "kRideStateDormant = 4"
definition kEntryInit :: u32 where "kEntryInit = 0x80118B7C"
definition kEntryRide :: u32 where "kEntryRide = 0x80118BC8"
definition kEntryHop :: u32 where "kEntryHop = 0x80118C6C"
definition kEntryFling :: u32 where "kEntryFling = 0x80118D5C"
definition kEntryDormant :: u32 where "kEntryDormant = 0x80118D7C"
definition kVariantTagSlot3 :: u32 where "kVariantTagSlot3 = 200"
definition kVariantTagSlot2 :: u32 where "kVariantTagSlot2 = 204"
definition kArmEndSlotForTag200 :: u32 where "kArmEndSlotForTag200 = 3"
definition kArmEndSlotForTag204 :: u32 where "kArmEndSlotForTag204 = 2"
definition kSceneTagSlot3 :: u32 where "kSceneTagSlot3 = 10"
definition kSceneTagSlot2 :: u32 where "kSceneTagSlot2 = 1"
definition kRiderHeightAboveArmEnd :: u32 where "kRiderHeightAboveArmEnd = 140"
definition kHopLaunchVelY :: u32 where "kHopLaunchVelY = 0xF800"
definition kHopGravityFirstBounce :: u32 where "kHopGravityFirstBounce = 384"
definition kHopGravitySecondBounce :: u32 where "kHopGravitySecondBounce = 768"
definition kHopPhaseLaunch :: u32 where "kHopPhaseLaunch = 0"
definition kHopPhaseFirstBounce :: u32 where "kHopPhaseFirstBounce = 1"
definition kHopPhaseSecondBounce :: u32 where "kHopPhaseSecondBounce = 2"
definition kModeStrokeStarting :: u32 where "kModeStrokeStarting = 1"
definition kModeCommandedFirst :: u32 where "kModeCommandedFirst = 2"
definition kModeCommandedWindow :: u32 where "kModeCommandedWindow = 2"
definition kContactPlayerBearing :: u32 where "kContactPlayerBearing = 2"
definition kCullEnqueueQueueC :: u32 where "kCullEnqueueQueueC = 0x80077EFC"
definition kActorBoundsCull :: u32 where "kActorBoundsCull = 0x8007778C"
definition kRaAfterSubmit :: u32 where "kRaAfterSubmit = 0x80118C64"
definition kRaAfterHopCull :: u32 where "kRaAfterHopCull = 0x80118C74"
definition kRaAfterFlingCull :: u32 where "kRaAfterFlingCull = 0x80118D64"
definition kRaAfterFling :: u32 where "kRaAfterFling = 0x80118D74"
definition kRaAfterDormantCull :: u32 where "kRaAfterDormantCull = 0x80118D84"
definition kExitV0 :: u32 where "kExitV0 = 4"
definition kScheduleTable :: u32 where "kScheduleTable = 0x80109D7C"
definition kSchedulePhases :: u32 where "kSchedulePhases = 6"
definition kPhaseSeed :: u32 where "kPhaseSeed = 0x8012D2B4"
definition kPhaseHoldFast :: u32 where "kPhaseHoldFast = 0x8012D314"
definition kPhaseEaseMedium :: u32 where "kPhaseEaseMedium = 0x8012D334"
definition kPhaseHoldMedium :: u32 where "kPhaseHoldMedium = 0x8012D350"
definition kPhaseEaseIdle :: u32 where "kPhaseEaseIdle = 0x8012D370"
definition kPhaseSettled :: u32 where "kPhaseSettled = 0x8012D39C"
definition kPhaseIndexHoldFast :: u32 where "kPhaseIndexHoldFast = 1"
definition kPhaseIndexHoldMedium :: u32 where "kPhaseIndexHoldMedium = 3"
definition kPhaseIndexSettled :: u32 where "kPhaseIndexSettled = 5"
definition kRateFast :: u32 where "kRateFast = 256"
definition kRateMedium :: u32 where "kRateMedium = 192"
definition kRateIdle :: u32 where "kRateIdle = 16"
definition kEaseMediumStep :: u32 where "kEaseMediumStep = 16"
definition kEaseMediumStop :: u32 where "kEaseMediumStop = 0xC1"
definition kEaseIdleStep :: u32 where "kEaseIdleStep = 8"
definition kEaseIdleStop :: u32 where "kEaseIdleStop = 0x11"
definition kEventStepPastFirstSlowdown :: u32 where "kEventStepPastFirstSlowdown = 8"
definition kEventStepFirstSlowdown :: u32 where "kEventStepFirstSlowdown = 7"
definition kEventStepSecondSlowdown :: u32 where "kEventStepSecondSlowdown = 17"
definition kVariantNarrow :: u32 where "kVariantNarrow = 2"
definition kVariantReverse :: u32 where "kVariantReverse = 3"
definition kVariantWideMax :: u32 where "kVariantWideMax = 3"
definition kRaAfterWideSway :: u32 where "kRaAfterWideSway = 0x8012D3D4"
definition kRaAfterNarrowSway :: u32 where "kRaAfterNarrowSway = 0x8012D3E4"
definition kRaAfterReverseSway :: u32 where "kRaAfterReverseSway = 0x8012D3F4"

section \<open>\<open>game/ai/assembly_rider.cpp\<close>\<close>

definition assembly_rider_ride_slot_and_react_to_stroke_l311 :: "'c core_ops \<Rightarrow> ('c,
    'a) state \<Rightarrow> ('c, 'a) state" where
  "assembly_rider_ride_slot_and_react_to_stroke_l311 K tail = do {
     r16_3 \<leftarrow> reg K 16;
     setr K 4 r16_3;
     _ \<leftarrow> dispatch_jal K kActorBoundsCull kRaAfterDormantCull [];
     tail
   }"

definition assembly_rider_ride_slot_and_react_to_stroke_l300 :: "'c core_ops \<Rightarrow> ('c,
    'a) state \<Rightarrow> ('c, 'a) state" where
  "assembly_rider_ride_slot_and_react_to_stroke_l300 K tail = do {
     r16_4 \<leftarrow> reg K 16;
     setr K 4 r16_4;
     _ \<leftarrow> dispatch_jal K kActorBoundsCull kRaAfterFlingCull [];
     r16_5 \<leftarrow> reg K 16;
     setr K 4 r16_5;
     r17_6 \<leftarrow> reg K 17;
     setr K 5 r17_6;
     r18_7 \<leftarrow> reg K 18;
     setr K 6 r18_7;
     _ \<leftarrow> dispatch_jal K 0x801189B8 kRaAfterFling [];
     tail
   }"

definition assembly_rider_ride_slot_and_react_to_stroke_l288 :: "'c core_ops \<Rightarrow> ('c,
    'a) state \<Rightarrow> ('c, 'a) state" where
  "assembly_rider_ride_slot_and_react_to_stroke_l288 K tail = do {
     r18_8 \<leftarrow> reg K 18;
     r16_9 \<leftarrow> reg K 16;
     v10 \<leftarrow> assembly_rider_pos_y_fixed K r16_9;
     v11 \<leftarrow> assembly_rider_vel_y K r16_9;
     assembly_rider_set_pos_y_fixed K r16_9 (v10 + shl v11 8);
     v12 \<leftarrow> assembly_rider_vel_y_u K r16_9;
     v13 \<leftarrow> assembly_rider_accel_y_u K r16_9;
     assembly_rider_set_vel_y K r16_9 (as_u16 (v12 + v13));
     v14 \<leftarrow> assembly_part_anchor_y32 K r18_8;
     v15 \<leftarrow> assembly_rider_pos_y K r16_9;
     (if v15 \<le>s v14 - kRiderHeightAboveArmEnd then tail
      else do {
        assembly_rider_set_ride_state K r16_9 kRideStateRide;
        assembly_rider_set_motion_phase K r16_9 kHopPhaseLaunch;
        tail
      })
   }"

definition assembly_rider_ride_slot_and_react_to_stroke_l275 :: "'c core_ops \<Rightarrow> ('c,
    'a) state \<Rightarrow> ('c, 'a) state" where
  "assembly_rider_ride_slot_and_react_to_stroke_l275 K tail = do {
     r18_16 \<leftarrow> reg K 18;
     r16_17 \<leftarrow> reg K 16;
     v18 \<leftarrow> assembly_rider_pos_y_fixed K r16_17;
     v19 \<leftarrow> assembly_rider_vel_y K r16_17;
     assembly_rider_set_pos_y_fixed K r16_17 (v18 + shl v19 8);
     v20 \<leftarrow> assembly_rider_vel_y_u K r16_17;
     v21 \<leftarrow> assembly_rider_accel_y_u K r16_17;
     assembly_rider_set_vel_y K r16_17 (as_u16 (v20 + v21));
     v22 \<leftarrow> assembly_part_anchor_y32 K r18_16;
     v23 \<leftarrow> assembly_rider_pos_y K r16_17;
     (if v23 \<le>s v22 - kRiderHeightAboveArmEnd then tail
      else do {
        assembly_rider_set_vel_y K r16_17 kHopLaunchVelY;
        assembly_rider_set_accel_y K r16_17 kHopGravitySecondBounce;
        v24 \<leftarrow> assembly_rider_motion_phase K r16_17;
        assembly_rider_set_motion_phase K r16_17 (as_u8 (v24 + 1));
        tail
      })
   }"

definition assembly_rider_ride_slot_and_react_to_stroke :: "'c core_ops \<Rightarrow> u32
    \<Rightarrow> ('c, unit) state" where
  "assembly_rider_ride_slot_and_react_to_stroke K mAt = with_frame K 32 [(16, 16), (31, 28), (18,
      24), (17, 20)] (do {
     let tail = (do {
       r16_1 \<leftarrow> reg K 16;
       setr K 2 kExitV0;
       v2 \<leftarrow> assembly_rider_contact_state K r16_1;
       only_if (v2 = kContactPlayerBearing) (assembly_rider_set_ride_state K r16_1
           kRideStateDormant)
     });
     let state_dormant = (assembly_rider_ride_slot_and_react_to_stroke_l311 K tail);
     let state_fling = (assembly_rider_ride_slot_and_react_to_stroke_l300 K tail);
     let hop_bounce_two = (assembly_rider_ride_slot_and_react_to_stroke_l288 K tail);
     let hop_bounce_one = (assembly_rider_ride_slot_and_react_to_stroke_l275 K tail);
     let state_hop = (do {
       r16_25 \<leftarrow> reg K 16;
       setr K 4 r16_25;
       _ \<leftarrow> dispatch_jal K kActorBoundsCull kRaAfterHopCull [];
       phase \<leftarrow> assembly_rider_motion_phase K r16_25;
       (if phase = kHopPhaseFirstBounce then hop_bounce_one
        else if 2 \<le>s phase then (if phase = kHopPhaseSecondBounce then hop_bounce_two
         else tail)
         else if phase \<noteq> kHopPhaseLaunch then tail
          else do {
            assembly_rider_set_vel_y K r16_25 kHopLaunchVelY;
            assembly_rider_set_motion_phase K r16_25 kHopPhaseFirstBounce;
            assembly_rider_set_accel_y K r16_25 kHopGravityFirstBounce;
            hop_bounce_one
          })
     });
     let submit = (do {
       r18_27 \<leftarrow> reg K 18;
       r16_28 \<leftarrow> reg K 16;
       v29 \<leftarrow> assembly_part_anchor_x16 K r18_27;
       assembly_rider_set_pos_x K r16_28 (as_u16 v29);
       v30 \<leftarrow> assembly_part_anchor_y16 K r18_27;
       assembly_rider_set_pos_y K r16_28 (as_u16 (v30 - kRiderHeightAboveArmEnd));
       v31 \<leftarrow> assembly_part_anchor_z16 K r18_27;
       assembly_rider_set_pos_z K r16_28 (as_u16 v31);
       r16_32 \<leftarrow> reg K 16;
       setr K 4 r16_32;
       _ \<leftarrow> dispatch_jal K kCullEnqueueQueueC kRaAfterSubmit [];
       tail
     });
     let state_ride = (do {
       r17_33 \<leftarrow> reg K 17;
       r16_34 \<leftarrow> reg K 16;
       pumpVisible \<leftarrow> ridden_assembly_visible K r17_33;
       assembly_rider_set_visible K r16_34 (as_u8 pumpVisible);
       (if pumpVisible = 0 then tail
        else do {
          mode \<leftarrow> assembly_node_mode_byte K r17_33;
          (if mode = kModeStrokeStarting then do {
            assembly_rider_set_ride_state K r16_34 kRideStateHop;
            assembly_rider_set_motion_phase K r16_34 kHopPhaseLaunch;
            submit
          }
           else do {
             b39 \<leftarrow> (if ((mode - kModeCommandedFirst) AND 0xFF) < kModeCommandedWindow
                 then do {
               v37 \<leftarrow> assembly_node_angle_selector K r17_33;
               v38 \<leftarrow> assembly_rider_slot K r16_34;
               State_Monad.return (v37 = v38)
             }
              else State_Monad.return False);
             only_if b39 (do {
               assembly_rider_set_ride_state K r16_34 kRideStateFling;
               assembly_rider_set_motion_phase K r16_34 kHopPhaseLaunch;
               v40 \<leftarrow> assembly_node_mode_byte K r17_33;
               assembly_rider_set_fling_side K r16_34 (as_u8 v40)
             });
             submit
           })
        })
     });
     let state_init1 = (do {
       r16_41 \<leftarrow> reg K 16;
       assembly_rider_set_alive K r16_41 1;
       v42 \<leftarrow> assembly_rider_ride_state K r16_41;
       assembly_rider_set_ride_state K r16_41 (as_u8 (v42 + 1));
       tag1 \<leftarrow> assembly_rider_variant_tag K r16_41;
       (if tag1 = kVariantTagSlot3 then do {
         assembly_rider_set_scene_tag K r16_41 kSceneTagSlot3;
         assembly_rider_set_slot K r16_41 (as_u8 kArmEndSlotForTag200);
         tail
       }
        else if tag1 \<noteq> kVariantTagSlot2 then tail
         else do {
           assembly_rider_set_scene_tag K r16_41 kSceneTagSlot2;
           assembly_rider_set_slot K r16_41 (as_u8 kArmEndSlotForTag204);
           tail
         })
     });
     r4_44 \<leftarrow> reg K 4;
     setr K 16 r4_44;
     r16_45 \<leftarrow> reg K 16;
     v46 \<leftarrow> assembly_rider_owner K r16_45;
     setr K 17 v46;
     r17_47 \<leftarrow> reg K 17;
     v48 \<leftarrow> assembly_rider_variant_tag K r16_45;
     v49 \<leftarrow> assembly_node_child_ptr K r17_47 (if v48 = kVariantTagSlot3 then
         kArmEndSlotForTag200 else kArmEndSlotForTag204);
     setr K 18 v49;
     r18_50 \<leftarrow> reg K 18;
     state1 \<leftarrow> assembly_rider_ride_state K r16_45;
     (if kRideStateCount \<le> state1 then tail
      else do {
        entry \<leftarrow> r32 K (kRideStateJumpTable + state1 * 4);
        (if entry = kEntryInit then state_init1
         else if entry = kEntryRide then state_ride
          else if entry = kEntryHop then state_hop
           else if entry = kEntryFling then state_fling
            else if entry = kEntryDormant then state_dormant else call_guest K entry)
      })
   })"

section \<open>\<open>game/ai/sway_schedule.cpp\<close>\<close>

definition sway_schedule_advance_rate_then_sway :: "'c core_ops \<Rightarrow> ('c, unit) state"
    where
  "sway_schedule_advance_rate_then_sway K = with_frame K 24 [(31, 16)] (do {
     r4_1 \<leftarrow> reg K 4;
     let phaseComplete = False;
     phase \<leftarrow> sway_node_phase K r4_1;
     let rest1 = (do {
       variant \<leftarrow> sway_node_variant K r4_1;
       (if variant < kVariantWideMax \<and> variant \<noteq> kVariantNarrow then do {
         setr K 4 r4_1;
         _ \<leftarrow> dispatch_jal K 0x8012CF4C kRaAfterWideSway [];
         State_Monad.return ()
       }
        else if variant = kVariantNarrow then do {
          setr K 4 r4_1;
          _ \<leftarrow> dispatch_jal K 0x8012D05C kRaAfterNarrowSway [];
          State_Monad.return ()
        }
         else only_if (variant = kVariantReverse) (do {
           setr K 4 r4_1;
           _ \<leftarrow> dispatch_jal K 0x8012D16C kRaAfterReverseSway [];
           State_Monad.return ()
         }))
     });
     (if phase < kSchedulePhases then do {
       phaseBody \<leftarrow> r32 K (kScheduleTable + phase * 4);
       (if phaseBody = kPhaseSeed then do {
         v5 \<leftarrow> area_sequence_is_finished K;
         (if v5 then do {
           sway_node_set_phase K r4_1 kPhaseIndexSettled;
           sway_node_set_rate K r4_1 kRateIdle
         }
          else do {
            v6 \<leftarrow> area_sequence_event_step K;
            (if kEventStepPastFirstSlowdown \<le> v6 then do {
              sway_node_set_phase K r4_1 kPhaseIndexHoldMedium;
              sway_node_set_rate K r4_1 kRateMedium
            }
             else do {
               sway_node_set_phase K r4_1 kPhaseIndexHoldFast;
               sway_node_set_rate K r4_1 kRateFast
             })
          });
         only_if phaseComplete (do {
           v7 \<leftarrow> sway_node_phase K r4_1;
           sway_node_set_phase K r4_1 (as_u8 (v7 + 1))
         });
         rest1
       }
        else if phaseBody = kPhaseHoldFast then do {
          v8 \<leftarrow> area_sequence_event_step K;
          let phaseComplete = kEventStepFirstSlowdown \<le> v8;
          only_if phaseComplete (do {
            v9 \<leftarrow> sway_node_phase K r4_1;
            sway_node_set_phase K r4_1 (as_u8 (v9 + 1))
          });
          rest1
        }
         else if phaseBody = kPhaseEaseMedium then do {
           v10 \<leftarrow> sway_node_rate K r4_1;
           phaseComplete \<leftarrow> (if v10 <s kEaseMediumStop then State_Monad.return True
            else do {
              v11 \<leftarrow> sway_node_rate_u K r4_1;
              sway_node_set_rate K r4_1 (as_u16 (v11 - kEaseMediumStep));
              State_Monad.return phaseComplete
            });
           only_if phaseComplete (do {
             v12 \<leftarrow> sway_node_phase K r4_1;
             sway_node_set_phase K r4_1 (as_u8 (v12 + 1))
           });
           rest1
         }
          else if phaseBody = kPhaseHoldMedium then do {
            v13 \<leftarrow> area_sequence_event_step K;
            let phaseComplete = kEventStepSecondSlowdown \<le> v13;
            only_if phaseComplete (do {
              v14 \<leftarrow> sway_node_phase K r4_1;
              sway_node_set_phase K r4_1 (as_u8 (v14 + 1))
            });
            rest1
          }
           else if phaseBody = kPhaseEaseIdle then do {
             v15 \<leftarrow> sway_node_rate K r4_1;
             phaseComplete \<leftarrow> (if v15 <s kEaseIdleStop then State_Monad.return True
              else do {
                v16 \<leftarrow> sway_node_rate_u K r4_1;
                sway_node_set_rate K r4_1 (as_u16 (v16 - kEaseIdleStep));
                State_Monad.return phaseComplete
              });
             only_if phaseComplete (do {
               v17 \<leftarrow> sway_node_phase K r4_1;
               sway_node_set_phase K r4_1 (as_u8 (v17 + 1))
             });
             rest1
           }
            else if phaseBody = kPhaseSettled then do {
              only_if phaseComplete (do {
                v18 \<leftarrow> sway_node_phase K r4_1;
                sway_node_set_phase K r4_1 (as_u8 (v18 + 1))
              });
              rest1
            }
             else call_guest K phaseBody)
     }
      else rest1)
   })"

end
