(* ===== verification/AssetDecoding.thy ===== *)
theory AssetDecoding
  imports ObjectViews
begin

text \<open>
  The decompressor of \<open>game/core/assets/asset.cpp\<close>, the unpacking of a group, and the
  string leaves of \<open>str.cpp\<close>.
\<close>

section \<open>Layout\<close>

definition LZ_OFFTAB_BASE :: u32 where "LZ_OFFTAB_BASE = 0x800153C8"

section \<open>\<open>game/core/assets/asset.cpp\<close>\<close>

definition asset_lz_decompress :: "'c core_ops \<Rightarrow> u32 \<Rightarrow> u32 \<Rightarrow>
    u32 \<Rightarrow> u32 \<Rightarrow> ('c, u32) state" where
  "asset_lz_decompress K desc dst src0 srclen = do {
     let src_end = src0 + srclen;
     stride1 \<leftarrow> r16s K (desc + 4);
     r29_2 \<leftarrow> reg K 29;
     setr K 29 (r29_2 - 32);
     offtab \<leftarrow> fold_each (upto_u32 8) (replicate 8 (0 :: u32)) (\<lambda>i offtab. do {
       base1 \<leftarrow> r32 K (LZ_OFFTAB_BASE + i * 8 + 0);
       factor \<leftarrow> r32 K (LZ_OFFTAB_BASE + i * 8 + 4);
       let offtab = offtab[unat i := base1 + (2 * (factor * stride1))];
       r29_5 \<leftarrow> reg K 29;
       w32 K (r29_5 + i * 4) (offtab ! (unat i));
       State_Monad.return offtab
     });
     let src = src0;
     let out = dst;
     (src, out) \<leftarrow> loop (\<lambda>(src, out). (if src < src_end then do {
       let old1_6 = src;
       let src = src + 1;
       ctrl \<leftarrow> r8 K old1_6;
       let len1 = shr ctrl 3;
       let mode = ctrl AND 7;
       (if mode \<noteq> 0 then do {
         let bsrc = out + (offtab ! (unat mode));
         (out, bsrc) \<leftarrow> fold_each (upto_u32 (unat len1)) (out, bsrc) (\<lambda>k (out,
             bsrc). do {
           let old1_8 = out;
           let out = out + 1;
           let old1_9 = bsrc;
           let bsrc = bsrc + 1;
           v10 \<leftarrow> r8 K old1_9;
           w8 K old1_8 v10;
           State_Monad.return (out, bsrc)
         });
         State_Monad.return (Inr (src, out))
       }
        else if len1 = 0 then State_Monad.return (Inl (src, out))
         else do {
           (src, out) \<leftarrow> fold_each (upto_u32 (unat len1)) (src, out) (\<lambda>k (src,
               out). do {
             let old1_11 = out;
             let out = out + 1;
             let old1_12 = src;
             let src = src + 1;
             v13 \<leftarrow> r8 K old1_12;
             w8 K old1_11 v13;
             State_Monad.return (src, out)
           });
           State_Monad.return (Inr (src, out))
         })
     }
      else State_Monad.return (Inl (src, out)))) (src, out);
     r29_14 \<leftarrow> reg K 29;
     setr K 29 (r29_14 + 32);
     State_Monad.return (out - dst)
   }"

definition asset_unpack_group_faithful :: "'c core_ops \<Rightarrow> u32 \<Rightarrow> u32
    \<Rightarrow> ('c, unit) state" where
  "asset_unpack_group_faithful K tablePtr anchorEnd = do {
     r29_1 \<leftarrow> reg K 29;
     setr K 29 (r29_1 - 48);
     sp \<leftarrow> reg K 29;
     r18_3 \<leftarrow> reg K 18;
     w32 K (sp + 24) r18_3;
     setr K 18 tablePtr;
     r22_4 \<leftarrow> reg K 22;
     w32 K (sp + 40) r22_4;
     setr K 22 anchorEnd;
     r21_5 \<leftarrow> reg K 21;
     w32 K (sp + 36) r21_5;
     setr K 21 (tablePtr + 2048);
     r31_6 \<leftarrow> reg K 31;
     w32 K (sp + 44) r31_6;
     r20_7 \<leftarrow> reg K 20;
     w32 K (sp + 32) r20_7;
     r19_8 \<leftarrow> reg K 19;
     w32 K (sp + 28) r19_8;
     r17_9 \<leftarrow> reg K 17;
     w32 K (sp + 20) r17_9;
     r16_10 \<leftarrow> reg K 16;
     w32 K (sp + 16) r16_10;
     r18_11 \<leftarrow> reg K 18;
     count1 \<leftarrow> r32 K r18_11;
     setr K 18 (r18_11 + 4);
     setr K 20 (count1 - 1);
     only_if (0 <s count1) (do {
       r18_13 \<leftarrow> reg K 18;
       setr K 19 (r18_13 - 6);
       loop (\<lambda>_. do {
         r19_14 \<leftarrow> reg K 19;
         setr K 19 (r19_14 + 12);
         r19_15 \<leftarrow> reg K 19;
         stride1 \<leftarrow> r16s K (r19_15 - 2);
         field1 \<leftarrow> r16s K (r19_15 + 0);
         r18_18 \<leftarrow> reg K 18;
         setr K 17 r18_18;
         setr K 18 (r18_18 + 8);
         r18_19 \<leftarrow> reg K 18;
         srclen \<leftarrow> r32 K r18_19;
         setr K 18 (r18_19 + 4);
         r21_21 \<leftarrow> reg K 21;
         setr K 6 r21_21;
         setr K 21 (r21_21 + srclen);
         r22_22 \<leftarrow> reg K 22;
         setr K 16 (r22_22 - ((2 * stride1) * field1));
         r17_23 \<leftarrow> reg K 17;
         setr K 4 r17_23;
         r16_24 \<leftarrow> reg K 16;
         setr K 5 r16_24;
         setr K 7 srclen;
         setr K 31 0x80044F10;
         r6_25 \<leftarrow> reg K 6;
         _ \<leftarrow> asset_lz_decompress K r17_23 r16_24 r6_25 srclen;
         r17_26 \<leftarrow> reg K 17;
         setr K 4 r17_26;
         r16_27 \<leftarrow> reg K 16;
         setr K 5 r16_27;
         setr K 31 0x80044F1C;
         call_guest K 0x80081218;
         setr K 4 0;
         setr K 31 0x80044F24;
         call_guest K 0x80080F6C;
         rem \<leftarrow> reg K 20;
         setr K 20 (rem - 1);
         (if rem \<le>s 0 then State_Monad.return (Inl ()) else State_Monad.return (Inr ()))
       }) ()
     });
     v29 \<leftarrow> r32 K (sp + 44);
     setr K 31 v29;
     v30 \<leftarrow> r32 K (sp + 40);
     setr K 22 v30;
     v31 \<leftarrow> r32 K (sp + 36);
     setr K 21 v31;
     v32 \<leftarrow> r32 K (sp + 32);
     setr K 20 v32;
     v33 \<leftarrow> r32 K (sp + 28);
     setr K 19 v33;
     v34 \<leftarrow> r32 K (sp + 24);
     setr K 18 v34;
     v35 \<leftarrow> r32 K (sp + 20);
     setr K 17 v35;
     v36 \<leftarrow> r32 K (sp + 16);
     setr K 16 v36;
     r29_37 \<leftarrow> reg K 29;
     setr K 29 (r29_37 + 48)
   }"

section \<open>\<open>game/core/assets/str.cpp\<close>\<close>

definition str_length :: "'c core_ops \<Rightarrow> u32 \<Rightarrow> ('c, u32) state" where
  "str_length K addr = do {
     let p = addr;
     let len1 = (0 :: u32);
     (p, len1) \<leftarrow> loop (\<lambda>(p, len1). do {
       v1 \<leftarrow> r8 K p;
       (if v1 \<noteq> 0 then do {
         let p = p + 1;
         let len1 = len1 + 1;
         State_Monad.return (Inr (p, len1))
       }
        else State_Monad.return (Inl (p, len1)))
     }) (p, len1);
     setr K 2 len1;
     State_Monad.return len1
   }"

definition str_copy_bytes :: "'c core_ops \<Rightarrow> u32 \<Rightarrow> u32 \<Rightarrow> u32
    \<Rightarrow> ('c, u32) state" where
  "str_copy_bytes K dst src n = (if dst = 0 then do {
     setr K 2 0;
     State_Monad.return 0
   }
    else do {
      let d = dst;
      (src, n, d) \<leftarrow> loop (\<lambda>(src, n, d). (if 0 <s n then do {
        v1 \<leftarrow> r8 K src;
        w8 K d v1;
        let d = d + 1;
        let src = src + 1;
        let n = n - 1;
        State_Monad.return (Inr (src, n, d))
      }
       else State_Monad.return (Inl (src, n, d)))) (src, n, d);
      setr K 2 dst;
      State_Monad.return dst
    })"

definition ov_str_length :: "'c core_ops \<Rightarrow> ('c, unit) state" where
  "ov_str_length K = do {
     r4_1 \<leftarrow> reg K 4;
     _ \<leftarrow> str_length K r4_1;
     r2_2 \<leftarrow> reg K 2;
     setr K 3 r2_2;
     r4_3 \<leftarrow> reg K 4;
     setr K 4 (r4_3 + r2_2)
   }"

definition ov_copy_bytes :: "'c core_ops \<Rightarrow> ('c, unit) state" where
  "ov_copy_bytes K = do {
     r4_1 \<leftarrow> reg K 4;
     r5_2 \<leftarrow> reg K 5;
     r6_3 \<leftarrow> reg K 6;
     _ \<leftarrow> str_copy_bytes K r4_1 r5_2 r6_3;
     State_Monad.return ()
   }"

definition str_compare_bytes :: "'c core_ops \<Rightarrow> ('c, unit) state" where
  "str_compare_bytes K = loop (\<lambda>pc1. (if pc1 = ''start'' then do {
     r4_1 \<leftarrow> reg K 4;
     r0_2 \<leftarrow> reg K 0;
     let t0 = (of_bool (r4_1 = r0_2) :: u32);
     (if t0 \<noteq> 0 then State_Monad.return (Inr ''L_8009A650'')
      else do {
        r5_3 \<leftarrow> reg K 5;
        let t0 = (of_bool (r5_3 \<noteq> r0_2) :: u32);
        (if t0 \<noteq> 0 then State_Monad.return (Inr ''L_8009A668'')
         else State_Monad.return (Inr ''L_8009A650''))
      })
   }
    else if pc1 = ''L_8009A650'' then do {
      r4_4 \<leftarrow> reg K 4;
      r5_5 \<leftarrow> reg K 5;
      let t0 = (of_bool (r4_4 = r5_5) :: u32);
      r0_6 \<leftarrow> reg K 0;
      setr K 2 (r0_6 + r0_6);
      (if t0 \<noteq> 0 then State_Monad.return (Inr ''L_8009A6B8'')
       else do {
         let t0 = (of_bool (r4_4 = r0_6) :: u32);
         setr K 2 (r0_6 + (-1));
         (if t0 \<noteq> 0 then State_Monad.return (Inr ''L_8009A6B8'')
          else do { setr K 2 (r0_6 + 1); State_Monad.return (Inr ''L_8009A6B8'') })
       })
    }
     else if pc1 = ''L_8009A668'' then do {
       r6_7 \<leftarrow> reg K 6;
       setr K 6 (r6_7 + (-1));
       r6_8 \<leftarrow> reg K 6;
       let t0 = (of_bool (r6_8 <s 0) :: u32);
       r0_9 \<leftarrow> reg K 0;
       setr K 2 (r0_9 + r0_9);
       (if t0 \<noteq> 0 then State_Monad.return (Inr ''L_8009A6B8'')
        else State_Monad.return (Inr ''L_8009A674''))
     }
      else if pc1 = ''L_8009A674'' then do {
        r4_10 \<leftarrow> reg K 4;
        v11 \<leftarrow> r8s K (r4_10 + 0);
        setr K 3 v11;
        r5_12 \<leftarrow> reg K 5;
        v13 \<leftarrow> r8s K (r5_12 + 0);
        setr K 2 v13;
        r3_14 \<leftarrow> reg K 3;
        r2_15 \<leftarrow> reg K 2;
        let t0 = (of_bool (r3_14 \<noteq> r2_15) :: u32);
        setr K 5 (r5_12 + 1);
        (if t0 \<noteq> 0 then State_Monad.return (Inr ''L_8009A69C'')
         else do {
           r0_16 \<leftarrow> reg K 0;
           let t0 = (of_bool (r3_14 = r0_16) :: u32);
           setr K 4 (r4_10 + 1);
           (if t0 \<noteq> 0 then State_Monad.return (Inr ''L_8009A6B4'')
            else do {
              r6_17 \<leftarrow> reg K 6;
              setr K 6 (r6_17 + (-1));
              r6_18 \<leftarrow> reg K 6;
              let t0 = (of_bool (0 \<le>s r6_18) :: u32);
              (if t0 \<noteq> 0 then State_Monad.return (Inr ''L_8009A674'')
               else State_Monad.return (Inr ''L_8009A69C''))
            })
         })
      }
       else if pc1 = ''L_8009A69C'' then do {
         r6_19 \<leftarrow> reg K 6;
         let t0 = (of_bool (r6_19 <s 0) :: u32);
         (if t0 \<noteq> 0 then State_Monad.return (Inr ''L_8009A6B4'')
          else do {
            r4_20 \<leftarrow> reg K 4;
            v21 \<leftarrow> r8s K (r4_20 + 0);
            setr K 3 v21;
            r5_22 \<leftarrow> reg K 5;
            v23 \<leftarrow> r8s K (r5_22 + (-1));
            setr K 2 v23;
            r3_24 \<leftarrow> reg K 3;
            r2_25 \<leftarrow> reg K 2;
            setr K 2 (r3_24 - r2_25);
            State_Monad.return (Inr ''L_8009A6B8'')
          })
       }
        else if pc1 = ''L_8009A6B4'' then do {
          r0_26 \<leftarrow> reg K 0;
          setr K 2 (r0_26 + r0_26);
          State_Monad.return (Inr ''L_8009A6B8'')
        }
         else State_Monad.return (Inl ()))) ''start''"

end
