(* ===== verification/AssetRefinement.thy ===== *)
theory AssetRefinement
  imports AssetDecoding
begin

text \<open>
  The image decompressor of \<open>game/core/assets/asset.cpp\<close> against a decoder on lists. \<open>bytes_at\<close> reads a byte
  string out of guest memory; \<open>lz_decode\<close> is what the stream means, with the distance of each of the
  seven back-reference modes as its parameter. The copy loops append to the string at the
  destination (\<open>back_copy\<close>, \<open>literal_copy\<close>), the setup loop fills the table of offsets
  (\<open>lz_setup_all\<close>), and the decoding loop returns and leaves the decoded string (\<open>lz_loop\<close>), by induction
  on the decoder.
\<close>

section \<open>Byte strings in guest memory\<close>

text \<open>The bytes \<open>xs\<close> lie at \<open>a\<close>.\<close>
definition bytes_at :: "'c core_ops \<Rightarrow> 'c \<Rightarrow> u32 \<Rightarrow> u8 list \<Rightarrow> bool" where
  "bytes_at K c a xs \<longleftrightarrow> (\<forall>i < length xs. mem_r8 K c (a + of_nat i) = xs ! i)"

text \<open>\<open>d\<close> differs from \<open>c\<close> in memory at most, and there within the \<open>n\<close> bytes from \<open>a\<close>.\<close>
definition changed_within :: "'c core_ops \<Rightarrow> u32 \<Rightarrow> nat \<Rightarrow> 'c \<Rightarrow> 'c \<Rightarrow> bool" where
  "changed_within K a n c d \<longleftrightarrow>
     (\<forall>x. in_ram x 1 \<longrightarrow> x \<notin> span a n \<longrightarrow> mem_r8 K d x = mem_r8 K c x) \<and>
     (\<forall>i. get_reg K d i = get_reg K c i)"

lemma changed_within_refl [simp]: "changed_within K a n c c"
  by (simp add: changed_within_def)

lemma changed_within_trans:
  "changed_within K a n c d \<Longrightarrow> changed_within K a n d e \<Longrightarrow> changed_within K a n c e"
  by (simp add: changed_within_def)

lemma offset_in:
  assumes "in_ram a n" "i < n"
  shows "in_ram (a + of_nat i) 1" "unat (a + of_nat i) = unat a + i" "a + of_nat i \<in> span a n"
proof -
  have i: "unat (of_nat i :: u32) = i"
    using assms in_ram_bound [OF assms(1)] by (simp add: unat_of_nat take_bit_nat_eq_self)
  have "unat (of_nat i :: u32) + 1 \<le> n" using i assms(2) by linarith
  with assms(1) show "in_ram (a + of_nat i) 1" by (rule in_ram_offset)
  show "unat (a + of_nat i) = unat a + i"
    using i assms in_ram_bound [OF assms(1)] by (simp add: unat_add_small)
  show "a + of_nat i \<in> span a n" using i assms by simp
qed

text \<open>The \<open>m\<close> bytes from \<open>b\<close> lie in RAM, clear of the \<open>n\<close> bytes from \<open>a\<close>.\<close>
definition clear_of :: "u32 \<Rightarrow> nat \<Rightarrow> u32 \<Rightarrow> nat \<Rightarrow> bool" where
  "clear_of a n b m \<longleftrightarrow> (\<forall>i < m. in_ram (b + of_nat i) 1 \<and> b + of_nat i \<notin> span a n)"

lemma bytes_at_kept:
  "bytes_at K c b xs \<Longrightarrow> changed_within K a n c d \<Longrightarrow> clear_of a n b (length xs) \<Longrightarrow> bytes_at K d b xs"
  by (simp add: bytes_at_def changed_within_def clear_of_def)

lemma clear_of_apart: "in_ram b m \<Longrightarrow> apart a n b m \<Longrightarrow> 0 < n \<Longrightarrow> clear_of a n b m"
  using offset_in [of b m] apart_byte [of a n b m] unfolding clear_of_def
  by (metis apart_def mem_span not_less)

lemma clear_of_drop: "clear_of a n b m \<Longrightarrow> k \<le> m \<Longrightarrow> clear_of a n (b + of_nat k) (m - k)"
proof -
  assume "clear_of a n b m" "k \<le> m"
  then have "in_ram (b + of_nat (k + i)) 1 \<and> b + of_nat (k + i) \<notin> span a n" if "i < m - k" for i
    using that unfolding clear_of_def by (metis less_diff_conv add.commute)
  then show ?thesis by (simp add: clear_of_def add.assoc)
qed

lemma clear_of_Suc: "clear_of a n b (Suc m) \<longleftrightarrow> in_ram b 1 \<and> b \<notin> span a n \<and> clear_of a n (b + 1) m"
  by (simp add: clear_of_def All_less_Suc2 add.assoc)

lemma bytes_at_Cons: "bytes_at K c a (x # xs) \<longleftrightarrow> mem_r8 K c a = x \<and> bytes_at K c (a + 1) xs"
  by (simp add: bytes_at_def All_less_Suc2 add.assoc)

lemma bytes_at_drop: "bytes_at K c a xs \<Longrightarrow> n \<le> length xs \<Longrightarrow> bytes_at K c (a + of_nat n) (drop n xs)"
  by (auto simp: bytes_at_def add.assoc simp flip: of_nat_add)

context guest_core
begin

text \<open>One byte appended to the string at \<open>a\<close>.\<close>
lemma bytes_at_snoc:
  assumes "bytes_at K c a xs" "in_ram a n" "length xs < n"
  shows "bytes_at K (mem_w8 K c (a + of_nat (length xs)) v) a (xs @ [v])"
    "changed_within K a n c (mem_w8 K c (a + of_nat (length xs)) v)"
proof -
  note here = offset_in [OF assms(2,3)]
  have "mem_r8 K (mem_w8 K c (a + of_nat (length xs)) v) (a + of_nat i) =
      (if i = length xs then v else mem_r8 K c (a + of_nat i))" if "i < Suc (length xs)" for i
  proof -
    have "i < n" using that assms(3) by simp
    note i = offset_in [OF assms(2) this]
    show ?thesis
      using here(2) i(2) by (auto simp: r8_w8 [OF here(1) i(1)])
  qed
  then show "bytes_at K (mem_w8 K c (a + of_nat (length xs)) v) a (xs @ [v])"
    using assms(1) by (simp add: bytes_at_def nth_append)
  show "changed_within K a n c (mem_w8 K c (a + of_nat (length xs)) v)"
    using here by (auto simp: changed_within_def r8_w8 reg_w8)
qed

end

section \<open>The reference decoder\<close>

text \<open>A back reference copies byte by byte, so that a run longer than its distance repeats itself.\<close>
fun lz_copy :: "nat \<Rightarrow> nat \<Rightarrow> u8 list \<Rightarrow> u8 list" where
  "lz_copy 0 dist out = out"
| "lz_copy (Suc n) dist out = lz_copy n dist (out @ [out ! (length out - dist)])"

text \<open>The stream as a whole: \<open>dist\<close> is the distance of each mode; \<open>None\<close> for a back reference before the
  start of the output and for a literal run past the end of the source.\<close>
function lz_decode :: "(nat \<Rightarrow> nat) \<Rightarrow> u8 list \<Rightarrow> u8 list \<Rightarrow> u8 list option" where
  "lz_decode dist [] out = Some out"
| "lz_decode dist (ctrl # bs) out =
     (let len = unat ctrl div 8; mode = unat ctrl mod 8 in
      if mode \<noteq> 0 then
        if 0 < dist mode \<and> dist mode \<le> length out then lz_decode dist bs (lz_copy len (dist mode) out) else None
      else if len = 0 then Some out
      else if len \<le> length bs then lz_decode dist (drop len bs) (out @ take len bs)
      else None)"
  by pat_completeness auto
termination by (relation "measure (\<lambda>(dist, bs, out). length bs)") auto

lemma length_lz_copy [simp]: "length (lz_copy n dist out) = length out + n"
  by (induction n arbitrary: out) simp_all

lemma lz_decode_longer: "lz_decode dist bs out = Some xs \<Longrightarrow> length out \<le> length xs"
proof (induction dist bs out rule: lz_decode.induct)
  case (2 dist ctrl bs out)
  show ?case
    using 2(3) 2(1) [OF refl refl] 2(2) [OF refl refl] by (auto simp: Let_def split: if_splits)
qed simp


section \<open>The copy loops\<close>

text \<open>The body of both: one byte, and the two cursors moved on.\<close>
definition copy_byte :: "'c core_ops \<Rightarrow> u32 \<Rightarrow> u32 \<times> u32 \<Rightarrow> ('c, u32 \<times> u32) state" where
  "copy_byte K k p = do {
     v \<leftarrow> r8 K (snd p);
     w8 K (fst p) v;
     State_Monad.return (fst p + 1, snd p + 1)
   }"

lemma run_copy_byte [simp]:
  "run_state (copy_byte K k (out, bsrc)) c = ((out + 1, bsrc + 1), mem_w8 K c out (mem_r8 K c bsrc))"
  by (simp add: copy_byte_def)

definition copy_literal :: "'c core_ops \<Rightarrow> u32 \<Rightarrow> u32 \<times> u32 \<Rightarrow> ('c, u32 \<times> u32) state" where
  "copy_literal K k p = do {
     v \<leftarrow> r8 K (fst p);
     w8 K (snd p) v;
     State_Monad.return (fst p + 1, snd p + 1)
   }"

lemma run_copy_literal [simp]:
  "run_state (copy_literal K k (src, out)) c = ((src + 1, out + 1), mem_w8 K c out (mem_r8 K c src))"
  by (simp add: copy_literal_def)

context guest_core
begin

lemma back_copy:
  assumes "bytes_at K c dst out" "0 < dist" "dist \<le> length out" "in_ram dst n" "length out + length ks \<le> n"
  shows "\<exists>d. run_state (fold_each ks (dst + of_nat (length out), dst + of_nat (length out - dist)) (copy_byte K)) c =
      ((dst + of_nat (length out + length ks), dst + of_nat (length out - dist + length ks)), d) \<and>
    bytes_at K d dst (lz_copy (length ks) dist out) \<and> changed_within K dst n c d"
  using assms
proof (induction ks arbitrary: out c)
  case (Cons k ks)
  let ?v = "mem_r8 K c (dst + of_nat (length out - dist))"
  let ?c = "mem_w8 K c (dst + of_nat (length out)) ?v" and ?out = "out @ [out ! (length out - dist)]"
  have "length out - dist < length out" using Cons.prems(2,3) by linarith
  then have v: "?v = out ! (length out - dist)" using Cons.prems(1) unfolding bytes_at_def by blast
  note put = bytes_at_snoc [OF Cons.prems(1,4), of ?v]
  have cursors: "dst + of_nat (length out) + 1 = dst + of_nat (length ?out)"
    "dst + of_nat (length out - dist) + 1 = dst + of_nat (length ?out - dist)"
    using Cons.prems(3) by (simp_all add: Suc_diff_le)
  obtain d where d: "run_state (fold_each ks (dst + of_nat (length ?out), dst + of_nat (length ?out - dist)) (copy_byte K)) ?c =
      ((dst + of_nat (length ?out + length ks), dst + of_nat (length ?out - dist + length ks)), d)"
    "bytes_at K d dst (lz_copy (length ks) dist ?out)" "changed_within K dst n ?c d"
    using Cons.IH [of ?c ?out] put Cons.prems v by auto
  have "run_state (fold_each (k # ks) (dst + of_nat (length out), dst + of_nat (length out - dist)) (copy_byte K)) c =
      ((dst + of_nat (length out + length (k # ks)), dst + of_nat (length out - dist + length (k # ks))), d)"
    using d(1) Cons.prems(3) unfolding cursors [symmetric] by (simp add: Suc_diff_le add_ac)
  moreover have "changed_within K dst n c d"
    using changed_within_trans [OF put(2) d(3)] Cons.prems by simp
  ultimately show ?case using d(2) by auto
qed simp

lemma literal_copy:
  assumes "bytes_at K c dst out" "bytes_at K c src bs" "length ks \<le> length bs" "in_ram dst n"
    "length out + length ks \<le> n" "clear_of dst n src (length bs)"
  shows "\<exists>d. run_state (fold_each ks (src, dst + of_nat (length out)) (copy_literal K)) c =
      ((src + of_nat (length ks), dst + of_nat (length out + length ks)), d) \<and>
    bytes_at K d dst (out @ take (length ks) bs) \<and> changed_within K dst n c d"
  using assms
proof (induction ks arbitrary: out c src bs)
  case (Cons k ks)
  then obtain b bs' where bs: "bs = b # bs'" by (cases bs) auto
  let ?c = "mem_w8 K c (dst + of_nat (length out)) b"
  have b: "mem_r8 K c src = b" "bytes_at K c (src + 1) bs'"
    using Cons.prems(2) by (simp_all add: bs bytes_at_Cons)
  note put = bytes_at_snoc [OF Cons.prems(1,4), of b]
  have changed: "changed_within K dst n c ?c" using put(2) Cons.prems by simp
  obtain d where d: "run_state (fold_each ks (src + 1, dst + of_nat (length (out @ [b]))) (copy_literal K)) ?c =
      ((src + 1 + of_nat (length ks), dst + of_nat (length (out @ [b]) + length ks)), d)"
    "bytes_at K d dst ((out @ [b]) @ take (length ks) bs')" "changed_within K dst n ?c d"
  proof -
    have clear: "clear_of dst n (src + 1) (length bs')" using Cons.prems(6) by (simp add: bs clear_of_Suc)
    have "bytes_at K ?c (src + 1) bs'" using b(2) changed clear by (rule bytes_at_kept)
    from Cons.IH [OF _ this _ Cons.prems(4) _ clear, of "out @ [b]"] show thesis
      using put(1) Cons.prems that by (auto simp: bs)
  qed
  have "run_state (fold_each (k # ks) (src, dst + of_nat (length out)) (copy_literal K)) c =
      ((src + of_nat (length (k # ks)), dst + of_nat (length out + length (k # ks))), d)"
    using d(1) b(1) by (simp add: add_ac)
  then show ?case using d(2) changed_within_trans [OF changed d(3)] by (auto simp: bs)
qed simp

end

section \<open>The stream\<close>

text \<open>One turn of the decoding loop.\<close>
definition lz_turn :: "'c core_ops \<Rightarrow> u32 \<Rightarrow> u32 list \<Rightarrow> u32 \<times> u32 \<Rightarrow>
    ('c, (u32 \<times> u32) + (u32 \<times> u32)) state" where
  "lz_turn K src_end offtab p =
     (if fst p < src_end then do {
        ctrl \<leftarrow> r8 K (fst p);
        (if ctrl AND 7 \<noteq> 0 then do {
           q \<leftarrow> fold_each (upto_u32 (unat (shr ctrl 3)))
             (snd p, snd p + offtab ! unat (ctrl AND 7)) (copy_byte K);
           State_Monad.return (Inr (fst p + 1, fst q))
         }
         else if shr ctrl 3 = 0 then State_Monad.return (Inl (fst p + 1, snd p))
         else do {
           q \<leftarrow> fold_each (upto_u32 (unat (shr ctrl 3))) (fst p + 1, snd p) (copy_literal K);
           State_Monad.return (Inr (fst q, snd q))
         })
      } else State_Monad.return (Inl (fst p, snd p)))"

text \<open>Entry \<open>i\<close> of the table of offsets, as the setup computes it.\<close>
definition lz_offset :: "'c core_ops \<Rightarrow> u32 \<Rightarrow> 'c \<Rightarrow> u32 \<Rightarrow> u32" where
  "lz_offset K stride1 c i = mem_r32 K c (LZ_OFFTAB_BASE + i * 8 + 0) +
     2 * (mem_r32 K c (LZ_OFFTAB_BASE + i * 8 + 4) * stride1)"

definition lz_setup :: "'c core_ops \<Rightarrow> u32 \<Rightarrow> u32 \<Rightarrow> u32 list \<Rightarrow> ('c, u32 list) state" where
  "lz_setup K stride1 i offtab = do {
     base1 \<leftarrow> r32 K (LZ_OFFTAB_BASE + i * 8 + 0);
     factor \<leftarrow> r32 K (LZ_OFFTAB_BASE + i * 8 + 4);
     let offtab = offtab[unat i := base1 + 2 * (factor * stride1)];
     sp \<leftarrow> reg K 29;
     w32 K (sp + i * 4) (offtab ! unat i);
     State_Monad.return offtab
   }"

lemma asset_lz_decompress_parts:
  "asset_lz_decompress K desc dst src0 srclen = do {
     stride1 \<leftarrow> r16s K (desc + 4);
     sp \<leftarrow> reg K 29;
     setr K 29 (sp - 32);
     offtab \<leftarrow> fold_each (upto_u32 8) (replicate 8 0) (lz_setup K stride1);
     q \<leftarrow> loop (lz_turn K (src0 + srclen) offtab) (src0, dst);
     sp \<leftarrow> reg K 29;
     setr K 29 (sp + 32);
     State_Monad.return (snd q - dst)
   }"
proof -
  have fill: "lz_setup K stride1 = (\<lambda>i offtab. do {
       base1 \<leftarrow> r32 K (LZ_OFFTAB_BASE + i * 8 + 0);
       factor \<leftarrow> r32 K (LZ_OFFTAB_BASE + i * 8 + 4);
       let offtab = offtab[unat i := base1 + (2 * (factor * stride1))];
       r29_5 \<leftarrow> reg K 29;
       w32 K (r29_5 + i * 4) (offtab ! (unat i));
       State_Monad.return offtab })" for stride1
    by (simp add: fun_eq_iff lz_setup_def)
  have byte: "copy_byte K = (\<lambda>k p. r8 K (snd p) \<bind> (\<lambda>v. w8 K (fst p) v \<bind>
      (\<lambda>_. State_Monad.return (fst p + 1, snd p + 1))))"
    and literal: "copy_literal K = (\<lambda>k p. r8 K (fst p) \<bind> (\<lambda>v. w8 K (snd p) v \<bind>
      (\<lambda>_. State_Monad.return (fst p + 1, snd p + 1))))"
    by (simp_all add: fun_eq_iff copy_byte_def copy_literal_def)
  have turn: "lz_turn K e t = (\<lambda>p. lz_turn K e t p)" for e t by simp
  show ?thesis
    unfolding asset_lz_decompress_def fill Let_def case_prod_unfold
    by (subst turn, unfold lz_turn_def byte literal) simp
qed


section \<open>The setup\<close>

context guest_core
begin

lemma changed_r32:
  assumes "changed_within K a n c d" "in_ram b 4" "apart a n b 4" "0 < n"
  shows "mem_r32 K d b = mem_r32 K c b"
proof (rule r32_cong [OF assms(2)])
  fix x assume x: "x \<in> span b 4"
  have "apart a n x 1" using assms(3) x assms(4) by (rule apart_byte)
  then have "x \<notin> span a n" by (simp add: apart_def)
  then show "mem_r8 K d x = mem_r8 K c x"
    using assms(1) in_ram_span [OF assms(2) x] by (simp add: changed_within_def)
qed

lemma row_offset: "unat (i :: u32) < 8 \<Longrightarrow> unat (i * 8) = unat i * 8" "unat i < 8 \<Longrightarrow> unat (i * 4) = unat i * 4"
  by (simp_all add: unat_word_ariths)

lemma table_row:
  assumes i: "unat i < 8" and o1: "o1 = i * 8 \<or> o1 = i * 8 + 4"
  shows "in_ram (LZ_OFFTAB_BASE + o1) 4 \<and> unat o1 + 4 \<le> 64"
proof -
  have "unat (i * 8 + 4) = unat i * 8 + 4"
    using row_offset(1) [OF i] i by (subst unat_add_small) auto
  then have "unat o1 + 4 \<le> 64" using o1 i row_offset(1) [OF i] by auto
  moreover have "in_ram LZ_OFFTAB_BASE 64" by (simp add: LZ_OFFTAB_BASE_def in_ram_def)
  ultimately show ?thesis using in_ram_offset by blast
qed

lemma changed_offset:
  assumes "changed_within K sp 32 c d" "apart sp 32 LZ_OFFTAB_BASE 64" "unat i < 8"
  shows "lz_offset K s d i = lz_offset K s c i"
proof -
  have "apart sp 32 (LZ_OFFTAB_BASE + o1) 4" if "o1 = i * 8 \<or> o1 = i * 8 + 4" for o1
    using apart_parts [OF assms(2), of 0 32 o1 4] table_row [OF assms(3) that] by simp
  then show ?thesis
    using changed_r32 [OF assms(1)] table_row [OF assms(3)] by (simp add: lz_offset_def add.assoc)
qed

lemma lz_setup_all:
  assumes "changed_within K sp 32 c0 c" "in_ram sp 32" "apart sp 32 LZ_OFFTAB_BASE 64" "get_reg K c0 29 = sp"
    "\<forall>i \<in> set ks. unat i < 8"
  shows "\<exists>d. run_state (fold_each ks t (lz_setup K s)) c =
      (fold (\<lambda>i t. t[unat i := lz_offset K s c0 i]) ks t, d) \<and> changed_within K sp 32 c0 d"
  using assms(1,5)
proof (induction ks arbitrary: t c)
  case (Cons k ks)
  have k: "unat k < 8" using Cons.prems by simp
  let ?t = "t[unat k := lz_offset K s c0 k]"
  let ?c = "mem_w32 K c (sp + k * 4) (?t ! unat k)"
  have "get_reg K c 29 = sp" using Cons.prems(1) assms(4) by (simp add: changed_within_def)
  then have step: "run_state (lz_setup K s k t) c = (?t, ?c)"
    using changed_offset [OF Cons.prems(1) assms(3) k, of s] by (simp add: lz_setup_def lz_offset_def Let_def)
  have "in_ram (sp + k * 4) 4" "apart (sp + k * 4) 4 x 1" if "in_ram x 1" "x \<notin> span sp 32" for x
  proof -
    show "in_ram (sp + k * 4) 4" using assms(2) k row_offset(2) [OF k] by (intro in_ram_offset) auto
    have "apart sp 32 x 1"
    proof -
      have "sp \<in> span sp 32" by simp
      moreover have "1 \<le> unat (sp - x)"
        using that(2) by (metis One_nat_def Suc_leI mem_span unat_gt_0 eq_iff_diff_eq_0 unat_0 zero_less_numeral)
      ultimately show ?thesis using that(2) by (simp add: apart_def)
    qed
    from apart_parts [OF this, of "k * 4" 4 0 1] show "apart (sp + k * 4) 4 x 1"
      using k row_offset(2) [OF k] by simp
  qed
  then have "changed_within K sp 32 c ?c"
    by (auto simp: changed_within_def r8_w32_apart reg_w32)
  then have "changed_within K sp 32 c0 ?c" using changed_within_trans [OF Cons.prems(1)] by blast
  from Cons.IH [OF this, of ?t] Cons.prems(2) show ?case by (simp add: step)
qed (simp add: assms(1))

end

lemma nth_fold_update:
  "of_nat m \<in> set ks \<Longrightarrow> m < length t \<Longrightarrow> m < 2 ^ 32 \<Longrightarrow>
   fold (\<lambda>i t. t[unat i := g i]) ks t ! m = g (of_nat m :: u32)"
proof (induction ks rule: rev_induct)
  case (snoc k ks)
  have len: "length (fold (\<lambda>i t. t[unat i := g i]) xs t) = length t" for xs
    by (induction xs arbitrary: t) simp_all
  have m: "unat (of_nat m :: u32) = m" using snoc.prems by (simp add: unat_of_nat take_bit_nat_eq_self)
  show ?case
  proof (cases "unat k = m")
    case True
    then have "k = of_nat m" using m by (metis word_unat_eq_iff)
    then show ?thesis using True snoc.prems len m by simp
  next
    case False
    then have "of_nat m \<noteq> k" using m by auto
    then show ?thesis using False snoc by simp
  qed
qed simp


section \<open>The loop\<close>

lemma unat_small_nat: "k < 2 ^ 32 \<Longrightarrow> unat (of_nat k :: u32) = k"
  by (simp add: unat_of_nat take_bit_nat_eq_self)

lemma control_parts:
  "unat (drop_bit 3 (ucast (v :: u8)) :: u32) = unat v div 8" "unat (ucast v AND 7 :: u32) = unat v mod 8"
proof -
  have "(7 :: u32) = mask 3" by (simp add: mask_eq_exp_minus_1)
  then show "unat (ucast v AND 7 :: u32) = unat v mod 8" by (simp only: unat_and_mask) simp
  show "unat (drop_bit 3 (ucast (v :: u8)) :: u32) = unat v div 8" by (simp only: unat_shr) simp
qed

lemma control_zero:
  "(drop_bit 3 (ucast (v :: u8)) = (0 :: u32)) = (unat v div 8 = 0)" "(ucast v AND 7 = (0 :: u32)) = (unat v mod 8 = 0)"
  by (simp_all only: control_parts [symmetric] unat_eq_zero)

context guest_core
begin

lemma lz_loop:
  assumes "lz_decode dist bs out = Some xs" "bytes_at K c dst out" "bytes_at K c src bs" "in_ram dst n"
    "length xs \<le> n" "clear_of dst n src (length bs)" "unat src + length bs < 2 ^ 32"
    "\<forall>m. 0 < m \<and> m < 8 \<longrightarrow> offtab ! m = - of_nat (dist m)"
  shows "\<exists>q d. loop_run (lz_turn K (src + of_nat (length bs)) offtab) (src, dst + of_nat (length out)) c = Some (q, d) \<and>
    snd q = dst + of_nat (length xs) \<and> bytes_at K d dst xs \<and> changed_within K dst n c d"
  using assms
proof (induction dist bs out arbitrary: c src rule: lz_decode.induct)
  case (1 dist out)
  then show ?case by (auto simp: lz_turn_def loop_run_leave)
next
  case (2 dist ctrl bs out)
  let ?limit = "src + of_nat (length (ctrl # bs))" and ?len = "unat ctrl div 8" and ?mode = "unat ctrl mod 8"
  let ?ks = "upto_u32 ?len" and ?out = "dst + of_nat (length out)"
  have more: "src < ?limit"
  proof -
    have l: "unat (of_nat (length (ctrl # bs)) :: u32) = length (ctrl # bs)"
      using 2(9) by (intro unat_small_nat) linarith
    have "unat ?limit = unat src + length (ctrl # bs)"
      using 2(9) by (subst unat_add_small) (simp_all only: l)
    then show ?thesis by (simp add: word_less_nat_alt)
  qed
  have ctrl: "mem_r8 K c src = ctrl" and bs: "bytes_at K c (src + 1) bs"
    using 2(5) by (simp_all add: bytes_at_Cons)
  have clear: "clear_of dst n (src + 1) (length bs)" using 2(8) by (simp add: clear_of_Suc)
  have next1: "src + 1 + of_nat (length bs) = ?limit" by (simp add: add.assoc)
  have src1: "unat (src + 1) = unat src + 1" using 2(9) by (subst unat_add_small) auto
  have step: "loop_run (lz_turn K ?limit offtab) (src, ?out) c = loop_run (lz_turn K ?limit offtab) p d"
    if "run_state (lz_turn K ?limit offtab (src, ?out)) c = (Inr p, d)" for p d
    using that by (rule loop_run_again)
  consider (reference) "?mode \<noteq> 0" | (stop) "?mode = 0" "?len = 0" | (literal) "?mode = 0" "?len \<noteq> 0" by blast
  then show ?case
  proof cases
    case reference
    then have back_ok: "0 < dist ?mode" "dist ?mode \<le> length out"
      and rest: "lz_decode dist bs (lz_copy ?len (dist ?mode) out) = Some xs"
      using 2(3) by (simp_all add: Let_def split: if_splits)
    have fit: "length out + ?len \<le> n"
      using lz_decode_longer [OF rest] 2(7) by simp
    have b: "?out + offtab ! ?mode = dst + of_nat (length out - dist ?mode)"
      using 2(10) reference back_ok(2) by simp
    obtain d where d: "run_state (fold_each ?ks (?out, dst + of_nat (length out - dist ?mode)) (copy_byte K)) c =
        ((dst + of_nat (length out + ?len), dst + of_nat (length out - dist ?mode + ?len)), d)"
      "bytes_at K d dst (lz_copy ?len (dist ?mode) out)" "changed_within K dst n c d"
      using back_copy [OF 2(4) back_ok 2(6), of ?ks] fit by auto
    have "run_state (lz_turn K ?limit offtab (src, ?out)) c = (Inr (src + 1, dst + of_nat (length out + ?len)), d)"
      using more reference d(1) [folded b] by (simp add: lz_turn_def ctrl control_parts control_zero del: of_nat_add)
    note step = step [OF this]
    have "bytes_at K d (src + 1) bs" using bs d(3) clear by (rule bytes_at_kept)
    from 2(1) [OF refl refl reference conjI [OF back_ok] rest d(2) this 2(6,7) clear _ 2(10)]
    obtain q e where "loop_run (lz_turn K ?limit offtab) (src + 1, dst + of_nat (length out + ?len)) d = Some (q, e)"
      "snd q = dst + of_nat (length xs)" "bytes_at K e dst xs" "changed_within K dst n d e"
      using src1 2(9) unfolding next1 by (auto simp del: of_nat_add)
    then show ?thesis using step changed_within_trans [OF d(3)] by auto
  next
    case stop
    then have "xs = out" using 2(3) by simp
    moreover have "run_state (lz_turn K ?limit offtab (src, ?out)) c = (Inl (src + 1, ?out), c)"
      using more stop by (simp add: lz_turn_def ctrl control_parts control_zero)
    ultimately show ?thesis using 2(4) by (auto simp: loop_run_leave)
  next
    case literal
    then have len: "?len \<le> length bs" and rest: "lz_decode dist (drop ?len bs) (out @ take ?len bs) = Some xs"
      using 2(3) by (simp_all add: Let_def split: if_splits)
    have fit: "length out + ?len \<le> n"
      using lz_decode_longer [OF rest] 2(7) len by simp
    obtain d where d: "run_state (fold_each ?ks (src + 1, ?out) (copy_literal K)) c =
        ((src + 1 + of_nat ?len, dst + of_nat (length out + ?len)), d)"
      "bytes_at K d dst (out @ take ?len bs)" "changed_within K dst n c d"
      using literal_copy [OF 2(4) bs _ 2(6) _ clear, of ?ks] len fit by auto
    have "run_state (lz_turn K ?limit offtab (src, ?out)) c =
        (Inr (src + 1 + of_nat ?len, dst + of_nat (length out + ?len)), d)"
      using more literal d(1) by (simp add: lz_turn_def ctrl control_parts control_zero del: of_nat_add)
    note step = step [OF this]
    have kept: "bytes_at K d (src + 1) bs" using bs d(3) clear by (rule bytes_at_kept)
    have out: "length (out @ take ?len bs) = length out + ?len" using len by simp
    have at_limit: "src + 1 + of_nat ?len + of_nat (length (drop ?len bs)) = ?limit"
      using len by (simp add: add.assoc)
    have "unat (src + 1 + of_nat ?len) = unat src + 1 + ?len"
      using src1 2(9) len unat_small_nat [of ?len] by (subst unat_add_small) simp_all
    then have small: "unat (src + 1 + of_nat ?len) + length (drop ?len bs) < 2 ^ 32"
      using 2(9) len by simp
    have clear': "clear_of dst n (src + 1 + of_nat ?len) (length (drop ?len bs))"
      using clear_of_drop [OF clear len] by simp
    from 2(2) [OF refl refl _ literal(2) len rest d(2) bytes_at_drop [OF kept len] 2(6,7) clear' small 2(10)]
    obtain q e where "loop_run (lz_turn K ?limit offtab) (src + 1 + of_nat ?len, dst + of_nat (length out + ?len)) d = Some (q, e)"
      "snd q = dst + of_nat (length xs)" "bytes_at K e dst xs" "changed_within K dst n d e"
      using literal(1) unfolding at_limit out by auto
    then show ?thesis using step changed_within_trans [OF d(3)] by auto
  qed
qed

end


section \<open>Property\<close>

text \<open>C31. \<open>Asset::lzDecompress\<close> implements the decoder of the stream format: for a source string the
  decoder accepts, it returns, answers the length of the decoded image and leaves exactly that
  image at the destination, overlapping back references included; it restores the guest stack
  pointer and changes no byte of RAM outside the destination and its stack frame.\<close>
theorem lz_decompress_refines:
  assumes "guest_core K" and "bytes_at K c src bs" and "unat srclen = length bs"
    and "lz_decode dist bs [] = Some xs" and "in_ram dst (length xs)"
    and "sp = get_reg K c 29 - 32" and "in_ram sp 32" and "apart sp 32 LZ_OFFTAB_BASE 64"
    and "clear_of dst (length xs) src (length bs)" and "clear_of sp 32 src (length bs)"
    and "unat src + length bs < 2 ^ 32"
    and "\<forall>m. 0 < m \<and> m < 8 \<longrightarrow>
      lz_offset K (scast (mem_r16 K c (desc + 4))) c (of_nat m) = - of_nat (dist m)"
    and "d = exec (asset_lz_decompress K desc dst src srclen) c"
  shows "result (asset_lz_decompress K desc dst src srclen) c = of_nat (length xs) \<and>
    bytes_at K d dst xs \<and> get_reg K d 29 = get_reg K c 29 \<and>
    (\<forall>a. in_ram a 1 \<longrightarrow> a \<notin> span dst (length xs) \<longrightarrow> a \<notin> span sp 32 \<longrightarrow> mem_r8 K d a = mem_r8 K c a)"
proof -
  note core = guest_core.read_write [OF assms(1)]
  let ?s = "scast (mem_r16 K c (desc + 4)) :: u32" and ?c1 = "set_reg K c 29 sp"
  let ?g = "lz_offset K ?s ?c1"
  let ?t = "fold (\<lambda>i t. t[unat i := ?g i]) (upto_u32 8) (replicate 8 0)"
  have rows: "set (upto_u32 8) = {i. unat i < 8}" by (rule set_upto_u32) simp
  have sp: "get_reg K ?c1 29 = sp" by (simp add: core)
  obtain c2 where c2: "run_state (fold_each (upto_u32 8) (replicate 8 0) (lz_setup K ?s)) ?c1 = (?t, c2)"
    "changed_within K sp 32 ?c1 c2"
    using guest_core.lz_setup_all [OF assms(1) changed_within_refl assms(7,8) sp, of "upto_u32 8" "replicate 8 0" ?s]
      rows by blast
  have same: "?g i = lz_offset K ?s c i" if "unat i < 8" for i
    using guest_core.table_row [OF assms(1) that] by (simp add: lz_offset_def core add.assoc)
  have offsets: "\<forall>m. 0 < m \<and> m < 8 \<longrightarrow> ?t ! m = - of_nat (dist m)"
  proof (intro allI impI)
    fix m :: nat assume m: "0 < m \<and> m < 8"
    then have "unat (of_nat m :: u32) = m" by (intro unat_small_nat) simp
    then show "?t ! m = - of_nat (dist m)"
      using m rows assms(12) same [of "of_nat m"] nth_fold_update [of m "upto_u32 8" "replicate 8 0" ?g] by simp
  qed
  have src1: "bytes_at K ?c1 src bs"
    using assms(2,10) by (simp add: bytes_at_def clear_of_def core)
  have src2: "bytes_at K c2 src bs" using src1 c2(2) assms(10) by (rule bytes_at_kept)
  have len: "of_nat (length bs) = srclen" by (simp flip: assms(3))
  obtain q e where e: "loop_run (lz_turn K (src + srclen) ?t) (src, dst) c2 = Some (q, e)"
    "snd q = dst + of_nat (length xs)" "bytes_at K e dst xs" "changed_within K dst (length xs) c2 e"
    using guest_core.lz_loop [OF assms(1,4) _ src2 assms(5) order_refl assms(9,11) offsets]
    by (auto simp: bytes_at_def len)
  have run: "run_state (asset_lz_decompress K desc dst src srclen) c =
      (of_nat (length xs), set_reg K e 29 (get_reg K e 29 + 32))"
    using e(2) by (simp add: asset_lz_decompress_parts flip: assms(6)) (simp add: c2(1) run_loop [OF e(1)])
  have "get_reg K e 29 = sp" using e(4) c2(2) sp by (simp add: changed_within_def)
  then have "get_reg K d 29 = get_reg K c 29" by (simp add: assms(13) run core assms(6))
  moreover have "bytes_at K d dst xs"
    using e(3) offset_in(1) [OF assms(5)] by (simp add: assms(13) run bytes_at_def core)
  moreover have "mem_r8 K d a = mem_r8 K c a" if "in_ram a 1" "a \<notin> span dst (length xs)" "a \<notin> span sp 32" for a
    using that e(4) c2(2) by (simp add: assms(13) run changed_within_def core)
  ultimately show ?thesis by (simp add: run)
qed


text \<open>A literal run of three bytes, a reference of four to the byte before, and the end mark.\<close>
definition packed_image :: flat where
  "packed_image = (let put = (\<lambda>a v c. mem_w8 idle_core c a v) in
     set_reg idle_core (mem_w32 idle_core (put 0x80010005 0 (put 0x80010004 33 (put 0x80010003 9
       (put 0x80010002 8 (put 0x80010001 7 (put 0x80010000 24 zero_flat)))))) 0x800153D0 0xFFFFFFFF)
       29 0x80100020)"

lemma packed_image_bytes:
  "bytes_at idle_core packed_image 0x80010000 [24, 7, 8, 9, 33, 0]"
  by (simp add: packed_image_def bytes_at_Cons) (simp add: bytes_at_def)

lemma packed_image_table:
  "mem_r32 idle_core packed_image 0x800153D0 = - 1" "mem_r32 idle_core packed_image 0x800153D4 = 0"
  "mem_r32 idle_core packed_image 0x800153D8 = 0" "mem_r32 idle_core packed_image 0x800153DC = 0"
  "mem_r32 idle_core packed_image 0x800153E0 = 0" "mem_r32 idle_core packed_image 0x800153E4 = 0"
  "mem_r32 idle_core packed_image 0x800153E8 = 0" "mem_r32 idle_core packed_image 0x800153EC = 0"
  "mem_r32 idle_core packed_image 0x800153F0 = 0" "mem_r32 idle_core packed_image 0x800153F4 = 0"
  "mem_r32 idle_core packed_image 0x800153F8 = 0" "mem_r32 idle_core packed_image 0x800153FC = 0"
  "mem_r32 idle_core packed_image 0x80015400 = 0" "mem_r32 idle_core packed_image 0x80015404 = 0"
  by (simp_all add: packed_image_def flat.read_write zero_reads address_simps del: flat_core_sel)

lemma below_eight: "0 < m \<and> m < (8 :: nat) \<Longrightarrow> m = 1 \<or> m = 2 \<or> m = 3 \<or> m = 4 \<or> m = 5 \<or> m = 6 \<or> m = 7"
  by linarith

theorem lz_decompress_refines_witness:
  "result (asset_lz_decompress idle_core 0x80020000 0x80030000 0x80010000 6) packed_image = 7 \<and>
   bytes_at idle_core (exec (asset_lz_decompress idle_core 0x80020000 0x80030000 0x80010000 6) packed_image)
     0x80030000 [7, 8, 9, 9, 9, 9, 9]"
proof -
  let ?dist = "\<lambda>m. if m = 1 then 1 else 0 :: nat"
  have decode: "lz_decode ?dist [24, 7, 8, 9, 33, 0] [] = Some [7, 8, 9, 9, 9, 9, 9]"
    by code_simp
  have offsets: "\<forall>m. 0 < m \<and> m < 8 \<longrightarrow>
      lz_offset idle_core s packed_image (of_nat m) = - of_nat (?dist m)" for s
  proof (intro allI impI)
    fix m :: nat assume "0 < m \<and> m < 8"
    then show "lz_offset idle_core s packed_image (of_nat m) = - of_nat (?dist m)"
      by (drule_tac below_eight, elim disjE)
        (simp_all add: lz_offset_def LZ_OFFTAB_BASE_def packed_image_table del: flat_core_sel)
  qed
  have sp: "get_reg idle_core packed_image 29 = 0x80100020"
    by (simp add: packed_image_def flat.read_write Let_def del: flat_core_sel)
  have "clear_of 0x80030000 (length [7, 8, 9, 9, 9, 9, 9 :: u8]) 0x80010000 (length [24, 7, 8, 9, 33, 0 :: u8])"
    "clear_of 0x80100000 32 0x80010000 (length [24, 7, 8, 9, 33, 0 :: u8])"
    by (rule clear_of_apart; simp add: in_ram_def apart_def)+
  then show ?thesis
    using lz_decompress_refines [OF flat.guest_core_axioms packed_image_bytes _ decode _ refl _ _ _ _ _ offsets refl,
        of 6 "0x80030000"]
    by (simp add: sp in_ram_def apart_def LZ_OFFTAB_BASE_def del: flat_core_sel)
qed

section \<open>Strings\<close>

definition length_turn :: "'c core_ops \<Rightarrow> u32 \<times> u32 \<Rightarrow> ('c, (u32 \<times> u32) + (u32 \<times> u32)) state" where
  "length_turn K p = do {
     v \<leftarrow> r8 K (fst p);
     (if v \<noteq> 0 then State_Monad.return (Inr (fst p + 1, snd p + 1)) else State_Monad.return (Inl (fst p, snd p)))
   }"

definition copy_turn :: "'c core_ops \<Rightarrow> u32 \<times> u32 \<times> u32 \<Rightarrow>
    ('c, (u32 \<times> u32 \<times> u32) + (u32 \<times> u32 \<times> u32)) state" where
  "copy_turn K = (\<lambda>(src, n, d). (if 0 <s n then do {
       v \<leftarrow> r8 K src;
       w8 K d v;
       State_Monad.return (Inr (src + 1, n - 1, d + 1))
     } else State_Monad.return (Inl (src, n, d))))"

lemma str_length_parts:
  "str_length K addr = do { q \<leftarrow> loop (length_turn K) (addr, 0); setr K 2 (snd q); State_Monad.return (snd q) }"
proof -
  have turn: "length_turn K = (\<lambda>p. length_turn K p)" by simp
  show ?thesis
    unfolding str_length_def Let_def case_prod_unfold by (subst turn, unfold length_turn_def) simp
qed

lemma str_copy_bytes_parts:
  "dst \<noteq> 0 \<Longrightarrow> str_copy_bytes K dst src n =
     do { q \<leftarrow> loop (copy_turn K) (src, n, dst); setr K 2 dst; State_Monad.return dst }"
  unfolding str_copy_bytes_def copy_turn_def Let_def case_prod_unfold by simp

lemma length_run:
  "bytes_at K c p (xs @ [0]) \<Longrightarrow> 0 \<notin> set xs \<Longrightarrow>
   loop_run (length_turn K) (p, l) c = Some ((p + of_nat (length xs), l + of_nat (length xs)), c)"
proof (induction xs arbitrary: p l)
  case Nil
  then show ?case by (simp add: bytes_at_Cons length_turn_def loop_run_leave)
next
  case (Cons x xs)
  then have "run_state (length_turn K (p, l)) c = (Inr (p + 1, l + 1), c)"
    by (simp add: bytes_at_Cons length_turn_def)
  then show ?case
    using Cons loop_run_again [of "length_turn K" "(p, l)" c] by (simp add: bytes_at_Cons add.assoc)
qed

context guest_core
begin

lemma copy_run:
  assumes "bytes_at K c dst out" "bytes_at K c src xs" "in_ram dst n" "length out + length xs \<le> n"
    "clear_of dst n src (length xs)" "length xs < 2 ^ 31"
  shows "\<exists>q d. loop_run (copy_turn K) (src, of_nat (length xs), dst + of_nat (length out)) c = Some (q, d) \<and>
    bytes_at K d dst (out @ xs) \<and> changed_within K dst n c d"
  using assms
proof (induction xs arbitrary: out c src)
  case Nil
  then show ?case by (auto simp: copy_turn_def loop_run_leave)
next
  case (Cons x xs)
  let ?c = "mem_w8 K c (dst + of_nat (length out)) x"
  have len: "unat (of_nat (length (x # xs)) :: u32) = length (x # xs)"
    using Cons.prems(6) by (intro unat_small_nat) simp
  have "length (x # xs) < 2 ^ 31" using Cons.prems(6) .
  then have pos: "0 <s (of_nat (length (x # xs)) :: u32)"
    by (subst sless_unat) (simp_all only: len, simp_all)
  have x: "mem_r8 K c src = x" "bytes_at K c (src + 1) xs" using Cons.prems(2) by (simp_all add: bytes_at_Cons)
  note put = bytes_at_snoc [OF Cons.prems(1,3), of x]
  have clear: "clear_of dst n (src + 1) (length xs)" using Cons.prems(5) by (simp add: clear_of_Suc)
  have "bytes_at K ?c (src + 1) xs" using x(2) put(2) clear Cons.prems(4) by (simp add: bytes_at_kept)
  from Cons.IH [OF _ this Cons.prems(3) _ clear, of "out @ [x]"]
  obtain q d where d: "loop_run (copy_turn K) (src + 1, of_nat (length xs), dst + of_nat (length (out @ [x]))) ?c = Some (q, d)"
    "bytes_at K d dst (out @ x # xs)" "changed_within K dst n ?c d"
    using put(1) Cons.prems by auto
  have "loop_run (copy_turn K) (src, of_nat (length (x # xs)), dst + of_nat (length out)) c =
      loop_run (copy_turn K) (src + 1, of_nat (length xs), dst + of_nat (length (out @ [x]))) ?c"
    using pos x(1) by (intro loop_run_again) (simp add: copy_turn_def add.assoc)
  then show ?case using d changed_within_trans [OF put(2) d(3)] Cons.prems(4) by (cases q) simp
qed

end

text \<open>C32. Copying a zero-terminated string with \<open>Str::copyBytes\<close>, terminator included, returns the
  destination and leaves the same string there, touching nothing else in RAM; \<open>Str::length\<close> of the
  copy then is the number of its characters. Copying to the null pointer answers 0 and writes nothing.\<close>
theorem string_copy:
  assumes "guest_core K" and "0 \<notin> set xs" and "bytes_at K c src (xs @ [0])"
    and "length xs < 2 ^ 31 - 1" and "in_ram dst (length xs + 1)" and "dst \<noteq> 0"
    and "clear_of dst (length xs + 1) src (length xs + 1)"
    and "m = str_copy_bytes K dst src (of_nat (length xs + 1))"
  shows "result m c = dst \<and> bytes_at K (exec m c) dst (xs @ [0]) \<and>
    (\<forall>a. in_ram a 1 \<longrightarrow> a \<notin> span dst (length xs + 1) \<longrightarrow> mem_r8 K (exec m c) a = mem_r8 K c a) \<and>
    result (str_length K dst) (exec m c) = of_nat (length xs) \<and>
    run_state (str_copy_bytes K 0 src n) c = (0, set_reg K c 2 0)"
proof -
  note core = guest_core.read_write [OF assms(1)]
  have "bytes_at K c dst ([] :: u8 list)" by (simp add: bytes_at_def)
  from guest_core.copy_run [OF assms(1) this assms(3,5)] 
  obtain q d where d: "loop_run (copy_turn K) (src, of_nat (length xs + 1), dst) c = Some (q, d)"
    "bytes_at K d dst (xs @ [0])" "changed_within K dst (length xs + 1) c d"
    using assms(4,7) by (auto simp: One_nat_def)
  have m: "run_state m c = (dst, set_reg K d 2 dst)"
    unfolding assms(8) str_copy_bytes_parts [OF assms(6)] by (simp only: run_state_bind run_loop [OF d(1)]) simp
  have copied: "bytes_at K (set_reg K d 2 dst) dst (xs @ [0])"
    using d(2) offset_in(1) [OF assms(5)] by (simp add: bytes_at_def core)
  have "result (str_length K dst) (set_reg K d 2 dst) = of_nat (length xs)"
    by (simp add: str_length_parts run_loop [OF length_run [OF copied assms(2)]])
  moreover have "run_state (str_copy_bytes K 0 src n) c = (0, set_reg K c 2 0)"
    by (simp add: str_copy_bytes_def)
  moreover have "mem_r8 K (set_reg K d 2 dst) a = mem_r8 K c a" if "in_ram a 1" "a \<notin> span dst (length xs + 1)" for a
    using that d(3) by (simp add: changed_within_def core)
  ultimately show ?thesis using m copied by simp
qed

theorem string_copy_witness:
  "result (str_length idle_core 0x80030000)
     (exec (str_copy_bytes idle_core 0x80030000 0x80010000 6) packed_image) = 5"
proof -
  have "bytes_at idle_core packed_image 0x80010000 ([24, 7, 8, 9, 33] @ [0])"
    using packed_image_bytes by simp
  moreover have "clear_of 0x80030000 (length [24, 7, 8, 9, 33 :: u8] + 1) 0x80010000 (length [24, 7, 8, 9, 33 :: u8] + 1)"
    by (rule clear_of_apart; simp add: in_ram_def apart_def)
  ultimately show ?thesis
    using string_copy [OF flat.guest_core_axioms _ _ _ _ _ _ refl, of "[24, 7, 8, 9, 33]" "\<lambda>c a. c" packed_image "0x80010000"
        "0x80030000"]
    by (simp add: in_ram_def)
qed

end
