(* ===== verification/GameAudio.thy ===== *)
theory GameAudio
  imports ObjectViews
begin

text \<open>
  Sound effects, music coordination and the audio dispatcher.
\<close>

section \<open>Layout\<close>

definition kCurrentSongIdx :: u32 where "kCurrentSongIdx = 0x800BED80"
definition kSpAudioState :: u32 where "kSpAudioState = 0x1F80019A"
definition kSpCutMode :: u32 where "kSpCutMode = 0x1F800137"
definition kSpBoost :: u32 where "kSpBoost = 0x1F80027E"
definition kSpQueueGate :: u32 where "kSpQueueGate = 0x1F80027A"
definition kSpQueueIdx :: u32 where "kSpQueueIdx = 0x1F80023B"
definition kDialogFlags :: u32 where "kDialogFlags = 0x800BE0E4"
definition kDialogLevel :: u32 where "kDialogLevel = 0x800FB165"
definition kFnSetFadeTarget :: u32 where "kFnSetFadeTarget = 0x80075CEC"
definition kFnSpuQueuePing :: u32 where "kFnSpuQueuePing = 0x800750D8"

section \<open>\<open>game/audio/audio_dispatch.cpp\<close>\<close>

definition audio_dispatch_voice_fetch_bits :: "'c core_ops \<Rightarrow> u32 \<Rightarrow> u32
    \<Rightarrow> ('c, unit) state" where
  "audio_dispatch_voice_fetch_bits K bits flag = do {
     let TABLE_PTRS = ([0x8001005C, 0x80010060, 0x80010064, 0x80010068, 0x8001006C, 0x80010070,
         0x80010074, 0x80010078] :: u32 list);
     let klass1 = (shr bits 3) AND 7;
     let sub1 = bits AND 7;
     table \<leftarrow> r32 K (TABLE_PTRS ! (unat klass1));
     let entry = table + sub1 * 4;
     offset \<leftarrow> r16 K (entry + 0);
     count1 \<leftarrow> r16 K (entry + 2);
     v4 \<leftarrow> r32 K 0x1F800224;
     let base1 = v4 + offset * 8;
     let tail = base1 + ((count1 - 2) * 8);
     setr K 4 klass1;
     setr K 5 base1;
     setr K 6 tail;
     setr K 7 ((flag AND 1) OR 2);
     call_guest K 0x8001D2A8
   }"

definition audio_dispatch_dispatch3_way :: "'c core_ops \<Rightarrow> u32 \<Rightarrow> u32
    \<Rightarrow> ('c, u32) state" where
  "audio_dispatch_dispatch3_way K idx arg2 = do {
     v0 \<leftarrow> (if idx = 0xFF then do {
       v1 \<leftarrow> r8 K 0x800BE0E4;
       State_Monad.return (v1 AND 4)
     }
      else if idx = 0xFE then do { call_guest K 0x8001CF2C; reg K 2 }
       else do {
         audio_dispatch_voice_fetch_bits K idx arg2;
         State_Monad.return (0 :: u32)
       });
     setr K 2 v0;
     State_Monad.return v0
   }"

definition audio_dispatch_settle_field :: "'c core_ops \<Rightarrow> ('c, unit) state" where
  "audio_dispatch_settle_field K = do {
     w8 K 0x1F80027E 0;
     call_guest K 0x8001CF2C;
     call_guest K 0x80074B44;
     call_guest K 0x80074E48
   }"

definition audio_dispatch_select_state :: "'c core_ops \<Rightarrow> u32 \<Rightarrow> ('c, unit)
    state" where
  "audio_dispatch_select_state K idx = do {
     _ \<leftarrow> audio_dispatch_dispatch3_way K idx 1;
     w8 K 0x1F80023B idx
   }"

definition audio_dispatch_zone_transition_setup :: "'c core_ops \<Rightarrow> u32 \<Rightarrow>
    ('c, unit) state" where
  "audio_dispatch_zone_transition_setup K idx = (if idx <s 0 then call_guest K 0x8001CF2C
    else do {
      let recAddr = 0x8009D110 + ((as_u16 idx) * 6);
      track \<leftarrow> r8 K (recAddr + 0);
      group1 \<leftarrow> r8 K (recAddr + 1);
      offRaw \<leftarrow> r16 K (recAddr + 2);
      spanRaw \<leftarrow> r16 K (recAddr + 4);
      v5 \<leftarrow> r8 K 0x800FB162;
      (if group1 = 0 \<and> v5 = 1 then w8 K 0x800BE0E4 2
       else do {
         v6 \<leftarrow> r32 K 0x1F800220;
         let base1 = v6 + offRaw * 8;
         let tail = base1 + spanRaw * 8;
         setr K 4 track;
         setr K 5 base1;
         setr K 6 tail;
         setr K 7 group1;
         call_guest K 0x8001D2A8
       })
    })"

definition audio_dispatch_select_state_remap :: "'c core_ops \<Rightarrow> u32 \<Rightarrow> ('c,
    unit) state" where
  "audio_dispatch_select_state_remap K slot1 = do {
     let L_80075044 = (do {
       r16_1 \<leftarrow> reg K 16;
       r0_2 \<leftarrow> reg K 0;
       setr K 4 (r16_1 + r0_2);
       setr K 31 0x80075050;
       setr K 5 (r0_2 + 1);
       call_guest K 0x800750D8;
       r29_3 \<leftarrow> reg K 29;
       v4 \<leftarrow> r32 K (r29_3 + 20);
       setr K 31 v4;
       setr K 2 (shl 8064 16);
       r2_5 \<leftarrow> reg K 2;
       r16_6 \<leftarrow> reg K 16;
       w8 K (r2_5 + 571) r16_6;
       v7 \<leftarrow> r32 K (r29_3 + 16);
       setr K 16 v7;
       setr K 2 (shl 32780 16);
       r2_8 \<leftarrow> reg K 2;
       r0_9 \<leftarrow> reg K 0;
       w8 K (r2_8 + (-7637)) r0_9;
       setr K 29 (r29_3 + 24)
     });
     setr K 4 slot1;
     r29_10 \<leftarrow> reg K 29;
     setr K 29 (r29_10 + (-24));
     r29_11 \<leftarrow> reg K 29;
     r16_12 \<leftarrow> reg K 16;
     w32 K (r29_11 + 16) r16_12;
     r0_13 \<leftarrow> reg K 0;
     setr K 16 (r0_13 + 20);
     r4_14 \<leftarrow> reg K 4;
     setr K 4 (r4_14 AND 255);
     setr K 2 (r0_13 + 5);
     r4_15 \<leftarrow> reg K 4;
     r2_16 \<leftarrow> reg K 2;
     let t0 = (of_bool (r4_15 \<noteq> r2_16) :: u32);
     r31_17 \<leftarrow> reg K 31;
     w32 K (r29_11 + 20) r31_17;
     (if t0 \<noteq> 0 then L_80075044 else do { setr K 16 (r0_13 + 19); L_80075044 })
   }"

definition audio_dispatch_publish_state_fade :: "'c core_ops \<Rightarrow> u32 \<Rightarrow> ('c,
    unit) state" where
  "audio_dispatch_publish_state_fade K idx = do {
     setr K 4 idx;
     r29_1 \<leftarrow> reg K 29;
     setr K 29 (r29_1 + (-24));
     setr K 2 (shl 8064 16);
     setr K 3 (shl 32780 16);
     r2_2 \<leftarrow> reg K 2;
     r4_3 \<leftarrow> reg K 4;
     w8 K (r2_2 + 571) r4_3;
     r0_4 \<leftarrow> reg K 0;
     setr K 2 (r0_4 + 1);
     setr K 4 (r0_4 + r0_4);
     r29_5 \<leftarrow> reg K 29;
     r31_6 \<leftarrow> reg K 31;
     w32 K (r29_5 + 16) r31_6;
     setr K 31 0x80075094;
     r3_7 \<leftarrow> reg K 3;
     r2_8 \<leftarrow> reg K 2;
     w8 K (r3_7 + (-7637)) r2_8;
     call_guest K 0x80075CEC;
     r29_9 \<leftarrow> reg K 29;
     v10 \<leftarrow> r32 K (r29_9 + 16);
     setr K 31 v10;
     setr K 29 (r29_9 + 24)
   }"

definition eov_audio_select_state_remap :: "'c core_ops \<Rightarrow> ('c, unit) state" where
  "eov_audio_select_state_remap K = do {
     r4_1 \<leftarrow> reg K 4;
     audio_dispatch_select_state_remap K (as_u8 r4_1)
   }"

definition eov_audio_publish_state_fade :: "'c core_ops \<Rightarrow> ('c, unit) state" where
  "eov_audio_publish_state_fade K = do {
     r4_1 \<leftarrow> reg K 4;
     audio_dispatch_publish_state_fade K (as_u8 r4_1)
   }"

section \<open>\<open>game/audio/music_coord.cpp\<close>\<close>

definition music_coord_dialog_tone_active :: "'c core_ops \<Rightarrow> ('c, bool) state" where
  "music_coord_dialog_tone_active K = do {
     v1 \<leftarrow> r16 K kCurrentSongIdx;
     let s = v1 AND 0xFFFF;
     State_Monad.return (4 \<le> s \<and> s \<le> 7)
   }"

definition music_coord_music_fade_in :: "'c core_ops \<Rightarrow> ('c, unit) state" where
  "music_coord_music_fade_in K = do {
     w16 K 0x800BE224 0;
     w16 K 0x1F801DB0 0;
     w16 K 0x1F801DB2 0
   }"

definition voice_channel_flags :: "'c core_ops \<Rightarrow> u32 \<Rightarrow> ('c, u32) state"
    where
  "voice_channel_flags K base1 = r32 K base1"

definition voice_channel_set_flags :: "'c core_ops \<Rightarrow> u32 \<Rightarrow> u32
    \<Rightarrow> ('c, unit) state" where
  "voice_channel_set_flags K base1 v = w32 K base1 v"

definition voice_channel_set_pan :: "'c core_ops \<Rightarrow> u32 \<Rightarrow> u32 \<Rightarrow>
    ('c, unit) state" where
  "voice_channel_set_pan K base1 v = do {
     w16 K (base1 + 0x06) v;
     w16 K (base1 + 0x04) v
   }"

definition voice_channel_set_volume :: "'c core_ops \<Rightarrow> u32 \<Rightarrow> u32
    \<Rightarrow> ('c, unit) state" where
  "voice_channel_set_volume K base1 v = do {
     w16 K (base1 + 0x12) v;
     w16 K (base1 + 0x10) v
   }"

definition voice_channel_base_vol :: "'c core_ops \<Rightarrow> u32 \<Rightarrow> ('c, u32) state"
    where
  "voice_channel_base_vol K base1 = do {
     v1 \<leftarrow> r16 K (base1 + 0x28);
     State_Monad.return (as_s16 v1)
   }"

definition voice_channel_fade_target :: "'c core_ops \<Rightarrow> u32 \<Rightarrow> ('c, u32)
    state" where
  "voice_channel_fade_target K base1 = do {
     v1 \<leftarrow> r16 K (base1 + 0x2A);
     State_Monad.return (as_s16 v1)
   }"

definition voice_channel_fade_cur :: "'c core_ops \<Rightarrow> u32 \<Rightarrow> ('c, u32) state"
    where
  "voice_channel_fade_cur K base1 = do {
     v1 \<leftarrow> r16 K (base1 + 0x2C);
     State_Monad.return (as_s16 v1)
   }"

definition voice_channel_set_fade_cur :: "'c core_ops \<Rightarrow> u32 \<Rightarrow> u32
    \<Rightarrow> ('c, unit) state" where
  "voice_channel_set_fade_cur K base1 v = w16 K (base1 + 0x2C) v"

definition voice_channel_gain2_target :: "'c core_ops \<Rightarrow> u32 \<Rightarrow> ('c, u32)
    state" where
  "voice_channel_gain2_target K base1 = do {
     v1 \<leftarrow> r16 K (base1 + 0x2E);
     State_Monad.return (as_s16 v1)
   }"

definition voice_channel_gain2_cur :: "'c core_ops \<Rightarrow> u32 \<Rightarrow> ('c, u32)
    state" where
  "voice_channel_gain2_cur K base1 = r16 K (base1 + 0x30)"

definition voice_channel_set_gain2_cur :: "'c core_ops \<Rightarrow> u32 \<Rightarrow> u32
    \<Rightarrow> ('c, unit) state" where
  "voice_channel_set_gain2_cur K base1 v = w16 K (base1 + 0x30) v"

definition voice_channel_low_vol_armed :: "'c core_ops \<Rightarrow> u32 \<Rightarrow> ('c, bool)
    state" where
  "voice_channel_low_vol_armed K base1 = do {
     v1 \<leftarrow> r8 K (base1 + 0x33);
     State_Monad.return (v1 \<noteq> 0)
   }"

definition voice_channel_disarm_low_vol :: "'c core_ops \<Rightarrow> u32 \<Rightarrow> ('c, unit)
    state" where
  "voice_channel_disarm_low_vol K base1 = w8 K (base1 + 0x33) 0"

definition music_coord_voice_mix_tick :: "'c core_ops \<Rightarrow> u32 \<Rightarrow> ('c, unit)
    state" where
  "music_coord_voice_mix_tick K voice_base = with_frame K 32 [(17, 20), (31, 24), (16, 16)] (do {
     setr K 17 voice_base;
     state1 \<leftarrow> r8 K kSpAudioState;
     cutMode \<leftarrow> r8 K kSpCutMode;
     boost \<leftarrow> r8 K kSpBoost;
     vol \<leftarrow> (if state1 \<noteq> 2 then do {
       v4 \<leftarrow> voice_channel_base_vol K voice_base;
       State_Monad.return (sar 15 (v4 * 0x47FF))
     }
      else if cutMode = 1 then do {
        flags \<leftarrow> r8 K kDialogFlags;
        vol \<leftarrow> (if (flags AND 0x02) \<noteq> 0 then State_Monad.return (0x7FFF :: u32)
         else if (flags AND 0x08) \<noteq> 0 then do {
           v6 \<leftarrow> r8 K kDialogLevel;
           let level = v6 * 0x7FFF;
           v7 \<leftarrow> guest_multiply K level 0x38E38E39;
           r32_8 \<leftarrow> reg K 32;
           State_Monad.return (sar 1 r32_8 - (sar 31 level))
         }
          else do {
            v9 \<leftarrow> voice_channel_base_vol K voice_base;
            v10 \<leftarrow> guest_multiply K v9 0x7FFF;
            State_Monad.return (ucast (signed_drop_bit 15 v10) :: u32)
          });
        v11 \<leftarrow> voice_channel_flags K voice_base;
        voice_channel_set_flags K voice_base (v11 OR 0x3);
        State_Monad.return vol
      }
       else do {
         cur \<leftarrow> voice_channel_fade_cur K voice_base;
         target \<leftarrow> voice_channel_fade_target K voice_base;
         let step1 = (if cutMode = 2 then 0x400 else (0x100 :: u32));
         let cur = (if cur <s target then (let cur = cur + step1 in (if target <s cur then target
             else cur)) else (if target <s cur then (let cur = cur - step1 in (if cur <s target
             then target else cur)) else cur));
         voice_channel_set_fade_cur K voice_base cur;
         v14 \<leftarrow> voice_channel_base_vol K voice_base;
         v15 \<leftarrow> guest_multiply K v14 cur;
         let vol = (ucast (signed_drop_bit 15 v15) :: u32);
         let vol = (if boost \<noteq> 0 then (let vol = sar 2 (vol * 5) in (if 0x7FFE <s vol then
             (0x7FFF :: u32) else vol)) else vol);
         b17 \<leftarrow> (if vol <s 0x11 then do {
           v16 \<leftarrow> voice_channel_low_vol_armed K voice_base;
           State_Monad.return v16
         }
          else State_Monad.return False);
         v18 \<leftarrow> r8 K kSpQueueGate;
         only_if (b17 \<and> v18 = 0) (do {
           setr K 16 vol;
           _ \<leftarrow> dispatch_jal K kFnSetFadeTarget 0x800759B4 [0x47FF];
           v19 \<leftarrow> r8 K kSpQueueIdx;
           _ \<leftarrow> dispatch_jal K kFnSpuQueuePing 0x800759C4 [v19, 1];
           voice_channel_disarm_low_vol K voice_base
         });
         v20 \<leftarrow> voice_channel_gain2_cur K voice_base;
         v21 \<leftarrow> voice_channel_gain2_target K voice_base;
         v22 \<leftarrow> voice_channel_gain2_cur K voice_base;
         let g2 = v20 + (sar 3 (v21 - (as_s16 v22)));
         voice_channel_set_gain2_cur K voice_base g2;
         v23 \<leftarrow> guest_multiply K vol (as_s16 g2);
         State_Monad.return (ucast (signed_drop_bit 13 v23) :: u32)
       });
     setr K 16 vol;
     v24 \<leftarrow> voice_channel_flags K voice_base;
     let flags = v24 OR 0xC0;
     voice_channel_set_volume K voice_base (as_u16 vol);
     voice_channel_set_pan K voice_base 0x3FFF;
     voice_channel_set_flags K voice_base flags;
     setr K 2 flags;
     setr K 3 0x3FFF
   })"

definition music_coord_set_gain2 :: "'c core_ops \<Rightarrow> u32 \<Rightarrow> ('c, unit) state"
    where
  "music_coord_set_gain2 K val = do {
     let V = (0x800BE1F8 :: u32);
     (if val <s 0 then do {
       let snap = as_u16 (- (as_s16 val));
       w16 K (V + 0x2E) snap;
       w16 K (V + 0x30) snap
     }
      else do {
        let val = (if 0x1FFF <s val then (0x1FFF :: u32) else val);
        w16 K (V + 0x2E) val
      })
   }"

definition eov_music_coord_set_gain2 :: "'c core_ops \<Rightarrow> ('c, unit) state" where
  "eov_music_coord_set_gain2 K = do {
     val \<leftarrow> reg K 4;
     music_coord_set_gain2 K val;
     setr K 3 0x800BE1F8;
     (if val <s 0 then setr K 2 (- val) else setr K 2 (if val <s 8192 then 1 else 0))
   }"

section \<open>\<open>game/audio/sfx.cpp\<close>\<close>

definition sfx_trigger :: "'c core_ops \<Rightarrow> u32 \<Rightarrow> u32 \<Rightarrow> u32
    \<Rightarrow> ('c, unit) state" where
  "sfx_trigger K id1 pan pitchBend = do {
     sp_save \<leftarrow> reg K 29;
     ra_save \<leftarrow> reg K 31;
     setr K 29 (sp_save - 40);
     sp \<leftarrow> reg K 29;
     w32 K (sp + 32) ra_save;
     let idb = id1 AND 0xFF;
     (if (idb AND 0x80) = 0 \<and> 112 \<le> idb then do {
       let remap = ([2, 3, 4, 5, 6, 7, 10, 11, 12, 13, 10, 11, 12, -1, -1, -1] :: u32 list);
       let idx = idb - 112;
       (if idx = 15 then call_guest K 0x80074EEC
        else only_if (0 \<le>s remap ! (unat idx)) (do {
          setr K 4 (remap ! (unat idx));
          call_guest K 0x80074BF8
        }));
       setr K 29 sp_save;
       setr K 31 ra_save
     }
      else do {
        let rest1 = (\<lambda>t1 a3_flag. do {
          kind \<leftarrow> r8 K t1;
          v5 \<leftarrow> r8 K 0x1F800137;
          let paused = v5 \<noteq> 0;
          let t0_final = (if kind = 4 then 4 else (if paused then 1 else kind));
          byte6_ext \<leftarrow> r8s K (t1 + 6);
          let pitchBend_ext = sar 24 (shl pitchBend 24);
          global_scale \<leftarrow> r8 K 0x800FB165;
          pitch_final \<leftarrow> (if global_scale = 0 then State_Monad.return (0 :: u32)
           else do {
             let bent = byte6_ext + pitchBend_ext;
             let bent16 = as_s16 bent;
             let product1 = bent16 * global_scale;
             let product16 = as_s16 product1;
             let bigProd = (scast product16 :: 64 word) * (0x38E38E39 :: 64 word);
             let hi = (ucast (signed_drop_bit 32 bigProd) :: u32);
             let signBit = (if product16 <s 0 then -1 else 0);
             let divBy9 = sar 1 hi - signBit;
             let clamped = as_s16 divBy9;
             State_Monad.return (if clamped <s 0 then (0 :: u32) else (if 128 \<le>s clamped then
                 (127 :: u32) else clamped))
           });
          b1 \<leftarrow> r8 K (t1 + 1);
          b2 \<leftarrow> r8 K (t1 + 2);
          b3 \<leftarrow> r8 K (t1 + 3);
          v11 \<leftarrow> r8 K (t1 + 4);
          let b4 = as_s8 v11;
          b5 \<leftarrow> r8 K (t1 + 5);
          let pan_ext = as_s8 (pan AND 0xFF);
          let stack16 = b4 + pan_ext;
          setr K 4 t0_final;
          setr K 5 b1;
          setr K 6 b2;
          setr K 7 (b3 OR a3_flag);
          w32 K (sp + 16) stack16;
          w32 K (sp + 20) b5;
          w32 K (sp + 24) pitch_final;
          w32 K (sp + 28) pitch_final;
          call_guest K 0x80075E04;
          setr K 29 sp_save;
          setr K 31 ra_save
        });
        (if (idb AND 0x80) \<noteq> 0 then (if 225 \<le> idb then do {
          setr K 29 sp_save;
          setr K 31 ra_save
        }
         else do {
           area \<leftarrow> r8 K 0x800BF870;
           area_table_ptr \<leftarrow> r32 K (0x800A4EF8 + area * 4);
           let t1 = area_table_ptr + ((idb AND 0x7F) * 8);
           let a3_flag = (128 :: u32);
           rest1 t1 a3_flag
         })
         else do {
           let t1 = 0x800A4D18 + idb * 8;
           let a3_flag = (0 :: u32);
           rest1 t1 a3_flag
         })
      })
   }"

definition sfx_trigger_panned :: "'c core_ops \<Rightarrow> u32 \<Rightarrow> u32 \<Rightarrow>
    ('c, unit) state" where
  "sfx_trigger_panned K id1 pan = do {
     ra_save \<leftarrow> reg K 31;
     r29_2 \<leftarrow> reg K 29;
     setr K 29 (r29_2 - 24);
     sp \<leftarrow> reg K 29;
     let idb = id1 AND 0xFF;
     let panx = sar 24 (shl pan 24);
     w32 K (sp + 16) ra_save;
     setr K 4 idb;
     setr K 5 panx;
     setr K 6 0;
     setr K 31 0x8007482C;
     call_guest K 0x80074590;
     v4 \<leftarrow> r32 K (sp + 16);
     setr K 31 v4;
     r29_5 \<leftarrow> reg K 29;
     setr K 29 (r29_5 + 24)
   }"

definition eov_trigger_panned :: "'c core_ops \<Rightarrow> ('c, unit) state" where
  "eov_trigger_panned K = do {
     r4_1 \<leftarrow> reg K 4;
     r5_2 \<leftarrow> reg K 5;
     sfx_trigger_panned K r4_1 r5_2
   }"

end
