(* ===== verification/ObjectLists.thy ===== *)
theory ObjectLists
  imports ObjectViews
begin

text \<open>
  The behaviour pass: the walks over the two lists of active objects and over the auxiliary list,
  the eight-slot array, and the call of an object's handler, native where there is one
  (\<open>game/object\<close>).
\<close>

section \<open>Layout\<close>

definition T2OBJ_RENDER_FLAG :: u32 where "T2OBJ_RENDER_FLAG = 0x01"
definition T2OBJ_HANDLER :: u32 where "T2OBJ_HANDLER = 0x1C"
definition T2OBJ_NEXT :: u32 where "T2OBJ_NEXT = 0x24"
definition T2_OBJLIST_HEAD_1 :: u32 where "T2_OBJLIST_HEAD_1 = 0x800FB168"
definition T2_OBJLIST_HEAD_2 :: u32 where "T2_OBJLIST_HEAD_2 = 0x800F2624"
definition ARRAY_BASE :: u32 where "ARRAY_BASE = 0x80100400"
definition SLOT_STRIDE :: u32 where "SLOT_STRIDE = 0x4C"
definition METHOD_TABLE :: u32 where "METHOD_TABLE = 0x8009D314"
definition AUX_LIST_HEAD :: u32 where "AUX_LIST_HEAD = 0x800F2738"

section \<open>\<open>game/object/behavior_dispatch.cpp\<close>\<close>

definition behavior_dispatch_dispatch_obj :: "'c core_ops \<Rightarrow> u32 \<Rightarrow> u32
    \<Rightarrow> ('c, unit) state" where
  "behavior_dispatch_dispatch_obj K object handler = do {
     setr K 4 object;
     v1 \<leftarrow> native_behavior K handler;
     only_if (\<not> v1) (call_guest K handler)
   }"

section \<open>\<open>game/object/array8_dispatch.cpp\<close>\<close>

definition array8_dispatch_tick :: "'c core_ops \<Rightarrow> ('c, unit) state" where
  "array8_dispatch_tick K = for_each (upto_u32 8) (\<lambda>i. do {
     let slot1 = ARRAY_BASE + i * SLOT_STRIDE;
     v1 \<leftarrow> r8 K slot1;
     (if v1 = 0 then State_Monad.return ()
      else do {
        ty \<leftarrow> r8 K (slot1 + 2);
        h \<leftarrow> r32 K (METHOD_TABLE + ty * 4);
        behavior_dispatch_dispatch_obj K slot1 h
      })
   })"

section \<open>\<open>game/object/object_list.cpp\<close>\<close>

definition call_handler :: "'c core_ops \<Rightarrow> u32 \<Rightarrow> ('c, unit) state" where
  "call_handler K node = do {
     h \<leftarrow> r32 K (node + T2OBJ_HANDLER);
     behavior_dispatch_dispatch_obj K node h
   }"

definition walk_list :: "'c core_ops \<Rightarrow> u32 \<Rightarrow> ('c, unit) state" where
  "walk_list K head = do {
     let n = head;
     n \<leftarrow> loop (\<lambda>n. (if n \<noteq> 0 then do {
       next1 \<leftarrow> r32 K (n + T2OBJ_NEXT);
       w8 K (n + T2OBJ_RENDER_FLAG) 0;
       call_handler K n;
       let n = next1;
       State_Monad.return (Inr n)
     }
      else State_Monad.return (Inl n))) n;
     State_Monad.return ()
   }"

definition object_list_walk_all :: "'c core_ops \<Rightarrow> ('c, unit) state" where
  "object_list_walk_all K = do {
     v1 \<leftarrow> r32 K T2_OBJLIST_HEAD_1;
     walk_list K v1;
     v2 \<leftarrow> r32 K T2_OBJLIST_HEAD_2;
     walk_list K v2
   }"

definition object_list_walk_list2 :: "'c core_ops \<Rightarrow> ('c, unit) state" where
  "object_list_walk_list2 K = do {
     v1 \<leftarrow> r32 K T2_OBJLIST_HEAD_2;
     walk_list K v1
   }"

definition object_list_walk_aux :: "'c core_ops \<Rightarrow> ('c, unit) state" where
  "object_list_walk_aux K = do {
     n \<leftarrow> r32 K AUX_LIST_HEAD;
     n \<leftarrow> loop (\<lambda>n. (if n \<noteq> 0 then do {
       h \<leftarrow> r32 K (n + 0x1C);
       next1 \<leftarrow> r32 K (n + 0x24);
       behavior_dispatch_dispatch_obj K n h;
       let n = next1;
       State_Monad.return (Inr n)
     }
      else State_Monad.return (Inl n))) n;
     State_Monad.return ()
   }"

section \<open>\<open>game/scene/transition_state3.cpp\<close>\<close>

definition transition_state3_walk_once :: "'c core_ops \<Rightarrow> ('c, unit) state" where
  "transition_state3_walk_once K = do {
     l2 \<leftarrow> r32 K T2_OBJLIST_HEAD_2;
     n \<leftarrow> r32 K T2_OBJLIST_HEAD_1;
     (l2, n) \<leftarrow> loop (\<lambda>(l2, n). (if n \<noteq> 0 then do {
       next1 \<leftarrow> r32 K (n + T2OBJ_NEXT);
       w8 K (n + T2OBJ_RENDER_FLAG) 0;
       v4 \<leftarrow> r8 K (n + 0x28);
       only_if ((v4 AND 0x80) \<noteq> 0) (do {
         h \<leftarrow> r32 K (n + T2OBJ_HANDLER);
         behavior_dispatch_dispatch_obj K n h
       });
       l2 \<leftarrow> r32 K T2_OBJLIST_HEAD_2;
       let n = next1;
       State_Monad.return (Inr (l2, n))
     }
      else State_Monad.return (Inl (l2, n)))) (l2, n);
     let n = l2;
     n \<leftarrow> loop (\<lambda>n. (if n \<noteq> 0 then do {
       next1 \<leftarrow> r32 K (n + T2OBJ_NEXT);
       w8 K (n + T2OBJ_RENDER_FLAG) 0;
       v8 \<leftarrow> r8 K (n + 0x28);
       only_if ((v8 AND 0x80) \<noteq> 0) (do {
         h \<leftarrow> r32 K (n + T2OBJ_HANDLER);
         behavior_dispatch_dispatch_obj K n h
       });
       let n = next1;
       State_Monad.return (Inr n)
     }
      else State_Monad.return (Inl n))) n;
     State_Monad.return ()
   }"

end
