(* ===== verification/ScriptInterpreter.thy ===== *)
theory ScriptInterpreter
  imports GameAudio ObjectLists
begin

text \<open>
  The scene script interpreter: the opcodes of \<open>game/scene/script_interp.cpp\<close>, the
  advance to the next entry and the guest-shaped entries of the handlers.
\<close>

section \<open>Layout\<close>

definition kLookAnchorZ :: u32 where "kLookAnchorZ = 0x1F800160"
definition kLookAnchorX :: u32 where "kLookAnchorX = 0x1F800164"
definition kSecondaryActor :: u32 where "kSecondaryActor = 0x1F800214"
definition kEventHandledMask :: u32 where "kEventHandledMask = 0x1F80017C"
definition kClaimGate :: u32 where "kClaimGate = 0x800BF80F"
definition kStatusByteSource :: u32 where "kStatusByteSource = 0x800E7EAA"
definition script_interp_kAngleMask :: u32 where "script_interp_kAngleMask = 0xFFF"
definition kHalfTurn :: u32 where "kHalfTurn = 0x800"
definition kTurnStepDefault :: u32 where "kTurnStepDefault = 0x100"
definition kGuestIsqrt :: u32 where "kGuestIsqrt = 0x80084080"
definition kGuestRatan2 :: u32 where "kGuestRatan2 = 0x80085690"
definition kWholeMoveQ12 :: u32 where "kWholeMoveQ12 = 0x1000"
definition kQ12RoundUp :: u32 where "kQ12RoundUp = 0xFFF"
definition kDefaultStepCount :: u32 where "kDefaultStepCount = 10"
definition kTurnModeSnapAndStop :: u32 where "kTurnModeSnapAndStop = 0"
definition kTurnModeSnapAndTurn :: u32 where "kTurnModeSnapAndTurn = 1"
definition kTurnModeOffset :: u32 where "kTurnModeOffset = 10"
definition kGaugeResult :: u32 where "kGaugeResult = 10"
definition kGaugeBase :: u32 where "kGaugeBase = 14"
definition kGaugeValue :: u32 where "kGaugeValue = 18"
definition kGaugeStepPerCall :: u32 where "kGaugeStepPerCall = 64"
definition kGaugeModeOffset :: u32 where "kGaugeModeOffset = 0x46"
definition kGaugePulseGate :: u32 where "kGaugePulseGate = 0xBF"
definition kGuestWrapEventPulse :: u32 where "kGuestWrapEventPulse = 0x80074590"
definition kJalReturnFromWrapPulse :: u32 where "kJalReturnFromWrapPulse = 0x80073238"
definition kWrapEventArg0 :: u32 where "kWrapEventArg0 = 24"
definition kWrapEventArg2 :: u32 where "kWrapEventArg2 = 15"
definition kHandlerTableBase :: u32 where "kHandlerTableBase = 0x800A3B78"
definition kRendezvousPost :: u32 where "kRendezvousPost = 0"
definition kRendezvousAwait :: u32 where "kRendezvousAwait = 1"
definition kProgressGateValue :: u32 where "kProgressGateValue = 2"
definition kFlagBitValidEntry :: u32 where "kFlagBitValidEntry = 0x02"
definition kFlagBitFromOpcode :: u32 where "kFlagBitFromOpcode = 0x04"
definition kNodeDeadFlagBit :: u32 where "kNodeDeadFlagBit = 0x80"
definition kKindSelectorOffset :: u32 where "kKindSelectorOffset = 0x72"
definition kMatchByteOffset :: u32 where "kMatchByteOffset = 0x79"
definition kOpcodeIdMask :: u32 where "kOpcodeIdMask = 0x07FF"
definition kFlagConditionalEnd :: u32 where "kFlagConditionalEnd = 0x0800"
definition kFlagValidEntry :: u32 where "kFlagValidEntry = 0x1000"
definition kFlagHasExtraBlock :: u32 where "kFlagHasExtraBlock = 0x2000"
definition kFlagSetsFlagBit2 :: u32 where "kFlagSetsFlagBit2 = 0x4000"
definition ScriptOpcode_kCallFunctionPointer :: u32 where "ScriptOpcode_kCallFunctionPointer = 0x3E"
definition StepReturn_kPause :: u32 where "StepReturn_kPause = 0"
definition StepReturn_kAdvanceKind0 :: u32 where "StepReturn_kAdvanceKind0 = 1"
definition StepReturn_kAdvanceKind1 :: u32 where "StepReturn_kAdvanceKind1 = 2"
definition StepReturn_kAdvanceKind0Again :: u32 where "StepReturn_kAdvanceKind0Again = 3"
definition StepReturn_kLeave :: u32 where "StepReturn_kLeave = 4"
definition AdvanceStepIndex_kGated :: u32 where "AdvanceStepIndex_kGated = 0"
definition AdvanceStepIndex_kGatedKeepingFlagBit2 :: u32 where "AdvanceStepIndex_kGatedKeepingFlagBit2 = 1"
definition AdvanceStepIndex_kStopWritingFF :: u32 where "AdvanceStepIndex_kStopWritingFF = 2"
definition AdvanceStepIndex_kAbortNoWrites :: u32 where "AdvanceStepIndex_kAbortNoWrites = 3"
definition AdvanceStepIndex_kContinue :: u32 where "AdvanceStepIndex_kContinue = 4"
definition AdvanceStepIndex_kContinueWithFlagBit2 :: u32 where "AdvanceStepIndex_kContinueWithFlagBit2 = 5"
definition AdvanceStepIndex_kEndConditional :: u32 where "AdvanceStepIndex_kEndConditional = 6"
definition AdvanceStepIndex_kOutOfRange :: u32 where "AdvanceStepIndex_kOutOfRange = - 1"
definition AdvanceKind_kNext8 :: u32 where "AdvanceKind_kNext8 = 0"
definition AdvanceKind_kNext16 :: u32 where "AdvanceKind_kNext16 = 0x2000"
definition AdvanceKind_kBranchAt12 :: u32 where "AdvanceKind_kBranchAt12 = 0x4000"
definition AdvanceKind_kBranchAt20 :: u32 where "AdvanceKind_kBranchAt20 = 0x6000"
definition kJalReturnAfterNext8 :: u32 where "kJalReturnAfterNext8 = 0x80040F1C"
definition kJalReturnAfterNext16 :: u32 where "kJalReturnAfterNext16 = 0x80040F40"
definition kJalReturnAfterBranch :: u32 where "kJalReturnAfterBranch = 0x80040F5C"
definition kJalReturnAfterBranchElse16 :: u32 where "kJalReturnAfterBranchElse16 = 0x80040F6C"
definition kJalReturnFromHandler :: u32 where "kJalReturnFromHandler = 0x80040FC"
definition kJalReturnFromAdvance :: u32 where "kJalReturnFromAdvance = 0x80041168"
definition kJalReturnFromCallFnptr :: u32 where "kJalReturnFromCallFnptr = 0x800412E4"

section \<open>\<open>game/scene/script_interp.cpp\<close>\<close>

definition script_interp_call_fnptr :: "'c core_ops \<Rightarrow> u32 \<Rightarrow> ('c, u32)
    state" where
  "script_interp_call_fnptr K obj = with_frame K 24 [(31, 16)] (do {
     setr K 31 kJalReturnFromCallFnptr;
     v1 \<leftarrow> script_object_function_pointer K obj;
     behavior_dispatch_dispatch_obj K obj v1;
     reg K 2
   })"

section \<open>\<open>game/scene/script_interp_entry.cpp\<close>\<close>

definition apply_gated_advance :: "'c core_ops \<Rightarrow> u32 \<Rightarrow> u32 \<Rightarrow>
    ('c, u32) state" where
  "apply_gated_advance K so flagBit = do {
     v1 \<leftarrow> script_object_progress K so;
     (if v1 = kProgressGateValue then do {
       script_object_set_state_flags K so (as_u8 (kFlagBitValidEntry OR flagBit));
       script_object_set_phase K so 0;
       State_Monad.return 1
     }
      else do {
        script_object_set_state_flags K so flagBit;
        script_object_set_progress K so 0;
        script_object_set_phase K so 0;
        State_Monad.return 0
      })
   }"

definition script_interp_advance_step :: "'c core_ops \<Rightarrow> u32 \<Rightarrow> u32
    \<Rightarrow> ('c, u32) state" where
  "script_interp_advance_step K obj kindArg = with_frame K 24 [(16, 16), (31, 20)] (do {
     setr K 16 obj;
     setr K 31 0x80040FB4;
     setr K 4 obj;
     setr K 5 kindArg;
     call_guest K 0x80040E54;
     ret \<leftarrow> reg K 2;
     (if 7 \<le> ret then State_Monad.return (-1)
      else do {
        let sw2 = as_s8 ret;
        (if sw2 = AdvanceStepIndex_kGated then apply_gated_advance K obj 0
         else if sw2 = AdvanceStepIndex_kGatedKeepingFlagBit2 then apply_gated_advance K obj
             kFlagBitFromOpcode
          else if sw2 = AdvanceStepIndex_kStopWritingFF then do {
            script_object_set_progress_stopped K obj;
            script_object_set_state_flags K obj kProgressStoppedByte;
            State_Monad.return 0
          }
           else if sw2 = AdvanceStepIndex_kAbortNoWrites then State_Monad.return (-1)
            else if sw2 = AdvanceStepIndex_kContinue then do {
              script_object_set_state_flags K obj kFlagBitValidEntry;
              script_object_set_phase K obj 0;
              State_Monad.return 1
            }
             else if sw2 = AdvanceStepIndex_kContinueWithFlagBit2 then do {
               script_object_set_state_flags K obj (as_u8 (kFlagBitValidEntry OR
                   kFlagBitFromOpcode));
               script_object_set_phase K obj 0;
               State_Monad.return 1
             }
              else if sw2 = AdvanceStepIndex_kEndConditional then do {
                script_object_set_state_flags K obj 0;
                script_object_set_progress K obj 0;
                script_object_set_phase K obj 0;
                State_Monad.return 0
              }
               else if sw2 = AdvanceStepIndex_kOutOfRange then State_Monad.return (-1)
                else State_Monad.return (-1))
      })
   })"

definition script_interp_advance_entry :: "'c core_ops \<Rightarrow> u32 \<Rightarrow> u32
    \<Rightarrow> ('c, u32) state" where
  "script_interp_advance_entry K obj kindArg = script_interp_advance_step K obj kindArg"

section \<open>\<open>game/scene/script_interp.cpp\<close>\<close>

definition script_interp_step :: "'c core_ops \<Rightarrow> u32 \<Rightarrow> ('c, unit) state"
    where
  "script_interp_step K obj = with_frame K 40 [(17, 20), (19, 28), (18, 24), (31, 32), (16, 16)]
      (do {
     setr K 17 obj;
     setr K 19 kHandlerTableBase;
     setr K 18 1;
     loop (\<lambda>_. do {
       prog \<leftarrow> script_object_progress K obj;
       setr K 16 0;
       (if prog \<le>s 0 then do { setr K 2 0; State_Monad.return (Inl ()) }
        else do {
          scriptPtr \<leftarrow> script_object_cursor K obj;
          opWord \<leftarrow> r16 K (scriptPtr + 0);
          let opcodeId = opWord AND kOpcodeIdMask;
          ret \<leftarrow> (if opcodeId = ScriptOpcode_kCallFunctionPointer then do {
            setr K 31 kJalReturnFromHandler;
            script_interp_call_fnptr K obj
          }
           else do {
             handler \<leftarrow> r32 K (kHandlerTableBase + opcodeId * 4);
             setr K 4 obj;
             setr K 31 kJalReturnFromHandler;
             call_guest K handler;
             reg K 2
           });
          let rest2 = (\<lambda>advanceKindArg. do {
            setr K 31 kJalReturnFromAdvance;
            advanceRet \<leftarrow> script_interp_advance_entry K obj advanceKindArg;
            setr K 16 advanceRet;
            (if advanceRet \<noteq> 1 then do { setr K 2 0; State_Monad.return (Inl ()) }
             else State_Monad.return (Inr ()))
          });
          let sw16 = (if ret < StepReturn_kLeave then as_u8 ret else StepReturn_kLeave);
          (if sw16 = StepReturn_kPause then do {
            script_object_pause_requested K obj;
            setr K 2 1;
            State_Monad.return (Inl ())
          }
           else if sw16 = StepReturn_kAdvanceKind0 \<or> sw16 = StepReturn_kAdvanceKind0Again then
               do {
             let advanceKindArg = (0 :: u32);
             rest2 advanceKindArg
           }
            else if sw16 = StepReturn_kAdvanceKind1 then do {
              let advanceKindArg = (1 :: u32);
              rest2 advanceKindArg
            }
             else if sw16 = StepReturn_kLeave then do {
               setr K 2 0;
               State_Monad.return (Inl ())
             }
              else rest2 (0 :: u32))
        })
     }) ()
   })"

definition beh_script_interp_step :: "'c core_ops \<Rightarrow> ('c, unit) state" where
  "beh_script_interp_step K = with_frame K 40 [(17, 20), (19, 28), (18, 24), (31, 32), (16, 16)]
      (do {
     r4_1 \<leftarrow> reg K 4;
     script_interp_step K r4_1
   })"

definition script_interp_step_angle_toward :: "'c core_ops \<Rightarrow> u32 \<Rightarrow> u32
    \<Rightarrow> u32 \<Rightarrow> ('c, u32) state" where
  "script_interp_step_angle_toward K anglePtr targetAngle step1 = do {
     v1 \<leftarrow> r16 K anglePtr;
     let cur = as_s16 v1;
     let straightDelta = targetAngle - cur;
     let magnitude1 = (if straightDelta <s 0 then - straightDelta else straightDelta);
     (if magnitude1 \<le>s step1 then do {
       w16 K anglePtr targetAngle;
       State_Monad.return 1
     }
      else do {
        let dirStep = (if kHalfTurn - 1 < (straightDelta AND script_interp_kAngleMask) then as_s16
            (- step1) else step1);
        let moved = as_s16 (cur + dirStep);
        w16 K anglePtr moved;
        let remaining = (targetAngle - moved) AND script_interp_kAngleMask;
        (if remaining \<le>s step1 then do {
          w16 K anglePtr targetAngle;
          State_Monad.return 1
        }
         else State_Monad.return 0)
      })
   }"

definition script_interp_turn_facing :: "'c core_ops \<Rightarrow> u32 \<Rightarrow> u32
    \<Rightarrow> u32 \<Rightarrow> ('c, u32) state" where
  "script_interp_turn_facing K obj targetAngle step1 = script_interp_step_angle_toward K (obj +
      kFacingAngle) targetAngle step1"

definition script_interp_turn_facing_framed :: "'c core_ops \<Rightarrow> ('c, unit) state" where
  "script_interp_turn_facing_framed K = do {
     obj \<leftarrow> reg K 4;
     r5_2 \<leftarrow> reg K 5;
     let targetAngle = as_s16 r5_2;
     r6_3 \<leftarrow> reg K 6;
     let step1 = as_s16 r6_3;
     with_frame K 24 [(31, 16)] (do {
       v4 \<leftarrow> script_interp_turn_facing K obj targetAngle step1;
       setr K 2 v4
     })
   }"

definition script_interp_step_event_pulse :: "'c core_ops \<Rightarrow> u32 \<Rightarrow> u32
    \<Rightarrow> u32 \<Rightarrow> ('c, u32) state" where
  "script_interp_step_event_pulse K obj flagsPtr packedArg = do {
     flagsWord \<leftarrow> r16 K flagsPtr;
     let soundId = as_u8 (packedArg AND 0xFF);
     let pitchBend = as_s8 ((shr packedArg 8) AND 0xFF);
     let kRepeatMask = (0x3F :: u32);
     let kArmOnceBit = (0x80 :: u32);
     let kLatchedBit = (0x40 :: u32);
     (if flagsWord = 0 then State_Monad.return 0
      else if (flagsWord AND kRepeatMask) = 0 then (if (flagsWord AND kArmOnceBit) = 0 then
          State_Monad.return 0
       else do {
         v2 \<leftarrow> script_object_owner_pointer K obj;
         v3 \<leftarrow> r8 K (v2 + 4);
         (if v3 = 0 then do {
           w16 K flagsPtr (flagsWord AND (NOT kLatchedBit));
           State_Monad.return 0
         }
          else if (flagsWord AND kLatchedBit) \<noteq> 0 then State_Monad.return 0
           else do {
             w16 K flagsPtr (flagsWord OR kLatchedBit);
             sfx_trigger K soundId 0 pitchBend;
             State_Monad.return 1
           })
       })
       else do {
         v4 \<leftarrow> r16 K kEventHandledMask;
         only_if ((v4 AND flagsWord) = 0) (sfx_trigger K soundId 0 pitchBend);
         State_Monad.return 0
       })
   }"

definition script_interp_step_event_pulse_framed :: "'c core_ops \<Rightarrow> ('c, unit) state"
    where
  "script_interp_step_event_pulse_framed K = do {
     obj \<leftarrow> reg K 4;
     flagsPtr \<leftarrow> reg K 5;
     packedArg \<leftarrow> reg K 6;
     with_frame K 24 [(31, 16)] (do {
       v4 \<leftarrow> script_interp_step_event_pulse K obj flagsPtr packedArg;
       setr K 2 v4
     })
   }"

definition solve_step_divisor :: "'c core_ops \<Rightarrow> u32 \<Rightarrow> u32 \<Rightarrow>
    ('c, u32) state" where
  "solve_step_divisor K distance stepsRequested = do {
     guest_divide K True distance stepsRequested;
     only_if (stepsRequested = 0) (guest_break K 7168);
     only_if (stepsRequested = -1 \<and> distance = 0x80000000) (guest_break K 6144);
     r33_1 \<leftarrow> reg K 33;
     let stepDiv = as_u16 r33_1;
     State_Monad.return (if stepDiv = 0 then (1 :: u32) else stepDiv)
   }"

definition solve_per_call_step :: "'c core_ops \<Rightarrow> u32 \<Rightarrow> ('c, u32) state"
    where
  "solve_per_call_step K stepDiv = do {
     guest_divide K True kWholeMoveQ12 (as_s16 stepDiv);
     only_if (as_s16 stepDiv = 0) (guest_break K 7168);
     only_if (as_s16 stepDiv = -1 \<and> kWholeMoveQ12 = 0x80000000) (guest_break K 6144);
     r33_1 \<leftarrow> reg K 33;
     State_Monad.return (as_u16 r33_1)
   }"

definition interpolate_q12 :: "'c core_ops \<Rightarrow> u32 \<Rightarrow> u32 \<Rightarrow> u32
    \<Rightarrow> ('c, u32) state" where
  "interpolate_q12 K remaining delta from1 = do {
     let scaled = remaining * delta;
     let scaled = (if scaled <s 0 then (scaled + kQ12RoundUp) else scaled);
     State_Monad.return (as_s16 (from1 - (as_s16 (sar 12 scaled))))
   }"

definition script_interp_op36_move_toward_script_target :: "'c core_ops \<Rightarrow> u32
    \<Rightarrow> ('c, u32) state" where
  "script_interp_op36_move_toward_script_target K obj = with_frame K 40 [(16, 16), (17, 20), (18,
      24), (19, 28), (20, 32), (31, 36)] (do {
     let commit = (do {
       v1 \<leftarrow> script_object_steps_remaining K obj;
       v2 \<leftarrow> script_object_step_divisor K obj;
       let stepsRemaining = as_u16 (v1 - v2);
       let stepsRemaining = (if as_s16 stepsRemaining \<le>s 0 then (0 :: u32) else
           stepsRemaining);
       script_object_set_steps_remaining K obj stepsRemaining;
       entry \<leftarrow> script_object_cursor K obj;
       v4 \<leftarrow> script_object_delta_z K obj;
       v5 \<leftarrow> r16 K (entry + 2);
       v6 \<leftarrow> interpolate_q12 K (as_s16 stepsRemaining) v4 (as_s16 v5);
       script_object_set_position_z K obj v6;
       v7 \<leftarrow> script_object_delta_y K obj;
       v8 \<leftarrow> r16 K (entry + 4);
       v9 \<leftarrow> interpolate_q12 K (as_s16 stepsRemaining) v7 (as_s16 v8);
       script_object_set_position_y K obj v9;
       v10 \<leftarrow> script_object_delta_x K obj;
       v11 \<leftarrow> r16 K (entry + 6);
       v12 \<leftarrow> interpolate_q12 K (as_s16 stepsRemaining) v10 (as_s16 v11);
       script_object_set_position_x K obj v12;
       (if stepsRemaining \<noteq> 0 then do {
         setr K 4 obj;
         v13 \<leftarrow> script_object_event_flags_pointer K obj;
         setr K 5 v13;
         v14 \<leftarrow> script_object_event_packed_arg K obj;
         setr K 6 v14;
         script_interp_step_event_pulse_framed K;
         State_Monad.return 0
       }
        else State_Monad.return 1)
     });
     setr K 16 obj;
     setr K 20 1;
     scriptPtr \<leftarrow> script_object_cursor K obj;
     setr K 18 scriptPtr;
     phase \<leftarrow> script_object_phase K obj;
     v17 \<leftarrow> r16 K (scriptPtr + kTurnModeOffset);
     let turnMode = as_s16 v17;
     setr K 19 (as_u16 turnMode);
     let rest1 = (do {
       setr K 4 obj;
       v18 \<leftarrow> script_object_turn_angle2 K obj;
       setr K 5 v18;
       setr K 6 kTurnStepDefault;
       script_interp_turn_facing_framed K;
       r2_19 \<leftarrow> reg K 2;
       only_if (r2_19 \<noteq> 0) (script_object_advance_phase K obj);
       (if turnMode = kTurnModeSnapAndTurn then State_Monad.return 0 else commit)
     });
     (if phase \<noteq> 1 then (if 1 < phase then (if phase \<noteq> 2 then State_Monad.return 0
      else commit)
      else if phase \<noteq> 0 then State_Monad.return 0
       else do {
         stepsRequested \<leftarrow> script_object_requested_step_count K obj;
         let stepsRequested = (if stepsRequested = 0 then kDefaultStepCount else stepsRequested);
         setr K 17 stepsRequested;
         v21 \<leftarrow> script_object_arg_a K obj;
         let targetZ = as_s16 v21;
         v22 \<leftarrow> script_object_arg_b K obj;
         let targetY = as_s16 v22;
         v23 \<leftarrow> script_object_arg_c K obj;
         let targetX = as_s16 v23;
         v24 \<leftarrow> script_object_position_z K obj;
         let dz = as_s16 (targetZ - v24);
         v25 \<leftarrow> script_object_position_y K obj;
         let dy = as_s16 (targetY - v25);
         v26 \<leftarrow> script_object_position_x K obj;
         let dx = as_s16 (targetX - v26);
         script_object_set_deltas K obj dz dy dx;
         setr K 4 (dx * dx + dz * dz);
         call_guest K kGuestIsqrt;
         r2_27 \<leftarrow> reg K 2;
         let distance = as_s16 r2_27;
         stepDiv \<leftarrow> solve_step_divisor K distance stepsRequested;
         script_object_set_step_divisor K obj stepDiv;
         script_object_set_steps_remaining K obj (as_u16 kWholeMoveQ12);
         stepDiv \<leftarrow> solve_per_call_step K stepDiv;
         script_object_set_step_divisor K obj stepDiv;
         let rest2 = (do {
           setr K 4 (- dx);
           setr K 5 dz;
           call_guest K kGuestRatan2;
           r2_30 \<leftarrow> reg K 2;
           script_object_set_turn_angle2 K obj (as_u16 (as_s16 (r2_30 AND
               script_interp_kAngleMask)));
           script_object_advance_phase K obj;
           rest1
         });
         (if turnMode = -1 then do {
           setr K 4 (- dx);
           setr K 5 dz;
           call_guest K kGuestRatan2;
           r2_31 \<leftarrow> reg K 2;
           script_object_set_facing_angle K obj (as_s16 (r2_31 AND script_interp_kAngleMask));
           rest2
         }
          else if turnMode = kTurnModeSnapAndStop then do {
            script_object_set_phase K obj 2;
            State_Monad.return 0
          }
           else rest2)
       })
      else rest1)
   })"

definition script_interp_op31_turn_toward_target :: "'c core_ops \<Rightarrow> u32 \<Rightarrow>
    ('c, u32) state" where
  "script_interp_op31_turn_toward_target K obj = with_frame K 48 [(16, 32), (17, 36), (31, 40)]
      (do {
     setr K 16 obj;
     v1 \<leftarrow> script_object_arg_a K obj;
     let argA = as_s16 v1;
     v2 \<leftarrow> r32 K kSecondaryActor;
     let target = (if ((as_u16 argA) AND 0x8000) \<noteq> 0 then v2 else obj);
     setr K 17 target;
     phase \<leftarrow> script_object_phase K obj;
     (if phase \<noteq> 0 then (if phase \<noteq> 1 then State_Monad.return 0
      else do {
        setr K 4 target;
        v4 \<leftarrow> script_object_arg_c K obj;
        setr K 5 v4;
        v5 \<leftarrow> script_object_arg_b K obj;
        setr K 6 v5;
        script_interp_turn_facing_framed K;
        reg K 2
      })
      else do {
        let mode = as_u16 ((as_u16 argA) AND 0x7FFF);
        let kModeUseCurrent = (0 :: u32);
        let kModeAimAtActorFromAnchor = (1 :: u32);
        let kModeAimAtActorFromAnchorFlipped = (2 :: u32);
        let kModeAimFromSelf = (3 :: u32);
        let kModeTrackLivePoint = (10 :: u32);
        let kHalfTurnAngle = (2048 :: u32);
        (if mode = kModeAimAtActorFromAnchorFlipped then do {
          v7 \<leftarrow> script_object_position_x K target;
          v8 \<leftarrow> r16s K kLookAnchorX;
          let y = v7 - v8;
          v9 \<leftarrow> r16s K kLookAnchorZ;
          v10 \<leftarrow> script_object_position_z K target;
          let x = v9 - v10;
          setr K 4 y;
          setr K 5 x;
          call_guest K kGuestRatan2;
          r2_11 \<leftarrow> reg K 2;
          let flipped = r2_11 - kHalfTurnAngle;
          v12 \<leftarrow> script_object_arg_c K obj;
          script_object_set_arg_c K obj (as_u16 (v12 + (flipped AND script_interp_kAngleMask)))
        }
         else if mode < kModeAimFromSelf then only_if (mode = kModeAimAtActorFromAnchor) (do {
           v13 \<leftarrow> script_object_position_x K target;
           v14 \<leftarrow> r16s K kLookAnchorX;
           let y = v13 - v14;
           v15 \<leftarrow> r16s K kLookAnchorZ;
           v16 \<leftarrow> script_object_position_z K target;
           let x = v15 - v16;
           setr K 4 y;
           setr K 5 x;
           call_guest K kGuestRatan2;
           v17 \<leftarrow> script_object_arg_c K obj;
           r2_18 \<leftarrow> reg K 2;
           script_object_set_arg_c K obj (as_u16 (v17 + (r2_18 AND script_interp_kAngleMask)))
         })
          else if mode = kModeAimFromSelf then do {
            v19 \<leftarrow> script_object_position_x K target;
            v20 \<leftarrow> script_object_position_x K obj;
            let y = v19 - v20;
            v21 \<leftarrow> script_object_position_z K obj;
            v22 \<leftarrow> script_object_position_z K target;
            let x = v21 - v22;
            setr K 4 y;
            setr K 5 x;
            call_guest K kGuestRatan2;
            v23 \<leftarrow> script_object_arg_c K obj;
            r2_24 \<leftarrow> reg K 2;
            script_object_set_arg_c K obj (as_u16 (v23 + (r2_24 AND script_interp_kAngleMask)))
          }
           else only_if (mode = kModeTrackLivePoint) (do {
             v25 \<leftarrow> script_object_position_x K target;
             v26 \<leftarrow> script_object_arg_c K obj;
             let y = v25 - v26;
             v27 \<leftarrow> script_object_arg_b K obj;
             v28 \<leftarrow> script_object_position_z K target;
             let x = v27 - v28;
             setr K 4 y;
             setr K 5 x;
             call_guest K kGuestRatan2;
             r2_29 \<leftarrow> reg K 2;
             script_object_set_arg_c K obj (as_u16 (r2_29 AND script_interp_kAngleMask));
             script_object_set_arg_b K obj (as_u16 kTurnStepDefault)
           }));
        v30 \<leftarrow> script_object_arg_c K obj;
        let targetAngle = as_s16 v30;
        currentAngle \<leftarrow> script_object_facing_angle K target;
        v32 \<leftarrow> script_object_arg_b K obj;
        let threshold = as_s16 v32;
        let maskedDelta = (targetAngle - currentAngle) AND script_interp_kAngleMask;
        (if maskedDelta <s threshold \<or> threshold \<le>s 0 then do {
          script_object_set_facing_angle K target targetAngle;
          State_Monad.return 1
        }
         else do {
           script_object_clear_facing_companion K target;
           script_object_advance_phase K obj;
           State_Monad.return 0
         })
      })
   })"

definition refresh_cached_tail :: "'c core_ops \<Rightarrow> u32 \<Rightarrow> u32 \<Rightarrow>
    u32 \<Rightarrow> ('c, unit) state" where
  "refresh_cached_tail K so flagByteOffset cacheDistance = do {
     node \<leftarrow> script_object_tail_node K so;
     (if node = 0 then State_Monad.return ()
      else do {
        v2 \<leftarrow> r8 K (node + flagByteOffset);
        (if (v2 AND kNodeDeadFlagBit) \<noteq> 0 then script_object_clear_tail K so
         else script_object_set_tail_cache K so (node + cacheDistance))
      })
   }"

definition script_interp_matches_active_by_kind :: "'c core_ops \<Rightarrow> u32 \<Rightarrow>
    ('c, u32) state" where
  "script_interp_matches_active_by_kind K obj = do {
     v1 \<leftarrow> r16 K (obj + kKindSelectorOffset);
     let kind = as_s16 v1;
     (if kind = 0 then do {
       v2 \<leftarrow> r8 K (obj + kMatchByteOffset);
       State_Monad.return (if v2 = 1 then 1 else (0 :: u32))
     }
      else if kind = 1 then do {
        record1 \<leftarrow> r32 K kSecondaryActor;
        v4 \<leftarrow> r8 K (record1 + kMatchByteOffset);
        State_Monad.return (if v4 = kind then 1 else (0 :: u32))
      }
       else State_Monad.return 0)
   }"

definition script_interp_mirror_global_status_byte :: "'c core_ops \<Rightarrow> ('c, u32) state"
    where
  "script_interp_mirror_global_status_byte K = do {
     v1 \<leftarrow> r8 K kStatusByteSource;
     w8 K kStatusByteMirror v1;
     State_Monad.return 1
   }"

definition script_interp_advance_gauge :: "'c core_ops \<Rightarrow> u32 \<Rightarrow> u32
    \<Rightarrow> ('c, u32) state" where
  "script_interp_advance_gauge K obj rec = with_frame K 32 [(16, 16), (17, 20), (31, 24)] (do {
     setr K 16 rec;
     mode \<leftarrow> r8 K (obj + kGaugeModeOffset);
     setr K 17 0;
     (if mode = 0 then do {
       r16_2 \<leftarrow> reg K 16;
       v3 \<leftarrow> r16 K (r16_2 + kGaugeValue);
       let stepped = as_u16 (v3 + kGaugeStepPerCall);
       w16 K (r16_2 + kGaugeValue) stepped;
       only_if (0 <s shl stepped 16) (do { w16 K (r16_2 + kGaugeValue) 0; setr K 17 1 })
     }
      else only_if (mode = 1) (do {
        r16_4 \<leftarrow> reg K 16;
        v5 \<leftarrow> r16 K (r16_4 + kGaugeValue);
        let stepped = as_u16 (v5 - kGaugeStepPerCall);
        w16 K (r16_4 + kGaugeValue) stepped;
        only_if (shl stepped 16 <s 0) (do { w16 K (r16_4 + kGaugeValue) 0; setr K 17 1 })
      }));
     r17_6 \<leftarrow> reg K 17;
     v7 \<leftarrow> r8 K (obj + kGaugePulseGate);
     only_if (r17_6 \<noteq> 0 \<and> v7 \<noteq> 0) (do {
       setr K 4 kWrapEventArg0;
       setr K 5 0;
       setr K 31 kJalReturnFromWrapPulse;
       setr K 6 kWrapEventArg2;
       call_guest K kGuestWrapEventPulse
     });
     r16_8 \<leftarrow> reg K 16;
     base1 \<leftarrow> r16 K (r16_8 + kGaugeBase);
     gauge \<leftarrow> r16 K (r16_8 + kGaugeValue);
     ret \<leftarrow> reg K 17;
     w16 K (r16_8 + kGaugeResult) (base1 + gauge);
     State_Monad.return ret
   })"

section \<open>\<open>game/scene/script_interp_entry.cpp\<close>\<close>

definition script_interp_load_current_entry :: "'c core_ops \<Rightarrow> u32 \<Rightarrow> u32
    \<Rightarrow> ('c, unit) state" where
  "script_interp_load_current_entry K obj scriptPtr = do {
     script_object_set_cursor K obj scriptPtr;
     v1 \<leftarrow> r16 K (scriptPtr + 2);
     script_object_set_arg_a K obj v1;
     v2 \<leftarrow> r16 K (scriptPtr + 4);
     script_object_set_arg_b K obj v2;
     v3 \<leftarrow> r16 K (scriptPtr + 6);
     script_object_set_arg_c K obj v3;
     op0 \<leftarrow> r16 K (scriptPtr + 0);
     only_if ((op0 AND kFlagHasExtraBlock) \<noteq> 0) (do {
       let ex = scriptPtr + 8;
       v5 \<leftarrow> r16 K (ex + 0);
       script_object_set_extra_halfword0 K obj v5;
       v6 \<leftarrow> r16 K (ex + 2);
       script_object_set_extra_halfword1 K obj v6;
       v7 \<leftarrow> r16 K (ex + 4);
       script_object_set_extra_halfword2 K obj v7;
       v8 \<leftarrow> r16 K (ex + 6);
       script_object_set_extra_halfword3 K obj v8
     })
   }"

definition script_interp_load_next_entry :: "'c core_ops \<Rightarrow> u32 \<Rightarrow> u32
    \<Rightarrow> ('c, u32) state" where
  "script_interp_load_next_entry K obj kindArg = with_frame K 32 [(16, 16), (17, 20), (31, 24)]
      (do {
     cursor \<leftarrow> script_object_cursor K obj;
     opWord \<leftarrow> r16 K (cursor + 0);
     let kindBits = as_u16 (opWord AND kAdvanceKindMask);
     let result1 = (if (opWord AND kFlagValidEntry) \<noteq> 0 then AdvanceStepIndex_kContinue
         else AdvanceStepIndex_kGated);
     v3 \<leftarrow> decode_advance_kind K opWord;
     (if v3 = AdvanceKind_kNext8 then do {
       setr K 31 kJalReturnAfterNext8;
       script_interp_load_current_entry K obj (cursor + 8);
       State_Monad.return (if (opWord AND kFlagConditionalEnd) \<noteq> 0 then
           AdvanceStepIndex_kEndConditional else result1)
     }
      else if v3 = AdvanceKind_kNext16 then do {
        setr K 31 kJalReturnAfterNext16;
        script_interp_load_current_entry K obj (cursor + 16);
        State_Monad.return (if (opWord AND kFlagConditionalEnd) \<noteq> 0 then
            AdvanceStepIndex_kEndConditional else result1)
      }
       else if v3 = AdvanceKind_kBranchAt12 then do {
         result1 \<leftarrow> (if kindArg \<noteq> 0 then do {
           setr K 31 kJalReturnAfterNext16;
           script_interp_load_current_entry K obj (cursor + 16);
           State_Monad.return result1
         }
          else do {
            setr K 31 kJalReturnAfterBranch;
            let result1 = result1 + 1;
            v4 \<leftarrow> r32 K (cursor + 12);
            script_interp_load_current_entry K obj v4;
            State_Monad.return result1
          });
         State_Monad.return (if (opWord AND kFlagConditionalEnd) \<noteq> 0 then
             AdvanceStepIndex_kEndConditional else result1)
       }
        else if v3 = AdvanceKind_kBranchAt20 then do {
          result1 \<leftarrow> (if kindArg \<noteq> 0 then do {
            setr K 31 kJalReturnAfterBranchElse16;
            script_interp_load_current_entry K obj (cursor + 24);
            State_Monad.return result1
          }
           else do {
             setr K 31 kJalReturnAfterBranch;
             let result1 = result1 + 1;
             v5 \<leftarrow> r32 K (cursor + 20);
             script_interp_load_current_entry K obj v5;
             State_Monad.return result1
           });
          State_Monad.return (if (opWord AND kFlagConditionalEnd) \<noteq> 0 then
              AdvanceStepIndex_kEndConditional else result1)
        }
         else if v3 = AdvanceKind_kStop then State_Monad.return AdvanceStepIndex_kStopWritingFF
          else State_Monad.return (if (opWord AND kFlagConditionalEnd) \<noteq> 0 then
              AdvanceStepIndex_kEndConditional else result1))
   })"

section \<open>\<open>game/scene/script_interp.cpp\<close>\<close>

definition eov_load_next_entry :: "'c core_ops \<Rightarrow> ('c, unit) state" where
  "eov_load_next_entry K = do {
     r4_1 \<leftarrow> reg K 4;
     r5_2 \<leftarrow> reg K 5;
     v3 \<leftarrow> script_interp_load_next_entry K r4_1 r5_2;
     setr K 2 v3
   }"

section \<open>\<open>game/scene/script_interp_entry.cpp\<close>\<close>

definition script_interp_op04_scene_flag_rendezvous :: "'c core_ops \<Rightarrow> u32
    \<Rightarrow> ('c, u32) state" where
  "script_interp_op04_scene_flag_rendezvous K obj = do {
     v1 \<leftarrow> script_object_arg_a K obj;
     let slot1 = as_s16 v1;
     v2 \<leftarrow> script_object_arg_b K obj;
     let postValue = as_u8 v2;
     v3 \<leftarrow> script_object_arg_c K obj;
     let awaitValue = as_s16 v3;
     flagAddr \<leftarrow> flag_addr K slot1;
     phase \<leftarrow> script_object_phase K obj;
     (if phase = kRendezvousPost then do {
       was \<leftarrow> r8 K flagAddr;
       w8 K flagAddr postValue;
       script_object_advance_phase K obj;
       State_Monad.return StepReturn_kPause
     }
      else if phase = kRendezvousAwait then do {
        have1 \<leftarrow> r8 K flagAddr;
        let met = have1 = awaitValue;
        State_Monad.return (if met then StepReturn_kAdvanceKind0 else StepReturn_kPause)
      }
       else State_Monad.return StepReturn_kPause)
   }"

section \<open>\<open>game/scene/script_interp.cpp\<close>\<close>

definition eov_op04_scene_flag_rendezvous :: "'c core_ops \<Rightarrow> ('c, unit) state" where
  "eov_op04_scene_flag_rendezvous K = do {
     r4_1 \<leftarrow> reg K 4;
     v2 \<leftarrow> script_interp_op04_scene_flag_rendezvous K r4_1;
     setr K 2 v2
   }"

section \<open>\<open>game/scene/script_interp_entry.cpp\<close>\<close>

definition script_interp_op05_wait_frames :: "'c core_ops \<Rightarrow> u32 \<Rightarrow> ('c,
    u32) state" where
  "script_interp_op05_wait_frames K obj = do {
     v1 \<leftarrow> script_object_arg_a K obj;
     let decremented = as_u16 (v1 - 1);
     script_object_set_arg_a K obj decremented;
     State_Monad.return (if as_s16 decremented <s 0 then 1 else (0 :: u32))
   }"

section \<open>\<open>game/scene/script_interp.cpp\<close>\<close>

definition eov_op05_wait_frames :: "'c core_ops \<Rightarrow> ('c, unit) state" where
  "eov_op05_wait_frames K = do {
     r4_1 \<leftarrow> reg K 4;
     v2 \<leftarrow> script_interp_op05_wait_frames K r4_1;
     setr K 2 v2
   }"

section \<open>\<open>game/scene/script_interp_entry.cpp\<close>\<close>

definition script_interp_op06_test_scene_flag :: "'c core_ops \<Rightarrow> u32 \<Rightarrow> ('c,
    u32) state" where
  "script_interp_op06_test_scene_flag K obj = do {
     v1 \<leftarrow> script_object_arg_a K obj;
     let argA = as_s16 v1;
     v2 \<leftarrow> script_object_arg_b K obj;
     let argB = as_s16 v2;
     v3 \<leftarrow> script_object_arg_c K obj;
     let argC = as_s16 v3;
     v4 \<leftarrow> flag_addr K argB;
     tableByte \<leftarrow> r8 K v4;
     (if argA = 1 then State_Monad.return (if (tableByte AND (as_u8 argC)) \<noteq> 0 then 1 else
         (0 :: u32))
      else if argA = 0 then State_Monad.return (if tableByte = argC then 1 else (0 :: u32))
       else if argA = 2 then State_Monad.return (if (tableByte AND (as_u8 argC)) = 0 then 1 else
           (0 :: u32))
        else State_Monad.return 0)
   }"

section \<open>\<open>game/scene/script_interp.cpp\<close>\<close>

definition eov_op06_test_scene_flag :: "'c core_ops \<Rightarrow> ('c, unit) state" where
  "eov_op06_test_scene_flag K = do {
     r4_1 \<leftarrow> reg K 4;
     v2 \<leftarrow> script_interp_op06_test_scene_flag K r4_1;
     setr K 2 v2
   }"

definition eov_op31_turn_toward_target :: "'c core_ops \<Rightarrow> ('c, unit) state" where
  "eov_op31_turn_toward_target K = do {
     r4_1 \<leftarrow> reg K 4;
     v2 \<leftarrow> script_interp_op31_turn_toward_target K r4_1;
     setr K 2 v2
   }"

section \<open>\<open>game/scene/script_interp_entry.cpp\<close>\<close>

definition script_interp_op34_claim_gate :: "'c core_ops \<Rightarrow> u32 \<Rightarrow> ('c, u32)
    state" where
  "script_interp_op34_claim_gate K obj = do {
     phase \<leftarrow> script_object_phase K obj;
     (if phase = 0 then do {
       argARaw \<leftarrow> script_object_arg_a K obj;
       let claimTag = as_u8 (argARaw AND 7);
       (if claimTag \<noteq> 0 then do {
         v3 \<leftarrow> r8 K kClaimGate;
         only_if (v3 = 0) (w8 K kClaimGate claimTag);
         (if (argARaw AND 0x8000) \<noteq> 0 then State_Monad.return StepReturn_kAdvanceKind0
          else do {
            script_object_advance_phase K obj;
            State_Monad.return StepReturn_kPause
          })
       }
        else do { script_object_advance_phase K obj; State_Monad.return StepReturn_kPause })
     }
      else if phase = 1 then do {
        v4 \<leftarrow> r8 K kClaimGate;
        State_Monad.return (if v4 = 0 then StepReturn_kAdvanceKind0 else StepReturn_kPause)
      }
       else State_Monad.return StepReturn_kPause)
   }"

section \<open>\<open>game/scene/script_interp.cpp\<close>\<close>

definition eov_op34_claim_gate :: "'c core_ops \<Rightarrow> ('c, unit) state" where
  "eov_op34_claim_gate K = do {
     r4_1 \<leftarrow> reg K 4;
     v2 \<leftarrow> script_interp_op34_claim_gate K r4_1;
     setr K 2 v2
   }"

definition eov_op36_move_toward_script_target :: "'c core_ops \<Rightarrow> ('c, unit) state"
    where
  "eov_op36_move_toward_script_target K = do {
     r4_1 \<leftarrow> reg K 4;
     v2 \<leftarrow> script_interp_op36_move_toward_script_target K r4_1;
     setr K 2 v2
   }"

definition eov_matches_active_by_kind :: "'c core_ops \<Rightarrow> ('c, unit) state" where
  "eov_matches_active_by_kind K = do {
     r4_1 \<leftarrow> reg K 4;
     v2 \<leftarrow> script_interp_matches_active_by_kind K r4_1;
     setr K 2 v2
   }"

definition eov_mirror_global_status_byte :: "'c core_ops \<Rightarrow> ('c, unit) state" where
  "eov_mirror_global_status_byte K = do {
     v1 \<leftarrow> script_interp_mirror_global_status_byte K;
     setr K 2 v1
   }"

definition eov_advance_gauge :: "'c core_ops \<Rightarrow> ('c, unit) state" where
  "eov_advance_gauge K = do {
     r4_1 \<leftarrow> reg K 4;
     r5_2 \<leftarrow> reg K 5;
     v3 \<leftarrow> script_interp_advance_gauge K r4_1 r5_2;
     setr K 2 v3
   }"

section \<open>\<open>game/scene/script_interp_entry.cpp\<close>\<close>

definition script_interp_init :: "'c core_ops \<Rightarrow> u32 \<Rightarrow> u32 \<Rightarrow>
    u32 \<Rightarrow> ('c, unit) state" where
  "script_interp_init K obj tableA scriptPtr = do {
     script_object_set_secondary_table K obj tableA;
     script_object_stamp_init_marker K obj;
     script_object_clear_runtime_scratch K obj;
     script_object_set_progress K obj 0;
     script_object_set_phase K obj 0;
     script_object_set_state_flags K obj 0;
     script_interp_load_current_entry K obj scriptPtr;
     op0 \<leftarrow> r16 K (scriptPtr + 0);
     only_if ((op0 AND kFlagValidEntry) \<noteq> 0) (script_object_set_state_flags K obj
         kFlagBitValidEntry);
     only_if ((op0 AND kFlagSetsFlagBit2) \<noteq> 0) (do {
       v2 \<leftarrow> script_object_state_flags K obj;
       script_object_set_state_flags K obj (as_u8 (v2 OR kFlagBitFromOpcode))
     })
   }"

end
