(* ===== verification/AreaSixActors.thy ===== *)
theory AreaSixActors
  imports ScriptInterpreter
begin

text \<open>
  The actors of area 6: the multi-actor dispatcher, the scripted actor and its fade script
  (\<open>game/ai/beh_a06_*.cpp\<close>).
\<close>

section \<open>Layout\<close>

definition GFX_PTR_8014CEF0 :: u32 where "GFX_PTR_8014CEF0 = 0x8014CEF0"
definition GFX_PTR_80017334 :: u32 where "GFX_PTR_80017334 = 0x80017334"
definition LUT_80144D58 :: u32 where "LUT_80144D58 = 0x80144D58"
definition GFX_PTR_8014D014 :: u32 where "GFX_PTR_8014D014 = 0x8014D014"
definition GFX_PTR_80144D28 :: u32 where "GFX_PTR_80144D28 = 0x80144D28"
definition G_BE0E4 :: u32 where "G_BE0E4 = 0x800BE0E4"
definition G_E806C :: u32 where "G_E806C = 0x800E806C"
definition G_E8076 :: u32 where "G_E8076 = 0x800E8076"
definition G_E8078 :: u32 where "G_E8078 = 0x800E8078"
definition G_E8074 :: u32 where "G_E8074 = 0x800E8074"
definition G_1003F8 :: u32 where "G_1003F8 = 0x801003F8"
definition DAT_8014994C :: u32 where "DAT_8014994C = 0x8014994C"
definition OBJ_A_800E8008 :: u32 where "OBJ_A_800E8008 = 0x800E8008"
definition SPAD_1F800214 :: u32 where "SPAD_1F800214 = 0x1F800214"
definition O_LEVEL_40 :: u32 where "O_LEVEL_40 = 0x40"
definition O_TIMER_42 :: u32 where "O_TIMER_42 = 0x42"
definition O_STATE_78 :: u32 where "O_STATE_78 = 0x78"
definition O_D0 :: u32 where "O_D0 = 0xD0"
definition TABLE_A :: u32 where "TABLE_A = 0x8014D014"
definition SCRIPT_80149A20 :: u32 where "SCRIPT_80149A20 = 0x80149A20"
definition SCRIPT_80149F18 :: u32 where "SCRIPT_80149F18 = 0x80149F18"
definition SCRIPT_80149F38 :: u32 where "SCRIPT_80149F38 = 0x80149F38"
definition SCRIPT_80149F68 :: u32 where "SCRIPT_80149F68 = 0x80149F68"
definition SCRIPT_80149F98 :: u32 where "SCRIPT_80149F98 = 0x80149F98"
definition SCRIPT_80149958 :: u32 where "SCRIPT_80149958 = 0x80149958"
definition SCRIPT_801496E8 :: u32 where "SCRIPT_801496E8 = 0x801496E8"
definition SCRIPT_80149788 :: u32 where "SCRIPT_80149788 = 0x80149788"
definition SCRIPT_801497B8 :: u32 where "SCRIPT_801497B8 = 0x801497B8"
definition SCRIPT_80149838 :: u32 where "SCRIPT_80149838 = 0x80149838"
definition DATA_80141E90 :: u32 where "DATA_80141E90 = 0x80141E90"
definition G_ECFA4 :: u32 where "G_ECFA4 = 0x800ECFA4"
definition G_ECF90 :: u32 where "G_ECF90 = 0x800ECF90"
definition G_BF80F :: u32 where "G_BF80F = 0x800BF80F"
definition G_BF868 :: u32 where "G_BF868 = 0x800BF868"
definition G_BF8D2 :: u32 where "G_BF8D2 = 0x800BF8D2"
definition G_BF8D5 :: u32 where "G_BF8D5 = 0x800BF8D5"
definition G_BF90C :: u32 where "G_BF90C = 0x800BF90C"
definition G_BF90D :: u32 where "G_BF90D = 0x800BF90D"
definition G_BFA1D :: u32 where "G_BFA1D = 0x800BFA1D"
definition G_BFA22 :: u32 where "G_BFA22 = 0x800BFA22"
definition G_BFAE5 :: u32 where "G_BFAE5 = 0x800BFAE5"
definition G_BFE56 :: u32 where "G_BFE56 = 0x800BFE56"
definition O_CLEANUP :: u32 where "O_CLEANUP = 0x01"
definition O_STATE_04 :: u32 where "O_STATE_04 = 0x04"
definition O_SUB_05 :: u32 where "O_SUB_05 = 0x05"
definition O_SUB_06 :: u32 where "O_SUB_06 = 0x06"
definition O_SUB_07 :: u32 where "O_SUB_07 = 0x07"
definition O_READY_2B :: u32 where "O_READY_2B = 0x2B"
definition O_PROG_70 :: u32 where "O_PROG_70 = 0x70"
definition O_TABLE_A :: u32 where "O_TABLE_A = 0x7C"
definition O_B_BF :: u32 where "O_B_BF = 0xBF"

section \<open>\<open>game/ai/beh_a06_multi_actor.cpp\<close>\<close>

definition leaf_ret :: "'c core_ops \<Rightarrow> ('c, u32) state" where
  "leaf_ret K = reg K 2"

definition white_flash_phase_ramp :: "'c core_ops \<Rightarrow> u32 \<Rightarrow> ('c, unit)
    state" where
  "white_flash_phase_ramp K node = do {
     st \<leftarrow> r8 K (node + 6);
     (if st = 0 then do {
       v2 \<leftarrow> r8 K 0x800BFA20;
       (if v2 < 2 then State_Monad.return ()
        else do { w16 K (node + 0x40) 0; w8 K (node + 6) (st + 1) })
     }
      else if st = 1 then do {
        idx \<leftarrow> r16 K (node + 0x40);
        color \<leftarrow> r32 K (LUT_80144D58 + ((as_s16 idx) * 4));
        screen_fade_apply_leaf_call K color kAdditive 4;
        v5 \<leftarrow> r32 K 0x1F80017C;
        only_if ((v5 AND 1) \<noteq> 0) (w16 K (node + 0x40) ((idx + 1) AND 7));
        v6 \<leftarrow> r8 K 0x800BFA20;
        (if v6 < 3 then State_Monad.return ()
         else do {
           v7 \<leftarrow> r16 K (node + 0x40);
           (if as_s16 v7 \<noteq> 0 then State_Monad.return ()
            else do { w16 K (node + 0x40) 0x20; w8 K (node + 6) (st + 1) })
         })
      }
       else if st = 2 then do {
         u \<leftarrow> r8 K (node + 0x40);
         screen_fade_apply_leaf_call K (((shl u 16) OR (shl u 8)) OR u) kAdditive 4;
         v9 \<leftarrow> r16 K (node + 0x40);
         let v = as_s16 v9;
         (if v <s 0x40 then w16 K (node + 0x40) (v + 8)
          else do {
            v10 \<leftarrow> r8 K 0x800BFA20;
            (if v10 < 4 then State_Monad.return () else w8 K (node + 6) (st + 1))
          })
       }
        else if st = 3 then do {
          u \<leftarrow> r8 K (node + 0x40);
          screen_fade_apply_leaf_call K (((shl u 16) OR (shl u 8)) OR u) kAdditive 4;
          v12 \<leftarrow> r16 K (node + 0x40);
          let v = as_s16 v12;
          (if v <s 0x80 then w16 K (node + 0x40) (v + 8)
           else do {
             v13 \<leftarrow> r8 K 0x800BFA20;
             (if v13 < 5 then State_Monad.return () else w8 K (node + 6) (st + 1))
           })
        }
         else if st = 4 then do {
           u \<leftarrow> r8 K (node + 0x40);
           screen_fade_apply_leaf_call K (((shl u 16) OR (shl u 8)) OR u) kAdditive 4;
           v15 \<leftarrow> r16 K (node + 0x40);
           let v = as_s16 v15;
           (if v <s 0xF8 then w16 K (node + 0x40) (v + 8)
            else do {
              v16 \<leftarrow> r8 K 0x800BFA20;
              (if v16 < 6 then State_Monad.return ()
               else do {
                 v17 \<leftarrow> r32 K (node + 0xC0);
                 _ \<leftarrow> guest_call K 0x80051B04 [v17, 0xC, 0x49];
                 w8 K (node + 6) 0;
                 v18 \<leftarrow> r8 K (node + 5);
                 w8 K (node + 5) (v18 + 1)
               })
            })
         }
          else State_Monad.return ())
   }"

definition white_fade_hold :: "'c core_ops \<Rightarrow> u32 \<Rightarrow> ('c, unit) state" where
  "white_fade_hold K node = do {
     st \<leftarrow> r8 K (node + 6);
     (if st = 1 then do {
       screen_fade_apply_leaf_call K 0x00FFFFFF kAdditive 4;
       v2 \<leftarrow> r16 K (node + 0x40);
       let v = as_s16 (v2 - 1);
       w16 K (node + 0x40) v;
       only_if (v = -1) (do { w16 K (node + 0x40) 0xF0; w8 K (node + 6) (st + 1) })
     }
      else if st = 0 then do {
        v3 \<leftarrow> r8 K 0x800BFA20;
        only_if (7 < v3) (do { w8 K (node + 6) 1; w16 K (node + 0x40) 0x1E })
      }
       else if st = 2 then do {
         u \<leftarrow> r8 K (node + 0x40);
         screen_fade_apply_leaf_call K (((shl u 16) OR (shl u 8)) OR u) kAdditive 4;
         v5 \<leftarrow> r16 K (node + 0x40);
         (if as_s16 v5 <s 0x21 then do {
           v6 \<leftarrow> r32 K (node + 0xC0);
           _ \<leftarrow> guest_call K 0x80051B04 [v6, 0xC, 0x48];
           w8 K 0x800BFA20 9;
           w8 K (node + 6) 0;
           v7 \<leftarrow> r8 K (node + 5);
           w8 K (node + 5) (v7 + 1)
         }
          else do {
            v8 \<leftarrow> r16 K (node + 0x40);
            w16 K (node + 0x40) (as_s16 v8 - 0x20)
          })
       }
        else State_Monad.return ())
   }"

definition state0_init_l267 :: "'c core_ops \<Rightarrow> u32 \<Rightarrow> u32 \<Rightarrow> ('c,
    unit) state" where
  "state0_init_l267 K n3 nd = (if n3 = 10 then do {
     v12 \<leftarrow> r8 K 0x800BF921;
     (if v12 \<noteq> 0xFF then do {
       _ \<leftarrow> guest_call K 0x80051B70 [nd, 0x0C, 0x48];
       w8 K (nd + 5) 0;
       let i = (0 :: u32);
       counter \<leftarrow> r8 K 0x800BFA21;
       (i, counter) \<leftarrow> loop (\<lambda>(i, counter). (if counter \<noteq> 0 then (if 10
           \<le>s i then State_Monad.return (Inl (i, counter))
        else do {
          _ \<leftarrow> guest_call K 0x80141020 [nd + 0x2C, 1, 0];
          let i = i + 1;
          v14 \<leftarrow> r8 K 0x800BFA21;
          let counter = (of_bool (i <s v14) :: u32);
          State_Monad.return (Inr (i, counter))
        })
        else State_Monad.return (Inl (i, counter)))) (i, counter);
       State_Monad.return ()
     }
      else do {
        v15 \<leftarrow> r8 K 0x800BF922;
        v16 \<leftarrow> r8 K 0x800BFB04;
        (if v15 \<noteq> 0xFF \<and> v16 = 0 then do {
          _ \<leftarrow> guest_call K 0x80051B70 [nd, 0x0C, 0x49];
          w8 K (nd + 5) 1
        }
         else do {
           _ \<leftarrow> guest_call K 0x80051B70 [nd, 0x0C, 0x48];
           w8 K (nd + 5) 2;
           let shared_tail = True;
           only_if shared_tail (do {
             w16 K (nd + 0x5A) 0;
             w8 K (nd + 0x47) 0;
             w8 K (nd + 8) 0
           })
         })
      })
   }
    else if n3 = 0xB then do {
      v17 \<leftarrow> r32 K 0x800ECF80;
      w32 K (nd + 0x3C) v17;
      v18 \<leftarrow> r8 K (nd + 0x5E);
      _ \<leftarrow> guest_call K 0x80077B38 [nd, GFX_PTR_8014CEF0, as_u8 (v18 + 0x12)];
      w8 K (nd + 0x0D) 1;
      w8 K (nd + 0x0B) 0x11;
      w16 K (nd + 0x7A) 0x1000;
      w16 K (nd + 0x7C) 0x1000;
      w16 K (nd + 0x7E) 0x1000;
      w8 K (nd + 0x08) 0xFB;
      w16 K (nd + 0x2E) 0x5D33;
      w16 K (nd + 0x32) 0xE3E0;
      w16 K (nd + 0x36) 0x412C;
      w16 K (nd + 0x4A) 0xD800;
      w16 K (nd + 0x5C) 0;
      w16 K (nd + 0x5A) 0;
      w8 K (nd + 0x47) 0;
      w16 K (nd + 0x50) 0x280;
      v19 \<leftarrow> r16 K (nd + 0x32);
      w16 K (nd + 0x32) (as_s16 v19 + 100)
    }
     else if n3 = 0xC then do {
       _ \<leftarrow> guest_call K 0x80117BD4 [nd];
       State_Monad.return ()
     }
      else if n3 = 0xD then do {
        _ \<leftarrow> guest_call K 0x80051B70 [nd, 0x0C, 0x47];
        v20 \<leftarrow> r8 K (nd + 0x0D);
        w8 K (nd + 0x0D) (v20 OR 4);
        v21 \<leftarrow> r32 K (nd + 0xC0);
        w8 K (v21 + 0x3F) 0xF6;
        w16 K (nd + 0x2E) 0x2380;
        w16 K (nd + 0x32) 0xF38A;
        w16 K (nd + 0x36) 0x34D4
      }
       else if n3 = 0xE then do {
         _ \<leftarrow> guest_call K 0x80051B70 [nd, 0x0C, 0x59];
         v22 \<leftarrow> r8 K (nd + 0x0D);
         w8 K (nd + 0x0D) (v22 OR 4);
         v23 \<leftarrow> r32 K (nd + 0xC0);
         w8 K (v23 + 0x3F) 0x20;
         _ \<leftarrow> guest_call K 0x800517F8 [nd];
         State_Monad.return ()
       }
        else if n3 = 0xF then do {
          src \<leftarrow> r32 K (nd + 0x10);
          _ \<leftarrow> guest_call K 0x80051B70 [nd, 0x0C, 0x1C];
          w16 K (nd + 0x54) 0;
          w16 K (nd + 0x56) 0;
          w16 K (nd + 0x58) 0;
          v25 \<leftarrow> r16 K (src + 0x2E);
          w16 K (nd + 0x2E) v25;
          v26 \<leftarrow> r16 K (src + 0x32);
          w16 K (nd + 0x32) (as_s16 v26 - 0x50);
          v27 \<leftarrow> r16 K (src + 0x36);
          w16 K (nd + 0x36) v27;
          _ \<leftarrow> guest_call K 0x8004B354 [nd, 1];
          w16 K (nd + 0xB8) 0;
          w16 K (nd + 0xBA) 0;
          w16 K (nd + 0xBC) 0
        }
         else if n3 = 0x10 then do {
           v28 \<leftarrow> r32 K 0x800ECF58;
           w32 K (nd + 0x3C) v28;
           _ \<leftarrow> guest_call K 0x80077B38 [nd, GFX_PTR_80017334, 0x17C];
           w8 K (nd + 0x0B) 0x11;
           w8 K (nd + 0x0D) 0;
           w16 K (nd + 0x5C) 0;
           w16 K (nd + 0x7A) 0x1400;
           w16 K (nd + 0x7C) 0x1400;
           w16 K (nd + 0x7E) 0x1400;
           let shared_tail = True;
           only_if shared_tail (do {
             w16 K (nd + 0x5A) 0;
             w8 K (nd + 0x47) 0;
             w8 K (nd + 8) 0
           })
         }
          else if n3 = 0x11 then do {
            v29 \<leftarrow> r32 K 0x800ECF58;
            w32 K (nd + 0x3C) v29;
            _ \<leftarrow> guest_call K 0x80077B38 [nd, GFX_PTR_80017334, 0x17C];
            w8 K (nd + 0x0B) 0x11;
            w8 K (nd + 0x0D) 0;
            w16 K (nd + 0x5C) 0;
            w16 K (nd + 0x7A) 0x1400;
            w16 K (nd + 0x7C) 0x1400;
            w16 K (nd + 0x7E) 0x1400;
            w16 K (nd + 0x5A) 0;
            w8 K (nd + 0x47) 0;
            w8 K (nd + 0x08) 0;
            v30 \<leftarrow> r8 K (nd + 0x2E);
            w8 K (nd + 0x5E) v30
          }
           else State_Monad.return ())"

definition state0_init :: "'c core_ops \<Rightarrow> u32 \<Rightarrow> ('c, unit) state" where
  "state0_init K nd = do {
     w8 K (nd + 4) 1;
     n3 \<leftarrow> r8 K (nd + 3);
     let shared_tail = False;
     (if n3 = 0 then do {
       v2 \<leftarrow> r32 K 0x800ECF80;
       w32 K (nd + 0x3C) v2;
       _ \<leftarrow> guest_call K 0x80077B38 [nd, GFX_PTR_8014CEF0, 5];
       w8 K (nd + 0x0D) 1;
       w8 K (nd + 0x0B) 0x11;
       w16 K (nd + 0x7A) 0x1000;
       w16 K (nd + 0x7C) 0x1000;
       w16 K (nd + 0x7E) 0x1000;
       w16 K (nd + 0x5C) 0;
       w16 K (nd + 0x5A) 0;
       w8 K (nd + 0x47) 0;
       w8 K (nd + 0x08) 0xCE
     }
      else if n3 = 1 then do {
        v3 \<leftarrow> r32 K 0x800ECF80;
        w32 K (nd + 0x3C) v3;
        _ \<leftarrow> guest_call K 0x80077B38 [nd, GFX_PTR_8014CEF0, 6];
        w8 K (nd + 0x0D) 1;
        w16 K (nd + 0x5C) 0;
        w8 K (nd + 0x0B) 0x10;
        let shared_tail = True;
        only_if shared_tail (do {
          w16 K (nd + 0x5A) 0;
          w8 K (nd + 0x47) 0;
          w8 K (nd + 8) 0
        })
      }
       else if n3 = 3 then do {
         _ \<leftarrow> guest_call K 0x801168E4 [nd];
         State_Monad.return ()
       }
        else if n3 = 4 then do {
          _ \<leftarrow> guest_call K 0x80116D00 [nd];
          State_Monad.return ()
        }
         else if n3 = 5 then do {
           _ \<leftarrow> guest_call K 0x80051B70 [nd, 0x0C, 0x26];
           w16 K (nd + 0x54) 0;
           w16 K (nd + 0x56) 0x800;
           w16 K (nd + 0x58) 0
         }
          else if n3 = 6 then do {
            _ \<leftarrow> guest_call K 0x80051B70 [nd, 0x0C, 0x2A];
            w16 K (nd + 0x56) 0x800;
            w16 K (nd + 0x54) 0;
            w16 K (nd + 0x58) 0;
            v4 \<leftarrow> r8 K 0x800BF8D5;
            only_if (v4 = 0xFF) (do { w16 K (nd + 0x32) 0xDE88; w8 K (nd + 5) 99 });
            _ \<leftarrow> guest_call K 0x80072DDC [nd, 1, 4, 0x17];
            spawned \<leftarrow> leaf_ret K;
            (if spawned = 0 then State_Monad.return ()
             else do {
               w32 K (spawned + 0x1C) 0x80120FB4;
               w8 K (spawned + 3) 0;
               v6 \<leftarrow> r8 K (spawned + 0x28);
               w8 K (spawned + 0x28) (v6 OR 0x80);
               v7 \<leftarrow> r16 K (nd + 0x2E);
               w16 K (spawned + 0x2E) v7;
               v8 \<leftarrow> r16 K (nd + 0x32);
               w16 K (spawned + 0x32) v8;
               v9 \<leftarrow> r16 K (nd + 0x36);
               w16 K (spawned + 0x36) v9
             })
          }
           else if n3 = 7 then do {
             v10 \<leftarrow> r32 K 0x800ECF80;
             w32 K (nd + 0x3C) v10;
             _ \<leftarrow> guest_call K 0x80077B38 [nd, GFX_PTR_8014CEF0, 9];
             w8 K (nd + 0x0D) 3;
             w8 K (nd + 0x0B) 0x11;
             w16 K (nd + 0x7C) 0x2000;
             w8 K (nd + 0x08) 0x30;
             w8 K (nd + 0x1A) 0x40;
             w8 K (nd + 0x19) 0x40;
             w8 K (nd + 0x18) 0x40;
             w16 K (nd + 0x5C) 0;
             w16 K (nd + 0x7A) 0x2800;
             w16 K (nd + 0x7E) 0x2800;
             w16 K (nd + 0x5A) 0;
             w8 K (nd + 0x47) 0;
             w16 K (nd + 0x60) 0x96
           }
            else if n3 = 8 then do {
              _ \<leftarrow> guest_call K 0x80116FCC [nd];
              State_Monad.return ()
            }
             else if n3 = 9 then do {
               v11 \<leftarrow> r8 K 0x800BF8D3;
               let sfx = (if v11 = 0xFF then 0x4D else (0x4C :: u32));
               _ \<leftarrow> guest_call K 0x80051B70 [nd, 0x0C, sfx];
               w16 K (nd + 0x56) 0xFDBC;
               _ \<leftarrow> guest_call K 0x800517F8 [nd];
               State_Monad.return ()
             }
              else state0_init_l267 K n3 nd)
   }"

definition state1_run_l489 :: "'c core_ops \<Rightarrow> u32 \<Rightarrow> u32 \<Rightarrow> ('c,
    unit) state" where
  "state1_run_l489 K n3 nd = (if n3 = 8 then do {
     v27 \<leftarrow> r16 K 0x1F8000E2;
     v28 \<leftarrow> r16 K (nd + 0x32);
     let dy = as_s16 (v27 - v28);
     _ \<leftarrow> guest_call K 0x800778E4 [nd, dy];
     s5 \<leftarrow> r8 K (nd + 5);
     (if s5 = 1 then do {
       _ \<leftarrow> guest_call K 0x801174BC [nd];
       v30 \<leftarrow> leaf_ret K;
       only_if (v30 \<noteq> 0) (w8 K (nd + 5) (s5 + 1))
     }
      else if s5 = 0 then do {
        _ \<leftarrow> guest_call K 0x80117290 [nd];
        v31 \<leftarrow> leaf_ret K;
        only_if (v31 \<noteq> 0) (w8 K (nd + 5) (s5 + 1))
      }
       else only_if (s5 = 2) (do {
         _ \<leftarrow> guest_call K 0x801176D4 [nd];
         v32 \<leftarrow> leaf_ret K;
         only_if (v32 \<noteq> 0) (do { w8 K (nd + 4) 2; w8 K (nd + 5) 0 })
       }));
     _ \<leftarrow> guest_call K 0x80051844 [nd];
     State_Monad.return ()
   }
    else if n3 = 9 then do {
      v33 \<leftarrow> r8 K 0x800BF8D3;
      v34 \<leftarrow> r8 K 0x800BF8D3;
      only_if (v33 \<noteq> 0xFF \<and> (v34 AND 4) \<noteq> 0) (do {
        v35 \<leftarrow> r8 K 0x800BF8D3;
        w8 K 0x800BF8D3 (v35 AND 0xFB);
        v36 \<leftarrow> r32 K (nd + 0xC0);
        _ \<leftarrow> guest_call K 0x80051B04 [v36, 0x0C, 0x4D];
        State_Monad.return ()
      });
      _ \<leftarrow> guest_call K 0x8007778C [nd];
      State_Monad.return ()
    }
     else if n3 = 0xE then do {
       _ \<leftarrow> guest_call K 0x8007778C [nd];
       State_Monad.return ()
     }
      else if n3 = 10 then do {
        s5 \<leftarrow> r8 K (nd + 5);
        (if s5 = 1 then white_fade_hold K nd
         else only_if (s5 = 0) (white_flash_phase_ramp K nd));
        _ \<leftarrow> guest_call K 0x8007778C [nd];
        _ \<leftarrow> guest_call K 0x800517F8 [nd];
        State_Monad.return ()
      }
       else if n3 = 0xB then do {
         w8 K (nd + 1) 1;
         s5 \<leftarrow> r8 K (nd + 5);
         src \<leftarrow> r32 K (nd + 0x10);
         (if s5 = 1 then do {
           v40 \<leftarrow> r16 K (nd + 0x4A);
           v41 \<leftarrow> r16 K (nd + 0x50);
           let s4a = as_u16 (v40 + v41);
           w16 K (nd + 0x4A) s4a;
           v42 \<leftarrow> r32 K (nd + 0x30);
           w32 K (nd + 0x30) (v42 + (sar 8 (shl s4a 16)));
           v43 \<leftarrow> r32 K (src + 0xDC);
           ref \<leftarrow> r32 K (v43 + 0x30);
           v45 \<leftarrow> r16 K (nd + 0x32);
           only_if (ref - 0x3C <s as_s16 v45) (w8 K (nd + 5) (s5 + 1))
         }
          else if s5 = 0 then do {
            v46 \<leftarrow> r16 K (nd + 0x4A);
            v47 \<leftarrow> r16 K (nd + 0x50);
            let s4a = as_u16 (v46 + v47);
            w16 K (nd + 0x4A) s4a;
            only_if (0 <s shl s4a 16) (do {
              v48 \<leftarrow> r16 K (nd + 0x50);
              w16 K (nd + 0x50) (sar 2 (as_s16 v48));
              w8 K (nd + 5) (s5 + 1)
            });
            v49 \<leftarrow> r32 K (nd + 0x30);
            v50 \<leftarrow> r16 K (nd + 0x4A);
            w32 K (nd + 0x30) (v49 + ((as_s16 v50) * 0x100))
          }
           else only_if (s5 = 2) (do {
             dc \<leftarrow> r32 K (src + 0xDC);
             v52 \<leftarrow> r16 K (dc + 0x2C);
             w16 K (nd + 0x2E) v52;
             v53 \<leftarrow> r16 K (dc + 0x30);
             w16 K (nd + 0x32) (as_s16 v53 - 0xF);
             v54 \<leftarrow> r16 K (dc + 0x34);
             w16 K (nd + 0x36) v54
           }))
       }
        else if n3 = 0xC then do {
          _ \<leftarrow> guest_call K 0x80117CF4 [nd];
          State_Monad.return ()
        }
         else if n3 = 0xD then do {
           _ \<leftarrow> guest_call K 0x8007778C [nd];
           v55 \<leftarrow> leaf_ret K;
           only_if (v55 \<noteq> 0) (do {
             _ \<leftarrow> guest_call K 0x800517F8 [nd];
             State_Monad.return ()
           });
           v56 \<leftarrow> r8 K 0x800BF9D3;
           only_if (v56 = 6) (do {
             w8 K 0x800BF9D3 7;
             v57 \<leftarrow> r32 K (nd + 0xC0);
             v58 \<leftarrow> r32 K (v57 + 0x40);
             _ \<leftarrow> guest_call K 0x80027144 [v58, nd + 0x2C, 0x700, 0x24];
             _ \<leftarrow> guest_call K 0x80074590 [0xC, 0, 0];
             w8 K (nd + 4) 3
           })
         }
          else if n3 = 0xF then do {
            _ \<leftarrow> guest_call K 0x80117F34 [nd];
            State_Monad.return ()
          }
           else if n3 = 0x10 then do {
             _ \<leftarrow> guest_call K 0x801180A0 [nd];
             State_Monad.return ()
           }
            else if n3 = 0x11 then do {
              _ \<leftarrow> guest_call K 0x801188B0 [nd];
              State_Monad.return ()
            }
             else State_Monad.return ())"

definition state1_run :: "'c core_ops \<Rightarrow> u32 \<Rightarrow> ('c, unit) state" where
  "state1_run K nd = do {
     n3 \<leftarrow> r8 K (nd + 3);
     (if n3 = 0 then do {
       s6 \<leftarrow> r8 K (nd + 6);
       (if s6 = 0 then do { w8 K (nd + 6) 1; w16 K (nd + 0x50) 0; w8 K (nd + 1) 1 }
        else if s6 = 1 then do {
          v3 \<leftarrow> r16 K (nd + 0x50);
          w16 K (nd + 0x50) ((v3 + 0x40) AND 0xFFF);
          _ \<leftarrow> guest_call K 0x80083E80 [];
          r \<leftarrow> leaf_ret K;
          let v = as_s16 (sar 2 r + 0x1400);
          w16 K (nd + 0x7A) v;
          w16 K (nd + 0x7E) v;
          w16 K (nd + 0x7C) v;
          w8 K (nd + 1) 1
        }
         else w8 K (nd + 1) 1)
     }
      else if n3 = 1 then do {
        _ \<leftarrow> guest_call K 0x80077B5C [nd];
        w8 K (nd + 1) 1
      }
       else if n3 = 3 then do {
         _ \<leftarrow> guest_call K 0x80116AF8 [nd];
         State_Monad.return ()
       }
        else if n3 = 4 then do {
          s5 \<leftarrow> r8 K (nd + 5);
          (if s5 = 1 then do {
            v6 \<leftarrow> r8 K 0x800BFA22;
            (if v6 \<noteq> 0 then do { w8 K (nd + 5) 2; w8 K (nd + 6) 0 }
             else do {
               w8 K (nd + 1) 1;
               _ \<leftarrow> guest_call K 0x800517F8 [nd];
               _ \<leftarrow> guest_call K 0x8004B374 [nd, 1];
               State_Monad.return ()
             })
          }
           else if s5 = 2 then do {
             _ \<leftarrow> guest_call K 0x80116E48 [nd];
             State_Monad.return ()
           }
            else if s5 = 0 then do {
              v7 \<leftarrow> r8 K 0x800BFA22;
              (if v7 = 0 then w8 K (nd + 5) 1
               else do {
                 w8 K (nd + 5) 2;
                 _ \<leftarrow> guest_call K 0x800517F8 [nd];
                 State_Monad.return ()
               })
            }
             else State_Monad.return ())
        }
         else if n3 = 5 then do {
           w8 K (nd + 1) 1;
           _ \<leftarrow> guest_call K 0x800517F8 [nd];
           State_Monad.return ()
         }
          else if n3 = 6 then do {
            s5 \<leftarrow> r8 K (nd + 5);
            (if s5 = 1 then do {
              v9 \<leftarrow> r16 K (nd + 0x4A);
              let v = as_s16 v9;
              let v2 = as_s16 (v + 0x100);
              w16 K (nd + 0x4A) v2;
              v10 \<leftarrow> r32 K (nd + 0x30);
              w32 K (nd + 0x30) (v10 + (v * (- 0x100)));
              only_if (0x1000 <s v2) (w16 K (nd + 0x4A) 0x1000);
              v11 \<leftarrow> r8 K 0x800BFA22;
              only_if (0x19 < v11) (w8 K (nd + 5) (s5 + 1))
            }
             else do {
               v12 \<leftarrow> r8 K 0x800BFA22;
               only_if (s5 = 0 \<and> 0x18 < v12) (do {
                 w8 K (nd + 5) 1;
                 w16 K (nd + 0x4A) 0
               })
             });
            w8 K (nd + 1) 1;
            _ \<leftarrow> guest_call K 0x800517F8 [nd];
            State_Monad.return ()
          }
           else if n3 = 7 then do {
             src \<leftarrow> r32 K (nd + 0x10);
             s5 \<leftarrow> r8 K (nd + 5);
             (if s5 = 0 then do {
               v15 \<leftarrow> r8 K (src + 0x5E);
               only_if (v15 = 1) (w8 K (nd + 5) 1)
             }
              else only_if (s5 = 1) (do {
                v16 \<leftarrow> r16 K (nd + 0x60);
                w16 K (nd + 0x60) (as_s16 v16 - 10);
                v17 \<leftarrow> r16 K (nd + 0x7C);
                w16 K (nd + 0x7C) (as_s16 v17 - 0x200);
                v18 \<leftarrow> r8 K (nd + 0x18);
                w8 K (nd + 0x18) (v18 + 0x10);
                v19 \<leftarrow> r8 K (nd + 0x19);
                w8 K (nd + 0x19) (v19 + 0x10);
                v20 \<leftarrow> r8 K (nd + 0x1A);
                w8 K (nd + 0x1A) (v20 + 0x10);
                v21 \<leftarrow> r8 K (nd + 0x18);
                only_if (v21 = 0) (w8 K (nd + 4) 3)
              }));
             v22 \<leftarrow> r16 K (src + 0x2E);
             w16 K (nd + 0x2E) v22;
             v23 \<leftarrow> r16 K (src + 0x32);
             v24 \<leftarrow> r16 K (nd + 0x60);
             w16 K (nd + 0x32) (as_s16 v23 - (as_s16 v24));
             v25 \<leftarrow> r16 K (src + 0x36);
             w16 K (nd + 0x36) v25;
             v26 \<leftarrow> r8 K (src + 1);
             w8 K (nd + 1) v26;
             _ \<leftarrow> guest_call K 0x80077B5C [nd];
             State_Monad.return ()
           }
            else state1_run_l489 K n3 nd)
   }"

definition state2_transition :: "'c core_ops \<Rightarrow> u32 \<Rightarrow> ('c, unit) state"
    where
  "state2_transition K nd = do {
     v1 \<leftarrow> r8 K (nd + 3);
     (if v1 \<noteq> 8 then State_Monad.return ()
      else do {
        s5 \<leftarrow> r8 K (nd + 5);
        (if s5 = 1 then do {
          _ \<leftarrow> guest_call K 0x8005308C [];
          v3 \<leftarrow> leaf_ret K;
          (if v3 = 0 then State_Monad.return ()
           else do {
             w8 K (nd + 5) (s5 + 1);
             _ \<leftarrow> guest_call K 0x80042354 [1, 1];
             v4 \<leftarrow> r8 K 0x800BFA1D;
             w8 K 0x800BFA1D (v4 OR 1);
             _ \<leftarrow> guest_call K 0x80040CDC [nd, GFX_PTR_8014D014, GFX_PTR_80144D28];
             w8 K (nd + 0x70) 1
           })
        }
         else if s5 = 2 then do {
           _ \<leftarrow> guest_call K 0x80041098 [nd];
           v5 \<leftarrow> r8 K (nd + 0x70);
           (if v5 \<noteq> 0xFF then State_Monad.return ()
            else do {
              w8 K (nd + 4) 3;
              _ \<leftarrow> guest_call K 0x80042310 [];
              State_Monad.return ()
            })
         }
          else if s5 = 0 then do {
            v6 \<leftarrow> r8 K 0x800BF8D2;
            (if v6 \<noteq> 0xFF then State_Monad.return () else w8 K (nd + 5) 1)
          }
           else State_Monad.return ())
      })
   }"

definition beh_a06_multi_actor :: "'c core_ops \<Rightarrow> ('c, unit) state" where
  "beh_a06_multi_actor K = with_frame K 32 [(17, 20), (31, 28), (18, 24), (16, 16)] (do {
     nd \<leftarrow> reg K 4;
     st \<leftarrow> r8 K (nd + 4);
     (if st = 1 then state1_run K nd
      else if st = 0 then state0_init K nd
       else if st = 2 then state2_transition K nd else only_if (st = 3) (despawn K nd))
   })"

section \<open>\<open>game/ai/beh_a06_script_fades.cpp\<close>\<close>

definition gray_rgb :: "'c core_ops \<Rightarrow> u32 \<Rightarrow> ('c, u32) state" where
  "gray_rgb K u = State_Monad.return (((shl u 16) OR (shl u 8)) OR u)"

definition set_v0 :: "'c core_ops \<Rightarrow> u32 \<Rightarrow> ('c, unit) state" where
  "set_v0 K v = setr K 2 v"

definition beh_a06_fade_flash_ramp_80139728 :: "'c core_ops \<Rightarrow> ('c, unit) state" where
  "beh_a06_fade_flash_ramp_80139728 K = with_frame K 24 [(16, 16), (31, 20)] (do {
     obj \<leftarrow> reg K 4;
     state1 \<leftarrow> r8 K (obj + O_STATE_78);
     let done1 = False;
     let rest1 = (\<lambda>done1. do {
       only_if done1 (w8 K (obj + O_STATE_78) (state1 + 1));
       u \<leftarrow> r8 K (obj + O_LEVEL_40);
       v4 \<leftarrow> gray_rgb K u;
       screen_fade_apply_leaf_call K v4 kAdditive 4;
       set_v0 K 0
     });
     (if state1 = 0 then do {
       w16 K (obj + O_LEVEL_40) 0;
       w8 K (obj + O_STATE_78) (state1 + 1);
       v5 \<leftarrow> r16 K (obj + O_LEVEL_40);
       let v = as_s16 (v5 + 0x40);
       w16 K (obj + O_LEVEL_40) v;
       let done1 = (if 0x80 \<le>s v then True else done1);
       rest1 done1
     }
      else if state1 = 1 \<or> state1 = 3 then do {
        v6 \<leftarrow> r16 K (obj + O_LEVEL_40);
        let v = as_s16 (v6 + 0x40);
        w16 K (obj + O_LEVEL_40) v;
        let done1 = (if 0x80 \<le>s v then True else done1);
        rest1 done1
      }
       else if state1 = 2 then do {
         v7 \<leftarrow> r16 K (obj + O_LEVEL_40);
         let v = as_s16 v7;
         w16 K (obj + O_LEVEL_40) (v - 0x40);
         let done1 = (if v = 0x40 then True else done1);
         rest1 done1
       }
        else if state1 = 4 then do {
          v8 \<leftarrow> r16 K (obj + O_LEVEL_40);
          let v = as_s16 v8;
          w16 K (obj + O_LEVEL_40) (v - 0x40);
          only_if (v = 0x40) (do {
            w8 K (obj + O_STATE_78) (state1 + 1);
            w8 K G_BFA22 0x2B
          });
          rest1 done1
        }
         else if state1 = 5 then do {
           v9 \<leftarrow> r16 K (obj + O_LEVEL_40);
           let v = as_s16 (v9 + 0x10);
           w16 K (obj + O_LEVEL_40) v;
           only_if (0xFF <s v) (do {
             w16 K (obj + O_LEVEL_40) 0xFF;
             w16 K (obj + O_TIMER_42) 0x1E;
             w8 K (obj + O_STATE_78) (state1 + 1);
             w8 K G_E806C 7;
             _ \<leftarrow> guest_call K 0x8006CBD0 [OBJ_A_800E8008, DAT_8014994C];
             State_Monad.return ()
           });
           rest1 done1
         }
          else if state1 = 6 then do {
            v10 \<leftarrow> r16 K (obj + O_TIMER_42);
            let v = as_s16 (v10 - 1);
            w16 K (obj + O_TIMER_42) v;
            let done1 = (if v = -1 then True else done1);
            rest1 done1
          }
           else if state1 = 7 then do {
             v11 \<leftarrow> r16 K (obj + O_LEVEL_40);
             let v = as_s16 (v11 - 0x10);
             w16 K (obj + O_LEVEL_40) v;
             (if v \<le>s 0 then set_v0 K 1 else rest1 done1)
           }
            else rest1 done1)
   })"

definition beh_a06_spawn_follow_obj_8013_aef0 :: "'c core_ops \<Rightarrow> ('c, unit) state"
    where
  "beh_a06_spawn_follow_obj_8013_aef0 K = do {
     param1 \<leftarrow> reg K 4;
     r29_2 \<leftarrow> reg K 29;
     setr K 29 (r29_2 - 24);
     sp \<leftarrow> reg K 29;
     r31_4 \<leftarrow> reg K 31;
     w32 K (sp + 16) r31_4;
     setr K 31 0x8013AF08;
     _ \<leftarrow> guest_call K 0x80072DDC [param1, 3, 3, 0x3F];
     newObj \<leftarrow> reg K 2;
     (if newObj = 0 then do {
       v6 \<leftarrow> r32 K (sp + 16);
       setr K 31 v6;
       r29_7 \<leftarrow> reg K 29;
       setr K 29 (r29_7 + 24);
       set_v0 K 0
     }
      else do {
        w32 K (newObj + 0x1C) 0x8012E194;
        w8 K (newObj + 0x03) 2;
        v8 \<leftarrow> r8 K (newObj + 0x28);
        w8 K (newObj + 0x28) (v8 OR 0x80);
        v9 \<leftarrow> r8 K G_BF8D5;
        only_if (as_s8 v9 \<noteq> -1) (do {
          setr K 31 0x8013AF4C;
          _ \<leftarrow> guest_call K 0x8004D604 [0x31, 1];
          State_Monad.return ()
        });
        v10 \<leftarrow> r32 K (sp + 16);
        setr K 31 v10;
        r29_11 \<leftarrow> reg K 29;
        setr K 29 (r29_11 + 24);
        set_v0 K 1
      })
   }"

definition beh_a06_sound_cmd_wait_8013_afd8 :: "'c core_ops \<Rightarrow> ('c, unit) state" where
  "beh_a06_sound_cmd_wait_8013_afd8 K = do {
     obj \<leftarrow> reg K 4;
     st \<leftarrow> r8 K (obj + O_STATE_78);
     (if st = 0 then do {
       sp_save \<leftarrow> reg K 29;
       setr K 29 (sp_save - 24);
       r29_4 \<leftarrow> reg K 29;
       let scratchArg = r29_4 + 6;
       w16 K (scratchArg + 0) 0x34E8;
       w16 K (scratchArg + 4) 0xE1BA;
       w16 K (scratchArg + 8) 30000;
       _ \<leftarrow> guest_call K 0x80070F00 [obj, 1, scratchArg];
       setr K 4 3;
       call_guest K 0x800708B4;
       setr K 29 sp_save;
       w8 K (obj + O_STATE_78) (st + 1);
       set_v0 K 0
     }
      else if st \<noteq> 1 then set_v0 K 0
       else do {
         ptr \<leftarrow> r32 K SPAD_1F800214;
         v6 \<leftarrow> r8 K (ptr + 3);
         (if v6 = 0 then set_v0 K 1 else set_v0 K 0)
       })
   }"

definition beh_a06_spawn_subobj_8013_b074 :: "'c core_ops \<Rightarrow> ('c, unit) state" where
  "beh_a06_spawn_subobj_8013_b074 K = do {
     sp_save \<leftarrow> reg K 29;
     setr K 29 (sp_save - 24);
     r29_2 \<leftarrow> reg K 29;
     let scratchArg = r29_2 + 6;
     w16 K (scratchArg + 0) 0x3340;
     w16 K (scratchArg + 4) 0xDFEA;
     w16 K (scratchArg + 8) 0x6F86;
     _ \<leftarrow> guest_call K 0x8003116C [0x718, scratchArg, - 0x32];
     newObj \<leftarrow> reg K 2;
     only_if (newObj \<noteq> 0) (do {
       v4 \<leftarrow> r8 K (newObj + 0x28);
       w8 K (newObj + 0x28) (v4 OR 0x80)
     });
     w32 K G_E806C 2;
     w32 K G_E8076 0;
     w32 K G_E8078 0x800;
     v5 \<leftarrow> r32 K G_1003F8;
     w32 K G_E8074 (v5 * 7);
     setr K 4 scratchArg;
     call_guest K 0x8006CBA8;
     setr K 29 sp_save;
     set_v0 K 1
   }"

definition beh_a06_fade_ramp_8013_b178 :: "'c core_ops \<Rightarrow> ('c, unit) state" where
  "beh_a06_fade_ramp_8013_b178 K = with_frame K 24 [(31, 16)] (do {
     obj \<leftarrow> reg K 4;
     st \<leftarrow> r8 K (obj + O_STATE_78);
     let goAdvance = (0 :: u32);
     (if st = 1 then do {
       v3 \<leftarrow> r16 K (obj + O_LEVEL_40);
       let v = as_s16 (v3 + 0x20);
       w16 K (obj + O_LEVEL_40) v;
       let goAdvance = (if 0x80 \<le>s v then (1 :: u32) else goAdvance);
       only_if (goAdvance \<noteq> 0) (w8 K (obj + O_STATE_78) (st + 1));
       u \<leftarrow> r8 K (obj + O_LEVEL_40);
       v5 \<leftarrow> gray_rgb K u;
       screen_fade_apply_leaf_call K v5 kAdditive 4;
       set_v0 K 0
     }
      else if 1 < st then (if st = 2 then do {
        v6 \<leftarrow> r16 K (obj + O_LEVEL_40);
        let v = as_s16 v6;
        w16 K (obj + O_LEVEL_40) (v - 0x20);
        (if v = 0x20 then set_v0 K 1
         else do {
           only_if (goAdvance \<noteq> 0) (w8 K (obj + O_STATE_78) (st + 1));
           u \<leftarrow> r8 K (obj + O_LEVEL_40);
           v8 \<leftarrow> gray_rgb K u;
           screen_fade_apply_leaf_call K v8 kAdditive 4;
           set_v0 K 0
         })
      }
       else do {
         only_if (goAdvance \<noteq> 0) (w8 K (obj + O_STATE_78) (st + 1));
         u \<leftarrow> r8 K (obj + O_LEVEL_40);
         v10 \<leftarrow> gray_rgb K u;
         screen_fade_apply_leaf_call K v10 kAdditive 4;
         set_v0 K 0
       })
       else do {
         goAdvance \<leftarrow> (if st = 0 then do {
           w16 K (obj + O_LEVEL_40) 0;
           State_Monad.return (1 :: u32)
         }
          else State_Monad.return goAdvance);
         only_if (goAdvance \<noteq> 0) (w8 K (obj + O_STATE_78) (st + 1));
         u \<leftarrow> r8 K (obj + O_LEVEL_40);
         v12 \<leftarrow> gray_rgb K u;
         screen_fade_apply_leaf_call K v12 kAdditive 4;
         set_v0 K 0
       })
   })"

definition beh_a06_music_cue_8013_b274 :: "'c core_ops \<Rightarrow> ('c, unit) state" where
  "beh_a06_music_cue_8013_b274 K = with_frame K 24 [(31, 16)] (do {
     obj \<leftarrow> reg K 4;
     parent \<leftarrow> r32 K (obj + O_D0);
     _ \<leftarrow> guest_call K 0x80051B04 [parent, 0xF, 4];
     set_v0 K 1
   })"

definition beh_a06_timer_gate_8013_b29_c :: "'c core_ops \<Rightarrow> ('c, unit) state" where
  "beh_a06_timer_gate_8013_b29_c K = do {
     obj \<leftarrow> reg K 4;
     st \<leftarrow> r8 K (obj + O_STATE_78);
     let rest1 = (do {
       v3 \<leftarrow> r16 K (obj + O_LEVEL_40);
       let v = as_s16 (v3 - 1);
       w16 K (obj + O_LEVEL_40) v;
       (if v = -1 then set_v0 K 1
        else do {
          v4 \<leftarrow> r8 K G_BE0E4;
          (if (v4 AND 0x80) \<noteq> 0 then set_v0 K 0 else set_v0 K 1)
        })
     });
     (if st = 0 then do { w8 K (obj + O_STATE_78) 1; w16 K (obj + O_LEVEL_40) 60; rest1 }
      else if st \<noteq> 1 then set_v0 K 0 else rest1)
   }"

section \<open>\<open>game/ai/beh_a06_scripted_actor.cpp\<close>\<close>

definition variant4_phase3 :: "'c core_ops \<Rightarrow> u32 \<Rightarrow> ('c, unit) state" where
  "variant4_phase3 K obj = do {
     s6 \<leftarrow> r8 K (obj + O_SUB_06);
     let wrapUp = False;
     let initAndArm = (\<lambda>scriptPtr. do {
       w8 K (obj + O_SUB_07) 1;
       script_interp_init K obj TABLE_A scriptPtr;
       w8 K (obj + O_PROG_70) 1
     });
     let stepAndCheckDone = (\<lambda>advanceOuterToDespawn. do {
       script_interp_step K obj;
       v2 \<leftarrow> r8 K (obj + O_PROG_70);
       only_if (as_s8 v2 = -1) (do {
         w8 K (obj + O_SUB_07) 0;
         let wrapUp = True;
         only_if advanceOuterToDespawn (State_Monad.return ())
       })
     });
     (if s6 = 1 then do {
       s7 \<leftarrow> r8 K (obj + O_SUB_07);
       (if s7 = 0 then initAndArm SCRIPT_80149F18
        else only_if (s7 = 1) (do {
          stepAndCheckDone False;
          only_if wrapUp (do {
            _ \<leftarrow> guest_call K 0x80042310 [obj];
            w8 K (obj + O_SUB_06) 0
          })
        }))
     }
      else if s6 = 0 then do {
        v4 \<leftarrow> r8 K (obj + O_READY_2B);
        (if v4 \<noteq> 3 then State_Monad.return ()
         else do {
           _ \<leftarrow> guest_call K 0x80042354 [1, 4];
           gate \<leftarrow> r8 K G_BFAE5;
           w8 K (obj + O_SUB_06) (if gate = 0 then 1 else 2)
         })
      }
       else if s6 = 2 then do {
         s7 \<leftarrow> r8 K (obj + O_SUB_07);
         (if s7 = 0 then do {
           w8 K (obj + O_SUB_07) 1;
           script_interp_init K obj TABLE_A SCRIPT_80149F38;
           w8 K (obj + O_PROG_70) 1
         }
          else if s7 = 1 then do {
            stepAndCheckDone True;
            only_if wrapUp (do {
              v7 \<leftarrow> r8 K (obj + O_SUB_07);
              w8 K (obj + O_SUB_07) (v7 + 1);
              script_interp_init K obj TABLE_A SCRIPT_80149A20;
              w8 K (obj + O_PROG_70) 1
            })
          }
           else only_if (s7 = 2) (do {
             script_interp_step K obj;
             v8 \<leftarrow> r8 K (obj + O_PROG_70);
             only_if (as_s8 v8 = -1) (do {
               w8 K (obj + O_SUB_07) 0;
               _ \<leftarrow> guest_call K 0x80042310 [obj];
               w8 K (obj + O_STATE_04) 3
             })
           }))
       }
        else only_if (s6 = 3) (do {
          s7 \<leftarrow> r8 K (obj + O_SUB_07);
          (if s7 = 0 then do {
            w8 K (obj + O_SUB_07) 1;
            script_interp_init K obj TABLE_A SCRIPT_80149A20;
            w8 K (obj + O_PROG_70) 1
          }
           else only_if (s7 = 1) (do {
             script_interp_step K obj;
             v10 \<leftarrow> r8 K (obj + O_PROG_70);
             only_if (as_s8 v10 = -1) (do {
               w8 K (obj + O_SUB_07) 0;
               _ \<leftarrow> guest_call K 0x80042310 [obj];
               w8 K (obj + O_STATE_04) 3
             })
           }))
        }))
   }"

definition sub801398_e4 :: "'c core_ops \<Rightarrow> u32 \<Rightarrow> ('c, u32) state" where
  "sub801398_e4 K obj = do {
     _ \<leftarrow> guest_call K 0x801398E4 [obj];
     reg K 2
   }"

definition variant4_sm :: "'c core_ops \<Rightarrow> u32 \<Rightarrow> ('c, unit) state" where
  "variant4_sm K obj = do {
     s5 \<leftarrow> r8 K (obj + O_SUB_05);
     let initScript = (\<lambda>scriptPtr. do {
       script_interp_init K obj TABLE_A scriptPtr;
       w8 K (obj + O_PROG_70) 1
     });
     (if s5 = 0 then do {
       v2 \<leftarrow> r8 K G_BF8D5;
       (if as_s8 v2 = -1 then do {
         w8 K (obj + O_SUB_05) 4;
         _ \<leftarrow> guest_call K 0x80077C40 [obj, TABLE_A, 0];
         State_Monad.return ()
       }
        else do {
          v3 \<leftarrow> r8 K G_BFA22;
          (if v3 < 0x14 then do {
            v4 \<leftarrow> r8 K G_BFA22;
            w8 K (obj + O_SUB_05) (if v4 < 10 then 1 else 2)
          }
           else w8 K (obj + O_SUB_05) 3)
        })
     }
      else if s5 = 1 then do {
        s6 \<leftarrow> r8 K (obj + O_SUB_06);
        (if s6 = 0 then do {
          v6 \<leftarrow> r8 K G_BF80F;
          (if v6 \<noteq> 0 then State_Monad.return ()
           else do {
             w8 K (obj + O_SUB_06) 1;
             _ \<leftarrow> guest_call K 0x80042354 [1, 4];
             initScript SCRIPT_80149958
           })
        }
         else if s6 \<noteq> 1 then State_Monad.return ()
          else do {
            script_interp_step K obj;
            v7 \<leftarrow> r8 K (obj + O_PROG_70);
            (if as_s8 v7 \<noteq> -1 then State_Monad.return ()
             else do {
               _ \<leftarrow> guest_call K 0x80042310 [obj];
               s5cur \<leftarrow> r8 K (obj + O_SUB_05);
               w8 K (obj + O_SUB_06) 0;
               w8 K (obj + O_SUB_05) (s5cur + 1)
             })
          })
      }
       else if s5 = 2 then do {
         s6 \<leftarrow> r8 K (obj + O_SUB_06);
         (if s6 = 0 then do {
           v10 \<leftarrow> r8 K (obj + O_READY_2B);
           (if v10 \<noteq> 3 then State_Monad.return ()
            else do {
              w8 K (obj + O_SUB_06) 2;
              _ \<leftarrow> guest_call K 0x80042354 [1, 4];
              State_Monad.return ()
            })
         }
          else if s6 \<noteq> 2 then State_Monad.return ()
           else do {
             r \<leftarrow> sub801398_e4 K obj;
             s5cur \<leftarrow> r8 K (obj + O_SUB_05);
             (if r = 2 then do {
               _ \<leftarrow> guest_call K 0x80042310 [obj];
               w8 K (obj + O_SUB_06) 0;
               w8 K (obj + O_SUB_05) (s5cur + 1)
             }
              else only_if (r = 3) (do {
                w8 K (obj + O_SUB_06) 3;
                w8 K (obj + O_SUB_05) (s5cur + 1)
              }))
           })
       }
        else if s5 = 3 then variant4_phase3 K obj
         else if s5 = 4 then do {
           s6 \<leftarrow> r8 K (obj + O_SUB_06);
           (if s6 = 1 then do {
             w8 K (obj + O_SUB_06) 2;
             mask1 \<leftarrow> r32 K G_BFE56;
             v15 \<leftarrow> r8 K G_BF870;
             let shift1 = v15 AND 0x1F;
             let bit1 = (shr mask1 (unat shift1)) AND 1;
             initScript (if bit1 = 0 then SCRIPT_80149F68 else SCRIPT_80149F98)
           }
            else if 1 < s6 \<and> s6 = 2 then do {
              script_interp_step K obj;
              v16 \<leftarrow> r8 K (obj + O_PROG_70);
              (if as_s8 v16 \<noteq> -1 then State_Monad.return ()
               else do {
                 w8 K (obj + O_SUB_06) 0;
                 _ \<leftarrow> guest_call K 0x80042310 [obj];
                 State_Monad.return ()
               })
            }
             else if s6 \<noteq> 0 then State_Monad.return ()
              else do {
                v17 \<leftarrow> r8 K (obj + O_READY_2B);
                (if v17 \<noteq> 3 then State_Monad.return ()
                 else do {
                   w8 K (obj + O_SUB_06) 1;
                   _ \<leftarrow> guest_call K 0x80042354 [1, 1];
                   State_Monad.return ()
                 })
              })
         }
          else State_Monad.return ())
   }"

definition beh_a06_scripted_actor_state0_init :: "'c core_ops \<Rightarrow> u32 \<Rightarrow> ('c,
    unit) state" where
  "beh_a06_scripted_actor_state0_init K obj = do {
     v1 \<leftarrow> r32 K G_ECFA4;
     v2 \<leftarrow> guest_call K 0x800519E0 [obj, 0xF, v1, DATA_80141E90];
     (if v2 \<noteq> 0 then State_Monad.return ()
      else do {
        initVal \<leftarrow> r32 K G_ECF90;
        w32 K (obj + O_TABLE_A) TABLE_A;
        w32 K (obj + O_D_3C) initVal;
        _ \<leftarrow> guest_call K 0x80041718 [obj, 0, 0];
        w8 K (obj + O_KIND) 9;
        w16 K (obj + O_H_54) 0;
        w16 K (obj + O_H_58) 0;
        w8 K (obj + O_B_BF) 0;
        w8 K (obj + O_B_5F) 0;
        w8 K (obj + O_READY_2B) 0;
        v4 \<leftarrow> r8 K (obj + O_STATE_04);
        w8 K (obj + O_STATE_04) (v4 + 1);
        variant \<leftarrow> r8 K (obj + O_VARIANT);
        (if variant = 0 then do {
          w16 K (obj + O_H_56) 0x0080;
          w16 K (obj + O_H_80) 0x0050;
          w16 K (obj + O_H_82) 0x00A0
        }
         else if variant = 1 then do {
           w16 K (obj + O_H_56) 0x0C00;
           w16 K (obj + O_H_80) 0x008C;
           w16 K (obj + O_H_82) 0x0118
         }
          else if variant = 2 then do {
            w16 K (obj + O_H_56) 0x0800;
            w16 K (obj + O_H_80) 0x0050;
            w16 K (obj + O_H_82) 0x00A0
          }
           else if variant = 3 then do {
             w16 K (obj + O_H_56) 0x0200;
             w16 K (obj + O_H_80) 0x0050;
             w16 K (obj + O_H_82) 0x00A0
           }
            else if variant = 4 then do {
              w16 K (obj + O_H_80) 0x0050;
              w16 K (obj + O_H_56) 0x0000;
              w16 K (obj + O_H_82) 0x00A0;
              parent \<leftarrow> r32 K (obj + O_D_C4);
              _ \<leftarrow> guest_call K 0x80051B04 [parent, 0x13, 0xF];
              _ \<leftarrow> guest_call K 0x80077C40 [obj, TABLE_A, 0x15];
              w32 K G_BF868 obj
            }
             else only_if (variant = 5) (do {
               w16 K (obj + O_H_56) 0x0100;
               w16 K (obj + O_H_80) 0x0050;
               w16 K (obj + O_H_82) 0x00A0
             }));
        w16 K (obj + O_H_84) 0x0088;
        w16 K (obj + O_H_86) 0x00A6
      })
   }"

definition beh_a06_scripted_actor_state1_run :: "'c core_ops \<Rightarrow> u32 \<Rightarrow> ('c,
    unit) state" where
  "beh_a06_scripted_actor_state1_run K obj = do {
     _ \<leftarrow> guest_call K 0x8007778C [obj];
     _ \<leftarrow> guest_call K 0x8004190C [obj];
     variant \<leftarrow> r8 K (obj + O_VARIANT);
     (if variant = 0 then do {
       _ \<leftarrow> guest_call K 0x801381A8 [obj];
       State_Monad.return ()
     }
      else if variant = 1 then do {
        s5 \<leftarrow> r8 K (obj + O_SUB_05);
        (if s5 = 1 then do {
          _ \<leftarrow> guest_call K 0x80139088 [obj];
          State_Monad.return ()
        }
         else if s5 = 0 then do {
           v3 \<leftarrow> r8 K G_BFA1D;
           v4 \<leftarrow> r8 K G_BF8D2;
           (if (v3 AND 2) = 0 \<and> as_s8 v4 \<noteq> -1 then w8 K (obj + O_SUB_05) 1
            else w8 K (obj + O_SUB_05) 2)
         }
          else only_if (s5 = 2) (do {
            _ \<leftarrow> guest_call K 0x801392D8 [obj];
            State_Monad.return ()
          }))
      }
       else if variant = 2 then do {
         s6 \<leftarrow> r8 K (obj + O_SUB_06);
         (if s6 = 1 then do {
           w8 K (obj + O_SUB_06) 2;
           v6 \<leftarrow> r8 K G_BF90C;
           let scriptPtr = (if v6 = 0 then SCRIPT_801496E8 else SCRIPT_80149788);
           script_interp_init K obj TABLE_A scriptPtr;
           w8 K (obj + O_PROG_70) 1
         }
          else if s6 = 0 then do {
            v7 \<leftarrow> r8 K (obj + O_READY_2B);
            only_if (v7 = 3) (do {
              w8 K (obj + O_SUB_06) 1;
              _ \<leftarrow> guest_call K 0x80042354 [1, 2];
              State_Monad.return ()
            })
          }
           else only_if (s6 = 2) (do {
             script_interp_step K obj;
             v8 \<leftarrow> r8 K (obj + O_PROG_70);
             only_if (as_s8 v8 = -1) (do {
               w8 K (obj + O_SUB_06) 0;
               _ \<leftarrow> guest_call K 0x80042310 [obj];
               State_Monad.return ()
             })
           }))
       }
        else if variant = 3 then do {
          s6 \<leftarrow> r8 K (obj + O_SUB_06);
          (if s6 = 1 then do {
            w8 K (obj + O_SUB_06) 2;
            v10 \<leftarrow> r8 K G_BF90D;
            let scriptPtr = (if v10 = 0 then SCRIPT_801497B8 else SCRIPT_80149838);
            script_interp_init K obj TABLE_A scriptPtr;
            w8 K (obj + O_PROG_70) 1
          }
           else if s6 = 0 then do {
             v11 \<leftarrow> r8 K (obj + O_READY_2B);
             only_if (v11 = 3) (do {
               w8 K (obj + O_SUB_06) 1;
               _ \<leftarrow> guest_call K 0x80042354 [1, 2];
               State_Monad.return ()
             })
           }
            else only_if (s6 = 2) (do {
              script_interp_step K obj;
              v12 \<leftarrow> r8 K (obj + O_PROG_70);
              only_if (as_s8 v12 = -1) (do {
                w8 K (obj + O_SUB_06) 0;
                _ \<leftarrow> guest_call K 0x80042310 [obj];
                State_Monad.return ()
              })
            }))
        }
         else if variant = 4 then variant4_sm K obj
          else only_if (variant = 5) (do {
            _ \<leftarrow> guest_call K 0x8013A81C [obj];
            State_Monad.return ()
          }));
     v13 \<leftarrow> r8 K (obj + O_CLEANUP);
     only_if (v13 \<noteq> 0) (do {
       _ \<leftarrow> guest_call K 0x800518FC [obj];
       State_Monad.return ()
     });
     w8 K (obj + O_READY_2B) 0
   }"

definition beh_a06_scripted_actor :: "'c core_ops \<Rightarrow> ('c, unit) state" where
  "beh_a06_scripted_actor K = with_frame K 32 [(16, 16), (31, 24), (17, 20)] (do {
     obj \<leftarrow> reg K 4;
     state1 \<leftarrow> r8 K (obj + O_STATE_04);
     (if state1 = 0 then beh_a06_scripted_actor_state0_init K obj
      else if state1 = 1 then beh_a06_scripted_actor_state1_run K obj
       else if state1 = 2 then State_Monad.return ()
        else if state1 = 3 then do {
          _ \<leftarrow> guest_call K 0x8007A624 [obj];
          State_Monad.return ()
        }
         else State_Monad.return ())
   })"

end
