(* ===== verification/CullWrappers.thy ===== *)
theory CullWrappers
  imports ObjectViews
begin

text \<open>
  The camera-relative wrappers around \<open>VisibilityCull\<close> that the handlers call, with
  their guest frames, and the node transforms of \<open>game/render/node_xform.cpp\<close>.
\<close>

section \<open>Layout\<close>

definition RA_8007778C :: u32 where "RA_8007778C = 0x800777EC"
definition RA_800777FC :: u32 where "RA_800777FC = 0x80077860"
definition RA_80077ACC :: u32 where "RA_80077ACC = 0x80077B28"
definition RA_800779D0 :: u32 where "RA_800779D0 = 0x80077A3C"
definition RA_80077A4C :: u32 where "RA_80077A4C = 0x80077ABC"
definition RA_800778E4 :: u32 where "RA_800778E4 = 0x80077948"
definition kScrSrcMatrix :: u32 where "kScrSrcMatrix = 0x1F800000"
definition kScrRot :: u32 where "kScrRot = 0x1F800020"
definition kScrCompose :: u32 where "kScrCompose = 0x1F800040"

section \<open>\<open>game/render/cull.cpp\<close>\<close>

definition obj_r16 :: "'c core_ops \<Rightarrow> u32 \<Rightarrow> ('c, u32) state" where
  "obj_r16 K a = do {
     v1 \<leftarrow> r8 K a;
     v2 \<leftarrow> r8 K (a + 1);
     State_Monad.return (as_u16 (v1 OR (shl v2 8)))
   }"

definition isqrt32 :: "'c core_ops \<Rightarrow> u32 \<Rightarrow> ('c, u32) state" where
  "isqrt32 K v = do {
     let r = (0 :: u32);
     let b = shl 1 30;
     b \<leftarrow> loop (\<lambda>b. (if v < b then do {
       let b = shr b 2;
       State_Monad.return (Inr b)
     }
      else State_Monad.return (Inl b))) b;
     (v, r, b) \<leftarrow> loop (\<lambda>(v, r, b). (if b \<noteq> 0 then do {
       let (v, r) = (if r + b \<le> v then (let v = v - (r + b) in (v, shr r 1 + b)) else (v, shr
           r 1));
       let b = shr b 2;
       State_Monad.return (Inr (v, r, b))
     }
      else State_Monad.return (Inl (v, r, b)))) (v, r, b);
     State_Monad.return r
   }"

definition cull_perform_base_cull_framed :: "'c core_ops \<Rightarrow> ('c, unit) state" where
  "cull_perform_base_cull_framed K = do {
     save16 \<leftarrow> reg K 16;
     save17 \<leftarrow> reg K 17;
     save18 \<leftarrow> reg K 18;
     save19 \<leftarrow> reg K 19;
     saveRa \<leftarrow> reg K 31;
     r29_6 \<leftarrow> reg K 29;
     setr K 29 (r29_6 - 40);
     r29_7 \<leftarrow> reg K 29;
     w32 K (r29_7 + 28) save19;
     w32 K (r29_7 + 16) save16;
     w32 K (r29_7 + 20) save17;
     w32 K (r29_7 + 24) save18;
     w32 K (r29_7 + 32) saveRa;
     perform_base_cull K;
     r29_8 \<leftarrow> reg K 29;
     v9 \<leftarrow> r32 K (r29_8 + 32);
     setr K 31 v9;
     v10 \<leftarrow> r32 K (r29_8 + 24);
     setr K 18 v10;
     v11 \<leftarrow> r32 K (r29_8 + 20);
     setr K 17 v11;
     v12 \<leftarrow> r32 K (r29_8 + 16);
     setr K 16 v12;
     v13 \<leftarrow> r32 K (r29_8 + 28);
     setr K 19 v13;
     setr K 29 (r29_8 + 40)
   }"

definition cull_wrap_frame :: "'c core_ops \<Rightarrow> u32 \<Rightarrow> ('c, unit) state" where
  "cull_wrap_frame K raConst = do {
     savedRa \<leftarrow> reg K 31;
     r29_2 \<leftarrow> reg K 29;
     setr K 29 (r29_2 - 24);
     r29_3 \<leftarrow> reg K 29;
     w32 K (r29_3 + 16) savedRa;
     setr K 31 raConst;
     cull_perform_base_cull_framed K;
     r29_4 \<leftarrow> reg K 29;
     v5 \<leftarrow> r32 K (r29_4 + 16);
     setr K 31 v5;
     setr K 29 (r29_4 + 24)
   }"

definition cull_cull_wrapper :: "'c core_ops \<Rightarrow> ('c, unit) state" where
  "cull_cull_wrapper K = do {
     obj \<leftarrow> reg K 4;
     camx \<leftarrow> r16 K 0x1F8000D2;
     camz \<leftarrow> r16 K 0x1F8000D6;
     camy \<leftarrow> r16 K 0x1F8000DA;
     w32 K 0x1F800080 0;
     w32 K 0x1F800084 0;
     v5 \<leftarrow> r16 K (obj + 0x2E);
     setr K 5 (as_s16 (as_u16 (v5 - camx)));
     v6 \<leftarrow> r16 K (obj + 0x32);
     setr K 6 (as_s16 (as_u16 (v6 - camz)));
     v7 \<leftarrow> r16 K (obj + 0x36);
     setr K 7 (as_s16 (as_u16 (v7 - camy)));
     setr K 4 obj;
     cull_wrap_frame K RA_8007778C
   }"

definition cull_cull_wrapper_flag1 :: "'c core_ops \<Rightarrow> ('c, unit) state" where
  "cull_cull_wrapper_flag1 K = do {
     obj \<leftarrow> reg K 4;
     savedRa \<leftarrow> reg K 31;
     r29_3 \<leftarrow> reg K 29;
     setr K 29 (r29_3 - 24);
     r29_4 \<leftarrow> reg K 29;
     w32 K (r29_4 + 16) savedRa;
     camx \<leftarrow> r16 K 0x1F8000D2;
     camz \<leftarrow> r16 K 0x1F8000D6;
     camy \<leftarrow> r16 K 0x1F8000DA;
     w32 K 0x1F800080 0;
     w32 K 0x1F800084 1;
     v8 \<leftarrow> r16 K (obj + 0x2E);
     setr K 5 (as_s16 (as_u16 (v8 - camx)));
     v9 \<leftarrow> r16 K (obj + 0x36);
     setr K 7 (as_s16 (as_u16 (v9 - camy)));
     v10 \<leftarrow> r16 K (obj + 0x32);
     setr K 6 (as_s16 (as_u16 (v10 - camz)));
     setr K 4 obj;
     setr K 31 0x800778D4;
     cull_perform_base_cull_framed K;
     r29_11 \<leftarrow> reg K 29;
     v12 \<leftarrow> r32 K (r29_11 + 16);
     setr K 31 v12;
     setr K 29 (r29_11 + 24)
   }"

definition cull_cull_wrapper_flag2 :: "'c core_ops \<Rightarrow> ('c, unit) state" where
  "cull_cull_wrapper_flag2 K = do {
     obj \<leftarrow> reg K 4;
     cam0 \<leftarrow> r16 K 0x1F8000D2;
     cam1 \<leftarrow> r16 K 0x1F8000D6;
     cam2 \<leftarrow> r16 K 0x1F8000DA;
     w32 K 0x1F800080 0;
     w32 K 0x1F800084 2;
     v5 \<leftarrow> r16 K (obj + 0x2E);
     setr K 5 (as_s16 (as_u16 (v5 - cam0)));
     v6 \<leftarrow> r16 K (obj + 0x32);
     setr K 6 (as_s16 (as_u16 (v6 - cam1)));
     v7 \<leftarrow> r16 K (obj + 0x36);
     setr K 7 (as_s16 (as_u16 (v7 - cam2)));
     setr K 4 obj;
     perform_base_cull K
   }"

definition cull_cull_wrapper_flag2_framed :: "'c core_ops \<Rightarrow> ('c, unit) state" where
  "cull_cull_wrapper_flag2_framed K = do {
     saveRa \<leftarrow> reg K 31;
     r29_2 \<leftarrow> reg K 29;
     setr K 29 (r29_2 - 24);
     r29_3 \<leftarrow> reg K 29;
     w32 K (r29_3 + 16) saveRa;
     setr K 31 RA_800777FC;
     cull_cull_wrapper_flag2 K;
     r29_4 \<leftarrow> reg K 29;
     v5 \<leftarrow> r32 K (r29_4 + 16);
     setr K 31 v5;
     setr K 29 (r29_4 + 24)
   }"

definition cull_cull_wrap77acc :: "'c core_ops \<Rightarrow> ('c, unit) state" where
  "cull_cull_wrap77acc K = do {
     w32 K 0x1F800080 1;
     w32 K 0x1F800084 4;
     cx \<leftarrow> r16 K 0x1F8000D2;
     cz \<leftarrow> r16 K 0x1F8000D6;
     cy \<leftarrow> r16 K 0x1F8000DA;
     r5_4 \<leftarrow> reg K 5;
     setr K 5 (as_s16 (as_u16 (as_u16 r5_4 - cx)));
     r6_5 \<leftarrow> reg K 6;
     setr K 6 (as_s16 (as_u16 (as_u16 r6_5 - cz)));
     r7_6 \<leftarrow> reg K 7;
     setr K 7 (as_s16 (as_u16 (as_u16 r7_6 - cy)));
     perform_base_cull K
   }"

definition cull_cull_wrap77acc_framed :: "'c core_ops \<Rightarrow> ('c, unit) state" where
  "cull_cull_wrap77acc_framed K = do {
     saveRa \<leftarrow> reg K 31;
     r29_2 \<leftarrow> reg K 29;
     setr K 29 (r29_2 - 24);
     r29_3 \<leftarrow> reg K 29;
     w32 K (r29_3 + 16) saveRa;
     setr K 31 RA_80077ACC;
     cull_cull_wrap77acc K;
     r29_4 \<leftarrow> reg K 29;
     v5 \<leftarrow> r32 K (r29_4 + 16);
     setr K 31 v5;
     setr K 29 (r29_4 + 24)
   }"

definition cull_cull_wrapper_offset :: "'c core_ops \<Rightarrow> ('c, unit) state" where
  "cull_cull_wrapper_offset K = do {
     obj \<leftarrow> reg K 4;
     offX \<leftarrow> reg K 5;
     offZ \<leftarrow> reg K 6;
     offY \<leftarrow> reg K 7;
     camx \<leftarrow> r16 K 0x1F8000D2;
     camz \<leftarrow> r16 K 0x1F8000D6;
     camy \<leftarrow> r16 K 0x1F8000DA;
     w32 K 0x1F800080 0;
     w32 K 0x1F800084 0;
     v8 \<leftarrow> r16 K (obj + 0x2E);
     setr K 5 (as_s16 (as_u16 (v8 + offX - camx)));
     v9 \<leftarrow> r16 K (obj + 0x32);
     setr K 6 (as_s16 (as_u16 (v9 + offZ - camz)));
     v10 \<leftarrow> r16 K (obj + 0x36);
     setr K 7 (as_s16 (as_u16 (v10 + offY - camy)));
     setr K 4 obj;
     cull_wrap_frame K RA_800779D0
   }"

definition cull_cull_wrapper_offset_flag1 :: "'c core_ops \<Rightarrow> ('c, unit) state" where
  "cull_cull_wrapper_offset_flag1 K = do {
     obj \<leftarrow> reg K 4;
     offX \<leftarrow> reg K 5;
     offZ \<leftarrow> reg K 6;
     offY \<leftarrow> reg K 7;
     camx \<leftarrow> r16 K 0x1F8000D2;
     camz \<leftarrow> r16 K 0x1F8000D6;
     camy \<leftarrow> r16 K 0x1F8000DA;
     w32 K 0x1F800080 1;
     w32 K 0x1F800084 0;
     v8 \<leftarrow> r16 K (obj + 0x2E);
     setr K 5 (as_s16 (as_u16 (v8 + offX - camx)));
     v9 \<leftarrow> r16 K (obj + 0x32);
     setr K 6 (as_s16 (as_u16 (v9 + offZ - camz)));
     v10 \<leftarrow> r16 K (obj + 0x36);
     setr K 7 (as_s16 (as_u16 (v10 + offY - camy)));
     setr K 4 obj;
     cull_wrap_frame K RA_80077A4C
   }"

definition cull_cull_wrapper_offset_y :: "'c core_ops \<Rightarrow> ('c, unit) state" where
  "cull_cull_wrapper_offset_y K = do {
     obj \<leftarrow> reg K 4;
     offZ \<leftarrow> reg K 5;
     camx \<leftarrow> r16 K 0x1F8000D2;
     camz \<leftarrow> r16 K 0x1F8000D6;
     camy \<leftarrow> r16 K 0x1F8000DA;
     w32 K 0x1F800080 0;
     w32 K 0x1F800084 0;
     v6 \<leftarrow> r16 K (obj + 0x2E);
     setr K 5 (as_s16 (as_u16 (v6 - camx)));
     v7 \<leftarrow> r16 K (obj + 0x32);
     setr K 6 (as_s16 (as_u16 (v7 + offZ - camz)));
     v8 \<leftarrow> r16 K (obj + 0x36);
     setr K 7 (as_s16 (as_u16 (v8 - camy)));
     setr K 4 obj;
     cull_wrap_frame K RA_800778E4
   }"

definition eov_cull_wrapper :: "'c core_ops \<Rightarrow> ('c, unit) state" where
  "eov_cull_wrapper K = cull_cull_wrapper K"

definition eov_cull_wrapper_flag1 :: "'c core_ops \<Rightarrow> ('c, unit) state" where
  "eov_cull_wrapper_flag1 K = cull_cull_wrapper_flag1 K"

definition eov_cull_wrapper_flag2 :: "'c core_ops \<Rightarrow> ('c, unit) state" where
  "eov_cull_wrapper_flag2 K = cull_cull_wrapper_flag2_framed K"

definition eov_cull_wrap77acc :: "'c core_ops \<Rightarrow> ('c, unit) state" where
  "eov_cull_wrap77acc K = cull_cull_wrap77acc_framed K"

definition eov_cull_wrapper_offset :: "'c core_ops \<Rightarrow> ('c, unit) state" where
  "eov_cull_wrapper_offset K = cull_cull_wrapper_offset K"

definition eov_cull_wrapper_offset_flag1 :: "'c core_ops \<Rightarrow> ('c, unit) state" where
  "eov_cull_wrapper_offset_flag1 K = cull_cull_wrapper_offset_flag1 K"

definition eov_cull_wrapper_offset_y :: "'c core_ops \<Rightarrow> ('c, unit) state" where
  "eov_cull_wrapper_offset_y K = cull_cull_wrapper_offset_y K"

section \<open>\<open>game/render/node_xform.cpp\<close>\<close>

definition node_local_euler_ptr :: "'c core_ops \<Rightarrow> u32 \<Rightarrow> ('c, u32) state"
    where
  "node_local_euler_ptr K base1 = State_Monad.return (base1 + 0x54)"

definition node_local_euler_x :: "'c core_ops \<Rightarrow> u32 \<Rightarrow> ('c, u32) state"
    where
  "node_local_euler_x K base1 = do {
     v1 \<leftarrow> r16 K (base1 + 0x54);
     State_Monad.return (as_s16 v1)
   }"

definition node_local_euler_y :: "'c core_ops \<Rightarrow> u32 \<Rightarrow> ('c, u32) state"
    where
  "node_local_euler_y K base1 = do {
     v1 \<leftarrow> r16 K (base1 + 0x56);
     State_Monad.return (as_s16 v1)
   }"

definition node_local_euler_z :: "'c core_ops \<Rightarrow> u32 \<Rightarrow> ('c, u32) state"
    where
  "node_local_euler_z K base1 = do {
     v1 \<leftarrow> r16 K (base1 + 0x58);
     State_Monad.return (as_s16 v1)
   }"

definition node_local_scale_x :: "'c core_ops \<Rightarrow> u32 \<Rightarrow> ('c, u32) state"
    where
  "node_local_scale_x K base1 = do {
     v1 \<leftarrow> r16 K (base1 + 0xB8);
     State_Monad.return (as_s16 v1)
   }"

definition node_local_scale_y :: "'c core_ops \<Rightarrow> u32 \<Rightarrow> ('c, u32) state"
    where
  "node_local_scale_y K base1 = do {
     v1 \<leftarrow> r16 K (base1 + 0xBA);
     State_Monad.return (as_s16 v1)
   }"

definition node_local_scale_z :: "'c core_ops \<Rightarrow> u32 \<Rightarrow> ('c, u32) state"
    where
  "node_local_scale_z K base1 = do {
     v1 \<leftarrow> r16 K (base1 + 0xBC);
     State_Monad.return (as_s16 v1)
   }"

definition node_local_pos_x16 :: "'c core_ops \<Rightarrow> u32 \<Rightarrow> ('c, u32) state"
    where
  "node_local_pos_x16 K base1 = do {
     v1 \<leftarrow> r16 K (base1 + 0x2E);
     State_Monad.return (as_s16 v1)
   }"

definition node_local_pos_y16 :: "'c core_ops \<Rightarrow> u32 \<Rightarrow> ('c, u32) state"
    where
  "node_local_pos_y16 K base1 = do {
     v1 \<leftarrow> r16 K (base1 + 0x32);
     State_Monad.return (as_s16 v1)
   }"

definition node_local_pos_z16 :: "'c core_ops \<Rightarrow> u32 \<Rightarrow> ('c, u32) state"
    where
  "node_local_pos_z16 K base1 = do {
     v1 \<leftarrow> r16 K (base1 + 0x36);
     State_Monad.return (as_s16 v1)
   }"

definition node_set_local_pos_x16 :: "'c core_ops \<Rightarrow> u32 \<Rightarrow> u32
    \<Rightarrow> ('c, unit) state" where
  "node_set_local_pos_x16 K base1 v = w16 K (base1 + 0x2E) v"

definition node_set_local_pos_y16 :: "'c core_ops \<Rightarrow> u32 \<Rightarrow> u32
    \<Rightarrow> ('c, unit) state" where
  "node_set_local_pos_y16 K base1 v = w16 K (base1 + 0x32) v"

definition node_set_local_pos_z16 :: "'c core_ops \<Rightarrow> u32 \<Rightarrow> u32
    \<Rightarrow> ('c, unit) state" where
  "node_set_local_pos_z16 K base1 v = w16 K (base1 + 0x36) v"

definition node_anchor_local_ptr :: "'c core_ops \<Rightarrow> u32 \<Rightarrow> ('c, u32) state"
    where
  "node_anchor_local_ptr K base1 = State_Monad.return (base1 + 0x88)"

definition node_world_matrix_ptr :: "'c core_ops \<Rightarrow> u32 \<Rightarrow> ('c, u32) state"
    where
  "node_world_matrix_ptr K base1 = State_Monad.return (base1 + 0x98)"

definition node_world_pos_ptr :: "'c core_ops \<Rightarrow> u32 \<Rightarrow> ('c, u32) state"
    where
  "node_world_pos_ptr K base1 = State_Monad.return (base1 + 0xAC)"

definition node_world_pos_x :: "'c core_ops \<Rightarrow> u32 \<Rightarrow> ('c, u32) state" where
  "node_world_pos_x K base1 = r32 K (base1 + 0xAC)"

definition node_world_pos_y :: "'c core_ops \<Rightarrow> u32 \<Rightarrow> ('c, u32) state" where
  "node_world_pos_y K base1 = r32 K (base1 + 0xB0)"

definition node_world_pos_z :: "'c core_ops \<Rightarrow> u32 \<Rightarrow> ('c, u32) state" where
  "node_world_pos_z K base1 = r32 K (base1 + 0xB4)"

definition node_set_world_pos_x :: "'c core_ops \<Rightarrow> u32 \<Rightarrow> u32 \<Rightarrow>
    ('c, unit) state" where
  "node_set_world_pos_x K base1 v = w32 K (base1 + 0xAC) v"

definition node_set_world_pos_y :: "'c core_ops \<Rightarrow> u32 \<Rightarrow> u32 \<Rightarrow>
    ('c, unit) state" where
  "node_set_world_pos_y K base1 v = w32 K (base1 + 0xB0) v"

definition node_set_world_pos_z :: "'c core_ops \<Rightarrow> u32 \<Rightarrow> u32 \<Rightarrow>
    ('c, unit) state" where
  "node_set_world_pos_z K base1 v = w32 K (base1 + 0xB4) v"

definition node_sentinel :: "'c core_ops \<Rightarrow> u32 \<Rightarrow> ('c, u32) state" where
  "node_sentinel K base1 = do {
     v1 \<leftarrow> r16 K (base1 + 0x06);
     State_Monad.return (as_s16 v1)
   }"

definition node_child_euler_x :: "'c core_ops \<Rightarrow> u32 \<Rightarrow> ('c, u32) state"
    where
  "node_child_euler_x K base1 = do {
     v1 \<leftarrow> r16 K (base1 + 0x08);
     State_Monad.return (as_s16 v1)
   }"

definition node_child_euler_y :: "'c core_ops \<Rightarrow> u32 \<Rightarrow> ('c, u32) state"
    where
  "node_child_euler_y K base1 = do {
     v1 \<leftarrow> r16 K (base1 + 0x0A);
     State_Monad.return (as_s16 v1)
   }"

definition node_child_euler_z :: "'c core_ops \<Rightarrow> u32 \<Rightarrow> ('c, u32) state"
    where
  "node_child_euler_z K base1 = do {
     v1 \<leftarrow> r16 K (base1 + 0x0C);
     State_Monad.return (as_s16 v1)
   }"

definition node_child_scale_x :: "'c core_ops \<Rightarrow> u32 \<Rightarrow> ('c, u32) state"
    where
  "node_child_scale_x K base1 = do {
     v1 \<leftarrow> r16 K (base1 + 0x38);
     State_Monad.return (as_s16 v1)
   }"

definition node_child_scale_y :: "'c core_ops \<Rightarrow> u32 \<Rightarrow> ('c, u32) state"
    where
  "node_child_scale_y K base1 = do {
     v1 \<leftarrow> r16 K (base1 + 0x3A);
     State_Monad.return (as_s16 v1)
   }"

definition node_child_scale_z :: "'c core_ops \<Rightarrow> u32 \<Rightarrow> ('c, u32) state"
    where
  "node_child_scale_z K base1 = do {
     v1 \<leftarrow> r16 K (base1 + 0x3C);
     State_Monad.return (as_s16 v1)
   }"

definition node_frame_matrix_ptr :: "'c core_ops \<Rightarrow> u32 \<Rightarrow> ('c, u32) state"
    where
  "node_frame_matrix_ptr K base1 = State_Monad.return (base1 + 0x18)"

definition node_child_euler_ptr :: "'c core_ops \<Rightarrow> u32 \<Rightarrow> ('c, u32) state"
    where
  "node_child_euler_ptr K base1 = State_Monad.return (base1 + 0x08)"

definition node_frame_pos_ptr :: "'c core_ops \<Rightarrow> u32 \<Rightarrow> ('c, u32) state"
    where
  "node_frame_pos_ptr K base1 = State_Monad.return (base1 + 0x2C)"

definition node_frame_pos_x32 :: "'c core_ops \<Rightarrow> u32 \<Rightarrow> ('c, u32) state"
    where
  "node_frame_pos_x32 K base1 = r32 K (base1 + 0x2C)"

definition node_frame_pos_y32 :: "'c core_ops \<Rightarrow> u32 \<Rightarrow> ('c, u32) state"
    where
  "node_frame_pos_y32 K base1 = r32 K (base1 + 0x30)"

definition node_frame_pos_z32 :: "'c core_ops \<Rightarrow> u32 \<Rightarrow> ('c, u32) state"
    where
  "node_frame_pos_z32 K base1 = r32 K (base1 + 0x34)"

definition node_set_frame_pos_x32 :: "'c core_ops \<Rightarrow> u32 \<Rightarrow> u32
    \<Rightarrow> ('c, unit) state" where
  "node_set_frame_pos_x32 K base1 v = w32 K (base1 + 0x2C) v"

definition node_set_frame_pos_y32 :: "'c core_ops \<Rightarrow> u32 \<Rightarrow> u32
    \<Rightarrow> ('c, unit) state" where
  "node_set_frame_pos_y32 K base1 v = w32 K (base1 + 0x30) v"

definition node_set_frame_pos_z32 :: "'c core_ops \<Rightarrow> u32 \<Rightarrow> u32
    \<Rightarrow> ('c, unit) state" where
  "node_set_frame_pos_z32 K base1 v = w32 K (base1 + 0x34) v"

definition node_add_frame_pos32 :: "'c core_ops \<Rightarrow> u32 \<Rightarrow> u32 \<Rightarrow>
    u32 \<Rightarrow> u32 \<Rightarrow> ('c, unit) state" where
  "node_add_frame_pos32 K base1 dx dy dz = do {
     v1 \<leftarrow> node_frame_pos_x32 K base1;
     node_set_frame_pos_x32 K base1 (v1 + dx);
     v2 \<leftarrow> node_frame_pos_y32 K base1;
     node_set_frame_pos_y32 K base1 (v2 + dy);
     v3 \<leftarrow> node_frame_pos_z32 K base1;
     node_set_frame_pos_z32 K base1 (v3 + dz)
   }"

definition node_frame_pos_x16 :: "'c core_ops \<Rightarrow> u32 \<Rightarrow> ('c, u32) state"
    where
  "node_frame_pos_x16 K base1 = do {
     v1 \<leftarrow> r16 K (base1 + 0x2C);
     State_Monad.return (as_s16 v1)
   }"

definition node_frame_pos_y16 :: "'c core_ops \<Rightarrow> u32 \<Rightarrow> ('c, u32) state"
    where
  "node_frame_pos_y16 K base1 = do {
     v1 \<leftarrow> r16 K (base1 + 0x30);
     State_Monad.return (as_s16 v1)
   }"

definition node_frame_pos_z16 :: "'c core_ops \<Rightarrow> u32 \<Rightarrow> ('c, u32) state"
    where
  "node_frame_pos_z16 K base1 = do {
     v1 \<leftarrow> r16 K (base1 + 0x34);
     State_Monad.return (as_s16 v1)
   }"

definition node_child_count :: "'c core_ops \<Rightarrow> u32 \<Rightarrow> ('c, u32) state" where
  "node_child_count K base1 = r8 K (base1 + 0x08)"

definition node_child_count_guard :: "'c core_ops \<Rightarrow> u32 \<Rightarrow> ('c, u32) state"
    where
  "node_child_count_guard K base1 = r8 K (base1 + 0x09)"

definition node_child_ptr :: "'c core_ops \<Rightarrow> u32 \<Rightarrow> u32 \<Rightarrow> ('c,
    u32) state" where
  "node_child_ptr K base1 i = r32 K (base1 + 0xC0 + 4 * i)"

definition seed_diag_scratch :: "'c core_ops \<Rightarrow> u32 \<Rightarrow> u32 \<Rightarrow> u32
    \<Rightarrow> u32 \<Rightarrow> ('c, unit) state" where
  "seed_diag_scratch K scr x y z = do {
     w32 K (scr + 0) x;
     w32 K (scr + 4) 0;
     w32 K (scr + 8) y;
     w32 K (scr + 12) 0;
     w32 K (scr + 16) z;
     w32 K (scr + 20) 0;
     w32 K (scr + 24) 0;
     w32 K (scr + 28) 0
   }"

definition node_xform_propagate :: "'c core_ops \<Rightarrow> u32 \<Rightarrow> ('c, unit) state"
    where
  "node_xform_propagate K nodeAddr = with_frame K 56 [(16, 16), (17, 20), (18, 24), (19, 28), (20,
      32), (21, 36), (22, 40), (23, 44), (31, 48)] (do {
     v1 \<leftarrow> node_child_count_guard K nodeAddr;
     (if v1 = 0 then State_Monad.return ()
      else do {
        let i = (0 :: u32);
        i \<leftarrow> loop (\<lambda>i. do {
          v2 \<leftarrow> node_child_count K nodeAddr;
          (if i <s v2 then do {
            v3 \<leftarrow> node_child_ptr K nodeAddr i;
            v4 \<leftarrow> node_child_scale_x K v3;
            v5 \<leftarrow> node_child_scale_y K v3;
            v6 \<leftarrow> node_child_scale_z K v3;
            seed_diag_scratch K kScrSrcMatrix v4 v5 v6;
            sentinel \<leftarrow> node_sentinel K v3;
            v8 \<leftarrow> node_child_euler_ptr K v3;
            _ \<leftarrow> rotmat K v8 kScrRot;
            _ \<leftarrow> mat_mul K kScrRot kScrSrcMatrix kScrCompose;
            (if sentinel = -1 then do {
              v9 \<leftarrow> node_world_matrix_ptr K nodeAddr;
              v10 \<leftarrow> node_frame_matrix_ptr K v3;
              _ \<leftarrow> mat_mul K v9 kScrCompose v10;
              v11 \<leftarrow> node_frame_pos_ptr K v3;
              _ \<leftarrow> apply_matlv K v3 v11;
              v12 \<leftarrow> node_world_pos_x K nodeAddr;
              v13 \<leftarrow> node_world_pos_y K nodeAddr;
              v14 \<leftarrow> node_world_pos_z K nodeAddr;
              node_add_frame_pos32 K v3 v12 v13 v14
            }
             else do {
               v15 \<leftarrow> node_child_ptr K nodeAddr sentinel;
               v16 \<leftarrow> node_frame_matrix_ptr K v15;
               v17 \<leftarrow> node_frame_matrix_ptr K v3;
               _ \<leftarrow> mat_mul K v16 kScrCompose v17;
               v18 \<leftarrow> node_frame_pos_ptr K v3;
               _ \<leftarrow> apply_matlv K v3 v18;
               v19 \<leftarrow> node_frame_pos_x32 K v15;
               v20 \<leftarrow> node_frame_pos_y32 K v15;
               v21 \<leftarrow> node_frame_pos_z32 K v15;
               node_add_frame_pos32 K v3 v19 v20 v21
             });
            let i = i + 1;
            v22 \<leftarrow> node_child_count_guard K nodeAddr;
            (if \<not> (i <s v22) then State_Monad.return (Inl i)
             else State_Monad.return (Inr i))
          }
           else State_Monad.return (Inl i))
        }) i;
        State_Monad.return ()
      })
   })"

definition node_xform_build :: "'c core_ops \<Rightarrow> u32 \<Rightarrow> ('c, unit) state"
    where
  "node_xform_build K nodeAddr = with_frame K 32 [(16, 16), (17, 20), (18, 24), (31, 28)] (do {
     setr K 16 kScrSrcMatrix;
     setr K 17 nodeAddr;
     setr K 18 kScrRot;
     v1 \<leftarrow> node_local_scale_x K nodeAddr;
     v2 \<leftarrow> node_local_scale_y K nodeAddr;
     v3 \<leftarrow> node_local_scale_z K nodeAddr;
     seed_diag_scratch K kScrSrcMatrix v1 v2 v3;
     v4 \<leftarrow> node_local_euler_ptr K nodeAddr;
     _ \<leftarrow> rotmat K v4 kScrRot;
     v5 \<leftarrow> node_world_matrix_ptr K nodeAddr;
     _ \<leftarrow> mat_mul K kScrRot kScrSrcMatrix v5;
     v6 \<leftarrow> node_local_pos_x16 K nodeAddr;
     node_set_world_pos_x K nodeAddr v6;
     v7 \<leftarrow> node_local_pos_y16 K nodeAddr;
     node_set_world_pos_y K nodeAddr v7;
     v8 \<leftarrow> node_local_pos_z16 K nodeAddr;
     node_set_world_pos_z K nodeAddr v8;
     node_xform_propagate K nodeAddr
   })"

definition node_xform_build_with_offset :: "'c core_ops \<Rightarrow> u32 \<Rightarrow> ('c, unit)
    state" where
  "node_xform_build_with_offset K nodeAddr = with_frame K 32 [(16, 16), (17, 20), (18, 24), (31,
      28)] (do {
     setr K 16 kScrSrcMatrix;
     setr K 17 nodeAddr;
     setr K 18 kScrRot;
     v1 \<leftarrow> node_local_scale_x K nodeAddr;
     v2 \<leftarrow> node_local_scale_y K nodeAddr;
     v3 \<leftarrow> node_local_scale_z K nodeAddr;
     seed_diag_scratch K kScrSrcMatrix v1 v2 v3;
     v4 \<leftarrow> node_local_euler_ptr K nodeAddr;
     _ \<leftarrow> rotmat K v4 kScrRot;
     v5 \<leftarrow> node_world_matrix_ptr K nodeAddr;
     _ \<leftarrow> mat_mul K kScrRot kScrSrcMatrix v5;
     v6 \<leftarrow> node_world_matrix_ptr K nodeAddr;
     v7 \<leftarrow> node_anchor_local_ptr K nodeAddr;
     v8 \<leftarrow> node_world_pos_ptr K nodeAddr;
     _ \<leftarrow> apply_matrix_lv K v6 v7 v8;
     v9 \<leftarrow> node_world_pos_x K nodeAddr;
     v10 \<leftarrow> node_local_pos_x16 K nodeAddr;
     node_set_world_pos_x K nodeAddr (v9 + v10);
     v11 \<leftarrow> node_world_pos_y K nodeAddr;
     v12 \<leftarrow> node_local_pos_y16 K nodeAddr;
     node_set_world_pos_y K nodeAddr (v11 + v12);
     v13 \<leftarrow> node_world_pos_z K nodeAddr;
     v14 \<leftarrow> node_local_pos_z16 K nodeAddr;
     node_set_world_pos_z K nodeAddr (v13 + v14);
     node_xform_propagate K nodeAddr
   })"

definition node_xform_seed_block :: "'c core_ops \<Rightarrow> u32 \<Rightarrow> u32 \<Rightarrow>
    u32 \<Rightarrow> u32 \<Rightarrow> ('c, unit) state" where
  "node_xform_seed_block K ptr x y z = seed_diag_scratch K ptr x y z"

definition node_xform_propagate_rotmat :: "'c core_ops \<Rightarrow> u32 \<Rightarrow> ('c, unit)
    state" where
  "node_xform_propagate_rotmat K nodeAddr = with_frame K 40 [(16, 16), (17, 20), (18, 24), (19,
      28), (20, 32), (31, 36)] (do {
     v1 \<leftarrow> node_child_count_guard K nodeAddr;
     (if v1 = 0 then State_Monad.return ()
      else do {
        let i = (0 :: u32);
        i \<leftarrow> loop (\<lambda>i. do {
          v2 \<leftarrow> node_child_count K nodeAddr;
          (if i <s v2 then do {
            v3 \<leftarrow> node_child_ptr K nodeAddr i;
            sentinel \<leftarrow> node_sentinel K v3;
            v5 \<leftarrow> node_child_euler_ptr K v3;
            _ \<leftarrow> rotmat K v5 kScrSrcMatrix;
            (if sentinel = -1 then do {
              v6 \<leftarrow> node_world_matrix_ptr K nodeAddr;
              v7 \<leftarrow> node_frame_matrix_ptr K v3;
              _ \<leftarrow> mat_mul K v6 kScrSrcMatrix v7;
              v8 \<leftarrow> node_frame_pos_ptr K v3;
              _ \<leftarrow> apply_matlv K v3 v8;
              v9 \<leftarrow> node_world_pos_x K nodeAddr;
              v10 \<leftarrow> node_world_pos_y K nodeAddr;
              v11 \<leftarrow> node_world_pos_z K nodeAddr;
              node_add_frame_pos32 K v3 v9 v10 v11
            }
             else do {
               v12 \<leftarrow> node_child_ptr K nodeAddr sentinel;
               v13 \<leftarrow> node_frame_matrix_ptr K v12;
               v14 \<leftarrow> node_frame_matrix_ptr K v3;
               _ \<leftarrow> mat_mul K v13 kScrSrcMatrix v14;
               v15 \<leftarrow> node_frame_pos_ptr K v3;
               _ \<leftarrow> apply_matlv K v3 v15;
               v16 \<leftarrow> node_frame_pos_x32 K v12;
               v17 \<leftarrow> node_frame_pos_y32 K v12;
               v18 \<leftarrow> node_frame_pos_z32 K v12;
               node_add_frame_pos32 K v3 v16 v17 v18
             });
            let i = i + 1;
            v19 \<leftarrow> node_child_count_guard K nodeAddr;
            (if \<not> (i <s v19) then State_Monad.return (Inl i)
             else State_Monad.return (Inr i))
          }
           else State_Monad.return (Inl i))
        }) i;
        State_Monad.return ()
      })
   })"

definition node_xform_propagate_axis :: "'c core_ops \<Rightarrow> u32 \<Rightarrow> ('c, unit)
    state" where
  "node_xform_propagate_axis K nodeAddr = with_frame K 48 [(16, 16), (17, 20), (18, 24), (19, 28),
      (20, 32), (21, 36), (22, 40), (31, 44)] (do {
     v1 \<leftarrow> node_child_count_guard K nodeAddr;
     (if v1 = 0 then State_Monad.return ()
      else do {
        let i = (0 :: u32);
        i \<leftarrow> loop (\<lambda>i. do {
          v2 \<leftarrow> node_child_count K nodeAddr;
          (if i <s v2 then do {
            v3 \<leftarrow> node_child_ptr K nodeAddr i;
            seed_diag_scratch K kScrSrcMatrix 0x1000 0x1000 0x1000;
            v4 \<leftarrow> node_child_euler_x K v3;
            _ \<leftarrow> rotX K v4 kScrSrcMatrix;
            v5 \<leftarrow> node_child_euler_y K v3;
            _ \<leftarrow> rotY K v5 kScrSrcMatrix;
            v6 \<leftarrow> node_child_euler_z K v3;
            _ \<leftarrow> rotZ K v6 kScrSrcMatrix;
            sentinel \<leftarrow> node_sentinel K v3;
            (if sentinel = -1 then do {
              v8 \<leftarrow> node_world_matrix_ptr K nodeAddr;
              v9 \<leftarrow> node_frame_matrix_ptr K v3;
              _ \<leftarrow> mat_mul K v8 kScrSrcMatrix v9;
              v10 \<leftarrow> node_frame_pos_ptr K v3;
              _ \<leftarrow> apply_matlv K v3 v10;
              v11 \<leftarrow> node_world_pos_x K nodeAddr;
              v12 \<leftarrow> node_world_pos_y K nodeAddr;
              v13 \<leftarrow> node_world_pos_z K nodeAddr;
              node_add_frame_pos32 K v3 v11 v12 v13
            }
             else do {
               v14 \<leftarrow> node_child_ptr K nodeAddr sentinel;
               v15 \<leftarrow> node_frame_matrix_ptr K v14;
               v16 \<leftarrow> node_frame_matrix_ptr K v3;
               _ \<leftarrow> mat_mul K v15 kScrSrcMatrix v16;
               v17 \<leftarrow> node_frame_pos_ptr K v3;
               _ \<leftarrow> apply_matlv K v3 v17;
               v18 \<leftarrow> node_frame_pos_x32 K v14;
               v19 \<leftarrow> node_frame_pos_y32 K v14;
               v20 \<leftarrow> node_frame_pos_z32 K v14;
               node_add_frame_pos32 K v3 v18 v19 v20
             });
            let i = i + 1;
            v21 \<leftarrow> node_child_count_guard K nodeAddr;
            (if \<not> (i <s v21) then State_Monad.return (Inl i)
             else State_Monad.return (Inr i))
          }
           else State_Monad.return (Inl i))
        }) i;
        State_Monad.return ()
      })
   })"

definition node_xform_build_axis :: "'c core_ops \<Rightarrow> u32 \<Rightarrow> ('c, unit) state"
    where
  "node_xform_build_axis K nodeAddr = with_frame K 32 [(16, 16), (17, 20), (31, 24)] (do {
     setr K 16 nodeAddr;
     v1 \<leftarrow> node_world_matrix_ptr K nodeAddr;
     setr K 17 v1;
     v2 \<leftarrow> node_world_matrix_ptr K nodeAddr;
     seed_diag_scratch K v2 0x1000 0x1000 0x1000;
     v3 \<leftarrow> node_local_euler_x K nodeAddr;
     v4 \<leftarrow> node_world_matrix_ptr K nodeAddr;
     _ \<leftarrow> rotX K v3 v4;
     v5 \<leftarrow> node_local_euler_y K nodeAddr;
     v6 \<leftarrow> node_world_matrix_ptr K nodeAddr;
     _ \<leftarrow> rotY K v5 v6;
     v7 \<leftarrow> node_local_euler_z K nodeAddr;
     v8 \<leftarrow> node_world_matrix_ptr K nodeAddr;
     _ \<leftarrow> rotZ K v7 v8;
     v9 \<leftarrow> node_local_pos_x16 K nodeAddr;
     node_set_world_pos_x K nodeAddr v9;
     v10 \<leftarrow> node_local_pos_y16 K nodeAddr;
     node_set_world_pos_y K nodeAddr v10;
     v11 \<leftarrow> node_local_pos_z16 K nodeAddr;
     node_set_world_pos_z K nodeAddr v11;
     node_xform_propagate_axis K nodeAddr
   })"

definition node_xform_copy_matrix_block :: "'c core_ops \<Rightarrow> u32 \<Rightarrow> u32
    \<Rightarrow> ('c, unit) state" where
  "node_xform_copy_matrix_block K src dst = for_each (upto_u32 5) (\<lambda>i. do {
     v1 \<leftarrow> r32 K (src + i * 4);
     w32 K (dst + i * 4) v1
   })"

definition node_xform_build_from_child :: "'c core_ops \<Rightarrow> u32 \<Rightarrow> u32
    \<Rightarrow> u32 \<Rightarrow> u32 \<Rightarrow> ('c, unit) state" where
  "node_xform_build_from_child K nodeAddr inVec tableIdx mode = with_frame K 48 [(16, 16), (17,
      20), (18, 24), (19, 28), (20, 32), (21, 36), (31, 40)] (do {
     v1 \<leftarrow> r32 K (G_ADDR + tableIdx * 4 + 0xC0);
     setr K 18 nodeAddr;
     setr K 19 v1;
     setr K 20 mode;
     setr K 21 inVec;
     (if mode = 0 then do {
       setr K 16 kScrSrcMatrix;
       v2 \<leftarrow> node_local_euler_ptr K nodeAddr;
       _ \<leftarrow> rotmat K v2 kScrSrcMatrix;
       State_Monad.return ()
     }
      else do {
        setr K 16 kScrSrcMatrix;
        setr K 17 kScrRot;
        v3 \<leftarrow> node_local_scale_x K nodeAddr;
        v4 \<leftarrow> node_local_scale_y K nodeAddr;
        v5 \<leftarrow> node_local_scale_z K nodeAddr;
        seed_diag_scratch K kScrCompose v3 v4 v5;
        v6 \<leftarrow> node_local_euler_ptr K nodeAddr;
        _ \<leftarrow> rotmat K v6 kScrRot;
        _ \<leftarrow> mat_mul K kScrRot kScrCompose kScrSrcMatrix;
        State_Monad.return ()
      });
     v7 \<leftarrow> node_frame_matrix_ptr K v1;
     v8 \<leftarrow> node_world_matrix_ptr K nodeAddr;
     _ \<leftarrow> mat_mul K v7 kScrSrcMatrix v8;
     v9 \<leftarrow> node_world_pos_ptr K nodeAddr;
     _ \<leftarrow> apply_matlv K inVec v9;
     v10 \<leftarrow> node_world_pos_x K nodeAddr;
     v11 \<leftarrow> node_frame_pos_x32 K v1;
     node_set_world_pos_x K nodeAddr (v10 + v11);
     v12 \<leftarrow> node_world_pos_y K nodeAddr;
     v13 \<leftarrow> node_frame_pos_y32 K v1;
     node_set_world_pos_y K nodeAddr (v12 + v13);
     v14 \<leftarrow> node_world_pos_z K nodeAddr;
     v15 \<leftarrow> node_frame_pos_z32 K v1;
     node_set_world_pos_z K nodeAddr (v14 + v15);
     v16 \<leftarrow> node_world_pos_x K nodeAddr;
     node_set_local_pos_x16 K nodeAddr (as_s16 v16);
     v17 \<leftarrow> node_world_pos_y K nodeAddr;
     node_set_local_pos_y16 K nodeAddr (as_s16 v17);
     v18 \<leftarrow> node_world_pos_z K nodeAddr;
     node_set_local_pos_z16 K nodeAddr (as_s16 v18);
     (if mode = 0 then do { setr K 31 0x80051770; node_xform_propagate_rotmat K nodeAddr }
      else do { setr K 31 0x80051760; node_xform_propagate K nodeAddr })
   })"

definition node_xform_world_pos_from_local :: "'c core_ops \<Rightarrow> u32 \<Rightarrow> u32
    \<Rightarrow> u32 \<Rightarrow> ('c, unit) state" where
  "node_xform_world_pos_from_local K nodeAddr inVec outVec = with_frame K 32 [(16, 16), (17, 20),
      (31, 24)] (do {
     setr K 17 nodeAddr;
     setr K 16 outVec;
     v1 \<leftarrow> node_frame_matrix_ptr K nodeAddr;
     _ \<leftarrow> dispatch_jal K 0x800844C0 0x80051DB0 [v1, inVec, outVec];
     v2 \<leftarrow> r16 K (outVec + 0);
     v3 \<leftarrow> node_frame_pos_x16 K nodeAddr;
     w16 K (outVec + 0) (v2 + as_u16 v3);
     v4 \<leftarrow> r16 K (outVec + 2);
     v5 \<leftarrow> node_frame_pos_y16 K nodeAddr;
     w16 K (outVec + 2) (v4 + as_u16 v5);
     v6 \<leftarrow> r16 K (outVec + 4);
     v7 \<leftarrow> node_frame_pos_z16 K nodeAddr;
     w16 K (outVec + 4) (v6 + as_u16 v7)
   })"

definition node_xform_world_pos_from_composed :: "'c core_ops \<Rightarrow> u32 \<Rightarrow> u32
    \<Rightarrow> u32 \<Rightarrow> ('c, unit) state" where
  "node_xform_world_pos_from_composed K nodeAddr inVec outVec = with_frame K 32 [(16, 16), (17,
      20), (31, 24)] (do {
     setr K 17 nodeAddr;
     setr K 16 outVec;
     v1 \<leftarrow> node_world_matrix_ptr K nodeAddr;
     _ \<leftarrow> dispatch_jal K 0x800844C0 0x80051D40 [v1, inVec, outVec];
     v2 \<leftarrow> r16 K (outVec + 0);
     v3 \<leftarrow> node_world_pos_x K nodeAddr;
     w16 K (outVec + 0) (v2 + as_u16 v3);
     v4 \<leftarrow> r16 K (outVec + 2);
     v5 \<leftarrow> node_world_pos_y K nodeAddr;
     w16 K (outVec + 2) (v4 + as_u16 v5);
     v6 \<leftarrow> r16 K (outVec + 4);
     v7 \<leftarrow> node_world_pos_z K nodeAddr;
     w16 K (outVec + 4) (v6 + as_u16 v7)
   })"

definition eov_seed_block :: "'c core_ops \<Rightarrow> ('c, unit) state" where
  "eov_seed_block K = do {
     r4_1 \<leftarrow> reg K 4;
     r5_2 \<leftarrow> reg K 5;
     r6_3 \<leftarrow> reg K 6;
     r7_4 \<leftarrow> reg K 7;
     node_xform_seed_block K r4_1 (as_s16 r5_2) (as_s16 r6_3) (as_s16 r7_4)
   }"

definition eov_propagate_rotmat :: "'c core_ops \<Rightarrow> ('c, unit) state" where
  "eov_propagate_rotmat K = do {
     r4_1 \<leftarrow> reg K 4;
     node_xform_propagate_rotmat K r4_1;
     setr K 2 0
   }"

definition eov_propagate_axis :: "'c core_ops \<Rightarrow> ('c, unit) state" where
  "eov_propagate_axis K = do {
     r4_1 \<leftarrow> reg K 4;
     node_xform_propagate_axis K r4_1;
     setr K 2 0
   }"

definition eov_build_axis :: "'c core_ops \<Rightarrow> ('c, unit) state" where
  "eov_build_axis K = do {
     r4_1 \<leftarrow> reg K 4;
     node_xform_build_axis K r4_1
   }"

definition eov_copy_matrix_block :: "'c core_ops \<Rightarrow> ('c, unit) state" where
  "eov_copy_matrix_block K = do {
     r4_1 \<leftarrow> reg K 4;
     r5_2 \<leftarrow> reg K 5;
     node_xform_copy_matrix_block K r4_1 r5_2
   }"

definition eov_build_from_child :: "'c core_ops \<Rightarrow> ('c, unit) state" where
  "eov_build_from_child K = do {
     r4_1 \<leftarrow> reg K 4;
     r5_2 \<leftarrow> reg K 5;
     r6_3 \<leftarrow> reg K 6;
     r7_4 \<leftarrow> reg K 7;
     node_xform_build_from_child K r4_1 r5_2 r6_3 r7_4;
     setr K 2 0
   }"

definition eov_world_pos_from_local :: "'c core_ops \<Rightarrow> ('c, unit) state" where
  "eov_world_pos_from_local K = do {
     r4_1 \<leftarrow> reg K 4;
     r5_2 \<leftarrow> reg K 5;
     r6_3 \<leftarrow> reg K 6;
     node_xform_world_pos_from_local K r4_1 r5_2 r6_3
   }"

definition eov_world_pos_from_composed :: "'c core_ops \<Rightarrow> ('c, unit) state" where
  "eov_world_pos_from_composed K = do {
     r4_1 \<leftarrow> reg K 4;
     r5_2 \<leftarrow> reg K 5;
     r6_3 \<leftarrow> reg K 6;
     node_xform_world_pos_from_composed K r4_1 r5_2 r6_3
   }"

definition eov_build_with_offset :: "'c core_ops \<Rightarrow> ('c, unit) state" where
  "eov_build_with_offset K = do {
     r4_1 \<leftarrow> reg K 4;
     node_xform_build_with_offset K r4_1
   }"

end
