(* ===== verification/MeleeCombat.thy ===== *)
theory MeleeCombat
  imports ObjectViews
begin

text \<open>
  Melee engagement, proximity classification and the attack orbit of the ground enemies.
\<close>

section \<open>Layout\<close>

definition O_STATE4 :: u32 where "O_STATE4 = 0x04"
definition O_PHASE :: u32 where "O_PHASE = 0x07"
definition O_TARGET :: u32 where "O_TARGET = 0x10"
definition O_POSSRC :: u32 where "O_POSSRC = 0x14"
definition O_HITGUARD :: u32 where "O_HITGUARD = 0x1B"
definition O_SUBFLAG :: u32 where "O_SUBFLAG = 0x2B"
definition O_POS_X :: u32 where "O_POS_X = 0x2C"
definition O_AIM_X :: u32 where "O_AIM_X = 0x2E"
definition O_POS_Y :: u32 where "O_POS_Y = 0x30"
definition O_AIM_Y :: u32 where "O_AIM_Y = 0x32"
definition O_POS_Z :: u32 where "O_POS_Z = 0x34"
definition O_AIM_Z :: u32 where "O_AIM_Z = 0x36"
definition O_AIM_UNUSED :: u32 where "O_AIM_UNUSED = 0x58"
definition O_TIMER :: u32 where "O_TIMER = 0x40"
definition O_SPD_X :: u32 where "O_SPD_X = 0x48"
definition O_SPD_Z :: u32 where "O_SPD_Z = 0x4C"
definition O_RATE :: u32 where "O_RATE = 0x4E"
definition O_ANGLE :: u32 where "O_ANGLE = 0x56"
definition O_FLAGS :: u32 where "O_FLAGS = 0x62"
definition O_ATKID :: u32 where "O_ATKID = 0xC4"
definition O_TSTATE :: u32 where "O_TSTATE = 0x7A"
definition O_TSTATE2 :: u32 where "O_TSTATE2 = 0x6C"
definition O_TSUB :: u32 where "O_TSUB = 0x5E"
definition FN_ACQUIRE_TARGET :: u32 where "FN_ACQUIRE_TARGET = 0x8011740C"
definition FN_INIT_A :: u32 where "FN_INIT_A = 0x801402B8"
definition FN_REARM :: u32 where "FN_REARM = 0x801406E4"
definition FN_ATTACK_EFFECT :: u32 where "FN_ATTACK_EFFECT = 0x800331D8"

section \<open>\<open>game/ai/actor_melee_engage.cpp\<close>\<close>

definition actor_melee_engage_do_it_l123 :: "'c core_ops \<Rightarrow> u32 \<Rightarrow> u32
    \<Rightarrow> u32 \<Rightarrow> u32 \<Rightarrow> u32 \<Rightarrow> ('c, u32) state" where
  "actor_melee_engage_do_it_l123 K self target angle anchor kindZBias = do {
     v22 \<leftarrow> r16 K (self + 128);
     v23 \<leftarrow> r16 K (target + 128);
     let radiusSum3 = as_s16 v22 + as_s16 v23;
     cosV \<leftarrow> rcos K angle;
     let cosScaled = (ucast (signed_drop_bit 12 ((scast cosV :: 64 word) * (scast radiusSum3 :: 64
         word))) :: u32);
     sinV \<leftarrow> rsin K angle;
     let sinScaled = (ucast (signed_drop_bit 12 ((scast sinV :: 64 word) * (scast radiusSum3 :: 64
         word))) :: u32);
     self320 \<leftarrow> r16s K (self + 320);
     v27 \<leftarrow> r16 K (anchor + 44);
     let newZ = cosScaled + (v27 + kindZBias);
     w16 K (self + 46) newZ;
     w8 K (self + 96) 1;
     v28 \<leftarrow> r16 K (anchor + 52);
     let newX = as_s16 v28 - sinScaled;
     w16 K (self + 54) newX;
     v29 \<leftarrow> r32 K 0x1F80009C;
     let angleS16 = as_s16 v29;
     let turnA = angle_cmp angleS16 self320 1;
     w8 K (self + 95) (turnA + 2);
     v30 \<leftarrow> r16s K (self + 86);
     let turnB = angle_cmp v30 angleS16 0;
     (if turnB = 0 then State_Monad.return 1
      else do {
        targetTurnState \<leftarrow> r8 K (target + 95);
        (if targetTurnState = 1 then do {
          selfState \<leftarrow> r8 K (self + 4);
          (if selfState \<noteq> 1 then State_Monad.return 1
           else do {
             selfSub \<leftarrow> r8 K (self + 5);
             (if selfSub = 19 then State_Monad.return 1
              else do {
                cooldown \<leftarrow> r32 K 0x1F80009C;
                w8 K (self + 5) 19;
                w8 K (self + 6) 0;
                w8 K (self + 7) 0;
                w8 K (self + 43) (shr cooldown 4);
                State_Monad.return 1
              })
           })
        }
         else do {
           ownerId \<leftarrow> r8 K (self + 357);
           (if ownerId = 0 then State_Monad.return 1
            else do {
              ownerSlot \<leftarrow> r32 K 0x1F800098;
              (if ownerSlot \<noteq> 1 then State_Monad.return 1
               else do {
                 facing \<leftarrow> r16s K (self + 68);
                 v38 \<leftarrow> r16 K (self + 68);
                 v39 \<leftarrow> r16 K (self + 68);
                 let facingAbs = (if 0 \<le>s facing then v38 else - v39);
                 (if as_s16 facingAbs <s 6657 then State_Monad.return 1
                  else do {
                    v40 \<leftarrow> r8 K (self + 4);
                    (if v40 \<noteq> 1 then State_Monad.return 1
                     else do {
                       v41 \<leftarrow> r8 K (self + 5);
                       (if v41 = 19 then State_Monad.return 1
                        else do {
                          cd \<leftarrow> r32 K 0x1F80009C;
                          w8 K (self + 5) 19;
                          w8 K (self + 6) 0;
                          w8 K (self + 7) 0;
                          w8 K (self + 43) (shr cd 4);
                          let cd = (cd + (-1024)) AND 4095;
                          w32 K 0x1F80009C cd;
                          w8 K (target + 43) (if cd <s 2048 then 2 else 3);
                          State_Monad.return 1
                        })
                     })
                  })
               })
            })
         })
      })
   }"

definition actor_melee_engage_do_it_l214 :: "'c core_ops \<Rightarrow> u32 \<Rightarrow> u32
    \<Rightarrow> u32 \<Rightarrow> u32 \<Rightarrow> (unit \<Rightarrow> ('c, u32) state)
    \<Rightarrow> u32 \<Rightarrow> ('c, u32) state" where
  "actor_melee_engage_do_it_l214 K self reachLo anchor target abortToDisengage angle = do {
     v43 \<leftarrow> r8 K (self + 325);
     (if (v43 AND 1) \<noteq> 0 then State_Monad.return 0
      else do {
        w8 K (self + 41) 1;
        let reachY = as_s16 reachLo;
        v44 \<leftarrow> r32 K (anchor + 48);
        let newY = shl (v44 + reachY) 16;
        w32 K (self + 48) newY;
        selfFacing \<leftarrow> r16 K (self + 68);
        targetFaceCheck \<leftarrow> r16s K (target + 98);
        w8 K (target + 41) 1;
        w16 K (target + 68) selfFacing;
        (if targetFaceCheck = 0 then abortToDisengage () 
         else do {
           v48 \<leftarrow> r8 K (self + 0);
           (if (v48 AND 4) \<noteq> 0 then abortToDisengage () 
            else do {
              lockOwner \<leftarrow> r8 K (self + 325);
              (if lockOwner \<noteq> 2 then abortToDisengage () 
               else do {
                 v52 \<leftarrow> r8 K (self + 4);
                 (if \<not> (v52 < 2) then abortToDisengage () 
                  else do {
                    setr K 4 angle;
                    call_guest K 0x80055844;
                    r2_54 \<leftarrow> reg K 2;
                    (if r2_54 \<noteq> 0 then do {
                      w8 K (self + 325) 0;
                      w8 K (target + 94) lockOwner;
                      w8 K (self + 328) 0;
                      w16 K (self + 80) 0;
                      w8 K (self + 5) 23;
                      w8 K (self + 6) 0;
                      w8 K (self + 7) 0;
                      State_Monad.return 2
                    }
                     else do {
                       v55 \<leftarrow> r8 K (self + 5);
                       let rest1 = (do {
                         w8 K (self + 325) 0;
                         w8 K (target + 94) 1;
                         w8 K (self + 328) 0;
                         w16 K (self + 80) 0;
                         w8 K (self + 5) 23;
                         w8 K (self + 6) 0;
                         w8 K (self + 7) 0;
                         State_Monad.return 2
                       });
                       (if v55 = 23 then do {
                         v56 \<leftarrow> r16s K (self + 74);
                         (if v56 <s 11265 then abortToDisengage () else rest1)
                       }
                        else rest1)
                     })
                  })
               })
            })
         })
      })
   }"

definition actor_melee_engage_do_it_l123b where
  "actor_melee_engage_do_it_l123b K doReposition self target angle anchor kindZBias reachLo = (if
      doReposition then actor_melee_engage_do_it_l123 K self target angle anchor kindZBias
    else do {
      let abortToDisengage = (\<lambda>_. do {
        setr K 4 self;
        call_guest K 0x80022C78;
        w8 K (target + 94) 0;
        State_Monad.return 2
      });
      actor_melee_engage_do_it_l214 K self reachLo anchor target abortToDisengage angle
    })"

definition actor_melee_engage_do_it :: "'c core_ops \<Rightarrow> u32 \<Rightarrow> u32
    \<Rightarrow> u32 \<Rightarrow> ('c, u32) state" where
  "actor_melee_engage_do_it K self target anchor = do {
     targetKind \<leftarrow> r8 K (target + 3);
     let kindZBias = (if targetKind = 5 then -70 else 0);
     v2 \<leftarrow> r16 K (self + 46);
     v3 \<leftarrow> r16 K (anchor + 44);
     let dz = v2 - (as_u16 (v3 + kindZBias));
     let dzS = as_s16 dz;
     v4 \<leftarrow> r16 K (self + 54);
     v5 \<leftarrow> r16 K (anchor + 52);
     let dx = v4 - v5;
     let dxS = as_s16 dx;
     let sumSq = dzS * dzS + dxS * dxS;
     setr K 4 sumSq;
     call_guest K 0x80084080;
     r2_6 \<leftarrow> reg K 2;
     let dist16 = as_u16 r2_6;
     v7 \<leftarrow> r16 K (self + 128);
     v8 \<leftarrow> r16 K (target + 128);
     let radiusSum1 = as_s16 v7 + as_s16 v8;
     (if radiusSum1 <s dist16 then State_Monad.return 0
      else do {
        v9 \<leftarrow> r16 K (self + 50);
        v10 \<leftarrow> r16 K (anchor + 48);
        let dy = v9 - v10;
        v11 \<leftarrow> r16 K (self + 132);
        v12 \<leftarrow> r16 K (target + 132);
        let heightSum = v11 + v12;
        let yBandSum = as_u16 (dy + heightSum);
        v13 \<leftarrow> r16 K (self + 134);
        v14 \<leftarrow> r16 K (target + 134);
        let yThreshold = as_s16 v13 + as_s16 v14;
        (if yThreshold <s yBandSum then State_Monad.return 0
         else do {
           let absDy = (if 0 \<le>s dy then dy else - dy);
           (reachHi, reachLo) \<leftarrow> (if 0 \<le>s dy then do {
             targetYFull \<leftarrow> r16 K (target + 134);
             targetHeight \<leftarrow> r16 K (target + 132);
             selfYFull \<leftarrow> r16 K (self + 134);
             selfHeight \<leftarrow> r16 K (self + 132);
             let v = targetYFull - targetHeight + (selfYFull - selfHeight);
             State_Monad.return (v, v)
           }
            else do { let reachHi = heightSum; State_Monad.return (reachHi, - heightSum) });
           angle \<leftarrow> trig_ratan2 K (- dxS) dzS;
           v20 \<leftarrow> r16 K (self + 128);
           v21 \<leftarrow> r16 K (target + 128);
           let radiusSum2 = as_s16 v20 + as_s16 v21;
           let margin = radiusSum2 - (as_s16 dist16);
           let bandWidth = as_s16 reachHi - (as_s16 absDy);
           w32 K 0x1F80009C angle;
           let doReposition = margin <s bandWidth \<or> margin <s 3;
           actor_melee_engage_do_it_l123b K doReposition self target angle anchor kindZBias
               reachLo
         })
      })
   }"

definition actor_melee_engage_do_it_framed :: "'c core_ops \<Rightarrow> ('c, unit) state" where
  "actor_melee_engage_do_it_framed K = do {
     self \<leftarrow> reg K 4;
     target \<leftarrow> reg K 5;
     anchor \<leftarrow> reg K 6;
     save16 \<leftarrow> reg K 16;
     save17 \<leftarrow> reg K 17;
     save18 \<leftarrow> reg K 18;
     save19 \<leftarrow> reg K 19;
     save20 \<leftarrow> reg K 20;
     save21 \<leftarrow> reg K 21;
     save22 \<leftarrow> reg K 22;
     save23 \<leftarrow> reg K 23;
     save30 \<leftarrow> reg K 30;
     saveRa \<leftarrow> reg K 31;
     r29_14 \<leftarrow> reg K 29;
     setr K 29 (r29_14 - 64);
     r29_15 \<leftarrow> reg K 29;
     w32 K (r29_15 + 28) save17;
     w32 K (r29_15 + 32) save18;
     w32 K (r29_15 + 56) save30;
     w32 K (r29_15 + 48) save22;
     w32 K (r29_15 + 60) saveRa;
     w32 K (r29_15 + 52) save23;
     w32 K (r29_15 + 44) save21;
     w32 K (r29_15 + 40) save20;
     w32 K (r29_15 + 36) save19;
     w32 K (r29_15 + 24) save16;
     v16 \<leftarrow> actor_melee_engage_do_it K self target anchor;
     setr K 2 v16;
     r29_17 \<leftarrow> reg K 29;
     v18 \<leftarrow> r32 K (r29_17 + 60);
     setr K 31 v18;
     v19 \<leftarrow> r32 K (r29_17 + 56);
     setr K 30 v19;
     v20 \<leftarrow> r32 K (r29_17 + 52);
     setr K 23 v20;
     v21 \<leftarrow> r32 K (r29_17 + 48);
     setr K 22 v21;
     v22 \<leftarrow> r32 K (r29_17 + 44);
     setr K 21 v22;
     v23 \<leftarrow> r32 K (r29_17 + 40);
     setr K 20 v23;
     v24 \<leftarrow> r32 K (r29_17 + 36);
     setr K 19 v24;
     v25 \<leftarrow> r32 K (r29_17 + 32);
     setr K 18 v25;
     v26 \<leftarrow> r32 K (r29_17 + 28);
     setr K 17 v26;
     v27 \<leftarrow> r32 K (r29_17 + 24);
     setr K 16 v27;
     setr K 29 (r29_17 + 64)
   }"

definition ov_actor_melee_engage :: "'c core_ops \<Rightarrow> ('c, unit) state" where
  "ov_actor_melee_engage K = actor_melee_engage_do_it_framed K"

section \<open>\<open>game/ai/attack_orbit_substate.cpp\<close>\<close>

definition attack_orbit_substate_orbit_target_motion :: "'c core_ops \<Rightarrow> ('c, unit)
    state" where
  "attack_orbit_substate_orbit_target_motion K = do {
     obj \<leftarrow> reg K 4;
     phase \<leftarrow> r8 K (obj + O_PHASE);
     only_if (phase < 6) ((if phase = 0 then do {
       setr K 4 obj;
       setr K 5 0;
       call_guest K FN_ACQUIRE_TARGET;
       r2_3 \<leftarrow> reg K 2;
       w32 K (obj + O_TARGET) r2_3;
       w32 K (obj + O_POSSRC) 0;
       v4 \<leftarrow> r16 K (obj + O_FLAGS);
       w16 K (obj + O_FLAGS) (v4 OR 1);
       w16 K (obj + O_ANGLE) 0;
       w8 K (obj + O_PHASE) (phase + 1);
       setr K 4 obj;
       setr K 5 0x23;
       setr K 6 8;
       call_guest K FN_INIT_A;
       w16 K (obj + O_RATE) 0x800;
       w16 K (obj + O_TIMER) 0x14;
       v5 \<leftarrow> r8 K (obj + O_PHASE);
       w8 K (obj + O_PHASE) (v5 + 1);
       v6 \<leftarrow> r16 K (obj + O_SPD_X);
       v7 \<leftarrow> r16 K (obj + O_RATE);
       let dx = (as_s16 v6) * (as_s16 v7);
       v8 \<leftarrow> r16 K (obj + O_SPD_Z);
       v9 \<leftarrow> r16 K (obj + O_RATE);
       let dz = (as_s16 v8) * (as_s16 v9);
       px \<leftarrow> r32 K (obj + O_POS_X);
       pz \<leftarrow> r32 K (obj + O_POS_Z);
       v12 \<leftarrow> r16 K (obj + O_FLAGS);
       let (px, pz) = (if (v12 AND 1) = 0 then (let px = px + dx in (px, pz + dz)) else (let px =
           px - dx in (px, pz - dz)));
       w32 K (obj + O_POS_X) px;
       w32 K (obj + O_POS_Z) pz;
       v13 \<leftarrow> r16 K (obj + O_TIMER);
       let t = as_u16 (v13 - 1);
       w16 K (obj + O_TIMER) t;
       only_if (as_s16 t \<le>s 0) (do {
         v14 \<leftarrow> r8 K (obj + O_PHASE);
         w8 K (obj + O_PHASE) (v14 + 1)
       })
     }
      else if phase = 1 then do {
        setr K 4 obj;
        setr K 5 0x23;
        setr K 6 8;
        call_guest K FN_INIT_A;
        w16 K (obj + O_RATE) 0x800;
        w16 K (obj + O_TIMER) 0x14;
        v15 \<leftarrow> r8 K (obj + O_PHASE);
        w8 K (obj + O_PHASE) (v15 + 1);
        v16 \<leftarrow> r16 K (obj + O_SPD_X);
        v17 \<leftarrow> r16 K (obj + O_RATE);
        let dx = (as_s16 v16) * (as_s16 v17);
        v18 \<leftarrow> r16 K (obj + O_SPD_Z);
        v19 \<leftarrow> r16 K (obj + O_RATE);
        let dz = (as_s16 v18) * (as_s16 v19);
        px \<leftarrow> r32 K (obj + O_POS_X);
        pz \<leftarrow> r32 K (obj + O_POS_Z);
        v22 \<leftarrow> r16 K (obj + O_FLAGS);
        let (px, pz) = (if (v22 AND 1) = 0 then (let px = px + dx in (px, pz + dz)) else (let px =
            px - dx in (px, pz - dz)));
        w32 K (obj + O_POS_X) px;
        w32 K (obj + O_POS_Z) pz;
        v23 \<leftarrow> r16 K (obj + O_TIMER);
        let t = as_u16 (v23 - 1);
        w16 K (obj + O_TIMER) t;
        only_if (as_s16 t \<le>s 0) (do {
          v24 \<leftarrow> r8 K (obj + O_PHASE);
          w8 K (obj + O_PHASE) (v24 + 1)
        })
      }
       else if phase = 2 then do {
         v25 \<leftarrow> r16 K (obj + O_SPD_X);
         v26 \<leftarrow> r16 K (obj + O_RATE);
         let dx = (as_s16 v25) * (as_s16 v26);
         v27 \<leftarrow> r16 K (obj + O_SPD_Z);
         v28 \<leftarrow> r16 K (obj + O_RATE);
         let dz = (as_s16 v27) * (as_s16 v28);
         px \<leftarrow> r32 K (obj + O_POS_X);
         pz \<leftarrow> r32 K (obj + O_POS_Z);
         v31 \<leftarrow> r16 K (obj + O_FLAGS);
         let (px, pz) = (if (v31 AND 1) = 0 then (let px = px + dx in (px, pz + dz)) else (let px
             = px - dx in (px, pz - dz)));
         w32 K (obj + O_POS_X) px;
         w32 K (obj + O_POS_Z) pz;
         v32 \<leftarrow> r16 K (obj + O_TIMER);
         let t = as_u16 (v32 - 1);
         w16 K (obj + O_TIMER) t;
         only_if (as_s16 t \<le>s 0) (do {
           v33 \<leftarrow> r8 K (obj + O_PHASE);
           w8 K (obj + O_PHASE) (v33 + 1)
         })
       }
        else if phase = 3 then do {
          setr K 4 obj;
          setr K 5 0x24;
          setr K 6 8;
          call_guest K FN_INIT_A;
          w16 K (obj + O_TIMER) 0x10;
          v34 \<leftarrow> r8 K (obj + O_PHASE);
          w8 K (obj + O_PHASE) (v34 + 1);
          v35 \<leftarrow> r16 K (obj + O_TIMER);
          let t = as_u16 (v35 - 1);
          w16 K (obj + O_TIMER) t;
          (if 0 <s as_s16 t then State_Monad.return ()
           else do {
             w16 K (obj + O_TIMER) 0x10;
             v36 \<leftarrow> r8 K (obj + O_PHASE);
             w8 K (obj + O_PHASE) (v36 + 1);
             v37 \<leftarrow> r16 K (obj + O_FLAGS);
             w16 K (obj + O_FLAGS) (v37 OR 4)
           })
        }
         else if phase = 4 then do {
           v38 \<leftarrow> r16 K (obj + O_TIMER);
           let t = as_u16 (v38 - 1);
           w16 K (obj + O_TIMER) t;
           (if 0 <s as_s16 t then State_Monad.return ()
            else do {
              w16 K (obj + O_TIMER) 0x10;
              v39 \<leftarrow> r8 K (obj + O_PHASE);
              w8 K (obj + O_PHASE) (v39 + 1);
              v40 \<leftarrow> r16 K (obj + O_FLAGS);
              w16 K (obj + O_FLAGS) (v40 OR 4)
            })
         }
          else if phase = 5 then do {
            told \<leftarrow> r16 K (obj + O_TIMER);
            v42 \<leftarrow> r16 K (obj + O_ANGLE);
            w16 K (obj + O_ANGLE) (as_s16 v42 + 0x80);
            w16 K (obj + O_TIMER) (told - 1);
            (if 0 <s as_s16 told then State_Monad.return ()
             else do {
               w8 K (obj + O_PHASE) 1;
               v43 \<leftarrow> r16 K (obj + O_FLAGS);
               w16 K (obj + O_FLAGS) (v43 XOR 1);
               w16 K (obj + O_ANGLE) 0;
               v44 \<leftarrow> r16 K (obj + O_FLAGS);
               w16 K (obj + O_FLAGS) (v44 AND 0xFFFB)
             })
          }
           else State_Monad.return ()));
     setr K 4 obj;
     call_guest K FN_REARM;
     v45 \<leftarrow> r16 K (obj + O_AIM_Y);
     w16 K (obj + O_AIM_Y) (as_s16 v45 + 0x14)
   }"

definition attack_orbit_substate_aim_at_target_anchor :: "'c core_ops \<Rightarrow> ('c, unit)
    state" where
  "attack_orbit_substate_aim_at_target_anchor K = do {
     obj \<leftarrow> reg K 4;
     target \<leftarrow> r32 K (obj + O_TARGET);
     posSrc \<leftarrow> r32 K (obj + O_POSSRC);
     phase \<leftarrow> r8 K (obj + O_PHASE);
     (if 2 < phase then State_Monad.return ()
      else do {
        let rest1 = (do {
          v5 \<leftarrow> r16 K (posSrc + O_POS_X);
          let sx = as_s16 v5;
          v6 \<leftarrow> r16 K (posSrc + O_POS_Y);
          let sy = as_s16 v6;
          v7 \<leftarrow> r16 K (posSrc + O_POS_Z);
          let sz = as_s16 v7;
          w16 K (obj + O_AIM_X) (sx + 0x28);
          w16 K (obj + O_AIM_Y) (sy - 0xCD);
          w16 K (obj + O_AIM_UNUSED) 0;
          w16 K (obj + O_AIM_Z) sz;
          v8 \<leftarrow> r16 K (target + O_TSTATE);
          let tState = as_s16 v8;
          let rest2 = (do {
            hitGuard \<leftarrow> r8 K (obj + O_HITGUARD);
            w32 K (obj + O_STATE4) 2;
            only_if ((hitGuard AND 0x40) = 0) (do {
              setr K 4 obj;
              v10 \<leftarrow> r32 K (obj + O_ATKID);
              setr K 5 v10;
              setr K 6 (-100);
              setr K 7 0;
              call_guest K FN_ATTACK_EFFECT;
              w8 K (obj + O_HITGUARD) (hitGuard OR 0x40);
              w8 K (obj + O_KIND) 7
            })
          });
          (if tState = 2 \<or> tState = 6 then do { w8 K (obj + O_SUBFLAG) 0; rest2 }
           else do {
             v11 \<leftarrow> r16 K (target + O_TSTATE2);
             (if as_s16 v11 \<noteq> 2 then State_Monad.return ()
              else do {
                sub1 \<leftarrow> r8 K (target + O_TSUB);
                (if 1 < as_u8 (sub1 - 2) then State_Monad.return ()
                 else do { w8 K (obj + O_SUBFLAG) (if sub1 = 2 then 0x80 else 0); rest2 })
              })
           })
        });
        (if phase \<noteq> 2 then do {
          let rest3 = (do {
            setr K 4 obj;
            setr K 5 0x1C;
            setr K 6 0;
            call_guest K FN_INIT_A;
            w8 K (obj + O_PHASE) 2;
            v13 \<leftarrow> r16 K (obj + O_FLAGS);
            w16 K (obj + O_FLAGS) (v13 OR 1);
            w16 K (obj + O_ANGLE) 0x800;
            rest1
          });
          (if phase = 0 then do { setr K 4 obj; call_guest K FN_REARM; rest3 }
           else if phase \<noteq> 1 then State_Monad.return () else rest3)
        }
         else rest1)
      })
   }"

section \<open>\<open>game/ai/melee_proximity.cpp\<close>\<close>

definition melee_proximity_is_at_approach_anchor :: "'c core_ops \<Rightarrow> u32 \<Rightarrow>
    u32 \<Rightarrow> ('c, u32) state" where
  "melee_proximity_is_at_approach_anchor K self other = do {
     v1 \<leftarrow> r16 K (other + 46);
     v2 \<leftarrow> r16 K (other + 96);
     let otherAnchorZ = v1 + v2;
     v3 \<leftarrow> r16 K (self + 46);
     let dz = as_s16 (v3 - (as_u16 otherAnchorZ));
     v4 \<leftarrow> r16 K (other + 54);
     v5 \<leftarrow> r16 K (other + 100);
     let otherAnchorX = v4 + v5;
     v6 \<leftarrow> r16 K (self + 54);
     let dx = as_s16 (v6 - (as_u16 otherAnchorX));
     let sumSq = dx * dx + dz * dz;
     setr K 4 sumSq;
     call_guest K 0x80084080;
     r2_7 \<leftarrow> reg K 2;
     let dist16 = as_u16 r2_7;
     v8 \<leftarrow> r16 K (other + 128);
     v9 \<leftarrow> r16 K (self + 128);
     let radiusSum = as_s16 v8 + as_s16 v9;
     (if radiusSum <s dist16 then State_Monad.return 0
      else do {
        v10 \<leftarrow> r16 K (other + 50);
        v11 \<leftarrow> r16 K (other + 98);
        let otherAnchorY = v10 + v11;
        v12 \<leftarrow> r16 K (self + 50);
        let dy = as_s16 (v12 - (as_u16 otherAnchorY));
        v13 \<leftarrow> r16 K (other + 132);
        v14 \<leftarrow> r16 K (self + 132);
        let heightSum = as_s16 v13 + as_s16 v14;
        v15 \<leftarrow> r16 K (other + 134);
        v16 \<leftarrow> r16 K (self + 134);
        let yThreshold = as_s16 v15 + as_s16 v16;
        (if yThreshold <s as_u16 (dy + heightSum) then State_Monad.return 0
         else do {
           angle \<leftarrow> trig_ratan2 K (- dx) dz;
           w32 K 0x1F80009C angle;
           State_Monad.return 1
         })
      })
   }"

definition melee_proximity_is_at_approach_anchor_framed :: "'c core_ops \<Rightarrow> ('c, unit)
    state" where
  "melee_proximity_is_at_approach_anchor_framed K = do {
     self \<leftarrow> reg K 4;
     other \<leftarrow> reg K 5;
     savedSp \<leftarrow> reg K 29;
     setr K 29 (savedSp - 40);
     r29_4 \<leftarrow> reg K 29;
     r19_5 \<leftarrow> reg K 19;
     w32 K (r29_4 + 28) r19_5;
     r16_6 \<leftarrow> reg K 16;
     w32 K (r29_4 + 16) r16_6;
     r31_7 \<leftarrow> reg K 31;
     w32 K (r29_4 + 32) r31_7;
     r18_8 \<leftarrow> reg K 18;
     w32 K (r29_4 + 24) r18_8;
     r17_9 \<leftarrow> reg K 17;
     w32 K (r29_4 + 20) r17_9;
     setr K 19 self;
     setr K 16 other;
     v10 \<leftarrow> melee_proximity_is_at_approach_anchor K self other;
     setr K 2 v10;
     r29_11 \<leftarrow> reg K 29;
     v12 \<leftarrow> r32 K (r29_11 + 32);
     setr K 31 v12;
     v13 \<leftarrow> r32 K (r29_11 + 28);
     setr K 19 v13;
     v14 \<leftarrow> r32 K (r29_11 + 24);
     setr K 18 v14;
     v15 \<leftarrow> r32 K (r29_11 + 20);
     setr K 17 v15;
     v16 \<leftarrow> r32 K (r29_11 + 16);
     setr K 16 v16;
     setr K 29 savedSp
   }"

definition ov_melee_proximity :: "'c core_ops \<Rightarrow> ('c, unit) state" where
  "ov_melee_proximity K = melee_proximity_is_at_approach_anchor_framed K"

end
