(* ===== verification/ModelBinding.thy ===== *)
theory ModelBinding
  imports ObjectViews
begin

text \<open>
  Render records and models bound to an object (\<open>game/world/graphics_bind.cpp\<close>) and
  its animation: the bytecode step, the link chain and the unpacking of a frame's packed poses.
\<close>

section \<open>\<open>game/object/animation.cpp\<close>\<close>

definition animation_apply_frame :: "'c core_ops \<Rightarrow> u32 \<Rightarrow> u32 \<Rightarrow>
    ('c, unit) state" where
  "animation_apply_frame K node snapCursor = do {
     v1 \<leftarrow> r16 K (node + 0x88);
     v2 \<leftarrow> r16 K (node + 0x90);
     w16 K (node + 0x88) (v1 + v2);
     v3 \<leftarrow> r16 K (node + 0x8A);
     v4 \<leftarrow> r16 K (node + 0x92);
     w16 K (node + 0x8A) (v3 + v4);
     v5 \<leftarrow> r16 K (node + 0x8C);
     v6 \<leftarrow> r16 K (node + 0x94);
     w16 K (node + 0x8C) (v5 + v6);
     childCount \<leftarrow> r8 K (node + 9);
     only_if (childCount \<noteq> 0) (do {
       limit \<leftarrow> r8 K (node + 8);
       let p = node;
       out16 \<leftarrow> each_until (upto_u32 (unat limit)) p (\<lambda>i p. do {
         child \<leftarrow> r32 K (p + 0xC0);
         v10 \<leftarrow> r16 K (child + 8);
         v11 \<leftarrow> r16 K (child + 0x10);
         w16 K (child + 8) (v10 + v11);
         v12 \<leftarrow> r16 K (child + 10);
         v13 \<leftarrow> r16 K (child + 0x12);
         w16 K (child + 10) (v12 + v13);
         v14 \<leftarrow> r16 K (child + 12);
         v15 \<leftarrow> r16 K (child + 0x14);
         w16 K (child + 12) (v14 + v15);
         (if childCount \<le>s i + 1 then State_Monad.return (Inl p)
          else do { let p = p + 4; State_Monad.return (Inr p) })
       });
       let p = loop_value out16;
       State_Monad.return ()
     });
     only_if (snapCursor = 1) (do {
       v17 \<leftarrow> r32 K (node + 0x38);
       w32 K (node + 0x38) (v17 OR 0x80000000)
     })
   }"

definition anim_unpack_pose_triple :: "'c core_ops \<Rightarrow> u32 \<Rightarrow> u32
    \<Rightarrow> ('c, u32) state" where
  "anim_unpack_pose_triple K obj stream = do {
     let s = stream;
     e0 \<leftarrow> r8 K s;
     e1 \<leftarrow> r8 K (s + 1);
     e2 \<leftarrow> r8 K (s + 2);
     e3 \<leftarrow> r8 K (s + 3);
     e4 \<leftarrow> r8 K (s + 4);
     let v88 = (sar 20 (shl e0 24)) OR (shr e1 4);
     let v8a = (sar 20 (shl e1 28)) OR e2;
     let v8c = (sar 20 (shl e3 24)) OR (shr e4 4);
     w16 K (obj + 0x88) v88;
     w16 K (obj + 0x8A) v8a;
     w16 K (obj + 0x8C) v8c;
     State_Monad.return (s + 4)
   }"

definition rd_u32 :: "'c core_ops \<Rightarrow> u32 \<Rightarrow> ('c, u32) state" where
  "rd_u32 K a = r32 K a"

definition animation_load_frame :: "'c core_ops \<Rightarrow> u32 \<Rightarrow> ('c, unit) state"
    where
  "animation_load_frame K node = do {
     let obj = node;
     cur \<leftarrow> r32 K (obj + 0x38);
     idx \<leftarrow> r16 K (cur + 0);
     tableBase \<leftarrow> r32 K (obj + 0x3C);
     let entryPtr = tableBase + idx * 4;
     rec \<leftarrow> rd_u32 K entryPtr;
     let flagsByte = as_s8 (shr rec 24);
     let off24 = rec AND 0x00FFFFFF;
     let stream = tableBase + off24;
     w8 K (obj + 8) flagsByte;
     (stream, phase) \<leftarrow> (if (flagsByte AND 0x40) \<noteq> 0 then do {
       stream \<leftarrow> (if (flagsByte AND 0x80) \<noteq> 0 then do {
         stream \<leftarrow> anim_unpack_pose_triple K obj stream;
         State_Monad.return (stream + 5)
       }
        else State_Monad.return stream);
       State_Monad.return (stream, rec)
     }
      else if (flagsByte AND 0x80) \<noteq> 0 then do {
        let phase = (1 :: u32);
        stream \<leftarrow> anim_unpack_pose_triple K obj stream;
        State_Monad.return (stream, phase)
      }
       else State_Monad.return (stream, (0 :: u32)));
     v7 \<leftarrow> r8 K (obj + 8);
     let boundA = v7 AND 0x3F;
     boundB0 \<leftarrow> r8 K (obj + 9);
     w8 K (obj + 8) boundA;
     (if boundB0 = 0 then State_Monad.return ()
      else do {
        let a2 = obj;
        (if (flagsByte AND 0x40) \<noteq> 0 then do {
          let i = (0 :: u32);
          loop (\<lambda>(stream, a2, i). (if \<not> (i < boundA) then State_Monad.return (Inl ())
           else do {
             s \<leftarrow> rd_u32 K (a2 + 192);
             b0 \<leftarrow> r8 K stream;
             b1 \<leftarrow> r8 K (stream + 1);
             b2 \<leftarrow> r8 K (stream + 2);
             b3 \<leftarrow> r8 K (stream + 3);
             b4 \<leftarrow> r8 K (stream + 4);
             b5 \<leftarrow> r8 K (stream + 5);
             b6 \<leftarrow> r8 K (stream + 6);
             b7 \<leftarrow> r8 K (stream + 7);
             b8 \<leftarrow> r8 K (stream + 8);
             let stream = stream + 9;
             let f8 = as_u16 ((shl b0 4) OR (shr b1 4));
             let f10 = as_u16 ((shl (b1 AND 0xF) 8) OR b2);
             let f12 = as_u16 ((shl b3 4) OR (shr b4 4));
             let f56 = as_u16 (shl ((shl (b4 AND 0xF) 8) OR b5) 3);
             let f58 = as_u16 (shl ((shl b6 4) OR (shr b7 4)) 3);
             let f60 = as_u16 (shl ((shl (b7 AND 0xF) 8) OR b8) 3);
             w16 K (s + 8) f8;
             w16 K (s + 10) f10;
             w16 K (s + 12) f12;
             w16 K (s + 0x38) f56;
             w16 K (s + 0x3A) f58;
             w16 K (s + 0x3C) f60;
             let i = i + 1;
             v30 \<leftarrow> r8 K (obj + 9);
             (if \<not> (i < v30) then State_Monad.return (Inl ())
              else do { let a2 = a2 + 4; State_Monad.return (Inr (stream, a2, i)) })
           })) (stream, a2, i)
        }
         else do {
           let i = (0 :: u32);
           loop (\<lambda>(stream, a2, i). (if \<not> (i < boundA) then State_Monad.return (Inl
               ())
            else do {
              s \<leftarrow> rd_u32 K (a2 + 192);
              (stream, f8, f10, f12) \<leftarrow> (if ((i + phase) AND 1) \<noteq> 0 then do {
                c0 \<leftarrow> r8 K stream;
                c1 \<leftarrow> r8 K (stream + 1);
                c2 \<leftarrow> r8 K (stream + 2);
                c3 \<leftarrow> r8 K (stream + 3);
                c4 \<leftarrow> r8 K (stream + 4);
                let stream = stream + 5;
                let f8 = as_u16 ((shl (c0 AND 0xF) 8) OR c1);
                let f10 = as_u16 ((shl c2 4) OR (shr c3 4));
                State_Monad.return (stream, f8, f10, as_u16 ((shl (c3 AND 0xF) 8) OR c4))
              }
               else do {
                 d0 \<leftarrow> r8 K stream;
                 d1 \<leftarrow> r8 K (stream + 1);
                 d2 \<leftarrow> r8 K (stream + 2);
                 d3 \<leftarrow> r8 K (stream + 3);
                 d4 \<leftarrow> r8 K (stream + 4);
                 let stream = stream + 4;
                 let f8 = as_u16 ((shl d0 4) OR (shr d1 4));
                 let f10 = as_u16 ((shl (d1 AND 0xF) 8) OR d2);
                 State_Monad.return (stream, f8, f10, as_u16 ((shl d3 4) OR (shr d4 4)))
               });
              w16 K (s + 8) f8;
              w16 K (s + 10) f10;
              w16 K (s + 12) f12;
              let i = i + 1;
              v54 \<leftarrow> r8 K (obj + 9);
              (if \<not> (i < v54) then State_Monad.return (Inl ())
               else do { let a2 = a2 + 4; State_Monad.return (Inr (stream, a2, i)) })
            })) (stream, a2, i)
         })
      })
   }"

definition anim_vm_76d68_l141 :: "'c core_ops \<Rightarrow> u32 \<Rightarrow> u32 \<Rightarrow>
    u32 \<Rightarrow> u32 \<Rightarrow> (u32 \<Rightarrow> bool \<Rightarrow> u32 \<Rightarrow>
    ('c, unit) state) \<Rightarrow> ('c, unit) state" where
  "anim_vm_76d68_l141 K tag1 freeze cur s0 exec_tail = (if tag1 \<noteq> 0 then setr K 2 0
    else do {
      cur \<leftarrow> (if \<not> (freeze \<noteq> 0) then do {
        let cur = cur + 8;
        w32 K (s0 + 56) cur;
        State_Monad.return cur
      }
       else State_Monad.return cur);
      cur \<leftarrow> r32 K (s0 + 56);
      v15 \<leftarrow> r16 K (cur + 6);
      let dur = v15 AND 0x0FFF;
      w16 K (s0 + 14) dur;
      animation_load_frame K s0;
      a1c \<leftarrow> r32 K (s0 + 56);
      v1 \<leftarrow> r16 K (a1c + 6);
      (if (v1 AND 0x2000) = 0 then setr K 2 0
       else do {
         let t = v1 AND 0xC000;
         (if t = 0x4000 then exec_tail a1c True 0
          else if t < 0x4001 then (if t = 0 then exec_tail a1c False 0 else setr K 2 0)
           else if t = 0x8000 then setr K 2 0
            else if t = 0xC000 then exec_tail a1c True 0 else setr K 2 0)
       })
    })"

definition anim_vm_76d68_l141b where
  "anim_vm_76d68_l141b K tag1 freeze cur s0 exec_tail opu = (if tag1 < 0x4001 then
      anim_vm_76d68_l141 K tag1 freeze cur s0 exec_tail
    else if tag1 = 0x8000 then do { w16 K (s0 + 14) (opu AND 0x0FFF); setr K 2 1 }
     else do {
       cur \<leftarrow> (if \<not> (freeze \<noteq> 0) then do {
         cur \<leftarrow> r32 K (cur + 8);
         w32 K (s0 + 56) cur;
         State_Monad.return cur
       }
        else State_Monad.return cur);
       cur \<leftarrow> r32 K (s0 + 56);
       v20 \<leftarrow> r16 K (cur + 6);
       let dur = v20 AND 0x0FFF;
       w16 K (s0 + 14) dur;
       animation_load_frame K s0;
       a1c \<leftarrow> r32 K (s0 + 56);
       v1 \<leftarrow> r16 K (a1c + 6);
       (if (v1 AND 0x2000) = 0 then do { w16 K (s0 + 14) (opu AND 0x0FFF); setr K 2 1 }
        else do {
          let t = v1 AND 0xC000;
          (if t = 0x4000 then exec_tail a1c True 1
           else if t < 0x4001 then (if t = 0 then exec_tail a1c False 1 else setr K 2 1)
            else if t = 0x8000 then setr K 2 1
             else if t = 0xC000 then exec_tail a1c True 1 else setr K 2 1)
        })
     })"

definition anim_vm_76d68 :: "'c core_ops \<Rightarrow> ('c, unit) state" where
  "anim_vm_76d68 K = do {
     s0 \<leftarrow> reg K 4;
     ctrl \<leftarrow> r16 K (s0 + 14);
     let low12 = ctrl AND 0x0FFF;
     let cnt = (low12 - 1) AND 0xFFFFFFFF;
     let freeze = ctrl AND 0x1000;
     (if cnt \<noteq> 0 then do {
       cur \<leftarrow> r32 K (s0 + 56);
       (if cur <s 0 then do { w16 K (s0 + 14) (cnt + freeze); setr K 2 0 }
        else do {
          animation_apply_frame K s0 (as_s16 cnt);
          v4 \<leftarrow> r16 K (s0 + 14);
          let fz = v4 AND 0x1000;
          w16 K (s0 + 14) (cnt + fz);
          setr K 2 2
        })
     }
      else do {
        cur \<leftarrow> r32 K (s0 + 56);
        op1 \<leftarrow> r16 K (cur + 6);
        let opu = op1;
        let tag1 = op1 AND 0xC000;
        let exec_tail = (\<lambda>cur_in jump_target retval. do {
          v7 \<leftarrow> r32 K (cur_in + 8);
          let a1 = (if jump_target then v7 else cur_in + 8);
          setr K 4 s0;
          setr K 5 a1;
          v8 \<leftarrow> r16s K (s0 + 14);
          setr K 6 v8;
          call_guest K 0x80075FF8;
          setr K 2 retval
        });
        (if tag1 = 0x4000 then do {
          cur \<leftarrow> (if \<not> (freeze \<noteq> 0) then do {
            cur \<leftarrow> r32 K (cur + 8);
            w32 K (s0 + 56) cur;
            State_Monad.return cur
          }
           else State_Monad.return cur);
          cur \<leftarrow> r32 K (s0 + 56);
          v11 \<leftarrow> r16 K (cur + 6);
          let dur = v11 AND 0x0FFF;
          w16 K (s0 + 14) dur;
          animation_load_frame K s0;
          a1c \<leftarrow> r32 K (s0 + 56);
          v1 \<leftarrow> r16 K (a1c + 6);
          (if (v1 AND 0x2000) = 0 then setr K 2 0
           else do {
             let t = v1 AND 0xC000;
             (if t = 0x4000 then exec_tail a1c True 0
              else if t < 0x4001 then (if t = 0 then exec_tail a1c False 0 else setr K 2 0)
               else if t = 0x8000 then setr K 2 0
                else if t = 0xC000 then exec_tail a1c True 0 else setr K 2 0)
           })
        }
         else anim_vm_76d68_l141b K tag1 freeze cur s0 exec_tail opu)
      })
   }"

definition animation_step_framed :: "'c core_ops \<Rightarrow> u32 \<Rightarrow> ('c, unit) state"
    where
  "animation_step_framed K node = do {
     save16 \<leftarrow> reg K 16;
     save17 \<leftarrow> reg K 17;
     save18 \<leftarrow> reg K 18;
     save19 \<leftarrow> reg K 19;
     saveRa \<leftarrow> reg K 31;
     r29_6 \<leftarrow> reg K 29;
     setr K 29 (r29_6 - 40);
     r29_7 \<leftarrow> reg K 29;
     w32 K (r29_7 + 16) save16;
     setr K 16 node;
     w32 K (r29_7 + 32) saveRa;
     w32 K (r29_7 + 28) save19;
     w32 K (r29_7 + 24) save18;
     w32 K (r29_7 + 20) save17;
     setr K 4 node;
     anim_vm_76d68 K;
     r29_8 \<leftarrow> reg K 29;
     v9 \<leftarrow> r32 K (r29_8 + 32);
     setr K 31 v9;
     v10 \<leftarrow> r32 K (r29_8 + 28);
     setr K 19 v10;
     v11 \<leftarrow> r32 K (r29_8 + 24);
     setr K 18 v11;
     v12 \<leftarrow> r32 K (r29_8 + 20);
     setr K 17 v12;
     v13 \<leftarrow> r32 K (r29_8 + 16);
     setr K 16 v13;
     setr K 29 (r29_8 + 40)
   }"

definition animation_step :: "'c core_ops \<Rightarrow> u32 \<Rightarrow> ('c, unit) state" where
  "animation_step K node = do {
     setr K 4 node;
     anim_vm_76d68 K
   }"

definition animation_advance_link_chain :: "'c core_ops \<Rightarrow> u32 \<Rightarrow> ('c, u32)
    state" where
  "animation_advance_link_chain K node = do {
     v1 \<leftarrow> r16 K (node + 0xE);
     let v = as_u16 (v1 - 1);
     w16 K (node + 0xE) v;
     (if v \<noteq> 0 then State_Monad.return 0
      else do {
        cur \<leftarrow> r32 K (node + 0x38);
        v3 \<leftarrow> r16 K (cur + 2);
        let tag1 = v3 AND 0xC000;
        (if tag1 = 0x4000 then do {
          newcur \<leftarrow> r32 K (cur + 4);
          let ret = (0 :: u32);
          w32 K (node + 0x38) newcur;
          v5 \<leftarrow> r16 K (newcur + 2);
          w16 K (node + 0xE) (v5 AND 0x3FFF);
          State_Monad.return ret
        }
         else if tag1 = 0 then do {
           let newcur = cur + 4;
           let ret = (0 :: u32);
           w32 K (node + 0x38) newcur;
           v6 \<leftarrow> r16 K (newcur + 2);
           w16 K (node + 0xE) (v6 AND 0x3FFF);
           State_Monad.return ret
         }
          else if tag1 = 0x8000 then do {
            v7 \<leftarrow> r16 K (cur + 2);
            w16 K (node + 0xE) (v7 AND 0x3FFF);
            State_Monad.return 1
          }
           else do {
             newcur \<leftarrow> r32 K (cur + 4);
             let ret = (1 :: u32);
             w32 K (node + 0x38) newcur;
             v9 \<leftarrow> r16 K (newcur + 2);
             w16 K (node + 0xE) (v9 AND 0x3FFF);
             State_Monad.return ret
           })
      })
   }"

definition animation_attach :: "'c core_ops \<Rightarrow> u32 \<Rightarrow> u32 \<Rightarrow> u32
    \<Rightarrow> ('c, unit) state" where
  "animation_attach K node table id1 = attach_frame K (do {
     entryPtr \<leftarrow> rd_u32 K (table + id1 * 4);
     w32 K (node + 0x38) entryPtr;
     desc \<leftarrow> r16 K (entryPtr + 6);
     w16 K (node + 0xE) (desc AND 0xFFF);
     animation_load_frame K node;
     desc \<leftarrow> r16 K (entryPtr + 6);
     let tag1 = desc AND 0xC000;
     (if (desc AND 0x2000) = 0 then do { setr K 2 0; setr K 3 tag1 }
      else if tag1 = 0x8000 then do { setr K 2 0xC000; setr K 3 tag1 }
       else do {
         a1 \<leftarrow> (if tag1 = 0x4000 \<or> tag1 = 0xC000 then rd_u32 K (entryPtr + 8)
          else State_Monad.return (entryPtr + 8));
         setr K 4 node;
         setr K 5 a1;
         v5 \<leftarrow> r16s K (node + 0xE);
         setr K 6 v5;
         call_guest K 0x80075FF8
       })
   })"

definition eov_anim_load_frame :: "'c core_ops \<Rightarrow> ('c, unit) state" where
  "eov_anim_load_frame K = do {
     r4_1 \<leftarrow> reg K 4;
     animation_load_frame K r4_1;
     setr K 2 0
   }"

definition eov_anim_advance_link :: "'c core_ops \<Rightarrow> ('c, unit) state" where
  "eov_anim_advance_link K = do {
     r4_1 \<leftarrow> reg K 4;
     v2 \<leftarrow> animation_advance_link_chain K r4_1;
     setr K 2 v2
   }"

definition eov_anim_attach :: "'c core_ops \<Rightarrow> ('c, unit) state" where
  "eov_anim_attach K = do {
     r4_1 \<leftarrow> reg K 4;
     r5_2 \<leftarrow> reg K 5;
     r6_3 \<leftarrow> reg K 6;
     animation_attach K r4_1 r5_2 r6_3
   }"

definition eov_anim_apply_frame :: "'c core_ops \<Rightarrow> ('c, unit) state" where
  "eov_anim_apply_frame K = do {
     r4_1 \<leftarrow> reg K 4;
     r5_2 \<leftarrow> reg K 5;
     animation_apply_frame K r4_1 r5_2
   }"

section \<open>\<open>game/world/graphics_bind.cpp\<close>\<close>

definition graphics_bind_install_scene_record :: "'c core_ops \<Rightarrow> u32 \<Rightarrow> u32
    \<Rightarrow> u32 \<Rightarrow> ('c, unit) state" where
  "graphics_bind_install_scene_record K rec classArg itemArg = do {
     base1 \<leftarrow> r32 K (0x800ECF58 + classArg * 4);
     off \<leftarrow> r32 K (base1 + itemArg * 4 + 4);
     w32 K (rec + 0x40) (base1 + off)
   }"

definition graphics_bind_record_init_body :: "'c core_ops \<Rightarrow> ('c, u32) state" where
  "graphics_bind_record_init_body K = do {
     obj \<leftarrow> reg K 4;
     a1 \<leftarrow> reg K 5;
     a2 \<leftarrow> reg K 6;
     v4 \<leftarrow> r16s K 0x800ED098;
     (if v4 \<le>s 0 then do { w8 K (obj + 4) 3; State_Monad.return 1 }
      else do {
        w8 K (obj + 8) 1;
        w8 K (obj + 9) 1;
        w8 K (obj + 0xD) 0;
        w16 K (obj + 0xBC) 0x1000;
        w16 K (obj + 0xBA) 0x1000;
        w16 K (obj + 0xB8) 0x1000;
        rec \<leftarrow> render_record_pool_allocate K;
        w32 K (obj + 0xC0) rec;
        w16 K (rec + 6) 0xFFFF;
        w16 K (rec + 0) 0;
        w16 K (rec + 2) 0;
        w16 K (rec + 4) 0;
        w16 K (rec + 8) 0;
        w16 K (rec + 0xA) 0;
        w16 K (rec + 0xC) 0;
        w16 K (rec + 0x38) 0x1000;
        w16 K (rec + 0x3A) 0x1000;
        w16 K (rec + 0x3C) 0x1000;
        graphics_bind_install_scene_record K rec a1 a2;
        State_Monad.return 0
      })
   }"

definition graphics_bind_record_alloc :: "'c core_ops \<Rightarrow> ('c, unit) state" where
  "graphics_bind_record_alloc K = do {
     v1 \<leftarrow> render_record_pool_allocate K;
     setr K 2 v1
   }"

definition graphics_bind_record_init :: "'c core_ops \<Rightarrow> ('c, unit) state" where
  "graphics_bind_record_init K = do {
     v1 \<leftarrow> graphics_bind_record_init_body K;
     setr K 2 v1
   }"

definition graphics_bind_render_update_body :: "'c core_ops \<Rightarrow> ('c, u32) state" where
  "graphics_bind_render_update_body K = do {
     obj \<leftarrow> reg K 4;
     s16 \<leftarrow> reg K 16;
     sra \<leftarrow> reg K 31;
     r29_4 \<leftarrow> reg K 29;
     setr K 29 (r29_4 - 24);
     r29_5 \<leftarrow> reg K 29;
     w32 K (r29_5 + 16) s16;
     setr K 16 obj;
     w32 K (r29_5 + 20) sra;
     setr K 31 0x80051814;
     _ \<leftarrow> rotmat K (obj + 0x54) (obj + 0x98);
     v6 \<leftarrow> r16s K (obj + 0x2E);
     w32 K (obj + 0xAC) v6;
     v7 \<leftarrow> r16s K (obj + 0x32);
     w32 K (obj + 0xB0) v7;
     v8 \<leftarrow> r16s K (obj + 0x36);
     w32 K (obj + 0xB4) v8;
     setr K 4 obj;
     setr K 31 0x80051834;
     call_guest K 0x80051300;
     ret \<leftarrow> reg K 2;
     r29_10 \<leftarrow> reg K 29;
     v11 \<leftarrow> r32 K (r29_10 + 20);
     setr K 31 v11;
     v12 \<leftarrow> r32 K (r29_10 + 16);
     setr K 16 v12;
     setr K 29 (r29_10 + 24);
     State_Monad.return ret
   }"

definition graphics_bind_render_update :: "'c core_ops \<Rightarrow> ('c, unit) state" where
  "graphics_bind_render_update K = do {
     v1 \<leftarrow> graphics_bind_render_update_body K;
     setr K 2 v1
   }"

definition graphics_bind_set_geom_body :: "'c core_ops \<Rightarrow> ('c, u32) state" where
  "graphics_bind_set_geom_body K = do {
     obj \<leftarrow> reg K 4;
     tbl \<leftarrow> reg K 5;
     idx \<leftarrow> reg K 6;
     ent \<leftarrow> r32 K (tbl + idx * 4);
     v5 \<leftarrow> r16 K (ent + 2);
     let cnt = v5 AND 0x3FFF;
     w32 K (obj + 0x38) ent;
     w16 K (obj + 0x0E) cnt;
     State_Monad.return cnt
   }"

definition graphics_bind_set_geom :: "'c core_ops \<Rightarrow> ('c, unit) state" where
  "graphics_bind_set_geom K = do {
     v1 \<leftarrow> graphics_bind_set_geom_body K;
     setr K 2 v1
   }"

definition graphics_bind_set_xform_blk_body :: "'c core_ops \<Rightarrow> ('c, u32) state" where
  "graphics_bind_set_xform_blk_body K = do {
     obj \<leftarrow> reg K 4;
     src \<leftarrow> reg K 5;
     v3 \<leftarrow> r16 K (src + 0);
     w16 K 0x1F8000D2 v3;
     v4 \<leftarrow> r16 K (src + 2);
     w16 K 0x1F8000D6 v4;
     v5 \<leftarrow> r16 K (src + 4);
     w16 K 0x1F8000DA v5;
     v6 \<leftarrow> r16 K (src + 6);
     w16 K (obj + 0x3A) v6;
     v7 \<leftarrow> r16 K (src + 8);
     w16 K (obj + 0x3E) v7;
     last1 \<leftarrow> r16 K (src + 0xA);
     w16 K (obj + 0x42) last1;
     State_Monad.return last1
   }"

definition graphics_bind_set_xform_blk :: "'c core_ops \<Rightarrow> ('c, unit) state" where
  "graphics_bind_set_xform_blk K = do {
     v1 \<leftarrow> graphics_bind_set_xform_blk_body K;
     setr K 2 v1
   }"

definition graphics_bind_pos_compose_body :: "'c core_ops \<Rightarrow> ('c, u32) state" where
  "graphics_bind_pos_compose_body K = do {
     obj \<leftarrow> reg K 4;
     r5_2 \<leftarrow> reg K 5;
     let mode = r5_2 AND 0xFF;
     srcA \<leftarrow> reg K 6;
     srcB \<leftarrow> reg K 7;
     r29_5 \<leftarrow> reg K 29;
     t0 \<leftarrow> r32 K (r29_5 + 0x10);
     last1 \<leftarrow> reg K 2;
     last1 \<leftarrow> (if mode = 0 then fold_each (upto_u32 3) last1 (\<lambda>i last1. do {
       let so = 0x2C + i * 4;
       let oo = 0x2E + i * 4;
       v8 \<leftarrow> r32 K (srcA + so);
       v9 \<leftarrow> r32 K (srcB + so);
       let s = v8 + v9;
       let s = sar 1 (s + shr s 31);
       w16 K (obj + oo) s;
       State_Monad.return s
     })
      else if mode = 1 \<or> mode = 2 then do {
        let src = (if mode = 1 then srcA else srcB);
        fold_each (upto_u32 3) last1 (\<lambda>i last1. do {
          let so = 0x2C + i * 4;
          let oo = 0x2E + i * 4;
          v10 \<leftarrow> r16 K (src + so);
          v11 \<leftarrow> r16 K (t0 + i * 2);
          let sum1 = v10 + v11;
          w16 K (obj + oo) sum1;
          State_Monad.return sum1
        })
      }
       else State_Monad.return last1);
     v12 \<leftarrow> r8 K (obj + 0x28);
     (if (v12 AND 0x7F) \<noteq> 0 then do {
       setr K 4 obj;
       graphics_bind_render_update K;
       reg K 2
     }
      else State_Monad.return last1)
   }"

definition graphics_bind_pos_compose :: "'c core_ops \<Rightarrow> ('c, unit) state" where
  "graphics_bind_pos_compose K = do {
     v1 \<leftarrow> graphics_bind_pos_compose_body K;
     setr K 2 v1
   }"

definition graphics_bind_record_array_init :: "'c core_ops \<Rightarrow> u32 \<Rightarrow> u32
    \<Rightarrow> u32 \<Rightarrow> u32 \<Rightarrow> ('c, u32) state" where
  "graphics_bind_record_array_init K obj count1 sceneBase tmpl = record_array_init_frame K (do {
     v1 \<leftarrow> r16s K 0x800ED098;
     (if v1 <s count1 then do { w8 K (obj + 9) 0; w8 K (obj + 4) 3; State_Monad.return 1 }
      else do {
        w8 K (obj + 9) count1;
        w16 K (obj + 0xBC) 0x1000;
        w16 K (obj + 0xBA) 0x1000;
        w16 K (obj + 0xB8) 0x1000;
        w8 K (obj + 8) count1;
        w8 K (obj + 0xD) 0;
        let sceneCursor = sceneBase + 4;
        sceneCursor \<leftarrow> fold_each (upto_u32 (unat (count1 AND 0xFF))) sceneCursor
            (\<lambda>i sceneCursor. do {
          rec \<leftarrow> render_record_pool_allocate K;
          w32 K (obj + 0xC0 + i * 4) rec;
          v3 \<leftarrow> r16 K (tmpl + i * 8 + 0);
          w16 K (rec + 6) v3;
          v4 \<leftarrow> r16 K (tmpl + i * 8 + 2);
          w16 K (rec + 0) v4;
          v5 \<leftarrow> r16 K (tmpl + i * 8 + 4);
          w16 K (rec + 2) v5;
          v6 \<leftarrow> r16 K (tmpl + i * 8 + 6);
          w16 K (rec + 4) v6;
          w16 K (rec + 0x38) 0x1000;
          w16 K (rec + 0x3A) 0x1000;
          w16 K (rec + 0x3C) 0x1000;
          v7 \<leftarrow> r32 K sceneCursor;
          w32 K (rec + 0x40) (sceneBase + v7);
          State_Monad.return (sceneCursor + 4)
        });
        State_Monad.return 0
      })
   })"

definition eov_record_array_init :: "'c core_ops \<Rightarrow> ('c, unit) state" where
  "eov_record_array_init K = do {
     r4_1 \<leftarrow> reg K 4;
     r5_2 \<leftarrow> reg K 5;
     r6_3 \<leftarrow> reg K 6;
     r7_4 \<leftarrow> reg K 7;
     v5 \<leftarrow> graphics_bind_record_array_init K r4_1 r5_2 r6_3 r7_4;
     setr K 2 v5
   }"

definition eov_record_allocate :: "'c core_ops \<Rightarrow> ('c, unit) state" where
  "eov_record_allocate K = render_record_pool_allocate_for_guest K"

end
