(* ===== verification/PlayerCollision.thy ===== *)
theory PlayerCollision
  imports ObjectViews
begin

text \<open>
  The collision grid of \<open>game/player/collision.cpp\<close>: the ray accessors over the
  scratchpad, the row pointers of a layer, the lookups along a row and through linked cells, and
  the step of an object along its path sector. The verification channels of the source are off.
\<close>

section \<open>Layout\<close>

definition GR :: u32 where "GR = 0x1F800000"
definition GR_NORMAL_ANGLE :: u32 where "GR_NORMAL_ANGLE = 416"
definition GR_NORMAL_HI :: u32 where "GR_NORMAL_HI = 418"
definition GR_CROSS :: u32 where "GR_CROSS = 420"
definition GR_CROSS_Z :: u32 where "GR_CROSS_Z = 422"
definition GR_CELL_ORG_X :: u32 where "GR_CELL_ORG_X = 426"
definition GR_CELL_ORG_Z :: u32 where "GR_CELL_ORG_Z = 428"
definition GR_SEG_X0 :: u32 where "GR_SEG_X0 = 434"
definition GR_SEG_Z0 :: u32 where "GR_SEG_Z0 = 436"
definition GR_SEG_X1 :: u32 where "GR_SEG_X1 = 438"
definition GR_SEG_Z1 :: u32 where "GR_SEG_Z1 = 440"
definition GR_PROBE_X :: u32 where "GR_PROBE_X = 444"
definition GR_PROBE_Y :: u32 where "GR_PROBE_Y = 446"
definition GR_PROBE_Z :: u32 where "GR_PROBE_Z = 448"
definition GR_LOCAL_X :: u32 where "GR_LOCAL_X = 450"
definition GR_SPAN :: u32 where "GR_SPAN = 452"
definition GR_LOCAL_Z :: u32 where "GR_LOCAL_Z = 454"
definition GR_LINE_TABLE :: u32 where "GR_LINE_TABLE = 472"
definition GR_LINE_ARRAY :: u32 where "GR_LINE_ARRAY = 476"
definition GR_CELL_REC :: u32 where "GR_CELL_REC = 480"
definition GR_BEST_LINE :: u32 where "GR_BEST_LINE = 488"
definition GR_LINE_CUR :: u32 where "GR_LINE_CUR = 492"
definition CELL_TAG :: u32 where "CELL_TAG = 0"
definition CELL_SECTOR_LINK :: u32 where "CELL_SECTOR_LINK = 0x4000"
definition ACT_SECTOR_ID :: u32 where "ACT_SECTOR_ID = 42"
definition ACT_WORLD_X :: u32 where "ACT_WORLD_X = 46"
definition ACT_WORLD_Y :: u32 where "ACT_WORLD_Y = 50"
definition ACT_WORLD_Z :: u32 where "ACT_WORLD_Z = 54"
definition FR_S0 :: u32 where "FR_S0 = 16"
definition FR_S1 :: u32 where "FR_S1 = 20"
definition FR_S2 :: u32 where "FR_S2 = 24"
definition FR_RA :: u32 where "FR_RA = 28"

section \<open>\<open>game/player/collision.cpp\<close>\<close>

definition grid_ray_normal_angle :: "'c core_ops \<Rightarrow> ('c, u32) state" where
  "grid_ray_normal_angle K = do {
     v1 \<leftarrow> r16 K (GR + GR_NORMAL_ANGLE);
     State_Monad.return (as_s16 v1)
   }"

definition grid_ray_set_normal_angle :: "'c core_ops \<Rightarrow> u32 \<Rightarrow> ('c, unit)
    state" where
  "grid_ray_set_normal_angle K v = w16 K (GR + GR_NORMAL_ANGLE) v"

definition grid_ray_set_normal_hi :: "'c core_ops \<Rightarrow> u32 \<Rightarrow> ('c, unit)
    state" where
  "grid_ray_set_normal_hi K v = w16 K (GR + GR_NORMAL_HI) v"

definition grid_ray_cross :: "'c core_ops \<Rightarrow> ('c, u32) state" where
  "grid_ray_cross K = do {
     v1 \<leftarrow> r16 K (GR + GR_CROSS);
     State_Monad.return (as_s16 v1)
   }"

definition grid_ray_set_cross :: "'c core_ops \<Rightarrow> u32 \<Rightarrow> ('c, unit) state"
    where
  "grid_ray_set_cross K v = w16 K (GR + GR_CROSS) v"

definition grid_ray_cross_z :: "'c core_ops \<Rightarrow> ('c, u32) state" where
  "grid_ray_cross_z K = do {
     v1 \<leftarrow> r16 K (GR + GR_CROSS_Z);
     State_Monad.return (as_s16 v1)
   }"

definition grid_ray_set_cross_z :: "'c core_ops \<Rightarrow> u32 \<Rightarrow> ('c, unit) state"
    where
  "grid_ray_set_cross_z K v = w16 K (GR + GR_CROSS_Z) v"

definition grid_ray_cell_org_x_u :: "'c core_ops \<Rightarrow> ('c, u32) state" where
  "grid_ray_cell_org_x_u K = r16 K (GR + GR_CELL_ORG_X)"

definition grid_ray_cell_org_x :: "'c core_ops \<Rightarrow> ('c, u32) state" where
  "grid_ray_cell_org_x K = do {
     v1 \<leftarrow> r16 K (GR + GR_CELL_ORG_X);
     State_Monad.return (as_s16 v1)
   }"

definition grid_ray_cell_org_z_u :: "'c core_ops \<Rightarrow> ('c, u32) state" where
  "grid_ray_cell_org_z_u K = r16 K (GR + GR_CELL_ORG_Z)"

definition grid_ray_cell_org_z :: "'c core_ops \<Rightarrow> ('c, u32) state" where
  "grid_ray_cell_org_z K = do {
     v1 \<leftarrow> r16 K (GR + GR_CELL_ORG_Z);
     State_Monad.return (as_s16 v1)
   }"

definition grid_ray_seg_x0_u :: "'c core_ops \<Rightarrow> ('c, u32) state" where
  "grid_ray_seg_x0_u K = r16 K (GR + GR_SEG_X0)"

definition grid_ray_seg_x0 :: "'c core_ops \<Rightarrow> ('c, u32) state" where
  "grid_ray_seg_x0 K = do {
     v1 \<leftarrow> r16 K (GR + GR_SEG_X0);
     State_Monad.return (as_s16 v1)
   }"

definition grid_ray_seg_z0 :: "'c core_ops \<Rightarrow> ('c, u32) state" where
  "grid_ray_seg_z0 K = do {
     v1 \<leftarrow> r16 K (GR + GR_SEG_Z0);
     State_Monad.return (as_s16 v1)
   }"

definition grid_ray_seg_x1 :: "'c core_ops \<Rightarrow> ('c, u32) state" where
  "grid_ray_seg_x1 K = do {
     v1 \<leftarrow> r16 K (GR + GR_SEG_X1);
     State_Monad.return (as_s16 v1)
   }"

definition grid_ray_seg_z1 :: "'c core_ops \<Rightarrow> ('c, u32) state" where
  "grid_ray_seg_z1 K = do {
     v1 \<leftarrow> r16 K (GR + GR_SEG_Z1);
     State_Monad.return (as_s16 v1)
   }"

definition grid_ray_probe_x_u :: "'c core_ops \<Rightarrow> ('c, u32) state" where
  "grid_ray_probe_x_u K = r16 K (GR + GR_PROBE_X)"

definition grid_ray_probe_x :: "'c core_ops \<Rightarrow> ('c, u32) state" where
  "grid_ray_probe_x K = do {
     v1 \<leftarrow> r16 K (GR + GR_PROBE_X);
     State_Monad.return (as_s16 v1)
   }"

definition grid_ray_set_probe_x :: "'c core_ops \<Rightarrow> u32 \<Rightarrow> ('c, unit) state"
    where
  "grid_ray_set_probe_x K v = w16 K (GR + GR_PROBE_X) v"

definition grid_ray_probe_z_u :: "'c core_ops \<Rightarrow> ('c, u32) state" where
  "grid_ray_probe_z_u K = r16 K (GR + GR_PROBE_Z)"

definition grid_ray_probe_z :: "'c core_ops \<Rightarrow> ('c, u32) state" where
  "grid_ray_probe_z K = do {
     v1 \<leftarrow> r16 K (GR + GR_PROBE_Z);
     State_Monad.return (as_s16 v1)
   }"

definition grid_ray_set_probe_z :: "'c core_ops \<Rightarrow> u32 \<Rightarrow> ('c, unit) state"
    where
  "grid_ray_set_probe_z K v = w16 K (GR + GR_PROBE_Z) v"

definition grid_ray_probe_y :: "'c core_ops \<Rightarrow> ('c, u32) state" where
  "grid_ray_probe_y K = do {
     v1 \<leftarrow> r16 K (GR + GR_PROBE_Y);
     State_Monad.return (as_s16 v1)
   }"

definition grid_ray_set_probe_y :: "'c core_ops \<Rightarrow> u32 \<Rightarrow> ('c, unit) state"
    where
  "grid_ray_set_probe_y K v = w16 K (GR + GR_PROBE_Y) v"

definition grid_ray_local_x :: "'c core_ops \<Rightarrow> ('c, u32) state" where
  "grid_ray_local_x K = do {
     v1 \<leftarrow> r16 K (GR + GR_LOCAL_X);
     State_Monad.return (as_s16 v1)
   }"

definition grid_ray_local_x_u :: "'c core_ops \<Rightarrow> ('c, u32) state" where
  "grid_ray_local_x_u K = r16 K (GR + GR_LOCAL_X)"

definition grid_ray_local_z :: "'c core_ops \<Rightarrow> ('c, u32) state" where
  "grid_ray_local_z K = do {
     v1 \<leftarrow> r16 K (GR + GR_LOCAL_Z);
     State_Monad.return (as_s16 v1)
   }"

definition grid_ray_local_z_u :: "'c core_ops \<Rightarrow> ('c, u32) state" where
  "grid_ray_local_z_u K = r16 K (GR + GR_LOCAL_Z)"

definition grid_ray_set_span :: "'c core_ops \<Rightarrow> u32 \<Rightarrow> ('c, unit) state"
    where
  "grid_ray_set_span K v = w16 K (GR + GR_SPAN) v"

definition grid_ray_cell_tag :: "'c core_ops \<Rightarrow> u32 \<Rightarrow> ('c, u32) state"
    where
  "grid_ray_cell_tag K rec = r16 K (rec + CELL_TAG)"

definition grid_ray_cell_link_sector :: "'c core_ops \<Rightarrow> u32 \<Rightarrow> ('c, u32)
    state" where
  "grid_ray_cell_link_sector K rec = r8 K (rec + CELL_TAG)"

definition grid_ray_line_table :: "'c core_ops \<Rightarrow> ('c, u32) state" where
  "grid_ray_line_table K = r32 K (GR + GR_LINE_TABLE)"

definition grid_ray_line_array :: "'c core_ops \<Rightarrow> ('c, u32) state" where
  "grid_ray_line_array K = r32 K (GR + GR_LINE_ARRAY)"

definition grid_ray_cell_rec :: "'c core_ops \<Rightarrow> ('c, u32) state" where
  "grid_ray_cell_rec K = r32 K (GR + GR_CELL_REC)"

definition grid_ray_set_cell_rec :: "'c core_ops \<Rightarrow> u32 \<Rightarrow> ('c, unit) state"
    where
  "grid_ray_set_cell_rec K v = w32 K (GR + GR_CELL_REC) v"

definition grid_ray_best_line :: "'c core_ops \<Rightarrow> ('c, u32) state" where
  "grid_ray_best_line K = r32 K (GR + GR_BEST_LINE)"

definition grid_ray_set_best_line :: "'c core_ops \<Rightarrow> u32 \<Rightarrow> ('c, unit)
    state" where
  "grid_ray_set_best_line K v = w32 K (GR + GR_BEST_LINE) v"

definition grid_ray_line_cur :: "'c core_ops \<Rightarrow> ('c, u32) state" where
  "grid_ray_line_cur K = r32 K (GR + GR_LINE_CUR)"

definition grid_ray_set_line_cur :: "'c core_ops \<Rightarrow> u32 \<Rightarrow> ('c, unit) state"
    where
  "grid_ray_set_line_cur K v = w32 K (GR + GR_LINE_CUR) v"

definition probe_actor_sector_id :: "'c core_ops \<Rightarrow> u32 \<Rightarrow> ('c, u32) state"
    where
  "probe_actor_sector_id K obj = r8 K (obj + ACT_SECTOR_ID)"

definition probe_actor_world_x :: "'c core_ops \<Rightarrow> u32 \<Rightarrow> ('c, u32) state"
    where
  "probe_actor_world_x K obj = r16 K (obj + ACT_WORLD_X)"

definition probe_actor_world_y :: "'c core_ops \<Rightarrow> u32 \<Rightarrow> ('c, u32) state"
    where
  "probe_actor_world_y K obj = r16 K (obj + ACT_WORLD_Y)"

definition probe_actor_world_z :: "'c core_ops \<Rightarrow> u32 \<Rightarrow> ('c, u32) state"
    where
  "probe_actor_world_z K obj = r16 K (obj + ACT_WORLD_Z)"

definition collision_list_scan :: "'c core_ops \<Rightarrow> u32 \<Rightarrow> ('c, unit) state"
    where
  "collision_list_scan K obj = do {
     setr K 4 obj;
     let a0 = obj;
     o52 \<leftarrow> r32 K (a0 + 52);
     o56 \<leftarrow> r32 K (a0 + 56);
     let n52 = o52;
     let n56 = o56;
     v0 \<leftarrow> reg K 2;
     (n52, n56, v0) \<leftarrow> (if o52 \<noteq> 0 then do {
       let v1 = o52;
       (v1, a1) \<leftarrow> loop (\<lambda>(v1, a1). do {
         a1 \<leftarrow> r32 K (v1 + 4);
         let brk = (a1 AND 0xC0000000) \<noteq> 0;
         let v1 = v1 + 8;
         (if brk then State_Monad.return (Inl (v1, a1))
          else State_Monad.return (Inr (v1, a1)))
       }) (v1, (0 :: u32));
       let v0 = a1 AND 0x40000000;
       let (n52, n56) = (if v0 \<noteq> 0 then (let n56 = (0 :: u32) in ((0 :: u32), n56)) else
           (n52, v1));
       State_Monad.return (n52, n56, v0)
     }
      else State_Monad.return (n52, n56, v0));
     w32 K (a0 + 52) n52;
     w32 K (a0 + 56) n56;
     setr K 2 v0
   }"

definition collision_grid_setup :: "'c core_ops \<Rightarrow> u32 \<Rightarrow> ('c, unit) state"
    where
  "collision_grid_setup K layer = do {
     setr K 4 layer;
     let a0 = layer AND 0xFF;
     base1 \<leftarrow> r32 K 0x1F8001C8;
     v2 \<leftarrow> r16 K (base1 + a0 * 2);
     let rec = base1 + v2 * 2;
     let cc = rec + 20;
     v3 \<leftarrow> r16 K (rec + 12);
     let d0 = rec + v3 * 2;
     v4 \<leftarrow> r16 K (rec + 14);
     let d4 = rec + v4 * 2;
     v5 \<leftarrow> r16 K (rec + 16);
     let d8 = rec + v5 * 2;
     v6 \<leftarrow> r16 K (rec + 18);
     let dc = rec + v6 * 2;
     w32 K 0x1F8001CC cc;
     w32 K 0x1F8001D0 d0;
     w32 K 0x1F8001D4 d4;
     w32 K 0x1F8001D8 d8;
     w32 K 0x1F8001DC dc
   }"

definition grid_query_47cbc :: "'c core_ops \<Rightarrow> ('c, u32) state" where
  "grid_query_47cbc K = do {
     let SP = (0x1F800000 :: u32);
     let MASK = (0xFFFFFFC0 :: u32);
     v1 \<leftarrow> grid_ray_probe_x K;
     v2 \<leftarrow> grid_ray_cell_org_x K;
     let t1 = sar 6 (v1 - v2);
     let a3 = t1;
     row0 \<leftarrow> r32 K (SP + 0x1CC);
     let a1 = row0 + shl t1 2;
     v4 \<leftarrow> grid_ray_probe_z K;
     v5 \<leftarrow> grid_ray_cell_org_z K;
     let t0 = sar 6 (v4 - v5);
     A1_0 \<leftarrow> r16 K (a1 + 0);
     (if t0 <s A1_0 then State_Monad.return 0
      else do {
        v7 \<leftarrow> r16 K (a1 + 2);
        let a2 = v7 + t0 - A1_0;
        v8 \<leftarrow> r16 K (SP + 0x1AE);
        let limit = shr v8 6 - 2;
        let rest1 = (do {
          let idx = a2 AND 0xFFFF;
          w32 K (SP + 0x08C) idx;
          v9 \<leftarrow> r32 K (SP + 0x1D0);
          let ptr = v9 + shl idx 3;
          a2 \<leftarrow> r16 K (ptr + 0);
          w32 K (SP + 0x1E4) ptr;
          grid_ray_set_cell_rec K ptr;
          w16 K (SP + 0x1A8) a2;
          only_if ((a2 AND 0xC000) \<noteq> 0xC000) (w16 K (SP + 0x1A8) 0);
          (if (a2 AND 0x8000) = 0 then State_Monad.return 1
           else do {
             t6 \<leftarrow> r32 K (SP + 0x1D4);
             t7 \<leftarrow> r16 K (SP + 0x1BE);
             loop (\<lambda>(t1, t0, a2). (if (a2 AND 0x4000) \<noteq> 0 then do {
               rec \<leftarrow> grid_ray_cell_rec K;
               v42 \<leftarrow> r16 K (rec + 2);
               grid_ray_set_cell_rec K (t6 + shl v42 3);
               only_if ((a2 AND 0x0001) \<noteq> 0) (do {
                 let a0 = (1 :: u32);
                 cnt \<leftarrow> r16 K (rec + 4);
                 a0 \<leftarrow> (if 1 <s cnt then do {
                   let a3p = t7 - 32;
                   loop (\<lambda>a0. do {
                     v44 \<leftarrow> grid_ray_cell_rec K;
                     let cur = v44 + 8;
                     iv \<leftarrow> r16 K (cur + 4);
                     grid_ray_set_cell_rec K cur;
                     iw \<leftarrow> r16 K (cur + 6);
                     (if ((iv - a3p) AND 0xFFFF) < iw then State_Monad.return (Inl a0)
                      else do {
                        let a0 = a0 + 1;
                        (if \<not> (a0 <s cnt) then State_Monad.return (Inl a0)
                         else State_Monad.return (Inr a0))
                      })
                   }) a0
                 }
                  else State_Monad.return a0);
                 t \<leftarrow> r16 K (rec + 6);
                 let hit = a0 = (t AND 0xFF) \<or> a0 = shr t 8;
                 v48 \<leftarrow> r16 K (rec + 4);
                 let hit = (if \<not> hit \<and> a0 = v48 then True else hit);
                 only_if hit (do {
                   v49 \<leftarrow> r16 K (rec + 2);
                   grid_ray_set_cell_rec K (t6 + shl v49 3)
                 })
               });
               v50 \<leftarrow> grid_ray_cell_rec K;
               a2 \<leftarrow> r16 K (v50 + 0);
               (if (a2 AND 0x8000) = 0 then State_Monad.return (Inl 1)
                else State_Monad.return (Inr (t1, t0, a2)))
             }
              else do {
                (t1, t0) \<leftarrow> (if (a2 AND 0x0004) \<noteq> 0 then do {
                  let sw52 = a2 AND 3;
                  (if sw52 = 1 then do {
                    v53 \<leftarrow> grid_ray_probe_x_u K;
                    grid_ray_set_probe_x K (as_u16 ((v53 + 64) AND MASK));
                    State_Monad.return (t1 + 1, t0)
                  }
                   else if sw52 = 0 then do {
                     v54 \<leftarrow> grid_ray_probe_x_u K;
                     grid_ray_set_probe_x K (as_u16 ((v54 AND MASK) - 1));
                     State_Monad.return (t1 - 1, t0)
                   }
                    else do {
                      t0 \<leftarrow> (if sw52 = 2 then do {
                        v55 \<leftarrow> grid_ray_probe_z_u K;
                        grid_ray_set_probe_z K (as_u16 ((v55 AND MASK) - 1));
                        State_Monad.return (t0 - 1)
                      }
                       else if sw52 = 3 then do {
                         v56 \<leftarrow> grid_ray_probe_z_u K;
                         grid_ray_set_probe_z K (as_u16 ((v56 + 64) AND MASK));
                         State_Monad.return (t0 + 1)
                       }
                        else State_Monad.return t0);
                      State_Monad.return (t1, t0)
                    })
                }
                 else do {
                   v57 \<leftarrow> r16 K (SP + 0x1AE);
                   v58 \<leftarrow> r16 K (SP + 0x1B0);
                   (if v57 < v58 then do {
                     t1 \<leftarrow> (if (a2 AND 0x0002) \<noteq> 0 then do {
                       v59 \<leftarrow> grid_ray_probe_x_u K;
                       grid_ray_set_probe_x K (as_u16 ((v59 + 64) AND MASK));
                       State_Monad.return (t1 + 1)
                     }
                      else do {
                        v60 \<leftarrow> grid_ray_probe_x_u K;
                        grid_ray_set_probe_x K (as_u16 ((v60 AND MASK) - 1));
                        State_Monad.return (t1 - 1)
                      });
                     State_Monad.return (t1, t0)
                   }
                    else do {
                      t0 \<leftarrow> (if (a2 AND 0x0001) \<noteq> 0 then do {
                        v61 \<leftarrow> grid_ray_probe_z_u K;
                        grid_ray_set_probe_z K (as_u16 ((v61 + 64) AND MASK));
                        State_Monad.return (t0 + 1)
                      }
                       else do {
                         v62 \<leftarrow> grid_ray_probe_z_u K;
                         grid_ray_set_probe_z K (as_u16 ((v62 AND MASK) - 1));
                         State_Monad.return (t0 - 1)
                       });
                      State_Monad.return (t1, t0)
                    })
                 });
                v63 \<leftarrow> r32 K (SP + 0x1CC);
                let a1b = v63 + ((as_s16 t1) * 4);
                A1b0 \<leftarrow> r16 K (a1b + 0);
                (if A1b0 = 0xFFFF then State_Monad.return (Inl 0)
                 else if as_s16 t0 <s A1b0 then State_Monad.return (Inl 0)
                  else do {
                    v65 \<leftarrow> r16 K (a1b + 2);
                    let a2v = v65 + t0 - A1b0;
                    let a0b = a2v AND 0xFFFF;
                    v66 \<leftarrow> r16 K (a1b + 6);
                    (if \<not> (a0b < v66) then State_Monad.return (Inl 0)
                     else do {
                       v67 \<leftarrow> r32 K (SP + 0x1D0);
                       let ptrB = v67 + shl a0b 3;
                       a2 \<leftarrow> r16 K (ptrB + 0);
                       w32 K (SP + 0x08C) a0b;
                       w32 K (SP + 0x1E4) ptrB;
                       grid_ray_set_cell_rec K ptrB;
                       w16 K (SP + 0x1A8) a2;
                       (if (a2 AND 0x8000) = 0 then State_Monad.return (Inl 1)
                        else State_Monad.return (Inr (t1, t0, a2)))
                     })
                  })
              })) (t1, t0, a2)
           })
        });
        (if a3 <s limit then do {
          v69 \<leftarrow> r16 K (a1 + 6);
          (if \<not> ((a2 AND 0xFFFF) < v69) then State_Monad.return 0 else rest1)
        }
         else rest1)
      })
   }"

definition collision_grid_query :: "'c core_ops \<Rightarrow> ('c, u32) state" where
  "collision_grid_query K = do {
     r \<leftarrow> grid_query_47cbc K;
     setr K 2 r;
     State_Monad.return r
   }"

definition grid_step_4798c :: "'c core_ops \<Rightarrow> u32 \<Rightarrow> ('c, unit) state" where
  "grid_step_4798c K obj = do {
     let SP = (0x1F800000 :: u32);
     v1 \<leftarrow> r8 K (obj + 42);
     gid \<leftarrow> r8 K (SP + 0x1FE);
     only_if (v1 \<noteq> gid) (do { setr K 4 v1; call_guest K 0x80048ECC });
     aE \<leftarrow> r16 K (SP + 0x1AE);
     b0 \<leftarrow> r16 K (SP + 0x1B0);
     test \<leftarrow> (if aE < b0 then do {
       v5 \<leftarrow> grid_ray_probe_z_u K;
       v6 \<leftarrow> grid_ray_cell_org_z_u K;
       let d = (v5 - v6) AND 0xFFFF;
       State_Monad.return (if b0 < d then 1 else (0 :: u32))
     }
      else do {
        v7 \<leftarrow> grid_ray_probe_x_u K;
        v8 \<leftarrow> grid_ray_cell_org_x_u K;
        let d = (v7 - v8) AND 0xFFFF;
        State_Monad.return (if aE < d then 1 else (0 :: u32))
      });
     only_if (test \<noteq> 0) (do {
       setr K 4 obj;
       setr K 5 1;
       call_guest K 0x80048FC4
     });
     lo \<leftarrow> r16 K (SP + 0x1AE);
     hi \<leftarrow> r16 K (SP + 0x1B0);
     (if lo < hi then do {
       a2 \<leftarrow> grid_ray_probe_z K;
       a1 \<leftarrow> grid_ray_cell_org_z K;
       v1u \<leftarrow> grid_ray_cell_org_z_u K;
       (if a2 <s a1 then grid_ray_set_probe_z K (as_u16 v1u)
        else do {
          a0u \<leftarrow> r16 K (SP + 0x1B0);
          only_if (a1 + a0u <s a2) (grid_ray_set_probe_z K (as_u16 (v1u + a0u)))
        });
       cv \<leftarrow> grid_ray_probe_z K;
       cb \<leftarrow> r16 K (SP + 0x1B4);
       pit \<leftarrow> r16s K (SP + 0x1BA);
       let prod1 = (cv - cb) * pit;
       let v = sar 14 prod1;
       v18 \<leftarrow> grid_ray_seg_x0_u K;
       grid_ray_set_probe_x K (as_u16 (v18 + v))
     }
      else do {
        a2 \<leftarrow> grid_ray_probe_x K;
        a1 \<leftarrow> grid_ray_cell_org_x K;
        v1u \<leftarrow> grid_ray_cell_org_x_u K;
        (if a2 <s a1 then grid_ray_set_probe_x K (as_u16 v1u)
         else do {
           a0u \<leftarrow> r16 K (SP + 0x1AE);
           only_if (a1 + a0u <s a2) (grid_ray_set_probe_x K (as_u16 (v1u + a0u)))
         });
        cv \<leftarrow> grid_ray_probe_x K;
        cb \<leftarrow> grid_ray_seg_x0_u K;
        pit \<leftarrow> r16s K (SP + 0x1BA);
        let prod1 = (cv - cb) * pit;
        let v = sar 14 prod1;
        v26 \<leftarrow> r16 K (SP + 0x1B4);
        grid_ray_set_probe_z K (as_u16 (v26 + v))
      })
   }"

definition collision_grid_step :: "'c core_ops \<Rightarrow> u32 \<Rightarrow> ('c, unit) state"
    where
  "collision_grid_step K obj = do {
     setr K 4 obj;
     grid_step_4798c K obj
   }"

definition grid_resolve_498c8 :: "'c core_ops \<Rightarrow> u32 \<Rightarrow> ('c, u32) state"
    where
  "grid_resolve_498c8 K obj = loop (\<lambda>_. do {
     collision_grid_step K obj;
     v8 \<leftarrow> r8 K 0x1F8001FE;
     collision_grid_setup K v8;
     _ \<leftarrow> collision_grid_query K;
     r2_9 \<leftarrow> reg K 2;
     (if r2_9 = 0 then State_Monad.return (Inl 0)
      else do {
        v1 \<leftarrow> r32 K 0x1F8001E0;
        v11 \<leftarrow> r16 K v1;
        (if (v11 AND 0x4000) = 0 then State_Monad.return (Inl 1)
         else do {
           v12 \<leftarrow> r8 K v1;
           w8 K (obj + 42) v12;
           v1b \<leftarrow> r32 K 0x1F8001E0;
           v14 \<leftarrow> r16 K v1b;
           (if (v14 AND 0x4000) \<noteq> 0 then State_Monad.return (Inr ())
            else State_Monad.return (Inl 1))
         })
      })
   }) ()"

definition collision_grid_resolve :: "'c core_ops \<Rightarrow> u32 \<Rightarrow> ('c, u32) state"
    where
  "collision_grid_resolve K obj = do {
     setr K 4 obj;
     r \<leftarrow> grid_resolve_498c8 K obj;
     setr K 2 r;
     State_Monad.return r
   }"

definition collision_snap_object_to_terrain :: "'c core_ops \<Rightarrow> u32 \<Rightarrow> ('c,
    u32) state" where
  "collision_snap_object_to_terrain K obj = do {
     setr K 4 obj;
     r29_1 \<leftarrow> reg K 29;
     setr K 29 (r29_1 + (-32));
     r29_2 \<leftarrow> reg K 29;
     r16_3 \<leftarrow> reg K 16;
     w32 K (r29_2 + FR_S0) r16_3;
     setr K 16 obj;
     r17_4 \<leftarrow> reg K 17;
     w32 K (r29_2 + FR_S1) r17_4;
     setr K 17 GR;
     r31_5 \<leftarrow> reg K 31;
     w32 K (r29_2 + FR_RA) r31_5;
     r18_6 \<leftarrow> reg K 18;
     w32 K (r29_2 + FR_S2) r18_6;
     v7 \<leftarrow> probe_actor_world_x K obj;
     w16 K (GR + GR_PROBE_X) v7;
     v8 \<leftarrow> probe_actor_world_y K obj;
     w16 K (GR + GR_PROBE_Y) v8;
     v9 \<leftarrow> probe_actor_world_z K obj;
     w16 K (GR + GR_PROBE_Z) v9;
     let stepStatus = (0 :: u32);
     let onGrid = False;
     (stepStatus, onGrid) \<leftarrow> loop (\<lambda>(stepStatus, onGrid). do {
       setr K 31 0x800476B4;
       setr K 4 obj;
       call_guest K 0x80047778;
       clampStatus \<leftarrow> reg K 2;
       v11 \<leftarrow> probe_actor_sector_id K obj;
       setr K 4 v11;
       setr K 31 0x800476C0;
       setr K 18 clampStatus;
       call_guest K 0x80049968;
       let stepStatus = clampStatus;
       setr K 31 0x800476C8;
       call_guest K 0x80047CBC;
       r2_12 \<leftarrow> reg K 2;
       (if r2_12 = 0 then State_Monad.return (Inl (stepStatus, onGrid))
        else do {
          cellRec \<leftarrow> grid_ray_cell_rec K;
          v14 \<leftarrow> grid_ray_cell_tag K cellRec;
          (if (v14 AND CELL_SECTOR_LINK) = 0 then do {
            let onGrid = True;
            State_Monad.return (Inl (stepStatus, onGrid))
          }
           else do {
             v15 \<leftarrow> grid_ray_cell_link_sector K cellRec;
             w8 K (obj + ACT_SECTOR_ID) v15;
             v16 \<leftarrow> grid_ray_cell_rec K;
             v17 \<leftarrow> grid_ray_cell_tag K v16;
             (if (v17 AND CELL_SECTOR_LINK) = 0 then do {
               let onGrid = True;
               State_Monad.return (Inl (stepStatus, onGrid))
             }
              else State_Monad.return (Inr (stepStatus, onGrid)))
           })
        })
     }) (stepStatus, onGrid);
     only_if onGrid (do {
       setr K 31 0x8004771C;
       call_guest K 0x80048134;
       setr K 31 0x80047724;
       call_guest K 0x80048034;
       v18 \<leftarrow> grid_ray_probe_x_u K;
       v19 \<leftarrow> grid_ray_local_x_u K;
       let snappedX = as_u16 (v18 + v19);
       v20 \<leftarrow> grid_ray_probe_z_u K;
       v21 \<leftarrow> grid_ray_local_z_u K;
       let snappedZ = as_u16 (v20 + v21);
       w16 K (GR + GR_PROBE_X) snappedX;
       w16 K (GR + GR_PROBE_Z) snappedZ;
       w16 K (obj + ACT_WORLD_X) snappedX;
       w16 K (obj + ACT_WORLD_Z) snappedZ
     });
     r29_22 \<leftarrow> reg K 29;
     v23 \<leftarrow> r32 K (r29_22 + FR_RA);
     setr K 31 v23;
     v24 \<leftarrow> r32 K (r29_22 + FR_S2);
     setr K 18 v24;
     v25 \<leftarrow> r32 K (r29_22 + FR_S1);
     setr K 17 v25;
     v26 \<leftarrow> r32 K (r29_22 + FR_S0);
     setr K 16 v26;
     setr K 29 (r29_22 + 32);
     State_Monad.return (if onGrid then stepStatus else 0)
   }"

definition eov_collision_snap_object_to_terrain :: "'c core_ops \<Rightarrow> ('c, unit) state"
    where
  "eov_collision_snap_object_to_terrain K = do {
     r4_1 \<leftarrow> reg K 4;
     v2 \<leftarrow> collision_snap_object_to_terrain K r4_1;
     setr K 2 v2
   }"

end
