(* ===== verification/SceneControl.thy ===== *)
theory SceneControl
  imports GameAudio
begin

text \<open>
  Scenes: start-up, transition and background transition machines, events, area fades and the
  arming of a mode.
\<close>

section \<open>Layout\<close>

definition P :: u32 where "P = 0x80100400"
definition G_dir :: u32 where "G_dir = 0x800BF80F"
definition G_req :: u32 where "G_req = 0x1F800236"
definition G_flag80a :: u32 where "G_flag80a = 0x800BF80A"
definition NODE_PARAM0 :: u32 where "NODE_PARAM0 = 114"
definition NODE_PARAM1 :: u32 where "NODE_PARAM1 = 116"
definition NODE_SUBSTATE :: u32 where "NODE_SUBSTATE = 120"
definition kPageFlag137 :: u32 where "kPageFlag137 = 0x1F800137"
definition kStateIndex :: u32 where "kStateIndex = 0x1F80023B"
definition kLoadPageIndex :: u32 where "kLoadPageIndex = 0x0C"
definition EVENTS_GATE_HW :: u32 where "EVENTS_GATE_HW = 0x800E7FEE"
definition ARM_SLOT_BASE :: u32 where "ARM_SLOT_BASE = 0x800BF870"
definition ARM_COUNTER_HW :: u32 where "ARM_COUNTER_HW = 0x800BF8A8"
definition STREAM_CURSOR :: u32 where "STREAM_CURSOR = 0x800BF874"
definition scene_events_RING_BASE :: u32 where "scene_events_RING_BASE = 0x800ED058"
definition RING_HEAD_BYTE :: u32 where "RING_HEAD_BYTE = 0x800ED06D"
definition TBL_A_BASE :: u32 where "TBL_A_BASE = 0x800A33C8"
definition TBL_B_BASE :: u32 where "TBL_B_BASE = 0x800A3B38"
definition CMD_TIMER :: u32 where "CMD_TIMER = 100"
definition CMD_SELECT :: u32 where "CMD_SELECT = 114"
definition CMD_ARG_A :: u32 where "CMD_ARG_A = 116"
definition CMD_ARG_B :: u32 where "CMD_ARG_B = 118"
definition CMD_PHASE :: u32 where "CMD_PHASE = 120"
definition LATCH_HALF_A :: u32 where "LATCH_HALF_A = 0x800E7EAE"
definition LATCH_HALF_B :: u32 where "LATCH_HALF_B = 0x800E7EB6"
definition ARM_READY_BYTE :: u32 where "ARM_READY_BYTE = 0x800BF80E"
definition BF817_SWAP_KEY :: u32 where "BF817_SWAP_KEY = 0x800BF817"
definition BF818_SWAP_PHASE :: u32 where "BF818_SWAP_PHASE = 0x800BF818"
definition BF80F_SUSPEND :: u32 where "BF80F_SUSPEND = 0x800BF80F"
definition E7EA9_ARMED :: u32 where "E7EA9_ARMED = 0x800E7EA9"
definition E7FFB_INHIBIT :: u32 where "E7FFB_INHIBIT = 0x800E7FFB"
definition E7FC5_FLAG :: u32 where "E7FC5_FLAG = 0x800E7FC5"
definition SCENE_BLOCK :: u32 where "SCENE_BLOCK = 0x800E7E80"
definition IF800137_PAUSE :: u32 where "IF800137_PAUSE = 0x1F800137"

section \<open>\<open>game/scene/mode_state_arm.cpp\<close>\<close>

definition mode_state_arm_arm :: "'c core_ops \<Rightarrow> u32 \<Rightarrow> u32 \<Rightarrow>
    u32 \<Rightarrow> ('c, unit) state" where
  "mode_state_arm_arm K a b c1 = do {
     v1 \<leftarrow> r8 K 0x800EA0D7;
     w8 K 0x800BF8A6 v1;
     v2 \<leftarrow> r8 K 0x800EA0D6;
     w8 K 0x800BF8A5 v2;
     v3 \<leftarrow> r8 K 0x800EA0D5;
     w8 K 0x800BF8A4 v3;
     prev_arm \<leftarrow> r8 K 0x800EA0D4;
     w8 K 0x800EC144 1;
     w8 K 0x800EA0D4 1;
     w8 K 0x800EA0D5 a;
     w8 K 0x800EA0D6 b;
     w8 K 0x800EA0D7 c1;
     w8 K 0x800EC145 a;
     w8 K 0x800EC146 b;
     w8 K 0x800EC147 c1;
     w8 K 0x800BF8A7 ((shl prev_arm 7) OR 1)
   }"

section \<open>\<open>game/scene/area_fade_sequencer.cpp\<close>\<close>

definition area_fade_sequencer_step :: "'c core_ops \<Rightarrow> u32 \<Rightarrow> ('c, unit)
    state" where
  "area_fade_sequencer_step K node = do {
     outer \<leftarrow> r8 K (node + 2);
     (if outer = 0 then do {
       mode_state_arm_arm K 0 0 0;
       audio_dispatch_zone_transition_setup K 11;
       w8 K 0x800BFA55 0;
       w8 K (node + 3) 0;
       w8 K (node + 2) (outer + 1);
       setr K 4 node;
       call_guest K 0x8010D030;
       w16 K (node + 106) 31;
       screen_fade_apply_leaf_call K 0x00FFFFFF kSubtractive 0
     }
      else if outer \<noteq> 1 then State_Monad.return ()
       else do {
         substep \<leftarrow> r8 K (node + 3);
         (if 6 \<le> substep then State_Monad.return ()
          else do {
            let rampLevel = (\<lambda>(sign :: u32). do {
              v3 \<leftarrow> r16 K (node + 106);
              let level = as_s16 v3;
              let v = (if sign <s 0 then - (shl level 3) else shl level 3) AND 0xFF;
              State_Monad.return (((shl v 16) OR (shl v 8)) OR v)
            });
            let decrementLevelClamped = (\<lambda>_. do {
              v4 \<leftarrow> r16 K (node + 106);
              let level = as_s16 v4;
              only_if (level \<noteq> 0) (w16 K (node + 106) (level - 1))
            });
            let advanceStep = (\<lambda>_. do {
              v5 \<leftarrow> r8 K (node + 3);
              w8 K (node + 3) (v5 + 1)
            });
            let helperCC68 = (\<lambda>arg. do { setr K 4 arg; call_guest K 0x8010CC68 });
            (if substep = 0 then do {
              v6 \<leftarrow> rampLevel 1;
              screen_fade_apply_leaf_call K v6 kSubtractive 1;
              decrementLevelClamped () ;
              helperCC68 0;
              r2_7 \<leftarrow> reg K 2;
              (if r2_7 = 0 then State_Monad.return ()
               else do { w16 K (node + 106) 31; advanceStep () })
            }
             else if substep = 1 then do {
               v8 \<leftarrow> rampLevel (-1);
               screen_fade_apply_leaf_call K v8 kSubtractive 1;
               decrementLevelClamped () ;
               helperCC68 0;
               v9 \<leftarrow> r16s K (node + 106);
               (if v9 \<noteq> 0 then State_Monad.return ()
                else do { advanceStep () ; w16 K (node + 104) 20 })
             }
              else if substep = 2 then do {
                v10 \<leftarrow> r16 K (node + 104);
                let d = as_u16 (v10 - 1);
                w16 K (node + 104) d;
                (if d \<noteq> 0 then State_Monad.return ()
                 else do { w16 K (node + 106) 31; advanceStep () })
              }
               else if substep = 3 then do {
                 v11 \<leftarrow> rampLevel 1;
                 screen_fade_apply_leaf_call K v11 kSubtractive 1;
                 decrementLevelClamped () ;
                 helperCC68 1;
                 r2_12 \<leftarrow> reg K 2;
                 (if r2_12 = 0 then State_Monad.return ()
                  else do { w16 K (node + 106) 31; advanceStep () })
               }
                else if substep = 4 then do {
                  v13 \<leftarrow> rampLevel (-1);
                  screen_fade_apply_leaf_call K v13 kSubtractive 1;
                  decrementLevelClamped () ;
                  helperCC68 1;
                  v14 \<leftarrow> r16s K (node + 106);
                  (if v14 \<noteq> 0 then State_Monad.return () else advanceStep () )
                }
                 else if substep = 5 then do {
                   sm \<leftarrow> r32 K 0x1F800138;
                   w16 K (sm + 74) 1;
                   w16 K (sm + 76) 2;
                   w16 K (sm + 78) 6;
                   w8 K 0x800BF839 3;
                   w16 K 0x800BF83A 0x1501;
                   advanceStep () 
                 }
                  else State_Monad.return ())
          })
       })
   }"

section \<open>\<open>game/scene/bg_scene_transition_sm.cpp\<close>\<close>

definition bg_scene_transition_sm_fade_rect :: "'c core_ops \<Rightarrow> u32 \<Rightarrow> ('c,
    unit) state" where
  "bg_scene_transition_sm_fade_rect K color = do {
     v1 \<leftarrow> r8 K (P + 3);
     screen_fade_apply_leaf_call K color v1 4
   }"

definition bg_scene_transition_sm_audio_fade_target :: "'c core_ops \<Rightarrow> u32
    \<Rightarrow> ('c, unit) state" where
  "bg_scene_transition_sm_audio_fade_target K v = (if v <s 0 then do {
     w16 K 0x800BE222 (- v);
     w16 K 0x800BE224 (- v)
   }
    else do { let v = (if 0x7FFF <s v then (0x7FFF :: u32) else v); w16 K 0x800BE222 v })"

definition bg_scene_transition_sm_mid_transition_gate :: "'c core_ops \<Rightarrow> ('c, bool)
    state" where
  "bg_scene_transition_sm_mid_transition_gate K = do {
     v1 \<leftarrow> r8 K 0x800BF80D;
     v2 \<leftarrow> r8 K 0x800BF839;
     State_Monad.return (2 \<le>s as_s8 v1 \<or> v2 \<noteq> 0)
   }"

definition bg_scene_transition_sm_audio_stub26470 :: "'c core_ops \<Rightarrow> ('c, unit) state"
    where
  "bg_scene_transition_sm_audio_stub26470 K = do {
     v1 \<leftarrow> bg_scene_transition_sm_mid_transition_gate K;
     only_if v1 (bg_scene_transition_sm_audio_fade_target K 0)
   }"

definition bg_scene_transition_sm_audio_stub26510 :: "'c core_ops \<Rightarrow> ('c, unit) state"
    where
  "bg_scene_transition_sm_audio_stub26510 K = do {
     v1 \<leftarrow> bg_scene_transition_sm_mid_transition_gate K;
     only_if v1 (bg_scene_transition_sm_audio_fade_target K (-1))
   }"

definition bg_scene_transition_sm_audio_stub264_bc :: "'c core_ops \<Rightarrow> ('c, unit) state"
    where
  "bg_scene_transition_sm_audio_stub264_bc K = do {
     v1 \<leftarrow> bg_scene_transition_sm_mid_transition_gate K;
     only_if v1 (do {
       bg_scene_transition_sm_audio_fade_target K (-1);
       bg_scene_transition_sm_audio_fade_target K 0x47FF
     })
   }"

section \<open>\<open>game/scene/mode_state_arm.cpp\<close>\<close>

definition mode_state_arm_arm_from_area_table :: "'c core_ops \<Rightarrow> ('c, unit) state"
    where
  "mode_state_arm_arm_from_area_table K = do {
     area \<leftarrow> r8 K 0x800BF870;
     collected_bmp \<leftarrow> r16 K 0x800BFE56;
     let collected_bit = (shr collected_bmp (unat (area AND 0x1F))) AND 1;
     let row = 0x800A5500 + area * 8 + collected_bit * 4;
     cls \<leftarrow> r8 K (row + 0);
     a \<leftarrow> r8 K (row + 1);
     b \<leftarrow> r8 K (row + 2);
     d \<leftarrow> r8 K (row + 3);
     w8 K 0x800EC144 cls;
     w8 K 0x800EA0D5 a;
     w8 K 0x800EA0D6 b;
     w8 K 0x800EA0D7 d;
     w8 K 0x800EA0D4 cls;
     w8 K 0x800EC145 a;
     w8 K 0x800EC146 b;
     w8 K 0x800EC147 d;
     w8 K 0x800BF8A7 (if cls = 1 then 0x81 else 0x02);
     w8 K 0x800BF8A4 a;
     w8 K 0x800BF8A5 b;
     w8 K 0x800BF8A6 d
   }"

section \<open>\<open>game/scene/bg_scene_transition_sm.cpp\<close>\<close>

definition bg_scene_transition_sm_bf816_dispatch :: "'c core_ops \<Rightarrow> ('c, unit) state"
    where
  "bg_scene_transition_sm_bf816_dispatch K = do {
     v1 \<leftarrow> r8 K 0x800BF816;
     (if v1 = 0 then mode_state_arm_arm_from_area_table K else mode_state_arm_arm K 0 0 0)
   }"

definition bg_scene_transition_sm_body :: "'c core_ops \<Rightarrow> ('c, unit) state" where
  "bg_scene_transition_sm_body K = do {
     st \<leftarrow> r8 K (P + 4);
     (if st = 0 then do {
       v2 \<leftarrow> r8 K (P + 4);
       w8 K (P + 4) (v2 + 1);
       bg_scene_transition_sm_audio_fade_target K (-1);
       bg_scene_transition_sm_audio_fade_target K 0x47FF;
       req \<leftarrow> r8 K G_req;
       (if (((req = 1 \<or> req = 2) \<or> req = 3) \<or> req = 4) \<or> req = 9 then do {
         w8 K G_req 0;
         w16 K (P + 8) 0x1F;
         w16 K (P + 0xA) 8;
         w8 K (P + 3) 1
       }
        else if req = 5 \<or> req = 6 then do {
          w16 K (P + 8) 0x7F;
          w16 K (P + 0xA) 2;
          w8 K (P + 3) 1
        }
         else if req = 7 \<or> req = 8 then do {
           w8 K G_req 0;
           w16 K (P + 8) 0x1F;
           w16 K (P + 0xA) 8;
           w8 K (P + 3) 0
         }
          else only_if (req = 0) (do {
            w16 K (P + 8) 0x1F;
            w16 K (P + 0xA) 8;
            w8 K (P + 3) 0
          }));
       bg_scene_transition_sm_fade_rect K 0xFFFFFF;
       bg_scene_transition_sm_bf816_dispatch K
     }
      else if st = 1 then do {
        v4 \<leftarrow> r16s K (P + 0xA);
        v5 \<leftarrow> r16s K (P + 8);
        let u = (v4 * v5) AND 0xFF;
        bg_scene_transition_sm_fade_rect K (((shl u 16) OR (shl u 8)) OR u);
        v6 \<leftarrow> r16 K (P + 8);
        let before = as_s16 v6;
        w16 K (P + 8) (before - 1);
        only_if (before = 1) (do {
          v7 \<leftarrow> r8 K (P + 4);
          w8 K (P + 4) (v7 + 1);
          w8 K G_dir 0
        })
      }
       else if st = 2 then do {
         v8 \<leftarrow> r8 K 0x800BF849;
         v9 \<leftarrow> r8 K 0x800ED06D;
         only_if (v8 = 0 \<and> v9 = 0) (do {
           dir \<leftarrow> r8 K G_dir;
           only_if (dir = 2 \<or> dir = 4) (do {
             bg_scene_transition_sm_audio_stub26470 K;
             w16 K (P + 8) 0x1F;
             w16 K (P + 0xA) 8;
             w8 K (P + 3) (if dir = 2 then 0 else 1);
             v11 \<leftarrow> r8 K (P + 4);
             w8 K (P + 4) (v11 + 1)
           })
         })
       }
        else if st = 3 then do {
          v12 \<leftarrow> r16s K (P + 8);
          let u = (v12 * (-8)) AND 0xFF;
          bg_scene_transition_sm_fade_rect K (((shl u 16) OR (shl u 8)) OR u);
          v13 \<leftarrow> r8 K G_dir;
          only_if ((v13 AND 0x80) = 0) (do {
            v14 \<leftarrow> r16s K (P + 8);
            w16 K (P + 8) (v14 - 1)
          });
          v15 \<leftarrow> r16s K (P + 8);
          only_if (v15 = 0) (do {
            v16 \<leftarrow> r8 K (P + 4);
            w8 K (P + 4) (v16 + 1);
            w8 K G_dir 0;
            bg_scene_transition_sm_audio_stub26510 K
          })
        }
         else if st = 4 then do {
           bg_scene_transition_sm_fade_rect K 0xFFFFFF;
           dir \<leftarrow> r8 K G_dir;
           only_if (dir \<noteq> 0) (do {
             (if dir = 1 then w8 K (P + 3) 0 else only_if (dir = 3) (w8 K (P + 3) 1));
             bg_scene_transition_sm_audio_stub264_bc K;
             w8 K (P + 4) 1;
             w16 K (P + 8) 0x1F;
             w16 K (P + 0xA) 8
           })
         }
          else State_Monad.return ())
   }"

definition bg_scene_transition_sm_verify_body :: "'c core_ops \<Rightarrow> ('c, unit) state"
    where
  "bg_scene_transition_sm_verify_body K = bg_scene_transition_sm_body K"

definition bg_scene_transition_sm_step :: "'c core_ops \<Rightarrow> ('c, unit) state" where
  "bg_scene_transition_sm_step K = bg_scene_transition_sm_verify_body K"

definition bg_scene_transition_sm_ready_for_progress :: "'c core_ops \<Rightarrow> ('c, bool)
    state" where
  "bg_scene_transition_sm_ready_for_progress K = do {
     v1 \<leftarrow> r8 K 0x800BF849;
     v2 \<leftarrow> r8 K 0x800ED06D;
     State_Monad.return (v1 = 0 \<and> v2 = 0)
   }"

definition bg_scene_transition_sm_op_scene_event_arm_wait :: "'c core_ops \<Rightarrow> ('c, unit)
    state" where
  "bg_scene_transition_sm_op_scene_event_arm_wait K = do {
     let L_ret = (do {
       r29_1 \<leftarrow> reg K 29;
       v2 \<leftarrow> r32 K (r29_1 + 20);
       setr K 31 v2;
       v3 \<leftarrow> r32 K (r29_1 + 16);
       setr K 16 v3;
       setr K 29 (r29_1 + 24)
     });
     let L_ret0 = (do {
       r0_4 \<leftarrow> reg K 0;
       setr K 2 (r0_4 + r0_4);
       L_ret
     });
     let L_state1 = (do {
       setr K 31 0x800427D8;
       call_guest K 0x80042728;
       L_ret
     });
     let L_advance = (do {
       r16_5 \<leftarrow> reg K 16;
       v6 \<leftarrow> r8 K (r16_5 + NODE_SUBSTATE);
       setr K 2 v6;
       r2_7 \<leftarrow> reg K 2;
       setr K 2 (r2_7 + 1);
       r2_8 \<leftarrow> reg K 2;
       w8 K (r16_5 + NODE_SUBSTATE) r2_8;
       L_ret0
     });
     let L_state0 = (do {
       r16_9 \<leftarrow> reg K 16;
       v10 \<leftarrow> r16 K (r16_9 + NODE_PARAM0);
       setr K 4 (as_s16 v10);
       r4_11 \<leftarrow> reg K 4;
       let t0 = (of_bool (r4_11 <s 0) :: u32);
       (if t0 \<noteq> 0 then L_advance
        else do {
          setr K 31 0x800427A0;
          call_guest K 0x80040B48;
          r0_12 \<leftarrow> reg K 0;
          setr K 3 (r0_12 + 1);
          r2_13 \<leftarrow> reg K 2;
          r3_14 \<leftarrow> reg K 3;
          let t0 = (of_bool (r2_13 \<noteq> r3_14) :: u32);
          setr K 2 (r0_12 + 1);
          (if t0 \<noteq> 0 then L_ret
           else do {
             r16_15 \<leftarrow> reg K 16;
             v16 \<leftarrow> r16 K (r16_15 + NODE_PARAM1);
             setr K 2 (as_s16 v16);
             r2_17 \<leftarrow> reg K 2;
             let t0 = (of_bool (r2_17 \<noteq> r0_12) :: u32);
             setr K 2 (r0_12 + 1);
             (if t0 \<noteq> 0 then L_ret else L_advance)
           })
        })
     });
     r29_18 \<leftarrow> reg K 29;
     setr K 29 (r29_18 + (-24));
     r29_19 \<leftarrow> reg K 29;
     r16_20 \<leftarrow> reg K 16;
     w32 K (r29_19 + 16) r16_20;
     r4_21 \<leftarrow> reg K 4;
     r0_22 \<leftarrow> reg K 0;
     setr K 16 (r4_21 + r0_22);
     r31_23 \<leftarrow> reg K 31;
     w32 K (r29_19 + 20) r31_23;
     r16_24 \<leftarrow> reg K 16;
     v25 \<leftarrow> r8 K (r16_24 + NODE_SUBSTATE);
     setr K 3 v25;
     r3_26 \<leftarrow> reg K 3;
     let t0 = (of_bool (r3_26 = r0_22) :: u32);
     setr K 2 (r0_22 + 1);
     (if t0 \<noteq> 0 then L_state0
      else do {
        r2_27 \<leftarrow> reg K 2;
        let t0 = (of_bool (r3_26 = r2_27) :: u32);
        setr K 2 (r0_22 + r0_22);
        (if t0 \<noteq> 0 then L_state1 else L_ret)
      })
   }"

definition bg_scene_transition_sm_op_clear_scene_flag80a :: "'c core_ops \<Rightarrow> ('c, unit)
    state" where
  "bg_scene_transition_sm_op_clear_scene_flag80a K = do {
     r0_1 \<leftarrow> reg K 0;
     w8 K G_flag80a r0_1;
     setr K 2 (r0_1 + 1)
   }"

definition eov_op_scene_event_arm_wait :: "'c core_ops \<Rightarrow> ('c, unit) state" where
  "eov_op_scene_event_arm_wait K = bg_scene_transition_sm_op_scene_event_arm_wait K"

definition eov_op_clear_scene_flag80a :: "'c core_ops \<Rightarrow> ('c, unit) state" where
  "eov_op_clear_scene_flag80a K = bg_scene_transition_sm_op_clear_scene_flag80a K"

section \<open>\<open>game/scene/card_load_machine.cpp\<close>\<close>

definition reselect_state_index :: "'c core_ops \<Rightarrow> u32 \<Rightarrow> ('c, unit) state"
    where
  "reselect_state_index K inGame = (if inGame = 0 then do {
     _ \<leftarrow> audio_dispatch_dispatch3_way K kLoadPageIndex 1;
     State_Monad.return ()
   }
    else do {
      v1 \<leftarrow> r8 K kPageFlag137;
      (if v1 = 1 then State_Monad.return ()
       else do {
         v2 \<leftarrow> r8 K kStateIndex;
         _ \<leftarrow> audio_dispatch_dispatch3_way K v2 1;
         State_Monad.return ()
       })
    })"

section \<open>\<open>game/scene/scene_events.cpp\<close>\<close>

definition scene_events_class_size :: "'c core_ops \<Rightarrow> u32 \<Rightarrow> bool
    \<Rightarrow> ('c, u32) state" where
  "scene_events_class_size K argKey nibbleLo = do {
     nibbleByte \<leftarrow> r8 K (TBL_A_BASE + argKey * 12 + 1);
     let nibble = (if nibbleLo then nibbleByte AND 0x0F else (shr nibbleByte 4) AND 0x0F);
     r32 K (TBL_B_BASE + nibble * 4)
   }"

definition scene_events_arm_body :: "'c core_ops \<Rightarrow> ('c, u32) state" where
  "scene_events_arm_body K = with_frame K 32 [(17, 20), (31, 24), (16, 16)] (do {
     eventId \<leftarrow> reg K 4;
     v2 \<leftarrow> r16 K EVENTS_GATE_HW;
     (if as_s16 v2 = 0 then State_Monad.return (-1)
      else do {
        let slotByteAddr = ARM_SLOT_BASE + eventId + 68;
        v3 \<leftarrow> r8 K slotByteAddr;
        (if v3 \<noteq> 0 then State_Monad.return 0
         else do {
           w8 K slotByteAddr 1;
           v4 \<leftarrow> r16 K ARM_COUNTER_HW;
           w16 K ARM_COUNTER_HW (v4 + 1);
           setr K 4 eventId;
           setr K 5 0;
           size1 \<leftarrow> scene_events_class_size K (as_u8 eventId) False;
           v6 \<leftarrow> r32 K STREAM_CURSOR;
           w32 K STREAM_CURSOR (v6 + size1);
           idx \<leftarrow> r8 K RING_HEAD_BYTE;
           w8 K (scene_events_RING_BASE + idx + 0x16) eventId;
           idx \<leftarrow> r8 K RING_HEAD_BYTE;
           w8 K (scene_events_RING_BASE + idx + 0x1C) 0;
           idx \<leftarrow> r8 K RING_HEAD_BYTE;
           w8 K RING_HEAD_BYTE (idx + 1);
           State_Monad.return 1
         })
      })
   })"

definition scene_events_arm :: "'c core_ops \<Rightarrow> u32 \<Rightarrow> ('c, u32) state" where
  "scene_events_arm K eventId = do {
     setr K 4 eventId;
     v1 \<leftarrow> scene_events_arm_body K;
     setr K 2 v1;
     reg K 2
   }"

definition scene_events_arm_override :: "'c core_ops \<Rightarrow> ('c, unit) state" where
  "scene_events_arm_override K = do {
     v1 \<leftarrow> scene_events_arm_body K;
     setr K 2 v1
   }"

definition scene_events_delayed_trigger :: "'c core_ops \<Rightarrow> ('c, u32) state" where
  "scene_events_delayed_trigger K = do {
     rec \<leftarrow> reg K 4;
     phase \<leftarrow> r8 K (rec + CMD_PHASE);
     (if phase = 0 then do {
       p \<leftarrow> r8 K (rec + CMD_PHASE);
       w16 K (rec + CMD_TIMER) 0;
       w8 K (rec + CMD_PHASE) (p + 1);
       State_Monad.return 0
     }
      else if phase = 1 then do {
        v4 \<leftarrow> r16 K (rec + CMD_SELECT);
        only_if ((v4 AND 1) \<noteq> 0) (do {
          v5 \<leftarrow> r16 K (rec + CMD_ARG_A);
          w16 K LATCH_HALF_A v5
        });
        v6 \<leftarrow> r16 K (rec + CMD_SELECT);
        only_if ((v6 AND 2) \<noteq> 0) (do {
          v7 \<leftarrow> r16 K (rec + CMD_ARG_B);
          w16 K LATCH_HALF_B v7
        });
        v8 \<leftarrow> r8 K ARM_READY_BYTE;
        (if v8 \<noteq> 0 then State_Monad.return 1
         else do {
           v9 \<leftarrow> r16 K (rec + CMD_TIMER);
           let t = v9 + 1;
           w16 K (rec + CMD_TIMER) t;
           (if as_s16 (as_u16 t) <s 500 then State_Monad.return 0 else State_Monad.return 1)
         })
      }
       else State_Monad.return 0)
   }"

definition scene_events_apply_flag_op :: "'c core_ops \<Rightarrow> ('c, u32) state" where
  "scene_events_apply_flag_op K = do {
     rec \<leftarrow> reg K 4;
     v2 \<leftarrow> r16 K (rec + CMD_SELECT);
     let mode = as_s16 v2;
     (if mode = 0 then do {
       v3 \<leftarrow> r16 K (rec + CMD_ARG_A);
       let idx = as_s16 v3;
       val \<leftarrow> r8 K (rec + CMD_ARG_B);
       v5 \<leftarrow> flag_addr K idx;
       w8 K v5 val;
       State_Monad.return 1
     }
      else do {
        only_if (mode = 1 \<or> mode = 2) (do {
          v6 \<leftarrow> r16 K (rec + CMD_ARG_A);
          let idx = as_s16 v6;
          bits \<leftarrow> r8 K (rec + CMD_ARG_B);
          addr \<leftarrow> flag_addr K idx;
          cur \<leftarrow> r8 K addr;
          let val = (if mode = 1 then cur OR bits else cur AND bits);
          w8 K addr val
        });
        State_Monad.return 1
      })
   }"

definition scene_events_delayed_trigger_override :: "'c core_ops \<Rightarrow> ('c, unit) state"
    where
  "scene_events_delayed_trigger_override K = do {
     v1 \<leftarrow> scene_events_delayed_trigger K;
     setr K 2 v1
   }"

definition scene_events_apply_flag_op_override :: "'c core_ops \<Rightarrow> ('c, unit) state"
    where
  "scene_events_apply_flag_op_override K = do {
     v1 \<leftarrow> scene_events_apply_flag_op K;
     setr K 2 v1
   }"

section \<open>\<open>game/scene/scene_transition.cpp\<close>\<close>

definition scene_transition_area_mask_trigger :: "'c core_ops \<Rightarrow> u32 \<Rightarrow> u32
    \<Rightarrow> ('c, unit) state" where
  "scene_transition_area_mask_trigger K area sub1 = do {
     let impl = (\<lambda>a s. do {
       only_if (a < 9) (do {
         tbl_entry \<leftarrow> r32 K (0x800A54A8 + a * 4);
         h \<leftarrow> r16 K (tbl_entry + s * 8 + 6);
         base1 \<leftarrow> r8 K (0x800A55B0 + a);
         let shift1 = (base1 + (shr (h AND 0x0600) 9)) AND 0x1F;
         reg1 \<leftarrow> r32 K 0x800BFE50;
         w32 K 0x800BFE50 (reg1 OR (shl 1 (unat shift1)))
       });
       cur \<leftarrow> r8 K 0x800BF870;
       (if cur = 5 then do { v6 \<leftarrow> r8 K 0x800BF9DB; w8 K 0x800BF9DB (v6 OR 0x02) }
        else if cur = 6 then do {
          v7 \<leftarrow> r8 K 0x800BF9DB;
          w8 K 0x800BF9DB (v7 OR 0x04)
        }
         else if cur = 7 then do {
           v8 \<leftarrow> r8 K 0x800BF9DB;
           w8 K 0x800BF9DB (v8 OR 0x08)
         }
          else only_if (cur = 8) (do {
            v9 \<leftarrow> r8 K 0x800BF9DB;
            w8 K 0x800BF9DB (v9 OR 0x10)
          }))
     });
     impl area sub1
   }"

definition scene_transition_clear_swap_block :: "'c core_ops \<Rightarrow> u32 \<Rightarrow> ('c,
    unit) state" where
  "scene_transition_clear_swap_block K node = do {
     v1 \<leftarrow> r8 K (node + 0x146);
     v2 \<leftarrow> r8 K (node + 0);
     (if v1 = 4 \<and> v2 = 2 then State_Monad.return ()
      else do {
        w16 K (node + 0x44) 0;
        w16 K (node + 0x182) 0;
        v3 \<leftarrow> r8 K (node + 2);
        (if v3 \<noteq> 0 then w8 K (node + 0x149) 2
         else do {
           w16 K (node + 0x50) 0;
           w8 K (node + 0x148) 0;
           v4 \<leftarrow> r8 K (node + 0x147);
           let v = as_u8 (v4 + 2);
           w8 K (node + 0x14A) v;
           w8 K (node + 0x149) v
         })
      })
   }"

definition scene_transition_reset_swap :: "'c core_ops \<Rightarrow> u32 \<Rightarrow> ('c, unit)
    state" where
  "scene_transition_reset_swap K node = do {
     w8 K (node + 0) 2;
     v1 \<leftarrow> r8 K (node + 0xBF);
     only_if (v1 \<noteq> 0) (sfx_trigger K 0x17 0 0x0F);
     w8 K E7FC5_FLAG 0;
     scene_transition_clear_swap_block K SCENE_BLOCK;
     w8 K (SCENE_BLOCK + 5) 0;
     w8 K (SCENE_BLOCK + 6) 0;
     w8 K (SCENE_BLOCK + 7) 0
   }"

definition scene_transition_begin_swap :: "'c core_ops \<Rightarrow> u32 \<Rightarrow> ('c, unit)
    state" where
  "scene_transition_begin_swap K node = do {
     scene_transition_reset_swap K node;
     w8 K BF818_SWAP_PHASE 1;
     v1 \<leftarrow> r8 K (node + 3);
     w8 K BF817_SWAP_KEY v1
   }"

definition scene_transition_complete_swap :: "'c core_ops \<Rightarrow> u32 \<Rightarrow> ('c,
    unit) state" where
  "scene_transition_complete_swap K node = do {
     scene_transition_reset_swap K node;
     w8 K BF818_SWAP_PHASE 3
   }"

definition scene_transition_step_swap_waiter_l260 :: "'c core_ops \<Rightarrow> u32 \<Rightarrow>
    (unit \<Rightarrow> ('c, bool) state) \<Rightarrow> u32 \<Rightarrow> (unit \<Rightarrow> ('c,
    'a) state) \<Rightarrow> ('c, u32) state" where
  "scene_transition_step_swap_waiter_l260 K case_id second_branch_gate n pause_latch_tail = (if
      case_id = 3 then do {
     v23 \<leftarrow> second_branch_gate () ;
     (if v23 then do {
       v24 \<leftarrow> r8 K BF80F_SUSPEND;
       (if v24 \<noteq> 0 then State_Monad.return 0
        else do {
          w8 K (n + 6) (case_id + 1);
          scene_transition_complete_swap K n;
          pause_latch_tail () ;
          State_Monad.return 0
        })
     }
      else do {
        v25 \<leftarrow> r8 K BF818_SWAP_PHASE;
        (if v25 \<noteq> 6 then State_Monad.return 0
         else do {
           v26 \<leftarrow> r8 K BF80F_SUSPEND;
           only_if (v26 = 0) (do {
             w8 K (n + 6) (case_id + 1);
             scene_transition_complete_swap K n
           });
           State_Monad.return 0
         })
      })
   }
    else if case_id = 4 then do {
      v27 \<leftarrow> r8 K BF818_SWAP_PHASE;
      (if v27 \<noteq> 4 then State_Monad.return 0
       else do {
         v28 \<leftarrow> r8 K BF80F_SUSPEND;
         (if v28 \<noteq> 0 then State_Monad.return 0
          else do {
            w8 K (n + 6) (case_id + 1);
            w8 K BF818_SWAP_PHASE 0;
            State_Monad.return 0
          })
       })
    }
     else if case_id = 5 then do {
       let clampHit = (0 :: u32);
       dir \<leftarrow> r8 K (n + 0x46);
       clampHit \<leftarrow> (if dir = 0 then do {
         v30 \<leftarrow> r16 K (n + 0x50);
         let v = as_s16 (v30 + 64);
         w16 K (n + 0x50) v;
         (if 0 <s v then do { w16 K (n + 0x50) 0; State_Monad.return (1 :: u32) }
          else State_Monad.return clampHit)
       }
        else if dir = 1 then do {
          v31 \<leftarrow> r16 K (n + 0x50);
          let v = as_s16 (v31 - 64);
          w16 K (n + 0x50) v;
          (if v <s 0 then do { w16 K (n + 0x50) 0; State_Monad.return (1 :: u32) }
           else State_Monad.return clampHit)
        }
         else State_Monad.return clampHit);
       v32 \<leftarrow> r8 K (n + 0xBF);
       only_if (clampHit \<noteq> 0 \<and> v32 \<noteq> 0) (sfx_trigger K 24 0 15);
       v33 \<leftarrow> r16 K (n + 0x5A);
       v34 \<leftarrow> r16 K (n + 0x50);
       w16 K (n + 0x56) (v33 - v34);
       (if clampHit \<noteq> 0 then do {
         w8 K (n + 0) 1;
         w8 K (n + 6) 0;
         v35 \<leftarrow> r8 K (n + 0x5F);
         w8 K (n + 0x5F) (1 - v35);
         v36 \<leftarrow> r16 K (n + 0x84);
         w16 K (n + 0x84) (v36 - 800);
         v37 \<leftarrow> r16 K (n + 0x86);
         w16 K (n + 0x86) (v37 - 800);
         State_Monad.return 1
       }
        else State_Monad.return 0)
     }
      else State_Monad.return 0)"

definition scene_transition_step_swap_waiter_l169 :: "'c core_ops \<Rightarrow> u32 \<Rightarrow>
    ('c, u32) state" where
  "scene_transition_step_swap_waiter_l169 K n = do {
     case_id \<leftarrow> r8 K (n + 6);
     (if 6 \<le> case_id then State_Monad.return 0
      else do {
        let second_branch_gate = (\<lambda>_. do {
          v2 \<leftarrow> r8 K (n + 0x29);
          (if v2 = 0 then State_Monad.return False
           else do {
             v3 \<leftarrow> r8 K E7EA9_ARMED;
             (if v3 = 0 then State_Monad.return False
              else do {
                v4 \<leftarrow> r8 K E7FFB_INHIBIT;
                (if v4 \<noteq> 0 then State_Monad.return False
                 else State_Monad.return True)
              })
           })
        });
        let pause_latch_tail = (\<lambda>_. do {
          v5 \<leftarrow> r8 K IF800137_PAUSE;
          only_if (v5 = 0) (w8 K IF800137_PAUSE 2)
        });
        (if case_id = 0 then do {
          v6 \<leftarrow> second_branch_gate () ;
          (if v6 then do {
            w8 K (n + 6) (case_id + 1);
            scene_transition_begin_swap K n;
            pause_latch_tail () ;
            State_Monad.return 0
          }
           else do {
             v7 \<leftarrow> r8 K BF818_SWAP_PHASE;
             (if v7 \<noteq> 5 then State_Monad.return 0
              else do {
                v8 \<leftarrow> r8 K BF817_SWAP_KEY;
                v9 \<leftarrow> r8 K (n + 3);
                (if v8 \<noteq> v9 then State_Monad.return 0
                 else do {
                   w8 K (n + 6) (case_id + 1);
                   scene_transition_begin_swap K n;
                   State_Monad.return 0
                 })
              })
           })
        }
         else if case_id = 1 then do {
           let clampHit = (0 :: u32);
           dir \<leftarrow> r8 K (n + 0x46);
           clampHit \<leftarrow> (if dir = 0 then do {
             v11 \<leftarrow> r16 K (n + 0x50);
             let v = as_s16 (v11 - 64);
             w16 K (n + 0x50) v;
             (if v <s -1024 then do {
               w16 K (n + 0x50) (-1024);
               State_Monad.return (1 :: u32)
             }
              else State_Monad.return clampHit)
           }
            else if dir = 1 then do {
              v12 \<leftarrow> r16 K (n + 0x50);
              let v = as_s16 (v12 + 64);
              w16 K (n + 0x50) v;
              (if 1025 \<le>s v then do {
                w16 K (n + 0x50) 1024;
                State_Monad.return (1 :: u32)
              }
               else State_Monad.return clampHit)
            }
             else State_Monad.return clampHit);
           v13 \<leftarrow> r16 K (n + 0x5A);
           v14 \<leftarrow> r16 K (n + 0x50);
           w16 K (n + 0x56) (v13 + v14);
           v15 \<leftarrow> r8 K 0x800BF816;
           only_if (clampHit \<noteq> 0 \<and> v15 \<noteq> 0) (do {
             w8 K (n + 6) (case_id + 1);
             v16 \<leftarrow> r16 K (n + 0x5A);
             v17 \<leftarrow> r16 K (n + 0x50);
             w16 K (n + 0x56) (v16 - v17)
           });
           State_Monad.return 0
         }
          else if case_id = 2 then do {
            v18 \<leftarrow> r8 K BF818_SWAP_PHASE;
            (if v18 \<noteq> 2 then State_Monad.return 0
             else do {
               v19 \<leftarrow> r8 K BF80F_SUSPEND;
               (if v19 \<noteq> 0 then State_Monad.return 0
                else do {
                  w8 K (n + 0) 1;
                  w8 K (n + 6) (case_id + 1);
                  v20 \<leftarrow> r8 K (n + 0x5F);
                  w8 K (n + 0x5F) (1 - v20);
                  v21 \<leftarrow> r16 K (n + 0x84);
                  w16 K (n + 0x84) (v21 + 800);
                  v22 \<leftarrow> r16 K (n + 0x86);
                  w16 K (n + 0x86) (v22 + 800);
                  State_Monad.return 0
                })
             })
          }
           else scene_transition_step_swap_waiter_l260 K case_id second_branch_gate n
               pause_latch_tail)
      })
   }"

definition scene_transition_step_swap_waiter :: "'c core_ops \<Rightarrow> u32 \<Rightarrow> ('c,
    u32) state" where
  "scene_transition_step_swap_waiter K node = do {
     let impl = (\<lambda>n. scene_transition_step_swap_waiter_l169 K n);
     impl node
   }"

section \<open>\<open>game/scene/startup.cpp\<close>\<close>

definition alloc_record_for_selector :: "'c core_ops \<Rightarrow> ('c, unit) state" where
  "alloc_record_for_selector K = do {
     let L_80089154 = (State_Monad.return ());
     setr K 2 (shl 32784 16);
     r2_1 \<leftarrow> reg K 2;
     setr K 2 (r2_1 + 9472);
     r4_2 \<leftarrow> reg K 4;
     setr K 4 (r4_2 AND 240);
     r4_3 \<leftarrow> reg K 4;
     r0_4 \<leftarrow> reg K 0;
     let t0 = (of_bool (r4_3 = r0_4) :: u32);
     (if t0 \<noteq> 0 then L_80089154
      else do { r2_5 \<leftarrow> reg K 2; setr K 2 (r2_5 + 240); L_80089154 })
   }"

definition init_camera :: "'c core_ops \<Rightarrow> ('c, unit) state" where
  "init_camera K = do {
     mtx_identity K 0x1F8000F8;
     mtx_identity K 0x1F800118;
     h \<leftarrow> r16s K 0x801003F8;
     w32 K 0x1F8000DC 0;
     w32 K 0x1F8000E0 0;
     w32 K 0x1F8000E4 0;
     w32 K 0x1F8000D0 0;
     w32 K 0x1F8000D4 0;
     w16 K 0x1F8000E8 0;
     w16 K 0x1F8000EA 0;
     w16 K 0x1F8000EC 0x1000;
     w16 K 0x1F8000F0 0;
     w16 K 0x1F8000F2 0;
     w16 K 0x1F8000F4 0;
     w16 K 0x1F8000EE (h * (-5));
     w32 K 0x1F8000D8 (h * (- 0x50000))
   }"

definition init_entity_pool :: "'c core_ops \<Rightarrow> ('c, unit) state" where
  "init_entity_pool K = do {
     w8 K 0x800FB160 0;
     w8 K 0x800FB161 1;
     w8 K 0x800FB162 0;
     w8 K 0x800FB163 0;
     w8 K 0x800FB164 7;
     w8 K 0x800FB165 9;
     w8 K 0x800FB166 0;
     w8 K 0x800FB167 0;
     w16 K 0x1F800170 0x8000;
     w16 K 0x1F800172 0x4000;
     w16 K 0x1F800174 0x2000;
     w16 K 0x1F800176 0x1000
   }"

definition seed_direction_masks :: "'c core_ops \<Rightarrow> bool \<Rightarrow> ('c, unit) state"
    where
  "seed_direction_masks K flipped = (if \<not> flipped then do {
     w16 K 0x1F800170 0x8000;
     w16 K 0x1F800172 0x4000;
     w16 K 0x1F800174 0x2000;
     w16 K 0x1F800176 0x1000
   }
    else do {
      w16 K 0x1F800170 0x1000;
      w16 K 0x1F800172 0x2000;
      w16 K 0x1F800174 0x4000;
      w16 K 0x1F800176 0x8000
    })"

definition reload_entity_pool :: "'c core_ops \<Rightarrow> ('c, unit) state" where
  "reload_entity_pool K = do {
     orient \<leftarrow> r8 K 0x800BFE4C;
     w8 K 0x800FB166 orient;
     v2 \<leftarrow> r8 K 0x800BF8A3;
     w8 K 0x800FB161 v2;
     v3 \<leftarrow> r8 K 0x800BFE4E;
     w8 K 0x800FB162 v3;
     v4 \<leftarrow> r8 K 0x800BFE4F;
     w8 K 0x800FB163 v4;
     v5 \<leftarrow> r8 K 0x800BF88A;
     w8 K 0x800FB164 v5;
     v6 \<leftarrow> r8 K 0x800BF88B;
     w8 K 0x800FB165 v6;
     v7 \<leftarrow> r8 K 0x800BFE4D;
     w8 K 0x800FB167 v7;
     seed_direction_masks K (orient \<noteq> 0)
   }"

definition eng_init_mode_ctrl :: "'c core_ops \<Rightarrow> u32 \<Rightarrow> ('c, u32) state"
    where
  "eng_init_mode_ctrl K a0 = do {
     v1 \<leftarrow> r32 K 0x800ABE8C;
     v2 \<leftarrow> r32 K 0x800ABE88;
     let s1 = (shl v1 1) OR (if v2 = 0 then 1 else 0);
     (if s1 = a0 then State_Monad.return s1
      else do {
        w32 K 0x800ABE70 0;
        (if (a0 AND 1) \<noteq> 0 then do {
          w32 K 0x800ABE88 0;
          v3 \<leftarrow> r32 K 0x80102450;
          only_if (150 \<le>s v3) (do {
            v4 \<leftarrow> r32 K 0x800ABE6C;
            setr K 4 v4;
            v5 \<leftarrow> r32 K 0x800ABE3C;
            call_guest K v5
          });
          w32 K 0x80102450 0
        }
         else w32 K 0x800ABE88 1);
        (if (a0 AND 2) \<noteq> 0 then do {
          w32 K 0x800ABE8C 1;
          v6 \<leftarrow> r32 K 0x80102454;
          only_if (150 \<le>s v6) (do {
            v7 \<leftarrow> r32 K 0x800ABE6C;
            setr K 4 (v7 + 0xF0);
            v8 \<leftarrow> r32 K 0x800ABE3C;
            call_guest K v8
          });
          w32 K 0x80102454 0
        }
         else w32 K 0x800ABE8C 0);
        w32 K 0x800ABE70 1;
        State_Monad.return s1
      })
   }"

definition init_input :: "'c core_ops \<Rightarrow> ('c, unit) state" where
  "init_input K = do {
     call_guest K 0x80080890;
     w32 K 0x800ABE70 0;
     setr K 4 2;
     setr K 5 0x80102440;
     call_guest K 0x80087400;
     setr K 4 2;
     setr K 5 0x80102440;
     call_guest K 0x800873F0;
     v1 \<leftarrow> r32 K 0x800ABE98;
     w32 K v1 (-2);
     v2 \<leftarrow> r32 K (v1 + 4);
     w32 K (v1 + 4) (v2 OR 1);
     setr K 4 3;
     setr K 5 0;
     call_guest K 0x80085B10;
     call_guest K 0x800808A0;
     handler \<leftarrow> r32 K 0x800ABE3C;
     v4 \<leftarrow> r32 K 0x800ABE6C;
     setr K 4 v4;
     call_guest K handler;
     v5 \<leftarrow> r32 K 0x800ABE6C;
     setr K 4 (v5 + 0xF0);
     call_guest K handler;
     w32 K 0x80102454 0;
     w32 K 0x80102450 0;
     w32 K 0x800ABE70 1
   }"

definition init_alloc :: "'c core_ops \<Rightarrow> u32 \<Rightarrow> u32 \<Rightarrow> ('c, unit)
    state" where
  "init_alloc K s1 s2 = do {
     w32 K 0x800ABE70 0;
     w32 K 0x800ABE84 0;
     setr K 4 s1;
     call_guest K 0x80089160;
     let s0 = (0x80102500 :: u32);
     w32 K 0x800ABE38 0x80088CC8;
     w32 K 0x800ABE3C 0x80088C60;
     w32 K 0x800ABE40 0x80088DCC;
     w32 K 0x800ABE44 0x80088E88;
     w32 K 0x800ABE48 0x80089104;
     w32 K 0x800ABE4C 0x8008913C;
     w32 K 0x800ABE6C s0;
     w32 K 0x800ABE5C 0x80088DBC;
     setr K 4 s0;
     setr K 5 480;
     call_guest K 0x8009A340;
     w32 K (s0 + 48) s1;
     w32 K (s0 + 288) s2;
     let a0 = s0 + 64;
     let a3 = (0x801024B8 :: u32);
     let a2 = (0x80102470 :: u32);
     (s0, a0, a3, a2) \<leftarrow> fold_each (upto_u32 2) (s0, a0, a3, a2) (\<lambda>t0 (s0, a0,
         a3, a2). do {
       v0 \<leftarrow> r32 K (a0 - 16);
       let a1 = s0 + 93;
       w32 K (a0 - 52) 0;
       w32 K (a0 - 48) s0;
       w8 K v0 0xFF;
       v0 \<leftarrow> r32 K (a0 - 16);
       w8 K (v0 + 1) 0;
       w32 K (a0 - 4) a2;
       w32 K a0 a3;
       let v1 = (5 :: u32);
       (a1, v1) \<leftarrow> loop (\<lambda>(a1, v1). (if 0 \<le>s v1 then do {
         w8 K a1 0xFF;
         let a1 = a1 + 1;
         let v1 = v1 - 1;
         State_Monad.return (Inr (a1, v1))
       }
        else State_Monad.return (Inl (a1, v1)))) (a1, v1);
       let a3 = a3 + 35;
       let a2 = a2 + 35;
       let a0 = a0 + 240;
       State_Monad.return (s0 + 240, a0, a3, a2)
     });
     call_guest K 0x80086738;
     w32 K 0x800ABE70 1
   }"

definition init_subsystems :: "'c core_ops \<Rightarrow> ('c, unit) state" where
  "init_subsystems K = do {
     ra \<leftarrow> reg K 31;
     sp \<leftarrow> reg K 29;
     setr K 29 (sp - 0x18);
     r29_3 \<leftarrow> reg K 29;
     w32 K (r29_3 + 0x10) ra;
     init_entity_pool K;
     w16 K 0x800BF4FA 0xFFFF;
     w16 K 0x800ECF4A 0;
     w8 K 0x800ECF4C 0;
     w8 K 0x800ECF4D 0;
     w8 K 0x800ECF4E 0;
     w8 K 0x800ECF4F 0;
     init_alloc K 0x800BF4F8 0x800BF51A;
     _ \<leftarrow> eng_init_mode_ctrl K 1;
     init_input K;
     setr K 29 sp;
     setr K 31 ra
   }"

definition active_mode_ctx :: "'c core_ops \<Rightarrow> ('c, u32) state" where
  "active_mode_ctx K = r32 K 0x800ABE20"

definition install_mode_handlers :: "'c core_ops \<Rightarrow> ('c, unit) state" where
  "install_mode_handlers K = do {
     let TABLE = (0x80102444 :: u32);
     w32 K (TABLE + 0) 0x800867CC;
     w32 K (TABLE + 4) 0x80086764;
     w32 K (TABLE - 4) 0;
     w32 K (TABLE + 8) 0
   }"

definition run_mode_enter :: "'c core_ops \<Rightarrow> ('c, u32) state" where
  "run_mode_enter K = do {
     ctx \<leftarrow> r32 K 0x800ABE98;
     r29_2 \<leftarrow> reg K 29;
     setr K 29 (r29_2 + (-24));
     r29_3 \<leftarrow> reg K 29;
     r31_4 \<leftarrow> reg K 31;
     w32 K (r29_3 + 16) r31_4;
     let result1 = (0 :: u32);
     v5 \<leftarrow> r32 K (ctx + 4);
     v6 \<leftarrow> r32 K (ctx + 0);
     result1 \<leftarrow> (if (v5 AND 1) \<noteq> 0 \<and> (v6 AND 1) \<noteq> 0 then do {
       handler \<leftarrow> r32 K 0x800ABE60;
       only_if (handler \<noteq> 0) (do { setr K 31 0x800867B8; call_guest K handler });
       State_Monad.return (1 :: u32)
     }
      else State_Monad.return result1);
     r29_8 \<leftarrow> reg K 29;
     v9 \<leftarrow> r32 K (r29_8 + 16);
     setr K 31 v9;
     setr K 29 (r29_8 + 24);
     State_Monad.return result1
   }"

definition ov_alloc_record_for_selector :: "'c core_ops \<Rightarrow> ('c, unit) state" where
  "ov_alloc_record_for_selector K = alloc_record_for_selector K"

end
