(* ===== verification/WorldTables.thy ===== *)
theory WorldTables
  imports SceneControl
begin

text \<open>
  Tables of the world: area slots, placements, the object table, the routines of
  \<open>Pool\<close> that seed an area's view and the ledger of cube texts.
\<close>

section \<open>Layout\<close>

definition RUNNING_COST :: u32 where "RUNNING_COST = 0x800BF874"
definition ACTIVE_COUNT :: u32 where "ACTIVE_COUNT = 0x800BF8A8"
definition DEACTIVATE_COUNT :: u32 where "DEACTIVATE_COUNT = 0x800BF8AA"
definition SLOT_STATE_BASE :: u32 where "SLOT_STATE_BASE = 0x800BF8B4"
definition G_LEDGER_GATE :: u32 where "G_LEDGER_GATE = 0x800E7FEE"
definition LOG_INDEX :: u32 where "LOG_INDEX = 0x800ED06D"
definition LOG_SLOT_BASE :: u32 where "LOG_SLOT_BASE = 0x800ED06E"
definition LOG_EVENT_BASE :: u32 where "LOG_EVENT_BASE = 0x800ED074"
definition POPUP_ACTIVE_COUNT :: u32 where "POPUP_ACTIVE_COUNT = 0x800BF849"
definition CUBE_TEXT_VTABLE :: u32 where "CUBE_TEXT_VTABLE = 0x8003AD48"
definition FN_FREELIST_ALLOC :: u32 where "FN_FREELIST_ALLOC = 0x8007A980"
definition FN_NODE_INIT :: u32 where "FN_NODE_INIT = 0x800727D4"
definition kSlotCount :: u32 where "kSlotCount = 24"
definition kEntryTablePtr :: u32 where "kEntryTablePtr = 0x800AC604"
definition kArmedMaskWord :: u32 where "kArmedMaskWord = 0x800AC590"
definition kEntryStride :: u32 where "kEntryStride = 16"
definition kEntryFieldOff :: u32 where "kEntryFieldOff = 12"
definition kArmedAndField :: u32 where "kArmedAndField = 1"
definition kFieldOnly :: u32 where "kFieldOnly = 2"
definition kArmedOnly :: u32 where "kArmedOnly = 3"
definition kNeither :: u32 where "kNeither = 0"
definition H_27254 :: u32 where "H_27254 = 0x80027254"
definition PATTERN_TBL_A :: u32 where "PATTERN_TBL_A = 0x8009D53C"
definition PATTERN_TBL_B :: u32 where "PATTERN_TBL_B = 0x8009D54C"
definition DAMPEN_TBL :: u32 where "DAMPEN_TBL = 0x8009D55C"
definition DAMPEN_TBL_2 :: u32 where "DAMPEN_TBL_2 = 0x8009D56C"
definition GRAVITY_TBL :: u32 where "GRAVITY_TBL = 0x8009D57C"
definition LEAF_POOL_RETURN :: u32 where "LEAF_POOL_RETURN = 0x8007B2AC"
definition TABLE_BASE :: u32 where "TABLE_BASE = 0x800EC188"
definition object_table_SLOT_STRIDE :: u32 where "object_table_SLOT_STRIDE = 64"
definition SLOT_COUNT :: u32 where "SLOT_COUNT = 40"
definition HANDLER_TABLE :: u32 where "HANDLER_TABLE = 0x8009D52C"

section \<open>\<open>game/object/cube_text_ledger.cpp\<close>\<close>

definition append_log :: "'c core_ops \<Rightarrow> u32 \<Rightarrow> u32 \<Rightarrow> ('c, unit)
    state" where
  "append_log K slot1 event = do {
     idx \<leftarrow> r8 K LOG_INDEX;
     w8 K (LOG_SLOT_BASE + idx) slot1;
     w8 K (LOG_EVENT_BASE + idx) event;
     w8 K LOG_INDEX (idx + 1)
   }"

definition cube_text_ledger_deactivate_slot :: "'c core_ops \<Rightarrow> ('c, unit) state" where
  "cube_text_ledger_deactivate_slot K = with_frame K 32 [(17, 20), (31, 24), (16, 16)] (do {
     slot1 \<leftarrow> reg K 4;
     v2 \<leftarrow> r16s K G_LEDGER_GATE;
     (if v2 = 0 then setr K 2 0xFFFFFFFF
      else do {
        state1 \<leftarrow> r8 K (SLOT_STATE_BASE + slot1);
        state1 \<leftarrow> (if state1 = 0 then do {
          v4 \<leftarrow> r16 K ACTIVE_COUNT;
          w16 K ACTIVE_COUNT (v4 + 1);
          r8 K (SLOT_STATE_BASE + slot1)
        }
         else State_Monad.return state1);
        (if state1 = 0xFF then setr K 2 0
         else do {
           w8 K (SLOT_STATE_BASE + slot1) 0xFF;
           v6 \<leftarrow> r16 K DEACTIVATE_COUNT;
           w16 K DEACTIVATE_COUNT (v6 + 1);
           cost \<leftarrow> scene_events_class_size K (as_u8 slot1) True;
           v8 \<leftarrow> r32 K RUNNING_COST;
           w32 K RUNNING_COST (v8 + cost);
           append_log K slot1 1;
           setr K 2 1
         })
      })
   })"

definition cube_text_ledger_spawn_popup :: "'c core_ops \<Rightarrow> ('c, unit) state" where
  "cube_text_ledger_spawn_popup K = with_frame K 32 [(17, 20), (18, 24), (31, 28), (16, 16)] (do {
     value1 \<leftarrow> reg K 4;
     variant \<leftarrow> reg K 5;
     setr K 4 4;
     setr K 5 3;
     setr K 6 1;
     call_guest K FN_FREELIST_ALLOC;
     node \<leftarrow> reg K 2;
     (if node = 0 then setr K 2 0
      else do {
        w32 K (node + 0x1C) CUBE_TEXT_VTABLE;
        w8 K (node + 0x02) 0x0B;
        w8 K (node + 0x03) variant;
        w16 K (node + 0x60) value1;
        v4 \<leftarrow> r8 K (node + 0x28);
        w8 K (node + 0x28) (v4 OR 0x80);
        v5 \<leftarrow> r8 K POPUP_ACTIVE_COUNT;
        w8 K POPUP_ACTIVE_COUNT (v5 + 1);
        setr K 4 node;
        setr K 5 value1;
        setr K 6 variant;
        call_guest K FN_NODE_INIT;
        setr K 2 node
      })
   })"

section \<open>\<open>game/world/area_slots.cpp\<close>\<close>

definition area_slots_update_tail_l96 :: "'c core_ops \<Rightarrow> u32 \<Rightarrow> u32
    \<Rightarrow> u32 \<Rightarrow> u32 \<Rightarrow> u32 \<Rightarrow> ('c, 'a + u32 \<times>
    u32) state" where
  "area_slots_update_tail_l96 K s0 sp s2 s1 S5 = do {
     s3b \<leftarrow> r8 K (s0 + 2);
     (hword, a3) \<leftarrow> (if (s3b AND 0x80) \<noteq> 0 then do {
       v13 \<leftarrow> r16 K 0x800A4F7E;
       State_Monad.return (as_s16 v13, s3b AND 0x0F)
     }
      else do { v14 \<leftarrow> r16 K 0x800BED84; State_Monad.return (as_s16 v14, s3b) });
     v15 \<leftarrow> r8 K (s0 + 3);
     w32 K (sp + 0x10) v15;
     v16 \<leftarrow> r8 K (s0 + 4);
     w32 K (sp + 0x14) v16;
     v17 \<leftarrow> r8 K (s0 + 5);
     w32 K (sp + 0x18) v17;
     v18 \<leftarrow> r8 K (s0 + 6);
     w32 K (sp + 0x1C) v18;
     setr K 4 (as_s16 s2);
     setr K 5 hword;
     v19 \<leftarrow> r8 K (s0 + 1);
     setr K 6 v19;
     setr K 7 a3;
     setr K 16 s0;
     setr K 17 s1;
     setr K 18 s2;
     setr K 19 (shl s2 16);
     setr K 20 0x800C0000;
     setr K 21 S5;
     setr K 31 0x80075B84;
     call_guest K 0x80092660;
     mask1 \<leftarrow> r32 K 0x800BE358;
     let mask1 = mask1 AND (NOT (shl 1 (unat s2)));
     w32 K 0x800BE358 mask1;
     freshKind \<leftarrow> r8 K s1;
     w8 K s1 (freshKind - 1);
     let s2 = s2 + 1;
     let s1 = s1 + 12;
     State_Monad.return (Inr (s2, s1))
   }"

definition area_slots_update_tail_l92 :: "'c core_ops \<Rightarrow> u32 \<Rightarrow> u32
    \<Rightarrow> u32 \<Rightarrow> u32 \<Rightarrow> u32 \<Rightarrow> ('c, 'a + u32 \<times>
    u32) state" where
  "area_slots_update_tail_l92 K s1 sp s2 S5 buf_addr = do {
     let s0 = s1 + 1;
     kind \<leftarrow> r8 K s1;
     (if kind = 0xFF then area_slots_update_tail_l96 K s0 sp s2 s1 S5
      else do {
        only_if (kind \<noteq> 0) (do {
          s8b \<leftarrow> r8 K (s0 + 7);
          let newkind = as_u8 (kind - 1);
          w8 K s1 newkind;
          only_if (s8b = 4 \<and> newkind = 0) (do {
            mask1 \<leftarrow> r32 K 0x800BE358;
            let mask1 = mask1 OR (shl 1 (unat s2));
            w32 K 0x800BE358 mask1;
            w8 K (s1 + 3) 0;
            w8 K (s1 + 2) 0
          })
        });
        bv \<leftarrow> r8 K (buf_addr + s2);
        only_if (bv = 0 \<or> bv = 3) (w8 K (s1 + 1) 0);
        let s2 = s2 + 1;
        let s1 = s1 + 12;
        State_Monad.return (Inr (s2, s1))
      })
   }"

definition area_slots_update_tail_l168 :: "'c core_ops \<Rightarrow> u32 \<Rightarrow> u32
    \<Rightarrow> bool \<Rightarrow> u32 \<Rightarrow> u32 \<Rightarrow> u32 \<Rightarrow> ('c,
    unit) state" where
  "area_slots_update_tail_l168 K s1 s2 loopEntered S5 sp sp_save = do {
     setr K 16 0x800C0000;
     setr K 17 s1;
     setr K 18 s2;
     only_if loopEntered (setr K 19 (shl s2 16));
     setr K 21 S5;
     v25 \<leftarrow> r32 K 0x800BE358;
     only_if (v25 \<noteq> 0) (do {
       setr K 4 0;
       setr K 31 0x80075C4C;
       call_guest K 0x80098F90;
       w32 K 0x800BE358 0
     });
     setr K 4 S5;
     setr K 31 0x80075C58;
     music_coord_voice_mix_tick K S5;
     setr K 4 S5;
     setr K 31 0x80075C60;
     call_guest K 0x80099490;
     setr K 17 0x800C0000;
     v26 \<leftarrow> r16 K 0x800BED80;
     let key2 = as_s16 v26;
     w32 K S5 0;
     only_if (key2 \<noteq> -1) (do {
       let entry_addr = 0x800BE368 + key2 * 8;
       v27 \<leftarrow> r16 K entry_addr;
       let entry_hw = as_s16 v27;
       setr K 4 entry_hw;
       setr K 5 0;
       setr K 31 0x80075C90;
       call_guest K 0x8008E0C0;
       r2_28 \<leftarrow> reg K 2;
       only_if ((r2_28 AND 0xFFFF) = 0) (do {
         setr K 16 S5;
         subid \<leftarrow> r8 K 0x800BE22A;
         (if subid \<noteq> 0 then do {
           w16 K 0x800BED80 0;
           setr K 4 subid;
           setr K 31 0x80075CB8;
           call_guest K 0x80074BF8;
           w8 K 0x800BE22A 0
         }
          else do { setr K 4 0; setr K 31 0x80075CC8; call_guest K 0x80074E48 })
       })
     });
     v30 \<leftarrow> r32 K (sp + 80);
     setr K 31 v30;
     v31 \<leftarrow> r32 K (sp + 76);
     setr K 21 v31;
     v32 \<leftarrow> r32 K (sp + 72);
     setr K 20 v32;
     v33 \<leftarrow> r32 K (sp + 68);
     setr K 19 v33;
     v34 \<leftarrow> r32 K (sp + 64);
     setr K 18 v34;
     v35 \<leftarrow> r32 K (sp + 60);
     setr K 17 v35;
     v36 \<leftarrow> r32 K (sp + 56);
     setr K 16 v36;
     setr K 29 sp_save
   }"

definition area_slots_update_tail :: "'c core_ops \<Rightarrow> ('c, unit) state" where
  "area_slots_update_tail K = do {
     sp_save \<leftarrow> reg K 29;
     setr K 29 (sp_save - 88);
     sp \<leftarrow> reg K 29;
     let S5 = (0x800BE1F8 :: u32);
     let buf_addr = sp + 0x20;
     r21_3 \<leftarrow> reg K 21;
     w32 K (sp + 76) r21_3;
     setr K 21 S5;
     r31_4 \<leftarrow> reg K 31;
     w32 K (sp + 80) r31_4;
     r20_5 \<leftarrow> reg K 20;
     w32 K (sp + 72) r20_5;
     r19_6 \<leftarrow> reg K 19;
     w32 K (sp + 68) r19_6;
     r18_7 \<leftarrow> reg K 18;
     w32 K (sp + 64) r18_7;
     r17_8 \<leftarrow> reg K 17;
     w32 K (sp + 60) r17_8;
     setr K 31 0x80075AB0;
     r16_9 \<leftarrow> reg K 16;
     w32 K (sp + 56) r16_9;
     setr K 4 buf_addr;
     call_guest K 0x800998E4;
     s2 \<leftarrow> r32 K 0x800BED78;
     let s1 = 0x800BE238 + s2 * 12;
     let loopEntered = s2 <s 24;
     only_if loopEntered (setr K 20 0x800C0000);
     (s2, s1) \<leftarrow> loop (\<lambda>(s2, s1). (if s2 <s 24 then area_slots_update_tail_l92 K
         s1 sp s2 S5 buf_addr
      else State_Monad.return (Inl (s2, s1)))) (s2, s1);
     area_slots_update_tail_l168 K s1 s2 loopEntered S5 sp sp_save
   }"

definition area_slots_ack_if_match :: "'c core_ops \<Rightarrow> u32 \<Rightarrow> ('c, unit)
    state" where
  "area_slots_ack_if_match K arg = do {
     let idx = arg AND 0xFF;
     let entry = 0x800BE238 + idx * 12;
     v1 \<leftarrow> r32 K entry;
     let stored_hi3 = v1 AND 0xFFFFFF00;
     let arg_hi3 = arg AND 0xFFFFFF00;
     (if stored_hi3 \<noteq> arg_hi3 then State_Monad.return ()
      else do {
        mask1 \<leftarrow> r32 K 0x800BE358;
        w32 K 0x800BE358 (mask1 OR (shl 1 (unat idx)));
        w8 K (entry + 1) 0
      })
   }"

definition area_slots_prime_countdown :: "'c core_ops \<Rightarrow> u32 \<Rightarrow> ('c, unit)
    state" where
  "area_slots_prime_countdown K idx = do {
     let entry = 0x800BE238 + ((idx AND 0xFF) * 12);
     w8 K entry 10
   }"

definition area_slots_update_cell :: "'c core_ops \<Rightarrow> u32 \<Rightarrow> u32
    \<Rightarrow> u32 \<Rightarrow> ('c, bool) state" where
  "area_slots_update_cell K sigArg dx dy = do {
     let idx = sigArg AND 0xFF;
     let entry = 0x800BE238 + idx * 12;
     v1 \<leftarrow> r32 K entry;
     (if (v1 AND 0xFFFFFF00) \<noteq> (sigArg AND 0xFFFFFF00) then State_Monad.return False
      else do {
        v2 \<leftarrow> r8 K 0x800FB165;
        let bias = (v2 - 9) * 16;
        let dx = dx + bias;
        let dy = dy + bias;
        let dx = (if dx <s 0 then (0 :: u32) else (if 0x7F <s dx then (0x7F :: u32) else dx));
        let dy = (if dy <s 0 then (0 :: u32) else (if 0x7F <s dy then (0x7F :: u32) else dy));
        w8 K (entry + 6) dx;
        w8 K (entry + 7) dy;
        setr K 4 idx;
        setr K 5 (shl dx 7);
        setr K 6 (shl dy 7);
        call_guest K 0x80092E3C;
        State_Monad.return True
      })
   }"

definition eov_area_slots_prime :: "'c core_ops \<Rightarrow> ('c, unit) state" where
  "eov_area_slots_prime K = do {
     r4_1 \<leftarrow> reg K 4;
     area_slots_prime_countdown K r4_1;
     setr K 2 10;
     r4_2 \<leftarrow> reg K 4;
     setr K 3 (0x800BE238 + ((r4_2 AND 0xFF) * 12))
   }"

definition eov_area_slots_update_cell :: "'c core_ops \<Rightarrow> ('c, unit) state" where
  "eov_area_slots_update_cell K = do {
     r29_1 \<leftarrow> reg K 29;
     setr K 29 (r29_1 - 24);
     r29_2 \<leftarrow> reg K 29;
     r31_3 \<leftarrow> reg K 31;
     w32 K (r29_2 + 16) r31_3;
     r4_4 \<leftarrow> reg K 4;
     r5_5 \<leftarrow> reg K 5;
     r6_6 \<leftarrow> reg K 6;
     v7 \<leftarrow> area_slots_update_cell K r4_4 r5_5 r6_6;
     setr K 2 (if v7 then 1 else 0);
     r29_8 \<leftarrow> reg K 29;
     v9 \<leftarrow> r32 K (r29_8 + 16);
     setr K 31 v9;
     setr K 29 (r29_8 + 24)
   }"

definition area_slots_classify_slot_states :: "'c core_ops \<Rightarrow> u32 \<Rightarrow> ('c,
    unit) state" where
  "area_slots_classify_slot_states K outBuf = do {
     for_each (upto_u32 (unat kSlotCount)) (\<lambda>slot1. do {
       v1 \<leftarrow> r32 K kEntryTablePtr;
       let entry = v1 + slot1 * kEntryStride;
       v2 \<leftarrow> r32 K kArmedMaskWord;
       let armed = v2 AND (shl 1 (unat slot1));
       field1 \<leftarrow> r16 K (entry + kEntryFieldOff);
       (if armed \<noteq> 0 then (if field1 \<noteq> 0 then w8 K (outBuf + slot1) kArmedAndField
        else w8 K (outBuf + slot1) kArmedOnly)
        else if field1 \<noteq> 0 then w8 K (outBuf + slot1) kFieldOnly
         else w8 K (outBuf + slot1) kNeither)
     });
     base1 \<leftarrow> r32 K kEntryTablePtr;
     setr K 10 kSlotCount;
     setr K 9 kArmedOnly;
     setr K 8 kFieldOnly;
     setr K 7 kArmedAndField;
     setr K 6 kSlotCount;
     setr K 5 (outBuf + kSlotCount);
     setr K 4 (base1 + ((kSlotCount - 1) * kEntryStride));
     v5 \<leftarrow> r32 K kArmedMaskWord;
     setr K 3 (v5 AND (shl 1 (unat (kSlotCount - 1))));
     setr K 2 0
   }"

definition eov_area_slots_classify :: "'c core_ops \<Rightarrow> ('c, unit) state" where
  "eov_area_slots_classify K = do {
     r4_1 \<leftarrow> reg K 4;
     area_slots_classify_slot_states K r4_1
   }"

section \<open>\<open>game/world/object_table.cpp\<close>\<close>

definition object_table_prng :: "'c core_ops \<Rightarrow> ('c, u32) state" where
  "object_table_prng K = rng_next K"

definition object_table_handler27254 :: "'c core_ops \<Rightarrow> u32 \<Rightarrow> ('c, unit)
    state" where
  "object_table_handler27254 K obj = do {
     st \<leftarrow> r8 K (obj + 4);
     (if st = 1 then do {
       life \<leftarrow> r16 K (obj + 0xC);
       w16 K (obj + 0xC) (life - (shr life 7));
       v3 \<leftarrow> r16 K (obj + 0x10);
       let vx = as_s16 v3;
       v4 \<leftarrow> r16 K (obj + 0x14);
       let vz = as_s16 v4;
       v5 \<leftarrow> r16 K (obj + 0x16);
       let vw = as_s16 v5;
       v6 \<leftarrow> r16 K (obj + 0xA);
       let vy0 = as_s16 v6;
       v7 \<leftarrow> r16 K (obj + 0x1E);
       w16 K (obj + 0x1E) (as_s16 v7 + vx);
       v8 \<leftarrow> r16 K (obj + 0x26);
       w16 K (obj + 0x26) (as_s16 v8 + vz);
       v9 \<leftarrow> r16 K (obj + 0x28);
       w16 K (obj + 0x28) (as_s16 v9 + vw);
       v10 \<leftarrow> r16 K (obj + 0x2A);
       w16 K (obj + 0x2A) (as_s16 v10 + vy0);
       v11 \<leftarrow> r16 K (obj + 0x12);
       let g_prev = as_s16 v11;
       v12 \<leftarrow> r16 K (obj + 0x1A);
       let g_add = as_s16 v12;
       v13 \<leftarrow> r16 K (obj + 0x2C);
       w16 K (obj + 0x2C) (as_s16 v13 + g_add);
       v14 \<leftarrow> r16 K (obj + 0x18);
       let g_new = as_s16 (g_prev + as_s16 v14);
       w16 K (obj + 0x12) g_new;
       v15 \<leftarrow> r32 K (obj + 0x20);
       w32 K (obj + 0x20) (v15 + g_prev * 0x100);
       v16 \<leftarrow> r16 K (obj + 0x2E);
       let threshold = as_s16 v16;
       v17 \<leftarrow> r16 K (obj + 0x8);
       let timer = as_s16 v17;
       w16 K (obj + 0x8) (timer - 1);
       only_if (threshold + 0x800 <s g_new \<or> timer = 1) (w8 K (obj + 4) 3)
     }
      else if st = 0 then do {
        w8 K (obj + 4) 1;
        flag \<leftarrow> r8 K (obj + 1);
        patt \<leftarrow> r8 K (obj + 2);
        let seed = as_s16 ((patt AND 1) + 2);
        v20 \<leftarrow> r8 K (obj + 0x33);
        w8 K (obj + 0xE) v20;
        w16 K (obj + 0x14) seed;
        w16 K (obj + 0x10) seed;
        v21 \<leftarrow> r16 K (obj + 0x10);
        v22 \<leftarrow> object_table_prng K;
        w16 K (obj + 0x10) (as_s16 v21 + (as_s16 (v22 AND 3)));
        v23 \<leftarrow> r16 K (obj + 0x14);
        v24 \<leftarrow> object_table_prng K;
        w16 K (obj + 0x14) (as_s16 v23 + (as_s16 (v24 AND 3)));
        let pattTable = (if (flag AND 2) = 0 then PATTERN_TBL_A else PATTERN_TBL_B);
        (if (flag AND 1) = 0 then do {
          w16 K (obj + 0x8) 0x30;
          v25 \<leftarrow> r16 K (obj + 0x10);
          let vx0 = as_s16 v25;
          v26 \<leftarrow> r16 K (obj + 0x14);
          let vz0 = as_s16 v26;
          v27 \<leftarrow> r16 K (pattTable + ((patt AND 7) * 2));
          let mx = as_s16 v27;
          v28 \<leftarrow> r16 K (pattTable + (((patt + 6) AND 7) * 2));
          let mz = as_s16 v28;
          w16 K (obj + 0x10) ((vx0 * 4) * mx);
          w16 K (obj + 0x14) ((vz0 * 4) * mz);
          v29 \<leftarrow> object_table_prng K;
          let jitter = as_s16 ((((v29 AND 3) + 1) * (-8)) - 0x20);
          w16 K (obj + 0x12) (jitter * 0x100);
          w16 K (obj + 0x18) 0x300
        }
         else do {
           w16 K (obj + 0x8) 0x18;
           w16 K (obj + 0x12) 0xE000;
           w16 K (obj + 0x18) 0x400;
           v30 \<leftarrow> r16 K (obj + 0x10);
           let vx0 = as_s16 v30;
           v31 \<leftarrow> r16 K (obj + 0x14);
           let vz0 = as_s16 v31;
           v32 \<leftarrow> r16 K (pattTable + ((patt AND 7) * 2));
           let mx = as_s16 v32;
           v33 \<leftarrow> r16 K (pattTable + (((patt + 6) AND 7) * 2));
           let mz = as_s16 v33;
           w16 K (obj + 0x10) ((vx0 * 2) * mx);
           w16 K (obj + 0x14) ((vz0 * 2) * mz)
         });
        v34 \<leftarrow> r16 K (obj + 0x10);
        v35 \<leftarrow> r16 K (obj + 0x14);
        let combined = as_s16 ((v34 OR v35) * 0x14);
        w16 K (obj + 0x1A) combined;
        w16 K (obj + 0xA) combined;
        w16 K (obj + 0x16) combined;
        v36 \<leftarrow> r16 K (DAMPEN_TBL + patt * 2);
        w16 K (obj + 0x16) (combined * (as_s16 v36));
        v37 \<leftarrow> r16 K (obj + 0xA);
        v38 \<leftarrow> r16 K (DAMPEN_TBL_2 + patt * 2);
        w16 K (obj + 0xA) ((as_s16 v37) * (as_s16 v38));
        v39 \<leftarrow> r16 K (GRAVITY_TBL + patt * 2);
        let gravityScale = as_s16 v39;
        w16 K (obj + 0x28) 0;
        w16 K (obj + 0x2A) 0;
        w16 K (obj + 0x2C) 0;
        v40 \<leftarrow> r16 K (obj + 0x12);
        w16 K (obj + 0x2E) (- (as_s16 v40));
        v41 \<leftarrow> r16 K (obj + 0x1A);
        w16 K (obj + 0x1A) ((as_s16 v41) * gravityScale)
      }
       else if st = 3 then do { setr K 4 obj; call_guest K LEAF_POOL_RETURN }
        else State_Monad.return ())
   }"

definition object_table_dispatch :: "'c core_ops \<Rightarrow> ('c, unit) state" where
  "object_table_dispatch K = do {
     let body = (\<lambda>_. do {
       let obj = TABLE_BASE;
       obj \<leftarrow> fold_each (upto_u32 (nat (sint SLOT_COUNT))) obj (\<lambda>i obj. do {
         v1 \<leftarrow> r8 K (obj + 0);
         (if v1 = 0 then State_Monad.return (obj + object_table_SLOT_STRIDE)
          else do {
            idx \<leftarrow> r8 K (obj + 1);
            fn \<leftarrow> r32 K (HANDLER_TABLE + shl idx 2);
            setr K 4 obj;
            (if fn = H_27254 then do {
              object_table_handler27254 K obj;
              State_Monad.return (obj + object_table_SLOT_STRIDE)
            }
             else do {
               call_guest K fn;
               State_Monad.return (obj + object_table_SLOT_STRIDE)
             })
          })
       });
       State_Monad.return ()
     });
     body () 
   }"

section \<open>\<open>game/world/placement.cpp\<close>\<close>

definition place_select_table :: "'c core_ops \<Rightarrow> ('c, u32) state" where
  "place_select_table K = do {
     area \<leftarrow> r8 K 0x800BF870;
     sub1 \<leftarrow> r8 K 0x800BF871;
     (if area = 5 \<and> as_u8 (sub1 - 1) < 3 then State_Monad.return 0x8013C1A4
      else if area = 1 \<and> 15 \<le> sub1 then State_Monad.return 0x80134918
       else if area = 6 then (if sub1 < 6 then State_Monad.return 0x801437AC
        else if sub1 < 9 then State_Monad.return 0x80143ACC
         else State_Monad.return 0x80143AE0)
        else if area = 8 then (if sub1 < 9 then State_Monad.return 0x8014304C
         else if sub1 < 16 then State_Monad.return 0x801432B8
          else if sub1 < 21 then State_Monad.return 0x80143470
           else State_Monad.return 0x80143614)
         else if area = 0x15 then (if sub1 = 0 then State_Monad.return 0x80115004
          else if sub1 = 1 then State_Monad.return 0x80115018
           else if sub1 = 2 then State_Monad.return 0x801150F4
            else if sub1 = 3 then State_Monad.return 0x80115180
             else if sub1 = 4 then State_Monad.return 0x801151F8
              else State_Monad.return 0x80115310)
          else do {
            v3 \<leftarrow> r16 K 0x800BF870;
            (if v3 = 0x704 then State_Monad.return 0 else r32 K (0x800A4C28 + area * 4))
          })
   }"

definition place_deg2ang :: "'c core_ops \<Rightarrow> u32 \<Rightarrow> ('c, u32) state" where
  "place_deg2ang K deg = do {
     let v1 = shl deg 12;
     let prod1 = (scast v1 :: 64 word) * (0xB60B60B7 :: 64 word);
     let hi = (ucast (drop_bit 32 prod1) :: u32);
     let v0 = sar 8 (hi + v1);
     let r = v0 - (sar 31 v1);
     State_Monad.return (as_u16 (r AND 0xFFF))
   }"

definition place_objects :: "'c core_ops \<Rightarrow> ('c, unit) state" where
  "place_objects K = do {
     rec \<leftarrow> place_select_table K;
     v2 \<leftarrow> r8 K rec;
     (if rec = 0 \<or> v2 = 0xFF then State_Monad.return ()
      else do {
        area \<leftarrow> r8 K 0x800BF870;
        rec \<leftarrow> loop (\<lambda>rec. do {
          v4 \<leftarrow> r16 K (rec + 0x0E);
          let cond = as_s16 v4;
          let skip = False;
          skip \<leftarrow> (if cond = 1 then do {
            bits \<leftarrow> r16 K 0x800BFE56;
            State_Monad.return (if ((shr bits (unat (area AND 0x1F))) AND 1) \<noteq> 0 then True
                else skip)
          }
           else if cond = 2 then do {
             v6 \<leftarrow> r8 K 0x800BF873;
             State_Monad.return (if v6 \<noteq> 0 then True else skip)
           }
            else State_Monad.return skip);
          only_if (\<not> skip) (do {
            cls \<leftarrow> r8 K (rec + 1);
            v8 \<leftarrow> r8 K rec;
            node \<leftarrow> spawn_dispatch K (v8 AND 0x7F) (if cls = 3 then 3 else cls) (if cls
                = 3 then 1 else 0);
            only_if (node \<noteq> 0) (do {
              v10 \<leftarrow> r8 K rec;
              w8 K (node + 0x28) v10;
              v11 \<leftarrow> r32 K (rec + 0x10);
              w32 K (node + 0x1C) v11;
              v12 \<leftarrow> r8 K (rec + 8);
              w8 K (node + 0x02) v12;
              v13 \<leftarrow> r8 K (rec + 9);
              w8 K (node + 0x03) v13;
              v14 \<leftarrow> r16 K (rec + 2);
              w16 K (node + 0x2E) v14;
              v15 \<leftarrow> r16 K (rec + 4);
              w16 K (node + 0x32) v15;
              w16 K (node + 0x54) 0;
              v16 \<leftarrow> r16 K (rec + 6);
              w16 K (node + 0x36) v16;
              v17 \<leftarrow> r16 K (rec + 0x0A);
              v18 \<leftarrow> place_deg2ang K (as_s16 v17);
              w16 K (node + 0x56) v18;
              v19 \<leftarrow> r16 K (rec + 0x0C);
              v20 \<leftarrow> place_deg2ang K (as_s16 v19);
              w16 K (node + 0x58) v20
            })
          });
          let rec = rec + 0x14;
          v21 \<leftarrow> r8 K rec;
          (if v21 \<noteq> 0xFF then State_Monad.return (Inr rec)
           else State_Monad.return (Inl rec))
        }) rec;
        State_Monad.return ()
      })
   }"

definition placement_place_area_objects :: "'c core_ops \<Rightarrow> ('c, unit) state" where
  "placement_place_area_objects K = place_objects K"

definition spawn_with_parent :: "'c core_ops \<Rightarrow> ('c, u32) state" where
  "spawn_with_parent K = do {
     parent \<leftarrow> reg K 4;
     ty \<leftarrow> reg K 5;
     r6_3 \<leftarrow> reg K 6;
     let cls = r6_3 AND 0xFF;
     flag \<leftarrow> reg K 7;
     node \<leftarrow> spawn_dispatch K (ty AND 0x7F) (if cls = 3 then 3 else cls) (if cls = 3
         then 1 else 0);
     only_if (node \<noteq> 0) (do {
       w8 K (node + 0x28) (ty AND 0xFF);
       w32 K (node + 0x10) parent;
       w8 K (node + 0x02) (flag AND 0xFF)
     });
     State_Monad.return node
   }"

definition placement_spawn_with_parent :: "'c core_ops \<Rightarrow> ('c, unit) state" where
  "placement_spawn_with_parent K = do {
     v1 \<leftarrow> spawn_with_parent K;
     setr K 2 v1
   }"

section \<open>\<open>game/world/pool.cpp\<close>\<close>

definition pool_reset_control_block :: "'c core_ops \<Rightarrow> ('c, unit) state" where
  "pool_reset_control_block K = do {
     let b = (0x800BF808 :: u32);
     setr K 4 b;
     setr K 5 0;
     setr K 6 104;
     _ \<leftarrow> guest_call K 0x8009A420 [];
     a4 \<leftarrow> r8 K 0x800BF8B0;
     a5 \<leftarrow> r8 K 0x800BF8B1;
     w8 K (b + 41) 255;
     w8 K (b + 40) 255;
     let S1 = (0x1F800000 :: u32);
     w8 K (S1 + 638) 0;
     w32 K (S1 + 584) 0;
     w8 K (S1 + 582) 0;
     w32 K (S1 + 588) 0;
     w8 K (S1 + 592) 0;
     w8 K (S1 + 601) 0;
     w8 K (S1 + 602) 0;
     w8 K (S1 + 603) 0;
     w8 K (S1 + 634) 0;
     w8 K (S1 + 560) 0;
     w8 K (b + 7) 1;
     w8 K (S1 + 310) 0;
     w8 K (S1 + 311) 0;
     w32 K (S1 + 388) 0;
     w32 K (S1 + 532) 0;
     w32 K (S1 + 520) 0;
     w32 K (S1 + 640) 0;
     w8 K (S1 + 561) 0;
     w8 K (S1 + 593) 0;
     w8 K (S1 + 562) 0;
     w8 K (S1 + 595) 0;
     w8 K (S1 + 563) 0;
     w8 K (S1 + 571) 0;
     scene_transition_area_mask_trigger K (as_u8 a4) (as_u8 a5);
     mode_state_arm_arm_from_area_table K;
     v \<leftarrow> r8 K (S1 + 566);
     let arg = as_u8 (if v = 0 \<or> v - 7 < 2 then 0 else 0xFF);
     mode_state_arm_arm K arg arg arg;
     w8 K 0x800BF9D4 0;
     setr K 2 0x800C0000
   }"

definition pool_seed_area_objects :: "'c core_ops \<Rightarrow> ('c, unit) state" where
  "pool_seed_area_objects K = do {
     area \<leftarrow> r8 K 0x800BF870;
     s0 \<leftarrow> r32 K (0x8009D414 + area * 4);
     v3 \<leftarrow> r8 K s0;
     only_if (v3 \<noteq> 0xFF) (do {
       s0 \<leftarrow> loop (\<lambda>s0. do {
         _ \<leftarrow> guest_call K 0x8007AD98 [];
         rec \<leftarrow> reg K 2;
         w8 K (rec + 0) 1;
         b \<leftarrow> r8 K s0;
         let s0 = s0 + 1;
         w8 K (rec + 2) b;
         v6 \<leftarrow> r8 K s0;
         (if v6 \<noteq> 0xFF then State_Monad.return (Inr s0)
          else State_Monad.return (Inl s0))
       }) s0;
       State_Monad.return ()
     });
     setr K 2 0xFF
   }"

definition pool_reset75240 :: "'c core_ops \<Rightarrow> ('c, unit) state" where
  "pool_reset75240 K = do {
     let b = (0x800BE1F8 :: u32);
     _ \<leftarrow> guest_call K 0x80075D58 [];
     w16 K (b + 42) 0x7FFF;
     w16 K (b + 44) 0x7FFF;
     w16 K (b + 46) 0x1FFF;
     w16 K (b + 48) 0x1FFF;
     w32 K (b + 0) 768;
     w32 K (b + 24) 0;
     w32 K (b + 20) 0;
     setr K 4 b;
     _ \<leftarrow> guest_call K 0x80075824 [];
     setr K 4 b;
     _ \<leftarrow> guest_call K 0x80099490 [];
     w32 K (b + 0) 0;
     w8 K (b + 50) 0;
     w8 K (b + 51) 0
   }"

definition pool_setup_view_scroll :: "'c core_ops \<Rightarrow> ('c, unit) state" where
  "pool_setup_view_scroll K = do {
     let S0 = (0x800E7E80 :: u32);
     let A = (0x800BF870 :: u32);
     _ \<leftarrow> guest_call K 0x80048D3C [];
     w8 K S0 3;
     w16 K (S0 + 370) 60;
     v1 \<leftarrow> r8 K (A + 16);
     (if v1 = 0 then do {
       v \<leftarrow> r8 K (A + 13);
       w16 K (S0 + 366) v;
       w16 K (S0 + 368) v
     }
      else do {
        v \<leftarrow> r16 K 0x1F800194;
        w8 K (A + 16) 0;
        w16 K (S0 + 366) v;
        w16 K (S0 + 368) v
      });
     v4 \<leftarrow> r8 K (A + 28);
     w8 K (S0 + 108) v4;
     v5 \<leftarrow> r8 K (A + 29);
     w8 K (S0 + 109) v5;
     v6 \<leftarrow> r16 K (A + 46);
     w16 K (S0 + 382) v6;
     v7 \<leftarrow> r8 K (A + 17);
     w8 K (S0 + 372) v7;
     mode \<leftarrow> r8 K A;
     (if mode = 3 then do {
       setr K 4 0;
       setr K 5 3;
       setr K 6 4;
       setr K 7 27;
       placement_spawn_with_parent K;
       v0 \<leftarrow> reg K 2;
       w32 K (v0 + 28) 0x8010B37C;
       w32 K (S0 + 16) v0
     }
      else do {
        v10 \<leftarrow> r8 K 0x1F800134;
        (if v10 \<noteq> 0 then do {
          vb \<leftarrow> r8 K (A + 1480);
          v12 \<leftarrow> r32 K (A + 32);
          w32 K (S0 + 44) v12;
          v13 \<leftarrow> r32 K (A + 36);
          w32 K (S0 + 48) v13;
          v14 \<leftarrow> r32 K (A + 40);
          w32 K (S0 + 52) v14;
          w8 K 0x1F800134 0;
          w8 K (S0 + 348) 0;
          w8 K (S0 + 42) vb
        }
         else do {
           tbl \<leftarrow> r32 K (0x800A54A8 + mode * 4);
           v16 \<leftarrow> r8 K (A + 1);
           let a0 = tbl + v16 * 8;
           v17 \<leftarrow> r16 K (a0 + 0);
           let h0 = as_s16 v17;
           v18 \<leftarrow> r16 K (S0 + 382);
           let s17e = as_s16 v18;
           w32 K (S0 + 44) (shl h0 16);
           v19 \<leftarrow> r16s K (a0 + 2);
           w32 K (S0 + 48) (shl v19 16);
           only_if (s17e <s 0) (do {
             v20 \<leftarrow> r16 K (S0 + 50);
             w16 K (S0 + 50) (v20 + 70)
           });
           v21 \<leftarrow> r16s K (a0 + 4);
           w32 K (S0 + 52) (shl v21 16);
           a0h \<leftarrow> r16 K (a0 + 6);
           w8 K (S0 + 42) (a0h AND 0x7F);
           w8 K (S0 + 348) ((shr a0h 7) AND 1);
           w8 K (S0 + 327) ((shr a0h 8) AND 1);
           only_if ((a0h AND 0x800) \<noteq> 0) (do {
             w8 K 0x800BF816 1;
             w8 K 0x800BF817 (shr ((as_s16 a0h) AND 0xF000) 12)
           })
         });
        s \<leftarrow> r8 K 0x1F800236;
        only_if (s - 5 < 2) (do {
          v24 \<leftarrow> r16 K (S0 + 50);
          w16 K (S0 + 50) (v24 - 1000)
        })
      });
     v25 \<leftarrow> r8 K (S0 + 42);
     w8 K 0x1F800207 v25;
     v26 \<leftarrow> r16 K (S0 + 46);
     w16 K 0x1F800160 v26;
     v27 \<leftarrow> r16 K (S0 + 50);
     w16 K 0x1F800162 v27;
     v28 \<leftarrow> r16 K (S0 + 54);
     w16 K 0x1F800164 v28;
     setr K 2 0x1F800000
   }"

definition pool_final_view_init :: "'c core_ops \<Rightarrow> ('c, unit) state" where
  "pool_final_view_init K = do {
     let E = (0x800E8008 :: u32);
     let V = (0x800E7E80 :: u32);
     let P1 = (0x1F8000D0 :: u32);
     mtx_identity K 0x1F8000F8;
     mtx_identity K 0x1F800118;
     w16 K (P1 + 30) (-1750);
     w16 K (P1 + 28) 4096;
     w16 K (P1 + 24) 0;
     w16 K (P1 + 26) 0;
     w16 K (P1 + 32) 0;
     w16 K (P1 + 34) 0;
     w16 K (P1 + 36) 0;
     w16 K (E + 112) 1024;
     w32 K (E + 88) 0;
     w32 K (E + 32) 0;
     w32 K (E + 36) 0;
     w32 K (E + 40) 0;
     w32 K (E + 20) 0;
     w32 K (E + 24) 0;
     w16 K (E + 110) 256;
     a1 \<leftarrow> r32 K (V + 48);
     a2 \<leftarrow> r32 K (V + 44);
     a3 \<leftarrow> r32 K (V + 52);
     w16 K (E + 108) 1750;
     w32 K (P1 + 16) a1;
     w32 K (P1 + 12) a2;
     w32 K (P1 + 20) a3;
     w32 K (E + 8) a1;
     let a1 = a1 + 0xFEC00000;
     w32 K (E + 16) a3;
     let a3 = a3 + 0xF92A0000;
     w32 K (E + 12) a2;
     w32 K (P1 + 0) a2;
     w32 K (P1 + 4) a1;
     w32 K (P1 + 8) a3;
     setr K 4 E;
     setr K 5 a1;
     setr K 6 a2;
     setr K 7 a3;
     _ \<leftarrow> guest_call K 0x8006D02C [];
     v4 \<leftarrow> r8 K 0x800BF870;
     let v0 = (if v4 = 3 then 233 else (350 :: u32));
     w16 K 0x801003F8 v0;
     setr K 2 0x80100000;
     v5 \<leftarrow> r16s K 0x801003F8;
     setr K 4 v5;
     _ \<leftarrow> guest_call K 0x800846F0 [];
     State_Monad.return ()
   }"

definition pool_select_state_index :: "'c core_ops \<Rightarrow> u32 \<Rightarrow> ('c, unit)
    state" where
  "pool_select_state_index K area = do {
     setr K 4 area;
     v1 \<leftarrow> r8 K 0x1F800137;
     (if v1 = 1 then setr K 2 1
      else do {
        m \<leftarrow> r8 K 0x800BF870;
        (if m = 21 then setr K 2 21
         else do {
           r4_3 \<leftarrow> reg K 4;
           let q = r4_3 AND 0xFF;
           let s0 = (0 :: u32);
           let have1 = False;
           v4 \<leftarrow> r8 K 0x800BF873;
           let (s0, have1) = (if m \<noteq> 15 \<and> v4 \<noteq> 0 then ((42 :: u32), True) else
               (s0, have1));
           (s0, have1) \<leftarrow> (if \<not> have1 \<and> q = 6 then do {
             p \<leftarrow> r8 K 0x800BF871;
             let (s0, have1) = (if 9 \<le> p \<and> p < 15 then ((10 :: u32), True) else (s0,
                 have1));
             State_Monad.return (s0, have1)
           }
            else State_Monad.return (s0, have1));
           s0 \<leftarrow> (if \<not> have1 then do {
             w \<leftarrow> r16 K 0x800BFE56;
             let tbl = (if ((shr w (unat (q AND 31))) AND 1) \<noteq> 0 then 0x800A4F68 else
                 (0x800A4F50 :: u32));
             r8 K (tbl + q)
           }
            else State_Monad.return s0);
           _ \<leftarrow> audio_dispatch_dispatch3_way K s0 1;
           w8 K 0x1F80023B s0;
           w8 K 0x800BE22B 0;
           setr K 2 0x800C0000
         })
      })
   }"

end
