(* ===== verification/MotionActors.thy ===== *)
theory MotionActors
  imports CullWrappers MeleeCombat ModelBinding PlayerCollision WorldTables
begin

text \<open>
  Behaviour handlers that move or animate: sine motion, typed initialisers, timers and animation
  gates.
\<close>

section \<open>Layout\<close>

definition A1_MODEL :: u32 where "A1_MODEL = 0x8014C808"
definition A1_M0 :: u32 where "A1_M0 = 0x8014C808"
definition A1_M2 :: u32 where "A1_M2 = 0x80017334"
definition Sta_Despawn :: u32 where "Sta_Despawn = 3"
definition Sta_Idle :: u32 where "Sta_Idle = 2"
definition TBL_AREA_SIZE :: u32 where "TBL_AREA_SIZE = 0x800A4C94"
definition TBL_SCENE_ID :: u32 where "TBL_SCENE_ID = 0x800A4CA8"
definition CUR_AREA :: u32 where "CUR_AREA = 0x800BF870"
definition AREA_MODE_BYTE :: u32 where "AREA_MODE_BYTE = 0x800BF873"
definition SCENE_MASK_HW :: u32 where "SCENE_MASK_HW = 0x800BFE56"
definition SCENE_STATE_87 :: u32 where "SCENE_STATE_87 = 0x800BF907"
definition SCENE_STATE_43 :: u32 where "SCENE_STATE_43 = 0x800BF8C3"
definition PAD_EDGE_HW :: u32 where "PAD_EDGE_HW = 0x800E7E68"
definition PAD_CUR_HW :: u32 where "PAD_CUR_HW = 0x1F800174"
definition SPECIAL_AREA_TAG :: u32 where "SPECIAL_AREA_TAG = 0x800E7E85"

section \<open>\<open>game/ai/beh_actor_move_sm.cpp\<close>\<close>

definition beh_actor_move_sm :: "'c core_ops \<Rightarrow> ('c, unit) state" where
  "beh_actor_move_sm K = with_frame K 24 [(16, 16), (31, 20)] (loop (\<lambda>(pc1, nd). (if pc1 =
      ''start'' then do {
     nd \<leftarrow> reg K 4;
     st \<leftarrow> r8 K (nd + 4);
     (if st \<noteq> 1 then (if st < 2 then do {
       only_if (st = 0) (do {
         _ \<leftarrow> guest_call K 0x8011DCAC [nd];
         State_Monad.return ()
       });
       State_Monad.return (Inl ())
     }
      else if st \<noteq> 2 then (if st \<noteq> 3 then State_Monad.return (Inl ())
       else do {
         f \<leftarrow> r8 K (nd + 0x1B);
         (if (f AND 0x40) \<noteq> 0 then do {
           w8 K (nd + 0x1B) (f AND 0xBF);
           State_Monad.return (Inl ())
         }
          else do {
            v4 \<leftarrow> r32 K (nd + 0x10);
            w32 K (v4 + 0xC) 0;
            despawn K nd;
            State_Monad.return (Inl ())
          })
       })
       else do {
         _ \<leftarrow> dispatch_jal K 0x8007778C 0x8011DBA4 [nd];
         n5 \<leftarrow> r8 K (nd + 5);
         bf809 \<leftarrow> r8 K 0x800BF809;
         s137 \<leftarrow> r8 K 0x1F800137;
         (if ((n5 = 0 \<or> n5 = 4) \<or> n5 = 5) \<or> n5 = 6 then do {
           only_if (bf809 = 0 \<and> s137 = 0) (do {
             _ \<leftarrow> guest_call K 0x801206F4 [nd];
             State_Monad.return ()
           });
           State_Monad.return (Inr (''Lcommon'', nd))
         }
          else if n5 = 1 then do {
            _ \<leftarrow> guest_call K 0x8012175C [nd];
            State_Monad.return (Inr (''Lcommon'', nd))
          }
           else if n5 = 0xB then do {
             _ \<leftarrow> guest_call K 0x801217F4 [nd];
             v8 \<leftarrow> guest_call K 0x80080750 [nd, 0, 0];
             (if v8 \<noteq> 0 then do { w8 K (nd + 4) 3; State_Monad.return (Inl ()) }
              else do {
                w8 K (nd + 5) 2;
                _ \<leftarrow> guest_call K 0x80120A64 [nd];
                State_Monad.return (Inr (''Lcommon'', nd))
              })
           }
            else do {
              only_if ((n5 = 2 \<or> n5 = 7) \<or> n5 = 8) (do {
                _ \<leftarrow> guest_call K 0x80120A64 [nd];
                State_Monad.return ()
              });
              State_Monad.return (Inr (''Lcommon'', nd))
            })
       })
      else do {
        _ \<leftarrow> dispatch_jal K 0x8007778C 0x8011D9F4 [nd];
        v9 \<leftarrow> r8 K (nd + 0x2B);
        (if v9 \<noteq> 0 then do {
          v10 \<leftarrow> r8 K (nd + 0x2B);
          w8 K (nd + 0x2B) (v10 - 1);
          State_Monad.return (Inr (''Lcommon'', nd))
        }
         else do {
           n5 \<leftarrow> r8 K (nd + 5);
           bf809 \<leftarrow> r8 K 0x800BF809;
           s137 \<leftarrow> r8 K 0x1F800137;
           n3 \<leftarrow> r8 K (nd + 3);
           (if n5 = 0 then do {
             animation_step K nd;
             (if n3 \<noteq> 3 \<and> (bf809 \<noteq> 0 \<or> s137 \<noteq> 0) then
                 State_Monad.return (Inr (''after3'', nd))
              else do {
                (if (n3 AND 1) = 0 then do {
                  _ \<leftarrow> guest_call K 0x8011DFC0 [nd];
                  State_Monad.return ()
                }
                 else do {
                   _ \<leftarrow> guest_call K 0x8011E340 [nd];
                   State_Monad.return ()
                 });
                State_Monad.return (Inr (''Ldb74'', nd))
              })
           }
            else if n5 = 1 then (if n3 = 3 then do {
              _ \<leftarrow> guest_call K 0x8011F088 [nd];
              State_Monad.return (Inr (''Ldb74'', nd))
            }
             else if bf809 \<noteq> 0 \<or> s137 \<noteq> 0 then State_Monad.return (Inr
                 (''after3'', nd))
              else do {
                _ \<leftarrow> guest_call K 0x8011EAD0 [nd];
                State_Monad.return (Inr (''Ldb74'', nd))
              })
             else if n5 = 2 then do {
               only_if (bf809 = 0) (do {
                 _ \<leftarrow> guest_call K 0x8011F278 [nd];
                 State_Monad.return ()
               });
               State_Monad.return (Inr (''after3'', nd))
             }
              else if n5 = 3 then do {
                only_if (n3 = 3 \<or> (bf809 = 0 \<and> s137 = 0)) (do {
                  _ \<leftarrow> guest_call K 0x8011F998 [nd];
                  animation_step K nd;
                  animation_step K nd;
                  animation_step K nd
                });
                State_Monad.return (Inr (''after3'', nd))
              }
               else if n5 = 4 then do {
                 _ \<leftarrow> guest_call K 0x8011FC78 [nd];
                 State_Monad.return (Inr (''Ldb74'', nd))
               }
                else do {
                  only_if (n5 = 5) (do {
                    animation_step K nd;
                    _ \<leftarrow> guest_call K 0x80120C50 [nd];
                    State_Monad.return ()
                  });
                  State_Monad.return (Inr (''after3'', nd))
                })
         })
      })
   }
    else if pc1 = ''after3'' then State_Monad.return (Inr (''after1'', nd))
     else if pc1 = ''after1'' then State_Monad.return (Inr (''Lcommon'', nd))
      else if pc1 = ''Lcommon'' then do {
        w8 K (nd + 0x29) 0;
        v15 \<leftarrow> r8 K (nd + 1);
        only_if (v15 \<noteq> 0) (node_xform_build_with_offset K nd);
        State_Monad.return (Inr (''after_all'', nd))
      }
       else if pc1 = ''Ldb74'' then do {
         _ \<leftarrow> guest_call K 0x8012185C [nd];
         State_Monad.return (Inr (''after1'', nd))
       }
        else State_Monad.return (Inl ()))) (''start'', (0 :: u32)))"

section \<open>\<open>game/ai/beh_anim_trigger_gates.cpp\<close>\<close>

definition beh_anim_trigger_gates :: "'c core_ops \<Rightarrow> ('c, unit) state" where
  "beh_anim_trigger_gates K = with_frame K 24 [(16, 16), (31, 20)] (do {
     let Lret = (State_Monad.return ());
     let Ldd4 = (\<lambda>obj. do {
       v1 \<leftarrow> r8 K 0x800BF816;
       (if v1 = 0 then do { w8 K (obj + 4) 3; Lret }
        else do {
          v2 \<leftarrow> r8 K 0x800BF8BC;
          (if v2 = 255 then do { w8 K (obj + 4) 3; Lret }
           else do {
             v3 \<leftarrow> r8 K (obj + 5);
             v4 \<leftarrow> r8 K (obj + 8);
             only_if (v3 = 0 \<and> v4 \<noteq> 0) (do {
               let a2 = obj;
               let a0i = (0 :: u32);
               (a2, a0i) \<leftarrow> loop (\<lambda>(a2, a0i). do {
                 rec \<leftarrow> r32 K (a2 + 0xC0);
                 v6 \<leftarrow> r16s K (rec + 8);
                 only_if (v6 <s -127) (do {
                   v7 \<leftarrow> r16 K (rec + 8);
                   w16 K (rec + 8) (v7 + 16)
                 });
                 let a0i = a0i + 1;
                 let a2 = a2 + 4;
                 v8 \<leftarrow> r8 K (obj + 8);
                 (if a0i <s v8 then State_Monad.return (Inr (a2, a0i))
                  else State_Monad.return (Inl (a2, a0i)))
               }) (a2, a0i);
               State_Monad.return ()
             });
             w8 K (obj + 1) 1;
             _ \<leftarrow> guest_call K 0x80051C8C [obj];
             Lret
           })
        })
     });
     let Ld98 = (\<lambda>obj. do {
       rec \<leftarrow> r32 K (obj + 0xC0);
       v10 \<leftarrow> r16 K (rec + 12);
       w16 K (rec + 12) (v10 + 16);
       setr K 4 obj;
       graphics_bind_render_update K;
       Lret
     });
     let Ld60 = (\<lambda>obj. do {
       val \<leftarrow> r8 K 0x800E7EAA;
       (if \<not> (val - 23 < 5) then Lret
        else do {
          b \<leftarrow> r8 K 0x800E7FC7;
          (if b \<noteq> 1 then Lret else do { w8 K (obj + 1) b; Ld98 obj })
        })
     });
     let Ld44 = (\<lambda>obj. do {
       v13 \<leftarrow> r8 K (obj + 1);
       (if v13 = 0 then Lret else Ld98 obj)
     });
     let Ld3c = (\<lambda>obj. do {
       _ \<leftarrow> guest_call K 0x8007778C [obj];
       Ld44 obj
     });
     let Lce0 = (\<lambda>obj. do {
       val \<leftarrow> r8 K 0x800E7EAA;
       (if val = 31 then do {
         v15 \<leftarrow> r16s K 0x800E7EB6;
         only_if (v15 <s 8710) (w8 K (obj + 1) 1);
         Ld44 obj
       }
        else if as_u8 (val - 26) < 5 then do {
          b \<leftarrow> r8 K 0x800E7FC7;
          (if b = 1 then do { w8 K (obj + 1) b; Ld44 obj }
           else Ld3c obj)
        }
         else Ld3c obj)
     });
     let Lcb0 = (\<lambda>obj. do {
       v1 \<leftarrow> r8 K (obj + 3);
       (if \<not> (v1 < 5) then Lret
        else if v1 = 0 then Lce0 obj
         else if v1 = 1 then Ld60 obj
          else if v1 = 2 then do { _ \<leftarrow> guest_call K 0x80129160 [obj]; Lret }
           else if v1 = 3 then do { _ \<leftarrow> guest_call K 0x801292E4 [obj]; Lret }
            else Ldd4 obj)
     });
     let Lc50 = (\<lambda>obj. do {
       v1 \<leftarrow> r8 K (obj + 3);
       (if v1 = 3 then do { _ \<leftarrow> guest_call K 0x8012982C [obj]; Lret }
        else if v1 < 4 then (if as_s8 v1 <s 0 then Lret
         else do { _ \<leftarrow> guest_call K 0x801296E0 [obj]; Lret })
         else if v1 = 4 then do { _ \<leftarrow> guest_call K 0x80129984 [obj]; Lret }
          else Lret)
     });
     obj \<leftarrow> reg K 4;
     st \<leftarrow> r8 K (obj + 4);
     (if st = 1 then Lcb0 obj
      else if st < 2 then (if st = 0 then Lc50 obj else Lret)
       else if st = 2 then Lret
        else if st = 3 then do { despawn K obj; Lret }
         else Lret)
   })"

section \<open>\<open>game/ai/beh_flagbit_timer_machine.cpp\<close>\<close>

definition beh_flagbit_timer_machine :: "'c core_ops \<Rightarrow> ('c, unit) state" where
  "beh_flagbit_timer_machine K = with_frame K 32 [(17, 20), (31, 24), (16, 16)] (do {
     let Lret = (State_Monad.return ());
     let L50c = (\<lambda>nd. do {
       w8 K (nd + 0x29) 0;
       w8 K (nd + 0x2B) 0;
       Lret
     });
     let L4f8 = (\<lambda>nd. do {
       _ \<leftarrow> guest_call K 0x8013B024 [nd, 31];
       _ \<leftarrow> guest_call K 0x800518FC [nd];
       L50c nd
     });
     let L4cc = (\<lambda>nd. do {
       v1 \<leftarrow> r16 K (nd + 0x40);
       let v = as_u16 (v1 - 1);
       w16 K (nd + 0x40) v;
       (if v \<noteq> 0 then L4f8 nd
        else do {
          n6 \<leftarrow> r8 K (nd + 6);
          w8 K (nd + 0) 2;
          w8 K (nd + 6) (n6 + 1);
          L4f8 nd
        })
     });
     let L484 = (\<lambda>nd. do {
       v3 \<leftarrow> r8 K (nd + 0x2B);
       (if v3 \<noteq> 3 then L4f8 nd
        else do {
          w16 K (nd + 0x40) 30;
          n6 \<leftarrow> r8 K (nd + 6);
          n5e \<leftarrow> r8 K (nd + 0x5E);
          w8 K (nd + 6) (n6 + 1);
          let a0 = (if n5e \<noteq> 0 then 97 else (98 :: u32));
          _ \<leftarrow> guest_call K 0x8004ED94 [a0, 65];
          w8 K 0x800BF809 1;
          L4f8 nd
        })
     });
     let L42c = (\<lambda>nd s0. do {
       v6 \<leftarrow> guest_call K 0x8007778C [nd];
       (if v6 = 0 then L50c nd
        else do {
          animation_step K nd;
          n6 \<leftarrow> r8 K (nd + 6);
          (if n6 = s0 then L4cc nd
           else if n6 < 2 then (if n6 = 0 then L484 nd else L4f8 nd)
            else if n6 \<noteq> 2 then L4f8 nd
             else do {
               w8 K (nd + 0) s0;
               w8 K (nd + 6) 0;
               w8 K 0x800BF809 0;
               L484 nd
             })
        })
     });
     let S0 = (\<lambda>nd. do {
       a2v \<leftarrow> r32 K 0x800ECFD4;
       v9 \<leftarrow> guest_call K 0x800519E0 [nd, 3, a2v, 0x8014AABC];
       (if v9 \<noteq> 0 then Lret
        else do {
          v10 \<leftarrow> r32 K 0x800ECFD8;
          w32 K (nd + 0x3C) v10;
          v11 \<leftarrow> r8 K 0x800BF873;
          (if v11 \<noteq> 0 then do { w8 K (nd + 4) 3; Lret }
           else do {
             v12 \<leftarrow> r8 K 0x800BFA13;
             v13 \<leftarrow> r8 K (nd + 3);
             let bit1 = (shr v12 (unat (v13 AND 31))) AND 1;
             a2c \<leftarrow> (if bit1 \<noteq> 0 then do {
               w8 K (nd + 0x5E) 0;
               State_Monad.return (0 :: u32)
             }
              else do {
                _ \<leftarrow> guest_call K 0x8013AF18 [nd, 1, 31];
                State_Monad.return (1 :: u32)
              });
             _ \<leftarrow> guest_call K 0x80077C40 [nd, 0x8001B7B0, a2c];
             w8 K (nd + 0) 1;
             w16 K (nd + 0x80) 400;
             w16 K (nd + 0x82) 800;
             w16 K (nd + 0x84) 180;
             w16 K (nd + 0x86) 180;
             v14 \<leftarrow> r8 K (nd + 4);
             let nv = v14 + 1;
             n5e \<leftarrow> r8 K (nd + 0x5E);
             w8 K (nd + 0x29) 0;
             w8 K (nd + 0x2B) 0;
             w8 K (nd + 4) nv;
             (if n5e \<noteq> 0 then Lret else do { w8 K (nd + 5) 4; Lret })
           })
        })
     });
     nd \<leftarrow> reg K 4;
     s0 \<leftarrow> r8 K (nd + 4);
     (if s0 = 1 then L42c nd s0
      else if s0 <s 2 then (if s0 = 0 then S0 nd else Lret)
       else if s0 = 2 then Lret
        else if s0 = 3 then do { despawn K nd; Lret }
         else Lret)
   })"

section \<open>\<open>game/ai/beh_id_compare_motion_dispatch.cpp\<close>\<close>

definition beh_id_compare_motion_dispatch_l340 :: "'c core_ops \<Rightarrow> u32 \<Rightarrow> u32
    \<Rightarrow> ('c, unit) state" where
  "beh_id_compare_motion_dispatch_l340 K obj s4 = do {
     w8 K (obj + 0x29) 0;
     w8 K (obj + 0x5F) 0;
     w8 K (s4 + 7) 0
   }"

definition beh_id_compare_motion_dispatch_l290 :: "'c core_ops \<Rightarrow> u32 \<Rightarrow>
    (u32 \<Rightarrow> u32 \<Rightarrow> ('c, 'a) state) \<Rightarrow> u32 \<Rightarrow> ('c, 'a)
    state" where
  "beh_id_compare_motion_dispatch_l290 K obj after_no_cull s4 = do {
     setr K 4 obj;
     cull_cull_wrapper_flag2 K;
     r2_1 \<leftarrow> reg K 2;
     (if r2_1 = 0 then after_no_cull obj s4
      else do {
        v2 \<leftarrow> r8 K (s4 + 7);
        only_if (v2 = 1) (do {
          rr \<leftarrow> rng_next K;
          sfx_trigger K 0x87 (rr AND 3) 0
        });
        cd \<leftarrow> r8 K 0x8014BF5E;
        w8 K 0x8014BF5E (cd - 1);
        only_if (as_s8 cd <s 0) (do {
          v5 \<leftarrow> r16 K (s4 + 8);
          let kind = as_u8 ((shr v5 8) AND 0xF);
          spawn \<leftarrow> (if kind = 1 then State_Monad.return True
           else if kind \<noteq> 2 then State_Monad.return False
            else do {
              v6 \<leftarrow> r16s K (obj + 0x4E);
              State_Monad.return (0x501 \<le>s v6)
            });
          only_if spawn (do {
            gsp \<leftarrow> reg K 29;
            v8 \<leftarrow> r16 K (obj + 0x2E);
            w16 K (gsp + 0x12) v8;
            v9 \<leftarrow> r16 K (s4 + 0xA);
            w16 K (gsp + 0x16) v9;
            v10 \<leftarrow> r16 K (obj + 0x36);
            w16 K (gsp + 0x1A) v10;
            _ \<leftarrow> spawn_and_init K 8 (gsp + 0x10) (- 0x50);
            w8 K 0x8014BF5E 0xA
          });
          w16 K (s4 + 8) 0
        });
        animation_step K obj;
        node_xform_build_with_offset K obj;
        v11 \<leftarrow> r8 K (obj + 0x29);
        (if v11 \<noteq> 0 then do {
          v12 \<leftarrow> r8 K (obj + 0xB);
          w8 K (obj + 0xB) ((v12 AND 0xC0) OR 0x80)
        }
         else do { v13 \<leftarrow> r8 K (obj + 0xB); w8 K (obj + 0xB) (v13 AND 0x3F) });
        after_no_cull obj s4
      })
   }"

definition beh_id_compare_motion_dispatch_l229 :: "'c core_ops \<Rightarrow> u32 \<Rightarrow>
    (u32 \<Rightarrow> 'a \<Rightarrow> ('c, 'b) state) \<Rightarrow> 'a \<Rightarrow> ('c, 'b)
    state" where
  "beh_id_compare_motion_dispatch_l229 K obj second_cull s4 = do {
     setr K 4 obj;
     call_guest K 0x80144928;
     r2_14 \<leftarrow> reg K 2;
     let r = as_u16 r2_14;
     (if r = 0 then second_cull obj s4
      else do {
        v15 \<leftarrow> r8 K (obj + 3);
        (if v15 = 2 then do { w32 K (obj + 4) 0x801; w8 K (obj + 3) 0; second_cull obj s4 }
         else do {
           v16 \<leftarrow> r16 K (obj + 0x2E);
           let a2 = as_s16 v16;
           v17 \<leftarrow> r16 K 0x1F800160;
           let t0 = as_s16 v17;
           v18 \<leftarrow> r16 K (obj + 0x36);
           let s36 = as_s16 v18;
           v19 \<leftarrow> r16 K 0x1F800164;
           let t1 = as_s16 v19;
           setr K 4 (as_s16 (a2 - t0));
           setr K 5 (as_s16 (s36 - t1));
           call_guest K 0x800781E0;
           v20 \<leftarrow> r16 K 0x800E7FFE;
           a1v \<leftarrow> (if (v20 AND 0x8200) \<noteq> 0 then State_Monad.return (-1 :: u32)
            else do {
              r2_21 \<leftarrow> reg K 2;
              let v = as_s16 (as_u16 r2_21);
              State_Monad.return (if 0x641 \<le>s v then (-1 :: u32) else (if 0x44D \<le>s v then
                  (0 :: u32) else (if 0x259 \<le>s v then (1 :: u32) else (2 :: u32))))
            });
           setr K 4 obj;
           setr K 5 a1v;
           call_guest K 0x801409C0;
           v1 \<leftarrow> reg K 2;
           (if (v1 AND 0xFFFF) = 0 then do {
             w32 K (obj + 4) 0x301;
             w8 K (obj + 3) 0;
             second_cull obj s4
           }
            else do {
              w8 K (obj + 5) v1;
              w8 K (obj + 6) 0;
              w8 K (obj + 3) 0;
              second_cull obj s4
            })
         })
      })
   }"

definition beh_id_compare_motion_dispatch_l190 :: "'c core_ops \<Rightarrow> u32 \<Rightarrow>
    (u32 \<Rightarrow> 'a \<Rightarrow> ('c, 'b) state) \<Rightarrow> 'a \<Rightarrow> (u32
    \<Rightarrow> 'a \<Rightarrow> ('c, 'b) state) \<Rightarrow> (u32 \<Rightarrow> 'a
    \<Rightarrow> ('c, 'b) state) \<Rightarrow> ('c, 'b) state" where
  "beh_id_compare_motion_dispatch_l190 K obj after_no_cull s4 n3_motion second_cull = do {
     setr K 4 obj;
     call_guest K 0x8014047C;
     r2_38 \<leftarrow> reg K 2;
     (if r2_38 \<noteq> 0 then after_no_cull obj s4
      else do {
        n3 \<leftarrow> r8 K (obj + 3);
        (if 1 \<le> n3 \<and> n3 \<le> 5 then n3_motion obj s4
         else if n3 = 0x80 then do {
           setr K 4 obj;
           attack_orbit_substate_aim_at_target_anchor K;
           second_cull obj s4
         }
          else if n3 = 0x81 then do {
            setr K 4 obj;
            attack_orbit_substate_orbit_target_motion K;
            second_cull obj s4
          }
           else do {
             setr K 4 obj;
             call_guest K 0x80143A00;
             v40 \<leftarrow> r8 K (obj + 0x2A);
             only_if (v40 = 1) (do {
               v41 \<leftarrow> r16 K (obj + 0x2E);
               let n2e = as_s16 v41;
               only_if (0x31A9 \<le>s n2e) (w16 K (obj + 0x2E) 0x31A8)
             });
             second_cull obj s4
           })
      })
   }"

definition beh_id_compare_motion_dispatch :: "'c core_ops \<Rightarrow> ('c, unit) state" where
  "beh_id_compare_motion_dispatch K = with_frame K 56 [(16, 32), (17, 36), (18, 40), (19, 44),
      (20, 48), (31, 52)] (do {
     let after_no_cull = (\<lambda>obj s4. beh_id_compare_motion_dispatch_l340 K obj s4);
     let second_cull = (\<lambda>obj s4. beh_id_compare_motion_dispatch_l290 K obj after_no_cull
         s4);
     let n3_motion = (\<lambda>obj s4. beh_id_compare_motion_dispatch_l229 K obj second_cull s4);
     obj \<leftarrow> reg K 4;
     let s4 = obj + 0x60;
     st \<leftarrow> r8 K (obj + 4);
     (if st \<noteq> 1 then (if 2 \<le> st then (if st = 2 then do {
       setr K 4 obj;
       call_guest K 0x80144B50
     }
      else if st = 3 then do {
        n1b \<leftarrow> r8 K (obj + 0x1B);
        w8 K (obj + 0) 2;
        v26 \<leftarrow> r8 K (obj + 0x1B);
        (if (v26 AND 0x40) \<noteq> 0 then w8 K (obj + 0x1B) (n1b AND 0xBF)
         else despawn K obj)
      }
       else State_Monad.return ())
      else if st \<noteq> 0 then State_Monad.return ()
       else do { setr K 4 obj; call_guest K 0x80140544 })
      else do {
        v27 \<leftarrow> r16 K (obj + 0x32);
        let n32 = as_s16 v27;
        to_state3 \<leftarrow> (if 0 <s n32 then State_Monad.return True
         else do {
           v28 \<leftarrow> r8 K (s4 + 6);
           cond \<leftarrow> (if v28 = 0x81 then State_Monad.return (n32 <s - 0x81)
            else do { v29 \<leftarrow> r8 K 0x800E7EAA; State_Monad.return (v29 < 0xC) });
           State_Monad.return (\<not> cond)
         });
        (if to_state3 then w8 K (obj + 4) 3
         else do {
           v30 \<leftarrow> r8 K 0x1F800137;
           v31 \<leftarrow> r8 K 0x800BF89C;
           to_tick \<leftarrow> (if v30 \<noteq> 0 \<and> v31 \<noteq> 2 then State_Monad.return
               False
            else do { v32 \<leftarrow> r8 K 0x800BF809; State_Monad.return (v32 = 0) });
           (if to_tick then do {
             n2b \<leftarrow> r8 K (obj + 0x2B);
             (if n2b \<noteq> 0 then do {
               w8 K (obj + 0x2B) (n2b - 1);
               v34 \<leftarrow> r16 K 0x1F80017C;
               (if (v34 AND 1) \<noteq> 0 then do {
                 v35 \<leftarrow> r16 K (obj + 0x56);
                 w16 K (obj + 0x56) (v35 + 0x80)
               }
                else do {
                  v36 \<leftarrow> r16 K (obj + 0x56);
                  w16 K (obj + 0x56) (v36 - 0x80)
                });
               setr K 4 obj;
               cull_cull_wrapper_flag2 K;
               r2_37 \<leftarrow> reg K 2;
               (if r2_37 = 0 then State_Monad.return ()
                else node_xform_build_with_offset K obj)
             }
              else beh_id_compare_motion_dispatch_l190 K obj after_no_cull s4 n3_motion
                  second_cull)
           }
            else do {
              setr K 4 obj;
              call_guest K 0x8014047C;
              r2_42 \<leftarrow> reg K 2;
              (if r2_42 \<noteq> 0 then State_Monad.return ()
               else do {
                 setr K 4 obj;
                 cull_cull_wrapper_flag2 K;
                 r2_43 \<leftarrow> reg K 2;
                 (if r2_43 = 0 then State_Monad.return ()
                  else node_xform_build_with_offset K obj)
               })
            })
         })
      })
   })"

section \<open>\<open>game/ai/beh_rand_phase_cull.cpp\<close>\<close>

definition beh_rand_phase_cull :: "'c core_ops \<Rightarrow> ('c, unit) state" where
  "beh_rand_phase_cull K = with_frame K 24 [(16, 16), (31, 20)] (do {
     nd \<leftarrow> reg K 4;
     st \<leftarrow> r8 K (nd + 4);
     let rest1 = (do {
       r3 \<leftarrow> guest_call K 0x8009A450 [];
       v4 \<leftarrow> r8s K (nd + 7);
       w8 K (nd + 7) (v4 + (as_s8 (sar 9 r3)));
       v5 \<leftarrow> guest_call K 0x8002B278 [nd];
       let cull = as_s16 v5;
       v6 \<leftarrow> r8s K (nd + 7);
       (if v6 <s 0 then do { v7 \<leftarrow> r8 K (nd + 7); w8 K (nd + 7) (v7 - 0x80) }
        else do {
          v8 \<leftarrow> r32 K (nd + 0x38);
          w32 K (nd + 0x34) v8;
          v9 \<leftarrow> r32 K (nd + 0x38);
          (if v9 = 0 then w8 K (nd + 4) 2
           else only_if (cull = 0) (collision_list_scan K nd))
        })
     });
     (if st \<noteq> 1 then (if 1 < st then (if 3 < st then State_Monad.return ()
      else despawn K nd)
      else if st \<noteq> 0 then State_Monad.return ()
       else do {
         w8 K (nd + 4) 1;
         w8 K (nd + 7) 0;
         v10 \<leftarrow> r32 K (nd + 0x38);
         w32 K (nd + 0x34) v10;
         r \<leftarrow> guest_call K 0x8009A450 [];
         w8 K (nd + 6) (as_s8 (sar 11 r) + 8);
         v12 \<leftarrow> r8 K (nd + 3);
         v13 \<leftarrow> r16s K 0x800E7FFE;
         only_if (v12 = 0x35 \<and> v13 <s 0) (do {
           r2 \<leftarrow> guest_call K 0x8009A450 [];
           w8 K (nd + 6) (as_s8 (sar 12 r2) + 3)
         });
         rest1
       })
      else rest1)
   })"

section \<open>\<open>game/ai/beh_sine_motion_sfx.cpp\<close>\<close>

definition beh_sine_motion_sfx_l382 :: "'c core_ops \<Rightarrow> u32 \<Rightarrow> (u32
    \<Rightarrow> 'a \<Rightarrow> ('c, 'b) state) \<Rightarrow> u32 \<Rightarrow> 'a
    \<Rightarrow> ('c, 'b) state" where
  "beh_sine_motion_sfx_l382 K v0 L598 nd s1 = (if 256 \<le>s v0 then L598 nd s1
    else do {
      a0 \<leftarrow> r32 K (nd + 0x68);
      area_slots_ack_if_match K a0;
      sfx_trigger K 129 0 0;
      v0 \<leftarrow> reg K 2;
      w32 K (nd + 0x68) v0;
      L598 nd s1
    })"

definition beh_sine_motion_sfx_l369 :: "'c core_ops \<Rightarrow> u32 \<Rightarrow> u32
    \<Rightarrow> (u32 \<Rightarrow> 'a \<Rightarrow> ('c, 'b) state) \<Rightarrow> 'a
    \<Rightarrow> (u32 \<Rightarrow> 'a \<Rightarrow> u32 \<Rightarrow> ('c, 'b) state)
    \<Rightarrow> ('c, 'b) state" where
  "beh_sine_motion_sfx_l369 K v0 nd L598 s1 L56c = (if v0 <s 256 then do {
     a0 \<leftarrow> r32 K (nd + 0x68);
     area_slots_ack_if_match K a0;
     w32 K (nd + 0x68) 0;
     L598 nd s1
   }
    else do {
      v0 \<leftarrow> r16s K (nd + 0x64);
      (if 0 \<le>s v0 then L56c nd s1 v0 else do { let v0 = - v0; L56c nd s1 v0 })
    })"

definition beh_sine_motion_sfx_l352 :: "'c core_ops \<Rightarrow> u32 \<Rightarrow> (u32
    \<Rightarrow> u32 \<Rightarrow> ('c, 'a) state) \<Rightarrow> u32 \<Rightarrow> (u32
    \<Rightarrow> u32 \<Rightarrow> u32 \<Rightarrow> ('c, 'a) state) \<Rightarrow> ('c, 'a)
    state" where
  "beh_sine_motion_sfx_l352 K nd L598 s1 L538 = do {
     v0 \<leftarrow> r8 K (nd + 1);
     (if v0 = 0 then L598 nd s1
      else do {
        setr K 4 nd;
        graphics_bind_render_update K;
        v0 \<leftarrow> r8 K 0x800BF809;
        (if v0 \<noteq> 0 then L598 nd s1
         else do {
           let v0 = as_s16 (as_u16 s1);
           (if 0 \<le>s v0 then L538 nd s1 v0 else do { let v0 = - v0; L538 nd s1 v0 })
         })
      })
   }"

definition beh_sine_motion_sfx_l336 :: "'c core_ops \<Rightarrow> (u32 \<Rightarrow> 'a
    \<Rightarrow> u32 \<Rightarrow> u32 \<Rightarrow> ('c, 'b) state) \<Rightarrow> u32
    \<Rightarrow> 'a \<Rightarrow> (u32 \<Rightarrow> 'a \<Rightarrow> ('c, 'b) state)
    \<Rightarrow> ('c, 'b) state" where
  "beh_sine_motion_sfx_l336 K L4ec nd s1 L4fc = do {
     v1 \<leftarrow> r8 K 0x800E7EAA;
     let e31 = v1 \<noteq> 31;
     let v0 = (34 :: u32);
     (if e31 then L4ec nd s1 v0 v1
      else do { _ \<leftarrow> enqueue_by_class K nd; L4fc nd s1 })
   }"

definition beh_sine_motion_sfx_l326 :: "'c core_ops \<Rightarrow> u32 \<Rightarrow> (u32
    \<Rightarrow> 'a \<Rightarrow> ('c, 'b) state) \<Rightarrow> u32 \<Rightarrow> 'a
    \<Rightarrow> (u32 \<Rightarrow> 'a \<Rightarrow> ('c, 'b) state) \<Rightarrow> ('c, 'b)
    state" where
  "beh_sine_motion_sfx_l326 K v0 L4c8 nd s1 L598 = do {
     let d3 = v0 = 0;
     let v0 = (1 :: u32);
     (if d3 then L4c8 nd s1 else do { w8 K (nd + 5) v0; L598 nd s1 })
   }"

definition beh_sine_motion_sfx_l312 :: "'c core_ops \<Rightarrow> ('a \<Rightarrow> 'b
    \<Rightarrow> u32 \<Rightarrow> ('c, 'd) state) \<Rightarrow> 'a \<Rightarrow> 'b
    \<Rightarrow> ('c, 'd) state" where
  "beh_sine_motion_sfx_l312 K L4b8 nd s1 = do {
     v0 \<leftarrow> r8 K 0x1F800207;
     let d1 = v0 < 24;
     let v0 = (1 :: u32);
     (if d1 then L4b8 nd s1 v0
      else do {
        v1 \<leftarrow> r8 K 0x800BF816;
        let v0 = (1 :: u32);
        let d2 = v1 \<noteq> v0;
        let v0 = (0 :: u32);
        (if d2 then L4b8 nd s1 v0 else do { let v0 = (1 :: u32); L4b8 nd s1 v0 })
      })
   }"

definition beh_sine_motion_sfx_l302 :: "'c core_ops \<Rightarrow> u32 \<Rightarrow> u32
    \<Rightarrow> u32 \<Rightarrow> (u32 \<Rightarrow> u32 \<Rightarrow> ('c, 'a) state)
    \<Rightarrow> ('c, 'a) state" where
  "beh_sine_motion_sfx_l302 K nd s2 s1 L48c = do {
     recp \<leftarrow> r32 K (nd + 0xC0);
     w16 K (recp + 0x0C) s2;
     w16 K (nd + 0x44) s1;
     w8 K (nd + 0x29) 0;
     L48c nd s1
   }"

definition beh_sine_motion_sfx_l279 :: "'c core_ops \<Rightarrow> u32 \<Rightarrow> u32
    \<Rightarrow> (u32 \<Rightarrow> 'a \<Rightarrow> u32 \<Rightarrow> ('c, 'b) state)
    \<Rightarrow> 'a \<Rightarrow> ('c, 'b) state" where
  "beh_sine_motion_sfx_l279 K nd s2 L474 s1 = do {
     s3 \<leftarrow> r16 K (nd + 0x36);
     let a0 = sar 16 (shl s2 16);
     sn \<leftarrow> rsin K a0;
     let t = shl sn 1;
     let t = t + sn;
     let t = shl t 2;
     let t = t + sn;
     let t = shl t 6;
     v0 \<leftarrow> r16 K (nd + 0x94);
     let t = sar 12 t;
     let a0 = v0 + t;
     v1 \<leftarrow> r8 K (nd + 0x29);
     w16 K (nd + 0x36) a0;
     (if v1 \<noteq> 1 then L474 nd s1 s2
      else do {
        v1 \<leftarrow> r16 K 0x800E7EB6;
        let a0 = a0 - s3;
        let v1 = v1 + a0;
        w16 K 0x800E7EB6 v1;
        L474 nd s1 s2
      })
   }"

definition beh_sine_motion_sfx_l262 :: "'c core_ops \<Rightarrow> u32 \<Rightarrow> ('a
    \<Rightarrow> 'b \<Rightarrow> u32 \<Rightarrow> 'd) \<Rightarrow> 'a \<Rightarrow> 'b
    \<Rightarrow> u32 \<Rightarrow> u32 \<Rightarrow> ('a \<Rightarrow> u32 \<Rightarrow> u32
    \<Rightarrow> 'd) \<Rightarrow> 'd" where
  "beh_sine_motion_sfx_l262 K v0 L41c nd s1 s2 a0 L420 = (if v0 \<noteq> 0 then L41c nd s1 s2
    else do {
      let s2 = (1024 :: u32);
      (if a0 \<le>s 0 then L41c nd s1 s2
       else do {
         let v0 = - a0;
         let v0 = sar 2 v0;
         let s1 = v0;
         (if 0 \<le>s shl s1 16 then L420 nd s1 s2
          else do { let s1 = (0 :: u32); L420 nd s1 s2 })
       })
    })"

definition beh_sine_motion_sfx_l234 :: "'c core_ops \<Rightarrow> u32 \<Rightarrow> u32
    \<Rightarrow> (u32 \<Rightarrow> 'a \<Rightarrow> u32 \<Rightarrow> u32 \<Rightarrow> u32
    \<Rightarrow> 'b) \<Rightarrow> 'a \<Rightarrow> ('a \<Rightarrow> u32 \<Rightarrow> u32
    \<Rightarrow> 'b) \<Rightarrow> ('a \<Rightarrow> u32 \<Rightarrow> u32 \<Rightarrow> 'b)
    \<Rightarrow> 'b" where
  "beh_sine_motion_sfx_l234 K s1 s2 L3e4 nd L41c L420 = do {
     let t = shl s1 16;
     let v1 = sar 24 t;
     let v1 = s2 + v1;
     let s2 = v1;
     let a0 = sar 16 t;
     let v1 = sar 16 (shl v1 16);
     let ltm1024 = v1 <s -1024;
     let v0 = (of_bool (v1 <s 1025) :: u32);
     (if \<not> ltm1024 then L3e4 a0 nd s1 s2 v0
      else do {
        let s2 = (-1024 :: u32);
        (if 0 \<le>s a0 then L41c nd s1 s2
         else do {
           let v0 = - a0;
           let v0 = sar 2 v0;
           let s1 = v0;
           (if shl s1 16 \<le>s 0 then L420 nd s1 s2
            else do { let s1 = (0 :: u32); L420 nd s1 s2 })
         })
      })
   }"

definition beh_sine_motion_sfx_l225 :: "'c core_ops \<Rightarrow> u32 \<Rightarrow> ('a
    \<Rightarrow> 'b \<Rightarrow> 'd \<Rightarrow> u32 \<Rightarrow> 'e) \<Rightarrow> 'a
    \<Rightarrow> 'b \<Rightarrow> 'd \<Rightarrow> 'e" where
  "beh_sine_motion_sfx_l225 K v0 L384 nd s1 s2 = do {
     let v0 = sar 16 v0;
     (if 0 \<le>s v0 then L384 nd s1 s2 v0 else do { let v0 = v0 + 7; L384 nd s1 s2 v0 })
   }"

definition beh_sine_motion_sfx_l214 :: "'c core_ops \<Rightarrow> u32 \<Rightarrow> u32
    \<Rightarrow> (u32 \<Rightarrow> u32 \<Rightarrow> u32 \<Rightarrow> u32 \<Rightarrow> ('c,
    'a) state) \<Rightarrow> u32 \<Rightarrow> (u32 \<Rightarrow> u32 \<Rightarrow> u32
    \<Rightarrow> ('c, 'a) state) \<Rightarrow> ('c, 'a) state" where
  "beh_sine_motion_sfx_l214 K nd s2 L374 s1 L38c = do {
     v1 \<leftarrow> r8 K (nd + 0x29);
     let v0 = shl s2 16;
     (if v1 \<noteq> 1 then L374 nd s1 s2 v0
      else do {
        v17 \<leftarrow> r16 K (nd + 0x60);
        let v0 = sar 18 (shl v17 16);
        w16 K (nd + 0x40) 0;
        let s1 = s1 + v0;
        L38c nd s1 s2
      })
   }"

definition beh_sine_motion_sfx_l195 :: "'c core_ops \<Rightarrow> u32 \<Rightarrow> u32
    \<Rightarrow> ('a \<Rightarrow> u32 \<Rightarrow> 'b \<Rightarrow> 'd) \<Rightarrow> 'a
    \<Rightarrow> 'b \<Rightarrow> 'd" where
  "beh_sine_motion_sfx_l195 K v1 s1 L34c nd s2 = do {
     let ltm1280 = v1 <s -1280;
     let v0 = s1 + 32;
     (if \<not> ltm1280 then L34c nd s1 s2
      else do {
        let s1 = v0;
        let v1 = as_s16 (as_u16 v0);
        (if v1 <s -16384 then do { let s1 = (-16384 :: u32); L34c nd s1 s2 }
         else if v1 \<le>s 0 then L34c nd s1 s2
          else do { let s1 = (0 :: u32); L34c nd s1 s2 })
      })
   }"

definition beh_sine_motion_sfx_l170 :: "'c core_ops \<Rightarrow> (u32 \<Rightarrow> 'a
    \<Rightarrow> ('c, 'b) state) \<Rightarrow> u32 \<Rightarrow> 'a \<Rightarrow> (u32
    \<Rightarrow> u32 \<Rightarrow> u32 \<Rightarrow> u32 \<Rightarrow> ('c, 'b) state)
    \<Rightarrow> (u32 \<Rightarrow> u32 \<Rightarrow> u32 \<Rightarrow> ('c, 'b) state)
    \<Rightarrow> ('c, 'b) state" where
  "beh_sine_motion_sfx_l170 K L48c nd s1 L314 L34c = do {
     v0 \<leftarrow> r8 K 0x800BF809;
     (if v0 \<noteq> 0 then L48c nd s1
      else do {
        v1 \<leftarrow> r16s K (nd + 0x44);
        recp \<leftarrow> r32 K (nd + 0xC0);
        s2 \<leftarrow> r16 K (recp + 0x0C);
        let lt1281 = v1 <s 1281;
        let s1 = v1;
        (if lt1281 then L314 nd s1 s2 v1
         else do {
           let v0 = s1 - 32;
           let s1 = v0;
           let v1 = as_s16 (as_u16 v0);
           (if \<not> (v1 <s 16385) then do { let s1 = (16384 :: u32); L34c nd s1 s2 }
            else if 0 \<le>s v1 then L34c nd s1 s2
             else do { let s1 = (0 :: u32); L34c nd s1 s2 })
         })
      })
   }"

definition beh_sine_motion_sfx_l157 :: "'c core_ops \<Rightarrow> u32 \<Rightarrow> ('c, 'a) state
    \<Rightarrow> u32 \<Rightarrow> (u32 \<Rightarrow> 'b \<Rightarrow> ('c, 'a) state)
    \<Rightarrow> 'b \<Rightarrow> ('c, 'a) state" where
  "beh_sine_motion_sfx_l157 K v0 Lret nd L2b4 s1 = (if v0 \<noteq> 0 then Lret
    else do {
      w16 K (nd + 0x44) 0;
      v0 \<leftarrow> r16 K (nd + 0x44);
      v1 \<leftarrow> r32 K (nd + 0xC0);
      w16 K (nd + 0x40) 0;
      w16 K (nd + 0x64) v0;
      w16 K (v1 + 0x0C) 256;
      w8 K (nd + 5) 2;
      L2b4 nd s1
    })"

definition beh_sine_motion_sfx :: "'c core_ops \<Rightarrow> ('c, unit) state" where
  "beh_sine_motion_sfx K = with_frame K 40 [(16, 16), (31, 32), (19, 28), (18, 24), (17, 20)] (do
      {
     let Lret = (State_Monad.return ());
     let L5a0 = (\<lambda>nd. do { despawn K nd; Lret });
     let L598 = (\<lambda>nd s1. do { w16 K (nd + 0x64) s1; Lret });
     let L56c = (\<lambda>nd s1 v0. beh_sine_motion_sfx_l382 K v0 L598 nd s1);
     let L538 = (\<lambda>nd s1 v0. beh_sine_motion_sfx_l369 K v0 nd L598 s1 L56c);
     let L4fc = (\<lambda>nd s1. beh_sine_motion_sfx_l352 K nd L598 s1 L538);
     let L4ec = (\<lambda>nd s1 v0 v1. (if v1 = v0 then L4fc nd s1
      else do { _ \<leftarrow> actor_bounds_cull K nd; L4fc nd s1 }));
     let L4c8 = (\<lambda>nd s1. beh_sine_motion_sfx_l336 K L4ec nd s1 L4fc);
     let L4b8 = (\<lambda>nd s1 v0. beh_sine_motion_sfx_l326 K v0 L4c8 nd s1 L598);
     let L48c = (\<lambda>nd s1. beh_sine_motion_sfx_l312 K L4b8 nd s1);
     let L474 = (\<lambda>nd s1 s2. beh_sine_motion_sfx_l302 K nd s2 s1 L48c);
     let L420 = (\<lambda>nd s1 s2. beh_sine_motion_sfx_l279 K nd s2 L474 s1);
     let L41c = (\<lambda>nd s1 s2. L420 nd s1 s2);
     let L3e4 = (\<lambda>a0 nd s1 s2 v0. beh_sine_motion_sfx_l262 K v0 L41c nd s1 s2 a0 L420);
     let L38c = (\<lambda>nd s1 s2. beh_sine_motion_sfx_l234 K s1 s2 L3e4 nd L41c L420);
     let L384 = (\<lambda>nd s1 s2 v0. do {
       let v0 = sar 3 v0;
       let s1 = s1 - v0;
       L38c nd s1 s2
     });
     let L374 = (\<lambda>nd s1 s2 v0. beh_sine_motion_sfx_l225 K v0 L384 nd s1 s2);
     let L34c = (\<lambda>nd s1 s2. beh_sine_motion_sfx_l214 K nd s2 L374 s1 L38c);
     let L314 = (\<lambda>nd s1 s2 v1. beh_sine_motion_sfx_l195 K v1 s1 L34c nd s2);
     let L2b4 = (\<lambda>nd s1. beh_sine_motion_sfx_l170 K L48c nd s1 L314 L34c);
     let L284 = (\<lambda>nd s1 v0. beh_sine_motion_sfx_l157 K v0 Lret nd L2b4 s1);
     let L258 = (\<lambda>nd s1. do {
       v0 \<leftarrow> r8 K 0x1F800207;
       let d1 = v0 < 24;
       let v0 = (1 :: u32);
       (if d1 then L284 nd s1 v0
        else do {
          v1 \<leftarrow> r8 K 0x800BF816;
          let v0 = (1 :: u32);
          let d2 = v1 \<noteq> v0;
          let v0 = (0 :: u32);
          (if d2 then L284 nd s1 v0 else do { let v0 = (1 :: u32); L284 nd s1 v0 })
        })
     });
     let L62c = (\<lambda>nd s1. do {
       v1 \<leftarrow> r8 K (nd + 5);
       (if v1 <s 0 then Lret
        else do {
          let v0 = (of_bool (v1 <s 2) :: u32);
          (if v0 \<noteq> 0 then L258 nd s1
           else if v1 = 2 then L2b4 nd s1 else Lret)
        })
     });
     let L1b0 = (\<lambda>nd s1. do {
       setr K 4 nd;
       setr K 5 12;
       setr K 6 6;
       graphics_bind_record_init K;
       v0 \<leftarrow> reg K 2;
       (if v0 \<noteq> 0 then Lret
        else do {
          let v0 = (576 :: u32);
          w16 K (nd + 0x80) v0;
          v0 \<leftarrow> r8 K (nd + 0);
          let v1 = (1152 :: u32);
          w8 K (nd + 0x29) 0;
          w16 K (nd + 0x82) v1;
          let v0 = v0 OR 1;
          w8 K (nd + 0) v0;
          setr K 4 nd;
          call_guest K 0x8004766C;
          setr K 4 nd;
          call_guest K 0x80048750;
          v0 \<leftarrow> r16 K 0x1F8001A0;
          v1 \<leftarrow> r16 K (nd + 0x2E);
          a0 \<leftarrow> r16 K (nd + 0x32);
          a1 \<leftarrow> r16 K (nd + 0x36);
          w16 K (nd + 0x54) 0;
          w16 K (nd + 0x58) 0;
          w16 K (nd + 0x62) 0;
          w8 K (nd + 4) 1;
          w8 K (nd + 5) 0;
          w32 K (nd + 0x68) 0;
          w16 K (nd + 0x56) v0;
          w16 K (nd + 0x90) v1;
          w16 K (nd + 0x92) a0;
          w16 K (nd + 0x94) a1;
          L62c nd s1
        })
     });
     let L19c = (\<lambda>nd v1. do {
       let v0 = (of_bool (v1 <s 4) :: u32);
       (if v0 = 0 then Lret else L5a0 nd)
     });
     nd \<leftarrow> reg K 4;
     let s1 = (0 :: u32);
     let s2 = (0 :: u32);
     let s3 = (0 :: u32);
     v1 \<leftarrow> r8 K (nd + 4);
     let s2 = (1 :: u32);
     (if v1 = s2 then L62c nd s1
      else do {
        let v0 = (of_bool (v1 <s 2) :: u32);
        (if v0 = 0 then L19c nd v1
         else if v1 = 0 then L1b0 nd s1 else Lret)
      })
   })"

section \<open>\<open>game/ai/beh_typed_anim_spawn.cpp\<close>\<close>

definition beh_typed_anim_spawn_l256 :: "'c core_ops \<Rightarrow> u32 \<Rightarrow> ('a
    \<Rightarrow> ('c, 'b) state) \<Rightarrow> 'a \<Rightarrow> ('a \<Rightarrow> u32
    \<Rightarrow> ('c, 'b) state) \<Rightarrow> ('c, 'b) state" where
  "beh_typed_anim_spawn_l256 K s0 Lret entry_sp Ltail_after = do {
     v1 \<leftarrow> r8 K (s0 + 3);
     (if v1 \<noteq> 2 then Lret entry_sp
      else do { inv_give_and_flag K 29 1; Ltail_after entry_sp s0 })
   }"

definition beh_typed_anim_spawn_l220 :: "'c core_ops \<Rightarrow> u32 \<Rightarrow> u32
    \<Rightarrow> ('a \<Rightarrow> ('c, 'b) state) \<Rightarrow> 'a \<Rightarrow> ('a
    \<Rightarrow> u32 \<Rightarrow> ('c, 'b) state) \<Rightarrow> ('c, 'b) state" where
  "beh_typed_anim_spawn_l220 K n3 s0 Lret entry_sp Ltail35 = (if n3 = 7 then do {
     s1 \<leftarrow> r8 K (s0 + 5);
     rec \<leftarrow> r32 K (s0 + 0x10);
     let rest3 = (do {
       setr K 4 s0;
       setr K 5 2;
       setr K 6 0;
       v25 \<leftarrow> r32 K (rec + 0xD0);
       setr K 7 v25;
       r29_26 \<leftarrow> reg K 29;
       w32 K (r29_26 + 16) (s0 + 0x60);
       graphics_bind_pos_compose K;
       v27 \<leftarrow> r8 K (rec + 1);
       w8 K (s0 + 1) v27;
       v28 \<leftarrow> r8 K 0x800BF9B5;
       (if v28 \<noteq> 6 then Lret entry_sp else Ltail35 entry_sp s0)
     });
     (if s1 = 0 then do {
       w8 K (s0 + 5) 1;
       v29 \<leftarrow> r32 K 0x800ECF80;
       w32 K (s0 + 0x3C) v29;
       setr K 4 s0;
       setr K 5 A1_MODEL;
       setr K 6 14;
       graphics_bind_set_geom K;
       w16 K (s0 + 0x60) (-200);
       w16 K (s0 + 0x62) 48;
       w16 K (s0 + 0x64) 0;
       rest3
     }
      else if s1 \<noteq> 1 then Lret entry_sp else rest3)
   }
    else Lret entry_sp)"

definition beh_typed_anim_spawn_l118 :: "'c core_ops \<Rightarrow> u32 \<Rightarrow> ('a
    \<Rightarrow> ('c, 'b) state) \<Rightarrow> 'a \<Rightarrow> ('a \<Rightarrow> u32
    \<Rightarrow> ('c, 'b) state) \<Rightarrow> ('a \<Rightarrow> u32 \<Rightarrow> ('c, 'b)
    state) \<Rightarrow> ('c, 'b) state" where
  "beh_typed_anim_spawn_l118 K s0 Lret entry_sp Ltail14 Ltail35 = do {
     n3 \<leftarrow> r8 K (s0 + 3);
     (if \<not> (n3 < 8) then Lret entry_sp
      else if n3 = 0 then do {
        s1 \<leftarrow> r8 K (s0 + 5);
        (if s1 = 0 then do {
          v4 \<leftarrow> r8 K 0x800BF9DD;
          (if v4 \<noteq> 9 then Lret entry_sp
           else do {
             w8 K (s0 + 5) 1;
             v5 \<leftarrow> r32 K 0x800ECF80;
             w32 K (s0 + 0x3C) v5;
             setr K 4 s0;
             setr K 5 A1_MODEL;
             setr K 6 15;
             graphics_bind_set_geom K;
             w16 K (s0 + 0x60) 64;
             w16 K (s0 + 0x62) 0;
             w16 K (s0 + 0x64) (-32);
             Lret entry_sp
           })
        }
         else if s1 = 1 then do {
           setr K 4 s0;
           setr K 5 2;
           v6 \<leftarrow> r32 K 0x800E7F5C;
           setr K 6 v6;
           v7 \<leftarrow> r32 K 0x800E7F50;
           setr K 7 v7;
           r29_8 \<leftarrow> reg K 29;
           w32 K (r29_8 + 16) (s0 + 0x60);
           graphics_bind_pos_compose K;
           w8 K (s0 + 1) s1;
           v9 \<leftarrow> r8 K 0x800BF9DD;
           (if v9 \<noteq> 11 then Lret entry_sp else do { w8 K (s0 + 4) 3; Lret entry_sp })
         }
          else Lret entry_sp)
      }
       else if n3 = 1 then do { _ \<leftarrow> guest_call K 0x8018C574 [s0]; Lret entry_sp }
        else if n3 = 2 then do {
          s1 \<leftarrow> r8 K (s0 + 5);
          rec \<leftarrow> r32 K (s0 + 0x10);
          let rest1 = (do {
            setr K 4 s0;
            setr K 5 1;
            v12 \<leftarrow> r32 K (rec + 0xDC);
            setr K 6 v12;
            setr K 7 0;
            r29_13 \<leftarrow> reg K 29;
            w32 K (r29_13 + 16) (s0 + 0x60);
            graphics_bind_pos_compose K;
            v14 \<leftarrow> r8 K (rec + 1);
            w8 K (s0 + 1) v14;
            Lret entry_sp
          });
          (if s1 = 0 then do {
            w8 K (s0 + 5) 1;
            v15 \<leftarrow> r32 K 0x800ECF80;
            w32 K (s0 + 0x3C) v15;
            setr K 4 s0;
            setr K 5 A1_MODEL;
            setr K 6 2;
            graphics_bind_set_geom K;
            w16 K (s0 + 0x60) 32;
            w16 K (s0 + 0x62) 16;
            w16 K (s0 + 0x64) 0;
            rest1
          }
           else if s1 \<noteq> 1 then Lret entry_sp else rest1)
        }
         else if (n3 = 3 \<or> n3 = 4) \<or> n3 = 5 then do {
           _ \<leftarrow> guest_call K 0x8007778C [s0];
           Lret entry_sp
         }
          else if n3 = 6 then do {
            s1 \<leftarrow> r8 K (s0 + 5);
            rec \<leftarrow> r32 K (s0 + 0x10);
            let rest2 = (do {
              setr K 4 s0;
              setr K 5 2;
              setr K 6 0;
              v18 \<leftarrow> r32 K (rec + 0xD0);
              setr K 7 v18;
              r29_19 \<leftarrow> reg K 29;
              w32 K (r29_19 + 16) (s0 + 0x60);
              graphics_bind_pos_compose K;
              v20 \<leftarrow> r8 K (rec + 1);
              w8 K (s0 + 1) v20;
              v21 \<leftarrow> r8 K 0x800BF9B5;
              (if v21 \<noteq> 5 then Lret entry_sp else Ltail14 entry_sp s0)
            });
            (if s1 = 0 then do {
              w8 K (s0 + 5) 1;
              v22 \<leftarrow> r32 K 0x800ECF80;
              w32 K (s0 + 0x3C) v22;
              setr K 4 s0;
              setr K 5 A1_MODEL;
              setr K 6 17;
              graphics_bind_set_geom K;
              w16 K (s0 + 0x60) (-200);
              w16 K (s0 + 0x62) 32;
              w16 K (s0 + 0x64) 0;
              rest2
            }
             else if s1 \<noteq> 1 then Lret entry_sp else rest2)
          }
           else beh_typed_anim_spawn_l220 K n3 s0 Lret entry_sp Ltail35)
   }"

definition beh_typed_anim_spawn_l72 :: "'c core_ops \<Rightarrow> u32 \<Rightarrow> ('a
    \<Rightarrow> ('c, 'b) state) \<Rightarrow> 'a \<Rightarrow> ('c, 'b) state" where
  "beh_typed_anim_spawn_l72 K s0 Lret entry_sp = do {
     n3 \<leftarrow> r8 K (s0 + 3);
     (if \<not> (n3 < 8) then Lret entry_sp
      else do {
        w8 K (s0 + 4) 1;
        (if (((n3 = 0 \<or> n3 = 1) \<or> n3 = 2) \<or> n3 = 6) \<or> n3 = 7 then do {
          w8 K (s0 + 11) 16;
          w8 K (s0 + 13) 0;
          w16 K (s0 + 0x5C) 0;
          w16 K (s0 + 0x5A) 0;
          w8 K (s0 + 0x47) 0;
          w16 K (s0 + 0x60) 0;
          w8 K (s0 + 8) 240;
          Lret entry_sp
        }
         else if n3 = 3 \<or> n3 = 4 then do {
           setr K 4 s0;
           setr K 5 12;
           setr K 6 79;
           graphics_bind_record_init K;
           r2_31 \<leftarrow> reg K 2;
           (if r2_31 \<noteq> 0 then Lret entry_sp
            else do {
              rec \<leftarrow> r32 K (s0 + 0xC0);
              w16 K (rec + 8) (if n3 = 3 then 182 else as_u16 (as_s16 (-182)));
              setr K 4 s0;
              graphics_bind_render_update K;
              Lret entry_sp
            })
         }
          else if n3 = 5 then do {
            setr K 4 s0;
            setr K 5 12;
            setr K 6 7;
            graphics_bind_record_init K;
            r2_33 \<leftarrow> reg K 2;
            (if r2_33 \<noteq> 0 then Lret entry_sp
             else do { setr K 4 s0; graphics_bind_render_update K; Lret entry_sp })
          }
           else Lret entry_sp)
      })
   }"

definition beh_typed_anim_spawn :: "'c core_ops \<Rightarrow> ('c, unit) state" where
  "beh_typed_anim_spawn K = do {
     let Lret = (\<lambda>entry_sp. setr K 29 entry_sp);
     let S3 = (\<lambda>entry_sp s0. do { despawn K s0; Lret entry_sp });
     let Ltail_after = (\<lambda>entry_sp s0. do {
       _ \<leftarrow> guest_call K 0x8004B0D8 [s0];
       w8 K (s0 + 4) 3;
       Lret entry_sp
     });
     let Ltail35 = (\<lambda>entry_sp s0. do {
       inv_give_and_flag K 35 1;
       Ltail_after entry_sp s0
     });
     let Ltail14 = (\<lambda>entry_sp s0. do {
       inv_give_and_flag K 14 1;
       Ltail_after entry_sp s0
     });
     let S2 = (\<lambda>entry_sp s0. beh_typed_anim_spawn_l256 K s0 Lret entry_sp Ltail_after);
     let S11 = (\<lambda>entry_sp s0 s1. beh_typed_anim_spawn_l118 K s0 Lret entry_sp Ltail14
         Ltail35);
     let S0 = (\<lambda>entry_sp s0. beh_typed_anim_spawn_l72 K s0 Lret entry_sp);
     s0 \<leftarrow> reg K 4;
     entry_sp \<leftarrow> reg K 29;
     setr K 29 (entry_sp - 40);
     v1 \<leftarrow> r8 K (s0 + 4);
     (if v1 = 1 then S11 entry_sp s0 (0 :: u32)
      else if v1 <s 2 then (if v1 = 0 then S0 entry_sp s0 else Lret entry_sp)
       else if v1 = 2 then S2 entry_sp s0
        else if v1 = 3 then S3 entry_sp s0 else Lret entry_sp)
   }"

section \<open>\<open>game/ai/beh_typed_init_exit_poker.cpp\<close>\<close>

definition shared_8690 :: "'c core_ops \<Rightarrow> u32 \<Rightarrow> u32 \<Rightarrow> ('c,
    unit) state" where
  "shared_8690 K nd a1_buf = do {
     v1 \<leftarrow> r32 K (nd + 0x10);
     _ \<leftarrow> guest_call K 0x80051D90 [v1, a1_buf, 0x1F8000C0];
     v2 \<leftarrow> r16 K 0x1F8000C0;
     w16 K (nd + 0x2E) v2;
     v3 \<leftarrow> r16 K 0x1F8000C2;
     w16 K (nd + 0x32) v3;
     v4 \<leftarrow> r16 K 0x1F8000C4;
     w16 K (nd + 0x36) v4;
     _ \<leftarrow> guest_call K 0x8004B374 [nd, 0];
     State_Monad.return ()
   }"

definition beh_typed_init_exit_poker_l282 :: "'c core_ops \<Rightarrow> u32 \<Rightarrow> ('a
    \<Rightarrow> ('c, 'b) state) \<Rightarrow> 'a \<Rightarrow> ('c, 'b) state" where
  "beh_typed_init_exit_poker_l282 K nd Lret entry_sp = do {
     n3 \<leftarrow> r8 K (nd + 3);
     (if n3 = 0 then do {
       setr K 31 0x80118734;
       v2 \<leftarrow> scene_events_arm K 5;
       only_if (0 \<le>s v2) (do {
         inv_give_and_flag K 36 1;
         _ \<leftarrow> guest_call K 0x8004B0D8 [nd];
         State_Monad.return ()
       });
       w8 K (nd + 4) 3;
       Lret entry_sp
     }
      else if n3 = 1 then do {
        inv_give_and_flag K 69 1;
        _ \<leftarrow> guest_call K 0x8004B0D8 [nd];
        w8 K (nd + 4) 3;
        v3 \<leftarrow> r8 K 0x800BF9DF;
        w8 K 0x800BF9DF (v3 OR 0x20);
        Lret entry_sp
      }
       else if n3 = 2 then do {
         inv_give_and_flag K 120 1;
         w8 K (nd + 4) 3;
         _ \<leftarrow> guest_call K 0x8004B0D8 [nd];
         flg \<leftarrow> r8 K 0x800BF9EA;
         v5 \<leftarrow> r16 K (nd + 0x60);
         let p = as_s16 v5;
         let flg = as_u8 (flg AND (NOT (shl 1 (unat (p AND 31)))));
         w8 K 0x800BF9EA flg;
         let flg = as_u8 (flg AND (NOT (shl 1 (unat ((p + 4) AND 31)))));
         w8 K 0x800BF9EA flg;
         _ \<leftarrow> guest_call K 0x80040C00 [78];
         Lret entry_sp
       }
        else if n3 = 3 then do {
          inv_give_and_flag K 83 1;
          _ \<leftarrow> guest_call K 0x8004B0D8 [nd];
          w8 K (nd + 4) 3;
          v6 \<leftarrow> r8 K 0x800BF9EE;
          w8 K 0x800BF9EE (v6 OR 2);
          Lret entry_sp
        }
         else Lret entry_sp)
   }"

definition beh_typed_init_exit_poker_l273 :: "'c core_ops \<Rightarrow> u32 \<Rightarrow> ('a
    \<Rightarrow> ('c, 'b) state) \<Rightarrow> 'a \<Rightarrow> ('c, 'b) state" where
  "beh_typed_init_exit_poker_l273 K nd Lret entry_sp = do {
     _ \<leftarrow> guest_call K 0x8007778C [nd];
     r2_7 \<leftarrow> reg K 2;
     (if r2_7 = 0 then Lret entry_sp
      else do { _ \<leftarrow> guest_call K 0x8004B374 [nd, 0]; Lret entry_sp })
   }"

definition beh_typed_init_exit_poker_l242 :: "'c core_ops \<Rightarrow> u32 \<Rightarrow> ('a
    \<Rightarrow> ('c, 'b) state) \<Rightarrow> 'a \<Rightarrow> ('c, 'b) state" where
  "beh_typed_init_exit_poker_l242 K nd Lret entry_sp = do {
     n5 \<leftarrow> r8 K (nd + 5);
     (if n5 = 0 then do {
       w16 K (nd + 0x64) 54;
       w8 K (nd + 5) 1;
       w16 K (nd + 0x66) 80;
       w16 K (nd + 0x68) 0;
       _ \<leftarrow> guest_call K 0x8004B354 [nd, 0];
       Lret entry_sp
     }
      else if n5 = 1 then do {
        v9 \<leftarrow> r32 K (nd + 0x10);
        v10 \<leftarrow> r8 K (v9 + 0x3F);
        (if v10 = 0 then Lret entry_sp
         else do {
           _ \<leftarrow> guest_call K 0x80077EFC [nd];
           w8 K (nd + 1) 1;
           v11 \<leftarrow> r32 K (nd + 0x10);
           v12 \<leftarrow> r16 K (v11 + 0x16);
           let v = as_s16 v12;
           (if v \<noteq> 2 then w8 K (nd + 0) v else w8 K (nd + 0) 1);
           shared_8690 K nd (nd + 0x64);
           Lret entry_sp
         })
      }
       else Lret entry_sp)
   }"

definition beh_typed_init_exit_poker_l195 :: "'c core_ops \<Rightarrow> u32 \<Rightarrow> ('a
    \<Rightarrow> ('c, 'b) state) \<Rightarrow> 'a \<Rightarrow> ('a \<Rightarrow> u32
    \<Rightarrow> ('c, 'b) state) \<Rightarrow> ('c, 'b) state" where
  "beh_typed_init_exit_poker_l195 K nd Lret entry_sp L185e8 = do {
     n5e \<leftarrow> r8 K (nd + 0x5E);
     (if n5e = 0 then do {
       v \<leftarrow> r8 K (nd + 5);
       (if v = 0 then do { w8 K (nd + 5) 1; w8 K (nd + 0) 1; Lret entry_sp }
        else if v = 1 then L185e8 entry_sp nd else Lret entry_sp)
     }
      else if n5e = 1 then do {
        v \<leftarrow> r8 K (nd + 5);
        (if v = 0 then do {
          w8 K (nd + 5) 1;
          w8 K (nd + 0x47) 1;
          w16 K (nd + 0x60) 0;
          w16 K (nd + 0x62) 0;
          w16 K (nd + 0x64) 0;
          w8 K (nd + 8) 240;
          Lret entry_sp
        }
         else if v = 1 then do {
           v16 \<leftarrow> r8 K 0x800BFAF9;
           (if v16 = 0 then do { w8 K (nd + 4) 3; Lret entry_sp }
            else do {
              setr K 4 nd;
              setr K 5 1;
              v17 \<leftarrow> r32 K 0x800E7F5C;
              setr K 6 v17;
              setr K 7 0;
              r29_18 \<leftarrow> reg K 29;
              w32 K (r29_18 + 16) (nd + 0x60);
              graphics_bind_pos_compose K;
              L185e8 entry_sp nd
            })
         }
          else Lret entry_sp)
      }
       else Lret entry_sp)
   }"

definition beh_typed_init_exit_poker_l167 :: "'c core_ops \<Rightarrow> u32 \<Rightarrow> ('a
    \<Rightarrow> ('c, 'b) state) \<Rightarrow> 'a \<Rightarrow> ('c, 'b) state" where
  "beh_typed_init_exit_poker_l167 K nd Lret entry_sp = do {
     n5 \<leftarrow> r8 K (nd + 5);
     let rest1 = (do {
       v20 \<leftarrow> r32 K (nd + 0x10);
       v21 \<leftarrow> r8 K (v20 + 0x3F);
       (if v21 = 0 then Lret entry_sp
        else do {
          _ \<leftarrow> guest_call K 0x80077EFC [nd];
          w8 K (nd + 1) 1;
          v22 \<leftarrow> r32 K (nd + 0x10);
          v23 \<leftarrow> r16 K (v22 + 0x16);
          let v = as_s16 v23;
          (if v \<noteq> 2 then w8 K (nd + 0) 1 else w8 K (nd + 0) v);
          shared_8690 K nd (nd + 0x60);
          Lret entry_sp
        })
     });
     (if n5 = 0 then do {
       w8 K (nd + 5) 1;
       w16 K (nd + 0x60) (-60);
       w16 K (nd + 0x62) 0;
       w16 K (nd + 0x64) 0;
       rest1
     }
      else if n5 \<noteq> 1 then Lret entry_sp else rest1)
   }"

definition beh_typed_init_exit_poker_l83 :: "'c core_ops \<Rightarrow> u32 \<Rightarrow> ('a
    \<Rightarrow> u32 \<Rightarrow> ('c, 'b) state) \<Rightarrow> 'a \<Rightarrow> ('a
    \<Rightarrow> u32 \<Rightarrow> ('c, 'b) state) \<Rightarrow> ('a \<Rightarrow> u32
    \<Rightarrow> ('c, 'b) state) \<Rightarrow> ('c, 'b) state" where
  "beh_typed_init_exit_poker_l83 K nd L8450 entry_sp L83d0 L8458 = do {
     n3 \<leftarrow> r8 K (nd + 3);
     (if n3 = 0 then do {
       w8 K (nd + 11) 16;
       w8 K (nd + 0x47) 0;
       w16 K (nd + 0x5A) 0;
       w16 K (nd + 0x5C) 0;
       w8 K (nd + 13) 0;
       v27 \<leftarrow> r32 K 0x800ECF80;
       w32 K (nd + 0x3C) v27;
       setr K 4 nd;
       setr K 5 A1_M0;
       setr K 6 15;
       graphics_bind_set_geom K;
       w16 K (nd + 0x80) 20;
       w16 K (nd + 0x82) 40;
       w16 K (nd + 0x84) 20;
       w16 K (nd + 0x86) 40;
       L8450 entry_sp nd
     }
      else if n3 = 1 then do {
        w8 K (nd + 11) 16;
        w8 K (nd + 0x47) 0;
        w16 K (nd + 0x5A) 0;
        w16 K (nd + 0x5C) 0;
        w8 K (nd + 13) 0;
        v28 \<leftarrow> r32 K 0x800ECF80;
        w32 K (nd + 0x3C) v28;
        setr K 4 nd;
        setr K 5 A1_M0;
        setr K 6 0;
        graphics_bind_set_geom K;
        w16 K (nd + 0x2E) 17260;
        w16 K (nd + 0x32) (-1900);
        w16 K (nd + 0x36) 11200;
        L83d0 entry_sp nd
      }
       else if n3 = 2 then do {
         w8 K (nd + 11) 18;
         w16 K (nd + 0x56) (-384);
         w16 K (nd + 0x58) 1792;
         w8 K (nd + 0x47) 0;
         w16 K (nd + 0x54) 0;
         w16 K (nd + 0x5C) 0;
         w8 K (nd + 13) 0;
         v29 \<leftarrow> r32 K 0x800ECF58;
         w32 K (nd + 0x3C) v29;
         setr K 4 nd;
         setr K 5 A1_M2;
         setr K 6 2;
         graphics_bind_set_geom K;
         L83d0 entry_sp nd
       }
        else if n3 = 3 then do {
          w8 K (nd + 11) 16;
          w8 K (nd + 0x47) 0;
          w16 K (nd + 0x5A) 0;
          w16 K (nd + 0x5C) 0;
          w8 K (nd + 13) 0;
          v30 \<leftarrow> r32 K 0x800ECF80;
          w32 K (nd + 0x3C) v30;
          setr K 4 nd;
          setr K 5 A1_M0;
          setr K 6 26;
          graphics_bind_set_geom K;
          w16 K (nd + 0x80) 32;
          w16 K (nd + 0x82) 64;
          w16 K (nd + 0x84) 20;
          w8 K (nd + 0) 1;
          w16 K (nd + 0x86) 40;
          L8450 entry_sp nd
        }
         else L8458 entry_sp nd)
   }"

definition beh_typed_init_exit_poker :: "'c core_ops \<Rightarrow> ('c, unit) state" where
  "beh_typed_init_exit_poker K = do {
     let Lret = (\<lambda>entry_sp. setr K 29 entry_sp);
     let S2 = (\<lambda>entry_sp nd. beh_typed_init_exit_poker_l282 K nd Lret entry_sp);
     let S1_3 = (\<lambda>entry_sp nd. beh_typed_init_exit_poker_l273 K nd Lret entry_sp);
     let S1_2 = (\<lambda>entry_sp nd. beh_typed_init_exit_poker_l242 K nd Lret entry_sp);
     let L185e8 = (\<lambda>entry_sp nd. do {
       _ \<leftarrow> guest_call K 0x8007778C [nd];
       _ \<leftarrow> guest_call K 0x80077B5C [nd];
       Lret entry_sp
     });
     let S1_1 = (\<lambda>entry_sp nd. beh_typed_init_exit_poker_l195 K nd Lret entry_sp L185e8);
     let S1_0 = (\<lambda>entry_sp nd. beh_typed_init_exit_poker_l167 K nd Lret entry_sp);
     let S11 = (\<lambda>entry_sp nd. do {
       n3 \<leftarrow> r8 K (nd + 3);
       (if n3 = 0 then S1_0 entry_sp nd
        else if n3 = 1 then S1_1 entry_sp nd
         else if n3 = 2 then S1_2 entry_sp nd
          else if n3 = 3 then S1_3 entry_sp nd else Lret entry_sp)
     });
     let L8458 = (\<lambda>entry_sp nd. do {
       v25 \<leftarrow> r8 K (nd + 4);
       w8 K (nd + 4) (v25 + 1);
       Lret entry_sp
     });
     let L8450 = (\<lambda>entry_sp nd. do {
       _ \<leftarrow> guest_call K 0x8004B354 [nd, 0];
       L8458 entry_sp nd
     });
     let L83d0 = (\<lambda>entry_sp nd. do {
       w16 K (nd + 0x80) 30;
       w16 K (nd + 0x82) 40;
       w16 K (nd + 0x84) 16;
       w16 K (nd + 0x86) 32;
       L8458 entry_sp nd
     });
     let S0 = (\<lambda>entry_sp nd. beh_typed_init_exit_poker_l83 K nd L8450 entry_sp L83d0
         L8458);
     nd \<leftarrow> reg K 4;
     entry_sp \<leftarrow> reg K 29;
     setr K 29 (entry_sp - 48);
     st \<leftarrow> r8 K (nd + 4);
     (if st = 1 then S11 entry_sp nd
      else if st <s 2 then (if st = 0 then S0 entry_sp nd else Lret entry_sp)
       else if st = 2 then S2 entry_sp nd
        else if st = 3 then do { despawn K nd; Lret entry_sp }
         else Lret entry_sp)
   }"

section \<open>\<open>game/ai/beh_typed_init_scene_trigger.cpp\<close>\<close>

definition confirm_or_advance :: "'c core_ops \<Rightarrow> u32 \<Rightarrow> u32 \<Rightarrow>
    u32 \<Rightarrow> ('c, unit) state" where
  "confirm_or_advance K a arg raConst = do {
     setr K 31 raConst;
     v1 \<leftarrow> scene_events_arm K (as_u8 arg);
     only_if (v1 \<noteq> 0) (actor_set_trigger_sub K a 5)
   }"

definition is_special_area :: "'c core_ops \<Rightarrow> u32 \<Rightarrow> ('c, bool) state" where
  "is_special_area K area = State_Monad.return ((area = 2 \<or> area = 7) \<or> area = 0x14)"

definition beh_typed_init_scene_trigger_l120 :: "'c core_ops \<Rightarrow> u32 \<Rightarrow> u32
    \<Rightarrow> ('c, unit) state" where
  "beh_typed_init_scene_trigger_l120 K st r4_1 = (if Sta_Idle \<le> st then (if st = Sta_Idle then
      State_Monad.return ()
    else if st \<noteq> Sta_Despawn then State_Monad.return ()
     else do { v3 \<leftarrow> actor_addr K r4_1; despawn K v3 })
    else if st \<noteq> Sta_Init then State_Monad.return ()
     else do {
       area \<leftarrow> r8 K CUR_AREA;
       v5 \<leftarrow> r16 K (TBL_AREA_SIZE + area * 2);
       let sz = as_s16 v5;
       v6 \<leftarrow> actor_addr K r4_1;
       setr K 4 v6;
       setr K 5 0xC;
       setr K 6 sz;
       graphics_bind_record_init K;
       r2_7 \<leftarrow> reg K 2;
       (if r2_7 \<noteq> 0 then State_Monad.return ()
        else do {
          actor_set_interact_state K r4_1 0;
          actor_set_scene_handle K r4_1 0;
          actor_set_rot_x K r4_1 0;
          actor_set_rot_z K r4_1 0;
          v8 \<leftarrow> actor_state K r4_1;
          actor_set_state K r4_1 (as_u8 (v8 + 1));
          area \<leftarrow> r8 K CUR_AREA;
          v10 \<leftarrow> is_special_area K area;
          uv \<leftarrow> (if v10 then do {
            actor_set_alive K r4_1 1;
            actor_set_box_x K r4_1 0xA0;
            actor_set_box_y K r4_1 0x140;
            State_Monad.return (0xED :: u32)
          }
           else do {
             v11 \<leftarrow> r8 K AREA_MODE_BYTE;
             only_if (v11 = 0) (actor_set_alive K r4_1 1);
             actor_set_box_x K r4_1 300;
             actor_set_box_y K r4_1 600;
             State_Monad.return (0xCB :: u32)
           });
          actor_set_box_z K r4_1 uv;
          actor_set_box_w K r4_1 uv;
          v12 \<leftarrow> actor_type K r4_1;
          (if v12 = 2 then do {
            v13 \<leftarrow> actor_addr K r4_1;
            w8 K (v13 + 8) 0;
            actor_set_rot_y K r4_1 0xC00
          }
           else if (((v12 = 5 \<or> v12 = 6) \<or> v12 = 7) \<or> v12 = 0x1D) \<or> v12 = 0x1E
               then actor_set_rot_y K r4_1 0
            else if v12 = 8 then do {
              v14 \<leftarrow> actor_addr K r4_1;
              w8 K (v14 + 0xB) 0xF
            }
             else if (v12 = 0xC \<or> v12 = 0xD) \<or> v12 = 0xE then do {
               actor_set_rot_y K r4_1 0x400;
               actor_set_box_x K r4_1 0x3C;
               actor_set_box_y K r4_1 0x78;
               actor_set_box_z K r4_1 0x3E;
               v15 \<leftarrow> actor_addr K r4_1;
               w8 K (v15 + 8) 0;
               actor_set_box_w K r4_1 0x7C
             }
              else if v12 = 0x11 then do {
                v16 \<leftarrow> r16 K SCENE_MASK_HW;
                only_if ((v16 AND 0x10) \<noteq> 0) (do {
                  v17 \<leftarrow> actor_pos_y_u K r4_1;
                  actor_set_pos_y K r4_1 (as_u16 (v17 + 100))
                })
              }
               else if v12 = 0x14 then do {
                 v18 \<leftarrow> actor_addr K r4_1;
                 w8 K (v18 + 8) 0
               }
                else if ((v12 = 0x15 \<or> v12 = 0x16) \<or> v12 = 0x17) \<or> v12 = 0x18 then
                    actor_set_alive K r4_1 1
                 else only_if (v12 = 0x20) (actor_set_rot_y K r4_1 0x4D0))
        })
     })"

definition beh_typed_init_scene_trigger_l222 :: "'c core_ops \<Rightarrow> u32 \<Rightarrow> u32
    \<Rightarrow> ('c, unit) state" where
  "beh_typed_init_scene_trigger_l222 K sub1 r4_1 = (if sub1 = 4 then do {
     actor_set_alive K r4_1 1;
     actor_set_trigger_sub K r4_1 0;
     v20 \<leftarrow> actor_interact_state K r4_1;
     only_if (v20 = 3) (do {
       n3 \<leftarrow> actor_type K r4_1;
       v22 \<leftarrow> actor_trigger_sub K r4_1;
       actor_set_trigger_sub K r4_1 (as_u8 (v22 + 1));
       (if n3 = 0xD then confirm_or_advance K r4_1 0x50 0x80073F84
        else if n3 < 0xE then only_if (n3 = 0xC) (confirm_or_advance K r4_1 0x4E 0x80073F6C)
         else only_if (n3 = 0xE) (confirm_or_advance K r4_1 0x4F 0x80073F9C))
     })
   }
    else if sub1 = 0 then do {
      v23 \<leftarrow> actor_interact_state K r4_1;
      only_if (v23 = 3) (do {
        n3 \<leftarrow> actor_type K r4_1;
        v25 \<leftarrow> actor_trigger_sub K r4_1;
        actor_set_trigger_sub K r4_1 (as_u8 (v25 + 1));
        (if n3 = 0xD then confirm_or_advance K r4_1 0x50 0x80073F84
         else if n3 < 0xE then only_if (n3 = 0xC) (confirm_or_advance K r4_1 0x4E 0x80073F6C)
          else only_if (n3 = 0xE) (confirm_or_advance K r4_1 0x4F 0x80073F9C))
      })
    }
     else if sub1 = 1 \<or> sub1 = 5 then do {
       let sv4 = (0 :: u32);
       n3 \<leftarrow> actor_type K r4_1;
       (sv4, use_table) \<leftarrow> (if n3 \<noteq> 2 then State_Monad.return (sv4, True)
        else do {
          let sv4 = (0x16 :: u32);
          v27 \<leftarrow> r8 K SCENE_STATE_87;
          (if v27 \<noteq> 0xFF then do {
            let sv4 = (0x15 :: u32);
            v28 \<leftarrow> r8 K SCENE_STATE_43;
            State_Monad.return (sv4, v28 = 0)
          }
           else State_Monad.return (sv4, False))
        });
       sv4 \<leftarrow> (if use_table then do {
         v29 \<leftarrow> r16 K (TBL_SCENE_ID + n3 * 2);
         State_Monad.return (as_s16 v29)
       }
        else State_Monad.return sv4);
       node \<leftarrow> scene_entity K (as_u16 sv4) 0;
       actor_set_scene_handle K r4_1 node;
       only_if (node \<noteq> 0) (do {
         v31 \<leftarrow> actor_trigger_sub K r4_1;
         actor_set_trigger_sub K r4_1 (as_u8 (v31 + 1))
       })
     }
      else if sub1 = 2 then do {
        v32 \<leftarrow> r16 K PAD_EDGE_HW;
        v33 \<leftarrow> r16 K PAD_CUR_HW;
        let v = as_u16 (v32 AND v33);
        only_if (v \<noteq> 0) (do {
          v34 \<leftarrow> actor_trigger_sub K r4_1;
          actor_set_trigger_sub K r4_1 (as_u8 (v34 + 1))
        })
      }
       else if sub1 = 3 then do {
         handle \<leftarrow> actor_scene_handle K r4_1;
         v36 \<leftarrow> r8 K (handle + 4);
         only_if (v36 < 2) (do { w8 K (handle + 4) 2; actor_set_scene_handle K r4_1 0 });
         actor_set_alive K r4_1 2;
         v37 \<leftarrow> actor_trigger_sub K r4_1;
         actor_set_trigger_sub K r4_1 (as_u8 (v37 + 1))
       }
        else only_if (sub1 = 6) (do {
          v38 \<leftarrow> bg_scene_transition_sm_ready_for_progress K;
          only_if v38 (actor_set_trigger_sub K r4_1 2)
        }))"

definition beh_typed_init_scene_trigger_l218 :: "'c core_ops \<Rightarrow> u32 \<Rightarrow> ('c,
    unit) state" where
  "beh_typed_init_scene_trigger_l218 K r4_1 = do {
     _ \<leftarrow> actor_bounds_cull K r4_1;
     sub1 \<leftarrow> actor_trigger_sub K r4_1;
     only_if (sub1 < 7) (beh_typed_init_scene_trigger_l222 K sub1 r4_1);
     v39 \<leftarrow> actor_trigger_sub K r4_1;
     only_if (v39 \<noteq> 4) (do {
       area \<leftarrow> r8 K CUR_AREA;
       v41 \<leftarrow> is_special_area K area;
       only_if v41 (do {
         handle \<leftarrow> actor_scene_handle K r4_1;
         v43 \<leftarrow> r8 K SPECIAL_AREA_TAG;
         only_if (handle \<noteq> 0 \<and> v43 \<noteq> 0x1F) (do {
           w8 K (handle + 4) 2;
           actor_set_scene_handle K r4_1 0;
           actor_set_alive K r4_1 1;
           actor_set_trigger_sub K r4_1 0
         })
       })
     });
     actor_set_interact_state K r4_1 0;
     v44 \<leftarrow> actor_addr K r4_1;
     setr K 4 v44;
     graphics_bind_render_update K
   }"

definition beh_typed_init_scene_trigger :: "'c core_ops \<Rightarrow> ('c, unit) state" where
  "beh_typed_init_scene_trigger K = with_frame K 40 [(16, 16), (31, 32), (19, 28), (18, 24), (17,
      20)] (do {
     r4_1 \<leftarrow> reg K 4;
     st \<leftarrow> actor_state K r4_1;
     (if st \<noteq> Sta_Active then beh_typed_init_scene_trigger_l120 K st r4_1
      else beh_typed_init_scene_trigger_l218 K r4_1)
   })"

end
