(* ===== verification/PadChildren.thy ===== *)
theory PadChildren
  imports ModelBinding
begin

text \<open>
  The linker of a pad's children and the scene actor of area 8.
\<close>

section \<open>Layout\<close>

definition G_1F8000E2 :: u32 where "G_1F8000E2 = 0x1F8000E2"
definition G_1F8001A0 :: u32 where "G_1F8001A0 = 0x1F8001A0"
definition G_1F80017C :: u32 where "G_1F80017C = 0x1F80017C"
definition G_800BF8DF :: u32 where "G_800BF8DF = 0x800BF8DF"
definition G_800BF8E2 :: u32 where "G_800BF8E2 = 0x800BF8E2"
definition G_800BF8E3 :: u32 where "G_800BF8E3 = 0x800BF8E3"
definition G_800BF816 :: u32 where "G_800BF816 = 0x800BF816"
definition G_800BF922 :: u32 where "G_800BF922 = 0x800BF922"
definition G_800BF928 :: u32 where "G_800BF928 = 0x800BF928"
definition G_800BF93E :: u32 where "G_800BF93E = 0x800BF93E"
definition G_800BFA30 :: u32 where "G_800BFA30 = 0x800BFA30"
definition G_800BFA31 :: u32 where "G_800BFA31 = 0x800BFA31"
definition G_800BFA32 :: u32 where "G_800BFA32 = 0x800BFA32"
definition G_800BFA3A :: u32 where "G_800BFA3A = 0x800BFA3A"
definition G_800BFA3B :: u32 where "G_800BFA3B = 0x800BFA3B"
definition G_800BFA3F :: u32 where "G_800BFA3F = 0x800BFA3F"
definition G_800BFA42 :: u32 where "G_800BFA42 = 0x800BFA42"
definition G_800BFA4E :: u32 where "G_800BFA4E = 0x800BFA4E"
definition G_800BFA50 :: u32 where "G_800BFA50 = 0x800BFA50"
definition G_800BFB22 :: u32 where "G_800BFB22 = 0x800BFB22"
definition G_800ECF80 :: u32 where "G_800ECF80 = 0x800ECF80"
definition G_800ED098 :: u32 where "G_800ED098 = 0x800ED098"
definition PTR_801486EC :: u32 where "PTR_801486EC = 0x801486EC"
definition DAT_801459AC :: u32 where "DAT_801459AC = 0x801459AC"
definition DAT_801459BC :: u32 where "DAT_801459BC = 0x801459BC"
definition DAT_80145A64 :: u32 where "DAT_80145A64 = 0x80145A64"
definition FN_8011973C :: u32 where "FN_8011973C = 0x8011973C"
definition O_FLAG_01 :: u32 where "O_FLAG_01 = 0x01"
definition O_STATE_4 :: u32 where "O_STATE_4 = 0x04"
definition O_SUB_5 :: u32 where "O_SUB_5 = 0x05"
definition O_SUB_6 :: u32 where "O_SUB_6 = 0x06"
definition O_H_2E :: u32 where "O_H_2E = 0x2E"
definition O_H_32 :: u32 where "O_H_32 = 0x32"
definition O_H_36 :: u32 where "O_H_36 = 0x36"
definition O_H_40 :: u32 where "O_H_40 = 0x40"
definition O_H_42 :: u32 where "O_H_42 = 0x42"
definition O_H_5A :: u32 where "O_H_5A = 0x5A"
definition O_H_5C :: u32 where "O_H_5C = 0x5C"
definition O_H_60 :: u32 where "O_H_60 = 0x60"
definition O_B_08 :: u32 where "O_B_08 = 0x08"
definition O_B_0B :: u32 where "O_B_0B = 0x0B"
definition O_B_0D :: u32 where "O_B_0D = 0x0D"
definition O_B_29 :: u32 where "O_B_29 = 0x29"
definition O_B_47 :: u32 where "O_B_47 = 0x47"
definition O_D_10 :: u32 where "O_D_10 = 0x10"
definition O_D_18 :: u32 where "O_D_18 = 0x18"
definition O_D_C0 :: u32 where "O_D_C0 = 0xC0"
definition O_D_D0 :: u32 where "O_D_D0 = 0xD0"
definition O_D_DC :: u32 where "O_D_DC = 0xDC"
definition O_ANIM_2C :: u32 where "O_ANIM_2C = 0x2C"
definition LAB_none :: u32 where "LAB_none = 2"
definition LAB_b88 :: u32 where "LAB_b88 = 1"
definition LAB_bc0 :: u32 where "LAB_bc0 = 0"
definition RET_b84 :: u32 where "RET_b84 = 2"
definition RET_b88 :: u32 where "RET_b88 = 1"
definition RET_bc0 :: u32 where "RET_bc0 = 3"
definition RET_caseD_10 :: u32 where "RET_caseD_10 = 4"
definition RET_none :: u32 where "RET_none = 0"

section \<open>\<open>game/ai/beh_a08_scene_actor.cpp\<close>\<close>

definition call5 :: "'c core_ops \<Rightarrow> u32 \<Rightarrow> u32 \<Rightarrow> u32
    \<Rightarrow> u32 \<Rightarrow> u32 \<Rightarrow> u32 \<Rightarrow> ('c, unit) state" where
  "call5 K a0 a1 a2 a3 stack16 addr = do {
     setr K 4 a0;
     setr K 5 a1;
     setr K 6 a2;
     setr K 7 a3;
     r29_1 \<leftarrow> reg K 29;
     let sp = r29_1 - 24;
     setr K 29 sp;
     w32 K (sp + 16) stack16;
     call_guest K addr;
     setr K 29 (sp + 24)
   }"

definition cutscene_director_l300 :: "'c core_ops \<Rightarrow> u32 \<Rightarrow> ('c, unit)
    state" where
  "cutscene_director_l300 K obj = do {
     w8 K (obj + O_FLAG_01) 1;
     _ \<leftarrow> guest_call K 0x800517F8 [obj];
     v2 \<leftarrow> r32 K G_1F80017C;
     only_if ((v2 AND 3) = 0) (do {
       h42 \<leftarrow> r16 K (obj + O_H_42);
       v4 \<leftarrow> r8 K (obj + O_SUB_5);
       let h42 = (if 6 < v4 \<or> 5 <s as_s16 (h42 + 1) then (0 :: u32) else (as_u16 (h42 + 1)));
       w16 K (obj + O_H_42) h42;
       sp_save \<leftarrow> reg K 29;
       setr K 29 (sp_save - 24);
       r29_6 \<leftarrow> reg K 29;
       let ptr = r29_6 + 6;
       w16 K (ptr + 0) 0x03F0;
       w16 K (ptr + 2) 0x00E7;
       w16 K (ptr + 4) 0x0010;
       w16 K (ptr + 6) 0x0001;
       v7 \<leftarrow> r16 K (obj + O_H_42);
       idIdx \<leftarrow> r8 K (DAT_80145A64 + v7);
       let spriteArg = idIdx * 0x20 - 0x7FEBA61C;
       setr K 4 ptr;
       setr K 5 spriteArg;
       call_guest K 0x80081218;
       setr K 29 sp_save
     })
   }"

definition cutscene_director_l247 :: "'c core_ops \<Rightarrow> u32 \<Rightarrow> u32
    \<Rightarrow> ('c, unit) state \<Rightarrow> ('c, unit) state" where
  "cutscene_director_l247 K st obj rest1 = (if st = 7 then do {
     v25 \<leftarrow> r16 K (obj + O_H_40);
     let v = as_s16 (v25 - 1);
     w16 K (obj + O_H_40) v;
     only_if (v = -1) (do { w8 K (obj + O_SUB_5) (st + 1); w8 K G_800BFA50 0x0A });
     rest1
   }
    else if st = 8 then do {
      v26 \<leftarrow> r8 K G_800BFA50;
      (if v26 \<noteq> 0x14 then rest1
       else do {
         w16 K (obj + O_H_40) 0;
         v27 \<leftarrow> r8 K (obj + O_SUB_5);
         w8 K (obj + O_SUB_5) (v27 + 1);
         rest1
       })
    }
     else if st = 9 then do {
       s6 \<leftarrow> r8 K (obj + O_SUB_6);
       let doneFinish = False;
       doneFinish \<leftarrow> (if s6 = 1 then do {
         v29 \<leftarrow> r8 K G_800BFA50;
         only_if (v29 = 0x15) (w8 K (obj + O_SUB_6) 2);
         State_Monad.return doneFinish
       }
        else if s6 = 0 then do {
          v30 \<leftarrow> r16 K (obj + O_H_40);
          let v = as_s16 (v30 + 8);
          w16 K (obj + O_H_40) v;
          only_if (0xFF <s v) (do {
            w16 K (obj + O_H_40) 0xFF;
            v31 \<leftarrow> r8 K (obj + O_SUB_6);
            w8 K (obj + O_SUB_6) (v31 + 1)
          });
          State_Monad.return doneFinish
        }
         else if s6 = 2 then do {
           v32 \<leftarrow> r16 K (obj + O_H_40);
           let nv = as_u16 (v32 - 8);
           w16 K (obj + O_H_40) nv;
           State_Monad.return (if shl nv 16 <s 1 then True else doneFinish)
         }
          else State_Monad.return doneFinish);
       (if \<not> doneFinish then do {
         u \<leftarrow> r8 K (obj + O_H_40);
         screen_fade_apply_leaf_call K (((shl u 16) OR (shl u 8)) OR u) kAdditive 4
       }
        else do { w8 K G_800BFA50 0x16; w8 K (obj + O_STATE_4) 3 })
     }
      else rest1)"

definition cutscene_director :: "'c core_ops \<Rightarrow> u32 \<Rightarrow> ('c, unit) state"
    where
  "cutscene_director K obj = do {
     st \<leftarrow> r8 K (obj + O_SUB_5);
     let fellThrough = False;
     let rest1 = (cutscene_director_l300 K obj);
     (if st = 0 then do {
       w16 K (obj + O_H_40) 0x000C;
       w16 K (obj + O_H_42) 0;
       w8 K (obj + O_SUB_5) (st + 1);
       v9 \<leftarrow> r16 K (obj + O_H_40);
       let v = as_s16 (v9 - 1);
       w16 K (obj + O_H_40) v;
       (if v \<noteq> -1 then State_Monad.return ()
        else do {
          w16 K (obj + O_H_40) 0x003C;
          v10 \<leftarrow> r8 K (obj + O_SUB_5);
          w8 K (obj + O_SUB_5) (v10 + 1)
        })
     }
      else if st = 1 then do {
        v11 \<leftarrow> r16 K (obj + O_H_40);
        let v = as_s16 (v11 - 1);
        w16 K (obj + O_H_40) v;
        (if v \<noteq> -1 then State_Monad.return ()
         else do {
           w16 K (obj + O_H_40) 0x003C;
           v12 \<leftarrow> r8 K (obj + O_SUB_5);
           w8 K (obj + O_SUB_5) (v12 + 1)
         })
      }
       else if st = 2 then do {
         v13 \<leftarrow> r32 K G_800E7F5C;
         v14 \<leftarrow> r32 K G_800E7F50;
         call5 K obj 0 v13 v14 0 0x8004BD64;
         v15 \<leftarrow> r16 K (obj + O_H_40);
         let v = as_s16 (v15 - 1);
         w16 K (obj + O_H_40) v;
         v16 \<leftarrow> r16 K (obj + O_H_36);
         w16 K (obj + O_H_36) (v16 + 0x14);
         (if v \<noteq> -1 then rest1 else do { w8 K (obj + O_SUB_5) (st + 1); rest1 })
       }
        else if st = 3 then do {
          v17 \<leftarrow> r32 K G_800E7F5C;
          v18 \<leftarrow> r32 K G_800E7F50;
          call5 K obj 0 v17 v18 0 0x8004BD64;
          v19 \<leftarrow> r16 K (obj + O_H_36);
          w16 K (obj + O_H_36) (v19 + 0x14);
          c4 \<leftarrow> r32 K (obj + O_D_C4);
          v21 \<leftarrow> r16 K (c4 + 8);
          let nv = as_s16 (v21 - 0x40);
          w16 K (c4 + 8) nv;
          only_if (nv <s - 0x700) (do {
            w8 K (obj + O_SUB_5) (st + 1);
            setr K 4 (obj + O_ANIM_2C);
            setr K 5 0;
            call_guest K 0x8013DD48;
            w16 K (obj + O_H_40) 8
          });
          rest1
        }
         else if st = 4 then do {
           v22 \<leftarrow> r16 K (obj + O_H_40);
           let v = as_s16 (v22 - 1);
           w16 K (obj + O_H_40) v;
           (if v \<noteq> -1 then rest1
            else do {
              w8 K (obj + O_SUB_5) (st + 1);
              setr K 4 (obj + O_ANIM_2C);
              call_guest K 0x8013DD48;
              setr K 4 (obj + O_ANIM_2C);
              setr K 5 2;
              call_guest K 0x8013DD48;
              w16 K (obj + O_H_40) 8;
              rest1
            })
         }
          else if st = 5 then do {
            v23 \<leftarrow> r16 K (obj + O_H_40);
            let v = as_s16 (v23 - 1);
            w16 K (obj + O_H_40) v;
            (if v \<noteq> -1 then rest1
             else do {
               let iVar8 = obj + O_ANIM_2C;
               w8 K (obj + O_SUB_5) (st + 1);
               setr K 4 iVar8;
               setr K 5 3;
               call_guest K 0x8013DD48;
               setr K 4 iVar8;
               setr K 5 4;
               call_guest K 0x8013DD48;
               setr K 4 iVar8;
               setr K 5 5;
               call_guest K 0x8013DD48;
               setr K 4 iVar8;
               setr K 5 6;
               call_guest K 0x8013DD48;
               w16 K (obj + O_H_40) 8;
               rest1
             })
          }
           else if st = 6 then do {
             v24 \<leftarrow> r16 K (obj + O_H_40);
             let v = as_s16 (v24 - 1);
             w16 K (obj + O_H_40) v;
             only_if (v = -1) (do {
               w8 K (obj + O_SUB_5) (st + 1);
               for_each (map of_nat [7..<0x14]) (\<lambda>iVar8. do {
                 setr K 4 (obj + O_ANIM_2C);
                 setr K 5 iVar8;
                 call_guest K 0x8013DD48
               });
               w16 K (obj + O_H_40) 0x5A
             });
             rest1
           }
            else cutscene_director_l247 K st obj rest1)
   }"

definition state0_case_5_or_16 :: "'c core_ops \<Rightarrow> u32 \<Rightarrow> u32 \<Rightarrow>
    ('c, u32) state" where
  "state0_case_5_or_16 K obj modelArg = do {
     v1 \<leftarrow> r32 K G_800ECF80;
     w32 K (obj + O_D_3C) v1;
     _ \<leftarrow> guest_call K 0x80077B38 [obj, PTR_801486EC, modelArg];
     w8 K (obj + O_B_0D) 0;
     w16 K (obj + O_H_5C) 0;
     w8 K (obj + O_B_0B) 0x10;
     w16 K (obj + O_H_5A) 0;
     w8 K (obj + O_B_47) 0;
     State_Monad.return LAB_none
   }"

definition beh_a08_scene_actor_state0_init_l435 :: "'c core_ops \<Rightarrow> u32 \<Rightarrow>
    u32 \<Rightarrow> ('c, u32) state" where
  "beh_a08_scene_actor_state0_init_l435 K v obj = (if v = 0x10 then do {
     v15 \<leftarrow> guest_call K 0x80051B70 [obj, 0x0C, 0x58];
     only_if (v15 = 0) (do {
       v16 \<leftarrow> r8 K (obj + O_B_0D);
       w8 K (obj + O_B_0D) (v16 OR 4);
       v17 \<leftarrow> r32 K (obj + O_D_C0);
       w8 K (v17 + 0x3F) 0x1E;
       w8 K (obj + O_KIND) 1;
       w16 K (obj + O_H_80) 0x78;
       w16 K (obj + O_H_82) 0xF0;
       w16 K (obj + O_H_84) 0x1C0;
       w16 K (obj + O_H_86) 0x1C0;
       call_guest K 0x800517F8
     });
     State_Monad.return LAB_none
   }
    else if v = 0x11 then do {
      v18 \<leftarrow> guest_call K 0x80051B70 [obj, 0x0C, 0x57];
      only_if (v18 = 0) (do {
        v19 \<leftarrow> r8 K G_800BF928;
        (if as_s8 v19 = -1 then do {
          w8 K (obj + O_SUB_5) 1;
          w16 K (obj + O_H_2E) 0x40C9;
          w16 K (obj + O_H_32) 0xF148;
          w16 K (obj + O_H_36) 0x10ED
        }
         else w8 K (obj + O_SUB_5) 0);
        w16 K (obj + O_H_54) 0;
        w16 K (obj + O_H_56) 0;
        w16 K (obj + O_H_58) 0
      });
      State_Monad.return LAB_none
    }
     else if v = 0x12 then state0_case_5_or_16 K obj 0x0C
      else if v = 0x13 then do {
        v21 \<leftarrow> guest_call K 0x80051B70 [obj, 0x0C, 0x6B];
        (if v21 \<noteq> 0 then State_Monad.return LAB_none
         else do {
           w16 K (obj + O_H_56) 0x04FC;
           w16 K (obj + O_H_58) 0;
           w16 K (obj + O_H_54) 0;
           w16 K (obj + O_H_40) 0;
           w32 K (obj + O_D_10) 0;
           v22 \<leftarrow> r8 K G_800BF93E;
           only_if (as_s8 v22 = -1) (do {
             w8 K (obj + O_SUB_5) 10;
             v23 \<leftarrow> r8 K (obj + O_B_0D);
             w8 K (obj + O_B_0D) (v23 OR 4);
             v24 \<leftarrow> r32 K (obj + O_D_C0);
             w8 K (v24 + 0x3F) 0xF6
           });
           State_Monad.return LAB_none
         })
      }
       else if v = 0x14 then do {
         v25 \<leftarrow> guest_call K 0x80051B70 [obj, 0x0C, 0x6E];
         only_if (v25 = 0) (do {
           w16 K (obj + O_H_58) 0;
           w16 K (obj + O_H_56) 0;
           w16 K (obj + O_H_54) 0
         });
         State_Monad.return LAB_none
       }
        else if v = 0x15 then do {
          v26 \<leftarrow> guest_call K 0x80051B70 [obj, 0x0C, 0x6D];
          only_if (v26 = 0) (do {
            w16 K (obj + O_H_58) 0;
            w16 K (obj + O_H_56) 0;
            w16 K (obj + O_H_54) 0
          });
          State_Monad.return LAB_none
        }
         else if v = 0x16 then state0_case_5_or_16 K obj 5
          else if v = 0x17 then do {
            v28 \<leftarrow> r8 K G_800BFA42;
            (if v28 = 0 then do {
              _ \<leftarrow> guest_call K 0x80051B70 [obj, 0x0C, 0x6C];
              State_Monad.return LAB_none
            }
             else State_Monad.return LAB_bc0)
          }
           else if v = 0x18 then do {
             w8 K (obj + O_B_0B) 0x20;
             w32 K (obj + O_D_18) FN_8011973C;
             w16 K (obj + O_H_2E) 0x3053;
             w16 K (obj + O_H_32) 0xEEEA;
             w16 K (obj + O_H_36) 0x17C3;
             w16 K (obj + O_H_84) 200;
             w16 K (obj + O_H_80) 0;
             w16 K (obj + O_H_82) 0;
             w16 K (obj + O_H_86) 400;
             State_Monad.return LAB_none
           }
            else if v = 0x19 then do {
              _ \<leftarrow> guest_call K 0x801279DC [obj];
              State_Monad.return LAB_none
            }
             else if v = 0x1A then do {
               _ \<leftarrow> guest_call K 0x80127B34 [obj];
               State_Monad.return LAB_none
             }
              else if v = 0x1B then do {
                w8 K (obj + O_KIND) 1;
                w16 K (obj + O_H_80) 0x40;
                w16 K (obj + O_H_82) 0x80;
                w16 K (obj + O_H_84) 400;
                w16 K (obj + O_H_86) 800;
                State_Monad.return LAB_none
              }
               else State_Monad.return LAB_none)"

definition beh_a08_scene_actor_state0_init :: "'c core_ops \<Rightarrow> u32 \<Rightarrow> ('c,
    u32) state" where
  "beh_a08_scene_actor_state0_init K obj = do {
     v \<leftarrow> r8 K (obj + O_VARIANT);
     (if ((v = 0 \<or> v = 1) \<or> v = 2) \<or> v = 3 then do {
       v2 \<leftarrow> r16 K (DAT_801459AC + v * 2);
       let argH = as_s16 v2;
       _ \<leftarrow> guest_call K 0x80051B70 [obj, 0x0C, argH];
       State_Monad.return LAB_b88
     }
      else if v = 4 then do {
        g \<leftarrow> r8 K G_800BFA31;
        let arg = (if g < 4 then 0x13 else (if g < 7 then 0x14 else 0x15));
        _ \<leftarrow> guest_call K 0x80051B70 [obj, 0x0C, arg];
        State_Monad.return LAB_b88
      }
       else if v = 5 then do {
         v4 \<leftarrow> r32 K G_800ECF80;
         w32 K (obj + O_D_3C) v4;
         _ \<leftarrow> guest_call K 0x80077B38 [obj, PTR_801486EC, 9];
         w8 K (obj + O_B_0B) 0x10;
         w16 K (obj + O_H_5C) 0;
         w16 K (obj + O_H_5A) 0;
         w8 K (obj + O_B_47) 0;
         w8 K (obj + O_B_08) 0xF0;
         State_Monad.return LAB_none
       }
        else if v = 6 then do {
          _ \<leftarrow> guest_call K 0x80051B70 [obj, 0x0C, 0x20];
          v5 \<leftarrow> r8 K G_800BF8E2;
          (if as_s8 v5 \<noteq> -1 then do {
            w16 K (obj + O_H_2E) 0x03FC;
            w16 K (obj + O_H_36) 0x07F0
          }
           else w8 K (obj + O_SUB_5) 10);
          State_Monad.return LAB_none
        }
         else if v = 7 then do {
           v6 \<leftarrow> r8 K G_800BF8E2;
           (if as_s8 v6 \<noteq> -1 then do {
             _ \<leftarrow> guest_call K 0x80051B70 [obj, 0x0C, 0x21];
             State_Monad.return LAB_none
           }
            else State_Monad.return LAB_bc0)
         }
          else if v = 8 then do {
            v7 \<leftarrow> r8 K G_800BF8E2;
            (if as_s8 v7 \<noteq> -1 then do {
              _ \<leftarrow> guest_call K 0x80051B70 [obj, 0x0C, 0x22];
              State_Monad.return LAB_none
            }
             else State_Monad.return LAB_bc0)
          }
           else if v = 9 then do {
             _ \<leftarrow> guest_call K 0x80051B70 [obj, 0x0C, 0x1F];
             _ \<leftarrow> guest_call K 0x800517F8 [obj];
             v8 \<leftarrow> r8 K G_800BF8DF;
             only_if (as_s8 v8 = -1) (w8 K (obj + O_SUB_5) 1);
             State_Monad.return LAB_none
           }
            else if v = 10 then do {
              v9 \<leftarrow> r8 K G_800BFB22;
              v10 \<leftarrow> r32 K G_800ED098;
              (if v9 = 0 \<and> 1 < v10 then do {
                _ \<leftarrow> guest_call K 0x80051B70 [obj, 0x0C, 0x4D];
                call5 K obj DAT_801459BC 4 0x0C 0x4E 0x801268D8;
                w8 K (obj + O_KIND) 1;
                w16 K (obj + O_H_80) 0xF8;
                w16 K (obj + O_H_82) 0x1F0;
                w16 K (obj + O_H_84) 0x220;
                w16 K (obj + O_H_86) 0x220;
                w8 K (obj + O_B_29) 0;
                w8 K (obj + O_B_5F) 0;
                _ \<leftarrow> guest_call K 0x8004766C [obj];
                _ \<leftarrow> guest_call K 0x80048750 [obj];
                v11 \<leftarrow> r16 K G_1F8001A0;
                w16 K (obj + O_H_60) v11;
                _ \<leftarrow> guest_call K 0x800517F8 [obj];
                ret \<leftarrow> guest_call K 0x8003116C [0x90B, obj + O_ANIM_2C, - 0x20];
                w32 K (obj + O_D_10) ret;
                State_Monad.return LAB_none
              }
               else State_Monad.return LAB_bc0)
            }
             else if v = 0xB then do {
               v13 \<leftarrow> guest_call K 0x80051B70 [obj, 0x0C, 0x6C];
               only_if (v13 = 0) (do {
                 w16 K (obj + O_H_56) 0x0ACD;
                 w16 K (obj + O_H_58) 0x0C5C;
                 w16 K (obj + O_H_2E) 0x224D;
                 w16 K (obj + O_H_32) 0xEA80;
                 w16 K (obj + O_H_54) 0;
                 w16 K (obj + O_H_36) 0x325E
               });
               State_Monad.return LAB_none
             }
              else if v = 0xE then do {
                v14 \<leftarrow> guest_call K 0x80051B70 [obj, 0x0C, 0x2B];
                (if v14 = 0 then State_Monad.return LAB_b88
                 else State_Monad.return LAB_none)
              }
               else beh_a08_scene_actor_state0_init_l435 K v obj)
   }"

definition beh_a08_scene_actor_state1_run_l633 :: "'c core_ops \<Rightarrow> u32 \<Rightarrow> u32
    \<Rightarrow> ('c, u32) state" where
  "beh_a08_scene_actor_state1_run_l633 K v obj = (if v = 0x12 then do {
     mask1 \<leftarrow> r8 K G_800BFA32;
     v21 \<leftarrow> r16 K (obj + O_H_60);
     let shift1 = (as_s16 v21) AND 0x1F;
     (if ((shr mask1 (unat shift1)) AND 1) = 0 then do {
       w8 K (obj + O_FLAG_01) 1;
       _ \<leftarrow> guest_call K 0x8004DAEC [obj];
       v22 \<leftarrow> r16 K (obj + O_H_2E);
       w16 K (obj + O_H_2E) (v22 + 0x20);
       State_Monad.return RET_none
     }
      else State_Monad.return RET_bc0)
   }
    else if v = 0x13 then do {
      _ \<leftarrow> guest_call K 0x801273B4 [obj];
      State_Monad.return RET_none
    }
     else if v = 0x14 then do {
       v23 \<leftarrow> r8 K G_800BFA3A;
       (if v23 \<noteq> 0x0B then do {
         w8 K (obj + O_FLAG_01) 1;
         State_Monad.return RET_b88
       }
        else State_Monad.return RET_bc0)
     }
      else if v = 0x15 then State_Monad.return RET_b84
       else if v = 0x16 then do {
         s5 \<leftarrow> r8 K (obj + O_SUB_5);
         w8 K (obj + O_FLAG_01) 1;
         (if s5 = 1 then do {
           d10 \<leftarrow> r32 K (obj + O_D_10);
           v26 \<leftarrow> r32 K (d10 + O_D_D0);
           v27 \<leftarrow> r32 K (v26 + O_ANIM_2C);
           v28 \<leftarrow> r32 K (d10 + O_D_DC);
           v29 \<leftarrow> r32 K (v28 + O_ANIM_2C);
           let sum2E = v27 + v29;
           w16 K (obj + O_H_2E) (sdiv sum2E 2);
           v30 \<leftarrow> r32 K (d10 + O_D_D0);
           v31 \<leftarrow> r32 K (v30 + 0x30);
           v32 \<leftarrow> r32 K (d10 + O_D_DC);
           v33 \<leftarrow> r32 K (v32 + 0x30);
           let sum32 = v31 + v33;
           w16 K (obj + O_H_32) (sdiv sum32 2 - 0x28);
           v34 \<leftarrow> r32 K (d10 + O_D_D0);
           v35 \<leftarrow> r32 K (v34 + 0x34);
           v36 \<leftarrow> r32 K (d10 + O_D_DC);
           v37 \<leftarrow> r32 K (v36 + 0x34);
           let sum36 = v35 + v37;
           w16 K (obj + O_H_36) (sdiv sum36 2)
         }
          else only_if (s5 = 0) (do {
            v38 \<leftarrow> r32 K G_800E7F5C;
            v39 \<leftarrow> r32 K G_800E7F50;
            call5 K obj 0 v38 v39 0 0x8004BD64
          }));
         State_Monad.return RET_none
       }
        else if v = 0x17 then do {
          _ \<leftarrow> guest_call K 0x801277E0 [obj];
          State_Monad.return RET_none
        }
         else if v = 0x18 then do {
           w8 K (obj + O_FLAG_01) 1;
           s5 \<leftarrow> r8 K (obj + O_SUB_5);
           (if s5 = 0 then do {
             v41 \<leftarrow> r8 K G_800BFA3F;
             (if (v41 AND 0x80) = 0 then do {
               v42 \<leftarrow> r16 K (obj + O_H_80);
               let s80 = as_s16 v42;
               only_if (s80 \<noteq> 0) (w16 K (obj + O_H_80) (s80 - 1 - (sar 2 s80)))
             }
              else w8 K (obj + O_SUB_5) 1)
           }
            else only_if (s5 = 1) (do {
              v43 \<leftarrow> r8 K G_800BFA3F;
              (if (v43 AND 0x80) = 0 then w8 K (obj + O_SUB_5) 0
               else do {
                 v44 \<leftarrow> r16 K (obj + O_H_80);
                 only_if (as_s16 v44 <s 0x100) (do {
                   v45 \<leftarrow> r16 K (obj + O_H_80);
                   let s80 = as_s16 v45;
                   w16 K (obj + O_H_80) (s80 + 1 + (sar 2 (0x100 - s80)))
                 })
               })
            }));
           State_Monad.return RET_none
         }
          else if v = 0x19 then do {
            v46 \<leftarrow> r8 K G_800BF922;
            (if as_s8 v46 \<noteq> -1 then State_Monad.return RET_none
             else do {
               s5 \<leftarrow> r8 K (obj + O_SUB_5);
               (if s5 = 1 then do {
                 c4 \<leftarrow> r32 K (obj + O_D_C4);
                 v49 \<leftarrow> r16 K (c4 + 8);
                 let nv = as_s16 (v49 - 0x40);
                 w16 K (c4 + 8) nv;
                 (if nv <s - 0x6FF then do {
                   v50 \<leftarrow> r8 K (obj + O_SUB_5);
                   w8 K (obj + O_SUB_5) (v50 + 1);
                   w8 K G_800BFA50 0x1F;
                   State_Monad.return RET_b84
                 }
                  else State_Monad.return RET_b84)
               }
                else do {
                  v51 \<leftarrow> r8 K G_800BFA50;
                  only_if (s5 = 0 \<and> 0x1D < v51) (do {
                    w8 K (obj + O_SUB_5) 1;
                    _ \<leftarrow> guest_call K 0x80074590 [0x1A, 0x1B, 0];
                    State_Monad.return ()
                  });
                  State_Monad.return RET_b84
                })
             })
          }
           else if v = 0x1A then do { cutscene_director K obj; State_Monad.return RET_none }
            else if v = 0x1B then do {
              v52 \<leftarrow> r8 K G_800BF8E3;
              (if as_s8 v52 \<noteq> -1 then do {
                w8 K (obj + O_FLAG_01) 1;
                _ \<leftarrow> guest_call K 0x80077EBC [obj];
                State_Monad.return RET_none
              }
               else State_Monad.return RET_bc0)
            }
             else State_Monad.return RET_none)"

definition beh_a08_scene_actor_state1_run :: "'c core_ops \<Rightarrow> u32 \<Rightarrow> ('c,
    u32) state" where
  "beh_a08_scene_actor_state1_run K obj = do {
     v \<leftarrow> r8 K (obj + O_VARIANT);
     (if (((v = 0 \<or> v = 1) \<or> v = 2) \<or> v = 3) \<or> v = 4 then do {
       v2 \<leftarrow> r16 K G_1F8000E2;
       v3 \<leftarrow> r16 K (obj + O_H_32);
       let sub1 = as_s16 (sar 16 (shl (v2 - v3) 16));
       setr K 4 obj;
       setr K 5 sub1;
       call_guest K 0x800778E4;
       State_Monad.return RET_none
     }
      else if v = 5 then do {
        v4 \<leftarrow> r8 K G_800BFA4E;
        (if v4 \<noteq> 1 then do {
          d10 \<leftarrow> r32 K (obj + O_D_10);
          v6 \<leftarrow> r32 K (d10 + 0xD8);
          v7 \<leftarrow> r32 K (d10 + 0xCC);
          call5 K obj 0 v6 v7 0 0x8004BD64;
          w8 K (obj + O_FLAG_01) 1;
          State_Monad.return RET_none
        }
         else do {
           _ \<leftarrow> guest_call K 0x8004D4C4 [0x54, 1];
           _ \<leftarrow> guest_call K 0x8004B0D8 [obj];
           State_Monad.return RET_bc0
         })
      }
       else if v = 6 then do {
         _ \<leftarrow> guest_call K 0x80126AD8 [obj];
         State_Monad.return RET_none
       }
        else if v = 7 then do {
          _ \<leftarrow> guest_call K 0x80126C68 [obj];
          State_Monad.return RET_none
        }
         else if v = 8 then do {
           s5 \<leftarrow> r8 K (obj + O_SUB_5);
           (if s5 = 0 then do {
             v9 \<leftarrow> r8 K G_800BFA3B;
             (if v9 = 0x0E then do { w8 K (obj + O_SUB_5) 1; State_Monad.return RET_b84 }
              else State_Monad.return RET_b84)
           }
            else if s5 \<noteq> 1 then do {
              w8 K (obj + O_FLAG_01) 1;
              State_Monad.return RET_b88
            }
             else do {
               v10 \<leftarrow> r16 K (obj + O_H_32);
               let s32v = as_s16 v10;
               let ns = as_s16 (s32v + 0x10);
               w16 K (obj + O_H_32) ns;
               (if 499 <s ns then do {
                 w8 K G_800BFA3B 0x0F;
                 w8 K (obj + O_STATE_4) 3;
                 State_Monad.return RET_b84
               }
                else State_Monad.return RET_b84)
             })
         }
          else if v = 9 then do {
            s5 \<leftarrow> r8 K (obj + O_SUB_5);
            (if s5 = 0 then do {
              v12 \<leftarrow> r8 K G_800BFA3A;
              only_if (10 < v12) (w8 K (obj + O_SUB_5) 1);
              State_Monad.return RET_none
            }
             else if s5 \<noteq> 1 then State_Monad.return RET_none
              else do { w8 K (obj + O_FLAG_01) 1; State_Monad.return RET_b88 })
          }
           else if v = 10 then do {
             _ \<leftarrow> guest_call K 0x80126E24 [obj];
             State_Monad.return RET_none
           }
            else if v = 0xB then do {
              v13 \<leftarrow> r8 K G_800BF816;
              (if v13 \<noteq> 0 then do {
                v14 \<leftarrow> guest_call K 0x8007778C [obj];
                (if v14 = 0 then State_Monad.return RET_none
                 else State_Monad.return RET_b88)
              }
               else State_Monad.return RET_bc0)
            }
             else if v = 0xE then do {
               w8 K (obj + O_FLAG_01) 1;
               State_Monad.return RET_none
             }
              else if v = 0x10 then State_Monad.return RET_caseD_10
               else if v = 0x11 then do {
                 v15 \<leftarrow> r8 K (obj + O_SUB_5);
                 only_if (v15 = 0) (do {
                   v16 \<leftarrow> r32 K G_800E7F5C;
                   v17 \<leftarrow> r32 K G_800E7F50;
                   call5 K obj 0 v16 v17 0 0x8004BD64;
                   v18 \<leftarrow> r8 K G_800BFA30;
                   only_if ((v18 AND 1) \<noteq> 0) (do {
                     w16 K (obj + O_H_2E) 0x40C9;
                     w16 K (obj + O_H_32) 0xF148;
                     w16 K (obj + O_H_36) 0x10ED;
                     v19 \<leftarrow> r8 K (obj + O_SUB_5);
                     w8 K (obj + O_SUB_5) (v19 + 1)
                   })
                 });
                 _ \<leftarrow> guest_call K 0x800517F8 [obj];
                 State_Monad.return RET_caseD_10
               }
                else beh_a08_scene_actor_state1_run_l633 K v obj)
   }"

definition beh_a08_scene_actor :: "'c core_ops \<Rightarrow> ('c, unit) state" where
  "beh_a08_scene_actor K = with_frame K 40 [(16, 24), (31, 32), (17, 28)] (do {
     obj \<leftarrow> reg K 4;
     state1 \<leftarrow> r8 K (obj + O_STATE_4);
     let rest1 = ((if 1 < state1 then (if state1 = 2 then State_Monad.return ()
      else if state1 = 3 then do {
        _ \<leftarrow> guest_call K 0x8007A624 [obj];
        State_Monad.return ()
      }
       else State_Monad.return ())
      else if state1 \<noteq> 0 then State_Monad.return ()
       else do {
         w8 K (obj + O_STATE_4) 1;
         r \<leftarrow> beh_a08_scene_actor_state0_init K obj;
         (if r = LAB_b88 then do {
           _ \<leftarrow> guest_call K 0x800517F8 [obj];
           State_Monad.return ()
         }
          else only_if (r = LAB_bc0) (w8 K (obj + O_STATE_4) 3))
       }));
     (if state1 = 1 then do {
       r \<leftarrow> beh_a08_scene_actor_state1_run K obj;
       (if r = RET_b84 then do {
         w8 K (obj + O_FLAG_01) 1;
         _ \<leftarrow> guest_call K 0x800517F8 [obj];
         State_Monad.return ()
       }
        else if r = RET_b88 then do {
          _ \<leftarrow> guest_call K 0x800517F8 [obj];
          State_Monad.return ()
        }
         else if r = RET_bc0 then w8 K (obj + O_STATE_4) 3
          else if r = RET_caseD_10 then do {
            _ \<leftarrow> guest_call K 0x8007778C [obj];
            State_Monad.return ()
          }
           else State_Monad.return ())
     }
      else rest1)
   })"

section \<open>\<open>game/ai/beh_pad_child_linker.cpp\<close>\<close>

definition beh_pad_child_linker_l179 :: "'c core_ops \<Rightarrow> 'a \<Rightarrow> 'b
    \<Rightarrow> 'd \<Rightarrow> 'e \<Rightarrow> 'f \<Rightarrow> 'g \<Rightarrow> 'h
    \<Rightarrow> ('c, 'i + string \<times> 'a \<times> 'b \<times> u32 \<times> 'd \<times> 'e
    \<times> 'f \<times> 'g \<times> 'h) state" where
  "beh_pad_child_linker_l179 K obj s0 s3 s4 s5 v0 v1 = do {
     let s1 = (0x800E7E80 :: u32);
     v27 \<leftarrow> r8 K (s1 + 41);
     (if v27 = 0 then State_Monad.return (Inr (''L510'', obj, s0, s1, s3, s4, s5, v0, v1))
      else do {
        v28 \<leftarrow> r8 K (s1 + 362);
        (if v28 = 0 then State_Monad.return (Inr (''L520'', obj, s0, s1, s3, s4, s5, v0, v1))
         else State_Monad.return (Inr (''L510'', obj, s0, s1, s3, s4, s5, v0, v1)))
      })
   }"

definition beh_pad_child_linker_l192 :: "'c core_ops \<Rightarrow> u32 \<Rightarrow> u32
    \<Rightarrow> 'a \<Rightarrow> 'b \<Rightarrow> 'd \<Rightarrow> 'e \<Rightarrow> u32
    \<Rightarrow> ('c, 'f + string \<times> u32 \<times> 'a \<times> u32 \<times> 'b \<times> 'd
    \<times> 'e \<times> u32 \<times> u32) state" where
  "beh_pad_child_linker_l192 K s1 obj s0 s3 s4 s5 v0 = do {
     v30 \<leftarrow> r16 K (s1 + 46);
     w16 K (obj + 0x2E) v30;
     v31 \<leftarrow> r16 K (s1 + 50);
     w16 K (obj + 0x32) (v31 - 300);
     v32 \<leftarrow> r16 K (s1 + 54);
     w16 K (obj + 0x36) v32;
     v33 \<leftarrow> r8 K (s1 + 42);
     w8 K (obj + 0x2A) v33;
     v1 \<leftarrow> r16 K 0x1F80018E;
     (if (v1 AND 0x1030) = 0 then State_Monad.return (Inr (''L618'', obj, s0, s1, s3, s4, s5, v0,
         v1))
      else if (v1 AND 0x1000) = 0 then do {
        let v1 = (512 :: u32);
        State_Monad.return (Inr (''L5b8'', obj, s0, s1, s3, s4, s5, v0, v1))
      }
       else do {
         let v1 = (512 :: u32);
         let v0 = v1 AND 0x100;
         p \<leftarrow> r32 K (obj + 0xC4);
         (if v0 = 0 then State_Monad.return (Inr (''L590'', obj, s0, s1, s3, s4, s5, v0, v1))
          else do {
            w16 K (p + 12) v1;
            let v0 = (2 :: u32);
            State_Monad.return (Inr (''L5a0'', obj, s0, s1, s3, s4, s5, v0, v1))
          })
       })
   }"

definition beh_pad_child_linker_l214 :: "'c core_ops \<Rightarrow> u32 \<Rightarrow> 'a
    \<Rightarrow> 'b \<Rightarrow> 'd \<Rightarrow> 'e \<Rightarrow> 'f \<Rightarrow> ('c, 'g +
    string \<times> u32 \<times> 'a \<times> 'b \<times> 'd \<times> 'e \<times> 'f \<times> u32
    \<times> u32) state" where
  "beh_pad_child_linker_l214 K obj s0 s1 s3 s4 s5 = do {
     v0 \<leftarrow> r32 K (obj + 0xC4);
     let v1 = (3584 :: u32);
     w16 K (v0 + 12) v1;
     let v0 = (1 :: u32);
     State_Monad.return (Inr (''L5a0'', obj, s0, s1, s3, s4, s5, v0, v1))
   }"

definition beh_pad_child_linker_l219 :: "'c core_ops \<Rightarrow> u32 \<Rightarrow> u32
    \<Rightarrow> 'a \<Rightarrow> 'b \<Rightarrow> 'd \<Rightarrow> 'e \<Rightarrow> 'f
    \<Rightarrow> ('c, 'g + string \<times> u32 \<times> 'a \<times> 'b \<times> 'd \<times> 'e
    \<times> 'f \<times> u32 \<times> u32) state" where
  "beh_pad_child_linker_l219 K obj v0 s0 s1 s3 s4 s5 = do {
     w8 K (obj + 1) v0;
     v1 \<leftarrow> r32 K (obj + 0xC4);
     v0 \<leftarrow> r16 K 0x1F800194;
     w16 K (v1 + 10) v0;
     State_Monad.return (Inr (''L6cc'', obj, s0, s1, s3, s4, s5, v0, v1))
   }"

definition beh_pad_child_linker_l225 :: "'c core_ops \<Rightarrow> u32 \<Rightarrow> u32
    \<Rightarrow> 'a \<Rightarrow> 'b \<Rightarrow> 'd \<Rightarrow> 'e \<Rightarrow> 'f
    \<Rightarrow> ('c, 'g + string \<times> u32 \<times> 'a \<times> 'b \<times> 'd \<times> 'e
    \<times> 'f \<times> u32 \<times> u32) state" where
  "beh_pad_child_linker_l225 K v1 obj s0 s1 s3 s4 s5 = do {
     let v0 = v1 AND 0x20;
     (if v0 = 0 then State_Monad.return (Inr (''L5ec'', obj, s0, s1, s3, s4, s5, v0, v1))
      else do {
        let v0 = (2 :: u32);
        w8 K (obj + 1) v0;
        v1 \<leftarrow> r32 K (obj + 0xC4);
        v0 \<leftarrow> r16 K 0x1F80018C;
        w16 K (v1 + 10) v0;
        v1 \<leftarrow> r32 K (obj + 0xC4);
        let v0 = (512 :: u32);
        w16 K (v1 + 12) v0;
        State_Monad.return (Inr (''L6cc'', obj, s0, s1, s3, s4, s5, v0, v1))
      })
   }"

definition beh_pad_child_linker_l239 :: "'c core_ops \<Rightarrow> u32 \<Rightarrow> 'a
    \<Rightarrow> 'b \<Rightarrow> 'd \<Rightarrow> 'e \<Rightarrow> 'f \<Rightarrow> ('c, 'g +
    string \<times> u32 \<times> 'a \<times> 'b \<times> 'd \<times> 'e \<times> 'f \<times> u32
    \<times> u32) state" where
  "beh_pad_child_linker_l239 K obj s0 s1 s3 s4 s5 = do {
     let v0 = (1 :: u32);
     w8 K (obj + 1) v0;
     v0 \<leftarrow> r16 K 0x1F80018C;
     v1 \<leftarrow> r32 K (obj + 0xC4);
     let v0 = v0 + 2048;
     w16 K (v1 + 10) v0;
     v1 \<leftarrow> r32 K (obj + 0xC4);
     let v0 = (3584 :: u32);
     w16 K (v1 + 12) v0;
     State_Monad.return (Inr (''L6cc'', obj, s0, s1, s3, s4, s5, v0, v1))
   }"

definition beh_pad_child_linker_l250 :: "'c core_ops \<Rightarrow> u32 \<Rightarrow> u32
    \<Rightarrow> 'a \<Rightarrow> 'b \<Rightarrow> 'd \<Rightarrow> 'e \<Rightarrow> ('c, 'f +
    string \<times> u32 \<times> 'a \<times> u32 \<times> 'b \<times> 'd \<times> 'e \<times> u32
    \<times> u32) state" where
  "beh_pad_child_linker_l250 K s1 obj s0 s3 s4 s5 = do {
     v45 \<leftarrow> r16s K (s1 + 364);
     let v0 = as_u16 v45;
     let v1 = (0xC000 :: u32);
     let v0 = v0 AND 0xC000;
     (if v0 \<noteq> v1 then State_Monad.return (Inr (''L6cc'', obj, s0, s1, s3, s4, s5, v0, v1))
      else do {
        setr K 4 obj;
        call_guest K 0x8004766C;
        v1 \<leftarrow> r16 K 0x1F8001A8;
        let v0 = v1 AND 0x0002;
        (if v0 = 0 then State_Monad.return (Inr (''L684'', obj, s0, s1, s3, s4, s5, v0, v1))
         else do {
           setr K 4 obj;
           setr K 5 1;
           call_guest K 0x80047B5C;
           v0 \<leftarrow> reg K 2;
           (if v0 = 0 then State_Monad.return (Inr (''L6c8'', obj, s0, s1, s3, s4, s5, v0, v1))
            else do {
              v1 \<leftarrow> r32 K (obj + 0xC4);
              v49 \<leftarrow> r16 K 0x1F8001A2;
              w16 K (v1 + 10) v49;
              v1 \<leftarrow> r32 K (obj + 0xC4);
              w16 K (v1 + 12) 512;
              w8 K (obj + 1) 2;
              State_Monad.return (Inr (''L6cc'', obj, s0, s1, s3, s4, s5, v0, v1))
            })
         })
      })
   }"

definition beh_pad_child_linker_l277 :: "'c core_ops \<Rightarrow> u32 \<Rightarrow> u32
    \<Rightarrow> 'a \<Rightarrow> 'b \<Rightarrow> 'd \<Rightarrow> 'e \<Rightarrow> 'f
    \<Rightarrow> ('c, 'g + string \<times> u32 \<times> 'a \<times> 'b \<times> 'd \<times> 'e
    \<times> 'f \<times> u32 \<times> u32) state" where
  "beh_pad_child_linker_l277 K v1 obj s0 s1 s3 s4 s5 = do {
     let v0 = v1 AND 0x0004;
     (if v0 = 0 then State_Monad.return (Inr (''L6c8'', obj, s0, s1, s3, s4, s5, v0, v1))
      else do {
        setr K 4 obj;
        setr K 5 0;
        call_guest K 0x80047B5C;
        v0 \<leftarrow> reg K 2;
        (if v0 = 0 then State_Monad.return (Inr (''L6c8'', obj, s0, s1, s3, s4, s5, v0, v1))
         else do {
           v1 \<leftarrow> r32 K (obj + 0xC4);
           v53 \<leftarrow> r16 K 0x1F8001A2;
           w16 K (v1 + 10) v53;
           v1 \<leftarrow> r32 K (obj + 0xC4);
           w16 K (v1 + 12) 3584;
           w8 K (obj + 1) 1;
           State_Monad.return (Inr (''L6cc'', obj, s0, s1, s3, s4, s5, v0, v1))
         })
      })
   }"

definition beh_pad_child_linker_l298 :: "'c core_ops \<Rightarrow> u32 \<Rightarrow> 'a
    \<Rightarrow> u32 \<Rightarrow> 'b \<Rightarrow> 'd \<Rightarrow> 'e \<Rightarrow> u32
    \<Rightarrow> u32 \<Rightarrow> ('c, 'f + string \<times> u32 \<times> 'a \<times> u32
    \<times> 'b \<times> 'd \<times> 'e \<times> u32 \<times> u32) state" where
  "beh_pad_child_linker_l298 K obj s0 s1 s3 s4 s5 v0 v1 = do {
     v55 \<leftarrow> r8 K (obj + 1);
     (if v55 = 0 then State_Monad.return (Inr (''L81c'', obj, s0, s1, s3, s4, s5, v0, v1))
      else do {
        v0 \<leftarrow> r8 K (s1 + 327);
        (if v0 \<noteq> 0 then State_Monad.return (Inr (''L708'', obj, s0, s1, s3, s4, s5, v0,
            v1))
         else do {
           v1 \<leftarrow> r32 K (obj + 0xC0);
           w16 K (v1 + 8) 512;
           v1 \<leftarrow> r32 K (obj + 0xC0);
           v59 \<leftarrow> r16 K (s1 + 320);
           w16 K (v1 + 10) v59;
           State_Monad.return (Inr (''L724'', obj, s0, s1, s3, s4, s5, v0, v1))
         })
      })
   }"

definition beh_pad_child_linker_l310 :: "'c core_ops \<Rightarrow> u32 \<Rightarrow> u32
    \<Rightarrow> u32 \<Rightarrow> 'a \<Rightarrow> 'b \<Rightarrow> 'd \<Rightarrow> 'e
    \<Rightarrow> ('c, 'f + string \<times> u32 \<times> 'a \<times> u32 \<times> 'b \<times> 'd
    \<times> 'e \<times> u32 \<times> u32) state" where
  "beh_pad_child_linker_l310 K obj v0 s1 s0 s3 s4 s5 = do {
     v1 \<leftarrow> r32 K (obj + 0xC0);
     w16 K (v1 + 8) v0;
     v0 \<leftarrow> r16 K (s1 + 320);
     v1 \<leftarrow> r32 K (obj + 0xC0);
     let v0 = v0 + 2048;
     w16 K (v1 + 10) v0;
     State_Monad.return (Inr (''L724'', obj, s0, s1, s3, s4, s5, v0, v1))
   }"

definition beh_pad_child_linker_l317 :: "'c core_ops \<Rightarrow> u32 \<Rightarrow> 'a
    \<Rightarrow> 'b \<Rightarrow> 'd \<Rightarrow> 'e \<Rightarrow> 'f \<Rightarrow> ('c, 'g +
    string \<times> u32 \<times> 'a \<times> 'b \<times> 'd \<times> 'e \<times> 'f \<times> u32
    \<times> u32) state" where
  "beh_pad_child_linker_l317 K obj s0 s1 s3 s4 s5 = do {
     v0 \<leftarrow> r32 K (obj + 0xC4);
     v64 \<leftarrow> r16s K (v0 + 12);
     let v1 = as_u16 v64;
     let ne = v1 \<noteq> 3584;
     let v1 = (0x800A0000 :: u32);
     (if ne then State_Monad.return (Inr (''L760'', obj, s0, s1, s3, s4, s5, v0, v1))
      else do {
        let v1 = v1 + 19368;
        a \<leftarrow> r32 K (obj + 0xC0);
        v66 \<leftarrow> r16 K (v1 + 2);
        w16 K (a + 2) v66;
        a \<leftarrow> r32 K (obj + 0xC4);
        v68 \<leftarrow> r16 K (v1 + 10);
        w16 K (a + 2) v68;
        State_Monad.return (Inr (''L784'', obj, s0, s1, s3, s4, s5, v0, v1))
      })
   }"

definition beh_pad_child_linker_l337 :: "'c core_ops \<Rightarrow> u32 \<Rightarrow> u32
    \<Rightarrow> 'a \<Rightarrow> 'b \<Rightarrow> 'd \<Rightarrow> 'e \<Rightarrow> 'f
    \<Rightarrow> 'g \<Rightarrow> ('c, 'h + string \<times> u32 \<times> 'a \<times> 'b \<times>
    'd \<times> 'e \<times> 'f \<times> 'g \<times> u32) state" where
  "beh_pad_child_linker_l337 K v1 obj s0 s1 s3 s4 s5 v0 = do {
     let v1 = v1 + 19368;
     a \<leftarrow> r32 K (obj + 0xC0);
     v70 \<leftarrow> r16 K (v1 + 10);
     w16 K (a + 2) v70;
     a \<leftarrow> r32 K (obj + 0xC4);
     v72 \<leftarrow> r16 K (v1 + 2);
     w16 K (a + 2) v72;
     State_Monad.return (Inr (''L784'', obj, s0, s1, s3, s4, s5, v0, v1))
   }"

definition beh_pad_child_linker_l347 :: "'c core_ops \<Rightarrow> u32 \<Rightarrow> 'a
    \<Rightarrow> 'b \<Rightarrow> 'd \<Rightarrow> 'e \<Rightarrow> 'f \<Rightarrow> 'g
    \<Rightarrow> ('c, 'h + string \<times> u32 \<times> 'a \<times> 'b \<times> 'd \<times> 'e
    \<times> 'f \<times> u32 \<times> 'g) state" where
  "beh_pad_child_linker_l347 K obj s0 s1 s3 s4 s5 v1 = do {
     setr K 4 obj;
     call_guest K 0x8006F138;
     v73 \<leftarrow> r8 K (obj + 1);
     v0 \<leftarrow> testFE48 K (v73 - 1);
     (if v0 = 0 then State_Monad.return (Inr (''L7cc'', obj, s0, s1, s3, s4, s5, v0, v1))
      else do {
        v0 \<leftarrow> r32 K (obj + 0x14);
        (if v0 = 0 then State_Monad.return (Inr (''L87c'', obj, s0, s1, s3, s4, s5, v0, v1))
         else do {
           v76 \<leftarrow> r8 K (v0 + 4);
           only_if (v76 < 2) (w8 K (v0 + 4) 3);
           State_Monad.return (Inr (''L814'', obj, s0, s1, s3, s4, s5, v0, v1))
         })
      })
   }"

definition beh_pad_child_linker_l362 :: "'c core_ops \<Rightarrow> u32 \<Rightarrow> 'a
    \<Rightarrow> 'b \<Rightarrow> 'd \<Rightarrow> 'e \<Rightarrow> 'f \<Rightarrow> 'g
    \<Rightarrow> ('c, 'h + string \<times> u32 \<times> 'a \<times> 'b \<times> 'd \<times> 'e
    \<times> 'f \<times> u32 \<times> 'g) state" where
  "beh_pad_child_linker_l362 K obj s0 s1 s3 s4 s5 v1 = do {
     v0 \<leftarrow> r32 K (obj + 0x14);
     (if v0 \<noteq> 0 then State_Monad.return (Inr (''L800'', obj, s0, s1, s3, s4, s5, v0, v1))
      else do {
        v78 \<leftarrow> r8 K (obj + 1);
        v0 \<leftarrow> spawn_overlay_variant K (as_u16 (v78 - 1)) 0;
        w32 K (obj + 0x14) v0;
        v80 \<leftarrow> r8 K (obj + 1);
        setFE34 K (v80 - 1);
        State_Monad.return (Inr (''L87c'', obj, s0, s1, s3, s4, s5, v0, v1))
      })
   }"

definition beh_pad_child_linker_l379 :: "'c core_ops \<Rightarrow> u32 \<Rightarrow> 'a
    \<Rightarrow> 'b \<Rightarrow> 'd \<Rightarrow> 'e \<Rightarrow> 'f \<Rightarrow> 'g
    \<Rightarrow> ('c, 'h + string \<times> u32 \<times> 'a \<times> 'b \<times> 'd \<times> 'e
    \<times> 'f \<times> u32 \<times> 'g) state" where
  "beh_pad_child_linker_l379 K obj s0 s1 s3 s4 s5 v1 = do {
     v0 \<leftarrow> r32 K (obj + 0x14);
     (if v0 = 0 then State_Monad.return (Inr (''L87c'', obj, s0, s1, s3, s4, s5, v0, v1))
      else do {
        v83 \<leftarrow> r8 K (v0 + 4);
        only_if (v83 < 2) (w8 K (v0 + 4) 3);
        State_Monad.return (Inr (''L814'', obj, s0, s1, s3, s4, s5, v0, v1))
      })
   }"

definition beh_pad_child_linker_l388 :: "'c core_ops \<Rightarrow> u32 \<Rightarrow> 'a
    \<Rightarrow> 'b \<Rightarrow> 'd \<Rightarrow> 'e \<Rightarrow> 'f \<Rightarrow> 'g
    \<Rightarrow> ('c, 'h + string \<times> u32 \<times> 'a \<times> 'b \<times> 'd \<times> 'e
    \<times> 'f \<times> u32 \<times> 'g) state" where
  "beh_pad_child_linker_l388 K obj s0 s1 s3 s4 s5 v1 = do {
     v0 \<leftarrow> r32 K (obj + 0x14);
     (if v0 = 0 then State_Monad.return (Inr (''L878'', obj, s0, s1, s3, s4, s5, v0, v1))
      else do {
        v85 \<leftarrow> r8 K (v0 + 4);
        only_if (v85 < 2) (w8 K (v0 + 4) 3);
        w32 K (obj + 0x14) 0;
        State_Monad.return (Inr (''L878'', obj, s0, s1, s3, s4, s5, v0, v1))
      })
   }"

definition beh_pad_child_linker_l399 :: "'c core_ops \<Rightarrow> u32 \<Rightarrow> 'a
    \<Rightarrow> 'b \<Rightarrow> 'd \<Rightarrow> 'e \<Rightarrow> 'f \<Rightarrow> ('c, 'g +
    string \<times> 'a \<times> 'b \<times> u32 \<times> 'd \<times> 'e \<times> 'f \<times> u32
    \<times> u32) state" where
  "beh_pad_child_linker_l399 K s1 obj s0 s3 s4 s5 = do {
     process_link_request K;
     v0 \<leftarrow> r8 K (s1 + 41);
     (if v0 \<noteq> 0 then do {
       let v1 = (1 :: u32);
       State_Monad.return (Inr (''L8ac'', obj, s0, s1, s3, s4, s5, v0, v1))
     }
      else do {
        v1 \<leftarrow> r8 K 0x800BF840;
        (if v1 \<noteq> 71 then do {
          let v1 = (0 :: u32);
          State_Monad.return (Inr (''L8ac'', obj, s0, s1, s3, s4, s5, v0, v1))
        }
         else do {
           let v1 = (1 :: u32);
           State_Monad.return (Inr (''L8ac'', obj, s0, s1, s3, s4, s5, v0, v1))
         })
      })
   }"

definition beh_pad_child_linker_l413 :: "'c core_ops \<Rightarrow> u32 \<Rightarrow> u32
    \<Rightarrow> u32 \<Rightarrow> 'a \<Rightarrow> 'b \<Rightarrow> 'd \<Rightarrow> u32
    \<Rightarrow> u32 \<Rightarrow> ('c, 'e + string \<times> u32 \<times> u32 \<times> u32
    \<times> 'a \<times> 'b \<times> 'd \<times> u32 \<times> u32) state" where
  "beh_pad_child_linker_l413 K obj s0 s1 s3 s4 s5 v0 v1 = do {
     v88 \<leftarrow> r8 K (obj + 1);
     (if v88 \<noteq> 0 then State_Monad.return (Inr (''L970'', obj, s0, s1, s3, s4, s5, v0, v1))
      else if v1 = 0 then State_Monad.return (Inr (''L970'', obj, s0, s1, s3, s4, s5, v0, v1))
       else do {
         v89 \<leftarrow> r8 K (s1 + 362);
         (if v89 \<noteq> 0 then State_Monad.return (Inr (''L970'', obj, s0, s1, s3, s4, s5, v0,
             v1))
          else do {
            a \<leftarrow> r8 K 0x800BF840;
            (if (a AND 0x40) = 0 then State_Monad.return (Inr (''L970'', obj, s0, s1, s3, s4, s5,
                v0, v1))
             else do {
               let s0 = a AND 0x0F;
               v0 \<leftarrow> testFE48 K s0;
               (if v0 \<noteq> 0 then State_Monad.return (Inr (''L970'', obj, s0, s1, s3, s4, s5,
                   v0, v1))
                else do {
                  v92 \<leftarrow> r8 K (s1 + 97);
                  (if (v92 AND 1) \<noteq> 0 then State_Monad.return (Inr (''L970'', obj, s0, s1,
                      s3, s4, s5, v0, v1))
                   else do {
                     v0 \<leftarrow> r32 K (obj + 0x10);
                     (if v0 \<noteq> 0 then State_Monad.return (Inr (''L93c'', obj, s0, s1, s3,
                         s4, s5, v0, v1))
                      else do {
                        v0 \<leftarrow> spawn_overlay_variant K (as_u16 s0) 0;
                        w32 K (obj + 0x10) v0;
                        setFE34 K s0;
                        w8 K (obj + 0x46) s0;
                        State_Monad.return (Inr (''L9ac'', obj, s0, s1, s3, s4, s5, v0, v1))
                      })
                   })
                })
             })
          })
       })
   }"

definition beh_pad_child_linker_l454 :: "'c core_ops \<Rightarrow> u32 \<Rightarrow> u32
    \<Rightarrow> 'a \<Rightarrow> 'b \<Rightarrow> 'd \<Rightarrow> 'e \<Rightarrow> 'f
    \<Rightarrow> u32 \<Rightarrow> ('c, 'g + string \<times> u32 \<times> u32 \<times> 'a
    \<times> 'b \<times> 'd \<times> 'e \<times> 'f \<times> u32) state" where
  "beh_pad_child_linker_l454 K obj s0 s1 s3 s4 s5 v0 v1 = do {
     v96 \<leftarrow> r8 K (obj + 0x46);
     (if v96 = s0 then State_Monad.return (Inr (''L9ac'', obj, s0, s1, s3, s4, s5, v0, v1))
      else do {
        w8 K (v1 + 4) 3;
        State_Monad.return (Inr (''L950'', obj, s0, s1, s3, s4, s5, v0, v1))
      })
   }"

definition beh_pad_child_linker_l459 :: "'c core_ops \<Rightarrow> u32 \<Rightarrow> 'a
    \<Rightarrow> 'b \<Rightarrow> 'd \<Rightarrow> 'e \<Rightarrow> 'f \<Rightarrow> u32
    \<Rightarrow> ('c, 'g + string \<times> u32 \<times> 'a \<times> 'b \<times> 'd \<times> 'e
    \<times> 'f \<times> u32 \<times> u32) state" where
  "beh_pad_child_linker_l459 K obj s0 s1 s3 s4 s5 v1 = do {
     v0 \<leftarrow> r32 K (obj + 0x10);
     (if v0 = 0 then State_Monad.return (Inr (''L9ac'', obj, s0, s1, s3, s4, s5, v0, v1))
      else do {
        let v1 = v0;
        v98 \<leftarrow> r8 K (v1 + 4);
        only_if (v98 < 2) (w8 K (v1 + 4) 3);
        State_Monad.return (Inr (''L950'', obj, s0, s1, s3, s4, s5, v0, v1))
      })
   }"

definition beh_pad_child_linker :: "'c core_ops \<Rightarrow> ('c, unit) state" where
  "beh_pad_child_linker K = with_frame K 48 [(18, 24), (31, 40), (21, 36), (20, 32), (19, 28),
      (17, 20), (16, 16)] (loop (\<lambda>(pc1, obj, s0, s1, s3, s4, s5, v0, v1). (if pc1 =
      ''start'' then do {
     obj \<leftarrow> reg K 4;
     let s0 = (0 :: u32);
     let s1 = (0 :: u32);
     let s4 = (0 :: u32);
     let s5 = (0 :: u32);
     let s3 = (0 :: u32);
     st \<leftarrow> r8 K (obj + 4);
     (if st = 1 then State_Monad.return (Inr (''L460'', obj, s0, s1, s3, s4, s5, (0 :: u32), (0 ::
         u32)))
      else if st < 2 then (if st = 0 then State_Monad.return (Inr (''L334'', obj, s0, s1, s3, s4,
          s5, (0 :: u32), (0 :: u32)))
       else State_Monad.return (Inr (''L9ac'', obj, s0, s1, s3, s4, s5, (0 :: u32), (0 :: u32))))
       else if st = 2 then do {
         w8 K (obj + 4) 3;
         State_Monad.return (Inr (''L9ac'', obj, s0, s1, s3, s4, s5, (0 :: u32), (0 :: u32)))
       }
        else if st = 3 then State_Monad.return (Inr (''L9a4'', obj, s0, s1, s3, s4, s5, (0 ::
            u32), (0 :: u32)))
         else State_Monad.return (Inr (''L9ac'', obj, s0, s1, s3, s4, s5, (0 :: u32), (0 ::
             u32))))
   }
    else if pc1 = ''L9a4'' then do {
      despawn K obj;
      State_Monad.return (Inr (''L9ac'', obj, s0, s1, s3, s4, s5, v0, v1))
    }
     else if pc1 = ''L334'' then do {
       w8 K (obj + 8) 2;
       w8 K (obj + 1) 0;
       w8 K (obj + 0x2A) 0;
       v3 \<leftarrow> r16s K 0x800ED098;
       (if \<not> (v3 <s 2) then State_Monad.return (Inr (''L360'', obj, s0, s1, s3, s4, s5, v0,
           v1))
        else do {
          w8 K (obj + 4) 3;
          State_Monad.return (Inr (''L9ac'', obj, s0, s1, s3, s4, s5, v0, v1))
        })
     }
      else if pc1 = ''L360'' then do {
        w8 K (obj + 9) 2;
        s4 \<leftarrow> r32 K 0x800ECF5C;
        v5 \<leftarrow> r8 K (obj + 4);
        w8 K (obj + 4) (v5 + 1);
        w8 K (obj + 0xB) 15;
        w8 K (obj + 0xD) 0;
        w16 K (obj + 0x54) 0;
        w16 K (obj + 0x56) 0;
        w16 K (obj + 0x58) 0;
        let s3 = (0 :: u32);
        v6 \<leftarrow> r8 K (obj + 8);
        (if v6 = 0 then State_Monad.return (Inr (''L44c'', obj, s0, s1, s3, s4, s5, v0, v1))
         else do {
           let s5 = s4 + 4;
           let s1 = (0x800A4BA8 :: u32);
           let s0 = obj;
           State_Monad.return (Inr (''L3b0'', obj, s0, s1, s3, s4, s5, v0, v1))
         })
      }
       else if pc1 = ''L3b0'' then do {
         graphics_bind_record_alloc K;
         let s3 = s3 + 1;
         v0 \<leftarrow> reg K 2;
         w32 K (s0 + 0xC0) v0;
         w16 K (v0 + 6) 0xFFFF;
         p \<leftarrow> r32 K (s0 + 0xC0);
         v9 \<leftarrow> r16 K (s1 + 0);
         w16 K (p + 0) v9;
         p \<leftarrow> r32 K (s0 + 0xC0);
         v11 \<leftarrow> r16 K (s1 + 2);
         w16 K (p + 2) v11;
         p \<leftarrow> r32 K (s0 + 0xC0);
         v13 \<leftarrow> r16 K (s1 + 4);
         w16 K (p + 4) v13;
         p \<leftarrow> r32 K (s0 + 0xC0);
         w16 K (p + 8) 0;
         p \<leftarrow> r32 K (s0 + 0xC0);
         w16 K (p + 10) 0;
         p \<leftarrow> r32 K (s0 + 0xC0);
         w16 K (p + 12) 0;
         v17 \<leftarrow> r16 K (s1 + 6);
         let idx = as_s16 v17;
         let s1 = s1 + 8;
         v0 \<leftarrow> r32 K (s5 + shl idx 2);
         p \<leftarrow> r32 K (s0 + 0xC0);
         w32 K (p + 0x40) (s4 + v0);
         let s0 = s0 + 4;
         v20 \<leftarrow> r8 K (obj + 8);
         (if s3 <s v20 then State_Monad.return (Inr (''L3b0'', obj, s0, s1, s3, s4, s5, v0, v1))
          else State_Monad.return (Inr (''L44c'', obj, s0, s1, s3, s4, s5, v0, v1)))
       }
        else if pc1 = ''L44c'' then do {
          w32 K (obj + 0x10) 0;
          w32 K (obj + 0x14) 0;
          w8 K (obj + 0x46) 255;
          State_Monad.return (Inr (''L9ac'', obj, s0, s1, s3, s4, s5, v0, v1))
        }
         else if pc1 = ''L460'' then do {
           v21 \<leftarrow> r8 K 0x1F800137;
           (if v21 \<noteq> 0 then State_Monad.return (Inr (''L484'', obj, s0, s1, s3, s4, s5, v0,
               v1))
            else do {
              v22 \<leftarrow> r8 K 0x800BF80D;
              (if v22 = 0 then State_Monad.return (Inr (''L4ec'', obj, s0, s1, s3, s4, s5, v0,
                  v1))
               else State_Monad.return (Inr (''L484'', obj, s0, s1, s3, s4, s5, v0, v1)))
            })
         }
          else if pc1 = ''L484'' then do {
            v0 \<leftarrow> r32 K (obj + 0x14);
            only_if (v0 \<noteq> 0) (do {
              v24 \<leftarrow> r8 K (v0 + 4);
              only_if (v24 < 2) (w8 K (v0 + 4) 3);
              w32 K (obj + 0x14) 0
            });
            v0 \<leftarrow> r32 K (obj + 0x10);
            only_if (v0 \<noteq> 0) (do {
              v26 \<leftarrow> r8 K (v0 + 4);
              only_if (v26 < 2) (w8 K (v0 + 4) 3);
              w32 K (obj + 0x10) 0
            });
            process_link_request K;
            State_Monad.return (Inr (''L9ac'', obj, s0, s1, s3, s4, s5, v0, v1))
          }
           else if pc1 = ''L4ec'' then beh_pad_child_linker_l179 K obj s0 s3 s4 s5 v0 v1
            else if pc1 = ''L510'' then do {
              v29 \<leftarrow> r8 K (s1 + 385);
              (if v29 = 0 then State_Monad.return (Inr (''L848'', obj, s0, s1, s3, s4, s5, v0,
                  v1))
               else State_Monad.return (Inr (''L520'', obj, s0, s1, s3, s4, s5, v0, v1)))
            }
             else if pc1 = ''L520'' then beh_pad_child_linker_l192 K s1 obj s0 s3 s4 s5 v0
              else if pc1 = ''L590'' then beh_pad_child_linker_l214 K obj s0 s1 s3 s4 s5
               else if pc1 = ''L5a0'' then beh_pad_child_linker_l219 K obj v0 s0 s1 s3 s4 s5
                else if pc1 = ''L5b8'' then beh_pad_child_linker_l225 K v1 obj s0 s1 s3 s4 s5
                 else if pc1 = ''L5ec'' then beh_pad_child_linker_l239 K obj s0 s1 s3 s4 s5
                  else if pc1 = ''L618'' then beh_pad_child_linker_l250 K s1 obj s0 s3 s4 s5
                   else if pc1 = ''L684'' then beh_pad_child_linker_l277 K v1 obj s0 s1 s3 s4 s5
                    else if pc1 = ''L6c8'' then do {
                      w8 K (obj + 1) 0;
                      State_Monad.return (Inr (''L6cc'', obj, s0, s1, s3, s4, s5, v0, v1))
                    }
                     else if pc1 = ''L6cc'' then beh_pad_child_linker_l298 K obj s0 s1 s3 s4 s5 v0
                         v1
                      else if pc1 = ''L708'' then beh_pad_child_linker_l310 K obj v0 s1 s0 s3 s4
                          s5
                       else if pc1 = ''L724'' then beh_pad_child_linker_l317 K obj s0 s1 s3 s4 s5
                        else if pc1 = ''L760'' then beh_pad_child_linker_l337 K v1 obj s0 s1 s3 s4
                            s5 v0
                         else if pc1 = ''L784'' then beh_pad_child_linker_l347 K obj s0 s1 s3 s4
                             s5 v1
                          else if pc1 = ''L7cc'' then beh_pad_child_linker_l362 K obj s0 s1 s3 s4
                              s5 v1
                           else if pc1 = ''L800'' then do {
                             v81 \<leftarrow> r8 K (v0 + 4);
                             (if v81 < 2 then State_Monad.return (Inr (''L87c'', obj, s0, s1, s3,
                                 s4, s5, v0, v1))
                              else State_Monad.return (Inr (''L814'', obj, s0, s1, s3, s4, s5, v0,
                                  v1)))
                           }
                            else if pc1 = ''L814'' then do {
                              w32 K (obj + 0x14) 0;
                              State_Monad.return (Inr (''L87c'', obj, s0, s1, s3, s4, s5, v0, v1))
                            }
                             else if pc1 = ''L81c'' then beh_pad_child_linker_l379 K obj s0 s1 s3
                                 s4 s5 v1
                              else if pc1 = ''L848'' then beh_pad_child_linker_l388 K obj s0 s1 s3
                                  s4 s5 v1
                               else if pc1 = ''L878'' then do {
                                 w8 K (obj + 1) 0;
                                 State_Monad.return (Inr (''L87c'', obj, s0, s1, s3, s4, s5, v0,
                                     v1))
                               }
                                else if pc1 = ''L87c'' then beh_pad_child_linker_l399 K s1 obj s0
                                    s3 s4 s5
                                 else if pc1 = ''L8ac'' then beh_pad_child_linker_l413 K obj s0 s1
                                     s3 s4 s5 v0 v1
                                  else if pc1 = ''L93c'' then do {
                                    let v1 = v0;
                                    v95 \<leftarrow> r8 K (v1 + 4);
                                    (if v95 < 2 then State_Monad.return (Inr (''L958'', obj, s0,
                                        s1, s3, s4, s5, v0, v1))
                                     else State_Monad.return (Inr (''L950'', obj, s0, s1, s3, s4,
                                         s5, v0, v1)))
                                  }
                                   else if pc1 = ''L950'' then do {
                                     w32 K (obj + 0x10) 0;
                                     State_Monad.return (Inr (''L9ac'', obj, s0, s1, s3, s4, s5,
                                         v0, v1))
                                   }
                                    else if pc1 = ''L958'' then beh_pad_child_linker_l454 K obj s0
                                        s1 s3 s4 s5 v0 v1
                                     else if pc1 = ''L970'' then beh_pad_child_linker_l459 K obj
                                         s0 s1 s3 s4 s5 v1
                                      else do {
                                        w8 K 0x800BF840 0;
                                        State_Monad.return (Inl ())
                                      })) (''start'', (0 :: u32), (0 :: u32), (0 :: u32), (0 ::
                                          u32), (0 :: u32), (0 :: u32), (0 :: u32), (0 :: u32)))"

end
