(* ===== verification/GpuLeaves.thy ===== *)
theory GpuLeaves
  imports ObjectViews
begin

text \<open>
  The leaves that write GPU packets and environments to guest memory: the ordering table and the
  packet pool, draw environments, libgpu leaves, the dispatch of overlays and of per-object
  renderers. What the code records for the host's own renderer is not guest state and is left out.
\<close>

section \<open>Layout\<close>

definition NODE_SUBTYPE :: u32 where "NODE_SUBTYPE = 0x0B"
definition NODE_MODE :: u32 where "NODE_MODE = 0x0D"
definition SUBTYPE_MATCH :: u32 where "SUBTYPE_MATCH = 0x0F"
definition MODE_COMPOSE :: u32 where "MODE_COMPOSE = 0"
definition MODE_COMPOSE_TINT :: u32 where "MODE_COMPOSE_TINT = 2"
definition horizontal_visibility_cull_kGuestFrameHeight :: u32 where "horizontal_visibility_cull_kGuestFrameHeight = 240"
definition kFrameBufferLimitX :: u32 where "kFrameBufferLimitX = 0x800A59A4"
definition kFrameBufferLimitY :: u32 where "kFrameBufferLimitY = 0x800A59A6"
definition kGp0SetMaskBits :: u32 where "kGp0SetMaskBits = 0xE6000000"
definition kGp0FillVram :: u32 where "kGp0FillVram = 0x02000000"
definition kGp0FlatRect :: u32 where "kGp0FlatRect = 0x60000000"
definition kVramFillAlignMask :: u32 where "kVramFillAlignMask = 63"
definition kPacketWordsPlain :: u32 where "kPacketWordsPlain = 6"
definition kPacketWordsWithClear :: u32 where "kPacketWordsWithClear = 9"
definition kRaClipTopLeft :: u32 where "kRaClipTopLeft = 0x80081FD8"
definition kRaClipBottomRight :: u32 where "kRaClipBottomRight = 0x80082010"
definition kRaDrawOffset :: u32 where "kRaDrawOffset = 0x80082024"
definition kRaDrawMode :: u32 where "kRaDrawMode = 0x8008203C"
definition kRaTexWindow :: u32 where "kRaTexWindow = 0x80082048"
definition COL_MASK :: u32 where "COL_MASK = 0xFFF0F0F0"
definition kScrollFlag :: u32 where "kScrollFlag = 4"
definition kGt3ScrolledUv :: "u32 list" where "kGt3ScrolledUv = [12, 24, 12]"
definition kGt4ScrolledUv :: "u32 list" where "kGt4ScrolledUv = [12, 24, 36, 48]"
definition kFrameSize :: u32 where "kFrameSize = 32"
definition kSpillS0 :: u32 where "kSpillS0 = 16"
definition kSpillS1 :: u32 where "kSpillS1 = 20"
definition kSpillRa :: u32 where "kSpillRa = 24"
definition kBlockCounts :: u32 where "kBlockCounts = 0"
definition kBlockRecords :: u32 where "kBlockRecords = 16"
definition kRaAfterGt3 :: u32 where "kRaAfterGt3 = 0x8014649C"
definition kRaAfterGt4 :: u32 where "kRaAfterGt4 = 0x801464AC"
definition kNoScroll :: u32 where "kNoScroll = 0"
definition AREA_TYPE_BYTE :: u32 where "AREA_TYPE_BYTE = 0x800BF870"
definition JUMP_TABLE :: u32 where "JUMP_TABLE = 0x80014EF0"
definition FN_PUTDRAWENV_PACK :: u32 where "FN_PUTDRAWENV_PACK = 0x80081FB0"
definition FN_MEMCPY_92 :: u32 where "FN_MEMCPY_92 = 0x8009A3E0"
definition GPU_SYS_TABLE :: u32 where "GPU_SYS_TABLE = 0x800A5998"
definition GPU_SYS_INIT_FN :: u32 where "GPU_SYS_INIT_FN = 0x800A599C"
definition GPU_BOOT_FLAG :: u32 where "GPU_BOOT_FLAG = 0x800A59A2"

section \<open>\<open>game/render/guest_ordering_table.cpp\<close>\<close>

definition packet_pool_cursor :: "'c core_ops \<Rightarrow> ('c, u32) state" where
  "packet_pool_cursor K = r32 K kCursor"

section \<open>\<open>game/render/compose_tint_gate.cpp\<close>\<close>

definition render_compose_tint_gate :: "'c core_ops \<Rightarrow> ('c, unit) state" where
  "render_compose_tint_gate K = do {
     node \<leftarrow> reg K 4;
     r29_2 \<leftarrow> reg K 29;
     setr K 29 (r29_2 - 32);
     frame1 \<leftarrow> reg K 29;
     r18_4 \<leftarrow> reg K 18;
     w32 K (frame1 + 24) r18_4;
     r31_5 \<leftarrow> reg K 31;
     w32 K (frame1 + 28) r31_5;
     r17_6 \<leftarrow> reg K 17;
     w32 K (frame1 + 20) r17_6;
     r16_7 \<leftarrow> reg K 16;
     w32 K (frame1 + 16) r16_7;
     poolBefore \<leftarrow> packet_pool_cursor K;
     v9 \<leftarrow> r8 K (node + NODE_SUBTYPE);
     let subtype = (if v9 = SUBTYPE_MATCH then 1 else (0 :: u32));
     v10 \<leftarrow> r8 K (node + NODE_MODE);
     let mode = v10 AND 0x0F;
     (if mode = MODE_COMPOSE then do {
       setr K 4 node;
       setr K 5 subtype;
       setr K 31 0x8003EFE8;
       call_guest K 0x8003F07C
     }
      else only_if (mode = MODE_COMPOSE_TINT) (do {
        setr K 4 node;
        setr K 5 subtype;
        setr K 31 0x8003EFFC;
        call_guest K 0x8003F07C;
        setr K 4 node;
        setr K 5 poolBefore;
        v11 \<leftarrow> packet_pool_cursor K;
        setr K 6 v11;
        setr K 31 0x8003F00C;
        call_guest K 0x8003D584
      }));
     v12 \<leftarrow> r32 K (frame1 + 28);
     setr K 31 v12;
     v13 \<leftarrow> r32 K (frame1 + 24);
     setr K 18 v13;
     v14 \<leftarrow> r32 K (frame1 + 20);
     setr K 17 v14;
     v15 \<leftarrow> r32 K (frame1 + 16);
     setr K 16 v15;
     r29_16 \<leftarrow> reg K 29;
     setr K 29 (r29_16 + 32)
   }"

definition ov_compose_tint_gate :: "'c core_ops \<Rightarrow> ('c, unit) state" where
  "ov_compose_tint_gate K = render_compose_tint_gate K"

section \<open>\<open>game/render/guest_ordering_table.cpp\<close>\<close>

definition ordering_table_active :: "'c core_ops \<Rightarrow> ('c, u32) state" where
  "ordering_table_active K = r32 K kBasePointer"

definition ordering_table_head :: "'c core_ops \<Rightarrow> u32 \<Rightarrow> u32 \<Rightarrow>
    ('c, u32) state" where
  "ordering_table_head K mBase bucket = do {
     v1 \<leftarrow> ordering_table_slot K mBase bucket;
     r32 K v1
   }"

definition ordering_table_set_head :: "'c core_ops \<Rightarrow> u32 \<Rightarrow> u32
    \<Rightarrow> u32 \<Rightarrow> ('c, unit) state" where
  "ordering_table_set_head K mBase bucket packet = do {
     v1 \<leftarrow> ordering_table_slot K mBase bucket;
     w32 K v1 packet
   }"

definition ordering_table_link :: "'c core_ops \<Rightarrow> u32 \<Rightarrow> u32 \<Rightarrow>
    u32 \<Rightarrow> u32 \<Rightarrow> ('c, u32) state" where
  "ordering_table_link K mBase packet words bucket = do {
     v1 \<leftarrow> ordering_table_head K mBase bucket;
     let tag1 = v1 OR (shl words 24);
     w32 K packet tag1;
     ordering_table_set_head K mBase bucket packet;
     State_Monad.return tag1
   }"

definition ordering_table_chain_to_head :: "'c core_ops \<Rightarrow> u32 \<Rightarrow> u32
    \<Rightarrow> u32 \<Rightarrow> ('c, unit) state" where
  "ordering_table_chain_to_head K mBase lastPacket bucket = do {
     oldHead \<leftarrow> ordering_table_head K mBase bucket;
     v2 \<leftarrow> r32 K lastPacket;
     w32 K lastPacket ((v2 AND 0xFF000000) OR oldHead)
   }"

definition packet_pool_packet_pool :: "'c core_ops \<Rightarrow> ('c, unit) state" where
  "packet_pool_packet_pool K = State_Monad.return ()"

definition packet_pool_set_cursor :: "'c core_ops \<Rightarrow> u32 \<Rightarrow> ('c, unit)
    state" where
  "packet_pool_set_cursor K address = w32 K kCursor address"

definition packet_pool_allocate :: "'c core_ops \<Rightarrow> u32 \<Rightarrow> ('c, u32) state"
    where
  "packet_pool_allocate K bytes = do {
     packet \<leftarrow> packet_pool_cursor K;
     packet_pool_set_cursor K (packet + bytes);
     State_Monad.return packet
   }"

section \<open>\<open>game/render/libgpu_draw_env.cpp\<close>\<close>

definition libgpu_draw_env_clamp_to_frame_buffer :: "'c core_ops \<Rightarrow> u32 \<Rightarrow>
    u32 \<Rightarrow> ('c, u32) state" where
  "libgpu_draw_env_clamp_to_frame_buffer K value1 limitAddr = (if value1 <s 0 then
      State_Monad.return 0
    else do {
      limitSigned \<leftarrow> r16s K limitAddr;
      (if limitSigned - 1 <s value1 then do {
        v2 \<leftarrow> r16 K limitAddr;
        State_Monad.return (v2 - 1)
      }
       else State_Monad.return value1)
    })"

definition libgpu_draw_env_set_draw_env :: "'c core_ops \<Rightarrow> ('c, unit) state" where
  "libgpu_draw_env_set_draw_env K = with_frame K 40 [(16, 24), (17, 28), (31, 32)] (do {
     r5_1 \<leftarrow> reg K 5;
     setr K 16 r5_1;
     r4_2 \<leftarrow> reg K 4;
     setr K 17 r4_2;
     r16_3 \<leftarrow> reg K 16;
     r17_4 \<leftarrow> reg K 17;
     v5 \<leftarrow> draw_env_fields_clip_x K r16_3;
     setr K 4 v5;
     v6 \<leftarrow> draw_env_fields_clip_y K r16_3;
     setr K 5 v6;
     _ \<leftarrow> dispatch_jal K 0x80082240 kRaClipTopLeft [];
     r2_7 \<leftarrow> reg K 2;
     draw_env_packet_set_clip_top_left K r17_4 r2_7;
     v8 \<leftarrow> draw_env_fields_clip_w_raw K r16_3;
     v9 \<leftarrow> draw_env_fields_clip_x_raw K r16_3;
     setr K 4 (as_s16 (as_u16 (v8 + v9 - 1)));
     v10 \<leftarrow> draw_env_fields_clip_y_raw K r16_3;
     v11 \<leftarrow> draw_env_fields_clip_h_raw K r16_3;
     setr K 5 (as_s16 (as_u16 (v10 + v11 - 1)));
     _ \<leftarrow> dispatch_jal K 0x800822D8 kRaClipBottomRight [];
     r2_12 \<leftarrow> reg K 2;
     draw_env_packet_set_clip_bottom_right K r17_4 r2_12;
     v13 \<leftarrow> draw_env_fields_offset_x K r16_3;
     setr K 4 v13;
     v14 \<leftarrow> draw_env_fields_offset_y K r16_3;
     setr K 5 v14;
     _ \<leftarrow> dispatch_jal K 0x80082370 kRaDrawOffset [];
     r2_15 \<leftarrow> reg K 2;
     draw_env_packet_set_draw_offset K r17_4 r2_15;
     v16 \<leftarrow> draw_env_fields_draw_on_display K r16_3;
     setr K 4 v16;
     v17 \<leftarrow> draw_env_fields_dither K r16_3;
     setr K 5 v17;
     v18 \<leftarrow> draw_env_fields_texture_page K r16_3;
     setr K 6 v18;
     _ \<leftarrow> dispatch_jal K 0x80082220 kRaDrawMode [];
     v19 \<leftarrow> draw_env_fields_tex_window_addr K r16_3;
     setr K 4 v19;
     r2_20 \<leftarrow> reg K 2;
     draw_env_packet_set_draw_mode K r17_4 r2_20;
     _ \<leftarrow> dispatch_jal K 0x8008238C kRaTexWindow [];
     r2_21 \<leftarrow> reg K 2;
     draw_env_packet_set_tex_window K r17_4 r2_21;
     draw_env_packet_set_mask_bits K r17_4 kGp0SetMaskBits;
     let packetWords = kPacketWordsPlain;
     v22 \<leftarrow> draw_env_fields_clears_background K r16_3;
     packetWords \<leftarrow> (if v22 then do {
       v23 \<leftarrow> draw_env_fields_clip_x_raw K r16_3;
       clear_rect_scratch_set_clear_x K (as_u16 v23);
       v24 \<leftarrow> draw_env_fields_clip_y_raw K r16_3;
       clear_rect_scratch_set_clear_y K (as_u16 v24);
       v25 \<leftarrow> draw_env_fields_clip_w_raw K r16_3;
       clear_rect_scratch_set_clear_w K (as_u16 v25);
       v26 \<leftarrow> draw_env_fields_clip_h_raw K r16_3;
       clear_rect_scratch_set_clear_h K (as_u16 v26);
       v27 \<leftarrow> draw_env_fields_clip_w K r16_3;
       v28 \<leftarrow> libgpu_draw_env_clamp_to_frame_buffer K v27 kFrameBufferLimitX;
       clear_rect_scratch_set_clear_w K (as_u16 v28);
       v29 \<leftarrow> clear_rect_scratch_clear_h_signed K;
       v30 \<leftarrow> libgpu_draw_env_clamp_to_frame_buffer K v29 kFrameBufferLimitY;
       clear_rect_scratch_set_clear_h K (as_u16 v30);
       v31 \<leftarrow> clear_rect_scratch_clear_x K;
       b33 \<leftarrow> (if (v31 AND kVramFillAlignMask) = 0 then do {
         v32 \<leftarrow> clear_rect_scratch_clear_w K;
         State_Monad.return ((v32 AND kVramFillAlignMask) = 0)
       }
        else State_Monad.return False);
       let vramFillEligible = b33;
       (if \<not> vramFillEligible then do {
         v34 \<leftarrow> clear_rect_scratch_clear_x K;
         v35 \<leftarrow> draw_env_fields_offset_x_raw K r16_3;
         clear_rect_scratch_set_clear_x K (as_u16 (v34 - v35));
         v36 \<leftarrow> clear_rect_scratch_clear_y K;
         v37 \<leftarrow> draw_env_fields_offset_y_raw K r16_3;
         clear_rect_scratch_set_clear_y K (as_u16 (v36 - v37));
         v38 \<leftarrow> draw_env_fields_clear_color K r16_3;
         draw_env_packet_set_clear_command K r17_4 (kGp0FlatRect OR v38);
         v39 \<leftarrow> clear_rect_scratch_top_left_word K;
         draw_env_packet_set_clear_top_left K r17_4 v39;
         v40 \<leftarrow> clear_rect_scratch_size_word K;
         draw_env_packet_set_clear_size K r17_4 v40
       }
        else do {
          v41 \<leftarrow> draw_env_fields_clear_color K r16_3;
          draw_env_packet_set_clear_command K r17_4 (kGp0FillVram OR v41);
          v42 \<leftarrow> clear_rect_scratch_top_left_word K;
          draw_env_packet_set_clear_top_left K r17_4 v42;
          v43 \<leftarrow> clear_rect_scratch_size_word K;
          draw_env_packet_set_clear_size K r17_4 v43
        });
       State_Monad.return kPacketWordsWithClear
     }
      else State_Monad.return packetWords);
     draw_env_packet_set_tag_word_count K r17_4 packetWords;
     setr K 2 packetWords
   })"

section \<open>\<open>game/render/overlay_gt3gt4.cpp\<close>\<close>

definition overlay_gt_otz_index :: "'c core_ops \<Rightarrow> u32 \<Rightarrow> ('c, u32) state"
    where
  "overlay_gt_otz_index K z = do {
     idx \<leftarrow> ordering_table_compress_depth K z;
     v2 \<leftarrow> ordering_table_in_depth_range_exclusive K idx;
     State_Monad.return (if v2 then idx else kNoBucket)
   }"

definition overlay_gt3_gt4_submit_block :: "'c core_ops \<Rightarrow> ('c, unit) state" where
  "overlay_gt3_gt4_submit_block K = do {
     block \<leftarrow> reg K 4;
     otBase \<leftarrow> reg K 5;
     r29_3 \<leftarrow> reg K 29;
     let sp = r29_3 - kFrameSize;
     setr K 29 sp;
     r17_4 \<leftarrow> reg K 17;
     w32 K (sp + kSpillS1) r17_4;
     r31_5 \<leftarrow> reg K 31;
     w32 K (sp + kSpillRa) r31_5;
     r16_6 \<leftarrow> reg K 16;
     w32 K (sp + kSpillS0) r16_6;
     counts1 \<leftarrow> r32 K (block + kBlockCounts);
     setr K 16 counts1;
     setr K 17 otBase;
     setr K 4 (block + kBlockRecords);
     setr K 5 otBase;
     setr K 6 (counts1 AND 0xFFFF);
     setr K 31 kRaAfterGt3;
     call_guest K 0x801465EC;
     r2_8 \<leftarrow> reg K 2;
     setr K 4 r2_8;
     r17_9 \<leftarrow> reg K 17;
     setr K 5 r17_9;
     setr K 6 (shr counts1 16);
     setr K 31 kRaAfterGt4;
     call_guest K 0x801467BC;
     v10 \<leftarrow> r32 K (sp + kSpillRa);
     setr K 31 v10;
     v11 \<leftarrow> r32 K (sp + kSpillS1);
     setr K 17 v11;
     v12 \<leftarrow> r32 K (sp + kSpillS0);
     setr K 16 v12;
     setr K 29 (sp + kFrameSize)
   }"

definition overlay_gt3_gt4_emit_gt3 :: "'c core_ops \<Rightarrow> u32 \<Rightarrow> u32
    \<Rightarrow> u32 \<Rightarrow> u32 \<Rightarrow> u32 \<Rightarrow> u32 \<Rightarrow> u32
    \<Rightarrow> visibility \<Rightarrow> ('c, u32) state" where
  "overlay_gt3_gt4_emit_gt3 K call_list ot call_count a3 sp a1 uvScroll visible = do {
     let rec = call_list;
     let count1 = call_count;
     (if count1 = 0 then State_Monad.return rec
      else do {
        pool \<leftarrow> packet_pool_cursor K;
        let list = rec;
        (rec, count1, pool) \<leftarrow> loop (\<lambda>(rec, count1, pool). (if count1 \<noteq> 0
            then do {
          v2 \<leftarrow> r32 K (rec + 16);
          gte_set_data K 0 v2;
          vz01 \<leftarrow> r32 K (rec + 20);
          v4 \<leftarrow> r32 K (rec + 24);
          gte_set_data K 2 v4;
          gte_set_data K 1 vz01;
          v5 \<leftarrow> r32 K (rec + 28);
          gte_set_data K 4 v5;
          vz23 \<leftarrow> r32 K (rec + 32);
          gte_set_data K 3 (shr vz01 16);
          gte_set_data K 5 vz23;
          w32 K (pool + 36) (shr vz23 16);
          gte_run K 0x4A280030;
          uv0 \<leftarrow> r32 K (rec + 8);
          uv1 \<leftarrow> r32 K (rec + 12);
          rgb0_code \<leftarrow> r32 K (rec + 0);
          rgb1_src \<leftarrow> r32 K (rec + 4);
          flagreg \<leftarrow> gte_control K 31;
          w32 K (pool + 12) uv0;
          w32 K (pool + 24) uv1;
          (if flagreg <s 0 then do {
            let count1 = count1 - 1;
            let rec = rec + 36;
            State_Monad.return (Inr (rec, count1, pool))
          }
           else do {
             gte_store_xy K (pool + 8) 12;
             gte_store_xy K (pool + 20) 13;
             gte_store_xy K (pool + 32) 14;
             sxy0 \<leftarrow> gte_data K 12;
             sxy1 \<leftarrow> gte_data K 13;
             sxy2 \<leftarrow> gte_data K 14;
             let height16 = shl horizontal_visibility_cull_kGuestFrameHeight 16;
             (if \<not> ((sxy0 < height16 \<or> sxy1 < height16) \<or> sxy2 < height16) then do {
               let count1 = count1 - 1;
               let rec = rec + 36;
               State_Monad.return (Inr (rec, count1, pool))
             }
              else do {
                let xs1 = ([shl sxy0 16, shl sxy1 16, shl sxy2 16] :: u32 list);
                (if \<not> (keeps_x visible xs1 3 Fixed16_16) then do {
                  let count1 = count1 - 1;
                  let rec = rec + 36;
                  State_Monad.return (Inr (rec, count1, pool))
                }
                 else do {
                   gte_run K 0x4B400006;
                   w32 K (pool + 16) (rgb1_src AND COL_MASK);
                   w32 K (pool + 4) rgb0_code;
                   let rgb2 = (shl rgb1_src 4) AND COL_MASK;
                   mac0 \<leftarrow> gte_data K 24;
                   w32 K (pool + 28) rgb2;
                   (if mac0 \<le>s 0 then do {
                     let count1 = count1 - 1;
                     let rec = rec + 36;
                     State_Monad.return (Inr (rec, count1, pool))
                   }
                    else do {
                      let flagbyte = shr rgb1_src 24;
                      only_if (uvScroll \<noteq> kNoScroll \<and> (flagbyte AND kScrollFlag)
                          \<noteq> 0) (scroll_uv K pool uvScroll kGt3ScrolledUv);
                      z \<leftarrow> (if flagbyte = 0 then do {
                        gte_run K 0x4B58002D;
                        gte_data K 7
                      }
                       else do {
                         sz1 \<leftarrow> gte_data K 17;
                         sz2 \<leftarrow> gte_data K 18;
                         sz3 \<leftarrow> gte_data K 19;
                         State_Monad.return (extreme_depth ((flagbyte AND 2) = 0) [sz1, sz2, sz3])
                       });
                      idx \<leftarrow> overlay_gt_otz_index K z;
                      (if idx <s 0 then do {
                        let count1 = count1 - 1;
                        let rec = rec + 36;
                        State_Monad.return (Inr (rec, count1, pool))
                      }
                       else do {
                         _ \<leftarrow> ordering_table_link K ot pool 9 idx;
                         let pool = pool + 40;
                         let count1 = count1 - 1;
                         let rec = rec + 36;
                         State_Monad.return (Inr (rec, count1, pool))
                       })
                    })
                 })
              })
           })
        }
         else State_Monad.return (Inl (rec, count1, pool)))) (rec, count1, pool);
        packet_pool_set_cursor K pool;
        State_Monad.return rec
      })
   }"

definition overlay_gt3_gt4_emit_gt4 :: "'c core_ops \<Rightarrow> u32 \<Rightarrow> u32
    \<Rightarrow> u32 \<Rightarrow> u32 \<Rightarrow> u32 \<Rightarrow> u32 \<Rightarrow> u32
    \<Rightarrow> ('c, u32) state" where
  "overlay_gt3_gt4_emit_gt4 K call_list ot call_count a3 sp a1 uvScroll = do {
     let rec = call_list;
     let count1 = call_count;
     (if count1 = 0 then State_Monad.return rec
      else do {
        pool \<leftarrow> packet_pool_cursor K;
        let list = rec;
        (rec, count1, pool) \<leftarrow> loop (\<lambda>(rec, count1, pool). (if count1 \<noteq> 0
            then do {
          v2 \<leftarrow> r32 K (rec + 20);
          gte_set_data K 0 v2;
          vz01 \<leftarrow> r32 K (rec + 24);
          v4 \<leftarrow> r32 K (rec + 28);
          gte_set_data K 2 v4;
          gte_set_data K 1 vz01;
          v5 \<leftarrow> r32 K (rec + 32);
          gte_set_data K 4 v5;
          vz23 \<leftarrow> r32 K (rec + 36);
          gte_set_data K 3 (shr vz01 16);
          gte_set_data K 5 vz23;
          gte_run K 0x4A280030;
          flagreg \<leftarrow> gte_control K 31;
          (if flagreg <s 0 then do {
            let count1 = count1 - 1;
            let rec = rec + 44;
            State_Monad.return (Inr (rec, count1, pool))
          }
           else do {
             gte_run K 0x4B400006;
             mac0 \<leftarrow> gte_data K 24;
             (if mac0 \<le>s 0 then do {
               let count1 = count1 - 1;
               let rec = rec + 44;
               State_Monad.return (Inr (rec, count1, pool))
             }
              else do {
                gte_store_xy K (pool + 8) 12;
                gte_store_xy K (pool + 20) 13;
                gte_store_xy K (pool + 32) 14;
                uv0 \<leftarrow> r32 K (rec + 8);
                uv1 \<leftarrow> r32 K (rec + 12);
                rgb0_code \<leftarrow> r32 K (rec + 0);
                rgb2_src \<leftarrow> r32 K (rec + 4);
                uv23 \<leftarrow> r32 K (rec + 16);
                w32 K (pool + 12) uv0;
                w32 K (pool + 24) uv1;
                w32 K (pool + 4) (rgb0_code AND COL_MASK);
                w32 K (pool + 16) ((shl rgb0_code 4) AND COL_MASK);
                w32 K (pool + 28) (rgb2_src AND COL_MASK);
                w32 K (pool + 40) ((shl rgb2_src 4) AND COL_MASK);
                w32 K (pool + 36) uv23;
                w32 K (pool + 48) (shr uv23 16);
                v14 \<leftarrow> r32 K (rec + 40);
                gte_set_data K 0 v14;
                gte_set_data K 1 (shr vz23 16);
                gte_run K 0x4A180001;
                flagreg2 \<leftarrow> gte_control K 31;
                (if flagreg2 <s 0 then do {
                  let count1 = count1 - 1;
                  let rec = rec + 44;
                  State_Monad.return (Inr (rec, count1, pool))
                }
                 else do {
                   gte_store_xy K (pool + 44) 14;
                   let flagbyte = shr rgb2_src 24;
                   only_if (uvScroll \<noteq> kNoScroll \<and> (flagbyte AND kScrollFlag) \<noteq>
                       0) (scroll_uv K pool uvScroll kGt4ScrolledUv);
                   z \<leftarrow> (if flagbyte = 0 then do {
                     gte_run K 0x4B68002E;
                     gte_data K 7
                   }
                    else do {
                      sz1 \<leftarrow> gte_data K 16;
                      sz2 \<leftarrow> gte_data K 17;
                      sz3 \<leftarrow> gte_data K 18;
                      sz4 \<leftarrow> gte_data K 19;
                      let a = sz1;
                      let b = sz2;
                      let e1 = sz3;
                      let f = sz4;
                      (if (flagbyte AND 2) \<noteq> 0 then do {
                        let a = (if 0 \<le>s a - b then b else a);
                        let e1 = (if 0 \<le>s e1 - f then f else e1);
                        let r = sar 2 a;
                        State_Monad.return (if 0 \<le>s a - e1 then (sar 2 e1) else r)
                      }
                       else do {
                         let a = (if a - b \<le>s 0 then b else a);
                         let e1 = (if e1 - f \<le>s 0 then f else e1);
                         let r = sar 2 a;
                         State_Monad.return (if a - e1 \<le>s 0 then (sar 2 e1) else r)
                       })
                    });
                   idx \<leftarrow> overlay_gt_otz_index K z;
                   (if idx <s 0 then do {
                     let count1 = count1 - 1;
                     let rec = rec + 44;
                     State_Monad.return (Inr (rec, count1, pool))
                   }
                    else do {
                      _ \<leftarrow> ordering_table_link K ot pool 12 idx;
                      let pool = pool + 52;
                      let count1 = count1 - 1;
                      let rec = rec + 44;
                      State_Monad.return (Inr (rec, count1, pool))
                    })
                 })
              })
           })
        }
         else State_Monad.return (Inl (rec, count1, pool)))) (rec, count1, pool);
        packet_pool_set_cursor K pool;
        State_Monad.return rec
      })
   }"

definition overlay_gt3_gt4_gt3 :: "'c core_ops \<Rightarrow> u32 \<Rightarrow> visibility
    \<Rightarrow> ('c, unit) state" where
  "overlay_gt3_gt4_gt3 K uvScroll visible = do {
     r4_1 \<leftarrow> reg K 4;
     r5_2 \<leftarrow> reg K 5;
     r6_3 \<leftarrow> reg K 6;
     r7_4 \<leftarrow> reg K 7;
     r29_5 \<leftarrow> reg K 29;
     v6 \<leftarrow> overlay_gt3_gt4_emit_gt3 K r4_1 r5_2 r6_3 r7_4 r29_5 r5_2 uvScroll visible;
     setr K 2 v6
   }"

definition overlay_gt3_gt4_gt4 :: "'c core_ops \<Rightarrow> u32 \<Rightarrow> ('c, unit) state"
    where
  "overlay_gt3_gt4_gt4 K uvScroll = do {
     r4_1 \<leftarrow> reg K 4;
     r5_2 \<leftarrow> reg K 5;
     r6_3 \<leftarrow> reg K 6;
     r7_4 \<leftarrow> reg K 7;
     r29_5 \<leftarrow> reg K 29;
     v6 \<leftarrow> overlay_gt3_gt4_emit_gt4 K r4_1 r5_2 r6_3 r7_4 r29_5 r5_2 uvScroll;
     setr K 2 v6
   }"

section \<open>\<open>game/render/overlay_type_dispatch.cpp\<close>\<close>

definition render_overlay_type_dispatch :: "'c core_ops \<Rightarrow> ('c, unit) state" where
  "render_overlay_type_dispatch K = dispatch_frame K (do {
     areaType \<leftarrow> r8 K AREA_TYPE_BYTE;
     (if 22 \<le> areaType then State_Monad.return ()
      else do {
        target \<leftarrow> r32 K (JUMP_TABLE + areaType * 4);
        (if target = 0x8003D0F4 then do { setr K 31 0x8003D0FC; call_guest K 0x801401B8 }
         else if target = 0x8003D104 then do {
           setr K 31 0x8003D10C;
           call_guest K 0x80132358
         }
          else if target = 0x8003D114 then do {
            setr K 31 0x8003D11C;
            call_guest K 0x80124CB8
          }
           else if target = 0x8003D124 then do {
             setr K 31 0x8003D12C;
             call_guest K 0x801185F0
           }
            else if target = 0x8003D134 then do {
              setr K 31 0x8003D13C;
              call_guest K 0x8013606C
            }
             else if target = 0x8003D144 then do {
               setr K 31 0x8003D14C;
               call_guest K 0x8013CD34
             }
              else if target = 0x8003D154 then do {
                setr K 31 0x8003D15C;
                call_guest K 0x8012DA14
              }
               else if target = 0x8003D164 then do {
                 setr K 31 0x8003D16C;
                 call_guest K 0x8012A7CC
               }
                else if target = 0x8003D174 then do {
                  setr K 31 0x8003D17C;
                  call_guest K 0x8011024C
                }
                 else if target = 0x8003D184 then do {
                   setr K 31 0x8003D18C;
                   call_guest K 0x80113050
                 }
                  else if target = 0x8003D194 then do {
                    setr K 31 0x8003D19C;
                    call_guest K 0x80113DB4
                  }
                   else if target = 0x8003D1A4 then do {
                     setr K 31 0x8003D1AC;
                     call_guest K 0x80113628
                   }
                    else if target = 0x8003D1B4 then do {
                      setr K 31 0x8003D1BC;
                      call_guest K 0x80114320
                    }
                     else if target = 0x8003D1C4 then do {
                       setr K 31 0x8003D1CC;
                       call_guest K 0x80115364
                     }
                      else if target = 0x8003D1D4 then do {
                        setr K 31 0x8003D1DC;
                        call_guest K 0x8010C2A4
                      }
                       else if target = 0x8003D1E4 then do {
                         setr K 31 0x8003D1EC;
                         call_guest K 0x8010B5BC
                       }
                        else if target = 0x8003D1F4 then do {
                          setr K 31 0x8003D1FC;
                          call_guest K 0x8010BA40
                        }
                         else if target = 0x8003D204 then do {
                           setr K 31 0x8003D20C;
                           call_guest K 0x8010AA20
                         }
                          else if target = 0x8003D214 then do {
                            setr K 31 0x8003D21C;
                            call_guest K 0x80115F1C
                          }
                           else if target = 0x8003D224 then do {
                             setr K 31 0x8003D22C;
                             call_guest K 0x8010B0B8
                           }
                            else if target = 0x8003D22C then State_Monad.return ()
                             else call_guest K target)
      })
   })"

definition ov_overlay_type_dispatch :: "'c core_ops \<Rightarrow> ('c, unit) state" where
  "ov_overlay_type_dispatch K = render_overlay_type_dispatch K"

section \<open>\<open>game/render/quad_rtpt_submit.cpp\<close>\<close>

definition quad_rtpt_submit_rotate_quad_corners :: "'c core_ops \<Rightarrow> ('c, unit) state"
    where
  "quad_rtpt_submit_rotate_quad_corners K = do {
     dst \<leftarrow> reg K 4;
     src \<leftarrow> reg K 5;
     idx \<leftarrow> reg K 6;
     (if idx = 1 then do {
       v4 \<leftarrow> r16 K (src + 4);
       w16 K (dst + 0x0C) v4;
       v5 \<leftarrow> r16 K (src + 0);
       w16 K (dst + 0x14) v5;
       v6 \<leftarrow> r16 K (src + 12);
       w16 K (dst + 0x1C) v6;
       v7 \<leftarrow> r16 K (src + 8);
       w16 K (dst + 0x24) v7;
       v8 \<leftarrow> r8 K (dst + 0x0C);
       w8 K (dst + 0x0C) (v8 - 1);
       v9 \<leftarrow> r8 K (dst + 0x14);
       w8 K (dst + 0x14) (v9 - 1);
       v10 \<leftarrow> r8 K (dst + 0x1C);
       w8 K (dst + 0x1C) (v10 - 1);
       v11 \<leftarrow> r8 K (dst + 0x24);
       w8 K (dst + 0x24) (v11 - 1);
       v12 \<leftarrow> r16 K (src + 6);
       w16 K (dst + 0x16) v12;
       v13 \<leftarrow> r16 K (src + 2);
       w16 K (dst + 0x0E) v13
     }
      else if idx <s 2 then (if idx \<noteq> 0 then State_Monad.return ()
       else do {
         v14 \<leftarrow> r32 K (src + 0);
         w32 K (dst + 0x0C) v14;
         v15 \<leftarrow> r32 K (src + 4);
         w32 K (dst + 0x14) v15;
         v16 \<leftarrow> r16 K (src + 8);
         w16 K (dst + 0x1C) v16;
         v17 \<leftarrow> r16 K (src + 12);
         w16 K (dst + 0x24) v17
       })
       else if idx = 2 then do {
         v18 \<leftarrow> r16 K (src + 8);
         w16 K (dst + 0x0C) v18;
         v19 \<leftarrow> r16 K (src + 12);
         w16 K (dst + 0x14) v19;
         v20 \<leftarrow> r16 K (src + 0);
         w16 K (dst + 0x1C) v20;
         v21 \<leftarrow> r16 K (src + 4);
         w16 K (dst + 0x24) v21;
         v22 \<leftarrow> r8 K (dst + 0x0D);
         w8 K (dst + 0x0D) (v22 - 1);
         v23 \<leftarrow> r8 K (dst + 0x15);
         w8 K (dst + 0x15) (v23 - 1);
         v24 \<leftarrow> r8 K (dst + 0x1D);
         w8 K (dst + 0x1D) (v24 - 1);
         v25 \<leftarrow> r8 K (dst + 0x25);
         w8 K (dst + 0x25) (v25 - 1);
         v26 \<leftarrow> r16 K (src + 6);
         w16 K (dst + 0x16) v26;
         v27 \<leftarrow> r16 K (src + 2);
         w16 K (dst + 0x0E) v27
       }
        else if idx \<noteq> 3 then State_Monad.return ()
         else do {
           v28 \<leftarrow> r16 K (src + 12);
           w16 K (dst + 0x0C) v28;
           v29 \<leftarrow> r16 K (src + 8);
           w16 K (dst + 0x14) v29;
           v30 \<leftarrow> r16 K (src + 4);
           w16 K (dst + 0x1C) v30;
           v31 \<leftarrow> r16 K (src + 0);
           w16 K (dst + 0x24) v31;
           v32 \<leftarrow> r8 K (dst + 0x0C);
           w8 K (dst + 0x0C) (v32 - 1);
           v33 \<leftarrow> r8 K (dst + 0x0D);
           w8 K (dst + 0x0D) (v33 - 1);
           v34 \<leftarrow> r8 K (dst + 0x14);
           w8 K (dst + 0x14) (v34 - 1);
           v35 \<leftarrow> r8 K (dst + 0x15);
           w8 K (dst + 0x15) (v35 - 1);
           v36 \<leftarrow> r8 K (dst + 0x1C);
           w8 K (dst + 0x1C) (v36 - 1);
           v37 \<leftarrow> r8 K (dst + 0x1D);
           w8 K (dst + 0x1D) (v37 - 1);
           v38 \<leftarrow> r8 K (dst + 0x24);
           w8 K (dst + 0x24) (v38 - 1);
           v39 \<leftarrow> r8 K (dst + 0x25);
           w8 K (dst + 0x25) (v39 - 1);
           v40 \<leftarrow> r16 K (src + 6);
           w16 K (dst + 0x16) v40;
           v41 \<leftarrow> r16 K (src + 2);
           w16 K (dst + 0x0E) v41
         })
   }"

definition quad_rtpt_submit_submit_quad :: "'c core_ops \<Rightarrow> ('c, unit) state" where
  "quad_rtpt_submit_submit_quad K = do {
     out \<leftarrow> reg K 4;
     xf \<leftarrow> reg K 5;
     otzBias \<leftarrow> reg K 6;
     r29_4 \<leftarrow> reg K 29;
     setr K 29 (r29_4 - 16);
     sp \<leftarrow> reg K 29;
     let pop = (\<lambda>_. do { r29_6 \<leftarrow> reg K 29; setr K 29 (r29_6 + 16) });
     v7 \<leftarrow> r32 K (xf + 0);
     gte_set_data K 0 v7;
     v8 \<leftarrow> r32 K (xf + 4);
     gte_set_data K 1 v8;
     v9 \<leftarrow> r32 K (xf + 8);
     gte_set_data K 2 v9;
     v10 \<leftarrow> r32 K (xf + 12);
     gte_set_data K 3 v10;
     v11 \<leftarrow> r32 K (xf + 16);
     gte_set_data K 4 v11;
     v12 \<leftarrow> r32 K (xf + 20);
     gte_set_data K 5 v12;
     gte_run K 0x4A280030;
     g13 \<leftarrow> gte_control K 31;
     w32 K (sp + 0) g13;
     v14 \<leftarrow> r32 K (sp + 0);
     (if v14 <s 0 then do { w32 K (sp + 8) (-1); pop () }
      else do {
        g15 \<leftarrow> gte_data K 12;
        w32 K (out + 8) g15;
        g16 \<leftarrow> gte_data K 13;
        w32 K (out + 16) g16;
        g17 \<leftarrow> gte_data K 14;
        w32 K (out + 24) g17;
        gte_run K 0x4B400006;
        g18 \<leftarrow> gte_data K 24;
        w32 K (sp + 0) g18;
        v19 \<leftarrow> r32 K (xf + 24);
        gte_set_data K 0 v19;
        v20 \<leftarrow> r32 K (xf + 28);
        gte_set_data K 1 v20;
        gte_run K 0x4A180001;
        g21 \<leftarrow> gte_control K 31;
        w32 K (sp + 0) g21;
        v22 \<leftarrow> r32 K (sp + 0);
        (if v22 <s 0 then do { w32 K (sp + 8) (-1); pop () }
         else do {
           g23 \<leftarrow> gte_data K 14;
           w32 K (out + 32) g23;
           gte_run K 0x4B68002E;
           g24 \<leftarrow> gte_data K 7;
           w32 K (sp + 4) g24;
           z0 \<leftarrow> r32 K (sp + 4);
           w32 K (sp + 8) z0;
           (if z0 <s 0 then pop () 
            else do {
              let z = z0 + otzBias;
              w32 K (sp + 8) z;
              (if z <s 0 then pop () 
               else do {
                 otz \<leftarrow> ordering_table_compress_depth K z;
                 w32 K (sp + 8) otz;
                 v27 \<leftarrow> ordering_table_in_depth_range K otz;
                 (if \<not> v27 then pop () 
                  else do {
                    let sx = (\<lambda>off. r16 K (out + off));
                    v30 \<leftarrow> sx 8;
                    v31 \<leftarrow> sx 16;
                    v32 \<leftarrow> sx 24;
                    v33 \<leftarrow> sx 32;
                    let xs1 = ([v30, v31, v32, v33] :: u32 list);
                    v34 \<leftarrow> for_draw_window K;
                    let xok = keeps_x v34 xs1 4 Packed16;
                    (if \<not> xok then pop () 
                     else do {
                       v35 \<leftarrow> sx 10;
                       b37 \<leftarrow> (if v35 < 240 then State_Monad.return True
                        else do { v36 \<leftarrow> sx 18; State_Monad.return (v36 < 240) });
                       b39 \<leftarrow> (if b37 then State_Monad.return True
                        else do { v38 \<leftarrow> sx 26; State_Monad.return (v38 < 240) });
                       b41 \<leftarrow> (if b39 then State_Monad.return True
                        else do { v40 \<leftarrow> sx 34; State_Monad.return (v40 < 240) });
                       let yok = b41;
                       (if \<not> yok then pop () 
                        else do {
                          pool \<leftarrow> packet_pool_cursor K;
                          v43 \<leftarrow> r32 K 0x800ED8C8;
                          _ \<leftarrow> ordering_table_link K v43 pool 9 otz;
                          let dstw = pool + 4;
                          let off = (4 :: u32);
                          (dstw, off) \<leftarrow> loop (\<lambda>(dstw, off). (if off \<le> 36
                              then do {
                            v44 \<leftarrow> r32 K (out + off);
                            w32 K dstw v44;
                            let off = off + 4;
                            let dstw = dstw + 4;
                            State_Monad.return (Inr (dstw, off))
                          }
                           else State_Monad.return (Inl (dstw, off)))) (dstw, off);
                          packet_pool_set_cursor K (pool + 40);
                          pop () 
                        })
                     })
                  })
               })
            })
         })
      })
   }"

section \<open>\<open>game/render/wide_re_gpu_putdrawenv.cpp\<close>\<close>

definition native_clip_top_left :: "'c core_ops \<Rightarrow> ('c, unit) state" where
  "native_clip_top_left K = do {
     r4_1 \<leftarrow> reg K 4;
     let x = as_s16 r4_1;
     r5_2 \<leftarrow> reg K 5;
     let y = as_s16 r5_2;
     clampedX \<leftarrow> (if x <s 0 then State_Monad.return (0 :: u32)
      else do {
        maxWSigned \<leftarrow> r16s K GPU_CLIP_MAXW;
        maxWUnsigned \<leftarrow> r16 K GPU_CLIP_MAXW;
        State_Monad.return (if maxWSigned - 1 <s x then maxWUnsigned - 1 else x)
      });
     clampedY \<leftarrow> (if y <s 0 then State_Monad.return (0 :: u32)
      else do {
        maxHSigned \<leftarrow> r16s K GPU_CLIP_MAXH;
        maxHUnsigned \<leftarrow> r16 K GPU_CLIP_MAXH;
        State_Monad.return (if maxHSigned - 1 <s y then maxHUnsigned - 1 else y)
      });
     setr K 2 ((0xE3000000 OR (shl (clampedY AND 1023) 10)) OR (clampedX AND 1023))
   }"

definition native_clip_bottom_right :: "'c core_ops \<Rightarrow> ('c, unit) state" where
  "native_clip_bottom_right K = do {
     r4_1 \<leftarrow> reg K 4;
     let x = as_s16 r4_1;
     r5_2 \<leftarrow> reg K 5;
     let y = as_s16 r5_2;
     clampedX \<leftarrow> (if x <s 0 then State_Monad.return (0 :: u32)
      else do {
        maxWSigned \<leftarrow> r16s K GPU_CLIP_MAXW;
        maxWUnsigned \<leftarrow> r16 K GPU_CLIP_MAXW;
        State_Monad.return (if maxWSigned - 1 <s x then maxWUnsigned - 1 else x)
      });
     clampedY \<leftarrow> (if y <s 0 then State_Monad.return (0 :: u32)
      else do {
        maxHSigned \<leftarrow> r16s K GPU_CLIP_MAXH;
        maxHUnsigned \<leftarrow> r16 K GPU_CLIP_MAXH;
        State_Monad.return (if maxHSigned - 1 <s y then maxHUnsigned - 1 else y)
      });
     setr K 2 ((0xE4000000 OR (shl (clampedY AND 1023) 10)) OR (clampedX AND 1023))
   }"

definition native_draw_offset :: "'c core_ops \<Rightarrow> ('c, unit) state" where
  "native_draw_offset K = do {
     r4_1 \<leftarrow> reg K 4;
     let x = r4_1 AND 2047;
     r5_2 \<leftarrow> reg K 5;
     let y = r5_2 AND 2047;
     setr K 2 ((0xE5000000 OR (shl y 11)) OR x)
   }"

definition native_draw_mode :: "'c core_ops \<Rightarrow> ('c, unit) state" where
  "native_draw_mode K = do {
     modeFlag \<leftarrow> reg K 4;
     ditherFlag \<leftarrow> reg K 5;
     rgbBits \<leftarrow> reg K 6;
     let tagHalf = (0xE1000000 :: u32);
     let tagHalf = (if ditherFlag \<noteq> 0 then (tagHalf OR 0x200) else tagHalf);
     let lowHalf = rgbBits AND 0x9FF;
     let lowHalf = (if modeFlag \<noteq> 0 then (lowHalf OR 0x400) else lowHalf);
     setr K 2 (tagHalf OR lowHalf)
   }"

definition native_texture_window :: "'c core_ops \<Rightarrow> ('c, unit) state" where
  "native_texture_window K = do {
     texWinSrc \<leftarrow> reg K 4;
     (if texWinSrc = 0 then setr K 2 0
      else do {
        r29_2 \<leftarrow> reg K 29;
        setr K 29 (r29_2 - 16);
        maskX \<leftarrow> r8 K (texWinSrc + 0);
        let maskXShifted = shr maskX 3;
        r29_4 \<leftarrow> reg K 29;
        w32 K (r29_4 + 0) maskXShifted;
        offX \<leftarrow> r16s K (texWinSrc + 4);
        let negOffX = 0 - offX;
        let negOffX = negOffX AND 255;
        let negOffX = sar 3 negOffX;
        w32 K (r29_4 + 8) negOffX;
        maskY \<leftarrow> r8 K (texWinSrc + 2);
        let twin = shl maskXShifted 10;
        let maskYShifted = shr maskY 3;
        w32 K (r29_4 + 4) maskYShifted;
        let twin = twin OR (shl maskYShifted 15);
        offY \<leftarrow> r16s K (texWinSrc + 6);
        let twin = twin OR 0xE2000000;
        let negOffY = 0 - offY;
        let negOffY = negOffY AND 255;
        let negOffY = sar 3 negOffY;
        let twin = twin OR (shl negOffY 5);
        let twin = twin OR negOffX;
        w32 K (r29_4 + 12) negOffY;
        setr K 29 (r29_4 + 16);
        setr K 2 twin
      })
   }"

definition native_put_draw_env :: "'c core_ops \<Rightarrow> ('c, unit) state" where
  "native_put_draw_env K = do {
     r29_1 \<leftarrow> reg K 29;
     setr K 29 (r29_1 - 32);
     r29_2 \<leftarrow> reg K 29;
     r18_3 \<leftarrow> reg K 18;
     w32 K (r29_2 + 24) r18_3;
     setr K 18 GPU_BOOT_FLAG;
     r31_4 \<leftarrow> reg K 31;
     w32 K (r29_2 + 28) r31_4;
     r17_5 \<leftarrow> reg K 17;
     w32 K (r29_2 + 20) r17_5;
     r16_6 \<leftarrow> reg K 16;
     w32 K (r29_2 + 16) r16_6;
     r4_7 \<leftarrow> reg K 4;
     setr K 17 r4_7;
     let epilogue = (\<lambda>retVal. do {
       setr K 2 retVal;
       r29_8 \<leftarrow> reg K 29;
       v9 \<leftarrow> r32 K (r29_8 + 28);
       setr K 31 v9;
       v10 \<leftarrow> r32 K (r29_8 + 24);
       setr K 18 v10;
       v11 \<leftarrow> r32 K (r29_8 + 20);
       setr K 17 v11;
       v12 \<leftarrow> r32 K (r29_8 + 16);
       setr K 16 v12;
       setr K 29 (r29_8 + 32)
     });
     bootFlag \<leftarrow> r8 K GPU_BOOT_FLAG;
     only_if (2 \<le> bootFlag) (do {
       setr K 4 (shl 32770 16 + (-16492));
       initFn \<leftarrow> r32 K GPU_SYS_INIT_FN;
       r17_15 \<leftarrow> reg K 17;
       setr K 5 r17_15;
       setr K 31 0x8008161C;
       call_guest K initFn
     });
     r17_16 \<leftarrow> reg K 17;
     setr K 16 (r17_16 + 28);
     r16_17 \<leftarrow> reg K 16;
     setr K 4 r16_17;
     setr K 5 r17_16;
     setr K 31 0x8008162C;
     call_guest K FN_PUTDRAWENV_PACK;
     r17_18 \<leftarrow> reg K 17;
     v19 \<leftarrow> r32 K (r17_18 + 28);
     w32 K (r17_18 + 28) (v19 OR 0x00FFFFFF);
     tableBase \<leftarrow> r32 K GPU_SYS_TABLE;
     drawOTagFnValue \<leftarrow> r32 K (tableBase + 24);
     dmaSendFn \<leftarrow> r32 K (tableBase + 8);
     setr K 4 drawOTagFnValue;
     r16_23 \<leftarrow> reg K 16;
     setr K 5 r16_23;
     setr K 6 64;
     setr K 7 0;
     setr K 31 0x80081664;
     call_guest K dmaSendFn;
     r18_24 \<leftarrow> reg K 18;
     setr K 4 (r18_24 + 14);
     r17_25 \<leftarrow> reg K 17;
     setr K 5 r17_25;
     setr K 6 92;
     setr K 31 0x80081674;
     call_guest K FN_MEMCPY_92;
     r17_26 \<leftarrow> reg K 17;
     epilogue r17_26
   }"

section \<open>\<open>game/render/wide_re_libgpu_leaves.cpp\<close>\<close>

definition render_draw_sync :: "'c core_ops \<Rightarrow> ('c, unit) state" where
  "render_draw_sync K = do {
     mode \<leftarrow> reg K 4;
     r29_2 \<leftarrow> reg K 29;
     setr K 29 (r29_2 - 24);
     r29_3 \<leftarrow> reg K 29;
     r16_4 \<leftarrow> reg K 16;
     w32 K (r29_3 + 16) r16_4;
     setr K 16 mode;
     r31_5 \<leftarrow> reg K 31;
     w32 K (r29_3 + 20) r31_5;
     let epilogue = (\<lambda>_. do {
       r29_6 \<leftarrow> reg K 29;
       v7 \<leftarrow> r32 K (r29_6 + 20);
       setr K 31 v7;
       v8 \<leftarrow> r32 K (r29_6 + 16);
       setr K 16 v8;
       setr K 29 (r29_6 + 24)
     });
     bootFlag \<leftarrow> r8 K GPU_BOOT_FLAG;
     only_if (2 \<le> bootFlag) (do {
       setr K 4 (shl 32770 16 + (-16676));
       initFn \<leftarrow> r32 K GPU_SYS_INIT_FN;
       r16_11 \<leftarrow> reg K 16;
       setr K 5 r16_11;
       setr K 31 0x80080FA8;
       call_guest K initFn
     });
     tableBase \<leftarrow> r32 K GPU_SYS_TABLE;
     tableSlot60 \<leftarrow> r32 K (tableBase + 60);
     r16_14 \<leftarrow> reg K 16;
     setr K 4 r16_14;
     setr K 31 0x80080FC4;
     call_guest K tableSlot60;
     epilogue () 
   }"

definition render_clear_o_tag_r :: "'c core_ops \<Rightarrow> ('c, unit) state" where
  "render_clear_o_tag_r K = do {
     r29_1 \<leftarrow> reg K 29;
     setr K 29 (r29_1 - 32);
     r29_2 \<leftarrow> reg K 29;
     r16_3 \<leftarrow> reg K 16;
     w32 K (r29_2 + 16) r16_3;
     r4_4 \<leftarrow> reg K 4;
     setr K 16 r4_4;
     r17_5 \<leftarrow> reg K 17;
     w32 K (r29_2 + 20) r17_5;
     r5_6 \<leftarrow> reg K 5;
     setr K 17 r5_6;
     bootFlag \<leftarrow> r8 K GPU_BOOT_FLAG;
     r31_8 \<leftarrow> reg K 31;
     w32 K (r29_2 + 24) r31_8;
     only_if (2 \<le> bootFlag) (do {
       setr K 4 (shl 32770 16 + (-16536));
       r16_9 \<leftarrow> reg K 16;
       setr K 5 r16_9;
       initFn \<leftarrow> r32 K GPU_SYS_INIT_FN;
       r17_11 \<leftarrow> reg K 17;
       setr K 6 r17_11;
       setr K 31 0x800814A0;
       call_guest K initFn
     });
     tableBase \<leftarrow> r32 K GPU_SYS_TABLE;
     tableSlot44 \<leftarrow> r32 K (tableBase + 44);
     r16_14 \<leftarrow> reg K 16;
     setr K 4 r16_14;
     r17_15 \<leftarrow> reg K 17;
     setr K 5 r17_15;
     setr K 31 0x800814BC;
     call_guest K tableSlot44;
     let mask24 = (shl 255 16) OR 65535;
     let kDummyTagAddr = (0x800A0000 + 23136 :: u32);
     let kDummyTagContent = (0x800A0000 + 23116 :: u32);
     let tag1 = (kDummyTagContent AND mask24) OR (shl 1024 16);
     w32 K kDummyTagAddr tag1;
     r16_16 \<leftarrow> reg K 16;
     w32 K r16_16 (kDummyTagAddr AND mask24);
     setr K 2 r16_16;
     setr K 3 tag1;
     r29_17 \<leftarrow> reg K 29;
     v18 \<leftarrow> r32 K (r29_17 + 24);
     setr K 31 v18;
     v19 \<leftarrow> r32 K (r29_17 + 20);
     setr K 17 v19;
     v20 \<leftarrow> r32 K (r29_17 + 16);
     setr K 16 v20;
     setr K 29 (r29_17 + 32)
   }"

definition ov_draw_sync :: "'c core_ops \<Rightarrow> ('c, unit) state" where
  "ov_draw_sync K = render_draw_sync K"

definition ov_clear_o_tag_r :: "'c core_ops \<Rightarrow> ('c, unit) state" where
  "ov_clear_o_tag_r K = render_clear_o_tag_r K"

definition libgpu_dma_status_reset :: "'c core_ops \<Rightarrow> ('c, unit) state" where
  "libgpu_dma_status_reset K = do {
     a0 \<leftarrow> reg K 4;
     flagsPtr \<leftarrow> r32 K GPU_DMA_FLAGS_PTR;
     w32 K flagsPtr ((shl 1024 16) OR 2);
     arg0Ptr \<leftarrow> r32 K GPU_DMA_ARG0_PTR;
     w32 K arg0Ptr a0;
     arg1Ptr \<leftarrow> r32 K GPU_DMA_ARG1_PTR;
     w32 K arg1Ptr 0;
     statePtr \<leftarrow> r32 K GPU_DMA_STATE_PTR;
     w32 K statePtr ((shl 256 16) OR 1025);
     setr K 2 statePtr
   }"

definition vertex_header_repack :: "'c core_ops \<Rightarrow> ('c, unit) state" where
  "vertex_header_repack K = do {
     src \<leftarrow> reg K 4;
     dst \<leftarrow> reg K 5;
     w0 \<leftarrow> r32 K (src + 0);
     w1 \<leftarrow> r32 K (src + 4);
     w32 K (dst + 4) w0;
     w32 K (dst + 0) w1;
     w16 K (dst + 0) w0;
     w2 \<leftarrow> r32 K (src + 8);
     w3 \<leftarrow> r32 K (src + 12);
     w32 K (dst + 12) w2;
     w32 K (dst + 8) w3;
     w16 K (dst + 12) w1;
     w16 K (dst + 8) w2;
     h4 \<leftarrow> r16s K (src + 16);
     w16 K (dst + 4) w3;
     w16 K (dst + 16) h4
   }"

end
