(* ===== verification/UiText.thy ===== *)
theory UiText
  imports GpuLeaves
begin

text \<open>
  Fonts, dialog text, sprites and the save menu.
\<close>

section \<open>Layout\<close>

definition OFF_SUBTYPE :: u32 where "OFF_SUBTYPE = 0x03"
definition OFF_MODE_TIMER :: u32 where "OFF_MODE_TIMER = 0x40"
definition G_TEXT_SPEED :: u32 where "G_TEXT_SPEED = 0x800BF8A3"
definition kFontBankAddr :: u32 where "kFontBankAddr = 0x80105CEC"
definition kFontBank2Addr :: u32 where "kFontBank2Addr = 0x80105D28"
definition kGlyphClassTableBase :: u32 where "kGlyphClassTableBase = 0x800BE238"
definition kGlyphClassStride :: u32 where "kGlyphClassStride = 12"
definition kGlyphClassFieldOffset :: u32 where "kGlyphClassFieldOffset = 8"
definition kGlyphClassCount :: u32 where "kGlyphClassCount = 24"
definition kTextCursorFlagAddr :: u32 where "kTextCursorFlagAddr = 0x800BED78"
definition kTextUnusedFlagAddr :: u32 where "kTextUnusedFlagAddr = 0x800BED80"
definition kLineTableHeadAddr :: u32 where "kLineTableHeadAddr = 0x800BE358"
definition kLineTableRowsAddr :: u32 where "kLineTableRowsAddr = 0x800BE3D6"
definition kLineTableRowCount :: u32 where "kLineTableRowCount = 14"
definition kLineTableRowStride :: u32 where "kLineTableRowStride = 8"
definition kTextStateByteA :: u32 where "kTextStateByteA = 0x800BE22A"
definition kTextStateByteB :: u32 where "kTextStateByteB = 0x800BE22B"
definition kScrGlyphAdvance :: u32 where "kScrGlyphAdvance = 0x1F800180"
definition kIconScratch :: u32 where "kIconScratch = 0x1F800020"
definition kIconTokenTable :: u32 where "kIconTokenTable = 0x800A55E0"
definition kSpritePacketWords :: u32 where "kSpritePacketWords = 3"
definition kDrawModePacketWords :: u32 where "kDrawModePacketWords = 2"
definition kNoGlyph :: u32 where "kNoGlyph = 0xFF02"
definition kNewlineGlyph :: u32 where "kNewlineGlyph = 0x0A0A"
definition SAVE_HANDLER_TBL :: u32 where "SAVE_HANDLER_TBL = 0x80010668"
definition SAVE_CTX_BASE :: u32 where "SAVE_CTX_BASE = 0x800D1E68"
definition SAVE_NUM_STATES :: u32 where "SAVE_NUM_STATES = 6"
definition R_S0 :: u32 where "R_S0 = 16"
definition R_S1 :: u32 where "R_S1 = 17"
definition R_S2 :: u32 where "R_S2 = 18"
definition R_SP :: u32 where "R_SP = 29"
definition R_RA :: u32 where "R_RA = 31"
definition SPRITE_DEF_TABLE :: u32 where "SPRITE_DEF_TABLE = 0x80017334"
definition MODEL_TABLE_PTR :: u32 where "MODEL_TABLE_PTR = 0x800ECF58"
definition DEF_FIXED_152 :: u32 where "DEF_FIXED_152 = 152"
definition kQuads :: u32 where "kQuads = 0x8007E1B8"
definition kStage :: u32 where "kStage = 0x1F800000"

section \<open>\<open>game/ui/dialog_text_stream.cpp\<close>\<close>

definition dialog_text_stream_apply_render_mode :: "'c core_ops \<Rightarrow> ('c, unit) state"
    where
  "dialog_text_stream_apply_render_mode K = do {
     obj \<leftarrow> reg K (unat R_A0);
     subtype \<leftarrow> r8 K (obj + OFF_SUBTYPE);
     (if subtype = 0 \<or> subtype = 1 then do {
       speed \<leftarrow> r8 K G_TEXT_SPEED;
       (if speed = 0 then w16 K (obj + OFF_MODE_TIMER) 3
        else if speed = 1 then w16 K (obj + OFF_MODE_TIMER) 2
         else w16 K (obj + OFF_MODE_TIMER) 1)
     }
      else if 2 \<le> subtype \<and> subtype \<le> 5 then w16 K (obj + OFF_MODE_TIMER) 1
       else State_Monad.return ())
   }"

section \<open>\<open>game/ui/font.cpp\<close>\<close>

definition fnt_open_params_set_count :: "'c core_ops \<Rightarrow> u32 \<Rightarrow> u32
    \<Rightarrow> ('c, unit) state" where
  "fnt_open_params_set_count K base1 v = w32 K (base1 + 0) v"

definition fnt_open_params_set_flags :: "'c core_ops \<Rightarrow> u32 \<Rightarrow> u32
    \<Rightarrow> ('c, unit) state" where
  "fnt_open_params_set_flags K base1 v = w32 K (base1 + 4) v"

definition fnt_open_params_set_size :: "'c core_ops \<Rightarrow> u32 \<Rightarrow> u32
    \<Rightarrow> ('c, unit) state" where
  "fnt_open_params_set_size K base1 v = do {
     w16 K (base1 + 8) v;
     w16 K (base1 + 10) v
   }"

definition font_bank_select :: "'c core_ops \<Rightarrow> u32 \<Rightarrow> ('c, unit) state"
    where
  "font_bank_select K bank = do {
     let v = (bank - 1) AND 0xFF;
     (if v < 24 then do { w8 K kFontBankAddr bank; setr K 2 (as_s8 (as_u8 bank)) }
      else setr K 2 (-1))
   }"

definition font_bank2_store :: "'c core_ops \<Rightarrow> u32 \<Rightarrow> ('c, unit) state"
    where
  "font_bank2_store K bank = w8 K kFontBank2Addr bank"

definition font_glyph_class_fill :: "'c core_ops \<Rightarrow> u32 \<Rightarrow> ('c, unit) state"
    where
  "font_glyph_class_fill K cls = do {
     let t1 = 24 - cls;
     let t0 = 16 - cls;
     let a3 = 12 - cls;
     let a4 = 8 - cls;
     for_each (upto_u32 (nat (sint kGlyphClassCount))) (\<lambda>i. do {
       let val = (if t1 \<le>s i then (4 :: u32) else (if t0 \<le>s i then (1 :: u32) else (if a3
           \<le>s i then (3 :: u32) else (if a4 \<le>s i then (2 :: u32) else (0 :: u32)))));
       w8 K (kGlyphClassTableBase + i * kGlyphClassStride + kGlyphClassFieldOffset) val
     });
     setr K 2 kGlyphClassCount
   }"

definition font_init :: "'c core_ops \<Rightarrow> ('c, unit) state" where
  "font_init K = with_frame K 48 [(31, 40)] (do {
     fsp \<leftarrow> reg K 29;
     _ \<leftarrow> dispatch_jal K 0x8008E040 0x80075140 [];
     font_bank_select K 24;
     font_bank2_store K 0;
     _ \<leftarrow> dispatch_jal K 0x80098F90 0x80075160 [0, 0x00FFFFFF];
     _ \<leftarrow> dispatch_jal K 0x80091D70 0x80075168 [1];
     _ \<leftarrow> dispatch_jal K 0x80091B50 0x8007517C [0x800BE3D8, 14, 1];
     _ \<leftarrow> dispatch_jal K 0x80090700 0x80075188 [127, 127];
     _ \<leftarrow> dispatch_jal K 0x80090980 0x80075190 [];
     w32 K kTextCursorFlagAddr 0;
     w16 K kTextUnusedFlagAddr 0xFFFF;
     font_glyph_class_fill K 2;
     w32 K kLineTableHeadAddr 0;
     let addr = kLineTableRowsAddr;
     addr \<leftarrow> fold_each (upto_u32 (unat kLineTableRowCount)) addr (\<lambda>n addr. do {
       w16 K addr 0;
       State_Monad.return (addr - kLineTableRowStride)
     });
     fnt_open_params_set_count K (fsp + 16) 7;
     fnt_open_params_set_flags K (fsp + 16) 258;
     fnt_open_params_set_size K (fsp + 16) 16384;
     _ \<leftarrow> dispatch_jal K 0x80098CE0 0x800751F8 [1];
     _ \<leftarrow> dispatch_jal K 0x80098330 0x80075200 [fsp + 16];
     _ \<leftarrow> dispatch_jal K 0x80098150 0x80075208 [1];
     _ \<leftarrow> dispatch_jal K 0x80098D30 0x80075210 [fsp + 16];
     _ \<leftarrow> dispatch_jal K 0x80098DB0 0x80075220 [1, 0x00FFFFFF];
     w8 K kTextStateByteA 0;
     w8 K kTextStateByteB 0
   })"

definition font_measure_line_width :: "'c core_ops \<Rightarrow> u32 \<Rightarrow> ('c, u32)
    state" where
  "font_measure_line_width K strAddr = do {
     let prefix = (0 :: u32);
     let suffix = (0 :: u32);
     let sawNewline = False;
     let p = strAddr;
     ch \<leftarrow> r8 K p;
     (prefix, suffix, sawNewline, p, ch) \<leftarrow> loop (\<lambda>(prefix, suffix, sawNewline,
         p, ch). (if ch \<noteq> 0 then do {
       let sawNewline = (if ch = 92 then True else sawNewline);
       let p = p + 1;
       let (prefix, suffix) = (if sawNewline then (prefix, suffix + 1) else (prefix + 1, suffix));
       ch \<leftarrow> r8 K p;
       State_Monad.return (Inr (prefix, suffix, sawNewline, p, ch))
     }
      else State_Monad.return (Inl (prefix, suffix, sawNewline, p, ch)))) (prefix, suffix,
          sawNewline, p, ch);
     setr K 4 p;
     (if sawNewline then do {
       let prefix = (if prefix <s suffix then suffix else prefix);
       State_Monad.return (- prefix)
     }
      else State_Monad.return prefix)
   }"

definition font_draw_text :: "'c core_ops \<Rightarrow> u32 \<Rightarrow> u32 \<Rightarrow> u32
    \<Rightarrow> u32 \<Rightarrow> u32 \<Rightarrow> ('c, unit) state" where
  "font_draw_text K x y w str color = with_frame K 32 [(31, 24)] (do {
     let vertex = (as_s16 (as_u16 x)) OR (shl y 16);
     let kA1Const = (0x00100008 :: u32);
     let size1 = as_s16 (as_u16 w);
     w16 K kScrGlyphAdvance 32;
     r29_1 \<leftarrow> reg K 29;
     w32 K (r29_1 + 16) color;
     _ \<leftarrow> dispatch_jal K 0x80078CA8 0x800793B4 [vertex, kA1Const, size1, str];
     State_Monad.return ()
   })"

definition font_draw_text_small :: "'c core_ops \<Rightarrow> u32 \<Rightarrow> u32 \<Rightarrow>
    u32 \<Rightarrow> u32 \<Rightarrow> u32 \<Rightarrow> ('c, unit) state" where
  "font_draw_text_small K x y w str color = with_frame K 32 [(31, 24)] (do {
     let vertex = (as_s16 (as_u16 x)) OR (shl y 16);
     let kA1Const = (0x00080008 :: u32);
     let size1 = as_s16 (as_u16 w);
     setr K 4 vertex;
     setr K 5 kA1Const;
     setr K 6 size1;
     setr K 7 str;
     w16 K kScrGlyphAdvance (-32);
     r29_1 \<leftarrow> reg K 29;
     w32 K (r29_1 + 16) color;
     _ \<leftarrow> dispatch_jal K 0x80078CA8 0x80079364 [];
     State_Monad.return ()
   })"

definition font_glyph_emit_l453 :: "'c core_ops \<Rightarrow> 'a \<Rightarrow> ('c, 'b + string
    \<times> 'a) state" where
  "font_glyph_emit_l453 K sp0 = do {
     r3_69 \<leftarrow> reg K 3;
     r2_70 \<leftarrow> reg K 2;
     let t0 = (of_bool (r3_69 \<noteq> r2_70) :: u32);
     r0_71 \<leftarrow> reg K 0;
     setr K 2 (r0_71 + 3);
     (if t0 \<noteq> 0 then State_Monad.return (Inr (''L_80078DF4'', sp0))
      else do {
        r17_72 \<leftarrow> reg K 17;
        setr K 6 (sar 16 r17_72);
        setr K 7 (shl 32769 16);
        r18_73 \<leftarrow> reg K 18;
        v74 \<leftarrow> r16 K (r18_73 + 8);
        setr K 4 v74;
        r7_75 \<leftarrow> reg K 7;
        setr K 7 (r7_75 + 28076);
        r29_76 \<leftarrow> reg K 29;
        r19_77 \<leftarrow> reg K 19;
        w32 K (r29_76 + 16) r19_77;
        v78 \<leftarrow> r16 K (r18_73 + 10);
        setr K 5 v78;
        r4_79 \<leftarrow> reg K 4;
        setr K 4 (shl r4_79 16);
        r4_80 \<leftarrow> reg K 4;
        setr K 4 (sar 16 r4_80);
        r5_81 \<leftarrow> reg K 5;
        setr K 5 (shl r5_81 16);
        setr K 31 0x80078DE8;
        r5_82 \<leftarrow> reg K 5;
        setr K 5 (sar 16 r5_82);
        call_guest K 0x80078988;
        r18_83 \<leftarrow> reg K 18;
        v84 \<leftarrow> r16 K (r18_83 + 8);
        setr K 2 v84;
        r16_85 \<leftarrow> reg K 16;
        setr K 16 (r16_85 + 1);
        State_Monad.return (Inr (''L_80078F70'', sp0))
      })
   }"

definition font_glyph_emit_l476 :: "'c core_ops \<Rightarrow> 'a \<Rightarrow> ('c, 'b + string
    \<times> 'a) state" where
  "font_glyph_emit_l476 K sp0 = do {
     r3_86 \<leftarrow> reg K 3;
     r2_87 \<leftarrow> reg K 2;
     let t0 = (of_bool (r3_86 \<noteq> r2_87) :: u32);
     r0_88 \<leftarrow> reg K 0;
     setr K 2 (r0_88 + 4);
     (if t0 \<noteq> 0 then State_Monad.return (Inr (''L_80078E34'', sp0))
      else do {
        r17_89 \<leftarrow> reg K 17;
        setr K 6 (sar 16 r17_89);
        setr K 7 (shl 32769 16);
        r18_90 \<leftarrow> reg K 18;
        v91 \<leftarrow> r16 K (r18_90 + 8);
        setr K 4 v91;
        r7_92 \<leftarrow> reg K 7;
        setr K 7 (r7_92 + 28068);
        r29_93 \<leftarrow> reg K 29;
        r19_94 \<leftarrow> reg K 19;
        w32 K (r29_93 + 16) r19_94;
        v95 \<leftarrow> r16 K (r18_90 + 10);
        setr K 5 v95;
        r4_96 \<leftarrow> reg K 4;
        setr K 4 (shl r4_96 16);
        r4_97 \<leftarrow> reg K 4;
        setr K 4 (sar 16 r4_97);
        r5_98 \<leftarrow> reg K 5;
        setr K 5 (shl r5_98 16);
        setr K 31 0x80078E28;
        r5_99 \<leftarrow> reg K 5;
        setr K 5 (sar 16 r5_99);
        call_guest K 0x80078988;
        r18_100 \<leftarrow> reg K 18;
        v101 \<leftarrow> r16 K (r18_100 + 8);
        setr K 2 v101;
        r16_102 \<leftarrow> reg K 16;
        setr K 16 (r16_102 + 1);
        State_Monad.return (Inr (''L_80078F70'', sp0))
      })
   }"

definition font_glyph_emit_l499 :: "'c core_ops \<Rightarrow> 'a \<Rightarrow> ('c, 'b + string
    \<times> 'a) state" where
  "font_glyph_emit_l499 K sp0 = do {
     r3_103 \<leftarrow> reg K 3;
     r2_104 \<leftarrow> reg K 2;
     let t0 = (of_bool (r3_103 \<noteq> r2_104) :: u32);
     r17_105 \<leftarrow> reg K 17;
     setr K 6 (sar 16 r17_105);
     (if t0 \<noteq> 0 then State_Monad.return (Inr (''L_80078E70'', sp0))
      else do {
        setr K 7 (shl 32769 16);
        r18_106 \<leftarrow> reg K 18;
        v107 \<leftarrow> r16 K (r18_106 + 8);
        setr K 4 v107;
        r7_108 \<leftarrow> reg K 7;
        setr K 7 (r7_108 + 28064);
        r29_109 \<leftarrow> reg K 29;
        r19_110 \<leftarrow> reg K 19;
        w32 K (r29_109 + 16) r19_110;
        v111 \<leftarrow> r16 K (r18_106 + 10);
        setr K 5 v111;
        r4_112 \<leftarrow> reg K 4;
        setr K 4 (shl r4_112 16);
        r4_113 \<leftarrow> reg K 4;
        setr K 4 (sar 16 r4_113);
        r5_114 \<leftarrow> reg K 5;
        setr K 5 (shl r5_114 16);
        setr K 31 0x80078E64;
        r5_115 \<leftarrow> reg K 5;
        setr K 5 (sar 16 r5_115);
        call_guest K 0x80078988;
        r18_116 \<leftarrow> reg K 18;
        v117 \<leftarrow> r16 K (r18_116 + 8);
        setr K 2 v117;
        r16_118 \<leftarrow> reg K 16;
        setr K 16 (r16_118 + 1);
        State_Monad.return (Inr (''L_80078F70'', sp0))
      })
   }"

definition font_glyph_emit_l523 :: "'c core_ops \<Rightarrow> 'a \<Rightarrow> ('c, 'b + string
    \<times> 'a) state" where
  "font_glyph_emit_l523 K sp0 = do {
     r16_119 \<leftarrow> reg K 16;
     v120 \<leftarrow> r8 K (r16_119 + 0);
     setr K 3 v120;
     r20_121 \<leftarrow> reg K 20;
     v122 \<leftarrow> r16 K (r20_121 + 384);
     setr K 2 (as_s16 v122);
     r3_123 \<leftarrow> reg K 3;
     r2_124 \<leftarrow> reg K 2;
     setr K 4 (r3_123 + r2_124);
     r4_125 \<leftarrow> reg K 4;
     let t0 = (of_bool (0 \<le>s r4_125) :: u32);
     r0_126 \<leftarrow> reg K 0;
     setr K 3 (r4_125 + r0_126);
     (if t0 \<noteq> 0 then State_Monad.return (Inr (''L_80078E8C'', sp0))
      else do { setr K 3 (r4_125 + 31); State_Monad.return (Inr (''L_80078E8C'', sp0)) })
   }"

definition font_glyph_emit_l535 :: "'c core_ops \<Rightarrow> 'a \<Rightarrow> ('c, 'b + string
    \<times> 'a) state" where
  "font_glyph_emit_l535 K sp0 = do {
     r3_127 \<leftarrow> reg K 3;
     setr K 3 (sar 5 r3_127);
     r3_128 \<leftarrow> reg K 3;
     setr K 3 (shl r3_128 5);
     r18_129 \<leftarrow> reg K 18;
     v130 \<leftarrow> r16 K (r18_129 + 16);
     setr K 2 v130;
     r4_131 \<leftarrow> reg K 4;
     r3_132 \<leftarrow> reg K 3;
     setr K 3 (r4_131 - r3_132);
     r2_133 \<leftarrow> reg K 2;
     setr K 2 (shl r2_133 16);
     r2_134 \<leftarrow> reg K 2;
     setr K 2 (sar 16 r2_134);
     r3_135 \<leftarrow> reg K 3;
     r2_136 \<leftarrow> reg K 2;
     let p0 = (scast r3_135 :: 64 word) * (scast r2_136 :: 64 word);
     setr K 33 (ucast p0 :: u32);
     setr K 32 (ucast (drop_bit 32 p0) :: u32);
     r33_137 \<leftarrow> reg K 33;
     setr K 8 r33_137;
     r8_138 \<leftarrow> reg K 8;
     w8 K (r18_129 + 12) r8_138;
     r16_139 \<leftarrow> reg K 16;
     v140 \<leftarrow> r8 K (r16_139 + 0);
     setr K 3 v140;
     r20_141 \<leftarrow> reg K 20;
     v142 \<leftarrow> r16 K (r20_141 + 384);
     setr K 2 (as_s16 v142);
     r3_143 \<leftarrow> reg K 3;
     r2_144 \<leftarrow> reg K 2;
     setr K 3 (r3_143 + r2_144);
     r3_145 \<leftarrow> reg K 3;
     let t0 = (of_bool (0 \<le>s r3_145) :: u32);
     (if t0 \<noteq> 0 then State_Monad.return (Inr (''L_80078ECC'', sp0))
      else do { setr K 3 (r3_145 + 31); State_Monad.return (Inr (''L_80078ECC'', sp0)) })
   }"

definition font_glyph_emit_l559 :: "'c core_ops \<Rightarrow> 'a \<Rightarrow> ('c, 'b + string
    \<times> 'a) state" where
  "font_glyph_emit_l559 K sp0 = do {
     r18_146 \<leftarrow> reg K 18;
     v147 \<leftarrow> r16 K (r18_146 + 18);
     setr K 2 v147;
     r3_148 \<leftarrow> reg K 3;
     setr K 3 (sar 5 r3_148);
     r2_149 \<leftarrow> reg K 2;
     setr K 2 (shl r2_149 16);
     r2_150 \<leftarrow> reg K 2;
     setr K 2 (sar 16 r2_150);
     r3_151 \<leftarrow> reg K 3;
     r2_152 \<leftarrow> reg K 2;
     let p0 = (scast r3_151 :: 64 word) * (scast r2_152 :: 64 word);
     setr K 33 (ucast p0 :: u32);
     setr K 32 (ucast (drop_bit 32 p0) :: u32);
     v153 \<leftarrow> r16 K (r18_146 + 18);
     setr K 3 v153;
     r0_154 \<leftarrow> reg K 0;
     setr K 2 (r0_154 + 16);
     r3_155 \<leftarrow> reg K 3;
     setr K 3 (shl r3_155 16);
     r3_156 \<leftarrow> reg K 3;
     setr K 3 (sar 16 r3_156);
     r33_157 \<leftarrow> reg K 33;
     setr K 4 r33_157;
     r3_158 \<leftarrow> reg K 3;
     r2_159 \<leftarrow> reg K 2;
     let t0 = (of_bool (r3_158 \<noteq> r2_159) :: u32);
     r4_160 \<leftarrow> reg K 4;
     w8 K (r18_146 + 13) r4_160;
     (if t0 \<noteq> 0 then State_Monad.return (Inr (''L_80078F04'', sp0))
      else do {
        setr K 2 (r4_160 + 8);
        r2_161 \<leftarrow> reg K 2;
        w8 K (r18_146 + 13) r2_161;
        State_Monad.return (Inr (''L_80078F04'', sp0))
      })
   }"

definition font_glyph_emit_l582 :: "'c core_ops \<Rightarrow> 'a \<Rightarrow> ('c, 'b + string
    \<times> 'a) state" where
  "font_glyph_emit_l582 K sp0 = do {
     glyphOt_base \<leftarrow> r32 K 0x800ED8C8;
     r18_163 \<leftarrow> reg K 18;
     v164 \<leftarrow> r32 K (r18_163 + 4);
     v165 \<leftarrow> r32 K (r18_163 + 8);
     v166 \<leftarrow> r32 K (r18_163 + 12);
     v167 \<leftarrow> r32 K (r18_163 + 16);
     let command = ([v164, v165, v166, v167] :: u32 list);
     setr K 6 kCursor;
     v168 \<leftarrow> packet_pool_cursor K;
     setr K 4 v168;
     r19_169 \<leftarrow> reg K 19;
     v170 \<leftarrow> ordering_table_slot K glyphOt_base r19_169;
     setr K 5 v170;
     setr K 3 (shl 4 24);
     r4_171 \<leftarrow> reg K 4;
     r19_172 \<leftarrow> reg K 19;
     v173 \<leftarrow> ordering_table_link K glyphOt_base r4_171 4 r19_172;
     setr K 2 v173;
     r4_174 \<leftarrow> reg K 4;
     setr K 4 (r4_174 + 4);
     setr K 2 (command ! 0);
     r16_175 \<leftarrow> reg K 16;
     setr K 16 (r16_175 + 1);
     r4_176 \<leftarrow> reg K 4;
     r2_177 \<leftarrow> reg K 2;
     w32 K (r4_176 + 0) r2_177;
     setr K 2 (command ! 1);
     setr K 4 (r4_176 + 4);
     r4_178 \<leftarrow> reg K 4;
     r2_179 \<leftarrow> reg K 2;
     w32 K (r4_178 + 0) r2_179;
     setr K 2 (command ! 2);
     setr K 4 (r4_178 + 4);
     r4_180 \<leftarrow> reg K 4;
     r2_181 \<leftarrow> reg K 2;
     w32 K (r4_180 + 0) r2_181;
     setr K 2 (command ! 3);
     setr K 4 (r4_180 + 4);
     r4_182 \<leftarrow> reg K 4;
     r2_183 \<leftarrow> reg K 2;
     w32 K (r4_182 + 0) r2_183;
     r18_184 \<leftarrow> reg K 18;
     v185 \<leftarrow> r16 K (r18_184 + 8);
     setr K 2 v185;
     setr K 4 (r4_182 + 4);
     r4_186 \<leftarrow> reg K 4;
     packet_pool_set_cursor K r4_186;
     State_Monad.return (Inr (''L_80078F70'', sp0))
   }"

definition font_glyph_emit_l619 :: "'c core_ops \<Rightarrow> 'a \<Rightarrow> ('c, 'b + string
    \<times> 'a) state" where
  "font_glyph_emit_l619 K sp0 = do {
     r16_190 \<leftarrow> reg K 16;
     v191 \<leftarrow> r8 K (r16_190 + 0);
     setr K 2 v191;
     r2_192 \<leftarrow> reg K 2;
     r0_193 \<leftarrow> reg K 0;
     let t0 = (of_bool (r2_192 \<noteq> r0_193) :: u32);
     setr K 3 (r2_192 AND 255);
     (if t0 \<noteq> 0 then State_Monad.return (Inr (''L_80078D34'', sp0))
      else State_Monad.return (Inr (''L_80078F88'', sp0)))
   }"

definition font_glyph_emit_l629 :: "'c core_ops \<Rightarrow> u32 \<Rightarrow> ('c, unit + 'a)
    state" where
  "font_glyph_emit_l629 K sp0 = do {
     r0_194 \<leftarrow> reg K 0;
     setr K 5 (r0_194 + r0_194);
     r5_195 \<leftarrow> reg K 5;
     setr K 6 (r5_195 + r0_194);
     setr K 17 kCursor;
     v196 \<leftarrow> packet_pool_cursor K;
     setr K 16 v196;
     r0_197 \<leftarrow> reg K 0;
     setr K 7 (r0_197 + 31);
     r29_198 \<leftarrow> reg K 29;
     w32 K (r29_198 + 16) r0_197;
     setr K 31 0x80078FA8;
     r16_199 \<leftarrow> reg K 16;
     setr K 4 (r16_199 + r0_197);
     call_guest K 0x80083DE0;
     tailOt_base \<leftarrow> r32 K 0x800ED8C8;
     r19_201 \<leftarrow> reg K 19;
     v202 \<leftarrow> ordering_table_slot K tailOt_base r19_201;
     setr K 4 v202;
     setr K 3 (shl 2 24);
     r16_203 \<leftarrow> reg K 16;
     r19_204 \<leftarrow> reg K 19;
     v205 \<leftarrow> ordering_table_link K tailOt_base r16_203 2 r19_204;
     setr K 2 v205;
     v206 \<leftarrow> packet_pool_cursor K;
     setr K 3 (v206 + 12);
     r3_207 \<leftarrow> reg K 3;
     packet_pool_set_cursor K r3_207;
     r21_208 \<leftarrow> reg K 21;
     setr K 3 (r21_208 AND 65535);
     r18_209 \<leftarrow> reg K 18;
     v210 \<leftarrow> r16 K (r18_209 + 8);
     setr K 2 v210;
     r29_211 \<leftarrow> reg K 29;
     v212 \<leftarrow> r32 K (r29_211 + 48);
     setr K 31 v212;
     v213 \<leftarrow> r32 K (r29_211 + 44);
     setr K 21 v213;
     v214 \<leftarrow> r32 K (r29_211 + 40);
     setr K 20 v214;
     v215 \<leftarrow> r32 K (r29_211 + 36);
     setr K 19 v215;
     v216 \<leftarrow> r32 K (r29_211 + 32);
     setr K 18 v216;
     v217 \<leftarrow> r32 K (r29_211 + 28);
     setr K 17 v217;
     v218 \<leftarrow> r32 K (r29_211 + 24);
     setr K 16 v218;
     r2_219 \<leftarrow> reg K 2;
     setr K 2 (shl r2_219 16);
     r2_220 \<leftarrow> reg K 2;
     setr K 2 (sar 16 r2_220);
     r2_221 \<leftarrow> reg K 2;
     r3_222 \<leftarrow> reg K 3;
     setr K 2 (r2_221 - r3_222);
     setr K 29 sp0;
     State_Monad.return (Inl ())
   }"

definition font_glyph_emit :: "'c core_ops \<Rightarrow> ('c, unit) state" where
  "font_glyph_emit K = loop (\<lambda>(pc1, sp0). (if pc1 = ''start'' then do {
     sp0 \<leftarrow> reg K 29;
     setr K 29 (sp0 - 56);
     r29_2 \<leftarrow> reg K 29;
     r21_3 \<leftarrow> reg K 21;
     w32 K (r29_2 + 44) r21_3;
     r4_4 \<leftarrow> reg K 4;
     r0_5 \<leftarrow> reg K 0;
     setr K 21 (r4_4 + r0_5);
     r16_6 \<leftarrow> reg K 16;
     w32 K (r29_2 + 24) r16_6;
     r7_7 \<leftarrow> reg K 7;
     setr K 16 (r7_7 + r0_5);
     r18_8 \<leftarrow> reg K 18;
     w32 K (r29_2 + 32) r18_8;
     setr K 18 (shl 8064 16);
     r6_9 \<leftarrow> reg K 6;
     setr K 3 (r6_9 + r0_5);
     setr K 2 (shl r6_9 16);
     r2_10 \<leftarrow> reg K 2;
     setr K 2 (sar 16 r2_10);
     r19_11 \<leftarrow> reg K 19;
     w32 K (r29_2 + 36) r19_11;
     v12 \<leftarrow> r32 K (r29_2 + 72);
     setr K 19 v12;
     r2_13 \<leftarrow> reg K 2;
     setr K 2 (of_bool (r2_13 <s 16) :: u32);
     r31_14 \<leftarrow> reg K 31;
     w32 K (r29_2 + 48) r31_14;
     r20_15 \<leftarrow> reg K 20;
     w32 K (r29_2 + 40) r20_15;
     r17_16 \<leftarrow> reg K 17;
     w32 K (r29_2 + 28) r17_16;
     r18_17 \<leftarrow> reg K 18;
     r21_18 \<leftarrow> reg K 21;
     w32 K (r18_17 + 8) r21_18;
     r2_19 \<leftarrow> reg K 2;
     let t0 = (of_bool (r2_19 \<noteq> r0_5) :: u32);
     r5_20 \<leftarrow> reg K 5;
     w32 K (r18_17 + 16) r5_20;
     (if t0 \<noteq> 0 then State_Monad.return (Inr (''L_80078D04'', sp0))
      else do {
        setr K 2 (r6_9 + 480);
        r2_21 \<leftarrow> reg K 2;
        setr K 2 (shl r2_21 6);
        r2_22 \<leftarrow> reg K 2;
        setr K 2 (r2_22 OR 62);
        State_Monad.return (Inr (''L_80078D10'', sp0))
      })
   }
    else if pc1 = ''L_80078D04'' then do {
      r6_23 \<leftarrow> reg K 6;
      setr K 2 (r6_23 + 496);
      r2_24 \<leftarrow> reg K 2;
      setr K 2 (shl r2_24 6);
      r2_25 \<leftarrow> reg K 2;
      setr K 2 (r2_25 OR 63);
      State_Monad.return (Inr (''L_80078D10'', sp0))
    }
     else if pc1 = ''L_80078D10'' then do {
       r18_26 \<leftarrow> reg K 18;
       r2_27 \<leftarrow> reg K 2;
       w16 K (r18_26 + 14) r2_27;
       r0_28 \<leftarrow> reg K 0;
       setr K 2 (r0_28 + 101);
       r2_29 \<leftarrow> reg K 2;
       w8 K (r18_26 + 7) r2_29;
       r16_30 \<leftarrow> reg K 16;
       v31 \<leftarrow> r8 K (r16_30 + 0);
       setr K 2 v31;
       r2_32 \<leftarrow> reg K 2;
       let t0 = (of_bool (r2_32 = r0_28) :: u32);
       r3_33 \<leftarrow> reg K 3;
       setr K 17 (shl r3_33 16);
       (if t0 \<noteq> 0 then State_Monad.return (Inr (''L_80078F88'', sp0))
        else do {
          setr K 20 0x1F800000;
          setr K 3 (r2_32 AND 255);
          State_Monad.return (Inr (''L_80078D34'', sp0))
        })
     }
      else if pc1 = ''L_80078D34'' then do {
        r0_34 \<leftarrow> reg K 0;
        setr K 2 (r0_34 + 32);
        r3_35 \<leftarrow> reg K 3;
        r2_36 \<leftarrow> reg K 2;
        let t0 = (of_bool (r3_35 \<noteq> r2_36) :: u32);
        setr K 2 (r0_34 + 10);
        (if t0 \<noteq> 0 then State_Monad.return (Inr (''L_80078D4C'', sp0))
         else do {
           r18_37 \<leftarrow> reg K 18;
           v38 \<leftarrow> r16 K (r18_37 + 8);
           setr K 2 v38;
           r16_39 \<leftarrow> reg K 16;
           setr K 16 (r16_39 + 1);
           State_Monad.return (Inr (''L_80078F70'', sp0))
         })
      }
       else if pc1 = ''L_80078D4C'' then do {
         r3_40 \<leftarrow> reg K 3;
         r2_41 \<leftarrow> reg K 2;
         let t0 = (of_bool (r3_40 \<noteq> r2_41) :: u32);
         r0_42 \<leftarrow> reg K 0;
         setr K 2 (r0_42 + 1);
         (if t0 \<noteq> 0 then State_Monad.return (Inr (''L_80078D74'', sp0))
          else do {
            r16_43 \<leftarrow> reg K 16;
            setr K 16 (r16_43 + 1);
            r18_44 \<leftarrow> reg K 18;
            v45 \<leftarrow> r16 K (r18_44 + 10);
            setr K 2 v45;
            v46 \<leftarrow> r16 K (r18_44 + 18);
            setr K 4 v46;
            r21_47 \<leftarrow> reg K 21;
            setr K 3 (r21_47 AND 4095);
            r3_48 \<leftarrow> reg K 3;
            w16 K (r18_44 + 8) r3_48;
            r2_49 \<leftarrow> reg K 2;
            r4_50 \<leftarrow> reg K 4;
            setr K 2 (r2_49 + r4_50);
            r2_51 \<leftarrow> reg K 2;
            w16 K (r18_44 + 10) r2_51;
            State_Monad.return (Inr (''L_80078F78'', sp0))
          })
       }
        else if pc1 = ''L_80078D74'' then do {
          r3_52 \<leftarrow> reg K 3;
          r2_53 \<leftarrow> reg K 2;
          let t0 = (of_bool (r3_52 \<noteq> r2_53) :: u32);
          r0_54 \<leftarrow> reg K 0;
          setr K 2 (r0_54 + 2);
          (if t0 \<noteq> 0 then State_Monad.return (Inr (''L_80078DB4'', sp0))
           else do {
             r17_55 \<leftarrow> reg K 17;
             setr K 6 (sar 16 r17_55);
             setr K 7 (shl 32769 16);
             r18_56 \<leftarrow> reg K 18;
             v57 \<leftarrow> r16 K (r18_56 + 8);
             setr K 4 v57;
             r7_58 \<leftarrow> reg K 7;
             setr K 7 (r7_58 + 28072);
             r29_59 \<leftarrow> reg K 29;
             r19_60 \<leftarrow> reg K 19;
             w32 K (r29_59 + 16) r19_60;
             v61 \<leftarrow> r16 K (r18_56 + 10);
             setr K 5 v61;
             r4_62 \<leftarrow> reg K 4;
             setr K 4 (shl r4_62 16);
             r4_63 \<leftarrow> reg K 4;
             setr K 4 (sar 16 r4_63);
             r5_64 \<leftarrow> reg K 5;
             setr K 5 (shl r5_64 16);
             setr K 31 0x80078DA8;
             r5_65 \<leftarrow> reg K 5;
             setr K 5 (sar 16 r5_65);
             call_guest K 0x80078988;
             r18_66 \<leftarrow> reg K 18;
             v67 \<leftarrow> r16 K (r18_66 + 8);
             setr K 2 v67;
             r16_68 \<leftarrow> reg K 16;
             setr K 16 (r16_68 + 1);
             State_Monad.return (Inr (''L_80078F70'', sp0))
           })
        }
         else if pc1 = ''L_80078DB4'' then font_glyph_emit_l453 K sp0
          else if pc1 = ''L_80078DF4'' then font_glyph_emit_l476 K sp0
           else if pc1 = ''L_80078E34'' then font_glyph_emit_l499 K sp0
            else if pc1 = ''L_80078E70'' then font_glyph_emit_l523 K sp0
             else if pc1 = ''L_80078E8C'' then font_glyph_emit_l535 K sp0
              else if pc1 = ''L_80078ECC'' then font_glyph_emit_l559 K sp0
               else if pc1 = ''L_80078F04'' then font_glyph_emit_l582 K sp0
                else if pc1 = ''L_80078F70'' then do {
                  r2_187 \<leftarrow> reg K 2;
                  setr K 2 (r2_187 + 8);
                  r18_188 \<leftarrow> reg K 18;
                  r2_189 \<leftarrow> reg K 2;
                  w16 K (r18_188 + 8) r2_189;
                  State_Monad.return (Inr (''L_80078F78'', sp0))
                }
                 else if pc1 = ''L_80078F78'' then font_glyph_emit_l619 K sp0
                  else font_glyph_emit_l629 K sp0)) (''start'', (0 :: u32))"

definition ov_draw_text_small :: "'c core_ops \<Rightarrow> ('c, unit) state" where
  "ov_draw_text_small K = do {
     x \<leftarrow> reg K 4;
     y \<leftarrow> reg K 5;
     w \<leftarrow> reg K 6;
     str \<leftarrow> reg K 7;
     r29_5 \<leftarrow> reg K 29;
     color \<leftarrow> r32 K (r29_5 + 16);
     font_draw_text_small K x y w str color
   }"

definition icon_scratch_x :: "'c core_ops \<Rightarrow> ('c, u32) state" where
  "icon_scratch_x K = do {
     v1 \<leftarrow> r16 K (kIconScratch + 8);
     State_Monad.return (as_s16 v1)
   }"

definition icon_scratch_y :: "'c core_ops \<Rightarrow> ('c, u32) state" where
  "icon_scratch_y K = do {
     v1 \<leftarrow> r16 K (kIconScratch + 10);
     State_Monad.return (as_s16 v1)
   }"

definition icon_scratch_clut :: "'c core_ops \<Rightarrow> ('c, u32) state" where
  "icon_scratch_clut K = r16 K (kIconScratch + 14)"

definition icon_scratch_set_command :: "'c core_ops \<Rightarrow> u32 \<Rightarrow> ('c, unit)
    state" where
  "icon_scratch_set_command K command = w8 K (kIconScratch + 7) command"

definition icon_scratch_set_position :: "'c core_ops \<Rightarrow> u32 \<Rightarrow> u32
    \<Rightarrow> ('c, unit) state" where
  "icon_scratch_set_position K x y = do {
     w16 K (kIconScratch + 8) x;
     w16 K (kIconScratch + 10) y
   }"

definition icon_scratch_set_x :: "'c core_ops \<Rightarrow> u32 \<Rightarrow> ('c, unit) state"
    where
  "icon_scratch_set_x K x = w16 K (kIconScratch + 8) x"

definition icon_scratch_set_y :: "'c core_ops \<Rightarrow> u32 \<Rightarrow> ('c, unit) state"
    where
  "icon_scratch_set_y K y = w16 K (kIconScratch + 10) y"

definition icon_scratch_set_u :: "'c core_ops \<Rightarrow> u32 \<Rightarrow> ('c, unit) state"
    where
  "icon_scratch_set_u K u = w8 K (kIconScratch + 12) u"

definition icon_scratch_set_v :: "'c core_ops \<Rightarrow> u32 \<Rightarrow> ('c, unit) state"
    where
  "icon_scratch_set_v K v = w8 K (kIconScratch + 13) v"

definition icon_scratch_set_clut :: "'c core_ops \<Rightarrow> u32 \<Rightarrow> ('c, unit) state"
    where
  "icon_scratch_set_clut K value1 = w16 K (kIconScratch + 14) value1"

definition emit_guest_icon_sprite :: "'c core_ops \<Rightarrow> u32 \<Rightarrow> ('c, unit)
    state" where
  "emit_guest_icon_sprite K bucket = do {
     packet \<leftarrow> packet_pool_cursor K;
     v2 \<leftarrow> r32 K 0x800ED8C8;
     _ \<leftarrow> ordering_table_link K v2 packet kSpritePacketWords bucket;
     v3 \<leftarrow> r32 K (kIconScratch + 4);
     w32 K (packet + 4) v3;
     v4 \<leftarrow> r32 K (kIconScratch + 8);
     w32 K (packet + 8) v4;
     v5 \<leftarrow> r32 K (kIconScratch + 12);
     w32 K (packet + 12) v5;
     packet_pool_set_cursor K (packet + 16)
   }"

definition font_icon_glyph_emit :: "'c core_ops \<Rightarrow> ('c, unit) state" where
  "font_icon_glyph_emit K = do {
     rawOriginX \<leftarrow> reg K 4;
     let originX = as_s16 (as_u16 rawOriginX);
     r5_2 \<leftarrow> reg K 5;
     let originY = as_s16 (as_u16 r5_2);
     sizeClass \<leftarrow> reg K 6;
     string \<leftarrow> reg K 7;
     r29_5 \<leftarrow> reg K 29;
     bucket \<leftarrow> r32 K (r29_5 + 16);
     with_frame K 64 [(17, 28), (18, 32), (23, 52), (22, 48), (31, 56), (21, 44), (20, 40), (19,
         36), (16, 24)] (do {
       setr K 17 string;
       setr K 18 kIconScratch;
       setr K 23 bucket;
       setr K 22 rawOriginX;
       setr K 20 kCursorPage;
       setr K 21 kBasePointerPage;
       setr K 19 (bucket * 4);
       let tokensSeen = (0 :: u32);
       let glyphsEmitted = (0 :: u32);
       let tokensMissed = (0 :: u32);
       icon_scratch_set_command K 0x75;
       icon_scratch_set_position K originX originY;
       let clutRow = (if sizeClass <s 16 then sizeClass + 496 else sizeClass + 480);
       let clut = as_u16 ((shl clutRow 6) OR (if sizeClass <s 16 then 63 else 62));
       icon_scratch_set_clut K clut;
       (tokensSeen, glyphsEmitted, tokensMissed) \<leftarrow> loop (\<lambda>(tokensSeen,
           glyphsEmitted, tokensMissed). do {
         r17_7 \<leftarrow> reg K 17;
         v8 \<leftarrow> r8 K r17_7;
         (if v8 \<noteq> 0 then do {
           v9 \<leftarrow> r8 K r17_7;
           v10 \<leftarrow> r8 K (r17_7 + 1);
           let pair = (shl v9 8) OR v10;
           let rawCode = kNoGlyph;
           rawCode \<leftarrow> (if pair = kNewlineGlyph then State_Monad.return kNewlineGlyph
            else if ((pair + 32160) AND 0xFFFF) < 26 \<or> ((pair + 32177) AND 0xFFFF) < 10 then
                State_Monad.return (pair + 32193)
             else if ((pair + 32127) AND 0xFFFF) < 26 then State_Monad.return (pair + 32192)
              else do {
                setr K 16 kIconTokenTable;
                loop (\<lambda>rawCode. do {
                  r16_11 \<leftarrow> reg K 16;
                  v12 \<leftarrow> r32 K r16_11;
                  (if v12 \<noteq> 0 then do {
                    v13 \<leftarrow> r32 K r16_11;
                    setr K 4 v13;
                    r17_14 \<leftarrow> reg K 17;
                    setr K 5 r17_14;
                    setr K 6 2;
                    _ \<leftarrow> dispatch_jal K 0x8009A640 0x80078AA4 [];
                    r2_15 \<leftarrow> reg K 2;
                    (if r2_15 = 0 then do {
                      r16_16 \<leftarrow> reg K 16;
                      rawCode \<leftarrow> r16 K (r16_16 + 4);
                      State_Monad.return (Inl rawCode)
                    }
                     else do {
                       r16_18 \<leftarrow> reg K 16;
                       setr K 16 (r16_18 + 8);
                       State_Monad.return (Inr rawCode)
                     })
                  }
                   else State_Monad.return (Inl rawCode))
                }) rawCode
              });
           r17_19 \<leftarrow> reg K 17;
           setr K 17 (r17_19 + 2);
           setr K 6 rawCode;
           let code = rawCode AND 0xFFFF;
           let tokensSeen = tokensSeen + 1;
           (if code = kNoGlyph then do {
             let tokensMissed = tokensMissed + 1;
             v20 \<leftarrow> icon_scratch_x K;
             icon_scratch_set_x K (v20 + 8);
             State_Monad.return (Inr (tokensSeen, glyphsEmitted, tokensMissed))
           }
            else if code = kNewlineGlyph then do {
              icon_scratch_set_x K originX;
              v21 \<leftarrow> icon_scratch_y K;
              icon_scratch_set_y K (v21 + 8);
              State_Monad.return (Inr (tokensSeen, glyphsEmitted, tokensMissed))
            }
             else do {
               icon_scratch_set_u K (shl (code AND 31) 3);
               icon_scratch_set_v K (shl (shr (code AND 0xFFF) 5) 3);
               r23_22 \<leftarrow> reg K 23;
               emit_guest_icon_sprite K r23_22;
               let glyphsEmitted = glyphsEmitted + 1;
               v23 \<leftarrow> icon_scratch_x K;
               icon_scratch_set_x K (v23 + 8);
               glyphsEmitted \<leftarrow> (if (code AND 0x8000) \<noteq> 0 then do {
                 icon_scratch_set_u K (if (code AND 0x1000) \<noteq> 0 then 64 else 56);
                 icon_scratch_set_v K 64;
                 r23_24 \<leftarrow> reg K 23;
                 emit_guest_icon_sprite K r23_24;
                 let glyphsEmitted = glyphsEmitted + 1;
                 v25 \<leftarrow> icon_scratch_x K;
                 icon_scratch_set_x K (v25 + 5);
                 State_Monad.return glyphsEmitted
               }
                else State_Monad.return glyphsEmitted);
               State_Monad.return (Inr (tokensSeen, glyphsEmitted, tokensMissed))
             })
         }
          else State_Monad.return (Inl (tokensSeen, glyphsEmitted, tokensMissed)))
       }) (tokensSeen, glyphsEmitted, tokensMissed);
       drawModePacket \<leftarrow> packet_pool_cursor K;
       setr K 16 drawModePacket;
       setr K 17 kCursorPage;
       r29_27 \<leftarrow> reg K 29;
       w32 K (r29_27 + 16) 0;
       setr K 4 drawModePacket;
       setr K 5 0;
       setr K 6 0;
       setr K 7 31;
       _ \<leftarrow> dispatch_jal K 0x80083DE0 0x80078C30 [];
       ot_base \<leftarrow> r32 K 0x800ED8C8;
       r23_29 \<leftarrow> reg K 23;
       v30 \<leftarrow> ordering_table_slot K ot_base r23_29;
       setr K 4 v30;
       r23_31 \<leftarrow> reg K 23;
       _ \<leftarrow> ordering_table_link K ot_base drawModePacket kDrawModePacketWords r23_31;
       packet_pool_set_cursor K (drawModePacket + 12);
       v32 \<leftarrow> icon_scratch_x K;
       setr K 3 v32;
       v33 \<leftarrow> icon_scratch_x K;
       setr K 2 (v33 - originX)
     })
   }"

section \<open>\<open>game/ui/save_menu.cpp\<close>\<close>

definition save_menu_run_handler :: "'c core_ops \<Rightarrow> u32 \<Rightarrow> ('c, unit) state"
    where
  "save_menu_run_handler K task = do {
     v1 \<leftarrow> reg K (unat R_SP);
     let sp = v1 - 0x30;
     v2 \<leftarrow> reg K (unat R_S1);
     w32 K (sp + 0x24) v2;
     v3 \<leftarrow> reg K (unat R_RA);
     w32 K (sp + 0x2C) v3;
     v4 \<leftarrow> reg K (unat R_S2);
     w32 K (sp + 0x28) v4;
     v5 \<leftarrow> reg K (unat R_S0);
     w32 K (sp + 0x20) v5;
     setr K (unat R_SP) sp;
     setr K (unat R_S1) task;
     setr K (unat R_S0) SAVE_CTX_BASE;
     substate \<leftarrow> r8 K (task + 1);
     (if SAVE_NUM_STATES \<le> substate then do {
       v7 \<leftarrow> r32 K (sp + 0x2C);
       setr K (unat R_RA) v7;
       v8 \<leftarrow> r32 K (sp + 0x28);
       setr K (unat R_S2) v8;
       v9 \<leftarrow> r32 K (sp + 0x24);
       setr K (unat R_S1) v9;
       v10 \<leftarrow> r32 K (sp + 0x20);
       setr K (unat R_S0) v10;
       setr K (unat R_SP) (sp + 0x30)
     }
      else do {
        handler \<leftarrow> r32 K (SAVE_HANDLER_TBL + substate * 4);
        call_guest K handler
      })
   }"

definition save_menu_dispatch_body :: "'c core_ops \<Rightarrow> ('c, unit) state" where
  "save_menu_dispatch_body K = do {
     v1 \<leftarrow> reg K (unat R_A0);
     save_menu_run_handler K v1
   }"

section \<open>\<open>game/ui/ui_sprite.cpp\<close>\<close>

definition ui_sprite_draw_from_table :: "'c core_ops \<Rightarrow> ('c, unit) state" where
  "ui_sprite_draw_from_table K = do {
     x \<leftarrow> reg K 4;
     y \<leftarrow> reg K 5;
     attr \<leftarrow> reg K 6;
     r7_4 \<leftarrow> reg K 7;
     let defIndex = sar 16 (shl r7_4 16);
     r29_5 \<leftarrow> reg K 29;
     setr K 29 (r29_5 - 40);
     frame1 \<leftarrow> reg K 29;
     let placement = frame1 + 24;
     let attributes = frame1 + 16;
     w16 K (placement + 0) x;
     r31_7 \<leftarrow> reg K 31;
     w32 K (frame1 + 32) r31_7;
     w8 K (attributes + 1) attr;
     w8 K (attributes + 0) 0;
     w16 K (attributes + 2) 0;
     w16 K (placement + 2) y;
     w32 K (placement + 4) 0;
     setr K 4 placement;
     v8 \<leftarrow> r32 K (SPRITE_DEF_TABLE + defIndex * 4);
     setr K 5 v8;
     v9 \<leftarrow> r32 K MODEL_TABLE_PTR;
     setr K 6 v9;
     setr K 7 attributes;
     setr K 31 0x8007E928;
     call_guest K kQuads;
     v10 \<leftarrow> r32 K (frame1 + 32);
     setr K 31 v10;
     r29_11 \<leftarrow> reg K 29;
     setr K 29 (r29_11 + 40)
   }"

definition ui_sprite_draw_fixed_def152 :: "'c core_ops \<Rightarrow> ('c, unit) state" where
  "ui_sprite_draw_fixed_def152 K = do {
     r29_1 \<leftarrow> reg K 29;
     setr K 29 (r29_1 - 24);
     frame1 \<leftarrow> reg K 29;
     r4_3 \<leftarrow> reg K 4;
     setr K 4 (sar 16 (shl r4_3 16));
     r5_4 \<leftarrow> reg K 5;
     setr K 5 (sar 16 (shl r5_4 16));
     r31_5 \<leftarrow> reg K 31;
     w32 K (frame1 + 16) r31_5;
     setr K 31 0x8007E9B8;
     setr K 7 DEF_FIXED_152;
     call_guest K 0x8007E8DC;
     v6 \<leftarrow> r32 K (frame1 + 16);
     setr K 31 v6;
     r29_7 \<leftarrow> reg K 29;
     setr K 29 (r29_7 + 24)
   }"

section \<open>\<open>game/ui/ui_sprite_quads.cpp\<close>\<close>

definition extent :: "'c core_ops \<Rightarrow> u32 \<Rightarrow> u32 \<Rightarrow> ('c, u32)
    state" where
  "extent K placed pieceSize = (if 0 <s placed then State_Monad.return (as_u16 placed)
    else if placed = 0 then State_Monad.return pieceSize
     else State_Monad.return (pieceSize + as_u16 placed))"

definition stage_corner :: "'c core_ops \<Rightarrow> u32 \<Rightarrow> u32 \<Rightarrow> u32
    \<Rightarrow> ('c, unit) state" where
  "stage_corner K xy x y = do {
     w16 K (kStage + xy) x;
     w16 K (kStage + xy + 2) y
   }"

definition stage_word :: "'c core_ops \<Rightarrow> u32 \<Rightarrow> ('c, u32) state" where
  "stage_word K offset = r32 K (kStage + offset)"

end
