(* ===== verification/RecordActors.thy ===== *)
theory RecordActors
  imports CullWrappers ModelBinding UiText
begin

text \<open>
  Behaviour handlers that own render records: children, lifts, cube texts, phases and angle
  trackers.
\<close>

section \<open>Layout\<close>

definition TD :: u32 where "TD = 0x8014AA38"

section \<open>\<open>game/ai/beh_child_trig_motion.cpp\<close>\<close>

definition beh_child_trig_motion :: "'c core_ops \<Rightarrow> ('c, unit) state" where
  "beh_child_trig_motion K = with_frame K 40 [(19, 28), (31, 32), (18, 24), (17, 20), (16, 16)]
      (do {
     let Lret = (State_Monad.return ());
     let L8c00 = (\<lambda>nd. do {
       setr K 4 nd;
       graphics_bind_render_update K;
       Lret
     });
     let S11 = (\<lambda>nd. do {
       sp \<leftarrow> r8 K 0x1F800207;
       (if 9 \<le> sp - 23 then Lret
        else do {
          v2 \<leftarrow> guest_call K 0x8007778C [nd];
          (if v2 = 0 then Lret
           else do {
             n3 \<leftarrow> r8 K (nd + 3);
             (if n3 \<noteq> 0 then (if as_s8 n3 <s 0 then L8c00 nd
              else if 3 \<le> n3 then L8c00 nd
               else do { _ \<leftarrow> guest_call K 0x80135414 [nd]; L8c00 nd })
              else do {
                v4 \<leftarrow> r8 K (nd + 0x29);
                (if v4 = 0 then L8c00 nd
                 else do {
                   v5 \<leftarrow> r8 K 0x800E7FC7;
                   ang \<leftarrow> (if (v5 AND 1) \<noteq> 0 then do {
                     v6 \<leftarrow> r16s K 0x800E7ED8;
                     State_Monad.return (- v6)
                   }
                    else r16s K 0x800E7ED8);
                   v0e \<leftarrow> rsin K ang;
                   v0f \<leftarrow> rcos K ang;
                   let s0 = sar 9 (- v0e);
                   let s1 = sar 9 v0f;
                   vA \<leftarrow> trig_ratan2 K s1 110;
                   vB \<leftarrow> trig_ratan2 K s0 110;
                   rec \<leftarrow> r32 K (nd + 0xC4);
                   v13 \<leftarrow> r16 K 0x8014AA98;
                   w16 K (rec + 0) (v13 + s0);
                   v14 \<leftarrow> r16 K 0x8014AA9A;
                   w16 K (rec + 2) (v14 + s1);
                   w16 K (rec + 8) vA;
                   w16 K (rec + 10) (0 - vB);
                   L8c00 nd
                 })
              })
           })
        })
     });
     let S0 = (\<lambda>nd. do {
       v15 \<leftarrow> r16s K 0x800ED098;
       (if v15 <s 2 then do { w8 K (nd + 4) 3; Lret }
        else do {
          w8 K (nd + 8) 2;
          w8 K (nd + 9) 2;
          w16 K (nd + 0x80) 30;
          w16 K (nd + 0x82) 60;
          w16 K (nd + 0x84) 50;
          w16 K (nd + 0x86) 100;
          w8 K (nd + 4) 1;
          w8 K (nd + 0) 1;
          w8 K (nd + 0x29) 0;
          w8 K (nd + 13) 0;
          w8 K (nd + 11) 0;
          n3 \<leftarrow> r8 K (nd + 3);
          src \<leftarrow> r32 K (0x8014AAB0 + n3 * 4);
          v18 \<leftarrow> r8 K (nd + 8);
          only_if (v18 \<noteq> 0) (do {
            setr K 4 1;
            let s2 = (0 :: u32);
            let s1 = nd;
            (src, s2, s1) \<leftarrow> loop (\<lambda>(src, s2, s1). do {
              graphics_bind_record_alloc K;
              rec \<leftarrow> reg K 2;
              w32 K (s1 + 0xC0) rec;
              w16 K (rec + 6) (s2 - 1);
              v20 \<leftarrow> r16 K src;
              w16 K (rec + 0) v20;
              let src = src + 2;
              v21 \<leftarrow> r16 K src;
              w16 K (rec + 2) v21;
              let src = src + 2;
              v22 \<leftarrow> r16 K src;
              w16 K (rec + 4) v22;
              w32 K (rec + 8) 0;
              let src = src + 2;
              w32 K (rec + 12) 0;
              a2 \<leftarrow> r16s K src;
              _ \<leftarrow> guest_call K 0x80051B04 [rec, 12, a2];
              let src = src + 2;
              let s2 = s2 + 1;
              let s1 = s1 + 4;
              v24 \<leftarrow> r8 K (nd + 8);
              (if s2 <s v24 then State_Monad.return (Inr (src, s2, s1))
               else State_Monad.return (Inl (src, s2, s1)))
            }) (src, s2, s1);
            State_Monad.return ()
          });
          n3 \<leftarrow> r8 K (nd + 3);
          (if n3 = 0 then do {
            v26 \<leftarrow> r8 K 0x800BF8F7;
            (if v26 = 0 then Lret
             else do {
               _ \<leftarrow> guest_call K 0x801252C0 [nd, 5, 2];
               _ \<leftarrow> guest_call K 0x801252C0 [nd, 5, 3];
               Lret
             })
          }
           else if n3 = 2 then do {
             w16 K (nd + 0x2E) 20084;
             w16 K (nd + 0x32) (-3728);
             v60 \<leftarrow> r16 K (nd + 0x32);
             w16 K (nd + 0x36) 8836;
             w16 K (nd + 0x54) 0;
             w16 K (nd + 0x56) 3072;
             w16 K (nd + 0x58) 0;
             w16 K (nd + 0x4A) 0;
             w16 K (nd + 0x60) v60;
             Lret
           }
            else Lret)
        })
     });
     nd \<leftarrow> reg K 4;
     st \<leftarrow> r8 K (nd + 4);
     (if st = 1 then S11 nd
      else if st <s 2 then (if st = 0 then S0 nd else Lret)
       else if st = 2 then Lret
        else if st = 3 then do { despawn K nd; Lret }
         else Lret)
   })"

section \<open>\<open>game/ai/beh_cube_text_spawn.cpp\<close>\<close>

definition tbl_strp :: "'c core_ops \<Rightarrow> u32 \<Rightarrow> ('c, u32) state" where
  "tbl_strp K nd = do {
     i \<leftarrow> r16s K (nd + 0x60);
     let off = shl (i * 3) 2;
     r32 K (0x800A33C8 + off + 4)
   }"

definition beh_cube_text_spawn :: "'c core_ops \<Rightarrow> ('c, unit) state" where
  "beh_cube_text_spawn K = with_frame K 40 [(18, 24), (31, 32), (19, 28), (17, 20), (16, 16)] (do
      {
     nd \<leftarrow> reg K 4;
     st \<leftarrow> r8 K (nd + 4);
     (if st = 1 then do {
       ty \<leftarrow> r8 K (nd + 3);
       (if ty = 1 then do { setr K 4 nd; call_guest K 0x8003A9A0 }
        else if ty = 0 then do { setr K 4 nd; call_guest K 0x8003A790 }
         else only_if (ty = 2) (do { setr K 4 nd; call_guest K 0x8003ABE4 }));
       w8 K (nd + 1) 1;
       setr K 4 nd;
       graphics_bind_render_update K
     }
      else if 2 \<le> st then (if st = 2 then do {
        w8 K (nd + 4) 3;
        v4 \<leftarrow> r8 K 0x800BF849;
        w8 K 0x800BF849 (v4 - 1);
        v5 \<leftarrow> r8 K 0x800ED06C;
        w8 K 0x800ED06C (v5 - 1)
      }
       else only_if (st = 3) (despawn K nd))
       else if st \<noteq> 0 then State_Monad.return ()
        else do {
          ty \<leftarrow> r8 K (nd + 3);
          let rest1 = (\<lambda>uVar7. do {
            v7 \<leftarrow> r16s K 0x800ED098;
            v8 \<leftarrow> r8 K (nd + 8);
            (if v7 <s v8 then w8 K (nd + 4) 2
             else do {
               v9 \<leftarrow> r8 K (nd + 8);
               w8 K (nd + 9) v9;
               w8 K (nd + 0x0B) 4;
               w8 K (nd + 0x0D) 0;
               v10 \<leftarrow> r8 K (nd + 4);
               w8 K (nd + 4) (v10 + 1);
               v11 \<leftarrow> r32 K 0x800ECF58;
               w32 K (nd + 0x3C) v11;
               n \<leftarrow> r8 K (nd + 8);
               only_if (n \<noteq> 0) (do {
                 let s0 = nd;
                 let i6 = (0 :: u32);
                 (s0, i6) \<leftarrow> loop (\<lambda>(s0, i6). do {
                   graphics_bind_record_alloc K;
                   rec \<leftarrow> reg K 2;
                   w32 K (s0 + 0xC0) rec;
                   w16 K (rec + 6) 0xFFFF;
                   v14 \<leftarrow> r32 K (s0 + 0xC0);
                   w16 K (v14 + 0) 0;
                   v15 \<leftarrow> r32 K (s0 + 0xC0);
                   w16 K (v15 + 2) 0;
                   v16 \<leftarrow> r32 K (s0 + 0xC0);
                   w16 K (v16 + 4) 0;
                   v17 \<leftarrow> r32 K (s0 + 0xC0);
                   w16 K (v17 + 8) 0;
                   v18 \<leftarrow> r32 K (s0 + 0xC0);
                   w16 K (v18 + 0xA) 0;
                   v19 \<leftarrow> r32 K (s0 + 0xC0);
                   w16 K (v19 + 0xC) 0;
                   v20 \<leftarrow> r32 K (s0 + 0xC0);
                   graphics_bind_install_scene_record K v20 1 uVar7;
                   v21 \<leftarrow> r32 K (s0 + 0xC0);
                   w8 K (v21 + 0x3E) 0;
                   v22 \<leftarrow> r32 K (s0 + 0xC0);
                   w8 K (v22 + 0x3F) i6;
                   let i6 = i6 + 1;
                   let s0 = s0 + 4;
                   v23 \<leftarrow> r8 K (nd + 8);
                   (if i6 <s v23 then State_Monad.return (Inr (s0, i6))
                    else State_Monad.return (Inl (s0, i6)))
                 }) (s0, i6);
                 State_Monad.return ()
               });
               sVar1 \<leftarrow> r16 K 0x801003F8;
               w16 K (nd + 0x2E) 0;
               w16 K (nd + 0x32) 0xFFC0;
               w16 K (nd + 0x54) 0;
               w16 K (nd + 0x56) 0;
               w16 K (nd + 0x58) 0;
               w16 K (nd + 0x36) (sVar1 + 8);
               v25 \<leftarrow> r8 K (nd + 3);
               (if v25 \<noteq> 2 then do {
                 w8 K (nd + 0x5E) 0;
                 v26 \<leftarrow> r16 K (nd + 0x36);
                 w16 K (nd + 0x36) (sVar1 + v26 + 8)
               }
                else w8 K (nd + 0x5E) 1)
             })
          });
          (if ty = 2 then do {
            v27 \<leftarrow> r32 K 0x800A3A8C;
            len1 \<leftarrow> font_measure_line_width K v27;
            let uVar7 = (0x16 :: u32);
            w8 K (nd + 8) (len1 + 1);
            rest1 uVar7
          }
           else do {
             let uVar7 = (0xF :: u32);
             v29 \<leftarrow> tbl_strp K nd;
             len1 \<leftarrow> font_measure_line_width K v29;
             w8 K (nd + 8) len1;
             (if 33 \<le> (len1 AND 0xFF) then do {
               setr K 4 0x80014A54;
               call_guest K 0x8009A730;
               setr K 4 0x80014A6C;
               v31 \<leftarrow> tbl_strp K nd;
               setr K 5 v31;
               call_guest K 0x8009A730;
               w8 K (nd + 4) 2
             }
              else rest1 uVar7)
           })
        })
   })"

section \<open>\<open>game/ai/beh_cull_substate_orchestrator.cpp\<close>\<close>

definition beh_cull_substate_orchestrator :: "'c core_ops \<Rightarrow> ('c, unit) state" where
  "beh_cull_substate_orchestrator K = with_frame K 24 [(16, 16), (31, 20)] (do {
     obj \<leftarrow> reg K 4;
     st \<leftarrow> r8 K (obj + 4);
     (if st \<noteq> 1 then (if 2 \<le> st then (if st = 2 then do {
       setr K 4 obj;
       call_guest K 0x80133184
     }
      else if st = 3 then despawn K obj else State_Monad.return ())
      else if st \<noteq> 0 then State_Monad.return ()
       else do { setr K 4 obj; call_guest K 0x8013272C })
      else do {
        n3 \<leftarrow> r8 K (obj + 3);
        let skip_cull = False;
        (skip_cull, to_timer) \<leftarrow> (if n3 = 1 \<or> n3 = 5 then do {
          v4 \<leftarrow> r8 K 0x800BF89C;
          (if v4 = 2 then State_Monad.return (skip_cull, True)
           else do {
             v5 \<leftarrow> r8 K 0x800E7EAA;
             let (skip_cull, to_timer) = (if v5 = 1 then (True, False) else (skip_cull, True));
             State_Monad.return (skip_cull, to_timer)
           })
        }
         else State_Monad.return (skip_cull, True));
        only_if (\<not> skip_cull \<and> to_timer) (do {
          v6 \<leftarrow> r16 K 0x1F800160;
          let timer = as_s16 v6;
          only_if (timer <s 0x4651) (do {
            _ \<leftarrow> actor_bounds_cull K obj;
            State_Monad.return ()
          })
        });
        sub1 \<leftarrow> r8 K (obj + 5);
        (if sub1 = 0 then do { setr K 4 obj; call_guest K 0x80132954 }
         else if sub1 = 1 then State_Monad.return ()
          else if sub1 = 2 then do { setr K 4 obj; call_guest K 0x80132D58 }
           else if sub1 = 3 then do { setr K 4 obj; call_guest K 0x80132EDC }
            else only_if (sub1 = 4) (do { setr K 4 obj; call_guest K 0x80133500 }));
        setr K 4 obj;
        call_guest K 0x80133550;
        setr K 4 obj;
        call_guest K 0x80132A88;
        n1 \<leftarrow> r8 K (obj + 1);
        w8 K (obj + 0x29) 0;
        only_if (n1 \<noteq> 0) (node_xform_build_with_offset K obj)
      })
   })"

section \<open>\<open>game/ai/beh_cull_tick_render.cpp\<close>\<close>

definition beh_cull_tick_render :: "'c core_ops \<Rightarrow> ('c, unit) state" where
  "beh_cull_tick_render K = with_frame K 24 [(16, 16), (31, 20)] (do {
     obj \<leftarrow> reg K 4;
     st \<leftarrow> r8 K (obj + 4);
     (if st \<noteq> 1 then (if 2 \<le> st then only_if (st = 3) (despawn K obj)
      else if st \<noteq> 0 then State_Monad.return ()
       else do {
         n3a \<leftarrow> r8 K (obj + 3);
         v4 \<leftarrow> r16 K (0x8014A260 + n3a * 2);
         let tv = as_s16 v4;
         setr K 4 obj;
         setr K 5 0xC;
         setr K 6 tv;
         graphics_bind_record_init K;
         r2_5 \<leftarrow> reg K 2;
         (if r2_5 \<noteq> 0 then State_Monad.return ()
          else do {
            v6 \<leftarrow> r8 K (obj + 4);
            w8 K (obj + 4) (v6 + 1);
            n3b \<leftarrow> r8 K (obj + 3);
            sv \<leftarrow> r16 K (0x8014A268 + n3b * 2);
            w16 K (obj + 0x54) sv
          })
       })
      else do {
        v9 \<leftarrow> actor_bounds_cull K obj;
        (if v9 = 0 then State_Monad.return ()
         else do {
           setr K 4 obj;
           _ \<leftarrow> dispatch_jal K 0x8012D27C 0x8012D4C4 [];
           setr K 4 obj;
           graphics_bind_render_update K
         })
      })
   })"

section \<open>\<open>game/ai/beh_event_record_machine.cpp\<close>\<close>

definition beh_event_record_machine_l59 :: "'c core_ops \<Rightarrow> u32 \<Rightarrow> u32
    \<Rightarrow> ('c, unit) state" where
  "beh_event_record_machine_l59 K st nd = (if 2 \<le> st then (if st = 2 then State_Monad.return
      ()
    else if st \<noteq> 3 then State_Monad.return () else despawn K nd)
    else if st \<noteq> 0 then State_Monad.return ()
     else do {
       v3 \<leftarrow> r16s K 0x800ED098;
       (if v3 <s 4 then w8 K (nd + 4) 3
        else do {
          w8 K (nd + 8) 4;
          w8 K (nd + 9) 4;
          w8 K (nd + 0x0B) 3;
          w8 K (nd + 0x0D) 0;
          v4 \<leftarrow> r8 K (nd + 4);
          w8 K (nd + 4) (v4 + 1);
          setr K 4 nd;
          let base1 = nd;
          let tbl = (0x8014A7E4 :: u32);
          let i = (0 :: u32);
          (base1, tbl, i) \<leftarrow> loop (\<lambda>(base1, tbl, i). do {
            let i = i + 1;
            graphics_bind_record_alloc K;
            rec \<leftarrow> reg K 2;
            w32 K (base1 + 0xC0) rec;
            v6 \<leftarrow> r16 K (tbl + 0);
            w16 K (rec + 6) v6;
            v7 \<leftarrow> r16 K (tbl + 2);
            w16 K (rec + 0) v7;
            v8 \<leftarrow> r16 K (tbl + 4);
            w16 K (rec + 2) v8;
            v9 \<leftarrow> r16 K (tbl + 6);
            w16 K (rec + 4) v9;
            w32 K (rec + 8) 0;
            w32 K (rec + 0xC) 0;
            v10 \<leftarrow> r16 K (tbl + 8);
            let t4 = as_s16 v10;
            let tbl = tbl + 10;
            graphics_bind_install_scene_record K rec 0xC t4;
            let base1 = base1 + 4;
            v11 \<leftarrow> r8 K (nd + 8);
            (if i <s v11 then State_Monad.return (Inr (base1, tbl, i))
             else State_Monad.return (Inl (base1, tbl, i)))
          }) (base1, tbl, i);
          w16 K (nd + 0x60) 0xF;
          w16 K (nd + 0x62) 0x3BBF;
          w16 K (nd + 0x64) 0x70F0;
          w16 K (nd + 0x66) 0x70F8;
          w16 K (nd + 0x68) 0x88F0;
          w16 K (nd + 0x6A) 0x88F8;
          w16 K (nd + 0x6C) 0x28;
          w16 K (nd + 0x6E) 0;
          w16 K (nd + 0xBA) 0xF0;
          w16 K (nd + 0x50) 0;
          w8 K (nd + 0x2B) 0
        })
     })"

definition beh_event_record_machine_l126 :: "'c core_ops \<Rightarrow> u32 \<Rightarrow> ('c,
    unit) state" where
  "beh_event_record_machine_l126 K nd = do {
     w8 K (nd + 0) 1;
     w16 K (nd + 0x80) 0x15E;
     w16 K (nd + 0x82) 700;
     w16 K (nd + 0x84) 200;
     w16 K (nd + 0x86) 400;
     v18 \<leftarrow> r32 K (nd + 0xC0);
     _ \<leftarrow> guest_call K 0x80051B04 [v18, 0xC, 0xB];
     w8 K (nd + 5) 4;
     setr K 4 nd;
     graphics_bind_render_update K;
     w8 K (nd + 0x2B) 0
   }"

definition beh_event_record_machine_l123 :: "'c core_ops \<Rightarrow> u32 \<Rightarrow> ('c,
    unit) state" where
  "beh_event_record_machine_l123 K nd = do {
     v15 \<leftarrow> r8 K 0x800BF937;
     (if v15 = 0 then do {
       v16 \<leftarrow> r32 K (nd + 0xC0);
       _ \<leftarrow> guest_call K 0x80051B04 [v16, 0xC, 0xB];
       w8 K (nd + 5) 1;
       setr K 4 nd;
       graphics_bind_render_update K;
       w8 K (nd + 0x2B) 0
     }
      else do {
        v17 \<leftarrow> r8 K 0x800BFA4B;
        (if (v17 AND 1) = 0 then beh_event_record_machine_l126 K nd
         else do {
           w8 K (nd + 5) 1;
           setr K 4 nd;
           graphics_bind_render_update K;
           w8 K (nd + 0x2B) 0
         })
      })
   }"

definition beh_event_record_machine_l137 :: "'c core_ops \<Rightarrow> u32 \<Rightarrow> ('c,
    unit) state" where
  "beh_event_record_machine_l137 K nd = do {
     w8 K (nd + 5) 2;
     setr K 4 nd;
     graphics_bind_render_update K;
     w8 K (nd + 0x2B) 0
   }"

definition beh_event_record_machine_l122 :: "'c core_ops \<Rightarrow> u32 \<Rightarrow> ('c,
    unit) state" where
  "beh_event_record_machine_l122 K nd = do {
     v14 \<leftarrow> r8 K 0x800BF8B9;
     (if v14 = 255 then beh_event_record_machine_l123 K nd
      else beh_event_record_machine_l137 K nd)
   }"

definition beh_event_record_machine_l152 :: "'c core_ops \<Rightarrow> u32 \<Rightarrow> (u32
    \<Rightarrow> ('c, unit) state) \<Rightarrow> ('c, unit) state" where
  "beh_event_record_machine_l152 K nd rest1 = do {
     v23 \<leftarrow> r8 K 0x800BF80E;
     (if v23 = 0 then do { setr K 4 nd; graphics_bind_render_update K; w8 K (nd + 0x2B) 0 }
      else do { let uVar5 = (0xCF :: u32); rest1 uVar5 })
   }"

definition beh_event_record_machine_l157 :: "'c core_ops \<Rightarrow> u32 \<Rightarrow> ('c,
    unit) state" where
  "beh_event_record_machine_l157 K nd = do {
     v24 \<leftarrow> r8 K (nd + 0x2B);
     only_if (v24 = 3) (do {
       w8 K 0x800E7E84 4;
       w8 K 0x800E7E85 0x21;
       w8 K 0x800E7E86 0;
       w8 K 0x800E7EE1 0;
       w8 K (nd + 0) 2;
       v25 \<leftarrow> r8 K (nd + 6);
       w8 K (nd + 6) (v25 + 1);
       _ \<leftarrow> guest_call K 0x80042354 [1, 1];
       State_Monad.return ()
     });
     setr K 4 nd;
     graphics_bind_render_update K;
     w8 K (nd + 0x2B) 0
   }"

definition beh_event_record_machine_l149 :: "'c core_ops \<Rightarrow> u32 \<Rightarrow> ('c,
    unit) state" where
  "beh_event_record_machine_l149 K nd = do {
     n6 \<leftarrow> r8 K (nd + 6);
     let uVar5 = (0 :: u32);
     let rest1 = (\<lambda>uVar5. do {
       _ \<leftarrow> guest_call K 0x800440E4 [0x800E7E80, uVar5, 4];
       v22 \<leftarrow> r8 K (nd + 6);
       w8 K (nd + 6) (v22 + 1);
       setr K 4 nd;
       graphics_bind_render_update K;
       w8 K (nd + 0x2B) 0
     });
     (if n6 = 1 then beh_event_record_machine_l152 K nd rest1
      else if n6 < 2 then beh_event_record_machine_l157 K nd
       else if n6 \<noteq> 2 then do {
         v26 \<leftarrow> r8 K 0x800BF822;
         only_if (n6 = 3 \<and> (v26 AND 1) = 0) (do {
           _ \<leftarrow> guest_call K 0x80042310 [];
           w8 K (nd + 6) 0;
           w8 K (nd + 5) 1
         });
         setr K 4 nd;
         graphics_bind_render_update K;
         w8 K (nd + 0x2B) 0
       }
        else do {
          v27 \<leftarrow> r8 K 0x800BF80E;
          (if v27 = 0 then do {
            setr K 4 nd;
            graphics_bind_render_update K;
            w8 K (nd + 0x2B) 0
          }
           else do {
             iv \<leftarrow> guest_call K 0x8006FF10 [nd, 0x24];
             uVar3 \<leftarrow> r32 K 0x800E7EB4;
             uVar5 \<leftarrow> r32 K 0x800E7EB0;
             w32 K 0x800BF844 iv;
             (if iv = 0 then do {
               setr K 4 nd;
               graphics_bind_render_update K;
               w8 K (nd + 0x2B) 0
             }
              else do {
                v31 \<leftarrow> r32 K 0x800E7EAC;
                w32 K (iv + 0x2C) v31;
                w32 K (iv + 0x30) uVar5;
                w32 K (iv + 0x34) uVar3;
                v32 \<leftarrow> r32 K (nd + 0xC0);
                _ \<leftarrow> guest_call K 0x80051B04 [v32, 0xC, 0x4E];
                let uVar5 = (2 :: u32);
                v33 \<leftarrow> r8 K 0x800BFA4B;
                w8 K 0x800BFA4B (v33 OR 1);
                rest1 uVar5
              })
           })
        })
   }"

definition beh_event_record_machine_l141 :: "'c core_ops \<Rightarrow> u32 \<Rightarrow> u32
    \<Rightarrow> ('c, unit) state" where
  "beh_event_record_machine_l141 K v13 nd = (if v13 = 2 then do {
     v19 \<leftarrow> r8 K 0x800BF9DD;
     only_if (v19 = 12) (do { v20 \<leftarrow> r8 K (nd + 5); w8 K (nd + 5) (v20 + 1) });
     setr K 4 nd;
     graphics_bind_render_update K;
     w8 K (nd + 0x2B) 0
   }
    else if v13 = 3 then do {
      _ \<leftarrow> guest_call K 0x8013681C [nd];
      setr K 4 nd;
      graphics_bind_render_update K;
      w8 K (nd + 0x2B) 0
    }
     else if v13 = 4 then beh_event_record_machine_l149 K nd
      else do { setr K 4 nd; graphics_bind_render_update K; w8 K (nd + 0x2B) 0 })"

definition beh_event_record_machine :: "'c core_ops \<Rightarrow> ('c, unit) state" where
  "beh_event_record_machine K = with_frame K 40 [(18, 24), (31, 32), (19, 28), (17, 20), (16, 16)]
      (do {
     nd \<leftarrow> reg K 4;
     st \<leftarrow> r8 K (nd + 4);
     (if st \<noteq> 1 then beh_event_record_machine_l59 K st nd
      else do {
        v12 \<leftarrow> actor_bounds_cull K nd;
        (if v12 = 0 then State_Monad.return ()
         else do {
           v13 \<leftarrow> r8 K (nd + 5);
           (if v13 = 0 then beh_event_record_machine_l122 K nd
            else beh_event_record_machine_l141 K v13 nd)
         })
      })
   })"

section \<open>\<open>game/ai/beh_lift_platform.cpp\<close>\<close>

definition lift_sfx :: "'c core_ops \<Rightarrow> u32 \<Rightarrow> ('c, unit) state" where
  "lift_sfx K s0 = do {
     v1 \<leftarrow> r32 K (s0 + 0xC0);
     v2 \<leftarrow> r16 K (v1 + 0xC);
     only_if ((v2 AND 0xF00) = 0) (do {
       _ \<leftarrow> guest_call K 0x80074590 [0x8D, 0, 0];
       State_Monad.return ()
     })
   }"

definition beh_lift_platform :: "'c core_ops \<Rightarrow> ('c, unit) state" where
  "beh_lift_platform K = with_frame K 32 [(18, 24), (31, 28), (17, 20), (16, 16)] (do {
     let L6c4 = (\<lambda>nd. do {
       n8 \<leftarrow> r8 K (nd + 8);
       n1 \<leftarrow> r8 K (nd + 1);
       let base1 = nd;
       base1 \<leftarrow> fold_each (upto_u32 (nat (sint n8))) base1 (\<lambda>i base1. do {
         v3 \<leftarrow> r32 K (base1 + 0xC0);
         w8 K (v3 + 0x3F) n1;
         State_Monad.return (base1 + 4)
       });
       w8 K (nd + 0x29) 0;
       _ \<leftarrow> guest_call K 0x80139A70 [nd];
       State_Monad.return ()
     });
     nd \<leftarrow> reg K 4;
     st \<leftarrow> r8 K (nd + 4);
     (if st \<noteq> 1 then (if 2 \<le> st then (if st = 2 then State_Monad.return ()
      else if st \<noteq> 3 then State_Monad.return () else despawn K nd)
      else if st \<noteq> 0 then State_Monad.return ()
       else do {
         w32 K 0x800BF854 nd;
         w8 K (nd + 0xBF) 0;
         v6 \<leftarrow> r16s K 0x800ED098;
         (if v6 <s 13 then w8 K (nd + 4) 3
          else do {
            w8 K (nd + 8) 13;
            w8 K (nd + 9) 13;
            w8 K (nd + 0x0B) 0;
            w8 K (nd + 0x0D) 0;
            setr K 4 nd;
            let base1 = nd;
            let i = (0 :: u32);
            (base1, i) \<leftarrow> loop (\<lambda>(base1, i). do {
              graphics_bind_record_alloc K;
              rec \<leftarrow> reg K 2;
              w32 K (base1 + 0xC0) rec;
              graphics_bind_install_scene_record K rec 0xC (i + 0x26);
              let i = i + 1;
              let base1 = base1 + 4;
              v8 \<leftarrow> r8 K (nd + 8);
              (if i <s v8 then State_Monad.return (Inr (base1, i))
               else State_Monad.return (Inl (base1, i)))
            }) (base1, i);
            w8 K (nd + 3) 0;
            v9 \<leftarrow> r8 K 0x800BFAD8;
            v10 \<leftarrow> r8 K 0x800BF8B9;
            only_if (v9 = 0 \<and> v10 \<noteq> 255) (do {
              v11 \<leftarrow> r32 K (nd + 0xD0);
              _ \<leftarrow> guest_call K 0x80118974 [v11];
              State_Monad.return ()
            });
            _ \<leftarrow> guest_call K 0x8013A184 [nd];
            _ \<leftarrow> guest_call K 0x8013989C [nd];
            w8 K (nd + 0) 1;
            w16 K (nd + 0x82) 0xC0;
            w8 K (nd + 0x29) 0;
            w16 K (nd + 0x80) 0x60;
            w16 K (nd + 0x84) 0x10;
            w16 K (nd + 0x86) 0x60;
            v12 \<leftarrow> r8 K (nd + 4);
            w8 K (nd + 4) (v12 + 1)
          })
       })
      else do {
        s0 \<leftarrow> reg K 16;
        v14 \<leftarrow> r8 K 0x800BF89C;
        v15 \<leftarrow> r8 K 0x800E7EAA;
        let rest1 = (\<lambda>s0. do {
          pv1 \<leftarrow> r8 K (s0 + 0x5E);
          (if pv1 = 1 then w8 K (nd + 0x5E) 2
           else if pv1 = 2 then w8 K (nd + 0x5E) 1 else w8 K (nd + 0x5E) 0);
          v17 \<leftarrow> r8 K (nd + 0x5E);
          (if v17 = 1 then do {
            v18 \<leftarrow> r32 K (nd + 0x30);
            v19 \<leftarrow> r16s K (nd + 0x50);
            w32 K (nd + 0x30) (v18 + (v19 * (- 0x100)));
            v20 \<leftarrow> r16s K (nd + 0x60);
            v21 \<leftarrow> r16s K (nd + 0x32);
            (if v20 <s v21 then do {
              v22 \<leftarrow> r8 K 0x800BF9EE;
              w8 K 0x800BF9EE (v22 AND 0xFE);
              lift_sfx K s0
            }
             else do {
               v23 \<leftarrow> r16s K (nd + 0x60);
               w32 K (nd + 0x30) (shl v23 16);
               v24 \<leftarrow> r8 K 0x800BF9EE;
               w8 K 0x800BF9EE (v24 OR 1);
               w8 K (nd + 0x5E) 0;
               w8 K (nd + 0xBF) 0
             })
          }
           else do {
             v25 \<leftarrow> r8 K (nd + 0x5E);
             only_if (v25 = 2) (do {
               v26 \<leftarrow> r32 K (nd + 0x30);
               v27 \<leftarrow> r16s K (nd + 0x50);
               w32 K (nd + 0x30) (v26 + v27 * 0x100);
               v28 \<leftarrow> r16s K (nd + 0x32);
               v29 \<leftarrow> r16s K (nd + 0x62);
               (if v28 <s v29 then lift_sfx K s0
                else do {
                  v30 \<leftarrow> r16s K (nd + 0x62);
                  w32 K (nd + 0x30) (shl v30 16);
                  w8 K (nd + 0x5E) 0;
                  w8 K (nd + 0xBF) 1
                })
             })
           });
          v31 \<leftarrow> r8 K (nd + 5);
          (if v31 = 0 then do {
            v32 \<leftarrow> r8 K (nd + 0x5E);
            (if v32 = 1 then do {
              v33 \<leftarrow> guest_call K 0x80139E64 [nd];
              only_if (v33 \<noteq> 0) (do {
                w8 K (nd + 6) 0;
                v34 \<leftarrow> r8 K (nd + 5);
                w8 K (nd + 5) (v34 + 1)
              })
            }
             else do {
               v35 \<leftarrow> r8 K (nd + 0x5E);
               only_if (v35 = 2) (do {
                 _ \<leftarrow> guest_call K 0x80139C2C [nd];
                 State_Monad.return ()
               })
             })
          }
           else do {
             v36 \<leftarrow> r8 K (nd + 5);
             b38 \<leftarrow> (if v36 = 1 then do {
               v37 \<leftarrow> guest_call K 0x8013A008 [nd, s0];
               State_Monad.return (v37 \<noteq> 0)
             }
              else State_Monad.return False);
             only_if b38 (do {
               w8 K (nd + 6) 0;
               v39 \<leftarrow> r8 K (nd + 5);
               w8 K (nd + 5) (v39 - 1)
             })
           });
          setr K 4 nd;
          graphics_bind_render_update K;
          L6c4 nd
        });
        (if v14 = 2 \<or> v15 \<noteq> 1 then do {
          v40 \<leftarrow> r16 K 0x1F800162;
          v41 \<leftarrow> r16 K (nd + 0x32);
          let a1 = as_s16 (as_u16 (v40 - v41));
          _ \<leftarrow> guest_call K 0x800778E4 [nd, a1];
          s0 \<leftarrow> r32 K (nd + 0x10);
          v43 \<leftarrow> r8 K (nd + 1);
          (if v43 = 0 then do {
            v44 \<leftarrow> r8 K (s0 + 1);
            only_if (v44 \<noteq> 0) (do {
              w8 K (nd + 1) 1;
              _ \<leftarrow> enqueue_visible_class4 K nd;
              State_Monad.return ()
            });
            v45 \<leftarrow> r8 K (nd + 1);
            (if v45 = 0 then L6c4 nd else rest1 s0)
          }
           else rest1 s0)
        }
         else do {
           v46 \<leftarrow> r8 K (nd + 1);
           (if v46 = 0 then L6c4 nd else rest1 s0)
         })
      })
   })"

section \<open>\<open>game/ai/beh_multi_record_phase_machine.cpp\<close>\<close>

definition common_tail :: "'c core_ops \<Rightarrow> u32 \<Rightarrow> ('c, unit) state" where
  "common_tail K nd = do {
     v1 \<leftarrow> r8 K (nd + 8);
     w8 K (nd + 8) (v1 + 1);
     setr K 4 nd;
     graphics_bind_render_update K;
     v2 \<leftarrow> r8 K (nd + 8);
     w8 K (nd + 8) (v2 - 1)
   }"

definition beh_multi_record_phase_machine_l234 :: "'c core_ops \<Rightarrow> u32 \<Rightarrow> u32
    \<Rightarrow> ('c, 'a) state \<Rightarrow> ('c, 'a) state" where
  "beh_multi_record_phase_machine_l234 K nd st Lret = do {
     m \<leftarrow> r8 K 0x800E7EAA;
     let to394 = m = 37 \<or> m - 14 < 6;
     (if to394 then do {
       w8 K (nd + 1) st;
       _ \<leftarrow> enqueue_visible_class4 K nd;
       State_Monad.return ()
     }
      else do { _ \<leftarrow> guest_call K 0x8007778C [nd]; State_Monad.return () });
     v2 \<leftarrow> r8 K (nd + 1);
     (if v2 = 0 then Lret
      else do { _ \<leftarrow> guest_call K 0x801347E4 [nd]; common_tail K nd; Lret })
   }"

definition beh_multi_record_phase_machine_l205 :: "'c core_ops \<Rightarrow> u32 \<Rightarrow> u32
    \<Rightarrow> ('c, 'a) state \<Rightarrow> ('c, 'a) state" where
  "beh_multi_record_phase_machine_l205 K nd st Lret = do {
     _ \<leftarrow> guest_call K 0x801344AC [nd];
     v3 \<leftarrow> r8 K (nd + 6);
     let to354 = v3 \<noteq> 0;
     to354 \<leftarrow> (if \<not> to354 then do {
       m \<leftarrow> r8 K 0x800E7EAA;
       State_Monad.return (if m - 14 < 5 then True else to354)
     }
      else State_Monad.return to354);
     (if to354 then do {
       w8 K (nd + 1) st;
       _ \<leftarrow> enqueue_visible_class4 K nd;
       State_Monad.return ()
     }
      else do {
        _ \<leftarrow> guest_call K 0x800779D0 [nd, 0, -400, 600];
        State_Monad.return ()
      });
     v5 \<leftarrow> r8 K (nd + 1);
     (if v5 = 0 then Lret else do { common_tail K nd; Lret })
   }"

definition beh_multi_record_phase_machine_l155 :: "'c core_ops \<Rightarrow> u32 \<Rightarrow> u32
    \<Rightarrow> ('c, 'a) state \<Rightarrow> ('c, 'a) state" where
  "beh_multi_record_phase_machine_l155 K nd st Lret = do {
     v6 \<leftarrow> r8 K 0x800BF9DD;
     (if 15 \<le> v6 then do {
       w8 K (nd + 5) 2;
       w16 K (nd + 0x2E) 14405;
       w16 K (nd + 0x32) (-1940);
       w8 K (nd + 0) st;
       w16 K (nd + 0x36) 4470;
       v7 \<leftarrow> r8 K (nd + 8);
       only_if (0 <s v7) (do {
         let a1t = (0x8014A76C :: u32);
         let a0p = nd;
         let i = (0 :: u32);
         (a1t, a0p, i) \<leftarrow> loop (\<lambda>(a1t, a0p, i). do {
           v1 \<leftarrow> r16 K a1t;
           let a1t = a1t + 2;
           rec \<leftarrow> r32 K (a0p + 0xC0);
           w16 K (rec + 8) v1;
           let i = i + 1;
           let a0p = a0p + 4;
           v10 \<leftarrow> r8 K (nd + 8);
           (if i <s v10 then State_Monad.return (Inr (a1t, a0p, i))
            else State_Monad.return (Inl (a1t, a0p, i)))
         }) (a1t, a0p, i);
         State_Monad.return ()
       })
     }
      else w8 K (nd + 5) st);
     v11 \<leftarrow> r8 K (nd + 8);
     w8 K (nd + 8) (v11 + 1);
     setr K 4 nd;
     graphics_bind_render_update K;
     v12 \<leftarrow> r8 K (nd + 8);
     w8 K (nd + 8) (v12 - 1);
     a3 \<leftarrow> guest_call K 0x801252C0 [nd, 1, 0];
     w32 K (a3 + 20) nd;
     v14 \<leftarrow> r32 K (nd + 0xC8);
     w32 K (a3 + 16) v14;
     a3 \<leftarrow> guest_call K 0x801252C0 [nd, 1, 1];
     w32 K (a3 + 20) nd;
     v16 \<leftarrow> r32 K (nd + 0xD8);
     w32 K (a3 + 16) v16;
     a3 \<leftarrow> guest_call K 0x801252C0 [nd, 4, 2];
     w32 K (a3 + 20) nd;
     v18 \<leftarrow> r32 K (nd + 0xC4);
     w32 K (a3 + 16) v18;
     a3 \<leftarrow> guest_call K 0x801252C0 [nd, 4, 3];
     w32 K (a3 + 20) nd;
     v20 \<leftarrow> r32 K (nd + 0xCC);
     w32 K (a3 + 16) v20;
     a3 \<leftarrow> guest_call K 0x801252C0 [nd, 4, 4];
     w32 K (a3 + 20) nd;
     v22 \<leftarrow> r32 K (nd + 0xD0);
     w32 K (a3 + 16) v22;
     v23 \<leftarrow> r32 K (nd + 0xD4);
     _ \<leftarrow> guest_call K 0x8004CC64 [v23, 12];
     Lret
   }"

definition beh_multi_record_phase_machine_l90 :: "'c core_ops \<Rightarrow> u32 \<Rightarrow> ('c,
    'a) state \<Rightarrow> u32 \<Rightarrow> ('c, 'a) state" where
  "beh_multi_record_phase_machine_l90 K nd Lret st = do {
     v25 \<leftarrow> r16s K 0x800ED098;
     (if v25 <s 10 then do { w8 K (nd + 4) 3; Lret }
      else do {
        w8 K (nd + 8) 10;
        w8 K (nd + 9) 10;
        w8 K (nd + 11) 1;
        w8 K (nd + 13) 0;
        v26 \<leftarrow> r8 K (nd + 4);
        w8 K (nd + 4) (v26 + 1);
        v27 \<leftarrow> r8 K (nd + 8);
        only_if (st <s v27) (do {
          setr K 4 nd;
          let s0 = nd;
          let s3 = (0x8014A758 :: u32);
          let i = (0 :: u32);
          (s0, s3, i) \<leftarrow> loop (\<lambda>(s0, s3, i). do {
            graphics_bind_record_alloc K;
            rec \<leftarrow> reg K 2;
            w32 K (s0 + 0xC0) rec;
            w16 K (rec + 6) (i - 1);
            w32 K (rec + 0) 0;
            w16 K (rec + 4) (if i = 0 then 0 else 135);
            v29 \<leftarrow> r16 K s3;
            w16 K (rec + 8) v29;
            w16 K (rec + 10) 0;
            w16 K (rec + 12) 0;
            let s3 = s3 + 2;
            graphics_bind_install_scene_record K rec 12 (i + 52);
            let i = i + 1;
            let s0 = s0 + 4;
            v30 \<leftarrow> r8 K (nd + 8);
            (if i <s v30 then State_Monad.return (Inr (s0, s3, i))
             else State_Monad.return (Inl (s0, s3, i)))
          }) (s0, s3, i);
          State_Monad.return ()
        });
        w8 K (nd + 8) 9;
        w16 K (nd + 0x60) 15;
        w16 K (nd + 0x62) 15295;
        w16 K (nd + 0x64) 28912;
        w16 K (nd + 0x66) 28920;
        w16 K (nd + 0x68) (-30480);
        w16 K (nd + 0x6A) (-30472);
        w16 K (nd + 0x6C) 40;
        w16 K (nd + 0x6E) 0;
        v31 \<leftarrow> r16 K (nd + 0x32);
        w16 K (nd + 0x32) (v31 + 1979);
        v32 \<leftarrow> r16 K (nd + 0x36);
        w16 K (nd + 0x36) (v32 - 1048);
        Lret
      })
   }"

definition beh_multi_record_phase_machine :: "'c core_ops \<Rightarrow> ('c, unit) state" where
  "beh_multi_record_phase_machine K = with_frame K 40 [(17, 20), (18, 24), (31, 32), (19, 28),
      (16, 16)] (do {
     let Lret = (State_Monad.return ());
     let N5_2 = (\<lambda>nd st. beh_multi_record_phase_machine_l234 K nd st Lret);
     let N5_1 = (\<lambda>nd st. beh_multi_record_phase_machine_l205 K nd st Lret);
     let N5_0 = (\<lambda>nd st. beh_multi_record_phase_machine_l155 K nd st Lret);
     let S11 = (\<lambda>nd st. do {
       n5 \<leftarrow> r8 K (nd + 5);
       (if n5 = st then N5_1 nd st
        else if n5 <s 2 then (if n5 = 0 then N5_0 nd st else Lret)
         else if n5 = 2 then N5_2 nd st else Lret)
     });
     let S0 = (\<lambda>nd st. beh_multi_record_phase_machine_l90 K nd Lret st);
     nd \<leftarrow> reg K 4;
     st \<leftarrow> r8 K (nd + 4);
     (if st = 1 then S11 nd st
      else if st <s 2 then (if st = 0 then S0 nd st else Lret)
       else if st = 2 then Lret
        else if st = 3 then do { despawn K nd; Lret }
         else Lret)
   })"

section \<open>\<open>game/ai/beh_quad_record_table_seed.cpp\<close>\<close>

definition beh_quad_record_table_seed :: "'c core_ops \<Rightarrow> ('c, unit) state" where
  "beh_quad_record_table_seed K = with_frame K 40 [(18, 24), (31, 36), (20, 32), (19, 28), (17,
      20), (16, 16)] (do {
     let Lret = (State_Monad.return ());
     let L60b4 = (\<lambda>nd. do {
       _ \<leftarrow> guest_call K 0x80135414 [nd];
       setr K 4 nd;
       graphics_bind_render_update K;
       Lret
     });
     let L5fa4 = (\<lambda>nd. do {
       let a0 = (0 :: u32);
       n3 \<leftarrow> r8 K (nd + 3);
       a0 \<leftarrow> (if n3 = 0 then do {
         v2 \<leftarrow> r16 K 0x800E7E84;
         (if v2 = 770 then do {
           v3 \<leftarrow> r16 K 0x1F800160;
           let x = as_s16 v3;
           v4 \<leftarrow> r16 K 0x8014A7BA;
           let y = as_s16 v4;
           State_Monad.return (if x <s y then 1 else (0 :: u32))
         }
          else State_Monad.return a0)
       }
        else State_Monad.return a0);
       ev \<leftarrow> r8 K 0x800E7EAA;
       let a0 = (if ev = 28 \<or> ev = 38 then (1 :: u32) else a0);
       only_if (a0 \<noteq> 0) (do {
         nn \<leftarrow> r8 K (nd + 3);
         let e1 = 0x8014A7A0 + nn * 8;
         v7 \<leftarrow> r16 K (e1 + 0);
         w16 K (nd + 0x2E) v7;
         v8 \<leftarrow> r16 K (e1 + 2);
         w16 K (nd + 0x32) v8;
         v9 \<leftarrow> r16 K (e1 + 4);
         w16 K (nd + 0x36) v9
       });
       sp \<leftarrow> r8 K 0x1F800207;
       (if sp < 22 then Lret
        else if sp = 23 then do {
          v11 \<leftarrow> r16s K 0x1F8000DA;
          (if v11 <s 11000 then Lret
           else do {
             v12 \<leftarrow> r8 K 0x800E7EAA;
             (if \<not> (v12 < 32) then Lret
              else do {
                v13 \<leftarrow> guest_call K 0x8007778C [nd];
                (if v13 = 0 then Lret else L60b4 nd)
              })
           })
        }
         else do {
           v14 \<leftarrow> r8 K 0x800E7EAA;
           (if \<not> (v14 < 32) then Lret
            else do {
              v15 \<leftarrow> guest_call K 0x8007778C [nd];
              (if v15 = 0 then Lret else L60b4 nd)
            })
         })
     });
     let L5eac = (\<lambda>nd. do {
       w8 K (nd + 4) 1;
       w8 K (nd + 0) 1;
       w16 K (nd + 0x80) 30;
       w16 K (nd + 0x82) 60;
       w16 K (nd + 0x84) 50;
       w16 K (nd + 0x86) 100;
       w8 K (nd + 5) 0;
       w8 K (nd + 6) 0;
       w8 K (nd + 13) 0;
       w8 K (nd + 11) 0;
       w8 K (nd + 0x29) 0;
       n3 \<leftarrow> r8 K (nd + 3);
       let e1 = 0x8014A7A0 + n3 * 8;
       v17 \<leftarrow> r16 K (e1 + 0);
       w16 K (nd + 0x2E) v17;
       v18 \<leftarrow> r16 K (e1 + 2);
       w16 K (nd + 0x32) v18;
       w16 K (nd + 0x54) 0;
       v19 \<leftarrow> r16 K (e1 + 4);
       w16 K (nd + 0x36) v19;
       w16 K (nd + 0x58) 0;
       v20 \<leftarrow> r16 K (e1 + 6);
       w16 K (nd + 0x56) v20;
       only_if (n3 = 0) (do {
         v21 \<leftarrow> r16s K (nd + 0x2E);
         v22 \<leftarrow> r16s K 0x1F800160;
         only_if (v21 <s v22) (do {
           v23 \<leftarrow> r16 K 0x8014A7BA;
           w16 K (nd + 0x2E) v23
         })
       });
       v32 \<leftarrow> r16 K (nd + 0x32);
       w16 K (nd + 0x48) 512;
       w16 K (nd + 0x4A) 0;
       w16 K (nd + 0x4A) 50;
       w16 K (nd + 0x60) v32;
       L60b4 nd
     });
     let S0 = (\<lambda>nd. do {
       n3 \<leftarrow> r8 K (nd + 3);
       (if 2 \<le> n3 then L5eac nd
        else if n3 < 0 then L5eac nd
         else do {
           v26 \<leftarrow> r16s K 0x800ED098;
           (if v26 <s 4 then do { w8 K (nd + 4) 3; L5eac nd }
            else do {
              w8 K (nd + 8) 4;
              w8 K (nd + 9) 4;
              v27 \<leftarrow> r8 K (nd + 8);
              only_if (v27 \<noteq> 0) (do {
                let s4 = (0x8014A780 :: u32);
                setr K 4 nd;
                let s3 = (0 :: u32);
                let s0 = nd;
                (s4, s3, s0) \<leftarrow> loop (\<lambda>(s4, s3, s0). do {
                  graphics_bind_record_alloc K;
                  rec \<leftarrow> reg K 2;
                  let s3 = s3 + 1;
                  w32 K (s0 + 0xC0) rec;
                  w16 K (rec + 6) (-1);
                  v29 \<leftarrow> r16 K (s4 + 0);
                  w16 K (rec + 0) v29;
                  v30 \<leftarrow> r16 K (s4 + 2);
                  w16 K (rec + 2) v30;
                  v31 \<leftarrow> r16 K (s4 + 4);
                  w16 K (rec + 4) v31;
                  w32 K (rec + 8) 0;
                  w32 K (rec + 12) 0;
                  v32 \<leftarrow> r16s K (s4 + 6);
                  let a2 = v32;
                  _ \<leftarrow> guest_call K 0x80051B04 [rec, 12, a2];
                  let s4 = s4 + 8;
                  let s0 = s0 + 4;
                  v33 \<leftarrow> r8 K (nd + 8);
                  (if s3 <s v33 then State_Monad.return (Inr (s4, s3, s0))
                   else State_Monad.return (Inl (s4, s3, s0)))
                }) (s4, s3, s0);
                State_Monad.return ()
              });
              L5eac nd
            })
         })
     });
     nd \<leftarrow> reg K 4;
     st \<leftarrow> r8 K (nd + 4);
     (if st = 1 then L5fa4 nd
      else if st <s 2 then (if st = 0 then S0 nd else Lret)
       else if st = 2 then Lret
        else if st = 3 then do { despawn K nd; Lret }
         else Lret)
   })"

section \<open>\<open>game/ai/beh_sibling_angle_track.cpp\<close>\<close>

definition beh_sibling_angle_track :: "'c core_ops \<Rightarrow> ('c, unit) state" where
  "beh_sibling_angle_track K = with_frame K 32 [(18, 24), (31, 28), (17, 20), (16, 16)] (do {
     obj \<leftarrow> reg K 4;
     st \<leftarrow> r8 K (obj + 4);
     s1 \<leftarrow> r32 K (obj + 0x10);
     (if st \<noteq> 1 then (if 2 \<le> st then (if st = 2 then State_Monad.return ()
      else only_if (st = 3) (despawn K obj))
      else if st \<noteq> 0 then State_Monad.return ()
       else do {
         setr K 4 obj;
         setr K 5 0xC;
         setr K 6 0x16;
         graphics_bind_record_init K;
         r2_4 \<leftarrow> reg K 2;
         (if r2_4 \<noteq> 0 then State_Monad.return ()
          else do {
            v5 \<leftarrow> r8 K (obj + 4);
            w8 K (obj + 4) (v5 + 1);
            n3 \<leftarrow> r8 K (obj + 3);
            let td_e = (\<lambda>_. do {
              s1n3 \<leftarrow> r8 K (s1 + 3);
              let idx = shl s1n3 1 + n3;
              State_Monad.return (TD + shl idx 3)
            });
            v8 \<leftarrow> td_e () ;
            v9 \<leftarrow> r16 K (v8 + 0);
            w16 K (obj + 0x2E) v9;
            v10 \<leftarrow> td_e () ;
            v11 \<leftarrow> r16 K (v10 + 2);
            w16 K (obj + 0x32) v11;
            v12 \<leftarrow> td_e () ;
            e4 \<leftarrow> r16 K (v12 + 4);
            w16 K (obj + 0x54) 0;
            w16 K (obj + 0x36) e4;
            v14 \<leftarrow> r8 K (s1 + 3);
            (if v14 \<noteq> 0 then w16 K (obj + 0x56) 0x400 else w16 K (obj + 0x56) 0);
            w16 K (obj + 0x58) 0
          })
       })
      else do {
        g \<leftarrow> r8 K 0x1F800207;
        (if g < 0x17 then State_Monad.return ()
         else if g = 0x22 then State_Monad.return ()
          else do {
            v16 \<leftarrow> r8 K (s1 + 3);
            let s1n3 = v16 \<noteq> 0;
            v17 \<leftarrow> r8 K (obj + 3);
            let n3nz = v17 \<noteq> 0;
            (a1, vv) \<leftarrow> (if \<not> s1n3 then (if \<not> n3nz then do {
              v_4e \<leftarrow> r16 K (s1 + 0x4E);
              v_80 \<leftarrow> r16 K (s1 + 0x80);
              v_2e \<leftarrow> r16 K (obj + 0x2E);
              let a1 = as_s16 (as_u16 (v_4e - v_80));
              State_Monad.return (a1, as_s16 (as_u16 (v_2e - v_80)))
            }
             else do {
               v_82 \<leftarrow> r16 K (s1 + 0x82);
               v_4e \<leftarrow> r16 K (s1 + 0x4E);
               v_2e \<leftarrow> r16 K (obj + 0x2E);
               let a1 = as_s16 (as_u16 (v_82 - v_4e));
               State_Monad.return (a1, as_s16 (as_u16 (v_82 - v_2e)))
             })
             else if \<not> n3nz then do {
               v_52 \<leftarrow> r16 K (s1 + 0x52);
               v_84 \<leftarrow> r16 K (s1 + 0x84);
               v_36 \<leftarrow> r16 K (obj + 0x36);
               let a1 = as_s16 (as_u16 (v_52 - v_84));
               State_Monad.return (a1, as_s16 (as_u16 (v_36 - v_84)))
             }
              else do {
                v_86 \<leftarrow> r16 K (s1 + 0x86);
                v_52 \<leftarrow> r16 K (s1 + 0x52);
                v_36 \<leftarrow> r16 K (obj + 0x36);
                let a1 = as_s16 (as_u16 (v_86 - v_52));
                State_Monad.return (a1, as_s16 (as_u16 (v_86 - v_36)))
              });
            let num1 = shl vv 10;
            let den = a1;
            let quot = (if den \<noteq> 0 then sdiv num1 den else 0);
            v30 \<leftarrow> r16 K (s1 + 0x50);
            v31 \<leftarrow> r16 K (s1 + 0x32);
            let s0 = as_s16 (as_u16 (v30 - v31));
            trig \<leftarrow> rsin K (as_s16 quot);
            let prod1 = (scast s0 :: 64 word) * (scast trig :: 64 word);
            let v1 = (ucast (signed_drop_bit 12 prod1) :: u32);
            n32 \<leftarrow> r16 K (s1 + 0x32);
            let newv = as_s16 n32 + v1 - 0x60;
            w16 K (obj + 0x32) newv;
            v34 \<leftarrow> actor_bounds_cull K obj;
            (if v34 = 0 then State_Monad.return ()
             else do { setr K 4 obj; graphics_bind_render_update K })
          })
      })
   })"

section \<open>\<open>game/ai/beh_single_child_cull.cpp\<close>\<close>

definition beh_single_child_cull :: "'c core_ops \<Rightarrow> ('c, unit) state" where
  "beh_single_child_cull K = with_frame K 32 [(16, 16), (31, 24), (17, 20)] (do {
     let Lret = (State_Monad.return ());
     let S11 = (\<lambda>nd st. do {
       v1 \<leftarrow> r8 K 0x800BF89C;
       work \<leftarrow> (if v1 = 2 then State_Monad.return True
        else do { v2 \<leftarrow> r8 K 0x800E7EAA; State_Monad.return (v2 \<noteq> st) });
       only_if work (do {
         v3 \<leftarrow> guest_call K 0x8007778C [nd];
         only_if (v3 \<noteq> 0) (do {
           _ \<leftarrow> guest_call K 0x80132020 [nd];
           setr K 4 nd;
           graphics_bind_render_update K
         })
       });
       w8 K (nd + 0x2B) 0;
       Lret
     });
     let S0 = (\<lambda>nd. do {
       setr K 4 nd;
       setr K 5 12;
       setr K 6 37;
       graphics_bind_record_init K;
       r2_4 \<leftarrow> reg K 2;
       (if r2_4 \<noteq> 0 then Lret
        else do {
          w16 K (nd + 0x80) 30;
          w16 K (nd + 0x82) 60;
          w16 K (nd + 0x84) 50;
          w16 K (nd + 0x86) 100;
          w16 K (nd + 0x60) (-2350);
          w16 K (nd + 0x62) (-1630);
          w16 K (nd + 0x50) 1920;
          s \<leftarrow> r8 K (nd + 4);
          h \<leftarrow> r16 K (nd + 0x32);
          w8 K (nd + 0) 1;
          w8 K (nd + 0x29) 0;
          w8 K (nd + 0x5E) 0;
          w8 K (nd + 4) (s + 1);
          w16 K (nd + 0x32) (h + 128);
          w8 K (nd + 3) 0;
          v7 \<leftarrow> guest_call K 0x8013A730 [nd];
          w32 K (nd + 0x10) v7;
          Lret
        })
     });
     nd \<leftarrow> reg K 4;
     st \<leftarrow> r8 K (nd + 4);
     (if st = 1 then S11 nd st
      else if st <s 2 then (if st = 0 then S0 nd else Lret)
       else if st = 2 then Lret
        else if st = 3 then do { despawn K nd; Lret }
         else Lret)
   })"

section \<open>\<open>game/ai/beh_twin_record_steer.cpp\<close>\<close>

definition beh_twin_record_steer :: "'c core_ops \<Rightarrow> ('c, unit) state" where
  "beh_twin_record_steer K = with_frame K 32 [(18, 24), (31, 28), (17, 20), (16, 16)] (do {
     let Lret = (State_Monad.return ());
     let S11 = (\<lambda>nd. do {
       n29 \<leftarrow> r8 K (nd + 0x29);
       (a1v, a3v) \<leftarrow> (if n29 = 1 then do {
         rec0 \<leftarrow> r32 K (nd + 0xC0);
         v3 \<leftarrow> r16s K 0x1F800160;
         v4 \<leftarrow> r32 K (rec0 + 0x2C);
         let aa = v3 - v4;
         v5 \<leftarrow> r16s K 0x1F800164;
         v6 \<leftarrow> r32 K (rec0 + 0x34);
         let bb = v5 - v6;
         v1 \<leftarrow> guest_call K 0x800781E0 [aa, bb];
         let (a1v, a3v) = (if v1 <s 60 then (let a1v = (0 :: u32) in (a1v, (0 :: u32))) else (let
             (a1v, a3v) = (if v1 <s 140 then (let a1v = shr (- v1) 1 in (a1v, (0 :: u32))) else
             (let a1v = (-70 :: u32) in (a1v, shr (140 - v1) 1))) in (a1v, a3v)));
         State_Monad.return (a1v, a3v)
       }
        else do {
          let (a1v, a3v) = (if n29 = 2 then (let a1v = (-70 :: u32) in (a1v, (-70 :: u32))) else
              (let a1v = (0 :: u32) in (a1v, (0 :: u32))));
          State_Monad.return (a1v, a3v)
        });
       rec0 \<leftarrow> r32 K (nd + 0xC0);
       v9 \<leftarrow> r16s K (rec0 + 0x0C);
       let nv = clamp_step v9 a1v 5;
       only_if (nv \<noteq> None) (do {
         v10 \<leftarrow> r32 K (nd + 0xC0);
         w16 K (v10 + 0x0C) (the nv)
       });
       rec1 \<leftarrow> r32 K (nd + 0xC4);
       v12 \<leftarrow> r16s K (rec1 + 0x0C);
       let nv = clamp_step v12 a3v 10;
       only_if (nv \<noteq> None) (do {
         v13 \<leftarrow> r32 K (nd + 0xC4);
         w16 K (v13 + 0x0C) (the nv)
       });
       v14 \<leftarrow> r8 K 0x800E7EAA;
       only_if (v14 < 22) (do {
         v15 \<leftarrow> actor_bounds_cull K nd;
         only_if (v15 \<noteq> 0) (do { setr K 4 nd; graphics_bind_render_update K })
       });
       Lret
     });
     let S0 = (\<lambda>nd. do {
       w8 K (nd + 8) 2;
       v16 \<leftarrow> r16s K 0x800ED098;
       (if v16 <s 2 then do { w8 K (nd + 4) 3; Lret }
        else do {
          w16 K (nd + 0x82) 140;
          w16 K (nd + 0x80) 140;
          w16 K (nd + 0x84) 10;
          w8 K (nd + 9) 2;
          w8 K (nd + 4) 1;
          w8 K (nd + 0) 1;
          w8 K (nd + 13) 0;
          w8 K (nd + 11) 0;
          w16 K (nd + 0x86) 70;
          setr K 4 2;
          for_each (upto_u32 2) (\<lambda>iter1. do {
            graphics_bind_record_alloc K;
            rec \<leftarrow> reg K 2;
            w32 K (nd + 0xC0 + 4 * iter1) rec;
            w16 K (rec + 6) (iter1 - 1);
            w16 K (rec + 0) (if iter1 = 0 then 0 else -140);
            w16 K (rec + 2) 0;
            w16 K (rec + 4) 0;
            w32 K (rec + 8) 0;
            w32 K (rec + 12) 0;
            graphics_bind_install_scene_record K rec 12 iter1
          });
          Lret
        })
     });
     nd \<leftarrow> reg K 4;
     st \<leftarrow> r8 K (nd + 4);
     (if st = 1 then S11 nd
      else if st <s 2 then (if st = 0 then S0 nd else Lret)
       else if st = 2 then Lret
        else if st = 3 then do { despawn K nd; Lret }
         else Lret)
   })"

section \<open>\<open>game/ai/beh_two_child_steer.cpp\<close>\<close>

definition beh_two_child_steer :: "'c core_ops \<Rightarrow> ('c, unit) state" where
  "beh_two_child_steer K = with_frame K 40 [(17, 20), (31, 32), (19, 28), (18, 24), (16, 16)] (do
      {
     let Lret = (State_Monad.return ());
     let Lec = (\<lambda>nd. do {
       a \<leftarrow> r16 K 0x1F800162;
       b \<leftarrow> r16 K (nd + 0x32);
       let a1 = as_s16 (as_u16 (a - b));
       v3 \<leftarrow> guest_call K 0x800778E4 [nd, a1];
       (if v3 = 0 then Lret
        else do {
          rc1 \<leftarrow> r32 K (nd + 0xC4);
          v5 \<leftarrow> r16 K (rc1 + 10);
          w16 K (rc1 + 10) ((v5 - 32) AND 0x0FFF);
          setr K 4 nd;
          graphics_bind_render_update K;
          Lret
        })
     });
     let L_eb8 = (\<lambda>nd. do { _ \<leftarrow> guest_call K 0x80131840 [nd]; Lec nd });
     let L_e74 = (\<lambda>nd st. do {
       n5 \<leftarrow> r8 K (nd + 5);
       (if n5 = st then L_eb8 nd
        else if n5 < 2 then (if n5 \<noteq> 0 then Lec nd
         else do {
           v7 \<leftarrow> r8 K 0x800BF8B8;
           (if v7 = 255 then w8 K (nd + 5) 2 else w8 K (nd + 5) st);
           Lec nd
         })
         else Lec nd)
     });
     let S0 = (\<lambda>nd. do {
       v8 \<leftarrow> r16s K 0x800ED098;
       (if v8 <s 2 then do { w8 K (nd + 4) 3; Lret }
        else do {
          orig \<leftarrow> r8 K (nd + 4);
          w8 K (nd + 8) 2;
          w8 K (nd + 9) 2;
          w8 K (nd + 0) 1;
          w8 K (nd + 13) 0;
          w8 K (nd + 11) 0;
          w8 K (nd + 4) (orig + 1);
          setr K 4 orig;
          let s0 = nd;
          let s2 = (0 :: u32);
          (s0, s2) \<leftarrow> loop (\<lambda>(s0, s2). do {
            graphics_bind_record_alloc K;
            rec \<leftarrow> reg K 2;
            let s2 = s2 + 1;
            w32 K (s0 + 0xC0) rec;
            w16 K (rec + 6) (-1);
            w32 K (rec + 0) 0;
            w16 K (rec + 4) 0;
            w32 K (rec + 8) 0;
            w32 K (rec + 12) 0;
            let s0 = s0 + 4;
            (if s2 <s 2 then State_Monad.return (Inr (s0, s2))
             else State_Monad.return (Inl (s0, s2)))
          }) (s0, s2);
          v11 \<leftarrow> r32 K (nd + 0xC0);
          _ \<leftarrow> guest_call K 0x80051B04 [v11, 12, 2];
          v12 \<leftarrow> r32 K (nd + 0xC4);
          _ \<leftarrow> guest_call K 0x80051B04 [v12, 12, 3];
          rc1 \<leftarrow> r32 K (nd + 0xC4);
          w16 K (rc1 + 0) 6;
          w16 K (rc1 + 2) (-1400);
          w16 K (nd + 0x80) 50;
          w16 K (nd + 0x82) 100;
          w16 K (nd + 0x84) 1328;
          w16 K (nd + 0x86) 1328;
          w16 K (nd + 0x4A) 1;
          w16 K (nd + 0x40) 0;
          w16 K (nd + 0x42) 0;
          w16 K (nd + 0x48) 0;
          w16 K (nd + 0x4C) 3;
          Lret
        })
     });
     nd \<leftarrow> reg K 4;
     st \<leftarrow> r8 K (nd + 4);
     (if st = 1 then L_e74 nd st
      else if st <s 2 then (if st = 0 then S0 nd else Lret)
       else if st = 2 then Lret
        else if st = 3 then do { despawn K nd; Lret }
         else Lret)
   })"

end
