(* ===== verification/ReleaseTriggers.thy ===== *)
theory ReleaseTriggers
  imports ModelBinding SceneControl
begin

text \<open>
  Behaviour handlers that arm, release and re-arm scene objects: the jump-table release trigger,
  the visibility-gated dispatcher, the scatter ramp, the substate orchestrators and the velocity
  machine of the pickups. A jump table is the \<open>switch\<close> of the source; its labels are
  local functions.
\<close>

section \<open>Layout\<close>

definition kPlaySfx :: u32 where "kPlaySfx = 0x80074590"
definition kSteerWanderer :: u32 where "kSteerWanderer = 0x801141C8"
definition kRandom :: u32 where "kRandom = 0x8009A450"
definition kStepMotion :: u32 where "kStepMotion = 0x8007778C"
definition kCommitGroundPos :: u32 where "kCommitGroundPos = 0x80077B5C"
definition kSyncCollectible :: u32 where "kSyncCollectible = 0x8004B374"
definition kBeginCollect :: u32 where "kBeginCollect = 0x8004B0D8"
definition kArmCollectible :: u32 where "kArmCollectible = 0x8004B354"
definition kSpawnGetPopup :: u32 where "kSpawnGetPopup = 0x8004BD04"
definition kBindGetPopup :: u32 where "kBindGetPopup = 0x8004BEA8"
definition kEnterCutsceneMode :: u32 where "kEnterCutsceneMode = 0x80042354"
definition kPlayerLeftCutscene :: u32 where "kPlayerLeftCutscene = 0x8005308C"
definition kRunScript :: u32 where "kRunScript = 0x80040CDC"
definition kAwaitScript :: u32 where "kAwaitScript = 0x80041098"
definition kGeomTableGround :: u32 where "kGeomTableGround = 0x800ECF80"
definition kGeomDefGround :: u32 where "kGeomDefGround = 0x8014C808"
definition kBucketScript :: u32 where "kBucketScript = 0x80148574"
definition kAreaEventFlags :: u32 where "kAreaEventFlags = 0x800BF9DC"
definition kCarrierBusy :: u32 where "kCarrierBusy = 0x1F800207"
definition kPickedUpX :: u32 where "kPickedUpX = 0x1F800160"
definition kPickedUpY :: u32 where "kPickedUpY = 0x1F800162"
definition kPickedUpZ :: u32 where "kPickedUpZ = 0x1F800164"
definition kItemGroundPickup :: u32 where "kItemGroundPickup = 58"
definition kItemBucket :: u32 where "kItemBucket = 40"
definition kSfxCollect :: u32 where "kSfxCollect = 45"
definition kSfxCollectBank :: u32 where "kSfxCollectBank = 66"
definition kSfxLaunch :: u32 where "kSfxLaunch = 146"
definition kQuarterTurn :: u32 where "kQuarterTurn = 4096"
definition kHalfQuarter :: u32 where "kHalfQuarter = 2048"
definition SPAWN :: u32 where "SPAWN = 0"
definition ACTIVE :: u32 where "ACTIVE = 1"
definition COLLECTED :: u32 where "COLLECTED = 2"
definition RETIRE :: u32 where "RETIRE = 3"
definition CARRIED :: u32 where "CARRIED = 1"
definition GROUND :: u32 where "GROUND = 0"
definition LAUNCH :: u32 where "LAUNCH = 0"
definition SETTLING :: u32 where "SETTLING = 1"
definition RESTING :: u32 where "RESTING = 2"
definition HANDOVER :: u32 where "HANDOVER = 0"
definition AWAIT_PLAYER :: u32 where "AWAIT_PLAYER = 1"
definition AWAIT_SCRIPT :: u32 where "AWAIT_SCRIPT = 2"
definition kScriptTokenFree :: u32 where "kScriptTokenFree = 255"
definition NO_TURN :: u32 where "NO_TURN = 0"
definition TURN_RIGHT :: u32 where "TURN_RIGHT = 2"

section \<open>\<open>game/ai/beh_box_rearm_sub.cpp\<close>\<close>

definition beh_box_rearm_sub :: "'c core_ops \<Rightarrow> ('c, unit) state" where
  "beh_box_rearm_sub K = with_frame K 24 [(16, 16), (31, 20)] (do {
     nd \<leftarrow> reg K 4;
     st \<leftarrow> r8 K (nd + 4);
     (if st = 1 then do {
       v3 \<leftarrow> actor_bounds_cull K nd;
       only_if (v3 \<noteq> 0) (do {
         _ \<leftarrow> guest_call K 0x8013AC98 [nd];
         State_Monad.return ()
       });
       w8 K (nd + 0x29) 0;
       w8 K (nd + 0x2B) 0
     }
      else if st < 2 then only_if (st = 0) (do {
        w16 K (nd + 0x80) 0x50;
        w16 K (nd + 0x82) 0xA0;
        w16 K (nd + 0x84) 200;
        w16 K (nd + 0x86) 400;
        w8 K (nd + 4) 1;
        w8 K (nd + 0) 1;
        w8 K (nd + 0x0B) 0;
        w8 K (nd + 0x2B) 0;
        w8 K (nd + 0x29) 0;
        w8 K (nd + 0x5E) 0;
        w16 K (nd + 0x40) 0x1E
      })
       else if st = 2 then do {
         v4 \<leftarrow> r8 K (nd + 5);
         only_if (v4 = 0) (do {
           w8 K (nd + 4) 1;
           w8 K (nd + 0) 1;
           w8 K (nd + 0x29) 1;
           v5 \<leftarrow> r8 K (nd + 0x5E);
           w8 K (nd + 5) v5
         });
         _ \<leftarrow> guest_call K 0x8013AC98 [nd];
         State_Monad.return ()
       }
        else only_if (st = 3) (despawn K nd))
   })"

section \<open>\<open>game/ai/beh_jumptable_release_trigger.cpp\<close>\<close>

definition release_position_801244e8 :: "'c core_ops \<Rightarrow> u32 \<Rightarrow> u32
    \<Rightarrow> ('c, unit) state" where
  "release_position_801244e8 K obj mode = do {
     ref \<leftarrow> r32 K (obj + 0x10);
     st \<leftarrow> r8 K (obj + 5);
     (if st = 0 then do {
       w8 K (obj + 5) 1;
       (if mode = 0 then do {
         v3 \<leftarrow> r16s K (ref + 0x2C);
         w16 K (obj + 0x2E) (v3 - 20);
         v4 \<leftarrow> r16s K (ref + 0x30);
         w16 K (obj + 0x32) (v4 - 200);
         v5 \<leftarrow> r16 K (ref + 0x34);
         w16 K (obj + 0x36) v5
       }
        else do {
          let TBL = (0x801498B0 :: u32);
          v6 \<leftarrow> r16s K (obj + 0x60);
          let idx = (v6 - 2) * 6;
          v7 \<leftarrow> r16 K (TBL + idx + 0);
          w16 K (obj + 0x2E) v7;
          v8 \<leftarrow> r16 K (TBL + idx + 2);
          w16 K (obj + 0x32) v8;
          v9 \<leftarrow> r16 K (TBL + idx + 4);
          w16 K (obj + 0x36) v9
        });
       w8 K (obj + 0xB) 0x13;
       w16 K (obj + 0x54) 0x100;
       setr K 4 obj;
       setr K 5 0x8014C808;
       setr K 6 3;
       graphics_bind_set_geom K
     }
      else if st \<noteq> 1 then State_Monad.return ()
       else do {
         v10 \<leftarrow> actor_bounds_cull K obj;
         only_if (v10 \<noteq> 0) (do {
           let xf = obj + 0x98;
           mtx_identity K xf;
           setr K 4 (obj + 0x54);
           setr K 5 xf;
           call_guest K 0x800847F0;
           setr K 4 0x1F8000F8;
           setr K 5 xf;
           call_guest K 0x80084360;
           setr K 4 obj;
           call_guest K 0x80077B5C
         });
         phase \<leftarrow> r8 K 0x800BF9DD;
         (if phase = 0xE then do {
           call_guest K 0x8009A450;
           r2_12 \<leftarrow> reg K 2;
           only_if ((r2_12 AND 0x3F) = 0) (do {
             _ \<leftarrow> spawn_and_init K 0x107 (obj + 0x2C) (-10);
             State_Monad.return ()
           });
           call_guest K 0x8009A450;
           r2_13 \<leftarrow> reg K 2;
           let r2 = r2_13 AND 3;
           v14 \<leftarrow> r16s K (ref + 0x2C);
           w16 K (obj + 0x2E) (v14 + ((r2 - 1) * 0x28));
           v15 \<leftarrow> r16 K (ref + 0x30);
           w16 K (obj + 0x32) v15;
           last1 \<leftarrow> r16 K (ref + 0x34);
           w8 K (obj + 0x5E) 1;
           w8 K (obj + 5) 0;
           w8 K (obj + 6) 0;
           w16 K (obj + 0x36) last1
         }
          else only_if (phase < 0xE) (do { setr K 4 obj; call_guest K 0x80124328 }))
       })
   }"

definition beh_jumptable_release_trigger_l399 :: "'c core_ops \<Rightarrow> u32 \<Rightarrow> ('c,
    unit) state" where
  "beh_jumptable_release_trigger_l399 K obj = do {
     _ \<leftarrow> actor_bounds_cull K obj;
     v1 \<leftarrow> r8 K (obj + 5);
     let sub1 = as_s8 v1;
     (if (sub1 <s 0 \<or> sub1 <s 2) \<or> 4 \<le>s sub1 then State_Monad.return ()
      else do {
        inv_give_and_flag K 0x77 1;
        setr K 4 obj;
        call_guest K 0x8004B0D8;
        sfx_trigger K 0x11 0 0;
        n3 \<leftarrow> r8 K (obj + 3);
        w8 K (obj + 4) 3;
        (if n3 = 0 then do {
          v3 \<leftarrow> r16 K (obj + 0x60);
          let sh = as_s16 v3;
          cur \<leftarrow> r8 K 0x800BF9E7;
          let bit1 = shl 1 (unat (sh AND 31));
          w8 K 0x800BF9E7 (cur OR bit1)
        }
         else if n3 = 1 \<or> n3 = 5 then do {
           v5 \<leftarrow> r16 K (obj + 0x60);
           let sh = as_s16 v5;
           cur \<leftarrow> r8 K 0x800BF9E8;
           let bit1 = shl 1 (unat (sh AND 31));
           w8 K 0x800BF9E8 (cur OR bit1)
         }
          else State_Monad.return ())
      })
   }"

definition beh_jumptable_release_trigger_l228 :: "'c core_ops \<Rightarrow> u32 \<Rightarrow> (u32
    \<Rightarrow> ('c, 'a) state) \<Rightarrow> ('c, 'a) state \<Rightarrow> ('c, 'a) state" where
  "beh_jumptable_release_trigger_l228 K obj epi_done epilogue = do {
     n6 \<leftarrow> r8 K (obj + 6);
     s0 \<leftarrow> r32 K (obj + 0x10);
     let fall_into_1 = False;
     let rest1 = (\<lambda>fall_into_1. do {
       v15 \<leftarrow> r8 K (s0 + 0x3F);
       (if v15 = 0 then epi_done obj
        else do {
          v16 \<leftarrow> enqueue_queue_a K obj;
          w8 K (obj + 1) v16;
          setr K 4 s0;
          setr K 5 (obj + 0x88);
          setr K 6 0x1F8000C0;
          call_guest K 0x80051D90;
          r0 \<leftarrow> r16 K 0x1F8000C0;
          w16 K (obj + 0x2E) r0;
          r2 \<leftarrow> r16 K (0x1F8000C0 + 2);
          w16 K (obj + 0x32) r2;
          r4 \<leftarrow> r16 K (0x1F8000C0 + 4);
          setr K 4 obj;
          w16 K (obj + 0x36) r4;
          call_guest K 0x80077B5C;
          w8 K (obj + 0x29) 0;
          epilogue
        })
     });
     (if n6 = 0 then do {
       setr K 4 obj;
       setr K 5 0x8015C808;
       setr K 6 4;
       graphics_bind_set_geom K;
       r2_20 \<leftarrow> reg K 2;
       w8 K (obj + 6) r2_20;
       w8 K (obj + 0xB) 0x10;
       w16 K (obj + 0x5A) 0xA00;
       w8 K (obj + 8) 0xFC;
       w16 K (obj + 0x88) 0x18;
       w8 K (obj + 0x47) 0;
       w16 K (obj + 0x8A) 0x50;
       w16 K (obj + 0x8C) 0;
       let fall_into_1 = True;
       rest1 fall_into_1
     }
      else if n6 \<noteq> 1 then do { w8 K (obj + 0x29) 0; epilogue }
       else rest1 fall_into_1)
   }"

definition beh_jumptable_release_trigger_l281 :: "'c core_ops \<Rightarrow> u32 \<Rightarrow> u32
    \<Rightarrow> ('c, 'a) state \<Rightarrow> (u32 \<Rightarrow> ('c, 'a) state) \<Rightarrow>
    ('c, 'a) state" where
  "beh_jumptable_release_trigger_l281 K n3 obj epilogue epi_done = (if n3 = 3 then do {
     n6 \<leftarrow> r8 K (obj + 6);
     (if n6 = 0 then do {
       w8 K (obj + 6) 1;
       setr K 4 obj;
       setr K 5 0x8015C808;
       setr K 6 4;
       graphics_bind_set_geom K;
       w8 K (obj + 0x29) 0;
       epilogue
     }
      else if n6 \<noteq> 1 then do { w8 K (obj + 0x29) 0; epilogue }
       else do {
         setr K 4 obj;
         call_guest K 0x8004DAEC;
         r2_22 \<leftarrow> reg K 2;
         (if r2_22 = 0 then epi_done obj else do { w8 K (obj + 4) 3; epi_done obj })
       })
   }
    else if n3 = 4 then do {
      v23 \<leftarrow> r8 K 0x800BF9DD;
      only_if (0xF \<le> v23) (w8 K (obj + 0x5E) 2);
      v \<leftarrow> r8 K (obj + 0x5E);
      (if v = 1 then do {
        setr K 4 obj;
        call_guest K 0x801249D4;
        w8 K (obj + 0x29) 0;
        epilogue
      }
       else if v < 2 then do {
         release_position_801244e8 K obj 0;
         w8 K (obj + 0x29) 0;
         epilogue
       }
        else if v = 2 then do {
          release_position_801244e8 K obj 1;
          w8 K (obj + 0x29) 0;
          epilogue
        }
         else do { w8 K (obj + 0x29) 0; epilogue })
    }
     else if n3 = 5 then do {
       setr K 4 obj;
       call_guest K 0x80124C6C;
       w8 K (obj + 0x29) 0;
       epilogue
     }
      else if n3 = 6 then do {
        n6 \<leftarrow> r8 K (obj + 6);
        (if n6 = 0 then do {
          v26 \<leftarrow> r8 K 0x800BF8BC;
          (if v26 \<noteq> 0xFF then epi_done obj
           else do {
             v2e \<leftarrow> r16 K (obj + 0x2E);
             w8 K (obj + 6) 1;
             w8 K (obj + 0) 1;
             w16 K (obj + 0x7E) v2e;
             epi_done obj
           })
        }
         else if n6 \<noteq> 1 then do { w8 K (obj + 0x29) 0; epilogue }
          else do {
            v28 \<leftarrow> actor_bounds_cull K obj;
            (if v28 = 0 then epi_done obj
             else do {
               setr K 4 obj;
               call_guest K 0x80123E9C;
               a \<leftarrow> r16 K (obj + 0x7E);
               b \<leftarrow> r16 K (obj + 0x64);
               w16 K (obj + 0x2E) (a + b);
               epi_done obj
             })
          })
      }
       else epi_done obj)"

definition beh_jumptable_release_trigger :: "'c core_ops \<Rightarrow> ('c, unit) state" where
  "beh_jumptable_release_trigger K = with_frame K 40 [(18, 24), (31, 32), (19, 28), (17, 20), (16,
      16)] (do {
     let state2 = (\<lambda>obj. beh_jumptable_release_trigger_l399 K obj);
     let epilogue = (State_Monad.return ());
     let epi_done = (\<lambda>obj. w8 K (obj + 0x29) 0);
     obj \<leftarrow> reg K 4;
     st \<leftarrow> r8 K (obj + 4);
     (if st \<noteq> 1 then (if 2 \<le> st then (if st = 2 then state2 obj
      else if st = 3 then despawn K obj else State_Monad.return ())
      else if st \<noteq> 0 then State_Monad.return ()
       else do {
         w8 K (obj + 4) 1;
         g \<leftarrow> r32 K 0x800ECF80;
         w8 K (obj + 0xB) 0x12;
         w16 K (obj + 0x80) 0x1E;
         w16 K (obj + 0x82) 0x28;
         w16 K (obj + 0x84) 0x10;
         w16 K (obj + 0x5C) 0;
         w8 K (obj + 0x46) 0;
         w8 K (obj + 0x47) 0;
         w16 K (obj + 0x54) 0;
         w16 K (obj + 0x56) 0;
         w16 K (obj + 0x58) 0;
         w16 K (obj + 0x86) 0x20;
         w8 K (obj + 0x29) 0;
         w16 K (obj + 0x6C) 0;
         w32 K (obj + 0x3C) g
       })
      else do {
        n3 \<leftarrow> r8 K (obj + 3);
        (if 7 \<le> n3 then epi_done obj
         else if n3 = 0 then do {
           setr K 4 obj;
           call_guest K 0x801241BC;
           w8 K (obj + 0x29) 0;
           epilogue
         }
          else if n3 = 1 then do {
            v11 \<leftarrow> r8 K 0x800BF9DD;
            only_if (0xF \<le> v11) (w8 K (obj + 0x5E) 1);
            v \<leftarrow> r8 K (obj + 0x5E);
            (if v = 0 then do {
              release_position_801244e8 K obj 0;
              w8 K (obj + 0x29) 0;
              epilogue
            }
             else if v \<noteq> 1 then epi_done obj
              else do {
                setr K 4 obj;
                call_guest K 0x801246B4;
                w8 K (obj + 0x29) 0;
                epilogue
              })
          }
           else if n3 = 2 then beh_jumptable_release_trigger_l228 K obj epi_done epilogue
            else beh_jumptable_release_trigger_l281 K n3 obj epilogue epi_done)
      })
   })"

section \<open>\<open>game/ai/beh_pickup_collect_trigger.cpp\<close>\<close>

definition do_case0 :: "'c core_ops \<Rightarrow> u32 \<Rightarrow> ('c, unit) state" where
  "do_case0 K obj = do {
     v1 \<leftarrow> r8 K (obj + 0x2B);
     (if v1 \<noteq> 3 then State_Monad.return ()
      else do {
        v2 \<leftarrow> r8 K (obj + 3);
        v3 \<leftarrow> r16 K (0x800A4CF8 + v2 * 2);
        let sid = as_s16 v3;
        sceneNode \<leftarrow> scene_entity K (as_u16 sid) 0;
        w32 K (obj + 0x14) sceneNode;
        only_if (sceneNode \<noteq> 0) (do {
          v5 \<leftarrow> r8 K 0x800BF8ED;
          (if v5 = 0 then do {
            v6 \<leftarrow> r8 K (obj + 5);
            w8 K (obj + 5) (v6 + 1);
            setr K 31 0x80074384;
            _ \<leftarrow> scene_events_arm K 0x39;
            State_Monad.return ()
          }
           else do { v7 \<leftarrow> r8 K (obj + 5); w8 K (obj + 5) (v7 + 2) })
        });
        w8 K 0x800BF809 1
      })
   }"

definition beh_pickup_collect_trigger_body :: "'c core_ops \<Rightarrow> ('c, bool) state" where
  "beh_pickup_collect_trigger_body K = do {
     obj \<leftarrow> reg K 4;
     st \<leftarrow> r8 K (obj + 4);
     (if st \<noteq> 1 then (if 2 \<le> st then (if st = 2 then State_Monad.return True
      else if st \<noteq> 3 then State_Monad.return True
       else do { despawn K obj; State_Monad.return True })
      else if st \<noteq> 0 then State_Monad.return True
       else do {
         v3 \<leftarrow> r8 K 0x800BF873;
         (if v3 \<noteq> 0 then do { w8 K (obj + 4) 3; State_Monad.return True }
          else do {
            setr K 4 obj;
            setr K 5 1;
            setr K 6 0x18;
            graphics_bind_record_init K;
            r2_4 \<leftarrow> reg K 2;
            (if r2_4 \<noteq> 0 then State_Monad.return True
             else do {
               w16 K (obj + 0x80) 0x140;
               w16 K (obj + 0x82) 0x280;
               w16 K (obj + 0x84) 0x15E;
               w16 K (obj + 0x86) 0x15E;
               w8 K (obj + 0) 1;
               w8 K (obj + 0x2B) 0;
               w16 K (obj + 0x54) 0;
               v5 \<leftarrow> r8 K (obj + 4);
               w8 K (obj + 4) (v5 + 1);
               v6 \<leftarrow> r8 K (obj + 3);
               sid \<leftarrow> r16 K (0x800A4CEC + v6 * 2);
               w16 K (obj + 0x58) 0;
               w16 K (obj + 0x56) sid;
               setr K 4 obj;
               graphics_bind_render_update K;
               State_Monad.return True
             })
          })
       })
      else do {
        _ \<leftarrow> actor_bounds_cull K obj;
        sub1 \<leftarrow> r8 K (obj + 5);
        let iVar3 = (0 :: u32);
        let do_inc = False;
        (if sub1 = 2 then do {
          v9 \<leftarrow> r16 K 0x800E7E68;
          v10 \<leftarrow> r16 K 0x1F800174;
          only_if ((v9 AND v10) \<noteq> 0) (w8 K (obj + 5) 3);
          only_if (do_inc \<and> iVar3 \<noteq> 0) (do {
            v11 \<leftarrow> r8 K (obj + 5);
            w8 K (obj + 5) (v11 + 1)
          });
          w8 K (obj + 0x2B) 0;
          State_Monad.return True
        }
         else if sub1 < 3 then (if sub1 = 0 then do {
           do_case0 K obj;
           only_if (do_inc \<and> iVar3 \<noteq> 0) (do {
             v12 \<leftarrow> r8 K (obj + 5);
             w8 K (obj + 5) (v12 + 1)
           });
           w8 K (obj + 0x2B) 0;
           State_Monad.return True
         }
          else if sub1 \<noteq> 1 then do { w8 K (obj + 0x2B) 0; State_Monad.return True }
           else do {
             v13 \<leftarrow> bg_scene_transition_sm_ready_for_progress K;
             let iVar3 = (if v13 then 1 else (0 :: u32));
             let do_inc = True;
             only_if (do_inc \<and> iVar3 \<noteq> 0) (do {
               v14 \<leftarrow> r8 K (obj + 5);
               w8 K (obj + 5) (v14 + 1)
             });
             w8 K (obj + 0x2B) 0;
             State_Monad.return True
           })
          else if sub1 = 4 then do {
            p \<leftarrow> r32 K (obj + 0x14);
            v16 \<leftarrow> r8 K (p + 4);
            (if 1 < v16 then do {
              r29_17 \<leftarrow> reg K 29;
              let buf = r29_17 + 0x10;
              v18 \<leftarrow> r16 K (obj + 0x2E);
              w16 K (buf + 2) v18;
              n84 \<leftarrow> r16 K (obj + 0x84);
              let x = as_s16 n84;
              let sgn1 = shr (shl n84 16) 31;
              let half = sar 1 (x + sgn1);
              v20 \<leftarrow> r16 K (obj + 0x32);
              w16 K (buf + 6) (v20 - half);
              v21 \<leftarrow> r16 K (obj + 0x36);
              w16 K (buf + 0xA) v21;
              w8 K (obj + 0) 2;
              w8 K (obj + 4) 3;
              v22 \<leftarrow> r32 K (obj + 0xC0);
              src \<leftarrow> r32 K (v22 + 0x40);
              setr K 4 src;
              setr K 5 buf;
              setr K 6 0x800;
              setr K 7 0x18;
              call_guest K 0x80027144;
              sfx_trigger K 0xC 0 0;
              v24 \<leftarrow> r32 K (obj + 0xC0);
              src \<leftarrow> r32 K (v24 + 0x40);
              setr K 4 src;
              setr K 5 buf;
              setr K 6 0x800;
              setr K 7 8;
              call_guest K 0x80027144;
              sfx_trigger K 0xC 0 0;
              setr K 4 0x39;
              call_guest K 0x80040C00;
              prev \<leftarrow> r8 K 0x800BFA23;
              v27 \<leftarrow> r8 K (obj + 3);
              let bit1 = shl 1 (unat (v27 AND 0x1F));
              w8 K 0x800BFA23 (prev OR (as_u8 bit1));
              v28 \<leftarrow> r8 K 0x800BF8EE;
              (if v28 = 0 then do {
                setr K 31 0x80074548;
                _ \<leftarrow> scene_events_arm K 0x3A;
                w8 K (obj + 0x2B) 0;
                State_Monad.return True
              }
               else do {
                 only_if ((prev OR (bit1 AND 0xFF)) = 0x1F) (do {
                   setr K 4 0x3A;
                   call_guest K 0x80040C00
                 });
                 only_if (do_inc \<and> iVar3 \<noteq> 0) (do {
                   v29 \<leftarrow> r8 K (obj + 5);
                   w8 K (obj + 5) (v29 + 1)
                 });
                 w8 K (obj + 0x2B) 0;
                 State_Monad.return True
               })
            }
             else do {
               only_if (do_inc \<and> iVar3 \<noteq> 0) (do {
                 v30 \<leftarrow> r8 K (obj + 5);
                 w8 K (obj + 5) (v30 + 1)
               });
               w8 K (obj + 0x2B) 0;
               State_Monad.return True
             })
          }
           else do {
             (iVar3, do_inc) \<leftarrow> (if 3 < sub1 then do {
               only_if (sub1 = 99) (do {
                 w8 K 0x800BF809 0;
                 w8 K (obj + 0) 1;
                 w8 K (obj + 5) 0;
                 do_case0 K obj
               });
               State_Monad.return (iVar3, do_inc)
             }
              else do {
                p \<leftarrow> r32 K (obj + 0x14);
                v32 \<leftarrow> r8 K (p + 4);
                only_if (v32 < 2) (do { w8 K (p + 4) 2; w32 K (obj + 0x14) 0 });
                v33 \<leftarrow> r8 K (obj + 3);
                lim \<leftarrow> r32 K (0x800A4D04 + v33 * 4);
                v35 \<leftarrow> r32 K 0x800BF874;
                (if v35 < lim then do {
                  w8 K (obj + 0) 2;
                  w8 K (obj + 5) 99;
                  State_Monad.return (iVar3, do_inc)
                }
                 else do {
                   setr K 4 obj;
                   call_guest K 0x8007413C;
                   iVar3 \<leftarrow> reg K 2;
                   w32 K (obj + 0x14) iVar3;
                   State_Monad.return (iVar3, True)
                 })
              });
             only_if (do_inc \<and> iVar3 \<noteq> 0) (do {
               v37 \<leftarrow> r8 K (obj + 5);
               w8 K (obj + 5) (v37 + 1)
             });
             w8 K (obj + 0x2B) 0;
             State_Monad.return True
           })
      })
   }"

definition beh_pickup_collect_trigger :: "'c core_ops \<Rightarrow> ('c, unit) state" where
  "beh_pickup_collect_trigger K = do {
     r29_1 \<leftarrow> reg K 29;
     setr K 29 (r29_1 - 0x30);
     _ \<leftarrow> beh_pickup_collect_trigger_body K;
     r29_2 \<leftarrow> reg K 29;
     setr K 29 (r29_2 + 0x30)
   }"

section \<open>\<open>game/ai/beh_prng_velocity_machine.cpp\<close>\<close>

definition motion_block_x :: "'c core_ops \<Rightarrow> u32 \<Rightarrow> ('c, u32) state" where
  "motion_block_x K a = r16 K (a + 0)"

definition motion_block_y :: "'c core_ops \<Rightarrow> u32 \<Rightarrow> ('c, u32) state" where
  "motion_block_y K a = r16 K (a + 2)"

definition motion_block_spin :: "'c core_ops \<Rightarrow> u32 \<Rightarrow> ('c, u32) state"
    where
  "motion_block_spin K a = r16 K (a + 12)"

definition motion_block_set_anchor :: "'c core_ops \<Rightarrow> u32 \<Rightarrow> u32
    \<Rightarrow> u32 \<Rightarrow> u32 \<Rightarrow> ('c, unit) state" where
  "motion_block_set_anchor K a x y z = do {
     w16 K (a + 6) x;
     w16 K (a + 8) y;
     w16 K (a + 10) z
   }"

definition motion_block_set_anchor_x :: "'c core_ops \<Rightarrow> u32 \<Rightarrow> u32
    \<Rightarrow> ('c, unit) state" where
  "motion_block_set_anchor_x K a v = w16 K (a + 6) v"

definition motion_block_set_anchor_y :: "'c core_ops \<Rightarrow> u32 \<Rightarrow> u32
    \<Rightarrow> ('c, unit) state" where
  "motion_block_set_anchor_y K a v = w16 K (a + 8) v"

definition motion_block_set_anchor_z :: "'c core_ops \<Rightarrow> u32 \<Rightarrow> u32
    \<Rightarrow> ('c, unit) state" where
  "motion_block_set_anchor_z K a v = w16 K (a + 10) v"

definition motion_block_set_spin :: "'c core_ops \<Rightarrow> u32 \<Rightarrow> u32 \<Rightarrow>
    ('c, unit) state" where
  "motion_block_set_spin K a v = w16 K (a + 12) v"

definition motion_block_yaw :: "'c core_ops \<Rightarrow> u32 \<Rightarrow> ('c, u32) state" where
  "motion_block_yaw K a = do {
     v1 \<leftarrow> r16 K (a + 14);
     State_Monad.return (as_s16 v1)
   }"

definition motion_block_yaw_bits :: "'c core_ops \<Rightarrow> u32 \<Rightarrow> ('c, u32) state"
    where
  "motion_block_yaw_bits K a = r16 K (a + 14)"

definition motion_block_set_yaw :: "'c core_ops \<Rightarrow> u32 \<Rightarrow> u32 \<Rightarrow>
    ('c, unit) state" where
  "motion_block_set_yaw K a v = w16 K (a + 14) v"

definition motion_block_vel :: "'c core_ops \<Rightarrow> u32 \<Rightarrow> ('c, u32) state" where
  "motion_block_vel K a = do {
     v1 \<leftarrow> r16 K (a + 20);
     State_Monad.return (as_s16 v1)
   }"

definition motion_block_set_vel :: "'c core_ops \<Rightarrow> u32 \<Rightarrow> u32 \<Rightarrow>
    ('c, unit) state" where
  "motion_block_set_vel K a v = w16 K (a + 20) v"

definition motion_block_wander_timer :: "'c core_ops \<Rightarrow> u32 \<Rightarrow> ('c, u32)
    state" where
  "motion_block_wander_timer K a = r16 K (a + 22)"

definition motion_block_set_wander_timer :: "'c core_ops \<Rightarrow> u32 \<Rightarrow> u32
    \<Rightarrow> ('c, unit) state" where
  "motion_block_set_wander_timer K a v = w16 K (a + 22) v"

definition motion_block_hold_timer :: "'c core_ops \<Rightarrow> u32 \<Rightarrow> ('c, u32)
    state" where
  "motion_block_hold_timer K a = r16 K (a + 24)"

definition motion_block_set_hold_timer :: "'c core_ops \<Rightarrow> u32 \<Rightarrow> u32
    \<Rightarrow> ('c, unit) state" where
  "motion_block_set_hold_timer K a v = w16 K (a + 24) v"

definition motion_block_set_gravity :: "'c core_ops \<Rightarrow> u32 \<Rightarrow> u32
    \<Rightarrow> ('c, unit) state" where
  "motion_block_set_gravity K a v = w16 K (a + 26) v"

definition pickup_obj_draw_mode :: "'c core_ops \<Rightarrow> u32 \<Rightarrow> ('c, u32) state"
    where
  "pickup_obj_draw_mode K a = r8 K (a + 0)"

definition pickup_obj_set_draw_mode :: "'c core_ops \<Rightarrow> u32 \<Rightarrow> u32
    \<Rightarrow> ('c, unit) state" where
  "pickup_obj_set_draw_mode K a v = w8 K (a + 0) v"

definition pickup_obj_variant :: "'c core_ops \<Rightarrow> u32 \<Rightarrow> ('c, u32) state"
    where
  "pickup_obj_variant K a = r8 K (a + 3)"

definition pickup_obj_state :: "'c core_ops \<Rightarrow> u32 \<Rightarrow> ('c, u32) state" where
  "pickup_obj_state K a = r8 K (a + 4)"

definition pickup_obj_set_state :: "'c core_ops \<Rightarrow> u32 \<Rightarrow> u32 \<Rightarrow>
    ('c, unit) state" where
  "pickup_obj_set_state K a v = w8 K (a + 4) v"

definition pickup_obj_phase :: "'c core_ops \<Rightarrow> u32 \<Rightarrow> ('c, u32) state" where
  "pickup_obj_phase K a = r8 K (a + 5)"

definition pickup_obj_set_phase :: "'c core_ops \<Rightarrow> u32 \<Rightarrow> u32 \<Rightarrow>
    ('c, unit) state" where
  "pickup_obj_set_phase K a v = w8 K (a + 5) v"

definition pickup_obj_advance_phase :: "'c core_ops \<Rightarrow> u32 \<Rightarrow> ('c, unit)
    state" where
  "pickup_obj_advance_phase K a = do {
     v1 \<leftarrow> r8 K (a + 5);
     w8 K (a + 5) (v1 + 1)
   }"

definition pickup_obj_steer_result :: "'c core_ops \<Rightarrow> u32 \<Rightarrow> ('c, u32)
    state" where
  "pickup_obj_steer_result K a = r8 K (a + 0x2B)"

definition pickup_obj_clear_steer_result :: "'c core_ops \<Rightarrow> u32 \<Rightarrow> ('c,
    unit) state" where
  "pickup_obj_clear_steer_result K a = w8 K (a + 0x2B) 0"

definition pickup_obj_set_pos_x_fixed :: "'c core_ops \<Rightarrow> u32 \<Rightarrow> u32
    \<Rightarrow> ('c, unit) state" where
  "pickup_obj_set_pos_x_fixed K a v = w32 K (a + 0x2C) v"

definition pickup_obj_set_pos_y_fixed :: "'c core_ops \<Rightarrow> u32 \<Rightarrow> u32
    \<Rightarrow> ('c, unit) state" where
  "pickup_obj_set_pos_y_fixed K a v = w32 K (a + 0x30) v"

definition pickup_obj_set_pos_z_fixed :: "'c core_ops \<Rightarrow> u32 \<Rightarrow> u32
    \<Rightarrow> ('c, unit) state" where
  "pickup_obj_set_pos_z_fixed K a v = w32 K (a + 0x34) v"

definition pickup_obj_x :: "'c core_ops \<Rightarrow> u32 \<Rightarrow> ('c, u32) state" where
  "pickup_obj_x K a = r16 K (a + 0x2E)"

definition pickup_obj_y :: "'c core_ops \<Rightarrow> u32 \<Rightarrow> ('c, u32) state" where
  "pickup_obj_y K a = r16 K (a + 0x32)"

definition pickup_obj_z :: "'c core_ops \<Rightarrow> u32 \<Rightarrow> ('c, u32) state" where
  "pickup_obj_z K a = r16 K (a + 0x36)"

definition pickup_obj_set_x :: "'c core_ops \<Rightarrow> u32 \<Rightarrow> u32 \<Rightarrow> ('c,
    unit) state" where
  "pickup_obj_set_x K a v = w16 K (a + 0x2E) v"

definition pickup_obj_set_y :: "'c core_ops \<Rightarrow> u32 \<Rightarrow> u32 \<Rightarrow> ('c,
    unit) state" where
  "pickup_obj_set_y K a v = w16 K (a + 0x32) v"

definition pickup_obj_set_z :: "'c core_ops \<Rightarrow> u32 \<Rightarrow> u32 \<Rightarrow> ('c,
    unit) state" where
  "pickup_obj_set_z K a v = w16 K (a + 0x36) v"

definition pickup_obj_set_geom_ptr :: "'c core_ops \<Rightarrow> u32 \<Rightarrow> u32
    \<Rightarrow> ('c, unit) state" where
  "pickup_obj_set_geom_ptr K a v = w32 K (a + 0x3C) v"

definition pickup_obj_set_sprite_yaw :: "'c core_ops \<Rightarrow> u32 \<Rightarrow> u32
    \<Rightarrow> ('c, unit) state" where
  "pickup_obj_set_sprite_yaw K a v = w16 K (a + 0x58) v"

definition pickup_obj_spawn_phase :: "'c core_ops \<Rightarrow> u32 \<Rightarrow> ('c, u32) state"
    where
  "pickup_obj_spawn_phase K a = r8 K (a + 0x5E)"

definition pickup_obj_set_spawn_phase :: "'c core_ops \<Rightarrow> u32 \<Rightarrow> u32
    \<Rightarrow> ('c, unit) state" where
  "pickup_obj_set_spawn_phase K a v = w8 K (a + 0x5E) v"

definition pickup_obj_script_token :: "'c core_ops \<Rightarrow> u32 \<Rightarrow> ('c, u32)
    state" where
  "pickup_obj_script_token K a = r8 K (a + 0x70)"

definition pickup_obj_set_script_token :: "'c core_ops \<Rightarrow> u32 \<Rightarrow> u32
    \<Rightarrow> ('c, unit) state" where
  "pickup_obj_set_script_token K a v = w8 K (a + 0x70) v"

definition pickup_obj_carrier :: "'c core_ops \<Rightarrow> u32 \<Rightarrow> ('c, u32) state"
    where
  "pickup_obj_carrier K a = r32 K (a + 0xC0)"

definition pickup_obj_set_bounds :: "'c core_ops \<Rightarrow> u32 \<Rightarrow> u32 \<Rightarrow>
    u32 \<Rightarrow> u32 \<Rightarrow> u32 \<Rightarrow> ('c, unit) state" where
  "pickup_obj_set_bounds K a x0 x1 y0 y1 = do {
     w16 K (a + 0x80) x0;
     w16 K (a + 0x82) x1;
     w16 K (a + 0x84) y0;
     w16 K (a + 0x86) y1
   }"

definition spawn_ground :: "'c core_ops \<Rightarrow> u32 \<Rightarrow> ('c, unit) state" where
  "spawn_ground K obj = do {
     motionAt \<leftarrow> r32 K (obj + 0x10);
     w8 K (obj + 0x0B) 16;
     w8 K (obj + 0x08) 248;
     w8 K (obj + 0x47) 0;
     w16 K (obj + 0x5A) 0;
     w8 K (obj + 0x0D) 0;
     v2 \<leftarrow> r32 K kGeomTableGround;
     pickup_obj_set_geom_ptr K obj v2;
     setr K 4 obj;
     setr K 5 kGeomDefGround;
     setr K 6 1;
     graphics_bind_set_geom K;
     pickup_obj_set_pos_x_fixed K obj 0x13D20000;
     spawnX \<leftarrow> pickup_obj_x K obj;
     pickup_obj_set_pos_y_fixed K obj 0xF7E00000;
     pickup_obj_set_pos_z_fixed K obj 0x15AA0000;
     pickup_obj_set_bounds K obj 60 120 80 160;
     pickup_obj_set_draw_mode K obj 4;
     motion_block_set_anchor_x K motionAt spawnX;
     v4 \<leftarrow> pickup_obj_y K obj;
     motion_block_set_anchor_y K motionAt (as_u16 (v4 - 420));
     spawnZ \<leftarrow> pickup_obj_z K obj;
     motion_block_set_wander_timer K motionAt 30;
     motion_block_set_anchor_z K motionAt spawnZ
   }"

definition spawn_carried :: "'c core_ops \<Rightarrow> u32 \<Rightarrow> ('c, bool) state" where
  "spawn_carried K obj = do {
     motionAt \<leftarrow> r32 K (obj + 0x10);
     pickup_obj_set_draw_mode K obj 4;
     pickup_obj_set_spawn_phase K obj 0;
     setr K 4 obj;
     setr K 5 1;
     setr K 6 0;
     graphics_bind_record_init K;
     r2_2 \<leftarrow> reg K 2;
     (if r2_2 \<noteq> 0 then State_Monad.return False
      else do {
        pickup_obj_set_pos_x_fixed K obj 0x28D20000;
        spawnX \<leftarrow> pickup_obj_x K obj;
        pickup_obj_set_pos_y_fixed K obj 0xF9E80000;
        pickup_obj_set_pos_z_fixed K obj 0x0F800000;
        pickup_obj_set_bounds K obj 70 140 140 140;
        motion_block_set_anchor_x K motionAt spawnX;
        v4 \<leftarrow> pickup_obj_y K obj;
        motion_block_set_anchor_y K motionAt (as_u16 (v4 - 400));
        spawnZ \<leftarrow> pickup_obj_z K obj;
        motion_block_set_spin K motionAt 82;
        motion_block_set_anchor_z K motionAt spawnZ;
        State_Monad.return True
      })
   }"

definition active_launch :: "'c core_ops \<Rightarrow> u32 \<Rightarrow> ('c, unit) state" where
  "active_launch K obj = do {
     motionAt \<leftarrow> r32 K (obj + 0x10);
     v2 \<leftarrow> pickup_obj_spawn_phase K obj;
     (if v2 = 1 then do {
       _ \<leftarrow> guest_call K kPlaySfx [kSfxLaunch, 0, 0];
       motion_block_set_hold_timer K motionAt 36;
       motion_block_set_gravity K motionAt 1408;
       motion_block_set_vel K motionAt 10240;
       pickup_obj_advance_phase K obj
     }
      else do {
        v3 \<leftarrow> pickup_obj_variant K obj;
        (if v3 = GROUND then do {
          v4 \<leftarrow> motion_block_vel K motionAt;
          (if v4 \<noteq> 0 then State_Monad.return ()
           else do {
             v5 \<leftarrow> motion_block_wander_timer K motionAt;
             let left = as_u16 (v5 - 1);
             motion_block_set_wander_timer K motionAt left;
             (if 0 \<le>s as_s16 left then State_Monad.return ()
              else do {
                r1 \<leftarrow> guest_call K kRandom [];
                r2 \<leftarrow> guest_call K kRandom [];
                motion_block_set_wander_timer K motionAt (as_u16 ((((r1 AND 3) * 30) + sar 11 r2)
                    + 30));
                r3 \<leftarrow> guest_call K kRandom [];
                motion_block_set_vel K motionAt (as_s16 (shl (- ((r3 AND 7) + 10)) 8))
              })
           })
        }
         else do {
           pickup_obj_clear_steer_result K obj;
           _ \<leftarrow> guest_call K kSteerWanderer [obj];
           steer \<leftarrow> pickup_obj_steer_result K obj;
           (if steer = NO_TURN then State_Monad.return ()
            else do {
              v10 \<leftarrow> pickup_obj_variant K obj;
              (if v10 = GROUND then motion_block_set_vel K motionAt (if steer = TURN_RIGHT then
                  8192 else as_s16 (-8192))
               else do {
                 v11 \<leftarrow> pickup_obj_variant K obj;
                 (if v11 \<noteq> CARRIED then State_Monad.return ()
                  else if steer = TURN_RIGHT then do {
                    yaw \<leftarrow> motion_block_yaw K motionAt;
                    t15 \<leftarrow> (if yaw <s kHalfQuarter then do {
                      v13 \<leftarrow> motion_block_yaw_bits K motionAt;
                      State_Monad.return (as_u16 (v13 - kQuarterTurn))
                    }
                     else do {
                       v14 \<leftarrow> motion_block_yaw_bits K motionAt;
                       State_Monad.return (as_u16 (- v14))
                     });
                    motion_block_set_yaw K motionAt t15;
                    motion_block_set_vel K motionAt 3072
                  }
                   else do {
                     yaw \<leftarrow> motion_block_yaw K motionAt;
                     t19 \<leftarrow> (if yaw <s - (kHalfQuarter - 1) then do {
                       v17 \<leftarrow> motion_block_yaw_bits K motionAt;
                       State_Monad.return (as_u16 (- v17))
                     }
                      else do {
                        v18 \<leftarrow> motion_block_yaw_bits K motionAt;
                        State_Monad.return (as_u16 (v18 + kQuarterTurn))
                      });
                     motion_block_set_yaw K motionAt t19;
                     motion_block_set_vel K motionAt (as_s16 (-3072))
                   })
               })
            })
         })
      })
   }"

definition active_settling :: "'c core_ops \<Rightarrow> u32 \<Rightarrow> ('c, unit) state" where
  "active_settling K obj = do {
     motionAt \<leftarrow> r32 K (obj + 0x10);
     hold \<leftarrow> motion_block_hold_timer K motionAt;
     b4 \<leftarrow> (if as_s16 hold \<noteq> 0 then do {
       v3 \<leftarrow> pickup_obj_spawn_phase K obj;
       State_Monad.return (v3 \<noteq> 0)
     }
      else State_Monad.return False);
     (if b4 then motion_block_set_hold_timer K motionAt (as_u16 (hold - 1))
      else do {
        motion_block_set_vel K motionAt (as_s16 (-10240));
        motion_block_set_gravity K motionAt 512;
        v5 \<leftarrow> pickup_obj_variant K obj;
        (if v5 = GROUND then pickup_obj_set_z K obj 5520
         else do {
           v6 \<leftarrow> pickup_obj_variant K obj;
           only_if (v6 = CARRIED) (pickup_obj_set_z K obj 3968)
         });
        pickup_obj_set_draw_mode K obj 1;
        pickup_obj_set_spawn_phase K obj 2;
        pickup_obj_advance_phase K obj
      })
   }"

definition active_commit_position :: "'c core_ops \<Rightarrow> u32 \<Rightarrow> ('c, unit)
    state" where
  "active_commit_position K obj = do {
     v1 \<leftarrow> pickup_obj_variant K obj;
     (if v1 = GROUND then do {
       motionAt \<leftarrow> r32 K (obj + 0x10);
       v3 \<leftarrow> guest_call K kStepMotion [obj];
       (if v3 = 0 then State_Monad.return ()
        else do {
          v4 \<leftarrow> pickup_obj_phase K obj;
          (if v4 = RESTING then do {
            v5 \<leftarrow> r16 K kPickedUpX;
            pickup_obj_set_x K obj v5;
            v6 \<leftarrow> r16 K kPickedUpY;
            pickup_obj_set_y K obj v6;
            v7 \<leftarrow> r16 K kPickedUpZ;
            pickup_obj_set_z K obj v7
          }
           else do {
             v8 \<leftarrow> motion_block_x K motionAt;
             pickup_obj_set_x K obj (as_u16 (v8 - 32));
             v9 \<leftarrow> motion_block_y K motionAt;
             pickup_obj_set_y K obj (as_u16 (v9 + 80))
           });
          _ \<leftarrow> guest_call K kCommitGroundPos [obj];
          _ \<leftarrow> guest_call K kSyncCollectible [obj, 0];
          State_Monad.return ()
        })
     }
      else do {
        v10 \<leftarrow> pickup_obj_variant K obj;
        (if v10 \<noteq> CARRIED then State_Monad.return ()
         else do {
           v11 \<leftarrow> r8 K kCarrierBusy;
           let carrierBusy = 5 \<le> v11;
           motionAt \<leftarrow> r32 K (obj + 0x10);
           (if carrierBusy then State_Monad.return ()
            else do {
              v13 \<leftarrow> guest_call K kStepMotion [obj];
              (if v13 = 0 then State_Monad.return ()
               else do {
                 v14 \<leftarrow> pickup_obj_phase K obj;
                 (if v14 = RESTING then do {
                   v15 \<leftarrow> r16 K kPickedUpX;
                   pickup_obj_set_x K obj v15;
                   v16 \<leftarrow> r16 K kPickedUpY;
                   pickup_obj_set_y K obj v16;
                   v17 \<leftarrow> r16 K kPickedUpZ;
                   pickup_obj_set_z K obj v17
                 }
                  else do {
                    carrier \<leftarrow> pickup_obj_carrier K obj;
                    v19 \<leftarrow> motion_block_x K motionAt;
                    v20 \<leftarrow> r16s K (carrier + 26);
                    pickup_obj_set_x K obj (as_u16 (v19 + (sar 8 (v20 * 9))));
                    v21 \<leftarrow> motion_block_y K motionAt;
                    v22 \<leftarrow> r16s K (carrier + 32);
                    pickup_obj_set_y K obj (as_u16 (v21 + (sar 8 (v22 * 9))));
                    v23 \<leftarrow> motion_block_spin K motionAt;
                    pickup_obj_set_sprite_yaw K obj (as_u16 (- v23))
                  });
                 setr K 4 obj;
                 graphics_bind_render_update K;
                 _ \<leftarrow> guest_call K kSyncCollectible [obj, 1];
                 State_Monad.return ()
               })
            })
         })
      })
   }"

definition collect_ground :: "'c core_ops \<Rightarrow> u32 \<Rightarrow> ('c, unit) state" where
  "collect_ground K obj = do {
     inv_give_and_flag K kItemGroundPickup 1;
     _ \<leftarrow> guest_call K kBeginCollect [obj];
     pickup_obj_set_state K obj RETIRE
   }"

definition collect_carried :: "'c core_ops \<Rightarrow> u32 \<Rightarrow> ('c, unit) state" where
  "collect_carried K obj = do {
     v1 \<leftarrow> pickup_obj_phase K obj;
     (if v1 = HANDOVER then do {
       inv_give K kItemBucket 1;
       _ \<leftarrow> guest_call K 0x8004ED94 [kSfxCollect, kSfxCollectBank];
       _ \<leftarrow> guest_call K kBeginCollect [obj];
       popup \<leftarrow> guest_call K kSpawnGetPopup [obj, 0, 0];
       only_if (popup \<noteq> 0) (do {
         _ \<leftarrow> guest_call K kBindGetPopup [kItemBucket, popup];
         _ \<leftarrow> guest_call K kEnterCutsceneMode [1, 1];
         v3 \<leftarrow> r8 K kAreaEventFlags;
         w8 K kAreaEventFlags (v3 OR 1)
       });
       pickup_obj_advance_phase K obj
     }
      else if v1 = AWAIT_PLAYER then do {
        v4 \<leftarrow> guest_call K kPlayerLeftCutscene [];
        (if v4 = 0 then State_Monad.return ()
         else do {
           _ \<leftarrow> guest_call K kRunScript [obj, 0, kBucketScript];
           pickup_obj_set_script_token K obj COLLECTED;
           pickup_obj_advance_phase K obj
         })
      }
       else if v1 = AWAIT_SCRIPT then do {
         v5 \<leftarrow> pickup_obj_script_token K obj;
         (if v5 \<noteq> kScriptTokenFree then do {
           _ \<leftarrow> guest_call K kAwaitScript [obj];
           State_Monad.return ()
         }
          else pickup_obj_set_state K obj RETIRE)
       }
        else State_Monad.return ())
   }"

definition beh_prng_velocity_machine :: "'c core_ops \<Rightarrow> ('c, unit) state" where
  "beh_prng_velocity_machine K = with_frame K 32 [(17, 20), (31, 28), (18, 24), (16, 16)] (do {
     r4_1 \<leftarrow> reg K 4;
     v2 \<leftarrow> pickup_obj_state K r4_1;
     (if v2 = SPAWN then do {
       v3 \<leftarrow> pickup_obj_variant K r4_1;
       (if v3 = GROUND then do {
         spawn_ground K r4_1;
         v4 \<leftarrow> pickup_obj_state K r4_1;
         w8 K (r4_1 + 4) (v4 + 1);
         _ \<leftarrow> guest_call K kArmCollectible [r4_1, GROUND];
         State_Monad.return ()
       }
        else do {
          v5 \<leftarrow> pickup_obj_variant K r4_1;
          (if v5 = CARRIED then do {
            v6 \<leftarrow> spawn_carried K r4_1;
            (if \<not> v6 then State_Monad.return ()
             else do {
               v7 \<leftarrow> pickup_obj_state K r4_1;
               w8 K (r4_1 + 4) (v7 + 1);
               _ \<leftarrow> guest_call K kArmCollectible [r4_1, CARRIED];
               State_Monad.return ()
             })
          }
           else State_Monad.return ())
        })
     }
      else if v2 = ACTIVE then do {
        v8 \<leftarrow> pickup_obj_phase K r4_1;
        (if v8 = LAUNCH then active_launch K r4_1
         else only_if (v8 = SETTLING) (active_settling K r4_1));
        active_commit_position K r4_1
      }
       else if v2 = COLLECTED then do {
         v9 \<leftarrow> pickup_obj_variant K r4_1;
         (if v9 = GROUND then collect_ground K r4_1
          else do {
            v10 \<leftarrow> pickup_obj_variant K r4_1;
            only_if (v10 = CARRIED) (collect_carried K r4_1)
          })
       }
        else if v2 = RETIRE then despawn K r4_1 else State_Monad.return ())
   })"

section \<open>\<open>game/ai/beh_pure_inner_dispatch.cpp\<close>\<close>

definition beh_pure_inner_dispatch :: "'c core_ops \<Rightarrow> ('c, unit) state" where
  "beh_pure_inner_dispatch K = with_frame K 24 [(16, 16), (31, 20)] (do {
     let Lret = (State_Monad.return ());
     let Led0 = (\<lambda>obj. do {
       v1 \<leftarrow> r8 K (obj + 1);
       only_if (v1 \<noteq> 0) (do {
         _ \<leftarrow> guest_call K 0x801389C8 [obj];
         State_Monad.return ()
       });
       Lret
     });
     let Lec8 = (\<lambda>obj. do {
       _ \<leftarrow> guest_call K 0x8018CA1C [obj];
       Led0 obj
     });
     let Lea4 = (\<lambda>obj. do {
       v2 \<leftarrow> r8 K 0x800BF809;
       only_if (v2 = 0) (do {
         _ \<leftarrow> guest_call K 0x80137198 [obj];
         State_Monad.return ()
       });
       Led0 obj
     });
     let Le3c = (\<lambda>obj. do {
       n5 \<leftarrow> r8 K (obj + 5);
       (if n5 = 1 then Lea4 obj
        else if 2 \<le> n5 then (if n5 = 2 then Lec8 obj else Led0 obj)
         else do {
           v4 \<leftarrow> r8 K (obj + 3);
           (if v4 = 3 then do {
             _ \<leftarrow> guest_call K 0x8018CDC4 [obj];
             State_Monad.return ()
           }
            else do {
              _ \<leftarrow> guest_call K 0x80138A64 [obj];
              State_Monad.return ()
            });
           Led0 obj
         })
     });
     let Le00 = (\<lambda>obj. do {
       v5 \<leftarrow> r8 K 0x800BF89C;
       v6 \<leftarrow> r8 K (obj + 3);
       v7 \<leftarrow> r8 K 0x800E7EAA;
       (if (v5 \<noteq> 2 \<and> v6 = 2) \<and> v7 = 1 then Le3c obj
        else do { _ \<leftarrow> actor_bounds_cull K obj; Le3c obj })
     });
     let Ldf0 = (\<lambda>obj. do { _ \<leftarrow> guest_call K 0x80136F08 [obj]; Lret });
     let Lef0 = (\<lambda>obj. do { despawn K obj; Lret });
     obj \<leftarrow> reg K 4;
     st \<leftarrow> r8 K (obj + 4);
     (if st = 1 then Le00 obj
      else if st < 2 then (if st = 0 then Ldf0 obj else Lret)
       else if st = 2 then Lret
        else if st = 3 then Lef0 obj else Lret)
   })"

section \<open>\<open>game/ai/beh_scatter_ramp_machine.cpp\<close>\<close>

definition beh_scatter_ramp_machine_l264 :: "'c core_ops \<Rightarrow> u32 \<Rightarrow> (u32
    \<Rightarrow> ('c, 'a) state) \<Rightarrow> ('c, 'a) state \<Rightarrow> ('c, 'a) state" where
  "beh_scatter_ramp_machine_l264 K obj Lcdac Lret = do {
     n3 \<leftarrow> r8 K (obj + 3);
     (if n3 \<noteq> 1 \<and> n3 \<noteq> 3 then Lcdac obj
      else do {
        n5 \<leftarrow> r8 K (obj + 5);
        let idx = as_u8 (n5 - 1);
        (if \<not> (idx < 10) then Lcdac obj
         else if (((idx = 2 \<or> idx = 3) \<or> idx = 4) \<or> idx = 8) \<or> idx = 9 then Lret
          else Lcdac obj)
      })
   }"

definition beh_scatter_ramp_machine_l247 :: "'c core_ops \<Rightarrow> u32 \<Rightarrow> (u32
    \<Rightarrow> ('c, 'a) state) \<Rightarrow> u32 \<Rightarrow> ('c, 'a) state" where
  "beh_scatter_ramp_machine_l247 K a3 Lcd60 obj = do {
     v3 \<leftarrow> r16s K (a3 + 6);
     only_if (v3 <s 0) (do { v4 \<leftarrow> r16 K (a3 + 6); w16 K (a3 + 6) (v4 + 3) });
     v5 \<leftarrow> r8 K (a3 + 4);
     let nv = as_u8 (v5 - 1);
     w8 K (a3 + 4) nv;
     (if 0 \<le>s as_s8 nv then Lcd60 obj else do { w8 K (obj + 5) 10; Lcd60 obj })
   }"

definition beh_scatter_ramp_machine_l236 :: "'c core_ops \<Rightarrow> u32 \<Rightarrow> u32
    \<Rightarrow> (u32 \<Rightarrow> ('c, 'a) state) \<Rightarrow> ('c, 'a) state" where
  "beh_scatter_ramp_machine_l236 K a3 obj Lcd60 = do {
     v6 \<leftarrow> r16s K (a3 + 6);
     (if v6 <s -199 then do {
       w8 K 0x800BF9E0 17;
       w8 K (obj + 5) 9;
       w8 K (a3 + 4) 120;
       Lcd60 obj
     }
      else do { v1 \<leftarrow> r16 K (a3 + 6); w16 K (a3 + 6) (v1 - 3); Lcd60 obj })
   }"

definition beh_scatter_ramp_machine_l224 :: "'c core_ops \<Rightarrow> (u32 \<Rightarrow> ('c, 'a)
    state) \<Rightarrow> u32 \<Rightarrow> u32 \<Rightarrow> (u32 \<Rightarrow> ('c, 'a) state)
    \<Rightarrow> ('c, 'a) state" where
  "beh_scatter_ramp_machine_l224 K Lcd60 obj a3 Lccc4 = do {
     v8 \<leftarrow> r8 K 0x800BF9E0;
     (if v8 \<noteq> 16 then Lcd60 obj
      else do { w8 K (obj + 5) 8; w8 K (a3 + 4) 30; Lccc4 obj })
   }"

definition beh_scatter_ramp_machine_l199 :: "'c core_ops \<Rightarrow> u32 \<Rightarrow> u32
    \<Rightarrow> (u32 \<Rightarrow> ('c, 'a) state) \<Rightarrow> (u32 \<Rightarrow> u32
    \<Rightarrow> ('c, 'a) state) \<Rightarrow> ('c, 'a) state" where
  "beh_scatter_ramp_machine_l199 K a3 obj Lcd60 Lcc44 = do {
     v12 \<leftarrow> r16s K (a3 + 6);
     (if v12 <s -199 then do {
       w8 K (obj + 5) 6;
       w8 K (a3 + 4) 24;
       w8 K 0x80109FC0 8;
       Lcd60 obj
     }
      else Lcc44 a3 obj)
   }"

definition beh_scatter_ramp_machine_l184 :: "'c core_ops \<Rightarrow> u32 \<Rightarrow> (u32
    \<Rightarrow> ('c, 'a) state) \<Rightarrow> u32 \<Rightarrow> (u32 \<Rightarrow> u32
    \<Rightarrow> ('c, 'a) state) \<Rightarrow> ('c, 'a) state" where
  "beh_scatter_ramp_machine_l184 K a3 Lcd60 obj Lcc24 = do {
     v13 \<leftarrow> r8 K (a3 + 4);
     let nv = as_u8 (v13 - 1);
     w8 K (a3 + 4) nv;
     (if 0 \<le>s as_s8 nv then Lcd60 obj else do { w8 K (obj + 5) 5; Lcc24 a3 obj })
   }"

definition beh_scatter_ramp_machine_l177 :: "'c core_ops \<Rightarrow> u32 \<Rightarrow> (u32
    \<Rightarrow> u32 \<Rightarrow> ('c, 'a) state) \<Rightarrow> u32 \<Rightarrow> (u32
    \<Rightarrow> ('c, 'a) state) \<Rightarrow> ('c, 'a) state" where
  "beh_scatter_ramp_machine_l177 K a3 Lcc7c obj Lcd60 = do {
     v14 \<leftarrow> r16s K (a3 + 6);
     (if v14 <s 0 then Lcc7c a3 obj
      else do { w8 K (obj + 5) 4; w8 K (a3 + 4) 96; Lcd60 obj })
   }"

definition beh_scatter_ramp_machine_l170 :: "'c core_ops \<Rightarrow> u32 \<Rightarrow> u32
    \<Rightarrow> (u32 \<Rightarrow> u32 \<Rightarrow> ('c, 'a) state) \<Rightarrow> (u32
    \<Rightarrow> u32 \<Rightarrow> ('c, 'a) state) \<Rightarrow> ('c, 'a) state" where
  "beh_scatter_ramp_machine_l170 K a3 obj Lcc24 Lcc44 = do {
     v15 \<leftarrow> r16s K (a3 + 6);
     (if v15 <s -199 then do { w8 K (obj + 5) 3; Lcc24 a3 obj }
      else Lcc44 a3 obj)
   }"

definition beh_scatter_ramp_machine_l162 :: "'c core_ops \<Rightarrow> (u32 \<Rightarrow> ('c, 'a)
    state) \<Rightarrow> u32 \<Rightarrow> u32 \<Rightarrow> (u32 \<Rightarrow> ('c, 'a) state)
    \<Rightarrow> ('c, 'a) state" where
  "beh_scatter_ramp_machine_l162 K Lcd60 obj a3 Lccc4 = do {
     v16 \<leftarrow> r8 K 0x800BF9E0;
     (if v16 < 6 then Lcd60 obj else do { w8 K (a3 + 4) 24; w8 K (obj + 5) 2; Lccc4 obj })
   }"

definition beh_scatter_ramp_machine_l102 :: "'c core_ops \<Rightarrow> ('c, 'a) state
    \<Rightarrow> u32 \<Rightarrow> (u32 \<Rightarrow> ('c, 'a) state) \<Rightarrow> ('b
    \<Rightarrow> u32 \<Rightarrow> ('c, 'a) state) \<Rightarrow> 'b \<Rightarrow> ('b
    \<Rightarrow> u32 \<Rightarrow> ('c, 'a) state) \<Rightarrow> ('b \<Rightarrow> u32
    \<Rightarrow> ('c, 'a) state) \<Rightarrow> ('b \<Rightarrow> u32 \<Rightarrow> ('c, 'a)
    state) \<Rightarrow> ('b \<Rightarrow> u32 \<Rightarrow> ('c, 'a) state) \<Rightarrow> ('b
    \<Rightarrow> u32 \<Rightarrow> ('c, 'a) state) \<Rightarrow> ('b \<Rightarrow> u32
    \<Rightarrow> ('c, 'a) state) \<Rightarrow> ('b \<Rightarrow> u32 \<Rightarrow> ('c, 'a)
    state) \<Rightarrow> ('b \<Rightarrow> u32 \<Rightarrow> ('c, 'a) state) \<Rightarrow> ('b
    \<Rightarrow> u32 \<Rightarrow> ('c, 'a) state) \<Rightarrow> (u32 \<Rightarrow> ('c, 'a)
    state) \<Rightarrow> ('c, 'a) state" where
  "beh_scatter_ramp_machine_l102 K Lret obj Lcd60 Lcb88 a3 Lcb94 Lcbc8 Lcbe4 Lcc04 Lcc30 Lcc6c
      Lcc98 Lcce4 Lcd20 Lcd58 = do {
     v17 \<leftarrow> r8 K 0x800E7FEB;
     (if v17 = 1 then Lret
      else do {
        v18 \<leftarrow> r8 K 0x800BF9E0;
        (if \<not> (v18 < 20) then do { w8 K (obj + 4) 3; Lret }
         else do {
           v19 \<leftarrow> r8 K 0x800BF816;
           (if v19 = 1 then Lret
            else do {
              v20 \<leftarrow> r8 K 0x800E7EAA;
              (if \<not> (v20 < 17) then Lret
               else do {
                 v21 \<leftarrow> r8 K (obj + 6);
                 let v0 = as_u8 (v21 - 1);
                 w8 K (obj + 6) v0;
                 only_if ((v0 AND 0xFF) = 0) (do {
                   w8 K (obj + 6) 3;
                   v22 \<leftarrow> r8 K (obj + 7);
                   let v0 = as_u8 (v22 + 1);
                   w8 K (obj + 7) v0;
                   only_if (\<not> ((v0 AND 0xFF) < 6)) (w8 K (obj + 7) 0)
                 });
                 n5 \<leftarrow> r8 K (obj + 5);
                 (if \<not> (n5 < 11) then Lcd60 obj
                  else if n5 = 0 then Lcb88 a3 obj
                   else if n5 = 1 then Lcb94 a3 obj
                    else if n5 = 2 then Lcbc8 a3 obj
                     else if n5 = 3 then Lcbe4 a3 obj
                      else if n5 = 4 then Lcc04 a3 obj
                       else if n5 = 5 then Lcc30 a3 obj
                        else if n5 = 6 then Lcc6c a3 obj
                         else if n5 = 7 then Lcc98 a3 obj
                          else if n5 = 8 then Lcce4 a3 obj
                           else if n5 = 9 then Lcd20 a3 obj else Lcd58 obj)
               })
            })
         })
      })
   }"

definition beh_scatter_ramp_machine :: "'c core_ops \<Rightarrow> ('c, unit) state" where
  "beh_scatter_ramp_machine K = with_frame K 24 [(16, 16), (31, 20)] (do {
     let Lret = (State_Monad.return ());
     let Lcdac = (\<lambda>obj. do {
       setr K 4 obj;
       cone_cull_2b278 K;
       Lret
     });
     let Lcd60 = (\<lambda>obj. beh_scatter_ramp_machine_l264 K obj Lcdac Lret);
     let Lcd58 = (\<lambda>obj. do { w8 K (obj + 4) 3; Lcd60 obj });
     let Lcd20 = (\<lambda>a3 obj. beh_scatter_ramp_machine_l247 K a3 Lcd60 obj);
     let Lcce4 = (\<lambda>a3 obj. beh_scatter_ramp_machine_l236 K a3 obj Lcd60);
     let Lccc4 = (\<lambda>obj. do {
       sfx_trigger K 7 0 0;
       sfx_trigger K 148 0 0;
       Lcd60 obj
     });
     let Lcc98 = (\<lambda>a3 obj. beh_scatter_ramp_machine_l224 K Lcd60 obj a3 Lccc4);
     let Lcc7c = (\<lambda>a3 obj. do {
       v1 \<leftarrow> r16 K (a3 + 6);
       w16 K (a3 + 6) (v1 + 6);
       Lcd60 obj
     });
     let Lcc6c = (\<lambda>a3 obj. do {
       v10 \<leftarrow> r16s K (a3 + 6);
       (if 0 \<le>s v10 then do { w8 K 0x800BF9E0 7; w8 K (obj + 5) 7; Lcd60 obj }
        else Lcc7c a3 obj)
     });
     let Lcc44 = (\<lambda>a3 obj. do {
       v1 \<leftarrow> r16 K (a3 + 6);
       w16 K (a3 + 6) (v1 - 6);
       Lcd60 obj
     });
     let Lcc30 = (\<lambda>a3 obj. beh_scatter_ramp_machine_l199 K a3 obj Lcd60 Lcc44);
     let Lcc24 = (\<lambda>a3 obj. do { w8 K (a3 + 4) 24; Lcd60 obj });
     let Lcc04 = (\<lambda>a3 obj. beh_scatter_ramp_machine_l184 K a3 Lcd60 obj Lcc24);
     let Lcbe4 = (\<lambda>a3 obj. beh_scatter_ramp_machine_l177 K a3 Lcc7c obj Lcd60);
     let Lcbc8 = (\<lambda>a3 obj. beh_scatter_ramp_machine_l170 K a3 obj Lcc24 Lcc44);
     let Lcb94 = (\<lambda>a3 obj. beh_scatter_ramp_machine_l162 K Lcd60 obj a3 Lccc4);
     let Lcb88 = (\<lambda>a3 obj. do {
       w8 K (obj + 5) 1;
       w16 K (a3 + 6) 0;
       Lcb94 a3 obj
     });
     let Lcabc = (\<lambda>a3 obj. beh_scatter_ramp_machine_l102 K Lret obj Lcd60 Lcb88 a3 Lcb94
         Lcbc8 Lcbe4 Lcc04 Lcc30 Lcc6c Lcc98 Lcce4 Lcd20 Lcd58);
     let Lca10 = (\<lambda>a3 obj. do {
       n3 \<leftarrow> r8 K (obj + 3);
       v1 \<leftarrow> r32 K (0x80109FC4 + (shl (n3 - 1) 2));
       w32 K (obj + 4) 0x00010001;
       w32 K (a3 + 0) v1;
       let t1 = 0x80109FD6 + n3 * 6;
       v26 \<leftarrow> r16 K (t1 + 0);
       w16 K (obj + 0x2C) v26;
       v27 \<leftarrow> r16 K (t1 + 2);
       w16 K (obj + 0x2E) v27;
       v1 \<leftarrow> r16 K (t1 + 4);
       w32 K (obj + 0x3C) 0x80109FC0;
       w16 K (obj + 0x32) (-70);
       w32 K (obj + 0x48) 0;
       w16 K (obj + 0x4C) 0;
       w16 K (obj + 0x30) v1;
       v29 \<leftarrow> r8 K 0x800BF9E0;
       (if v29 < 6 then do { w8 K (obj + 5) 0; w8 K 0x80109FC0 16 }
        else do { w8 K (obj + 5) 7; w8 K 0x80109FC0 8 });
       Lcabc a3 obj
     });
     let Lcdbc = (\<lambda>obj. do { despawn K obj; Lret });
     obj \<leftarrow> reg K 4;
     let a3 = obj + 0x50;
     st \<leftarrow> r8 K (obj + 4);
     (if st = 1 then Lcabc a3 obj
      else if st < 2 then (if st = 0 then Lca10 a3 obj else Lret)
       else if st < 4 then Lcdbc obj else Lret)
   })"

section \<open>\<open>game/ai/beh_substate_edge_orchestrator.cpp\<close>\<close>

definition beh_substate_edge_orchestrator :: "'c core_ops \<Rightarrow> ('c, unit) state" where
  "beh_substate_edge_orchestrator K = with_frame K 32 [(17, 20), (31, 24), (16, 16)] (do {
     obj \<leftarrow> reg K 4;
     st \<leftarrow> r8 K (obj + 4);
     (if st \<noteq> 1 then (if 2 \<le> st then (if st = 2 then State_Monad.return ()
      else only_if (st = 3) (despawn K obj))
      else if st \<noteq> 0 then State_Monad.return ()
       else do { setr K 4 obj; call_guest K 0x8012ED84 })
      else do {
        setr K 4 obj;
        call_guest K 0x80130AC4;
        r2_3 \<leftarrow> reg K 2;
        only_if (r2_3 \<noteq> 0) (do {
          w8 K (obj + 1) st;
          _ \<leftarrow> enqueue_visible_class4 K obj;
          State_Monad.return ()
        });
        sub1 \<leftarrow> r8 K (obj + 5);
        only_if (sub1 < 6) ((if sub1 = 0 then do { setr K 4 obj; call_guest K 0x8012F494 }
         else if sub1 = 1 then do {
           v5 \<leftarrow> r8 K 0x1F800137;
           only_if (v5 = 0) (do { setr K 4 obj; call_guest K 0x8012F5B4 })
         }
          else if sub1 = 2 then do { setr K 4 obj; call_guest K 0x8012FD88 }
           else if sub1 = 3 then do { setr K 4 obj; call_guest K 0x80130524 }
            else if sub1 = 4 then do { setr K 4 obj; call_guest K 0x801313C4 }
             else only_if (sub1 = 5) (do { setr K 4 obj; call_guest K 0x8018C820 })));
        setr K 4 obj;
        call_guest K 0x80131134;
        setr K 4 obj;
        call_guest K 0x801316CC;
        g \<leftarrow> r8 K 0x800BF9D2;
        let set5 = False;
        set5 \<leftarrow> (if g = 0 then do {
          v7 \<leftarrow> r16 K (obj + 0x78);
          (if (v7 AND 1) = 0 then do { w16 K (obj + 0x78) 5; State_Monad.return True }
           else State_Monad.return set5)
        }
         else if g = 0xFF then do {
           v8 \<leftarrow> r16 K (obj + 0x78);
           (if (v8 AND 1) = 0 then do { w16 K (obj + 0x78) 0x8005; State_Monad.return True }
            else State_Monad.return set5)
         }
          else do {
            n78 \<leftarrow> r16 K (obj + 0x78);
            only_if ((n78 AND 1) \<noteq> 0) (do {
              let nv = as_u16 (if (n78 AND 0x8000) \<noteq> 0 then 0x8002 else 2);
              w16 K (obj + 0x78) nv;
              v10 \<leftarrow> r16 K (obj + 0x48);
              let x = as_s16 v10;
              (if 0 <s x then w16 K (obj + 0x4E) (- 0x80)
               else only_if (x <s 0) (w16 K (obj + 0x4E) 0x80))
            });
            State_Monad.return set5
          });
        only_if set5 (do { w8 K (obj + 5) 4; w8 K (obj + 6) 0 });
        v11 \<leftarrow> r8 K (obj + 3);
        only_if (v11 = 0) (do {
          a1 \<leftarrow> r32 K (obj + 0xC8);
          setr K 4 obj;
          setr K 5 a1;
          call_guest K 0x80146348
        });
        v13 \<leftarrow> r8 K (obj + 1);
        only_if (v13 \<noteq> 0) (do { setr K 4 obj; call_guest K 0x8012E8A8 });
        w8 K (obj + 0x2B) 0
      })
   })"

section \<open>\<open>game/ai/beh_variant_actor_sm.cpp\<close>\<close>

definition beh_variant_actor_sm :: "'c core_ops \<Rightarrow> ('c, unit) state" where
  "beh_variant_actor_sm K = with_frame K 32 [(16, 16), (31, 24), (17, 20)] (do {
     let Ltail = (\<lambda>nd. do {
       v1 \<leftarrow> r8 K (nd + 1);
       only_if (v1 \<noteq> 0) (do {
         _ \<leftarrow> guest_call K 0x800518FC [nd];
         _ \<leftarrow> guest_call K 0x8011D82C [nd];
         State_Monad.return ()
       });
       w8 K (nd + 0x2B) 0
     });
     nd \<leftarrow> reg K 4;
     st \<leftarrow> r8 K (nd + 4);
     (if st \<noteq> 1 then (if 2 \<le> st then (if st = 2 then State_Monad.return ()
      else if st \<noteq> 3 then State_Monad.return () else despawn K nd)
      else if st \<noteq> 0 then State_Monad.return ()
       else do {
         v4 \<leftarrow> r32 K 0x800ECFB8;
         v5 \<leftarrow> guest_call K 0x800519E0 [nd, 0xD, v4, 0x8014C0BC];
         (if v5 \<noteq> 0 then State_Monad.return ()
          else do {
            w32 K (nd + 0x7C) 0x8014DE54;
            v6 \<leftarrow> r32 K 0x800ECFBC;
            w32 K (nd + 0x3C) v6;
            w8 K (nd + 0x0B) 0x40;
            w8 K (nd + 0) 9;
            w16 K (nd + 0x80) 0x50;
            w16 K (nd + 0x82) 0xA0;
            w16 K (nd + 0x84) 0xA0;
            w16 K (nd + 0x86) 0x120;
            w32 K (nd + 0x2C) 0x26DE0000;
            w32 K (nd + 0x30) 0xFC040000;
            w8 K (nd + 0x2B) 0;
            w8 K (nd + 0x29) 0;
            w16 K (nd + 0x58) 0;
            w16 K (nd + 0x56) 0;
            w16 K (nd + 0x54) 0;
            w32 K (nd + 0x34) 0x16440000;
            n3 \<leftarrow> r8 K (nd + 3);
            (if n3 = 0 then do { w16 K (nd + 0x56) 0xC00; w8 K (nd + 0x7B) 7 }
             else only_if (n3 = 1) (do { w16 K (nd + 0x56) 0x400; w8 K (nd + 0x7B) 0 }));
            v8 \<leftarrow> r8 K (nd + 0x7B);
            _ \<leftarrow> guest_call K 0x80041718 [nd, v8, 0];
            v9 \<leftarrow> r8 K (nd + 4);
            w8 K (nd + 4) (v9 + 1)
          })
       })
      else do {
        n3 \<leftarrow> r8 K (nd + 3);
        (if n3 = 0 then do { _ \<leftarrow> guest_call K 0x8011D108 [nd]; Ltail nd }
         else if n3 \<noteq> 1 then Ltail nd
          else do {
            n5 \<leftarrow> r8 K (nd + 5);
            (if n5 = 0 then do {
              v12 \<leftarrow> r8 K 0x1F800207;
              v13 \<leftarrow> r16s K 0x1F800160;
              only_if (v12 \<noteq> 10 \<or> 8000 \<le>s v13) (do {
                v14 \<leftarrow> guest_call K 0x8007778C [nd];
                (if v14 = 0 then do {
                  v15 \<leftarrow> r8 K 0x800BF8BC;
                  only_if (v15 = 255) (w8 K (nd + 4) 3)
                }
                 else do {
                   v16 \<leftarrow> r8 K (nd + 0x2B);
                   only_if (v16 = 3) (do {
                     w8 K (nd + 0x7A) 0x14;
                     _ \<leftarrow> guest_call K 0x80042354 [1, 1];
                     _ \<leftarrow> guest_call K 0x80040D68 [nd, 0x80148D2C];
                     w8 K (nd + 0x70) 2;
                     v17 \<leftarrow> r8 K (nd + 5);
                     w8 K (nd + 5) (v17 + 1)
                   })
                 })
              })
            }
             else only_if (n5 = 1) (do {
               w8 K (nd + 1) 1;
               _ \<leftarrow> enqueue_queue_a K nd;
               v18 \<leftarrow> r8 K (nd + 0x70);
               only_if (v18 = 255) (do {
                 v19 \<leftarrow> r8 K (nd + 5);
                 w8 K (nd + 5) (v19 - 1)
               })
             }));
            _ \<leftarrow> guest_call K 0x80041098 [nd];
            _ \<leftarrow> guest_call K 0x8004190C [nd];
            Ltail nd
          })
      })
   })"

section \<open>\<open>game/ai/beh_visibility_gate_dispatch.cpp\<close>\<close>

definition state1_gate :: "'c core_ops \<Rightarrow> u32 \<Rightarrow> ('c, unit) state" where
  "state1_gate K obj = do {
     f \<leftarrow> r8 K (obj + 0x28);
     submit \<leftarrow> (if (f AND 0x80) \<noteq> 0 then do {
       v2 \<leftarrow> r8 K 0x800BF816;
       v3 \<leftarrow> r8 K 0x800BF817;
       v4 \<leftarrow> r16s K (obj + 0x6A);
       (if v2 = 0 \<or> v3 \<noteq> v4 then State_Monad.return False
        else do { w8 K (obj + 1) 1; State_Monad.return True })
     }
      else do { v5 \<leftarrow> actor_bounds_cull K obj; State_Monad.return (v5 = 0) });
     only_if submit (do { _ \<leftarrow> enqueue_queue_c K obj; State_Monad.return () })
   }"

definition beh_visibility_gate_dispatch_l391 :: "'c core_ops \<Rightarrow> u32 \<Rightarrow> ('c,
    unit) state" where
  "beh_visibility_gate_dispatch_l391 K obj = do {
     let nv = (3 :: u32);
     v1 \<leftarrow> r16s K (obj + 0x60);
     only_if (v1 \<noteq> 0) (do {
       flags \<leftarrow> r16 K (obj + 0x64);
       v3 \<leftarrow> r16 K (obj + 0x62);
       let arg = as_s16 v3;
       (if (flags AND 0x4) \<noteq> 0 then do {
         setr K 4 arg;
         setr K 5 1;
         call_guest K 0x8004D79C
       }
        else do { setr K 4 arg; setr K 5 1; call_guest K 0x8004D714 })
     });
     w8 K (obj + 4) nv
   }"

definition beh_visibility_gate_dispatch_l314 :: "'c core_ops \<Rightarrow> u32 \<Rightarrow> u32
    \<Rightarrow> ('c, bool) state" where
  "beh_visibility_gate_dispatch_l314 K n3 obj = (if n3 = 0 then do {
     setr K 4 obj;
     setr K 5 1;
     call_guest K 0x80049E54;
     State_Monad.return True
   }
    else if n3 = 1 then do {
      setr K 4 obj;
      setr K 5 2;
      call_guest K 0x80049E54;
      State_Monad.return True
    }
     else if n3 = 4 then do { drop_score_gem K obj 100; State_Monad.return False }
      else if n3 = 5 then do { drop_score_gem K obj 200; State_Monad.return False }
       else if n3 = 6 then do { drop_score_gem K obj 500; State_Monad.return False }
        else if n3 = 7 then do { drop_score_gem K obj 1000; State_Monad.return False }
         else if n3 = 8 then do { drop_score_gem K obj 5000; State_Monad.return False }
          else if n3 = 9 then do { drop_score_gem K obj 10000; State_Monad.return False }
           else if n3 = 10 then do { drop_score_gem K obj 20000; State_Monad.return False }
            else if n3 = 11 then do {
              drop_score_gem K obj 100000;
              State_Monad.return False
            }
             else if n3 = 15 then do {
               setr K 4 obj;
               call_guest K 0x8004A118;
               State_Monad.return True
             }
              else if n3 = 16 then do {
                setr K 4 obj;
                call_guest K 0x8004A2A0;
                State_Monad.return True
              }
               else if n3 = 17 then do {
                 setr K 4 obj;
                 call_guest K 0x8004B428;
                 State_Monad.return True
               }
                else do { setr K 4 obj; call_guest K 0x8004A3D4; State_Monad.return True })"

definition beh_visibility_gate_dispatch_l295 :: "'c core_ops \<Rightarrow> u32 \<Rightarrow> (u32
    \<Rightarrow> ('c, unit) state) \<Rightarrow> ('c, unit) state" where
  "beh_visibility_gate_dispatch_l295 K obj state2_n5_1 = do {
     n5 \<leftarrow> r8 K (obj + 5);
     (if n5 = 1 then state2_n5_1 obj
      else if n5 \<noteq> 0 then State_Monad.return ()
       else do {
         n3 \<leftarrow> r8 K (obj + 3);
         check_ret \<leftarrow> (if 18 \<le> n3 then do {
           setr K 4 obj;
           call_guest K 0x8004A3D4;
           State_Monad.return True
         }
          else beh_visibility_gate_dispatch_l314 K n3 obj);
         r2_6 \<leftarrow> reg K 2;
         (if check_ret \<and> r2_6 = 0 then State_Monad.return ()
          else do { v7 \<leftarrow> r8 K (obj + 5); w8 K (obj + 5) (v7 + 1) })
       })
   }"

definition beh_visibility_gate_dispatch_l277 :: "'c core_ops \<Rightarrow> u32 \<Rightarrow> (u32
    \<Rightarrow> ('c, 'a) state) \<Rightarrow> ('c, 'a) state" where
  "beh_visibility_gate_dispatch_l277 K obj tail_c750 = do {
     setr K 4 obj;
     call_guest K 0x80051844;
     w8 K (obj + 0x29) 0;
     tail_c750 obj
   }"

definition beh_visibility_gate_dispatch_l271 :: "'c core_ops \<Rightarrow> u32 \<Rightarrow> (u32
    \<Rightarrow> ('c, 'a) state) \<Rightarrow> ('c, 'a) state" where
  "beh_visibility_gate_dispatch_l271 K obj tail_c750 = do {
     setr K 4 obj;
     call_guest K 0x80077B5C;
     w8 K (obj + 0x29) 0;
     tail_c750 obj
   }"

definition beh_visibility_gate_dispatch_l242 :: "'c core_ops \<Rightarrow> u32 \<Rightarrow> u32
    \<Rightarrow> (u32 \<Rightarrow> ('c, 'a) state) \<Rightarrow> (u32 \<Rightarrow> ('c, 'a)
    state) \<Rightarrow> (u32 \<Rightarrow> ('c, 'a) state) \<Rightarrow> ('c, 'a) state" where
  "beh_visibility_gate_dispatch_l242 K n5e obj tail_c750 tail_c74c post_c48c = (if n5e = 10 then
      do {
     setr K 4 obj;
     call_guest K 0x80119454;
     tail_c750 obj
   }
    else if n5e = 11 then do { setr K 4 obj; call_guest K 0x801132B8; tail_c750 obj }
     else if n5e = 12 then do { setr K 4 obj; call_guest K 0x801132F0; tail_c750 obj }
      else if n5e = 13 then do { setr K 4 obj; call_guest K 0x801133F4; tail_c750 obj }
       else if n5e = 14 then do { setr K 4 obj; call_guest K 0x80113490; tail_c750 obj }
        else if n5e = 15 then do { setr K 4 obj; call_guest K 0x80119170; tail_c74c obj }
         else post_c48c obj)"

definition beh_visibility_gate_dispatch_l131 :: "'c core_ops \<Rightarrow> u32 \<Rightarrow> (u32
    \<Rightarrow> ('c, 'a) state) \<Rightarrow> (u32 \<Rightarrow> ('c, 'a) state) \<Rightarrow>
    (u32 \<Rightarrow> ('c, 'a) state) \<Rightarrow> (u32 \<Rightarrow> ('c, 'a) state)
    \<Rightarrow> ('c, 'a) state" where
  "beh_visibility_gate_dispatch_l131 K obj tail_c74c post_c48c post_c604 tail_c750 = do {
     n5e \<leftarrow> r8 K (obj + 0x5E);
     (if 16 \<le> n5e then tail_c74c obj
      else if n5e = 0 then do {
        state1_gate K obj;
        v9 \<leftarrow> r8 K (obj + 1);
        (if v9 = 0 then tail_c74c obj
         else do {
           setr K 4 obj;
           setr K 5 0;
           call_guest K 0x8004B150;
           post_c48c obj
         })
      }
       else if n5e = 1 then do {
         state1_gate K obj;
         setr K 4 obj;
         setr K 5 0;
         call_guest K 0x80049A60;
         post_c48c obj
       }
        else if n5e = 2 then do {
          state1_gate K obj;
          v10 \<leftarrow> r8 K (obj + 1);
          (if v10 = 0 then tail_c74c obj
           else do {
             setr K 4 obj;
             setr K 5 0;
             call_guest K 0x8004B208;
             post_c48c obj
           })
        }
         else if n5e = 3 then do {
           state1_gate K obj;
           v11 \<leftarrow> r8 K (obj + 1);
           (if v11 = 0 then tail_c74c obj
            else do {
              setr K 4 obj;
              setr K 5 1;
              call_guest K 0x8004B150;
              post_c604 obj
            })
         }
          else if n5e = 4 then do {
            state1_gate K obj;
            setr K 4 obj;
            setr K 5 1;
            call_guest K 0x80049A60;
            post_c604 obj
          }
           else if n5e = 5 then do {
             state1_gate K obj;
             v12 \<leftarrow> r8 K (obj + 1);
             (if v12 = 0 then tail_c74c obj
              else do {
                setr K 4 obj;
                setr K 5 1;
                call_guest K 0x8004B208;
                post_c604 obj
              })
           }
            else if n5e = 6 then do {
              area \<leftarrow> r8 K 0x800BF870;
              (if area = 0 then do { setr K 4 obj; call_guest K 0x80118B10; tail_c750 obj }
               else if area = 6 then do {
                 setr K 4 obj;
                 call_guest K 0x80116288;
                 tail_c750 obj
               }
                else tail_c74c obj)
            }
             else if n5e = 7 then do {
               setr K 4 obj;
               call_guest K 0x80118DB0;
               tail_c750 obj
             }
              else if n5e = 8 then do {
                setr K 4 obj;
                call_guest K 0x80119350;
                tail_c750 obj
              }
               else if n5e = 9 then do {
                 area \<leftarrow> r8 K 0x800BF870;
                 (if area = 0 then do {
                   setr K 4 obj;
                   call_guest K 0x80118F50;
                   tail_c750 obj
                 }
                  else if area = 4 then do {
                    setr K 4 obj;
                    call_guest K 0x801193D4;
                    tail_c750 obj
                  }
                   else if area = 5 then do {
                     setr K 4 obj;
                     call_guest K 0x80112F88;
                     tail_c750 obj
                   }
                    else if area = 6 then do {
                      setr K 4 obj;
                      call_guest K 0x801160D4;
                      tail_c750 obj
                    }
                     else if area = 8 then do {
                       setr K 4 obj;
                       call_guest K 0x80116750;
                       tail_c750 obj
                     }
                      else tail_c74c obj)
               }
                else beh_visibility_gate_dispatch_l242 K n5e obj tail_c750 tail_c74c post_c48c)
   }"

definition beh_visibility_gate_dispatch :: "'c core_ops \<Rightarrow> ('c, unit) state" where
  "beh_visibility_gate_dispatch K = with_frame K 24 [(16, 16), (31, 20)] (do {
     let state2_n5_1 = (\<lambda>obj. beh_visibility_gate_dispatch_l391 K obj);
     let state2 = (\<lambda>obj. beh_visibility_gate_dispatch_l295 K obj state2_n5_1);
     let tail_c750 = (\<lambda>obj. do { w8 K (obj + 0x29) 0; w8 K (obj + 0x2B) 0 });
     let tail_c74c = (\<lambda>obj. tail_c750 obj);
     let post_c604 = (\<lambda>obj. beh_visibility_gate_dispatch_l277 K obj tail_c750);
     let post_c48c = (\<lambda>obj. beh_visibility_gate_dispatch_l271 K obj tail_c750);
     let state1 = (\<lambda>obj. beh_visibility_gate_dispatch_l131 K obj tail_c74c post_c48c
         post_c604 tail_c750);
     obj \<leftarrow> reg K 4;
     st \<leftarrow> r8 K (obj + 4);
     (if st = 1 then state1 obj
      else if 2 \<le> st then (if st = 2 then state2 obj
       else if st = 3 then despawn K obj else State_Monad.return ())
       else if st \<noteq> 0 then State_Monad.return ()
        else do {
          n5e \<leftarrow> r8 K (obj + 0x5E);
          w8 K (obj + 4) 1;
          (if 16 \<le> n5e then State_Monad.return ()
           else do {
             call_a9a4 \<leftarrow> (if n5e \<le> 5 then do {
               v18 \<leftarrow> r8 K (obj + 0x28);
               State_Monad.return ((v18 AND 0x7F) \<noteq> 0)
             }
              else State_Monad.return (if n5e = 10 \<or> n5e = 11 then True else False));
             setr K 4 obj;
             call_guest K (if call_a9a4 then 0x8004A9A4 else 0x8004A828)
           })
        })
   })"

end
