(* ===== verification/RoutedBehaviors.thy ===== *)
theory RoutedBehaviors
  imports GameAudio ModelBinding
begin

text \<open>
  Behaviour handlers that only route: by object id, type, variant or phase byte, to guest code or
  to the natives of the other theories.
\<close>

section \<open>Layout\<close>

definition GBASE :: u32 where "GBASE = 0x800BF870"
definition CHILD_TABLE_PTR :: u32 where "CHILD_TABLE_PTR = 0x80019064"
definition OVL_FLAG :: u32 where "OVL_FLAG = 0x800BF822"

section \<open>\<open>game/ai/actor_zoned_attacker_zone_classify.cpp\<close>\<close>

definition actor_zoned_attacker_zone_classify :: "'c core_ops \<Rightarrow> ('c, unit) state"
    where
  "actor_zoned_attacker_zone_classify K = do {
     let L_80145CC8 = (State_Monad.return ());
     let L_80145CB8 = (do {
       r5_1 \<leftarrow> reg K 5;
       v2 \<leftarrow> r16 K (r5_1 + 10);
       setr K 2 (as_s16 v2);
       r2_3 \<leftarrow> reg K 2;
       setr K 2 (of_bool (r2_3 <s 4700) :: u32);
       r2_4 \<leftarrow> reg K 2;
       setr K 2 (r2_4 XOR 1);
       L_80145CC8
     });
     let L_80145C98 = (do {
       r0_5 \<leftarrow> reg K 0;
       setr K 2 (r0_5 + 7);
       r4_6 \<leftarrow> reg K 4;
       r2_7 \<leftarrow> reg K 2;
       let t0 = (of_bool (r4_6 = r2_7) :: u32);
       setr K 3 (r4_6 + (-4));
       (if t0 \<noteq> 0 then L_80145CB8
        else do {
          r3_8 \<leftarrow> reg K 3;
          setr K 3 (of_bool (r3_8 < 8) :: u32);
          r3_9 \<leftarrow> reg K 3;
          let t0 = (of_bool (r3_9 \<noteq> r0_5) :: u32);
          setr K 2 (r0_5 + 1);
          (if t0 \<noteq> 0 then L_80145CC8 else setr K 2 (r0_5 + 2))
        })
     });
     r4_10 \<leftarrow> reg K 4;
     setr K 2 (of_bool (r4_10 <s 4) :: u32);
     r2_11 \<leftarrow> reg K 2;
     r0_12 \<leftarrow> reg K 0;
     let t0 = (of_bool (r2_11 = r0_12) :: u32);
     (if t0 \<noteq> 0 then L_80145C98
      else do {
        r5_13 \<leftarrow> reg K 5;
        v14 \<leftarrow> r16 K (r5_13 + 10);
        setr K 2 (as_s16 v14);
        r2_15 \<leftarrow> reg K 2;
        setr K 2 (of_bool (r2_15 <s 4700) :: u32);
        r2_16 \<leftarrow> reg K 2;
        setr K 2 (r2_16 XOR 1)
      })
   }"

section \<open>\<open>game/ai/beh_box_seed_phase_gate.cpp\<close>\<close>

definition beh_box_seed_phase_gate :: "'c core_ops \<Rightarrow> ('c, unit) state" where
  "beh_box_seed_phase_gate K = with_frame K 32 [(17, 20), (31, 24), (16, 16)] (do {
     let Lret = (State_Monad.return ());
     let La2bc = (\<lambda>s1. do { despawn K s1; Lret });
     let La28c = (\<lambda>s0 s1. do {
       b \<leftarrow> r8 K 0x1F800207;
       (if 32 \<le> b then Lret
        else if b < 25 then Lret
         else do { _ \<leftarrow> guest_call K 0x80129E8C [s1]; w8 K (s1 + 1) s0; Lret })
     });
     let La108 = (\<lambda>s1. do {
       w8 K (s1 + 11) 32;
       w8 K (s1 + 4) 1;
       n3 \<leftarrow> r8 K (s1 + 3);
       w8 K (s1 + 8) 0;
       w8 K (s1 + 9) 0;
       w32 K (s1 + 0x18) 0x8013EA64;
       (if n3 < 2 then do {
         _ \<leftarrow> guest_call K 0x801360F4 [s1, n3];
         for_each (upto_u32 2) (\<lambda>i. do {
           _ \<leftarrow> guest_call K 0x80139838 [s1, i];
           State_Monad.return ()
         })
       }
        else do { _ \<leftarrow> guest_call K 0x8013AC34 [s1, n3]; State_Monad.return () });
       let elem = 0x80149EC4 + n3 * 10;
       v3 \<leftarrow> r16 K (elem + 2);
       w16 K (s1 + 0x80) v3;
       v4 \<leftarrow> r16 K (elem + 6);
       w16 K (s1 + 0x82) v4;
       v5 \<leftarrow> r16 K (elem + 4);
       w16 K (s1 + 0x84) v5;
       v6 \<leftarrow> r16 K (elem + 8);
       w16 K (s1 + 0x86) v6;
       v7 \<leftarrow> r16s K (elem + 2);
       v8 \<leftarrow> r16s K (elem + 6);
       let s_26 = v7 + v8;
       let avg1 = shr (s_26 + shr s_26 31) 1;
       w16 K (s1 + 0x2E) avg1;
       v9 \<leftarrow> r16 K (elem + 0);
       w16 K (s1 + 0x32) v9;
       v10 \<leftarrow> r16 K (s1 + 0x2E);
       w16 K (s1 + 0x4E) v10;
       v11 \<leftarrow> r16s K (elem + 4);
       v12 \<leftarrow> r16s K (elem + 8);
       let s_36 = v11 + v12;
       let avg2 = shr (s_36 + shr s_36 31) 1;
       v32 \<leftarrow> r16 K (s1 + 0x32);
       w16 K (s1 + 0x36) avg2;
       w16 K (s1 + 0x50) v32;
       w16 K (s1 + 0x52) v32;
       _ \<leftarrow> guest_call K 0x80129E8C [s1, v32];
       Lret
     });
     s1 \<leftarrow> reg K 4;
     s0 \<leftarrow> r8 K (s1 + 4);
     (if s0 = 1 then La28c s0 s1
      else if s0 <s 2 then (if s0 = 0 then La108 s1 else Lret)
       else if s0 <s 4 then La2bc s1 else Lret)
   })"

section \<open>\<open>game/ai/beh_id_routed_dispatch.cpp\<close>\<close>

definition beh_id_routed_offset_point :: "'c core_ops \<Rightarrow> ('c, unit) state" where
  "beh_id_routed_offset_point K = do {
     let L_80122C88 = (do {
       r29_1 \<leftarrow> reg K 29;
       v2 \<leftarrow> r32 K (r29_1 + 32);
       setr K 31 v2;
       v3 \<leftarrow> r32 K (r29_1 + 28);
       setr K 19 v3;
       v4 \<leftarrow> r32 K (r29_1 + 24);
       setr K 18 v4;
       v5 \<leftarrow> r32 K (r29_1 + 20);
       setr K 17 v5;
       v6 \<leftarrow> r32 K (r29_1 + 16);
       setr K 16 v6;
       setr K 29 (r29_1 + 40)
     });
     r29_7 \<leftarrow> reg K 29;
     setr K 29 (r29_7 + (-40));
     r29_8 \<leftarrow> reg K 29;
     r19_9 \<leftarrow> reg K 19;
     w32 K (r29_8 + 28) r19_9;
     r4_10 \<leftarrow> reg K 4;
     r0_11 \<leftarrow> reg K 0;
     setr K 19 (r4_10 + r0_11);
     r31_12 \<leftarrow> reg K 31;
     w32 K (r29_8 + 32) r31_12;
     r18_13 \<leftarrow> reg K 18;
     w32 K (r29_8 + 24) r18_13;
     r17_14 \<leftarrow> reg K 17;
     w32 K (r29_8 + 20) r17_14;
     r16_15 \<leftarrow> reg K 16;
     w32 K (r29_8 + 16) r16_15;
     r19_16 \<leftarrow> reg K 19;
     v17 \<leftarrow> r8 K (r19_16 + 11);
     setr K 3 v17;
     setr K 2 (r0_11 + 1);
     r3_18 \<leftarrow> reg K 3;
     r2_19 \<leftarrow> reg K 2;
     let t0 = (of_bool (r3_18 \<noteq> r2_19) :: u32);
     setr K 5 (shl 8064 16);
     (if t0 \<noteq> 0 then L_80122C88
      else do {
        v20 \<leftarrow> r32 K (r19_16 + 232);
        setr K 18 v20;
        r5_21 \<leftarrow> reg K 5;
        w16 K (r5_21 + 192) r0_11;
        setr K 5 (r5_21 + 192);
        setr K 2 (r0_11 + (-119));
        setr K 17 (shl 8064 16);
        r17_22 \<leftarrow> reg K 17;
        setr K 16 (r17_22 + 200);
        r16_23 \<leftarrow> reg K 16;
        setr K 6 (r16_23 + r0_11);
        r5_24 \<leftarrow> reg K 5;
        r2_25 \<leftarrow> reg K 2;
        w16 K (r5_24 + 2) r2_25;
        w16 K (r5_24 + 4) r0_11;
        setr K 31 0x80122C4C;
        r18_26 \<leftarrow> reg K 18;
        setr K 4 (r18_26 + 24);
        call_guest K 0x800844C0;
        r17_27 \<leftarrow> reg K 17;
        v28 \<leftarrow> r16 K (r17_27 + 200);
        setr K 2 v28;
        r18_29 \<leftarrow> reg K 18;
        v30 \<leftarrow> r16 K (r18_29 + 44);
        setr K 3 v30;
        r2_31 \<leftarrow> reg K 2;
        r3_32 \<leftarrow> reg K 3;
        setr K 2 (r2_31 + r3_32);
        r19_33 \<leftarrow> reg K 19;
        r2_34 \<leftarrow> reg K 2;
        w16 K (r19_33 + 78) r2_34;
        r16_35 \<leftarrow> reg K 16;
        v36 \<leftarrow> r16 K (r16_35 + 2);
        setr K 2 v36;
        v37 \<leftarrow> r16 K (r18_29 + 48);
        setr K 3 v37;
        r2_38 \<leftarrow> reg K 2;
        r3_39 \<leftarrow> reg K 3;
        setr K 2 (r2_38 + r3_39);
        r2_40 \<leftarrow> reg K 2;
        w16 K (r19_33 + 80) r2_40;
        v41 \<leftarrow> r16 K (r16_35 + 4);
        setr K 2 v41;
        v42 \<leftarrow> r16 K (r18_29 + 52);
        setr K 3 v42;
        r2_43 \<leftarrow> reg K 2;
        r3_44 \<leftarrow> reg K 3;
        setr K 2 (r2_43 + r3_44);
        r2_45 \<leftarrow> reg K 2;
        w16 K (r19_33 + 82) r2_45;
        L_80122C88
      })
   }"

definition beh_id_routed_dispatch :: "'c core_ops \<Rightarrow> ('c, unit) state" where
  "beh_id_routed_dispatch K = with_frame K 32 [(16, 16), (31, 24), (17, 20)] (do {
     let Lret = (State_Monad.return ());
     let S3 = (\<lambda>s0. do { despawn K s0; Lret });
     let S11 = (\<lambda>s0. do {
       v1 \<leftarrow> r8 K (s0 + 3);
       (if v1 = 0 then do {
         _ \<leftarrow> guest_call K 0x801225BC [s0];
         State_Monad.return ()
       }
        else if v1 = 1 then do {
          _ \<leftarrow> guest_call K 0x80122D58 [s0];
          State_Monad.return ()
        }
         else if v1 = 95 then do {
           _ \<leftarrow> guest_call K 0x801220FC [s0];
           State_Monad.return ()
         }
          else if v1 = 96 then do {
            _ \<leftarrow> guest_call K 0x80121B44 [s0];
            State_Monad.return ()
          }
           else if v1 = 97 then do {
             _ \<leftarrow> guest_call K 0x80121CF8 [s0];
             State_Monad.return ()
           }
            else if v1 = 98 then do {
              _ \<leftarrow> guest_call K 0x80122CA4 [s0];
              State_Monad.return ()
            }
             else only_if (v1 = 99) (do {
               _ \<leftarrow> guest_call K 0x8018BF08 [s0];
               State_Monad.return ()
             }));
       _ \<leftarrow> guest_call K 0x80122BF4 [s0];
       w8 K (s0 + 0x2B) 0;
       Lret
     });
     let S0 = (\<lambda>s0. do {
       v2 \<leftarrow> r32 K 0x800ECFCC;
       _ \<leftarrow> guest_call K 0x800519E0 [s0, 18, v2, 0x8014C02C];
       r2_3 \<leftarrow> reg K 2;
       (if r2_3 \<noteq> 0 then Lret
        else do {
          v4 \<leftarrow> r32 K 0x800ECFD0;
          w32 K (s0 + 0x3C) v4;
          _ \<leftarrow> guest_call K 0x80077C40 [s0, 0x8014E4EC, 0];
          w16 K (s0 + 0x80) 140;
          w16 K (s0 + 0x82) 280;
          w16 K (s0 + 0x84) 128;
          w16 K (s0 + 0x86) 256;
          w8 K (s0 + 11) 0;
          w8 K (s0 + 0x2B) 0;
          w16 K (s0 + 0x44) 384;
          w8 K (s0 + 0x47) 0;
          v5 \<leftarrow> r8 K (s0 + 4);
          w8 K (s0 + 4) (v5 + 1);
          Lret
        })
     });
     s0 \<leftarrow> reg K 4;
     st \<leftarrow> r8 K (s0 + 4);
     (if st = 1 then S11 s0
      else if st <s 2 then (if st = 0 then S0 s0 else Lret)
       else if st = 2 then Lret
        else if st = 3 then S3 s0 else Lret)
   })"

section \<open>\<open>game/ai/beh_jumptable_flag_gate.cpp\<close>\<close>

definition tail_set1_and_render :: "'c core_ops \<Rightarrow> u32 \<Rightarrow> ('c, unit) state"
    where
  "tail_set1_and_render K obj = do {
     w8 K (obj + 1) 1;
     setr K 4 obj;
     graphics_bind_render_update K
   }"

definition despawn_flag_block :: "'c core_ops \<Rightarrow> u32 \<Rightarrow> ('c, unit) state"
    where
  "despawn_flag_block K obj = do {
     n3 \<leftarrow> r8 K (obj + 3);
     cur \<leftarrow> r8 K 0x800BF9DF;
     let nv = (if n3 \<noteq> 0 then as_u8 (cur OR 8) else as_u8 (cur OR 4));
     w8 K 0x800BF9DF nv;
     w8 K (obj + 0x1A) 0;
     w8 K (obj + 0x19) 0;
     w8 K (obj + 0x18) 0;
     w8 K (obj + 4) 3
   }"

definition step_node18 :: "'c core_ops \<Rightarrow> u32 \<Rightarrow> ('c, unit) state" where
  "step_node18 K obj = do {
     v1 \<leftarrow> r8 K (obj + 0x18);
     let v = as_u8 (v1 - 3);
     w8 K (obj + 0x1A) v;
     w8 K (obj + 0x19) v;
     w8 K (obj + 0x18) v;
     only_if (as_s8 v \<le>s 0) (despawn_flag_block K obj);
     tail_set1_and_render K obj
   }"

definition advance_node32 :: "'c core_ops \<Rightarrow> u32 \<Rightarrow> ('c, unit) state" where
  "advance_node32 K obj = do {
     v1 \<leftarrow> r16 K (obj + 0x32);
     let v = as_u16 (v1 + 4);
     w16 K (obj + 0x32) v;
     (if as_s16 v <s - 0x64E then tail_set1_and_render K obj
      else do {
        w8 K (obj + 0x1A) 0x7F;
        w8 K (obj + 0x19) 0x7F;
        w8 K (obj + 0x18) 0x7F;
        w8 K (obj + 0xD) 2;
        v2 \<leftarrow> r8 K (obj + 6);
        w8 K (obj + 6) (v2 + 1);
        tail_set1_and_render K obj
      })
   }"

definition gate_then_flag :: "'c core_ops \<Rightarrow> u32 \<Rightarrow> u32 \<Rightarrow> ('c,
    unit) state" where
  "gate_then_flag K obj thr = do {
     v1 \<leftarrow> r8 K 0x800BF9DF;
     (if v1 \<noteq> 0 then w8 K (obj + 1) 1
      else do {
        p \<leftarrow> r8 K 0x1F800207;
        (if p < thr then State_Monad.return () else w8 K (obj + 1) 1)
      })
   }"

definition beh_jumptable_flag_gate_l195 :: "'c core_ops \<Rightarrow> u32 \<Rightarrow> ('c, unit)
    state" where
  "beh_jumptable_flag_gate_l195 K obj = do {
     v9 \<leftarrow> r8s K 0x800BF80D;
     (if v9 \<noteq> 0 then w8 K (obj + 1) 1
      else do {
        n3 \<leftarrow> r8 K (obj + 3);
        (if 6 \<le> n3 then State_Monad.return ()
         else if n3 = 0 then do {
           s5 \<leftarrow> r8 K (obj + 5);
           (if s5 = 0 then do {
             v12 \<leftarrow> r8 K 0x800BF9DF;
             only_if ((v12 AND 2) \<noteq> 0) (do {
               w8 K (obj + 6) 0;
               v13 \<leftarrow> r8 K (obj + 5);
               w8 K (obj + 5) (v13 + 1)
             });
             v14 \<leftarrow> r8 K 0x1F800207;
             (if v14 < 0x17 then State_Monad.return () else w8 K (obj + 1) 1)
           }
            else if s5 \<noteq> 1 then State_Monad.return ()
             else do {
               n6 \<leftarrow> r8 K (obj + 6);
               (if n6 = 0 then advance_node32 K obj
                else if n6 \<noteq> 1 then tail_set1_and_render K obj
                 else step_node18 K obj)
             })
         }
          else if n3 = 1 then do {
            s5 \<leftarrow> r8 K (obj + 5);
            (if s5 = 0 then do {
              v17 \<leftarrow> r8 K 0x800BF9DF;
              only_if ((v17 AND 2) \<noteq> 0) (do {
                w8 K (obj + 6) 0;
                v18 \<leftarrow> r8 K (obj + 5);
                w8 K (obj + 5) (v18 + 1)
              });
              v19 \<leftarrow> r8 K 0x1F800207;
              (if v19 < 0x1C then State_Monad.return ()
               else do {
                 v20 \<leftarrow> r16s K 0x1F8000DE;
                 (if v20 <s 0x3F8C then State_Monad.return () else w8 K (obj + 1) 1)
               })
            }
             else if s5 \<noteq> 1 then State_Monad.return ()
              else do {
                n6 \<leftarrow> r8 K (obj + 6);
                (if n6 = 0 then advance_node32 K obj
                 else if n6 = 1 then step_node18 K obj else tail_set1_and_render K obj)
              })
          }
           else if n3 = 2 \<or> n3 = 3 then gate_then_flag K obj 0x1F
            else if n3 = 4 then gate_then_flag K obj 0x20
             else if n3 = 5 then do {
               v22 \<leftarrow> r8 K 0x800BF9B5;
               (if v22 = 3 then w8 K (obj + 1) 1
                else do {
                  v23 \<leftarrow> r8 K 0x800BF9DF;
                  (if v23 \<noteq> 0 then w8 K (obj + 1) 1
                   else do {
                     p \<leftarrow> r8 K 0x1F800207;
                     (if as_u8 (p - 0x1E) < 2 then State_Monad.return ()
                      else w8 K (obj + 1) 1)
                   })
                })
             }
              else State_Monad.return ())
      })
   }"

definition beh_jumptable_flag_gate :: "'c core_ops \<Rightarrow> ('c, unit) state" where
  "beh_jumptable_flag_gate K = with_frame K 32 [(16, 16), (31, 24), (17, 20)] (do {
     obj \<leftarrow> reg K 4;
     st \<leftarrow> r8 K (obj + 4);
     (if st \<noteq> 1 then (if 2 \<le> st then (if st = 2 then State_Monad.return ()
      else only_if (st = 3) (despawn K obj))
      else if st \<noteq> 0 then State_Monad.return ()
       else do {
         n3 \<leftarrow> r8 K (obj + 3);
         setr K 4 obj;
         setr K 5 0xC;
         setr K 6 (n3 + 0x48);
         graphics_bind_record_init K;
         r2_4 \<leftarrow> reg K 2;
         (if r2_4 \<noteq> 0 then State_Monad.return ()
          else do {
            n3 \<leftarrow> r8 K (obj + 3);
            w8 K (obj + 0) 1;
            v6 \<leftarrow> r8 K (obj + 4);
            w8 K (obj + 4) (v6 + 1);
            (if 2 \<le> n3 then do {
              w8 K (obj + 0xB) 2;
              setr K 4 obj;
              graphics_bind_render_update K
            }
             else do {
               v7 \<leftarrow> r8 K 0x800BF9DF;
               (if v7 \<noteq> 0 then w8 K (obj + 4) 3
                else do { w8 K (obj + 0xB) 0; setr K 4 obj; graphics_bind_render_update K })
             })
          })
       })
      else do {
        p0 \<leftarrow> r8 K 0x1F800207;
        (if p0 < 0x16 then State_Monad.return ()
         else do {
           let rest1 = (beh_jumptable_flag_gate_l195 K obj);
           (if p0 = 0x16 then do {
             v25 \<leftarrow> r16 K 0x800E7EB6;
             let cnt = as_s16 v25;
             (if cnt <s 0x2A30 then State_Monad.return () else rest1)
           }
            else rest1)
         })
      })
   })"

section \<open>\<open>game/ai/beh_node3_router.cpp\<close>\<close>

definition beh_node3_router :: "'c core_ops \<Rightarrow> ('c, unit) state" where
  "beh_node3_router K = with_frame K 24 [(16, 16), (31, 20)] (do {
     nd \<leftarrow> reg K 4;
     st \<leftarrow> r8 K (nd + 4);
     (if st = 1 then do {
       n3 \<leftarrow> r8 K (nd + 3);
       (if n3 = 0 then do {
         _ \<leftarrow> guest_call K 0x8011C674 [nd];
         State_Monad.return ()
       }
        else only_if (n3 = 1) (do {
          _ \<leftarrow> guest_call K 0x8011CA04 [nd];
          State_Monad.return ()
        }));
       v4 \<leftarrow> r8 K (nd + 1);
       only_if (v4 \<noteq> 0) (do {
         _ \<leftarrow> guest_call K 0x800518FC [nd];
         State_Monad.return ()
       });
       w8 K (nd + 0x2B) 0;
       _ \<leftarrow> guest_call K 0x8011CD14 [nd];
       State_Monad.return ()
     }
      else if st < 2 then do {
        v5 \<leftarrow> r8 K 0x800BF89C;
        only_if (st = 0 \<and> 3 < v5) (do {
          w8 K (nd + 0x0B) 0x40;
          w16 K (nd + 0x80) 100;
          w16 K (nd + 0x82) 200;
          w16 K (nd + 0x84) 0xC0;
          w16 K (nd + 0x58) 0;
          w16 K (nd + 0x56) 0;
          w16 K (nd + 0x54) 0;
          w8 K (nd + 0) 1;
          w8 K (nd + 0x2B) 0;
          w16 K (nd + 0x86) 0x150;
          w8 K (nd + 5) 0;
          v6 \<leftarrow> r32 K 0x800ECFA4;
          w32 K (nd + 0x3C) v6;
          v7 \<leftarrow> r8 K (nd + 4);
          w8 K (nd + 4) (v7 + 1)
        })
      }
       else if st = 2 then w8 K (nd + 4) 3 else only_if (st = 3) (despawn K nd))
   })"

section \<open>\<open>game/ai/beh_pure_substate_dispatch.cpp\<close>\<close>

definition beh_pure_substate_dispatch :: "'c core_ops \<Rightarrow> ('c, unit) state" where
  "beh_pure_substate_dispatch K = with_frame K 32 [(17, 20), (31, 24), (16, 16)] (do {
     let Lret = (State_Monad.return ());
     let Ltail = (\<lambda>s1. do {
       v1 \<leftarrow> r8 K (s1 + 1);
       only_if (v1 \<noteq> 0) (do {
         _ \<leftarrow> guest_call K 0x800518FC [s1];
         State_Monad.return ()
       });
       Lret
     });
     let S2 = (\<lambda>s1. do {
       _ \<leftarrow> guest_call K 0x8007778C [s1];
       n5 \<leftarrow> r8 K (s1 + 5);
       only_if ((0 \<le>s n5 \<and> 2 \<le>s n5) \<and> n5 <s 4) (do {
         _ \<leftarrow> guest_call K 0x801261FC [s1];
         State_Monad.return ()
       });
       Ltail s1
     });
     let S11 = (\<lambda>s1. do {
       _ \<leftarrow> guest_call K 0x8007778C [s1];
       n5 \<leftarrow> r8 K (s1 + 5);
       (if n5 = 0 then do {
         _ \<leftarrow> guest_call K 0x80125FE0 [s1];
         State_Monad.return ()
       }
        else if n5 = 1 then do {
          _ \<leftarrow> guest_call K 0x801255CC [s1];
          State_Monad.return ()
        }
         else only_if (n5 = 2) (do {
           _ \<leftarrow> guest_call K 0x80125800 [s1];
           State_Monad.return ()
         }));
       Ltail s1
     });
     s1 \<leftarrow> reg K 4;
     s0 \<leftarrow> r8 K (s1 + 4);
     (if s0 = 1 then S11 s1
      else if s0 <s 2 then do {
        only_if (s0 = 0) (do {
          _ \<leftarrow> guest_call K 0x801253E8 [s1];
          State_Monad.return ()
        });
        Lret
      }
       else if s0 = 2 then S2 s1
        else if s0 = 3 then do { despawn K s1; Lret }
         else Lret)
   })"

section \<open>\<open>game/ai/beh_toy_spawn_family.cpp\<close>\<close>

definition beh_arm_countdown_if_linked_ready_80127420 :: "'c core_ops \<Rightarrow> u32
    \<Rightarrow> ('c, u32) state" where
  "beh_arm_countdown_if_linked_ready_80127420 K obj = do {
     linked1 \<leftarrow> r32 K (obj + 0x10);
     v2 \<leftarrow> r8 K (linked1 + 0x5E);
     only_if (v2 \<noteq> 0) (do {
       w16 K (obj + 0x40) 20;
       w16 K (obj + 0x4A) 20;
       w8 K (obj + 0x05) 1
     });
     reg K 2
   }"

definition beh_distance_band_predicate_801274bc :: "'c core_ops \<Rightarrow> u32 \<Rightarrow>
    ('c, u32) state" where
  "beh_distance_band_predicate_801274bc K obj = do {
     base1 \<leftarrow> r32 K (obj + 0x10);
     v2 \<leftarrow> r16 K (obj + 0x60);
     let slot1 = as_s16 v2;
     row \<leftarrow> r32 K (base1 + slot1 * 4 + 0xC0);
     rowVal \<leftarrow> r16 K (row + 0x2C);
     objVal \<leftarrow> r16 K (obj + 0x2E);
     let d = as_s16 (rowVal - objVal);
     (if d <s 601 then State_Monad.return (if d <s 251 then 0 else -1)
      else State_Monad.return 1)
   }"

definition beh_spawn_toy_child_type5_80127720 :: "'c core_ops \<Rightarrow> u32 \<Rightarrow> ('c,
    u32) state" where
  "beh_spawn_toy_child_type5_80127720 K owner = with_frame K 32 [(17, 20), (31, 24), (16, 16)] (do
      {
     child \<leftarrow> guest_call K 0x80072DDC [owner, 0, 2, 20];
     (if child = 0 then State_Monad.return 0
      else do {
        _ \<leftarrow> guest_call K 0x8004D604 [84, 1];
        w32 K (child + 0x1C) CHILD_TABLE_PTR;
        w8 K (child + 0x03) 5;
        w16 K (child + 0x5C) 0;
        w32 K (owner + 0x24) 30;
        State_Monad.return 1
      })
   })"

definition beh_spawn_toy_child_type4_8012763c :: "'c core_ops \<Rightarrow> u32 \<Rightarrow> ('c,
    u32) state" where
  "beh_spawn_toy_child_type4_8012763c K owner = with_frame K 32 [(17, 20), (31, 24), (16, 16)] (do
      {
     child \<leftarrow> guest_call K 0x80072DDC [owner, 0, 2, 20];
     (if child = 0 then State_Monad.return 0
      else do {
        setr K 5 1;
        call_guest K 0x8004D650;
        w32 K (child + 0x1C) CHILD_TABLE_PTR;
        w8 K (child + 0x03) 4;
        w16 K (child + 0x5C) 0;
        v2 \<leftarrow> r8 K (GBASE + 0x82);
        childFlag \<leftarrow> (if v2 = 1 then do {
          w16 K (child + 0x68) 0;
          v3 \<leftarrow> r8 K (GBASE + 0x82);
          w8 K (GBASE + 0x82) (v3 OR 0x10);
          v4 \<leftarrow> r8 K (GBASE + 0x183);
          State_Monad.return (as_u8 (v4 AND 4))
        }
         else do {
           w16 K (child + 0x68) 1;
           v5 \<leftarrow> r8 K (GBASE + 0x183);
           State_Monad.return (as_u8 ((shr v5 4) AND 4))
         });
        w8 K (child + 0x5E) childFlag;
        _ \<leftarrow> guest_call K 0x8004ED94 [(if childFlag = 0 then 78 else 77), 65];
        w32 K (owner + 0x24) 30;
        State_Monad.return 1
      })
   })"

definition beh_spawn_toy_child_type2_80127510 :: "'c core_ops \<Rightarrow> u32 \<Rightarrow> u32
    \<Rightarrow> ('c, u32) state" where
  "beh_spawn_toy_child_type2_80127510 K owner subtype = with_frame K 40 [(19, 28), (17, 20), (18,
      24), (31, 32), (16, 16)] (do {
     child \<leftarrow> guest_call K 0x80072DDC [owner, 0, 2, 20];
     (if child = 0 then State_Monad.return 0
      else do {
        _ \<leftarrow> guest_call K 0x8004D650 [subtype, 1];
        _ \<leftarrow> guest_call K 0x8004ED0C [subtype, 5];
        w32 K (child + 0x1C) CHILD_TABLE_PTR;
        w8 K (child + 0x03) 2;
        (if subtype = 57 then do {
          w16 K (child + 0x5C) 13439;
          w8 K (child + 0x5E) 0;
          v2 \<leftarrow> r8 K (GBASE + 0x1D8);
          w8 K (GBASE + 0x1D8) (v2 + 1)
        }
         else do { w16 K (child + 0x5C) 13375; w8 K (child + 0x5E) 4 });
        v3 \<leftarrow> r8 K (child + 0x5E);
        let combined = as_u8 (1 OR v3);
        v4 \<leftarrow> r8 K (GBASE + 0x183);
        mode \<leftarrow> (if v4 \<noteq> 0 then do {
          _ \<leftarrow> guest_call K 0x80040C00 [61];
          let mode = shl combined 4;
          w16 K (child + 0x68) 1;
          w32 K (owner + 0x24) 120;
          State_Monad.return mode
        }
         else do {
           let mode = combined;
           w16 K (child + 0x68) 0;
           w32 K (owner + 0x24) 30;
           State_Monad.return mode
         });
        v5 \<leftarrow> r8 K (GBASE + 0x183);
        w8 K (GBASE + 0x183) (v5 OR mode);
        State_Monad.return 1
      })
   })"

definition ov_beh_arm_countdown80127420 :: "'c core_ops \<Rightarrow> ('c, unit) state" where
  "ov_beh_arm_countdown80127420 K = do {
     r4_1 \<leftarrow> reg K 4;
     v2 \<leftarrow> beh_arm_countdown_if_linked_ready_80127420 K r4_1;
     setr K 2 v2
   }"

definition ov_beh_distance_band801274bc :: "'c core_ops \<Rightarrow> ('c, unit) state" where
  "ov_beh_distance_band801274bc K = do {
     r4_1 \<leftarrow> reg K 4;
     v2 \<leftarrow> beh_distance_band_predicate_801274bc K r4_1;
     setr K 2 v2
   }"

definition ov_beh_spawn_toy_type5_80127720 :: "'c core_ops \<Rightarrow> ('c, unit) state" where
  "ov_beh_spawn_toy_type5_80127720 K = do {
     r4_1 \<leftarrow> reg K 4;
     v2 \<leftarrow> beh_spawn_toy_child_type5_80127720 K r4_1;
     setr K 2 v2
   }"

definition ov_beh_spawn_toy_type4_8012763c :: "'c core_ops \<Rightarrow> ('c, unit) state" where
  "ov_beh_spawn_toy_type4_8012763c K = do {
     r4_1 \<leftarrow> reg K 4;
     v2 \<leftarrow> beh_spawn_toy_child_type4_8012763c K r4_1;
     setr K 2 v2
   }"

definition ov_beh_spawn_toy_type2_80127510 :: "'c core_ops \<Rightarrow> ('c, unit) state" where
  "ov_beh_spawn_toy_type2_80127510 K = do {
     r4_1 \<leftarrow> reg K 4;
     r5_2 \<leftarrow> reg K 5;
     v3 \<leftarrow> beh_spawn_toy_child_type2_80127510 K r4_1 r5_2;
     setr K 2 v3
   }"

section \<open>\<open>game/ai/beh_typed_variant_router.cpp\<close>\<close>

definition prng :: "'c core_ops \<Rightarrow> ('c, u32) state" where
  "prng K = rng_next K"

definition call_77b38 :: "'c core_ops \<Rightarrow> u32 \<Rightarrow> u32 \<Rightarrow> ('c, unit)
    state" where
  "call_77b38 K nd n = do {
     setr K 4 nd;
     setr K 5 0x8014C808;
     setr K 6 n;
     graphics_bind_set_geom K
   }"

definition state1_appear :: "'c core_ops \<Rightarrow> u32 \<Rightarrow> ('c, unit) state" where
  "state1_appear K nd = do {
     v1 \<leftarrow> r8 K 0x800E7EAA;
     (if v1 < 26 then w8 K (nd + 0x29) 0
      else do {
        v2 \<leftarrow> guest_call K 0x80077870 [nd];
        (if v2 = 0 then w8 K (nd + 0x29) 0
         else do {
           sub1 \<leftarrow> r8 K (nd + 6);
           (if sub1 = 1 then do {
             _ \<leftarrow> guest_call K 0x8011BC3C [nd];
             State_Monad.return ()
           }
            else if sub1 = 0 then do {
              v4 \<leftarrow> prng K;
              let r = v4 AND 7;
              (if r = 0 then w8 K (nd + 6) 2 else only_if (r < 5) (w8 K (nd + 6) 1));
              w8 K (nd + 7) 0
            }
             else only_if (sub1 = 2) (do {
               _ \<leftarrow> guest_call K 0x80077B5C [nd];
               s7 \<leftarrow> r8 K (nd + 7);
               (if s7 = 0 then do {
                 call_77b38 K nd 7;
                 v6 \<leftarrow> prng K;
                 let r = v6 AND 0x1F;
                 w16 K (nd + 0x40) (r + 0x20);
                 v7 \<leftarrow> r8 K (nd + 7);
                 w8 K (nd + 7) (v7 + 1)
               }
                else only_if (s7 = 1) (do {
                  v8 \<leftarrow> r16 K (nd + 0x40);
                  let v = as_u16 (v8 - 1);
                  w16 K (nd + 0x40) v;
                  only_if (v = 0) (do { w8 K (nd + 6) 0; w8 K (nd + 7) 0 })
                }))
             }));
           w8 K (nd + 0x29) 0
         })
      })
   }"

definition beh_typed_variant_router :: "'c core_ops \<Rightarrow> ('c, unit) state" where
  "beh_typed_variant_router K = do {
     nd \<leftarrow> reg K 4;
     st \<leftarrow> r8 K (nd + 4);
     let rest1 = ((if st = 0 then do {
       w8 K (nd + 4) 1;
       p \<leftarrow> r32 K 0x800ECF80;
       w8 K (nd + 0x0D) 0;
       w16 K (nd + 0x5C) 0;
       w8 K (nd + 0x0B) 0x10;
       w8 K (nd + 0x47) 0;
       w16 K (nd + 0x5A) 0;
       w32 K (nd + 0x3C) p;
       call_77b38 K nd 8;
       w16 K (nd + 0x80) 0x32;
       w16 K (nd + 0x82) 100;
       w16 K (nd + 0x84) 0x46;
       w16 K (nd + 0x86) 100;
       w8 K (nd + 0x29) 0;
       w16 K (nd + 0x60) 0;
       w16 K (nd + 0x62) 0;
       ty \<leftarrow> r8 K (nd + 3);
       (if ty < 2 then do {
         let e1 = 0x80148914 + ty * 8;
         w8 K (nd + 0) 1;
         v5 \<leftarrow> r16 K (e1 + 0);
         w16 K (nd + 0x2E) v5;
         v6 \<leftarrow> r16 K (e1 + 2);
         w16 K (nd + 0x32) v6;
         v7 \<leftarrow> r16 K (e1 + 4);
         w16 K (nd + 0x36) v7;
         v8 \<leftarrow> r8 K (e1 + 6);
         w8 K (nd + 0x2A) v8
       }
        else only_if (ty = 3) (do {
          v9 \<leftarrow> r8 K 0x800BF8BC;
          only_if (v9 = 0xFF) (w8 K (nd + 4) ty)
        }))
     }
      else if st = 2 then do {
        _ \<leftarrow> guest_call K 0x80077E7C [nd];
        w8 K (nd + 1) 1;
        sub1 \<leftarrow> r8 K (nd + 5);
        (if sub1 = 1 then do {
          v11 \<leftarrow> r8 K (nd + 6);
          (if v11 \<noteq> 0 then State_Monad.return ()
           else do { w8 K (nd + 6) sub1; w16 K (nd + 0x5A) 0; call_77b38 K nd 0xC })
        }
         else only_if (sub1 = 0 \<or> sub1 = 2) (do {
           _ \<leftarrow> guest_call K 0x8011C090 [nd];
           State_Monad.return ()
         }))
      }
       else only_if (st = 3) (despawn K nd)));
     (if st = 1 then do {
       ty \<leftarrow> r8 K (nd + 3);
       (if 21 \<le> ty then w8 K (nd + 0x29) 0
        else if ty = 0 \<or> ty = 1 then state1_appear K nd
         else if ty = 2 then do {
           r29_13 \<leftarrow> reg K 29;
           let fsp = r29_13 - 0x30;
           w16 K (fsp + 0x18) 0xFFFE;
           w16 K (fsp + 0x1A) 0x0000;
           w16 K (fsp + 0x1C) 0xFFEA;
           w32 K (fsp + 0x10) (fsp + 0x18);
           v1 \<leftarrow> r32 K (nd + 0x10);
           a2 \<leftarrow> r32 K (v1 + 0xDC);
           setr K 4 nd;
           setr K 5 1;
           setr K 6 a2;
           setr K 7 a2;
           let save_sp = r29_13;
           setr K 29 fsp;
           graphics_bind_pos_compose K;
           setr K 29 save_sp;
           _ \<leftarrow> guest_call K 0x80077B5C [nd];
           w8 K (nd + 1) 1;
           _ \<leftarrow> guest_call K 0x80077E7C [nd];
           w8 K (nd + 0x29) 0
         }
          else if ((ty = 3 \<or> ty = 7) \<or> ty = 8) \<or> ty = 9 then do {
            _ \<leftarrow> guest_call K 0x8011B324 [nd];
            _ \<leftarrow> guest_call K 0x80077B5C [nd];
            w8 K (nd + 1) 1;
            _ \<leftarrow> guest_call K 0x80077E7C [nd];
            w8 K (nd + 0x29) 0
          }
           else if (ty = 4 \<or> ty = 5) \<or> ty = 6 then do {
             _ \<leftarrow> guest_call K 0x8011B738 [nd];
             w8 K (nd + 0x29) 0
           }
            else if ((ty = 10 \<or> ty = 11) \<or> ty = 12) \<or> ty = 13 then do {
              _ \<leftarrow> guest_call K 0x8011ADA8 [nd];
              w8 K (nd + 0x29) 0
            }
             else if ty = 0x14 then do {
               v16 \<leftarrow> guest_call K 0x8007778C [nd];
               only_if (v16 \<noteq> 0) (do {
                 _ \<leftarrow> guest_call K 0x8011BF04 [nd];
                 State_Monad.return ()
               });
               w8 K (nd + 0x29) 0
             }
              else w8 K (nd + 0x29) 0)
     }
      else rest1)
   }"

section \<open>\<open>game/ai/beh_variant_overlay_lifecycle.cpp\<close>\<close>

definition beh_variant_overlay_lifecycle :: "'c core_ops \<Rightarrow> ('c, unit) state" where
  "beh_variant_overlay_lifecycle K = with_frame K 32 [(16, 16), (31, 24), (17, 20)] (do {
     nd \<leftarrow> reg K 4;
     st \<leftarrow> r8 K (nd + 4);
     (if st = 1 then do {
       v3 \<leftarrow> r8 K (nd + 3);
       v4 \<leftarrow> r8 K OVL_FLAG;
       only_if (v3 = 0 \<and> (v4 AND 0xFB) \<noteq> 0) (w8 K (nd + 4) 2);
       _ \<leftarrow> guest_call K 0x8007C940 [nd];
       _ \<leftarrow> guest_call K 0x8007CC00 [nd];
       v5 \<leftarrow> r8 K (nd + 3);
       only_if (v5 \<noteq> 1) (do {
         v6 \<leftarrow> r8 K (nd + 0x18);
         _ \<leftarrow> guest_call K 0x8005019C [nd + 0x54, v6, 1, 2];
         State_Monad.return ()
       })
     }
      else if st < 2 then do {
        base1 \<leftarrow> r32 K (nd + 0x4C);
        v8 \<leftarrow> r16 K (nd + 0x5E);
        let idx = as_s16 v8;
        tv \<leftarrow> r16 K (base1 + idx * 4);
        v10 \<leftarrow> r32 K (nd + 0x50);
        let pos = v10 + tv;
        w32 K (nd + 0x10) pos;
        w32 K (nd + 0x14) pos;
        _ \<leftarrow> guest_call K 0x8007C0D0 [nd, 0];
        n3 \<leftarrow> r8 K (nd + 3);
        w8 K (nd + 0x46) 1;
        v12 \<leftarrow> r8 K (nd + 4);
        w8 K (nd + 4) (v12 + 1);
        (if n3 = 2 then w8 K (nd + 0x18) 5
         else if n3 < 3 then only_if (n3 = 0) (do {
           w8 K (nd + 0x18) 4;
           v13 \<leftarrow> r8 K OVL_FLAG;
           w8 K OVL_FLAG (v13 OR 4)
         })
          else only_if (n3 = 3) (w8 K (nd + 0x18) 1))
      }
       else if st = 2 then w8 K (nd + 4) 3
        else only_if (st = 3) (do {
          v14 \<leftarrow> r8 K (nd + 3);
          only_if (v14 = 0) (do {
            v15 \<leftarrow> r8 K OVL_FLAG;
            w8 K OVL_FLAG (v15 AND 0xFB)
          });
          despawn K nd
        }))
   })"

section \<open>\<open>game/ai/release_trigger_motion.cpp\<close>\<close>

definition release_trigger_motion_hover_bob_cycle :: "'c core_ops \<Rightarrow> u32 \<Rightarrow>
    ('c, unit) state" where
  "release_trigger_motion_hover_bob_cycle K obj = with_frame K 24 [(16, 16), (31, 20)] (do {
     st \<leftarrow> r8 K (obj + 5);
     (if st = 0 then do {
       w8 K (obj + 5) (st + 1);
       setr K 4 obj;
       setr K 5 0x8014C808;
       setr K 6 3;
       graphics_bind_set_geom K;
       w16 K (obj + 0x40) 0x5A;
       actor_set_vel_x K obj 0x10;
       w16 K (obj + 0x4E) 0xFFFE;
       w16 K (obj + 0x64) 0;
       w16 K (obj + 0x68) 0;
       v2 \<leftarrow> r16 K (obj + 0x40);
       let v40 = as_s16 v2;
       w16 K (obj + 0x40) (v40 - 1);
       only_if (v40 = 1) (do { cur \<leftarrow> r8 K (obj + 5); w8 K (obj + 5) (cur + 1) });
       setr K 4 obj;
       call_guest K 0x80077B5C
     }
      else if st = 1 \<or> st = 3 then do {
        v4 \<leftarrow> r16 K (obj + 0x40);
        let v40 = as_s16 v4;
        w16 K (obj + 0x40) (v40 - 1);
        only_if (v40 = 1) (do {
          cur \<leftarrow> r8 K (obj + 5);
          w8 K (obj + 5) (cur + 1)
        });
        setr K 4 obj;
        call_guest K 0x80077B5C
      }
       else if st = 2 then do {
         v6 \<leftarrow> r16 K (obj + 0x64);
         v7 \<leftarrow> r16 K (obj + 0x48);
         w16 K (obj + 0x64) (v6 + v7);
         v8 \<leftarrow> r16 K (obj + 0x48);
         v9 \<leftarrow> r16 K (obj + 0x4E);
         w16 K (obj + 0x48) (v8 + v9);
         v10 \<leftarrow> r16 K (obj + 0x56);
         let ph = as_s16 (v10 + 0x80);
         w16 K (obj + 0x56) ph;
         (if ph \<noteq> 0x800 then do { setr K 4 obj; call_guest K 0x80077B5C }
          else do {
            w16 K (obj + 0x40) 0x5A;
            actor_set_vel_x K obj 0xFFF0;
            cur \<leftarrow> r8 K (obj + 5);
            w16 K (obj + 0x4E) 2;
            w8 K (obj + 5) (cur + 1);
            setr K 4 obj;
            call_guest K 0x80077B5C
          })
       }
        else do {
          only_if (st = 4) (do {
            v12 \<leftarrow> r16 K (obj + 0x64);
            v13 \<leftarrow> r16 K (obj + 0x48);
            w16 K (obj + 0x64) (v12 + v13);
            v14 \<leftarrow> r16 K (obj + 0x56);
            let v56 = as_s16 v14;
            v15 \<leftarrow> r16 K (obj + 0x48);
            v16 \<leftarrow> r16 K (obj + 0x4E);
            w16 K (obj + 0x48) (v15 + v16);
            w16 K (obj + 0x56) (v56 - 0x80);
            only_if (v56 = 0x80) (do {
              w8 K (obj + 5) 1;
              w16 K (obj + 0x40) 0x5A;
              actor_set_vel_x K obj 0x10;
              w16 K (obj + 0x4E) 0xFFFE
            })
          });
          setr K 4 obj;
          call_guest K 0x80077B5C
        })
   })"

definition release_trigger_motion_leader_follow_sync :: "'c core_ops \<Rightarrow> u32
    \<Rightarrow> ('c, unit) state" where
  "release_trigger_motion_leader_follow_sync K obj = with_frame K 32 [(18, 24), (31, 28), (17,
      20), (16, 16)] (do {
     v1 \<leftarrow> r8 K (obj + 0x5E);
     (if v1 = 0 then do {
       leader \<leftarrow> r32 K (obj + 0x10);
       typeByte \<leftarrow> r8 K (leader + 3);
       bitmaskByte \<leftarrow> r8 K 0x800BF9CC;
       (if ((shr bitmaskByte (unat (typeByte AND 0x1F))) AND 1) = 0 then do {
         cVar1 \<leftarrow> r8 K (leader + 1);
         w8 K (obj + 1) cVar1;
         only_if (cVar1 \<noteq> 0) (do {
           setr K 4 obj;
           _ \<leftarrow> enqueue_queue_a K obj;
           setr K 4 obj;
           call_guest K 0x80123C94;
           r2_6 \<leftarrow> reg K 2;
           only_if (r2_6 = 0) (do {
             v7 \<leftarrow> r16 K (leader + 0x84);
             let shifted1 = shl v7 16;
             let half = as_s16 (sar 1 (sar 16 shifted1 - (sar 31 shifted1)));
             w16 K (obj + 0x66) (- half);
             release_trigger_motion_hover_bob_cycle K obj;
             v8 \<leftarrow> r32 K (leader + 0xC0);
             setr K 4 v8;
             setr K 5 (obj + 100);
             setr K 6 0x1F8000C0;
             call_guest K 0x80051D90;
             r0 \<leftarrow> r16 K 0x1F8000C0;
             w16 K (obj + 0x2E) r0;
             r2 \<leftarrow> r16 K 0x1F8000C2;
             w16 K (obj + 0x32) r2;
             r4 \<leftarrow> r16 K 0x1F8000C4;
             w16 K (obj + 0x36) r4;
             v12 \<leftarrow> r32 K (obj + 0x30);
             v13 \<leftarrow> r16s K (obj + 0x6C);
             w32 K (obj + 0x30) (v12 + v13 * 0x100)
           })
         })
       }
        else do {
          v14 \<leftarrow> r16 K (leader + 0x2E);
          w16 K (obj + 0x2E) v14;
          v15 \<leftarrow> r16 K (leader + 0x32);
          w16 K (obj + 0x32) v15;
          uVar2 \<leftarrow> r16 K (leader + 0x36);
          w8 K (obj + 0x5E) 1;
          w8 K (obj + 5) 0;
          w8 K (obj + 6) 0;
          w8 K (obj + 0) 1;
          w16 K (obj + 0x36) uVar2
        })
     }
      else do {
        v17 \<leftarrow> r8 K (obj + 0x5E);
        only_if (v17 = 1) (do { setr K 4 obj; call_guest K 0x8012400C })
      })
   })"

definition release_trigger_motion_drift_reposition :: "'c core_ops \<Rightarrow> u32 \<Rightarrow>
    u32 \<Rightarrow> ('c, unit) state" where
  "release_trigger_motion_drift_reposition K obj variant = with_frame K 40 [(17, 20), (31, 32),
      (19, 28), (18, 24), (16, 16)] (do {
     let TBL = (0x801498B0 :: u32);
     anchor \<leftarrow> r32 K (obj + 0x10);
     v2 \<leftarrow> r8 K (obj + 5);
     (if v2 = 0 then do {
       w8 K (obj + 5) 1;
       (if variant = 0 then do {
         v3 \<leftarrow> r16s K (anchor + 0x2C);
         w16 K (obj + 0x2E) (v3 - 0x14);
         v4 \<leftarrow> r16s K (anchor + 0x30);
         w16 K (obj + 0x32) (v4 - 200);
         v5 \<leftarrow> r16 K (anchor + 0x34);
         w16 K (obj + 0x36) v5
       }
        else do {
          v6 \<leftarrow> r16s K (obj + 0x60);
          let off = (v6 - 2) * 6;
          v7 \<leftarrow> r16 K (TBL + off);
          w16 K (obj + 0x2E) v7;
          v8 \<leftarrow> r16 K (TBL + off + 2);
          w16 K (obj + 0x32) v8;
          v9 \<leftarrow> r16 K (TBL + off + 4);
          w16 K (obj + 0x36) v9
        });
       w8 K (obj + 0xB) 0x13;
       w16 K (obj + 0x54) 0x100;
       setr K 4 obj;
       setr K 5 0x8014C808;
       setr K 6 3;
       graphics_bind_set_geom K
     }
      else do {
        v10 \<leftarrow> r8 K (obj + 5);
        only_if (v10 = 1) (do {
          v11 \<leftarrow> actor_bounds_cull K obj;
          only_if (v11 \<noteq> 0) (do {
            let rec98 = obj + 0x98;
            setr K 4 rec98;
            call_guest K 0x80051794;
            setr K 4 (obj + 0x54);
            setr K 5 rec98;
            call_guest K 0x800847F0;
            setr K 4 0x1F8000F8;
            setr K 5 rec98;
            call_guest K 0x80084360;
            setr K 4 obj;
            call_guest K 0x80077B5C
          });
          v12 \<leftarrow> r8 K 0x800BF9DD;
          (if v12 = 0xE then do {
            uVar4 \<leftarrow> rng_next K;
            only_if ((uVar4 AND 0x3F) = 0) (do {
              _ \<leftarrow> spawn_and_init K 0x107 (obj + 0x2C) 0xFFFFFFF6;
              State_Monad.return ()
            });
            uVar2 \<leftarrow> rng_next K;
            v15 \<leftarrow> r16s K (anchor + 0x2C);
            w16 K (obj + 0x2E) (v15 + (((uVar2 AND 3) - 1) * 0x28));
            v16 \<leftarrow> r16 K (anchor + 0x30);
            w16 K (obj + 0x32) v16;
            uVar1 \<leftarrow> r16 K (anchor + 0x34);
            w8 K (obj + 0x5E) 1;
            w8 K (obj + 5) 0;
            w8 K (obj + 6) 0;
            w16 K (obj + 0x36) uVar1
          }
           else do {
             v18 \<leftarrow> r8 K 0x800BF9DD;
             only_if (v18 < 0xE) (do { setr K 4 obj; call_guest K 0x80124328 })
           })
        })
      })
   })"

definition release_trigger_motion_arc_swoop_motion :: "'c core_ops \<Rightarrow> u32 \<Rightarrow>
    ('c, unit) state" where
  "release_trigger_motion_arc_swoop_motion K obj = with_frame K 48 [(16, 32), (31, 44), (18, 40),
      (17, 36)] (do {
     let resume = (\<lambda>TBL anchor. do {
       v1 \<leftarrow> r8 K 0x800BF9DD;
       (if v1 < 0xF then do {
         v2 \<leftarrow> r32 K (anchor + 0x30);
         v3 \<leftarrow> r16s K (obj + 0x32);
         only_if (v2 \<le>s v3) (do {
           r \<leftarrow> rng_next K;
           only_if ((r AND 0xF) = 0) (do {
             _ \<leftarrow> spawn_and_init K 8 (obj + 0x2C) 0xFFFFFFB0;
             State_Monad.return ()
           });
           idx \<leftarrow> r16s K (obj + 0x60);
           v6 \<leftarrow> r16 K (TBL + idx * 2);
           let tv = as_s16 v6;
           v7 \<leftarrow> r16s K (anchor + 0x2C);
           w16 K (obj + 0x2E) (v7 + tv);
           v8 \<leftarrow> r16s K (anchor + 0x30);
           w16 K (obj + 0x32) (v8 - 0x20);
           v9 \<leftarrow> r16 K (anchor + 0x34);
           w16 K (obj + 0x36) v9
         });
         setr K 4 obj;
         call_guest K 0x80077B5C;
         _ \<leftarrow> actor_bounds_cull K obj;
         State_Monad.return ()
       }
        else do { v10 \<leftarrow> r8 K (obj + 5); w8 K (obj + 5) (v10 + 1) })
     });
     let tail = (do {
       v11 \<leftarrow> actor_pos_y_fixed K obj;
       v12 \<leftarrow> actor_vel_y K obj;
       actor_set_pos_y_fixed K obj (v11 + v12 * 0x100);
       v13 \<leftarrow> actor_vel_y K obj;
       v14 \<leftarrow> actor_accel_y K obj;
       actor_set_vel_y K obj (as_u16 (v13 + v14));
       setr K 4 obj;
       call_guest K 0x80077B5C;
       v15 \<leftarrow> r8 K (obj + 0x29);
       (if v15 = 0 then State_Monad.return ()
        else do {
          w8 K (obj + 5) 2;
          v16 \<leftarrow> r8 K (obj + 0x47);
          w8 K (obj + 0x47) (1 - v16);
          v17 \<leftarrow> r8 K (obj + 0x46);
          w8 K (obj + 0x46) (v17 + 1);
          v18 \<leftarrow> r16s K (obj + 0x32);
          w16 K (obj + 0x32) (v18 - 8);
          sfx_trigger K 0x8F 0 0
        })
     });
     let TBL = (0x80109B44 :: u32);
     anchor \<leftarrow> r32 K (obj + 0x10);
     v20 \<leftarrow> r8 K (anchor + 1);
     (if v20 = 0 then State_Monad.return ()
      else do {
        st \<leftarrow> r8 K (obj + 5);
        (if st = 1 then resume TBL anchor
         else if st < 2 then (if st \<noteq> 0 then State_Monad.return ()
          else do {
            w8 K (obj + 5) 1;
            w8 K (obj + 0) 1;
            w8 K (obj + 0xB) 0x10;
            w16 K (obj + 0x5A) 0;
            w8 K (obj + 0x47) 0;
            v22 \<leftarrow> r8 K (obj + 0x60);
            w8 K (obj + 0x46) (v22 AND 3);
            _ \<leftarrow> spawn_and_init K 0x107 (obj + 0x2C) 0xFFFFFFF6;
            idx \<leftarrow> r16s K (obj + 0x60);
            v24 \<leftarrow> r16 K (TBL + idx * 2);
            let tv = as_s16 v24;
            v25 \<leftarrow> r16s K (anchor + 0x2C);
            w16 K (obj + 0x2E) (v25 + tv);
            v26 \<leftarrow> r16s K (anchor + 0x30);
            w16 K (obj + 0x32) (v26 - 0x20);
            v27 \<leftarrow> r16 K (anchor + 0x34);
            w16 K (obj + 0x36) v27;
            setr K 4 obj;
            setr K 5 0x8014C808;
            setr K 6 4;
            graphics_bind_set_geom K;
            resume TBL anchor
          })
          else do {
            let rest1 = (do {
              vis \<leftarrow> actor_bounds_cull K obj;
              (if vis = 0 then State_Monad.return ()
               else do {
                 v29 \<leftarrow> actor_pos_z_fixed K obj;
                 v30 \<leftarrow> actor_vel_z K obj;
                 actor_set_pos_z_fixed K obj (v29 + v30 * 0x100);
                 leaderZ \<leftarrow> r32 K (anchor + 0x34);
                 cur36 \<leftarrow> r16s K (obj + 0x36);
                 (if cur36 <s leaderZ - 0x40 then do {
                   w16 K (obj + 0x36) (leaderZ - 0x40);
                   tail
                 }
                  else if cur36 \<le>s leaderZ + 0x40 then tail
                   else do { w16 K (obj + 0x36) (leaderZ + 0x40); tail })
               })
            });
            (if st = 2 then do {
              v33 \<leftarrow> r8 K (obj + 0x46);
              let sub1 = as_u8 (v33 AND 3);
              w8 K (obj + 5) 3;
              (if sub1 = 0 \<or> sub1 = 2 then do {
                actor_set_vel_y K obj 0xE800;
                actor_set_accel_y K obj 0x180;
                w16 K (obj + 0x4C) 0
              }
               else do {
                 let v50 = (0xFC00 :: u32);
                 let v50 = (if sub1 = 1 then (0x400 :: u32) else v50);
                 w16 K (obj + 0x4C) v50;
                 actor_set_vel_y K obj 0xF000;
                 actor_set_accel_y K obj 0x200
               });
              rest1
            }
             else if st \<noteq> 3 then State_Monad.return () else rest1)
          })
      })
   })"

definition release_trigger_motion_double_arc_motion :: "'c core_ops \<Rightarrow> u32
    \<Rightarrow> ('c, unit) state" where
  "release_trigger_motion_double_arc_motion K obj = with_frame K 32 [(16, 24), (31, 28)] (do {
     let TBL = (0x80109B50 :: u32);
     anchor \<leftarrow> r32 K (obj + 0x10);
     st \<leftarrow> r8 K (obj + 5);
     (if st = 0 then do {
       v3 \<leftarrow> r32 K (anchor + 0x30);
       v4 \<leftarrow> r16s K (obj + 0x32);
       only_if (v3 \<le>s v4) (do {
         v5 \<leftarrow> r16s K (obj + 0x60);
         let idx = v5 - 2;
         tv \<leftarrow> r16 K (TBL + idx * 2);
         w16 K (obj + 0x5A) 0;
         w8 K (obj + 0x47) 0;
         w8 K (obj + 5) (st + 1);
         w8 K (obj + 0) 1;
         w8 K (obj + 0xB) 0x10;
         v7 \<leftarrow> r8 K (obj + 0x60);
         w8 K (obj + 0x46) (v7 AND 1);
         w16 K (obj + 0x40) tv;
         setr K 4 obj;
         setr K 5 0x8014C808;
         setr K 6 4;
         graphics_bind_set_geom K
       })
     }
      else if st = 1 \<or> st = 5 then do {
        actor_set_vel_y K obj 0xE800;
        cur \<leftarrow> r8 K (obj + 5);
        actor_set_accel_y K obj 0x400;
        w8 K (obj + 5) (cur + 1)
      }
       else if (st = 2 \<or> st = 4) \<or> st = 6 then do {
         v9 \<leftarrow> actor_pos_y_fixed K obj;
         v10 \<leftarrow> actor_vel_y K obj;
         actor_set_pos_y_fixed K obj (v9 + v10 * 0x100);
         v11 \<leftarrow> actor_vel_y K obj;
         v12 \<leftarrow> actor_accel_y K obj;
         actor_set_vel_y K obj (as_u16 (v11 + v12));
         v13 \<leftarrow> r8 K (obj + 0x46);
         let impulse = (if v13 = 0 then - 0x80000 else 0x80000);
         v14 \<leftarrow> r32 K (obj + 0x2C);
         w32 K (obj + 0x2C) (v14 + impulse);
         leaderY \<leftarrow> r32 K (anchor + 0x30);
         v16 \<leftarrow> r16s K (obj + 0x32);
         only_if (leaderY \<le>s v16) (do {
           v17 \<leftarrow> r16 K (obj + 0x40);
           let v40 = as_s16 v17;
           w32 K (obj + 0x30) (shl leaderY 16);
           w16 K (obj + 0x40) (v40 - 1);
           cur2 \<leftarrow> r8 K (obj + 5);
           (if v40 = 1 then do { w16 K (obj + 0x40) 1; w8 K (obj + 5) (cur2 + 1) }
            else w8 K (obj + 5) (cur2 - 1));
           v19 \<leftarrow> r8 K (obj + 0x47);
           w8 K (obj + 0x47) (1 - v19);
           sfx_trigger K 0x8F 0 0
         })
       }
        else if st = 3 \<or> st = 7 then do {
          actor_set_vel_y K obj 0xE000;
          actor_set_accel_y K obj 0x200;
          cur \<leftarrow> r8 K (obj + 5);
          w8 K (obj + 0) 2;
          w8 K (obj + 5) (cur + 1)
        }
         else only_if (st = 8) (do {
           v21 \<leftarrow> r8 K (obj + 0x46);
           let impulse = (if v21 = 0 then - 0x80000 else 0x80000);
           v22 \<leftarrow> r32 K (obj + 0x2C);
           w32 K (obj + 0x2C) (v22 + impulse);
           v23 \<leftarrow> actor_pos_y_fixed K obj;
           v24 \<leftarrow> actor_vel_y K obj;
           actor_set_pos_y_fixed K obj (v23 + v24 * 0x100);
           v25 \<leftarrow> actor_vel_y K obj;
           v26 \<leftarrow> actor_accel_y K obj;
           actor_set_vel_y K obj (as_u16 (v25 + v26))
         }));
     uVar5 \<leftarrow> rng_next K;
     only_if ((uVar5 AND 0x3F) = 0) (do {
       _ \<leftarrow> spawn_and_init K 8 (obj + 0x2C) 0xFFFFFFB0;
       State_Monad.return ()
     });
     _ \<leftarrow> actor_bounds_cull K obj;
     setr K 4 obj;
     call_guest K 0x80077B5C;
     v28 \<leftarrow> r8 K (obj + 5);
     v29 \<leftarrow> r8 K (obj + 1);
     only_if (v28 = 8 \<and> v29 = 0) (do {
       w8 K (obj + 0x5E) 2;
       w8 K (obj + 5) 0;
       w8 K (obj + 6) 0
     })
   })"

definition release_trigger_motion_circle_orbit_motion :: "'c core_ops \<Rightarrow> u32
    \<Rightarrow> ('c, unit) state" where
  "release_trigger_motion_circle_orbit_motion K obj = with_frame K 48 [(16, 32), (31, 40), (17,
      36)] (do {
     let TBL = (0x80109B7C :: u32);
     v1 \<leftarrow> r8 K (obj + 0x60);
     let bVar6 = as_u8 (v1 - 2);
     let entryOff = bVar6 * 6;
     v2 \<leftarrow> r16 K (TBL + entryOff);
     let tblX = as_s16 v2;
     v3 \<leftarrow> r16 K (TBL + entryOff + 2);
     let tblY = as_s16 v3;
     v4 \<leftarrow> r16 K (TBL + entryOff + 4);
     let tblZ = as_s16 v4;
     st \<leftarrow> r8 K (obj + 5);
     let rest1 = (do {
       v6 \<leftarrow> actor_bounds_cull K obj;
       only_if (v6 \<noteq> 0) (do {
         v7 \<leftarrow> actor_pos_x_fixed K obj;
         v8 \<leftarrow> actor_vel_x K obj;
         actor_set_pos_x_fixed K obj (v7 + v8 * 0x100);
         v9 \<leftarrow> r16 K (obj + 0x2E);
         let cur2e = as_s16 v9;
         (if cur2e <s tblX - 0x40 then w16 K (obj + 0x2E) (tblX - 0x40)
          else only_if (tblX + 0x40 <s cur2e) (w16 K (obj + 0x2E) (tblX + 0x40)));
         v10 \<leftarrow> actor_pos_y_fixed K obj;
         v11 \<leftarrow> actor_vel_y K obj;
         actor_set_pos_y_fixed K obj (v10 + v11 * 0x100);
         v12 \<leftarrow> actor_vel_y K obj;
         v13 \<leftarrow> actor_accel_y K obj;
         actor_set_vel_y K obj (as_u16 (v12 + v13));
         setr K 4 obj;
         call_guest K 0x80077B5C;
         v14 \<leftarrow> r16s K (obj + 0x32);
         only_if (tblY \<le>s v14) (do {
           w8 K (obj + 5) 1;
           cur46 \<leftarrow> r8 K (obj + 0x46);
           w8 K (obj + 0x46) (1 - cur46);
           w8 K (obj + 0x47) (1 - cur46);
           v16 \<leftarrow> r16s K (obj + 0x32);
           w16 K (obj + 0x32) (v16 - 8);
           sfx_trigger K 0x8F 0 0
         })
       })
     });
     (if st = 1 then do {
       w8 K (obj + 5) 2;
       n46 \<leftarrow> r8 K (obj + 0x46);
       w16 K (obj + 0x48) (n46 * (- 0x400));
       w16 K (obj + 0x4A) (n46 * 0x800 - 0x1800);
       w16 K (obj + 0x50) (n46 * 0x20 + 0x180);
       rest1
     }
      else if st < 2 then (if st \<noteq> 0 then State_Monad.return ()
       else do {
         w8 K (obj + 5) 1;
         w8 K (obj + 0) 1;
         w8 K (obj + 0xB) 0x10;
         w16 K (obj + 0x5A) 0;
         w8 K (obj + 0x46) bVar6;
         w8 K (obj + 0x47) bVar6;
         w16 K (obj + 0x2E) tblX;
         w16 K (obj + 0x32) tblY;
         w16 K (obj + 0x36) tblZ;
         setr K 4 obj;
         setr K 5 0x8014C808;
         setr K 6 4;
         graphics_bind_set_geom K
       })
       else if st \<noteq> 2 then State_Monad.return () else rest1)
   })"

definition eov_hover_bob_cycle :: "'c core_ops \<Rightarrow> ('c, unit) state" where
  "eov_hover_bob_cycle K = do {
     r4_1 \<leftarrow> reg K 4;
     release_trigger_motion_hover_bob_cycle K r4_1
   }"

definition eov_leader_follow_sync :: "'c core_ops \<Rightarrow> ('c, unit) state" where
  "eov_leader_follow_sync K = do {
     r4_1 \<leftarrow> reg K 4;
     release_trigger_motion_leader_follow_sync K r4_1
   }"

definition eov_drift_reposition :: "'c core_ops \<Rightarrow> ('c, unit) state" where
  "eov_drift_reposition K = do {
     r4_1 \<leftarrow> reg K 4;
     r5_2 \<leftarrow> reg K 5;
     release_trigger_motion_drift_reposition K r4_1 r5_2
   }"

definition release_trigger_motion_x_sweep_cycle_l668 :: "'c core_ops \<Rightarrow> u32
    \<Rightarrow> ('c, 'a + string) state" where
  "release_trigger_motion_x_sweep_cycle_l668 K r6_49 = do {
     v57 \<leftarrow> r16 K (r6_49 + 72);
     setr K 3 v57;
     v58 \<leftarrow> r16 K (r6_49 + 86);
     setr K 2 v58;
     r3_59 \<leftarrow> reg K 3;
     r4_60 \<leftarrow> reg K 4;
     setr K 3 (r3_59 + r4_60);
     r2_61 \<leftarrow> reg K 2;
     setr K 2 (r2_61 + 128);
     r2_62 \<leftarrow> reg K 2;
     w16 K (r6_49 + 86) r2_62;
     setr K 2 (shl r2_62 16);
     r2_63 \<leftarrow> reg K 2;
     setr K 2 (sar 16 r2_63);
     r3_64 \<leftarrow> reg K 3;
     w16 K (r6_49 + 72) r3_64;
     r0_65 \<leftarrow> reg K 0;
     setr K 3 (r0_65 + 2048);
     r2_66 \<leftarrow> reg K 2;
     r3_67 \<leftarrow> reg K 3;
     let t0 = (of_bool (r2_66 \<noteq> r3_67) :: u32);
     setr K 2 (r0_65 + 90);
     (if t0 \<noteq> 0 then State_Monad.return (Inr ''L_801244E0'')
      else do {
        r2_68 \<leftarrow> reg K 2;
        w16 K (r6_49 + 64) r2_68;
        setr K 2 (r0_65 + (-4096));
        r2_69 \<leftarrow> reg K 2;
        w16 K (r6_49 + 72) r2_69;
        v70 \<leftarrow> r8 K (r6_49 + 6);
        setr K 2 v70;
        setr K 3 (r0_65 + 512);
        r3_71 \<leftarrow> reg K 3;
        w16 K (r6_49 + 78) r3_71;
        State_Monad.return (Inr ''L_801243DC'')
      })
   }"

definition release_trigger_motion_x_sweep_cycle_l691 :: "'c core_ops \<Rightarrow> ('c, 'a +
    string) state" where
  "release_trigger_motion_x_sweep_cycle_l691 K = do {
     r6_72 \<leftarrow> reg K 6;
     v73 \<leftarrow> r16 K (r6_72 + 68);
     setr K 4 (as_s16 v73);
     v74 \<leftarrow> r32 K (r6_72 + 44);
     setr K 2 v74;
     v75 \<leftarrow> r16 K (r6_72 + 68);
     setr K 3 v75;
     v76 \<leftarrow> r16 K (r6_72 + 82);
     setr K 5 v76;
     r4_77 \<leftarrow> reg K 4;
     setr K 4 (shl r4_77 8);
     r2_78 \<leftarrow> reg K 2;
     r4_79 \<leftarrow> reg K 4;
     setr K 2 (r2_78 + r4_79);
     r3_80 \<leftarrow> reg K 3;
     r5_81 \<leftarrow> reg K 5;
     setr K 3 (r3_80 + r5_81);
     r3_82 \<leftarrow> reg K 3;
     w16 K (r6_72 + 68) r3_82;
     setr K 3 (shl r3_82 16);
     r3_83 \<leftarrow> reg K 3;
     r0_84 \<leftarrow> reg K 0;
     let t0 = (of_bool (r3_83 \<noteq> r0_84) :: u32);
     r2_85 \<leftarrow> reg K 2;
     w32 K (r6_72 + 44) r2_85;
     (if t0 \<noteq> 0 then State_Monad.return (Inr ''L_801244E0'')
      else do {
        setr K 2 (r0_84 + 3072);
        r2_86 \<leftarrow> reg K 2;
        w16 K (r6_72 + 68) r2_86;
        v87 \<leftarrow> r8 K (r6_72 + 6);
        setr K 2 v87;
        setr K 3 (r0_84 + (-64));
        State_Monad.return (Inr ''L_801243D8'')
      })
   }"

definition release_trigger_motion_x_sweep_cycle_l713 :: "'c core_ops \<Rightarrow> ('c, 'a +
    string) state" where
  "release_trigger_motion_x_sweep_cycle_l713 K = do {
     r6_88 \<leftarrow> reg K 6;
     v89 \<leftarrow> r16 K (r6_88 + 72);
     setr K 2 (as_s16 v89);
     v90 \<leftarrow> r32 K (r6_88 + 44);
     setr K 3 v90;
     v91 \<leftarrow> r16 K (r6_88 + 78);
     setr K 4 v91;
     r2_92 \<leftarrow> reg K 2;
     setr K 2 (shl r2_92 8);
     r3_93 \<leftarrow> reg K 3;
     r2_94 \<leftarrow> reg K 2;
     setr K 3 (r3_93 + r2_94);
     r3_95 \<leftarrow> reg K 3;
     w32 K (r6_88 + 44) r3_95;
     v96 \<leftarrow> r16 K (r6_88 + 72);
     setr K 3 v96;
     v97 \<leftarrow> r16 K (r6_88 + 86);
     setr K 2 v97;
     r3_98 \<leftarrow> reg K 3;
     r4_99 \<leftarrow> reg K 4;
     setr K 3 (r3_98 + r4_99);
     r2_100 \<leftarrow> reg K 2;
     setr K 2 (r2_100 + (-128));
     r2_101 \<leftarrow> reg K 2;
     w16 K (r6_88 + 86) r2_101;
     setr K 2 (shl r2_101 16);
     r2_102 \<leftarrow> reg K 2;
     r0_103 \<leftarrow> reg K 0;
     let t0 = (of_bool (r2_102 \<noteq> r0_103) :: u32);
     r3_104 \<leftarrow> reg K 3;
     w16 K (r6_88 + 72) r3_104;
     (if t0 \<noteq> 0 then State_Monad.return (Inr ''L_801244E0'')
      else do {
        setr K 2 (r0_103 + 1);
        r2_105 \<leftarrow> reg K 2;
        w8 K (r6_88 + 6) r2_105;
        setr K 2 (r0_103 + 90);
        r2_106 \<leftarrow> reg K 2;
        w16 K (r6_88 + 64) r2_106;
        setr K 2 (r0_103 + 4096);
        r2_107 \<leftarrow> reg K 2;
        w16 K (r6_88 + 72) r2_107;
        setr K 2 (r0_103 + (-512));
        r2_108 \<leftarrow> reg K 2;
        w16 K (r6_88 + 78) r2_108;
        State_Monad.return (Inr ''L_801244E0'')
      })
   }"

definition release_trigger_motion_x_sweep_cycle :: "'c core_ops \<Rightarrow> ('c, unit) state"
    where
  "release_trigger_motion_x_sweep_cycle K = loop (\<lambda>pc1. (if pc1 = ''start'' then do {
     r4_1 \<leftarrow> reg K 4;
     r0_2 \<leftarrow> reg K 0;
     setr K 6 (r4_1 + r0_2);
     r6_3 \<leftarrow> reg K 6;
     v4 \<leftarrow> r8 K (r6_3 + 6);
     setr K 3 v4;
     r3_5 \<leftarrow> reg K 3;
     setr K 2 (of_bool (r3_5 < 5) :: u32);
     r2_6 \<leftarrow> reg K 2;
     let t0 = (of_bool (r2_6 = r0_2) :: u32);
     setr K 2 (shl 32785 16);
     (if t0 \<noteq> 0 then State_Monad.return (Inr ''L_801244E0'')
      else do {
        r2_7 \<leftarrow> reg K 2;
        setr K 2 (r2_7 + (-25808));
        setr K 3 (shl r3_5 2);
        r3_8 \<leftarrow> reg K 3;
        r2_9 \<leftarrow> reg K 2;
        setr K 3 (r3_8 + r2_9);
        r3_10 \<leftarrow> reg K 3;
        v11 \<leftarrow> r32 K (r3_10 + 0);
        setr K 2 v11;
        r2_12 \<leftarrow> reg K 2;
        (if r2_12 = 0x8012435C then State_Monad.return (Inr ''L_8012435C'')
         else if r2_12 = 0x8012439C then State_Monad.return (Inr ''L_8012439C'')
          else if r2_12 = 0x801243E8 then State_Monad.return (Inr ''L_801243E8'')
           else if r2_12 = 0x80124448 then State_Monad.return (Inr ''L_80124448'')
            else if r2_12 = 0x80124488 then State_Monad.return (Inr ''L_80124488'')
             else do { call_guest K r2_12; State_Monad.return (Inl ()) })
      })
   }
    else if pc1 = ''L_8012435C'' then do {
      r0_13 \<leftarrow> reg K 0;
      setr K 2 (r0_13 + 4096);
      r6_14 \<leftarrow> reg K 6;
      r2_15 \<leftarrow> reg K 2;
      w16 K (r6_14 + 72) r2_15;
      setr K 2 (r0_13 + (-512));
      r2_16 \<leftarrow> reg K 2;
      w16 K (r6_14 + 78) r2_16;
      v17 \<leftarrow> r8 K (r6_14 + 6);
      setr K 2 v17;
      v18 \<leftarrow> r16 K (r6_14 + 96);
      setr K 3 v18;
      r2_19 \<leftarrow> reg K 2;
      setr K 2 (r2_19 + 1);
      r3_20 \<leftarrow> reg K 3;
      setr K 3 (r3_20 AND 1);
      r3_21 \<leftarrow> reg K 3;
      let t0 = (of_bool (r3_21 = r0_13) :: u32);
      r2_22 \<leftarrow> reg K 2;
      w8 K (r6_14 + 6) r2_22;
      (if t0 \<noteq> 0 then State_Monad.return (Inr ''L_8012438C'')
       else do { setr K 2 (r0_13 + 1024); State_Monad.return (Inr ''L_80124390'') })
    }
     else if pc1 = ''L_8012438C'' then do {
       r0_23 \<leftarrow> reg K 0;
       setr K 2 (r0_23 + 3072);
       State_Monad.return (Inr ''L_80124390'')
     }
      else if pc1 = ''L_80124390'' then do {
        r6_24 \<leftarrow> reg K 6;
        r2_25 \<leftarrow> reg K 2;
        w16 K (r6_24 + 68) r2_25;
        r0_26 \<leftarrow> reg K 0;
        setr K 2 (r0_26 + (-64));
        r2_27 \<leftarrow> reg K 2;
        w16 K (r6_24 + 82) r2_27;
        State_Monad.return (Inr ''L_8012439C'')
      }
       else if pc1 = ''L_8012439C'' then do {
         r6_28 \<leftarrow> reg K 6;
         v29 \<leftarrow> r16 K (r6_28 + 68);
         setr K 4 (as_s16 v29);
         v30 \<leftarrow> r32 K (r6_28 + 44);
         setr K 2 v30;
         v31 \<leftarrow> r16 K (r6_28 + 68);
         setr K 3 v31;
         v32 \<leftarrow> r16 K (r6_28 + 82);
         setr K 5 v32;
         r4_33 \<leftarrow> reg K 4;
         setr K 4 (shl r4_33 8);
         r2_34 \<leftarrow> reg K 2;
         r4_35 \<leftarrow> reg K 4;
         setr K 2 (r2_34 + r4_35);
         r3_36 \<leftarrow> reg K 3;
         r5_37 \<leftarrow> reg K 5;
         setr K 3 (r3_36 + r5_37);
         r3_38 \<leftarrow> reg K 3;
         w16 K (r6_28 + 68) r3_38;
         setr K 3 (shl r3_38 16);
         r3_39 \<leftarrow> reg K 3;
         r0_40 \<leftarrow> reg K 0;
         let t0 = (of_bool (r3_39 \<noteq> r0_40) :: u32);
         r2_41 \<leftarrow> reg K 2;
         w32 K (r6_28 + 44) r2_41;
         (if t0 \<noteq> 0 then State_Monad.return (Inr ''L_801244E0'')
          else do {
            setr K 2 (r0_40 + (-3072));
            r2_42 \<leftarrow> reg K 2;
            w16 K (r6_28 + 68) r2_42;
            v43 \<leftarrow> r8 K (r6_28 + 6);
            setr K 2 v43;
            setr K 3 (r0_40 + 64);
            State_Monad.return (Inr ''L_801243D8'')
          })
       }
        else if pc1 = ''L_801243D8'' then do {
          r6_44 \<leftarrow> reg K 6;
          r3_45 \<leftarrow> reg K 3;
          w16 K (r6_44 + 82) r3_45;
          State_Monad.return (Inr ''L_801243DC'')
        }
         else if pc1 = ''L_801243DC'' then do {
           r2_46 \<leftarrow> reg K 2;
           setr K 2 (r2_46 + 1);
           r6_47 \<leftarrow> reg K 6;
           r2_48 \<leftarrow> reg K 2;
           w8 K (r6_47 + 6) r2_48;
           State_Monad.return (Inl ())
         }
          else if pc1 = ''L_801243E8'' then do {
            r6_49 \<leftarrow> reg K 6;
            v50 \<leftarrow> r16 K (r6_49 + 72);
            setr K 2 (as_s16 v50);
            v51 \<leftarrow> r32 K (r6_49 + 44);
            setr K 3 v51;
            v52 \<leftarrow> r16 K (r6_49 + 78);
            setr K 4 v52;
            r2_53 \<leftarrow> reg K 2;
            setr K 2 (shl r2_53 8);
            r3_54 \<leftarrow> reg K 3;
            r2_55 \<leftarrow> reg K 2;
            setr K 3 (r3_54 + r2_55);
            r3_56 \<leftarrow> reg K 3;
            w32 K (r6_49 + 44) r3_56;
            release_trigger_motion_x_sweep_cycle_l668 K r6_49
          }
           else if pc1 = ''L_80124448'' then release_trigger_motion_x_sweep_cycle_l691 K
            else if pc1 = ''L_80124488'' then release_trigger_motion_x_sweep_cycle_l713 K
             else State_Monad.return (Inl ()))) ''start''"

definition eov_x_sweep_cycle :: "'c core_ops \<Rightarrow> ('c, unit) state" where
  "eov_x_sweep_cycle K = release_trigger_motion_x_sweep_cycle K"

definition eov_arc_swoop_motion :: "'c core_ops \<Rightarrow> ('c, unit) state" where
  "eov_arc_swoop_motion K = do {
     r4_1 \<leftarrow> reg K 4;
     release_trigger_motion_arc_swoop_motion K r4_1
   }"

definition eov_double_arc_motion :: "'c core_ops \<Rightarrow> ('c, unit) state" where
  "eov_double_arc_motion K = do {
     r4_1 \<leftarrow> reg K 4;
     release_trigger_motion_double_arc_motion K r4_1
   }"

definition eov_circle_orbit_motion :: "'c core_ops \<Rightarrow> ('c, unit) state" where
  "eov_circle_orbit_motion K = do {
     r4_1 \<leftarrow> reg K 4;
     release_trigger_motion_circle_orbit_motion K r4_1
   }"

end
