(* ===== verification/CameraRig.thy ===== *)
theory CameraRig
  imports ObjectViews
begin

text \<open>
  The cutscene camera and the builder of its look vectors (\<open>game/camera\<close>): the
  followers, the shake tail, the solvers of distance and heading, on the camera record in guest
  memory.
\<close>

section \<open>Layout\<close>

definition kIsqrt :: u32 where "kIsqrt = 0x80084080"
definition kRsinSubstrate :: u32 where "kRsinSubstrate = 0x80083E80"
definition kLookAtIsqrt :: u32 where "kLookAtIsqrt = 0x80077FB0"
definition kCopyMatrix :: u32 where "kCopyMatrix = 0x800847B0"
definition kShakeFx :: u32 where "kShakeFx = 0x800521F4"
definition CameraMode_kMainFollow :: u32 where "CameraMode_kMainFollow = 0"
definition CameraMode_kTrackFollow :: u32 where "CameraMode_kTrackFollow = 1"
definition CameraMode_kSnapFollowScriptedA :: u32 where "CameraMode_kSnapFollowScriptedA = 2"
definition CameraMode_kPitchFollow :: u32 where "CameraMode_kPitchFollow = 3"
definition CameraMode_kSnapFollowScriptedB :: u32 where "CameraMode_kSnapFollowScriptedB = 4"
definition CameraMode_kSnapFollowMaster :: u32 where "CameraMode_kSnapFollowMaster = 5"
definition CameraMode_kFreezeAtMasterHeight :: u32 where "CameraMode_kFreezeAtMasterHeight = 6"
definition CameraMode_kSnapFollowSelf :: u32 where "CameraMode_kSnapFollowSelf = 7"
definition CameraMode_kSimpleFollowSelf :: u32 where "CameraMode_kSimpleFollowSelf = 8"
definition CameraMode_kFieldOverlay9 :: u32 where "CameraMode_kFieldOverlay9 = 9"
definition CameraMode_kAreaOverlayScripted :: u32 where "CameraMode_kAreaOverlayScripted = 0xA"
definition CameraMode_kReset :: u32 where "CameraMode_kReset = 0xB"
definition CameraMode_kForceModeByte :: u32 where "CameraMode_kForceModeByte = 0xC"
definition CameraMode_kForceModeSix :: u32 where "CameraMode_kForceModeSix = 0xD"
definition CameraMode_kSnapFollowSelfAlias :: u32 where "CameraMode_kSnapFollowSelfAlias = 0xE"
definition CameraMode_kSimpleFollowMaster :: u32 where "CameraMode_kSimpleFollowMaster = 0xF"
definition CameraMode_kTailOnly :: u32 where "CameraMode_kTailOnly = 0x10"
definition CameraMode_kFieldOverlay17 :: u32 where "CameraMode_kFieldOverlay17 = 0x11"
definition kForceModeSixValue :: u32 where "kForceModeSixValue = 6"
definition kRenderModeFunctionTable :: u32 where "kRenderModeFunctionTable = 0x800A4AA0"
definition kRenderModeByte :: u32 where "kRenderModeByte = 0x800BF870"
definition kFloorRenderModeIndex :: u32 where "kFloorRenderModeIndex = 0"
definition kFloorSeaRenderModeIndex :: u32 where "kFloorSeaRenderModeIndex = 3"
definition kFloorShoreRenderModeIndex :: u32 where "kFloorShoreRenderModeIndex = 5"
definition kFloorNightRenderModeIndex :: u32 where "kFloorNightRenderModeIndex = 9"
definition kFloorFinalRenderModeIndex :: u32 where "kFloorFinalRenderModeIndex = 12"
definition kHighestFloorRenderModeIndex :: u32 where "kHighestFloorRenderModeIndex = 12"
definition kFloorRenderMode1 :: u32 where "kFloorRenderMode1 = - 10140"
definition kFloorRenderMode10 :: u32 where "kFloorRenderMode10 = - 2160"
definition kFloorRenderMode13Bound :: u32 where "kFloorRenderMode13Bound = - 1399"
definition kFloorRenderMode13 :: u32 where "kFloorRenderMode13 = - 1400"
definition kSeaSubAreaSeven :: u32 where "kSeaSubAreaSeven = 7"
definition kSeaDistanceBound :: u32 where "kSeaDistanceBound = 6800"
definition kSeaFloorLow :: u32 where "kSeaFloorLow = - 7299"
definition kSeaFloorLowPlusOne :: u32 where "kSeaFloorLowPlusOne = - 6499"
definition kSeaFloorNear :: u32 where "kSeaFloorNear = - 6500"
definition kSeaFloorHighBound :: u32 where "kSeaFloorHighBound = - 6599"
definition kSeaFloorHigh :: u32 where "kSeaFloorHigh = - 6600"
definition kShoreSubAreaFourteen :: u32 where "kShoreSubAreaFourteen = 14"
definition kShoreFloorNear :: u32 where "kShoreFloorNear = - 7200"
definition kShoreFloorFar :: u32 where "kShoreFloorFar = - 9200"
definition CameraShakeState_kIdle :: u32 where "CameraShakeState_kIdle = 0"
definition CameraShakeState_kCaptureAxes :: u32 where "CameraShakeState_kCaptureAxes = 1"
definition CameraShakeState_kJitterAxes :: u32 where "CameraShakeState_kJitterAxes = 2"
definition CameraShakeState_kRestoreAxes :: u32 where "CameraShakeState_kRestoreAxes = 3"
definition CameraShakeState_kCaptureHeight :: u32 where "CameraShakeState_kCaptureHeight = 4"
definition CameraShakeState_kJitterHeight :: u32 where "CameraShakeState_kJitterHeight = 5"
definition CameraShakeState_kPulseHeightBegin :: u32 where "CameraShakeState_kPulseHeightBegin = 6"
definition CameraShakeState_kPulseHeight :: u32 where "CameraShakeState_kPulseHeight = 7"
definition CameraShakeState_kPulseHeightSmallBegin :: u32 where "CameraShakeState_kPulseHeightSmallBegin = 8"
definition CameraShakeState_kPulseHeightSmall :: u32 where "CameraShakeState_kPulseHeightSmall = 9"
definition kHighestShakeState :: u32 where "kHighestShakeState = 9"
definition kShakeBusyByte :: u32 where "kShakeBusyByte = 0x64"
definition kShakeAnchorX :: u32 where "kShakeAnchorX = 0x86"
definition kShakeAnchorY :: u32 where "kShakeAnchorY = 0x88"
definition kShakeAnchorZ :: u32 where "kShakeAnchorZ = 0x8A"
definition kShakeMaskWide :: u32 where "kShakeMaskWide = 0x3F"
definition kShakeMaskNarrow :: u32 where "kShakeMaskNarrow = 0x1F"
definition kShakeXAmplitude :: u32 where "kShakeXAmplitude = 16"
definition kShakeYAmplitude :: u32 where "kShakeYAmplitude = 8"
definition kShakeHeightAmplitude :: u32 where "kShakeHeightAmplitude = 32"
definition kShakeHeightSmallAmplitude :: u32 where "kShakeHeightSmallAmplitude = 16"
definition kShakeEffectAxes :: u32 where "kShakeEffectAxes = 129"
definition kShakeEffectHeight :: u32 where "kShakeEffectHeight = 241"
definition kShakeEffectPriority :: u32 where "kShakeEffectPriority = 2"
definition kCamGlobal :: u32 where "kCamGlobal = 0x800E7E80"
definition kCamScratch :: u32 where "kCamScratch = 0x1F8000D0"
definition kMasterY :: u32 where "kMasterY = 0x800E7EB0"

section \<open>\<open>game/camera/camera_guest_math.h\<close>\<close>

definition camera_guest_math_clamp_step :: "'c core_ops \<Rightarrow> u32 \<Rightarrow> u32
    \<Rightarrow> ('c, u32) state" where
  "camera_guest_math_clamp_step K delta maxStep = (if 0 \<le>s delta then State_Monad.return (if
      delta <s maxStep then delta else maxStep)
    else State_Monad.return (if delta <s as_s16 (- maxStep) then as_s16 (- maxStep) else delta))"

definition mul_lo :: "'c core_ops \<Rightarrow> u32 \<Rightarrow> u32 \<Rightarrow> ('c, u32)
    state" where
  "mul_lo K a b = State_Monad.return (a * b)"

section \<open>\<open>game/camera/camera_look_builder.cpp\<close>\<close>

definition table1_entry :: "'c core_ops \<Rightarrow> u32 \<Rightarrow> u32 \<Rightarrow> ('c,
    u32) state" where
  "table1_entry K globalBlock cam = do {
     g140 \<leftarrow> r16s K (globalBlock + 0x140);
     g56 \<leftarrow> r16s K (globalBlock + 0x56);
     cam56 \<leftarrow> r16 K (cam + 0x56);
     State_Monad.return (if g140 = g56 then cam56 else - cam56)
   }"

definition look_angle_builder_yaw_dist_accumulate :: "'c core_ops \<Rightarrow> u32 \<Rightarrow>
    u32 \<Rightarrow> u32 \<Rightarrow> ('c, unit) state" where
  "look_angle_builder_yaw_dist_accumulate K cam dx dz = do {
     v1 \<leftarrow> trig_ratan2 K (- dz) dx;
     let yaw = as_s16 v1;
     v2 \<leftarrow> guest_call K kIsqrt [dx * dx + dz * dz, 0, 0, 0];
     let dist1 = as_s16 v2;
     rc2 \<leftarrow> rcos K yaw;
     v4 \<leftarrow> camera_state_r32 K cam (kCamScratch + 0x00);
     camera_state_w32 K cam (kCamScratch + 0x00) (v4 + (sar 1 (rc2 * dist1)));
     rs2 \<leftarrow> rsin K yaw;
     v6 \<leftarrow> camera_state_r32 K cam (kCamScratch + 0x08);
     camera_state_w32 K cam (kCamScratch + 0x08) (v6 - (sar 1 (rs2 * dist1)));
     only_if (dist1 <s 401) (do {
       v7 \<leftarrow> camera_state_cam_r8 K cam 0x66;
       camera_state_cam_w8 K cam 0x66 (as_u8 (v7 OR 1))
     })
   }"

definition look_angle_builder_lookat_tail :: "'c core_ops \<Rightarrow> u32 \<Rightarrow> u32
    \<Rightarrow> u32 \<Rightarrow> ('c, unit) state" where
  "look_angle_builder_lookat_tail K cam theta radius = do {
     rc \<leftarrow> rcos K theta;
     v2 \<leftarrow> camera_state_r16 K cam 0x1F800160;
     let lookX = v2 + (sar 12 (rc * radius));
     rs \<leftarrow> rsin K theta;
     v4 \<leftarrow> camera_state_r16 K cam 0x1F800164;
     let lookZ = v4 - (sar 12 (rs * radius));
     camZ \<leftarrow> camera_state_r16 K cam (kCamScratch + 0x0A);
     camX \<leftarrow> camera_state_r16 K cam (kCamScratch + 0x02);
     let dz = as_s16 (lookZ - camZ);
     let dx = as_s16 (lookX - camX);
     look_angle_builder_yaw_dist_accumulate K cam dx dz
   }"

definition look_angle_builder_pos_build_a :: "'c core_ops \<Rightarrow> u32 \<Rightarrow> ('c,
    unit) state" where
  "look_angle_builder_pos_build_a K cam = do {
     v1 \<leftarrow> camera_state_cam_r16 K cam 0x6E;
     v2 \<leftarrow> rcos K (as_s16 v1);
     v3 \<leftarrow> camera_state_cam_r16 K cam 0x6C;
     v4 \<leftarrow> mul_lo K v2 (as_s16 v3);
     let P1 = sar 12 v4;
     v5 \<leftarrow> camera_state_r16 K cam (kCamScratch + 0x0E);
     v6 \<leftarrow> camera_state_cam_r16 K cam 0x70;
     v7 \<leftarrow> rcos K (as_s16 v6);
     v8 \<leftarrow> mul_lo K v7 P1;
     let x = as_s16 v5 + sar 12 v8;
     v9 \<leftarrow> camera_state_cam_r16 K cam 0x70;
     v10 \<leftarrow> rsin K (as_s16 v9);
     v11 \<leftarrow> mul_lo K v10 P1;
     let cz = sar 12 v11;
     camera_state_w32 K cam (kCamScratch + 0x00) (shl x 16);
     v12 \<leftarrow> camera_state_r16 K cam (kCamScratch + 0x16);
     let z = as_s16 v12 - cz;
     camera_state_w32 K cam (kCamScratch + 0x08) (shl z 16);
     v13 \<leftarrow> camera_state_cam_r8 K cam 0x66;
     camera_state_cam_w8 K cam 0x66 (as_u8 (v13 OR 1))
   }"

definition look_angle_builder_pos_build_b :: "'c core_ops \<Rightarrow> u32 \<Rightarrow> ('c,
    unit) state" where
  "look_angle_builder_pos_build_b K cam = do {
     v1 \<leftarrow> camera_state_cam_r16 K cam 0x6E;
     v2 \<leftarrow> rcos K (as_s16 v1);
     v3 \<leftarrow> camera_state_cam_r16 K cam 0x6C;
     v4 \<leftarrow> mul_lo K v2 (as_s16 v3);
     let P1 = as_s16 (sar 12 v4);
     v5 \<leftarrow> camera_state_r16 K cam (kCamScratch + 0x0E);
     v6 \<leftarrow> camera_state_cam_r16 K cam 0x70;
     v7 \<leftarrow> rcos K (as_s16 v6);
     v8 \<leftarrow> mul_lo K v7 P1;
     let x = v5 + sar 12 v8;
     v9 \<leftarrow> camera_state_cam_r16 K cam 0x70;
     v10 \<leftarrow> rsin K (as_s16 v9);
     v11 \<leftarrow> mul_lo K v10 P1;
     let cz = sar 12 v11;
     v12 \<leftarrow> camera_state_r16 K cam (kCamScratch + 0x16);
     v13 \<leftarrow> camera_state_r16 K cam (kCamScratch + 0x0A);
     let dz = as_s16 (v12 - cz - v13);
     v14 \<leftarrow> camera_state_r16 K cam (kCamScratch + 0x02);
     let dx = as_s16 (x - v14);
     look_angle_builder_yaw_dist_accumulate K cam dx dz
   }"

definition look_angle_builder_head_build_a :: "'c core_ops \<Rightarrow> u32 \<Rightarrow> u32
    \<Rightarrow> ('c, unit) state" where
  "look_angle_builder_head_build_a K cam nonzero = do {
     (if nonzero = 0 then do {
       v1 \<leftarrow> camera_state_cam_r16 K cam 0x26;
       let off = as_s16 v1 - 320;
       v2 \<leftarrow> camera_state_r16 K cam (kCamScratch + 0x12);
       camera_state_w16 K cam (kCamScratch + 6) (as_u16 (v2 + off))
     }
      else do {
        v3 \<leftarrow> camera_state_cam_r16 K cam 0x6E;
        v4 \<leftarrow> rsin K (as_s16 v3);
        v5 \<leftarrow> camera_state_cam_r16 K cam 0x6C;
        v6 \<leftarrow> mul_lo K v4 (as_s16 v5);
        let step1 = sar 12 v6;
        v7 \<leftarrow> camera_state_r16 K cam (kCamScratch + 0x12);
        camera_state_w16 K cam (kCamScratch + 6) (as_u16 (v7 - step1))
      });
     v8 \<leftarrow> camera_state_cam_r8 K cam 0x66;
     camera_state_cam_w8 K cam 0x66 (as_u8 (v8 OR 2))
   }"

definition look_angle_builder_head_build_b :: "'c core_ops \<Rightarrow> u32 \<Rightarrow> ('c,
    unit) state" where
  "look_angle_builder_head_build_b K cam = do {
     v1 \<leftarrow> camera_state_cam_r16 K cam 0x6E;
     v2 \<leftarrow> rsin K (as_s16 v1);
     v3 \<leftarrow> camera_state_cam_r16 K cam 0x6C;
     v4 \<leftarrow> mul_lo K v2 (as_s16 v3);
     let step1 = sar 12 v4;
     s6 \<leftarrow> camera_state_r16 K cam (kCamScratch + 6);
     s12 \<leftarrow> camera_state_r16 K cam (kCamScratch + 0x12);
     let d = s6 + step1 - s12;
     (if as_u16 (d + 10) < 21 then do {
       camera_state_w16 K cam (kCamScratch + 6) (as_u16 (s12 - step1));
       v7 \<leftarrow> camera_state_cam_r8 K cam 0x66;
       camera_state_cam_w8 K cam 0x66 (as_u8 (v7 OR 2))
     }
      else do {
        let s = sar 3 (shl d 16);
        v8 \<leftarrow> camera_state_r32 K cam (kCamScratch + 4);
        camera_state_w32 K cam (kCamScratch + 4) (v8 - s)
      })
   }"

definition look_angle_builder_join_e640 :: "'c core_ops \<Rightarrow> u32 \<Rightarrow> u32
    \<Rightarrow> u32 \<Rightarrow> ('c, unit) state" where
  "look_angle_builder_join_e640 K cam delta radius = do {
     v1 \<leftarrow> camera_state_r16 K cam (kCamGlobal + 0x140);
     v2 \<leftarrow> camera_state_cam_r16 K cam 0x52;
     let sum1 = v1 + v2 + delta;
     let theta16 = as_u16 sum1;
     camera_state_cam_w16 K cam 0x8C theta16;
     look_angle_builder_lookat_tail K cam (as_s16 theta16) radius
   }"

definition look_angle_builder_table1_delta :: "'c core_ops \<Rightarrow> u32 \<Rightarrow> ('c,
    u32) state" where
  "look_angle_builder_table1_delta K cam = do {
     idx \<leftarrow> camera_state_r8 K cam (kCamGlobal + 0x164);
     (if (idx = 1 \<or> idx = 9) \<or> idx = 11 then do {
       v2 \<leftarrow> camera_state_r32 K cam (kCamGlobal + 0x158);
       (if v2 = 0 then table1_entry K kCamGlobal cam
        else do {
          v4 \<leftarrow> camera_state_r16 K cam (kCamGlobal + 0x140);
          let g140 = as_s16 v4;
          v5 \<leftarrow> camera_state_r16 K cam (kCamGlobal + 0x56);
          let g56 = as_s16 v5;
          cam56 \<leftarrow> camera_state_cam_r16 K cam 0x56;
          State_Monad.return (if g140 = g56 then - cam56 else cam56)
        })
     }
      else if idx = 3 then do {
        v7 \<leftarrow> camera_state_cam_r8 K cam 0x77;
        (if v7 \<noteq> 0 then table1_entry K kCamGlobal cam
         else do {
           v9 \<leftarrow> camera_state_r8 K cam 0x800BF870;
           (if v9 = 6 then table1_entry K kCamGlobal cam
            else do {
              v11 \<leftarrow> camera_state_r16 K cam (kCamGlobal + 0x140);
              let g140 = as_s16 v11;
              v12 \<leftarrow> camera_state_r16 K cam (kCamGlobal + 0x56);
              let g56 = as_s16 v12;
              cam56 \<leftarrow> camera_state_cam_r16 K cam 0x56;
              v14 \<leftarrow> camera_state_r8 K cam (kCamGlobal + 0x168);
              let g168 = shl v14 6;
              State_Monad.return (if g140 \<noteq> g56 then g168 - cam56 else cam56 - g168)
            })
         })
      }
       else table1_entry K kCamGlobal cam)
   }"

definition look_angle_builder_table2 :: "'c core_ops \<Rightarrow> u32 \<Rightarrow> u32
    \<Rightarrow> ('c, unit) state" where
  "look_angle_builder_table2 K cam radius = do {
     a1 \<leftarrow> camera_state_r8 K cam (kCamGlobal + 0x61);
     let idx2 = (shr (a1 AND 0xFF) 4) - 1;
     theta \<leftarrow> (if idx2 = 0 then (if (a1 AND 1) \<noteq> 0 then do {
       v2 \<leftarrow> camera_state_r16 K cam 0x1F800196;
       State_Monad.return (v2 + 512)
     }
      else do {
        v3 \<leftarrow> camera_state_r16 K cam 0x1F800196;
        let s196 = as_s16 v3;
        v4 \<leftarrow> camera_state_r16 K cam (kCamGlobal + 0x140);
        let g140 = as_s16 v4;
        let d = sar 1 ((s196 - g140) AND 0xFFF);
        v5 \<leftarrow> camera_state_r16 K cam 0x1F800196;
        State_Monad.return (v5 + d)
      })
      else if idx2 = 1 then (if (a1 AND 1) \<noteq> 0 then do {
        v6 \<leftarrow> camera_state_r16 K cam (kCamGlobal + 0x56);
        v7 \<leftarrow> camera_state_r16 K cam (kCamGlobal + 0x140);
        let r = angle_cmp (as_s16 v6) (as_s16 v7) 0;
        v8 \<leftarrow> camera_state_r16 K cam (kCamGlobal + 0x140);
        State_Monad.return (v8 + (if r = 0 then 512 else 1536))
      }
       else do {
         v9 \<leftarrow> camera_state_r16 K cam 0x1F800194;
         let a = as_s16 v9;
         v10 \<leftarrow> camera_state_r16 K cam 0x1F800196;
         let b = as_s16 v10;
         v11 \<leftarrow> camera_state_r16 K cam (kCamGlobal + 0x140);
         State_Monad.return (v11 + (if a \<noteq> b then 512 else 1536))
       })
       else if idx2 = 2 then do {
         vu \<leftarrow> camera_state_r16 K cam 0x1F800196;
         State_Monad.return (vu + (sdiv (as_s16 vu) 2))
       }
        else if idx2 = 3 then do {
          v13 \<leftarrow> camera_state_r16 K cam 0x1F800196;
          State_Monad.return (v13 + 512)
        }
         else if idx2 = 7 then do {
           v14 \<leftarrow> camera_state_r16 K cam (kCamGlobal + 0x140);
           State_Monad.return (v14 + 1024)
         }
          else do {
            v15 \<leftarrow> camera_state_r16 K cam (kCamGlobal + 0x140);
            State_Monad.return (v15 + 512)
          });
     look_angle_builder_lookat_tail K cam (theta AND 0xFFF) radius
   }"

definition look_angle_builder_rot_build :: "'c core_ops \<Rightarrow> u32 \<Rightarrow> ('c, unit)
    state" where
  "look_angle_builder_rot_build K cam = do {
     v1 \<leftarrow> camera_state_cam_r8 K cam 0x76;
     (if v1 \<noteq> 0 then State_Monad.return ()
      else do {
        a1 \<leftarrow> camera_state_r8 K cam (kCamGlobal + 0x61);
        let a0 = a1 AND 0xFF;
        b4 \<leftarrow> (if a0 \<noteq> 0 then do {
          v3 \<leftarrow> camera_state_cam_r8 K cam 0x72;
          State_Monad.return ((v3 AND 0x80) \<noteq> 0)
        }
         else State_Monad.return False);
        (if b4 then State_Monad.return ()
         else do {
           v5 \<leftarrow> camera_state_r16 K cam 0x1F8000EE;
           let negEE = - v5;
           let radius = as_s16 negEE;
           c114 \<leftarrow> camera_state_cam_r8 K cam 0x72;
           (if (c114 AND 0x40) \<noteq> 0 then do {
             v7 \<leftarrow> camera_state_cam_r16 K cam 0x8C;
             look_angle_builder_lookat_tail K cam (as_s16 v7) radius
           }
            else if a0 \<noteq> 0 \<and> (a1 AND 1) = 0 then look_angle_builder_table2 K cam
                radius
             else do {
               v8 \<leftarrow> camera_state_r8 K cam (kCamGlobal + 0x17A);
               (if v8 \<noteq> 0 then look_angle_builder_join_e640 K cam 0 (as_s16 (negEE - 600))
                else if (c114 AND 2) \<noteq> 0 then do {
                  t11 \<leftarrow> (if (c114 AND 1) \<noteq> 0 then do {
                    v9 \<leftarrow> camera_state_cam_r16 K cam 0x56;
                    State_Monad.return (- v9)
                  }
                   else do {
                     v10 \<leftarrow> camera_state_cam_r16 K cam 0x56;
                     State_Monad.return v10
                   });
                  let delta = t11;
                  look_angle_builder_join_e640 K cam delta radius
                }
                 else do {
                   v12 \<leftarrow> look_angle_builder_table1_delta K cam;
                   look_angle_builder_join_e640 K cam v12 radius
                 })
             })
         })
      })
   }"

definition look_angle_builder_dist_solve :: "'c core_ops \<Rightarrow> u32 \<Rightarrow> ('c,
    unit) state" where
  "look_angle_builder_dist_solve K cam = do {
     g61 \<leftarrow> camera_state_r8 K cam (kCamGlobal + 0x61);
     b3 \<leftarrow> (if (g61 AND 0x80) \<noteq> 0 then State_Monad.return True
      else do {
        v2 \<leftarrow> camera_state_r8 K cam (kCamGlobal + 0x17A);
        State_Monad.return (v2 \<noteq> 0)
      });
     b6 \<leftarrow> (if b3 then State_Monad.return True
      else do {
        b5 \<leftarrow> (if g61 \<noteq> 0 \<and> (g61 AND 1) = 0 then do {
          v4 \<leftarrow> camera_state_r8 K cam 0x800BF816;
          State_Monad.return (v4 \<noteq> 0)
        }
         else State_Monad.return False);
        State_Monad.return b5
      });
     let settled = b6;
     let timer = as_s16 (if settled then 0 else 240);
     camera_state_cam_w16 K cam 0x22 (as_u16 timer);
     flags \<leftarrow> camera_state_cam_r8 K cam 0x72;
     only_if ((flags AND 4) \<noteq> 0) (camera_state_cam_w16 K cam 0x22 0);
     flags \<leftarrow> camera_state_cam_r8 K cam 0x72;
     (tX, tZ, mode) \<leftarrow> (if (flags AND 2) \<noteq> 0 then do {
       tX \<leftarrow> camera_state_r32 K cam (kCamGlobal + 0x2C);
       tZ \<leftarrow> camera_state_r32 K cam (kCamGlobal + 0x34);
       State_Monad.return (tX, tZ, flags AND 1)
     }
      else do {
        idx \<leftarrow> camera_state_r8 K cam (kCamGlobal + 0x164);
        g147 \<leftarrow> camera_state_r8 K cam (kCamGlobal + 0x147);
        let idx = (if 13 \<le> idx then (8 :: u32) else idx);
        (if idx = 2 \<or> idx = 3 then do {
          p \<leftarrow> camera_state_r32 K cam (kCamGlobal + 0x10);
          v14 \<leftarrow> camera_state_r32 K cam (p + 0x2C);
          let tX = shl v14 16;
          v15 \<leftarrow> camera_state_r32 K cam (p + 0x34);
          State_Monad.return (tX, shl v15 16, g147)
        }
         else if idx = 12 then do {
           v16 \<leftarrow> camera_state_r16 K cam 0x1F800200;
           let tX = shl v16 16;
           v17 \<leftarrow> camera_state_r16 K cam 0x1F800204;
           State_Monad.return (tX, shl v17 16, g147)
         }
          else if idx = 7 then do {
            v18 \<leftarrow> camera_state_r16 K cam (kCamGlobal + 0x14C);
            let tX = shl v18 16;
            v19 \<leftarrow> camera_state_r16 K cam (kCamGlobal + 0x150);
            State_Monad.return (tX, shl v19 16, g147)
          }
           else if idx = 8 then do {
             tX \<leftarrow> camera_state_r32 K cam (kCamGlobal + 0x2C);
             tZ \<leftarrow> camera_state_r32 K cam (kCamGlobal + 0x34);
             State_Monad.return (tX, tZ, g147)
           }
            else do {
              tX \<leftarrow> camera_state_r32 K cam (kCamGlobal + 0x2C);
              tZ \<leftarrow> camera_state_r32 K cam (kCamGlobal + 0x34);
              v24 \<leftarrow> camera_state_r32 K cam (kCamGlobal + 0x158);
              State_Monad.return (tX, tZ, (if v24 = 0 then g147 else 1 - g147))
            })
      });
     baseAng \<leftarrow> camera_state_r16 K cam (kCamGlobal + 0x140);
     let baseAng = (if (mode AND 0xFF) \<noteq> 0 then (baseAng + 2048) else baseAng);
     let s0a = as_s16 (as_u16 baseAng);
     v26 \<leftarrow> camera_state_cam_r16 K cam 0x22;
     let cam22 = as_s16 v26;
     v27 \<leftarrow> rcos K s0a;
     v28 \<leftarrow> mul_lo K v27 cam22;
     let s2 = tX + shl v28 4;
     v29 \<leftarrow> rsin K s0a;
     v30 \<leftarrow> mul_lo K v29 cam22;
     let s1 = tZ - (shl v30 4);
     v31 \<leftarrow> camera_state_r16 K cam (kCamGlobal + 0x140);
     let g140s = as_s16 v31;
     cam58 \<leftarrow> camera_state_cam_r32 K cam 0x58;
     v33 \<leftarrow> rcos K g140s;
     v34 \<leftarrow> mul_lo K v33 cam58;
     let coordX = tX + sar 4 v34;
     v35 \<leftarrow> rsin K g140s;
     v36 \<leftarrow> mul_lo K v35 cam58;
     let coordZ = tZ - (sar 4 v36);
     let s2q = sar 8 (s2 - coordX);
     let s1q = sar 8 (s1 - coordZ);
     v37 \<leftarrow> mul_lo K s2q s2q;
     v38 \<leftarrow> mul_lo K s1q s1q;
     v39 \<leftarrow> guest_call K kIsqrt [v37 + v38, 0, 0, 0];
     let s0d = shl v39 8;
     ang \<leftarrow> trig_ratan2 K (- s1q) s2q;
     v41 \<leftarrow> camera_state_r16 K cam (kCamGlobal + 0x140);
     let angd = (ang - v41 - 1024) AND 0xFFF;
     cur \<leftarrow> camera_state_cam_r32 K cam 0x14;
     cam14 \<leftarrow> (if 0x140000 <s s0d then State_Monad.return (if angd <s 2048 then (let neg
         = - s0d in (if cur <s neg then (if 0xFFD80000 <s neg then neg else 0xFFD80000) else ((if
         0 <s cur then 0 else cur) - 65536))) else (if s0d <s cur then (if 0x0027FFFF <s s0d then
         0x00280000 else s0d) else ((if cur <s 0 then 0 else cur) + 65536)))
      else State_Monad.return (if angd <s 2048 then - s0d else s0d));
     camera_state_cam_w32 K cam 0x14 cam14;
     let cam58n = cam58 + sar 8 cam14;
     camera_state_cam_w32 K cam 0x58 cam58n;
     v43 \<leftarrow> rcos K g140s;
     v44 \<leftarrow> mul_lo K v43 cam58n;
     camera_state_cam_w32 K cam 0x08 (tX + sar 4 v44);
     v45 \<leftarrow> rsin K g140s;
     v46 \<leftarrow> mul_lo K v45 cam58n;
     camera_state_cam_w32 K cam 0x10 (tZ - (sar 4 v46))
   }"

section \<open>\<open>game/camera/cutscene_camera.cpp\<close>\<close>

definition cutscene_camera_follow_axis :: "'c core_ops \<Rightarrow> u32 \<Rightarrow> u32
    \<Rightarrow> u32 \<Rightarrow> u32 \<Rightarrow> u32 \<Rightarrow> u32 \<Rightarrow> ('c,
    bool) state" where
  "cutscene_camera_follow_axis K cam accAddr tgt32Addr tgtInt curInt maxStep = do {
     let delta = as_s16 (tgtInt - curInt);
     (if as_u16 (delta + 10) < 21 then do {
       v1 \<leftarrow> camera_state_r32 K cam tgt32Addr;
       camera_state_w32 K cam accAddr v1;
       State_Monad.return True
     }
      else do {
        v2 \<leftarrow> camera_guest_math_clamp_step K delta maxStep;
        let step1 = shl v2 13;
        v3 \<leftarrow> camera_state_r32 K cam accAddr;
        camera_state_w32 K cam accAddr (v3 + step1);
        State_Monad.return False
      })
   }"

definition cutscene_camera_track_xz :: "'c core_ops \<Rightarrow> u32 \<Rightarrow> u32
    \<Rightarrow> ('c, bool) state" where
  "cutscene_camera_track_xz K cam target = do {
     v1 \<leftarrow> camera_state_r16 K cam (target + 2);
     v2 \<leftarrow> camera_state_r16 K cam (kCamScratch + 0x0E);
     snapX \<leftarrow> cutscene_camera_follow_axis K cam (kCamScratch + 0x0C) (target + 0) v1 v2
         6144;
     v4 \<leftarrow> camera_state_r16 K cam (target + 10);
     v5 \<leftarrow> camera_state_r16 K cam (kCamScratch + 0x16);
     snapZ \<leftarrow> cutscene_camera_follow_axis K cam (kCamScratch + 0x14) (target + 8) v4 v5
         6144;
     State_Monad.return (snapX \<and> snapZ)
   }"

definition cutscene_camera_track_y :: "'c core_ops \<Rightarrow> u32 \<Rightarrow> u32
    \<Rightarrow> ('c, bool) state" where
  "cutscene_camera_track_y K cam target = do {
     v1 \<leftarrow> camera_state_r16 K cam (target + 6);
     v2 \<leftarrow> camera_state_r16 K cam (kCamScratch + 0x12);
     cutscene_camera_follow_axis K cam (kCamScratch + 0x10) (target + 4) v1 v2 5632
   }"

definition cutscene_camera_angle_step :: "'c core_ops \<Rightarrow> u32 \<Rightarrow> ('c, unit)
    state" where
  "cutscene_camera_angle_step K cam = do {
     cur \<leftarrow> camera_state_cam_r32 K cam 0x34;
     v2 \<leftarrow> camera_state_r8 K cam (kCamGlobal + 0x164);
     (if v2 \<noteq> 3 then (if cur \<le>s 0 then do {
       let r = cur + 8;
       camera_state_cam_w32 K cam 0x34 r;
       only_if (0 \<le>s r) (camera_state_cam_w32 K cam 0x34 0)
     }
      else do {
        let r = cur - 8;
        camera_state_cam_w32 K cam 0x34 r;
        only_if (r \<le>s 0) (camera_state_cam_w32 K cam 0x34 0)
      })
      else do {
        idx \<leftarrow> camera_state_r8 K cam (kCamGlobal + 0x168);
        let sw4 = (if 5 \<le> idx then 4 else idx);
        let target = (if sw4 = 0 \<or> sw4 = 1 then (0 :: u32) else (if sw4 = 2 then (-128 :: u32)
            else (if sw4 = 3 then (-256 :: u32) else (-384 :: u32))));
        (if target <s cur then do {
          let r = cur - 8;
          camera_state_cam_w32 K cam 0x34 r;
          only_if (r <s target) (camera_state_cam_w32 K cam 0x34 target)
        }
         else do {
           let r = cur + 8;
           camera_state_cam_w32 K cam 0x34 r;
           only_if (target <s r) (camera_state_cam_w32 K cam 0x34 target)
         })
      })
   }"

definition cutscene_camera_y_floor :: "'c core_ops \<Rightarrow> u32 \<Rightarrow> ('c, unit)
    state" where
  "cutscene_camera_y_floor K cam = do {
     renderMode \<leftarrow> camera_state_r8 K cam kRenderModeByte;
     let index = as_u8 (renderMode - 1);
     (if kHighestFloorRenderModeIndex < index then State_Monad.return ()
      else do {
        let kCameraHeight = (0x1F8000E2 :: u32);
        v2 \<leftarrow> camera_state_r16 K cam kCameraHeight;
        let height = as_s16 v2;
        let clampTo = (\<lambda>floorValue. only_if (height <s floorValue) (camera_state_w16 K cam
            kCameraHeight (as_u16 (as_s16 floorValue))));
        let raiseUnlessBelow = (\<lambda>lowerBound floorValue. only_if (\<not> (height <s
            lowerBound)) (camera_state_w16 K cam kCameraHeight (as_u16 (as_s16 floorValue))));
        (if index = kFloorRenderModeIndex then clampTo kFloorRenderMode1
         else if index = kFloorSeaRenderModeIndex then do {
           v3 \<leftarrow> camera_state_r8 K cam 0x800BF871;
           (if v3 = kSeaSubAreaSeven then do {
             v4 \<leftarrow> camera_state_r16 K cam 0x800E7EB6;
             only_if (as_s16 v4 <s kSeaDistanceBound) ((if height <s kSeaFloorLow then
                 raiseUnlessBelow kSeaFloorLowPlusOne kSeaFloorNear
              else camera_state_w16 K cam kCameraHeight (as_u16 (as_s16 kSeaFloorLow))))
           }
            else raiseUnlessBelow kSeaFloorHighBound kSeaFloorHigh)
         }
          else if index = kFloorShoreRenderModeIndex then do {
            v5 \<leftarrow> camera_state_r8 K cam kStatusByteMirror;
            (if v5 = kShoreSubAreaFourteen then clampTo kShoreFloorNear
             else clampTo kShoreFloorFar)
          }
           else if index = kFloorNightRenderModeIndex then clampTo kFloorRenderMode10
            else only_if (index = kFloorFinalRenderModeIndex) (raiseUnlessBelow
                kFloorRenderMode13Bound kFloorRenderMode13))
      })
   }"

definition cutscene_camera_pitch :: "'c core_ops \<Rightarrow> u32 \<Rightarrow> ('c, unit) state"
    where
  "cutscene_camera_pitch K cam = do {
     g30 \<leftarrow> camera_state_r32 K cam (kCamGlobal + 0x30);
     v2 \<leftarrow> camera_state_r16 K cam (kCamGlobal + 0x17E);
     let g17e = as_s16 v2;
     let sign = (of_bool ((g17e AND 0x8000) \<noteq> 0) :: u32);
     let viaC8 = (0 :: u32);
     idx \<leftarrow> camera_state_r8 K cam (kCamGlobal + 0x164);
     let idx = (if 13 \<le> idx then (7 :: u32) else idx);
     (r5, viaC8) \<leftarrow> (if idx = 2 then do {
       p \<leftarrow> camera_state_r32 K cam (kCamGlobal + 0x10);
       v5 \<leftarrow> camera_state_r32 K cam (p + 0x30);
       let r5 = shl v5 16;
       State_Monad.return (r5, (1 :: u32))
     }
      else if idx = 3 then do {
        p \<leftarrow> camera_state_r32 K cam (kCamGlobal + 0x10);
        v7 \<leftarrow> camera_state_r32 K cam (p + 0x30);
        State_Monad.return (shl v7 16, viaC8)
      }
       else if idx = 12 then do {
         v8 \<leftarrow> camera_state_r16 K cam 0x1F800202;
         let a = as_s16 v8;
         let sum1 = shl a 16 + g30;
         let r5 = sar 1 (sum1 + shr sum1 31);
         State_Monad.return (r5, (1 :: u32))
       }
        else if idx = 7 \<or> idx = 8 then do {
          let r5 = g30;
          State_Monad.return (r5, (1 :: u32))
        }
         else do {
           m \<leftarrow> camera_state_r8 K cam 0x800BF821;
           gm \<leftarrow> camera_state_r8 K cam (kCamGlobal + 0x145);
           r5 \<leftarrow> (if m = 1 then State_Monad.return (g30 - (shl 200 16))
            else if m \<noteq> 0 then State_Monad.return (if gm = 2 then (g30 + (if sign \<noteq>
                0 then - (shl 240 16) else shl 40 16)) else (g30 + (if sign \<noteq> 0 then - (shl
                310 16) else - (shl 240 16))))
             else State_Monad.return (if gm = 2 then (if sign \<noteq> 0 then g30 else g30 + shl
                 200 16) else (if sign \<noteq> 0 then g30 - (shl 70 16) else g30)));
           State_Monad.return (r5, viaC8)
         });
     let r5 = (if viaC8 \<noteq> 0 then (r5 + shl 200 16) else r5);
     let target = r5 - (shl 600 16);
     v11 \<leftarrow> camera_state_cam_r32 K cam 0x0C;
     let delta = target - v11;
     let r7 = (if g17e <s 0 then shl 20 16 else shl 140 16);
     let r4 = (if g17e <s 0 then shl 580 16 else shl 460 16);
     let t = delta + r4;
     let rest1 = (\<lambda>dir r3. (if dir = 0 then (if \<not> (0x80000 <s r3) then
         camera_state_cam_w32 K cam 0x0C (r5 + r4 - (shl 600 16))
      else do {
        cv \<leftarrow> camera_state_cam_r32 K cam 0x18;
        (if \<not> (r3 <s cv) then do {
          only_if (cv <s 0) (camera_state_cam_w32 K cam 0x18 0);
          v13 \<leftarrow> camera_state_cam_r32 K cam 0x18;
          camera_state_cam_w32 K cam 0x18 (v13 + shl 16 16)
        }
         else if 0x4FFFFF <s r3 then camera_state_cam_w32 K cam 0x18 (shl 80 16)
          else camera_state_cam_w32 K cam 0x18 r3);
        v14 \<leftarrow> camera_state_cam_r32 K cam 0x0C;
        v15 \<leftarrow> camera_state_cam_r32 K cam 0x18;
        camera_state_cam_w32 K cam 0x0C (v14 + v15)
      })
      else do {
        g145 \<leftarrow> camera_state_r8 K cam (kCamGlobal + 0x145);
        (if g145 \<noteq> 0 then (if \<not> (r3 <s - (shl 256 16)) then State_Monad.return ()
         else do {
           let r3 = r3 + shl 256 16;
           (if - (shl 96 16) <s r3 then camera_state_cam_w32 K cam 0x18 r3
            else camera_state_cam_w32 K cam 0x18 (- (shl 96 16)));
           v17 \<leftarrow> camera_state_cam_r32 K cam 0x0C;
           v18 \<leftarrow> camera_state_cam_r32 K cam 0x18;
           camera_state_cam_w32 K cam 0x0C (v17 + v18)
         })
         else do {
           (if \<not> (r3 <s - (shl 22 16)) then camera_state_cam_w32 K cam 0x18 r3
            else do {
              cv \<leftarrow> camera_state_cam_r32 K cam 0x18;
              (if \<not> (cv <s r3) then do {
                only_if (0 <s cv) (camera_state_cam_w32 K cam 0x18 0);
                v20 \<leftarrow> camera_state_cam_r32 K cam 0x18;
                camera_state_cam_w32 K cam 0x18 (v20 + 0xFFFEA000)
              }
               else camera_state_cam_w32 K cam 0x18 (- (shl 22 16)))
            });
           v21 \<leftarrow> camera_state_cam_r32 K cam 0x0C;
           v22 \<leftarrow> camera_state_cam_r32 K cam 0x18;
           camera_state_cam_w32 K cam 0x0C (v21 + v22)
         })
      }));
     (if 0 \<le>s t then do { let dir = (0 :: u32); let r3 = t; rest1 dir r3 }
      else do {
        let t2 = t + r7;
        (if t2 <s 0 then do { let dir = (1 :: u32); let r3 = t2; rest1 dir r3 }
         else camera_state_cam_w32 K cam 0x18 0)
      })
   }"

definition cutscene_camera_heading :: "'c core_ops \<Rightarrow> u32 \<Rightarrow> ('c, unit)
    state" where
  "cutscene_camera_heading K cam = do {
     v1 \<leftarrow> camera_state_cam_r8 K cam 0x74;
     (if (v1 AND 4) \<noteq> 0 then do {
       v2 \<leftarrow> camera_state_cam_r8 K cam 0x66;
       camera_state_cam_w8 K cam 0x66 (as_u8 (v2 OR 2))
     }
      else do {
        let off = (0 :: u32);
        g61 \<leftarrow> camera_state_r8 K cam (kCamGlobal + 0x61);
        let useTable = (1 :: u32);
        let (off, useTable) = (if g61 \<noteq> 0 \<and> (g61 AND 1) = 0 then (let off = (768 ::
            u32) in (off, (0 :: u32))) else (off, useTable));
        let rest1 = (\<lambda>off. do {
          s06 \<leftarrow> camera_state_r16 K cam (kCamScratch + 6);
          c26 \<leftarrow> camera_state_cam_r16 K cam 0x26;
          s12 \<leftarrow> camera_state_r16 K cam (kCamScratch + 0x12);
          let r5 = s06 + off - c26 - s12;
          (if as_u16 (r5 + 10) < 21 then do {
            camera_state_w16 K cam (kCamScratch + 6) (as_u16 (c26 + (s12 - off)));
            v7 \<leftarrow> camera_state_cam_r8 K cam 0x66;
            camera_state_cam_w8 K cam 0x66 (as_u8 (v7 OR 2))
          }
           else do {
             let step1 = sar 3 (shl r5 16);
             v8 \<leftarrow> camera_state_r32 K cam (kCamScratch + 4);
             camera_state_w32 K cam (kCamScratch + 4) (v8 - step1)
           });
          f \<leftarrow> camera_state_cam_r8 K cam 0x74;
          let cond = (0 :: u32);
          let active1 = (1 :: u32);
          (cond, active1) \<leftarrow> (if (f AND 2) \<noteq> 0 then do {
            v10 \<leftarrow> camera_state_r16 K cam (kCamScratch + 6);
            v11 \<leftarrow> camera_state_cam_r16 K cam 0x4A;
            let cond = (of_bool (as_s16 v10 <s as_s16 v11) :: u32);
            State_Monad.return (cond, active1)
          }
           else if (f AND 8) \<noteq> 0 then do {
             v12 \<leftarrow> camera_state_cam_r16 K cam 0x4A;
             v13 \<leftarrow> camera_state_r16 K cam (kCamScratch + 6);
             let cond = (of_bool (as_s16 v12 <s as_s16 v13) :: u32);
             State_Monad.return (cond, active1)
           }
            else State_Monad.return (cond, (0 :: u32)));
          only_if (active1 \<noteq> 0 \<and> \<not> (cond \<noteq> 0)) (do {
            v14 \<leftarrow> camera_state_cam_r16 K cam 0x4A;
            camera_state_w16 K cam (kCamScratch + 6) v14;
            v15 \<leftarrow> camera_state_cam_r8 K cam 0x66;
            camera_state_cam_w8 K cam 0x66 (as_u8 (v15 OR 2))
          })
        });
        (if useTable \<noteq> 0 then do {
          idx \<leftarrow> camera_state_r8 K cam (kCamGlobal + 0x164);
          (if 13 \<le> idx then State_Monad.return ()
           else if idx = 0 \<or> idx = 4 then do {
             v17 \<leftarrow> camera_state_r8 K cam (kCamGlobal + 0x145);
             (if v17 = 0 then do { let off = (320 :: u32); rest1 off }
              else do {
                v18 \<leftarrow> camera_state_r16 K cam (kCamGlobal + 0x4A);
                let g4a_s = as_s16 v18;
                r3v \<leftarrow> camera_state_r16 K cam (kCamGlobal + 0x4A);
                let r3v = (if g4a_s <s 0 then (0 - r3v) else r3v);
                v20 \<leftarrow> camera_state_r8 K cam (kCamGlobal + 0x165);
                let r3v = r3v + (if v20 = 0 then -14976 else -16384);
                let s = sar 21 (shl r3v 16);
                let off = 320 - s;
                rest1 off
              })
           }
            else if idx = 1 \<or> idx = 11 then do {
              sub1 \<leftarrow> camera_state_r32 K cam (kCamGlobal + 0x158);
              v22 \<leftarrow> camera_state_r8 K cam (sub1 + 0xC);
              b24 \<leftarrow> (if v22 = 4 then do {
                v23 \<leftarrow> camera_state_r8 K cam (sub1 + 0x2);
                State_Monad.return (v23 \<noteq> 0)
              }
               else State_Monad.return False);
              let off = (if b24 then 1100 else (700 :: u32));
              rest1 off
            }
             else if idx = 9 then do { let off = (-320 :: u32); rest1 off }
              else if idx = 3 then do { let off = (700 :: u32); rest1 off }
               else if idx = 12 then do {
                 v25 \<leftarrow> camera_state_r16 K cam (kCamGlobal + 0x32);
                 v26 \<leftarrow> camera_state_r16 K cam 0x1F800202;
                 let diff = v25 - v26;
                 let off = (if as_s16 diff <s 501 then diff else 500);
                 rest1 off
               }
                else State_Monad.return ())
        }
         else rest1 off)
      })
   }"

definition cam_idiv :: "'c core_ops \<Rightarrow> u32 \<Rightarrow> u32 \<Rightarrow> ('c, u32)
    state" where
  "cam_idiv K num1 den = do {
     guest_divide K True num1 den;
     reg K 33
   }"

definition cutscene_camera_look_at :: "'c core_ops \<Rightarrow> u32 \<Rightarrow> ('c, unit)
    state" where
  "cutscene_camera_look_at K cam = with_frame K 56 [(16, 16), (17, 20), (18, 24), (19, 28), (20,
      32), (21, 36), (22, 40), (23, 44), (30, 48), (31, 52)] (do {
     v1 \<leftarrow> camera_state_r16 K cam (kCamScratch + 14);
     v2 \<leftarrow> camera_state_r16 K cam (kCamScratch + 2);
     let dX = as_s16 v1 - (as_s16 v2);
     v3 \<leftarrow> camera_state_r16 K cam (kCamScratch + 22);
     v4 \<leftarrow> camera_state_r16 K cam (kCamScratch + 10);
     let dZ = as_s16 v3 - (as_s16 v4);
     v5 \<leftarrow> camera_state_r16 K cam (kCamScratch + 18);
     v6 \<leftarrow> camera_state_r16 K cam (kCamScratch + 6);
     let dY = as_s16 v5 - (as_s16 v6);
     let xz = dX * dX + dZ * dZ;
     v7 \<leftarrow> guest_call K kLookAtIsqrt [xz + dY * dY, 0, 0, 0];
     let s18 = v7 AND 0xFFFF;
     v8 \<leftarrow> guest_call K kLookAtIsqrt [xz, 0, 0, 0];
     let s19 = v8 AND 0xFFFF;
     camera_state_cam_w32 K cam 0x5C s18;
     camera_state_cam_w32 K cam 0x60 s19;
     only_if (s18 \<noteq> 0) (do {
       mtx_identity K (kCamScratch + 40);
       sinp \<leftarrow> cam_idiv K (shl dY 12) s18;
       cosp \<leftarrow> cam_idiv K (shl s19 12) s18;
       v11 \<leftarrow> trig_ratan2 K sinp cosp;
       let pitch = as_s16 v11;
       camera_state_w16 K cam (kCamScratch + 32) (as_u16 pitch);
       camera_state_w16 K cam (kCamScratch + 48) (as_u16 cosp);
       camera_state_w16 K cam (kCamScratch + 56) (as_u16 cosp);
       camera_state_w16 K cam (kCamScratch + 50) (as_u16 (- sinp));
       camera_state_w16 K cam (kCamScratch + 54) (as_u16 sinp);
       only_if (s19 \<noteq> 0) (do {
         a \<leftarrow> cam_idiv K (shl (- dX) 12) s19;
         b \<leftarrow> cam_idiv K (shl dZ 12) s19;
         v14 \<leftarrow> trig_ratan2 K a b;
         let yaw = as_s16 v14;
         camera_state_w16 K cam (kCamScratch + 34) (as_u16 yaw);
         mtx_identity K 0x1F800000;
         camera_state_w16 K cam 0x1F800000 (as_u16 b);
         camera_state_w16 K cam 0x1F800004 (as_u16 a);
         camera_state_w16 K cam 0x1F800010 (as_u16 b);
         camera_state_w16 K cam 0x1F80000C (as_u16 (- a));
         v15 \<leftarrow> guest_call K kMulMatrix0 [kCamScratch + 40, 0x1F800000, 0, 0];
         State_Monad.return ()
       })
     });
     let M = kCamScratch + 40;
     r104 \<leftarrow> camera_state_r16 K cam (kCamScratch + 52);
     r106 \<leftarrow> camera_state_r16 K cam (kCamScratch + 54);
     r108 \<leftarrow> camera_state_r16 K cam (kCamScratch + 56);
     camera_state_w16 K cam (kCamScratch + 24) r104;
     camera_state_w16 K cam (kCamScratch + 26) r106;
     camera_state_w16 K cam (kCamScratch + 28) r108;
     v19 \<leftarrow> camera_state_r16 K cam (kCamScratch + 2);
     camera_state_w16 K cam 0x1F8000C0 (as_u16 (0 - v19));
     v20 \<leftarrow> camera_state_r16 K cam (kCamScratch + 6);
     camera_state_w16 K cam 0x1F8000C2 (as_u16 (0 - v20));
     v21 \<leftarrow> camera_state_r16 K cam (kCamScratch + 10);
     camera_state_w16 K cam 0x1F8000C4 (as_u16 (0 - v21));
     _ \<leftarrow> apply_matrix_lv K M 0x1F8000C0 0x1F80010C;
     v22 \<leftarrow> guest_call K kCopyMatrix [M, kCamScratch + 72, 0, 0];
     State_Monad.return ()
   })"

definition cutscene_camera_snap_acc_xz :: "'c core_ops \<Rightarrow> u32 \<Rightarrow> u32
    \<Rightarrow> ('c, unit) state" where
  "cutscene_camera_snap_acc_xz K cam target = do {
     v1 \<leftarrow> camera_state_r32 K cam (target + 0);
     camera_state_w32 K cam (kCamScratch + 0x0C) v1;
     v2 \<leftarrow> camera_state_r32 K cam (target + 8);
     camera_state_w32 K cam (kCamScratch + 0x14) v2
   }"

definition cutscene_camera_snap_acc_y :: "'c core_ops \<Rightarrow> u32 \<Rightarrow> u32
    \<Rightarrow> ('c, unit) state" where
  "cutscene_camera_snap_acc_y K cam target = do {
     v1 \<leftarrow> camera_state_r32 K cam (target + 4);
     camera_state_w32 K cam (kCamScratch + 0x10) v1
   }"

definition cutscene_camera_snap_follow :: "'c core_ops \<Rightarrow> u32 \<Rightarrow> u32
    \<Rightarrow> ('c, unit) state" where
  "cutscene_camera_snap_follow K cam target = with_frame K 32 [(16, 16), (17, 20), (31, 24)] (do {
     setr K 16 cam;
     setr K 17 target;
     cutscene_camera_snap_acc_xz K cam target;
     cutscene_camera_snap_acc_y K cam target;
     setr K 31 0x8006E3E0;
     cutscene_camera_look_at K cam
   })"

definition cutscene_camera_snap_follow_a :: "'c core_ops \<Rightarrow> u32 \<Rightarrow> u32
    \<Rightarrow> ('c, unit) state" where
  "cutscene_camera_snap_follow_a K cam target = do {
     cutscene_camera_snap_acc_xz K cam target;
     cutscene_camera_snap_acc_y K cam target;
     v1 \<leftarrow> camera_state_cam_r8 K cam 0x76;
     only_if (v1 = 0) (do {
       look_angle_builder_pos_build_a K cam;
       look_angle_builder_head_build_a K cam 1
     });
     cutscene_camera_look_at K cam
   }"

definition cutscene_camera_pitch_follow :: "'c core_ops \<Rightarrow> u32 \<Rightarrow> u32
    \<Rightarrow> ('c, unit) state" where
  "cutscene_camera_pitch_follow K cam target = do {
     cutscene_camera_pitch K cam;
     cutscene_camera_snap_acc_xz K cam target;
     cutscene_camera_snap_acc_y K cam target;
     cutscene_camera_look_at K cam
   }"

definition cutscene_camera_snap_follow_b :: "'c core_ops \<Rightarrow> u32 \<Rightarrow> u32
    \<Rightarrow> ('c, unit) state" where
  "cutscene_camera_snap_follow_b K cam target = do {
     cutscene_camera_snap_acc_xz K cam target;
     cutscene_camera_snap_acc_y K cam target;
     v1 \<leftarrow> camera_state_cam_r8 K cam 0x76;
     only_if (v1 = 0) (do {
       look_angle_builder_pos_build_b K cam;
       look_angle_builder_head_build_b K cam
     });
     cutscene_camera_look_at K cam
   }"

definition cutscene_camera_main_follow :: "'c core_ops \<Rightarrow> u32 \<Rightarrow> ('c, unit)
    state" where
  "cutscene_camera_main_follow K cam = do {
     look_angle_builder_dist_solve K cam;
     _ \<leftarrow> cutscene_camera_track_xz K cam (cam + 8);
     cutscene_camera_pitch K cam;
     _ \<leftarrow> cutscene_camera_track_y K cam (cam + 8);
     cutscene_camera_y_floor K cam;
     v1 \<leftarrow> camera_state_cam_r8 K cam 0x76;
     b3 \<leftarrow> (if v1 = 0 then do {
       v2 \<leftarrow> camera_state_r8 K cam (kCamGlobal + 0x17A);
       State_Monad.return (v2 = 0)
     }
      else State_Monad.return False);
     only_if b3 (cutscene_camera_heading K cam);
     cutscene_camera_look_at K cam;
     v4 \<leftarrow> camera_state_cam_r8 K cam 0x77;
     only_if (v4 = 0) (cutscene_camera_angle_step K cam);
     v5 \<leftarrow> camera_state_cam_r32 K cam 0x28;
     v6 \<leftarrow> camera_state_cam_r32 K cam 0x34;
     let acc1 = v5 + v6;
     v7 \<leftarrow> camera_state_r32 K cam (kCamScratch + 0x44);
     camera_state_w32 K cam (kCamScratch + 0x44) (v7 - acc1)
   }"

definition cutscene_camera_simple_follow :: "'c core_ops \<Rightarrow> u32 \<Rightarrow> u32
    \<Rightarrow> ('c, unit) state" where
  "cutscene_camera_simple_follow K cam target = do {
     v1 \<leftarrow> cutscene_camera_track_xz K cam target;
     only_if v1 (do {
       v2 \<leftarrow> camera_state_cam_r8 K cam 0x66;
       camera_state_cam_w8 K cam 0x66 (as_u8 (v2 OR 1))
     });
     v3 \<leftarrow> cutscene_camera_track_y K cam target;
     only_if v3 (do {
       v4 \<leftarrow> camera_state_cam_r8 K cam 0x66;
       camera_state_cam_w8 K cam 0x66 (as_u8 (v4 OR 2))
     });
     cutscene_camera_look_at K cam
   }"

definition cutscene_camera_track_follow :: "'c core_ops \<Rightarrow> u32 \<Rightarrow> u32
    \<Rightarrow> ('c, unit) state" where
  "cutscene_camera_track_follow K cam target = do {
     _ \<leftarrow> cutscene_camera_track_xz K cam target;
     _ \<leftarrow> cutscene_camera_track_y K cam target;
     v1 \<leftarrow> camera_state_r16 K cam 0x1F8000E2;
     camera_state_cam_w16 K cam 0x0E v1;
     v2 \<leftarrow> camera_state_cam_r8 K cam 0x76;
     only_if (v2 = 0) (do {
       look_angle_builder_pos_build_b K cam;
       look_angle_builder_head_build_b K cam
     });
     cutscene_camera_look_at K cam
   }"

definition cutscene_camera_shake_tail :: "'c core_ops \<Rightarrow> u32 \<Rightarrow> ('c, unit)
    state" where
  "cutscene_camera_shake_tail K cam = do {
     state1 \<leftarrow> camera_state_cam_r8 K cam 0x76;
     (if kHighestShakeState < state1 then State_Monad.return ()
      else do {
        let drawJitter = (\<lambda>bits. do {
          v3 \<leftarrow> rng_next K;
          State_Monad.return (v3 AND bits)
        });
        let jitterHeightOnly = (\<lambda>amplitude mask1 effectId. do {
          v4 \<leftarrow> camera_state_cam_r16 K cam kShakeAnchorY;
          v5 \<leftarrow> drawJitter mask1;
          camera_state_w16 K cam (kCamScratch + 0x06) (as_u16 (v4 - amplitude + v5));
          v6 \<leftarrow> guest_call K kShakeFx [0, 0, effectId, kShakeEffectPriority];
          State_Monad.return ()
        });
        (if state1 = CameraShakeState_kCaptureAxes then do {
          v7 \<leftarrow> camera_state_r16 K cam (kCamScratch + 0x02);
          camera_state_cam_w16 K cam kShakeAnchorX v7;
          v8 \<leftarrow> camera_state_r16 K cam (kCamScratch + 0x06);
          camera_state_cam_w16 K cam kShakeAnchorY v8;
          camera_state_cam_w8 K cam 0x76 CameraShakeState_kJitterAxes;
          v9 \<leftarrow> camera_state_r16 K cam (kCamScratch + 0x0A);
          camera_state_cam_w16 K cam kShakeAnchorZ v9
        }
         else if state1 = CameraShakeState_kJitterAxes then do {
           jitterX \<leftarrow> drawJitter kShakeMaskNarrow;
           v11 \<leftarrow> camera_state_cam_r16 K cam kShakeAnchorX;
           camera_state_w16 K cam (kCamScratch + 0x02) (as_u16 (v11 - kShakeXAmplitude +
               jitterX));
           jitterZ \<leftarrow> drawJitter kShakeMaskNarrow;
           v13 \<leftarrow> camera_state_cam_r16 K cam kShakeAnchorZ;
           camera_state_w16 K cam (kCamScratch + 0x0A) (as_u16 (v13 - kShakeXAmplitude +
               jitterZ));
           jitterY \<leftarrow> drawJitter (shr kShakeMaskNarrow 1);
           v15 \<leftarrow> camera_state_cam_r16 K cam kShakeAnchorY;
           camera_state_w16 K cam (kCamScratch + 0x06) (as_u16 (v15 - kShakeYAmplitude +
               jitterY));
           v16 \<leftarrow> guest_call K kShakeFx [0, 0, kShakeEffectAxes, kShakeEffectPriority];
           State_Monad.return ()
         }
          else if state1 = CameraShakeState_kRestoreAxes then do {
            v17 \<leftarrow> camera_state_cam_r16 K cam kShakeAnchorX;
            camera_state_w16 K cam (kCamScratch + 0x02) v17;
            v18 \<leftarrow> camera_state_cam_r16 K cam kShakeAnchorY;
            camera_state_w16 K cam (kCamScratch + 0x06) v18;
            v19 \<leftarrow> camera_state_cam_r16 K cam kShakeAnchorZ;
            camera_state_w16 K cam (kCamScratch + 0x0A) v19;
            camera_state_cam_w8 K cam 0x76 CameraShakeState_kIdle
          }
           else if state1 = CameraShakeState_kCaptureHeight then do {
             v20 \<leftarrow> camera_state_r16 K cam (kCamScratch + 0x06);
             camera_state_cam_w16 K cam kShakeAnchorY v20;
             camera_state_cam_w8 K cam 0x76 CameraShakeState_kJitterHeight
           }
            else if state1 = CameraShakeState_kJitterHeight then jitterHeightOnly
                kShakeHeightAmplitude kShakeMaskWide kShakeEffectHeight
             else if state1 = CameraShakeState_kPulseHeightBegin then do {
               v21 \<leftarrow> camera_state_r16 K cam (kCamScratch + 0x06);
               camera_state_cam_w16 K cam kShakeAnchorY v21;
               camera_state_cam_w8 K cam 0x76 CameraShakeState_kPulseHeight;
               v22 \<leftarrow> camera_state_cam_r8 K cam kShakeBusyByte;
               (if v22 \<noteq> 0 then camera_state_cam_w8 K cam 0x76 CameraShakeState_kIdle
                else do {
                  jitterHeightOnly kShakeHeightAmplitude kShakeMaskWide kShakeEffectAxes;
                  camera_state_cam_w8 K cam 0x76 CameraShakeState_kIdle
                })
             }
              else if state1 = CameraShakeState_kPulseHeight then do {
                v23 \<leftarrow> camera_state_cam_r8 K cam kShakeBusyByte;
                (if v23 \<noteq> 0 then camera_state_cam_w8 K cam 0x76 CameraShakeState_kIdle
                 else do {
                   jitterHeightOnly kShakeHeightAmplitude kShakeMaskWide kShakeEffectAxes;
                   camera_state_cam_w8 K cam 0x76 CameraShakeState_kIdle
                 })
              }
               else if state1 = CameraShakeState_kPulseHeightSmallBegin then do {
                 v24 \<leftarrow> camera_state_r16 K cam (kCamScratch + 0x06);
                 camera_state_cam_w16 K cam kShakeAnchorY v24;
                 camera_state_cam_w8 K cam 0x76 CameraShakeState_kPulseHeightSmall;
                 v25 \<leftarrow> camera_state_cam_r8 K cam kShakeBusyByte;
                 (if v25 \<noteq> 0 then camera_state_cam_w8 K cam 0x76 CameraShakeState_kIdle
                  else do {
                    jitterHeightOnly kShakeHeightSmallAmplitude kShakeMaskNarrow kShakeEffectAxes;
                    camera_state_cam_w8 K cam 0x76 CameraShakeState_kIdle
                  })
               }
                else if state1 = CameraShakeState_kPulseHeightSmall then do {
                  v26 \<leftarrow> camera_state_cam_r8 K cam kShakeBusyByte;
                  (if v26 \<noteq> 0 then camera_state_cam_w8 K cam 0x76 CameraShakeState_kIdle
                   else do {
                     jitterHeightOnly kShakeHeightSmallAmplitude kShakeMaskNarrow
                         kShakeEffectAxes;
                     camera_state_cam_w8 K cam 0x76 CameraShakeState_kIdle
                   })
                }
                 else only_if (state1 = CameraShakeState_kIdle) (State_Monad.return ()))
      })
   }"

definition cutscene_camera_dispatch_mode :: "'c core_ops \<Rightarrow> u32 \<Rightarrow> u32
    \<Rightarrow> ('c, unit) state" where
  "cutscene_camera_dispatch_mode K cam mode = (if mode = CameraMode_kMainFollow then do {
     rm \<leftarrow> camera_state_r8 K cam kRenderModeByte;
     let prologue = prologue_for rm;
     only_if (prologue \<noteq> None) (cutscene_camera_sub K cam (for_main_follow (the
         prologue)));
     v2 \<leftarrow> camera_state_cam_r8 K cam 0x64;
     only_if (\<not> ((v2 AND 0x80) \<noteq> 0)) (do {
       cutscene_camera_main_follow K cam;
       look_angle_builder_rot_build K cam
     });
     v3 \<leftarrow> camera_state_r32 K cam (kRenderModeFunctionTable + rm * 4);
     cutscene_camera_sub K cam v3
   }
    else if mode = CameraMode_kTrackFollow then do {
      rm \<leftarrow> camera_state_r8 K cam kRenderModeByte;
      let prologue = prologue_for rm;
      only_if (prologue \<noteq> None) (cutscene_camera_sub K cam (for_track_follow (the
          prologue)));
      cutscene_camera_track_follow K cam (cam + 0x38)
    }
     else if mode = CameraMode_kSnapFollowScriptedA then cutscene_camera_snap_follow_a K cam (cam
         + 0x38)
      else if mode = CameraMode_kPitchFollow then cutscene_camera_pitch_follow K cam (cam + 0x38)
       else if mode = CameraMode_kSnapFollowScriptedB then cutscene_camera_snap_follow_b K cam
           (cam + 0x38)
        else if mode = CameraMode_kSnapFollowMaster then cutscene_camera_snap_follow K cam
            (kCamGlobal + 0x2C)
         else if mode = CameraMode_kFreezeAtMasterHeight then do {
           camera_state_cam_w8 K cam 0x64 0;
           v5 \<leftarrow> camera_state_r32 K cam (kCamGlobal + 0x30);
           camera_state_cam_w32 K cam 0x0C v5
         }
          else if mode = CameraMode_kSnapFollowSelf \<or> mode = CameraMode_kSnapFollowSelfAlias
              then cutscene_camera_snap_follow K cam (cam + 0x38)
           else if mode = CameraMode_kSimpleFollowSelf then cutscene_camera_simple_follow K cam
               (cam + 0x38)
            else if mode = CameraMode_kFieldOverlay9 then cutscene_camera_sub K cam
                (guest_entry_for CameraMode_kFieldOverlay9)
             else if mode = CameraMode_kAreaOverlayScripted then cutscene_camera_sub K cam
                 (guest_entry_for CameraMode_kAreaOverlayScripted)
              else if mode = CameraMode_kReset \<or> mode = CameraMode_kForceModeByte then do {
                camera_state_cam_w8 K cam 0x64 0;
                camera_state_cam_w8 K cam 2 0;
                camera_state_cam_w8 K cam 3 0
              }
               else if mode = CameraMode_kForceModeSix then camera_state_cam_w8 K cam 0x64
                   kForceModeSixValue
                else if mode = CameraMode_kSimpleFollowMaster then cutscene_camera_simple_follow K
                    cam (kCamGlobal + 0x2C)
                 else if mode = CameraMode_kTailOnly then State_Monad.return ()
                  else only_if (mode = CameraMode_kFieldOverlay17) (cutscene_camera_sub K cam
                      (guest_entry_for CameraMode_kFieldOverlay17)))"

definition cutscene_camera_init_place :: "'c core_ops \<Rightarrow> u32 \<Rightarrow> ('c, unit)
    state" where
  "cutscene_camera_init_place K cam = with_frame K 40 [(16, 16), (17, 20), (18, 24), (19, 28),
      (31, 32)] (do {
     v1 \<leftarrow> camera_state_r16 K cam (kCamGlobal + 0x140);
     let g140 = as_s16 v1;
     cam56 \<leftarrow> camera_state_cam_r16 K cam 0x56;
     v3 \<leftarrow> camera_state_r16 K cam (kCamGlobal + 0x56);
     let s0 = (if g140 = as_s16 v3 then as_s16 cam56 else as_s16 (as_u16 (0 - cam56)));
     v4 \<leftarrow> camera_state_r16 K cam 0x1F8000EE;
     let s1 = as_s16 (as_u16 (0 - v4));
     v5 \<leftarrow> camera_state_r16 K cam (cam + 0x52);
     let angle = g140 + as_s16 v5 + s0;
     v6 \<leftarrow> camera_state_r16 K cam (kCamGlobal + 0x2E);
     v7 \<leftarrow> rcos K angle;
     v8 \<leftarrow> mul_lo K v7 s1;
     let cx = v6 + sar 12 v8;
     camera_state_w16 K cam (kCamScratch + 0x02) (as_u16 cx);
     setr K 31 0x8006E9C0;
     v9 \<leftarrow> camera_state_r16 K cam (kCamGlobal + 0x36);
     v10 \<leftarrow> guest_call K kRsinSubstrate [angle, 0, 0, 0];
     v11 \<leftarrow> mul_lo K v10 s1;
     let cz = v9 - (sar 12 v11);
     camera_state_w16 K cam (kCamScratch + 0x0A) (as_u16 cz)
   })"

definition cutscene_camera_init_seed_grp :: "'c core_ops \<Rightarrow> u32 \<Rightarrow> u32
    \<Rightarrow> ('c, unit) state" where
  "cutscene_camera_init_seed_grp K cam src = do {
     v1 \<leftarrow> camera_state_r16 K cam (src + 2);
     camera_state_w16 K cam (kCameraObject + 0x3A) v1;
     v2 \<leftarrow> camera_state_r16 K cam (src + 6);
     camera_state_w16 K cam (kCameraObject + 0x3E) v2;
     v3 \<leftarrow> camera_state_r16 K cam (src + 10);
     camera_state_w16 K cam (kCameraObject + 0x42) v3
   }"

definition cutscene_camera_reset_follow_accum :: "'c core_ops \<Rightarrow> u32 \<Rightarrow> ('c,
    unit) state" where
  "cutscene_camera_reset_follow_accum K cam = do {
     camera_state_cam_w32 K cam 0x24 0;
     camera_state_cam_w32 K cam 0x28 0;
     camera_state_w16 K cam (kCamScratch + 0x1E) (as_u16 (as_s16 (-1750)));
     camera_state_cam_w16 K cam 0x56 256
   }"

definition cutscene_camera_push_mode :: "'c core_ops \<Rightarrow> u32 \<Rightarrow> u32
    \<Rightarrow> ('c, unit) state" where
  "cutscene_camera_push_mode K cam mode = do {
     v1 \<leftarrow> camera_state_cam_r8 K cam 0x64;
     camera_state_cam_w8 K cam 0x67 v1;
     camera_state_cam_w8 K cam 0x64 mode;
     camera_state_cam_w8 K cam 4 0;
     camera_state_cam_w8 K cam 5 0;
     camera_state_cam_w8 K cam 6 0
   }"

definition cutscene_camera_restore_mode :: "'c core_ops \<Rightarrow> u32 \<Rightarrow> ('c, unit)
    state" where
  "cutscene_camera_restore_mode K cam = do {
     v1 \<leftarrow> camera_state_r8 K cam (kCamGlobal + 2);
     (if v1 = 1 then do {
       camera_state_cam_w8 K cam 0x64 0;
       v2 \<leftarrow> camera_state_r32 K cam kMasterY;
       camera_state_cam_w32 K cam 0x0C v2
     }
      else do {
        v3 \<leftarrow> camera_state_r32 K cam kMasterY;
        camera_state_cam_w32 K cam 0x0C v3;
        v4 \<leftarrow> camera_state_cam_r8 K cam 0x67;
        camera_state_cam_w8 K cam 0x64 v4
      })
   }"

definition cutscene_camera_orbit_tick :: "'c core_ops \<Rightarrow> u32 \<Rightarrow> ('c, unit)
    state" where
  "cutscene_camera_orbit_tick K cam = with_frame K 32 [(16, 16), (17, 20), (31, 24)] (do {
     v1 \<leftarrow> camera_state_r8 K cam 0x1F800236;
     only_if (as_u8 (v1 - 3) < 2) (do {
       v2 \<leftarrow> camera_state_cam_r16 K cam 0x70;
       let angle = as_s16 v2;
       rc \<leftarrow> rcos K angle;
       setr K 31 0x8006EF90;
       rs \<leftarrow> guest_call K kRsinSubstrate [angle, 0, 0, 0];
       v5 \<leftarrow> camera_state_cam_r16 K cam 0x3A;
       v6 \<leftarrow> mul_lo K rc 500;
       camera_state_w16 K cam (kCamScratch + 0x02) (as_u16 (as_s16 v5 + (as_s16 (sar 12 v6))));
       v7 \<leftarrow> camera_state_cam_r16 K cam 0x42;
       v8 \<leftarrow> mul_lo K rs 500;
       camera_state_w16 K cam (kCamScratch + 0x0A) (as_u16 (as_s16 v7 + (as_s16 (sar 12 v8))));
       camera_state_cam_w16 K cam 0x70 (as_u16 (angle + 8));
       v9 \<leftarrow> mul_lo K rc 500;
       setr K 16 (sar 12 v9);
       setr K 17 kCameraObject;
       setr K 31 0x8006EFE0;
       cutscene_camera_snap_follow K cam (kCameraObject + 0x38)
     })
   })"

definition cutscene_camera_init :: "'c core_ops \<Rightarrow> u32 \<Rightarrow> ('c, unit) state"
    where
  "cutscene_camera_init K cam = do {
     camera_state_cam_w16 K cam 0x56 256;
     camera_state_cam_w8 K cam 0x72 0;
     camera_state_cam_w8 K cam 0x76 0;
     camera_state_cam_w8 K cam 0x77 0;
     camera_state_cam_w8 K cam 0x74 0;
     camera_state_cam_w16 K cam 6 0;
     v1 \<leftarrow> camera_state_r32 K cam 0x1F8000E0;
     camera_state_cam_w32 K cam 0x0C v1;
     camera_state_cam_w16 K cam 0x52 1024;
     camera_state_cam_w16 K cam 0x22 240;
     camera_state_cam_w16 K cam 0x8C 0;
     rm \<leftarrow> camera_state_r8 K cam 0x800BF870;
     let mainPath = False;
     mainPath \<leftarrow> (if rm = 0 then do {
       v3 \<leftarrow> camera_state_r8 K cam 0x800BF89C;
       (if v3 = 2 then do {
         camera_state_cam_w8 K cam 0x64 7;
         camera_state_cam_w16 K cam 0x3A 2746;
         camera_state_cam_w16 K cam 0x3E (as_u16 (as_s16 (-800)));
         camera_state_cam_w16 K cam 0x42 3808;
         camera_state_w16 K cam 0x1F8000D2 3387;
         camera_state_w16 K cam 0x1F8000D6 (as_u16 (as_s16 (-2691)));
         camera_state_w16 K cam 0x1F8000DA 3506;
         State_Monad.return mainPath
       }
        else do {
          v4 \<leftarrow> camera_state_r8 K cam 0x800BF816;
          (if v4 \<noteq> 0 then State_Monad.return mainPath
           else do { camera_state_cam_w8 K cam 0x64 0; State_Monad.return True })
        })
     }
      else if (rm = 2 \<or> rm = 7) \<or> rm = 20 then do {
        camera_state_cam_w8 K cam 0x64 0;
        State_Monad.return mainPath
      }
       else if rm = 3 then do {
         camera_state_cam_w8 K cam 0x64 14;
         State_Monad.return mainPath
       }
        else if 16 \<le> rm \<and> rm \<le> 19 then do {
          camera_state_cam_w8 K cam 0x64 128;
          State_Monad.return mainPath
        }
         else do { camera_state_cam_w8 K cam 0x64 0; State_Monad.return True });
     only_if mainPath (do {
       cutscene_camera_main_follow K cam;
       cutscene_camera_init_place K cam
     });
     v5 \<leftarrow> camera_state_r8 K cam 0x1F800236;
     (if as_u8 (v5 - 5) < 2 then do {
       cutscene_camera_init_seed_grp K cam (kCamGlobal + 0x2C);
       d3e \<leftarrow> camera_state_cam_r16 K cam 0x3E;
       camera_state_cam_w16 K cam 0x3E (as_u16 (d3e + 1000));
       v7 \<leftarrow> camera_state_r8 K cam (kCamGlobal + 2);
       (if v7 \<noteq> 0 then State_Monad.return ()
        else do {
          camera_state_cam_w16 K cam 0x3E (as_u16 (d3e + 860));
          camera_state_cam_w16 K cam 0x0E (as_u16 (d3e + 860));
          camera_state_cam_w8 K cam 0x64 15;
          camera_state_cam_w16 K cam 0x6C 1400;
          camera_state_cam_w16 K cam 0x6E 64;
          v8 \<leftarrow> camera_state_r16 K cam (kCamGlobal + 0x140);
          camera_state_cam_w16 K cam 0x70 (as_u16 (v8 + 1024));
          cutscene_camera_snap_follow_a K cam (cam + 0x38);
          cutscene_camera_snap_follow K cam (kCamGlobal + 0x2C)
        })
     }
      else State_Monad.return ())
   }"

definition cutscene_camera_update :: "'c core_ops \<Rightarrow> u32 \<Rightarrow> ('c, unit)
    state" where
  "cutscene_camera_update K cam = do {
     outer \<leftarrow> camera_state_cam_r8 K cam 0;
     (if outer = 0 then do { camera_state_cam_w8 K cam 0 1; cutscene_camera_init K cam }
      else if outer \<noteq> 1 then State_Monad.return ()
       else do {
         ss \<leftarrow> camera_state_cam_r8 K cam 1;
         (if ss = 0 then do {
           camera_state_cam_w8 K cam 1 1;
           camera_state_cam_w8 K cam 2 0;
           camera_state_cam_w8 K cam 3 0;
           v3 \<leftarrow> camera_state_cam_r8 K cam 0x64;
           let mode = as_u8 (v3 AND 0x3F);
           camera_state_cam_w8 K cam 0x66 0;
           only_if (mode < 18) (cutscene_camera_dispatch_mode K cam mode);
           cutscene_camera_shake_tail K cam
         }
          else if ss \<noteq> 1 then State_Monad.return ()
           else do {
             v4 \<leftarrow> camera_state_cam_r8 K cam 0x64;
             let mode = as_u8 (v4 AND 0x3F);
             camera_state_cam_w8 K cam 0x66 0;
             only_if (mode < 18) (cutscene_camera_dispatch_mode K cam mode);
             cutscene_camera_shake_tail K cam
           })
       })
   }"

definition eov_reset_follow_accum :: "'c core_ops \<Rightarrow> ('c, unit) state" where
  "eov_reset_follow_accum K = do {
     r4_1 \<leftarrow> reg K 4;
     cutscene_camera_reset_follow_accum K r4_1
   }"

definition eov_push_mode :: "'c core_ops \<Rightarrow> ('c, unit) state" where
  "eov_push_mode K = do {
     r4_1 \<leftarrow> reg K 4;
     cutscene_camera_push_mode K kCameraObject (as_u8 r4_1)
   }"

definition eov_restore_mode :: "'c core_ops \<Rightarrow> ('c, unit) state" where
  "eov_restore_mode K = cutscene_camera_restore_mode K kCameraObject"

definition eov_orbit_tick :: "'c core_ops \<Rightarrow> ('c, unit) state" where
  "eov_orbit_tick K = cutscene_camera_orbit_tick K kCameraObject"

end
