(* ===== verification/PlayerActor.thy ===== *)
theory PlayerActor
  imports GameAudio ModelBinding
begin

text \<open>
  The player actor: the leaves of \<open>Tomba\<close>'s state machine, its interaction with
  objects and the engine's object leaves.
\<close>

section \<open>Layout\<close>

definition kAnimMode :: u32 where "kAnimMode = 0x46"
definition kAnimResult :: u32 where "kAnimResult = 0x79"
definition kLeafProximityStep :: u32 where "kLeafProximityStep = 0x8001F40C"
definition kLeafAltTagSet :: u32 where "kLeafAltTagSet = 0x8001FDB4"
definition kLeafGrownPush :: u32 where "kLeafGrownPush = 0x8001F054"
definition kLeafNiladicCue :: u32 where "kLeafNiladicCue = 0x8001F830"
definition kLeafGrownDelegate :: u32 where "kLeafGrownDelegate = 0x8001EC3C"
definition kLeafStepModeFlag :: u32 where "kLeafStepModeFlag = 0x8001FF7C"
definition UI_MODE_BYTE :: u32 where "UI_MODE_BYTE = 0x800E806C"
definition VIEW_HEADING_SPAD :: u32 where "VIEW_HEADING_SPAD = 0x1F8000F2"
definition CLOSE_MASK_WORD :: u32 where "CLOSE_MASK_WORD = 0x800E805A"
definition TURN_BIAS_IN_SPAD :: u32 where "TURN_BIAS_IN_SPAD = 0x1F80016C"
definition TURN_BIAS_OUT_SPAD :: u32 where "TURN_BIAS_OUT_SPAD = 0x1F80016E"
definition BUSY_LATCH_HI :: u32 where "BUSY_LATCH_HI = 0x800BF81E"
definition BUSY_LATCH :: u32 where "BUSY_LATCH = 0x800BF80D"
definition LEAF_CUE_800521F4 :: u32 where "LEAF_CUE_800521F4 = 0x800521F4"
definition LEAF_WALK_RESET :: u32 where "LEAF_WALK_RESET = 0x80053D90"
definition LEAF_STOPMOTION :: u32 where "LEAF_STOPMOTION = 0x800312D4"
definition TURN_SUPPRESS_A :: u32 where "TURN_SUPPRESS_A = 0x800E7E68"
definition TURN_SUPPRESS_B :: u32 where "TURN_SUPPRESS_B = 0x800ECF54"
definition TURN_SUPPRESS_CLEAR_GATE :: u32 where "TURN_SUPPRESS_CLEAR_GATE = 0x1F800230"
definition TURN_SUPPRESS_MASK_SPAD :: u32 where "TURN_SUPPRESS_MASK_SPAD = 0x1F800174"
definition CUTSCENE_FLAG :: u32 where "CUTSCENE_FLAG = 0x800BF80F"
definition FRAME_PAUSE_FLAG :: u32 where "FRAME_PAUSE_FLAG = 0x1F800137"
definition CASE4_MASK_SRC_A :: u32 where "CASE4_MASK_SRC_A = 0x1F800166"
definition CASE4_MASK_SRC_B :: u32 where "CASE4_MASK_SRC_B = 0x1F800190"
definition TURN_SUPPRESS_ACTIVE_OUT :: u32 where "TURN_SUPPRESS_ACTIVE_OUT = 0x1F800232"
definition LOAD_KICK_GATE_SPAD :: u32 where "LOAD_KICK_GATE_SPAD = 0x1F80019B"
definition LOAD_KICK_MODE_BYTE :: u32 where "LOAD_KICK_MODE_BYTE = 0x800BF89C"
definition ANIM_PTR_SPAD :: u32 where "ANIM_PTR_SPAD = 0x1F800138"
definition kAuxListHead :: u32 where "kAuxListHead = 0x1F800154"
definition kAuxListCount :: u32 where "kAuxListCount = 0x1F80015C"
definition kAuxWalkCounter :: u32 where "kAuxWalkCounter = 0x1F800182"
definition kGateBF80C :: u32 where "kGateBF80C = 0x800BF80D"
definition kLeafIsqrt :: u32 where "kLeafIsqrt = 0x80084080"
definition kLeafAtan2 :: u32 where "kLeafAtan2 = 0x80085690"
definition kLeafCollisionCallback :: u32 where "kLeafCollisionCallback = 0x8004D19C"
definition kLeafProximityF04 :: u32 where "kLeafProximityF04 = 0x80022F04"
definition kSubHitboxParams :: u32 where "kSubHitboxParams = 0x800A29D0"
definition kOutDistanceSlot :: u32 where "kOutDistanceSlot = 0x1F80008C"
definition kOutHeadingSlot :: u32 where "kOutHeadingSlot = 0x1F80009C"
definition kGrowthMirrorHalfword :: u32 where "kGrowthMirrorHalfword = 0x800E802A"

section \<open>\<open>game/core/engine/engine_object_leaves.cpp\<close>\<close>

definition anim_tick :: "'c core_ops \<Rightarrow> u32 \<Rightarrow> ('c, u32) state" where
  "anim_tick K obj = with_frame K 24 [(16, 16), (31, 20)] (do {
     setr K 16 obj;
     setr K 31 0x80041920;
     animation_step_framed K obj;
     r2_1 \<leftarrow> reg K 2;
     w8 K (obj + kAnimResult) r2_1;
     setr K 2 1;
     State_Monad.return 1
   })"

definition announcer_cue :: "'c core_ops \<Rightarrow> u32 \<Rightarrow> u32 \<Rightarrow> ('c,
    unit) state" where
  "announcer_cue K id1 flag = do {
     let id32 = as_s16 (as_u16 id1);
     let idxOff = id32 * 2;
     tblPtr \<leftarrow> r32 K 0x800BF7FC;
     entry \<leftarrow> r16 K (tblPtr + idxOff);
     v3 \<leftarrow> r32 K 0x800BF800;
     let base1 = v3 + entry;
     setr K 4 base1;
     setr K 5 0xFFFFFFFF;
     setr K 6 flag;
     call_guest K 0x8004FA38
   }"

definition engine_walk_start :: "'c core_ops \<Rightarrow> u32 \<Rightarrow> u32 \<Rightarrow> u32
    \<Rightarrow> ('c, u32) state" where
  "engine_walk_start K obj mode subMode = with_frame K 32 [(16, 16), (17, 20), (18, 24), (31, 28)]
      (do {
     setr K 16 obj;
     setr K 17 mode;
     setr K 18 subMode;
     cur \<leftarrow> r8 K (obj + kAnimMode);
     (if cur = (mode AND 0xFF) then do { setr K 2 0; State_Monad.return 0 }
      else do {
        w8 K (obj + kAnimMode) mode;
        _ \<leftarrow> dispatch_jal K 0x80054790 0x80054D58 [obj, mode];
        let subMode32 = subMode;
        (if subMode = 0 then do {
          _ \<leftarrow> dispatch_jal K 0x80077C40 0x80054D78 [obj, 0x80017FE8, mode, subMode32];
          State_Monad.return ()
        }
         else do {
           _ \<leftarrow> dispatch_jal K 0x80077CFC 0x80054D90 [obj, 0x80017FE8, mode, subMode32];
           State_Monad.return ()
         });
        setr K 2 1;
        State_Monad.return 1
      })
   })"

definition upload_mode_sprites :: "'c core_ops \<Rightarrow> ('c, unit) state" where
  "upload_mode_sprites K = do {
     mode \<leftarrow> r8 K 0x800BF88D;
     let rest1 = (\<lambda>p0 p1 p2 p3 p4. do {
       sp_save \<leftarrow> reg K 29;
       ra_save \<leftarrow> reg K 31;
       setr K 29 (sp_save - 0x30);
       r29_4 \<leftarrow> reg K 29;
       let rect = r29_4 + 0x10;
       w16 K (rect + 0) 0x1F0;
       w16 K (rect + 4) 0x10;
       w16 K (rect + 6) 1;
       let upload = (\<lambda>y data. do {
         w16 K (rect + 2) y;
         setr K 4 rect;
         setr K 5 data;
         call_guest K 0x80081218
       });
       upload 0x1E2 p0;
       upload 0x1E5 p1;
       upload 0x1C9 p2;
       upload 0x1D0 p3;
       upload 0x1B3 p4;
       setr K 29 sp_save;
       setr K 31 ra_save
     });
     (if mode = 0 then do {
       let p0 = (0x800A4800 :: u32);
       let p1 = (0x800A4820 :: u32);
       let p2 = (0x800A48C0 :: u32);
       let p3 = (0x800A48E0 :: u32);
       let p4 = (0x800A4980 :: u32);
       rest1 p0 p1 p2 p3 p4
     }
      else if mode = 1 then do {
        let p0 = (0x800A4840 :: u32);
        let p1 = (0x800A4860 :: u32);
        let p2 = (0x800A4900 :: u32);
        let p3 = (0x800A4920 :: u32);
        let p4 = (0x800A49A0 :: u32);
        rest1 p0 p1 p2 p3 p4
      }
       else if mode = 2 then do {
         let p0 = (0x800A4880 :: u32);
         let p1 = (0x800A48A0 :: u32);
         let p2 = (0x800A4940 :: u32);
         let p3 = (0x800A4960 :: u32);
         let p4 = (0x800A49C0 :: u32);
         rest1 p0 p1 p2 p3 p4
       }
        else State_Monad.return ())
   }"

section \<open>\<open>game/player/actor_tomba.cpp\<close>\<close>

definition actor_tomba_growth_step :: "'c core_ops \<Rightarrow> u32 \<Rightarrow> ('c, unit)
    state" where
  "actor_tomba_growth_step K mode = do {
     let G1 = G_ADDR;
     f17E \<leftarrow> r16 K (G1 + 0x17E);
     v2 \<leftarrow> r16 K (G1 + 0x32);
     let posY = as_s16 v2;
     newFlag \<leftarrow> (if mode = 0 then do {
       only_if ((f17E AND 0x8000) \<noteq> 0) (w16 K (G1 + 0x32) (posY - 0x46));
       State_Monad.return (as_u16 (f17E AND 0x7FFF))
     }
      else do {
        only_if ((f17E AND 0x8000) = 0) (w16 K (G1 + 0x32) (posY + 0x46));
        State_Monad.return (as_u16 (f17E OR 0x8000))
      });
     w16 K (G1 + 0x17E) newFlag;
     let divisor = mode + 1;
     let s1000 = as_s16 (sdiv 0x1000 divisor);
     let s32 = as_s16 (sdiv 0x32 divisor);
     let s100 = as_s16 (sdiv 100 divisor);
     let s8C = as_s16 (sdiv 0x8C divisor);
     let s10E = as_s16 (sdiv 0x10E divisor);
     let s1E = as_s16 (sdiv 0x1E divisor);
     let sF0 = as_s16 (sdiv 0xF0 divisor);
     w16 K (G1 + 0xB8) s1000;
     w16 K (G1 + 0xBA) s1000;
     w16 K (G1 + 0xBC) s1000;
     w16 K (G1 + 0x80) s32;
     w16 K (G1 + 0x82) s100;
     w16 K (G1 + 0x84) s8C;
     w16 K (G1 + 0x86) s10E;
     w16 K (G1 + 0x62) s8C;
     w16 K (G1 + 0x64) s8C;
     w16 K (G1 + 0x66) s100;
     w16 K (G1 + 0x68) s1E;
     w16 K kGrowthMirrorHalfword sF0
   }"

section \<open>\<open>game/core/engine/engine_object_leaves.cpp\<close>\<close>

definition g_state_mutate_l281 :: "'c core_ops \<Rightarrow> u32 \<Rightarrow> u32 \<Rightarrow>
    (u32 \<Rightarrow> ('c, 'a) state) \<Rightarrow> u32 \<Rightarrow> u32 \<Rightarrow> ('c,
    unit) state" where
  "g_state_mutate_l281 K f174 n174 cue f0D G1 = (if (f174 AND 0x08) \<noteq> 0 then w8 K
      0x800BF881 n174
    else do {
      cue 0x3A;
      let n174 = as_u8 (f174 OR 0x08);
      let n0D = as_u8 (f0D OR 0x42);
      w8 K (G1 + 0x174) n174;
      w8 K (G1 + 0x0D) n0D;
      w8 K 0x800BF881 n174
    })"

definition g_state_mutate_l292 :: "'c core_ops \<Rightarrow> u32 \<Rightarrow> u32 \<Rightarrow>
    u32 \<Rightarrow> u32 \<Rightarrow> (u32 \<Rightarrow> ('c, 'a) state) \<Rightarrow> ('c,
    unit) state" where
  "g_state_mutate_l292 K f174 n174 f0D G1 cue = (if (f174 AND 0x08) = 0 then w8 K 0x800BF881 n174
    else do {
      setr K 4 0x25;
      setr K 5 0;
      call_guest K 0x800310F4;
      let n174 = as_u8 (f174 AND 0xF7);
      let n0D = as_u8 (f0D AND 0xBD);
      w8 K (G1 + 0x174) n174;
      w8 K (G1 + 0x0D) n0D;
      cue 0x3B;
      w8 K 0x800BF881 n174
    })"

definition g_state_mutate_l307 :: "'c core_ops \<Rightarrow> u32 \<Rightarrow> u32 \<Rightarrow>
    (u32 \<Rightarrow> ('c, 'a) state) \<Rightarrow> u32 \<Rightarrow> u32 \<Rightarrow> ('c,
    unit) state" where
  "g_state_mutate_l307 K f174 n174 cue f0D G1 = (if (f174 AND 0x08) = 0 then w8 K 0x800BF881 n174
    else do {
      cue 0x3B;
      let n174 = as_u8 (f174 AND 0xF7);
      let n0D = as_u8 (f0D AND 0xBD);
      w8 K (G1 + 0x174) n174;
      w8 K (G1 + 0x0D) n0D;
      w8 K 0x800BF881 n174
    })"

definition g_state_mutate_l358 :: "'c core_ops \<Rightarrow> u32 \<Rightarrow> u32 \<Rightarrow>
    (u32 \<Rightarrow> ('c, 'a) state) \<Rightarrow> u32 \<Rightarrow> ('c, unit) state" where
  "g_state_mutate_l358 K G1 n174 cue op1 = do {
     w8 K (G1 + 0x174) n174;
     cue 0x45;
     (if op1 = 0xD then sfx_trigger K 0x39 0 0
      else do { w8 K (G1 + 5) 0x38; w8 K (G1 + 6) 2 });
     w8 K 0x800BF881 n174
   }"

definition g_state_mutate_l371 :: "'c core_ops \<Rightarrow> u32 \<Rightarrow> u32 \<Rightarrow>
    u32 \<Rightarrow> (u32 \<Rightarrow> ('c, unit) state) \<Rightarrow> u32 \<Rightarrow> u32
    \<Rightarrow> ('c, unit) state" where
  "g_state_mutate_l371 K op1 f174 G1 cue f0D n174 = (if op1 = 9 \<or> op1 = 0xE then (if (f174 AND
      0x02) \<noteq> 0 then w8 K 0x800BF881 f174
    else do {
      let n174 = as_u8 ((f174 AND 0xFE) OR 0x02);
      w8 K (G1 + 0x174) n174;
      cue 0x47;
      (if op1 = 0xE then sfx_trigger K 0x3A 0 0
       else do { w8 K (G1 + 5) 0x39; w8 K (G1 + 6) 2 });
      w8 K 0x800BF881 n174
    })
    else do {
      n174 \<leftarrow> (if op1 = 10 then do {
        let n174 = as_u8 (f174 AND 0xFC);
        w8 K (G1 + 0x174) n174;
        bf881 \<leftarrow> r8 K 0x800BF881;
        (if (bf881 AND 0x01) \<noteq> 0 then cue 0x46
         else only_if ((bf881 AND 0x02) \<noteq> 0) (cue 0x48));
        State_Monad.return n174
      }
       else if op1 = 0xB then do {
         only_if ((f174 AND 0x20) \<noteq> 0) (cue 0x4C);
         let n174 = as_u8 (f174 AND 0xDF);
         w8 K (G1 + 0x174) n174;
         only_if ((f174 AND 0x10) = 0) (do {
           let n0D = as_u8 (f0D AND 0xED);
           w8 K (G1 + 0x0D) n0D
         });
         State_Monad.return n174
       }
        else if op1 = 0xC then do {
          w8 K (G1 + 0x174) 0;
          let n174 = (0 :: u32);
          w8 K (G1 + 0x0D) 0;
          v5 \<leftarrow> r16 K (G1 + 0x17E);
          let f17E = as_s16 v5;
          only_if (((as_u16 f17E) AND 0x8000) \<noteq> 0) (do {
            let masked = as_u16 (f17E AND 0x7FFF);
            w16 K 0x800BF89E masked;
            w16 K (G1 + 0x17E) masked
          });
          v6 \<leftarrow> r16 K (G1 + 0x17E);
          only_if ((v6 AND 0x200) \<noteq> 0) (do {
            w8 K (G1 + 0x6F) 0;
            w8 K 0x800BF88F 0;
            w16 K (G1 + 0x17E) 0x10;
            w16 K 0x800BF89E 0x10
          });
          State_Monad.return n174
        }
         else State_Monad.return n174);
      w8 K 0x800BF881 n174
    })"

definition g_state_mutate :: "'c core_ops \<Rightarrow> u32 \<Rightarrow> u32 \<Rightarrow> ('c,
    unit) state" where
  "g_state_mutate K G1 op1 = do {
     let cue = (\<lambda>id1. announcer_cue K id1 0x41);
     f174 \<leftarrow> r8 K (G1 + 0x174);
     f0D \<leftarrow> r8 K (G1 + 0x0D);
     let n174 = f174;
     (if op1 = 0 then g_state_mutate_l281 K f174 n174 cue f0D G1
      else if op1 = 1 then g_state_mutate_l292 K f174 n174 f0D G1 cue
       else if op1 = 2 then g_state_mutate_l307 K f174 n174 cue f0D G1
        else if op1 = 3 \<or> op1 = 4 then do {
          let bit1 = as_u8 (if op1 = 3 then 0x20 else 0x10);
          let n174 = as_u8 (f174 OR bit1);
          let n0D = as_u8 (f0D OR 0x12);
          w8 K (G1 + 0x174) n174;
          w8 K (G1 + 0x0D) n0D;
          cue 0x4B;
          w8 K 0x1F800247 0;
          w8 K 0x800BF881 n174
        }
         else if op1 = 5 then do {
           let n174 = as_u8 (f174 AND 0xCF);
           let n0D = as_u8 (f0D AND 0xED);
           w8 K (G1 + 0x174) n174;
           w8 K (G1 + 0x0D) n0D;
           cue 0x4C;
           w8 K 0x800BF881 n174
         }
          else if op1 = 6 \<or> op1 = 7 then do {
            let n174 = (if op1 = 6 then (as_u8 (f174 OR 0x04)) else (as_u8 (f174 AND 0xFB)));
            w8 K (G1 + 0x174) n174;
            actor_tomba_growth_step K (if op1 = 6 then 1 else 0);
            v3 \<leftarrow> r16 K (G1 + 0x17E);
            w16 K 0x800BF89E v3;
            cue (if op1 = 6 then 0x49 else 0x4A);
            w8 K 0x800BF881 n174
          }
           else if op1 = 8 \<or> op1 = 0xD then (if (f174 AND 0x01) \<noteq> 0 then w8 K
               0x800BF881 f174
            else do {
              let n174 = as_u8 ((f174 AND 0xFD) OR 0x01);
              g_state_mutate_l358 K G1 n174 cue op1
            })
            else g_state_mutate_l371 K op1 f174 G1 cue f0D n174)
   }"

section \<open>\<open>game/player/actor_interaction.cpp\<close>\<close>

definition actor_interaction_proximity_check :: "'c core_ops \<Rightarrow> u32 \<Rightarrow> ('c,
    unit) state" where
  "actor_interaction_proximity_check K item = do {
     let G1 = G_ADDR;
     v1 \<leftarrow> r8 K 0x1F80027A;
     (if v1 \<noteq> 0 then State_Monad.return ()
      else do {
        v2 \<leftarrow> tomba_state_pos_x K G1;
        v3 \<leftarrow> tomba_state_pos_x K item;
        let dx = as_s16 (v2 - v3);
        v4 \<leftarrow> tomba_state_pos_z K G1;
        v5 \<leftarrow> tomba_state_pos_z K item;
        let dz = as_s16 (v4 - v5);
        setr K 4 (dx * dx + dz * dz);
        call_guest K kLeafIsqrt;
        r2_6 \<leftarrow> reg K 2;
        let distBits = as_u16 r2_6;
        let dist1 = distBits;
        v7 \<leftarrow> tomba_state_bound_xz K G1;
        v8 \<leftarrow> tomba_state_bound_xz K item;
        let rxz = v7 + v8;
        (if rxz <s dist1 then State_Monad.return ()
         else do {
           v9 \<leftarrow> tomba_state_pos_y K G1;
           v10 \<leftarrow> tomba_state_pos_y K item;
           v11 \<leftarrow> tomba_state_bound_y_up K G1;
           v12 \<leftarrow> tomba_state_bound_y_up K item;
           let vbandRaw = as_u16 (v9 - v10 + v11 + v12);
           v13 \<leftarrow> tomba_state_bound_y_down K G1;
           v14 \<leftarrow> tomba_state_bound_y_down K item;
           let vbandLim = v13 + v14;
           (if vbandLim <s vbandRaw then State_Monad.return ()
            else do {
              w32 K kOutDistanceSlot (as_s16 distBits);
              setr K 4 (- dz);
              setr K 5 dx;
              call_guest K kLeafAtan2;
              r2_15 \<leftarrow> reg K 2;
              w32 K kOutHeadingSlot r2_15;
              mark_item_consumed K item;
              w8 K 0x800BF81E 0
            })
         })
      })
   }"

definition actor_interaction_type4_guarded_check :: "'c core_ops \<Rightarrow> u32 \<Rightarrow>
    ('c, unit) state" where
  "actor_interaction_type4_guarded_check K item = do {
     let G1 = G_ADDR;
     v1 \<leftarrow> r8 K (G1 + 0x164);
     v2 \<leftarrow> r8 K (G1 + 0x147);
     v3 \<leftarrow> r8 K (item + 0x47);
     (if v1 = 5 \<and> v2 = v3 then State_Monad.return ()
      else do {
        setr K 4 G1;
        setr K 5 item;
        call_guest K kLeafProximityF04;
        r2_4 \<leftarrow> reg K 2;
        (if r2_4 = 0 then State_Monad.return () else mark_item_consumed K item)
      })
   }"

definition actor_interaction_sub_hitbox_check :: "'c core_ops \<Rightarrow> u32 \<Rightarrow> ('c,
    unit) state" where
  "actor_interaction_sub_hitbox_check K item = do {
     let G1 = G_ADDR;
     v1 \<leftarrow> r16 K (item + 0x6A);
     let hitboxCount = as_s16 v1;
     (if hitboxCount \<le>s 0 then State_Monad.return ()
      else do {
        hitboxArr \<leftarrow> r32 K (item + 0x6C);
        out20 \<leftarrow> each_until (upto_u32 (nat (sint hitboxCount))) hitboxArr (\<lambda>i
            hitboxArr. do {
          let mask1 = shl 1 (unat (i AND 0x1F));
          v3 \<leftarrow> r32 K (item + 0x70);
          (if (v3 AND mask1) = 0 then do {
            let hitboxArr = hitboxArr + 0x10;
            State_Monad.return (Inr hitboxArr)
          }
           else do {
             v4 \<leftarrow> r8 K (hitboxArr + 3);
             let typeParam = v4 * 8;
             v5 \<leftarrow> tomba_state_pos_x K G1;
             v6 \<leftarrow> r16 K (hitboxArr + 4);
             let dx = as_s16 (v5 - v6);
             v7 \<leftarrow> tomba_state_pos_z K G1;
             v8 \<leftarrow> r16 K (hitboxArr + 8);
             let dz = as_s16 (v7 - v8);
             setr K 4 (dx * dx + dz * dz);
             call_guest K kLeafIsqrt;
             r2_9 \<leftarrow> reg K 2;
             let dist1 = r2_9 AND 0xFFFF;
             v10 \<leftarrow> tomba_state_bound_xz K G1;
             v11 \<leftarrow> r8 K (kSubHitboxParams + typeParam + 0);
             let rxz = v10 + v11;
             (if rxz <s dist1 then do {
               let hitboxArr = hitboxArr + 0x10;
               State_Monad.return (Inr hitboxArr)
             }
              else do {
                v12 \<leftarrow> tomba_state_pos_y K G1;
                v13 \<leftarrow> r16 K (hitboxArr + 6);
                v14 \<leftarrow> tomba_state_bound_y_up K G1;
                v15 \<leftarrow> r8 K (kSubHitboxParams + typeParam + 1);
                let vbandRaw = v12 - v13 + v14 + v15;
                v16 \<leftarrow> tomba_state_bound_y_down K G1;
                v17 \<leftarrow> r8 K (kSubHitboxParams + typeParam + 1);
                let vbandLim = v16 + v17 * 2;
                (if vbandLim <s as_u16 vbandRaw then do {
                  let hitboxArr = hitboxArr + 0x10;
                  State_Monad.return (Inr hitboxArr)
                }
                 else do {
                   v18 \<leftarrow> r32 K (item + 0x74);
                   w32 K (item + 0x74) (v18 OR mask1);
                   v19 \<leftarrow> r32 K (item + 0x70);
                   w32 K (item + 0x70) (v19 AND (NOT mask1));
                   setr K 4 item;
                   setr K 5 hitboxArr;
                   setr K 6 0;
                   call_guest K kLeafCollisionCallback;
                   State_Monad.return (Inl ())
                 })
              })
           })
        });
        (case out20 of Inl r1 \<Rightarrow> State_Monad.return r1 | Inr hitboxArr \<Rightarrow>
            State_Monad.return ())
      })
   }"

definition actor_interaction_step_mode_interact :: "'c core_ops \<Rightarrow> u32 \<Rightarrow>
    u32 \<Rightarrow> ('c, u32) state" where
  "actor_interaction_step_mode_interact K item mode = do {
     let done1 = (\<lambda>result1 sp0. do {
       r29_1 \<leftarrow> reg K 29;
       v2 \<leftarrow> r32 K (r29_1 + 32);
       setr K 31 v2;
       v3 \<leftarrow> r32 K (r29_1 + 28);
       setr K 19 v3;
       v4 \<leftarrow> r32 K (r29_1 + 24);
       setr K 18 v4;
       v5 \<leftarrow> r32 K (r29_1 + 20);
       setr K 17 v5;
       v6 \<leftarrow> r32 K (r29_1 + 16);
       setr K 16 v6;
       setr K 29 sp0;
       State_Monad.return result1
     });
     let G1 = G_ADDR;
     sp0 \<leftarrow> reg K 29;
     setr K 29 (sp0 - 40);
     r29_8 \<leftarrow> reg K 29;
     r17_9 \<leftarrow> reg K 17;
     w32 K (r29_8 + 20) r17_9;
     r18_10 \<leftarrow> reg K 18;
     w32 K (r29_8 + 24) r18_10;
     r31_11 \<leftarrow> reg K 31;
     w32 K (r29_8 + 32) r31_11;
     r19_12 \<leftarrow> reg K 19;
     w32 K (r29_8 + 28) r19_12;
     r16_13 \<leftarrow> reg K 16;
     w32 K (r29_8 + 16) r16_13;
     setr K 17 G1;
     setr K 18 item;
     setr K 19 mode;
     v14 \<leftarrow> r16 K (G1 + 0x17E);
     (if (v14 AND 0x200) \<noteq> 0 then do { let result1 = (0 :: u32); done1 result1 sp0 }
      else do {
        setr K 4 G1;
        setr K 5 item;
        setr K 6 1;
        setr K 31 0x800203A8;
        call_guest K kLeafProximityStep;
        v0 \<leftarrow> reg K 2;
        (if v0 <s 0 then do { let result1 = (0 :: u32); done1 result1 sp0 }
         else do {
           v16 \<leftarrow> r8 K (G1 + 0x144);
           (if v16 = 1 \<and> v0 <s 2 then do {
             v17 \<leftarrow> r16 K (G1 + 0x17E);
             result1 \<leftarrow> (if (v17 AND 0x8000) = 0 then do {
               setr K 4 item;
               setr K 5 1;
               setr K 6 0x10;
               setr K 7 0x20;
               setr K 31 0x80020418;
               call_guest K kLeafAltTagSet;
               State_Monad.return (1 :: u32)
             }
              else if (mode AND 3) \<noteq> 0 then do {
                setr K 4 G1;
                setr K 5 item;
                setr K 31 0x800203FC;
                call_guest K kLeafGrownPush;
                State_Monad.return (1 :: u32)
              }
               else State_Monad.return (1 :: u32));
             done1 result1 sp0
           }
            else do {
              only_if ((mode AND 0x3F) \<noteq> 0) (do {
                heading \<leftarrow> r32 K 0x1F80009C;
                cosv \<leftarrow> rcos K heading;
                sinv \<leftarrow> rsin K heading;
                v21 \<leftarrow> r16s K (G1 + 0x80);
                v22 \<leftarrow> r16s K (item + 0x80);
                let sum80 = v21 + v22;
                let dx = as_s16 (sar 12 (cosv * sum80));
                let dz = as_s16 (sar 12 (sinv * sum80));
                (if (mode AND 0x7F) = 1 then do {
                  v23 \<leftarrow> r16 K (G1 + 0x2E);
                  w16 K (item + 0x2E) (as_s16 v23 - dx);
                  v24 \<leftarrow> r16 K (G1 + 0x36);
                  w16 K (item + 0x36) (as_s16 v24 + dz)
                }
                 else do {
                   v25 \<leftarrow> r8 K G1;
                   only_if ((v25 AND 4) = 0) (do {
                     v26 \<leftarrow> r16 K (item + 0x2E);
                     w16 K (G1 + 0x2E) (as_s16 v26 + dx);
                     v27 \<leftarrow> r16 K (item + 0x36);
                     w16 K (G1 + 0x36) (as_s16 v27 - dz)
                   })
                 })
              });
              v28 \<leftarrow> r32 K 0x1F80009C;
              let bVar6 = as_u8 (shr v28 4);
              (if (mode AND 0x40) = 0 then (if (mode AND 0x80) \<noteq> 0 then do {
                v29 \<leftarrow> r8 K 0x1F80027A;
                (if v29 \<noteq> 0 then do { let result1 = (2 :: u32); done1 result1 sp0 }
                 else do {
                   v30 \<leftarrow> r8 K (G1 + 4);
                   (if v30 \<noteq> 1 then do {
                     let result1 = (2 :: u32);
                     done1 result1 sp0
                   }
                    else do {
                      v31 \<leftarrow> r8 K (G1 + 5);
                      (if v31 \<noteq> 0x13 then do {
                        w8 K (G1 + 5) 0x13;
                        w8 K (G1 + 6) 0;
                        w8 K (G1 + 7) 0;
                        w8 K (G1 + 0x2B) bVar6;
                        let result1 = (3 :: u32);
                        done1 result1 sp0
                      }
                       else do { let result1 = (2 :: u32); done1 result1 sp0 })
                    })
                 })
              }
               else do { let result1 = (2 :: u32); done1 result1 sp0 })
               else do {
                 bVar3 \<leftarrow> r8 K 0x1F800137;
                 bVar3 \<leftarrow> (if bVar3 = 0 then do {
                   v33 \<leftarrow> r8 K G1;
                   let bVar3 = as_u8 (v33 AND 6);
                   (if bVar3 = 0 then do {
                     v34 \<leftarrow> r8 K item;
                     let bVar3 = as_u8 (v34 AND 2);
                     (if bVar3 = 0 then do {
                       let bVar3 = (4 :: u32);
                       w8 K (G1 + 4) 2;
                       w8 K (G1 + 5) 2;
                       w8 K G1 3;
                       w8 K (G1 + 6) 0;
                       w16 K (G1 + 0x172) 0x78;
                       w8 K (G1 + 0x2B) bVar6;
                       State_Monad.return bVar3
                     }
                      else State_Monad.return bVar3)
                   }
                    else State_Monad.return bVar3)
                 }
                  else State_Monad.return bVar3);
                 let result1 = bVar3;
                 done1 result1 sp0
               })
            })
         })
      })
   }"

section \<open>\<open>game/player/actor_tomba.cpp\<close>\<close>

definition actor_tomba_growth_y_snap :: "'c core_ops \<Rightarrow> ('c, unit) state" where
  "actor_tomba_growth_y_snap K = do {
     let G1 = G_ADDR;
     w8 K (G1 + 0x29) 1;
     w8 K (G1 + 0x145) 0;
     w16 K (G1 + 0x4A) 0;
     w16 K (G1 + 0x50) 0;
     w8 K (G1 + 0x148) 0;
     v1 \<leftarrow> r8 K (G1 + 0x78);
     (if v1 \<noteq> 0 then State_Monad.return ()
      else do {
        v2 \<leftarrow> r8 K 0x800BF816;
        (if v2 \<noteq> 0 then State_Monad.return ()
         else do {
           v3 \<leftarrow> r16 K (G1 + 0x17E);
           let g17E = as_s16 v3;
           let k = as_s16 (if g17E <s 0 then 0x46 else 0x8C);
           v4 \<leftarrow> r16 K (G1 + 0x84);
           let g84 = as_s16 v4;
           (if g84 = k then State_Monad.return ()
            else do {
              v5 \<leftarrow> r16 K (G1 + 0x32);
              w16 K (G1 + 0x32) (g84 + (as_s16 v5 - k))
            })
         })
      })
   }"

section \<open>\<open>game/player/actor_interaction.cpp\<close>\<close>

definition actor_interaction_type8_interact :: "'c core_ops \<Rightarrow> u32 \<Rightarrow> ('c,
    unit) state" where
  "actor_interaction_type8_interact K item = do {
     let G1 = G_ADDR;
     with_frame K 32 [(17, 20), (18, 24), (31, 28), (16, 16)] (do {
       v1 \<leftarrow> r8 K item;
       (if v1 = 5 then do {
         v2 \<leftarrow> tomba_state_growth_flags K G1;
         b4 \<leftarrow> (if (v2 AND 0x200) = 0 then do {
           v3 \<leftarrow> tomba_state_frozen_flag K G1;
           State_Monad.return (v3 = 0)
         }
          else State_Monad.return False);
         only_if b4 (do {
           _ \<leftarrow> dispatch_jal K kLeafNiladicCue 0x80020620 [];
           State_Monad.return ()
         })
       }
        else do {
          v5 \<leftarrow> tomba_state_growth_flags K G1;
          (if (v5 AND 0x8000) \<noteq> 0 then do {
            _ \<leftarrow> dispatch_jal K kLeafGrownDelegate 0x80020644 [G1, item];
            State_Monad.return ()
          }
           else do {
             v0 \<leftarrow> dispatch_jal K kLeafProximityStep 0x80020658 [G1, item, 0];
             only_if (0 \<le>s v0) (do {
               v7 \<leftarrow> r8 K item;
               (if v7 = 1 then do {
                 v8 \<leftarrow> tomba_state_just_transitioned K G1;
                 (if v8 = 1 \<and> v0 <s 2 then do {
                   _ \<leftarrow> dispatch_jal K kLeafAltTagSet 0x8002069C [item, -32766, 3, 30];
                   State_Monad.return ()
                 }
                  else do {
                    v9 \<leftarrow> tomba_state_growth_flags K G1;
                    only_if ((v9 AND 0x200) = 0) ((if (v0 AND 1) = 0 then do {
                      v10 \<leftarrow> tomba_state_status_flags K G1;
                      only_if ((v10 AND 4) = 0) (do {
                        heading \<leftarrow> r32 K 0x1F80009C;
                        cosv \<leftarrow> rcos K heading;
                        sinv \<leftarrow> rsin K heading;
                        v14 \<leftarrow> tomba_state_bound_xz K G1;
                        v15 \<leftarrow> tomba_state_bound_xz K item;
                        let sum80 = v14 + v15;
                        v16 \<leftarrow> tomba_state_pos_x K item;
                        tomba_state_set_pos_x K G1 (as_s16 (v16 + (as_s16 (sar 12 (cosv *
                            sum80)))));
                        v17 \<leftarrow> tomba_state_pos_z K item;
                        tomba_state_set_pos_z K G1 (as_s16 (v17 - (as_s16 (sar 12 (sinv *
                            sum80)))))
                      });
                      tomba_state_set_ground_contact_flag K G1 1;
                      v18 \<leftarrow> r32 K 0x1F80009C;
                      v19 \<leftarrow> tomba_state_facing K G1;
                      let cmp = angle_cmp v18 v19 1;
                      tomba_state_set_flag95 K G1 (as_u8 (cmp + 2))
                    }
                     else do {
                       b21 \<leftarrow> (if v0 = 1 then do {
                         v20 \<leftarrow> tomba_state_grounded_gate K G1;
                         State_Monad.return ((v20 AND 1) = 0)
                       }
                        else State_Monad.return False);
                       only_if b21 (do {
                         v22 \<leftarrow> tomba_state_pos_y K item;
                         v23 \<leftarrow> tomba_state_bound_y_up K G1;
                         v24 \<leftarrow> tomba_state_bound_y_up K item;
                         tomba_state_set_pos_y K G1 (as_s16 (v22 - (v23 + v24)));
                         actor_tomba_growth_y_snap K
                       })
                     }))
                  })
               }
                else do {
                  v25 \<leftarrow> tomba_state_growth_flags K G1;
                  b27 \<leftarrow> (if (v25 AND 0x200) = 0 then do {
                    v26 \<leftarrow> tomba_state_grounded_gate K G1;
                    State_Monad.return ((v26 AND 1) = 0)
                  }
                   else State_Monad.return False);
                  only_if b27 (w8 K (item + 0x29) 1)
                })
             })
           })
        })
     })
   }"

definition actor_interaction_type7_interact :: "'c core_ops \<Rightarrow> u32 \<Rightarrow> ('c,
    u32) state" where
  "actor_interaction_type7_interact K item = do {
     let G1 = G_ADDR;
     with_frame K 32 [(16, 16), (17, 20), (31, 24)] (do {
       v0 \<leftarrow> dispatch_jal K kLeafProximityStep 0x800235C0 [G1, item, 1];
       let result1 = (0 :: u32);
       (if 0 \<le>s v0 then do {
         v2 \<leftarrow> tomba_state_transition_slot K G1;
         let flag = (if v2 = 0x0C then 4 else (1 :: u32));
         setr K 4 G1;
         setr K 5 item;
         setr K 7 flag;
         _ \<leftarrow> dispatch_jal K kLeafStepModeFlag 0x80023600 [];
         State_Monad.return (1 :: u32)
       }
        else State_Monad.return result1)
     })
   }"

section \<open>\<open>game/player/actor_tomba.cpp\<close>\<close>

definition actor_tomba_interact_walk :: "'c core_ops \<Rightarrow> ('c, unit) state" where
  "actor_tomba_interact_walk K = do {
     let G1 = G_ADDR;
     v1 \<leftarrow> tomba_state_turn_current K G1;
     (if v1 = 0 then State_Monad.return ()
      else do {
        v2 \<leftarrow> r8 K kGateBF80C;
        (if v2 \<noteq> 0 then State_Monad.return ()
         else do {
           v3 \<leftarrow> tomba_state_growth_flags K G1;
           (if (v3 AND 0x200) \<noteq> 0 then State_Monad.return ()
            else do {
              listBase \<leftarrow> r32 K kAuxListHead;
              count0 \<leftarrow> r8 K kAuxListCount;
              w8 K kGateBF80C 0;
              w8 K kAuxWalkCounter count0;
              let cursor = listBase;
              cursor \<leftarrow> loop (\<lambda>cursor. do {
                v6 \<leftarrow> r8 K kAuxWalkCounter;
                (if v6 \<noteq> 0 then do {
                  item \<leftarrow> r32 K cursor;
                  v8 \<leftarrow> r8 K kAuxWalkCounter;
                  w8 K kAuxWalkCounter (v8 - 1);
                  let cursor = cursor + 4;
                  v9 \<leftarrow> r8 K item;
                  (if v9 \<noteq> 1 then State_Monad.return (Inr cursor)
                   else do {
                     typ \<leftarrow> r8 K (item + 2);
                     (if (((typ = 0 \<or> typ = 1) \<or> typ = 2) \<or> typ = 3) \<or> typ = 7
                         then actor_interaction_proximity_check K item
                      else if typ = 4 then do {
                        v11 \<leftarrow> r8 K (item + 0x5E);
                        (if v11 = 2 then actor_interaction_type4_guarded_check K item
                         else actor_interaction_proximity_check K item)
                      }
                       else only_if (typ = 6) (actor_interaction_sub_hitbox_check K item));
                     State_Monad.return (Inr cursor)
                   })
                }
                 else State_Monad.return (Inl cursor))
              }) cursor;
              State_Monad.return ()
            })
         })
      })
   }"

definition actor_tomba_post_interact_walk :: "'c core_ops \<Rightarrow> ('c, unit) state" where
  "actor_tomba_post_interact_walk K = do {
     let G1 = G_ADDR;
     let LIST_HEAD_SPAD = (0x1F80013C :: u32);
     let LIST_COUNT_SPAD = (0x1F800144 :: u32);
     let LEAF_TYPE_9_SPECIAL = (0x80111304 :: u32);
     let LEAF_TYPE_3 = (0x8010E258 :: u32);
     let LEAF_TYPE_4_PROX_STEP = (0x8001F40C :: u32);
     let LEAF_TYPE_4_TAG_SET = (0x8001FDB4 :: u32);
     let LEAF_TYPE_7 = (0x800235A0 :: u32);
     let LEAF_TYPE_8 = (0x800205CC :: u32);
     let LEAF_TYPE_0F_14_56 = (0x80020364 :: u32);
     let LEAF_TYPE_13 = (0x8010EA80 :: u32);
     cursor \<leftarrow> r32 K LIST_HEAD_SPAD;
     v2 \<leftarrow> r8 K LIST_COUNT_SPAD;
     w8 K kAuxWalkCounter v2;
     cursor \<leftarrow> loop (\<lambda>cursor. do {
       v3 \<leftarrow> r8 K kAuxWalkCounter;
       (if v3 \<noteq> 0 then do {
         item \<leftarrow> r32 K cursor;
         v5 \<leftarrow> r8 K kAuxWalkCounter;
         w8 K kAuxWalkCounter (v5 - 1);
         let cursor = cursor + 4;
         v6 \<leftarrow> r8 K item;
         (if (v6 AND 1) = 0 then State_Monad.return (Inr cursor)
          else do {
            v7 \<leftarrow> r8 K (item + 0xC);
            (if v7 = 9 then do {
              v8 \<leftarrow> tomba_state_growth_flags K G1;
              only_if ((v8 AND 0x8200) = 0) (do {
                _ \<leftarrow> guest_call K LEAF_TYPE_9_SPECIAL [G1, item];
                State_Monad.return ()
              });
              State_Monad.return (Inr cursor)
            }
             else do {
               typ \<leftarrow> r8 K (item + 2);
               (if typ = 3 then do {
                 _ \<leftarrow> guest_call K LEAF_TYPE_3 [G1, item];
                 State_Monad.return (Inr cursor)
               }
                else if typ = 4 then do {
                  v0 \<leftarrow> guest_call K LEAF_TYPE_4_PROX_STEP [G1, item, 1];
                  (if v0 <s 0 then State_Monad.return (Inr cursor)
                   else do {
                     w8 K kAuxWalkCounter 0;
                     bf9e5 \<leftarrow> r8 K 0x800BF9E5;
                     g144 \<leftarrow> tomba_state_just_transitioned K G1;
                     (if (bf9e5 = 6 \<and> g144 = 1) \<and> v0 <s 2 then do {
                       _ \<leftarrow> guest_call K LEAF_TYPE_4_TAG_SET [item, 0xFFFF8001, 0x10,
                           0x20];
                       State_Monad.return (Inr cursor)
                     }
                      else do {
                        v13 \<leftarrow> r8 K 0x1F800137;
                        (if v13 \<noteq> 0 then State_Monad.return (Inr cursor)
                         else do {
                           v14 \<leftarrow> tomba_state_status_flags K G1;
                           (if (v14 AND 6) \<noteq> 0 then State_Monad.return (Inr cursor)
                            else if 1 < g144 then State_Monad.return (Inr cursor)
                             else do {
                               v15 \<leftarrow> tomba_state_transition_slot K G1;
                               (if v15 \<noteq> 0 then State_Monad.return (Inr cursor)
                                else do {
                                  only_if (bf9e5 \<noteq> 6) (announcer_cue K 0x2A 0x41);
                                  w8 K (G1 + 4) 2;
                                  w8 K (G1 + 5) 2;
                                  tomba_state_set_status_flags K G1 3;
                                  w8 K (G1 + 6) 0;
                                  w8 K (G1 + 0x172) 0x78;
                                  w8 K (G1 + 0x173) 0;
                                  v16 \<leftarrow> r32 K kOutHeadingSlot;
                                  w8 K (G1 + 0x2B) (sar 4 v16);
                                  State_Monad.return (Inr cursor)
                                })
                             })
                         })
                      })
                   })
                }
                 else do {
                   (if typ = 7 then do {
                     _ \<leftarrow> guest_call K LEAF_TYPE_7 [G1, item];
                     State_Monad.return ()
                   }
                    else if typ = 8 then do {
                      _ \<leftarrow> guest_call K LEAF_TYPE_8 [G1, item];
                      State_Monad.return ()
                    }
                     else if (typ = 0x0F \<or> typ = 0x14) \<or> typ = 0x56 then do {
                       _ \<leftarrow> guest_call K LEAF_TYPE_0F_14_56 [G1, item, 0];
                       State_Monad.return ()
                     }
                      else if typ = 0x13 then do {
                        _ \<leftarrow> guest_call K LEAF_TYPE_13 [G1, item];
                        State_Monad.return ()
                      }
                       else only_if (typ = 0x2F) (do {
                         _ \<leftarrow> guest_call K LEAF_TYPE_0F_14_56 [G1, item, 2];
                         State_Monad.return ()
                       }));
                   State_Monad.return (Inr cursor)
                 })
             })
          })
       }
        else State_Monad.return (Inl cursor))
     }) cursor;
     State_Monad.return ()
   }"

definition actor_tomba_post_frame_water_check :: "'c core_ops \<Rightarrow> ('c, unit) state"
    where
  "actor_tomba_post_frame_water_check K = do {
     let G1 = G_ADDR;
     let WATER_MODE_BYTE = (0x800BF816 :: u32);
     let WATER_LEVEL_S16 = (0x800BF812 :: u32);
     let WATER_STATE_BYTE = (0x800BF817 :: u32);
     let PAUSE_FLAG_SPAD = (0x1F800137 :: u32);
     let LEAF_DRY_TICK = (0x8010E408 :: u32);
     let LEAF_WATER_SPLASH = (0x80022C78 :: u32);
     v1 \<leftarrow> r16 K WATER_LEVEL_S16;
     let waterLevel = as_s16 v1;
     waterMode \<leftarrow> r8 K WATER_MODE_BYTE;
     waterState \<leftarrow> r8 K WATER_STATE_BYTE;
     (if waterMode = 0 then do {
       v4 \<leftarrow> r8 K PAUSE_FLAG_SPAD;
       only_if (v4 = 0) (do {
         _ \<leftarrow> guest_call K LEAF_DRY_TICK [G1];
         State_Monad.return ()
       })
     }
      else do {
        let skipYSnap = False;
        skipYSnap \<leftarrow> (if 1 < waterState then do {
          v5 \<leftarrow> r8 K 0x800E7FEB;
          (if waterState = 2 \<and> v5 = 8 then do {
            v6 \<leftarrow> tomba_state_pos_z K G1;
            only_if (v6 <s 0x1A05) (tomba_state_set_pos_z K G1 0x1A04);
            State_Monad.return skipYSnap
          }
           else State_Monad.return True)
        }
         else State_Monad.return skipYSnap);
        only_if (\<not> skipYSnap) (do {
          v7 \<leftarrow> tomba_state_grounded_gate K G1;
          b10 \<leftarrow> (if (v7 AND 1) = 0 then do {
            v8 \<leftarrow> tomba_state_phys_offset_y K G1;
            v9 \<leftarrow> tomba_state_pos_y K G1;
            State_Monad.return (waterLevel - v8 \<le>s v9)
          }
           else State_Monad.return False);
          only_if b10 (do {
            v11 \<leftarrow> tomba_state_phys_offset_y K G1;
            tomba_state_set_pos_y K G1 (as_s16 (waterLevel - v11));
            _ \<leftarrow> guest_call K LEAF_WATER_SPLASH [G1];
            State_Monad.return ()
          })
        })
      });
     v12 \<leftarrow> tomba_state_committing K G1;
     (if v12 \<noteq> 0 then State_Monad.return ()
      else do {
        v13 \<leftarrow> r8 K 0x800BF80D;
        (if v13 \<noteq> 0 then State_Monad.return ()
         else do {
           v14 \<leftarrow> r8 K 0x800BF839;
           (if v14 \<noteq> 0 then State_Monad.return ()
            else if waterMode = 0 then State_Monad.return ()
             else if waterState \<noteq> 2 then State_Monad.return ()
              else do {
                v15 \<leftarrow> tomba_state_pos_y K G1;
                (if - 0xE74 \<le>s v15 then State_Monad.return ()
                 else do {
                   v16 \<leftarrow> tomba_state_pos_z K G1;
                   (if 0x1451 \<le>s v16 then State_Monad.return ()
                    else do {
                      w8 K PAUSE_FLAG_SPAD waterState;
                      w8 K 0x800BF80F waterState;
                      w16 K 0x800BF83A 0x100;
                      w8 K 0x800BF839 1;
                      w8 K 0x1F800236 1
                    })
                 })
              })
         })
      })
   }"

definition actor_tomba_settle_step :: "'c core_ops \<Rightarrow> u32 \<Rightarrow> ('c, u32)
    state" where
  "actor_tomba_settle_step K mode = do {
     let G1 = G_ADDR;
     w8 K 0x1F800258 0;
     v1 \<leftarrow> r8 K (G1 + 0x5F);
     w8 K (G1 + 0x5F) (v1 AND 0xFB);
     v2 \<leftarrow> r8 K (G1 + 0x16B);
     (if v2 \<noteq> 0 then do { setr K 2 0; State_Monad.return 0 }
      else do {
        let probeOffset = (0 :: u32);
        probeOffset \<leftarrow> (if mode = 0 then do {
          v3 \<leftarrow> r16 K (G1 + 0x17E);
          State_Monad.return (if 0 \<le>s as_s16 v3 then 0x3C else (0x1E :: u32))
        }
         else State_Monad.return probeOffset);
        v4 \<leftarrow> r8 K (G1 + 0x78);
        base1 \<leftarrow> (if v4 = 0 then r16s K (G1 + 0x62)
         else do {
           item \<leftarrow> r32 K (G1 + 0x10);
           v7 \<leftarrow> r16s K (item + 0x86);
           v8 \<leftarrow> r16s K (item + 0x84);
           v9 \<leftarrow> r16s K (G1 + 0x32);
           v10 \<leftarrow> r16s K (item + 0x32);
           State_Monad.return (v7 - v8 - (v9 - v10))
         });
        let half = as_s16 (sdiv base1 2);
        let probe = (\<lambda>offset. do {
          setr K 4 G1;
          setr K 5 probeOffset;
          setr K 6 offset;
          call_guest K 0x8004954C;
          reg K 2
        });
        v12 \<leftarrow> probe half;
        b14 \<leftarrow> (if v12 \<noteq> 0 then State_Monad.return True
         else do {
           v13 \<leftarrow> probe (as_s16 (- half));
           State_Monad.return (v13 \<noteq> 0)
         });
        (if b14 then do {
          v15 \<leftarrow> r8 K (G1 + 0x149);
          let bV = as_u8 (v15 AND 1);
          v16 \<leftarrow> r8 K (G1 + 0x149);
          bV \<leftarrow> (if (v16 AND 4) = 0 then r8 K (G1 + 0x147)
           else State_Monad.return bV);
          w8 K (G1 + 0x60) 1;
          w8 K (G1 + 0x5F) (bV + 4);
          setr K 2 1;
          State_Monad.return 1
        }
         else do {
           v18 \<leftarrow> r8 K 0x1F800258;
           only_if (v18 \<noteq> 0) (do {
             v19 \<leftarrow> r8 K (G1 + 0x147);
             let v = as_s8 (5 - (as_s8 v19));
             w8 K (G1 + 0x5F) v
           });
           setr K 2 0;
           State_Monad.return 0
         })
      })
   }"

definition actor_tomba_velocity_integrate :: "'c core_ops \<Rightarrow> bool \<Rightarrow> ('c,
    unit) state" where
  "actor_tomba_velocity_integrate K suppressY = do {
     let G1 = G_ADDR;
     speed \<leftarrow> r16s K (G1 + 0x44);
     dirX \<leftarrow> r16s K (G1 + 0x48);
     dirZ \<leftarrow> r16s K (G1 + 0x4C);
     v4 \<leftarrow> r32 K (G1 + 0x2C);
     w32 K (G1 + 0x2C) (v4 + dirX * speed);
     v5 \<leftarrow> r32 K (G1 + 0x34);
     w32 K (G1 + 0x34) (v5 + dirZ * speed);
     only_if (\<not> suppressY) (do {
       dirY \<leftarrow> r16s K (G1 + 0x4A);
       v7 \<leftarrow> r32 K (G1 + 0x30);
       w32 K (G1 + 0x30) (v7 + dirY * speed)
     });
     v8 \<leftarrow> r8 K (G1 + 0x16B);
     v9 \<leftarrow> r8 K (G1 + 0x61);
     (if v8 = 0 \<and> v9 = 0 then do {
       _ \<leftarrow> actor_tomba_settle_step K 0;
       State_Monad.return ()
     }
      else do {
        v10 \<leftarrow> r8 K (G1 + 0x5F);
        let f = as_u8 (v10 AND 0xFB);
        w8 K (G1 + 0x5F) f;
        setr K 2 f
      })
   }"

definition actor_tomba_mode0_action_gate :: "'c core_ops \<Rightarrow> ('c, unit) state" where
  "actor_tomba_mode0_action_gate K = do {
     let G1 = G_ADDR;
     with_frame K 24 [(31, 16)] (do {
       v1 \<leftarrow> r8 K 0x800BF816;
       v2 \<leftarrow> r8 K (G1 + 0x17C);
       v3 \<leftarrow> r16 K (G1 + 0x17E);
       let pathA = (v1 \<noteq> 0 \<or> v2 = 0) \<or> (v3 AND 0x640) \<noteq> 0;
       (if pathA then do {
         _ \<leftarrow> dispatch_jal K 0x8005A970 0x8005A950 [];
         State_Monad.return ()
       }
        else do {
          _ \<leftarrow> dispatch_jal K 0x80112B50 0x8005A960 [];
          State_Monad.return ()
        })
     })
   }"

definition actor_tomba_ov_step_mode_interact :: "'c core_ops \<Rightarrow> ('c, unit) state" where
  "actor_tomba_ov_step_mode_interact K = do {
     item \<leftarrow> reg K 5;
     mode \<leftarrow> reg K 6;
     v3 \<leftarrow> actor_interaction_step_mode_interact K item mode;
     setr K 2 v3
   }"

definition actor_tomba_ov_type8_interact :: "'c core_ops \<Rightarrow> ('c, unit) state" where
  "actor_tomba_ov_type8_interact K = do {
     item \<leftarrow> reg K 5;
     actor_interaction_type8_interact K item
   }"

definition actor_tomba_ov_type7_interact :: "'c core_ops \<Rightarrow> ('c, unit) state" where
  "actor_tomba_ov_type7_interact K = do {
     item \<leftarrow> reg K 5;
     v2 \<leftarrow> actor_interaction_type7_interact K item;
     setr K 2 v2
   }"

definition actor_tomba_ov_growth_y_snap :: "'c core_ops \<Rightarrow> ('c, unit) state" where
  "actor_tomba_ov_growth_y_snap K = actor_tomba_growth_y_snap K"

definition actor_tomba_frame_tick :: "'c core_ops \<Rightarrow> ('c, unit) state" where
  "actor_tomba_frame_tick K = do {
     G1 \<leftarrow> reg K 4;
     with_frame K 32 [(16, 16), (31, 28), (18, 24), (17, 20)] (do {
       setr K 16 G1;
       outerState \<leftarrow> tomba_state_outer_state K G1;
       only_if (outerState < 8) ((if outerState = 0 then do {
         _ \<leftarrow> dispatch_jal K 0x80058648 0x80059560 [G1, 0];
         State_Monad.return ()
       }
        else if outerState = 1 then do {
          savedA \<leftarrow> r16 K TURN_SUPPRESS_A;
          savedB \<leftarrow> r16 K TURN_SUPPRESS_B;
          setr K 18 savedA;
          setr K 17 savedB;
          v5 \<leftarrow> r8 K TURN_SUPPRESS_CLEAR_GATE;
          only_if (v5 \<noteq> 0) (do {
            mask1 \<leftarrow> r16 K TURN_SUPPRESS_MASK_SPAD;
            w16 K TURN_SUPPRESS_B (savedB AND (NOT mask1));
            w16 K TURN_SUPPRESS_A (savedA AND (NOT mask1))
          });
          v7 \<leftarrow> r8 K CUTSCENE_FLAG;
          v8 \<leftarrow> r8 K FRAME_PAUSE_FLAG;
          let skipClear = v7 = 0 \<and> v8 = 0;
          only_if (\<not> skipClear) (do {
            w16 K TURN_SUPPRESS_A 0;
            w16 K TURN_SUPPRESS_B 0
          });
          v9 \<leftarrow> tomba_state_facing K G1;
          _ \<leftarrow> dispatch_jal K 0x80055C9C 0x800595DC [G1, v9];
          _ \<leftarrow> dispatch_jal K 0x80058918 0x800595E4 [G1];
          v10 \<leftarrow> tomba_state_turn_suppress_gate K G1;
          only_if (v10 = 0) (w8 K TURN_SUPPRESS_ACTIVE_OUT 1);
          _ \<leftarrow> dispatch_jal K 0x800597AC 0x80059604 [G1];
          _ \<leftarrow> dispatch_jal K 0x80053FDC 0x80059610 [G1, 0];
          w16 K TURN_SUPPRESS_A savedA;
          w16 K TURN_SUPPRESS_B savedB
        }
         else if outerState = 2 then do {
           tomba_state_set_committing K G1 1;
           _ \<leftarrow> dispatch_jal K 0x80067CA4 0x80059628 [G1];
           _ \<leftarrow> dispatch_jal K 0x800597AC 0x800596D8 [G1];
           State_Monad.return ()
         }
          else if outerState = 3 then State_Monad.return ()
           else if outerState = 4 then do {
             savedA \<leftarrow> r16 K TURN_SUPPRESS_A;
             savedB \<leftarrow> r16 K TURN_SUPPRESS_B;
             setr K 18 savedA;
             setr K 17 savedB;
             v13 \<leftarrow> tomba_state_latch_flags K G1;
             tomba_state_set_latch_flags K G1 (as_u8 (v13 AND 0x7F));
             v14 \<leftarrow> r8 K FRAME_PAUSE_FLAG;
             (if v14 \<noteq> 0 then do {
               v15 \<leftarrow> r16 K CASE4_MASK_SRC_A;
               w16 K TURN_SUPPRESS_A v15;
               v16 \<leftarrow> r16 K CASE4_MASK_SRC_B;
               w16 K TURN_SUPPRESS_B v16
             }
              else do { w16 K TURN_SUPPRESS_A 0; w16 K TURN_SUPPRESS_B 0 });
             v17 \<leftarrow> tomba_state_facing K G1;
             _ \<leftarrow> dispatch_jal K 0x80055C9C 0x8005968C [G1, v17];
             _ \<leftarrow> dispatch_jal K 0x80058F5C 0x80059694 [G1];
             _ \<leftarrow> dispatch_jal K 0x800597AC 0x8005969C [G1];
             _ \<leftarrow> dispatch_jal K 0x80053E50 0x800596A4 [G1];
             w16 K TURN_SUPPRESS_A savedA;
             w16 K TURN_SUPPRESS_B savedB
           }
            else if outerState = 5 then do {
              _ \<leftarrow> dispatch_jal K 0x8018BD30 0x800596C0 [G1];
              _ \<leftarrow> dispatch_jal K 0x800597AC 0x800596D8 [G1];
              State_Monad.return ()
            }
             else if outerState = 6 then do {
               _ \<leftarrow> dispatch_jal K 0x8018BE40 0x800596D0 [G1];
               _ \<leftarrow> dispatch_jal K 0x800597AC 0x800596D8 [G1];
               State_Monad.return ()
             }
              else only_if (outerState = 7) (do {
                sub1 \<leftarrow> tomba_state_load_step K G1;
                setr K 17 sub1;
                setr K 18 1;
                let advance = False;
                advance \<leftarrow> (if sub1 = 0 then do {
                  _ \<leftarrow> dispatch_jal K 0x8001CF2C 0x80059720 [G1];
                  State_Monad.return True
                }
                 else if sub1 = 1 then do {
                   v19 \<leftarrow> dispatch_jal K 0x80045580 0x80059730 [1];
                   State_Monad.return (v19 \<noteq> 0)
                 }
                  else do {
                    only_if (sub1 = 2) (do {
                      v20 \<leftarrow> r8 K LOAD_KICK_GATE_SPAD;
                      only_if (v20 \<noteq> 0) (do {
                        w8 K LOAD_KICK_MODE_BYTE 4;
                        _ \<leftarrow> dispatch_jal K 0x80042310 0x80059768 [G1];
                        tomba_state_set_outer_state K G1 1;
                        tomba_state_set_load_step K G1 0;
                        tomba_state_set_load_sub K G1 0;
                        tomba_state_set_load_sub2 K G1 0;
                        anim \<leftarrow> r32 K ANIM_PTR_SPAD;
                        w16 K (anim + 0x4C) sub1;
                        w16 K (anim + 0x4E) 1
                      })
                    });
                    State_Monad.return advance
                  });
                only_if advance (do {
                  v22 \<leftarrow> tomba_state_load_step K G1;
                  tomba_state_set_load_step K G1 (as_u8 (v22 + 1))
                });
                _ \<leftarrow> dispatch_jal K 0x80076D68 0x80059794 [G1];
                State_Monad.return ()
              })))
     })
   }"

definition actor_tomba_ov_frame_tick :: "'c core_ops \<Rightarrow> ('c, unit) state" where
  "actor_tomba_ov_frame_tick K = actor_tomba_frame_tick K"

definition actor_tomba_turn_bias_compute :: "'c core_ops \<Rightarrow> u32 \<Rightarrow> ('c,
    unit) state" where
  "actor_tomba_turn_bias_compute K facing = do {
     v1 \<leftarrow> r8 K UI_MODE_BYTE;
     closeIn \<leftarrow> (if v1 = 5 then do {
       v2 \<leftarrow> r16 K VIEW_HEADING_SPAD;
       let d = (3072 - v2 - facing) AND 4095;
       State_Monad.return (d <s 2048)
     }
      else do {
        let r3 = (3072 - facing) AND 4095;
        v3 \<leftarrow> r16 K VIEW_HEADING_SPAD;
        let r2m = v3 AND 4095;
        let r3 = r3 - r2m;
        let r4 = (if as_s16 r3 <s 0 then r3 else r3 - 512);
        let d = r4 AND 4095;
        v4 \<leftarrow> r16 K CLOSE_MASK_WORD;
        State_Monad.return (if (v4 AND 0x800) \<noteq> 0 then (d <s 2560) else (d <s 1536))
      });
     (if closeIn then do { w16 K TURN_BIAS_IN_SPAD 128; w16 K TURN_BIAS_OUT_SPAD 32 }
      else do { w16 K TURN_BIAS_IN_SPAD 32; w16 K TURN_BIAS_OUT_SPAD 128 })
   }"

definition actor_tomba_ov_turn_bias_compute :: "'c core_ops \<Rightarrow> ('c, unit) state" where
  "actor_tomba_ov_turn_bias_compute K = do {
     r5_1 \<leftarrow> reg K 5;
     actor_tomba_turn_bias_compute K (as_s16 r5_1)
   }"

definition actor_tomba_outer_transition_gate :: "'c core_ops \<Rightarrow> ('c, bool) state" where
  "actor_tomba_outer_transition_gate K = do {
     let G1 = G_ADDR;
     with_frame K 32 [(16, 16), (17, 20), (18, 24), (31, 28)] (do {
       v1 \<leftarrow> tomba_state_turn_current K G1;
       (if 0 <s v1 then State_Monad.return False
        else do {
          w8 K BUSY_LATCH_HI 0;
          g_state_mutate K G1 0xB;
          v2 \<leftarrow> tomba_state_transition_slot K G1;
          (if v2 = 1 then do {
            v3 \<leftarrow> tomba_state_status_flags K G1;
            (if (v3 AND 4) = 0 then do {
              v4 \<leftarrow> tomba_state_latch_flags K G1;
              only_if ((v4 AND 0x80) = 0) (do {
                _ \<leftarrow> dispatch_jal K LEAF_CUE_800521F4 0x80053F14 [0, 0x81, 0x81, 0x0F];
                State_Monad.return ()
              });
              tomba_state_set_latch_flags K G1 0;
              tomba_state_set_stop_motion_aux K G1 0;
              _ \<leftarrow> dispatch_jal K LEAF_WALK_RESET 0x80053F24 [G1];
              tomba_state_set_status_flags K G1 3;
              tomba_state_set_turn_current K G1 0;
              tomba_state_set_turn_target K G1 0;
              tomba_state_set_turn_suppress_gate K G1 0;
              tomba_state_set_outer_state K G1 2;
              tomba_state_set_load_step K G1 1;
              tomba_state_set_load_sub K G1 0;
              w8 K BUSY_LATCH 1;
              v5 \<leftarrow> tomba_state_pos_addr K G1;
              _ \<leftarrow> dispatch_jal K LEAF_STOPMOTION 0x80053FC0 [6, v5, -80];
              State_Monad.return True
            }
             else do {
               v6 \<leftarrow> tomba_state_latch_flags K G1;
               (if (v6 AND 0x80) \<noteq> 0 then State_Monad.return True
                else do {
                  _ \<leftarrow> dispatch_jal K LEAF_CUE_800521F4 0x80053ED8 [0, 0x81, 0x81,
                      0x0F];
                  v7 \<leftarrow> tomba_state_latch_flags K G1;
                  tomba_state_set_latch_flags K G1 (as_u8 (v7 OR 0x82));
                  State_Monad.return True
                })
             })
          }
           else do {
             v8 \<leftarrow> r8s K BUSY_LATCH;
             only_if (v8 <s 1) (do {
               _ \<leftarrow> dispatch_jal K LEAF_CUE_800521F4 0x80053F74 [0, 0x81, 0x81, 0x0F];
               tomba_state_set_latch_flags K G1 0;
               tomba_state_set_stop_motion_aux K G1 0;
               _ \<leftarrow> dispatch_jal K LEAF_WALK_RESET 0x80053F84 [G1];
               tomba_state_set_status_flags K G1 3;
               tomba_state_set_turn_current K G1 0;
               tomba_state_set_turn_target K G1 0;
               tomba_state_set_turn_suppress_gate K G1 0;
               tomba_state_set_extra_clear K G1 0;
               tomba_state_set_outer_state K G1 2;
               tomba_state_set_load_step K G1 1;
               tomba_state_set_load_sub K G1 0;
               w8 K BUSY_LATCH 1;
               v9 \<leftarrow> tomba_state_pos_addr K G1;
               _ \<leftarrow> dispatch_jal K LEAF_STOPMOTION 0x80053FC0 [6, v9, -80];
               State_Monad.return ()
             });
             State_Monad.return True
           })
        })
     })
   }"

definition actor_tomba_ov_outer_transition_gate :: "'c core_ops \<Rightarrow> ('c, unit) state"
    where
  "actor_tomba_ov_outer_transition_gate K = do {
     v1 \<leftarrow> actor_tomba_outer_transition_gate K;
     setr K 2 (if v1 then 1 else 0)
   }"

definition actor_tomba_outer_transition_commit :: "'c core_ops \<Rightarrow> u32 \<Rightarrow>
    ('c, unit) state" where
  "actor_tomba_outer_transition_commit K mode = do {
     let G1 = G_ADDR;
     with_frame K 32 [(16, 16), (17, 20), (31, 24)] (do {
       setr K 31 0x80053FF8;
       v1 \<leftarrow> actor_tomba_outer_transition_gate K;
       (if v1 then State_Monad.return ()
        else do {
          v2 \<leftarrow> tomba_state_turn_current K G1;
          v3 \<leftarrow> tomba_state_turn_target K G1;
          (if v2 \<noteq> v3 then do {
            _ \<leftarrow> dispatch_jal K LEAF_CUE_800521F4 0x80054024 [0, 0x81, 0x81, 0x0F];
            g_state_mutate K G1 0xB;
            w8 K BUSY_LATCH_HI 0;
            v4 \<leftarrow> tomba_state_status_flags K G1;
            only_if ((v4 AND 4) = 0) (do {
              _ \<leftarrow> dispatch_jal K LEAF_WALK_RESET 0x80054054 [G1];
              tomba_state_set_stop_motion_aux K G1 0
            });
            b6 \<leftarrow> (if mode \<noteq> 1 then do {
              v5 \<leftarrow> tomba_state_outer_state K G1;
              State_Monad.return (v5 = 2)
            }
             else State_Monad.return False);
            (if b6 then State_Monad.return ()
             else do {
               tomba_state_set_settle_counter K G1 0x5A;
               v7 \<leftarrow> tomba_state_turn_current K G1;
               tomba_state_set_turn_target K G1 (as_u16 v7);
               v8 \<leftarrow> tomba_state_latch_flags K G1;
               tomba_state_set_latch_flags K G1 (as_u8 (v8 OR 0x82));
               v9 \<leftarrow> tomba_state_status_flags K G1;
               (if (v9 AND 0xC) \<noteq> 0 then do {
                 _ \<leftarrow> dispatch_jal K 0x80074590 0x80054108 [0x23, 0, 0];
                 v10 \<leftarrow> tomba_state_pos_addr K G1;
                 _ \<leftarrow> dispatch_jal K LEAF_STOPMOTION 0x80054118 [6, v10, -80];
                 State_Monad.return ()
               }
                else do {
                  tomba_state_set_status_flags K G1 3;
                  tomba_state_set_turn_suppress_gate K G1 0;
                  w8 K (G1 + 0x145) 0;
                  tomba_state_set_outer_state K G1 2;
                  tomba_state_set_load_step K G1 0;
                  tomba_state_set_load_sub K G1 0
                })
             })
          }
           else do {
             remaining \<leftarrow> tomba_state_settle_counter K G1;
             (if remaining = 0 then State_Monad.return ()
              else do {
                let newRemaining = as_s16 (remaining - 1);
                tomba_state_set_settle_counter K G1 (as_u16 newRemaining);
                (if newRemaining \<noteq> 0 then State_Monad.return ()
                 else do {
                   g0 \<leftarrow> tomba_state_status_flags K G1;
                   (if g0 \<noteq> 2 \<and> (g0 AND 4) = 0 then do {
                     tomba_state_set_status_flags K G1 1;
                     v13 \<leftarrow> tomba_state_latch_flags K G1;
                     (if (v13 AND 0x50) \<noteq> 0 then do {
                       v14 \<leftarrow> tomba_state_latch_flags K G1;
                       tomba_state_set_latch_flags K G1 (as_u8 (v14 AND 0x7F))
                     }
                      else tomba_state_set_latch_flags K G1 0)
                   }
                    else tomba_state_set_settle_counter K G1 1)
                 })
              })
           })
        })
     })
   }"

definition actor_tomba_ov_outer_transition_commit :: "'c core_ops \<Rightarrow> ('c, unit) state"
    where
  "actor_tomba_ov_outer_transition_commit K = do {
     r5_1 \<leftarrow> reg K 5;
     actor_tomba_outer_transition_commit K r5_1
   }"

definition actor_tomba_asset_ready :: "'c core_ops \<Rightarrow> u32 \<Rightarrow> ('c, bool)
    state" where
  "actor_tomba_asset_ready K slot1 = with_frame K 24 [(31, 16)] (do {
     let TABLE_8018A000 = (0x8018A000 :: u32);
     let DAT_800A3EC8 = (0x800A3EC8 :: u32);
     let SLOT_TABLE = (0x800BE118 :: u32);
     rec \<leftarrow> r32 K (SLOT_TABLE + slot1 * 8 + 4);
     v2 \<leftarrow> r32 K DAT_800A3EC8;
     v3 \<leftarrow> dispatch_jal K 0x80044CD4 0x800455B0 [TABLE_8018A000, v2, rec];
     State_Monad.return (0 < v3)
   })"

definition actor_tomba_ov_asset_ready :: "'c core_ops \<Rightarrow> ('c, unit) state" where
  "actor_tomba_ov_asset_ready K = do {
     r4_1 \<leftarrow> reg K 4;
     v2 \<leftarrow> actor_tomba_asset_ready K r4_1;
     setr K 2 (if v2 then 1 else 0)
   }"

definition actor_tomba_gov_turn_bias_compute :: "'c core_ops \<Rightarrow> ('c, unit) state" where
  "actor_tomba_gov_turn_bias_compute K = actor_tomba_ov_turn_bias_compute K"

definition actor_tomba_gov_outer_transition_gate :: "'c core_ops \<Rightarrow> ('c, unit) state"
    where
  "actor_tomba_gov_outer_transition_gate K = actor_tomba_ov_outer_transition_gate K"

definition actor_tomba_gov_outer_transition_commit :: "'c core_ops \<Rightarrow> ('c, unit) state"
    where
  "actor_tomba_gov_outer_transition_commit K = actor_tomba_ov_outer_transition_commit K"

definition actor_tomba_gov_asset_ready :: "'c core_ops \<Rightarrow> ('c, unit) state" where
  "actor_tomba_gov_asset_ready K = actor_tomba_ov_asset_ready K"

definition actor_tomba_gov_mode0_action_gate :: "'c core_ops \<Rightarrow> ('c, unit) state" where
  "actor_tomba_gov_mode0_action_gate K = actor_tomba_mode0_action_gate K"

definition actor_tomba_reset_load_gate :: "'c core_ops \<Rightarrow> ('c, unit) state" where
  "actor_tomba_reset_load_gate K = with_frame K 24 [(31, 16)] (do {
     _ \<leftarrow> guest_call K 0x8001CF78 [];
     _ \<leftarrow> dispatch_jal K 0x80074590 0x80042320 [0x7F, 0, 0];
     areaMode \<leftarrow> r8 K 0x800BF870;
     w8 K 0x1F800137 0;
     _ \<leftarrow> dispatch_jal K 0x80074F24 0x80042320 [areaMode];
     State_Monad.return ()
   })"

end
