(* ===== verification/SceneTriggers.thy ===== *)
theory SceneTriggers
  imports CameraRig CullWrappers PlayerActor PlayerCollision SceneControl
begin

text \<open>
  Handlers that act on the scene: the area transition machine, the camera target, UI triggers,
  placed props and the per-frame pass of the seaside area.
\<close>

section \<open>Layout\<close>

definition area_seaside_perframe_G :: u32 where "area_seaside_perframe_G = 0x800E7E80"
definition AUX_LIST_HEAD_SPAD :: u32 where "AUX_LIST_HEAD_SPAD = 0x1F800154"
definition AUX_LIST_COUNT_SPAD :: u32 where "AUX_LIST_COUNT_SPAD = 0x1F80015C"
definition AUX_WALK_COUNTER_SPAD :: u32 where "AUX_WALK_COUNTER_SPAD = 0x1F800183"
definition LEAF_G_MODE2_1334C :: u32 where "LEAF_G_MODE2_1334C = 0x8011334C"
definition LEAF_TRIO_22554 :: u32 where "LEAF_TRIO_22554 = 0x80022554"
definition LEAF_TRIO_113700 :: u32 where "LEAF_TRIO_113700 = 0x80113700"
definition LEAF_TRIO_1138E8 :: u32 where "LEAF_TRIO_1138E8 = 0x801138E8"
definition LEAF_AUX_ITEM_112A60 :: u32 where "LEAF_AUX_ITEM_112A60 = 0x80112A60"
definition LEAF_POST_112C0C :: u32 where "LEAF_POST_112C0C = 0x80112C0C"
definition LEAF_POST_112F14 :: u32 where "LEAF_POST_112F14 = 0x80112F14"
definition beh_area_transition_machine_G :: u32 where "beh_area_transition_machine_G = 0x800E7E80"
definition G_eb0 :: u32 where "G_eb0 = 0x800E7EB0"
definition G_eae :: u32 where "G_eae = 0x800E7EAE"
definition G_eb6 :: u32 where "G_eb6 = 0x800E7EB6"
definition G_ea9 :: u32 where "G_ea9 = 0x800E7EA9"
definition G_eaa :: u32 where "G_eaa = 0x800E7EAA"
definition G_ed6 :: u32 where "G_ed6 = 0x800E7ED6"
definition G_e84 :: u32 where "G_e84 = 0x800E7E84"
definition G_e85 :: u32 where "G_e85 = 0x800E7E85"
definition G_e86 :: u32 where "G_e86 = 0x800E7E86"
definition G_fc7 :: u32 where "G_fc7 = 0x800E7FC7"
definition G_f5c :: u32 where "G_f5c = 0x800E7F5C"
definition G_806c :: u32 where "G_806c = 0x800E806C"
definition G_8074 :: u32 where "G_8074 = 0x800E8074"
definition G_8076 :: u32 where "G_8076 = 0x800E8076"
definition G_8078 :: u32 where "G_8078 = 0x800E8078"
definition S1 :: u32 where "S1 = 0x800E7E80"
definition kGblAreaId :: u32 where "kGblAreaId = 0x800BF870"
definition kGblAreaSub :: u32 where "kGblAreaSub = 0x800BF871"
definition kGblAreaGate :: u32 where "kGblAreaGate = 0x800BFA59"
definition kGblRoomValid :: u32 where "kGblRoomValid = 0x800BF816"
definition kGblRoomId :: u32 where "kGblRoomId = 0x800BF817"
definition kGblFinishGate :: u32 where "kGblFinishGate = 0x800BFAD1"
definition kAreaPropsGated :: u32 where "kAreaPropsGated = 18"
definition kAreaSubFrozen :: u32 where "kAreaSubFrozen = 6"
definition kAreaSubFrozenVal :: u32 where "kAreaSubFrozenVal = 19"
definition kAreaOverlayCull :: u32 where "kAreaOverlayCull = 8"
definition kFnKind2Init :: u32 where "kFnKind2Init = 0x801286F4"
definition kFnKind5Init :: u32 where "kFnKind5Init = 0x80120188"
definition kFnKind7Init :: u32 where "kFnKind7Init = 0x801146E8"
definition kFnSub5Tick :: u32 where "kFnSub5Tick = 0x80114934"
definition kFnKind7PreDraw :: u32 where "kFnKind7PreDraw = 0x8012B118"
definition kFnOwnedPieceSync :: u32 where "kFnOwnedPieceSync = 0x8012866C"
definition kFnKind5Draw :: u32 where "kFnKind5Draw = 0x801201E0"
definition kFnOverlayCull :: u32 where "kFnOverlayCull = 0x8012E168"
definition kRaBuildPieces :: u32 where "kRaBuildPieces = 0x800405D8"
definition kRaKind0Init :: u32 where "kRaKind0Init = 0x80040658"
definition kRaKind1Init :: u32 where "kRaKind1Init = 0x80040668"
definition kRaKind2Init :: u32 where "kRaKind2Init = 0x80040678"
definition kRaKind4Init :: u32 where "kRaKind4Init = 0x80040688"
definition kRaKind5Init :: u32 where "kRaKind5Init = 0x80040698"
definition kRaKind6Init :: u32 where "kRaKind6Init = 0x800406A8"
definition kRaKind7Init :: u32 where "kRaKind7Init = 0x800406B8"
definition kRaSub0Tick :: u32 where "kRaSub0Tick = 0x80040758"
definition kRaSub1Tick :: u32 where "kRaSub1Tick = 0x80040768"
definition kRaSub2Tick :: u32 where "kRaSub2Tick = 0x80040778"
definition kRaSub3Tick :: u32 where "kRaSub3Tick = 0x80040788"
definition kRaSub4Tick :: u32 where "kRaSub4Tick = 0x80040798"
definition kRaSub5Tick :: u32 where "kRaSub5Tick = 0x800407A8"
definition kRaKind7PreDraw :: u32 where "kRaKind7PreDraw = 0x800407E0"
definition kRaActiveEnqueue :: u32 where "kRaActiveEnqueue = 0x8004082C"
definition kRaActiveOverlayCull :: u32 where "kRaActiveOverlayCull = 0x80040860"
definition kRaActiveBoundsCull :: u32 where "kRaActiveBoundsCull = 0x80040870"
definition kRaActiveDraw :: u32 where "kRaActiveDraw = 0x80040880"
definition kRaOwnedPieceSync :: u32 where "kRaOwnedPieceSync = 0x800408B0"
definition kRaOwnedPieceEnqueue :: u32 where "kRaOwnedPieceEnqueue = 0x800408B8"
definition kRaKind5Draw :: u32 where "kRaKind5Draw = 0x800408C8"
definition kRaArmSceneEvent :: u32 where "kRaArmSceneEvent = 0x8004092C"
definition kRaFinishSub2 :: u32 where "kRaFinishSub2 = 0x80040954"
definition kRaFinishSub3 :: u32 where "kRaFinishSub3 = 0x80040964"
definition kRaFinishOwnedSync :: u32 where "kRaFinishOwnedSync = 0x8004098C"
definition kRaFinishOwnedEnqueue :: u32 where "kRaFinishOwnedEnqueue = 0x80040994"
definition kRaFinishEnqueue :: u32 where "kRaFinishEnqueue = 0x800409E4"
definition kRaFinishOverlayCull :: u32 where "kRaFinishOverlayCull = 0x80040A18"
definition kRaFinishBoundsCull :: u32 where "kRaFinishBoundsCull = 0x80040A28"
definition kRaFinishDraw :: u32 where "kRaFinishDraw = 0x80040A38"
definition kRaDespawn :: u32 where "kRaDespawn = 0x80040A48"
definition kStateSpawn :: u32 where "kStateSpawn = 0"
definition kStateActive :: u32 where "kStateActive = 1"
definition kStateFinish :: u32 where "kStateFinish = 2"
definition kStateDespawn :: u32 where "kStateDespawn = 3"
definition kSpawnBuildPieces :: u32 where "kSpawnBuildPieces = 0"
definition kSpawnRunKindInit :: u32 where "kSpawnRunKindInit = 1"
definition kActiveWobble :: u32 where "kActiveWobble = 0"
definition kActiveWobbleSfx :: u32 where "kActiveWobbleSfx = 1"
definition kActiveReleaseDrop :: u32 where "kActiveReleaseDrop = 2"
definition kActiveFall :: u32 where "kActiveFall = 3"
definition kActiveBurstOnContact :: u32 where "kActiveBurstOnContact = 4"
definition kActiveOverlayTick :: u32 where "kActiveOverlayTick = 5"
definition kFinishArmEvent :: u32 where "kFinishArmEvent = 1"
definition kFinishRestart :: u32 where "kFinishRestart = 2"
definition kFinishWobbleSfx :: u32 where "kFinishWobbleSfx = 3"
definition kKindGroundAligned :: u32 where "kKindGroundAligned = 0"
definition kKindGroundProbeAhead :: u32 where "kKindGroundProbeAhead = 1"
definition kKindOwnedPiece :: u32 where "kKindOwnedPiece = 2"
definition kKindNoInit :: u32 where "kKindNoInit = 3"
definition kKindFixedYaw :: u32 where "kKindFixedYaw = 4"
definition kKindOverlayA04 :: u32 where "kKindOverlayA04 = 5"
definition kKindRoomGatedGround :: u32 where "kKindRoomGatedGround = 6"
definition kKindOverlayA05 :: u32 where "kKindOverlayA05 = 7"
definition kFlagSkipCull :: u32 where "kFlagSkipCull = 0x80"
definition kDefaultXzRadius :: u32 where "kDefaultXzRadius = 64"
definition kDefaultHeight :: u32 where "kDefaultHeight = 128"
definition kDefaultYBand :: u32 where "kDefaultYBand = 150"
definition kOscFrame :: u32 where "kOscFrame = 32"
definition kOscSpillSlot :: u32 where "kOscSpillSlot = 16"
definition kOscSpillNode :: u32 where "kOscSpillNode = 20"
definition kOscSpillRa :: u32 where "kOscSpillRa = 24"
definition kRaAfterPartTick :: u32 where "kRaAfterPartTick = 0x80131728"
definition kFirstDrivenPart :: u32 where "kFirstDrivenPart = 2"
definition kPartLimit :: u32 where "kPartLimit = 4"
definition kTiltSourceSlot :: u32 where "kTiltSourceSlot = 1"
definition kWrapThreshold :: u32 where "kWrapThreshold = 2049"
definition kWrapToNegative :: u32 where "kWrapToNegative = 0xF000"
definition kRaAfterContactBehaviour :: u32 where "kRaAfterContactBehaviour = 0x80126030"

section \<open>\<open>game/ai/area_seaside_perframe.cpp\<close>\<close>

definition aux_list_walk :: "'c core_ops \<Rightarrow> ('c, unit) state" where
  "aux_list_walk K = do {
     listPtr \<leftarrow> r32 K AUX_LIST_HEAD_SPAD;
     v2 \<leftarrow> r8 K AUX_LIST_COUNT_SPAD;
     w8 K AUX_WALK_COUNTER_SPAD v2;
     let cursor = listPtr;
     cursor \<leftarrow> loop (\<lambda>cursor. do {
       v3 \<leftarrow> r8 K AUX_WALK_COUNTER_SPAD;
       (if v3 \<noteq> 0 then do {
         item \<leftarrow> r32 K cursor;
         v5 \<leftarrow> r8 K AUX_WALK_COUNTER_SPAD;
         w8 K AUX_WALK_COUNTER_SPAD (v5 - 1);
         let cursor = cursor + 4;
         v6 \<leftarrow> r8 K item;
         (if (v6 AND 2) \<noteq> 0 then State_Monad.return (Inr cursor)
          else do {
            typ \<leftarrow> r8 K (item + 2);
            (if typ = 1 then do {
              v8 \<leftarrow> r8 K (item + 3);
              (if v8 \<noteq> 1 then State_Monad.return (Inr cursor)
               else do {
                 setr K 4 item;
                 call_guest K LEAF_AUX_ITEM_112A60;
                 State_Monad.return (Inr cursor)
               })
            }
             else if 2 \<le> typ then (if typ \<noteq> 4 \<and> typ \<noteq> 7 then
                 State_Monad.return (Inr cursor)
              else do {
                setr K 4 item;
                call_guest K LEAF_AUX_ITEM_112A60;
                State_Monad.return (Inr cursor)
              })
              else do {
                setr K 4 item;
                call_guest K LEAF_AUX_ITEM_112A60;
                State_Monad.return (Inr cursor)
              })
          })
       }
        else State_Monad.return (Inl cursor))
     }) cursor;
     State_Monad.return ()
   }"

definition behaviors_area_seaside_perframe :: "'c core_ops \<Rightarrow> ('c, unit) state" where
  "behaviors_area_seaside_perframe K = do {
     _ \<leftarrow> guest_call K 0x8002288C [area_seaside_perframe_G];
     mode \<leftarrow> r8 K area_seaside_perframe_G;
     let defaultMode = \<not> ((mode = 0 \<or> mode = 2) \<or> mode = 6);
     let runMode2Tick = mode = 2;
     runMode2Tick \<leftarrow> (if defaultMode then do {
       actor_tomba_interact_walk K;
       actor_tomba_post_interact_walk K;
       State_Monad.return True
     }
      else State_Monad.return runMode2Tick);
     v2 \<leftarrow> r32 K 0x800E7FD8;
     only_if (runMode2Tick \<and> v2 < 2) (do {
       _ \<leftarrow> guest_call K LEAF_G_MODE2_1334C [area_seaside_perframe_G];
       State_Monad.return ()
     });
     call_guest K LEAF_TRIO_22554;
     call_guest K LEAF_TRIO_113700;
     call_guest K LEAF_TRIO_1138E8;
     aux_list_walk K;
     call_guest K LEAF_POST_112C0C;
     call_guest K LEAF_POST_112F14;
     actor_tomba_post_frame_water_check K
   }"

section \<open>\<open>game/ai/beh_area_event_dispatch.cpp\<close>\<close>

definition beh_area_event_dispatch :: "'c core_ops \<Rightarrow> ('c, unit) state" where
  "beh_area_event_dispatch K = with_frame K 24 [(16, 16), (31, 20)] (do {
     obj \<leftarrow> reg K 4;
     state1 \<leftarrow> r8 K (obj + 4);
     (if state1 = 0 then do {
       setr K 4 obj;
       call_guest K 0x800716B4;
       v3 \<leftarrow> r8 K 0x800BFAE1;
       v4 \<leftarrow> r8 K 0x800BF870;
       (if v3 \<noteq> 0 \<and> v4 = 4 then do { setr K 4 obj; call_guest K 0x8011B79C }
        else do {
          v5 \<leftarrow> r8 K 0x800BFAE6;
          v6 \<leftarrow> r8 K 0x800BF870;
          only_if (v5 \<noteq> 0 \<and> v6 = 7) (do {
            setr K 4 obj;
            call_guest K 0x801178E4
          })
        })
     }
      else if state1 = 1 then do {
        setr K 4 obj;
        call_guest K 0x80071768;
        v7 \<leftarrow> r8 K (obj + 1);
        only_if (v7 \<noteq> 0) (node_xform_build_with_offset K obj)
      }
       else only_if (state1 = 3) (despawn K obj))
   })"

section \<open>\<open>game/ai/beh_area_threshold_ptr_swap.cpp\<close>\<close>

definition beh_area_threshold_ptr_swap :: "'c core_ops \<Rightarrow> ('c, unit) state" where
  "beh_area_threshold_ptr_swap K = with_frame K 24 [(16, 16), (31, 20)] (do {
     let L528 = (State_Monad.return ());
     let L518 = (\<lambda>obj. do { w8 K (obj + 4) 3; L528 });
     let L4e0 = (\<lambda>obj. do {
       v1 \<leftarrow> r8 K 0x800E7EAA;
       (if \<not> (v1 < 12) then L518 obj
        else do {
          setr K 4 obj;
          cone_cull_2b278 K;
          r2_2 \<leftarrow> reg K 2;
          (if r2_2 \<noteq> 0 then L528 else do { collision_list_scan K obj; L528 })
        })
     });
     let L458 = (\<lambda>obj. do {
       v3 \<leftarrow> r8 K 0x800E7FEB;
       (if v3 = 1 then L528
        else do {
          v0 \<leftarrow> r32 K (obj + 0x38);
          w32 K (obj + 0x34) v0;
          (if v0 \<noteq> 0 then L4e0 obj
           else do {
             w32 K (obj + 0x34) 0x8014AC18;
             n3 \<leftarrow> r8 K (obj + 3);
             (if n3 = 128 then do { w32 K (obj + 0x34) 0; w8 K (obj + 4) 3; L528 }
              else do {
                v6 \<leftarrow> r8 K 0x800BF9E0;
                v7 \<leftarrow> r8 K 0x800BF9E0;
                let cond = ((if n3 < 2 then (if v6 < 6 then 1 else 0) else (if v7 < 16 then 1 else
                    0)) :: u32);
                only_if (cond = 0) (do {
                  w32 K (obj + 0x34) 0x8014AF20;
                  w8 K (obj + 3) 128
                });
                L4e0 obj
              })
           })
        })
     });
     let L440 = (\<lambda>obj. do {
       v8 \<leftarrow> r8 K 0x800BF9E0;
       (if \<not> (v8 < 28) then L518 obj else do { w16 K (obj + 4) 1; L458 obj })
     });
     let L520 = (\<lambda>obj. do { despawn K obj; L528 });
     obj \<leftarrow> reg K 4;
     st \<leftarrow> r8 K (obj + 4);
     (if st = 1 then L458 obj
      else if st < 2 then (if st = 0 then L440 obj else L528)
       else if st < 4 then L520 obj else L528)
   })"

section \<open>\<open>game/ai/beh_area_transition_machine.cpp\<close>\<close>

definition s16_at :: "'c core_ops \<Rightarrow> u32 \<Rightarrow> ('c, u32) state" where
  "s16_at K a = do {
     v1 \<leftarrow> r16 K a;
     State_Monad.return (as_s16 v1)
   }"

definition cd0_tail :: "'c core_ops \<Rightarrow> u32 \<Rightarrow> ('c, unit) state" where
  "cd0_tail K nd = do {
     node_xform_build K nd;
     w8 K (nd + 1) 1;
     _ \<leftarrow> enqueue_queue_a K nd;
     State_Monad.return ()
   }"

definition dat_tail :: "'c core_ops \<Rightarrow> u32 \<Rightarrow> ('c, unit) state" where
  "dat_tail K nd = do {
     w16 K 0x1F8000C0 0;
     w16 K 0x1F8000C2 0;
     w16 K 0x1F8000C4 0;
     a2 \<leftarrow> r32 K G_f5c;
     r29_2 \<leftarrow> reg K 29;
     let fsp = r29_2 - 0x38;
     w32 K (fsp + 0x10) 0x1F8000C0;
     setr K 4 nd;
     setr K 5 0;
     setr K 6 a2;
     setr K 7 a2;
     let save = r29_2;
     setr K 29 fsp;
     graphics_bind_pos_compose K;
     setr K 29 save;
     cutscene_camera_init_seed_grp K kCameraObject G_eac
   }"

definition node6_phase :: "'c core_ops \<Rightarrow> u32 \<Rightarrow> ('c, unit) state" where
  "node6_phase K nd = do {
     ph \<leftarrow> r8 K (nd + 6);
     (if ph = 0 then do {
       setr K 4 1;
       setr K 5 1;
       call_guest K 0x80042354;
       w8 K 0x800BF9B5 3;
       setr K 31 0x801279D8;
       _ \<leftarrow> scene_events_arm K 0x42;
       v2 \<leftarrow> r8 K (nd + 6);
       w8 K (nd + 6) (v2 + 1)
     }
      else if ph = 1 then do {
        v3 \<leftarrow> r8 K G_ea9;
        only_if (v3 \<noteq> 0) (do {
          w16 K (nd + 0x40) 6;
          v4 \<leftarrow> r8 K (nd + 6);
          w8 K (nd + 6) (v4 + 1)
        })
      }
       else if ph = 2 then do {
         before \<leftarrow> s16_at K (nd + 0x40);
         v6 \<leftarrow> r16 K (nd + 0x40);
         w16 K (nd + 0x40) (v6 - 1);
         (if before \<noteq> 1 then State_Monad.return ()
          else do {
            w8 K G_e84 4;
            w8 K G_e85 0x21;
            w8 K G_e86 0;
            w8 K G_ea9 0;
            w8 K G_fc7 1;
            scene_transition_clear_swap_block K beh_area_transition_machine_G;
            setr K 4 beh_area_transition_machine_G;
            setr K 5 0x71;
            setr K 6 8;
            call_guest K 0x80054D14;
            v7 \<leftarrow> r8 K (nd + 6);
            w8 K (nd + 6) (v7 + 1);
            v8 \<leftarrow> r16 K G_eb6;
            let s2 = as_s16 (8268 - v8);
            v9 \<leftarrow> r16 K G_eae;
            let s0 = as_s16 (18867 - v9);
            v10 \<leftarrow> r16 K G_eb2;
            let s1 = -1388 - v10;
            ang \<leftarrow> trig_ratan2 K (- s2) s0;
            let s0d = sdiv (shl s0 8) 64;
            let s1d = sdiv (shl (as_s16 s1) 8) 64;
            let s2d = sdiv (shl s2 8) 64;
            w16 K G_ed6 ((ang + 2048) AND 0xFFF);
            w16 K (nd + 0x40) 64;
            w16 K (nd + 0x4A) (-12288);
            w16 K (nd + 0x4E) s0d;
            w16 K (nd + 0x50) s1d;
            w16 K (nd + 0x52) s2d;
            w16 K G_8076 (-256);
            w8 K G_806c 1;
            w16 K G_8078 0;
            w16 K G_8074 (-1400);
            sfx_trigger K 0x25 0 0
          })
       }
        else if ph = 3 then do {
          v12 \<leftarrow> s16_at K (nd + 0x40);
          (if v12 = 0 then do {
            v13 \<leftarrow> r8 K (nd + 6);
            w8 K (nd + 6) (v13 + 1);
            w16 K G_8078 0x800
          }
           else do {
             v14 \<leftarrow> r16 K (nd + 0x40);
             w16 K (nd + 0x40) (v14 - 1);
             v15 \<leftarrow> r32 K G_eac;
             v16 \<leftarrow> s16_at K (nd + 0x4E);
             w32 K G_eac (v15 + shl v16 8);
             v17 \<leftarrow> r32 K G_eb0;
             v18 \<leftarrow> s16_at K (nd + 0x50);
             w32 K G_eb0 (v17 + shl v18 8);
             w8 K G_ea9 0;
             v19 \<leftarrow> r32 K G_eb4;
             v20 \<leftarrow> s16_at K (nd + 0x52);
             w32 K G_eb4 (v19 + shl v20 8)
           });
          v21 \<leftarrow> r16 K (nd + 0x4A);
          w16 K (nd + 0x4A) (v21 + 0x180);
          v22 \<leftarrow> s16_at K (nd + 0x4A);
          only_if (0x3000 <s v22) (w16 K (nd + 0x4A) 0x3000);
          v23 \<leftarrow> r32 K G_eb0;
          v24 \<leftarrow> s16_at K (nd + 0x4A);
          w32 K G_eb0 (v23 + shl v24 8)
        }
         else only_if (ph = 4) (do {
           w8 K 0x800BF9B5 4;
           w16 K G_eae 0x49B3;
           w16 K G_eb2 0xFA94;
           w16 K G_eb6 0x204C;
           w8 K G_ea9 1;
           w8 K G_eaa 0x22;
           w8 K 0x1F800207 0x22;
           v25 \<leftarrow> r8 K (nd + 4);
           w8 K (nd + 4) (v25 + 1)
         }))
   }"

definition beh_area_transition_machine :: "'c core_ops \<Rightarrow> ('c, unit) state" where
  "beh_area_transition_machine K = with_frame K 56 [(20, 40), (31, 48), (21, 44), (19, 36), (18,
      32), (17, 28), (16, 24)] (do {
     nd \<leftarrow> reg K 4;
     st \<leftarrow> r8 K (nd + 4);
     (if st = 1 then do {
       v3 \<leftarrow> r8 K 0x1F800207;
       let d = v3 - 29;
       v4 \<leftarrow> r8 K 0x800BF9B5;
       (if 3 \<le> d \<and> v4 \<noteq> 1 then State_Monad.return ()
        else do {
          v5 \<leftarrow> actor_bounds_cull K nd;
          (if v5 = 0 then State_Monad.return () else node_xform_build K nd)
        })
     }
      else if 2 \<le> st then (if st = 2 then do {
        sub1 \<leftarrow> r8 K (nd + 5);
        let via_dat = False;
        via_dat \<leftarrow> (if sub1 = 2 then do {
          w8 K (nd + 0) 1;
          w8 K (nd + 4) 1;
          w8 K (nd + 5) 0;
          w16 K (nd + 0x58) 0xE3;
          State_Monad.return via_dat
        }
         else if sub1 = 1 then do {
           v7 \<leftarrow> r8 K G_fc7;
           (if v7 = 0 then do {
             v8 \<leftarrow> s16_at K (nd + 0x62);
             w16 K (nd + 0x58) ((0x1000 - v8) AND 0xFFF)
           }
            else do { v9 \<leftarrow> r16 K (nd + 0x62); w16 K (nd + 0x58) v9 });
           State_Monad.return via_dat
         }
          else if sub1 = 3 then do { node6_phase K nd; State_Monad.return True }
           else State_Monad.return via_dat);
        only_if via_dat (dat_tail K nd);
        cd0_tail K nd
      }
       else only_if (st = 3) (despawn K nd))
       else if st \<noteq> 0 then State_Monad.return ()
        else do {
          setr K 4 nd;
          setr K 5 0xC;
          setr K 6 0x52;
          graphics_bind_record_init K;
          r2_10 \<leftarrow> reg K 2;
          (if r2_10 \<noteq> 0 then State_Monad.return ()
           else do {
             w16 K (nd + 0x2E) 0x4F00;
             w16 K (nd + 0x32) 0xED5E;
             w16 K (nd + 0x36) 0x2A6C;
             w16 K (nd + 0x58) 0xFF1D;
             w8 K (nd + 0) 1;
             w8 K (nd + 0x29) 0;
             v11 \<leftarrow> r8 K (nd + 4);
             w8 K (nd + 4) (v11 + 1);
             sub1 \<leftarrow> r32 K (nd + 0xC0);
             w16 K (sub1 + 0x38) 0x1000;
             w16 K (sub1 + 0x3A) 0x1000;
             w16 K (sub1 + 0x3C) 0x1000;
             w16 K (nd + 0xB8) 0x1400;
             w16 K (nd + 0xBA) 0x1400;
             w16 K (nd + 0xBC) 0x1400;
             w16 K (nd + 0x80) 0x30;
             w16 K (nd + 0x82) 0x60;
             w16 K (nd + 0x84) 0x40;
             w16 K (nd + 0x86) 0x40;
             w8 K (nd + 0x2A) 0x1D;
             setr K 4 nd;
             setr K 5 0;
             setr K 6 0;
             setr K 7 0;
             call_guest K 0x80041194
           })
        })
   })"

section \<open>\<open>game/ai/beh_camera_target_follow.cpp\<close>\<close>

definition beh_camera_target_follow_s16_at :: "'c core_ops \<Rightarrow> u32 \<Rightarrow> ('c,
    u32) state" where
  "beh_camera_target_follow_s16_at K a = do {
     v1 \<leftarrow> r16 K a;
     State_Monad.return (as_s16 v1)
   }"

definition beh_camera_target_follow_l203 :: "'c core_ops \<Rightarrow> u32 \<Rightarrow> u32
    \<Rightarrow> ('c, unit) state" where
  "beh_camera_target_follow_l203 K nd p = do {
     area \<leftarrow> r8 K 0x800BF870;
     (if 15 \<le> area then State_Monad.return ()
      else if area = 0 then do {
        v50 \<leftarrow> r8 K 0x800BF816;
        only_if (v50 = 0) (do { setr K 4 nd; setr K 5 p; call_guest K 0x8010C5A8 })
      }
       else if area = 4 then do {
         v51 \<leftarrow> r8 K 0x800BF816;
         only_if (v51 = 0) (do { setr K 4 nd; setr K 5 p; call_guest K 0x80115AFC })
       }
        else if area = 6 then do {
          v52 \<leftarrow> r8 K 0x800BF816;
          only_if (v52 = 0) (do { setr K 4 nd; setr K 5 p; call_guest K 0x80114294 })
        }
         else if area = 8 then do {
           v53 \<leftarrow> r8 K (p + 0x16B);
           only_if (v53 = 0) (do { setr K 4 nd; setr K 5 p; call_guest K 0x8011332C })
         }
          else if area = 0xB then do { setr K 4 nd; setr K 5 p; call_guest K 0x8010BC10 }
           else only_if (area = 0xE) (do {
             setr K 4 nd;
             setr K 5 p;
             call_guest K 0x8010B238
           }))
   }"

definition beh_camera_target_follow_l173 :: "'c core_ops \<Rightarrow> bool \<Rightarrow> bool
    \<Rightarrow> u32 \<Rightarrow> u32 \<Rightarrow> ('c, unit) state" where
  "beh_camera_target_follow_l173 K goto_L1ac set_node1_zero nd p = do {
     only_if (\<not> goto_L1ac \<and> set_node1_zero) (w8 K (nd + 1) 0);
     v41 \<leftarrow> r8 K (nd + 1);
     only_if (v41 \<noteq> 0) (do {
       v42 \<leftarrow> beh_camera_target_follow_s16_at K (nd + 0x4A);
       v43 \<leftarrow> beh_camera_target_follow_s16_at K (p + 0x32);
       let delta = v42 - v43;
       let v = 0x80 - (sar 2 (delta - 0x78));
       w16 K (nd + 0x4E) v;
       let v16 = as_s16 v;
       (if v16 <s 0 then do { w16 K (nd + 0x4E) 0; w8 K (nd + 1) 0 }
        else only_if (0x80 <s v16) (w16 K (nd + 0x4E) 0x80));
       v44 \<leftarrow> beh_camera_target_follow_s16_at K (nd + 0x4A);
       v45 \<leftarrow> beh_camera_target_follow_s16_at K (p + 0x32);
       let delta2 = v44 - v45;
       let v2 = 0x100 - (sar 2 (delta2 - 0x78));
       w16 K (nd + 0x50) v2;
       let v2_16 = as_s16 v2;
       (if v2_16 <s 0 then do { w16 K (nd + 0x50) 0; w8 K (nd + 1) 0 }
        else only_if (0x100 <s v2_16) (w16 K (nd + 0x50) 0x100))
     });
     v46 \<leftarrow> r8 K 0x800BF873;
     v47 \<leftarrow> r8 K 0x800BF80D;
     v48 \<leftarrow> r32 K (p + 0x158);
     (if (v46 = 0 \<and> v47 = 0) \<and> v48 = 0 then beh_camera_target_follow_l203 K nd p
      else State_Monad.return ())
   }"

definition beh_camera_target_follow :: "'c core_ops \<Rightarrow> ('c, unit) state" where
  "beh_camera_target_follow K = with_frame K 32 [(16, 16), (31, 24), (17, 20)] (do {
     nd \<leftarrow> reg K 4;
     p \<leftarrow> r32 K (nd + 0x10);
     st \<leftarrow> r8 K (nd + 4);
     (if st \<noteq> 1 then (if 2 \<le> st then (if 4 \<le> st then State_Monad.return ()
      else despawn K nd)
      else if st \<noteq> 0 then State_Monad.return ()
       else do {
         v4 \<leftarrow> r8 K (p + 0x181);
         only_if (v4 = 0) (w16 K 0x1F80019E 0);
         w16 K (nd + 0x54) 0;
         w8 K (nd + 4) (st + 1);
         v5 \<leftarrow> beh_camera_target_follow_s16_at K (p + 0x17E);
         (if v5 <s 0 then do { w16 K (nd + 0x40) 0x28; w16 K (nd + 0x42) 0x37 }
          else do { w16 K (nd + 0x40) 0x50; w16 K (nd + 0x42) 0x6E });
         w16 K (nd + 0x0E) 0;
         w8 K (nd + 0x2B) 0;
         w8 K (nd + 0x46) 0;
         w8 K (nd + 0x5F) 0
       })
      else do {
        v6 \<leftarrow> r8 K (p + 0);
        (if v6 = 0 then State_Monad.return ()
         else do {
           b1 \<leftarrow> r8 K (p + 1);
           w8 K (nd + 1) b1;
           (if b1 = 0 then State_Monad.return ()
            else do {
              v8 \<leftarrow> r8 K 0x800BFE55;
              only_if (v8 \<noteq> 0) (do {
                iv \<leftarrow> beh_camera_target_follow_s16_at K (p + 0x44);
                let iv = (if iv <s 0 then (- iv) else iv);
                v10 \<leftarrow> r16 K 0x1F80017C;
                only_if (0xC01 \<le>s iv \<and> (v10 AND 7) = 0) (do {
                  setr K 4 0x2C;
                  setr K 5 (p + 0x2C);
                  setr K 6 0xFFFFFFEC;
                  call_guest K 0x800312D4
                })
              });
              v11 \<leftarrow> beh_camera_target_follow_s16_at K (p + 0x17E);
              (if v11 <s 0 then do { w16 K (nd + 0x40) 0x28; w16 K (nd + 0x42) 0x37 }
               else do { w16 K (nd + 0x40) 0x50; w16 K (nd + 0x42) 0x6E });
              v12 \<leftarrow> r32 K (p + 0x2C);
              w32 K (nd + 0x2C) v12;
              v13 \<leftarrow> r32 K (p + 0x30);
              w32 K (nd + 0x30) v13;
              v14 \<leftarrow> r32 K (p + 0x34);
              w32 K (nd + 0x34) v14;
              v15 \<leftarrow> r8 K (p + 0x2A);
              w8 K (nd + 0x2A) v15;
              let goto_L1ac = False;
              let set_node1_zero = False;
              v16 \<leftarrow> r8 K (p + 0x29);
              v17 \<leftarrow> r8 K (p + 0x78);
              (goto_L1ac, set_node1_zero) \<leftarrow> (if v16 = 0 \<or> v17 \<noteq> 0 then do {
                v18 \<leftarrow> r8 K (p + 0x16B);
                (if v18 = 8 then do {
                  v19 \<leftarrow> r16 K (nd + 0x2E);
                  w16 K (nd + 0x48) v19;
                  v20 \<leftarrow> r16 K (nd + 0x36);
                  w16 K (nd + 0x4C) v20;
                  w16 K (nd + 0x58) 0;
                  v21 \<leftarrow> r16 K 0x1F800210;
                  w16 K (nd + 0x56) v21;
                  v22 \<leftarrow> r16 K 0x800BF812;
                  w16 K (nd + 0x4A) v22;
                  State_Monad.return (True, set_node1_zero)
                }
                 else do {
                   setr K 4 nd;
                   v23 \<leftarrow> beh_camera_target_follow_s16_at K (nd + 0x32);
                   setr K 5 v23;
                   call_guest K 0x800489E4;
                   iv5 \<leftarrow> reg K 2;
                   da6 \<leftarrow> r16 K 0x1F8001A6;
                   (if iv5 \<noteq> 0 then do {
                     let nib = (shr (as_s16 da6) 8) AND 0xF;
                     let signbit = ((as_s16 da6) AND 0x8000) \<noteq> 0;
                     b28 \<leftarrow> (if (nib \<noteq> 2 \<and> nib \<noteq> 7) \<and> \<not>
                         signbit then do {
                       v26 \<leftarrow> beh_camera_target_follow_s16_at K (nd + 0x32);
                       v27 \<leftarrow> beh_camera_target_follow_s16_at K 0x1F8001A4;
                       State_Monad.return (v26 \<le>s v27)
                     }
                      else State_Monad.return False);
                     (if b28 then do {
                       v29 \<leftarrow> r16 K 0x1F8001A4;
                       w16 K (nd + 0x4A) v29;
                       v30 \<leftarrow> r16 K (nd + 0x2E);
                       w16 K (nd + 0x48) v30;
                       v31 \<leftarrow> r16 K (nd + 0x36);
                       w16 K (nd + 0x4C) v31;
                       v32 \<leftarrow> r16 K 0x1F8001A0;
                       w16 K (nd + 0x56) v32;
                       v33 \<leftarrow> r16 K 0x1F8001A2;
                       w16 K (nd + 0x58) v33;
                       State_Monad.return (True, set_node1_zero)
                     }
                      else State_Monad.return (goto_L1ac, True))
                   }
                    else State_Monad.return (goto_L1ac, True))
                 })
              }
               else do {
                 v34 \<leftarrow> r16 K (p + 0x6A);
                 (if ((shr v34 8) AND 0xF) \<noteq> 2 then do {
                   v35 \<leftarrow> r16 K (p + 0x2E);
                   w16 K (nd + 0x48) v35;
                   v36 \<leftarrow> r16 K (p + 0x32);
                   v37 \<leftarrow> r16 K (p + 0x84);
                   w16 K (nd + 0x4A) (v36 + v37);
                   v38 \<leftarrow> r16 K (p + 0x36);
                   w16 K (nd + 0x4C) v38;
                   v39 \<leftarrow> r16 K (p + 0x140);
                   w16 K (nd + 0x56) v39;
                   v40 \<leftarrow> r16 K (p + 0x142);
                   w16 K (nd + 0x58) v40;
                   State_Monad.return (True, set_node1_zero)
                 }
                  else State_Monad.return (goto_L1ac, True))
               });
              beh_camera_target_follow_l173 K goto_L1ac set_node1_zero nd p
            })
         })
      })
   })"

section \<open>\<open>game/ai/beh_scene_ui_trigger.cpp\<close>\<close>

definition render_and_return :: "'c core_ops \<Rightarrow> u32 \<Rightarrow> ('c, unit) state"
    where
  "render_and_return K obj = do {
     w8 K (obj + 0x2B) 0;
     setr K 4 obj;
     graphics_bind_render_update K
   }"

definition sfx_advance :: "'c core_ops \<Rightarrow> u32 \<Rightarrow> ('c, unit) state" where
  "sfx_advance K obj = do {
     v0 \<leftarrow> r8 K (obj + 5);
     w8 K (obj + 5) (v0 + 1);
     sfx_trigger K 0x11 0 0
   }"

definition beh_scene_ui_trigger :: "'c core_ops \<Rightarrow> ('c, unit) state" where
  "beh_scene_ui_trigger K = with_frame K 32 [(16, 16), (17, 20), (31, 28), (18, 24)] (do {
     obj \<leftarrow> reg K 4;
     st \<leftarrow> r8 K (obj + 4);
     (if st \<noteq> 1 then (if 2 \<le> st then only_if (st = 3) (despawn K obj)
      else if st \<noteq> 0 then State_Monad.return ()
       else do {
         area \<leftarrow> r8 K 0x800BF870;
         v4 \<leftarrow> r16 K (0x800A4C80 + area * 2);
         let tv = as_s16 v4;
         setr K 4 obj;
         setr K 5 0xC;
         setr K 6 tv;
         graphics_bind_record_init K;
         r2_5 \<leftarrow> reg K 2;
         (if r2_5 \<noteq> 0 then State_Monad.return ()
          else do {
            w8 K (obj + 0) 1;
            v6 \<leftarrow> r8 K (obj + 4);
            w8 K (obj + 4) (v6 + 1);
            area \<leftarrow> r8 K 0x800BF870;
            (if (area = 2 \<or> area = 7) \<or> area = 0x14 then do {
              w16 K (obj + 0x80) 0xA0;
              w16 K (obj + 0x82) 0x140
            }
             else do { w16 K (obj + 0x80) 300; w16 K (obj + 0x82) 600 });
            w16 K (obj + 0x84) 0xED;
            w16 K (obj + 0x86) 0xED;
            w8 K (obj + 0x2B) 0;
            area \<leftarrow> r8 K 0x800BF870;
            v9 \<leftarrow> r8 K (obj + 3);
            only_if (area = 5 \<and> v9 = 5) (w8 K (obj + 0xB) 0xF)
          })
       })
      else do {
        _ \<leftarrow> actor_bounds_cull K obj;
        r2_10 \<leftarrow> reg K 2;
        (if r2_10 = 0 then w8 K (obj + 0x2B) 0
         else do {
           sub1 \<leftarrow> r8 K (obj + 5);
           (if 6 \<le> sub1 then render_and_return K obj
            else if sub1 = 5 then do {
              w8 K (obj + 0) 1;
              w8 K (obj + 5) 0;
              v12 \<leftarrow> r8 K (obj + 0x2B);
              only_if (v12 = 3) (do {
                v0 \<leftarrow> r8 K (obj + 5);
                v1 \<leftarrow> r8 K (obj + 3);
                w8 K (obj + 5) (v0 + 1);
                w8 K 0x800BF871 v1;
                v15 \<leftarrow> r8 K 0x800BF870;
                scene_transition_area_mask_trigger K v15 v1
              });
              render_and_return K obj
            }
             else if sub1 = 0 then do {
               v16 \<leftarrow> r8 K (obj + 0x2B);
               only_if (v16 = 3) (do {
                 v0 \<leftarrow> r8 K (obj + 5);
                 v1 \<leftarrow> r8 K (obj + 3);
                 w8 K (obj + 5) (v0 + 1);
                 w8 K 0x800BF871 v1;
                 v19 \<leftarrow> r8 K 0x800BF870;
                 scene_transition_area_mask_trigger K v19 v1
               });
               render_and_return K obj
             }
              else if sub1 = 1 then do {
                area \<leftarrow> r8 K 0x800BF870;
                v21 \<leftarrow> r8 K 0x800E7E85;
                let to_ca0 = (area = 2 \<or> area = 7) \<and> v21 \<noteq> 0x1F;
                (if to_ca0 then do { w8 K (obj + 5) 4; render_and_return K obj }
                 else do {
                   v22 \<leftarrow> r8 K (obj + 3);
                   setr K 4 v22;
                   call_guest K 0x800737F8;
                   v23 \<leftarrow> r16 K 0x800E7E68;
                   only_if ((v23 AND 0x2000) \<noteq> 0) (sfx_advance K obj);
                   render_and_return K obj
                 })
              }
               else do {
                 (if sub1 = 2 then do {
                   call_guest K 0x800738B0;
                   pad \<leftarrow> r16 K 0x800E7E68;
                   (if (pad AND 0x4000) \<noteq> 0 then sfx_advance K obj
                    else only_if ((pad AND 0x2000) \<noteq> 0) (do {
                      w8 K (obj + 5) 4;
                      setr K 4 1;
                      call_guest K 0x80074BF8
                    }))
                 }
                  else if sub1 = 3 then do {
                    w8 K 0x1F800136 2;
                    w8 K 0x800BF84A 0;
                    a2 \<leftarrow> r32 K (S1 + 0x2C);
                    a3 \<leftarrow> r32 K (S1 + 0x30);
                    t0v \<leftarrow> r32 K (S1 + 0x34);
                    t1 \<leftarrow> r8 K (S1 + 0x2A);
                    taskp \<leftarrow> r32 K 0x1F800138;
                    w32 K 0x800BF890 a2;
                    w32 K 0x800BF894 a3;
                    w32 K 0x800BF898 t0v;
                    w8 K 0x800BFE38 t1;
                    w16 K (taskp + 0x50) 0;
                    w8 K (taskp + 0x6B) 8;
                    v0 \<leftarrow> r8 K (obj + 5);
                    w8 K (obj + 5) (v0 + 1);
                    mode_state_arm_arm K 0 0 0
                  }
                   else only_if (sub1 = 4) (do {
                     v0 \<leftarrow> r8 K (obj + 5);
                     w8 K (obj + 0) 2;
                     w8 K (obj + 5) (v0 + 1)
                   }));
                 render_and_return K obj
               })
         })
      })
   })"

section \<open>\<open>game/ai/placed_prop_sm.cpp\<close>\<close>

definition room_is_active :: "'c core_ops \<Rightarrow> u32 \<Rightarrow> ('c, bool) state" where
  "room_is_active K prop1 = do {
     v1 \<leftarrow> r8 K kGblRoomValid;
     (if v1 = 0 then State_Monad.return False
      else do {
        v2 \<leftarrow> r8 K kGblRoomId;
        v3 \<leftarrow> placed_prop_room_id K prop1;
        State_Monad.return (v2 = v3)
      })
   }"

definition placed_prop_sm_step_l181 :: "'c core_ops \<Rightarrow> u32 \<Rightarrow> ('c, 'a +
    string \<times> u32) state" where
  "placed_prop_sm_step_l181 K propNode = do {
     let initDone = True;
     v8 \<leftarrow> placed_prop_kind K propNode;
     initDone \<leftarrow> (if v8 = kKindGroundAligned then do {
       r16_9 \<leftarrow> reg K 16;
       setr K 4 r16_9;
       _ \<leftarrow> dispatch_jal K 0x8003FBC4 kRaKind0Init [];
       State_Monad.return initDone
     }
      else if v8 = kKindGroundProbeAhead then do {
        r16_10 \<leftarrow> reg K 16;
        setr K 4 r16_10;
        _ \<leftarrow> dispatch_jal K 0x8003FC00 kRaKind1Init [];
        State_Monad.return initDone
      }
       else if v8 = kKindOwnedPiece then do {
         r16_11 \<leftarrow> reg K 16;
         setr K 4 r16_11;
         _ \<leftarrow> dispatch_jal K kFnKind2Init kRaKind2Init [];
         State_Monad.return initDone
       }
        else if v8 = kKindFixedYaw then do {
          r16_12 \<leftarrow> reg K 16;
          setr K 4 r16_12;
          _ \<leftarrow> dispatch_jal K 0x8003FC78 kRaKind4Init [];
          State_Monad.return initDone
        }
         else if v8 = kKindOverlayA04 then do {
           r16_13 \<leftarrow> reg K 16;
           setr K 4 r16_13;
           _ \<leftarrow> dispatch_jal K kFnKind5Init kRaKind5Init [];
           State_Monad.return initDone
         }
          else if v8 = kKindRoomGatedGround then do {
            r16_14 \<leftarrow> reg K 16;
            setr K 4 r16_14;
            _ \<leftarrow> dispatch_jal K 0x8003FC8C kRaKind6Init [];
            r2_15 \<leftarrow> reg K 2;
            State_Monad.return (r2_15 \<noteq> 0)
          }
           else if v8 = kKindOverlayA05 then do {
             r16_16 \<leftarrow> reg K 16;
             setr K 4 r16_16;
             _ \<leftarrow> dispatch_jal K kFnKind7Init kRaKind7Init [];
             r2_17 \<leftarrow> reg K 2;
             State_Monad.return (r2_17 \<noteq> 0)
           }
            else State_Monad.return initDone);
     (if \<not> initDone then State_Monad.return (Inr (''after7'', propNode))
      else do {
        placed_prop_set_prop_state K propNode kStateActive;
        placed_prop_set_prop_sub K propNode 0;
        placed_prop_set_prop_active K propNode 1;
        placed_prop_set_prop_gate K propNode 0;
        State_Monad.return (Inr (''after7'', propNode))
      })
   }"

definition placed_prop_sm_step_l154 :: "'c core_ops \<Rightarrow> u32 \<Rightarrow> ('c, 'a +
    string \<times> u32) state" where
  "placed_prop_sm_step_l154 K propNode = do {
     v3 \<leftarrow> placed_prop_sub K propNode;
     (if v3 = kSpawnBuildPieces then do {
       v4 \<leftarrow> placed_prop_variant K propNode;
       setr K 5 v4;
       r16_5 \<leftarrow> reg K 16;
       setr K 4 r16_5;
       _ \<leftarrow> dispatch_jal K 0x80040410 kRaBuildPieces [];
       r2_6 \<leftarrow> reg K 2;
       only_if (r2_6 \<noteq> 0) (do {
         v7 \<leftarrow> placed_prop_sub K propNode;
         placed_prop_set_prop_sub K propNode (as_u8 (v7 + 1))
       });
       placed_prop_set_prop_xz_radius K propNode kDefaultXzRadius;
       placed_prop_set_prop_height K propNode kDefaultHeight;
       placed_prop_set_prop_gate K propNode 0;
       placed_prop_set_prop_coll_done K propNode 0;
       placed_prop_set_prop_status K propNode 0;
       placed_prop_set_prop_y_band_lo K propNode kDefaultYBand;
       placed_prop_set_prop_y_band_hi K propNode kDefaultYBand;
       placed_prop_set_prop_flag46 K propNode 0;
       State_Monad.return (Inr (''after7'', propNode))
     }
      else if v3 = kSpawnRunKindInit then placed_prop_sm_step_l181 K propNode
       else State_Monad.return (Inr (''after7'', propNode)))
   }"

definition placed_prop_sm_step_l245 :: "'c core_ops \<Rightarrow> u32 \<Rightarrow> ('c, 'a +
    string \<times> u32) state" where
  "placed_prop_sm_step_l245 K propNode = do {
     v19 \<leftarrow> placed_prop_sub K propNode;
     (if v19 = kActiveWobble then do {
       r16_20 \<leftarrow> reg K 16;
       setr K 4 r16_20;
       _ \<leftarrow> dispatch_jal K 0x8003FD10 kRaSub0Tick [];
       State_Monad.return ()
     }
      else if v19 = kActiveWobbleSfx then do {
        r16_21 \<leftarrow> reg K 16;
        setr K 4 r16_21;
        _ \<leftarrow> dispatch_jal K 0x8003FED8 kRaSub1Tick [];
        State_Monad.return ()
      }
       else if v19 = kActiveReleaseDrop then do {
         r16_22 \<leftarrow> reg K 16;
         setr K 4 r16_22;
         _ \<leftarrow> dispatch_jal K 0x8003FFCC kRaSub2Tick [];
         State_Monad.return ()
       }
        else if v19 = kActiveFall then do {
          r16_23 \<leftarrow> reg K 16;
          setr K 4 r16_23;
          _ \<leftarrow> dispatch_jal K 0x8004022C kRaSub3Tick [];
          State_Monad.return ()
        }
         else if v19 = kActiveBurstOnContact then do {
           r16_24 \<leftarrow> reg K 16;
           setr K 4 r16_24;
           _ \<leftarrow> dispatch_jal K 0x80040390 kRaSub4Tick [];
           State_Monad.return ()
         }
          else only_if (v19 = kActiveOverlayTick) (do {
            r16_25 \<leftarrow> reg K 16;
            setr K 4 r16_25;
            _ \<leftarrow> dispatch_jal K kFnSub5Tick kRaSub5Tick [];
            State_Monad.return ()
          }));
     v26 \<leftarrow> placed_prop_kind K propNode;
     (if v26 = kKindOverlayA05 then do {
       r16_27 \<leftarrow> reg K 16;
       setr K 4 r16_27;
       _ \<leftarrow> dispatch_jal K kFnKind7PreDraw kRaKind7PreDraw [];
       v28 \<leftarrow> room_is_active K propNode;
       (if v28 then do {
         v29 \<leftarrow> placed_prop_flags28 K propNode;
         (if (v29 AND kFlagSkipCull) = 0 then State_Monad.return (Inr (''activeClearGate'',
             propNode))
          else do {
            placed_prop_set_prop_visible K propNode 1;
            r16_30 \<leftarrow> reg K 16;
            setr K 4 r16_30;
            _ \<leftarrow> dispatch_jal K 0x80077E7C kRaActiveEnqueue [];
            r16_31 \<leftarrow> reg K 16;
            setr K 4 r16_31;
            _ \<leftarrow> dispatch_jal K 0x800517F8 kRaActiveDraw [];
            placed_prop_set_prop_gate K propNode 0;
            State_Monad.return (Inr (''activeEndOfFrame'', propNode))
          })
       }
        else do {
          v32 \<leftarrow> placed_prop_flags28 K propNode;
          (if (v32 AND kFlagSkipCull) \<noteq> 0 then State_Monad.return (Inr
              (''activeClearGate'', propNode))
           else do {
             v33 \<leftarrow> r8 K kGblAreaId;
             (if v33 = kAreaOverlayCull then do {
               r16_34 \<leftarrow> reg K 16;
               setr K 4 r16_34;
               _ \<leftarrow> dispatch_jal K kFnOverlayCull kRaActiveOverlayCull [];
               State_Monad.return ()
             }
              else do {
                r16_35 \<leftarrow> reg K 16;
                setr K 4 r16_35;
                _ \<leftarrow> dispatch_jal K 0x8007778C kRaActiveBoundsCull [];
                State_Monad.return ()
              });
             r2_36 \<leftarrow> reg K 2;
             (if r2_36 = 0 then State_Monad.return (Inr (''activeClearGate'', propNode))
              else do {
                r16_37 \<leftarrow> reg K 16;
                setr K 4 r16_37;
                _ \<leftarrow> dispatch_jal K 0x800517F8 kRaActiveDraw [];
                placed_prop_set_prop_gate K propNode 0;
                State_Monad.return (Inr (''activeEndOfFrame'', propNode))
              })
           })
        })
     }
      else if (((v26 = kKindGroundAligned \<or> v26 = kKindGroundProbeAhead) \<or> v26 =
          kKindNoInit) \<or> v26 = kKindFixedYaw) \<or> v26 = kKindRoomGatedGround then do {
        v38 \<leftarrow> room_is_active K propNode;
        (if v38 then do {
          v39 \<leftarrow> placed_prop_flags28 K propNode;
          (if (v39 AND kFlagSkipCull) = 0 then State_Monad.return (Inr (''activeClearGate'',
              propNode))
           else do {
             placed_prop_set_prop_visible K propNode 1;
             r16_40 \<leftarrow> reg K 16;
             setr K 4 r16_40;
             _ \<leftarrow> dispatch_jal K 0x80077E7C kRaActiveEnqueue [];
             r16_41 \<leftarrow> reg K 16;
             setr K 4 r16_41;
             _ \<leftarrow> dispatch_jal K 0x800517F8 kRaActiveDraw [];
             placed_prop_set_prop_gate K propNode 0;
             State_Monad.return (Inr (''activeEndOfFrame'', propNode))
           })
        }
         else do {
           v42 \<leftarrow> placed_prop_flags28 K propNode;
           (if (v42 AND kFlagSkipCull) \<noteq> 0 then State_Monad.return (Inr
               (''activeClearGate'', propNode))
            else do {
              v43 \<leftarrow> r8 K kGblAreaId;
              (if v43 = kAreaOverlayCull then do {
                r16_44 \<leftarrow> reg K 16;
                setr K 4 r16_44;
                _ \<leftarrow> dispatch_jal K kFnOverlayCull kRaActiveOverlayCull [];
                State_Monad.return ()
              }
               else do {
                 r16_45 \<leftarrow> reg K 16;
                 setr K 4 r16_45;
                 _ \<leftarrow> dispatch_jal K 0x8007778C kRaActiveBoundsCull [];
                 State_Monad.return ()
               });
              r2_46 \<leftarrow> reg K 2;
              (if r2_46 = 0 then State_Monad.return (Inr (''activeClearGate'', propNode))
               else do {
                 r16_47 \<leftarrow> reg K 16;
                 setr K 4 r16_47;
                 _ \<leftarrow> dispatch_jal K 0x800517F8 kRaActiveDraw [];
                 placed_prop_set_prop_gate K propNode 0;
                 State_Monad.return (Inr (''activeEndOfFrame'', propNode))
               })
            })
         })
      }
       else if v26 = kKindOwnedPiece then do {
         v48 \<leftarrow> placed_prop_owner K propNode;
         ownerVisible \<leftarrow> r8 K (v48 + kOffVisible);
         placed_prop_set_prop_visible K propNode ownerVisible;
         (if ownerVisible = 0 then State_Monad.return (Inr (''activeClearGate'', propNode))
          else do {
            r16_50 \<leftarrow> reg K 16;
            setr K 4 r16_50;
            _ \<leftarrow> dispatch_jal K kFnOwnedPieceSync kRaOwnedPieceSync [];
            r16_51 \<leftarrow> reg K 16;
            setr K 4 r16_51;
            _ \<leftarrow> dispatch_jal K 0x80077E7C kRaOwnedPieceEnqueue [];
            placed_prop_set_prop_gate K propNode 0;
            State_Monad.return (Inr (''activeEndOfFrame'', propNode))
          })
       }
        else do {
          only_if (v26 = kKindOverlayA04) (do {
            r16_52 \<leftarrow> reg K 16;
            setr K 4 r16_52;
            _ \<leftarrow> dispatch_jal K kFnKind5Draw kRaKind5Draw [];
            State_Monad.return ()
          });
          State_Monad.return (Inr (''activeClearGate'', propNode))
        })
   }"

definition placed_prop_sm_step_l235 :: "'c core_ops \<Rightarrow> u32 \<Rightarrow> ('c, 'a +
    string \<times> u32) state" where
  "placed_prop_sm_step_l235 K propNode = do {
     area \<leftarrow> r8 K kGblAreaId;
     let rest1 = (placed_prop_sm_step_l245 K propNode);
     (if area = kAreaPropsGated then do {
       v53 \<leftarrow> r8 K kGblAreaGate;
       (if v53 = 0 then State_Monad.return (Inr (''after1'', propNode)) else rest1)
     }
      else do {
        v54 \<leftarrow> r8 K kGblAreaSub;
        (if area = kAreaSubFrozen \<and> v54 = kAreaSubFrozenVal then State_Monad.return (Inr
            (''after1'', propNode))
         else rest1)
      })
   }"

definition placed_prop_sm_step_l345 :: "'c core_ops \<Rightarrow> u32 \<Rightarrow> u32
    \<Rightarrow> ('c, 'a + string \<times> u32) state" where
  "placed_prop_sm_step_l345 K v2 propNode = (if v2 = kStateFinish then do {
     let rest2 = (do {
       v55 \<leftarrow> placed_prop_kind K propNode;
       (if v55 \<noteq> kKindOwnedPiece then State_Monad.return (Inr (''finishRender'', propNode))
        else do {
          v56 \<leftarrow> placed_prop_owner K propNode;
          v57 \<leftarrow> r8 K (v56 + kOffVisible);
          placed_prop_set_prop_visible K propNode v57;
          r16_58 \<leftarrow> reg K 16;
          setr K 4 r16_58;
          _ \<leftarrow> dispatch_jal K kFnOwnedPieceSync kRaFinishOwnedSync [];
          r16_59 \<leftarrow> reg K 16;
          setr K 4 r16_59;
          _ \<leftarrow> dispatch_jal K 0x80077E7C kRaFinishOwnedEnqueue [];
          State_Monad.return (Inr (''after1'', propNode))
        })
     });
     v60 \<leftarrow> placed_prop_sub K propNode;
     (if v60 = kFinishArmEvent then do {
       v61 \<leftarrow> placed_prop_variant K propNode;
       v62 \<leftarrow> r8 K kGblFinishGate;
       only_if (v61 = 0 \<and> v62 = 0) (do {
         setr K 4 56;
         _ \<leftarrow> dispatch_jal K 0x80040B48 kRaArmSceneEvent [];
         State_Monad.return ()
       });
       v63 \<leftarrow> placed_prop_kind K propNode;
       (if v63 \<noteq> kKindOwnedPiece then State_Monad.return (Inr (''finishRender'', propNode))
        else do {
          v64 \<leftarrow> placed_prop_owner K propNode;
          placed_prop_set_prop_kind K v64 1;
          rest2
        })
     }
      else do {
        (if v60 = kFinishRestart then do {
          r16_65 \<leftarrow> reg K 16;
          setr K 4 r16_65;
          _ \<leftarrow> dispatch_jal K 0x8003FE00 kRaFinishSub2 [];
          State_Monad.return ()
        }
         else only_if (v60 = kFinishWobbleSfx) (do {
           r16_66 \<leftarrow> reg K 16;
           setr K 4 r16_66;
           _ \<leftarrow> dispatch_jal K 0x8003FED8 kRaFinishSub3 [];
           State_Monad.return ()
         }));
        rest2
      })
   }
    else do {
      only_if (v2 = kStateDespawn) (do {
        r16_67 \<leftarrow> reg K 16;
        setr K 4 r16_67;
        _ \<leftarrow> dispatch_jal K 0x8007A624 kRaDespawn [];
        State_Monad.return ()
      });
      State_Monad.return (Inr (''after7'', propNode))
    })"

definition placed_prop_sm_step_l381 :: "'c core_ops \<Rightarrow> u32 \<Rightarrow> ('c, 'a +
    string \<times> u32) state" where
  "placed_prop_sm_step_l381 K propNode = do {
     v68 \<leftarrow> room_is_active K propNode;
     (if v68 then do {
       v69 \<leftarrow> placed_prop_flags28 K propNode;
       (if (v69 AND kFlagSkipCull) = 0 then State_Monad.return (Inr (''after1'', propNode))
        else do {
          placed_prop_set_prop_visible K propNode 1;
          r16_70 \<leftarrow> reg K 16;
          setr K 4 r16_70;
          _ \<leftarrow> dispatch_jal K 0x80077E7C kRaFinishEnqueue [];
          r16_71 \<leftarrow> reg K 16;
          setr K 4 r16_71;
          _ \<leftarrow> dispatch_jal K 0x800517F8 kRaFinishDraw [];
          State_Monad.return (Inr (''after1'', propNode))
        })
     }
      else do {
        v72 \<leftarrow> placed_prop_flags28 K propNode;
        (if (v72 AND kFlagSkipCull) \<noteq> 0 then State_Monad.return (Inr (''after1'',
            propNode))
         else do {
           v73 \<leftarrow> r8 K kGblAreaId;
           (if v73 = kAreaOverlayCull then do {
             r16_74 \<leftarrow> reg K 16;
             setr K 4 r16_74;
             _ \<leftarrow> dispatch_jal K kFnOverlayCull kRaFinishOverlayCull [];
             State_Monad.return ()
           }
            else do {
              r16_75 \<leftarrow> reg K 16;
              setr K 4 r16_75;
              _ \<leftarrow> dispatch_jal K 0x8007778C kRaFinishBoundsCull [];
              State_Monad.return ()
            });
           r2_76 \<leftarrow> reg K 2;
           (if r2_76 = 0 then State_Monad.return (Inr (''after1'', propNode))
            else do {
              r16_77 \<leftarrow> reg K 16;
              setr K 4 r16_77;
              _ \<leftarrow> dispatch_jal K 0x800517F8 kRaFinishDraw [];
              State_Monad.return (Inr (''after1'', propNode))
            })
         })
      })
   }"

definition placed_prop_sm_step :: "'c core_ops \<Rightarrow> ('c, unit) state" where
  "placed_prop_sm_step K = with_frame K 24 [(16, 16), (31, 20)] (loop (\<lambda>(pc1, propNode).
      (if pc1 = ''start'' then do {
     r4_1 \<leftarrow> reg K 4;
     setr K 16 r4_1;
     let propNode = r4_1;
     v2 \<leftarrow> placed_prop_state K propNode;
     (if v2 = kStateSpawn then placed_prop_sm_step_l154 K propNode
      else if v2 = kStateActive then placed_prop_sm_step_l235 K propNode
       else placed_prop_sm_step_l345 K v2 propNode)
   }
    else if pc1 = ''after7'' then State_Monad.return (Inr (''after4'', propNode))
     else if pc1 = ''after4'' then State_Monad.return (Inr (''after1'', propNode))
      else if pc1 = ''after1'' then State_Monad.return (Inr (''after_all'', propNode))
       else if pc1 = ''activeClearGate'' then do {
         placed_prop_set_prop_gate K propNode 0;
         State_Monad.return (Inr (''activeEndOfFrame'', propNode))
       }
        else if pc1 = ''activeEndOfFrame'' then do {
          placed_prop_set_prop_status K propNode 0;
          State_Monad.return (Inr (''after1'', propNode))
        }
         else if pc1 = ''finishRender'' then placed_prop_sm_step_l381 K propNode
          else State_Monad.return (Inl ()))) (''start'', (0 :: u32)))"

section \<open>\<open>game/ai/substate_edge_native.cpp\<close>\<close>

definition substate_edge_leaves_tick_child_oscillators :: "'c core_ops \<Rightarrow> ('c, unit)
    state" where
  "substate_edge_leaves_tick_child_oscillators K = do {
     sp0 \<leftarrow> reg K 29;
     setr K 29 (sp0 - kOscFrame);
     r29_2 \<leftarrow> reg K 29;
     r17_3 \<leftarrow> reg K 17;
     w32 K (r29_2 + kOscSpillNode) r17_3;
     r4_4 \<leftarrow> reg K 4;
     setr K 17 r4_4;
     r31_5 \<leftarrow> reg K 31;
     w32 K (r29_2 + kOscSpillRa) r31_5;
     r16_6 \<leftarrow> reg K 16;
     w32 K (r29_2 + kOscSpillSlot) r16_6;
     r17_7 \<leftarrow> reg K 17;
     setr K 16 kFirstDrivenPart;
     v8 \<leftarrow> assembly_node_has_oscillating_parts K r17_7;
     only_if v8 (loop (\<lambda>_. do {
       r16_9 \<leftarrow> reg K 16;
       let k = as_s16 (as_u16 r16_9);
       v10 \<leftarrow> assembly_node_oscillator_pair_mode K r17_7;
       let slot1 = k * 4 - 4 - (if v10 then 0 else 1);
       v11 \<leftarrow> assembly_node_addr K r17_7;
       setr K 4 v11;
       setr K 5 (as_s16 (as_u16 slot1));
       setr K 31 kRaAfterPartTick;
       call_guest K 0x80130D5C;
       v12 \<leftarrow> assembly_node_oscillator_pair_mode K r17_7;
       (if \<not> v12 then State_Monad.return (Inl ())
        else do {
          r16_13 \<leftarrow> reg K 16;
          setr K 16 (as_s16 (as_u16 (r16_13 + 1)));
          r16_14 \<leftarrow> reg K 16;
          (if kPartLimit \<le>s as_s16 (as_u16 r16_14) then State_Monad.return (Inl ())
           else State_Monad.return (Inr ()))
        })
     }) ());
     r29_15 \<leftarrow> reg K 29;
     v16 \<leftarrow> r32 K (r29_15 + kOscSpillRa);
     setr K 31 v16;
     v17 \<leftarrow> r32 K (r29_15 + kOscSpillNode);
     setr K 17 v17;
     v18 \<leftarrow> r32 K (r29_15 + kOscSpillSlot);
     setr K 16 v18;
     setr K 29 sp0
   }"

section \<open>\<open>game/ai/tilt_follower.cpp\<close>\<close>

definition tilt_follower_apply_halved_owner_part_pitch :: "'c core_ops \<Rightarrow> ('c, unit)
    state" where
  "tilt_follower_apply_halved_owner_part_pitch K = with_frame K 24 [(31, 16)] (do {
     r4_1 \<leftarrow> reg K 4;
     v2 \<leftarrow> tilt_follower_node_owner K r4_1;
     v3 \<leftarrow> r32 K (v2 + kChildTable + kTiltSourceSlot * 4);
     angle \<leftarrow> tilt_source_part_child_euler_x K v3;
     let angle = (if \<not> (angle <s kWrapThreshold) then (angle OR kWrapToNegative) else angle);
     let halfPitch = sar 17 (shl angle 16);
     tilt_follower_node_set_pitch K r4_1 (as_u16 halfPitch);
     v5 \<leftarrow> tilt_follower_node_contact_state K r4_1;
     (if v5 = 0 then State_Monad.return ()
      else do {
        setr K 4 r4_1;
        _ \<leftarrow> dispatch_jal K 0x80125C4C kRaAfterContactBehaviour [];
        State_Monad.return ()
      })
   })"

end
