(* ===== verification/SeasideProximity.thy ===== *)
theory SeasideProximity
  imports GameAudio
begin

text \<open>
  The seaside proximity behaviour (\<open>game/ai/beh_seaside_prox_substate.cpp\<close>): outer
  states, and the substate ladder that reacts to the player's distance.
\<close>

section \<open>Layout\<close>

definition CAM_X_SPAD :: u32 where "CAM_X_SPAD = 0x1F800160"
definition CAM_Y_SPAD :: u32 where "CAM_Y_SPAD = 0x1F800162"
definition CAM_Z_SPAD :: u32 where "CAM_Z_SPAD = 0x1F800164"
definition GATE_SPAD_27A :: u32 where "GATE_SPAD_27A = 0x1F80027A"
definition MASTER_G_BYTE :: u32 where "MASTER_G_BYTE = 0x800E7E80"
definition GATE_BF80D :: u32 where "GATE_BF80D = 0x800BF80D"
definition INIT_DRAW_DATA :: u32 where "INIT_DRAW_DATA = 0x8014ABE8"
definition SUB_C_DATA :: u32 where "SUB_C_DATA = 0x8014AC08"
definition PROXIMITY_MAX :: u32 where "PROXIMITY_MAX = 1000"
definition beh_seaside_prox_substate_G :: u32 where "beh_seaside_prox_substate_G = 0x800E7E80"
definition G_ec8 :: u32 where "G_ec8 = 0x800E7EC8"
definition G_ecc :: u32 where "G_ecc = 0x800E7ECC"
definition G_f38 :: u32 where "G_f38 = 0x800E7F38"
definition G_f3a :: u32 where "G_f3a = 0x800E7F3A"
definition G_f3c :: u32 where "G_f3c = 0x800E7F3C"
definition EVENT_SLOT_COUNT :: u32 where "EVENT_SLOT_COUNT = 0x800BF883"
definition EVENT_SLOT_TABLE :: u32 where "EVENT_SLOT_TABLE = 0x800BF884"
definition EVENT_SLOT_ARM_BIT :: u32 where "EVENT_SLOT_ARM_BIT = 0x800BF871"
definition GATE_BFA19 :: u32 where "GATE_BFA19 = 0x800BFA19"
definition GATE_BFA17 :: u32 where "GATE_BFA17 = 0x800BFA17"
definition MODEARM_COUNTDOWN :: u32 where "MODEARM_COUNTDOWN = 0x8014C77C"
definition MODEARM_TABLE_PTR :: u32 where "MODEARM_TABLE_PTR = 0x8014ABDC"
definition MODEARM_REC_BASE :: u32 where "MODEARM_REC_BASE = 0x8014ABE6"

section \<open>\<open>game/ai/beh_seaside_prox_substate.cpp\<close>\<close>

definition bounds_cull :: "'c core_ops \<Rightarrow> u32 \<Rightarrow> ('c, u32) state" where
  "bounds_cull K o1 = do {
     setr K 4 o1;
     call_guest K 0x8007778C;
     reg K 2
   }"

definition cam_distance :: "'c core_ops \<Rightarrow> u32 \<Rightarrow> ('c, u32) state" where
  "cam_distance K o1 = do {
     v1 \<leftarrow> r16 K CAM_X_SPAD;
     v2 \<leftarrow> r16 K (o1 + 0x2E);
     setr K 4 (as_s16 v1 - (as_s16 v2));
     v3 \<leftarrow> r16 K CAM_Y_SPAD;
     v4 \<leftarrow> r16 K (o1 + 0x32);
     setr K 5 (as_s16 v3 - (as_s16 v4));
     v5 \<leftarrow> r16 K CAM_Z_SPAD;
     v6 \<leftarrow> r16 K (o1 + 0x36);
     setr K 6 (as_s16 v5 - (as_s16 v6));
     call_guest K 0x80078240;
     reg K 2
   }"

definition mode_arm :: "'c core_ops \<Rightarrow> u32 \<Rightarrow> ('c, unit) state" where
  "mode_arm K mode = (if mode = 0 then w8 K MODEARM_COUNTDOWN 0
    else do {
      v1 \<leftarrow> r8 K MODEARM_COUNTDOWN;
      let after1 = as_u8 (v1 - 1);
      w8 K MODEARM_COUNTDOWN after1;
      (if 0 <s as_s8 after1 then State_Monad.return ()
       else do {
         ptr \<leftarrow> r32 K MODEARM_TABLE_PTR;
         v3 \<leftarrow> r8 K ptr;
         ptr \<leftarrow> (if v3 = 0xFF then do {
           v4 \<leftarrow> r8 K (ptr + 1);
           let ptr = ptr - v4;
           w32 K MODEARM_TABLE_PTR ptr;
           State_Monad.return ptr
         }
          else State_Monad.return ptr);
         vramBase \<leftarrow> r32 K (MODEARM_REC_BASE - 6);
         index \<leftarrow> r8 K ptr;
         v7 \<leftarrow> r8 K (ptr + 1);
         w8 K MODEARM_COUNTDOWN v7;
         x \<leftarrow> r16 K (MODEARM_REC_BASE - 2);
         y \<leftarrow> r16 K MODEARM_REC_BASE;
         r29_10 \<leftarrow> reg K 29;
         let frameSp = r29_10 - 0x30;
         let sp0 = frameSp + 0x10;
         w16 K (sp0 + 0) x;
         w16 K (sp0 + 2) y;
         w16 K (sp0 + 4) 0x10;
         w16 K (sp0 + 6) 1;
         setr K 4 sp0;
         setr K 5 (vramBase + index * 0x20);
         let saveSp = r29_10;
         setr K 29 frameSp;
         call_guest K 0x80081218;
         setr K 29 saveSp;
         w32 K MODEARM_TABLE_PTR (ptr + 2)
       })
    })"

definition draw_init :: "'c core_ops \<Rightarrow> u32 \<Rightarrow> u32 \<Rightarrow> ('c, unit)
    state" where
  "draw_init K obj data = do {
     let found = False;
     count1 \<leftarrow> r8 K EVENT_SLOT_COUNT;
     found \<leftarrow> (if count1 \<noteq> 0 then do {
       out4 \<leftarrow> each_until (upto_u32 (unat count1)) found (\<lambda>k found. do {
         v2 \<leftarrow> r8 K (EVENT_SLOT_TABLE + k);
         v3 \<leftarrow> r16 K (obj + 0x7E);
         (if (v2 AND 0x7F) = v3 then do { let found = True; State_Monad.return (Inl found) }
          else State_Monad.return (Inr found))
       });
       State_Monad.return (loop_value out4)
     }
      else State_Monad.return found);
     (if \<not> found then w8 K (obj + 4) 3
      else do {
        v5 \<leftarrow> r8 K GATE_BFA19;
        v6 \<leftarrow> r8 K (obj + 3);
        (if ((shr v5 (unat (v6 AND 0x1F))) AND 1) \<noteq> 0 then w8 K (obj + 4) 3
         else do {
           setr K 4 obj;
           setr K 5 data;
           call_guest K 0x8013B534;
           r2_7 \<leftarrow> reg K 2;
           (if r2_7 \<noteq> 0 then w8 K (obj + 4) 3
            else do {
              v8 \<leftarrow> r8 K EVENT_SLOT_ARM_BIT;
              v9 \<leftarrow> r16 K (obj + 0x7A);
              (if v8 = v9 then do {
                v10 \<leftarrow> r32 K (obj + 0xC4);
                w16 K (v10 + 0xA) 0x800;
                v11 \<leftarrow> r32 K (obj + 0xC8);
                w16 K (v11 + 0xA) 0x800;
                w8 K (obj + 4) 1;
                w8 K (obj + 5) 0;
                w8 K (obj + 0x5E) 2
              }
               else do {
                 v12 \<leftarrow> r8 K GATE_BFA17;
                 v13 \<leftarrow> r8 K (obj + 3);
                 (if ((shr v12 (unat (v13 AND 0x1F))) AND 1) = 0 then do {
                   v14 \<leftarrow> r8 K (obj + 5);
                   w8 K (obj + 5) (v14 + 1)
                 }
                  else do {
                    v15 \<leftarrow> r32 K (obj + 0xC4);
                    w16 K (v15 + 0xA) 0x800;
                    v16 \<leftarrow> r32 K (obj + 0xC8);
                    w16 K (v16 + 0xA) 0x800;
                    w8 K (obj + 0) 1;
                    w8 K (obj + 4) 1;
                    w8 K (obj + 5) 0;
                    w8 K (obj + 0x5E) 1
                  })
               })
            })
         })
      })
   }"

definition sub_a :: "'c core_ops \<Rightarrow> u32 \<Rightarrow> ('c, unit) state" where
  "sub_a K obj = do {
     v1 \<leftarrow> r8 K (obj + 5);
     (if v1 = 0 then do {
       w8 K 0x1F800137 2;
       w8 K 0x800BF841 1;
       setr K 4 8;
       call_guest K 0x8006E1C0;
       setr K 4 (obj + 0x2C);
       call_guest K 0x8006CBA8;
       v2 \<leftarrow> r16 K (obj + 0x32);
       w16 K 0x1F8000D6 v2;
       v3 \<leftarrow> r8 K (obj + 5);
       w8 K (obj + 5) (v3 + 1)
     }
      else if v1 = 1 then do {
        v4 \<leftarrow> r8 K 0x800E806E;
        (if (v4 AND 3) \<noteq> 3 then State_Monad.return ()
         else do {
           v5 \<leftarrow> r8 K (obj + 5);
           w8 K (obj + 5) (v5 + 1);
           v6 \<leftarrow> r16 K (obj + 0x36);
           v7 \<leftarrow> r16 K (G_eb4 + 2);
           let dy = - (as_s16 (v6 - v7));
           v8 \<leftarrow> r16 K (obj + 0x2E);
           v9 \<leftarrow> r16 K (G_eac + 2);
           let dx = as_s16 (v8 - v9);
           ang \<leftarrow> trig_ratan2 K dy dx;
           v11 \<leftarrow> r16s K (obj + 0x60);
           let face = angle_cmp (as_s16 ang) v11 0;
           w8 K (obj + 0x46) face;
           sfx_trigger K 0x17 (- 0x12) 0x1E
         })
      }
       else if v1 = 2 then do {
         v12 \<leftarrow> r8 K (obj + 0x46);
         (if v12 = 0 then do {
           v13 \<leftarrow> r32 K (obj + 0xC4);
           v14 \<leftarrow> r32 K (obj + 0xC4);
           v15 \<leftarrow> r16s K (v14 + 0xA);
           w16 K (v13 + 0xA) (v15 - 0x40);
           v16 \<leftarrow> r32 K (obj + 0xC8);
           v17 \<leftarrow> r32 K (obj + 0xC8);
           v18 \<leftarrow> r16s K (v17 + 0xA);
           w16 K (v16 + 0xA) (v18 + 0x40);
           v19 \<leftarrow> r32 K (obj + 0xC4);
           v20 \<leftarrow> r16s K (v19 + 0xA);
           (if - 0x7FF \<le>s v20 then State_Monad.return ()
            else do { v21 \<leftarrow> r8 K (obj + 5); w8 K (obj + 5) (v21 + 1) })
         }
          else do {
            v22 \<leftarrow> r32 K (obj + 0xC4);
            v23 \<leftarrow> r32 K (obj + 0xC4);
            v24 \<leftarrow> r16s K (v23 + 0xA);
            w16 K (v22 + 0xA) (v24 + 0x40);
            v25 \<leftarrow> r32 K (obj + 0xC8);
            v26 \<leftarrow> r32 K (obj + 0xC8);
            v27 \<leftarrow> r16s K (v26 + 0xA);
            w16 K (v25 + 0xA) (v27 - 0x40);
            v28 \<leftarrow> r32 K (obj + 0xC4);
            v29 \<leftarrow> r16s K (v28 + 0xA);
            (if v29 <s 0x800 then State_Monad.return ()
             else do { v30 \<leftarrow> r8 K (obj + 5); w8 K (obj + 5) (v30 + 1) })
          })
       }
        else if v1 = 3 then do {
          w16 K (obj + 0x40) 0x1E;
          v31 \<leftarrow> r8 K (obj + 5);
          w8 K (obj + 5) (v31 + 1)
        }
         else if v1 = 4 then do {
           v32 \<leftarrow> r16s K (obj + 0x40);
           let left = v32 - 1;
           w16 K (obj + 0x40) left;
           only_if (left = 0) (do {
             w8 K 0x1F800137 0;
             w8 K 0x800BF841 0;
             call_guest K 0x8006E1E4;
             v33 \<leftarrow> r8 K GATE_BFA17;
             v34 \<leftarrow> r8 K (obj + 3);
             w8 K GATE_BFA17 (v33 OR (shl 1 (unat (v34 AND 0x1F))));
             w8 K (obj + 0x5E) 1;
             w8 K (obj + 0) 1;
             w8 K (obj + 5) 0
           })
         }
          else State_Monad.return ())
   }"

definition sub_b :: "'c core_ops \<Rightarrow> u32 \<Rightarrow> ('c, unit) state" where
  "sub_b K obj = do {
     sub1 \<leftarrow> r8 K (obj + 5);
     (if sub1 = 1 then do {
       v2 \<leftarrow> r16 K G_eb2;
       let hi = as_s16 v2;
       v3 \<leftarrow> r16s K (obj + 0x32);
       (if v3 <s hi then do {
         let nv = as_s16 (hi - 0x14);
         w16 K G_eb2 nv;
         v4 \<leftarrow> r16s K (obj + 0x32);
         only_if (nv <s v4) (do { v5 \<leftarrow> r16s K (obj + 0x32); w16 K G_eb2 v5 })
       }
        else do {
          let nv = as_s16 (hi + 0x14);
          v6 \<leftarrow> r16s K (obj + 0x32);
          only_if (hi <s v6) (do {
            w16 K G_eb2 nv;
            v7 \<leftarrow> r16s K (obj + 0x32);
            only_if (v7 <s nv) (do { v8 \<leftarrow> r16s K (obj + 0x32); w16 K G_eb2 v8 })
          })
        });
       v9 \<leftarrow> r32 K G_eac;
       v10 \<leftarrow> r16s K (obj + 0x44);
       v11 \<leftarrow> r16s K G_ec8;
       w32 K G_eac (v9 + v10 * v11);
       v12 \<leftarrow> r32 K G_eb4;
       v13 \<leftarrow> r16s K (obj + 0x44);
       v14 \<leftarrow> r16s K G_ecc;
       w32 K G_eb4 (v12 + v13 * v14);
       setr K 4 beh_seaside_prox_substate_G;
       call_guest K 0x8004766C;
       setr K 4 beh_seaside_prox_substate_G;
       call_guest K 0x80048750;
       v15 \<leftarrow> r16s K G_f38;
       w16 K G_f38 (v15 - 0x80);
       v16 \<leftarrow> r16s K G_f3a;
       w16 K G_f3a (v16 - 0x80);
       v17 \<leftarrow> r16s K G_f3c;
       w16 K G_f3c (v17 - 0x80);
       v18 \<leftarrow> r16s K G_f38;
       only_if (v18 <s 0x101) (do {
         v19 \<leftarrow> r8 K (obj + 5);
         w8 K (obj + 5) (v19 + 1)
       })
     }
      else if sub1 < 2 then do {
        v20 \<leftarrow> r8 K (obj + 0x29);
        only_if (sub1 = 0 \<and> v20 \<noteq> 0) (do {
          w8 K (obj + 5) 1;
          v21 \<leftarrow> r16 K (obj + 0x36);
          v22 \<leftarrow> r32 K G_eb4;
          let dy = - (as_s16 (v21 - (as_s16 (shr v22 16))));
          v23 \<leftarrow> r16 K (obj + 0x2E);
          v24 \<leftarrow> r32 K G_eac;
          let dx = as_s16 (v23 - (as_s16 (shr v24 16)));
          ang \<leftarrow> trig_ratan2 K dy dx;
          v26 \<leftarrow> r16s K (obj + 0x60);
          let face = angle_cmp (as_s16 ang) v26 0;
          w8 K (obj + 0x46) face;
          w16 K (obj + 0x44) (if face \<noteq> 0 then 0xF800 else 0x0800)
        })
      }
       else do {
         w8 K (obj + 5) 3;
         w8 K 0x1F800236 7;
         w8 K 0x800BF839 1;
         v27 \<leftarrow> r8 K (obj + 0xBF);
         w16 K 0x800BF83A (shl v27 4)
       })
   }"

definition sub_c :: "'c core_ops \<Rightarrow> u32 \<Rightarrow> u32 \<Rightarrow> ('c, unit)
    state" where
  "sub_c K obj data = do {
     v1 \<leftarrow> r8 K (obj + 5);
     (if v1 = 0 then do {
       w16 K (obj + 0x40) 0x3C;
       v2 \<leftarrow> r8 K (obj + 5);
       w8 K (obj + 5) (v2 + 1);
       v3 \<leftarrow> r8 K 0x800BF80F;
       (if v3 \<noteq> 0 then State_Monad.return ()
        else do {
          v4 \<leftarrow> r8 K (obj + 5);
          w8 K (obj + 5) (v4 + 1);
          w8 K 0x1F800137 2;
          v5 \<leftarrow> r8 K GATE_BFA19;
          v6 \<leftarrow> r8 K (obj + 3);
          w8 K GATE_BFA19 (v5 OR (shl 1 (unat (v6 AND 0x1F))));
          setr K 4 8;
          call_guest K 0x8006E1C0;
          v7 \<leftarrow> r16 K (data + 0);
          w16 K 0x1F8000D2 v7;
          v8 \<leftarrow> r16 K (data + 2);
          w16 K 0x1F8000D6 v8;
          v9 \<leftarrow> r16 K (data + 4);
          w16 K 0x1F8000DA v9;
          v10 \<leftarrow> r16 K (data + 6);
          w16 K (0x800E8040 + 2) v10;
          v11 \<leftarrow> r16 K (data + 8);
          w16 K (0x800E8044 + 2) v11;
          v12 \<leftarrow> r16 K (data + 0xA);
          w16 K (0x800E8048 + 2) v12;
          w8 K (beh_seaside_prox_substate_G + 4) 4;
          w8 K (beh_seaside_prox_substate_G + 5) 0x21;
          w8 K (beh_seaside_prox_substate_G + 6) 0
        })
     }
      else if v1 = 1 then do {
        v13 \<leftarrow> r8 K 0x800BF80F;
        (if v13 \<noteq> 0 then State_Monad.return ()
         else do {
           v14 \<leftarrow> r8 K (obj + 5);
           w8 K (obj + 5) (v14 + 1);
           w8 K 0x1F800137 2;
           v15 \<leftarrow> r8 K GATE_BFA19;
           v16 \<leftarrow> r8 K (obj + 3);
           w8 K GATE_BFA19 (v15 OR (shl 1 (unat (v16 AND 0x1F))));
           setr K 4 8;
           call_guest K 0x8006E1C0;
           v17 \<leftarrow> r16 K (data + 0);
           w16 K 0x1F8000D2 v17;
           v18 \<leftarrow> r16 K (data + 2);
           w16 K 0x1F8000D6 v18;
           v19 \<leftarrow> r16 K (data + 4);
           w16 K 0x1F8000DA v19;
           v20 \<leftarrow> r16 K (data + 6);
           w16 K (0x800E8040 + 2) v20;
           v21 \<leftarrow> r16 K (data + 8);
           w16 K (0x800E8044 + 2) v21;
           v22 \<leftarrow> r16 K (data + 0xA);
           w16 K (0x800E8048 + 2) v22;
           w8 K (beh_seaside_prox_substate_G + 4) 4;
           w8 K (beh_seaside_prox_substate_G + 5) 0x21;
           w8 K (beh_seaside_prox_substate_G + 6) 0
         })
      }
       else if v1 = 2 then do {
         v23 \<leftarrow> r8 K 0x800E806E;
         only_if (v23 = 3) (do {
           v24 \<leftarrow> r8 K (obj + 5);
           w8 K (obj + 5) (v24 + 1)
         })
       }
        else if v1 = 3 then do {
          v25 \<leftarrow> r16s K (obj + 0x40);
          let left = as_s16 (v25 - 1);
          w16 K (obj + 0x40) left;
          (if left = -1 then do {
            w16 K (obj + 0x40) 0x3C;
            v26 \<leftarrow> r8 K (obj + 5);
            w8 K (obj + 5) (v26 + 1);
            r29_27 \<leftarrow> reg K 29;
            let frameSp = r29_27 - 0x30;
            let sp0 = frameSp + 0x10;
            v28 \<leftarrow> r16 K (obj + 0x2E);
            w16 K (sp0 + 2) v28;
            v29 \<leftarrow> r16s K (obj + 0x32);
            w16 K (sp0 + 6) (v29 + 0x80);
            v30 \<leftarrow> r16 K (obj + 0x36);
            w16 K (sp0 + 0xA) v30;
            let saveSp = r29_27;
            setr K 29 frameSp;
            setr K 4 0x15;
            setr K 5 sp0;
            setr K 6 (- 0x32);
            call_guest K 0x8003116C;
            rec1 \<leftarrow> reg K 2;
            v32 \<leftarrow> r8 K (rec1 + 0x28);
            w8 K (rec1 + 0x28) (v32 OR 0x80);
            setr K 4 0x24;
            setr K 5 sp0;
            setr K 6 (- 0x32);
            call_guest K 0x8003116C;
            rec2 \<leftarrow> reg K 2;
            v34 \<leftarrow> r8 K (rec2 + 0x28);
            w8 K (rec2 + 0x28) (v34 OR 0x80);
            setr K 29 saveSp;
            link1 \<leftarrow> r32 K (obj + 0xC0);
            v36 \<leftarrow> r32 K (link1 + 0x40);
            setr K 4 v36;
            setr K 5 (obj + 0x2C);
            setr K 6 0x800;
            setr K 7 8;
            call_guest K 0x80027144;
            sfx_trigger K 0xC 0 0;
            v37 \<leftarrow> r32 K (link1 + 0x40);
            setr K 4 v37;
            setr K 5 (obj + 0x2C);
            setr K 6 0x600;
            setr K 7 0x18;
            call_guest K 0x80027144;
            sfx_trigger K 0xC 0 0;
            link2 \<leftarrow> r32 K (obj + 0xC4);
            v39 \<leftarrow> r32 K (link2 + 0x40);
            setr K 4 v39;
            setr K 5 (obj + 0x2C);
            setr K 6 0x800;
            setr K 7 8;
            call_guest K 0x80027144;
            sfx_trigger K 0xC 0 0;
            v40 \<leftarrow> r32 K (link2 + 0x40);
            setr K 4 v40;
            setr K 5 (obj + 0x2C);
            setr K 6 0x600;
            setr K 7 0x18;
            call_guest K 0x80027144;
            sfx_trigger K 0xC 0 0;
            link3 \<leftarrow> r32 K (obj + 0xC8);
            v42 \<leftarrow> r32 K (link3 + 0x40);
            setr K 4 v42;
            setr K 5 (obj + 0x2C);
            setr K 6 0x800;
            setr K 7 8;
            call_guest K 0x80027144;
            sfx_trigger K 0xC 0 0;
            v43 \<leftarrow> r32 K (link3 + 0x40);
            setr K 4 v43;
            setr K 5 (obj + 0x2C);
            setr K 6 0x600;
            setr K 7 0x18;
            call_guest K 0x80027144;
            sfx_trigger K 0xC 0 0
          }
           else do {
             link1 \<leftarrow> r32 K (obj + 0xC0);
             v45 \<leftarrow> r8 K 0x1F80017C;
             w16 K (link1 + 2) ((v45 AND 1) * 6);
             setr K 4 0;
             call_guest K 0x8009A450;
             r2_46 \<leftarrow> reg K 2;
             w16 K link1 (((r2_46 AND 3) - 2) * 6)
           })
        }
         else only_if (v1 = 4) (do {
           v47 \<leftarrow> r16s K (obj + 0x40);
           let left = as_s16 (v47 - 1);
           w16 K (obj + 0x40) left;
           only_if (left = -1) (do {
             w8 K (obj + 4) 3;
             w8 K 0x1F800137 0;
             call_guest K 0x8006E1E4
           });
           w8 K (obj + 1) 0
         }))
   }"

definition state_init :: "'c core_ops \<Rightarrow> u32 \<Rightarrow> ('c, unit) state" where
  "state_init K obj = do {
     sub1 \<leftarrow> r8 K (obj + 5);
     (if sub1 = 2 then do {
       v2 \<leftarrow> cam_distance K obj;
       (if PROXIMITY_MAX <s v2 then State_Monad.return ()
        else do {
          v3 \<leftarrow> r8 K GATE_SPAD_27A;
          (if v3 \<noteq> 0 then State_Monad.return ()
           else do {
             v4 \<leftarrow> r8 K MASTER_G_BYTE;
             (if v4 = 6 then State_Monad.return ()
              else do {
                v5 \<leftarrow> r8 K GATE_BF80D;
                (if v5 \<noteq> 0 then State_Monad.return ()
                 else do { w8 K (obj + 4) 1; w8 K (obj + 5) 0; w8 K (obj + 0x5E) 0 })
              })
           })
        })
     }
      else if sub1 = 0 then do {
        mode_arm K 0;
        w8 K (obj + 0xBF) 0xE0;
        w16 K (obj + 0x7E) 0x1B;
        w16 K (obj + 0x7C) 0x400;
        w16 K (obj + 0x7A) 0x0B;
        w16 K (obj + 0x78) 0x30;
        w8 K (obj + 5) (sub1 + 1);
        draw_init K obj INIT_DRAW_DATA
      }
       else if sub1 \<noteq> 1 then State_Monad.return ()
        else draw_init K obj INIT_DRAW_DATA)
   }"

definition state_running :: "'c core_ops \<Rightarrow> u32 \<Rightarrow> ('c, unit) state" where
  "state_running K obj = do {
     v1 \<leftarrow> bounds_cull K obj;
     only_if (v1 \<noteq> 0) (do {
       mode_arm K 1;
       _ \<leftarrow> guest_call K 0x80051844 [obj];
       State_Monad.return ()
     });
     sub1 \<leftarrow> r8 K (obj + 0x5E);
     (if sub1 = 0 then sub_a K obj
      else if sub1 = 1 then sub_b K obj else only_if (sub1 = 2) (sub_c K obj SUB_C_DATA));
     w8 K (obj + 0x29) 0
   }"

definition beh_seaside_prox_substate_body :: "'c core_ops \<Rightarrow> ('c, unit) state" where
  "beh_seaside_prox_substate_body K = do {
     obj \<leftarrow> reg K 4;
     st \<leftarrow> r8 K (obj + 4);
     (if st = 1 then state_running K obj
      else if st = 0 then state_init K obj else only_if (st = 3) (despawn K obj))
   }"

definition beh_seaside_prox_substate :: "'c core_ops \<Rightarrow> ('c, unit) state" where
  "beh_seaside_prox_substate K = do {
     r29_1 \<leftarrow> reg K 29;
     setr K 29 (r29_1 - 0x20);
     beh_seaside_prox_substate_body K;
     r29_2 \<leftarrow> reg K 29;
     setr K 29 (r29_2 + 0x20)
   }"

end
