(* ===== verification/SopIntro.thy ===== *)
theory SopIntro
  imports CullWrappers PlayerActor ScriptInterpreter WorldTables
begin

text \<open>
  The opening sequence: its events, shadows, narration and pilot behaviours.
\<close>

section \<open>Layout\<close>

definition MODEL_META_PTR :: u32 where "MODEL_META_PTR = 0x800ECFA0"
definition MODEL_DATA_PTR :: u32 where "MODEL_DATA_PTR = 0x8010CB08"
definition Y_LIFT :: u32 where "Y_LIFT = 0x60"
definition NARRATION_BEAT :: u32 where "NARRATION_BEAT = 5"
definition MODEL_ID :: u32 where "MODEL_ID = 0x0F"
definition beh_sop_intro_narration_MODEL_META_PTR :: u32 where "beh_sop_intro_narration_MODEL_META_PTR = 0x800ECFA4"
definition beh_sop_intro_narration_MODEL_DATA_PTR :: u32 where "beh_sop_intro_narration_MODEL_DATA_PTR = 0x8010C9B0"
definition G_ANIM_ALT_PTR :: u32 where "G_ANIM_ALT_PTR = 0x800ECFA8"
definition beh_sop_intro_narration_ANIM_ENV_PTR :: u32 where "beh_sop_intro_narration_ANIM_ENV_PTR = 0x8010D39C"
definition SPAWN_TYPE :: u32 where "SPAWN_TYPE = 0x2B"
definition SPAWN_Z_OFFSET :: u32 where "SPAWN_Z_OFFSET = 0x76C"
definition Z_SCROLL_STEP :: u32 where "Z_SCROLL_STEP = 10"
definition G_MODEL_TABLE :: u32 where "G_MODEL_TABLE = 0x800ED014"
definition G_ANIM_TABLE :: u32 where "G_ANIM_TABLE = 0x800ECF68"
definition beh_sop_intro_pilot_MODEL_ID :: u32 where "beh_sop_intro_pilot_MODEL_ID = 0x11"
definition beh_sop_intro_pilot_MODEL_META_PTR :: u32 where "beh_sop_intro_pilot_MODEL_META_PTR = 0x800A3FA8"
definition ANIM_ENV_PTR :: u32 where "ANIM_ENV_PTR = 0x80017FE8"
definition ANIM_DATA_PTR :: u32 where "ANIM_DATA_PTR = 0x8010CA28"
definition SHADOW_HANDLER :: u32 where "SHADOW_HANDLER = 0x8010AB38"
definition SHADOW_DRAWFN :: u32 where "SHADOW_DRAWFN = 0x8002AB5C"
definition BEAT_LIMIT :: u32 where "BEAT_LIMIT = 5"

section \<open>\<open>game/ai/beh_sop_intro_lifted.cpp\<close>\<close>

definition try_model_attach :: "'c core_ops \<Rightarrow> u32 \<Rightarrow> ('c, u32) state" where
  "try_model_attach K obj = do {
     setr K 4 obj;
     setr K 5 MODEL_ID;
     v1 \<leftarrow> r32 K MODEL_META_PTR;
     setr K 6 v1;
     setr K 7 MODEL_DATA_PTR;
     call_guest K 0x800519E0;
     reg K 2
   }"

section \<open>\<open>game/ai/sop_overlay_shadow.cpp\<close>\<close>

definition native_sop_overlay_shadow_spawn :: "'c core_ops \<Rightarrow> u32 \<Rightarrow> ('c,
    u32) state" where
  "native_sop_overlay_shadow_spawn K parent = do {
     node \<leftarrow> spawn_dispatch K 0 6 1;
     (if node = 0 then State_Monad.return 0
      else do {
        w32 K (node + 0x1C) SHADOW_HANDLER;
        w8 K (node + 0x0B) 0x20;
        w32 K (node + 0x10) parent;
        w32 K (node + 0x18) SHADOW_DRAWFN;
        v2 \<leftarrow> r8 K (node + 0x28);
        w8 K (node + 0x28) (v2 OR 0x80);
        State_Monad.return node
      })
   }"

section \<open>\<open>game/ai/beh_sop_intro_lifted.cpp\<close>\<close>

definition overlay_oneshot :: "'c core_ops \<Rightarrow> u32 \<Rightarrow> ('c, unit) state" where
  "overlay_oneshot K obj = do {
     _ \<leftarrow> native_sop_overlay_shadow_spawn K obj;
     State_Monad.return ()
   }"

definition anim_graphics_tick :: "'c core_ops \<Rightarrow> u32 \<Rightarrow> ('c, unit) state"
    where
  "anim_graphics_tick K o1 = do {
     _ \<leftarrow> anim_tick K o1;
     State_Monad.return ()
   }"

definition post_cull_update :: "'c core_ops \<Rightarrow> u32 \<Rightarrow> ('c, unit) state"
    where
  "post_cull_update K o1 = node_xform_build_with_offset K o1"

definition beh_sop_intro_lifted_state_init :: "'c core_ops \<Rightarrow> u32 \<Rightarrow> ('c,
    unit) state" where
  "beh_sop_intro_lifted_state_init K obj = do {
     v1 \<leftarrow> try_model_attach K obj;
     (if v1 \<noteq> 0 then State_Monad.return ()
      else do {
        v2 \<leftarrow> r32 K G_ANIM_TABLE;
        w32 K (obj + 0x3C) v2;
        _ \<leftarrow> guest_call K 0x80077C40 [obj, ANIM_ENV_PTR, 2];
        w16 K (obj + 0x84) 0x60;
        w8 K (obj + 3) 1;
        v3 \<leftarrow> r8 K (obj + 4);
        w8 K (obj + 4) (v3 + 1);
        v4 \<leftarrow> r16 K (obj + 0x32);
        let y = as_s16 v4;
        w16 K (obj + 0x32) (y - Y_LIFT);
        overlay_oneshot K obj
      })
   }"

definition beh_sop_intro_lifted_state_running :: "'c core_ops \<Rightarrow> u32 \<Rightarrow> ('c,
    unit) state" where
  "beh_sop_intro_lifted_state_running K obj = do {
     _ \<leftarrow> guest_call K 0x8007778C [obj];
     _ \<leftarrow> guest_call K 0x8010B588 [obj];
     anim_graphics_tick K obj;
     post_cull_update K obj
   }"

definition beh_sop_intro_lifted :: "'c core_ops \<Rightarrow> ('c, unit) state" where
  "beh_sop_intro_lifted K = with_frame K 32 [(16, 16), (31, 28), (18, 24), (17, 20)] (do {
     obj \<leftarrow> reg K 4;
     st \<leftarrow> r8 K (obj + 4);
     (if st = 1 then beh_sop_intro_lifted_state_running K obj
      else if st = 0 then beh_sop_intro_lifted_state_init K obj
       else only_if (st = 3) (despawn K obj))
   })"

section \<open>\<open>game/ai/beh_sop_intro_narration.cpp\<close>\<close>

definition beh_sop_intro_narration_try_model_attach :: "'c core_ops \<Rightarrow> u32
    \<Rightarrow> ('c, u32) state" where
  "beh_sop_intro_narration_try_model_attach K obj = do {
     setr K 4 obj;
     setr K 5 MODEL_ID;
     v1 \<leftarrow> r32 K beh_sop_intro_narration_MODEL_META_PTR;
     setr K 6 v1;
     setr K 7 beh_sop_intro_narration_MODEL_DATA_PTR;
     call_guest K 0x800519E0;
     reg K 2
   }"

definition beh_sop_intro_narration_anim_graphics_tick :: "'c core_ops \<Rightarrow> u32
    \<Rightarrow> ('c, unit) state" where
  "beh_sop_intro_narration_anim_graphics_tick K o1 = do {
     _ \<leftarrow> anim_tick K o1;
     State_Monad.return ()
   }"

definition beh_sop_intro_narration_post_cull_update :: "'c core_ops \<Rightarrow> u32
    \<Rightarrow> ('c, unit) state" where
  "beh_sop_intro_narration_post_cull_update K o1 = node_xform_build_with_offset K o1"

definition beh_sop_intro_narration_bounds_cull :: "'c core_ops \<Rightarrow> u32 \<Rightarrow>
    ('c, unit) state" where
  "beh_sop_intro_narration_bounds_cull K o1 = do {
     setr K 4 o1;
     call_guest K 0x8007778C
   }"

definition spawn_narration_prop :: "'c core_ops \<Rightarrow> u32 \<Rightarrow> ('c, unit) state"
    where
  "spawn_narration_prop K obj = do {
     sp_save \<leftarrow> reg K 29;
     ra_save \<leftarrow> reg K 31;
     setr K 29 (sp_save - 0x30);
     r29_3 \<leftarrow> reg K 29;
     let blk = r29_3 + 16;
     sx \<leftarrow> r16 K (obj + 0x2E);
     sy \<leftarrow> r16 K (obj + 0x32);
     v6 \<leftarrow> r16 K (obj + 0x36);
     let z = as_s16 (v6 + SPAWN_Z_OFFSET);
     w16 K (blk + 0x02) sx;
     w16 K (blk + 0x06) sy;
     w16 K (blk + 0x0A) z;
     setr K 4 SPAWN_TYPE;
     setr K 5 blk;
     setr K 6 0;
     call_guest K 0x8003116C;
     setr K 29 sp_save;
     setr K 31 ra_save
   }"

definition beh_sop_intro_narration_state_init :: "'c core_ops \<Rightarrow> u32 \<Rightarrow> ('c,
    unit) state" where
  "beh_sop_intro_narration_state_init K obj = do {
     v1 \<leftarrow> beh_sop_intro_narration_try_model_attach K obj;
     (if v1 \<noteq> 0 then State_Monad.return ()
      else do {
        v2 \<leftarrow> r32 K G_ANIM_ALT_PTR;
        w32 K (obj + 0x3C) v2;
        _ \<leftarrow> guest_call K 0x80077C40 [obj, beh_sop_intro_narration_ANIM_ENV_PTR, 0];
        w16 K (obj + 0x56) 0x400;
        w16 K (obj + 0x54) 0x200;
        v3 \<leftarrow> r8 K (obj + 4);
        w8 K (obj + 4) (v3 + 1)
      })
   }"

definition beh_sop_intro_narration_state_running :: "'c core_ops \<Rightarrow> u32 \<Rightarrow>
    ('c, unit) state" where
  "beh_sop_intro_narration_state_running K obj = do {
     v1 \<leftarrow> r8 K SCENE_BEAT;
     (if v1 \<noteq> NARRATION_BEAT then State_Monad.return ()
      else do {
        sub1 \<leftarrow> r8 K (obj + 5);
        (if sub1 = 0 then do { spawn_narration_prop K obj; w8 K (obj + 5) (sub1 + 1) }
         else only_if (sub1 = 1) (do {
           v3 \<leftarrow> r16 K (obj + 0x36);
           let z = as_s16 v3;
           w16 K (obj + 0x36) (z + Z_SCROLL_STEP);
           beh_sop_intro_narration_anim_graphics_tick K obj;
           beh_sop_intro_narration_post_cull_update K obj;
           beh_sop_intro_narration_bounds_cull K obj
         }))
      })
   }"

definition beh_sop_intro_narration :: "'c core_ops \<Rightarrow> ('c, unit) state" where
  "beh_sop_intro_narration K = with_frame K 48 [(16, 32), (31, 40), (17, 36)] (do {
     obj \<leftarrow> reg K 4;
     st \<leftarrow> r8 K (obj + 4);
     (if st = 1 then beh_sop_intro_narration_state_running K obj
      else if st = 0 then beh_sop_intro_narration_state_init K obj
       else only_if (st = 2 \<or> st = 3) (despawn K obj))
   })"

section \<open>\<open>game/ai/beh_sop_intro_pilot.cpp\<close>\<close>

definition master_g_tick :: "'c core_ops \<Rightarrow> ('c, unit) state" where
  "master_g_tick K = upload_mode_sprites K"

definition beh_sop_intro_pilot_try_model_attach :: "'c core_ops \<Rightarrow> u32 \<Rightarrow>
    ('c, u32) state" where
  "beh_sop_intro_pilot_try_model_attach K obj = do {
     setr K 4 obj;
     setr K 5 beh_sop_intro_pilot_MODEL_ID;
     v1 \<leftarrow> r32 K G_MODEL_TABLE;
     setr K 6 v1;
     setr K 7 beh_sop_intro_pilot_MODEL_META_PTR;
     call_guest K 0x800519E0;
     reg K 2
   }"

definition anim_env_setup :: "'c core_ops \<Rightarrow> u32 \<Rightarrow> ('c, unit) state" where
  "anim_env_setup K obj = script_interp_init K obj ANIM_ENV_PTR ANIM_DATA_PTR"

definition walk_start :: "'c core_ops \<Rightarrow> u32 \<Rightarrow> ('c, unit) state" where
  "walk_start K obj = do {
     _ \<leftarrow> engine_walk_start K obj 8 0;
     State_Monad.return ()
   }"

definition beh_sop_intro_pilot_overlay_oneshot :: "'c core_ops \<Rightarrow> u32 \<Rightarrow>
    ('c, unit) state" where
  "beh_sop_intro_pilot_overlay_oneshot K obj = do {
     _ \<leftarrow> native_sop_overlay_shadow_spawn K obj;
     State_Monad.return ()
   }"

definition beh_sop_intro_pilot_bounds_cull :: "'c core_ops \<Rightarrow> u32 \<Rightarrow> ('c,
    u32) state" where
  "beh_sop_intro_pilot_bounds_cull K obj = do {
     setr K 4 obj;
     call_guest K 0x8007778C;
     reg K 2
   }"

definition beh_sop_intro_pilot_post_cull_update :: "'c core_ops \<Rightarrow> u32 \<Rightarrow>
    ('c, unit) state" where
  "beh_sop_intro_pilot_post_cull_update K obj = node_xform_build_with_offset K obj"

definition beh_sop_intro_pilot_anim_graphics_tick :: "'c core_ops \<Rightarrow> u32 \<Rightarrow>
    ('c, unit) state" where
  "beh_sop_intro_pilot_anim_graphics_tick K obj = do {
     _ \<leftarrow> anim_tick K obj;
     State_Monad.return ()
   }"

definition beh_sop_intro_pilot_state_init :: "'c core_ops \<Rightarrow> u32 \<Rightarrow> ('c,
    unit) state" where
  "beh_sop_intro_pilot_state_init K obj = do {
     master_g_tick K;
     v1 \<leftarrow> beh_sop_intro_pilot_try_model_attach K obj;
     (if v1 \<noteq> 0 then State_Monad.return ()
      else do {
        w8 K (obj + 0x47) 0xFF;
        v2 \<leftarrow> r32 K G_ANIM_TABLE;
        w32 K (obj + 0x3C) v2;
        v3 \<leftarrow> r8 K (obj + 4);
        w8 K (obj + 4) (v3 + 1);
        anim_env_setup K obj;
        walk_start K obj;
        w8 K (obj + 0x70) 2;
        w16 K (obj + 0x84) 0x8C;
        beh_sop_intro_pilot_overlay_oneshot K obj
      })
   }"

definition beh_sop_intro_pilot_state_running :: "'c core_ops \<Rightarrow> u32 \<Rightarrow> ('c,
    unit) state" where
  "beh_sop_intro_pilot_state_running K obj = do {
     v1 \<leftarrow> beh_sop_intro_pilot_bounds_cull K obj;
     only_if (v1 \<noteq> 0) (beh_sop_intro_pilot_post_cull_update K obj);
     script_interp_step K obj;
     beh_sop_intro_pilot_anim_graphics_tick K obj
   }"

definition beh_sop_intro_pilot :: "'c core_ops \<Rightarrow> ('c, unit) state" where
  "beh_sop_intro_pilot K = with_frame K 32 [(16, 16), (31, 24), (17, 20)] (do {
     obj \<leftarrow> reg K 4;
     st \<leftarrow> r8 K (obj + 4);
     (if st = 1 then beh_sop_intro_pilot_state_running K obj
      else if st = 0 then beh_sop_intro_pilot_state_init K obj
       else only_if (st = 3) (despawn K obj))
   })"

section \<open>\<open>game/ai/sop_intro_events.cpp\<close>\<close>

definition sop_beat_advance_walk :: "'c core_ops \<Rightarrow> ('c, u32) state" where
  "sop_beat_advance_walk K = do {
     savedSp \<leftarrow> reg K 29;
     savedR16 \<leftarrow> reg K 16;
     savedR31 \<leftarrow> reg K 31;
     setr K 29 (savedSp - 24);
     r29_4 \<leftarrow> reg K 29;
     w32 K (r29_4 + 16) savedR16;
     w32 K (r29_4 + 20) savedR31;
     node \<leftarrow> reg K 4;
     state1 \<leftarrow> r8 K (node + 0x78);
     let result1 = (0 :: u32);
     result1 \<leftarrow> (if state1 = 1 then do {
       v7 \<leftarrow> r16 K (node + 0x42);
       let timer = as_s16 v7;
       w16 K (node + 0x42) (timer - 1);
       only_if (timer = 1) (do {
         w8 K SCENE_BEAT 3;
         _ \<leftarrow> engine_walk_start K node 0xB4 4;
         w16 K (node + 0x42) 0x28;
         v8 \<leftarrow> r8 K (node + 0x78);
         w8 K (node + 0x78) (v8 + 1)
       });
       State_Monad.return result1
     }
      else if state1 = 0 then do {
        w8 K (node + 0x78) 1;
        w16 K (node + 0x42) 0x1E;
        State_Monad.return result1
      }
       else if state1 = 2 then do {
         v9 \<leftarrow> r16 K (node + 0x42);
         let timer = as_s16 v9;
         w16 K (node + 0x42) (timer - 1);
         only_if (timer = 1) (do {
           _ \<leftarrow> engine_walk_start K node 2 6;
           w16 K (node + 0x42) 0x1E;
           v10 \<leftarrow> r8 K (node + 0x78);
           w8 K (node + 0x78) (v10 + 1)
         });
         State_Monad.return result1
       }
        else if state1 = 3 then do {
          v11 \<leftarrow> r16 K (node + 0x42);
          let timer = as_s16 v11;
          w16 K (node + 0x42) (timer - 1);
          State_Monad.return (if timer = 1 then (1 :: u32) else result1)
        }
         else State_Monad.return result1);
     setr K 31 savedR31;
     setr K 16 savedR16;
     setr K 29 savedSp;
     State_Monad.return result1
   }"

definition sop_beat_advance_narration :: "'c core_ops \<Rightarrow> ('c, u32) state" where
  "sop_beat_advance_narration K = do {
     savedSp \<leftarrow> reg K 29;
     savedR16 \<leftarrow> reg K 16;
     savedR31 \<leftarrow> reg K 31;
     setr K 29 (savedSp - 24);
     r29_4 \<leftarrow> reg K 29;
     w32 K (r29_4 + 16) savedR16;
     w32 K (r29_4 + 20) savedR31;
     node \<leftarrow> reg K 4;
     state1 \<leftarrow> r8 K (node + 0x78);
     let result1 = (0 :: u32);
     result1 \<leftarrow> (if state1 = 0 then do {
       w8 K SCENE_BEAT 5;
       setr K 4 0x800E8008;
       setr K 5 0x8010C974;
       graphics_bind_set_xform_blk K;
       w16 K (node + 0x42) 10;
       v7 \<leftarrow> r8 K (node + 0x78);
       w8 K (node + 0x78) (v7 + 1);
       State_Monad.return result1
     }
      else if state1 = 1 then do {
        v8 \<leftarrow> r16 K (node + 0x42);
        let timer = as_s16 v8;
        w16 K (node + 0x42) (timer - 1);
        (if timer = 1 then do { w8 K (0x800BF80C + 3) 1; State_Monad.return (1 :: u32) }
         else State_Monad.return result1)
      }
       else State_Monad.return result1);
     setr K 31 savedR31;
     setr K 16 savedR16;
     setr K 29 savedSp;
     State_Monad.return result1
   }"

definition sop_orbit_path_step :: "'c core_ops \<Rightarrow> ('c, u32) state" where
  "sop_orbit_path_step K = do {
     savedSp \<leftarrow> reg K 29;
     savedR16 \<leftarrow> reg K 16;
     savedR31 \<leftarrow> reg K 31;
     setr K 29 (savedSp - 24);
     r29_4 \<leftarrow> reg K 29;
     w32 K (r29_4 + 16) savedR16;
     w32 K (r29_4 + 20) savedR31;
     node \<leftarrow> reg K 4;
     state1 \<leftarrow> r8 K (node + 6);
     let result1 = (0 :: u32);
     result1 \<leftarrow> (if state1 = 3 then do {
       w8 K (node + 6) 0;
       setr K 4 node;
       setr K 5 0x8001B860;
       setr K 6 2;
       call_guest K 0x80077C40;
       State_Monad.return (1 :: u32)
     }
      else do {
        only_if ((state1 = 0 \<or> state1 = 1) \<or> state1 = 2) (do {
          only_if (state1 = 0) (do {
            w8 K (node + 6) 1;
            w16 K (node + 0x4E) 0;
            v7 \<leftarrow> r16 K (node + 0x2E);
            w16 K (node + 0x90) v7;
            v8 \<leftarrow> r16 K (node + 0x32);
            w16 K (node + 0x92) v8;
            v9 \<leftarrow> r16 K (node + 0x36);
            w16 K (node + 0x94) v9
          });
          only_if (state1 \<noteq> 2) (do {
            v10 \<leftarrow> r16 K (node + 0xB8);
            let b8 = as_s16 v10;
            v11 \<leftarrow> r16 K (node + 0xBA);
            let ba = as_s16 v11;
            v12 \<leftarrow> r16 K (node + 0xBC);
            let bc = as_s16 v12;
            w16 K (node + 0xB8) (b8 + 0x80);
            w16 K (node + 0xBA) (ba + 0x80);
            w16 K (node + 0xBC) (bc + 0x80);
            v13 \<leftarrow> r16 K (node + 0xB8);
            only_if (0x0FFF < v13) (do {
              v14 \<leftarrow> r8 K (node + 6);
              w8 K (node + 6) (v14 + 1)
            })
          });
          v15 \<leftarrow> r16 K (node + 0x90);
          w16 K (node + 0x2E) v15;
          v16 \<leftarrow> r16 K (node + 0x92);
          w16 K (node + 0x32) v16;
          v17 \<leftarrow> r16 K (node + 0x94);
          w16 K (node + 0x36) v17;
          v18 \<leftarrow> r16 K (node + 0x4E);
          let phase = as_s16 v18;
          v19 \<leftarrow> r32 K (node + 0x2C);
          v20 \<leftarrow> rcos K phase;
          w32 K (node + 0x2C) (v19 + v20 * 0xA00);
          sinv \<leftarrow> rsin K phase;
          v22 \<leftarrow> r16 K (node + 0x32);
          w16 K (node + 0x32) (as_s16 v22 - 2);
          v23 \<leftarrow> r32 K (node + 0x34);
          w32 K (node + 0x34) (v23 + sinv * 0xA00);
          v24 \<leftarrow> r16 K (node + 0x94);
          let s94 = as_s16 (v24 - 1);
          w16 K (node + 0x94) s94;
          v25 \<leftarrow> r16 K (node + 0x36);
          let s36 = as_s16 (v25 - 1);
          w16 K (node + 0x36) s36;
          let y = s36 - s94;
          v26 \<leftarrow> r16 K (node + 0x90);
          v27 \<leftarrow> r16 K (node + 0x2E);
          let x = as_s16 v26 - (as_s16 v27);
          v28 \<leftarrow> trig_ratan2 K y x;
          w16 K (node + 0x56) v28;
          v29 \<leftarrow> r16 K (node + 0x4E);
          let phaseNext = as_s16 (v29 + 0x80);
          w16 K (node + 0x4E) phaseNext;
          only_if (0x1BFF <s phaseNext) (do {
            v30 \<leftarrow> r8 K (node + 6);
            w8 K (node + 6) (v30 + 1)
          })
        });
        State_Monad.return result1
      });
     setr K 31 savedR31;
     setr K 16 savedR16;
     setr K 29 savedSp;
     State_Monad.return result1
   }"

definition sop_intro_effect_spawn :: "'c core_ops \<Rightarrow> ('c, u32) state" where
  "sop_intro_effect_spawn K = do {
     savedSp \<leftarrow> reg K 29;
     savedR16 \<leftarrow> reg K 16;
     savedR31 \<leftarrow> reg K 31;
     setr K 29 (savedSp - 24);
     r29_4 \<leftarrow> reg K 29;
     w32 K (r29_4 + 16) savedR16;
     w32 K (r29_4 + 20) savedR31;
     parent \<leftarrow> reg K 4;
     setr K 4 parent;
     setr K 5 3;
     setr K 6 3;
     setr K 7 0x1A;
     placement_spawn_with_parent K;
     node \<leftarrow> reg K 2;
     only_if (node \<noteq> 0) (do {
       w32 K (node + 0x1C) 0x8010B2D4;
       w32 K (node + 0x10) parent
     });
     setr K 31 savedR31;
     setr K 16 savedR16;
     setr K 29 savedSp;
     State_Monad.return node
   }"

definition sop_intro_effect_tick :: "'c core_ops \<Rightarrow> ('c, unit) state" where
  "sop_intro_effect_tick K = do {
     savedSp \<leftarrow> reg K 29;
     savedR16 \<leftarrow> reg K 16;
     savedR17 \<leftarrow> reg K 17;
     savedR31 \<leftarrow> reg K 31;
     setr K 29 (savedSp - 32);
     r29_5 \<leftarrow> reg K 29;
     w32 K (r29_5 + 16) savedR16;
     w32 K (r29_5 + 20) savedR17;
     w32 K (r29_5 + 24) savedR31;
     node \<leftarrow> reg K 4;
     setr K 17 node;
     state1 \<leftarrow> r8 K (node + 4);
     setr K 16 state1;
     (if state1 = 1 then do {
       setr K 4 node;
       call_guest K 0x8007778C;
       sub1 \<leftarrow> r8 K (node + 5);
       (if sub1 = 1 then do {
         script_interp_step K node;
         v9 \<leftarrow> r8 K (node + 0x70);
         only_if (as_s8 v9 = -1) (w8 K (node + 5) (sub1 + 1))
       }
        else only_if (sub1 = 0) (do {
          setr K 4 node;
          v10 \<leftarrow> sop_orbit_path_step K;
          only_if (v10 \<noteq> 0) (do {
            w8 K (node + 5) (sub1 + 1);
            script_interp_init K node 0x8001B860 0x8010CAB8;
            w8 K (node + 0x70) 1
          })
        }));
       _ \<leftarrow> anim_tick K node;
       node_xform_build_with_offset K node
     }
      else if state1 = 0 then do {
        setr K 16 0x800ECF58;
        setr K 4 node;
        setr K 5 0xC;
        v11 \<leftarrow> r32 K 0x800ECF98;
        setr K 6 v11;
        setr K 7 0x800A4BC8;
        setr K 31 0x8010B348;
        call_guest K 0x800519E0;
        r2_12 \<leftarrow> reg K 2;
        only_if (r2_12 = 0) (do {
          v13 \<leftarrow> r32 K 0x800ECF9C;
          w32 K (node + 0x3C) v13;
          setr K 4 node;
          setr K 5 0x8001B860;
          setr K 6 0;
          call_guest K 0x80077C40;
          w16 K (node + 0xB8) 0;
          w16 K (node + 0xBA) 0;
          w16 K (node + 0xBC) 0;
          v14 \<leftarrow> r8 K (node + 4);
          w8 K (node + 4) (v14 + 1);
          v15 \<leftarrow> r16 K (node + 0x32);
          w16 K (node + 0x32) (as_s16 v15 - 0x8C)
        })
      }
       else only_if (state1 = 3) (despawn K node));
     setr K 31 savedR31;
     setr K 17 savedR17;
     setr K 16 savedR16;
     setr K 29 savedSp
   }"

definition sop_lifted_subtick_body :: "'c core_ops \<Rightarrow> ('c, unit) state" where
  "sop_lifted_subtick_body K = do {
     node \<leftarrow> reg K 4;
     state1 \<leftarrow> r8 K (node + 6);
     let animData = (0 :: u32);
     let runTail = False;
     let rest1 = (\<lambda>animData runTail. only_if runTail (do {
       v3 \<leftarrow> r8 K (node + 6);
       w8 K (node + 6) (v3 + 1);
       setr K 31 0x8010B754;
       script_interp_init K node 0x80017FE8 animData;
       w8 K (node + 0x70) 1
     }));
     (if state1 = 0 then do {
       let animData = (0x8010CB80 :: u32);
       let runTail = True;
       rest1 animData runTail
     }
      else if state1 = 1 \<or> state1 = 6 then do {
        setr K 31 0x8010B768;
        script_interp_step K node;
        v4 \<leftarrow> r8 K (node + 0x70);
        (if as_s8 v4 \<noteq> -1 then State_Monad.return ()
         else do { v5 \<leftarrow> r8 K (node + 6); w8 K (node + 6) (v5 + 1) })
      }
       else if state1 = 2 then do {
         v6 \<leftarrow> r8 K SCENE_BEAT;
         (if v6 \<noteq> 2 then State_Monad.return ()
          else do {
            w16 K (node + 0x2E) 0x1144;
            w16 K (node + 0x36) 0x4AB5;
            w16 K (node + 0x56) 0x500;
            v7 \<leftarrow> r8 K (node + 6);
            w8 K (node + 6) (v7 + 1)
          })
       }
        else if state1 = 3 then do {
          v8 \<leftarrow> r8 K SCENE_BEAT;
          (if v8 \<noteq> 3 then State_Monad.return ()
           else do {
             v9 \<leftarrow> r32 K 0x800ECFA8;
             w32 K (node + 0x3C) v9;
             setr K 4 node;
             setr K 5 0x8010D39C;
             setr K 6 2;
             setr K 31 0x8010B644;
             call_guest K 0x80077C40;
             setr K 31 0x8010B654;
             v10 \<leftarrow> r32 K (node + 0xC4);
             graphics_bind_install_scene_record K v10 0x12 0x0F;
             setr K 31 0x8010B664;
             v11 \<leftarrow> r32 K (node + 0xD0);
             graphics_bind_install_scene_record K v11 0x12 0x10;
             setr K 31 0x8010B674;
             v12 \<leftarrow> r32 K (node + 0xDC);
             graphics_bind_install_scene_record K v12 0x12 0x11;
             v13 \<leftarrow> r8 K (node + 6);
             w8 K (node + 6) (v13 + 1)
           })
        }
         else if state1 = 4 then do {
           v14 \<leftarrow> r8 K (node + 0x79);
           (if v14 \<noteq> 1 then State_Monad.return ()
            else do {
              v15 \<leftarrow> r8 K (node + 6);
              w8 K (node + 6) (v15 + 1);
              setr K 31 0x8010B6A4;
              sfx_trigger K 3 0 0;
              v16 \<leftarrow> r32 K 0x800ECF68;
              w32 K (node + 0x3C) v16;
              setr K 4 node;
              setr K 5 0x80017FE8;
              setr K 6 2;
              setr K 7 6;
              setr K 31 0x8010B6C8;
              call_guest K 0x80077CFC;
              setr K 31 0x8010B6D8;
              v17 \<leftarrow> r32 K (node + 0xC4);
              graphics_bind_install_scene_record K v17 0x12 1;
              setr K 31 0x8010B6E8;
              v18 \<leftarrow> r32 K (node + 0xD0);
              graphics_bind_install_scene_record K v18 0x12 4;
              setr K 31 0x8010B6F8;
              v19 \<leftarrow> r32 K (node + 0xDC);
              graphics_bind_install_scene_record K v19 0x12 7
            })
         }
          else if state1 = 5 then do {
            v20 \<leftarrow> r8 K SCENE_BEAT;
            (if v20 \<noteq> 6 then State_Monad.return ()
             else do {
               w16 K (node + 0x2E) 0x4010;
               w16 K (node + 0x32) 0xF1BE;
               w16 K (node + 0x36) 0x4EB5;
               w16 K (node + 0x56) 0x800;
               let animData = (0x8010CBD0 :: u32);
               let runTail = True;
               rest1 animData runTail
             })
          }
           else State_Monad.return ())
   }"

definition sop_lifted_subtick :: "'c core_ops \<Rightarrow> ('c, unit) state" where
  "sop_lifted_subtick K = do {
     savedSp \<leftarrow> reg K 29;
     savedR16 \<leftarrow> reg K 16;
     savedR31 \<leftarrow> reg K 31;
     setr K 29 (savedSp - 24);
     r29_4 \<leftarrow> reg K 29;
     w32 K (r29_4 + 16) savedR16;
     w32 K (r29_4 + 20) savedR31;
     sop_lifted_subtick_body K;
     setr K 31 savedR31;
     setr K 16 savedR16;
     setr K 29 savedSp
   }"

definition beh_orbit_spark_effect :: "'c core_ops \<Rightarrow> ('c, unit) state" where
  "beh_orbit_spark_effect K = do {
     savedSp \<leftarrow> reg K 29;
     savedR31 \<leftarrow> reg K 31;
     setr K 29 (savedSp - 24);
     r29_3 \<leftarrow> reg K 29;
     w32 K (r29_3 + 16) savedR31;
     node \<leftarrow> reg K 4;
     state1 \<leftarrow> r8 K (node + 4);
     let active1 = True;
     active1 \<leftarrow> (if state1 \<noteq> 1 then (if 1 < state1 then do {
       only_if (state1 \<le> 3) (despawn K node);
       State_Monad.return False
     }
      else if state1 \<noteq> 0 then State_Monad.return False
       else do {
         w8 K (node + 4) 1;
         w16 K (node + 0x48) 0x400;
         w16 K (node + 0x4A) 0;
         w32 K (node + 0x4C) 0;
         w16 K (node + 0x50) 0;
         State_Monad.return active1
       })
      else State_Monad.return active1);
     only_if active1 (do {
       w8 K (node + 1) 1;
       v6 \<leftarrow> r16 K (node + 0x4E);
       w16 K (node + 0x4E) (as_s16 v6 - 0x20);
       v \<leftarrow> r16 K (node + 0x50);
       let v2 = as_s16 (v - 9);
       w16 K (node + 0x50) v2;
       only_if (v2 <s 0) (w16 K (node + 0x50) (v + 0x4B))
     });
     setr K 31 savedR31;
     setr K 29 savedSp
   }"

definition ov_sop_beat_advance_walk :: "'c core_ops \<Rightarrow> ('c, unit) state" where
  "ov_sop_beat_advance_walk K = do {
     v1 \<leftarrow> sop_beat_advance_walk K;
     setr K 2 v1
   }"

definition ov_sop_beat_advance_narration :: "'c core_ops \<Rightarrow> ('c, unit) state" where
  "ov_sop_beat_advance_narration K = do {
     v1 \<leftarrow> sop_beat_advance_narration K;
     setr K 2 v1
   }"

definition ov_sop_orbit_path_step :: "'c core_ops \<Rightarrow> ('c, unit) state" where
  "ov_sop_orbit_path_step K = do {
     v1 \<leftarrow> sop_orbit_path_step K;
     setr K 2 v1
   }"

definition ov_sop_intro_effect_tick :: "'c core_ops \<Rightarrow> ('c, unit) state" where
  "ov_sop_intro_effect_tick K = sop_intro_effect_tick K"

definition ov_sop_intro_effect_spawn :: "'c core_ops \<Rightarrow> ('c, unit) state" where
  "ov_sop_intro_effect_spawn K = do {
     v1 \<leftarrow> sop_intro_effect_spawn K;
     setr K 2 v1
   }"

definition ov_sop_lifted_subtick :: "'c core_ops \<Rightarrow> ('c, unit) state" where
  "ov_sop_lifted_subtick K = sop_lifted_subtick K"

definition ov_beh_orbit_spark_effect :: "'c core_ops \<Rightarrow> ('c, unit) state" where
  "ov_beh_orbit_spark_effect K = beh_orbit_spark_effect K"

section \<open>\<open>game/ai/sop_overlay_shadow.cpp\<close>\<close>

definition beh_sop_overlay_shadow :: "'c core_ops \<Rightarrow> ('c, unit) state" where
  "beh_sop_overlay_shadow K = with_frame K 24 [(31, 16)] (do {
     node \<leftarrow> reg K 4;
     state1 \<leftarrow> r8 K (node + 4);
     parent \<leftarrow> r32 K (node + 0x10);
     (if state1 = 1 then do {
       v4 \<leftarrow> r8 K SCENE_BEAT;
       (if v4 < BEAT_LIMIT then do {
         parentActive \<leftarrow> r8 K (parent + 1);
         w8 K (node + 1) parentActive;
         only_if (parentActive \<noteq> 0) (do {
           w16 K (node + 0x40) 0x50;
           w16 K (node + 0x42) 0x6E;
           v6 \<leftarrow> r32 K (parent + 0x2C);
           w32 K (node + 0x2C) v6;
           v7 \<leftarrow> r32 K (parent + 0x30);
           w32 K (node + 0x30) v7;
           v8 \<leftarrow> r32 K (parent + 0x34);
           w32 K (node + 0x34) v8;
           v9 \<leftarrow> r16 K (parent + 0x2E);
           w16 K (node + 0x48) v9;
           v10 \<leftarrow> r16 K (parent + 0x32);
           let anchorY = as_s16 v10;
           v11 \<leftarrow> r16 K (parent + 0x84);
           let elev = as_s16 v11;
           let yAnchor = as_s16 (anchorY + elev);
           w16 K (node + 0x4A) yAnchor;
           v12 \<leftarrow> r16 K (parent + 0x36);
           w16 K (node + 0x4C) v12;
           let diff = yAnchor - anchorY;
           let ramp80 = as_s16 (0x80 - (sar 2 (diff - 0x78)));
           w16 K (node + 0x4E) ramp80;
           (if ramp80 <s 0 then do { w16 K (node + 0x4E) 0; w8 K (node + 1) 0 }
            else only_if (0x80 <s ramp80) (w16 K (node + 0x4E) 0x80));
           let ramp100 = as_s16 (0x100 - (sar 2 (diff - 0x78)));
           w16 K (node + 0x50) ramp100;
           (if ramp100 <s 0 then do { w16 K (node + 0x50) 0; w8 K (node + 1) 0 }
            else only_if (0x100 <s ramp100) (w16 K (node + 0x50) 0x100))
         })
       }
        else w8 K (node + 4) 2)
     }
      else if state1 < 2 then only_if (state1 = 0) (do {
        w16 K (node + 0x40) 0x50;
        w8 K (node + 4) 1;
        w16 K (node + 0x54) 0;
        w16 K (node + 0x42) 0x6E;
        w16 K (node + 0x0E) 0;
        w16 K (node + 0x56) 0;
        w16 K (node + 0x58) 0
      })
       else if state1 = 2 then w8 K (node + 4) 3 else only_if (state1 = 3) (despawn K node))
   })"

end
