(* ===== verification/TableActors.thy ===== *)
theory TableActors
  imports CullWrappers ModelBinding PlayerCollision SceneControl
begin

text \<open>
  Behaviour handlers driven by tables and record lists: seeds, trails, dithers, scanners and
  jump-table pairs.
\<close>

section \<open>Layout\<close>

definition TA :: u32 where "TA = 0x8014A9A8"
definition TB :: u32 where "TB = 0x8014A9B0"
definition TC :: u32 where "TC = 0x8014A9B8"
definition Sta_DespawnA :: u32 where "Sta_DespawnA = 2"
definition SUB_TILE_MOVE_STEP :: u32 where "SUB_TILE_MOVE_STEP = 0x8004766C"
definition PILOT_BASE :: u32 where "PILOT_BASE = 0x800E7E80"
definition PILOT_YAW_OFF :: u32 where "PILOT_YAW_OFF = 0x58"
definition PILOT_MODE_OFF :: u32 where "PILOT_MODE_OFF = 0x147"
definition PILOT_STATE_OFF :: u32 where "PILOT_STATE_OFF = 0x168"
definition TBL_A6F4 :: u32 where "TBL_A6F4 = 0x8014A6F4"

section \<open>\<open>game/ai/beh_linked_advance_branch.cpp\<close>\<close>

definition beh_linked_advance_branch :: "'c core_ops \<Rightarrow> ('c, unit) state" where
  "beh_linked_advance_branch K = with_frame K 24 [(16, 16), (31, 20)] (loop (\<lambda>(pc1, s0).
      (if pc1 = ''start'' then do {
     s0 \<leftarrow> reg K 4;
     v1 \<leftarrow> r8 K (s0 + 4);
     (if v1 = 1 then State_Monad.return (Inr (''S1'', s0))
      else if v1 <s 2 then do {
        only_if (v1 = 0) (do {
          _ \<leftarrow> guest_call K 0x80128308 [s0];
          State_Monad.return ()
        });
        State_Monad.return (Inr (''Lret'', s0))
      }
       else if v1 = 2 then State_Monad.return (Inr (''Lret'', s0))
        else if v1 = 3 then do { despawn K s0; State_Monad.return (Inr (''Lret'', s0)) }
         else State_Monad.return (Inr (''Lret'', s0)))
   }
    else if pc1 = ''S1'' then do {
      n3 \<leftarrow> r8 K (s0 + 3);
      (if n3 = 0 then State_Monad.return (Inr (''BA'', s0))
       else if n3 = 1 then State_Monad.return (Inr (''BB'', s0))
        else State_Monad.return (Inr (''Lret'', s0)))
    }
     else if pc1 = ''BA'' then do {
       n5 \<leftarrow> r8 K (s0 + 5);
       (if n5 \<noteq> 0 then State_Monad.return (Inr (''L883c'', s0))
        else do {
          rec \<leftarrow> r32 K (s0 + 0x10);
          (if rec \<noteq> 0 then do {
            v6 \<leftarrow> r8 K (rec + 0x5E);
            (if v6 \<noteq> 2 then State_Monad.return (Inr (''Ltail88b0'', s0))
             else do {
               w8 K (s0 + 11) 0;
               w32 K (s0 + 0x10) 0;
               w8 K (s0 + 5) (n5 + 1);
               State_Monad.return (Inr (''Ltail88b0'', s0))
             })
          }
           else do {
             w8 K (s0 + 11) 0;
             w32 K (s0 + 0x10) 0;
             w8 K (s0 + 5) (n5 + 1);
             State_Monad.return (Inr (''Ltail88b0'', s0))
           })
        })
     }
      else if pc1 = ''L883c'' then do {
        v7 \<leftarrow> r8 K (s0 + 5);
        (if v7 = 1 then State_Monad.return (Inr (''Ltail88b0'', s0))
         else State_Monad.return (Inr (''Lret'', s0)))
      }
       else if pc1 = ''BB'' then do {
         n5 \<leftarrow> r8 K (s0 + 5);
         (if n5 \<noteq> 0 then State_Monad.return (Inr (''L883c'', s0))
          else do {
            rec \<leftarrow> r32 K (s0 + 0x10);
            v10 \<leftarrow> r8 K (rec + 0x5E);
            (if rec \<noteq> 0 \<and> v10 \<noteq> 2 then State_Monad.return (Inr (''L88884'',
                s0))
             else do {
               w8 K (s0 + 11) 0;
               w32 K (s0 + 0x10) 0;
               w8 K (s0 + 5) (n5 + 1);
               State_Monad.return (Inr (''L88884'', s0))
             })
          })
       }
        else if pc1 = ''L88884'' then do {
          v11 \<leftarrow> r8 K 0x1F800207;
          only_if (v11 < 6) (do {
            _ \<leftarrow> guest_call K 0x801281B8 [s0];
            _ \<leftarrow> guest_call K 0x801285EC [s0];
            State_Monad.return ()
          });
          State_Monad.return (Inr (''Lret'', s0))
        }
         else if pc1 = ''Ltail88b0'' then do {
           _ \<leftarrow> guest_call K 0x801281B8 [s0];
           State_Monad.return (Inr (''Lret'', s0))
         }
          else State_Monad.return (Inl ()))) (''start'', (0 :: u32)))"

section \<open>\<open>game/ai/beh_pos_history_trail.cpp\<close>\<close>

definition ring_shift_forward :: "'c core_ops \<Rightarrow> u32 \<Rightarrow> ('c, unit) state"
    where
  "ring_shift_forward K nd = do {
     let i = (5 :: u32);
     i \<leftarrow> loop (\<lambda>i. (if 1 \<le>s i then do {
       let d = nd + 0x38 + 8 * i;
       v1 \<leftarrow> r32 K (d - 8);
       w32 K d v1;
       v2 \<leftarrow> r32 K (d - 4);
       w32 K (d + 4) v2;
       let i = i - 1;
       State_Monad.return (Inr i)
     }
      else State_Monad.return (Inl i))) i;
     State_Monad.return ()
   }"

definition beh_pos_history_trail_l212 :: "'c core_ops \<Rightarrow> u32 \<Rightarrow> u32
    \<Rightarrow> ('c, unit) state" where
  "beh_pos_history_trail_l212 K tgt nd = do {
     dat \<leftarrow> r8 K 0x800E7FC6;
     v2 \<leftarrow> r8 K (tgt + 4);
     only_if ((1 < v2 \<or> (dat AND 4) \<noteq> 0) \<or> dat = 0) (do {
       v3 \<leftarrow> r8 K (nd + 0x2C);
       w8 K (nd + 0x2D) v3;
       w8 K (nd + 4) 2
     });
     ring_shift_forward K nd;
     v4 \<leftarrow> r16 K (tgt + 0x2E);
     w16 K (nd + 0x38) v4;
     v5 \<leftarrow> r16 K (tgt + 0x32);
     w16 K (nd + 0x3A) v5;
     v6 \<leftarrow> r16 K (tgt + 0x36);
     w16 K (nd + 0x3C) v6
   }"

definition beh_pos_history_trail_l202 :: "'c core_ops \<Rightarrow> u32 \<Rightarrow> (u32
    \<Rightarrow> 'a \<Rightarrow> ('c, 'b) state) \<Rightarrow> 'a \<Rightarrow> ('c, 'b) state"
    where
  "beh_pos_history_trail_l202 K nd Lddc tgt = do {
     m36 \<leftarrow> r16 K (nd + 0x36);
     (if (m36 AND 7) < 3 then w16 K (nd + 0x36) (m36 + 1)
      else do { v8 \<leftarrow> r8 K (nd + 5); w8 K (nd + 5) (v8 + 1) });
     Lddc nd tgt
   }"

definition beh_pos_history_trail_l165 :: "'c core_ops \<Rightarrow> u32 \<Rightarrow> u32
    \<Rightarrow> (u32 \<Rightarrow> u32 \<Rightarrow> ('c, 'a) state) \<Rightarrow> (u32
    \<Rightarrow> u32 \<Rightarrow> ('c, 'a) state) \<Rightarrow> ('c, 'a) state" where
  "beh_pos_history_trail_l165 K tgt nd Ld98 Lddc = do {
     v11 \<leftarrow> r16 K (tgt + 0x32);
     w16 K (nd + 0x32) v11;
     v12 \<leftarrow> r16 K (tgt + 0x36);
     w16 K (nd + 0x34) v12;
     v13 \<leftarrow> r16 K (tgt + 0x6A);
     w16 K (nd + 0x36) (v13 AND 0xFF0);
     n3 \<leftarrow> r8 K (nd + 3);
     (if n3 = 0 then do {
       v15 \<leftarrow> r8s K (tgt + 0);
       (if v15 \<noteq> 1 then Ld98 nd tgt
        else do { v16 \<leftarrow> r8 K (nd + 6); w8 K (nd + 6) (v16 + 1); Lddc nd tgt })
     }
      else if 2 < n3 then (if n3 < 6 then do {
        v17 \<leftarrow> r8s K (tgt + 0x2B);
        (if v17 \<noteq> 2 then do {
          n6 \<leftarrow> r8 K (nd + 6);
          w8 K (nd + 6) (n6 + 1);
          (if n6 < 4 then Lddc nd tgt else Ld98 nd tgt)
        }
         else Ld98 nd tgt)
      }
       else do {
         v19 \<leftarrow> r8s K (tgt + 0x2B);
         (if v19 \<noteq> 3 then do {
           n6 \<leftarrow> r8 K (nd + 6);
           w8 K (nd + 6) (n6 + 1);
           (if n6 < 3 then Lddc nd tgt else Ld98 nd tgt)
         }
          else Ld98 nd tgt)
       })
       else do {
         v21 \<leftarrow> r8s K (tgt + 0);
         v22 \<leftarrow> r8s K (tgt + 0x29);
         (if v21 \<noteq> 1 \<or> v22 \<noteq> 0 then Ld98 nd tgt
          else do { v23 \<leftarrow> r8 K (nd + 6); w8 K (nd + 6) (v23 + 1); Lddc nd tgt })
       })
   }"

definition beh_pos_history_trail_l75 :: "'c core_ops \<Rightarrow> u32 \<Rightarrow> u32
    \<Rightarrow> u32 \<Rightarrow> ('c, unit) state" where
  "beh_pos_history_trail_l75 K st nd tgt = (if st < 2 then (if st \<noteq> 0 then
      State_Monad.return ()
    else do {
      w8 K (nd + 0x2C) 4;
      w8 K (nd + 4) 1;
      w8 K (nd + 5) 0;
      w8 K (nd + 6) 0;
      w8 K (nd + 7) 0;
      w8 K (nd + 1) 0;
      w8 K (nd + 0x2E) 0xA0;
      for_each (upto_u32 5) (\<lambda>i. do {
        let d = nd + 0x38 + 8 * i;
        w32 K d 0;
        w32 K (d + 4) 0
      });
      v30 \<leftarrow> r16 K (tgt + 0x2E);
      w16 K (nd + 0x30) v30;
      v31 \<leftarrow> r16 K (tgt + 0x32);
      w16 K (nd + 0x32) v31;
      t36 \<leftarrow> r16 K (tgt + 0x36);
      w16 K (nd + 0x36) 0;
      w16 K (nd + 0x34) t36
    })
    else if st \<noteq> 2 then (if st \<noteq> 3 then State_Monad.return ()
     else despawn K nd)
     else do {
       ring_shift_forward K nd;
       w16 K (nd + 0x38) 0;
       w16 K (nd + 0x3A) 0;
       w16 K (nd + 0x3C) 0;
       w8 K (nd + 1) 1;
       v33 \<leftarrow> r8 K (nd + 5);
       (if 1 < v33 then do {
         v34 \<leftarrow> r8 K (nd + 0x2C);
         let cv = as_s8 v34;
         let nv = as_s8 (cv + 1);
         let nv = (if 4 <s nv then (0 :: u32) else nv);
         w8 K (nd + 0x2C) nv;
         w16 K (nd + 0x38 + (2 * (nv * 4 + 3))) 0;
         m36 \<leftarrow> r16 K (nd + 0x36);
         only_if ((m36 AND 7) < 3) (w16 K (nd + 0x36) (m36 + 1));
         v36 \<leftarrow> r8s K (nd + 0x2C);
         v37 \<leftarrow> r8s K (nd + 0x2D);
         (if v36 \<noteq> v37 then State_Monad.return () else w8 K (nd + 4) 3)
       }
        else do {
          v38 \<leftarrow> r32 K (nd + 0x58);
          (if v38 \<noteq> 0 then State_Monad.return () else w8 K (nd + 4) 3)
        })
     })"

definition beh_pos_history_trail :: "'c core_ops \<Rightarrow> ('c, unit) state" where
  "beh_pos_history_trail K = with_frame K 24 [(31, 16)] (do {
     let Lde0 = (\<lambda>nd tgt. beh_pos_history_trail_l212 K tgt nd);
     let Lddc = (\<lambda>nd tgt. do { w8 K (nd + 1) 1; Lde0 nd tgt });
     let Lda8 = (\<lambda>nd tgt. beh_pos_history_trail_l202 K nd Lddc tgt);
     let Ld98 = (\<lambda>nd tgt. do {
       v9 \<leftarrow> r8 K (nd + 5);
       w8 K (nd + 5) (v9 + 1);
       Lda8 nd tgt
     });
     let Lca0 = (\<lambda>nd tgt. do {
       v10 \<leftarrow> r16 K (tgt + 0x2E);
       w16 K (nd + 0x30) v10;
       beh_pos_history_trail_l165 K tgt nd Ld98 Lddc
     });
     let Lc70 = (\<lambda>nd tgt. do {
       v24 \<leftarrow> r8s K (tgt + 0);
       v25 \<leftarrow> r8s K (tgt + 0x5E);
       (if \<not> (v24 = 1 \<and> v25 = 1) then Lddc nd tgt
        else do { v26 \<leftarrow> r8 K (nd + 5); w8 K (nd + 5) (v26 + 1); Lca0 nd tgt })
     });
     nd \<leftarrow> reg K 4;
     tgt \<leftarrow> r32 K (nd + 0x10);
     st \<leftarrow> r8 K (nd + 4);
     (if st \<noteq> 1 then beh_pos_history_trail_l75 K st nd tgt
      else do {
        n5 \<leftarrow> r8 K (nd + 5);
        let n3 = (0 :: u32);
        (if n5 = 1 then Lc70 nd tgt
         else if n5 < 2 then do {
           v40 \<leftarrow> r8s K (tgt + 0);
           (if v40 = 2 then do { w8 K (nd + 5) 1; Lc70 nd tgt }
            else Lddc nd tgt)
         }
          else if n5 = 2 then Lca0 nd tgt
           else if n5 \<noteq> 3 then do { w8 K (nd + 1) 1; Lde0 nd tgt }
            else Lda8 nd tgt)
      })
   })"

section \<open>\<open>game/ai/beh_record_list_scanner.cpp\<close>\<close>

definition lh :: "'c core_ops \<Rightarrow> u32 \<Rightarrow> ('c, u32) state" where
  "lh K a = r16s K a"

definition beh_record_list_scanner :: "'c core_ops \<Rightarrow> ('c, unit) state" where
  "beh_record_list_scanner K = with_frame K 56 [(23, 44), (21, 36), (31, 52), (30, 48), (22, 40),
      (20, 32), (19, 28), (18, 24), (17, 20), (16, 16)] (do {
     obj \<leftarrow> reg K 4;
     let s5 = obj + 0x60;
     state1 \<leftarrow> r8 K (obj + 4);
     (if state1 = 2 then State_Monad.return ()
      else if state1 = 3 then despawn K obj
       else if 3 < state1 then State_Monad.return ()
        else do {
          let rest1 = (do {
            area \<leftarrow> r8 K 0x800BF870;
            d3 \<leftarrow> r8 K (obj + 3);
            let rest2 = (do {
              s4 \<leftarrow> r32 K (s5 + 12);
              w32 K (s5 + 16) 0;
              let s3 = (0 :: u32);
              loop (\<lambda>(s4, s3). do {
                v22 \<leftarrow> r8 K s4;
                (if v22 = 0xFF then do {
                  w16 K (s5 + 10) s3;
                  w8 K (obj + 11) 31;
                  _ \<leftarrow> enqueue_queue_c K obj;
                  w8 K (obj + 1) 1;
                  State_Monad.return (Inl ())
                }
                 else do {
                   v23 \<leftarrow> r8 K (s4 + 2);
                   let s2 = v23 AND 0x80;
                   let s1 = shl 1 (unat (s3 AND 31));
                   let verdict = (-2 :: u32);
                   verdict \<leftarrow> (if s2 = 0 then do {
                     v24 \<leftarrow> lh K (s4 + 10);
                     v25 \<leftarrow> test7EC K v24 0;
                     State_Monad.return (if v25 \<noteq> 0 then (0 :: u32) else verdict)
                   }
                    else State_Monad.return verdict);
                   v26 \<leftarrow> r32 K (obj + 0x74);
                   let verdict = (if verdict = -2 \<and> (v26 AND s1) \<noteq> 0 then (0 :: u32)
                       else verdict);
                   verdict \<leftarrow> (if verdict = -2 \<and> s2 \<noteq> 0 then do {
                     v27 \<leftarrow> lh K (s4 + 10);
                     v28 \<leftarrow> test868 K v27;
                     State_Monad.return (if v28 \<noteq> 0 then (0 :: u32) else verdict)
                   }
                    else State_Monad.return verdict);
                   verdict \<leftarrow> (if verdict = -2 then do {
                     v29 \<leftarrow> r32 K (obj + 0x74);
                     State_Monad.return (if (v29 AND s1) \<noteq> 0 then 0 else (1 :: u32))
                   }
                    else State_Monad.return verdict);
                   only_if (verdict = 1) (do {
                     v30 \<leftarrow> r8 K 0x800BF871;
                     ret \<leftarrow> (if area = 1 \<and> 15 \<le> v30 then do {
                       v31 \<leftarrow> r8 K (s4 + 12);
                       setr K 4 v31;
                       call_guest K 0x80111CCC;
                       reg K 2
                     }
                      else do {
                        setr K 4 obj;
                        v33 \<leftarrow> lh K (s4 + 4);
                        setr K 5 v33;
                        v34 \<leftarrow> lh K (s4 + 6);
                        setr K 6 v34;
                        v35 \<leftarrow> lh K (s4 + 8);
                        setr K 7 v35;
                        cull_cull_wrap77acc K;
                        reg K 2
                      });
                     only_if (ret \<noteq> 0) (do {
                       v37 \<leftarrow> r32 K (s5 + 16);
                       w32 K (s5 + 16) (v37 OR s1)
                     })
                   });
                   let s3 = s3 + 1;
                   let s4 = s4 + 16;
                   State_Monad.return (Inr (s4, s3))
                 })
              }) (s4, s3)
            });
            (if area = 0 then (if d3 = 1 then do {
              v38 \<leftarrow> r8 K 0x1F800207;
              (if \<not> (v38 < 28) then State_Monad.return () else rest2)
            }
             else if d3 = 2 then do {
               v39 \<leftarrow> r8 K 0x1F800207;
               (if v39 < 28 then State_Monad.return () else rest2)
             }
              else rest2)
             else if area = 6 then do {
               v40 \<leftarrow> r8 K 0x800BF871;
               (if v40 = 19 then State_Monad.return () else rest2)
             }
              else rest2)
          });
          (if state1 = 0 then do {
            v41 \<leftarrow> r8 K 0x800BF873;
            (if v41 \<noteq> 0 then w8 K (obj + 4) 3
             else do {
               d3 \<leftarrow> r8 K (obj + 3);
               w8 K (obj + 4) 1;
               w8 K (obj + 0) 1;
               tv \<leftarrow> r32 K (0x800A3F00 + d3 * 4);
               w32 K (s5 + 20) 0;
               w8 K (obj + 0x18) 0;
               w32 K (s5 + 12) tv;
               rest1
             })
          }
           else rest1)
        })
   })"

section \<open>\<open>game/ai/beh_scatter_record_dither.cpp\<close>\<close>

definition beh_scatter_record_dither :: "'c core_ops \<Rightarrow> ('c, unit) state" where
  "beh_scatter_record_dither K = with_frame K 40 [(19, 28), (31, 32), (18, 24), (17, 20), (16,
      16)] (loop (\<lambda>(pc1, obj, s0, s1, s2). (if pc1 = ''start'' then do {
     obj \<leftarrow> reg K 4;
     let s0 = (0 :: u32);
     let s1 = (0 :: u32);
     let s2 = (0 :: u32);
     st \<leftarrow> r8 K (obj + 4);
     (if st = 1 then State_Monad.return (Inr (''L63c'', obj, s0, s1, s2))
      else if st < 2 then (if st = 0 then State_Monad.return (Inr (''L590'', obj, s0, s1, s2))
       else State_Monad.return (Inr (''L7d4'', obj, s0, s1, s2)))
       else if st < 4 then State_Monad.return (Inr (''L7cc'', obj, s0, s1, s2))
        else State_Monad.return (Inr (''L7d4'', obj, s0, s1, s2)))
   }
    else if pc1 = ''L7cc'' then do {
      despawn K obj;
      State_Monad.return (Inr (''L7d4'', obj, s0, s1, s2))
    }
     else if pc1 = ''L590'' then do {
       v1 \<leftarrow> r8 K 0x800BF9E0;
       (if \<not> (v1 < 28) then State_Monad.return (Inr (''L678'', obj, s0, s1, s2))
        else do {
          s1 \<leftarrow> (if v1 < 6 then do {
            w16 K (obj + 0x4E) 7;
            State_Monad.return (7 :: u32)
          }
           else do { w16 K (obj + 0x4E) 1; State_Monad.return (1 :: u32) });
          (if s1 \<le>s 0 then State_Monad.return (Inr (''L634'', obj, s0, s1, s2))
           else do {
             let s2 = obj + 0x50;
             let s0 = obj + 0x56;
             State_Monad.return (Inr (''L5cc'', obj, s0, s1, s2))
           })
        })
     }
      else if pc1 = ''L5cc'' then do {
        v0 \<leftarrow> in_range K 0 128;
        let s1 = s1 - 1;
        v5 \<leftarrow> r16 K (obj + 0x2C);
        let v1 = as_u16 (v5 + v0);
        w16 K (s2 + 0) v1;
        v0 \<leftarrow> in_range K (-128) 0;
        v7 \<leftarrow> r16 K (obj + 0x2E);
        let v1 = as_u16 (v7 + v0);
        let s2 = s2 + 8;
        w16 K (s0 - 4) v1;
        v0 \<leftarrow> in_range K 0 32;
        v9 \<leftarrow> r16 K (obj + 0x30);
        let v1 = as_u16 (v9 + v0);
        w16 K (s0 - 2) v1;
        v0 \<leftarrow> in_range K 224 288;
        w16 K (s0 + 0) v0;
        let s0 = s0 + 8;
        (if 0 <s s1 then State_Monad.return (Inr (''L5cc'', obj, s0, s1, s2))
         else State_Monad.return (Inr (''L634'', obj, s0, s1, s2)))
      }
       else if pc1 = ''L634'' then do {
         w8 K (obj + 4) 1;
         State_Monad.return (Inr (''L63c'', obj, s0, s1, s2))
       }
        else if pc1 = ''L63c'' then do {
          setr K 4 0x800E7E80;
          v1 \<leftarrow> r8 K 0x800E7FEB;
          (if v1 = 1 then State_Monad.return (Inr (''L7d4'', obj, s0, s1, s2))
           else do {
             v0 \<leftarrow> r8 K 0x800E7EAA;
             (if \<not> (v0 < 12) then State_Monad.return (Inr (''L678'', obj, s0, s1, s2))
              else do {
                v0 \<leftarrow> r32 K (obj + 0x38);
                w32 K (obj + 0x34) v0;
                (if v0 \<noteq> 0 then State_Monad.return (Inr (''L684'', obj, s0, s1, s2))
                 else State_Monad.return (Inr (''L678'', obj, s0, s1, s2)))
              })
           })
        }
         else if pc1 = ''L678'' then do {
           w8 K (obj + 4) 3;
           State_Monad.return (Inr (''L7d4'', obj, s0, s1, s2))
         }
          else if pc1 = ''L684'' then do {
            v0 \<leftarrow> r8 K 0x800BF9E0;
            (if \<not> (v0 < 6) then State_Monad.return (Inr (''L728'', obj, s0, s1, s2))
             else do {
               let s2 = obj + 0x50;
               v15 \<leftarrow> r16s K (obj + 0x4E);
               (if v15 \<le>s 0 then State_Monad.return (Inr (''L7ac'', obj, s0, s1, s2))
                else do {
                  let s1 = (0 :: u32);
                  let s0 = obj + 0x54;
                  State_Monad.return (Inr (''L6b0'', obj, s0, s1, s2))
                })
             })
          }
           else if pc1 = ''L6b0'' then do {
             v0 \<leftarrow> rng_next K;
             let s1 = s1 + 1;
             v17 \<leftarrow> r16 K (s2 + 0);
             let v1 = as_u16 (v17 - 1 + ((sar 7 v0) AND 3));
             w16 K (s2 + 0) v1;
             v0 \<leftarrow> rng_next K;
             v19 \<leftarrow> r16 K (s0 - 2);
             let v1 = as_u16 (v19 - 14 - ((sar 8 v0) AND 0xF));
             w16 K (s0 - 2) v1;
             v0 \<leftarrow> rng_next K;
             let s2 = s2 + 8;
             v21 \<leftarrow> r16 K (s0 + 0);
             let v1 = as_u16 (v21 - 2 + ((sar 7 v0) AND 3));
             w16 K (s0 + 0) v1;
             let s0 = s0 + 8;
             v22 \<leftarrow> r16s K (obj + 0x4E);
             (if s1 <s v22 then State_Monad.return (Inr (''L6b0'', obj, s0, s1, s2))
              else State_Monad.return (Inr (''L7ac'', obj, s0, s1, s2)))
           }
            else if pc1 = ''L728'' then do {
              v23 \<leftarrow> r16s K (obj + 0x4E);
              (if v23 \<le>s 0 then State_Monad.return (Inr (''L7ac'', obj, s0, s1, s2))
               else do {
                 let s1 = (0 :: u32);
                 let s0 = obj + 0x54;
                 State_Monad.return (Inr (''L73c'', obj, s0, s1, s2))
               })
            }
             else if pc1 = ''L73c'' then do {
               v0 \<leftarrow> rng_next K;
               let s1 = s1 + 1;
               v25 \<leftarrow> r16 K (s2 + 0);
               let v1 = as_u16 (v25 - 3 + ((sar 7 v0) AND 7));
               w16 K (s2 + 0) v1;
               v0 \<leftarrow> rng_next K;
               v27 \<leftarrow> r16 K (s0 - 2);
               let v1 = as_u16 (v27 - 14 - ((sar 8 v0) AND 0xF));
               w16 K (s0 - 2) v1;
               v0 \<leftarrow> rng_next K;
               let s2 = s2 + 8;
               v29 \<leftarrow> r16 K (s0 + 0);
               let v1 = as_u16 (v29 - 4 + ((sar 7 v0) AND 7));
               w16 K (s0 + 0) v1;
               let s0 = s0 + 8;
               v30 \<leftarrow> r16s K (obj + 0x4E);
               (if s1 <s v30 then State_Monad.return (Inr (''L73c'', obj, s0, s1, s2))
                else State_Monad.return (Inr (''L7ac'', obj, s0, s1, s2)))
             }
              else if pc1 = ''L7ac'' then do {
                setr K 4 obj;
                cone_cull_2b278 K;
                r2_31 \<leftarrow> reg K 2;
                (if r2_31 \<noteq> 0 then State_Monad.return (Inr (''L7d4'', obj, s0, s1, s2))
                 else do {
                   collision_list_scan K obj;
                   State_Monad.return (Inr (''L7d4'', obj, s0, s1, s2))
                 })
              }
               else State_Monad.return (Inl ()))) (''start'', (0 :: u32), (0 :: u32), (0 :: u32),
                   (0 :: u32)))"

section \<open>\<open>game/ai/beh_typed_jumptable_pair.cpp\<close>\<close>

definition beh_typed_jumptable_pair_l118 :: "'c core_ops \<Rightarrow> u32 \<Rightarrow> u32
    \<Rightarrow> ('c, unit) state" where
  "beh_typed_jumptable_pair_l118 K obj tb = do {
     w8 K (obj + 0x2A) tb;
     n3 \<leftarrow> r8 K (obj + 3);
     let e1 = TC + n3 * 12;
     v12 \<leftarrow> r16 K (e1 + 0);
     let e0s = as_s16 v12;
     e0u \<leftarrow> r16 K (e1 + 0);
     (if e0s \<noteq> 0 then do {
       n2e \<leftarrow> r16 K (obj + 0x2E);
       w16 K (obj + 0x60) (e0u - n2e)
     }
      else w16 K (obj + 0x60) e0u);
     n3 \<leftarrow> r8 K (obj + 3);
     let e1 = TC + n3 * 12;
     v16 \<leftarrow> r16 K (e1 + 4);
     let e4s = as_s16 v16;
     e4u \<leftarrow> r16 K (e1 + 4);
     (if e4s \<noteq> 0 then do {
       n36 \<leftarrow> r16 K (obj + 0x36);
       w16 K (obj + 0x64) (e4u - n36)
     }
      else w16 K (obj + 0x64) e4u);
     n3 \<leftarrow> r8 K (obj + 3);
     let e2 = TC + n3 * 12;
     v20 \<leftarrow> r16 K (e2 + 2);
     w16 K (obj + 0x62) v20;
     v21 \<leftarrow> r8 K (e2 + 6);
     w8 K (obj + 0x5F) v21;
     e8 \<leftarrow> r16 K (e2 + 8);
     w16 K (obj + 0x82) e8;
     let e8s = as_s16 e8;
     let half80 = sar 1 (e8s + shr e8s 31);
     v23 \<leftarrow> r8 K (obj + 3);
     let e3 = TC + v23 * 12;
     w8 K (obj + 0) 1;
     ea \<leftarrow> r16 K (e3 + 0xA);
     w16 K (obj + 0x80) half80;
     w16 K (obj + 0x86) ea;
     let eas = as_s16 ea;
     let half84 = sar 1 (eas + shr eas 31);
     w16 K (obj + 0x84) half84
   }"

definition beh_typed_jumptable_pair_l171 :: "'c core_ops \<Rightarrow> u32 \<Rightarrow> u32
    \<Rightarrow> ('c, unit + 'a) state" where
  "beh_typed_jumptable_pair_l171 K n3 obj = (if (n3 = 0 \<or> n3 = 1) \<or> n3 = 3 then do {
     w8 K (obj + 0x46) 1;
     State_Monad.return (Inl ())
   }
    else if n3 = 2 then do {
      w8 K (obj + 0x46) 1;
      g0e \<leftarrow> r8 K 0x800BF816;
      (if g0e = 0 then State_Monad.return (Inl ())
       else do {
         g0f \<leftarrow> r8 K 0x800BF817;
         (if g0f \<noteq> 2 then State_Monad.return (Inl ())
          else do {
            w8 K (obj + 4) 1;
            w8 K (obj + 5) 0;
            v28 \<leftarrow> r16 K (obj + 0x5A);
            v29 \<leftarrow> r16 K (obj + 0x50);
            w16 K (obj + 0x56) (v28 - v29);
            w8 K (obj + 6) g0f;
            State_Monad.return (Inl ())
          })
       })
    }
     else if n3 = 4 then do { w8 K (obj + 0x46) 0; State_Monad.return (Inl ()) }
      else if n3 = 5 then do {
        v30 \<leftarrow> r16 K (obj + 0x56);
        w16 K (obj + 0x56) (v30 - 0x600);
        State_Monad.return (Inl ())
      }
       else State_Monad.return (Inl ()))"

definition beh_typed_jumptable_pair_l81 :: "'c core_ops \<Rightarrow> u32 \<Rightarrow> u32
    \<Rightarrow> ('c, unit + 'a) state" where
  "beh_typed_jumptable_pair_l81 K st obj = (if 2 \<le> st then (if st = 2 then State_Monad.return
      (Inl ())
    else do { only_if (st = 3) (despawn K obj); State_Monad.return (Inl ()) })
    else if st \<noteq> 0 then State_Monad.return (Inl ())
     else do {
       v3 \<leftarrow> r8 K (obj + 3);
       a2 \<leftarrow> r8 K (TA + v3);
       setr K 4 obj;
       setr K 5 0xC;
       setr K 6 a2;
       graphics_bind_record_init K;
       r2_5 \<leftarrow> reg K 2;
       (if r2_5 \<noteq> 0 then State_Monad.return (Inl ())
        else do {
          v56 \<leftarrow> r16 K (obj + 0x56);
          v7 \<leftarrow> r8 K (obj + 4);
          w8 K (obj + 4) (v7 + 1);
          v28 \<leftarrow> r8 K (obj + 0x28);
          w8 K (obj + 0xBF) 1;
          w16 K (obj + 0x50) 0;
          w8 K (obj + 0x29) 0;
          w16 K (obj + 0x5A) v56;
          w8 K (obj + 0x28) (v28 OR 0x80);
          v9 \<leftarrow> r8 K (obj + 3);
          tb \<leftarrow> r8 K (TB + v9);
          only_if (tb \<noteq> 0) (beh_typed_jumptable_pair_l118 K obj tb);
          n3 \<leftarrow> r8 K (obj + 3);
          (if 6 \<le> n3 then State_Monad.return (Inl ())
           else beh_typed_jumptable_pair_l171 K n3 obj)
        })
     })"

definition beh_typed_jumptable_pair_l238 :: "'c core_ops \<Rightarrow> u32 \<Rightarrow> ('c, 'a +
    string \<times> u32) state" where
  "beh_typed_jumptable_pair_l238 K obj = do {
     let S11 = (0x800E7E80 :: u32);
     s5 \<leftarrow> r8 K (obj + 5);
     (if s5 = 1 then do {
       w8 K (obj + 5) 2;
       n5f \<leftarrow> r8 K (obj + 0x5F);
       w8 K (obj + 0x29) s5;
       let v = as_u8 (shl (as_u8 (s5 - n5f)) 4);
       w8 K 0x800BF81F v;
       State_Monad.return (Inr (''jt1_0_eq2'', obj))
     }
      else if 2 \<le> s5 then (if s5 = 2 then State_Monad.return (Inr (''jt1_0_eq2'', obj))
       else if s5 = 3 then do {
         v39 \<leftarrow> r8 K (S11 + 0x2A);
         v40 \<leftarrow> r8 K (obj + 0x2A);
         (if v39 = v40 then State_Monad.return (Inr (''after1'', obj))
          else do { w8 K (obj + 5) 0; State_Monad.return (Inr (''after1'', obj)) })
       }
        else State_Monad.return (Inr (''after1'', obj)))
       else do {
         v41 \<leftarrow> r8 K (S11 + 0x2A);
         v42 \<leftarrow> r8 K (obj + 0x2A);
         (if v41 \<noteq> v42 then State_Monad.return (Inr (''after1'', obj))
          else do {
            v43 \<leftarrow> r8 K (S11 + 5);
            (if v43 \<noteq> 0 then State_Monad.return (Inr (''after1'', obj))
             else do {
               w8 K (obj + 5) 1;
               w8 K 0x1F800137 2;
               State_Monad.return (Inr (''after1'', obj))
             })
          })
       })
   }"

definition beh_typed_jumptable_pair_l318 :: "'c core_ops \<Rightarrow> u32 \<Rightarrow> ('c, 'a +
    string \<times> u32) state" where
  "beh_typed_jumptable_pair_l318 K obj = do {
     s5 \<leftarrow> r8 K (obj + 5);
     (if s5 = 1 then do {
       n6 \<leftarrow> r8 K (obj + 6);
       (if n6 = 0 then do {
         v48 \<leftarrow> r8 K (obj + 0x29);
         (if v48 = 0 then State_Monad.return (Inr (''after1'', obj))
          else do {
            w8 K (obj + 6) s5;
            scene_transition_clear_swap_block K 0x800E7E80;
            setr K 4 0x6D;
            setr K 5 0x41;
            call_guest K 0x8004ED94;
            sfx_trigger K 0x19 0 0xF;
            State_Monad.return (Inr (''after1'', obj))
          })
       }
        else if n6 = s5 then do {
          v49 \<leftarrow> r8 K (obj + 0x29);
          (if v49 \<noteq> 0 then State_Monad.return (Inr (''after1'', obj))
           else do {
             v50 \<leftarrow> r8 K 0x800E7FC7;
             let gbit = as_u8 (v50 AND 1);
             v51 \<leftarrow> r8 K (obj + 0x5F);
             (if gbit \<noteq> v51 then State_Monad.return (Inr (''after1'', obj))
              else do { w8 K (obj + 6) 0; State_Monad.return (Inr (''after1'', obj)) })
           })
        }
         else State_Monad.return (Inr (''after1'', obj)))
     }
      else if 2 \<le> s5 then (if s5 = 2 then do {
        setr K 4 obj;
        call_guest K 0x80138B04;
        State_Monad.return (Inr (''after1'', obj))
      }
       else State_Monad.return (Inr (''after1'', obj)))
       else do {
         v52 \<leftarrow> r8 K 0x800BF9DB;
         (if (v52 AND 1) \<noteq> 0 then w8 K (obj + 5) 2 else w8 K (obj + 5) 1);
         State_Monad.return (Inr (''after1'', obj))
       })
   }"

definition beh_typed_jumptable_pair_l238b where
  "beh_typed_jumptable_pair_l238b K n3 obj = (if n3 = 0 then beh_typed_jumptable_pair_l238 K obj
    else if n3 = 1 then do {
      _ \<leftarrow> scene_transition_step_swap_waiter K obj;
      tick_linked_overlay K obj 0x45;
      State_Monad.return (Inr (''after1'', obj))
    }
     else if n3 = 2 then do {
       _ \<leftarrow> scene_transition_step_swap_waiter K obj;
       tick_linked_overlay K obj 0x46;
       v44 \<leftarrow> r32 K 0x800BF814;
       let g = v44 AND 0xFFFF0000;
       (if g \<noteq> 0x02010000 then do {
         w8 K (obj + 0x2A) 0x1F;
         w8 K (obj + 0x5F) 0;
         State_Monad.return (Inr (''after1'', obj))
       }
        else do {
          w8 K (obj + 0x2A) 0x26;
          v45 \<leftarrow> r8 K 0x800BF8BC;
          (if v45 \<noteq> 0xFF then w8 K (obj + 0x5F) 1 else w8 K (obj + 0x5F) 0);
          State_Monad.return (Inr (''after1'', obj))
        })
     }
      else if n3 = 3 then beh_typed_jumptable_pair_l318 K obj
       else do {
         only_if (n3 = 4) (do { setr K 4 obj; call_guest K 0x80138C70 });
         State_Monad.return (Inr (''after1'', obj))
       })"

definition beh_typed_jumptable_pair_l215 :: "'c core_ops \<Rightarrow> u32 \<Rightarrow> ('c, 'a +
    string \<times> u32) state" where
  "beh_typed_jumptable_pair_l215 K obj = do {
     v31 \<leftarrow> r8 K 0x800BF816;
     (if v31 \<noteq> 0 then do {
       v32 \<leftarrow> r8 K 0x800BF817;
       v33 \<leftarrow> r8 K (obj + 3);
       only_if (v32 = v33) (do {
         _ \<leftarrow> enqueue_visible_class4 K obj;
         State_Monad.return ()
       })
     }
      else do {
        v34 \<leftarrow> r8 K (obj + 3);
        v35 \<leftarrow> r8 K 0x1F800207;
        (if v34 = 2 \<and> 0x1D \<le> v35 then do {
          _ \<leftarrow> enqueue_by_class K obj;
          State_Monad.return ()
        }
         else do { _ \<leftarrow> actor_bounds_cull K obj; State_Monad.return () })
      });
     n3 \<leftarrow> r8 K (obj + 3);
     (if n3 < 6 then beh_typed_jumptable_pair_l238b K n3 obj
      else State_Monad.return (Inr (''after4'', obj)))
   }"

definition beh_typed_jumptable_pair_l387 :: "'c core_ops \<Rightarrow> u32 \<Rightarrow> ('c, 'a +
    string \<times> u32) state" where
  "beh_typed_jumptable_pair_l387 K obj = do {
     v53 \<leftarrow> r8 K (obj + 1);
     only_if (v53 \<noteq> 0) (do { setr K 4 obj; graphics_bind_render_update K });
     w8 K (obj + 0x29) 0;
     w8 K (obj + 0x2B) 0;
     State_Monad.return (Inr (''after_all'', obj))
   }"

definition beh_typed_jumptable_pair_l258 :: "'c core_ops \<Rightarrow> u32 \<Rightarrow> ('c, 'a +
    string \<times> u32) state" where
  "beh_typed_jumptable_pair_l258 K obj = do {
     v54 \<leftarrow> scene_transition_step_swap_waiter K obj;
     setr K 2 v54;
     r2_55 \<leftarrow> reg K 2;
     (if r2_55 = 0 then State_Monad.return (Inr (''after1'', obj))
      else do {
        v56 \<leftarrow> r8 K (obj + 5);
        w8 K (obj + 5) (v56 + 1);
        State_Monad.return (Inr (''after1'', obj))
      })
   }"

definition beh_typed_jumptable_pair :: "'c core_ops \<Rightarrow> ('c, unit) state" where
  "beh_typed_jumptable_pair K = with_frame K 32 [(16, 16), (31, 24), (17, 20)] (loop
      (\<lambda>(pc1, obj). (if pc1 = ''start'' then do {
     obj \<leftarrow> reg K 4;
     st \<leftarrow> r8 K (obj + 4);
     (if st \<noteq> 1 then beh_typed_jumptable_pair_l81 K st obj
      else beh_typed_jumptable_pair_l215 K obj)
   }
    else if pc1 = ''after4'' then beh_typed_jumptable_pair_l387 K obj
     else if pc1 = ''jt1_0_eq2'' then beh_typed_jumptable_pair_l258 K obj
      else if pc1 = ''after1'' then State_Monad.return (Inr (''after4'', obj))
       else State_Monad.return (Inl ()))) (''start'', (0 :: u32)))"

section \<open>\<open>game/ai/beh_typed_table_seed_gate.cpp\<close>\<close>

definition run_turn_setup :: "'c core_ops \<Rightarrow> u32 \<Rightarrow> ('c, bool) state" where
  "run_turn_setup K a = do {
     obj \<leftarrow> actor_addr K a;
     rotY1 \<leftarrow> actor_rot_y K a;
     facing \<leftarrow> r8 K (obj + 0x5F);
     actor_set_sub_state K a 4;
     let leadCw = angle_cmp (shl facing 4) rotY1 0;
     actor_set_target_delta K a (if leadCw \<noteq> 0 then 256 else as_s16 (-256));
     actor_set_interact_state K a 0;
     State_Monad.return True
   }"

definition state_one_tick_l254 :: "'c core_ops \<Rightarrow> u32 \<Rightarrow> ('c, unit) state"
    where
  "state_one_tick_l254 K a = do {
     v21 \<leftarrow> actor_counter_a K a;
     (if v21 \<noteq> 0 then actor_set_sub_state K a 1
      else do {
        v22 \<leftarrow> actor_interact_state K a;
        (if v22 \<noteq> 0 then do {
          _ \<leftarrow> run_turn_setup K a;
          State_Monad.return ()
        }
         else do {
           rec \<leftarrow> actor_render_rec K a;
           v24 \<leftarrow> actor_target_delta K a;
           let curDelta_u = as_u16 v24;
           curAngle_u \<leftarrow> r16 K (rec + 0xC);
           let newAngle_u = as_u16 (curAngle_u + curDelta_u);
           let testU = as_u16 (newAngle_u + 2048);
           let newAngle_u = (if \<not> (testU < 4097) then (let masked = as_u16 (newAngle_u AND
               0x0FFF) in (if 2049 \<le> masked then as_u16 (masked OR 0xF000) else masked)) else
               newAngle_u);
           let curDelta_s = as_s16 curDelta_u;
           let decayed = (if 0 <s curDelta_s then (let stepped = as_s16 (curDelta_s - 8) in (if 0
               \<le>s stepped then stepped else 0)) else (let stepped = as_s16 (curDelta_s + 8) in
               (if stepped \<le>s 0 then stepped else 0)));
           let newAngle_s = as_s16 newAngle_u;
           let decayed = as_s16 (if 0 <s newAngle_s then decayed - 20 else decayed + 20);
           let absA = (if newAngle_s <s 0 then as_s16 (- newAngle_s) else newAngle_s);
           (newAngle_u, decayed) \<leftarrow> (if absA <s 32 then do {
             let absD = (if decayed <s 0 then as_s16 (- decayed) else decayed);
             (if absD <s 20 then do {
               let newAngle_u = (0 :: u32);
               let decayed = (0 :: u32);
               actor_set_sub_state K a 0;
               State_Monad.return (newAngle_u, decayed)
             }
              else State_Monad.return (newAngle_u, decayed))
           }
            else State_Monad.return (newAngle_u, decayed));
           actor_set_target_delta K a decayed;
           w16 K (rec + 0xC) newAngle_u
         })
      })
   }"

definition state_one_tick_l188 :: "'c core_ops \<Rightarrow> u32 \<Rightarrow> u32 \<Rightarrow>
    ('c, unit) state" where
  "state_one_tick_l188 K sub1 a = (if sub1 = 2 then do {
     v6 \<leftarrow> actor_counter_a K a;
     (if v6 = 0 then actor_set_sub_state K a 3
      else do {
        pilotMode \<leftarrow> r8 K (PILOT_BASE + PILOT_MODE_OFF);
        pilotYaw \<leftarrow> r16 K (PILOT_BASE + PILOT_YAW_OFF);
        rec \<leftarrow> actor_render_rec K a;
        let angleWrite = (if pilotMode \<noteq> 0 then as_u16 (- pilotYaw) else pilotYaw);
        w16 K (rec + 0xC) angleWrite;
        pilotState \<leftarrow> r8 K (PILOT_BASE + PILOT_STATE_OFF);
        (if pilotState < 3 then State_Monad.return ()
         else do {
           let delta = as_u16 ((pilotState - 2) * 6);
           t13 \<leftarrow> (if pilotMode \<noteq> 0 then do {
             v11 \<leftarrow> actor_pos_y_u K a;
             State_Monad.return (as_u16 (v11 - delta))
           }
            else do {
              v12 \<leftarrow> actor_pos_y_u K a;
              State_Monad.return (as_u16 (v12 + delta))
            });
           let newOscBase = t13;
           actor_set_pos_y K a newOscBase;
           ty \<leftarrow> actor_type K a;
           let tblRow = TBL_A6F4 + ty * 4;
           hi_u \<leftarrow> r16 K (tblRow + 2);
           let hi_s = as_s16 hi_u;
           only_if (as_s16 newOscBase <s hi_s) (actor_set_pos_y K a hi_u);
           lo_u \<leftarrow> r16 K (tblRow + 0);
           let lo_s = as_s16 lo_u;
           v17 \<leftarrow> actor_pos_y K a;
           only_if (lo_s <s v17) (actor_set_pos_y K a lo_u)
         })
      })
   }
    else if sub1 = 3 then do {
      pilotState \<leftarrow> r8 K (PILOT_BASE + PILOT_STATE_OFF);
      let seed = (if pilotState = 1 then (48 :: u32) else (if pilotState = 0 then (32 :: u32) else
          (if pilotState = 2 then (64 :: u32) else (128 :: u32))));
      actor_set_target_delta K a seed;
      pilotMode \<leftarrow> r8 K (PILOT_BASE + PILOT_MODE_OFF);
      only_if (pilotMode \<noteq> 0) (do {
        v20 \<leftarrow> actor_target_delta K a;
        actor_set_target_delta K a (as_s16 (- v20))
      });
      actor_set_sub_state K a 4
    }
     else if sub1 = 4 then state_one_tick_l254 K a else State_Monad.return ())"

definition state_one_tick :: "'c core_ops \<Rightarrow> u32 \<Rightarrow> ('c, unit) state" where
  "state_one_tick K a = do {
     v1 \<leftarrow> actor_state_echo K a;
     only_if (v1 \<noteq> 0) (do {
       v2 \<leftarrow> actor_type K a;
       seed \<leftarrow> osc_base_table K v2;
       rec \<leftarrow> actor_render_rec K a;
       actor_set_state_echo K a 0;
       actor_set_sub_state K a 0;
       actor_set_pos_y K a seed;
       w16 K (rec + 0xC) 0;
       actor_set_target_delta K a 0
     });
     sub1 \<leftarrow> actor_sub_state K a;
     (if 5 \<le> sub1 then State_Monad.return ()
      else do {
        sub1 \<leftarrow> (if sub1 = 0 then do {
          actor_set_osc_phase K a 0;
          actor_set_sub_state K a 1;
          State_Monad.return (1 :: u32)
        }
         else State_Monad.return sub1);
        let rest1 = (\<lambda>sub1. state_one_tick_l188 K sub1 a);
        (if sub1 = 1 then do {
          v26 \<leftarrow> actor_counter_a K a;
          (if v26 \<noteq> 0 then do {
            actor_set_sub_state K a 2;
            let sub1 = (2 :: u32);
            rest1 sub1
          }
           else do {
             v27 \<leftarrow> actor_interact_state K a;
             (if v27 \<noteq> 0 then do {
               _ \<leftarrow> run_turn_setup K a;
               State_Monad.return ()
             }
              else do {
                v28 \<leftarrow> actor_retry_delay K a;
                (if v28 \<noteq> 0 then do {
                  v29 \<leftarrow> actor_retry_delay K a;
                  actor_set_retry_delay K a (as_u8 (v29 - 1))
                }
                 else do {
                   v30 \<leftarrow> actor_osc_phase K a;
                   cos_q12 \<leftarrow> rcos K v30;
                   v32 \<leftarrow> actor_render_rec K a;
                   w16 K (v32 + 0xC) (shr cos_q12 5);
                   r \<leftarrow> rng_next K;
                   v34 \<leftarrow> actor_osc_phase_u K a;
                   let newPhase = as_u16 (v34 + 68 + shr r 8);
                   actor_set_osc_phase K a (as_s16 newPhase)
                 })
              })
           })
        }
         else rest1 sub1)
      })
   }"

definition beh_typed_table_seed_gate :: "'c core_ops \<Rightarrow> ('c, unit) state" where
  "beh_typed_table_seed_gate K = with_frame K 32 [(17, 20), (31, 28), (18, 24), (16, 16)] (do {
     r4_1 \<leftarrow> reg K 4;
     st \<leftarrow> actor_state K r4_1;
     (if st \<noteq> Sta_Active then (if Sta_DespawnA \<le> st then (if 4 \<le> st then
         State_Monad.return ()
      else do { v3 \<leftarrow> actor_addr K r4_1; despawn K v3 })
      else if st \<noteq> Sta_Init then State_Monad.return ()
       else do {
         v4 \<leftarrow> actor_addr K r4_1;
         setr K 4 v4;
         setr K 5 0xC;
         setr K 6 0x14;
         graphics_bind_record_init K;
         r2_5 \<leftarrow> reg K 2;
         (if r2_5 \<noteq> 0 then State_Monad.return ()
          else do {
            actor_set_scene_mode K r4_1 0x22;
            actor_set_box_x K r4_1 0x1E;
            actor_set_box_y K r4_1 0x3C;
            actor_set_box_z K r4_1 0x32;
            actor_set_box_w K r4_1 0x64;
            actor_set_state K r4_1 Sta_Active;
            actor_set_alive K r4_1 1;
            actor_set_counter_a K r4_1 0;
            actor_set_counter_b K r4_1 0;
            v6 \<leftarrow> actor_addr K r4_1;
            setr K 4 v6;
            call_guest K SUB_TILE_MOVE_STEP;
            actor_set_osc_phase K r4_1 0;
            v7 \<leftarrow> actor_type K r4_1;
            seed \<leftarrow> osc_base_table K v7;
            actor_set_trigger_param K r4_1 (as_s16 (- 0xC8));
            actor_set_pos_y K r4_1 seed
          })
       })
      else do {
        state_one_tick K r4_1;
        phase \<leftarrow> scene_phase K;
        (if phase < 0x1C then actor_set_state_echo K r4_1 st
         else if phase = 0x22 then do {
           actor_set_render_mode K r4_1 st;
           v10 \<leftarrow> actor_addr K r4_1;
           _ \<leftarrow> enqueue_visible_class4 K v10;
           v11 \<leftarrow> actor_addr K r4_1;
           setr K 4 v11;
           call_guest K SUB_TILE_MOVE_STEP;
           v12 \<leftarrow> actor_addr K r4_1;
           setr K 4 v12;
           graphics_bind_render_update K
         }
          else do {
            v13 \<leftarrow> actor_trigger_param K r4_1;
            v14 \<leftarrow> actor_bounds_cull_y_offset K r4_1 v13;
            (if v14 = 0 then actor_set_state_echo K r4_1 st
             else do {
               v15 \<leftarrow> actor_addr K r4_1;
               setr K 4 v15;
               call_guest K SUB_TILE_MOVE_STEP;
               v16 \<leftarrow> actor_addr K r4_1;
               setr K 4 v16;
               graphics_bind_render_update K
             })
          })
      })
   })"

end
