(* ===== verification/BehaviorTable.thy ===== *)
theory BehaviorTable
  imports AreaSixActors MotionActors PadChildren RecordActors ReleaseTriggers RoutedBehaviors
    SceneTriggers ScriptInterpreter SeasideProximity SopIntro TableActors ObjectLists
begin

text \<open>
  The table of native behaviours (\<open>kTable\<close> of \<open>game/object/behavior_dispatch.cpp\<close>), the lookup over
  it and its coverage counters. A row is the address of a guest handler, the function that replaces
  it and its name. Handlers reach other handlers through the same lookup, which the theories of the
  handlers take from \<open>native_call K\<close>; \<open>with_natives\<close> puts the lookup into the machine, a level for
  each nesting of one native behaviour inside another.
\<close>

section \<open>The table\<close>

type_synonym 'c native_beh = "u32 \<times> ('c, unit) state \<times> string"

abbreviation beh_addr :: "'c native_beh \<Rightarrow> u32" where "beh_addr b \<equiv> fst b"
abbreviation beh_fn :: "'c native_beh \<Rightarrow> ('c, unit) state" where "beh_fn b \<equiv> fst (snd b)"
abbreviation beh_name :: "'c native_beh \<Rightarrow> string" where "beh_name b \<equiv> snd (snd b)"

definition native_rows :: "'c core_ops \<Rightarrow> 'c native_beh list" where
  "native_rows K =
    [(0x8004CE14, beh_record_list_scanner K, ''record_list_scanner''),
     (0x8006F2D0, beh_pad_child_linker K, ''pad_child_linker''),
     (0x80071A3C, beh_area_event_dispatch K, ''area_event_dispatch''),
     (0x800739AC, beh_scene_ui_trigger K, ''scene_ui_trigger''),
     (0x80073CD8, beh_typed_init_scene_trigger K, ''typed_init_scene_trigger''),
     (0x800741DC, beh_pickup_collect_trigger K, ''pickup_collect_trigger''),
     (0x8012EB54, beh_substate_edge_orchestrator K, ''substate_edge_orchestrator''),
     (0x80124E74, beh_jumptable_release_trigger K, ''jumptable_release_trigger''),
     (0x80133C14, beh_typed_table_seed_gate K, ''typed_table_seed_gate''),
     (0x80138FC8, beh_typed_jumptable_pair K, ''typed_jumptable_pair''),
     (0x8013259C, beh_cull_substate_orchestrator K, ''cull_substate_orchestrator''),
     (0x80145230, beh_id_compare_motion_dispatch K, ''id_compare_motion_dispatch''),
     (0x8012D4EC, beh_jumptable_flag_gate K, ''jumptable_flag_gate''),
     (0x8012D404, beh_cull_tick_render K, ''cull_tick_render''),
     (0x801395C0, beh_sibling_angle_track K, ''sibling_angle_track''),
     (0x8013C538, beh_scatter_record_dither K, ''scatter_record_dither''),
     (0x8013C3F4, beh_area_threshold_ptr_swap K, ''area_threshold_ptr_swap''),
     (0x8013C9C0, beh_scatter_ramp_machine K, ''scatter_ramp_machine''),
     (0x80136D9C, beh_pure_inner_dispatch K, ''pure_inner_dispatch''),
     (0x80129C00, beh_anim_trigger_gates K, ''anim_trigger_gates''),
     (0x8012A0B8, beh_box_seed_phase_gate K, ''box_seed_phase_gate''),
     (0x8012DA04, beh_typed_anim_spawn K, ''typed_anim_spawn''),
     (0x80121978, beh_id_routed_dispatch K, ''id_routed_dispatch''),
     (0x80125E0C, beh_pure_substate_dispatch K, ''pure_substate_dispatch''),
     (0x80128760, beh_linked_advance_branch K, ''linked_advance_branch''),
     (0x80118240, beh_typed_init_exit_poker K, ''typed_init_exit_poker''),
     (0x8013A900, beh_child_trig_motion K, ''child_trig_motion''),
     (0x80117658, beh_prng_velocity_machine K, ''prng_velocity_machine''),
     (0x80135D64, beh_quad_record_table_seed K, ''quad_record_table_seed''),
     (0x8013B2E4, beh_flagbit_timer_machine K, ''flagbit_timer_machine''),
     (0x80131D08, beh_two_child_steer K, ''two_child_steer''),
     (0x80132400, beh_single_child_cull K, ''single_child_cull''),
     (0x80133D6C, beh_twin_record_steer K, ''twin_record_steer''),
     (0x80134FD8, beh_multi_record_phase_machine K, ''multi_record_phase_machine''),
     (0x80136158, beh_sine_motion_sfx K, ''sine_motion_sfx''),
     (0x8013ADBC, beh_box_rearm_sub K, ''box_rearm_sub''),
     (0x8011CBD0, beh_node3_router K, ''node3_router''),
     (0x8011D988, beh_actor_move_sm K, ''actor_move_sm''),
     (0x8011D578, beh_variant_actor_sm K, ''variant_actor_sm''),
     (0x8013A330, beh_lift_platform K, ''lift_platform''),
     (0x80136954, beh_event_record_machine K, ''event_record_machine''),
     (0x8011C164, beh_typed_variant_router K, ''typed_variant_router''),
     (0x80059ED8, beh_camera_target_follow K, ''camera_target_follow''),
     (0x8003AD48, beh_cube_text_spawn K, ''cube_text_spawn''),
     (0x80127798, beh_area_transition_machine K, ''area_transition_machine''),
     (0x8004C238, beh_visibility_gate_dispatch K, ''visibility_gate_dispatch''),
     (0x8002918C, beh_rand_phase_cull K, ''rand_phase_cull''),
     (0x80029B40, beh_pos_history_trail K, ''pos_history_trail''),
     (0x8007DC38, beh_variant_overlay_lifecycle K, ''variant_overlay_lifecycle''),
     (0x801189E8, beh_a06_multi_actor K, ''a06_multi_actor''),
     (0x80041098, beh_script_interp_step K, ''script_interp_step''),
     (0x8013AA14, beh_a06_scripted_actor K, ''a06_scripted_actor''),
     (0x80139728, beh_a06_fade_flash_ramp_80139728 K, ''a06_fade_flash_ramp''),
     (0x8013AEF0, beh_a06_spawn_follow_obj_8013_aef0 K, ''a06_spawn_follow_obj''),
     (0x8013AFD8, beh_a06_sound_cmd_wait_8013_afd8 K, ''a06_sound_cmd_wait''),
     (0x8013B074, beh_a06_spawn_subobj_8013_b074 K, ''a06_spawn_subobj''),
     (0x8013B178, beh_a06_fade_ramp_8013_b178 K, ''a06_fade_ramp''),
     (0x8013B274, beh_a06_music_cue_8013_b274 K, ''a06_music_cue''),
     (0x8013B29C, beh_a06_timer_gate_8013_b29_c K, ''a06_timer_gate''),
     (0x801280D0, beh_a08_scene_actor K, ''a08_scene_actor''),
     (0x8010ACFC, beh_sop_intro_pilot K, ''sop_intro_pilot''),
     (0x8010B798, beh_sop_intro_lifted K, ''sop_intro_lifted''),
     (0x8010B990, beh_sop_intro_narration K, ''sop_intro_narration''),
     (0x8013C1DC, beh_seaside_prox_substate K, ''seaside_prox_substate''),
     (0x8010AB38, beh_sop_overlay_shadow K, ''sop_overlay_shadow'')]"

section \<open>The lookup\<close>

fun first_row :: "'c native_beh list \<Rightarrow> u32 \<Rightarrow> ('c, bool) state" where
  "first_row [] handler = State_Monad.return False"
| "first_row (b # rows) handler =
     (if beh_addr b = handler then do { _ \<leftarrow> beh_fn b; State_Monad.return True }
      else first_row rows handler)"

definition dispatch_native :: "'c core_ops \<Rightarrow> u32 \<Rightarrow> ('c, bool) state" where
  "dispatch_native K handler = first_row (native_rows K) handler"

definition native_name :: "'c core_ops \<Rightarrow> u32 \<Rightarrow> string option" where
  "native_name K handler = map_option beh_name (List.find (\<lambda>b. beh_addr b = handler) (native_rows K))"

fun with_natives :: "nat \<Rightarrow> 'c core_ops \<Rightarrow> 'c core_ops" where
  "with_natives 0 K = K"
| "with_natives (Suc n) K =
     K\<lparr>native_call := (\<lambda>c h. run_state (dispatch_native (with_natives n K) h) c)\<rparr>"

section \<open>The coverage counters\<close>

text \<open>The counters belong to the host's dispatcher object, so they are a value of their own. A slot is
  a handler and its hits; the first hit and every decade up to a million are logged.\<close>

definition kMaxCov :: nat where "kMaxCov = 128"

fun bump_slot :: "(u32 \<times> 64 word) list \<Rightarrow> u32 \<Rightarrow> (u32 \<times> 64 word) list option" where
  "bump_slot [] handler = None"
| "bump_slot (s # cov) handler =
     (if fst s = handler then Some ((handler, snd s + 1) # cov)
      else map_option ((#) s) (bump_slot cov handler))"

definition note_native_hit :: "bool \<Rightarrow> u32 \<Rightarrow> (u32 \<times> 64 word) list \<Rightarrow> (u32 \<times> 64 word) list" where
  "note_native_hit coverage_channel handler cov =
     (if \<not> coverage_channel then cov
      else case bump_slot cov handler of
        Some cov' \<Rightarrow> cov'
      | None \<Rightarrow> if kMaxCov \<le> List.length cov then cov else cov @ [(handler, 1)])"

section \<open>Every row is reached\<close>

lemma first_row_nth:
  assumes "distinct (map beh_addr rows)" "i < List.length rows"
  shows "first_row rows (beh_addr (rows ! i)) = do { _ \<leftarrow> beh_fn (rows ! i); State_Monad.return True }"
  using assms by (induction rows arbitrary: i) (auto simp: nth_Cons split: nat.split)

lemma first_row_absent: "h \<notin> set (map beh_addr rows) \<Longrightarrow> first_row rows h = State_Monad.return False"
  by (induction rows) auto

lemma native_rows_distinct: "distinct (map beh_addr (native_rows K))"
  by (simp add: native_rows_def)

lemma row_addr_fixed: "map beh_addr (native_rows K) = map beh_addr (native_rows K')"
  by (simp add: native_rows_def)

lemma dispatch_native_nth:
  assumes "i < List.length (native_rows K)"
  shows "dispatch_native K' (beh_addr (native_rows K ! i)) =
     do { _ \<leftarrow> beh_fn (native_rows K' ! i); State_Monad.return True }"
proof -
  have l: "List.length (native_rows K) = List.length (native_rows K')"
    using row_addr_fixed [of K K'] by (metis length_map)
  then have "beh_addr (native_rows K ! i) = beh_addr (native_rows K' ! i)"
    using assms row_addr_fixed [of K K'] by (metis nth_map)
  then show ?thesis
    unfolding dispatch_native_def using first_row_nth [OF native_rows_distinct] assms l by metis
qed

lemma native_behavior_with: "native_behavior (with_natives (Suc n) K) h = dispatch_native (with_natives n K) h"
  by (cases "dispatch_native (with_natives n K) h") (simp add: native_behavior_def)

text \<open>C37. No row of the table of native behaviours is shadowed: dispatching an object to the handler
  of any row stores the object's address in the argument register, runs that row's function, with the
  behaviours it reaches in turn looked up in the same table, and never falls back to guest code.\<close>
theorem dispatch_obj_runs_row:
  assumes "i < List.length (native_rows K)"
  shows "behavior_dispatch_dispatch_obj (with_natives (Suc n) K) object (beh_addr (native_rows K ! i)) =
     do { setr K 4 object; beh_fn (native_rows (with_natives n K) ! i) }"
proof -
  have "setr (with_natives (Suc n) K) 4 object = setr K 4 object"
    by (simp add: setr_def)
  moreover have "native_behavior (with_natives (Suc n) K) (beh_addr (native_rows K ! i)) =
     do { _ \<leftarrow> beh_fn (native_rows (with_natives n K) ! i); State_Monad.return True }"
    unfolding native_behavior_with by (rule dispatch_native_nth [OF assms])
  ultimately show ?thesis by (simp add: behavior_dispatch_dispatch_obj_def only_if_def)
qed

theorem dispatch_obj_runs_row_witness:
  "behavior_dispatch_dispatch_obj (with_natives (Suc 0) idle_core) 0x800ED8D8 0x80071A3C =
     do { setr idle_core 4 0x800ED8D8; beh_area_event_dispatch idle_core }"
  using dispatch_obj_runs_row [where i = 2 and K = idle_core and n = 0 and object = "0x800ED8D8"]
  by (simp add: native_rows_def)

section \<open>The counters lose no hit\<close>

lemma bump_slot_None: "bump_slot cov h = None \<longleftrightarrow> h \<notin> fst ` set cov"
  by (induction cov) auto

lemma bump_slot_Some:
  "bump_slot cov h = Some cov' \<Longrightarrow> map fst cov' = map fst cov \<and>
     map_of cov' = (map_of cov)(h := map_option (\<lambda>n. n + 1) (map_of cov h))"
  by (induction cov arbitrary: cov') (auto split: if_splits)

lemma map_of_snoc: "x \<notin> fst ` set cov \<Longrightarrow> map_of (cov @ [(x, v)]) = (map_of cov)(x := Some v)"
  by (auto simp: map_add_def fun_eq_iff map_of_eq_None_iff [symmetric] split: option.splits)

definition hits_of :: "u32 list \<Rightarrow> u32 \<Rightarrow> 64 word option" where
  "hits_of hs h = (if h \<in> set hs then Some (of_nat (count_list hs h)) else None)"

lemma note_native_hit_counts:
  assumes "distinct (map fst cov)" "fst ` set cov \<subseteq> A" "h \<in> A" "finite A" "card A \<le> kMaxCov"
  shows "distinct (map fst (note_native_hit True h cov))" "fst ` set (note_native_hit True h cov) \<subseteq> A"
    "map_of (note_native_hit True h cov) =
       (map_of cov)(h := Some (case map_of cov h of None \<Rightarrow> 1 | Some n \<Rightarrow> n + 1))"
proof -
  have room: "List.length cov < kMaxCov" if "h \<notin> fst ` set cov"
  proof -
    have "fst ` set cov \<subset> A" using assms that by auto
    then have "card (fst ` set cov) < card A" using assms by (intro psubset_card_mono)
    moreover have "card (fst ` set cov) = List.length cov"
      using distinct_card [OF assms(1)] by simp
    ultimately show ?thesis using assms by simp
  qed
  have "distinct (map fst (note_native_hit True h cov)) \<and> fst ` set (note_native_hit True h cov) \<subseteq> A \<and>
    map_of (note_native_hit True h cov) =
       (map_of cov)(h := Some (case map_of cov h of None \<Rightarrow> 1 | Some n \<Rightarrow> n + 1))"
  proof (cases "bump_slot cov h")
    case None
    then have n: "h \<notin> fst ` set cov" by (simp add: bump_slot_None)
    then have "map_of cov h = None" by (simp add: map_of_eq_None_iff)
    moreover have "\<not> kMaxCov \<le> List.length cov" using room [OF n] by simp
    ultimately show ?thesis using assms None n by (auto simp: note_native_hit_def map_of_snoc simp del: map_of_append)
  next
    case (Some cov')
    then have "h \<in> fst ` set cov" using bump_slot_None by (metis option.distinct(1))
    then obtain n where "map_of cov h = Some n" by (metis map_of_eq_None_iff not_Some_eq)
    then show ?thesis using Some bump_slot_Some [OF Some] assms
      by (auto simp: note_native_hit_def simp flip: set_map)
  qed
  then show "distinct (map fst (note_native_hit True h cov))" "fst ` set (note_native_hit True h cov) \<subseteq> A"
    "map_of (note_native_hit True h cov) =
       (map_of cov)(h := Some (case map_of cov h of None \<Rightarrow> 1 | Some n \<Rightarrow> n + 1))" by blast+
qed

lemma coverage_counts_from:
  assumes "set hs \<subseteq> A" "finite A" "card A \<le> kMaxCov" "distinct (map fst cov)" "fst ` set cov \<subseteq> A"
    "map_of cov = hits_of gs"
  shows "map_of (foldl (\<lambda>cov h. note_native_hit True h cov) cov hs) = hits_of (gs @ hs)"
  using assms
proof (induction hs arbitrary: cov gs)
  case (Cons h hs)
  note c = note_native_hit_counts [OF Cons.prems(4,5) _ Cons.prems(2,3), of h]
  have "map_of (note_native_hit True h cov) = hits_of (gs @ [h])"
    using Cons.prems by (subst c(3)) (auto simp: hits_of_def fun_eq_iff count_list_0_iff)
  then show ?case using Cons.prems Cons.IH [of "note_native_hit True h cov" "gs @ [h]"] c(1,2) by simp
qed simp



end
