(* ===== verification/CollisionResolve.thy ===== *)
theory CollisionResolve
  imports ObjectViews
begin

text \<open>
  The resolver of contacts between an object and its surroundings
  (\<open>game/world/collision_resolve.cpp\<close>).
\<close>

section \<open>Layout\<close>

definition kActorType :: u32 where "kActorType = 12"
definition kActorLanded :: u32 where "kActorLanded = 41"
definition kActorX :: u32 where "kActorX = 46"
definition kActorY32 :: u32 where "kActorY32 = 48"
definition kActorY :: u32 where "kActorY = 50"
definition kActorZ :: u32 where "kActorZ = 54"
definition kActorAngle :: u32 where "kActorAngle = 86"
definition kActorSampleRadius :: u32 where "kActorSampleRadius = 124"
definition kActorYBias :: u32 where "kActorYBias = 126"
definition kActorHeightLo :: u32 where "kActorHeightLo = 128"
definition kActorHeightHi :: u32 where "kActorHeightHi = 130"
definition kActorExtentLo :: u32 where "kActorExtentLo = 132"
definition kActorExtentHi :: u32 where "kActorExtentHi = 134"
definition kActorFacing :: u32 where "kActorFacing = 95"
definition kActorFacingRef :: u32 where "kActorFacingRef = 96"
definition kActorVelY :: u32 where "kActorVelY = 74"
definition kOtherX :: u32 where "kOtherX = 46"
definition kOtherY :: u32 where "kOtherY = 50"
definition kOtherZ :: u32 where "kOtherZ = 54"
definition kOtherRadius :: u32 where "kOtherRadius = 128"
definition kOtherExtentLo :: u32 where "kOtherExtentLo = 132"
definition kOtherExtentHi :: u32 where "kOtherExtentHi = 134"
definition kAnchorX :: u32 where "kAnchorX = 44"
definition kAnchorY :: u32 where "kAnchorY = 48"
definition kAnchorZ :: u32 where "kAnchorZ = 52"
definition kResolveFrameBytes :: u32 where "kResolveFrameBytes = 80"
definition kLocalSampleOffsetX :: u32 where "kLocalSampleOffsetX = 16"
definition kLocalSampleOffsetZ :: u32 where "kLocalSampleOffsetZ = 24"
definition kLocalDeltaX :: u32 where "kLocalDeltaX = 32"
definition kRaSampleCos :: u32 where "kRaSampleCos = 0x80023D94"
definition kRaSampleSin :: u32 where "kRaSampleSin = 0x80023DB0"
definition kRaSampleDist :: u32 where "kRaSampleDist = 0x80023E1C"
definition kRaRawDist :: u32 where "kRaRawDist = 0x80023EBC"
definition kRaContactAngle :: u32 where "kRaContactAngle = 0x80023F88"
definition kRaFacingCmp :: u32 where "kRaFacingCmp = 0x80023FF0"
definition kRaPushCos :: u32 where "kRaPushCos = 0x80024004"
definition kRaPushSin :: u32 where "kRaPushSin = 0x80024028"
definition kNoCollision :: u32 where "kNoCollision = 0"
definition kPushedOutInXz :: u32 where "kPushedOutInXz = 1"
definition kLandedOnTop :: u32 where "kLandedOnTop = 2"
definition kSnappedInY :: u32 where "kSnappedInY = 3"
definition kActorTypeTracksFacing :: u32 where "kActorTypeTracksFacing = 2"
definition kLandFrameBytes :: u32 where "kLandFrameBytes = 32"
definition kRaLandDist :: u32 where "kRaLandDist = 0x800242A8"
definition kLandRejected :: u32 where "kLandRejected = 0xFFFFFFFF"
definition kActorStateFlags :: u32 where "kActorStateFlags = 382"
definition kActorPausedBit :: u32 where "kActorPausedBit = 0x200"
definition kActorWalkState :: u32 where "kActorWalkState = 325"
definition kContactLockSlot :: u32 where "kContactLockSlot = 152"
definition collision_resolve_kContactKindSlot :: u32 where "collision_resolve_kContactKindSlot = 595"
definition kContactKindUndersideBump :: u32 where "kContactKindUndersideBump = 4"
definition kClassifyFrameBytes :: u32 where "kClassifyFrameBytes = 56"
definition kRaBodyDist :: u32 where "kRaBodyDist = 0x8001F48C"
definition kRaBodyContactAngle :: u32 where "kRaBodyContactAngle = 0x8001F500"
definition kNoContact :: u32 where "kNoContact = 0xFFFFFFFF"
definition kAboveResolveInXz :: u32 where "kAboveResolveInXz = 0"
definition kAboveResolveInY :: u32 where "kAboveResolveInY = 1"
definition kBelowResolveInXz :: u32 where "kBelowResolveInXz = 2"
definition kBelowResolveInY :: u32 where "kBelowResolveInY = 3"
definition kActorContactFlags :: u32 where "kActorContactFlags = 191"
definition kContactFlagRefusesTop :: u32 where "kContactFlagRefusesTop = 0x01"
definition kContactDistSlot :: u32 where "kContactDistSlot = 140"
definition kPolicyFrameBytes :: u32 where "kPolicyFrameBytes = 56"
definition kRaPairDist :: u32 where "kRaPairDist = 0x80023A8C"
definition kRaPairContactAngle :: u32 where "kRaPairContactAngle = 0x80023B58"
definition kRaPairPushCos :: u32 where "kRaPairPushCos = 0x80023B8C"
definition kRaPairPushSin :: u32 where "kRaPairPushSin = 0x80023BB0"
definition kRaPairFacingCmp :: u32 where "kRaPairFacingCmp = 0x80023C08"
definition kPolicyTable :: u32 where "kPolicyTable = 0x80010180"
definition kPolicyCount :: u32 where "kPolicyCount = 5"
definition kPolicySnapToNearerFace :: u32 where "kPolicySnapToNearerFace = 0x80023C44"
definition kPolicyRestOnTopUnlessRising :: u32 where "kPolicyRestOnTopUnlessRising = 0x80023C5C"
definition kPolicySnapIntoApproachedFace :: u32 where "kPolicySnapIntoApproachedFace = 0x80023C94"
definition kPolicyRestOnTopAlways :: u32 where "kPolicyRestOnTopAlways = 0x80023C6C"
definition kPolicyRestOnTopUnlessFlagged :: u32 where "kPolicyRestOnTopUnlessFlagged = 0x80023CE0"
definition kPairPushedOutInXz :: u32 where "kPairPushedOutInXz = 0"

section \<open>\<open>game/world/collision_resolve.cpp\<close>\<close>

definition rec_base :: "'c core_ops \<Rightarrow> u32 \<Rightarrow> ('c, u32) state" where
  "rec_base K reg1 = reg K (unat reg1)"

definition rec_u8_at :: "'c core_ops \<Rightarrow> u32 \<Rightarrow> u32 \<Rightarrow> ('c, u32)
    state" where
  "rec_u8_at K reg1 field1 = do {
     v1 \<leftarrow> rec_base K reg1;
     r8 K (v1 + field1)
   }"

definition rec_u16_at :: "'c core_ops \<Rightarrow> u32 \<Rightarrow> u32 \<Rightarrow> ('c, u32)
    state" where
  "rec_u16_at K reg1 field1 = do {
     v1 \<leftarrow> rec_base K reg1;
     r16 K (v1 + field1)
   }"

definition rec_s16_at :: "'c core_ops \<Rightarrow> u32 \<Rightarrow> u32 \<Rightarrow> ('c, u32)
    state" where
  "rec_s16_at K reg1 field1 = do {
     v1 \<leftarrow> rec_base K reg1;
     v2 \<leftarrow> r16 K (v1 + field1);
     State_Monad.return (as_s16 v2)
   }"

definition rec_u32 :: "'c core_ops \<Rightarrow> u32 \<Rightarrow> u32 \<Rightarrow> ('c, u32)
    state" where
  "rec_u32 K reg1 field1 = do {
     v1 \<leftarrow> rec_base K reg1;
     r32 K (v1 + field1)
   }"

definition collision_resolve_cylinder_resolve_l382 :: "'c core_ops \<Rightarrow> u32 \<Rightarrow>
    u32 \<Rightarrow> ('c, unit) state" where
  "collision_resolve_cylinder_resolve_l382 K deltaY restOffsetOnTop = do {
     let bandProbe = (deltaY + restOffsetOnTop) AND 0xFFFF;
     v49 \<leftarrow> rec_s16_at K 17 kActorExtentHi;
     v50 \<leftarrow> rec_s16_at K 22 kOtherExtentHi;
     let bandSpan = v49 + v50;
     (if bandSpan <s bandProbe then setr K 2 kNoCollision
      else do {
        setr K 16 restOffsetOnTop;
        setr K 18 deltaY;
        setr K 20 restOffsetOnTop;
        (if as_s16 deltaY <s 0 then do {
          setr K 18 (0 - deltaY);
          setr K 16 (0 - restOffsetOnTop)
        }
         else do {
           v51 \<leftarrow> rec_u16_at K 17 kActorExtentLo;
           v52 \<leftarrow> rec_u16_at K 22 kOtherExtentHi;
           v53 \<leftarrow> rec_u16_at K 22 kOtherExtentLo;
           setr K 16 (v51 + (v52 - v53));
           r16_54 \<leftarrow> reg K 16;
           setr K 20 r16_54
         });
        r19_55 \<leftarrow> reg K 19;
        let contactDz = as_s16 r19_55;
        setr K 4 (- contactDz);
        r29_56 \<leftarrow> reg K 29;
        v57 \<leftarrow> r16 K (r29_56 + kLocalDeltaX);
        setr K 5 (as_s16 v57);
        _ \<leftarrow> dispatch_jal K 0x80085690 kRaContactAngle [];
        setr K 19 kScratchpadBase;
        r19_58 \<leftarrow> reg K 19;
        r2_59 \<leftarrow> reg K 2;
        w32 K (r19_58 + kContactAngleSlot) r2_59;
        v60 \<leftarrow> rec_s16_at K 17 kActorHeightHi;
        v61 \<leftarrow> rec_s16_at K 17 kActorHeightLo;
        v62 \<leftarrow> rec_s16_at K 22 kOtherRadius;
        r21_63 \<leftarrow> reg K 21;
        let xzPenetration = v60 - v61 + v62 - (as_s16 r21_63);
        r20_64 \<leftarrow> reg K 20;
        r18_65 \<leftarrow> reg K 18;
        let yPenetration = as_s16 r20_64 - (as_s16 r18_65);
        (if xzPenetration <s yPenetration then do {
          v66 \<leftarrow> rec_u8_at K 17 kActorType;
          only_if (v66 = kActorTypeTracksFacing) (do {
            r19_67 \<leftarrow> reg K 19;
            v68 \<leftarrow> r16 K (r19_67 + kContactAngleSlot);
            setr K 4 (as_s16 v68);
            v69 \<leftarrow> rec_s16_at K 17 kActorFacingRef;
            setr K 5 v69;
            setr K 6 1;
            _ \<leftarrow> dispatch_jal K 0x80077768 kRaFacingCmp [];
            v70 \<leftarrow> rec_base K 17;
            r2_71 \<leftarrow> reg K 2;
            w8 K (v70 + kActorFacing) (r2_71 + 2)
          });
          v72 \<leftarrow> rec_s16_at K 17 kActorHeightLo;
          v73 \<leftarrow> rec_s16_at K 22 kOtherRadius;
          let contactRadius = v72 + v73;
          r19_74 \<leftarrow> reg K 19;
          v75 \<leftarrow> r32 K (r19_74 + kContactAngleSlot);
          setr K 4 v75;
          _ \<leftarrow> dispatch_jal K 0x80083F50 kRaPushCos [];
          r2_76 \<leftarrow> reg K 2;
          v77 \<leftarrow> guest_multiply K r2_76 contactRadius;
          r19_78 \<leftarrow> reg K 19;
          v79 \<leftarrow> r32 K (r19_78 + kContactAngleSlot);
          setr K 4 v79;
          r33_80 \<leftarrow> reg K 33;
          setr K 16 (sar 12 r33_80);
          _ \<leftarrow> dispatch_jal K 0x80083E80 kRaPushSin [];
          r2_81 \<leftarrow> reg K 2;
          v82 \<leftarrow> guest_multiply K r2_81 contactRadius;
          r33_83 \<leftarrow> reg K 33;
          let contactOffsetZ = sar 12 r33_83;
          r29_84 \<leftarrow> reg K 29;
          undoOffsetX \<leftarrow> r16 K (r29_84 + kLocalSampleOffsetX);
          v86 \<leftarrow> rec_base K 17;
          v87 \<leftarrow> rec_u16_at K 30 kAnchorX;
          r16_88 \<leftarrow> reg K 16;
          w16 K (v86 + kActorX) (v87 + r16_88 - undoOffsetX);
          r29_89 \<leftarrow> reg K 29;
          undoOffsetZ \<leftarrow> r16 K (r29_89 + kLocalSampleOffsetZ);
          v91 \<leftarrow> rec_base K 17;
          v92 \<leftarrow> rec_u16_at K 30 kAnchorZ;
          w16 K (v91 + kActorZ) (v92 - contactOffsetZ - undoOffsetZ);
          setr K 2 kPushedOutInXz
        }
         else do {
           r16_93 \<leftarrow> reg K 16;
           let snap = as_s16 r16_93;
           r23_94 \<leftarrow> reg K 23;
           let biasOut = as_s16 r23_94;
           (if 0 <s snap then do {
             v95 \<leftarrow> rec_base K 17;
             v96 \<leftarrow> rec_u32 K 30 kAnchorY;
             w32 K (v95 + kActorY32) (shl (v96 + snap - biasOut) 16);
             setr K 2 kSnappedInY
           }
            else do {
              v97 \<leftarrow> rec_base K 17;
              w8 K (v97 + kActorLanded) 1;
              v98 \<leftarrow> rec_base K 17;
              v99 \<leftarrow> rec_u32 K 30 kAnchorY;
              w32 K (v98 + kActorY32) (shl (v99 + snap - biasOut) 16);
              setr K 2 kLandedOnTop
            })
         })
      })
   }"

definition collision_resolve_cylinder_resolve :: "'c core_ops \<Rightarrow> ('c, unit) state"
    where
  "collision_resolve_cylinder_resolve K = do {
     actorArg \<leftarrow> reg K 4;
     otherArg \<leftarrow> reg K 5;
     anchorArg \<leftarrow> reg K 6;
     with_frame K kResolveFrameBytes [(17, 44), (22, 64), (30, 72), (31, 76), (23, 68), (21, 60),
         (20, 56), (19, 52), (18, 48), (16, 40)] (do {
       setr K 17 actorArg;
       setr K 22 otherArg;
       setr K 30 anchorArg;
       r7_4 \<leftarrow> reg K 7;
       setr K 7 (r7_4 AND 1);
       r7_5 \<leftarrow> reg K 7;
       let sampleAtFacingOffset = r7_5 \<noteq> 0;
       (if sampleAtFacingOffset then do {
         v6 \<leftarrow> rec_s16_at K 17 kActorAngle;
         setr K 4 v6;
         _ \<leftarrow> dispatch_jal K 0x80083F50 kRaSampleCos [];
         r2_7 \<leftarrow> reg K 2;
         v8 \<leftarrow> rec_s16_at K 17 kActorSampleRadius;
         v9 \<leftarrow> guest_multiply K r2_7 v8;
         v10 \<leftarrow> rec_s16_at K 17 kActorAngle;
         setr K 4 v10;
         r33_11 \<leftarrow> reg K 33;
         setr K 16 (sar 12 r33_11);
         _ \<leftarrow> dispatch_jal K 0x80083E80 kRaSampleSin [];
         r2_12 \<leftarrow> reg K 2;
         v13 \<leftarrow> rec_s16_at K 17 kActorSampleRadius;
         v14 \<leftarrow> guest_multiply K r2_12 v13;
         sinTimesRadius \<leftarrow> reg K 33;
         v16 \<leftarrow> rec_u16_at K 17 kActorX;
         r16_17 \<leftarrow> reg K 16;
         v18 \<leftarrow> rec_u16_at K 30 kAnchorX;
         let dx = v16 + r16_17 - v18;
         v19 \<leftarrow> guest_multiply K (as_s16 dx) (as_s16 dx);
         deltaXSq \<leftarrow> reg K 33;
         let sampleOffsetZ = sar 12 sinTimesRadius;
         v21 \<leftarrow> rec_u16_at K 17 kActorZ;
         v22 \<leftarrow> rec_u16_at K 30 kAnchorZ;
         let dz = v21 - sampleOffsetZ - v22;
         setr K 6 deltaXSq;
         v23 \<leftarrow> guest_multiply K (as_s16 dz) (as_s16 dz);
         r29_24 \<leftarrow> reg K 29;
         r16_25 \<leftarrow> reg K 16;
         w16 K (r29_24 + kLocalSampleOffsetX) r16_25;
         w16 K (r29_24 + kLocalDeltaX) dx;
         w16 K (r29_24 + kLocalSampleOffsetZ) sampleOffsetZ;
         setr K 19 dz;
         setr K 5 sampleOffsetZ;
         r33_26 \<leftarrow> reg K 33;
         setr K 4 (deltaXSq + r33_26);
         _ \<leftarrow> dispatch_jal K 0x80084080 kRaSampleDist [];
         r2_27 \<leftarrow> reg K 2;
         setr K 21 r2_27;
         v28 \<leftarrow> rec_u16_at K 17 kActorYBias;
         setr K 23 v28
       }
        else do {
          v29 \<leftarrow> rec_u16_at K 17 kActorX;
          v30 \<leftarrow> rec_u16_at K 30 kAnchorX;
          let dx = v29 - v30;
          v31 \<leftarrow> guest_multiply K (as_s16 dx) (as_s16 dx);
          deltaXSq \<leftarrow> reg K 33;
          v33 \<leftarrow> rec_u16_at K 17 kActorZ;
          v34 \<leftarrow> rec_u16_at K 30 kAnchorZ;
          let dz = v33 - v34;
          v35 \<leftarrow> guest_multiply K (as_s16 dz) (as_s16 dz);
          setr K 23 0;
          r29_36 \<leftarrow> reg K 29;
          w16 K (r29_36 + kLocalSampleOffsetX) 0;
          w16 K (r29_36 + kLocalSampleOffsetZ) 0;
          w16 K (r29_36 + kLocalDeltaX) dx;
          setr K 19 dz;
          setr K 5 deltaXSq;
          r33_37 \<leftarrow> reg K 33;
          setr K 4 (deltaXSq + r33_37);
          _ \<leftarrow> dispatch_jal K 0x80084080 kRaRawDist [];
          r2_38 \<leftarrow> reg K 2;
          setr K 21 r2_38
        });
       v39 \<leftarrow> rec_s16_at K 17 kActorHeightHi;
       v40 \<leftarrow> rec_s16_at K 17 kActorHeightLo;
       v41 \<leftarrow> rec_s16_at K 22 kOtherRadius;
       let xzReach = v39 - v40 + v41;
       r21_42 \<leftarrow> reg K 21;
       (if xzReach <s (r21_42 AND 0xFFFF) then setr K 2 kNoCollision
        else do {
          v43 \<leftarrow> rec_u16_at K 17 kActorY;
          r23_44 \<leftarrow> reg K 23;
          v45 \<leftarrow> rec_u16_at K 30 kAnchorY;
          let deltaY = v43 + r23_44 - v45;
          v46 \<leftarrow> rec_u16_at K 22 kOtherExtentLo;
          v47 \<leftarrow> rec_u16_at K 17 kActorExtentHi;
          v48 \<leftarrow> rec_u16_at K 17 kActorExtentLo;
          let restOffsetOnTop = v46 + (v47 - v48);
          collision_resolve_cylinder_resolve_l382 K deltaY restOffsetOnTop
        })
     })
   }"

definition collision_resolve_land_on_object_top :: "'c core_ops \<Rightarrow> ('c, unit) state"
    where
  "collision_resolve_land_on_object_top K = do {
     actorArg \<leftarrow> reg K 4;
     otherArg \<leftarrow> reg K 5;
     with_frame K kLandFrameBytes [(16, 16), (31, 24), (17, 20)] (do {
       setr K 16 actorArg;
       setr K 17 otherArg;
       v3 \<leftarrow> rec_s16_at K 16 kActorVelY;
       (if v3 <s 0 then setr K 2 kLandRejected
        else do {
          v4 \<leftarrow> rec_u16_at K 16 kActorX;
          v5 \<leftarrow> rec_u16_at K 17 kOtherX;
          let dx = v4 - v5;
          v6 \<leftarrow> guest_multiply K (as_s16 dx) (as_s16 dx);
          deltaXSq \<leftarrow> reg K 33;
          v8 \<leftarrow> rec_u16_at K 16 kActorZ;
          v9 \<leftarrow> rec_u16_at K 17 kOtherZ;
          let dz = v8 - v9;
          v10 \<leftarrow> guest_multiply K (as_s16 dz) (as_s16 dz);
          r33_11 \<leftarrow> reg K 33;
          setr K 4 (deltaXSq + r33_11);
          _ \<leftarrow> dispatch_jal K 0x80084080 kRaLandDist [];
          r2_12 \<leftarrow> reg K 2;
          let xzDistance = r2_12 AND 0xFFFF;
          v13 \<leftarrow> rec_s16_at K 16 kActorHeightLo;
          v14 \<leftarrow> rec_s16_at K 17 kOtherRadius;
          let xzReach = v13 + v14;
          (if xzReach <s xzDistance then setr K 2 kLandRejected
           else do {
             v15 \<leftarrow> rec_u16_at K 17 kOtherExtentLo;
             v16 \<leftarrow> rec_u16_at K 16 kActorExtentHi;
             v17 \<leftarrow> rec_u16_at K 16 kActorExtentLo;
             let restOffset = v15 + v16 - v17;
             v18 \<leftarrow> rec_u16_at K 16 kActorY;
             v19 \<leftarrow> rec_u16_at K 17 kOtherY;
             let bandProbe = (v18 - v19 + restOffset) AND 0xFFFF;
             v20 \<leftarrow> rec_s16_at K 16 kActorExtentHi;
             v21 \<leftarrow> rec_s16_at K 17 kOtherExtentHi;
             let bandSpan = v20 + v21;
             (if bandSpan <s bandProbe then setr K 2 kLandRejected
              else do {
                v22 \<leftarrow> rec_base K 16;
                v23 \<leftarrow> rec_u16_at K 17 kOtherY;
                w16 K (v22 + kActorY) (v23 - restOffset);
                v24 \<leftarrow> rec_base K 16;
                w8 K (v24 + kActorLanded) 1;
                setr K 2 kLandedOnTop
              })
           })
        })
     })
   }"

definition collision_resolve_classify_body_contact :: "'c core_ops \<Rightarrow> ('c, unit) state"
    where
  "collision_resolve_classify_body_contact K = do {
     actorArg \<leftarrow> reg K 4;
     otherArg \<leftarrow> reg K 5;
     suppressSnapArg \<leftarrow> reg K 6;
     with_frame K kClassifyFrameBytes [(17, 20), (20, 32), (31, 52), (30, 48), (23, 44), (22, 40),
         (21, 36), (19, 28), (18, 24), (16, 16)] (do {
       setr K 17 actorArg;
       setr K 20 otherArg;
       setr K 30 suppressSnapArg;
       v4 \<leftarrow> rec_u16_at K 17 kActorX;
       v5 \<leftarrow> rec_u16_at K 20 kOtherX;
       setr K 19 (as_s16 (v4 - v5));
       r19_6 \<leftarrow> reg K 19;
       v7 \<leftarrow> guest_multiply K r19_6 r19_6;
       deltaXSq \<leftarrow> reg K 33;
       v9 \<leftarrow> rec_u16_at K 17 kActorZ;
       v10 \<leftarrow> rec_u16_at K 20 kOtherZ;
       setr K 18 (as_s16 (v9 - v10));
       r18_11 \<leftarrow> reg K 18;
       v12 \<leftarrow> guest_multiply K r18_11 r18_11;
       r33_13 \<leftarrow> reg K 33;
       setr K 4 (deltaXSq + r33_13);
       _ \<leftarrow> dispatch_jal K 0x80084080 kRaBodyDist [];
       r2_14 \<leftarrow> reg K 2;
       setr K 22 r2_14;
       v15 \<leftarrow> rec_s16_at K 17 kActorHeightLo;
       v16 \<leftarrow> rec_s16_at K 20 kOtherRadius;
       let xzReach = v15 + v16;
       r22_17 \<leftarrow> reg K 22;
       (if xzReach <s (r22_17 AND 0xFFFF) then setr K 2 kNoContact
        else do {
          v18 \<leftarrow> rec_u16_at K 17 kActorY;
          v19 \<leftarrow> rec_u16_at K 20 kOtherY;
          setr K 16 (v18 - v19);
          v20 \<leftarrow> rec_u16_at K 20 kOtherExtentLo;
          v21 \<leftarrow> rec_u16_at K 17 kActorExtentLo;
          let restOffsetUnder = v20 + v21;
          setr K 21 restOffsetUnder;
          r16_22 \<leftarrow> reg K 16;
          let bandProbe = (r16_22 + restOffsetUnder) AND 0xFFFF;
          v23 \<leftarrow> rec_s16_at K 17 kActorExtentHi;
          v24 \<leftarrow> rec_s16_at K 20 kOtherExtentHi;
          let bandSpan = v23 + v24;
          r16_25 \<leftarrow> reg K 16;
          setr K 23 r16_25;
          (if bandSpan <s bandProbe then setr K 2 kNoContact
           else do {
             r18_26 \<leftarrow> reg K 18;
             setr K 4 (0 - r18_26);
             r19_27 \<leftarrow> reg K 19;
             setr K 5 r19_27;
             _ \<leftarrow> dispatch_jal K 0x80085690 kRaBodyContactAngle [];
             r2_28 \<leftarrow> reg K 2;
             w32 K (kScratchpadBase + kContactAngleSlot) r2_28;
             v29 \<leftarrow> rec_u16_at K 17 kActorHeightLo;
             v30 \<leftarrow> rec_u16_at K 20 kOtherRadius;
             let radiusSum = v29 + v30;
             r22_31 \<leftarrow> reg K 22;
             let xzPenetration = radiusSum - r22_31;
             r16_32 \<leftarrow> reg K 16;
             let deltaYs16 = as_s16 r16_32;
             (if deltaYs16 <s 0 then setr K 23 (0 - r16_32)
              else do {
                v33 \<leftarrow> rec_u16_at K 20 kOtherExtentHi;
                v34 \<leftarrow> rec_u16_at K 20 kOtherExtentLo;
                v35 \<leftarrow> rec_u16_at K 17 kActorExtentHi;
                v36 \<leftarrow> rec_u16_at K 17 kActorExtentLo;
                setr K 21 (v33 - v34 + (v35 - v36))
              });
             actorExtentLo \<leftarrow> rec_u16_at K 17 kActorExtentLo;
             let extentLoSign = shr (shl actorExtentLo 16) 31;
             let halfExtentLo = sar 1 (as_s16 actorExtentLo + extentLoSign);
             r21_38 \<leftarrow> reg K 21;
             r23_39 \<leftarrow> reg K 23;
             let yPenetration = r21_38 - r23_39;
             let xzIsShorterWayOut = as_s16 xzPenetration <s as_s16 yPenetration;
             (if deltaYs16 <s - halfExtentLo then setr K 2 (if xzIsShorterWayOut then
                 kAboveResolveInXz else kAboveResolveInY)
              else if xzIsShorterWayOut then setr K 2 kBelowResolveInXz
               else do {
                 setr K 2 kBelowResolveInY;
                 v40 \<leftarrow> rec_u16_at K 17 kActorStateFlags;
                 (if (v40 AND kActorPausedBit) \<noteq> 0 then State_Monad.return ()
                  else do {
                    v41 \<leftarrow> r32 K (kScratchpadBase + kContactLockSlot);
                    (if v41 \<noteq> 0 then State_Monad.return ()
                     else do {
                       r30_42 \<leftarrow> reg K 30;
                       (if r30_42 \<noteq> 0 then State_Monad.return ()
                        else do {
                          w8 K (kScratchpadBase + collision_resolve_kContactKindSlot)
                              kContactKindUndersideBump;
                          v43 \<leftarrow> rec_base K 17;
                          v44 \<leftarrow> rec_u16_at K 20 kOtherY;
                          v45 \<leftarrow> rec_u16_at K 20 kOtherExtentHi;
                          v46 \<leftarrow> rec_u16_at K 20 kOtherExtentLo;
                          v47 \<leftarrow> rec_u16_at K 17 kActorExtentHi;
                          w16 K (v43 + kActorY) (v44 + (v45 - v46) + (v47 - actorExtentLo));
                          v48 \<leftarrow> rec_u8_at K 17 kActorWalkState;
                          (if v48 \<noteq> 1 then State_Monad.return ()
                           else do {
                             v49 \<leftarrow> rec_s16_at K 17 kActorVelY;
                             (if 0 \<le>s v49 then State_Monad.return ()
                              else do {
                                v50 \<leftarrow> rec_base K 17;
                                w16 K (v50 + kActorVelY) 0
                              })
                           })
                        })
                     })
                  })
               })
           })
        })
     })
   }"

definition collision_resolve_resolve_by_contact_policy_l890 :: "'c core_ops \<Rightarrow> u32
    \<Rightarrow> u32 \<Rightarrow> ('c, unit) state" where
  "collision_resolve_resolve_by_contact_policy_l890 K contactHeading restOffsetOnTop = do {
     r21_33 \<leftarrow> reg K 21;
     let xzPenetrationShifted = shl r21_33 16;
     r16_34 \<leftarrow> reg K 16;
     setr K 16 (shl r16_34 16);
     r16_35 \<leftarrow> reg K 16;
     let xzIsShorterWayOut = xzPenetrationShifted <s r16_35;
     r20_36 \<leftarrow> reg K 20;
     w32 K (r20_36 + kContactAngleSlot) contactHeading;
     (if xzIsShorterWayOut then do {
       _ \<leftarrow> dispatch_jal K 0x80083F50 kRaPairPushCos [];
       v37 \<leftarrow> rec_s16_at K 18 kActorHeightLo;
       v38 \<leftarrow> rec_s16_at K 19 kOtherRadius;
       let contactRadius = v37 + v38;
       r2_39 \<leftarrow> reg K 2;
       v40 \<leftarrow> guest_multiply K r2_39 contactRadius;
       r20_41 \<leftarrow> reg K 20;
       v42 \<leftarrow> r32 K (r20_41 + kContactAngleSlot);
       setr K 4 v42;
       r33_43 \<leftarrow> reg K 33;
       setr K 16 (sar 12 r33_43);
       _ \<leftarrow> dispatch_jal K 0x80083E80 kRaPairPushSin [];
       r2_44 \<leftarrow> reg K 2;
       v45 \<leftarrow> guest_multiply K r2_44 contactRadius;
       v46 \<leftarrow> rec_base K 18;
       v47 \<leftarrow> rec_u16_at K 19 kOtherX;
       r16_48 \<leftarrow> reg K 16;
       w16 K (v46 + kActorX) (v47 + r16_48);
       r33_49 \<leftarrow> reg K 33;
       let contactOffsetZ = sar 12 r33_49;
       v50 \<leftarrow> rec_base K 18;
       v51 \<leftarrow> rec_u16_at K 19 kOtherZ;
       w16 K (v50 + kActorZ) (v51 - contactOffsetZ);
       v52 \<leftarrow> rec_u8_at K 18 kActorType;
       only_if (v52 = kActorTypeTracksFacing) (do {
         r20_53 \<leftarrow> reg K 20;
         v54 \<leftarrow> r16 K (r20_53 + kContactAngleSlot);
         setr K 4 (as_s16 v54);
         v55 \<leftarrow> rec_s16_at K 18 kActorFacingRef;
         setr K 5 v55;
         setr K 6 1;
         _ \<leftarrow> dispatch_jal K 0x80077768 kRaPairFacingCmp [];
         v56 \<leftarrow> rec_base K 18;
         r2_57 \<leftarrow> reg K 2;
         w8 K (v56 + kActorFacing) (r2_57 + 2)
       });
       setr K 2 kPairPushedOutInXz
     }
      else do {
        let snapByVerticalOffset = (\<lambda>_. do {
          v58 \<leftarrow> rec_base K 18;
          v59 \<leftarrow> rec_u16_at K 19 kOtherY;
          r17_60 \<leftarrow> reg K 17;
          w16 K (v58 + kActorY) (v59 + r17_60)
        });
        r17_61 \<leftarrow> reg K 17;
        let pushedOutUnderneath = 0 <s as_s16 r17_61;
        r30_62 \<leftarrow> reg K 30;
        let policyIndex = r30_62 AND 0xF;
        (if kPolicyCount \<le> policyIndex then setr K 2 0
         else do {
           v63 \<leftarrow> r32 K (kPolicyTable + policyIndex * 4);
           (if v63 = kPolicySnapToNearerFace then do {
             snapByVerticalOffset () ;
             setr K 2 (if pushedOutUnderneath then kSnappedInY else kLandedOnTop)
           }
            else if v63 = kPolicyRestOnTopUnlessRising then do {
              v64 \<leftarrow> rec_s16_at K 18 kActorVelY;
              (if v64 <s 0 then setr K 2 kNoContact
               else do {
                 v65 \<leftarrow> rec_base K 18;
                 v66 \<leftarrow> rec_u16_at K 19 kOtherY;
                 w16 K (v65 + kActorY) (v66 - restOffsetOnTop);
                 setr K 2 kLandedOnTop
               })
            }
             else if v63 = kPolicyRestOnTopAlways then do {
               v67 \<leftarrow> rec_base K 18;
               v68 \<leftarrow> rec_u16_at K 19 kOtherY;
               w16 K (v67 + kActorY) (v68 - restOffsetOnTop);
               setr K 2 kLandedOnTop
             }
              else if v63 = kPolicySnapIntoApproachedFace then (if pushedOutUnderneath then do {
                v69 \<leftarrow> rec_s16_at K 18 kActorVelY;
                (if 0 \<le>s v69 then setr K 2 kNoContact
                 else do { snapByVerticalOffset () ; setr K 2 kSnappedInY })
              }
               else do {
                 v70 \<leftarrow> rec_s16_at K 18 kActorVelY;
                 (if v70 <s 0 then setr K 2 kNoContact
                  else do { snapByVerticalOffset () ; setr K 2 kLandedOnTop })
               })
               else if v63 = kPolicyRestOnTopUnlessFlagged then do {
                 v71 \<leftarrow> rec_u8_at K 18 kActorContactFlags;
                 (if (v71 AND kContactFlagRefusesTop) \<noteq> 0 then setr K 2 kNoContact
                  else do {
                    v72 \<leftarrow> rec_base K 18;
                    v73 \<leftarrow> rec_u16_at K 19 kOtherY;
                    w16 K (v72 + kActorY) (v73 - restOffsetOnTop);
                    setr K 2 kLandedOnTop
                  })
               }
                else do {
                  v74 \<leftarrow> r32 K (kPolicyTable + policyIndex * 4);
                  call_guest K v74
                })
         })
      })
   }"

definition collision_resolve_resolve_by_contact_policy :: "'c core_ops \<Rightarrow> ('c, unit)
    state" where
  "collision_resolve_resolve_by_contact_policy K = do {
     actorArg \<leftarrow> reg K 4;
     otherArg \<leftarrow> reg K 5;
     policyArg \<leftarrow> reg K 6;
     with_frame K kPolicyFrameBytes [(18, 24), (19, 28), (31, 52), (30, 48), (23, 44), (22, 40),
         (21, 36), (20, 32), (17, 20), (16, 16)] (do {
       setr K 18 actorArg;
       setr K 19 otherArg;
       v4 \<leftarrow> rec_u16_at K 18 kActorX;
       v5 \<leftarrow> rec_u16_at K 19 kOtherX;
       let dx = v4 - v5;
       v6 \<leftarrow> guest_multiply K (as_s16 dx) (as_s16 dx);
       deltaXSq \<leftarrow> reg K 33;
       v8 \<leftarrow> rec_u16_at K 18 kActorZ;
       v9 \<leftarrow> rec_u16_at K 19 kOtherZ;
       let dz = v8 - v9;
       v10 \<leftarrow> guest_multiply K (as_s16 dz) (as_s16 dz);
       setr K 30 policyArg;
       setr K 23 dx;
       setr K 20 dz;
       r33_11 \<leftarrow> reg K 33;
       setr K 4 (deltaXSq + r33_11);
       _ \<leftarrow> dispatch_jal K 0x80084080 kRaPairDist [];
       distance \<leftarrow> reg K 2;
       setr K 22 distance;
       v13 \<leftarrow> rec_u16_at K 18 kActorHeightLo;
       v14 \<leftarrow> rec_u16_at K 19 kOtherRadius;
       let radiusSumUnsigned = v13 + v14;
       v15 \<leftarrow> rec_s16_at K 18 kActorHeightLo;
       v16 \<leftarrow> rec_s16_at K 19 kOtherRadius;
       let xzReach = v15 + v16;
       (if xzReach <s (distance AND 0xFFFF) then setr K 2 kNoContact
        else do {
          v17 \<leftarrow> rec_u16_at K 18 kActorY;
          v18 \<leftarrow> rec_u16_at K 19 kOtherY;
          let deltaY = v17 - v18;
          v19 \<leftarrow> rec_u16_at K 19 kOtherExtentLo;
          v20 \<leftarrow> rec_u16_at K 18 kActorExtentHi;
          v21 \<leftarrow> rec_u16_at K 18 kActorExtentLo;
          let restOffsetOnTop = v19 + v20 - v21;
          let bandProbe = (deltaY + restOffsetOnTop) AND 0xFFFF;
          v22 \<leftarrow> rec_s16_at K 18 kActorExtentHi;
          v23 \<leftarrow> rec_s16_at K 19 kOtherExtentHi;
          let bandSpan = v22 + v23;
          (if bandSpan <s bandProbe then setr K 2 kNoContact
           else do {
             setr K 21 (radiusSumUnsigned - distance);
             v24 \<leftarrow> rec_u16_at K 19 kOtherExtentHi;
             v25 \<leftarrow> rec_u16_at K 19 kOtherExtentLo;
             let otherBandThickness = v24 - v25;
             verticalGap \<leftarrow> (if as_s16 deltaY <s 0 then do {
               let verticalGap = 0 - deltaY;
               setr K 16 restOffsetOnTop;
               setr K 17 (0 - restOffsetOnTop);
               State_Monad.return verticalGap
             }
              else do {
                v26 \<leftarrow> rec_u16_at K 18 kActorExtentLo;
                let restOffsetUnderneath = v26 + otherBandThickness;
                let verticalGap = deltaY;
                setr K 16 restOffsetUnderneath;
                setr K 17 restOffsetUnderneath;
                State_Monad.return verticalGap
              });
             r20_27 \<leftarrow> reg K 20;
             setr K 4 (0 - (as_s16 r20_27));
             r23_28 \<leftarrow> reg K 23;
             setr K 5 (as_s16 r23_28);
             r16_29 \<leftarrow> reg K 16;
             setr K 16 (r16_29 - verticalGap);
             _ \<leftarrow> dispatch_jal K 0x80085690 kRaPairContactAngle [];
             r2_30 \<leftarrow> reg K 2;
             setr K 4 r2_30;
             contactHeading \<leftarrow> reg K 4;
             setr K 20 kScratchpadBase;
             r22_32 \<leftarrow> reg K 22;
             w32 K (kScratchpadBase + kContactDistSlot) (as_s16 r22_32);
             collision_resolve_resolve_by_contact_policy_l890 K contactHeading restOffsetOnTop
           })
        })
     })
   }"

end
