(* ===== verification/DemoScene.thy ===== *)
theory DemoScene
  imports WorldTables
begin

text \<open>
  The demo scene's menu and its phases (\<open>game/scene/demo.cpp\<close>).
\<close>

section \<open>Layout\<close>

definition SM_PTR :: u32 where "SM_PTR = 0x1F800138"
definition TAIL_CF2C :: u32 where "TAIL_CF2C = 0x80106650"
definition TAIL_REND :: u32 where "TAIL_REND = 0x80106658"
definition TAIL_NONE :: u32 where "TAIL_NONE = 0x80106670"
definition S7_PHASE0_BODY :: u32 where "S7_PHASE0_BODY = 0x80106C74"
definition S7_PHASE1_BODY :: u32 where "S7_PHASE1_BODY = 0x80106D4C"

section \<open>\<open>game/scene/demo.cpp\<close>\<close>

definition demo_log :: "'c core_ops \<Rightarrow> ('c, unit) state" where
  "demo_log K = do {
     sm \<leftarrow> r32 K SM_PTR;
     State_Monad.return ()
   }"

definition demo_s1 :: "'c core_ops \<Rightarrow> ('c, unit) state" where
  "demo_s1 K = do {
     demo_log K;
     setr K 4 0;
     call_guest K 0x80106F80;
     v0 \<leftarrow> reg K 2;
     sm \<leftarrow> r32 K SM_PTR;
     (if v0 \<noteq> 0 then do {
       cur \<leftarrow> r16 K (sm + 0x48);
       w16 K (sm + 0x4A) 0;
       w16 K (sm + 0x48) (cur + 1)
     }
      else do {
        v4 \<leftarrow> r16 K 0x800E7E68;
        only_if (v4 \<noteq> 0) (w8 K 0x1F80019D 1)
      });
     request_guest_continuation K TAIL_NONE
   }"

definition demo_s2 :: "'c core_ops \<Rightarrow> ('c, unit) state" where
  "demo_s2 K = do {
     demo_log K;
     call_guest K 0x8010696C;
     v0 \<leftarrow> reg K 2;
     sm \<leftarrow> r32 K SM_PTR;
     (if v0 = 1 then do {
       w16 K (sm + 0x48) 7;
       w16 K (sm + 0x4A) 0;
       w16 K (sm + 0x4C) 0;
       request_guest_continuation K TAIL_REND
     }
      else if v0 = 2 then do {
        v3 \<leftarrow> r8 K (sm + 0x68);
        (if v3 = 0 then do { w16 K (sm + 0x48) 3; w8 K (sm + 0x68) 2 }
         else do {
           w8 K (sm + 0x68) 0;
           w16 K (sm + 0x48) 4;
           w16 K (sm + 0x50) 0;
           w8 K (sm + 0x6B) 0;
           call_guest K 0x8001CF2C;
           w8 K 0x800BF84A 0
         });
        w16 K (sm + 0x4A) 0;
        request_guest_continuation K TAIL_REND
      }
       else request_guest_continuation K TAIL_REND)
   }"

definition demo_s3 :: "'c core_ops \<Rightarrow> ('c, unit) state" where
  "demo_s3 K = do {
     demo_log K;
     call_guest K 0x80106AC4;
     v0 \<leftarrow> reg K 2;
     sm \<leftarrow> r32 K SM_PTR;
     (if v0 = 1 then do { w16 K (sm + 0x48) 7; w16 K (sm + 0x4A) 0; w16 K (sm + 0x4C) 0 }
      else if v0 = 2 then do {
        v3 \<leftarrow> r8 K (sm + 0x68);
        (if v3 = 2 then do { w16 K (sm + 0x48) 5; w8 K (sm + 0x68) 0; w8 K 0x1F800134 0 }
         else do {
           w8 K (sm + 0x68) 0;
           w16 K (sm + 0x48) 6;
           w8 K (sm + 0x6B) 0;
           w16 K (sm + 0x50) 0;
           call_guest K 0x800750D8;
           w8 K 0x800BF808 0
         })
      }
       else only_if (v0 = 3) (do { w16 K (sm + 0x48) 2; w8 K (sm + 0x68) 0 }));
     request_guest_continuation K TAIL_REND
   }"

definition demo_s3_sub_machine :: "'c core_ops \<Rightarrow> ('c, u32) state" where
  "demo_s3_sub_machine K = do {
     savedSp \<leftarrow> reg K 29;
     savedR16 \<leftarrow> reg K 16;
     savedR17 \<leftarrow> reg K 17;
     savedR31 \<leftarrow> reg K 31;
     setr K 29 (savedSp - 32);
     r29_5 \<leftarrow> reg K 29;
     w32 K (r29_5 + 16) savedR16;
     w32 K (r29_5 + 20) savedR17;
     w32 K (r29_5 + 24) savedR31;
     let result1 = (0 :: u32);
     sm \<leftarrow> r32 K SM_PTR;
     let proceed = True;
     v7 \<leftarrow> r16 K (sm + 0x4A);
     proceed \<leftarrow> (if v7 = 0 then do {
       w16 K (sm + 0x4A) 1;
       w16 K (sm + 0x5A) 0x1C2;
       State_Monad.return proceed
     }
      else do {
        v8 \<leftarrow> r16 K (sm + 0x4A);
        State_Monad.return (if v8 \<noteq> 1 then False else proceed)
      });
     result1 \<leftarrow> (if proceed then do {
       setr K 4 0;
       call_guest K 0x80106690;
       setr K 4 1;
       v9 \<leftarrow> r8 K (sm + 0x68);
       setr K 5 (if v9 \<noteq> 2 then 1 else 0);
       setr K 17 0x1F800000;
       call_guest K 0x80106824;
       sm \<leftarrow> r32 K SM_PTR;
       v11 \<leftarrow> r16 K (sm + 0x5A);
       let timer = as_s16 v11;
       w16 K (sm + 0x5A) (timer - 1);
       (if timer = 1 then State_Monad.return (1 :: u32)
        else do {
          edges \<leftarrow> r16 K 0x800E7E68;
          let haveCmp = True;
          (result1, cursor, cmp, haveCmp) \<leftarrow> (if (edges AND 0x20) \<noteq> 0 then do {
            let cursor = (3 :: u32);
            cmp \<leftarrow> r8 K (sm + 0x68);
            State_Monad.return (result1, cursor, cmp, haveCmp)
          }
           else do {
             let cursor = (2 :: u32);
             (result1, cmp, haveCmp) \<leftarrow> (if (edges AND 0x80) \<noteq> 0 then do {
               cmp \<leftarrow> r8 K (sm + 0x68);
               State_Monad.return (result1, cmp, haveCmp)
             }
              else do {
                (result1, haveCmp) \<leftarrow> (if (edges AND 0x4008) \<noteq> 0 then do {
                  sfx_trigger K 0x11 0 0;
                  State_Monad.return ((2 :: u32), False)
                }
                 else if (edges AND 0x2000) \<noteq> 0 then do {
                   sfx_trigger K 0x14 (-9) 0;
                   State_Monad.return ((3 :: u32), False)
                 }
                  else State_Monad.return (result1, False));
                State_Monad.return (result1, (0 :: u32), haveCmp)
              });
             State_Monad.return (result1, cursor, cmp, haveCmp)
           });
          only_if haveCmp (do {
            only_if (cmp \<noteq> cursor) (sfx_trigger K 0x15 0 0);
            w8 K (sm + 0x68) cursor;
            w16 K (sm + 0x4A) 0
          });
          State_Monad.return result1
        })
     }
      else State_Monad.return result1);
     setr K 31 savedR31;
     setr K 17 savedR17;
     setr K 16 savedR16;
     setr K 29 savedSp;
     State_Monad.return result1
   }"

definition demo_s2_sub_machine :: "'c core_ops \<Rightarrow> ('c, u32) state" where
  "demo_s2_sub_machine K = do {
     savedSp \<leftarrow> reg K 29;
     savedR16 \<leftarrow> reg K 16;
     savedR17 \<leftarrow> reg K 17;
     savedR31 \<leftarrow> reg K 31;
     setr K 29 (savedSp - 32);
     r29_5 \<leftarrow> reg K 29;
     w32 K (r29_5 + 16) savedR16;
     w32 K (r29_5 + 20) savedR17;
     w32 K (r29_5 + 24) savedR31;
     let result1 = (0 :: u32);
     sm \<leftarrow> r32 K SM_PTR;
     let proceed = True;
     v7 \<leftarrow> r16 K (sm + 0x4A);
     proceed \<leftarrow> (if v7 = 0 then do {
       w16 K (sm + 0x4A) 1;
       w16 K (sm + 0x5A) 0x1C2;
       State_Monad.return proceed
     }
      else do {
        v8 \<leftarrow> r16 K (sm + 0x4A);
        State_Monad.return (if v8 \<noteq> 1 then False else proceed)
      });
     result1 \<leftarrow> (if proceed then do {
       setr K 4 0;
       setr K 31 0x801069B8;
       call_guest K 0x80106690;
       setr K 4 0;
       v9 \<leftarrow> r8 K (sm + 0x68);
       setr K 5 (if v9 \<noteq> 0 then 1 else 0);
       setr K 16 0x1F800000;
       setr K 31 0x801069E8;
       call_guest K 0x80106824;
       sm \<leftarrow> r32 K SM_PTR;
       v11 \<leftarrow> r16 K (sm + 0x5A);
       let timer = as_s16 v11;
       w16 K (sm + 0x5A) (timer - 1);
       (if timer = 1 then State_Monad.return (1 :: u32)
        else do {
          edges \<leftarrow> r16 K 0x800E7E68;
          r0_13 \<leftarrow> reg K 0;
          setr K 17 (r0_13 + 1);
          (if (edges AND 0x20) \<noteq> 0 then do {
            v14 \<leftarrow> r8 K (sm + 0x68);
            only_if (v14 \<noteq> 1) (do { setr K 31 0x80106AA4; sfx_trigger K 0x15 0 0 });
            w8 K (sm + 0x68) 1;
            w16 K (sm + 0x4A) 0;
            State_Monad.return result1
          }
           else if (edges AND 0x80) \<noteq> 0 then do {
             v15 \<leftarrow> r8 K (sm + 0x68);
             only_if (v15 \<noteq> 0) (do { setr K 31 0x80106A78; sfx_trigger K 0x15 0 0 });
             w8 K (sm + 0x68) 0;
             w16 K (sm + 0x4A) 0;
             State_Monad.return result1
           }
            else if (edges AND 0x4008) \<noteq> 0 then do {
              setr K 31 0x80106A44;
              sfx_trigger K 0x11 0 0;
              State_Monad.return (2 :: u32)
            }
             else State_Monad.return result1)
        })
     }
      else State_Monad.return result1);
     setr K 31 savedR31;
     setr K 17 savedR17;
     setr K 16 savedR16;
     setr K 29 savedSp;
     State_Monad.return result1
   }"

definition ov_demo_s3_sub_machine :: "'c core_ops \<Rightarrow> ('c, unit) state" where
  "ov_demo_s3_sub_machine K = do {
     v1 \<leftarrow> demo_s3_sub_machine K;
     setr K 2 v1
   }"

definition ov_demo_s2_sub_machine :: "'c core_ops \<Rightarrow> ('c, unit) state" where
  "ov_demo_s2_sub_machine K = do {
     v1 \<leftarrow> demo_s2_sub_machine K;
     setr K 2 v1
   }"

definition demo_s6 :: "'c core_ops \<Rightarrow> ('c, unit) state" where
  "demo_s6 K = do {
     demo_log K;
     call_guest K 0x8007B45C;
     sm \<leftarrow> r32 K SM_PTR;
     v2 \<leftarrow> r16 K (sm + 0x50);
     sm \<leftarrow> (if v2 = 3 then do {
       setr K 4 1;
       setr K 5 1;
       setr K 31 0x80106618;
       call_guest K 0x80106824;
       setr K 4 1;
       setr K 31 0x80106620;
       call_guest K 0x80106690;
       r32 K SM_PTR
     }
      else State_Monad.return sm);
     s6b \<leftarrow> r8 K (sm + 0x6B);
     (if s6b = 1 then do {
       w16 K (sm + 0x48) 3;
       w8 K (sm + 0x68) 3;
       request_guest_continuation K TAIL_CF2C
     }
      else if s6b = 2 then do {
        w16 K (sm + 0x48) 3;
        w8 K (sm + 0x68) 2;
        request_guest_continuation K TAIL_CF2C
      }
       else request_guest_continuation K TAIL_REND)
   }"

definition demo_s0 :: "'c core_ops \<Rightarrow> ('c, unit) state" where
  "demo_s0 K = do {
     demo_log K;
     sm \<leftarrow> r32 K SM_PTR;
     w8 K (sm + 0x68) 0;
     cur \<leftarrow> r16 K (sm + 0x48);
     w16 K (sm + 0x48) (cur + 1);
     w16 K (sm + 0x4A) 0;
     setr K 4 0x80108F9C;
     setr K 5 2;
     setr K 6 sm;
     request_guest_continuation K 0x801063E4
   }"

definition demo_s7_phase :: "'c core_ops \<Rightarrow> ('c, unit) state" where
  "demo_s7_phase K = do {
     sm \<leftarrow> r32 K SM_PTR;
     phase \<leftarrow> r16 K (sm + 0x4A);
     (if phase = 2 then do {
       call_guest K 0x80074BC4;
       w8 K 0x1F80019A 0;
       v3 \<leftarrow> r32 K SM_PTR;
       w16 K (v3 + 0x48) 0;
       request_guest_continuation K TAIL_NONE
     }
      else if phase = 0 \<or> phase = 1 then do {
        ra \<leftarrow> reg K 31;
        r29_5 \<leftarrow> reg K 29;
        setr K 29 (r29_5 - 40);
        r29_6 \<leftarrow> reg K 29;
        r16_7 \<leftarrow> reg K 16;
        w32 K (r29_6 + 24) r16_7;
        w32 K (r29_6 + 32) ra;
        r17_8 \<leftarrow> reg K 17;
        w32 K (r29_6 + 28) r17_8;
        setr K 16 0x1F800000;
        setr K 17 1;
        setr K 4 sm;
        request_guest_continuation K (if phase = 0 then S7_PHASE0_BODY else S7_PHASE1_BODY)
      }
       else request_guest_continuation K TAIL_NONE)
   }"

definition demo_stage_main :: "'c core_ops \<Rightarrow> ('c, unit) state" where
  "demo_stage_main K = do {
     ra \<leftarrow> reg K 31;
     sp \<leftarrow> reg K 29;
     s0_in \<leftarrow> reg K 16;
     s1_in \<leftarrow> reg K 17;
     s2_in \<leftarrow> reg K 18;
     s3_in \<leftarrow> reg K 19;
     setr K 29 (sp - 0x30);
     r29_7 \<leftarrow> reg K 29;
     w16 K (r29_7 + 0x10) 0;
     w16 K (r29_7 + 0x12) 0;
     w16 K (r29_7 + 0x14) 320;
     w16 K (r29_7 + 0x16) 512;
     w32 K (r29_7 + 0x28) ra;
     w32 K (r29_7 + 0x24) s3_in;
     w32 K (r29_7 + 0x20) s2_in;
     w32 K (r29_7 + 0x1C) s1_in;
     w32 K (r29_7 + 0x18) s0_in;
     setr K 4 (r29_7 + 0x10);
     setr K 5 0;
     setr K 6 0;
     setr K 7 0;
     call_guest K 0x800810F0;
     w8 K 0x800BE0E4 0;
     w16 K 0x800E7E68 0;
     w16 K 0x800ECF54 0;
     w16 K 0x800ECF56 0;
     w8 K 0x1F80019A 0;
     w8 K 0x1F80019D 0;
     sm \<leftarrow> r32 K 0x1F800138;
     w16 K (sm + 0x48) 0;
     w8 K (sm + 0x6E) 0;
     mode_state_arm_arm K 0 0 0;
     _ \<leftarrow> rng_next K;
     State_Monad.return ()
   }"

definition demo_s0_post_yield :: "'c core_ops \<Rightarrow> ('c, unit) state" where
  "demo_s0_post_yield K = do {
     call_guest K 0x8007982C;
     pool_reset75240 K;
     setr K 4 1;
     call_guest K 0x8001CF00
   }"

definition demo_tail_75a80 :: "'c core_ops \<Rightarrow> ('c, unit) state" where
  "demo_tail_75a80 K = area_slots_update_tail K"

definition demo_tail_rend :: "'c core_ops \<Rightarrow> ('c, unit) state" where
  "demo_tail_rend K = demo_tail_75a80 K"

definition demo_frame_s2 :: "'c core_ops \<Rightarrow> ('c, unit) state" where
  "demo_frame_s2 K = do {
     setr K 31 0x8010646C;
     call_guest K 0x8010696C;
     v0 \<leftarrow> reg K 2;
     sm \<leftarrow> r32 K SM_PTR;
     (if v0 = 1 then do { w16 K (sm + 0x48) 7; w16 K (sm + 0x4A) 0; w16 K (sm + 0x4C) 0 }
      else only_if (v0 = 2) (do {
        v3 \<leftarrow> r8 K (sm + 0x68);
        (if v3 = 0 then do { w16 K (sm + 0x48) 3; w8 K (sm + 0x68) 2 }
         else do {
           w8 K (sm + 0x68) 0;
           w16 K (sm + 0x48) 4;
           w16 K (sm + 0x50) 0;
           w8 K (sm + 0x6B) 0;
           setr K 31 0x801064DC;
           call_guest K 0x8001CF2C;
           w8 K 0x800BF84A 0
         });
        w16 K (sm + 0x4A) 0
      }));
     demo_tail_rend K
   }"

definition demo_tail_cf2c :: "'c core_ops \<Rightarrow> ('c, unit) state" where
  "demo_tail_cf2c K = do {
     setr K 31 0x80106658;
     call_guest K 0x8001CF2C;
     demo_tail_75a80 K
   }"

definition demo_frame_s3 :: "'c core_ops \<Rightarrow> ('c, unit) state" where
  "demo_frame_s3 K = do {
     setr K 31 0x801064F0;
     call_guest K 0x80106AC4;
     v0 \<leftarrow> reg K 2;
     sm \<leftarrow> r32 K SM_PTR;
     (if v0 = 1 then do { w16 K (sm + 0x48) 7; w16 K (sm + 0x4A) 0; w16 K (sm + 0x4C) 0 }
      else if v0 = 2 then do {
        v3 \<leftarrow> r8 K (sm + 0x68);
        (if v3 = 2 then do { w16 K (sm + 0x48) 5; w8 K (sm + 0x68) 0; w8 K 0x1F800134 0 }
         else do {
           w8 K (sm + 0x68) 0;
           w16 K (sm + 0x48) 6;
           w8 K (sm + 0x6B) 0;
           w16 K (sm + 0x50) 0;
           setr K 31 0x8010655C;
           call_guest K 0x800750D8;
           w8 K 0x800BF808 0
         })
      }
       else only_if (v0 = 3) (do { w16 K (sm + 0x48) 2; w8 K (sm + 0x68) 0 }));
     demo_tail_rend K
   }"

definition demo_frame_s6 :: "'c core_ops \<Rightarrow> ('c, unit) state" where
  "demo_frame_s6 K = do {
     setr K 31 0x801065F4;
     call_guest K 0x8007B45C;
     sm \<leftarrow> r32 K SM_PTR;
     v2 \<leftarrow> r16 K (sm + 0x50);
     sm \<leftarrow> (if v2 = 3 then do {
       setr K 4 1;
       setr K 5 1;
       setr K 31 0x80106618;
       call_guest K 0x80106824;
       setr K 4 1;
       setr K 31 0x80106620;
       call_guest K 0x80106690;
       r32 K SM_PTR
     }
      else State_Monad.return sm);
     s6b \<leftarrow> r8 K (sm + 0x6B);
     (if s6b = 1 then do { w16 K (sm + 0x48) 3; w8 K (sm + 0x68) 3; demo_tail_cf2c K }
      else if s6b = 2 then do { w16 K (sm + 0x48) 3; w8 K (sm + 0x68) 2; demo_tail_cf2c K }
       else demo_tail_rend K)
   }"

end
