(* ===== verification/EngineFrame.thy ===== *)
theory EngineFrame
  imports ObjectLists SceneTriggers WorldTables
begin

text \<open>
  The engine's frame: the field run, the state dispatch, the ticks of a frame and the machine of
  the stage task.
\<close>

section \<open>Layout\<close>

definition kCurrentTaskPointer :: u32 where "kCurrentTaskPointer = 0x1F800138"

section \<open>\<open>game/core/engine/engine_frame_ticks.cpp\<close>\<close>

definition frame_start_tick :: "'c core_ops \<Rightarrow> ('c, unit) state" where
  "frame_start_tick K = do {
     let G1 = (0x800E7E80 :: u32);
     cnt \<leftarrow> r8 K 0x800BF819;
     only_if (cnt \<noteq> 0) (do {
       w8 K 0x800BF819 (cnt - 1);
       v2 \<leftarrow> r16 K 0x800ECF54;
       w16 K 0x800ECF54 (v2 AND 0x0FFF);
       v3 \<leftarrow> r16 K 0x800E7E68;
       w16 K 0x800E7E68 (v3 AND 0x0FFF)
     });
     w8 K (G1 + 0x177) 0;
     w8 K (G1 + 0x179) 0;
     w8 K (G1 + 0x17A) 0;
     w8 K (G1 + 0x17B) 0;
     w8 K 0x1F80027A 0;
     v4 \<leftarrow> r8 K 0x1F800247;
     w8 K 0x1F800247 (v4 + 1);
     v5 \<leftarrow> r8 K 0x800BF841;
     only_if (v5 = 0) (do {
       mode \<leftarrow> r8 K 0x800BF870;
       let target = (if mode = 2 then (0x8010F63C :: u32) else (if mode = 3 then (0x80109024 ::
           u32) else (if mode = 7 then (0x80112220 :: u32) else (if mode = 20 then (0x8010F654 ::
           u32) else (0x8005950C :: u32)))));
       setr K 4 G1;
       call_guest K target;
       w8 K 0x1F800230 0
     });
     v7 \<leftarrow> r16 K (G1 + 0x2E);
     w16 K 0x1F800160 v7;
     v8 \<leftarrow> r16 K (G1 + 0x32);
     w16 K 0x1F800162 v8;
     v9 \<leftarrow> r16 K (G1 + 0x36);
     w16 K 0x1F800164 v9;
     v10 \<leftarrow> r16 K (G1 + 0x58);
     w16 K 0x1F80016A v10;
     v11 \<leftarrow> r16 K (G1 + 0x56);
     w16 K 0x1F800168 v11;
     v12 \<leftarrow> r8 K 0x800BF9C3;
     only_if ((v12 AND 0x80) \<noteq> 0) (w8 K 0x800BF81E 1);
     v13 \<leftarrow> r8 K 0x1F800137;
     only_if (v13 = 0) (do {
       v \<leftarrow> r8 K (G1 + 0x180);
       only_if (v \<noteq> 0) (w8 K (G1 + 0x180) (v - 1))
     });
     _ \<leftarrow> rng_next K;
     State_Monad.return ()
   }"

definition post_render_tick :: "'c core_ops \<Rightarrow> ('c, unit) state" where
  "post_render_tick K = do {
     b \<leftarrow> r8 K 0x800BF842;
     (if b = 0 then State_Monad.return ()
      else do {
        let low = as_u8 (b AND 0x7F);
        (if low = 1 then do { sfx_trigger K 41 2 (-65); w8 K 0x800BF842 0x87 }
         else if low = 2 then do { sfx_trigger K 42 2 (-65); w8 K 0x800BF842 0 }
          else w8 K 0x800BF842 (b - 1))
      })
   }"

section \<open>\<open>game/core/engine/engine_scene_frame.cpp\<close>\<close>

definition scene_render_list_builder :: "'c core_ops \<Rightarrow> ('c, unit) state" where
  "scene_render_list_builder K = do {
     let B = (0x800BF548 :: u32);
     phase \<leftarrow> r8 K (B + 0);
     (if phase = 0 then do {
       p \<leftarrow> r32 K 0x800ECF64;
       w32 K (B + 0x2B0) p;
       w32 K (B + 0x2B4) (p + 0x10);
       h \<leftarrow> r16 K p;
       w8 K (B + 1) 0;
       w8 K (B + 0) 1;
       w32 K (B + 0x2B8) (p + 0x10 + shl h 1)
     }
      else if phase \<noteq> 1 then State_Monad.return ()
       else do {
         v4 \<leftarrow> r8 K (B + 1);
         (if v4 = 0 then do {
           _ \<leftarrow> guest_call K 0x8004F430 [B];
           State_Monad.return ()
         }
          else if v4 = 1 then do {
            _ \<leftarrow> guest_call K 0x8004F474 [B];
            State_Monad.return ()
          }
           else if v4 = 2 then do {
             _ \<leftarrow> guest_call K 0x8004F514 [B];
             State_Monad.return ()
           }
            else only_if (v4 = 3) (do {
              _ \<leftarrow> guest_call K 0x8004F6D0 [B];
              State_Monad.return ()
            }));
         let flag = (0x800BF822 :: u32);
         v \<leftarrow> r8 K flag;
         v6 \<leftarrow> r8 K (B + 1);
         v7 \<leftarrow> r16s K (B + 0x0A);
         (if v6 \<noteq> 0 \<or> v7 \<noteq> 0 then w8 K flag (v OR 1)
          else w8 K flag (v AND 0xFE))
       })
   }"

section \<open>\<open>game/core/engine/engine_state_dispatch.cpp\<close>\<close>

definition area_mode_dispatch :: "'c core_ops \<Rightarrow> ('c, unit) state" where
  "area_mode_dispatch K = do {
     idx \<leftarrow> r8 K 0x800BF870;
     (if 22 \<le> idx then State_Monad.return ()
      else do {
        let handlers = ([0x8011534C, 0, 0, 0, 0x8013EE84, 0x80136CDC, 0x8014189C, 0x8012F6EC, 0,
            0, 0x801140D0, 0x80113F94, 0, 0x80116980, 0, 0x80116560, 0, 0, 0, 0, 0, 0x8010B918] ::
            u32 list);
        let target = handlers ! (unat idx);
        (if \<not> (target \<noteq> 0) then State_Monad.return ()
         else do { setr K 4 0x800ED018; call_guest K target })
      })
   }"

definition mode_per_frame_dispatch :: "'c core_ops \<Rightarrow> ('c, unit) state" where
  "mode_per_frame_dispatch K = do {
     idx \<leftarrow> r8 K 0x800BF870;
     (if idx = 3 then State_Monad.return ()
      else do {
        target \<leftarrow> r32 K (0x8009D1D4 + idx * 4);
        (if \<not> (target \<noteq> 0) then State_Monad.return ()
         else if target = 0x80113C5C then behaviors_area_seaside_perframe K
          else call_guest K target)
      })
   }"

definition scene_state_step :: "'c core_ops \<Rightarrow> ('c, unit) state" where
  "scene_state_step K = do {
     let SCENE_STATE = (0x800F2418 :: u32);
     v1 \<leftarrow> r8 K SCENE_STATE;
     let phase = as_s8 v1;
     (if phase = 1 then do {
       idx \<leftarrow> r8 K 0x800BF870;
       (if 22 \<le> idx then State_Monad.return ()
        else do {
          let run1 = ([0x8013EFA8, 0x8012EE14, 0x80123E1C, 0x8010E964, 0x80116CCC, 0x80136488,
              0x8013D6D8, 0x8012E2F4, 0x8012AB30, 0, 0x80110A14, 0x80113770, 0x801144D4,
              0x80113D68, 0x80114A78, 0x80115DEC, 0x8010C9FC, 0x8010BCDC, 0x8010C160, 0x8010B140,
              0x80116B9C, 0x8010B200] :: u32 list);
          let target = run1 ! (unat idx);
          (if \<not> (target \<noteq> 0) then State_Monad.return ()
           else do { setr K 4 SCENE_STATE; call_guest K target })
        })
     }
      else if phase \<noteq> 0 then State_Monad.return ()
       else do {
         idx \<leftarrow> r8 K 0x800BF870;
         (if 22 \<le> idx then State_Monad.return ()
          else do {
            let init1 = ([0x8013FB4C, 0x8012F89C, 0x80124678, 0x8010F174, 0x801175D0, 0x80136CB0,
                0x8013E144, 0x8012EB50, 0x8012B3E8, 0, 0x80111238, 0x80113F68, 0x80114CCC,
                0x80114560, 0x80115270, 0x80116534, 0x8010D21C, 0x8010C4FC, 0x8010C980,
                0x8010B960, 0x801173A8, 0x8010B8EC] :: u32 list);
            let target = init1 ! (unat idx);
            only_if (target \<noteq> 0) (do { setr K 4 SCENE_STATE; call_guest K target });
            w8 K SCENE_STATE 1
          })
       })
   }"

section \<open>\<open>game/core/engine/engine_task_machine.cpp\<close>\<close>

definition scene_event_fifo :: "'c core_ops \<Rightarrow> ('c, unit) state" where
  "scene_event_fifo K = do {
     let B = (0x800ED058 :: u32);
     st \<leftarrow> r8 K (B + 2);
     let rest1 = (do {
       v2 \<leftarrow> r8 K (B + 0x14);
       v3 \<leftarrow> r8 K (B + 0x15);
       only_if (v2 = 0 \<and> v3 \<noteq> 0) (do {
         v4 \<leftarrow> r8 K (B + 0x16);
         v5 \<leftarrow> r8 K (B + 0x1C);
         _ \<leftarrow> guest_call K 0x80040AA4 [v4, v5];
         kind \<leftarrow> r8 K (B + 0x1C);
         (if kind = 0 then do {
           _ \<leftarrow> guest_call K 0x80074BF8 [2];
           State_Monad.return ()
         }
          else only_if (kind = 1) (do {
            _ \<leftarrow> guest_call K 0x80074BF8 [3];
            State_Monad.return ()
          }));
         v7 \<leftarrow> r8 K (B + 0x15);
         let n = v7 - 1;
         for_each (upto_u32 (nat (sint n))) (\<lambda>i. do {
           v8 \<leftarrow> r8 K (B + 0x16 + i + 1);
           w8 K (B + 0x16 + i) v8;
           v9 \<leftarrow> r8 K (B + 0x1C + i + 1);
           w8 K (B + 0x1C + i) v9
         });
         v10 \<leftarrow> r8 K (B + 0x15);
         w8 K (B + 0x15) (v10 - 1);
         v11 \<leftarrow> r8 K (B + 0x14);
         w8 K (B + 0x14) (v11 + 1)
       });
       _ \<leftarrow> guest_call K 0x80024F18 [B];
       phase \<leftarrow> r8 K 0x800BF870;
       (if phase = 3 \<or> phase = 20 then State_Monad.return ()
        else if phase = 2 \<or> phase = 7 then do {
          v13 \<leftarrow> r8 K 0x800BF816;
          v14 \<leftarrow> r16 K 0x800E7E68;
          only_if (v13 = 0 \<and> (v14 AND 0x0C00) \<noteq> 0) (do {
            v15 \<leftarrow> r8 K (B + 8);
            w8 K (B + 8) (1 - v15)
          })
        }
         else do { _ \<leftarrow> guest_call K 0x800251F0 [B]; State_Monad.return () });
       _ \<leftarrow> guest_call K 0x80077B5C [B];
       State_Monad.return ()
     });
     (if st = 0 then do {
       w8 K (B + 2) 1;
       w8 K (B + 9) 0;
       head \<leftarrow> r32 K 0x800ECF58;
       w8 K 0x800BFA5C 0;
       w32 K (B + 0x3C) head;
       _ \<leftarrow> guest_call K 0x80024E00 [B];
       rest1
     }
      else if st \<noteq> 1 then State_Monad.return () else rest1)
   }"

definition submit_page810c :: "'c core_ops \<Rightarrow> ('c, unit) state" where
  "submit_page810c K = do {
     task \<leftarrow> r32 K 0x1F800138;
     v2 \<leftarrow> r8 K (task + 0x6B);
     (if task \<noteq> 0 \<and> v2 = 1 then do {
       screen_fade_apply_leaf_call K 0x808080 kSubtractive 4;
       call_guest K 0x801084F8
     }
      else do { _ \<leftarrow> guest_call K 0x8010810C []; State_Monad.return () })
   }"

section \<open>\<open>game/core/engine/engine_object_leaves.cpp\<close>\<close>

definition field_frame :: "'c core_ops \<Rightarrow> ('c, unit) state" where
  "field_frame K = do {
     v1 \<leftarrow> r16 K 0x1F80017C;
     w16 K 0x1F80017C (v1 + 1);
     v2 \<leftarrow> r32 K 0x800BF878;
     w32 K 0x800BF878 (v2 + 1);
     v3 \<leftarrow> r8 K 0x1F800136;
     only_if (v3 = 0) (do {
       frame_start_tick K;
       object_list_walk_aux K;
       array8_dispatch_tick K;
       object_list_walk_all K;
       scene_event_fifo K;
       scene_render_list_builder K;
       object_table_dispatch K;
       mode_per_frame_dispatch K;
       cutscene_camera_update K kCameraObject;
       scene_state_step K;
       area_mode_dispatch K
     });
     v4 \<leftarrow> r8 K 0x1F800136;
     only_if (v4 < 2) (render_frame K);
     submit_page810c K;
     post_render_tick K;
     area_slots_update_tail K
   }"

section \<open>\<open>game/core/engine/engine_field_run.cpp\<close>\<close>

definition field_run_l141 :: "'c core_ops \<Rightarrow> u32 \<Rightarrow> ('c, unit) state" where
  "field_run_l141 K s4e = (if s4e = 5 then do {
     v41 \<leftarrow> r8 K 0x800BF870;
     only_if (v41 = 7) (do {
       _ \<leftarrow> guest_call K 0x801128BC [];
       mode_state_arm_arm_from_area_table K
     });
     v42 \<leftarrow> r32 K 0x1F800138;
     w16 K (v42 + 0x4E) 1;
     field_frame K
   }
    else if s4e = 6 then do {
      v43 \<leftarrow> r16s K 0x800E7FEE;
      only_if (v43 \<noteq> 0) (do {
        w8 K 0x800BF880 1;
        v44 \<leftarrow> r16 K 0x800E7FEE;
        w16 K 0x1F800194 v44
      });
      audio_dispatch_settle_field K;
      b83a \<leftarrow> r16 K 0x800BF83A;
      let v = ((shl (b83a AND 0xFF) 8) OR (shr b83a 8)) AND 0x3F1F;
      w8 K 0x800BF870 (v AND 0xFF);
      w8 K 0x800BF871 ((shr v 8) AND 0xFF);
      v46 \<leftarrow> r8 K 0x800BF839;
      only_if (v46 = 7) (do {
        _ \<leftarrow> guest_call K 0x80114B90 [];
        w8 K 0x800BF839 3
      });
      sm \<leftarrow> r32 K 0x1F800138;
      v48 \<leftarrow> r8 K 0x800BF839;
      (if v48 = 3 then do {
        _ \<leftarrow> guest_call K 0x8005245C [];
        sm \<leftarrow> r32 K 0x1F800138;
        w16 K (sm + 0x48) 2;
        w16 K (sm + 0x4A) 1;
        w16 K (sm + 0x4C) 1;
        w16 K (sm + 0x4E) 0
      }
       else do {
         w16 K (sm + 0x48) 2;
         b \<leftarrow> r8 K 0x1F800236;
         w16 K (sm + 0x4A) 5;
         w16 K (sm + 0x4E) 0;
         w16 K (sm + 0x4C) b
       })
    }
     else if s4e = 7 then do {
       _ \<leftarrow> guest_call K 0x80045580 [1];
       r2_51 \<leftarrow> reg K 2;
       (if r2_51 = 0 then State_Monad.return ()
        else do {
          sm \<leftarrow> r32 K 0x1F800138;
          v53 \<leftarrow> r16 K (sm + 0x4E);
          w16 K (sm + 0x4E) (v53 + 1)
        })
     }
      else if s4e = 8 then do {
        v54 \<leftarrow> r8 K 0x1F80019B;
        (if v54 = 0 then State_Monad.return ()
         else do {
           w8 K 0x800BF89C 4;
           w8 K 0x1F800236 0;
           w8 K 0x800BF839 3;
           w16 K 0x800BF83A 0;
           sm \<leftarrow> r32 K 0x1F800138;
           w16 K (sm + 0x4A) 1;
           w16 K (sm + 0x4C) 2;
           w16 K (sm + 0x4E) 6
         })
      }
       else if s4e = 9 then do {
         field_frame K;
         sm \<leftarrow> r32 K 0x1F800138;
         v57 \<leftarrow> r8 K 0x800BF89C;
         v58 \<leftarrow> r16 K 0x800E7E68;
         only_if (v57 = 2 \<and> (v58 AND 8) \<noteq> 0) (do {
           v59 \<leftarrow> r16 K (sm + 0x4E);
           w16 K (sm + 0x4E) (v59 + 1);
           w8 K 0x800BF809 1;
           w8 K (sm + 0x6E) 0x1F
         })
       }
        else if s4e = 10 then do {
          field_frame K;
          sm \<leftarrow> r32 K 0x1F800138;
          v61 \<leftarrow> r8 K (sm + 0x6E);
          let u = (v61 * (-8)) AND 0xFF;
          screen_fade_apply_leaf_call K (((shl u 16) OR (shl u 8)) OR u) kSubtractive 0;
          v62 \<leftarrow> r8 K (sm + 0x6E);
          let nv = as_u8 (v62 - 1);
          w8 K (sm + 0x6E) nv;
          only_if (nv = 0) (do {
            w16 K (sm + 0x4E) 7;
            _ \<leftarrow> guest_call K 0x8001CF2C [];
            State_Monad.return ()
          })
        }
         else only_if (s4e = 0xB) (area_fade_sequencer_step K 0x800E8008))"

definition field_run :: "'c core_ops \<Rightarrow> ('c, unit) state" where
  "field_run K = do {
     sm \<leftarrow> r32 K 0x1F800138;
     s4e \<leftarrow> r16 K (sm + 0x4E);
     (if s4e = 0 then do {
       pool_init K;
       pool_reset_control_block K;
       pool_seed_area_objects K;
       placement_place_area_objects K;
       pool_reset75240 K;
       pool_setup_view_scroll K;
       pool_final_view_init K;
       sm \<leftarrow> r32 K 0x1F800138;
       w16 K (sm + 0x4E) 1;
       w8 K (sm + 0x6B) 0;
       v4 \<leftarrow> r8 K 0x800BF89C;
       (if v4 = 2 then do {
         w16 K (sm + 0x4E) 9;
         v5 \<leftarrow> r8 K 0x800BF870;
         pool_select_state_index K v5
       }
        else do {
          v6 \<leftarrow> r8 K 0x800BF870;
          (if v6 = 8 then do {
            _ \<leftarrow> guest_call K 0x80114B90 [];
            v7 \<leftarrow> r8 K 0x800BF870;
            pool_select_state_index K v7
          }
           else do {
             v8 \<leftarrow> r16 K 0x800BF870;
             (if v8 = 21 then w16 K (sm + 0x4E) 0xB
              else do { v9 \<leftarrow> r8 K 0x800BF870; pool_select_state_index K v9 })
           })
        })
     }
      else if s4e = 2 then do {
        g_state_mutate K 0x800E7E80 0xC;
        sm \<leftarrow> r32 K 0x1F800138;
        v11 \<leftarrow> r16 K (sm + 0x4E);
        w16 K (sm + 0x4E) (v11 + 1);
        audio_dispatch_settle_field K;
        v12 \<leftarrow> r8 K 0x800BF870;
        only_if (v12 = 8) (do {
          _ \<leftarrow> guest_call K 0x80114B90 [];
          State_Monad.return ()
        });
        sm \<leftarrow> r32 K 0x1F800138;
        w16 K (sm + 0x4A) 2;
        w16 K (sm + 0x4C) 0;
        w16 K (sm + 0x4E) 0;
        mode_state_arm_arm K 0 0 0
      }
       else if s4e = 3 then do {
         audio_dispatch_settle_field K;
         v14 \<leftarrow> r8 K 0x800BF870;
         only_if (v14 = 8) (do {
           _ \<leftarrow> guest_call K 0x80114B90 [];
           State_Monad.return ()
         });
         sm \<leftarrow> r32 K 0x1F800138;
         w16 K (sm + 0x4A) 2;
         w16 K (sm + 0x4C) 0;
         w16 K (sm + 0x4E) 0;
         mode_state_arm_arm K 0 0 0
       }
        else if s4e = 4 then do {
          _ \<leftarrow> guest_call K 0x8006C7C4 [];
          mode_state_arm_arm_from_area_table K;
          v16 \<leftarrow> r32 K 0x1F800138;
          w16 K (v16 + 0x4E) 1;
          field_frame K;
          sm \<leftarrow> r32 K 0x1F800138;
          v18 \<leftarrow> r8 K 0x800BF80D;
          (if v18 = 3 then do {
            v19 \<leftarrow> r8 K 0x800BF80F;
            only_if (v19 = 0) (do {
              audio_dispatch_settle_field K;
              sm \<leftarrow> r32 K 0x1F800138;
              v21 \<leftarrow> r16s K 0x800E7FEE;
              (if v21 = 0 then do {
                v22 \<leftarrow> r16 K (sm + 0x4E);
                w16 K (sm + 0x4E) (v22 + 1)
              }
               else do {
                 w8 K 0x800BF880 1;
                 v23 \<leftarrow> r16 K 0x800E7FEE;
                 w16 K 0x1F800194 v23;
                 w16 K (sm + 0x4E) 0
               })
            })
          }
           else do {
             v24 \<leftarrow> r8 K 0x800BF839;
             v25 \<leftarrow> r8 K 0x800BF80F;
             only_if (v24 \<noteq> 0 \<and> v25 = 0) (do {
               v26 \<leftarrow> r8 K 0x800BF839;
               (if v26 = 8 then do {
                 w16 K (sm + 0x4A) 3;
                 w16 K (sm + 0x4C) 0;
                 w16 K (sm + 0x4E) 0
               }
                else do {
                  v27 \<leftarrow> r8 K 0x1F800236;
                  only_if (4 < v27) (do {
                    _ \<leftarrow> guest_call K 0x80050894 [0];
                    State_Monad.return ()
                  });
                  sm \<leftarrow> r32 K 0x1F800138;
                  w16 K (sm + 0x4A) 1;
                  w16 K (sm + 0x4C) 2;
                  w16 K (sm + 0x4E) 6
                })
             })
           })
        }
         else if s4e = 1 then do {
           field_frame K;
           sm \<leftarrow> r32 K 0x1F800138;
           v30 \<leftarrow> r8 K 0x800BF80D;
           (if v30 = 3 then do {
             v31 \<leftarrow> r8 K 0x800BF80F;
             only_if (v31 = 0) (do {
               audio_dispatch_settle_field K;
               sm \<leftarrow> r32 K 0x1F800138;
               v33 \<leftarrow> r16s K 0x800E7FEE;
               (if v33 = 0 then do {
                 v34 \<leftarrow> r16 K (sm + 0x4E);
                 w16 K (sm + 0x4E) (v34 + 1)
               }
                else do {
                  w8 K 0x800BF880 1;
                  v35 \<leftarrow> r16 K 0x800E7FEE;
                  w16 K 0x1F800194 v35;
                  w16 K (sm + 0x4E) 0
                })
             })
           }
            else do {
              v36 \<leftarrow> r8 K 0x800BF839;
              v37 \<leftarrow> r8 K 0x800BF80F;
              only_if (v36 \<noteq> 0 \<and> v37 = 0) (do {
                v38 \<leftarrow> r8 K 0x800BF839;
                (if v38 = 8 then do {
                  w16 K (sm + 0x4A) 3;
                  w16 K (sm + 0x4C) 0;
                  w16 K (sm + 0x4E) 0
                }
                 else do {
                   v39 \<leftarrow> r8 K 0x1F800236;
                   only_if (4 < v39) (do {
                     _ \<leftarrow> guest_call K 0x80050894 [0];
                     State_Monad.return ()
                   });
                   sm \<leftarrow> r32 K 0x1F800138;
                   w16 K (sm + 0x4A) 1;
                   w16 K (sm + 0x4C) 2;
                   w16 K (sm + 0x4E) 6
                 })
              })
            })
         }
          else field_run_l141 K s4e)
   }"

definition field_frame_x :: "'c core_ops \<Rightarrow> ('c, unit) state" where
  "field_frame_x K = do {
     v1 \<leftarrow> r16 K 0x1F80017C;
     w16 K 0x1F80017C (v1 + 1);
     v2 \<leftarrow> r32 K 0x800BF878;
     w32 K 0x800BF878 (v2 + 1);
     v3 \<leftarrow> r8 K 0x1F800136;
     only_if (v3 = 0) (do {
       frame_start_tick K;
       object_list_walk_aux K;
       _ \<leftarrow> guest_call K 0x80026368 [];
       transition_state3_walk_once K;
       scene_event_fifo K;
       scene_render_list_builder K;
       object_table_dispatch K;
       mode_per_frame_dispatch K;
       cutscene_camera_update K kCameraObject
     });
     v4 \<leftarrow> r8 K 0x1F800136;
     only_if (v4 < 2) (render_frame_x K);
     submit_page810c K;
     post_render_tick K;
     area_slots_update_tail K
   }"

definition field_run_x :: "'c core_ops \<Rightarrow> ('c, unit) state" where
  "field_run_x K = do {
     sm \<leftarrow> r32 K 0x1F800138;
     s4e \<leftarrow> r16 K (sm + 0x4E);
     (if 2 \<le> s4e then only_if (s4e = 2) (w16 K (sm + 0x4E) 1)
      else do {
        only_if (s4e = 0) (do {
          w16 K (sm + 0x4E) 1;
          setr K 31 0x80107108;
          call_guest K 0x8006C77C;
          _ \<leftarrow> guest_call K 0x8005082C [0, 0, 0];
          State_Monad.return ()
        });
        field_frame_x K;
        v3 \<leftarrow> r8 K 0x800BF80D;
        (if v3 = 3 then do {
          v4 \<leftarrow> r8 K 0x800BF80F;
          (if v4 \<noteq> 0 then State_Monad.return ()
           else do {
             audio_dispatch_settle_field K;
             sm \<leftarrow> r32 K 0x1F800138;
             w16 K (sm + 0x4C) 2;
             v6 \<leftarrow> r16 K 0x800E7FEE;
             let e_s = as_s16 v6;
             e_u \<leftarrow> r16 K 0x800E7FEE;
             (if e_s \<noteq> 0 then do {
               w8 K 0x800BF880 1;
               w16 K 0x1F800194 e_u;
               w16 K (sm + 0x4E) 0
             }
              else w16 K (sm + 0x4E) 2)
           })
        }
         else do {
           bf839 \<leftarrow> r8 K 0x800BF839;
           (if bf839 = 0 then State_Monad.return ()
            else do {
              v9 \<leftarrow> r8 K 0x800BF80F;
              (if v9 \<noteq> 0 then State_Monad.return ()
               else if bf839 = 8 then do {
                 sm \<leftarrow> r32 K 0x1F800138;
                 w16 K (sm + 0x4A) 1;
                 w16 K (sm + 0x4C) 2;
                 w16 K (sm + 0x4E) 3
               }
                else do {
                  v11 \<leftarrow> r8 K 0x1F800236;
                  only_if (5 \<le> v11) (do {
                    _ \<leftarrow> guest_call K 0x80050894 [0];
                    State_Monad.return ()
                  });
                  sm \<leftarrow> r32 K 0x1F800138;
                  w16 K (sm + 0x4A) 1;
                  w16 K (sm + 0x4C) 2;
                  w16 K (sm + 0x4E) 6
                })
            })
         })
      })
   }"

section \<open>\<open>game/core/engine/engine_frame_ticks.cpp\<close>\<close>

definition set_area_start_pos :: "'c core_ops \<Rightarrow> ('c, unit) state" where
  "set_area_start_pos K = do {
     let START_TABLE = (0x800A54A8 :: u32);
     area \<leftarrow> r8 K 0x800BF870;
     sub1 \<leftarrow> r8 K 0x800BF871;
     rec \<leftarrow> r32 K (START_TABLE + shl area 2);
     let rec = rec + shl sub1 3;
     v4 \<leftarrow> r16 K (rec + 0);
     w32 K 0x800BF890 (shl (as_s16 v4) 16);
     v5 \<leftarrow> r16 K (rec + 2);
     w32 K 0x800BF894 (shl (as_s16 v5) 16);
     v6 \<leftarrow> r16 K (rec + 4);
     w32 K 0x800BF898 (shl (as_s16 v6) 16);
     v7 \<leftarrow> r8 K (rec + 6);
     w8 K 0x800BFE38 (v7 AND 0x7F)
   }"

definition ov_engine_anim_tick :: "'c core_ops \<Rightarrow> ('c, unit) state" where
  "ov_engine_anim_tick K = do {
     r4_1 \<leftarrow> reg K 4;
     v2 \<leftarrow> anim_tick K r4_1;
     setr K 2 v2
   }"

definition ov_engine_walk_start :: "'c core_ops \<Rightarrow> ('c, unit) state" where
  "ov_engine_walk_start K = do {
     r4_1 \<leftarrow> reg K 4;
     r5_2 \<leftarrow> reg K 5;
     r6_3 \<leftarrow> reg K 6;
     v4 \<leftarrow> engine_walk_start K r4_1 r5_2 (as_s16 r6_3);
     setr K 2 v4
   }"

definition ov_engine_set_area_start_pos :: "'c core_ops \<Rightarrow> ('c, unit) state" where
  "ov_engine_set_area_start_pos K = set_area_start_pos K"

definition ov_engine_active_mode_ctx :: "'c core_ops \<Rightarrow> ('c, unit) state" where
  "ov_engine_active_mode_ctx K = do {
     v1 \<leftarrow> active_mode_ctx K;
     setr K 2 v1
   }"

definition ov_engine_install_mode_handlers :: "'c core_ops \<Rightarrow> ('c, unit) state" where
  "ov_engine_install_mode_handlers K = install_mode_handlers K"

definition ov_engine_run_mode_enter :: "'c core_ops \<Rightarrow> ('c, unit) state" where
  "ov_engine_run_mode_enter K = do {
     v1 \<leftarrow> run_mode_enter K;
     setr K 2 v1
   }"

section \<open>\<open>game/core/engine/engine_state_dispatch.cpp\<close>\<close>

definition stage_prologue :: "'c core_ops \<Rightarrow> ('c, unit) state" where
  "stage_prologue K = do {
     ra \<leftarrow> reg K 31;
     sp \<leftarrow> reg K 29;
     s0_in \<leftarrow> reg K 16;
     s1_in \<leftarrow> reg K 17;
     s2_in \<leftarrow> reg K 18;
     setr K 29 (sp - 0x20);
     r29_6 \<leftarrow> reg K 29;
     w32 K (r29_6 + 0x14) s1_in;
     w32 K (r29_6 + 0x18) s2_in;
     w32 K (r29_6 + 0x10) s0_in;
     setr K 16 0x1F800000;
     setr K 17 0x1F800000;
     setr K 18 1;
     w8 K 0x1F800206 0;
     w8 K 0x1F800236 0;
     w8 K 0x1F800234 0;
     w8 K 0x1F80019A 2;
     task \<leftarrow> r32 K 0x1F800138;
     init48 \<leftarrow> r8 K 0x1F800134;
     w32 K (r29_6 + 0x1C) ra;
     w16 K 0x1F800198 0;
     w8 K 0x800BE0E4 0;
     w16 K (task + 0x48) init48;
     w16 K (task + 0x4A) 0;
     w16 K (task + 0x4C) 0;
     w16 K (task + 0x4E) 0;
     w16 K (task + 0x50) 0
   }"

definition stage_main :: "'c core_ops \<Rightarrow> ('c, unit) state" where
  "stage_main K = do {
     stage_prologue K;
     request_guest_continuation K 0x801063F4
   }"

section \<open>\<open>game/core/engine/engine_task_machine.cpp\<close>\<close>

definition stage_area_init :: "'c core_ops \<Rightarrow> ('c, unit) state" where
  "stage_area_init K = with_frame K 24 [(31, 16)] (do {
     v1 \<leftarrow> r32 K kCurrentTaskPointer;
     task_sm_set_top K v1 2;
     task_sm_set_sub_mode K v1 0;
     task_sm_set_stage4c K v1 0;
     task_sm_set_f69 K v1 0;
     _ \<leftarrow> dispatch_jal K 0x8007A8E0 0x80108708 [];
     _ \<leftarrow> dispatch_jal K 0x8007B38C 0x80108710 [];
     State_Monad.return ()
   })"

definition stage_resume_init :: "'c core_ops \<Rightarrow> ('c, unit) state" where
  "stage_resume_init K = with_frame K 24 [(31, 16)] (do {
     v1 \<leftarrow> r32 K kCurrentTaskPointer;
     task_sm_set_top K v1 2;
     task_sm_set_sub_mode K v1 1;
     task_sm_set_stage4c K v1 0;
     task_sm_set_f69 K v1 0;
     w8 K 0x1F8001FF 0xFF;
     w16 K 0x1F800278 0;
     _ \<leftarrow> dispatch_jal K 0x8007B3F4 0x80108760 [];
     w8 K 0x1F800206 0;
     w8 K 0x1F800236 0;
     w8 K 0x1F800234 0
   })"

end
