(* ===== verification/GpuQueue.thy ===== *)
theory GpuQueue
  imports ObjectViews
begin

text \<open>
  The queue of GPU transfers and the streamer of image uploads, on the ring in guest memory.
\<close>

section \<open>Layout\<close>

definition GPU_QSTAT_STARTED :: u32 where "GPU_QSTAT_STARTED = 0x800A59A1"
definition GPU_QSTAT_ACTIVE :: u32 where "GPU_QSTAT_ACTIVE = 0x800A59A8"
definition GPU_QSTAT_HANDLER :: u32 where "GPU_QSTAT_HANDLER = 0x800A59AC"
definition GPU_DMA_READY_PTR :: u32 where "GPU_DMA_READY_PTR = 0x800A5AA8"
definition GPU_DMA_LASTADDR_PTR :: u32 where "GPU_DMA_LASTADDR_PTR = 0x800A5AB8"
definition GPU_DMA_COUNT_PTR :: u32 where "GPU_DMA_COUNT_PTR = 0x800A5ABC"
definition GPU_DMA_CHCR_PTR :: u32 where "GPU_DMA_CHCR_PTR = 0x800A5AC0"
definition GPU_DMA_ENABLE_PTR :: u32 where "GPU_DMA_ENABLE_PTR = 0x800A5AC4"
definition RING_HEAD :: u32 where "RING_HEAD = 0x800A5AC8"
definition RING_TAIL :: u32 where "RING_TAIL = 0x800A5ACC"
definition ENQ_SAVED_MASK :: u32 where "ENQ_SAVED_MASK = 0x800A5AD0"
definition DRAIN_SAVED_MASK :: u32 where "DRAIN_SAVED_MASK = 0x800A5AD4"
definition RING_BASE :: u32 where "RING_BASE = 0x80100000"
definition RING_ENTRY_OFF :: u32 where "RING_ENTRY_OFF = 3120"
definition GPU_DMA_READY_BIT :: u32 where "GPU_DMA_READY_BIT = 0x4000000"
definition GPU_DMA_BUSY_BIT :: u32 where "GPU_DMA_BUSY_BIT = 0x1000000"
definition FN_INT_MASK_SET :: u32 where "FN_INT_MASK_SET = 0x80085C9C"
definition FN_ISR_REGISTER :: u32 where "FN_ISR_REGISTER = 0x80085B80"
definition FN_DRAIN :: u32 where "FN_DRAIN = 0x80082FB4"
definition GPU_GP0_PORT_PTR :: u32 where "GPU_GP0_PORT_PTR = 0x800A5AA4"
definition GPU_READY_BIT :: u32 where "GPU_READY_BIT = 0x4000000"
definition GP0_CLEAR_CACHE :: u32 where "GP0_CLEAR_CACHE = 0x1000000"
definition GP0_COPY_CPU_TO_VRAM :: u32 where "GP0_COPY_CPU_TO_VRAM = 0xA0000000"
definition FN_GPU_TIMEOUT_ARM :: u32 where "FN_GPU_TIMEOUT_ARM = 0x800834A0"
definition FN_GPU_TIMEOUT_CHK :: u32 where "FN_GPU_TIMEOUT_CHK = 0x800834D4"

section \<open>\<open>game/render/wide_re_gpu_dma_queue.cpp\<close>\<close>

definition ring_entry :: "'c core_ops \<Rightarrow> u32 \<Rightarrow> ('c, u32) state" where
  "ring_entry K idx = State_Monad.return (RING_BASE + idx * 0x60 + RING_ENTRY_OFF)"

definition render_gpu_dma_queue_enqueue_l274 :: "'c core_ops \<Rightarrow> bool \<Rightarrow> (u32
    \<Rightarrow> ('c, 'a) state) \<Rightarrow> ('c, 'a) state" where
  "render_gpu_dma_queue_enqueue_l274 K fastPath epilogue = (if fastPath then do {
     loop (\<lambda>_. do {
       v29 \<leftarrow> r32 K GPU_DMA_READY_PTR;
       v30 \<leftarrow> r32 K v29;
       (if (v30 AND GPU_DMA_READY_BIT) = 0 then State_Monad.return (Inr ())
        else State_Monad.return (Inl ()))
     }) ();
     r16_31 \<leftarrow> reg K 16;
     setr K 4 r16_31;
     r18_32 \<leftarrow> reg K 18;
     setr K 5 r18_32;
     setr K 31 0x80082E10;
     r19_33 \<leftarrow> reg K 19;
     call_guest K r19_33;
     v34 \<leftarrow> r32 K ENQ_SAVED_MASK;
     setr K 4 v34;
     call_guest K FN_INT_MASK_SET;
     epilogue 0
   }
    else do {
      setr K 4 2;
      setr K 5 FN_DRAIN;
      setr K 31 0x80082E38;
      call_guest K FN_ISR_REGISTER;
      r17_35 \<leftarrow> reg K 17;
      (if r17_35 \<noteq> 0 then do {
        let sizeSigned = r17_35;
        let rounded = (if 0 \<le>s sizeSigned then sizeSigned else sizeSigned + 3);
        let wordCount = sar 2 rounded;
        src \<leftarrow> reg K 16;
        src \<leftarrow> fold_each (upto_u32 (nat (sint wordCount))) src (\<lambda>i src. do {
          word1 \<leftarrow> r32 K src;
          let src = src + 4;
          head \<leftarrow> r32 K RING_HEAD;
          v39 \<leftarrow> ring_entry K head;
          w32 K (v39 + 0x0C + i * 4) word1;
          State_Monad.return src
        });
        head \<leftarrow> r32 K RING_HEAD;
        v41 \<leftarrow> ring_entry K head;
        v42 \<leftarrow> ring_entry K head;
        w32 K (v41 + 4) (v42 + 0x0C)
      }
       else do {
         head \<leftarrow> r32 K RING_HEAD;
         v44 \<leftarrow> ring_entry K head;
         r16_45 \<leftarrow> reg K 16;
         w32 K (v44 + 4) r16_45
       });
      head \<leftarrow> r32 K RING_HEAD;
      v47 \<leftarrow> ring_entry K head;
      r18_48 \<leftarrow> reg K 18;
      w32 K (v47 + 8) r18_48;
      v49 \<leftarrow> ring_entry K head;
      r19_50 \<leftarrow> reg K 19;
      w32 K (v49 + 0) r19_50;
      v51 \<leftarrow> r32 K RING_HEAD;
      let head = (v51 + 1) AND 63;
      w32 K RING_HEAD head;
      v52 \<leftarrow> r32 K ENQ_SAVED_MASK;
      setr K 4 v52;
      call_guest K FN_INT_MASK_SET;
      setr K 31 0x80082F7C;
      call_guest K FN_DRAIN;
      head \<leftarrow> r32 K RING_HEAD;
      tail \<leftarrow> r32 K RING_TAIL;
      epilogue ((head - tail) AND 63)
    })"

definition render_gpu_dma_queue_enqueue :: "'c core_ops \<Rightarrow> ('c, unit) state" where
  "render_gpu_dma_queue_enqueue K = do {
     r29_1 \<leftarrow> reg K 29;
     setr K 29 (r29_1 - 40);
     r29_2 \<leftarrow> reg K 29;
     r19_3 \<leftarrow> reg K 19;
     w32 K (r29_2 + 28) r19_3;
     r4_4 \<leftarrow> reg K 4;
     setr K 19 r4_4;
     r16_5 \<leftarrow> reg K 16;
     w32 K (r29_2 + 16) r16_5;
     r5_6 \<leftarrow> reg K 5;
     setr K 16 r5_6;
     r17_7 \<leftarrow> reg K 17;
     w32 K (r29_2 + 20) r17_7;
     r6_8 \<leftarrow> reg K 6;
     setr K 17 r6_8;
     r18_9 \<leftarrow> reg K 18;
     w32 K (r29_2 + 24) r18_9;
     r31_10 \<leftarrow> reg K 31;
     w32 K (r29_2 + 32) r31_10;
     r7_11 \<leftarrow> reg K 7;
     setr K 18 r7_11;
     let epilogue = (\<lambda>retVal. do {
       setr K 2 retVal;
       r29_12 \<leftarrow> reg K 29;
       v13 \<leftarrow> r32 K (r29_12 + 32);
       setr K 31 v13;
       v14 \<leftarrow> r32 K (r29_12 + 28);
       setr K 19 v14;
       v15 \<leftarrow> r32 K (r29_12 + 24);
       setr K 18 v15;
       v16 \<leftarrow> r32 K (r29_12 + 20);
       setr K 17 v16;
       v17 \<leftarrow> r32 K (r29_12 + 16);
       setr K 16 v17;
       setr K 29 (r29_12 + 40)
     });
     setr K 31 0x80082D30;
     call_guest K FN_GPU_TIMEOUT_ARM;
     out21 \<leftarrow> loop (\<lambda>_. do {
       head \<leftarrow> r32 K RING_HEAD;
       tail \<leftarrow> r32 K RING_TAIL;
       let next1 = (head + 1) AND 63;
       (if next1 \<noteq> tail then State_Monad.return (Inl (Inr ()))
        else do {
          setr K 31 0x80082D40;
          call_guest K FN_GPU_TIMEOUT_CHK;
          r2_20 \<leftarrow> reg K 2;
          (if r2_20 \<noteq> 0 then do { epilogue (-1); State_Monad.return (Inl (Inl ())) }
           else do {
             setr K 31 0x80082D50;
             call_guest K FN_DRAIN;
             State_Monad.return (Inr ())
           })
        })
     }) ();
     (case out21 of Inl r1 \<Rightarrow> State_Monad.return r1 | Inr _ \<Rightarrow> do {
       setr K 4 0;
       call_guest K FN_INT_MASK_SET;
       r2_22 \<leftarrow> reg K 2;
       w32 K ENQ_SAVED_MASK r2_22;
       w32 K GPU_QSTAT_ACTIVE 1;
       started \<leftarrow> r8 K GPU_QSTAT_STARTED;
       fastPath \<leftarrow> (if started = 0 then State_Monad.return True
        else do {
          head \<leftarrow> r32 K RING_HEAD;
          tail \<leftarrow> r32 K RING_TAIL;
          (if head \<noteq> tail then State_Monad.return False
           else do {
             v26 \<leftarrow> r32 K GPU_DMA_STATE_PTR;
             stateWord \<leftarrow> r32 K v26;
             (if (stateWord AND GPU_DMA_BUSY_BIT) \<noteq> 0 then State_Monad.return False
              else do {
                v28 \<leftarrow> r32 K GPU_QSTAT_HANDLER;
                State_Monad.return (v28 = 0)
              })
           })
        });
       render_gpu_dma_queue_enqueue_l274 K fastPath epilogue
     })
   }"

definition render_gpu_dma_queue_drain :: "'c core_ops \<Rightarrow> ('c, unit) state" where
  "render_gpu_dma_queue_drain K = do {
     v1 \<leftarrow> r32 K GPU_DMA_STATE_PTR;
     stateWordEarly \<leftarrow> r32 K v1;
     r29_3 \<leftarrow> reg K 29;
     setr K 29 (r29_3 - 32);
     r29_4 \<leftarrow> reg K 29;
     r31_5 \<leftarrow> reg K 31;
     w32 K (r29_4 + 24) r31_5;
     r17_6 \<leftarrow> reg K 17;
     w32 K (r29_4 + 20) r17_6;
     r16_7 \<leftarrow> reg K 16;
     w32 K (r29_4 + 16) r16_7;
     let epilogue = (\<lambda>retVal. do {
       setr K 2 retVal;
       r29_8 \<leftarrow> reg K 29;
       v9 \<leftarrow> r32 K (r29_8 + 24);
       setr K 31 v9;
       v10 \<leftarrow> r32 K (r29_8 + 20);
       setr K 17 v10;
       v11 \<leftarrow> r32 K (r29_8 + 16);
       setr K 16 v11;
       setr K 29 (r29_8 + 32)
     });
     (if (stateWordEarly AND GPU_DMA_BUSY_BIT) \<noteq> 0 then epilogue 1
      else do {
        setr K 4 0;
        call_guest K FN_INT_MASK_SET;
        r2_12 \<leftarrow> reg K 2;
        w32 K DRAIN_SAVED_MASK r2_12;
        let doDrain = True;
        head \<leftarrow> r32 K RING_HEAD;
        tail \<leftarrow> r32 K RING_TAIL;
        doDrain \<leftarrow> (if head = tail then State_Monad.return False
         else do {
           v15 \<leftarrow> r32 K GPU_DMA_STATE_PTR;
           stateWord \<leftarrow> r32 K v15;
           State_Monad.return (if (stateWord AND GPU_DMA_BUSY_BIT) \<noteq> 0 then False else
               doDrain)
         });
        only_if doDrain (do {
          setr K 17 GPU_DMA_READY_BIT;
          setr K 16 GPU_DMA_BUSY_BIT;
          loop (\<lambda>_. do {
            tail \<leftarrow> r32 K RING_TAIL;
            head \<leftarrow> r32 K RING_HEAD;
            let nextTail = (tail + 1) AND 63;
            only_if (nextTail = head) (do {
              v19 \<leftarrow> r32 K GPU_QSTAT_HANDLER;
              only_if (v19 = 0) (do {
                setr K 4 2;
                setr K 5 0;
                setr K 31 0x80083068;
                call_guest K FN_ISR_REGISTER
              })
            });
            loop (\<lambda>_. do {
              v20 \<leftarrow> r32 K GPU_DMA_READY_PTR;
              v21 \<leftarrow> r32 K v20;
              (if (v21 AND GPU_DMA_READY_BIT) = 0 then State_Monad.return (Inr ())
               else State_Monad.return (Inl ()))
            }) ();
            curTail \<leftarrow> r32 K RING_TAIL;
            entry \<leftarrow> ring_entry K curTail;
            argVal \<leftarrow> r32 K (entry + 4);
            arg3 \<leftarrow> r32 K (entry + 8);
            fn \<leftarrow> r32 K (entry + 0);
            setr K 4 argVal;
            setr K 5 arg3;
            setr K 31 0x8008310C;
            call_guest K fn;
            v27 \<leftarrow> r32 K RING_TAIL;
            let newTail = (v27 + 1) AND 63;
            w32 K RING_TAIL newTail;
            headNow \<leftarrow> r32 K RING_HEAD;
            (if headNow = newTail then State_Monad.return (Inl ())
             else do {
               v29 \<leftarrow> r32 K GPU_DMA_STATE_PTR;
               stateWord \<leftarrow> r32 K v29;
               (if (stateWord AND GPU_DMA_BUSY_BIT) = 0 then State_Monad.return (Inr ())
                else State_Monad.return (Inl ()))
             })
          }) ()
        });
        v31 \<leftarrow> r32 K DRAIN_SAVED_MASK;
        setr K 4 v31;
        call_guest K FN_INT_MASK_SET;
        head \<leftarrow> r32 K RING_HEAD;
        tail \<leftarrow> r32 K RING_TAIL;
        only_if (head = tail) (do {
          v34 \<leftarrow> r32 K GPU_DMA_STATE_PTR;
          stateWord \<leftarrow> r32 K v34;
          only_if ((stateWord AND GPU_DMA_BUSY_BIT) = 0) (do {
            active1 \<leftarrow> r32 K GPU_QSTAT_ACTIVE;
            only_if (active1 \<noteq> 0) (do {
              handler \<leftarrow> r32 K GPU_QSTAT_HANDLER;
              only_if (handler \<noteq> 0) (do {
                w32 K GPU_QSTAT_ACTIVE 0;
                setr K 31 0x800831E4;
                call_guest K handler
              })
            })
          })
        });
        head \<leftarrow> r32 K RING_HEAD;
        tail \<leftarrow> r32 K RING_TAIL;
        epilogue ((head - tail) AND 63)
      })
   }"

definition render_gpu_dma_queue_sync :: "'c core_ops \<Rightarrow> ('c, unit) state" where
  "render_gpu_dma_queue_sync K = do {
     mode \<leftarrow> reg K 4;
     r29_2 \<leftarrow> reg K 29;
     setr K 29 (r29_2 - 24);
     r29_3 \<leftarrow> reg K 29;
     r31_4 \<leftarrow> reg K 31;
     w32 K (r29_3 + 20) r31_4;
     r16_5 \<leftarrow> reg K 16;
     w32 K (r29_3 + 16) r16_5;
     let epilogue = (\<lambda>retVal retR3. do {
       setr K 2 retVal;
       setr K 3 retR3;
       r29_6 \<leftarrow> reg K 29;
       v7 \<leftarrow> r32 K (r29_6 + 20);
       setr K 31 v7;
       v8 \<leftarrow> r32 K (r29_6 + 16);
       setr K 16 v8;
       setr K 29 (r29_6 + 24)
     });
     let R3_NORMAL = shl 1024 16;
     let rest1 = (do {
       head0 \<leftarrow> r32 K RING_HEAD;
       tail0 \<leftarrow> r32 K RING_TAIL;
       setr K 16 ((head0 - tail0) AND 63);
       r16_11 \<leftarrow> reg K 16;
       only_if (r16_11 \<noteq> 0) (do { setr K 31 0x80083444; call_guest K FN_DRAIN });
       v12 \<leftarrow> r32 K GPU_DMA_STATE_PTR;
       stateWord \<leftarrow> r32 K v12;
       (if (stateWord AND GPU_DMA_BUSY_BIT) = 0 then do {
         v14 \<leftarrow> r32 K GPU_DMA_READY_PTR;
         readyWord \<leftarrow> r32 K v14;
         (if (readyWord AND GPU_DMA_READY_BIT) \<noteq> 0 then do {
           r16_16 \<leftarrow> reg K 16;
           epilogue r16_16 R3_NORMAL
         }
          else do { r16_17 \<leftarrow> reg K 16; epilogue r16_17 R3_NORMAL })
       }
        else do { r16_18 \<leftarrow> reg K 16; epilogue r16_18 R3_NORMAL })
     });
     (if mode = 0 then do {
       call_guest K FN_GPU_TIMEOUT_ARM;
       loop (\<lambda>_. do {
         head \<leftarrow> r32 K RING_HEAD;
         tail \<leftarrow> r32 K RING_TAIL;
         (if head \<noteq> tail then do {
           setr K 31 0x8008338C;
           call_guest K FN_DRAIN;
           call_guest K FN_GPU_TIMEOUT_CHK;
           r2_42 \<leftarrow> reg K 2;
           (if r2_42 \<noteq> 0 then do {
             v43 \<leftarrow> r32 K 0x800A5AC8;
             epilogue (-1) v43;
             State_Monad.return (Inl ())
           }
            else State_Monad.return (Inr ()))
         }
          else do {
            out60 \<leftarrow> loop (\<lambda>_. do {
              v52 \<leftarrow> r32 K GPU_DMA_STATE_PTR;
              stateWord \<leftarrow> r32 K v52;
              (if (stateWord AND GPU_DMA_BUSY_BIT) \<noteq> 0 then do {
                call_guest K FN_GPU_TIMEOUT_CHK;
                r2_54 \<leftarrow> reg K 2;
                (if r2_54 \<noteq> 0 then do {
                  v55 \<leftarrow> r32 K 0x800A5AC8;
                  epilogue (-1) v55;
                  State_Monad.return (Inl ())
                }
                 else State_Monad.return (Inr ()))
              }
               else do {
                 v56 \<leftarrow> r32 K GPU_DMA_READY_PTR;
                 readyWord \<leftarrow> r32 K v56;
                 let readyBit = readyWord AND GPU_DMA_READY_BIT;
                 (if readyBit = 0 then do {
                   call_guest K FN_GPU_TIMEOUT_CHK;
                   r2_58 \<leftarrow> reg K 2;
                   (if r2_58 \<noteq> 0 then do {
                     v59 \<leftarrow> r32 K 0x800A5AC8;
                     epilogue (-1) v59;
                     State_Monad.return (Inl ())
                   }
                    else State_Monad.return (Inr ()))
                 }
                  else do { epilogue 0 R3_NORMAL; State_Monad.return (Inl ()) })
               })
            }) ();
            State_Monad.return (Inl out60)
          })
       }) ()
     }
      else rest1)
   }"

definition render_gpu_dma_send :: "'c core_ops \<Rightarrow> ('c, unit) state" where
  "render_gpu_dma_send K = do {
     arrayPtr \<leftarrow> reg K 4;
     r29_2 \<leftarrow> reg K 29;
     setr K 29 (r29_2 - 32);
     r29_3 \<leftarrow> reg K 29;
     r16_4 \<leftarrow> reg K 16;
     w32 K (r29_3 + 16) r16_4;
     count1 \<leftarrow> reg K 5;
     enableRegPtr \<leftarrow> r32 K GPU_DMA_ENABLE_PTR;
     r31_7 \<leftarrow> reg K 31;
     w32 K (r29_3 + 24) r31_7;
     r17_8 \<leftarrow> reg K 17;
     w32 K (r29_3 + 20) r17_8;
     let epilogue = (\<lambda>retVal. do {
       setr K 2 retVal;
       r29_9 \<leftarrow> reg K 29;
       v10 \<leftarrow> r32 K (r29_9 + 24);
       setr K 31 v10;
       v11 \<leftarrow> r32 K (r29_9 + 20);
       setr K 17 v11;
       v12 \<leftarrow> r32 K (r29_9 + 16);
       setr K 16 v12;
       setr K 29 (r29_9 + 32)
     });
     v13 \<leftarrow> r32 K enableRegPtr;
     w32 K enableRegPtr (v13 OR 0x08000000);
     chcrPtr \<leftarrow> r32 K GPU_DMA_CHCR_PTR;
     w32 K chcrPtr 0;
     lastAddrFieldPtr \<leftarrow> r32 K GPU_DMA_LASTADDR_PTR;
     w32 K lastAddrFieldPtr (arrayPtr + shl count1 2 - 4);
     countFieldPtr \<leftarrow> r32 K GPU_DMA_COUNT_PTR;
     w32 K countFieldPtr count1;
     w32 K chcrPtr 0x11000002;
     call_guest K FN_GPU_TIMEOUT_ARM;
     chcrWord \<leftarrow> r32 K chcrPtr;
     (if (chcrWord AND GPU_DMA_BUSY_BIT) = 0 then epilogue count1
      else loop (\<lambda>_. do {
        call_guest K FN_GPU_TIMEOUT_CHK;
        r2_20 \<leftarrow> reg K 2;
        (if r2_20 \<noteq> 0 then do { epilogue (-1); State_Monad.return (Inl ()) }
         else do {
           v21 \<leftarrow> r32 K chcrPtr;
           let busy = v21 AND GPU_DMA_BUSY_BIT;
           (if busy \<noteq> 0 then State_Monad.return (Inr ())
            else do { epilogue busy; State_Monad.return (Inl ()) })
         })
      }) ())
   }"

definition ov_gpu_dma_queue_enqueue :: "'c core_ops \<Rightarrow> ('c, unit) state" where
  "ov_gpu_dma_queue_enqueue K = render_gpu_dma_queue_enqueue K"

definition ov_gpu_dma_queue_drain :: "'c core_ops \<Rightarrow> ('c, unit) state" where
  "ov_gpu_dma_queue_drain K = render_gpu_dma_queue_drain K"

definition ov_gpu_dma_queue_sync :: "'c core_ops \<Rightarrow> ('c, unit) state" where
  "ov_gpu_dma_queue_sync K = render_gpu_dma_queue_sync K"

definition ov_gpu_dma_send :: "'c core_ops \<Rightarrow> ('c, unit) state" where
  "ov_gpu_dma_send K = render_gpu_dma_send K"

section \<open>\<open>game/render/wide_re_gpu_loadimage_streamer.cpp\<close>\<close>

definition render_gpu_load_image_stream :: "'c core_ops \<Rightarrow> ('c, unit) state" where
  "render_gpu_load_image_stream K = do {
     r29_1 \<leftarrow> reg K 29;
     setr K 29 (r29_1 - 48);
     r29_2 \<leftarrow> reg K 29;
     r17_3 \<leftarrow> reg K 17;
     w32 K (r29_2 + 20) r17_3;
     rectPtr \<leftarrow> reg K 4;
     r18_5 \<leftarrow> reg K 18;
     w32 K (r29_2 + 24) r18_5;
     srcPtr \<leftarrow> reg K 5;
     r31_7 \<leftarrow> reg K 31;
     w32 K (r29_2 + 40) r31_7;
     r21_8 \<leftarrow> reg K 21;
     w32 K (r29_2 + 36) r21_8;
     r20_9 \<leftarrow> reg K 20;
     w32 K (r29_2 + 32) r20_9;
     r19_10 \<leftarrow> reg K 19;
     w32 K (r29_2 + 28) r19_10;
     r16_11 \<leftarrow> reg K 16;
     w32 K (r29_2 + 16) r16_11;
     let epilogue = (\<lambda>retVal. do {
       setr K 2 retVal;
       r29_12 \<leftarrow> reg K 29;
       v13 \<leftarrow> r32 K (r29_12 + 40);
       setr K 31 v13;
       v14 \<leftarrow> r32 K (r29_12 + 36);
       setr K 21 v14;
       v15 \<leftarrow> r32 K (r29_12 + 32);
       setr K 20 v15;
       v16 \<leftarrow> r32 K (r29_12 + 28);
       setr K 19 v16;
       v17 \<leftarrow> r32 K (r29_12 + 24);
       setr K 18 v17;
       v18 \<leftarrow> r32 K (r29_12 + 20);
       setr K 17 v18;
       v19 \<leftarrow> r32 K (r29_12 + 16);
       setr K 16 v19;
       setr K 29 (r29_12 + 48)
     });
     call_guest K FN_GPU_TIMEOUT_ARM;
     wSigned \<leftarrow> r16s K (rectPtr + 4);
     wUnsigned \<leftarrow> r16 K (rectPtr + 4);
     wClamped \<leftarrow> (if wSigned <s 0 then State_Monad.return (0 :: u32)
      else do {
        maxWSigned \<leftarrow> r16s K GPU_CLIP_MAXW;
        maxWUnsigned \<leftarrow> r16 K GPU_CLIP_MAXW;
        State_Monad.return (if maxWSigned <s wSigned then maxWUnsigned else wUnsigned)
      });
     w16 K (rectPtr + 4) wClamped;
     hSigned \<leftarrow> r16s K (rectPtr + 6);
     hUnsigned \<leftarrow> r16 K (rectPtr + 6);
     hClamped \<leftarrow> (if hSigned <s 0 then State_Monad.return (0 :: u32)
      else do {
        maxHSigned \<leftarrow> r16s K GPU_CLIP_MAXH;
        maxHUnsigned \<leftarrow> r16 K GPU_CLIP_MAXH;
        State_Monad.return (if maxHSigned <s hSigned then maxHUnsigned else hUnsigned)
      });
     w16 K (rectPtr + 6) hClamped;
     wSignExt \<leftarrow> r16s K (rectPtr + 4);
     hSignExt \<leftarrow> r16s K (rectPtr + 6);
     let product1 = (scast wSignExt :: 64 word) * (scast hSignExt :: 64 word);
     let pixelCount = (ucast product1 :: u32);
     setr K 33 (ucast product1 :: u32);
     setr K 32 (ucast (drop_bit 32 product1) :: u32);
     let rounded = pixelCount + 1;
     let rounded = rounded + shr rounded 31;
     let numWords = sar 1 rounded;
     let chunkCountSigned = sar 5 rounded;
     (if \<not> (0 <s numWords) then epilogue (-1)
      else do {
        let chunkCount = chunkCountSigned;
        let remainder = numWords - (chunkCount * 16);
        v30 \<leftarrow> r32 K GPU_DMA_FLAGS_PTR;
        readyWord \<leftarrow> r32 K v30;
        let rest1 = (do {
          v32 \<leftarrow> r32 K GPU_DMA_FLAGS_PTR;
          w32 K v32 GPU_READY_BIT;
          v33 \<leftarrow> r32 K GPU_GP0_PORT_PTR;
          w32 K v33 GP0_CLEAR_CACHE;
          v34 \<leftarrow> r32 K GPU_GP0_PORT_PTR;
          w32 K v34 GP0_COPY_CPU_TO_VRAM;
          v35 \<leftarrow> r32 K GPU_GP0_PORT_PTR;
          v36 \<leftarrow> r32 K (rectPtr + 0);
          w32 K v35 v36;
          v37 \<leftarrow> r32 K GPU_GP0_PORT_PTR;
          v38 \<leftarrow> r32 K (rectPtr + 4);
          w32 K v37 v38;
          srcPtr \<leftarrow> (if remainder \<noteq> 0 then do {
            (srcPtr, remainder) \<leftarrow> loop (\<lambda>(srcPtr, remainder). do {
              word1 \<leftarrow> r32 K srcPtr;
              let srcPtr = srcPtr + 4;
              v40 \<leftarrow> r32 K GPU_GP0_PORT_PTR;
              w32 K v40 word1;
              let remainder = remainder - 1;
              (if remainder \<noteq> 0 then State_Monad.return (Inr (srcPtr, remainder))
               else State_Monad.return (Inl (srcPtr, remainder)))
            }) (srcPtr, remainder);
            State_Monad.return srcPtr
          }
           else State_Monad.return srcPtr);
          (if chunkCount = 0 then epilogue 0
           else do {
             v41 \<leftarrow> r32 K GPU_DMA_FLAGS_PTR;
             w32 K v41 (GPU_READY_BIT OR 2);
             v42 \<leftarrow> r32 K GPU_DMA_ARG0_PTR;
             w32 K v42 srcPtr;
             v43 \<leftarrow> r32 K GPU_DMA_ARG1_PTR;
             w32 K v43 ((shl chunkCount 16) OR 16);
             v44 \<leftarrow> r32 K GPU_DMA_STATE_PTR;
             w32 K v44 (GP0_CLEAR_CACHE OR 513);
             epilogue 0
           })
        });
        (if (readyWord AND GPU_READY_BIT) = 0 then do {
          out48 \<leftarrow> loop (\<lambda>_. do {
            call_guest K FN_GPU_TIMEOUT_CHK;
            r2_45 \<leftarrow> reg K 2;
            (if r2_45 \<noteq> 0 then do {
              epilogue (-1);
              State_Monad.return (Inl (Inl ()))
            }
             else do {
               v46 \<leftarrow> r32 K GPU_DMA_FLAGS_PTR;
               rw \<leftarrow> r32 K v46;
               (if (rw AND GPU_READY_BIT) \<noteq> 0 then State_Monad.return (Inl (Inr ()))
                else State_Monad.return (Inr ()))
             })
          }) ();
          (case out48 of Inl r1 \<Rightarrow> State_Monad.return r1 | Inr _ \<Rightarrow> rest1)
        }
         else rest1)
      })
   }"

definition ov_gpu_load_image_stream :: "'c core_ops \<Rightarrow> ('c, unit) state" where
  "ov_gpu_load_image_stream K = render_gpu_load_image_stream K"

end
