(* ===== verification/GroundActors.thy ===== *)
theory GroundActors
  imports ObjectViews
begin

text \<open>
  Actors that meet the player and the ground: bumps, contacts, rope swing, targeting and the
  companion of an assembly.
\<close>

section \<open>Layout\<close>

definition kRaAfterClassify :: u32 where "kRaAfterClassify = 0x8010EAC8"
definition kRaAfterSpecial :: u32 where "kRaAfterSpecial = 0x8010EB20"
definition kRaAfterGeneric :: u32 where "kRaAfterGeneric = 0x8010EB3C"
definition kRaAfterCos :: u32 where "kRaAfterCos = 0x8010EB50"
definition kRaAfterSin :: u32 where "kRaAfterSin = 0x8010EB74"
definition kRaAfterAngleCmp :: u32 where "kRaAfterAngleCmp = 0x8010EBF8"
definition kClassifyBodyContact :: u32 where "kClassifyBodyContact = 0x8001F40C"
definition kSpecialInteract :: u32 where "kSpecialInteract = 0x8001F830"
definition kGenericInteract :: u32 where "kGenericInteract = 0x8001FDB4"
definition kRcos :: u32 where "kRcos = 0x80083F50"
definition kRsin :: u32 where "kRsin = 0x80083E80"
definition kAngleCmp :: u32 where "kAngleCmp = 0x80077768"
definition kContactFlagSlot :: u32 where "kContactFlagSlot = 386"
definition kGlobalGate :: u32 where "kGlobalGate = 0x800BF841"
definition kTrigShift :: u32 where "kTrigShift = 12"
definition kOtherReceptive :: u32 where "kOtherReceptive = 1"
definition kContactClassLimit :: u32 where "kContactClassLimit = 2"
definition kRecoilState :: u32 where "kRecoilState = 3"
definition kRecoilPhase :: u32 where "kRecoilPhase = 2"
definition kRecoilTicks :: u32 where "kRecoilTicks = 120"
definition kSpecialBit :: u32 where "kSpecialBit = 32768"
definition kStateBusyMask :: u32 where "kStateBusyMask = 6"
definition kRaAfterHitTest :: u32 where "kRaAfterHitTest = 0x8010E284"
definition kRaAfterDistance :: u32 where "kRaAfterDistance = 0x8010E300"
definition kRaAfterAngle :: u32 where "kRaAfterAngle = 0x8010E354"
definition kRaAfterProximity :: u32 where "kRaAfterProximity = 0x8010E388"
definition kRaAfterHitApply :: u32 where "kRaAfterHitApply = 0x8010E3A0"
definition kSqrtLzc :: u32 where "kSqrtLzc = 0x80084080"
definition kRatan2 :: u32 where "kRatan2 = 0x80085690"
definition kProximityFollowUp :: u32 where "kProximityFollowUp = 0x80022D08"
definition kHitFollowUp :: u32 where "kHitFollowUp = 0x8001FF7C"
definition kReachSlackXZ :: u32 where "kReachSlackXZ = 100"
definition kHeightSlack :: u32 where "kHeightSlack = 50"
definition kReachSlackY :: u32 where "kReachSlackY = 100"
definition kAngleToByte :: u32 where "kAngleToByte = 4"
definition kOppositeTurn :: u32 where "kOppositeTurn = 2048"
definition kObjKindReacts :: u32 where "kObjKindReacts = 129"
definition kObjPhaseReady :: u32 where "kObjPhaseReady = 1"
definition kObjStateStruck :: u32 where "kObjStateStruck = 3"
definition kObjPhaseStruck :: u32 where "kObjPhaseStruck = 2"
definition kStrokePhaseFirstHalfReached :: u32 where "kStrokePhaseFirstHalfReached = 1"
definition kNodeXformBuildAxis :: u32 where "kNodeXformBuildAxis = 0x80051C8C"
definition kNodeXformSeedDiag :: u32 where "kNodeXformSeedDiag = 0x800517BC"
definition kRaAfterComposeRig :: u32 where "kRaAfterComposeRig = 0x801389EC"
definition kRaAfterSeedDiag :: u32 where "kRaAfterSeedDiag = 0x80138A24"
definition kRaAfterMulMatrix :: u32 where "kRaAfterMulMatrix = 0x80138A30"
definition kScrDiagScale :: u32 where "kScrDiagScale = 0x1F800000"
definition kCamPitchMode :: u32 where "kCamPitchMode = 0x800BF821"
definition kCamPitchNormal :: u32 where "kCamPitchNormal = 0"
definition kPartTable :: u32 where "kPartTable = 0xC0"
definition kRaAfterPreTick :: u32 where "kRaAfterPreTick = 0x801281CC"
definition kRestoreGain :: u32 where "kRestoreGain = 6"
definition kDecayPerTick :: u32 where "kDecayPerTick = 100"
definition kSwingSpeedLimit :: u32 where "kSwingSpeedLimit = 15360"
definition kBendNumer :: u32 where "kBendNumer = 5"
definition kBendShift :: u32 where "kBendShift = 4"
definition kBendBase :: u32 where "kBendBase = 25"
definition kSegmentShift :: u32 where "kSegmentShift = 4"
definition kBendTrimShift :: u32 where "kBendTrimShift = 5"
definition kVelToAngleShift :: u32 where "kVelToAngleShift = 8"
definition kStateBlock :: u32 where "kStateBlock = 0x60"
definition kZoneClassify :: u32 where "kZoneClassify = 0x80145C78"
definition kDist3D :: u32 where "kDist3D = 0x80078240"
definition kInstallTypeTable :: u32 where "kInstallTypeTable = 0x800519E0"
definition kGridResolve :: u32 where "kGridResolve = 0x8004766C"
definition kLeaf_80049674 :: u32 where "kLeaf_80049674 = 0x80049674"
definition kLeaf_800782B0 :: u32 where "kLeaf_800782B0 = 0x800782B0"
definition kGateScratch :: u32 where "kGateScratch = 0x800E7EAC"
definition kGlobal_800ED098 :: u32 where "kGlobal_800ED098 = 0x800ED098"
definition kTableBase :: u32 where "kTableBase = 0x800ECFB0"
definition kNodeFieldBase :: u32 where "kNodeFieldBase = 0x8014BE14"
definition kCopyScratch :: u32 where "kCopyScratch = 0x800ECFB4"
definition kS_1F8001A0 :: u32 where "kS_1F8001A0 = 0x1F8001A0"
definition kS_1F8001A2 :: u32 where "kS_1F8001A2 = 0x1F8001A2"
definition kS_1F800162 :: u32 where "kS_1F800162 = 0x1F800162"
definition kTable_8014BEE4 :: u32 where "kTable_8014BEE4 = 0x8014BEE4"
definition kTable_8014BED4 :: u32 where "kTable_8014BED4 = 0x8014BED4"
definition kTable_8014BEF4 :: u32 where "kTable_8014BEF4 = 0x8014BEF4"
definition kInteractActivated :: u32 where "kInteractActivated = 3"
definition kInteractInRange :: u32 where "kInteractInRange = 1"
definition actor_targeting_kRaAfterDistance :: u32 where "actor_targeting_kRaAfterDistance = 0x8001FB54"
definition actor_targeting_kRaAfterAngle :: u32 where "actor_targeting_kRaAfterAngle = 0x8001FBB0"
definition kContactKindSlot :: u32 where "kContactKindSlot = 311"
definition kAcquiredAngle :: u32 where "kAcquiredAngle = 396"
definition kAcquiredParam :: u32 where "kAcquiredParam = 398"
definition kAcquireGlobal :: u32 where "kAcquireGlobal = 0x800BF840"
definition kAcquireSignal :: u32 where "kAcquireSignal = 68"
definition kGuardSuppresses :: u32 where "kGuardSuppresses = 128"
definition actor_targeting_kAngleMask :: u32 where "actor_targeting_kAngleMask = 4095"
definition kArcOffset :: u32 where "kArcOffset = 1408"
definition kArcWidth :: u32 where "kArcWidth = 769"
definition kTypeA :: u32 where "kTypeA = 14"
definition kTypeB :: u32 where "kTypeB = 57"
definition kParamForTypeAB :: u32 where "kParamForTypeAB = 17408"
definition kParamOther :: u32 where "kParamOther = 18432"
definition CANDIDATE_LIST_PTR :: u32 where "CANDIDATE_LIST_PTR = 0x1F80014C"
definition CANDIDATE_COUNT :: u32 where "CANDIDATE_COUNT = 0x1F800152"
definition SCAN_CURSOR :: u32 where "SCAN_CURSOR = 0x1F800182"
definition PENDING_VERB :: u32 where "PENDING_VERB = 0x800BF840"
definition PLAYER_ACTION_STATE :: u32 where "PLAYER_ACTION_STATE = 0x14A"
definition ACTION_STATE_COUNT :: u32 where "ACTION_STATE_COUNT = 2"
definition ACTION_STATE_LO :: u32 where "ACTION_STATE_LO = 6"
definition CLASS_INTERACTABLE :: u32 where "CLASS_INTERACTABLE = 4"

section \<open>\<open>game/ai/actor_bump.cpp\<close>\<close>

definition actor_bump_respond_to_contact :: "'c core_ops \<Rightarrow> ('c, unit) state" where
  "actor_bump_respond_to_contact K = with_frame K 32 [(17, 20), (31, 28), (18, 24), (16, 16)] (do
      {
     r4_1 \<leftarrow> reg K 4;
     setr K 17 r4_1;
     r17_2 \<leftarrow> reg K 17;
     r5_3 \<leftarrow> reg K 5;
     setr K 18 r5_3;
     r18_4 \<leftarrow> reg K 18;
     v5 \<leftarrow> bump_actor_paused K r17_2;
     (if v5 then State_Monad.return ()
      else do {
        v6 \<leftarrow> r8 K kGlobalGate;
        (if v6 \<noteq> 0 then State_Monad.return ()
         else do {
           setr K 6 1;
           _ \<leftarrow> dispatch_jal K kClassifyBodyContact kRaAfterClassify [];
           contactClass \<leftarrow> reg K 2;
           (if contactClass <s 0 then State_Monad.return ()
            else do {
              w8 K (kScratchpadBase + kContactFlagSlot) 0;
              v8 \<leftarrow> bump_other_state K r18_4;
              (if v8 = kOtherReceptive then do {
                v9 \<leftarrow> bump_actor_walk_state K r17_2;
                let ready = v9 = kOtherReceptive \<and> contactClass <s kContactClassLimit;
                (if ready then do {
                  v10 \<leftarrow> bump_actor_state_flags K r17_2;
                  (if (v10 AND kSpecialBit) \<noteq> 0 then do {
                    r17_11 \<leftarrow> reg K 17;
                    setr K 4 r17_11;
                    r18_12 \<leftarrow> reg K 18;
                    setr K 5 r18_12;
                    _ \<leftarrow> dispatch_jal K kSpecialInteract kRaAfterSpecial [];
                    State_Monad.return ()
                  }
                   else do {
                     r18_13 \<leftarrow> reg K 18;
                     setr K 4 r18_13;
                     setr K 5 (-32766);
                     setr K 6 3;
                     setr K 7 32;
                     _ \<leftarrow> dispatch_jal K kGenericInteract kRaAfterGeneric [];
                     State_Monad.return ()
                   })
                }
                 else do {
                   setr K 16 kScratchpadBase;
                   r16_14 \<leftarrow> reg K 16;
                   v15 \<leftarrow> r32 K (r16_14 + kContactAngleSlot);
                   setr K 4 v15;
                   _ \<leftarrow> dispatch_jal K kRcos kRaAfterCos [];
                   r2_16 \<leftarrow> reg K 2;
                   v17 \<leftarrow> bump_actor_reach K r17_2;
                   v18 \<leftarrow> bump_other_reach K r18_4;
                   v19 \<leftarrow> guest_multiply K r2_16 (v17 + v18);
                   r16_20 \<leftarrow> reg K 16;
                   v21 \<leftarrow> r32 K (r16_20 + kContactAngleSlot);
                   setr K 4 v21;
                   r33_22 \<leftarrow> reg K 33;
                   let offsetX = sar (unat kTrigShift) r33_22;
                   setr K 16 offsetX;
                   _ \<leftarrow> dispatch_jal K kRsin kRaAfterSin [];
                   r2_23 \<leftarrow> reg K 2;
                   v24 \<leftarrow> bump_actor_reach K r17_2;
                   v25 \<leftarrow> bump_other_reach K r18_4;
                   v26 \<leftarrow> guest_multiply K r2_23 (v24 + v25);
                   v27 \<leftarrow> bump_other_pos_x K r18_4;
                   r16_28 \<leftarrow> reg K 16;
                   bump_actor_set_pos_x K r17_2 (as_u16 (v27 + r16_28));
                   r33_29 \<leftarrow> reg K 33;
                   let offsetZ = sar (unat kTrigShift) r33_29;
                   v30 \<leftarrow> bump_other_pos_z K r18_4;
                   bump_actor_set_pos_z K r17_2 (as_u16 (v30 - offsetZ))
                 })
              }
               else do {
                 v31 \<leftarrow> r8 K (kScratchpadBase + kContactKindSlot);
                 (if v31 \<noteq> 0 then State_Monad.return ()
                  else do {
                    v32 \<leftarrow> bump_actor_state K r17_2;
                    (if (v32 AND kStateBusyMask) \<noteq> 0 then State_Monad.return ()
                     else do {
                       v33 \<leftarrow> bump_actor_walk_state K r17_2;
                       (if \<not> (v33 < 2) then State_Monad.return ()
                        else do {
                          setr K 16 kScratchpadBase;
                          v34 \<leftarrow> bump_actor_facing K r17_2;
                          setr K 4 v34;
                          r16_35 \<leftarrow> reg K 16;
                          v36 \<leftarrow> r16s K (r16_35 + kContactAngleSlot);
                          setr K 5 v36;
                          setr K 6 0;
                          _ \<leftarrow> dispatch_jal K kAngleCmp kRaAfterAngleCmp [];
                          r16_37 \<leftarrow> reg K 16;
                          angle \<leftarrow> r32 K (r16_37 + kContactAngleSlot);
                          r2_39 \<leftarrow> reg K 2;
                          let stamped = (if r2_39 \<noteq> 0 then sar (unat kAngleToByte) angle
                              else sar (unat kAngleToByte) (angle + kOppositeTurn));
                          bump_actor_set_contact K r17_2 (as_u8 stamped);
                          bump_actor_set_phase K r17_2 kRecoilPhase;
                          bump_actor_set_sub_phase K r17_2 kRecoilPhase;
                          bump_actor_set_state K r17_2 kRecoilState;
                          bump_actor_set_timer K r17_2 0;
                          bump_actor_set_recoil_timer K r17_2 kRecoilTicks
                        })
                     })
                  })
               })
            })
         })
      })
   })"

section \<open>\<open>game/ai/actor_object_contact.cpp\<close>\<close>

definition actor_object_contact_resolve_hit_or_proximity :: "'c core_ops \<Rightarrow> ('c, unit)
    state" where
  "actor_object_contact_resolve_hit_or_proximity K = with_frame K 40 [(19, 28), (20, 32), (31,
      36), (18, 24), (17, 20), (16, 16)] (do {
     r4_1 \<leftarrow> reg K 4;
     setr K 19 r4_1;
     r5_2 \<leftarrow> reg K 5;
     setr K 20 r5_2;
     r19_3 \<leftarrow> reg K 19;
     r20_4 \<leftarrow> reg K 20;
     setr K 6 1;
     _ \<leftarrow> dispatch_jal K 0x8010DFD8 kRaAfterHitTest [];
     hit \<leftarrow> reg K 2;
     (if hit <s 0 then do {
       v6 \<leftarrow> contact_actor_paused K r19_3;
       (if v6 then State_Monad.return ()
        else do {
          v7 \<leftarrow> contact_object_in_proximity_set K r20_4;
          (if \<not> v7 then State_Monad.return ()
           else do {
             v8 \<leftarrow> contact_object_body_record K r20_4;
             setr K 17 v8;
             r17_9 \<leftarrow> reg K 17;
             v10 \<leftarrow> contact_actor_pos_x K r19_3;
             v11 \<leftarrow> contact_body_pos_x K r17_9;
             setr K 18 (as_s16 (as_u16 (v10 - v11)));
             r18_12 \<leftarrow> reg K 18;
             v13 \<leftarrow> guest_multiply K r18_12 r18_12;
             dxSq \<leftarrow> reg K 33;
             v15 \<leftarrow> contact_actor_pos_z K r19_3;
             v16 \<leftarrow> contact_body_pos_z K r17_9;
             setr K 16 (as_s16 (as_u16 (v15 - v16)));
             r16_17 \<leftarrow> reg K 16;
             v18 \<leftarrow> guest_multiply K r16_17 r16_17;
             r33_19 \<leftarrow> reg K 33;
             setr K 4 (dxSq + r33_19);
             _ \<leftarrow> dispatch_jal K kSqrtLzc kRaAfterDistance [];
             r2_20 \<leftarrow> reg K 2;
             let distance = r2_20 AND 0xFFFF;
             let touching = (0 :: u32);
             v21 \<leftarrow> contact_actor_reach_xz K r19_3;
             touching \<leftarrow> (if \<not> (v21 + kReachSlackXZ <s distance) then do {
               v22 \<leftarrow> contact_actor_pos_y K r19_3;
               v23 \<leftarrow> contact_body_pos_y K r17_9;
               v24 \<leftarrow> contact_actor_height_offset K r19_3;
               let verticalGap = (v22 - v23 + v24 + kHeightSlack) AND 0xFFFF;
               v25 \<leftarrow> contact_actor_reach_y K r19_3;
               (if \<not> (v25 + kReachSlackY <s verticalGap) then do {
                 r16_26 \<leftarrow> reg K 16;
                 setr K 4 (0 - r16_26);
                 r18_27 \<leftarrow> reg K 18;
                 setr K 5 r18_27;
                 _ \<leftarrow> dispatch_jal K kRatan2 kRaAfterAngle [];
                 r2_28 \<leftarrow> reg K 2;
                 w32 K (kScratchpadBase + kContactAngleSlot) r2_28;
                 State_Monad.return (1 :: u32)
               }
                else State_Monad.return touching)
             }
              else State_Monad.return touching);
             (if touching = 0 then State_Monad.return ()
              else do {
                r19_29 \<leftarrow> reg K 19;
                setr K 4 r19_29;
                r20_30 \<leftarrow> reg K 20;
                setr K 5 r20_30;
                setr K 6 1;
                setr K 7 0;
                angle \<leftarrow> r32 K (kScratchpadBase + kContactAngleSlot);
                contact_actor_set_contact_state K r19_3 (as_u8 (sar (unat kAngleToByte) angle));
                _ \<leftarrow> dispatch_jal K kProximityFollowUp kRaAfterProximity [];
                State_Monad.return ()
              })
           })
        })
     }
      else do {
        r19_32 \<leftarrow> reg K 19;
        setr K 4 r19_32;
        r20_33 \<leftarrow> reg K 20;
        setr K 5 r20_33;
        setr K 6 hit;
        setr K 7 1;
        _ \<leftarrow> dispatch_jal K kHitFollowUp kRaAfterHitApply [];
        v34 \<leftarrow> contact_object_phase K r20_4;
        (if v34 \<noteq> kObjPhaseReady then State_Monad.return ()
         else do {
           v35 \<leftarrow> contact_object_kind K r20_4;
           (if v35 \<noteq> kObjKindReacts then State_Monad.return ()
            else do {
              contact_object_set_state K r20_4 kObjStateStruck;
              angle \<leftarrow> r32 K (kScratchpadBase + kContactAngleSlot);
              contact_object_set_phase K r20_4 kObjPhaseStruck;
              contact_object_set_sub_phase K r20_4 0;
              contact_object_set_timer K r20_4 0;
              contact_object_set_contact_state K r20_4 (as_u8 (sar (unat kAngleToByte) (angle +
                  kOppositeTurn)))
            })
         })
      })
   })"

section \<open>\<open>game/ai/actor_zoned_attacker.cpp\<close>\<close>

definition actor_zoned_attacker_gate_check :: "'c core_ops \<Rightarrow> ('c, unit) state" where
  "actor_zoned_attacker_gate_check K = with_frame K 24 [(16, 16), (31, 20)] (do {
     node \<leftarrow> reg K (unat R_A0);
     v2 \<leftarrow> r8 K (node + 0x66);
     let n66 = as_s8 v2;
     (if n66 = as_s8 0x81 then do {
       v3 \<leftarrow> r8 K kGateTimer;
       let v = v3 - 0xC;
       let result1 = 0x10 <s v;
       setr K (unat R_V0) (if result1 then 1 else 0)
     }
      else if n66 = as_s8 0x80 then do {
        v4 \<leftarrow> r8 K kGateTimer;
        setr K (unat R_A0) v4;
        setr K (unat R_A1) kGateScratch;
        call_guest K kZoneClassify;
        v5 \<leftarrow> reg K (unat R_V0);
        let result1 = v5 \<noteq> 0;
        setr K (unat R_V0) (if result1 then 1 else 0)
      }
       else do {
         typePtr \<leftarrow> r32 K (node + 0x14);
         iVar2 \<leftarrow> r32 K (typePtr + 0x48);
         let rest1 = (\<lambda>iVar2. do {
           v8 \<leftarrow> r8 K (node + 0x2A);
           setr K (unat R_A0) v8;
           setr K (unat R_A1) (node + 0x2C);
           call_guest K kZoneClassify;
           iVar3 \<leftarrow> reg K (unat R_V0);
           let result1 = iVar2 \<noteq> iVar3;
           setr K (unat R_V0) (if result1 then 1 else 0)
         });
         (if iVar2 = -1 then do {
           let iVar2 = (0 :: u32);
           v10 \<leftarrow> r8 K kGateTimer;
           (if 2 < v10 then do {
             let iVar2 = (1 :: u32);
             v11 \<leftarrow> r8 K kGateTimer;
             (if 0xB < v11 then setr K (unat R_V0) 1 else rest1 iVar2)
           }
            else rest1 iVar2)
         }
          else rest1 iVar2)
       })
   })"

definition actor_zoned_attacker_type_init :: "'c core_ops \<Rightarrow> ('c, unit) state" where
  "actor_zoned_attacker_type_init K = with_frame K 32 [(16, 16), (17, 20), (18, 24), (31, 28)] (do
      {
     node \<leftarrow> reg K (unat R_A0);
     v2 \<leftarrow> r16s K kGlobal_800ED098;
     (if v2 <s 0x12 then do { w8 K (node + 9) 0; w8 K (node + 4) 3 }
      else do {
        w8 K (node + 0xD) 0;
        w8 K (node + 9) 0x12;
        setr K (unat R_A0) node;
        setr K (unat R_A1) 0x12;
        v3 \<leftarrow> r32 K kTableBase;
        setr K (unat R_A2) v3;
        setr K (unat R_A3) kNodeFieldBase;
        call_guest K kInstallTypeTable;
        v4 \<leftarrow> r32 K kCopyScratch;
        w32 K (node + 0x3C) v4;
        _ \<leftarrow> guest_call K kGridResolve [node];
        v5 \<leftarrow> reg K (unat R_V0);
        (if v5 = 0 then w8 K (node + 4) 3
         else do {
           _ \<leftarrow> guest_call K kLeaf_80049674 [node];
           v1a2 \<leftarrow> r16 K kS_1F8001A2;
           v1a0 \<leftarrow> r16 K kS_1F8001A0;
           actor_set_rot_x K node 0;
           actor_set_rot_z K node v1a2;
           actor_set_rot_y K node v1a0;
           w16 K (node + 0x60) v1a0;
           w8 K (node + 100) 0;
           ix \<leftarrow> r16s K kS_1F800160;
           iy \<leftarrow> r16s K kS_1F800164;
           actor_set_state_echo K node 0;
           s60 \<leftarrow> actor_trigger_param K node;
           setr K (unat R_A0) (node + 0x2C);
           setr K (unat R_A1) ix;
           setr K (unat R_A2) iy;
           call_guest K kLeaf_800782B0;
           v11 \<leftarrow> reg K (unat R_V0);
           let s4 = as_s16 v11;
           v62 \<leftarrow> actor_state_echo_u K node;
           let val = (s60 - s4 + 0x400) AND 0xFFF;
           let v62 = (if val < 0x801 then as_u16 (v62 AND 0xFFFE) else as_u16 (v62 OR 1));
           actor_set_state_echo K node v62;
           w8 K (node + 0x5F) 0;
           v13 \<leftarrow> r8 K (node + 0x1B);
           w8 K (node + 0x1B) (v13 AND 0xBF);
           actor_set_interact_state K node 0;
           w16 K (node + 4) 1;
           v14 \<leftarrow> r8 K (node + 3);
           w8 K (node + 0x66) v14;
           w8 K (node + 0) 1;
           _ \<leftarrow> guest_call K kSetAnimStateCue [node, 1, 0];
           w16 K (node + 0xBC) 0x1000;
           w16 K (node + 0xBA) 0x1000;
           w16 K (node + 0xB8) 0x1000;
           w16 K (node + 0x80) 0x38;
           w16 K (node + 0x82) 0x70;
           w16 K (node + 0x84) 0x8C;
           w16 K (node + 0x4E) 0;
           actor_set_accel_y K node 0;
           w16 K (node + 0x86) 0xF0;
           w16 K (node + 0x7C) 0;
           w16 K (node + 0x7E) 0
         })
      })
   })"

definition actor_zoned_attacker_pick_attack_by_range :: "'c core_ops \<Rightarrow> ('c, unit)
    state" where
  "actor_zoned_attacker_pick_attack_by_range K = with_frame K 40 [(18, 24), (16, 16), (31, 32),
      (19, 28), (17, 20)] (do {
     node \<leftarrow> reg K (unat R_A0);
     call_guest K kRngRead;
     rngv \<leftarrow> reg K (unat R_V0);
     v3 \<leftarrow> r16 K kS_800E7FFE;
     (if (v3 AND 0x8200) \<noteq> 0 then setr K (unat R_V0) 0
      else do {
        nx1 \<leftarrow> actor_pos_x K node;
        ny \<leftarrow> actor_pos_z K node;
        tx \<leftarrow> r16s K kS_1F800160;
        ty \<leftarrow> r16s K kS_1F800164;
        setr K (unat R_A0) (as_s16 (nx1 - tx));
        setr K (unat R_A1) (as_s16 (ny - ty));
        call_guest K kDist2D;
        v8 \<leftarrow> reg K (unat R_V0);
        let dist1 = as_s16 v8;
        v9 \<leftarrow> r16 K kS_800E7FFE;
        let zone = (if (v9 AND 0x8200) = 0 \<and> dist1 <s 0x641 then (if dist1 <s 0x44D then (let
            zone = (2 :: u32) in (if 600 <s dist1 then (1 :: u32) else zone)) else (0 :: u32))
            else (-1 :: u32));
        (if zone = 1 then do {
          let table = kTable_8014BEE4;
          v10 \<leftarrow> r8 K (table + (rngv AND 0xF));
          setr K (unat R_V0) v10
        }
         else if zone <s 2 then (if zone \<noteq> 0 then setr K (unat R_V0) 0
          else do {
            let table = kTable_8014BED4;
            v11 \<leftarrow> r8 K (table + (rngv AND 0xF));
            setr K (unat R_V0) v11
          })
          else if zone \<noteq> 2 then setr K (unat R_V0) 0
           else do {
             let table = kTable_8014BEF4;
             v12 \<leftarrow> r8 K (table + (rngv AND 0xF));
             setr K (unat R_V0) v12
           })
      })
   })"

definition actor_zoned_attacker_approach_and_face :: "'c core_ops \<Rightarrow> ('c, unit) state"
    where
  "actor_zoned_attacker_approach_and_face K = with_frame K 32 [(16, 16), (17, 20), (18, 24), (31,
      28)] (loop (\<lambda>(pc1, node, st, uVar4). (if pc1 = ''start'' then do {
     node \<leftarrow> reg K (unat R_A0);
     let uVar4 = (0 :: u32);
     st \<leftarrow> r8 K (node + 7);
     State_Monad.return (Inr (''label_dispatch'', node, st, uVar4))
   }
    else if pc1 = ''label_ac8'' then do {
      v3 \<leftarrow> r8 K (node + 7);
      w8 K (node + 7) (v3 + 1);
      State_Monad.return (Inr (''label_caseD_7'', node, st, uVar4))
    }
     else if pc1 = ''label_caseD_2'' then do {
       nx1 \<leftarrow> actor_pos_x K node;
       ny \<leftarrow> actor_pos_y K node;
       nz \<leftarrow> actor_pos_z K node;
       tx \<leftarrow> r16s K kS_1F800160;
       ty \<leftarrow> r16s K kS_1F800162;
       tz \<leftarrow> r16s K kS_1F800164;
       setr K (unat R_A0) (as_s16 (tx - nx1));
       setr K (unat R_A1) (as_s16 (ty - ny));
       setr K (unat R_A2) (as_s16 (tz - nz));
       call_guest K kDist3D;
       v10 \<leftarrow> reg K (unat R_V0);
       (if v10 < 0x3C0 then State_Monad.return (Inr (''label_ac8'', node, st, uVar4))
        else State_Monad.return (Inr (''label_caseD_7'', node, st, uVar4)))
     }
      else if pc1 = ''label_caseD_7'' then do {
        v11 \<leftarrow> actor_pos_y K node;
        actor_set_pos_y K node (as_u16 (v11 + 0x10));
        _ \<leftarrow> guest_call K kMotionAnimStep [node];
        setr K (unat R_V0) uVar4;
        State_Monad.return (Inl ())
      }
       else if st = 0 \<or> st = 1 then do {
         v12 \<leftarrow> r8 K (node + 3);
         let uVar3 = (if v12 = 2 then (7 :: u32) else (if v12 = 3 \<or> v12 = 4 then (0x1B :: u32)
             else (if v12 = 5 then (6 :: u32) else (0x12 :: u32))));
         _ \<leftarrow> guest_call K kSetAnimStateCue [node, uVar3, 0];
         v13 \<leftarrow> actor_state_echo_u K node;
         actor_set_state_echo K node (as_u16 (v13 AND 0xFFFB));
         _ \<leftarrow> guest_call K kMotionAnimStep [node];
         w8 K (node + 7) 2;
         State_Monad.return (Inr (''label_caseD_2'', node, st, uVar4))
       }
        else if st = 2 then State_Monad.return (Inr (''label_caseD_2'', node, st, uVar4))
         else if st = 3 then do {
           v14 \<leftarrow> r8 K (node + 3);
           let (uVar4, uVar3) = (if v14 = 2 then (let uVar3 = (7 :: u32) in ((1 :: u32), uVar3))
               else (uVar4, (if v14 = 3 \<or> v14 = 4 then (0x1D :: u32) else (if v14 = 5 then
               (0x34 :: u32) else (0x13 :: u32)))));
           _ \<leftarrow> guest_call K kSetAnimStateCue [node, uVar3, 8];
           w16 K (node + 0x40) 0x28;
           v15 \<leftarrow> r8 K (node + 7);
           w8 K (node + 7) (v15 + 1);
           v16 \<leftarrow> r16 K (node + 0x40);
           let v = as_u16 (v16 - 1);
           w16 K (node + 0x40) v;
           (if 0 <s as_s16 v then State_Monad.return (Inr (''label_caseD_7'', node, st, uVar4))
            else State_Monad.return (Inr (''label_ac8'', node, st, uVar4)))
         }
          else if st = 4 then do {
            v17 \<leftarrow> r16 K (node + 0x40);
            let v = as_u16 (v17 - 1);
            w16 K (node + 0x40) v;
            (if 0 <s as_s16 v then State_Monad.return (Inr (''label_caseD_7'', node, st, uVar4))
             else State_Monad.return (Inr (''label_ac8'', node, st, uVar4)))
          }
           else if st = 5 then do {
             _ \<leftarrow> guest_call K kSetAnimStateCue [node, 7, 8];
             w16 K (node + 0x40) 0x1E;
             v18 \<leftarrow> r8 K (node + 7);
             w8 K (node + 7) (v18 + 1);
             v19 \<leftarrow> r16 K (node + 0x40);
             let v = as_u16 (v19 - 1);
             w16 K (node + 0x40) v;
             let uVar4 = (if as_s16 v <s 1 then (1 :: u32) else uVar4);
             State_Monad.return (Inr (''label_caseD_7'', node, st, uVar4))
           }
            else if st = 6 then do {
              v20 \<leftarrow> r16 K (node + 0x40);
              let v = as_u16 (v20 - 1);
              w16 K (node + 0x40) v;
              let uVar4 = (if as_s16 v <s 1 then (1 :: u32) else uVar4);
              State_Monad.return (Inr (''label_caseD_7'', node, st, uVar4))
            }
             else State_Monad.return (Inr (''label_caseD_7'', node, st, uVar4)))) (''start'', (0
                 :: u32), (0 :: u32), (0 :: u32)))"

section \<open>\<open>game/ai/assembly_companion.cpp\<close>\<close>

definition assembly_companion_end_cam_hold_and_rearm_on_stroke :: "'c core_ops \<Rightarrow> u32
    \<Rightarrow> ('c, unit) state" where
  "assembly_companion_end_cam_hold_and_rearm_on_stroke K mAt = do {
     r4_1 \<leftarrow> reg K 4;
     held \<leftarrow> assembly_companion_seq_marker K r4_1;
     b4 \<leftarrow> (if held \<noteq> 0 then do {
       v3 \<leftarrow> assembly_companion_role K r4_1;
       State_Monad.return (v3 \<noteq> 0)
     }
      else State_Monad.return False);
     held \<leftarrow> (if b4 then do {
       v5 \<leftarrow> assembly_companion_cam_hold_timer K r4_1;
       let remaining = as_u16 (v5 - 1);
       assembly_companion_set_cam_hold_timer K r4_1 remaining;
       only_if (as_s16 remaining <s 0) (do {
         w8 K kCamPitchMode kCamPitchNormal;
         assembly_companion_set_seq_marker K r4_1 0
       });
       assembly_companion_seq_marker K r4_1
     }
      else State_Monad.return held);
     v7 \<leftarrow> assembly_companion_parent K r4_1;
     (if held \<noteq> 0 then State_Monad.return ()
      else do {
        phase \<leftarrow> assembly_node_stroke_phase K v7;
        (if phase \<noteq> kStrokePhaseFirstHalfReached then State_Monad.return ()
         else do {
           v9 \<leftarrow> assembly_companion_role K r4_1;
           b11 \<leftarrow> (if v9 \<noteq> 0 then do {
             v10 \<leftarrow> assembly_node_stroke_flags K v7;
             State_Monad.return (v10 = 0)
           }
            else State_Monad.return False);
           only_if b11 (w8 K kCamPitchMode phase);
           v12 \<leftarrow> assembly_companion_sub_state K r4_1;
           let nextSubState = as_u8 (v12 + 1);
           assembly_companion_set_step K r4_1 0;
           assembly_companion_set_sub_state K r4_1 nextSubState
         })
      })
   }"

definition assembly_companion_compose_rig_and_apply_part_scales :: "'c core_ops \<Rightarrow> u32
    \<Rightarrow> ('c, unit) state" where
  "assembly_companion_compose_rig_and_apply_part_scales K mAt = with_frame K 56 [(19, 44), (31,
      52), (20, 48), (18, 40), (17, 36), (16, 32)] (do {
     r4_1 \<leftarrow> reg K 4;
     setr K 19 r4_1;
     _ \<leftarrow> dispatch_jal K kNodeXformBuildAxis kRaAfterComposeRig [];
     r19_2 \<leftarrow> reg K 19;
     setr K 17 0;
     v3 \<leftarrow> assembly_companion_part_count K r19_2;
     (if v3 = 0 then State_Monad.return ()
      else do {
        setr K 20 kScrDiagScale;
        r19_4 \<leftarrow> reg K 19;
        setr K 18 r19_4;
        loop (\<lambda>_. do {
          r18_5 \<leftarrow> reg K 18;
          v6 \<leftarrow> r32 K (r18_5 + kPartTable);
          setr K 16 v6;
          r16_7 \<leftarrow> reg K 16;
          r20_8 \<leftarrow> reg K 20;
          setr K 4 r20_8;
          v9 \<leftarrow> assembly_child_scale_x K r16_7;
          setr K 5 v9;
          v10 \<leftarrow> assembly_child_scale_y K r16_7;
          setr K 6 v10;
          v11 \<leftarrow> assembly_child_scale_z K r16_7;
          setr K 7 v11;
          r18_12 \<leftarrow> reg K 18;
          setr K 18 (r18_12 + 4);
          _ \<leftarrow> dispatch_jal K kNodeXformSeedDiag kRaAfterSeedDiag [];
          v13 \<leftarrow> assembly_child_frame_matrix_ptr K r16_7;
          setr K 4 v13;
          r20_14 \<leftarrow> reg K 20;
          setr K 5 r20_14;
          _ \<leftarrow> dispatch_jal K kMulMatrix0 kRaAfterMulMatrix [];
          r17_15 \<leftarrow> reg K 17;
          setr K 17 (r17_15 + 1);
          r17_16 \<leftarrow> reg K 17;
          v17 \<leftarrow> assembly_companion_part_count K r19_2;
          (if r17_16 <s v17 then State_Monad.return (Inr ())
           else State_Monad.return (Inl ()))
        }) ()
      })
   })"

section \<open>\<open>game/ai/rope_swing.cpp\<close>\<close>

definition rope_swing_swing_tick_and_bend_segments :: "'c core_ops \<Rightarrow> ('c, unit) state"
    where
  "rope_swing_swing_tick_and_bend_segments K = with_frame K 24 [(16, 16), (31, 20)] (do {
     r4_1 \<leftarrow> reg K 4;
     setr K 16 r4_1;
     _ \<leftarrow> dispatch_jal K 0x801284AC kRaAfterPreTick [];
     r16_2 \<leftarrow> reg K 16;
     v3 \<leftarrow> rope_swing_state_swing_vel_raw K (r16_2 + kStateBlock);
     v4 \<leftarrow> rope_swing_state_impulse K (r16_2 + kStateBlock);
     let pushed = v3 + v4;
     angle0 \<leftarrow> rope_swing_state_angle K (r16_2 + kStateBlock);
     target \<leftarrow> rope_swing_state_target_angle K (r16_2 + kStateBlock);
     rope_swing_state_set_swing_vel K (r16_2 + kStateBlock) (as_u16 pushed);
     only_if (target <s angle0) (do {
       let overshoot = angle0 - target;
       rope_swing_state_set_swing_vel K (r16_2 + kStateBlock) (as_u16 (pushed - (overshoot *
           kRestoreGain)))
     });
     v7 \<leftarrow> rope_swing_state_swing_vel K (r16_2 + kStateBlock);
     (if 0 \<le>s v7 then do {
       v8 \<leftarrow> rope_swing_state_swing_vel_raw K (r16_2 + kStateBlock);
       let dec = v8 - kDecayPerTick;
       rope_swing_state_set_swing_vel K (r16_2 + kStateBlock) (as_u16 dec);
       only_if (shl dec 16 <s 0) (rope_swing_state_set_swing_vel K (r16_2 + kStateBlock) 0)
     }
      else do {
        v9 \<leftarrow> rope_swing_state_swing_vel_raw K (r16_2 + kStateBlock);
        let inc1 = v9 + kDecayPerTick;
        rope_swing_state_set_swing_vel K (r16_2 + kStateBlock) (as_u16 inc1);
        only_if (0 <s shl inc1 16) (rope_swing_state_set_swing_vel K (r16_2 + kStateBlock) 0)
      });
     v \<leftarrow> rope_swing_state_swing_vel K (r16_2 + kStateBlock);
     let limited = (0 :: u32);
     let outOfRange = True;
     let (limited, outOfRange) = (if v <s - kSwingSpeedLimit then (- kSwingSpeedLimit, outOfRange)
         else (let (limited, outOfRange) = (if v <s kSwingSpeedLimit + 1 then (limited, False)
         else (kSwingSpeedLimit, outOfRange)) in (limited, outOfRange)));
     only_if outOfRange (rope_swing_state_set_swing_vel K (r16_2 + kStateBlock) (as_u16 limited));
     v11 \<leftarrow> rope_swing_state_swing_vel_raw K (r16_2 + kStateBlock);
     let velStep = sar (unat (16 + kVelToAngleShift)) (shl v11 16);
     rest \<leftarrow> rope_swing_state_rest_angle K (r16_2 + kStateBlock);
     v13 \<leftarrow> rope_swing_state_angle_raw K (r16_2 + kStateBlock);
     rope_swing_state_set_angle K (r16_2 + kStateBlock) (as_u16 (v13 + velStep));
     rope_swing_state_set_out_angle K (r16_2 + kStateBlock) (as_u16 rest);
     v14 \<leftarrow> rope_swing_state_bias K (r16_2 + kStateBlock);
     v15 \<leftarrow> rope_swing_state_target_raw K (r16_2 + kStateBlock);
     rope_swing_state_set_out_second K (r16_2 + kStateBlock) (as_u16 (v14 + v15));
     v16 \<leftarrow> rope_swing_state_angle K (r16_2 + kStateBlock);
     let bendUnit = sar (unat kBendShift) (v16 * kBendNumer) + kBendBase;
     count1 \<leftarrow> rope_node_segment_count K r16_2;
     (if count1 = 0 then State_Monad.return ()
      else do {
        let trim = sar (unat kBendTrimShift) bendUnit;
        out22 \<leftarrow> each_until (upto_u32 (unat count1)) () (\<lambda>i _. do {
          v18 \<leftarrow> guest_multiply K bendUnit (i + 2);
          v19 \<leftarrow> rope_node_segment_ptr K r16_2 i;
          r33_20 \<leftarrow> reg K 33;
          rope_segment_set_bend_z K v19 (as_u16 (sar (unat kSegmentShift) r33_20 - trim));
          v21 \<leftarrow> rope_node_segment_count K r16_2;
          (if \<not> (i + 1 <s v21) then State_Monad.return (Inl ())
           else State_Monad.return (Inr ()))
        });
        State_Monad.return ()
      })
   })"

section \<open>\<open>game/player/actor_targeting.cpp\<close>\<close>

definition actor_targeting_try_acquire_target :: "'c core_ops \<Rightarrow> ('c, unit) state"
    where
  "actor_targeting_try_acquire_target K = with_frame K 40 [(19, 28), (31, 32), (18, 24), (17, 20),
      (16, 16)] (do {
     r4_1 \<leftarrow> reg K 4;
     setr K 19 r4_1;
     r19_2 \<leftarrow> reg K 19;
     r5_3 \<leftarrow> reg K 5;
     setr K 18 r5_3;
     r18_4 \<leftarrow> reg K 18;
     v5 \<leftarrow> targeting_body_walk_state K r19_2;
     (if v5 \<noteq> 0 then State_Monad.return ()
      else do {
        v6 \<leftarrow> targeting_body_pos_x K r18_4;
        v7 \<leftarrow> targeting_body_pos_x K r19_2;
        setr K 17 (as_s16 (as_u16 (v6 - v7)));
        r17_8 \<leftarrow> reg K 17;
        v9 \<leftarrow> guest_multiply K r17_8 r17_8;
        dxSq \<leftarrow> reg K 33;
        v11 \<leftarrow> targeting_body_pos_z K r18_4;
        v12 \<leftarrow> targeting_body_pos_z K r19_2;
        setr K 16 (as_s16 (as_u16 (v11 - v12)));
        r16_13 \<leftarrow> reg K 16;
        v14 \<leftarrow> guest_multiply K r16_13 r16_13;
        r33_15 \<leftarrow> reg K 33;
        setr K 4 (dxSq + r33_15);
        _ \<leftarrow> dispatch_jal K 0x80084080 actor_targeting_kRaAfterDistance [];
        r2_16 \<leftarrow> reg K 2;
        let distance = r2_16 AND 0xFFFF;
        v17 \<leftarrow> targeting_body_reach K r18_4;
        v18 \<leftarrow> targeting_body_reach K r19_2;
        (if v17 + v18 <s distance then State_Monad.return ()
         else do {
           v19 \<leftarrow> targeting_body_pos_y K r19_2;
           v20 \<leftarrow> targeting_body_pos_y K r18_4;
           v21 \<leftarrow> targeting_body_height_off K r19_2;
           v22 \<leftarrow> targeting_body_height_off K r18_4;
           let verticalGap = (v19 - v20 + v21 + v22) AND 0xFFFF;
           v23 \<leftarrow> targeting_body_band_y K r19_2;
           v24 \<leftarrow> targeting_body_band_y K r18_4;
           (if v23 + v24 <s verticalGap then State_Monad.return ()
            else do {
              r16_25 \<leftarrow> reg K 16;
              setr K 4 (0 - r16_25);
              r17_26 \<leftarrow> reg K 17;
              setr K 5 r17_26;
              _ \<leftarrow> dispatch_jal K 0x80085690 actor_targeting_kRaAfterAngle [];
              angle \<leftarrow> reg K 2;
              v28 \<leftarrow> targeting_body_heading K r19_2;
              (if \<not> (((angle - v28 + kArcOffset) AND actor_targeting_kAngleMask) < kArcWidth)
                  then State_Monad.return ()
               else do {
                 v29 \<leftarrow> r8 K (kScratchpadBase + kContactKindSlot);
                 (if v29 \<noteq> 0 then State_Monad.return ()
                  else do {
                    w16 K (kScratchpadBase + kAcquiredAngle) (angle AND
                        actor_targeting_kAngleMask);
                    targetType \<leftarrow> targeting_body_type_byte K r18_4;
                    targeting_body_set_contact K r18_4 1;
                    let param = (if targetType = kTypeA \<or> targetType = kTypeB then
                        kParamForTypeAB else kParamOther);
                    w16 K (kScratchpadBase + kAcquiredParam) param;
                    v31 \<leftarrow> targeting_body_guard_byte K r19_2;
                    (if v31 = kGuardSuppresses then State_Monad.return ()
                     else w8 K kAcquireGlobal kAcquireSignal)
                  })
               })
            })
         })
      })
   })"

section \<open>\<open>game/player/interact_scan.cpp\<close>\<close>

definition activatable_type :: "'c core_ops \<Rightarrow> u32 \<Rightarrow> ('c, bool) state"
    where
  "activatable_type K ty = State_Monad.return ((((((((as_u8 (ty - 0x0E) < 2 \<or> ty = 0x39) \<or>
      ty = 0x32) \<or> ty = 0x59) \<or> ty = 0x4B) \<or> ty = 0x4F) \<or> ty = 0x66) \<or> ty =
      0x09) \<or> ty = 0x33)"

definition sign_family :: "'c core_ops \<Rightarrow> u32 \<Rightarrow> ('c, bool) state" where
  "sign_family K ty = State_Monad.return (as_u8 (ty - 0x0E) < 2 \<or> ty = 0x39)"

definition interact_scan :: "'c core_ops \<Rightarrow> ('c, u32) state" where
  "interact_scan K = do {
     player \<leftarrow> reg K 4;
     action \<leftarrow> r8 K (player + PLAYER_ACTION_STATE);
     (if ACTION_STATE_COUNT \<le> as_u8 (action - ACTION_STATE_LO) then State_Monad.return 0
      else do {
        ptrs \<leftarrow> r32 K CANDIDATE_LIST_PTR;
        remaining \<leftarrow> r8 K CANDIDATE_COUNT;
        w8 K SCAN_CURSOR remaining;
        (if remaining = 0 then State_Monad.return 0
         else loop (\<lambda>(ptrs, remaining). do {
           obj \<leftarrow> r32 K ptrs;
           v14 \<leftarrow> r8 K SCAN_CURSOR;
           let remaining = as_u8 (v14 - 1);
           w8 K SCAN_CURSOR remaining;
           let ptrs = ptrs + 4;
           ty \<leftarrow> r8 K (obj + 2);
           v16 \<leftarrow> r8 K (obj + 0x0C);
           (if v16 \<noteq> CLASS_INTERACTABLE then (if remaining = 0 then State_Monad.return (Inl
               0)
            else State_Monad.return (Inr (ptrs, remaining)))
            else do {
              v17 \<leftarrow> activatable_type K ty;
              (if \<not> v17 then (if remaining = 0 then State_Monad.return (Inl 0)
               else State_Monad.return (Inr (ptrs, remaining)))
               else do {
                 v18 \<leftarrow> actor_alive K obj;
                 (if (v18 AND 1) = 0 then (if remaining = 0 then State_Monad.return (Inl 0)
                  else State_Monad.return (Inr (ptrs, remaining)))
                  else do {
                    v19 \<leftarrow> actor_interact_state K obj;
                    (if v19 \<noteq> kInteractInRange then (if remaining = 0 then
                        State_Monad.return (Inl 0)
                     else State_Monad.return (Inr (ptrs, remaining)))
                     else do {
                       actor_set_interact_state K obj kInteractActivated;
                       v20 \<leftarrow> sign_family K ty;
                       w8 K PENDING_VERB (if v20 then 0x84 else 0x85);
                       State_Monad.return (Inl 1)
                     })
                  })
               })
            })
         }) (ptrs, remaining))
      })
   }"

definition ov_interact_scan :: "'c core_ops \<Rightarrow> ('c, unit) state" where
  "ov_interact_scan K = do {
     v1 \<leftarrow> interact_scan K;
     setr K 2 v1
   }"

end
