(* ===== verification/GteWrappers.thy ===== *)
theory GteWrappers
  imports ObjectViews
begin

text \<open>
  The guest-shaped entries of the matrix routines, the square root by leading zeros, the column
  scale and the three-vertex transform that runs the coprocessor.
\<close>

section \<open>\<open>game/math/gte_math.cpp\<close>\<close>

definition gte_math_isqrt16 :: "'c core_ops \<Rightarrow> u32 \<Rightarrow> ('c, u32) state" where
  "gte_math_isqrt16 K a0 = do {
     let hi = (if 0x3FFFFFFF < a0 then 0xFFFF8000 else (0 :: u32));
     let a1 = hi;
     let a2 = hi + 0x4000;
     let v1 = a2 AND 0xC000;
     let a3 = (v1 * v1) AND 0xFFFFFFFF;
     let a1 = (if \<not> (a0 < a3) then a2 else a1);
     let bit1 = (0x2000 :: u32);
     (a1, bit1) \<leftarrow> loop (\<lambda>(a1, bit1). (if bit1 \<noteq> 0 then do {
       let v1 = a1 + bit1;
       let v0 = v1 AND 0xFFFF;
       let a3 = (v0 * v0) AND 0xFFFFFFFF;
       let a1 = (if \<not> (a0 < a3) then v1 else a1);
       let bit1 = shr bit1 1;
       State_Monad.return (Inr (a1, bit1))
     }
      else State_Monad.return (Inl (a1, bit1)))) (a1, bit1);
     let r = a1 AND 0xFFFF;
     let a1 = (if r \<noteq> 0xFFFF then (let a3 = (r * r) AND 0xFFFFFFFF; s = (a3 + r) AND
         0xFFFFFFFF in (if s < a0 then (a1 + 1) else a1)) else a1);
     State_Monad.return (a1 AND 0xFFFF)
   }"

definition math_sqrt_lzc :: "'c core_ops \<Rightarrow> u32 \<Rightarrow> ('c, u32) state" where
  "math_sqrt_lzc K v = do {
     let sign = (shr v 31) AND 1;
     let lzcr = (1 :: u32);
     let b = (30 :: u32);
     (lzcr, b) \<leftarrow> loop (\<lambda>(lzcr, b). (if 0 \<le>s b then (if ((shr v (unat b))
         AND 1) \<noteq> sign then State_Monad.return (Inl (lzcr, b))
      else do { let lzcr = lzcr + 1; let b = b - 1; State_Monad.return (Inr (lzcr, b)) })
      else State_Monad.return (Inl (lzcr, b)))) (lzcr, b);
     gte_set_data K 30 v;
     gte_set_data K 31 lzcr;
     (if lzcr = 32 then State_Monad.return 0
      else do {
        let evenLz = lzcr AND (NOT 1);
        let normSh = evenLz - 24;
        let mant = (if 0 \<le>s normSh then shl v (unat (normSh AND 31)) else sar (unat ((-
            normSh) AND 31)) v);
        let outSh = sar 1 (31 - evenLz);
        v1 \<leftarrow> r16 K (0x800A6310 + ((shl (mant - 64) 1) AND 0xFFFFFFFF));
        let tab = as_s16 v1;
        let acc1 = shl tab (unat (outSh AND 31));
        State_Monad.return (shr acc1 12)
      })
   }"

definition col_scale :: "'c core_ops \<Rightarrow> u32 \<Rightarrow> u32 \<Rightarrow> ('c, u32)
    state" where
  "col_scale K half fac = State_Monad.return (sar 12 (half * fac))"

definition math_mat_col_scale :: "'c core_ops \<Rightarrow> u32 \<Rightarrow> u32 \<Rightarrow>
    ('c, u32) state" where
  "math_mat_col_scale K dstPtr facPtr = do {
     f0 \<leftarrow> r32 K (facPtr + 0);
     f1 \<leftarrow> r32 K (facPtr + 4);
     f2 \<leftarrow> r32 K (facPtr + 8);
     w0 \<leftarrow> r32 K (dstPtr + 0);
     v5 \<leftarrow> col_scale K (as_s16 w0) f0;
     v6 \<leftarrow> col_scale K (sar 16 w0) f1;
     w32 K (dstPtr + 0) ((v5 AND 0xFFFF) OR (shl v6 16));
     w1 \<leftarrow> r32 K (dstPtr + 4);
     v8 \<leftarrow> col_scale K (as_s16 w1) f2;
     v9 \<leftarrow> col_scale K (sar 16 w1) f0;
     w32 K (dstPtr + 4) ((v8 AND 0xFFFF) OR (shl v9 16));
     w2 \<leftarrow> r32 K (dstPtr + 8);
     v11 \<leftarrow> col_scale K (as_s16 w2) f1;
     v12 \<leftarrow> col_scale K (sar 16 w2) f2;
     w32 K (dstPtr + 8) ((v11 AND 0xFFFF) OR (shl v12 16));
     w3 \<leftarrow> r32 K (dstPtr + 12);
     v14 \<leftarrow> col_scale K (as_s16 w3) f0;
     v15 \<leftarrow> col_scale K (sar 16 w3) f1;
     w32 K (dstPtr + 12) ((v14 AND 0xFFFF) OR (shl v15 16));
     w4 \<leftarrow> r32 K (dstPtr + 16);
     v17 \<leftarrow> col_scale K (as_s16 w4) f2;
     w32 K (dstPtr + 16) v17;
     State_Monad.return dstPtr
   }"

definition eov_mat_mul :: "'c core_ops \<Rightarrow> ('c, unit) state" where
  "eov_mat_mul K = do {
     r4_1 \<leftarrow> reg K 4;
     r5_2 \<leftarrow> reg K 5;
     r6_3 \<leftarrow> reg K 6;
     v4 \<leftarrow> mat_mul K r4_1 r5_2 r6_3;
     setr K 2 v4
   }"

definition eov_apply_matlv :: "'c core_ops \<Rightarrow> ('c, unit) state" where
  "eov_apply_matlv K = do {
     r4_1 \<leftarrow> reg K 4;
     r5_2 \<leftarrow> reg K 5;
     v3 \<leftarrow> apply_matlv K r4_1 r5_2;
     setr K 2 v3
   }"

definition eov_apply_matrix_lv :: "'c core_ops \<Rightarrow> ('c, unit) state" where
  "eov_apply_matrix_lv K = do {
     r4_1 \<leftarrow> reg K 4;
     r5_2 \<leftarrow> reg K 5;
     r6_3 \<leftarrow> reg K 6;
     v4 \<leftarrow> apply_matrix_lv K r4_1 r5_2 r6_3;
     setr K 2 v4
   }"

definition eov_apply_matrix_sv :: "'c core_ops \<Rightarrow> ('c, unit) state" where
  "eov_apply_matrix_sv K = do {
     r4_1 \<leftarrow> reg K 4;
     r5_2 \<leftarrow> reg K 5;
     r6_3 \<leftarrow> reg K 6;
     v4 \<leftarrow> apply_matrix_sv K r4_1 r5_2 r6_3;
     setr K 2 v4
   }"

definition eov_rotmat :: "'c core_ops \<Rightarrow> ('c, unit) state" where
  "eov_rotmat K = do {
     r4_1 \<leftarrow> reg K 4;
     r5_2 \<leftarrow> reg K 5;
     v3 \<leftarrow> rotmat K r4_1 r5_2;
     setr K 2 v3
   }"

definition eov_rot_x :: "'c core_ops \<Rightarrow> ('c, unit) state" where
  "eov_rot_x K = do {
     r4_1 \<leftarrow> reg K 4;
     r5_2 \<leftarrow> reg K 5;
     v3 \<leftarrow> rotX K (as_s16 r4_1) r5_2;
     setr K 2 v3
   }"

definition eov_rot_y :: "'c core_ops \<Rightarrow> ('c, unit) state" where
  "eov_rot_y K = do {
     r4_1 \<leftarrow> reg K 4;
     r5_2 \<leftarrow> reg K 5;
     v3 \<leftarrow> rotY K (as_s16 r4_1) r5_2;
     setr K 2 v3
   }"

definition eov_rot_z :: "'c core_ops \<Rightarrow> ('c, unit) state" where
  "eov_rot_z K = do {
     r4_1 \<leftarrow> reg K 4;
     r5_2 \<leftarrow> reg K 5;
     v3 \<leftarrow> rotZ K (as_s16 r4_1) r5_2;
     setr K 2 v3
   }"

definition eov_rot_mat_soft :: "'c core_ops \<Rightarrow> ('c, unit) state" where
  "eov_rot_mat_soft K = do {
     r4_1 \<leftarrow> reg K 4;
     r5_2 \<leftarrow> reg K 5;
     v3 \<leftarrow> rot_mat_soft K r4_1 r5_2;
     setr K 2 v3
   }"

definition gte_math_eov_isqrt16 :: "'c core_ops \<Rightarrow> ('c, unit) state" where
  "gte_math_eov_isqrt16 K = do {
     r4_1 \<leftarrow> reg K 4;
     setr K 2 (eng_isqrt16 r4_1)
   }"

definition eov_approx_dist3 :: "'c core_ops \<Rightarrow> ('c, unit) state" where
  "eov_approx_dist3 K = do {
     r4_1 \<leftarrow> reg K 4;
     r5_2 \<leftarrow> reg K 5;
     r6_3 \<leftarrow> reg K 6;
     setr K 2 (vec_len r4_1 r5_2 r6_3)
   }"

definition eov_sqrt_lzc :: "'c core_ops \<Rightarrow> ('c, unit) state" where
  "eov_sqrt_lzc K = do {
     r4_1 \<leftarrow> reg K 4;
     v2 \<leftarrow> math_sqrt_lzc K r4_1;
     setr K 2 v2
   }"

definition eov_mat_load_lv :: "'c core_ops \<Rightarrow> ('c, unit) state" where
  "eov_mat_load_lv K = do {
     r4_1 \<leftarrow> reg K 4;
     r5_2 \<leftarrow> reg K 5;
     v3 \<leftarrow> mat_load_lv K r4_1 r5_2;
     setr K 2 v3
   }"

definition eov_mat_col_scale :: "'c core_ops \<Rightarrow> ('c, unit) state" where
  "eov_mat_col_scale K = do {
     r4_1 \<leftarrow> reg K 4;
     r5_2 \<leftarrow> reg K 5;
     v3 \<leftarrow> math_mat_col_scale K r4_1 r5_2;
     setr K 2 v3
   }"

definition eov_rot_mat_soft_inverse :: "'c core_ops \<Rightarrow> ('c, unit) state" where
  "eov_rot_mat_soft_inverse K = do {
     r4_1 \<leftarrow> reg K 4;
     r5_2 \<leftarrow> reg K 5;
     v3 \<leftarrow> rot_mat_soft_inverse K r4_1 r5_2;
     setr K 2 v3
   }"

definition eov_rot_mat_soft_yxz :: "'c core_ops \<Rightarrow> ('c, unit) state" where
  "eov_rot_mat_soft_yxz K = do {
     r4_1 \<leftarrow> reg K 4;
     r5_2 \<leftarrow> reg K 5;
     v3 \<leftarrow> rot_mat_soft_yxz K r4_1 r5_2;
     setr K 2 v3
   }"

section \<open>\<open>game/math/wide_re_gte_transform3.cpp\<close>\<close>

definition gte_transform3_rotate3_and_pack_ir :: "'c core_ops \<Rightarrow> ('c, unit) state"
    where
  "gte_transform3_rotate3_and_pack_ir K = do {
     mat \<leftarrow> reg K 4;
     src \<leftarrow> reg K 5;
     v3 \<leftarrow> r32 K (mat + 0);
     gte_set_control K 0 v3;
     v4 \<leftarrow> r32 K (mat + 4);
     gte_set_control K 1 v4;
     v5 \<leftarrow> r32 K (mat + 8);
     gte_set_control K 2 v5;
     v6 \<leftarrow> r32 K (mat + 12);
     gte_set_control K 3 v6;
     v7 \<leftarrow> r32 K (mat + 16);
     gte_set_control K 4 v7;
     vxy0 \<leftarrow> r16 K (src + 0);
     v9 \<leftarrow> r32 K (src + 4);
     let y0hi = v9 AND 0xFFFF0000;
     let vxy0 = vxy0 OR y0hi;
     vz0 \<leftarrow> r32 K (src + 12);
     gte_set_data K 0 vxy0;
     gte_set_data K 1 vz0;
     gte_run K 0x4A486012;
     vxy1 \<leftarrow> r16 K (src + 2);
     v12 \<leftarrow> r32 K (src + 8);
     let y1lo = shl v12 16;
     let vxy1 = vxy1 OR y1lo;
     vz1 \<leftarrow> r16s K (src + 14);
     ir1_v0 \<leftarrow> gte_data K 9;
     ir2_v0 \<leftarrow> gte_data K 10;
     ir3_v0 \<leftarrow> gte_data K 11;
     gte_set_data K 0 vxy1;
     gte_set_data K 1 vz1;
     gte_run K 0x4A486012;
     vxy2 \<leftarrow> r16 K (src + 4);
     v18 \<leftarrow> r32 K (src + 8);
     let y2hi = v18 AND 0xFFFF0000;
     let vxy2 = vxy2 OR y2hi;
     vz2 \<leftarrow> r32 K (src + 16);
     ir1_v1 \<leftarrow> gte_data K 9;
     ir2_v1 \<leftarrow> gte_data K 10;
     ir3_v1 \<leftarrow> gte_data K 11;
     gte_set_data K 0 vxy2;
     gte_set_data K 1 vz2;
     gte_run K 0x4A486012;
     let out0 = (ir1_v0 AND 0xFFFF) OR (shl ir1_v1 16);
     w32 K (mat + 0) out0;
     let out12 = (ir3_v0 AND 0xFFFF) OR (shl ir3_v1 16);
     w32 K (mat + 12) out12;
     ir1_v2 \<leftarrow> gte_data K 9;
     ir2_v2 \<leftarrow> gte_data K 10;
     let out4 = (ir1_v2 AND 0xFFFF) OR (shl ir2_v0 16);
     w32 K (mat + 4) out4;
     let out8 = (ir2_v1 AND 0xFFFF) OR (shl ir2_v2 16);
     w32 K (mat + 8) out8;
     g25 \<leftarrow> gte_data K 11;
     w32 K (mat + 16) g25;
     setr K 2 mat
   }"

end
