(* ===== verification/LinkedLists.thy ===== *)
theory LinkedLists
  imports Prelude
begin

text \<open>
  Lists in memory as relations on pointer functions: a null-terminated chain, as the free lists are,
  and a doubly linked list with a head and a tail pointer, as the active object lists are, with the
  effect of appending and of unlinking an element.
\<close>

section \<open>Linked lists over pointer functions\<close>

fun chain :: "('a::zero \<Rightarrow> 'a) \<Rightarrow> 'a \<Rightarrow> 'a list \<Rightarrow> bool" where
  "chain nx a [] \<longleftrightarrow> a = 0"
| "chain nx a (n # ns) \<longleftrightarrow> a = n \<and> n \<noteq> 0 \<and> chain nx (nx n) ns"

text \<open>The first element, or null.\<close>
fun front :: "'a::zero list \<Rightarrow> 'a" where
  "front [] = 0"
| "front (x # xs) = x"

definition rear :: "'a::zero list \<Rightarrow> 'a" where
  "rear xs = front (rev xs)"

fun linked :: "('a::zero \<Rightarrow> 'a) \<Rightarrow> ('a \<Rightarrow> 'a) \<Rightarrow> 'a \<Rightarrow> 'a list \<Rightarrow> 'a \<Rightarrow> bool" where
  "linked nx pv p [] q \<longleftrightarrow> True"
| "linked nx pv p (x # xs) q \<longleftrightarrow> x \<noteq> 0 \<and> pv x = p \<and> nx x = (if xs = [] then q else front xs) \<and> linked nx pv x xs q"

definition dlist :: "('a::zero \<Rightarrow> 'a) \<Rightarrow> ('a \<Rightarrow> 'a) \<Rightarrow> 'a \<Rightarrow> 'a \<Rightarrow> 'a list \<Rightarrow> bool" where
  "dlist nx pv h t xs \<longleftrightarrow> h = front xs \<and> t = rear xs \<and> linked nx pv 0 xs 0"

lemma rear_simps [simp]: "rear [] = 0" "rear (xs @ [x]) = x" "xs \<noteq> [] \<Longrightarrow> rear (x # xs) = rear xs" "rear [x] = x"
  by (auto simp: rear_def) (cases xs rule: rev_cases; simp)

lemma front_append [simp]: "front (xs @ ys) = (if xs = [] then front ys else front xs)"
  by (cases xs) auto

lemma rear_append [simp]: "rear (xs @ ys) = (if ys = [] then rear xs else rear ys)"
  by (cases ys rule: rev_cases) (auto simp: rear_def)

lemma front_in: "xs \<noteq> [] \<Longrightarrow> front xs \<in> set xs"
  by (cases xs) auto

lemma rear_in: "xs \<noteq> [] \<Longrightarrow> rear xs \<in> set xs"
  by (cases xs rule: rev_cases) auto

lemma chain_cong: "(\<And>n. n \<in> set ns \<Longrightarrow> nx n = nx' n) \<Longrightarrow> chain nx a ns = chain nx' a ns"
  by (induction ns arbitrary: a) auto

lemma linked_cong:
  "(\<And>n. n \<in> set xs \<Longrightarrow> nx n = nx' n \<and> pv n = pv' n) \<Longrightarrow> linked nx pv p xs q = linked nx' pv' p xs q"
  by (induction xs arbitrary: p) auto

lemma chain_nonzero: "chain nx a ns \<Longrightarrow> 0 \<notin> set ns"
  by (induction ns arbitrary: a) auto

lemma chain_front: "chain nx a ns \<Longrightarrow> a = front ns"
  by (cases ns) auto

lemma linked_nonzero: "linked nx pv p xs q \<Longrightarrow> 0 \<notin> set xs"
  by (induction xs arbitrary: p) auto

lemma linked_append:
  "linked nx pv p (xs @ ys) q \<longleftrightarrow>
   linked nx pv p xs (if ys = [] then q else front ys) \<and>
   linked nx pv (if xs = [] then p else rear xs) ys q"
  by (induction xs arbitrary: p) auto

lemma linked_last: "xs \<noteq> [] \<Longrightarrow> linked nx pv p xs q \<Longrightarrow> nx (rear xs) = q"
  by (cases xs rule: rev_cases) (auto simp: linked_append)

lemma linked_first: "xs \<noteq> [] \<Longrightarrow> linked nx pv p xs q \<Longrightarrow> pv (front xs) = p"
  by (cases xs) auto

text \<open>Redirecting the last element.\<close>
lemma linked_set_last:
  assumes "linked nx pv p xs q" "distinct xs"
    "\<And>n. n \<in> set xs \<Longrightarrow> nx' n = (if n = rear xs then r else nx n)"
    "\<And>n. n \<in> set xs \<Longrightarrow> pv' n = pv n"
  shows "linked nx' pv' p xs r"
proof (cases xs rule: rev_cases)
  case (snoc ys y)
  have "linked nx' pv' p ys y = linked nx pv p ys y"
    using assms(2-4) snoc by (intro linked_cong) auto
  then show ?thesis using assms snoc by (auto simp: linked_append)
qed simp

lemma linked_set_first:
  assumes "linked nx pv p xs q" "distinct xs"
    "\<And>n. n \<in> set xs \<Longrightarrow> pv' n = (if n = front xs then r else pv n)"
    "\<And>n. n \<in> set xs \<Longrightarrow> nx' n = nx n"
  shows "linked nx' pv' r xs q"
proof (cases xs)
  case (Cons y ys)
  have "linked nx' pv' y ys q = linked nx pv y ys q"
    using assms(2-4) Cons by (intro linked_cong) auto
  then show ?thesis using assms Cons by auto
qed simp

lemma dlist_append_node:
  assumes d: "dlist nx pv h t xs" "distinct (xs @ [n])" "n \<noteq> 0"
    and nx: "\<And>m. m \<in> set xs \<Longrightarrow> nx' m = (if m = t then n else nx m)" "nx' n = 0"
    and pv: "\<And>m. m \<in> set xs \<Longrightarrow> pv' m = pv m" "pv' n = t"
  shows "dlist nx' pv' (if t = 0 then n else h) n (xs @ [n])"
proof (cases "xs = []")
  case True
  then show ?thesis using d nx pv by (auto simp: dlist_def)
next
  case False
  have t: "t = rear xs" "t \<noteq> 0"
    using d(1) False rear_in [OF False] linked_nonzero [of nx pv 0 xs 0] by (auto simp: dlist_def)
  have "linked nx' pv' 0 xs n"
  proof (rule linked_set_last [of nx pv 0 xs 0])
    show "linked nx pv 0 xs 0" using d(1) by (simp add: dlist_def)
  qed (use d(2) nx(1) pv(1) t(1) in simp_all)
  moreover have "linked nx' pv' (rear xs) [n] 0"
    using d(3) nx(2) pv(2) t(1) by simp
  ultimately have "linked nx' pv' 0 (xs @ [n]) 0" using False by (simp add: linked_append)
  then show ?thesis using d(1) t(2) False by (simp add: dlist_def)
qed

text \<open>Bypassing an element, as both directions of the unlink do.\<close>
lemma dlist_remove_node:
  assumes d: "dlist nx pv h t (ys @ n # zs)" "distinct (ys @ n # zs)"
    and nx: "\<And>m. m \<in> set (ys @ zs) \<Longrightarrow> nx' m = (if m = pv n then nx n else nx m)"
    and pv: "\<And>m. m \<in> set (ys @ zs) \<Longrightarrow> pv' m = (if m = nx n then pv n else pv m)"
  shows "dlist nx' pv' (if pv n = 0 then nx n else h) (if nx n = 0 then pv n else t) (ys @ zs)"
    and "pv n = rear ys" "nx n = front zs"
proof -
  have l: "linked nx pv 0 (ys @ n # zs) 0" using d by (simp add: dlist_def)
  show p: "pv n = rear ys" and q: "nx n = front zs"
    using l by (auto simp: linked_append split: if_splits)
  have nz: "0 \<notin> set (ys @ n # zs)" using linked_nonzero [OF l] by simp
  have "linked nx' pv' 0 ys (front zs)"
  proof (rule linked_set_last [of nx pv 0 ys n])
    show "linked nx pv 0 ys n" using l by (simp add: linked_append)
    fix m assume m: "m \<in> set ys"
    show "nx' m = (if m = rear ys then front zs else nx m)" using nx m p q by auto
    have "m \<noteq> front zs" using d(2) m front_in [of zs] nz by (cases "zs = []") auto
    then show "pv' m = pv m" using pv m q by auto
  qed (use d(2) in auto)
  moreover have "linked nx' pv' (rear ys) zs 0"
  proof (rule linked_set_first [of nx pv n zs 0])
    show "linked nx pv n zs 0" using l by (simp add: linked_append)
    fix m assume m: "m \<in> set zs"
    show "pv' m = (if m = front zs then rear ys else pv m)" using pv m p q by auto
    have "m \<noteq> rear ys" using d(2) m rear_in [of ys] nz by (cases "ys = []") auto
    then show "nx' m = nx m" using nx m p by auto
  qed (use d(2) in auto)
  moreover have "rear ys = 0 \<longleftrightarrow> ys = []" "front zs = 0 \<longleftrightarrow> zs = []"
    using nz rear_in [of ys] front_in [of zs] by (cases "ys = []"; cases "zs = []"; auto)+
  ultimately show "dlist nx' pv' (if pv n = 0 then nx n else h) (if nx n = 0 then pv n else t) (ys @ zs)"
    using d p q by (auto simp: dlist_def linked_append split: if_splits)
qed

end
