(* ===== verification/ObjectWorld.thy ===== *)
theory ObjectWorld
  imports Spawn LinkedLists
begin

text \<open>
  What the object pools and lists mean: the abstract object world, five stacks of free nodes and
  three sequences of active ones, and the relation that says a guest memory represents it. The
  spawn dispatcher and the despawn primitive refine the abstract operations on it.
\<close>

section \<open>Where the nodes are\<close>

definition slot :: "pool_spec \<Rightarrow> nat \<Rightarrow> u32" where
  "slot p i = base p + of_nat i * stride p"

definition slots :: "pool_spec \<Rightarrow> u32 list" where
  "slots p = map (slot p) [0..<unat (slot_count p)]"

definition node_slots :: "u32 set" where
  "node_slots = (\<Union>p \<in> set pools. set (slots p))"

text \<open>The list heads and tails, the free-list heads and the counts.\<close>
definition world_vars :: "u32 list" where
  "world_vars = LIST_HEAD @ LIST_TAIL @ map headVar pools"

definition world_counts :: "u32 list" where
  "world_counts = map countVar pools"

lemma node_cases:
  assumes "n \<in> node_slots"
  obtains (p0) i where "i < 0x34" "unat n = 0x800ED8D8 + i * 0x88"
  | (p1) i where "i < 0x3A" "unat n = 0x800EF478 + i * 0xC4"
  | (p2) i where "i < 0x2A" "unat n = 0x800FE198 + i * 0xD0"
  | (p3) i where "i < 0x28" "unat n = 0x800FB858 + i * 0x108"
  | (p4) i where "i < 5" "unat n = 0x800FB218 + i * 0x140"
  using assms
  by (auto simp: node_slots_def pools_def slots_def slot_def unat_word_ariths unat_of_nat)


lemma node_bounds:
  assumes "n \<in> node_slots"
  shows "0x800ED8D8 \<le> unat n" "unat n + 0x88 \<le> 0x801003B8"
    "unat n + 0x88 \<le> 0x800F20E0 \<or> 0x800FB218 \<le> unat n"
  using assms by (cases rule: node_cases; simp)+

lemma node_in_ram: "n \<in> node_slots \<Longrightarrow> in_ram n 0x88"
  using node_bounds [of n] by (simp add: in_ram_def)

lemma node_nonzero: "0 \<notin> node_slots"
  using node_bounds(1) [of 0] by auto

lemma node_gap:
  assumes "n \<in> node_slots" "m \<in> node_slots" "unat n < unat m"
  shows "unat n + 0x88 \<le> unat m"
  using assms(1)
proof (cases rule: node_cases)
  case (p0 i)
  show ?thesis using assms(2,3) p0 by (cases rule: node_cases) simp_all
next
  case (p1 i)
  show ?thesis using assms(2,3) p1 by (cases rule: node_cases) simp_all
next
  case (p2 i)
  show ?thesis using assms(2,3) p2 by (cases rule: node_cases) simp_all
next
  case (p3 i)
  show ?thesis using assms(2,3) p3 by (cases rule: node_cases) simp_all
next
  case (p4 i)
  show ?thesis using assms(2,3) p4 by (cases rule: node_cases) simp_all
qed

lemma nodes_apart:
  assumes "n \<in> node_slots" "m \<in> node_slots" "n \<noteq> m"
  shows "apart n 0x88 m 0x88"
proof (cases "unat n < unat m")
  case True
  then show ?thesis
    using node_gap [of n m] node_bounds(2) [of m] assms by (intro apart_below) auto
next
  case False
  then have "unat m < unat n" using assms(3) by (simp add: word_unat_eq_iff)
  then show ?thesis
    using node_gap [of m n] node_bounds(2) [of n] assms by (intro apart_below) auto
qed

lemma world_var_bounds:
  assumes "v \<in> set world_vars"
  shows "in_ram v 4" "unat v + 4 \<le> 0x800ED8D8 \<or> 0x800F20E0 \<le> unat v \<and> unat v + 4 \<le> 0x800FB218"
  using assms by (auto simp: world_vars_def LIST_HEAD_def LIST_TAIL_def pools_def in_ram_def)

lemma world_count_bounds:
  assumes "v \<in> set world_counts"
  shows "in_ram v 1" "unat v + 1 \<le> 0x800ED8D8"
  using assms by (auto simp: world_counts_def pools_def in_ram_def)

lemma node_var_apart:
  assumes "n \<in> node_slots" "v \<in> set world_vars"
  shows "apart n 0x88 v 4" "apart v 4 n 0x88"
  using node_bounds [OF assms(1)] world_var_bounds [OF assms(2)] apart_below [of n "0x88" v 4]
    apart_below [of v 4 n "0x88"]
  by (auto simp: in_ram_def)

lemma node_count_apart:
  assumes "n \<in> node_slots" "v \<in> set world_counts"
  shows "apart n 0x88 v 1" "apart v 1 n 0x88"
  using node_bounds [OF assms(1)] world_count_bounds [OF assms(2)] apart_below [of v 1 n "0x88"]
  by (auto simp: in_ram_def)

lemma vars_apart:
  assumes "v \<in> set world_vars" "w \<in> set world_vars" "v \<noteq> w"
  shows "apart v 4 w 4"
  using assms by (simp add: world_vars_def LIST_HEAD_def LIST_TAIL_def pools_def) (elim disjE; simp add: apart_def)

lemma var_count_apart:
  assumes "v \<in> set world_vars" "w \<in> set world_counts"
  shows "apart v 4 w 1" "apart w 1 v 4"
  using assms by (simp_all add: world_vars_def world_counts_def LIST_HEAD_def LIST_TAIL_def pools_def) (elim disjE; simp add: apart_def)+

lemma counts_apart:
  assumes "v \<in> set world_counts" "w \<in> set world_counts" "v \<noteq> w"
  shows "apart v 1 w 1"
  using assms by (simp add: world_counts_def pools_def) (elim disjE; simp add: apart_def)

section \<open>What a write to a node or a variable changes\<close>

definition nx :: "'c core_ops \<Rightarrow> 'c \<Rightarrow> u32 \<Rightarrow> u32" where "nx K c n = mem_r32 K c (n + 36)"
definition pv :: "'c core_ops \<Rightarrow> 'c \<Rightarrow> u32 \<Rightarrow> u32" where "pv K c n = mem_r32 K c (n + 32)"

definition tag :: "'c core_ops \<Rightarrow> 'c \<Rightarrow> u32 \<Rightarrow> u8" where "tag K c n = mem_r8 K c (n + 10)"
definition class_byte :: "'c core_ops \<Rightarrow> 'c \<Rightarrow> u32 \<Rightarrow> u8" where
  "class_byte K c n = mem_r8 K c (n + 0x28)"

text \<open>Two states agree on the links, the variables and the counts, and on the tag and class of every
  node outside \<open>X\<close>.\<close>
definition same_world :: "'c core_ops \<Rightarrow> u32 set \<Rightarrow> 'c \<Rightarrow> 'c \<Rightarrow> bool" where
  "same_world K X c d \<longleftrightarrow>
     (\<forall>m \<in> node_slots. nx K d m = nx K c m \<and> pv K d m = pv K c m) \<and>
     (\<forall>m \<in> node_slots - X. tag K d m = tag K c m \<and> class_byte K d m = class_byte K c m) \<and>
     (\<forall>v \<in> set world_vars. mem_r32 K d v = mem_r32 K c v) \<and>
     (\<forall>v \<in> set world_counts. mem_r8 K d v = mem_r8 K c v)"

lemma same_world_trans: "same_world K X c d \<Longrightarrow> same_world K X d e \<Longrightarrow> same_world K X c e"
  by (simp add: same_world_def)

lemma same_world_refl: "same_world K X c c"
  by (simp add: same_world_def)

context guest_core
begin

lemma node_apart_field:
  assumes "n \<in> node_slots" "m \<in> node_slots" "n \<noteq> m"
    "unat i + k \<le> 0x88" "unat j + l \<le> 0x88" "0 < k" "0 < l"
  shows "apart (n + i) k (m + j) l"
  by (rule apart_parts [OF nodes_apart [OF assms(1-3)] assms(4-7)])

lemma node_apart_var:
  assumes "n \<in> node_slots" "v \<in> set world_vars" "unat i + k \<le> 0x88" "0 < k"
  shows "apart (n + i) k v 4" "apart v 4 (n + i) k"
  using apart_parts [OF node_var_apart(1) [OF assms(1,2)] assms(3), of 0 4]
    apart_parts [OF node_var_apart(2) [OF assms(1,2)] _ assms(3), of 0 4] assms(4) by simp_all

lemma node_apart_count:
  assumes "n \<in> node_slots" "v \<in> set world_counts" "unat i + k \<le> 0x88" "0 < k"
  shows "apart (n + i) k v 1" "apart v 1 (n + i) k"
  using apart_parts [OF node_count_apart(1) [OF assms(1,2)] assms(3), of 0 1]
    apart_parts [OF node_count_apart(2) [OF assms(1,2)] _ assms(3), of 0 1] assms(4) by simp_all

lemma node_field_ram: "n \<in> node_slots \<Longrightarrow> unat i + k \<le> 0x88 \<Longrightarrow> in_ram (n + i) k"
  by (rule in_ram_offset [OF node_in_ram])

lemma node_links_apart:
  "apart (n + 36) 4 (n + 32) 4" "apart (n + 32) 4 (n + 36) 4"
  "apart (n + 36) 4 (n + 10) 1" "apart (n + 36) 4 (n + 0x28) 1"
  "apart (n + 32) 4 (n + 10) 1" "apart (n + 32) 4 (n + 0x28) 1"
  by (simp_all add: apart_same) (simp_all add: apart_def)

lemmas node_rules = node_links_apart node_apart_field node_apart_var node_apart_count node_field_ram
  world_var_bounds(1) world_count_bounds(1) vars_apart var_count_apart counts_apart

text \<open>Writing the next link of a node.\<close>
lemma next_write:
  assumes n: "n \<in> node_slots"
  shows "m \<in> node_slots \<Longrightarrow> nx K (mem_w32 K c (n + 36) v) m = (if m = n then v else nx K c m)"
    "m \<in> node_slots \<Longrightarrow> pv K (mem_w32 K c (n + 36) v) m = pv K c m"
    "a \<in> set world_vars \<Longrightarrow> mem_r32 K (mem_w32 K c (n + 36) v) a = mem_r32 K c a"
    "b \<in> set world_counts \<Longrightarrow> mem_r8 K (mem_w32 K c (n + 36) v) b = mem_r8 K c b"
    "m \<in> node_slots \<Longrightarrow> tag K (mem_w32 K c (n + 36) v) m = tag K c m"
    "m \<in> node_slots \<Longrightarrow> class_byte K (mem_w32 K c (n + 36) v) m = class_byte K c m"
proof -
  show "m \<in> node_slots \<Longrightarrow> tag K (mem_w32 K c (n + 36) v) m = tag K c m"
    "m \<in> node_slots \<Longrightarrow> class_byte K (mem_w32 K c (n + 36) v) m = class_byte K c m"
    using n by (cases "m = n"; simp add: tag_def class_byte_def read_write node_rules)+
  show "m \<in> node_slots \<Longrightarrow> nx K (mem_w32 K c (n + 36) v) m = (if m = n then v else nx K c m)"
    using n by (cases "m = n") (simp_all add: nx_def read_write node_rules)
  show "m \<in> node_slots \<Longrightarrow> pv K (mem_w32 K c (n + 36) v) m = pv K c m"
    using n by (cases "m = n") (simp_all add: pv_def read_write node_rules)
  show "a \<in> set world_vars \<Longrightarrow> mem_r32 K (mem_w32 K c (n + 36) v) a = mem_r32 K c a"
    "b \<in> set world_counts \<Longrightarrow> mem_r8 K (mem_w32 K c (n + 36) v) b = mem_r8 K c b"
    using n by (simp_all add: read_write node_rules)
qed

lemma prev_write:
  assumes n: "n \<in> node_slots"
  shows "m \<in> node_slots \<Longrightarrow> pv K (mem_w32 K c (n + 32) v) m = (if m = n then v else pv K c m)"
    "m \<in> node_slots \<Longrightarrow> nx K (mem_w32 K c (n + 32) v) m = nx K c m"
    "a \<in> set world_vars \<Longrightarrow> mem_r32 K (mem_w32 K c (n + 32) v) a = mem_r32 K c a"
    "b \<in> set world_counts \<Longrightarrow> mem_r8 K (mem_w32 K c (n + 32) v) b = mem_r8 K c b"
    "m \<in> node_slots \<Longrightarrow> tag K (mem_w32 K c (n + 32) v) m = tag K c m"
    "m \<in> node_slots \<Longrightarrow> class_byte K (mem_w32 K c (n + 32) v) m = class_byte K c m"
proof -
  show "m \<in> node_slots \<Longrightarrow> tag K (mem_w32 K c (n + 32) v) m = tag K c m"
    "m \<in> node_slots \<Longrightarrow> class_byte K (mem_w32 K c (n + 32) v) m = class_byte K c m"
    using n by (cases "m = n"; simp add: tag_def class_byte_def read_write node_rules)+
  show "m \<in> node_slots \<Longrightarrow> pv K (mem_w32 K c (n + 32) v) m = (if m = n then v else pv K c m)"
    using n by (cases "m = n") (simp_all add: pv_def read_write node_rules)
  show "m \<in> node_slots \<Longrightarrow> nx K (mem_w32 K c (n + 32) v) m = nx K c m"
    using n by (cases "m = n") (simp_all add: nx_def read_write node_rules)
  show "a \<in> set world_vars \<Longrightarrow> mem_r32 K (mem_w32 K c (n + 32) v) a = mem_r32 K c a"
    "b \<in> set world_counts \<Longrightarrow> mem_r8 K (mem_w32 K c (n + 32) v) b = mem_r8 K c b"
    using n by (simp_all add: read_write node_rules)
qed

lemma var_write:
  assumes w: "w \<in> set world_vars"
  shows "m \<in> node_slots \<Longrightarrow> nx K (mem_w32 K c w v) m = nx K c m"
    "m \<in> node_slots \<Longrightarrow> pv K (mem_w32 K c w v) m = pv K c m"
    "a \<in> set world_vars \<Longrightarrow> mem_r32 K (mem_w32 K c w v) a = (if a = w then v else mem_r32 K c a)"
    "b \<in> set world_counts \<Longrightarrow> mem_r8 K (mem_w32 K c w v) b = mem_r8 K c b"
    "m \<in> node_slots \<Longrightarrow> tag K (mem_w32 K c w v) m = tag K c m"
    "m \<in> node_slots \<Longrightarrow> class_byte K (mem_w32 K c w v) m = class_byte K c m"
  using w by (simp_all add: nx_def pv_def tag_def class_byte_def read_write node_rules)

lemma count_write:
  assumes w: "w \<in> set world_counts"
  shows "m \<in> node_slots \<Longrightarrow> nx K (mem_w8 K c w v) m = nx K c m"
    "m \<in> node_slots \<Longrightarrow> pv K (mem_w8 K c w v) m = pv K c m"
    "a \<in> set world_vars \<Longrightarrow> mem_r32 K (mem_w8 K c w v) a = mem_r32 K c a"
    "b \<in> set world_counts \<Longrightarrow> mem_r8 K (mem_w8 K c w v) b = (if b = w then v else mem_r8 K c b)"
    "m \<in> node_slots \<Longrightarrow> tag K (mem_w8 K c w v) m = tag K c m"
    "m \<in> node_slots \<Longrightarrow> class_byte K (mem_w8 K c w v) m = class_byte K c m"
  using w by (simp_all add: nx_def pv_def tag_def class_byte_def read_write node_rules)

text \<open>Stores to other fields of a node leave the links alone.\<close>
lemma field_write:
  assumes n: "n \<in> node_slots" and o: "unat i + k \<le> 0x20 \<or> 0x28 \<le> unat i \<and> unat i + k \<le> 0x88"
  shows "k = 1 \<Longrightarrow> same_world K {n} c (mem_w8 K c (n + i) v)"
    and "k = 4 \<Longrightarrow> same_world K {n} c (mem_w32 K c (n + i) w)"
proof -
  have i: "apart i k 36 4" "apart i k 32 4" "unat i + k \<le> 0x88" if "0 < k"
    using o that apart_below [of i k 36 4] apart_below [of i k 32 4] apart_below [of 36 4 i k]
      apart_below [of 32 4 i k] by auto
  show "k = 1 \<Longrightarrow> same_world K {n} c (mem_w8 K c (n + i) v)"
    unfolding same_world_def
  proof (intro conjI ballI)
    fix m assume k: "k = 1" and m: "m \<in> node_slots"
    show "nx K (mem_w8 K c (n + i) v) m = nx K c m" "pv K (mem_w8 K c (n + i) v) m = pv K c m"
      using n m i k by (cases "m = n"; simp add: nx_def pv_def read_write node_rules apart_same)+
  next
    fix m assume k: "k = 1" and "m \<in> node_slots - {n}"
    then have m: "m \<in> node_slots" "n \<noteq> m" by auto
    show "tag K (mem_w8 K c (n + i) v) m = tag K c m"
      "class_byte K (mem_w8 K c (n + i) v) m = class_byte K c m"
      using n m i k by (simp_all add: tag_def class_byte_def read_write node_rules)
  qed (use n i in \<open>simp_all add: read_write node_rules\<close>)
  show "k = 4 \<Longrightarrow> same_world K {n} c (mem_w32 K c (n + i) w)"
    unfolding same_world_def
  proof (intro conjI ballI)
    fix m assume k: "k = 4" and m: "m \<in> node_slots"
    show "nx K (mem_w32 K c (n + i) w) m = nx K c m" "pv K (mem_w32 K c (n + i) w) m = pv K c m"
      using n m i k by (cases "m = n"; simp add: nx_def pv_def read_write node_rules apart_same)+
  next
    fix m assume k: "k = 4" and "m \<in> node_slots - {n}"
    then have m: "m \<in> node_slots" "n \<noteq> m" by auto
    show "tag K (mem_w32 K c (n + i) w) m = tag K c m"
      "class_byte K (mem_w32 K c (n + i) w) m = class_byte K c m"
      using n m i k by (simp_all add: tag_def class_byte_def read_write node_rules)
  qed (use n i in \<open>simp_all add: read_write node_rules\<close>)
qed

end

section \<open>The abstract world\<close>

record object_world =
  free_nodes :: "nat \<Rightarrow> u32 list"
  active :: "nat \<Rightarrow> u32 list"

definition all_nodes :: "object_world \<Rightarrow> u32 list" where
  "all_nodes w = concat (map (free_nodes w) [0, 1, 2, 3, 4]) @ concat (map (active w) [0, 1, 2])"

definition represents :: "'c core_ops \<Rightarrow> 'c \<Rightarrow> object_world \<Rightarrow> bool" where
  "represents K c w \<longleftrightarrow>
     distinct (all_nodes w) \<and> set (all_nodes w) \<subseteq> node_slots \<and>
     (\<forall>k < 5. chain (nx K c) (mem_r32 K c (free_head (DESPAWN_POOL ! k))) (free_nodes w k) \<and>
        mem_r8 K c (free_cnt (DESPAWN_POOL ! k)) = of_nat (length (free_nodes w k))) \<and>
     (\<forall>l < 3. dlist (nx K c) (pv K c) (mem_r32 K c (LIST_HEAD ! l)) (mem_r32 K c (LIST_TAIL ! l))
          (active w l) \<and>
        (\<forall>n \<in> set (active w l). tag K c n = of_nat l))"

text \<open>Take the first free node of a class; append to an active list.\<close>
definition take_free :: "nat \<Rightarrow> object_world \<Rightarrow> (u32 \<times> object_world) option" where
  "take_free k w = (case free_nodes w k of [] \<Rightarrow> None
     | n # ns \<Rightarrow> Some (n, w\<lparr>free_nodes := (free_nodes w)(k := ns)\<rparr>))"

definition append_active :: "nat \<Rightarrow> u32 \<Rightarrow> object_world \<Rightarrow> object_world" where
  "append_active l n w = w\<lparr>active := (active w)(l := active w l @ [n])\<rparr>"

text \<open>What spawning class \<open>k\<close> onto list \<open>l\<close> does: class 0 keeps two spare nodes, class 1 falls back to
  class 2 when its pool is empty.\<close>
definition spec_spawn :: "nat \<Rightarrow> nat \<Rightarrow> object_world \<Rightarrow> (u32 \<times> object_world) option" where
  "spec_spawn k l w =
     (let from = (if k = 1 \<and> free_nodes w 1 = [] then 2 else k)
      in if k = 0 \<and> length (free_nodes w 0) < 3 then None
         else map_option (\<lambda>(n, w'). (n, append_active l n w')) (take_free from w))"

definition spec_despawn :: "nat \<Rightarrow> nat \<Rightarrow> u32 \<Rightarrow> object_world \<Rightarrow> object_world" where
  "spec_despawn k l n w =
     w\<lparr>free_nodes := (free_nodes w)(k := n # free_nodes w k),
       active := (active w)(l := remove1 n (active w l))\<rparr>"

lemmas list_tables = LIST_HEAD_def LIST_TAIL_def DESPAWN_POOL_def

lemma world_var_mem:
  "l < 3 \<Longrightarrow> LIST_HEAD ! l \<in> set world_vars" "l < 3 \<Longrightarrow> LIST_TAIL ! l \<in> set world_vars"
  "k < 5 \<Longrightarrow> free_head (DESPAWN_POOL ! k) \<in> set world_vars"
  "k < 5 \<Longrightarrow> free_cnt (DESPAWN_POOL ! k) \<in> set world_counts"
  by (auto simp: world_vars_def world_counts_def list_tables pools_def dest!: below_three below_five)

lemma world_vars_distinct:
  "\<lbrakk>l < 3; m < 3\<rbrakk> \<Longrightarrow> LIST_HEAD ! l \<noteq> LIST_TAIL ! m"
  "\<lbrakk>l < 3; m < 3\<rbrakk> \<Longrightarrow> (LIST_HEAD ! l = LIST_HEAD ! m) = (l = m)"
  "\<lbrakk>l < 3; m < 3\<rbrakk> \<Longrightarrow> (LIST_TAIL ! l = LIST_TAIL ! m) = (l = m)"
  "\<lbrakk>l < 3; k < 5\<rbrakk> \<Longrightarrow> LIST_HEAD ! l \<noteq> free_head (DESPAWN_POOL ! k)"
  "\<lbrakk>l < 3; k < 5\<rbrakk> \<Longrightarrow> LIST_TAIL ! l \<noteq> free_head (DESPAWN_POOL ! k)"
  "\<lbrakk>j < 5; k < 5\<rbrakk> \<Longrightarrow> (free_head (DESPAWN_POOL ! j) = free_head (DESPAWN_POOL ! k)) = (j = k)"
  "\<lbrakk>j < 5; k < 5\<rbrakk> \<Longrightarrow> (free_cnt (DESPAWN_POOL ! j) = free_cnt (DESPAWN_POOL ! k)) = (j = k)"
  by (auto simp: list_tables dest!: below_three below_five)

context guest_core
begin

lemma tag_stamp:
  assumes "n \<in> node_slots" "m \<in> node_slots"
  shows "tag K (mem_w8 K c (n + 10) v) m = (if m = n then v else tag K c m)"
    and "tag K (mem_w8 K c n v) m = tag K c m" "tag K (mem_w8 K c (n + 12) v) m = tag K c m"
    and "class_byte K (mem_w8 K c (n + 10) v) m = class_byte K c m"
    and "class_byte K (mem_w8 K c n v) m = class_byte K c m"
    and "class_byte K (mem_w8 K c (n + 12) v) m = class_byte K c m"
proof -
  have *: "apart (n + 12) 1 (n + 10) 1" "apart (n + 12) 1 (n + 0x28) 1" "apart (n + 10) 1 (n + 0x28) 1"
    "apart n 1 (n + 10) 1" "apart n 1 (n + 0x28) 1"
    by (simp_all add: apart_def word_self_minus)
  note r = tag_def class_byte_def read_write node_rules *
  have m0: "m \<noteq> n \<Longrightarrow> apart n 1 (m + 10) 1" "m \<noteq> n \<Longrightarrow> apart n 1 (m + 0x28) 1" "in_ram n 1"
    using assms node_apart_field [of n m 0 1 10 1] node_apart_field [of n m 0 1 "0x28" 1]
      node_field_ram [of n 0 1] by auto
  show "tag K (mem_w8 K c (n + 10) v) m = (if m = n then v else tag K c m)"
    "tag K (mem_w8 K c n v) m = tag K c m" "tag K (mem_w8 K c (n + 12) v) m = tag K c m"
    "class_byte K (mem_w8 K c (n + 10) v) m = class_byte K c m"
    "class_byte K (mem_w8 K c n v) m = class_byte K c m"
    "class_byte K (mem_w8 K c (n + 12) v) m = class_byte K c m"
    using assms m0 by (cases "m = n"; simp add: r)+
qed

text \<open>The three identity stores of a spawn, field by field.\<close>
lemma stamp_write:
  assumes n: "n \<in> node_slots"
  shows "same_world K {n} c (mem_w8 K c (n + 10) v)" "same_world K {n} c (mem_w8 K c n v)"
    "same_world K {n} c (mem_w8 K c (n + 12) v)"
  using field_write(1) [OF n, of 10 1] field_write(1) [OF n, of 0 1] field_write(1) [OF n, of 12 1]
  by simp_all

lemma stamp_links:
  assumes n: "n \<in> node_slots" and m: "m \<in> node_slots"
  shows "nx K (mem_w8 K c (n + 10) v) m = nx K c m" "nx K (mem_w8 K c n v) m = nx K c m"
    "nx K (mem_w8 K c (n + 12) v) m = nx K c m" "pv K (mem_w8 K c (n + 10) v) m = pv K c m"
    "pv K (mem_w8 K c n v) m = pv K c m" "pv K (mem_w8 K c (n + 12) v) m = pv K c m"
  using stamp_write [OF n, of c v] m by (simp_all add: same_world_def)

lemma stamp_vars:
  assumes n: "n \<in> node_slots" and a: "a \<in> set world_vars"
  shows "mem_r32 K (mem_w8 K c (n + 10) v) a = mem_r32 K c a"
    "mem_r32 K (mem_w8 K c n v) a = mem_r32 K c a" "mem_r32 K (mem_w8 K c (n + 12) v) a = mem_r32 K c a"
  using stamp_write [OF n, of c v] a by (simp_all add: same_world_def)

lemma stamp_counts:
  assumes n: "n \<in> node_slots" and a: "a \<in> set world_counts"
  shows "mem_r8 K (mem_w8 K c (n + 10) v) a = mem_r8 K c a"
    "mem_r8 K (mem_w8 K c n v) a = mem_r8 K c a" "mem_r8 K (mem_w8 K c (n + 12) v) a = mem_r8 K c a"
  using stamp_write [OF n, of c v] a by (simp_all add: same_world_def)

lemmas world_writes = next_write prev_write var_write count_write tag_stamp stamp_links stamp_vars
  stamp_counts

text \<open>Linking a node at the tail of an active list.\<close>
lemma link_tail_world:
  assumes n: "n \<in> node_slots" and l: "l < 3"
    and old: "old = mem_r32 K c (LIST_TAIL ! l)" "old = 0 \<or> old \<in> node_slots" "old \<noteq> n"
    and c': "c' = exec (spawn_link_stamp K n ref t 3 (of_nat l)) c"
  shows "m \<in> node_slots \<Longrightarrow> nx K c' m = (if m = n then 0 else if m = old then n else nx K c m)"
    "m \<in> node_slots \<Longrightarrow> pv K c' m = (if m = n then old else pv K c m)"
    "v \<in> set world_vars \<Longrightarrow> mem_r32 K c' v =
       (if v = LIST_TAIL ! l \<or> v = LIST_HEAD ! l \<and> old = 0 then n else mem_r32 K c v)"
    "b \<in> set world_counts \<Longrightarrow> mem_r8 K c' b = mem_r8 K c b"
    "m \<in> node_slots \<Longrightarrow> tag K c' m = (if m = n then of_nat l else tag K c m)"
    "m \<in> node_slots \<Longrightarrow> class_byte K c' m = class_byte K c m"
proof -
  define a where "a = mem_w32 K (mem_w32 K c (n + 36) 0) (n + 32) old"
  define b' where "b' = mem_w32 K (if old = 0 then mem_w32 K a (LIST_HEAD ! l) n else mem_w32 K a (old + 36) n)
      (LIST_TAIL ! l) n"
  note vars = world_var_mem(1,2) [OF l] world_vars_distinct(1) [OF l l]
  have old_a: "mem_r32 K (mem_w32 K c (n + 36) 0) (LIST_TAIL ! l) = old"
    using n vars by (simp add: world_writes old)
  have eq: "c' = mem_w8 K (mem_w8 K (mem_w8 K b' (n + 10) (of_nat l)) n 2) (n + 12) (ucast t)"
    using below_three [OF l] old_a
    by (elim disjE) (simp_all add: c' spawn_link_stamp_def b'_def a_def split_beta)
  note rules = eq b'_def a_def world_writes n vars
  have nz: "n \<noteq> 0" using n node_nonzero by auto
  show "m \<in> node_slots \<Longrightarrow> nx K c' m = (if m = n then 0 else if m = old then n else nx K c m)"
    "m \<in> node_slots \<Longrightarrow> pv K c' m = (if m = n then old else pv K c m)"
    "m \<in> node_slots \<Longrightarrow> tag K c' m = (if m = n then of_nat l else tag K c m)"
    "m \<in> node_slots \<Longrightarrow> class_byte K c' m = class_byte K c m"
    "b \<in> set world_counts \<Longrightarrow> mem_r8 K c' b = mem_r8 K c b"
    "v \<in> set world_vars \<Longrightarrow> mem_r32 K c' v =
       (if v = LIST_TAIL ! l \<or> v = LIST_HEAD ! l \<and> old = 0 then n else mem_r32 K c v)"
    using old(2,3) nz node_nonzero by (cases "old = 0"; auto simp: rules)+
qed

end

lemma set_all_nodes:
  "k < 5 \<Longrightarrow> set (free_nodes w k) \<subseteq> set (all_nodes w)" "l < 3 \<Longrightarrow> set (active w l) \<subseteq> set (all_nodes w)"
  by (auto simp: all_nodes_def dest!: below_five below_three)

lemma all_nodes_unfold:
  "all_nodes w = free_nodes w 0 @ free_nodes w 1 @ free_nodes w 2 @ free_nodes w 3 @ free_nodes w 4 @
     active w 0 @ active w 1 @ active w 2"
  by (simp add: all_nodes_def)

lemma all_nodes_spawn:
  assumes "k < 5" "l < 3" "free_nodes w k = n # ns"
    "w' = append_active l n (w\<lparr>free_nodes := (free_nodes w)(k := ns)\<rparr>)"
  shows "mset (all_nodes w') = mset (all_nodes w)"
  using below_five [OF assms(1)] below_three [OF assms(2)] assms(3,4)
  by (auto simp: all_nodes_unfold append_active_def)

lemma all_nodes_despawn:
  assumes "k < 5" "l < 3" "n \<in> set (active w l)"
  shows "mset (all_nodes (spec_despawn k l n w)) = mset (all_nodes w)"
  using below_five [OF assms(1)] below_three [OF assms(2)] assms(3)
  by (auto simp: all_nodes_unfold spec_despawn_def multiset_eq_iff)

lemma well_placed_mset:
  assumes "mset xs = mset ys"
  shows "distinct xs = distinct ys" "set xs = set ys"
  using assms by (metis mset_eq_imp_distinct_iff, metis set_mset_mset)

lemma represents_cong:
  assumes w: "represents K c w"
    and nodes: "\<And>m. m \<in> node_slots \<Longrightarrow> nx K d m = nx K c m \<and> pv K d m = pv K c m \<and> tag K d m = tag K c m"
    and vars: "\<And>v. v \<in> set world_vars \<Longrightarrow> mem_r32 K d v = mem_r32 K c v"
    and counts: "\<And>v. v \<in> set world_counts \<Longrightarrow> mem_r8 K d v = mem_r8 K c v"
  shows "represents K d w"
proof -
  have all: "set (all_nodes w) \<subseteq> node_slots" using w by (simp add: represents_def)
  have "chain (nx K d) a (free_nodes w k) = chain (nx K c) a (free_nodes w k)" if "k < 5" for k a
    using set_all_nodes(1) [OF that, of w] all nodes by (intro chain_cong) blast
  moreover have "linked (nx K d) (pv K d) p (active w l) q = linked (nx K c) (pv K c) p (active w l) q"
    if "l < 3" for l p q
    using set_all_nodes(2) [OF that, of w] all nodes by (intro linked_cong) blast
  moreover have "tag K d n = tag K c n" if "l < 3" "n \<in> set (active w l)" for l n
    using set_all_nodes(2) [OF that(1), of w] all nodes that(2) by blast
  ultimately show ?thesis
    using w by (simp add: represents_def dlist_def vars counts world_var_mem)
qed

context guest_core
begin

lemma represents_set_reg: "represents K c w \<Longrightarrow> represents K (set_reg K c i v) w"
  by (erule represents_cong)
    (auto simp: nx_def pv_def tag_def mem_set_reg node_rules)

end

lemma representsD:
  assumes "represents K c w"
  shows "distinct (all_nodes w)" "set (all_nodes w) \<subseteq> node_slots"
    and "k < 5 \<Longrightarrow> chain (nx K c) (mem_r32 K c (free_head (DESPAWN_POOL ! k))) (free_nodes w k)"
    and "k < 5 \<Longrightarrow> mem_r8 K c (free_cnt (DESPAWN_POOL ! k)) = of_nat (length (free_nodes w k))"
    and "l < 3 \<Longrightarrow> dlist (nx K c) (pv K c) (mem_r32 K c (LIST_HEAD ! l)) (mem_r32 K c (LIST_TAIL ! l)) (active w l)"
    and "l < 3 \<Longrightarrow> n \<in> set (active w l) \<Longrightarrow> tag K c n = of_nat l"
    and "k < 5 \<Longrightarrow> set (free_nodes w k) \<subseteq> node_slots" "l < 3 \<Longrightarrow> set (active w l) \<subseteq> node_slots"
proof -
  show *: "distinct (all_nodes w)" "set (all_nodes w) \<subseteq> node_slots"
    using assms by (simp_all add: represents_def)
  show "k < 5 \<Longrightarrow> set (free_nodes w k) \<subseteq> node_slots" "l < 3 \<Longrightarrow> set (active w l) \<subseteq> node_slots"
    using set_all_nodes [of _ w] *(2) by (meson subset_trans)+
qed (use assms in \<open>simp_all add: represents_def\<close>)

lemma all_nodes_disjoint:
  assumes "distinct (all_nodes w)"
  shows "k < 5 \<Longrightarrow> distinct (free_nodes w k)" "l < 3 \<Longrightarrow> distinct (active w l)"
    "k < 5 \<Longrightarrow> l < 3 \<Longrightarrow> set (free_nodes w k) \<inter> set (active w l) = {}"
    "j < 5 \<Longrightarrow> k < 5 \<Longrightarrow> j \<noteq> k \<Longrightarrow> set (free_nodes w j) \<inter> set (free_nodes w k) = {}"
    "l < 3 \<Longrightarrow> m < 3 \<Longrightarrow> l \<noteq> m \<Longrightarrow> set (active w l) \<inter> set (active w m) = {}"
proof -
  have d: "distinct (free_nodes w 0 @ free_nodes w 1 @ free_nodes w 2 @ free_nodes w 3 @ free_nodes w 4 @
     active w 0 @ active w 1 @ active w 2)" using assms by (simp only: all_nodes_unfold)
  note e = d [unfolded distinct_append set_append Int_Un_distrib Un_empty]
  show "k < 5 \<Longrightarrow> distinct (free_nodes w k)"
    by (drule below_five) (use d in \<open>elim disjE; simp\<close>)
  show "l < 3 \<Longrightarrow> distinct (active w l)"
    by (drule below_three) (use d in \<open>elim disjE; simp\<close>)
  show "k < 5 \<Longrightarrow> l < 3 \<Longrightarrow> set (free_nodes w k) \<inter> set (active w l) = {}"
    by (drule below_five, drule below_three) (use e in \<open>elim disjE; simp add: Int_commute\<close>)
  show "j < 5 \<Longrightarrow> k < 5 \<Longrightarrow> j \<noteq> k \<Longrightarrow> set (free_nodes w j) \<inter> set (free_nodes w k) = {}"
    by (drule below_five, drule below_five) (use e in \<open>elim disjE; simp add: Int_commute\<close>)
  show "l < 3 \<Longrightarrow> m < 3 \<Longrightarrow> l \<noteq> m \<Longrightarrow> set (active w l) \<inter> set (active w m) = {}"
    by (drule below_three, drule below_three) (use e in \<open>elim disjE; simp add: Int_commute\<close>)
qed

lemma distinct_front: "distinct xs \<Longrightarrow> xs = n # ns \<Longrightarrow> n \<notin> set ns"
  by simp

context guest_core
begin

lemma spawn_from_pool:
  assumes w: "represents K c w" and k: "k < 5" and l: "l < 3" and fl: "free_nodes w k = n # ns"
    and c1: "c1 = mem_w32 K (mem_w8 K c (free_cnt (DESPAWN_POOL ! k)) (of_nat (length ns)))
      (free_head (DESPAWN_POOL ! k)) (nx K c n)"
    and c': "c' = exec (spawn_link_stamp K n ref t 3 (of_nat l)) c1"
    and w': "w' = append_active l n (w\<lparr>free_nodes := (free_nodes w)(k := ns)\<rparr>)"
  shows "represents K c' w'" and "m \<in> node_slots \<Longrightarrow> class_byte K c' m = class_byte K c m"
proof -
  note D = representsD [OF w] all_nodes_disjoint [OF representsD(1) [OF w]]
  note mem = world_var_mem(3,4) [OF k]
  have n: "n \<in> node_slots" "n \<notin> set ns" using D(7,9) [OF k] fl by auto
  have n_active: "n \<notin> set (active w m)" if "m < 3" for m using D(11) [OF k that] fl by auto
  have n_free: "n \<notin> set (free_nodes w j)" if "j < 5" "j \<noteq> k" for j using D(12) [OF that(1) k that(2)] fl by auto
  have c1_nodes: "nx K c1 m = nx K c m" "pv K c1 m = pv K c m" "tag K c1 m = tag K c m"
    "class_byte K c1 m = class_byte K c m"
    if "m \<in> node_slots" for m using that mem by (simp_all add: c1 world_writes)
  have c1_vars: "mem_r32 K c1 v = (if v = free_head (DESPAWN_POOL ! k) then nx K c n else mem_r32 K c v)"
    if "v \<in> set world_vars" for v using that mem by (simp add: c1 world_writes)
  have c1_counts: "mem_r8 K c1 v = (if v = free_cnt (DESPAWN_POOL ! k) then of_nat (length ns) else mem_r8 K c v)"
    if "v \<in> set world_counts" for v using that mem by (simp add: c1 world_writes)
  define old where "old = mem_r32 K c1 (LIST_TAIL ! l)"
  have old: "old = mem_r32 K c (LIST_TAIL ! l)" "old = rear (active w l)"
    using D(5) [OF l] c1_vars [OF world_var_mem(2) [OF l]] world_vars_distinct(5) [OF l k]
    by (simp_all add: old_def dlist_def)
  have old_in: "old = 0 \<or> old \<in> set (active w l)"
    using old(2) rear_in [of "active w l"] by (cases "active w l = []") auto
  have fresh: "old = 0 \<or> old \<in> node_slots" "old \<noteq> n"
    using old_in n_active [OF l] D(8) [OF l] n(1) node_nonzero by auto
  note linked = link_tail_world [OF n(1) l old_def fresh c']
  have L: "nx K c' m = (if m = n then 0 else if m = old then n else nx K c m)"
      "pv K c' m = (if m = n then old else pv K c m)"
      "tag K c' m = (if m = n then of_nat l else tag K c m)" if "m \<in> node_slots" for m
    using linked(1,2,5) [OF that] c1_nodes [OF that] by simp_all
  show "m \<in> node_slots \<Longrightarrow> class_byte K c' m = class_byte K c m"
    using linked(6) c1_nodes(4) by simp
  note V = linked(3) and C = linked(4)
  have ms: "mset (all_nodes w') = mset (all_nodes w)" by (rule all_nodes_spawn [OF k l fl w'])
  show "represents K c' w'" unfolding represents_def
  proof (intro conjI allI impI ballI)
    show "distinct (all_nodes w')" "set (all_nodes w') \<subseteq> node_slots"
      using D(1,2) well_placed_mset [OF ms] by auto
  next
    fix j :: nat assume j: "j < 5"
    have old_free: "m \<noteq> old" if "m \<in> set (free_nodes w j)" for m
      using that old_in D(11) [OF j l] D(7) [OF j] node_nonzero by auto
    have cong: "chain (nx K c') a xs = chain (nx K c) a xs" if "set xs \<subseteq> set (free_nodes w j) - {n}" for a xs
      using that old_free D(7) [OF j] by (intro chain_cong) (auto simp: L subset_iff)
    show "chain (nx K c') (mem_r32 K c' (free_head (DESPAWN_POOL ! j))) (free_nodes w' j)"
    proof (cases "j = k")
      case True
      have "chain (nx K c) (nx K c n) ns" using D(3) [OF k] fl by simp
      then show ?thesis
        using True fl n(2) cong [of ns] w' V [OF world_var_mem(3) [OF k]] c1_vars [OF world_var_mem(3) [OF k]]
          world_vars_distinct(4,5) [OF l k] by (auto simp: append_active_def)
    next
      case False
      then show ?thesis
        using D(3) [OF j] n_free [OF j False] cong [of "free_nodes w j"] w' V [OF world_var_mem(3) [OF j]]
          c1_vars [OF world_var_mem(3) [OF j]] world_vars_distinct(6) [OF j k]
          world_vars_distinct(4,5) [OF l j] by (auto simp: append_active_def)
    qed
    show "mem_r8 K c' (free_cnt (DESPAWN_POOL ! j)) = of_nat (length (free_nodes w' j))"
      using D(4) [OF j] w' C [OF world_var_mem(4) [OF j]] c1_counts [OF world_var_mem(4) [OF j]]
        world_vars_distinct(7) [OF j k] by (auto simp: append_active_def)
  next
    fix m :: nat assume m: "m < 3"
    show "dlist (nx K c') (pv K c') (mem_r32 K c' (LIST_HEAD ! m)) (mem_r32 K c' (LIST_TAIL ! m)) (active w' m)"
    proof (cases "m = l")
      case True
      have "dlist (nx K c') (pv K c') (if old = 0 then n else mem_r32 K c (LIST_HEAD ! l)) n (active w l @ [n])"
        using D(5) [OF l] D(8) [OF l] D(10) [OF l] n_active [OF l] n(1) node_nonzero old(1)
        by (intro dlist_append_node [of "nx K c" "pv K c" _ old]) (auto simp: L subset_iff)
      then show ?thesis
        using True w' V [OF world_var_mem(1) [OF l]] V [OF world_var_mem(2) [OF l]]
          c1_vars [OF world_var_mem(1) [OF l]] world_vars_distinct(1) [OF l l] world_vars_distinct(4) [OF l k]
        by (auto simp: append_active_def)
    next
      case False
      have "old \<notin> set (active w m)" using old_in D(13) [OF l m] False D(8) [OF m] node_nonzero by auto
      then have "linked (nx K c') (pv K c') p (active w m) q = linked (nx K c) (pv K c) p (active w m) q" for p q
        using n_active [OF m] D(8) [OF m] by (intro linked_cong) (auto simp: L subset_iff)
      then show ?thesis
        using D(5) [OF m] False w' V [OF world_var_mem(1) [OF m]] V [OF world_var_mem(2) [OF m]]
          c1_vars [OF world_var_mem(1) [OF m]] c1_vars [OF world_var_mem(2) [OF m]]
          world_vars_distinct(1) [OF m l] world_vars_distinct(1) [OF l m] world_vars_distinct(2,3) [OF m l]
          world_vars_distinct(4,5) [OF m k]
        by (auto simp: dlist_def append_active_def)
    qed
    fix x assume "x \<in> set (active w' m)"
    then have "m = l \<and> x = n \<or> x \<in> set (active w m)" using w' by (auto simp: append_active_def split: if_splits)
    then show "tag K c' x = of_nat m"
      using L(3) [OF n(1)] L(3) [of x] D(6) [OF m, of x] D(8) [OF m] n_active [OF m] by auto
  qed
qed

end

lemma card_node_slots: "card node_slots \<le> 197"
proof -
  have "card node_slots \<le> (\<Sum>p \<in> set pools. card (set (slots p)))"
    unfolding node_slots_def by (rule card_UN_le) simp
  also have "\<dots> \<le> (\<Sum>p \<in> set pools. length (slots p))"
    by (intro sum_mono card_length)
  also have "\<dots> \<le> sum_list (map (\<lambda>p. length (slots p)) pools)"
    by (simp add: pools_def slots_def)
  also have "\<dots> = 197" by (simp add: pools_def slots_def)
  finally show ?thesis .
qed

lemma free_nodes_few:
  assumes "represents K c w" "k < 5"
  shows "length (free_nodes w k) < 256"
proof -
  have "length (free_nodes w k) = card (set (free_nodes w k))"
    using all_nodes_disjoint(1) [OF representsD(1) [OF assms(1)] assms(2)] by (simp add: distinct_card)
  also have "\<dots> \<le> card node_slots"
    using representsD(7) [OF assms] node_slots_def by (intro card_mono) auto
  finally show ?thesis using card_node_slots by simp
qed

lemma pool_tables:
  "FREE_HEAD = free_head (DESPAWN_POOL ! 0)" "FREE_CNT = free_cnt (DESPAWN_POOL ! 0)"
  "POOL2_HEAD = free_head (DESPAWN_POOL ! 1)" "POOL2_CNT = free_cnt (DESPAWN_POOL ! 1)"
  "POOL_VAR2 = DESPAWN_POOL ! 2" "POOL_VAR3 = DESPAWN_POOL ! 3" "POOL_VAR4 = DESPAWN_POOL ! 4"
  by (simp_all add: FREE_HEAD_def FREE_CNT_def POOL2_HEAD_def POOL2_CNT_def POOL_VAR2_def POOL_VAR3_def
      POOL_VAR4_def DESPAWN_POOL_def)

context guest_core
begin

lemma link_stamp_bytes:
  assumes n: "n \<in> node_slots" and c': "c' = exec (spawn_link_stamp K n ref t mode list) c"
  shows "mem_r8 K c' n = 2" "mem_r8 K c' (n + 10) = ucast list" "mem_r8 K c' (n + 12) = ucast t"
proof -
  have two: "(ucast (2 :: u32) :: u8) = 2" by simp
  have "\<exists>d. c' = mem_w8 K (mem_w8 K (mem_w8 K d (n + 10) (ucast list)) n 2) (n + 12) (ucast t)"
    unfolding c' spawn_link_stamp_def two [symmetric]
    by (simp only: Let_def split_beta exec_bind run_core snd_conv add_0_right) (rule exI, rule refl)
  moreover have "apart (n + 12) 1 (n + 10) 1" "apart (n + 12) 1 n 1" "apart n 1 (n + 10) 1" "in_ram n 1"
    "in_ram (n + 10) 1" "in_ram (n + 12) 1"
    using node_field_ram [OF n, of 0 1] node_field_ram [OF n, of 10 1] node_field_ram [OF n, of 12 1]
    by (simp_all add: apart_def word_self_minus)
  ultimately show "mem_r8 K c' n = 2" "mem_r8 K c' (n + 10) = ucast list" "mem_r8 K c' (n + 12) = ucast t"
    by (auto simp: read_write)
qed

lemma pool_spawn_world:
  assumes w: "represents K c w" and k: "k < 5" and l: "l < 3"
    and regs: "get_reg K c 6 = 3" "get_reg K c 7 = of_nat l"
  shows "free_nodes w k = [] \<Longrightarrow> run_state (pool_spawn K (DESPAWN_POOL ! k)) c = (0, c)"
    and "take_free k w = Some (n, v) \<Longrightarrow> result (pool_spawn K (DESPAWN_POOL ! k)) c = n \<and>
      represents K (exec (pool_spawn K (DESPAWN_POOL ! k)) c) (append_active l n v) \<and>
      mem_r8 K (exec (pool_spawn K (DESPAWN_POOL ! k)) c) n = 2 \<and>
      mem_r8 K (exec (pool_spawn K (DESPAWN_POOL ! k)) c) (n + 12) = ucast (get_reg K c 5) \<and>
      (\<forall>m \<in> node_slots. class_byte K (exec (pool_spawn K (DESPAWN_POOL ! k)) c) m = class_byte K c m)"
proof -
  note D = representsD [OF w]
  show "free_nodes w k = [] \<Longrightarrow> run_state (pool_spawn K (DESPAWN_POOL ! k)) c = (0, c)"
    using D(3) [OF k] by (simp add: pool_spawn_def)
  assume "take_free k w = Some (n, v)"
  then obtain ns where fl: "free_nodes w k = n # ns" and v: "v = w\<lparr>free_nodes := (free_nodes w)(k := ns)\<rparr>"
    by (auto simp: take_free_def split: list.splits)
  have n: "n \<in> node_slots" "n \<noteq> 0" and head: "mem_r32 K c (free_head (DESPAWN_POOL ! k)) = n"
    using D(7) [OF k] D(3) [OF k] fl by auto
  have cnt: "mem_r8 K c (free_cnt (DESPAWN_POOL ! k)) = of_nat (length ns) + 1"
    using D(4) [OF k] fl by simp
  define c1 where "c1 = mem_w32 K (mem_w8 K c (free_cnt (DESPAWN_POOL ! k)) (of_nat (length ns)))
      (free_head (DESPAWN_POOL ! k)) (nx K c n)"
  have run: "run_state (pool_spawn K (DESPAWN_POOL ! k)) c =
      (n, exec (spawn_link_stamp K n (get_reg K c 4) (get_reg K c 5 AND 0xFF) 3 (of_nat l)) c1)"
    using n(2) head cnt count_write(1) [OF world_var_mem(4) [OF k] n(1), of c "of_nat (length ns)"]
    by (simp add: pool_spawn_def regs c1_def nx_def split_beta ucast_u8_mask ucast_minus_u8)
  show "result (pool_spawn K (DESPAWN_POOL ! k)) c = n \<and>
      represents K (exec (pool_spawn K (DESPAWN_POOL ! k)) c) (append_active l n v) \<and>
      mem_r8 K (exec (pool_spawn K (DESPAWN_POOL ! k)) c) n = 2 \<and>
      mem_r8 K (exec (pool_spawn K (DESPAWN_POOL ! k)) c) (n + 12) = ucast (get_reg K c 5) \<and>
      (\<forall>m \<in> node_slots. class_byte K (exec (pool_spawn K (DESPAWN_POOL ! k)) c) m = class_byte K c m)"
    using spawn_from_pool [OF w k l fl c1_def refl] link_stamp_bytes [OF n(1) refl]
    by (simp add: run v ucast_u8_mask)
qed

end

context guest_core
begin

text \<open>The primitives of classes 0 and 1 in terms of the generic pop.\<close>
lemma spawn_variant_world:
  assumes w: "represents K c w" and k: "k < 5" and l: "l < 3"
    and regs: "get_reg K c 6 = 3" "get_reg K c 7 = of_nat l" "get_reg K c 5 = t AND 0xFF"
  shows "spec_spawn k l w = None \<Longrightarrow> result (spawn_variant_native K (of_nat k)) c = 0 \<and>
      represents K (exec (spawn_variant_native K (of_nat k)) c) w"
    and "spec_spawn k l w = Some (n, v) \<Longrightarrow> result (spawn_variant_native K (of_nat k)) c = n \<and>
      represents K (exec (spawn_variant_native K (of_nat k)) c) v \<and>
      mem_r8 K (exec (spawn_variant_native K (of_nat k)) c) n = 2 \<and>
      mem_r8 K (exec (spawn_variant_native K (of_nat k)) c) (n + 12) = ucast t \<and>
      (\<forall>m \<in> node_slots. class_byte K (exec (spawn_variant_native K (of_nat k)) c) m = class_byte K c m)"
proof -
  note D = representsD [OF w]
  let ?pool = "\<lambda>k. run_state (pool_spawn K (DESPAWN_POOL ! k)) c"
  define d where "d = set_reg K (set_reg K c 4 (get_reg K c 4)) 5 (get_reg K c 5 AND 0xFF)"
  have d: "represents K d w" "get_reg K d 6 = 3" "get_reg K d 7 = of_nat l" "get_reg K d 5 = t AND 0xFF"
    by (simp_all add: d_def represents_set_reg w reg_set_reg regs)
  have d_class: "class_byte K d m = class_byte K c m" if "m \<in> node_slots" for m
    using that by (simp add: d_def class_byte_def mem_set_reg node_rules)
  have zero: "run_state (spawn_variant_native K 0) c =
      (if length (free_nodes w 0) < 3 then (0, c) else ?pool 0)"
  proof -
    have "(mem_r8 K c (free_cnt (DESPAWN_POOL ! 0)) < 3) = (length (free_nodes w 0) < 3)"
      using D(4) [of 0] free_nodes_few [OF w, of 0]
      by (simp add: word_less_nat_alt unat_of_nat)
    moreover have "mem_r32 K c (free_head (DESPAWN_POOL ! 0)) \<noteq> 0" if "\<not> length (free_nodes w 0) < 3"
      using D(3) [of 0] D(7) [of 0] that by (cases "free_nodes w 0") auto
    ultimately show ?thesis
      by (simp add: spawn_variant_native_def entity_spawn_body_def pool_spawn_def pool_tables
          word_less_nat_alt split_beta)
  qed
  have one: "run_state (spawn_variant_native K 1) c =
      (if free_nodes w 1 = [] then run_state (pool_spawn K (DESPAWN_POOL ! 2)) d else ?pool 1)"
  proof (cases "free_nodes w 1")
    case Nil
    then show ?thesis using D(3) [of 1]
      by (simp add: spawn_variant_native_def spawn_pool2_body_def pool_tables split_beta d_def Let_def)
  next
    case (Cons m ns)
    then show ?thesis using D(3) [of 1]
      by (simp add: spawn_variant_native_def spawn_pool2_body_def pool_spawn_def pool_tables split_beta Let_def)
  qed
  have rest: "run_state (spawn_variant_native K 2) c = ?pool 2" "run_state (spawn_variant_native K 3) c = ?pool 3"
    "run_state (spawn_variant_native K 4) c = ?pool 4"
    by (simp_all add: spawn_variant_native_def pool_tables)
  have none: "take_free j w = None \<longleftrightarrow> free_nodes w j = []" for j
    by (simp add: take_free_def split: list.splits)
  note P = pool_spawn_world [OF w _ l regs(1,2)] and Q = pool_spawn_world [OF d(1) _ l d(2,3), of 2]
  note cases = spec_spawn_def zero one rest none w P Q d d_class regs ucast_u8_mask Let_def
  show "spec_spawn k l w = None \<Longrightarrow> result (spawn_variant_native K (of_nat k)) c = 0 \<and>
      represents K (exec (spawn_variant_native K (of_nat k)) c) w"
    using below_five [OF k] by (elim disjE; simp add: cases split: if_splits)
  show "spec_spawn k l w = Some (n, v) \<Longrightarrow> result (spawn_variant_native K (of_nat k)) c = n \<and>
      represents K (exec (spawn_variant_native K (of_nat k)) c) v \<and>
      mem_r8 K (exec (spawn_variant_native K (of_nat k)) c) n = 2 \<and>
      mem_r8 K (exec (spawn_variant_native K (of_nat k)) c) (n + 12) = ucast t \<and>
      (\<forall>m \<in> node_slots. class_byte K (exec (spawn_variant_native K (of_nat k)) c) m = class_byte K c m)"
    using below_five [OF k] by (elim disjE; auto simp: cases split: if_splits)
qed

lemma spawn_dispatch_world:
  assumes w: "represents K c w" and k: "unat (cls AND 0xFF) < 5" and l: "unat list < 3"
    and out: "run_state (spawn_dispatch K cls t list) c = (r, c')"
  shows "get_reg K c' 2 = r"
    and "spec_spawn (unat (cls AND 0xFF)) (unat list) w = None \<Longrightarrow> r = 0 \<and> represents K c' w"
    and "spec_spawn (unat (cls AND 0xFF)) (unat list) w = Some (n, v) \<Longrightarrow>
      r = n \<and> represents K c' v \<and> mem_r8 K c' n = 2 \<and> mem_r8 K c' (n + 12) = ucast t \<and>
      class_byte K c' n = class_byte K c n"
proof -
  define k' where "k' = unat (cls AND 0xFF)"
  define d where "d = set_reg K (set_reg K (set_reg K (set_reg K c 4 0) 5 (t AND 0xFF)) 6 3) 7 list"
  have d: "represents K d w" "get_reg K d 6 = 3" "get_reg K d 7 = of_nat (unat list)"
    "get_reg K d 5 = t AND 0xFF"
    by (simp_all add: d_def represents_set_reg w reg_set_reg)
  have cls: "cls AND 0xFF = of_nat k'" "k' < 5" using k by (simp_all add: k'_def)
  have lt: "\<not> 5 \<le> cls AND 0xFF" using k by (simp add: word_le_nat_alt)
  have run: "r = result (spawn_variant_native K (of_nat k')) d"
      "c' = set_reg K (exec (spawn_variant_native K (of_nat k')) d) 2 r"
    using out lt by (auto simp: spawn_dispatch_def split_beta d_def cls(1))
  note V = spawn_variant_world [OF d(1) cls(2) l d(2-4)]
  show "get_reg K c' 2 = r" by (simp add: run(2) reg_set_reg)
  show "spec_spawn (unat (cls AND 0xFF)) (unat list) w = None \<Longrightarrow> r = 0 \<and> represents K c' w"
    using V(1) by (simp add: run represents_set_reg k'_def)
  assume "spec_spawn (unat (cls AND 0xFF)) (unat list) w = Some (n, v)"
  then have S: "spec_spawn k' (unat list) w = Some (n, v)" by (simp add: k'_def)
  have n: "n \<in> node_slots"
    using S representsD(7) [OF w, of k'] representsD(7) [OF w, of 2] cls(2)
    by (auto simp: spec_spawn_def Let_def take_free_def split: if_splits list.splits)
  have "in_ram n 1" "in_ram (n + 12) 1"
    using node_field_ram [OF n, of 0 1] node_field_ram [OF n, of 12 1] by simp_all
  moreover have "class_byte K d n = class_byte K c n" "class_byte K (set_reg K e i x) n = class_byte K e n" for e i x
    using n by (simp_all add: d_def class_byte_def mem_set_reg node_rules)
  ultimately show "r = n \<and> represents K c' v \<and> mem_r8 K c' n = 2 \<and> mem_r8 K c' (n + 12) = ucast t \<and>
      class_byte K c' n = class_byte K c n"
    using V(2) [OF S] n by (simp add: run represents_set_reg mem_set_reg)
qed

end


text \<open>The number of child records of a class-4 node and the top of the record stack.\<close>
definition child_count :: "'c core_ops \<Rightarrow> 'c \<Rightarrow> u32 \<Rightarrow> u8" where
  "child_count K c n = mem_r8 K c (n + 9)"
definition record_top :: "'c core_ops \<Rightarrow> 'c \<Rightarrow> u32" where
  "record_top K c = mem_r32 K c 0x800E7E74"

text \<open>Where the stack of record pointers and its bookkeeping live.\<close>
definition beside_world :: "u32 \<Rightarrow> nat \<Rightarrow> bool" where
  "beside_world a k \<longleftrightarrow> 0 < k \<and> (0x800E80A4 \<le> unat a \<and> unat a + k \<le> 0x800ED8C4 \<or> a = 0x800E7E74 \<and> k = 4)"

context guest_core
begin

lemma beside_apart:
  assumes "beside_world a k"
  shows "n \<in> node_slots \<Longrightarrow> apart a k n 0x88" "v \<in> set world_vars \<Longrightarrow> apart a k v 4"
    "v \<in> set world_counts \<Longrightarrow> apart a k v 1" "in_ram a k"
proof -
  have a: "unat a + k \<le> 0x800ED8C4" "0x800E7E74 \<le> unat a" "0 < k"
    "0x800E80A4 \<le> unat a \<or> unat a = 0x800E7E74 \<and> k = 4"
    using assms by (auto simp: beside_world_def)
  then show "in_ram a k" by (simp add: in_ram_def)
  show "n \<in> node_slots \<Longrightarrow> apart a k n 0x88"
    using node_bounds [of n] a by (intro apart_below) auto
  have "v \<in> set world_vars \<Longrightarrow> unat a + k \<le> unat v \<and> unat v + 4 \<le> 2 ^ 32 \<or> unat v + 4 \<le> unat a"
    using a by (auto simp: world_vars_def LIST_HEAD_def LIST_TAIL_def pools_def)
  then show "v \<in> set world_vars \<Longrightarrow> apart a k v 4"
    using apart_below [of a k v 4] apart_below [of v 4 a k] a by auto
  have "v \<in> set world_counts \<Longrightarrow> unat a + k \<le> unat v \<and> unat v + 1 \<le> 2 ^ 32 \<or> unat v + 1 \<le> unat a"
    using a by (auto simp: world_counts_def pools_def)
  then show "v \<in> set world_counts \<Longrightarrow> apart a k v 1"
    using apart_below [of a k v 1] apart_below [of v 1 a k] a by auto
qed

lemma record_top_apart:
  "n \<in> node_slots \<Longrightarrow> unat i + k \<le> 0x88 \<Longrightarrow> 0 < k \<Longrightarrow> apart (n + i) k 0x800E7E74 4"
  "v \<in> set world_vars \<Longrightarrow> apart v 4 0x800E7E74 4" "v \<in> set world_counts \<Longrightarrow> apart v 1 0x800E7E74 4"
  "in_ram 0x800E7E74 4"
proof -
  have b: "beside_world 0x800E7E74 4" by (simp add: beside_world_def)
  show "n \<in> node_slots \<Longrightarrow> unat i + k \<le> 0x88 \<Longrightarrow> 0 < k \<Longrightarrow> apart (n + i) k 0x800E7E74 4"
    using apart_parts [OF apart_sym [OF beside_apart(1) [OF b]], of n i k 0 4] by simp
qed (use beside_apart(2-4) [of "0x800E7E74" 4] in \<open>auto simp: beside_world_def intro: apart_sym\<close>)

lemma side_writes:
  assumes m: "m \<in> node_slots"
  shows "n \<in> node_slots \<Longrightarrow> child_count K (mem_w32 K c (n + 36) v) m = child_count K c m"
    "n \<in> node_slots \<Longrightarrow> child_count K (mem_w32 K c (n + 32) v) m = child_count K c m"
    "a \<in> set world_vars \<Longrightarrow> child_count K (mem_w32 K c a v) m = child_count K c m"
    "a \<in> set world_counts \<Longrightarrow> child_count K (mem_w8 K c a b) m = child_count K c m"
    "n \<in> node_slots \<Longrightarrow> child_count K (mem_w8 K c (n + 0x28) b) m = child_count K c m"
proof -
  have *: "apart (n + 36) 4 (n + 9) 1" "apart (n + 32) 4 (n + 9) 1" "apart (n + 0x28) 1 (n + 9) 1" for n
    by (simp_all add: apart_same) (simp_all add: apart_def)
  show "n \<in> node_slots \<Longrightarrow> child_count K (mem_w32 K c (n + 36) v) m = child_count K c m"
    "n \<in> node_slots \<Longrightarrow> child_count K (mem_w32 K c (n + 32) v) m = child_count K c m"
    "n \<in> node_slots \<Longrightarrow> child_count K (mem_w8 K c (n + 0x28) b) m = child_count K c m"
    using m by (cases "m = n"; simp add: child_count_def read_write node_rules *)+
  show "a \<in> set world_vars \<Longrightarrow> child_count K (mem_w32 K c a v) m = child_count K c m"
    "a \<in> set world_counts \<Longrightarrow> child_count K (mem_w8 K c a b) m = child_count K c m"
    using m by (simp_all add: child_count_def read_write node_rules)
qed

lemma top_writes:
  "n \<in> node_slots \<Longrightarrow> record_top K (mem_w32 K c (n + 36) v) = record_top K c"
  "n \<in> node_slots \<Longrightarrow> record_top K (mem_w32 K c (n + 32) v) = record_top K c"
  "n \<in> node_slots \<Longrightarrow> record_top K (mem_w8 K c (n + 0x28) b) = record_top K c"
  "a \<in> set world_vars \<Longrightarrow> record_top K (mem_w32 K c a v) = record_top K c"
  "a \<in> set world_counts \<Longrightarrow> record_top K (mem_w8 K c a b) = record_top K c"
  by (simp_all add: record_top_def read_write node_rules record_top_apart)

text \<open>Unlinking a node of an active list: both neighbours, or the list's ends, are redirected.\<close>
lemma unlink_world:
  assumes w: "represents K c w" and l: "l < 2" and act: "active w l = ys @ n # zs"
    and c': "c' = exec (unlink_node K n) c"
  shows "m \<in> node_slots \<Longrightarrow> m \<noteq> n \<Longrightarrow> nx K c' m = (if m = pv K c n then nx K c n else nx K c m)"
    "m \<in> node_slots \<Longrightarrow> m \<noteq> n \<Longrightarrow> pv K c' m = (if m = nx K c n then pv K c n else pv K c m)"
    "v \<in> set world_vars \<Longrightarrow> mem_r32 K c' v =
       (if v = LIST_HEAD ! l \<and> pv K c n = 0 then nx K c n
        else if v = LIST_TAIL ! l \<and> nx K c n = 0 then pv K c n else mem_r32 K c v)"
    "b \<in> set world_counts \<Longrightarrow> mem_r8 K c' b = mem_r8 K c b"
    "m \<in> node_slots \<Longrightarrow> tag K c' m = tag K c m"
    "m \<in> node_slots \<Longrightarrow> class_byte K c' m = class_byte K c m"
    "m \<in> node_slots \<Longrightarrow> child_count K c' m = child_count K c m" "record_top K c' = record_top K c"
proof -
  note D = representsD [OF w] all_nodes_disjoint [OF representsD(1) [OF w]]
  have l3: "l < 3" using l by simp
  have dl: "dlist (nx K c) (pv K c) (mem_r32 K c (LIST_HEAD ! l)) (mem_r32 K c (LIST_TAIL ! l)) (ys @ n # zs)"
    using D(5) [OF l3] act by simp
  have dist: "distinct (ys @ n # zs)" using D(10) [OF l3] act by simp
  have n: "n \<in> node_slots" using D(8) [OF l3] act by simp
  have ends: "pv K c n = rear ys" "nx K c n = front zs"
    using dlist_remove_node(2,3) [OF dl dist refl refl] by auto
  define p where "p = pv K c n"
  define q where "q = nx K c n"
  have p: "p = 0 \<or> p \<in> node_slots" "p \<noteq> n \<or> p = 0" and q: "q = 0 \<or> q \<in> node_slots" "q \<noteq> n \<or> q = 0"
    and pq: "p = q \<Longrightarrow> p = 0"
    using rear_in [of ys] front_in [of zs] ends D(8) [OF l3] act dist
    by (cases "ys = []"; cases "zs = []"; auto simp: p_def q_def)+
  define h where "h = LIST_HEAD ! l"
  define t where "t = LIST_TAIL ! l"
  have vars: "h \<in> set world_vars" "t \<in> set world_vars" "h \<noteq> t"
    using world_var_mem(1,2) [OF l3] world_vars_distinct(1) [OF l3 l3] by (auto simp: h_def t_def)
  have l01: "l = 0 \<or> l = 1" using l by linarith
  have tagn: "mem_r8 K c (n + 10) = of_nat l" using D(6) [OF l3, of n] act by (simp add: tag_def)
  define c1 where "c1 = (if p \<noteq> 0 then mem_w32 K c (p + 36) q
     else if q \<noteq> 0 then mem_w32 K (mem_w32 K c h q) (q + 32) 0 else mem_w32 K c h q)"
  have eq: "c' = (if q \<noteq> 0 then mem_w32 K c1 (q + 32) p
     else if p \<noteq> 0 then mem_w32 K (mem_w32 K c1 t p) (p + 36) 0 else mem_w32 K c1 t p)"
    using l01 tagn unfolding c' unlink_node_def Let_def
    by (elim disjE)
      (simp_all add: split_beta p_def [symmetric, unfolded pv_def] q_def [symmetric, unfolded nx_def] c1_def
        h_def t_def)
  have z: "0 \<notin> node_slots" by (rule node_nonzero)
  note rules = eq c1_def world_writes vars vars(3) [symmetric] p_def [symmetric] q_def [symmetric]
    h_def [symmetric] t_def [symmetric]
  show "m \<in> node_slots \<Longrightarrow> m \<noteq> n \<Longrightarrow> nx K c' m = (if m = pv K c n then nx K c n else nx K c m)"
    "m \<in> node_slots \<Longrightarrow> m \<noteq> n \<Longrightarrow> pv K c' m = (if m = nx K c n then pv K c n else pv K c m)"
    "v \<in> set world_vars \<Longrightarrow> mem_r32 K c' v =
       (if v = LIST_HEAD ! l \<and> pv K c n = 0 then nx K c n
        else if v = LIST_TAIL ! l \<and> nx K c n = 0 then pv K c n else mem_r32 K c v)"
    "b \<in> set world_counts \<Longrightarrow> mem_r8 K c' b = mem_r8 K c b"
    "m \<in> node_slots \<Longrightarrow> tag K c' m = tag K c m"
    "m \<in> node_slots \<Longrightarrow> class_byte K c' m = class_byte K c m"
    using p q z by (cases "p = 0"; cases "q = 0"; auto simp: rules)+
  show "m \<in> node_slots \<Longrightarrow> child_count K c' m = child_count K c m" "record_top K c' = record_top K c"
    using p q z by (cases "p = 0"; cases "q = 0"; auto simp: rules side_writes top_writes)+
qed

end

lemma represents_same_world:
  assumes w: "represents K c w" and s: "same_world K {n} c d"
    and n: "\<And>l. l < 3 \<Longrightarrow> n \<notin> set (active w l)"
  shows "represents K d w"
proof -
  note D = representsD [OF w]
  have "chain (nx K d) a (free_nodes w k) = chain (nx K c) a (free_nodes w k)" if "k < 5" for k a
    using D(7) [OF that] s by (intro chain_cong) (auto simp: same_world_def)
  moreover have "linked (nx K d) (pv K d) p (active w l) q = linked (nx K c) (pv K c) p (active w l) q"
    if "l < 3" for l p q
    using D(8) [OF that] s by (intro linked_cong) (auto simp: same_world_def)
  moreover have "tag K d m = tag K c m" if "l < 3" "m \<in> set (active w l)" for l m
    using D(8) [OF that(1)] that(2) s n [OF that(1)] by (auto simp: same_world_def)
  ultimately show ?thesis
    using w s by (simp add: represents_def dlist_def same_world_def world_var_mem)
qed

context guest_core
begin

lemma beside_write:
  assumes w: "represents K c w"
  shows "beside_world a 2 \<Longrightarrow> represents K (mem_w16 K c a h) w"
    and "beside_world a 4 \<Longrightarrow> represents K (mem_w32 K c a v) w"
proof -
  have f: "apart a k (m + 36) 4" "apart a k (m + 32) 4" "apart a k (m + 10) 1"
    if "beside_world a k" "m \<in> node_slots" for k m
    using apart_parts [OF beside_apart(1) [OF that], of 0 k 36 4]
      apart_parts [OF beside_apart(1) [OF that], of 0 k 32 4]
      apart_parts [OF beside_apart(1) [OF that], of 0 k 10 1] that(1)
    by (auto simp: beside_world_def)
  show "beside_world a 2 \<Longrightarrow> represents K (mem_w16 K c a h) w"
    by (rule represents_cong [OF w])
      (auto simp: nx_def pv_def tag_def read_write node_rules f beside_apart)
  show "beside_world a 4 \<Longrightarrow> represents K (mem_w32 K c a v) w"
    by (rule represents_cong [OF w])
      (auto simp: nx_def pv_def tag_def read_write node_rules f beside_apart)
qed

text \<open>Returning the child records keeps the world, as long as the record stack has room.\<close>
lemma free_children_world:
  assumes "represents K c w" "0x800E80A4 + 4 * length xs \<le> unat (mem_r32 K c 0x800E7E74)"
    "unat (mem_r32 K c 0x800E7E74) \<le> 0x800ED8C4"
  shows "represents K (exec (for_each xs (free_child_record K n)) c) w"
  using assms
proof (induction xs arbitrary: c)
  case (Cons x xs)
  define p where "p = mem_r32 K c 0x800E7E74"
  have p4: "unat (p - 4) = unat p - 4" using Cons.prems(2) by (simp add: p_def unat_sub_if')
  have "0x800E80A4 + 4 * length (x # xs) \<le> unat p" using Cons.prems(2) by (simp only: p_def)
  then have room: "0x800E80A4 \<le> unat p - 4" by (simp; linarith)
  have b: "beside_world 0x800ED098 2" "beside_world 0x800E7E74 4" "beside_world (p - 4) 4"
    using room Cons.prems(2,3) by (simp_all add: beside_world_def p4 p_def [symmetric])
  have ap: "apart (p - 4) 4 0x800E7E74 4"
    using Cons.prems(2,3) apart_below(2) [of "0x800E7E74" 4 "p - 4" 4] by (simp add: p_def [symmetric] p4)
  define d where "d = exec (free_child_record K n x) c"
  obtain v child where d: "d = mem_w32 K (mem_w32 K (mem_w16 K c 0x800ED098 v) 0x800E7E74 (p - 4)) (p - 4) child"
    by (simp add: d_def free_child_record_def p_def split_beta)
  have "mem_r32 K d 0x800E7E74 = p - 4"
    using ap beside_apart(4) [OF b(3)] by (simp add: d read_write in_ram_def)
  moreover have "represents K d w"
    unfolding d by (intro beside_write b Cons.prems(1))
  ultimately have "represents K (exec (for_each xs (free_child_record K n)) d) w"
    using Cons.prems(2,3) p4 by (intro Cons.IH) (simp_all add: p_def [symmetric])
  then show ?case by (simp add: d_def split_beta)
qed simp

text \<open>Pushing an unlinked node onto its class's free list.\<close>
lemma push_world:
  assumes w: "represents K c w" and l: "l < 2" and act: "active w l = ys @ n # zs" and k: "k < 5"
    and d: "d = mem_w8 K (exec (unlink_node K n) c) (n + 0x28) b"
    and h: "h = mem_r32 K c (free_head (DESPAWN_POOL ! k))"
    and c': "c' = mem_w8 K (mem_w32 K (mem_w32 K d (n + 36) h) (free_head (DESPAWN_POOL ! k)) n)
      (free_cnt (DESPAWN_POOL ! k)) (mem_r8 K c (free_cnt (DESPAWN_POOL ! k)) + 1)"
  shows "represents K c' (spec_despawn k l n w)"
proof -
  define w' where "w' = spec_despawn k l n w"
  note D = representsD [OF w] all_nodes_disjoint [OF representsD(1) [OF w]]
  have l3: "l < 3" using l by simp
  have dist: "distinct (ys @ n # zs)" using D(10) [OF l3] act by simp
  have act': "remove1 n (active w l) = ys @ zs" using dist act by (simp add: remove1_append)
  have n: "n \<in> node_slots" "n \<in> set (active w l)" using D(8) [OF l3] act by auto
  have nz: "n \<noteq> 0" using n(1) node_nonzero by auto
  have n_free: "n \<notin> set (free_nodes w j)" if "j < 5" for j using D(11) [OF that l3] n(2) by auto
  have n_active: "n \<notin> set (active w m)" if "m < 3" "m \<noteq> l" for m using D(13) [OF that(1) l3 that(2)] n(2) by auto
  note mem = world_var_mem(3,4) [OF k]
  define p where "p = pv K c n"
  define q where "q = nx K c n"
  have dl: "dlist (nx K c) (pv K c) (mem_r32 K c (LIST_HEAD ! l)) (mem_r32 K c (LIST_TAIL ! l)) (ys @ n # zs)"
    using D(5) [OF l3] act by simp
  have ends: "p = rear ys" "q = front zs"
    using dlist_remove_node(2,3) [OF dl dist refl refl] by (auto simp: p_def q_def)
  have pq_in: "p = 0 \<or> p \<in> set (active w l)" "q = 0 \<or> q \<in> set (active w l)"
    using ends rear_in [of ys] front_in [of zs] act by (cases "ys = []"; cases "zs = []"; auto)+
  note U = unlink_world [OF w l act refl]
  have field: "same_world K {n} (exec (unlink_node K n) c) d"
    unfolding d using n(1) by (intro field_write(1)) simp_all
  have d_nodes: "nx K d m = nx K (exec (unlink_node K n) c) m" "pv K d m = pv K (exec (unlink_node K n) c) m"
    if "m \<in> node_slots" for m using field that by (simp_all add: same_world_def)
  have d_vars: "mem_r32 K d v = mem_r32 K (exec (unlink_node K n) c) v" if "v \<in> set world_vars" for v
    using field that by (simp add: same_world_def)
  have d_counts: "mem_r8 K d v = mem_r8 K (exec (unlink_node K n) c) v" if "v \<in> set world_counts" for v
    using field that by (simp add: same_world_def)
  have L: "nx K c' m = (if m = p then q else nx K c m)" "pv K c' m = (if m = q then p else pv K c m)"
      "tag K c' m = tag K c m" if "m \<in> node_slots" "m \<noteq> n" for m
    using that field n(1) mem U(1,2,5) [OF that(1)] that d_nodes [OF that(1)]
    by (auto simp: c' world_writes p_def q_def same_world_def)
  have Ln: "nx K c' n = h" using n(1) mem by (simp add: c' world_writes)
  have V: "mem_r32 K c' v = (if v = free_head (DESPAWN_POOL ! k) then n
      else if v = LIST_HEAD ! l \<and> p = 0 then q else if v = LIST_TAIL ! l \<and> q = 0 then p else mem_r32 K c v)"
    if "v \<in> set world_vars" for v
  proof -
    have "mem_r32 K c' v = (if v = free_head (DESPAWN_POOL ! k) then n else mem_r32 K d v)"
      using n(1) mem that by (simp add: c' world_writes)
    then show ?thesis by (simp only: d_vars [OF that] U(3) [OF that] p_def q_def)
  qed
  have C: "mem_r8 K c' v = (if v = free_cnt (DESPAWN_POOL ! k) then mem_r8 K c v + 1 else mem_r8 K c v)"
    if "v \<in> set world_counts" for v
    using n(1) mem U(4) [OF that] d_counts [OF that] that by (simp add: c' world_writes)
  have ms: "mset (all_nodes w') = mset (all_nodes w)"
    unfolding w'_def by (rule all_nodes_despawn [OF k l3 n(2)])
  have "represents K c' w'" unfolding represents_def
  proof (intro conjI allI impI ballI)
    show "distinct (all_nodes w')" "set (all_nodes w') \<subseteq> node_slots"
      using D(1,2) well_placed_mset [OF ms] by auto
  next
    fix j :: nat assume j: "j < 5"
    have "m \<noteq> p" if "m \<in> set (free_nodes w j)" for m
      using that pq_in(1) D(11) [OF j l3] D(7) [OF j] node_nonzero by auto
    then have cong: "chain (nx K c') a (free_nodes w j) = chain (nx K c) a (free_nodes w j)" for a
      using n_free [OF j] D(7) [OF j] L(1) by (intro chain_cong) (metis subsetD)
    show "chain (nx K c') (mem_r32 K c' (free_head (DESPAWN_POOL ! j))) (free_nodes w' j)"
      using D(3) [OF j] h Ln nz w'_def cong V [OF world_var_mem(3) [OF j]]
        world_vars_distinct(6) [OF j k] world_vars_distinct(4,5) [OF l3 j]
      by (auto simp: spec_despawn_def)
    show "mem_r8 K c' (free_cnt (DESPAWN_POOL ! j)) = of_nat (length (free_nodes w' j))"
      using D(4) [OF j] w'_def C [OF world_var_mem(4) [OF j]] world_vars_distinct(7) [OF j k]
      by (auto simp: spec_despawn_def)
  next
    fix m :: nat assume m: "m < 3"
    show "dlist (nx K c') (pv K c') (mem_r32 K c' (LIST_HEAD ! m)) (mem_r32 K c' (LIST_TAIL ! m)) (active w' m)"
    proof (cases "m = l")
      case True
      have "x \<in> node_slots \<and> x \<noteq> n" if "x \<in> set (ys @ zs)" for x
        using that D(8) [OF l3] act dist by auto
      then have "dlist (nx K c') (pv K c') (if pv K c n = 0 then nx K c n else mem_r32 K c (LIST_HEAD ! l))
          (if nx K c n = 0 then pv K c n else mem_r32 K c (LIST_TAIL ! l)) (ys @ zs)"
        by (intro dlist_remove_node(1) [OF dl dist]) (simp_all add: L p_def q_def)
      moreover have "mem_r32 K c' (LIST_HEAD ! l) = (if pv K c n = 0 then nx K c n else mem_r32 K c (LIST_HEAD ! l))"
        using V [OF world_var_mem(1) [OF l3]] world_vars_distinct(1) [OF l3 l3] world_vars_distinct(4) [OF l3 k]
        by (simp add: p_def q_def)
      moreover have "mem_r32 K c' (LIST_TAIL ! l) = (if nx K c n = 0 then pv K c n else mem_r32 K c (LIST_TAIL ! l))"
        using V [OF world_var_mem(2) [OF l3]] world_vars_distinct(1) [OF l3 l3] world_vars_distinct(5) [OF l3 k]
        by (simp add: p_def q_def)
      ultimately show ?thesis
        using True act' by (simp only: w'_def spec_despawn_def) simp
    next
      case False
      have "x \<in> node_slots \<and> x \<noteq> n \<and> x \<noteq> p \<and> x \<noteq> q" if "x \<in> set (active w m)" for x
        using that pq_in D(13) [OF l3 m] False D(8) [OF m] node_nonzero n_active [OF m False] by auto
      then have "linked (nx K c') (pv K c') a (active w m) b = linked (nx K c) (pv K c) a (active w m) b" for a b
        by (intro linked_cong) (simp add: L)
      then show ?thesis
        using D(5) [OF m] False w'_def V [OF world_var_mem(1) [OF m]] V [OF world_var_mem(2) [OF m]]
          world_vars_distinct(1) [OF m l3] world_vars_distinct(1) [OF l3 m] world_vars_distinct(2,3) [OF m l3]
          world_vars_distinct(4,5) [OF m k]
        by (auto simp: dlist_def spec_despawn_def)
    qed
    fix x assume "x \<in> set (active w' m)"
    then have "x \<in> set (active w m)" "x \<noteq> n"
      using w'_def act act' dist n_active [OF m] by (auto simp: spec_despawn_def split: if_splits)
    then show "tag K c' x = of_nat m" using L(3) [of x] D(6) [OF m] D(8) [OF m] by auto
  qed
  then show ?thesis by (simp add: w'_def)
qed

end

text \<open>The node's class and, for class 4, room on the record stack for its child records.\<close>
definition despawn_ready :: "'c core_ops \<Rightarrow> 'c \<Rightarrow> u32 \<Rightarrow> nat \<Rightarrow> bool" where
  "despawn_ready K c n k \<longleftrightarrow> unat (class_byte K c n AND 0x7F) = k \<and> k < 5 \<and>
     (k = 4 \<longrightarrow> 0x800E80A4 + 4 * unat (child_count K c n) \<le> unat (record_top K c) \<and>
        unat (record_top K c) \<le> 0x800ED8C4)"

lemma u8_mask7:
  "(ucast (x :: u8) AND 0x7F :: u32) AND 0xFF = ucast (x AND 0x7F)"
  "(ucast (ucast (x :: u8) AND 0x7F :: u32) :: u8) = x AND 0x7F"
proof -
  have m: "(0x7F :: u32) = mask 7" "(0x7F :: u8) = mask 7" by (simp_all add: mask_eq_exp_minus_1)
  show "(ucast (x :: u8) AND 0x7F :: u32) AND 0xFF = ucast (x AND 0x7F)"
    "(ucast (ucast (x :: u8) AND 0x7F :: u32) :: u8) = x AND 0x7F"
    by (simp only: m mask_numerals; rule bit_word_eqI; auto simp: bit_simps)+
qed

declare same_world_trans [trans]

context guest_core
begin

lemma clear_node_world:
  assumes n: "n \<in> node_slots"
  shows "same_world K {n} c (exec (clear_node K n) c)" "mem_r8 K (exec (clear_node K n) c) n = 0"
proof -
  note f4 = field_write(2) [OF n _ refl] and f1 = field_write(1) [OF n _ refl]
  have s0: "same_world K {n} c (mem_w32 K c n 0)" for c using f4 [of 0] by simp
  define d where "d = exec (for_each [4, 8, 0xC, 0x10, 0x14, 0x18, 0x38] (\<lambda>o1. w32 K (n + o1) 0)) (mem_w32 K c n 0)"
  have eq: "exec (clear_node K n) c =
      mem_w8 K (mem_w8 K (mem_w8 K (mem_w8 K d (n + 0x2A) 0) (n + 0x2B) 0) (n + 0x29) 0) (n + 0x5E) 0"
    by (simp add: clear_node_def d_def split_beta)
  have "same_world K {n} c d"
    unfolding d_def
  proof (rule for_each_invariant)
    show "same_world K {n} c (mem_w32 K c n 0)" by (rule s0)
    fix x c' assume "x \<in> set [4, 8, 0xC, 0x10, 0x14, 0x18, 0x38 :: u32]" "same_world K {n} c c'"
    then show "same_world K {n} c (exec (w32 K (n + x) 0) c')"
      using f4 [of x c' 0] by (auto intro: same_world_trans)
  qed
  also have "same_world K {n} d (mem_w8 K d (n + 0x2A) 0)" by (rule f1) simp
  also have "same_world K {n} \<dots> (mem_w8 K \<dots> (n + 0x2B) 0)" by (rule f1) simp
  also have "same_world K {n} \<dots> (mem_w8 K \<dots> (n + 0x29) 0)" by (rule f1) simp
  also have "same_world K {n} \<dots> (mem_w8 K \<dots> (n + 0x5E) 0)" by (rule f1) simp
  finally show "same_world K {n} c (exec (clear_node K n) c)" by (simp only: eq)
  have w: "writes_within K {x. 4 \<le> unat (x - n) \<and> unat (x - n) < 0x88}
     (do { for_each [4, 8, 0xC, 0x10, 0x14, 0x18, 0x38] (\<lambda>o1. w32 K (n + o1) 0);
       w8 K (n + 0x2A) 0; w8 K (n + 0x2B) 0; w8 K (n + 0x29) 0; w8 K (n + 0x5E) 0 })"
    using node_field_ram [OF n]
    by (intro footprint) (auto simp: unat_word_ariths)
  have "exec (clear_node K n) c = exec (do { for_each [4, 8, 0xC, 0x10, 0x14, 0x18, 0x38] (\<lambda>o1. w32 K (n + o1) 0);
       w8 K (n + 0x2A) 0; w8 K (n + 0x2B) 0; w8 K (n + 0x29) 0; w8 K (n + 0x5E) 0 }) (mem_w32 K c n 0)"
    by (simp add: clear_node_def split_beta)
  moreover have "in_ram n 1" "in_ram n 4"
    using node_field_ram [OF n, of 0 1] node_field_ram [OF n, of 0 4] by simp_all
  ultimately show "mem_r8 K (exec (clear_node K n) c) n = 0"
    using writes_withinD [OF w, of n] by (simp add: r8_w32)
qed

lemma despawn_world:
  assumes w: "represents K c w" and l: "l < 2" and n: "n \<in> set (active w l)"
    and ready: "despawn_ready K c n k"
  shows "represents K (exec (despawn K n) c) (spec_despawn k l n w)"
    "mem_r8 K (exec (despawn K n) c) n = 0"
proof -
  have l3: "l < 3" using l by simp
  obtain ys zs where act: "active w l = ys @ n # zs" using n by (meson split_list)
  have ns: "n \<in> node_slots" using representsD(8) [OF w l3] n by auto
  have k: "k < 5" "class_byte K c n AND 0x7F = of_nat k"
    using ready by (auto simp: despawn_ready_def)
  define e where "e = exec (unlink_node K n) c"
  have cb: "mem_r8 K e (n + 0x28) = class_byte K c n"
    using unlink_world(6) [OF w l act e_def ns] by (simp add: class_byte_def)
  show "represents K (exec (despawn K n) c) (spec_despawn k l n w)" "mem_r8 K (exec (despawn K n) c) n = 0"
  proof -
    define P where "P = DESPAWN_POOL ! k"
    define d where "d = mem_w8 K e (n + 0x28) (class_byte K c n AND 0x7F)"
    define h where "h = mem_r32 K c (free_head (P))"
    define f where "f = mem_w8 K (mem_w32 K (mem_w32 K d (n + 36) h) (free_head (P)) n)
      (free_cnt (P)) (mem_r8 K c (free_cnt (P)) + 1)"
    have f: "represents K f (spec_despawn k l n w)"
      by (rule push_world [OF w l act k(1) d_def [unfolded e_def] h_def [unfolded P_def] f_def [unfolded P_def]])
    note U = unlink_world [OF w l act e_def]
    note mem = world_var_mem(3,4) [OF k(1), folded P_def]
    have head: "mem_r32 K d (free_head (P)) = h"
      using U(3) [OF mem(1)] world_vars_distinct(4,5) [OF l3 k(1), folded P_def] field_write(1) [OF ns, of "0x28" 1 e] mem
      by (auto simp: d_def h_def same_world_def)
    have cnt: "mem_r8 K (mem_w32 K (mem_w32 K d (n + 36) h) (free_head (P)) n)
        (free_cnt (P)) = mem_r8 K c (free_cnt (P))"
      using U(4) [OF mem(2)] field_write(1) [OF ns, of "0x28" 1 e] mem ns
      by (simp add: world_writes) (simp add: d_def same_world_def)
    have side: "child_count K f n = child_count K c n" "record_top K f = record_top K c"
      using U(7) [OF ns] U(8) mem ns by (simp_all add: f_def d_def side_writes top_writes)
    have idx: "(ucast (class_byte K c n) AND 0x7F :: u32) AND 0xFF = of_nat k"
      by (simp only: u8_mask7 k(2)) (use k(1) in \<open>simp add: word_unat_eq_iff unat_of_nat\<close>)
    define g where "g = exec (push_free K n) e"
    define records :: "u32 list" where "records = map of_nat (rev [1..<unat (child_count K c n) + 1])"
    have n_act: "n \<notin> set (active (spec_despawn k l n w) m)" if "m < 3" for m
      using all_nodes_disjoint(2) [OF representsD(1) [OF w] l3]
        all_nodes_disjoint(5) [OF representsD(1) [OF w] l3 that] n by (auto simp: spec_despawn_def)
    have below: "(of_nat k :: u32) < 5" "unat (of_nat k :: u32) = k" "((of_nat k :: u32) = 4) = (k = 4)"
      using below_five [OF k(1)] by auto
    have n9: "mem_r8 K f (n + 9) = child_count K c n"
      using side(1) by (simp add: child_count_def)
    have g: "g = (if k = 4 then mem_w8 K (exec (for_each records (free_child_record K n)) f) (n + 9) 0 else f)"
      unfolding g_def push_free_def Let_def exec_bind run_core fst_conv snd_conv
      by (simp only: cb idx below if_True P_def [symmetric])
        (simp add: u8_mask7(2) d_def [symmetric] head cnt ucast_plus_u8 f_def [symmetric] n9 records_def split_beta)
    have "represents K g (spec_despawn k l n w)"
    proof (cases "k = 4")
      case True
      have "represents K (exec (for_each records (free_child_record K n)) f) (spec_despawn k l n w)"
        using ready True side(2)
        by (intro free_children_world f) (simp_all add: despawn_ready_def record_top_def records_def)
      then show ?thesis
        using True n_act field_write(1) [OF ns, of 9 1] by (auto simp: g intro: represents_same_world)
    qed (simp add: g f)
    moreover have "exec (despawn K n) c = exec (clear_node K n) g"
      by (simp add: despawn_def split_beta g_def e_def)
    ultimately show "represents K (exec (despawn K n) c) (spec_despawn k l n w)"
      "mem_r8 K (exec (despawn K n) c) n = 0"
      using represents_same_world [OF _ _ n_act] clear_node_world [OF ns, of g] by auto
  qed
qed

end


lemma spec_round_trip:
  assumes "spec_spawn k l w = Some (n, v)" "k < 5" "l < 3" "distinct (all_nodes w)"
  shows "n \<in> set (active v l)"
    and "spec_despawn (if k = 1 \<and> free_nodes w 1 = [] then 2 else k) l n v = w"
proof -
  define j where "j = (if k = 1 \<and> free_nodes w 1 = [] then 2 else k)"
  obtain ns where fl: "free_nodes w j = n # ns"
    and v: "v = append_active l n (w\<lparr>free_nodes := (free_nodes w)(j := ns)\<rparr>)"
    using assms(1) by (auto simp: spec_spawn_def Let_def j_def [symmetric] take_free_def split: if_splits list.splits)
  have "j < 5" using assms(2) by (simp add: j_def)
  then have "n \<notin> set (active w l)"
    using all_nodes_disjoint(3) [OF assms(4) _ assms(3), of j] fl by auto
  then have "remove1 n (active w l @ [n]) = active w l" by (simp add: remove1_append)
  then show "n \<in> set (active v l)"
    and "spec_despawn (if k = 1 \<and> free_nodes w 1 = [] then 2 else k) l n v = w"
    using fl unfolding j_def [symmetric] by (simp_all add: v append_active_def spec_despawn_def fun_upd_idem)
qed


end
