(* ===== verification/PoolStart.thy ===== *)
theory PoolStart
  imports ObjectWorld
begin

text \<open>
  How the object pools come up: \<open>Pool::initTypedPools\<close> turns every typed pool into one complete free
  list, in slot order. Each pool is built inside its own region of memory, so the five loops do not
  disturb one another.
\<close>

section \<open>Loops whose iterations write apart\<close>

text \<open>If every iteration establishes its own fact and keeps the facts of the others, the loop
  establishes them all.\<close>
lemma for_each_establishes:
  assumes "distinct xs"
    and "\<And>x c. x \<in> set xs \<Longrightarrow> Q x (exec (f x) c)"
    and "\<And>x y c. x \<in> set xs \<Longrightarrow> y \<in> set xs \<Longrightarrow> x \<noteq> y \<Longrightarrow> Q x c \<Longrightarrow> Q x (exec (f y) c)"
  shows "\<forall>x \<in> set xs. Q x (exec (for_each xs f) c)"
  using assms
proof (induction xs arbitrary: c)
  case (Cons y ys)
  have later: "Q y (exec (for_each ys f) (exec (f y) c))"
  proof (rule for_each_invariant)
    show "Q y (exec (f y) c)" using Cons.prems(2) by simp
    show "Q y (exec (f x) d)" if "x \<in> set ys" "Q y d" for x d
    proof (rule Cons.prems(3))
      show "y \<noteq> x" using Cons.prems(1) that(1) by auto
    qed (use that in simp_all)
  qed
  have "\<forall>x \<in> set ys. Q x (exec (for_each ys f) (exec (f y) c))"
    using Cons.prems by (intro Cons.IH) auto
  then show ?case using later by (simp add: split_beta)
qed simp

section \<open>The regions of the pools\<close>

definition stretch :: "nat \<Rightarrow> nat \<Rightarrow> u32 set" where
  "stretch a n = {b. a \<le> unat b \<and> unat b < a + n}"

definition pool_region :: "pool_spec \<Rightarrow> u32 set" where
  "pool_region p = stretch (unat (base p)) (unat (slot_count p) * unat (stride p)) \<union>
     stretch (unat (headVar p)) 4 \<union> stretch (unat (countVar p)) 1"

lemma pool_bounds:
  assumes "p \<in> set pools"
  shows "unat (base p) + unat (slot_count p) * unat (stride p) \<le> 0x80100400"
    "0x800ED8D8 \<le> unat (base p)" "0x88 \<le> unat (stride p)" "unat (stride p) \<le> 0x140"
    "0 < unat (slot_count p)" "unat (slot_count p) \<le> 0x3A"
  using assms by (auto simp: pools_def)

lemma pool_regions_disjoint:
  assumes "p \<in> set pools" "q \<in> set pools" "p \<noteq> q"
  shows "pool_region p \<inter> pool_region q = {}"
  using assms by (simp add: pools_def) (elim disjE; simp add: pool_region_def stretch_def; fastforce)

lemma slot_unat:
  assumes p: "p \<in> set pools" and i: "unat i < unat (slot_count p)"
  shows "unat (base p + i * stride p) = unat (base p) + unat i * unat (stride p)"
    and "unat (base p) + unat i * unat (stride p) + unat (stride p)
      \<le> unat (base p) + unat (slot_count p) * unat (stride p)"
proof -
  have le: "(unat i + 1) * unat (stride p) \<le> unat (slot_count p) * unat (stride p)"
    using i by (intro mult_right_mono) auto
  then show end': "unat (base p) + unat i * unat (stride p) + unat (stride p)
      \<le> unat (base p) + unat (slot_count p) * unat (stride p)"
    by (simp add: algebra_simps)
  then have "unat i * unat (stride p) < 2 ^ 32" using pool_bounds(1) [OF p] by simp
  then have "unat (i * stride p) = unat i * unat (stride p)" by (simp add: unat_word_ariths)
  then show "unat (base p + i * stride p) = unat (base p) + unat i * unat (stride p)"
    using end' pool_bounds(1) [OF p] by (subst unat_add_small) simp_all
qed

lemma slot_of_index:
  assumes p: "p \<in> set pools" and i: "unat i < unat (slot_count p)"
  shows "base p + i * stride p = slot p (unat i)" "base p + i * stride p \<in> node_slots"
proof -
  show *: "base p + i * stride p = slot p (unat i)" by (simp add: slot_def)
  show "base p + i * stride p \<in> node_slots"
    unfolding * node_slots_def slots_def
    by (rule UN_I [OF p]) (use i in \<open>simp add: image_iff Bex_def, blast\<close>)
qed

definition slot_ready :: "'c core_ops \<Rightarrow> pool_spec \<Rightarrow> u32 \<Rightarrow> 'c \<Rightarrow> bool" where
  "slot_ready K p i c \<longleftrightarrow>
     nx K c (base p + i * stride p) = (if i + 1 < slot_count p then base p + i * stride p + stride p else 0) \<and>
     class_byte K c (base p + i * stride p) = ucast (klass p)"

definition pool_ready :: "'c core_ops \<Rightarrow> pool_spec \<Rightarrow> 'c \<Rightarrow> bool" where
  "pool_ready K p c \<longleftrightarrow> (\<forall>i. unat i < unat (slot_count p) \<longrightarrow> slot_ready K p i c) \<and>
     mem_r32 K c (headVar p) = base p \<and> mem_r8 K c (countVar p) = ucast (slot_count p)"

context guest_core
begin

lemma init_slot_writes:
  assumes p: "p \<in> set pools" and i: "unat i < unat (slot_count p)"
  shows "writes_within K (stretch (unat (base p + i * stride p)) (unat (stride p))) (init_slot K p i)"
proof -
  define s where "s = base p + i * stride p"
  note U = slot_unat [OF p i, folded s_def] and B = pool_bounds [OF p]
  have off: "unat (s + b) = unat s + unat b" if "unat b < unat (stride p)" for b
    using U B that by (intro unat_add_small) simp
  have ram: "in_ram (s + b) k" if "unat b + k \<le> unat (stride p)" "0 < k" for b k
    using U B that off [of b] by (auto simp: in_ram_def)
  show ?thesis
    unfolding init_slot_def Let_def s_def [symmetric] add.assoc
    using B by (intro footprint) (auto simp: stretch_def off ram add.assoc set_upto_u32)
qed

lemma init_slot_ready:
  assumes p: "p \<in> set pools" and i: "unat i < unat (slot_count p)"
  shows "slot_ready K p i (exec (init_slot K p i) c)"
proof -
  define s where "s = base p + i * stride p"
  define next' where "next' = (if i + 1 < slot_count p then s + stride p else 0)"
  define d where "d = exec (for_each (upto_u32 (unat (stride p))) (\<lambda>off. w8 K (s + off) 0)) c"
  have s: "s \<in> node_slots" using slot_of_index(2) [OF p i] by (simp add: s_def)
  have eq: "exec (init_slot K p i) c = mem_w8 K (mem_w8 K (mem_w32 K d (s + 36) next') (s + 0x28)
      (ucast (klass p))) (s + 12) (ucast (meta p))"
    by (simp add: init_slot_def d_def next'_def s_def Let_def split_beta)
  have same: "same_world K {s} (mem_w32 K d (s + 36) next') (mem_w8 K (mem_w32 K d (s + 36) next') (s + 0x28) v)" for v
    using s by (intro field_write(1)) simp_all
  have "nx K (exec (init_slot K p i) c) s = next'"
    unfolding eq using s same by (simp add: world_writes same_world_def)
  moreover have "class_byte K (exec (init_slot K p i) c) s = ucast (klass p)"
    unfolding eq using s by (simp add: tag_stamp) (simp add: class_byte_def read_write node_rules)
  ultimately show ?thesis
    by (simp add: slot_ready_def s_def [symmetric] next'_def)
qed

text \<open>A slot stays ready when the writes are elsewhere.\<close>
lemma slot_ready_elsewhere:
  assumes p: "p \<in> set pools" and i: "unat i < unat (slot_count p)"
    and m: "writes_within K A m" and A: "A \<inter> stretch (unat (base p + i * stride p)) (unat (stride p)) = {}"
    and ready: "slot_ready K p i c"
  shows "slot_ready K p i (exec m c)"
proof -
  define s where "s = base p + i * stride p"
  have s: "s \<in> node_slots" using slot_of_index(2) [OF p i] by (simp add: s_def)
  have in_s: "x \<notin> A" if "unat (x - s) < 0x88" for x
  proof -
    have "unat (s + (x - s)) = unat s + unat (x - s)"
      using node_bounds(2) [OF s] that by (intro unat_add_small) simp
    then have "x \<in> stretch (unat s) (unat (stride p))"
      using that pool_bounds(3) [OF p] by (simp add: stretch_def)
    then show ?thesis using A by (auto simp: s_def)
  qed
  have "mem_r32 K (exec m c) (s + 36) = mem_r32 K c (s + 36)"
  proof (rule r32_cong)
    fix x assume x: "x \<in> span (s + 36) 4"
    have "unat (36 + (x - (s + 36))) = 36 + unat (x - (s + 36))"
      using x by (subst unat_add_small) auto
    then have "unat (x - s) < 0x88" using x by (simp add: algebra_simps)
    then show "mem_r8 K (exec m c) x = mem_r8 K c x"
      using in_s x in_ram_span [OF node_field_ram [OF s] x] by (intro writes_withinD [OF m]) auto
  qed (simp add: node_field_ram [OF s])
  moreover have "mem_r8 K (exec m c) (s + 0x28) = mem_r8 K c (s + 0x28)"
    using in_s [of "s + 0x28"] node_field_ram [OF s] by (intro writes_withinD [OF m]) auto
  ultimately show ?thesis
    using ready by (simp add: slot_ready_def nx_def class_byte_def s_def [symmetric])
qed

lemma slots_apart:
  assumes p: "p \<in> set pools" and i: "unat i < unat (slot_count p)" and j: "unat j < unat (slot_count p)"
    and "i \<noteq> j"
  shows "stretch (unat (base p + i * stride p)) (unat (stride p)) \<inter>
    stretch (unat (base p + j * stride p)) (unat (stride p)) = {}"
proof -
  have "unat i + 1 \<le> unat j \<or> unat j + 1 \<le> unat i"
    using \<open>i \<noteq> j\<close> by (auto simp: word_unat_eq_iff)
  then have "unat i * unat (stride p) + unat (stride p) \<le> unat j * unat (stride p) \<or>
      unat j * unat (stride p) + unat (stride p) \<le> unat i * unat (stride p)"
    using mult_le_mono1 [of "unat i + 1" "unat j" "unat (stride p)"]
      mult_le_mono1 [of "unat j + 1" "unat i" "unat (stride p)"] by (auto simp: add_mult_distrib)
  then show ?thesis
    by (auto simp: slot_unat(1) [OF p i] slot_unat(1) [OF p j] stretch_def)
qed

lemma distinct_upto_u32: "n \<le> 2 ^ 32 \<Longrightarrow> distinct (upto_u32 n)"
  by (auto simp: upto_u32_def distinct_map inj_on_def of_nat_eq_iff word_unat_eq_iff unat_of_nat)

lemma in_upto_u32: "n \<le> 2 ^ 32 \<Longrightarrow> i \<in> set (upto_u32 n) \<longleftrightarrow> unat i < n"
  by (simp add: set_upto_u32)

text \<open>One pool.\<close>
lemma init_pool_slots:
  assumes p: "p \<in> set pools"
  shows "\<forall>i. unat i < unat (slot_count p) \<longrightarrow>
    slot_ready K p i (exec (for_each (upto_u32 (unat (slot_count p))) (init_slot K p)) c)"
proof -
  have n: "unat (slot_count p) \<le> 2 ^ 32" using unat_u32_less [of "slot_count p"] by simp
  have "\<forall>i \<in> set (upto_u32 (unat (slot_count p))).
    slot_ready K p i (exec (for_each (upto_u32 (unat (slot_count p))) (init_slot K p)) c)"
  proof (rule for_each_establishes)
    fix i j c
    assume "i \<in> set (upto_u32 (unat (slot_count p)))" "j \<in> set (upto_u32 (unat (slot_count p)))"
      "i \<noteq> j" "slot_ready K p i c"
    then show "slot_ready K p i (exec (init_slot K p j) c)"
      using p slots_apart [OF p, of j i]
      by (intro slot_ready_elsewhere [OF p _ init_slot_writes]) (auto simp: in_upto_u32 [OF n])
  qed (auto simp: distinct_upto_u32 [OF n] in_upto_u32 [OF n] init_slot_ready p)
  then show ?thesis by (simp add: in_upto_u32 [OF n])
qed

lemma stretch_ram:
  "p \<in> set pools \<Longrightarrow> in_ram (headVar p) 4" "p \<in> set pools \<Longrightarrow> in_ram (countVar p) 1"
  by (auto simp: pools_def in_ram_def)

lemma init_pool_writes:
  assumes p: "p \<in> set pools"
  shows "writes_within K (pool_region p) (init_pool K p)"
proof -
  have n: "unat (slot_count p) \<le> 2 ^ 32" using unat_u32_less [of "slot_count p"] by simp
  have "writes_within K (pool_region p) (init_slot K p i)" if "i \<in> set (upto_u32 (unat (slot_count p)))" for i
  proof (rule writes_within_mono [OF init_slot_writes [OF p]])
    show i: "unat i < unat (slot_count p)" using that by (simp add: in_upto_u32 [OF n])
    show "stretch (unat (base p + i * stride p)) (unat (stride p)) \<subseteq> pool_region p"
      using slot_unat [OF p i] by (auto simp: pool_region_def stretch_def)
  qed
  moreover have "unat (headVar p + 1) = unat (headVar p) + 1" "unat (headVar p + 2) = unat (headVar p) + 2"
    "unat (headVar p + 3) = unat (headVar p) + 3"
    using p by (auto simp: pools_def)
  ultimately show ?thesis
    unfolding init_pool_def using stretch_ram [OF p]
    by (intro footprint) (auto simp: pool_region_def stretch_def)
qed

lemma init_pool_ready:
  assumes p: "p \<in> set pools"
  shows "pool_ready K p (exec (init_pool K p) c)"
proof -
  define d where "d = exec (for_each (upto_u32 (unat (slot_count p))) (init_slot K p)) c"
  have eq: "exec (init_pool K p) c = exec (do { w32 K (headVar p) (base p); w8 K (countVar p) (slot_count p) }) d"
    by (simp add: init_pool_def d_def split_beta)
  have h: "writes_within K (stretch (unat (headVar p)) 4 \<union> stretch (unat (countVar p)) 1)
      (do { w32 K (headVar p) (base p); w8 K (countVar p) (slot_count p) })"
  proof -
    have "unat (headVar p + 1) = unat (headVar p) + 1" "unat (headVar p + 2) = unat (headVar p) + 2"
      "unat (headVar p + 3) = unat (headVar p) + 3"
      using p by (auto simp: pools_def)
    then show ?thesis using stretch_ram [OF p] by (intro footprint) (auto simp: stretch_def)
  qed
  have away: "(stretch (unat (headVar p)) 4 \<union> stretch (unat (countVar p)) 1) \<inter>
      stretch (unat (base p)) (unat (slot_count p) * unat (stride p)) = {}"
    using p by (auto simp: pools_def stretch_def)
  have "slot_ready K p i (exec (init_pool K p) c)" if i: "unat i < unat (slot_count p)" for i
    unfolding eq
  proof (rule slot_ready_elsewhere [OF p i h])
    show "(stretch (unat (headVar p)) 4 \<union> stretch (unat (countVar p)) 1) \<inter>
      stretch (unat (base p + i * stride p)) (unat (stride p)) = {}"
      using away slot_unat [OF p i] by (auto simp: stretch_def)
    show "slot_ready K p i d" using init_pool_slots [OF p] i by (simp add: d_def)
  qed
  moreover have "apart (countVar p) 1 (headVar p) 4" using p by (auto simp: pools_def apart_def)
  ultimately show ?thesis
    using stretch_ram [OF p] by (simp add: pool_ready_def eq read_write)
qed

lemma stretch_of_span:
  "unat a + n \<le> 2 ^ 32 \<Longrightarrow> x \<in> span a n \<Longrightarrow> x \<in> stretch (unat a) n"
  by (auto simp: stretch_def offset_less_iff)

lemma pool_ready_elsewhere:
  assumes p: "p \<in> set pools" and m: "writes_within K A m" and A: "A \<inter> pool_region p = {}"
    and ready: "pool_ready K p c"
  shows "pool_ready K p (exec m c)"
proof -
  have "slot_ready K p i (exec m c)" if i: "unat i < unat (slot_count p)" for i
  proof (rule slot_ready_elsewhere [OF p i m])
    show "A \<inter> stretch (unat (base p + i * stride p)) (unat (stride p)) = {}"
      using A slot_unat [OF p i] by (auto simp: pool_region_def stretch_def)
    show "slot_ready K p i c" using ready i by (simp add: pool_ready_def)
  qed
  moreover have "mem_r32 K (exec m c) (headVar p) = mem_r32 K c (headVar p)"
  proof (rule r32_cong [OF stretch_ram(1) [OF p]])
    fix x assume x: "x \<in> span (headVar p) 4"
    have "x \<in> pool_region p"
      using stretch_of_span [OF _ x] in_ram_bound [OF stretch_ram(1) [OF p]] by (simp add: pool_region_def)
    then show "mem_r8 K (exec m c) x = mem_r8 K c x"
      using A in_ram_span [OF stretch_ram(1) [OF p] x] by (intro writes_withinD [OF m]) auto
  qed
  moreover have "mem_r8 K (exec m c) (countVar p) = mem_r8 K c (countVar p)"
    using A stretch_ram(2) [OF p] by (intro writes_withinD [OF m]) (auto simp: pool_region_def stretch_def)
  ultimately show ?thesis
    using ready by (simp add: pool_ready_def)
qed

lemma init_pools_ready:
  "\<forall>p \<in> set pools. pool_ready K p (exec (for_each pools (init_pool K)) c)"
proof (rule for_each_establishes)
  show "distinct pools" by (simp add: pools_def)
  fix p q c assume "p \<in> set pools" "q \<in> set pools" "p \<noteq> q" "pool_ready K p c"
  then show "pool_ready K p (exec (init_pool K q) c)"
    using pool_regions_disjoint [of p q]
    by (intro pool_ready_elsewhere [OF _ init_pool_writes]) auto
qed (rule init_pool_ready)

end

section \<open>The world the pools start in\<close>

definition fresh_world :: object_world where
  "fresh_world = \<lparr>free_nodes = (\<lambda>k. if k < 5 then slots (pools ! k) else []), active = (\<lambda>_. [])\<rparr>"

lemma slot_bounds:
  assumes p: "p \<in> set pools" and i: "i < unat (slot_count p)"
  shows "unat (slot p i) = unat (base p) + i * unat (stride p)"
    and "slot p i \<in> pool_region p" "slot p i \<in> node_slots"
proof -
  have i': "unat (of_nat i :: u32) = i"
    using i unat_u32_less [of "slot_count p"] by (simp add: unat_of_nat)
  have lt: "unat (of_nat i :: u32) < unat (slot_count p)" using i i' by simp
  show u: "unat (slot p i) = unat (base p) + i * unat (stride p)"
    using slot_unat(1) [OF p lt] i' by (simp add: slot_def)
  have "unat (slot p i) < unat (base p) + unat (slot_count p) * unat (stride p)"
    using u slot_unat(2) [OF p lt, unfolded i'] pool_bounds(3) [OF p] by linarith
  then show "slot p i \<in> pool_region p" using u by (simp add: pool_region_def stretch_def)
  show "slot p i \<in> node_slots" using slot_of_index [OF p lt] i' by simp
qed

lemma slots_in_region: "p \<in> set pools \<Longrightarrow> set (slots p) \<subseteq> pool_region p \<inter> node_slots"
  using slot_bounds by (auto simp: slots_def)

lemma distinct_slots:
  assumes p: "p \<in> set pools"
  shows "distinct (slots p)"
proof -
  have "inj_on (slot p) {0..<unat (slot_count p)}"
  proof (rule inj_onI)
    fix i j assume "i \<in> {0..<unat (slot_count p)}" "j \<in> {0..<unat (slot_count p)}" "slot p i = slot p j"
    then have "i * unat (stride p) = j * unat (stride p)"
      using slot_bounds(1) [OF p, of i] slot_bounds(1) [OF p, of j] by auto
    then show "i = j" using pool_bounds(3) [OF p] by auto
  qed
  then show ?thesis by (simp add: slots_def distinct_map)
qed

lemma slots_disjoint:
  "\<lbrakk>p \<in> set pools; q \<in> set pools; p \<noteq> q\<rbrakk> \<Longrightarrow> set (slots p) \<inter> set (slots q) = {}"
  using slots_in_region [of p] slots_in_region [of q] pool_regions_disjoint [of p q] by blast

lemma distinct_concat_disjoint:
  "distinct ps \<Longrightarrow> (\<And>p. p \<in> set ps \<Longrightarrow> distinct (f p)) \<Longrightarrow>
   (\<And>p q. p \<in> set ps \<Longrightarrow> q \<in> set ps \<Longrightarrow> p \<noteq> q \<Longrightarrow> set (f p) \<inter> set (f q) = {}) \<Longrightarrow>
   distinct (concat (map f ps))"
proof (induction ps)
  case (Cons p ps)
  have "set (f p) \<inter> set (f q) = {}" if "q \<in> set ps" for q
    using Cons.prems(1) that by (intro Cons.prems(3)) auto
  moreover have "distinct (concat (map f ps))"
    using Cons.prems by (intro Cons.IH) auto
  ultimately show ?case using Cons.prems(2) by auto
qed simp

lemma pools_nth: "k < 5 \<Longrightarrow> pools ! k \<in> set pools"
  "k < 5 \<Longrightarrow> headVar (pools ! k) = free_head (DESPAWN_POOL ! k)"
  "k < 5 \<Longrightarrow> countVar (pools ! k) = free_cnt (DESPAWN_POOL ! k)"
  "k < 5 \<Longrightarrow> unat (klass (pools ! k)) = k"
  by (auto simp: pools_def DESPAWN_POOL_def dest!: below_five)

lemma all_nodes_fresh: "all_nodes fresh_world = concat (map slots pools)"
  by (simp add: all_nodes_unfold fresh_world_def) (simp add: pools_def)

lemma slots_chain:
  assumes p: "p \<in> set pools" and ready: "\<And>i. unat i < unat (slot_count p) \<Longrightarrow> slot_ready K p i c"
    and j: "j < unat (slot_count p)"
  shows "chain (nx K c) (slot p j) (map (slot p) [j..<unat (slot_count p)])"
  using j
proof (induction "unat (slot_count p) - j" arbitrary: j)
  case (Suc d)
  let ?N = "unat (slot_count p)"
  have idx: "unat (of_nat j :: u32) = j"
    using Suc.prems unat_u32_less [of "slot_count p"] by (simp add: unat_of_nat)
  have next_idx: "unat (of_nat j + 1 :: u32) = j + 1"
    using Suc.prems unat_u32_less [of "slot_count p"] idx by (subst unat_add_small) auto
  have "slot_ready K p (of_nat j) c" using ready [of "of_nat j"] Suc.prems idx by simp
  then have next': "nx K c (slot p j) = (if j + 1 < ?N then slot p (j + 1) else 0)"
    using next_idx by (simp add: slot_ready_def slot_def word_less_nat_alt algebra_simps)
  have nz: "slot p j \<noteq> 0" using slot_bounds(3) [OF p Suc.prems] node_nonzero by auto
  have split: "[j..<?N] = j # [j + 1..<?N]" using Suc.prems by (simp add: upt_conv_Cons One_nat_def)
  show ?case
  proof (cases "j + 1 < ?N")
    case True
    have "chain (nx K c) (slot p (j + 1)) (map (slot p) [j + 1..<?N])"
      using Suc.hyps True by (intro Suc.hyps(1)) auto
    then show ?thesis using True nz by (simp add: split next')
  next
    case False
    then show ?thesis using nz by (simp add: split next')
  qed
qed simp

lemma represents_fresh:
  assumes ready: "\<forall>p \<in> set pools. pool_ready K p c"
    and empty: "\<forall>l < 3. mem_r32 K c (LIST_HEAD ! l) = 0 \<and> mem_r32 K c (LIST_TAIL ! l) = 0"
  shows "represents K c fresh_world"
  unfolding represents_def
proof (intro conjI allI impI ballI)
  show "distinct (all_nodes fresh_world)"
    unfolding all_nodes_fresh
    by (intro distinct_concat_disjoint distinct_slots slots_disjoint) (auto simp: pools_def)
  show "set (all_nodes fresh_world) \<subseteq> node_slots"
    unfolding all_nodes_fresh using slots_in_region by fastforce
next
  fix k :: nat assume k: "k < 5"
  let ?p = "pools ! k"
  have r: "pool_ready K ?p c" using ready pools_nth(1) [OF k] by blast
  have N: "0 < unat (slot_count ?p)" using pool_bounds(5) [OF pools_nth(1) [OF k]] .
  have "chain (nx K c) (slot ?p 0) (slots ?p)"
    unfolding slots_def using r N by (intro slots_chain pools_nth k) (auto simp: pool_ready_def)
  then show "chain (nx K c) (mem_r32 K c (free_head (DESPAWN_POOL ! k))) (free_nodes fresh_world k)"
    using r k by (simp add: pool_ready_def pools_nth fresh_world_def slot_def)
  have "ucast (slot_count ?p) = (of_nat (length (slots ?p)) :: u8)"
    by (simp add: slots_def)
  then show "mem_r8 K c (free_cnt (DESPAWN_POOL ! k)) = of_nat (length (free_nodes fresh_world k))"
    using r k by (simp add: pool_ready_def pools_nth fresh_world_def)
next
  fix l :: nat assume l: "l < 3"
  show "dlist (nx K c) (pv K c) (mem_r32 K c (LIST_HEAD ! l)) (mem_r32 K c (LIST_TAIL ! l)) (active fresh_world l)"
    using empty l by (simp add: fresh_world_def dlist_def)
  fix n assume "n \<in> set (active fresh_world l)"
  then show "tag K c n = of_nat l" by (simp add: fresh_world_def)
qed

definition list_vars :: "u32 list" where
  "list_vars = LIST_HEAD @ LIST_TAIL"

lemma list_vars_apart:
  assumes "v \<in> set list_vars"
  shows "p \<in> set pools \<Longrightarrow> stretch (unat v) 4 \<inter> pool_region p = {}" "in_ram v 4" "0x800F0000 \<le> unat v"
proof -
  show "in_ram v 4" "0x800F0000 \<le> unat v"
    using assms by (auto simp: list_vars_def list_tables in_ram_def)
  assume "p \<in> set pools"
  then show "stretch (unat v) 4 \<inter> pool_region p = {}"
    using assms by (simp add: pools_def list_vars_def list_tables)
      (elim disjE; simp add: pool_region_def stretch_def disjoint_iff)
qed

context guest_core
begin

lemma word_kept:
  assumes v: "in_ram v 4" and m: "writes_within K A m" and A: "stretch (unat v) 4 \<inter> A = {}"
  shows "mem_r32 K (exec m c) v = mem_r32 K c v"
proof (rule r32_cong [OF v])
  fix x assume x: "x \<in> span v 4"
  have "x \<in> stretch (unat v) 4" using stretch_of_span [OF _ x] in_ram_bound [OF v] by simp
  then show "mem_r8 K (exec m c) x = mem_r8 K c x"
    using A in_ram_span [OF v x] by (intro writes_withinD [OF m]) auto
qed

text \<open>The computation before, between and after the pools.\<close>

lemma init_typed_pools_parts:
  "\<exists>m. exec (init_typed_pools K) c = exec m (exec (for_each pools (init_pool K))
      (mem_w32 K (mem_w32 K (mem_w32 K (mem_w32 K c 0x800FB168 0) 0x800F23A8 0) 0x800F2624 0) 0x800F239C 0)) \<and>
    writes_within K (stretch 0x1F800000 0x400) (m :: ('c, unit) state)"
proof -
  define m :: "('c, unit) state" where "m = do {
     w32 K 0x1F80013C 0x800F2410;
     w32 K 0x1F800140 0x800F2410;
     w16 K 0x1F800146 0;
     w16 K 0x1F800144 0;
     w32 K 0x1F800148 0x800F26C8;
     w32 K 0x1F80014C 0x800F26C8;
     w16 K 0x1F800152 0;
     w16 K 0x1F800150 0;
     w32 K 0x1F800154 0x800F2738;
     w32 K 0x1F800158 0x800F2738;
     w16 K 0x1F80015E 0;
     w16 K 0x1F80015C 0
   }"
  have "exec (init_typed_pools K) c = exec m (exec (for_each pools (init_pool K))
      (mem_w32 K (mem_w32 K (mem_w32 K (mem_w32 K c 0x800FB168 0) 0x800F23A8 0) 0x800F2624 0) 0x800F239C 0))"
    unfolding init_typed_pools_def m_def by (simp only: exec_bind run_core snd_conv)
  moreover have "writes_within K (stretch 0x1F800000 0x400) m"
    unfolding m_def by (intro footprint) (simp_all add: stretch_def in_ram_def)
  ultimately show ?thesis by blast
qed

lemma init_typed_pools_world:
  assumes list2: "mem_r32 K c (LIST_HEAD ! 2) = 0" "mem_r32 K c (LIST_TAIL ! 2) = 0"
  shows "represents K (exec (init_typed_pools K) c) fresh_world"
    and "p \<in> set pools \<Longrightarrow> pool_ready K p (exec (init_typed_pools K) c)"
proof -
  define d where "d = mem_w32 K (mem_w32 K (mem_w32 K (mem_w32 K c 0x800FB168 0) 0x800F23A8 0) 0x800F2624 0) 0x800F239C 0"
  obtain m :: "('c, unit) state" where e: "exec (init_typed_pools K) c = exec m (exec (for_each pools (init_pool K)) d)"
    and m: "writes_within K (stretch 0x1F800000 0x400) m"
    using init_typed_pools_parts [of c] unfolding d_def by blast
  have scratch: "stretch 0x1F800000 0x400 \<inter> pool_region p = {}" if "p \<in> set pools" for p
    using that by (auto simp: pools_def pool_region_def stretch_def)
  have ready: "pool_ready K p (exec (init_typed_pools K) c)" if p: "p \<in> set pools" for p
    unfolding e using init_pools_ready p by (intro pool_ready_elsewhere [OF p m scratch [OF p]]) blast
  then show "p \<in> set pools \<Longrightarrow> pool_ready K p (exec (init_typed_pools K) c)" .
  have loop: "writes_within K (\<Union>p \<in> set pools. pool_region p) (for_each pools (init_pool K))"
    by (intro footprint) (auto intro: writes_within_mono [OF init_pool_writes])
  have kept: "mem_r32 K (exec (init_typed_pools K) c) v = mem_r32 K d v" if v: "v \<in> set list_vars" for v
  proof -
    have "stretch (unat v) 4 \<inter> (\<Union>p \<in> set pools. pool_region p) = {}"
      using list_vars_apart(1) [OF v] by blast
    moreover have "stretch (unat v) 4 \<inter> stretch 0x1F800000 0x400 = {}"
      using list_vars_apart(3) [OF v] by (auto simp: stretch_def)
    ultimately show ?thesis
      unfolding e using word_kept [OF list_vars_apart(2) [OF v] m] word_kept [OF list_vars_apart(2) [OF v] loop]
      by simp
  qed
  have zero: "mem_r32 K d v = 0" if "v \<in> set list_vars" for v
    using that list2 by (simp add: list_vars_def list_tables)
      (elim disjE; simp add: d_def read_write address_simps)
  have "mem_r32 K (exec (init_typed_pools K) c) (LIST_HEAD ! l) = 0 \<and>
      mem_r32 K (exec (init_typed_pools K) c) (LIST_TAIL ! l) = 0" if "l < 3" for l
    using kept [of "LIST_HEAD ! l"] zero [of "LIST_HEAD ! l"] kept [of "LIST_TAIL ! l"] zero [of "LIST_TAIL ! l"]
      below_three [OF that] by (auto simp: list_vars_def list_tables)
  then show "represents K (exec (init_typed_pools K) c) fresh_world"
    using ready by (intro represents_fresh) auto
qed

end

section \<open>A small object world\<close>

text \<open>One free node of class 2, everything else empty: the world the witnesses run in.\<close>
definition demo_node :: u32 where "demo_node = 0x800FE198"

definition demo_flat :: flat where
  "demo_flat = mem_w8 idle_core (mem_w8 idle_core (mem_w32 idle_core zero_flat 0x800F2398 demo_node)
     0x800ED8CC 1) (demo_node + 0x28) 2"

definition demo_world :: object_world where
  "demo_world = \<lparr>free_nodes = (\<lambda>k. if k = 2 then [demo_node] else []), active = (\<lambda>_. [])\<rparr>"

lemma demo_node_slot: "demo_node \<in> node_slots"
proof -
  have "slot (pools ! 2) 0 \<in> node_slots"
    by (rule slot_bounds(3)) (simp_all add: pools_def)
  then show ?thesis by (simp add: demo_node_def slot_def pools_def)
qed

lemma demo_reads:
  "v \<in> set world_vars \<Longrightarrow> mem_r32 idle_core demo_flat v = (if v = 0x800F2398 then demo_node else 0)"
  "b \<in> set world_counts \<Longrightarrow> mem_r8 idle_core demo_flat b = (if b = 0x800ED8CC then 1 else 0)"
  "nx idle_core demo_flat demo_node = 0" "class_byte idle_core demo_flat demo_node = 2"
proof -
  define d where "d = mem_w8 idle_core (mem_w32 idle_core zero_flat 0x800F2398 demo_node) 0x800ED8CC 1"
  have zero: "mem_r32 idle_core zero_flat a = 0" "mem_r8 idle_core zero_flat a = 0" for a
    by (simp_all add: zero_flat_def)
  have v: "0x800F2398 \<in> set world_vars" "0x800ED8CC \<in> set world_counts"
    by (simp_all add: world_vars_def world_counts_def pools_def)
  have same: "same_world idle_core {demo_node} d demo_flat"
    unfolding demo_flat_def d_def by (intro flat.field_write(1) demo_node_slot) simp_all
  show "v \<in> set world_vars \<Longrightarrow> mem_r32 idle_core demo_flat v = (if v = 0x800F2398 then demo_node else 0)"
    "b \<in> set world_counts \<Longrightarrow> mem_r8 idle_core demo_flat b = (if b = 0x800ED8CC then 1 else 0)"
    "nx idle_core demo_flat demo_node = 0"
    using same v demo_node_slot
    by (simp_all add: same_world_def d_def flat.world_writes zero nx_def [of _ zero_flat] del: flat_core_sel)
  show "class_byte idle_core demo_flat demo_node = 2"
    by (simp add: class_byte_def demo_flat_def)
qed

lemma demo_represents: "represents idle_core demo_flat demo_world"
proof -
  have vars: "mem_r32 idle_core demo_flat (free_head (DESPAWN_POOL ! k)) = (if k = 2 then demo_node else 0)"
    "mem_r8 idle_core demo_flat (free_cnt (DESPAWN_POOL ! k)) = (if k = 2 then 1 else 0)" if "k < 5" for k
    using demo_reads(1) [OF world_var_mem(3) [OF that]] demo_reads(2) [OF world_var_mem(4) [OF that]]
      below_five [OF that] by (elim disjE; simp add: DESPAWN_POOL_def del: flat_core_sel)+
  have ends: "mem_r32 idle_core demo_flat (LIST_HEAD ! l) = 0" "mem_r32 idle_core demo_flat (LIST_TAIL ! l) = 0"
    if "l < 3" for l
    using demo_reads(1) [OF world_var_mem(1) [OF that]] demo_reads(1) [OF world_var_mem(2) [OF that]]
      below_three [OF that] by (elim disjE; simp add: LIST_HEAD_def LIST_TAIL_def del: flat_core_sel)+
  note nx = demo_reads(3)
  have nz: "demo_node \<noteq> 0" by (simp add: demo_node_def)
  show ?thesis unfolding represents_def
  proof (intro conjI allI impI ballI)
    show "distinct (all_nodes demo_world)" "set (all_nodes demo_world) \<subseteq> node_slots"
      using demo_node_slot by (simp_all add: all_nodes_unfold demo_world_def)
  next
    fix k :: nat assume "k < 5"
    then show "chain (nx idle_core demo_flat) (mem_r32 idle_core demo_flat (free_head (DESPAWN_POOL ! k))) (free_nodes demo_world k)"
      "mem_r8 idle_core demo_flat (free_cnt (DESPAWN_POOL ! k)) = of_nat (length (free_nodes demo_world k))"
      using nx nz by (simp_all add: vars demo_world_def del: flat_core_sel)
  next
    fix l :: nat assume "l < 3"
    then show "dlist (nx idle_core demo_flat) (pv idle_core demo_flat) (mem_r32 idle_core demo_flat (LIST_HEAD ! l))
        (mem_r32 idle_core demo_flat (LIST_TAIL ! l)) (active demo_world l)"
      by (simp add: ends demo_world_def dlist_def del: flat_core_sel)
    fix n assume "n \<in> set (active demo_world l)"
    then show "tag idle_core demo_flat n = of_nat l" by (simp add: demo_world_def)
  qed
qed

definition demo_spawned :: flat where
  "demo_spawned = exec (spawn_dispatch idle_core 2 7 0) demo_flat"

definition demo_active :: object_world where
  "demo_active = \<lparr>free_nodes = (\<lambda>_. []), active = (\<lambda>l. if l = 0 then [demo_node] else [])\<rparr>"

lemma demo_spec: "spec_spawn 2 0 demo_world = Some (demo_node, demo_active)"
  by (simp add: spec_spawn_def take_free_def demo_world_def append_active_def demo_active_def fun_eq_iff)

lemma demo_spawn:
  "result (spawn_dispatch idle_core 2 7 0) demo_flat = demo_node \<and> represents idle_core demo_spawned demo_active \<and>
   class_byte idle_core demo_spawned demo_node = class_byte idle_core demo_flat demo_node"
proof -
  have "run_state (spawn_dispatch idle_core 2 7 0) demo_flat =
      (result (spawn_dispatch idle_core 2 7 0) demo_flat, demo_spawned)"
    by (simp add: demo_spawned_def)
  from guest_core.spawn_dispatch_world(3) [OF flat.guest_core_axioms demo_represents _ _ this, of demo_node demo_active]
  show ?thesis using demo_spec by simp
qed

lemma demo_ready: "despawn_ready idle_core demo_spawned demo_node 2"
  using demo_spawn demo_reads(4) by (simp add: despawn_ready_def)




section \<open>Start-up\<close>



end
