(* ===== verification/ObjectWalk.thy ===== *)
theory ObjectWalk
  imports ObjectLists PoolStart
begin

text \<open>
  The behaviour pass (\<open>game/object/object_list.cpp\<close>) over the object world of \<open>ObjectWorld\<close>: which
  handlers run, in which order, and that the pass returns, when the handlers may take their own
  object off the list and put new ones on it.
\<close>

section \<open>The walk as a loop of turns\<close>

definition visit_node :: "'c core_ops \<Rightarrow> u32 \<Rightarrow> ('c, unit) state" where
  "visit_node K n = do { w8 K (n + T2OBJ_RENDER_FLAG) 0; call_handler K n }"

definition list_turn :: "'c core_ops \<Rightarrow> u32 \<Rightarrow> ('c, u32 + u32) state" where
  "list_turn K n =
     (if n \<noteq> 0 then do {
        next1 \<leftarrow> r32 K (n + T2OBJ_NEXT);
        visit_node K n;
        State_Monad.return (Inr next1)
      }
      else State_Monad.return (Inl n))"

lemma walk_list_turns: "walk_list K head = do { _ \<leftarrow> loop (list_turn K) head; State_Monad.return () }"
  unfolding walk_list_def list_turn_def visit_node_def Let_def by (simp cong: if_cong)

text \<open>What the walk asks of the handlers of a list: from a memory that represents an object world, the
  visit of an active object leads to another one, where the object is still on the list or gone from
  it, and new objects may stand behind the old ones. The budget bounds how many.\<close>
definition tame :: "'c core_ops \<Rightarrow> nat \<Rightarrow> ('c \<Rightarrow> nat) \<Rightarrow> u32 \<Rightarrow> bool" where
  "tame K l budget n \<longleftrightarrow>
     (\<forall>c w. represents K c w \<and> n \<in> set (active w l) \<longrightarrow>
       (\<exists>w' new. represents K (exec (visit_node K n) c) w' \<and>
          (active w' l = active w l @ new \<or> active w' l = remove1 n (active w l) @ new) \<and>
          budget (exec (visit_node K n) c) + length new \<le> budget c))"

section \<open>The walk over an active list\<close>

lemma active_distinct: "represents K c w \<Longrightarrow> l < 3 \<Longrightarrow> distinct (active w l)"
  by (rule all_nodes_disjoint(2) [OF representsD(1)])

lemma next_of_active:
  assumes "represents K c w" "l < 3" "active w l = ps @ n # ns"
  shows "n \<noteq> 0" "nx K c n = front ns"
  using representsD(5) [OF assms(1,2)] assms(3)
  by (auto simp: dlist_def linked_append split: if_splits)

lemma list_turn_again:
  assumes "n \<noteq> 0"
  shows "loop_run (list_turn K) n c = loop_run (list_turn K) (nx K c n) (exec (visit_node K n) c)"
  using assms by (intro loop_run_again) (simp add: list_turn_def nx_def T2OBJ_NEXT_def split_beta prod_eq_iff)

lemma list_turn_null: "loop_run (list_turn K) 0 c = Some (0, c)"
  by (intro loop_run_leave) (simp add: list_turn_def)

lemma walk_visits:
  assumes tame: "\<And>n. tame K l budget n" and l: "l < 3"
  shows "represents K c w \<Longrightarrow> active w l = ps @ n # ns \<Longrightarrow>
    \<exists>extra w'. loop_run (list_turn K) n c = Some (0, exec (for_each (n # ns @ extra) (visit_node K)) c) \<and>
      length extra \<le> budget c \<and> represents K (exec (for_each (n # ns @ extra) (visit_node K)) c) w'"
proof (induction "length ns + budget c" arbitrary: n ns ps c w rule: less_induct)
  case less
  define d where "d = exec (visit_node K n) c"
  note nx = next_of_active [OF less.prems(1) l less.prems(2)]
  obtain w' new where w': "represents K d w'"
    and act: "active w' l = active w l @ new \<or> active w' l = remove1 n (active w l) @ new"
    and b: "budget d + length new \<le> budget c"
    using tame [of n] less.prems unfolding tame_def d_def by (metis in_set_conv_decomp)
  have "n \<notin> set ps" using active_distinct [OF less.prems(1) l] less.prems(2) by simp
  then obtain ps' where ps': "active w' l = ps' @ ns @ new"
    using act less.prems(2) by (auto simp: remove1_append)
  show ?case
  proof (cases ns)
    case Nil
    then have "loop_run (list_turn K) n c = Some (0, d)"
      using list_turn_again [OF nx(1), of K c] nx(2) Nil by (simp add: d_def list_turn_null)
    then show ?thesis using Nil w'
      by (intro exI [of _ "[]"] exI [of _ w']) (simp add: d_def split_beta)
  next
    case (Cons m rest)
    have "length (rest @ new) + budget d < length ns + budget c" using Cons b by simp
    then obtain extra w'' where ih:
      "loop_run (list_turn K) m d = Some (0, exec (for_each (m # (rest @ new) @ extra) (visit_node K)) d)"
      "length extra \<le> budget d" "represents K (exec (for_each (m # (rest @ new) @ extra) (visit_node K)) d) w''"
      using less.hyps [of "rest @ new" d w' ps' m] w' ps' Cons by auto
    have "loop_run (list_turn K) n c = loop_run (list_turn K) m d"
      using list_turn_again [OF nx(1), of K c] nx(2) Cons by (simp add: d_def)
    then show ?thesis using ih b Cons
      by (intro exI [of _ "new @ extra"] exI [of _ w'']) (simp add: d_def split_beta)
  qed
qed

lemma walk_list_visits:
  assumes w: "represents K c w" and l: "l < 3" and tame: "\<And>n. tame K l budget n"
  shows "\<exists>extra w'. run_state (walk_list K (mem_r32 K c (LIST_HEAD ! l))) c =
      ((), exec (for_each (active w l @ extra) (visit_node K)) c) \<and> length extra \<le> budget c \<and>
      represents K (exec (for_each (active w l @ extra) (visit_node K)) c) w'"
proof (cases "active w l")
  case Nil
  then have "mem_r32 K c (LIST_HEAD ! l) = 0" using representsD(5) [OF w l] by (simp add: dlist_def)
  then show ?thesis using w Nil
    by (intro exI [of _ "[]"] exI [of _ w]) (simp add: walk_list_turns run_loop [OF list_turn_null])
next
  case (Cons n ns)
  then have h: "mem_r32 K c (LIST_HEAD ! l) = n" using representsD(5) [OF w l] by (simp add: dlist_def)
  obtain extra w' where
    "loop_run (list_turn K) n c = Some (0, exec (for_each (n # ns @ extra) (visit_node K)) c)"
    "length extra \<le> budget c" "represents K (exec (for_each (n # ns @ extra) (visit_node K)) c) w'"
    using walk_visits [OF tame l w, of "[]" n ns] Cons by auto
  then show ?thesis using h Cons
    by (intro exI [of _ extra] exI [of _ w']) (simp add: walk_list_turns run_loop del: for_each.simps)
qed

text \<open>C36. The behaviour pass over a represented object world returns, and runs the handlers of the two
  active lists in list order, every object that was on the list exactly in its place, though the
  handlers may despawn their own object, append new ones to the list (up to a budget for the pass)
  and change the other lists as they like: the link to the next object is read before the handler
  runs. Objects appended to the list while it is walked come after, within the budget.\<close>
theorem walk_all_visits:
  assumes "represents K c w" "\<And>n. tame K 0 budget n" "\<And>n. tame K 1 budget n"
  shows "\<exists>xs v. length xs \<le> budget c \<and>
     (let c1 = exec (for_each (active w 0 @ xs) (visit_node K)) c
      in represents K c1 v \<and>
         (\<exists>ys u. length ys \<le> budget c1 \<and>
            (let c2 = exec (for_each (active v 1 @ ys) (visit_node K)) c1
             in represents K c2 u \<and> run_state (object_list_walk_all K) c = ((), c2))))"
proof -
  obtain xs v where 1: "run_state (walk_list K (mem_r32 K c (LIST_HEAD ! 0))) c =
      ((), exec (for_each (active w 0 @ xs) (visit_node K)) c)" "length xs \<le> budget c"
      "represents K (exec (for_each (active w 0 @ xs) (visit_node K)) c) v"
    using walk_list_visits [OF assms(1) _ assms(2)] by auto
  define c1 where "c1 = exec (for_each (active w 0 @ xs) (visit_node K)) c"
  have v: "represents K c1 v" using 1 by (simp only: c1_def)
  obtain ys u where 2: "run_state (walk_list K (mem_r32 K c1 (LIST_HEAD ! 1))) c1 =
      ((), exec (for_each (active v 1 @ ys) (visit_node K)) c1)" "length ys \<le> budget c1"
      "represents K (exec (for_each (active v 1 @ ys) (visit_node K)) c1) u"
    using walk_list_visits [OF v _ assms(3)] by auto
  have w1: "run_state (walk_list K (mem_r32 K c T2_OBJLIST_HEAD_1)) c = ((), c1)"
    using 1(1) by (simp only: c1_def T2_OBJLIST_HEAD_1_def LIST_HEAD_def nth_Cons_0)
  have w2: "run_state (walk_list K (mem_r32 K c1 T2_OBJLIST_HEAD_2)) c1 =
      ((), exec (for_each (active v 1 @ ys) (visit_node K)) c1)"
    using 2(1) by (simp only: T2_OBJLIST_HEAD_2_def LIST_HEAD_def nth_Cons_0 nth_Cons_Suc One_nat_def)
  have "run_state (object_list_walk_all K) c = ((), exec (for_each (active v 1 @ ys) (visit_node K)) c1)"
    by (simp add: object_list_walk_all_def w1 w2 del: for_each.simps)
  with 1(2) 2(2,3) v show ?thesis unfolding Let_def c1_def by blast
qed

section \<open>A machine whose handlers do nothing\<close>

context guest_core
begin

lemma render_flag_write:
  assumes n: "n \<in> node_slots" and w: "represents K c w"
  shows "represents K (mem_w8 K c (n + 1) v) w"
proof (rule represents_cong [OF w])
  have s: "same_world K {n} c (mem_w8 K c (n + 1) v)" by (rule field_write(1) [OF n]) simp_all
  then show "\<And>a. a \<in> set world_vars \<Longrightarrow> mem_r32 K (mem_w8 K c (n + 1) v) a = mem_r32 K c a"
    "\<And>a. a \<in> set world_counts \<Longrightarrow> mem_r8 K (mem_w8 K c (n + 1) v) a = mem_r8 K c a"
    by (simp_all add: same_world_def)
  fix m assume m: "m \<in> node_slots"
  have "tag K (mem_w8 K c (n + 1) v) m = tag K c m"
  proof (cases "m = n")
    case True
    have "apart (n + 1) 1 (n + 10) 1" by (simp add: apart_same) (simp add: apart_def)
    then show ?thesis using True n by (simp add: tag_def read_write node_field_ram)
  qed (use s m in \<open>simp add: same_world_def\<close>)
  then show "nx K (mem_w8 K c (n + 1) v) m = nx K c m \<and> pv K (mem_w8 K c (n + 1) v) m = pv K c m \<and>
      tag K (mem_w8 K c (n + 1) v) m = tag K c m"
    using s m by (simp add: same_world_def)
qed

end

text \<open>On the idle machine a handler does nothing: every object is tame, without a budget.\<close>
lemma idle_tame: "l < 3 \<Longrightarrow> tame idle_core l (\<lambda>_. 0) n"
  unfolding tame_def
proof (intro allI impI)
  fix c w assume l: "l < 3" and "represents idle_core c w \<and> n \<in> set (active w l)"
  then have w: "represents idle_core c w" and "n \<in> set (active w l)" by auto
  then have "n \<in> node_slots" using representsD(8) [OF w l] by auto
  then have "represents idle_core (exec (visit_node idle_core n) c) w"
    using flat.represents_set_reg [OF flat.render_flag_write [OF _ w]]
    by (simp add: visit_node_def call_handler_def behavior_dispatch_dispatch_obj_def T2OBJ_RENDER_FLAG_def del: flat_core_sel) (simp add: split_beta)
  then show "\<exists>w' new. represents idle_core (exec (visit_node idle_core n) c) w' \<and>
      (active w' l = active w l @ new \<or> active w' l = remove1 n (active w l) @ new) \<and> 0 + length new \<le> 0"
    by (intro exI [of _ w] exI [of _ "[]"]) simp
qed

theorem walk_all_visits_witness:
  "\<exists>c u. run_state (object_list_walk_all idle_core) demo_spawned = ((), c) \<and> represents idle_core c u"
proof -
  have "represents idle_core demo_spawned demo_active" using demo_spawn by simp
  from walk_all_visits [OF this idle_tame idle_tame] show ?thesis
    unfolding Let_def by auto
qed

end
