(* ===== verification/PadFence.thy ===== *)
theory PadFence
  imports ObjectViews
begin

text \<open>
  The edge fence of the pad (\<open>game/input/pad_edge_fence.cpp\<close>): which button edges
  pass to the player while the game suppresses input.
\<close>

section \<open>Layout\<close>

definition CUR_PREV_BASE :: u32 where "CUR_PREV_BASE = 0x800ECF54"
definition POLL_FLAG :: u32 where "POLL_FLAG = 0x1F80019A"
definition QUEUE_COUNTDOWN :: u32 where "QUEUE_COUNTDOWN = 0x800BED8C"
definition QUEUE_CURSOR :: u32 where "QUEUE_CURSOR = 0x800BED88"
definition PRESSED_OUT :: u32 where "PRESSED_OUT = 0x800E7E68"
definition RELEASED_OUT :: u32 where "RELEASED_OUT = 0x800F23A4"
definition FN_PAD_SAMPLE :: u32 where "FN_PAD_SAMPLE = 0x800524B4"
definition FN_CD_SM :: u32 where "FN_CD_SM = 0x8005229C"

section \<open>\<open>game/input/pad_edge_fence.cpp\<close>\<close>

definition pad_edge_fence :: "'c core_ops \<Rightarrow> ('c, unit) state" where
  "pad_edge_fence K = do {
     saved_sp \<leftarrow> reg K 29;
     saved_ra \<leftarrow> reg K 31;
     setr K 29 (saved_sp - 24);
     r29_3 \<leftarrow> reg K 29;
     r16_4 \<leftarrow> reg K 16;
     w32 K (r29_3 + 16) r16_4;
     w32 K (r29_3 + 20) saved_ra;
     setr K 16 0x800F0000;
     cur0 \<leftarrow> r16 K CUR_PREV_BASE;
     w16 K (CUR_PREV_BASE + 2) cur0;
     pollFlag \<leftarrow> r8 K POLL_FLAG;
     (if pollFlag \<noteq> 1 then do {
       setr K 31 0x80078940;
       setr K 4 0;
       setr K 2 1;
       setr K 3 pollFlag;
       call_guest K FN_PAD_SAMPLE;
       r2_7 \<leftarrow> reg K 2;
       w16 K CUR_PREV_BASE r2_7
     }
      else do {
        v8 \<leftarrow> r16 K QUEUE_COUNTDOWN;
        let countdown = as_u16 (v8 - 1);
        w16 K QUEUE_COUNTDOWN countdown;
        only_if (countdown = 0) (do {
          entry \<leftarrow> r32 K QUEUE_CURSOR;
          v10 \<leftarrow> r16 K (entry + 2);
          let entry = (if v10 = 0 then (entry + 4) else entry);
          val \<leftarrow> r16 K (entry + 0);
          w16 K CUR_PREV_BASE val;
          nextTag \<leftarrow> r16 K (entry + 2);
          w32 K QUEUE_CURSOR (entry + 4);
          w16 K QUEUE_COUNTDOWN nextTag
        })
      });
     prev \<leftarrow> r16 K (CUR_PREV_BASE + 2);
     cur \<leftarrow> r16 K CUR_PREV_BASE;
     let pressed = as_u16 (cur AND (as_u16 (NOT prev)));
     let released = as_u16 (prev AND (as_u16 (NOT cur)));
     w16 K PRESSED_OUT pressed;
     w16 K RELEASED_OUT released;
     setr K 31 0x80078978;
     setr K 4 released;
     setr K 2 0x800F0000;
     setr K 3 (NOT cur);
     setr K 5 0x800E0000;
     call_guest K FN_CD_SM;
     r29_15 \<leftarrow> reg K 29;
     v16 \<leftarrow> r32 K (r29_15 + 20);
     setr K 31 v16;
     v17 \<leftarrow> r32 K (r29_15 + 16);
     setr K 16 v17;
     setr K 29 saved_sp
   }"

definition pad_fence_tail_l340 :: "'c core_ops \<Rightarrow> ('c, unit) state" where
  "pad_fence_tail_l340 K = do {
     r29_1 \<leftarrow> reg K 29;
     v2 \<leftarrow> r32 K (r29_1 + 20);
     setr K 31 v2;
     v3 \<leftarrow> r32 K (r29_1 + 16);
     setr K 16 v3;
     setr K 29 (r29_1 + 24)
   }"

definition pad_fence_tail_l323 :: "'c core_ops \<Rightarrow> ('c, 'a) state \<Rightarrow> ('c, 'a)
    state" where
  "pad_fence_tail_l323 K L_8005244C = do {
     setr K 31 0x80052430;
     r0_4 \<leftarrow> reg K 0;
     setr K 4 (r0_4 + r0_4);
     call_guest K 0x80087AEC;
     r0_5 \<leftarrow> reg K 0;
     setr K 3 (r0_5 + 6);
     r2_6 \<leftarrow> reg K 2;
     r3_7 \<leftarrow> reg K 3;
     let t0 = (of_bool (r2_6 \<noteq> r3_7) :: u32);
     setr K 4 (r0_5 + r0_5);
     (if t0 \<noteq> 0 then L_8005244C
      else do {
        setr K 5 (shl 32778 16);
        setr K 31 0x80052448;
        r5_8 \<leftarrow> reg K 5;
        setr K 5 (r5_8 + 16280);
        call_guest K 0x80087E2C;
        r16_9 \<leftarrow> reg K 16;
        r0_10 \<leftarrow> reg K 0;
        w8 K (r16_9 + 6) r0_10;
        L_8005244C
      })
   }"

definition pad_fence_tail_l293 :: "'c core_ops \<Rightarrow> ('c, 'a) state \<Rightarrow> ('c, 'a)
    state \<Rightarrow> ('c, 'a) state" where
  "pad_fence_tail_l293 K L_8005244C L_80052428 = do {
     r2_11 \<leftarrow> reg K 2;
     v12 \<leftarrow> r8 K (r2_11 + (-20121));
     setr K 3 v12;
     r0_13 \<leftarrow> reg K 0;
     setr K 2 (r0_13 + 1);
     r3_14 \<leftarrow> reg K 3;
     r2_15 \<leftarrow> reg K 2;
     let t0 = (of_bool (r3_14 \<noteq> r2_15) :: u32);
     (if t0 \<noteq> 0 then L_8005244C
      else do {
        r16_16 \<leftarrow> reg K 16;
        v17 \<leftarrow> r16 K (r16_16 + 2);
        setr K 2 v17;
        r2_18 \<leftarrow> reg K 2;
        let t0 = (of_bool (r2_18 = r0_13) :: u32);
        (if t0 \<noteq> 0 then L_8005244C
         else do {
           v19 \<leftarrow> r16 K (r16_16 + 4);
           setr K 2 v19;
           r2_20 \<leftarrow> reg K 2;
           let t0 = (of_bool (r2_20 = r0_13) :: u32);
           setr K 4 (r0_13 + r0_13);
           (if t0 \<noteq> 0 then L_80052428
            else do {
              setr K 5 (r16_16 + 4);
              setr K 6 (r0_13 + 2);
              w8 K (r16_16 + 4) r0_13;
              setr K 31 0x80052428;
              w8 K (r16_16 + 5) r0_13;
              call_guest K 0x80087EAC;
              L_80052428
            })
         })
      })
   }"

definition pad_fence_tail_l281 :: "'c core_ops \<Rightarrow> ('c, 'a) state \<Rightarrow> ('c, 'a)
    state" where
  "pad_fence_tail_l281 K L_8005244C = do {
     r0_21 \<leftarrow> reg K 0;
     setr K 4 (r0_21 + r0_21);
     r16_22 \<leftarrow> reg K 16;
     setr K 5 (r16_22 + 4);
     setr K 6 (r0_21 + 2);
     w8 K (r16_22 + 4) r0_21;
     setr K 31 0x800523D4;
     w8 K (r16_22 + 5) r0_21;
     call_guest K 0x80087EAC;
     r0_23 \<leftarrow> reg K 0;
     setr K 2 (r0_23 + 3);
     r16_24 \<leftarrow> reg K 16;
     w8 K (r16_24 + 7) r0_23;
     r2_25 \<leftarrow> reg K 2;
     w8 K (r16_24 + 6) r2_25;
     L_8005244C
   }"

definition pad_fence_tail_l270 :: "'c core_ops \<Rightarrow> ('c, 'a) state \<Rightarrow> ('c, 'a)
    state \<Rightarrow> ('c, 'a) state" where
  "pad_fence_tail_l270 K L_800523BC L_8005244C = do {
     r16_26 \<leftarrow> reg K 16;
     v27 \<leftarrow> r8 K (r16_26 + 7);
     setr K 2 v27;
     r2_28 \<leftarrow> reg K 2;
     r0_29 \<leftarrow> reg K 0;
     let t0 = (of_bool (r2_28 = r0_29) :: u32);
     setr K 2 (r2_28 + (-1));
     (if t0 \<noteq> 0 then L_800523BC
      else do { r2_30 \<leftarrow> reg K 2; w8 K (r16_26 + 7) r2_30; L_8005244C })
   }"

definition pad_fence_tail_l251 :: "'c core_ops \<Rightarrow> ('c, 'a) state \<Rightarrow> ('c, 'a)
    state" where
  "pad_fence_tail_l251 K L_8005244C = do {
     setr K 31 0x80052380;
     r0_31 \<leftarrow> reg K 0;
     setr K 4 (r0_31 + r0_31);
     call_guest K 0x80087AEC;
     r0_32 \<leftarrow> reg K 0;
     setr K 3 (r0_32 + 6);
     r2_33 \<leftarrow> reg K 2;
     r3_34 \<leftarrow> reg K 3;
     let t0 = (of_bool (r2_33 \<noteq> r3_34) :: u32);
     setr K 4 (r0_32 + r0_32);
     (if t0 \<noteq> 0 then L_8005244C
      else do {
        setr K 5 (shl 32778 16);
        setr K 31 0x80052398;
        r5_35 \<leftarrow> reg K 5;
        setr K 5 (r5_35 + 16280);
        call_guest K 0x80087E2C;
        r0_36 \<leftarrow> reg K 0;
        setr K 2 (r0_36 + 2);
        r16_37 \<leftarrow> reg K 16;
        r2_38 \<leftarrow> reg K 2;
        w8 K (r16_37 + 6) r2_38;
        L_8005244C
      })
   }"

definition pad_fence_tail :: "'c core_ops \<Rightarrow> ('c, unit) state" where
  "pad_fence_tail K = do {
     let L_8005244C = (pad_fence_tail_l340 K);
     let L_80052428 = (pad_fence_tail_l323 K L_8005244C);
     let L_800523E4 = (pad_fence_tail_l293 K L_8005244C L_80052428);
     let L_800523BC = (pad_fence_tail_l281 K L_8005244C);
     let L_800523A4 = (pad_fence_tail_l270 K L_800523BC L_8005244C);
     let L_80052378 = (pad_fence_tail_l251 K L_8005244C);
     let L_80052350 = (do {
       setr K 31 0x80052358;
       r0_39 \<leftarrow> reg K 0;
       setr K 4 (r0_39 + r0_39);
       call_guest K 0x80087AEC;
       r0_40 \<leftarrow> reg K 0;
       setr K 3 (r0_40 + 6);
       r2_41 \<leftarrow> reg K 2;
       r3_42 \<leftarrow> reg K 3;
       let t0 = (of_bool (r2_41 \<noteq> r3_42) :: u32);
       setr K 4 (r0_40 + r0_40);
       (if t0 \<noteq> 0 then L_8005244C
        else do {
          setr K 5 (shl 32778 16);
          setr K 31 0x80052370;
          r5_43 \<leftarrow> reg K 5;
          setr K 5 (r5_43 + 16280);
          call_guest K 0x80087E2C;
          L_8005244C
        })
     });
     let L_8005232C = (do {
       r16_44 \<leftarrow> reg K 16;
       v45 \<leftarrow> r16 K (r16_44 + 4);
       setr K 2 v45;
       r2_46 \<leftarrow> reg K 2;
       r0_47 \<leftarrow> reg K 0;
       let t0 = (of_bool (r2_46 = r0_47) :: u32);
       setr K 4 (r0_47 + r0_47);
       (if t0 \<noteq> 0 then L_80052350
        else do {
          setr K 5 (r16_44 + 4);
          setr K 6 (r0_47 + 2);
          w8 K (r16_44 + 4) r0_47;
          setr K 31 0x80052350;
          w8 K (r16_44 + 5) r0_47;
          call_guest K 0x80087EAC;
          L_80052350
        })
     });
     let L_80052310 = (do {
       r0_48 \<leftarrow> reg K 0;
       setr K 2 (r0_48 + 2);
       r3_49 \<leftarrow> reg K 3;
       r2_50 \<leftarrow> reg K 2;
       let t0 = (of_bool (r3_49 = r2_50) :: u32);
       setr K 2 (r0_48 + 3);
       (if t0 \<noteq> 0 then L_800523A4
        else do {
          r2_51 \<leftarrow> reg K 2;
          let t0 = (of_bool (r3_49 = r2_51) :: u32);
          (if t0 \<noteq> 0 then L_80052428 else L_8005244C)
        })
     });
     let L_800522C4 = (do {
       setr K 2 (shl 32784 16);
       r2_52 \<leftarrow> reg K 2;
       v53 \<leftarrow> r8 K (r2_52 + (-20121));
       setr K 2 v53;
       r2_54 \<leftarrow> reg K 2;
       r0_55 \<leftarrow> reg K 0;
       let t0 = (of_bool (r2_54 \<noteq> r0_55) :: u32);
       setr K 2 (shl 32784 16);
       (if t0 \<noteq> 0 then L_800523E4
        else do {
          r16_56 \<leftarrow> reg K 16;
          v57 \<leftarrow> r16 K (r16_56 + 2);
          setr K 2 v57;
          r2_58 \<leftarrow> reg K 2;
          let t0 = (of_bool (r2_58 = r0_55) :: u32);
          setr K 2 (shl 32784 16);
          (if t0 \<noteq> 0 then L_800523E4
           else do {
             v59 \<leftarrow> r8 K (r16_56 + 6);
             setr K 3 v59;
             r3_60 \<leftarrow> reg K 3;
             r4_61 \<leftarrow> reg K 4;
             let t0 = (of_bool (r3_60 = r4_61) :: u32);
             setr K 2 (of_bool (r3_60 <s 2) :: u32);
             (if t0 \<noteq> 0 then L_80052378
              else do {
                r2_62 \<leftarrow> reg K 2;
                let t0 = (of_bool (r2_62 = r0_55) :: u32);
                (if t0 \<noteq> 0 then L_80052310
                 else do {
                   let t0 = (of_bool (r3_60 = r0_55) :: u32);
                   (if t0 \<noteq> 0 then L_8005232C else L_8005244C)
                 })
              })
           })
        })
     });
     r29_63 \<leftarrow> reg K 29;
     setr K 29 (r29_63 + (-24));
     setr K 2 (shl 32783 16);
     r29_64 \<leftarrow> reg K 29;
     r16_65 \<leftarrow> reg K 16;
     w32 K (r29_64 + 16) r16_65;
     r2_66 \<leftarrow> reg K 2;
     setr K 16 (r2_66 + (-12472));
     setr K 2 (shl 8064 16);
     r2_67 \<leftarrow> reg K 2;
     v68 \<leftarrow> r8 K (r2_67 + 410);
     setr K 2 v68;
     r0_69 \<leftarrow> reg K 0;
     setr K 4 (r0_69 + 1);
     r2_70 \<leftarrow> reg K 2;
     r4_71 \<leftarrow> reg K 4;
     let t0 = (of_bool (r2_70 \<noteq> r4_71) :: u32);
     r31_72 \<leftarrow> reg K 31;
     w32 K (r29_64 + 20) r31_72;
     (if t0 \<noteq> 0 then L_800522C4
      else do { r16_73 \<leftarrow> reg K 16; w8 K (r16_73 + 6) r0_69; L_800522C4 })
   }"

definition ov_pad_edge_fence :: "'c core_ops \<Rightarrow> ('c, unit) state" where
  "ov_pad_edge_fence K = pad_edge_fence K"

definition ov_pad_fence_tail :: "'c core_ops \<Rightarrow> ('c, unit) state" where
  "ov_pad_fence_tail K = pad_fence_tail K"

end
