(* ===== verification/ProximityCombat.thy ===== *)
theory ProximityCombat
  imports ObjectViews
begin

text \<open>
  The proximity combat behaviour of Tomba's own actors
  (\<open>game/ai/beh_actor_tomba_proximity_combat.cpp\<close>).
\<close>

section \<open>\<open>game/ai/beh_actor_tomba_proximity_combat.cpp\<close>\<close>

definition beh_actor_tomba_proximity_combat_l782 :: "'c core_ops \<Rightarrow> ('c, unit) state"
    where
  "beh_actor_tomba_proximity_combat_l782 K = do {
     for_each (upto_u32 9) (\<lambda>i. do {
       r29_1 \<leftarrow> reg K 29;
       v2 \<leftarrow> r32 K (r29_1 + (snd (([(22, 56), (23, 60), (31, 64), (21, 52), (20, 48),
           (19, 44), (18, 40), (17, 36), (16, 32)] :: (nat \<times> u32) list) ! unat i)));
       setr K (fst (([(22, 56), (23, 60), (31, 64), (21, 52), (20, 48), (19, 44), (18, 40), (17,
           36), (16, 32)] :: (nat \<times> u32) list) ! unat i)) v2
     });
     r29_3 \<leftarrow> reg K 29;
     setr K 29 (r29_3 + 72)
   }"

definition beh_actor_tomba_proximity_combat_l773 :: "'c core_ops \<Rightarrow> u32 \<Rightarrow>
    ('c, 'a) state \<Rightarrow> ('c, 'a) state" where
  "beh_actor_tomba_proximity_combat_l773 K self L_80053060 = do {
     setr K 4 (self + 0);
     call_guest K 0x8004190C;
     setr K 4 (self + 0);
     call_guest K 0x800518FC;
     L_80053060
   }"

definition beh_actor_tomba_proximity_combat_l768 :: "'c core_ops \<Rightarrow> u32 \<Rightarrow>
    u32 \<Rightarrow> (u32 \<Rightarrow> ('c, 'a) state) \<Rightarrow> ('c, 'a) state" where
  "beh_actor_tomba_proximity_combat_l768 K self G1 L_80053040 = do {
     v4 \<leftarrow> r16 K (self + 54);
     setr K 2 v4;
     r2_5 \<leftarrow> reg K 2;
     w16 K (G1 + 54) r2_5;
     v6 \<leftarrow> r16 K (self + 86);
     setr K 2 v6;
     r2_7 \<leftarrow> reg K 2;
     w16 K (G1 + 86) r2_7;
     L_80053040 self
   }"

definition beh_actor_tomba_proximity_combat_l747 :: "'c core_ops \<Rightarrow> u32 \<Rightarrow>
    (u32 \<Rightarrow> ('c, 'a) state) \<Rightarrow> u32 \<Rightarrow> (u32 \<Rightarrow> u32
    \<Rightarrow> ('c, 'a) state) \<Rightarrow> ('c, 'a) state" where
  "beh_actor_tomba_proximity_combat_l747 K self L_80053040 G1 L_80053028 = do {
     v8 \<leftarrow> r8 K (self + 1);
     setr K 2 v8;
     r2_9 \<leftarrow> reg K 2;
     let t0 = (of_bool (r2_9 = 0) :: u32);
     (if t0 \<noteq> 0 then L_80053040 self
      else do {
        v10 \<leftarrow> r16 K (self + 46);
        setr K 2 v10;
        r2_11 \<leftarrow> reg K 2;
        w16 K (G1 + 46) r2_11;
        v12 \<leftarrow> r8 K (self + 5);
        setr K 2 v12;
        r2_13 \<leftarrow> reg K 2;
        setr K 2 (of_bool (r2_13 < 4) :: u32);
        r2_14 \<leftarrow> reg K 2;
        let t0 = (of_bool (r2_14 = 0) :: u32);
        (if t0 \<noteq> 0 then L_80053028 G1 self
         else do {
           v15 \<leftarrow> r16 K (self + 50);
           setr K 2 v15;
           r2_16 \<leftarrow> reg K 2;
           setr K 2 (r2_16 + (-100));
           r2_17 \<leftarrow> reg K 2;
           w16 K (G1 + 50) r2_17;
           L_80053028 G1 self
         })
      })
   }"

definition beh_actor_tomba_proximity_combat_l741 :: "'c core_ops \<Rightarrow> u32 \<Rightarrow>
    ('a \<Rightarrow> u32 \<Rightarrow> ('c, 'b) state) \<Rightarrow> 'a \<Rightarrow> ('c, 'b)
    state" where
  "beh_actor_tomba_proximity_combat_l741 K self L_80052FE8 G1 = do {
     v18 \<leftarrow> r16 K (self + 184);
     setr K 3 v18;
     setr K 2 (0 + 1);
     r2_19 \<leftarrow> reg K 2;
     w8 K (self + 1) r2_19;
     r3_20 \<leftarrow> reg K 3;
     w16 K (self + 188) r3_20;
     w16 K (self + 186) r3_20;
     L_80052FE8 G1 self
   }"

definition beh_actor_tomba_proximity_combat_l723 :: "'c core_ops \<Rightarrow> u32 \<Rightarrow>
    u32 \<Rightarrow> (u32 \<Rightarrow> u32 \<Rightarrow> ('c, 'a) state) \<Rightarrow> ('c, 'a)
    state" where
  "beh_actor_tomba_proximity_combat_l723 K G1 self L_80052FD4 = do {
     v21 \<leftarrow> r16 K (G1 + 50);
     setr K 2 v21;
     r2_22 \<leftarrow> reg K 2;
     setr K 2 (r2_22 + 10);
     r2_23 \<leftarrow> reg K 2;
     w16 K (G1 + 50) r2_23;
     v24 \<leftarrow> r16 K (self + 50);
     setr K 2 v24;
     r2_25 \<leftarrow> reg K 2;
     setr K 2 (r2_25 + 10);
     r2_26 \<leftarrow> reg K 2;
     w16 K (self + 50) r2_26;
     v27 \<leftarrow> r16 K (G1 + 50);
     setr K 3 (as_s16 v27);
     v28 \<leftarrow> r16 K (self + 98);
     setr K 2 (as_s16 v28);
     r2_29 \<leftarrow> reg K 2;
     r3_30 \<leftarrow> reg K 3;
     setr K 2 (of_bool (r2_29 <s r3_30) :: u32);
     v31 \<leftarrow> r16 K (self + 98);
     setr K 3 v31;
     r2_32 \<leftarrow> reg K 2;
     let t0 = (of_bool (r2_32 = 0) :: u32);
     (if t0 \<noteq> 0 then L_80052FD4 G1 self
      else do { r3_33 \<leftarrow> reg K 3; w16 K (G1 + 50) r3_33; L_80052FD4 G1 self })
   }"

definition beh_actor_tomba_proximity_combat_l701 :: "'c core_ops \<Rightarrow> u32 \<Rightarrow>
    ('a \<Rightarrow> u32 \<Rightarrow> ('c, 'b) state) \<Rightarrow> 'a \<Rightarrow> ('c, 'b)
    state" where
  "beh_actor_tomba_proximity_combat_l701 K self L_80052F94 G1 = do {
     v34 \<leftarrow> r16 K (self + 184);
     setr K 2 v34;
     r2_35 \<leftarrow> reg K 2;
     setr K 2 (r2_35 + (-256));
     r2_36 \<leftarrow> reg K 2;
     w16 K (self + 184) r2_36;
     setr K 2 (r2_36 AND 65535);
     r2_37 \<leftarrow> reg K 2;
     setr K 2 (of_bool (r2_37 < 257) :: u32);
     r2_38 \<leftarrow> reg K 2;
     let t0 = (of_bool (r2_38 = 0) :: u32);
     setr K 2 (0 + 256);
     (if t0 \<noteq> 0 then L_80052F94 G1 self
      else do {
        r2_39 \<leftarrow> reg K 2;
        w16 K (self + 184) r2_39;
        setr K 2 (shl 8064 16);
        r2_40 \<leftarrow> reg K 2;
        w8 K (r2_40 + 311) 0;
        setr K 2 (shl 8064 16);
        r2_41 \<leftarrow> reg K 2;
        w8 K (r2_41 + 566) 0;
        setr K 2 (shl 32783 16);
        r2_42 \<leftarrow> reg K 2;
        w8 K (r2_42 + (-32660)) 0;
        setr K 2 (0 + 3);
        r2_43 \<leftarrow> reg K 2;
        w8 K (self + 4) r2_43;
        L_80052F94 G1 self
      })
   }"

definition beh_actor_tomba_proximity_combat_l673 :: "'c core_ops \<Rightarrow> u32 \<Rightarrow>
    (u32 \<Rightarrow> u32 \<Rightarrow> ('c, 'a) state) \<Rightarrow> u32 \<Rightarrow> (u32
    \<Rightarrow> u32 \<Rightarrow> ('c, 'a) state) \<Rightarrow> ('c, 'a) state" where
  "beh_actor_tomba_proximity_combat_l673 K self L_80052F48 G1 L_80052F44 = do {
     v45 \<leftarrow> r16 K (self + 96);
     setr K 4 (as_s16 v45);
     v46 \<leftarrow> r16 K (self + 86);
     setr K 5 (as_s16 v46);
     setr K 6 (0 + 128);
     call_guest K 0x800776F8;
     r2_47 \<leftarrow> reg K 2;
     w16 K (self + 86) r2_47;
     setr K 2 (shl r2_47 16);
     v48 \<leftarrow> r16 K (self + 96);
     setr K 3 (as_s16 v48);
     r2_49 \<leftarrow> reg K 2;
     setr K 2 (sar 16 r2_49);
     r2_50 \<leftarrow> reg K 2;
     r3_51 \<leftarrow> reg K 3;
     let t0 = (of_bool (r2_50 \<noteq> r3_51) :: u32);
     setr K 2 (0 + 1);
     (if t0 \<noteq> 0 then L_80052F48 G1 self
      else do {
        setr K 4 (G1 + 0);
        setr K 5 (0 + 2);
        v52 \<leftarrow> r8 K (self + 5);
        setr K 2 v52;
        setr K 6 (0 + 16);
        r2_53 \<leftarrow> reg K 2;
        setr K 2 (r2_53 + 1);
        r2_54 \<leftarrow> reg K 2;
        w8 K (self + 5) r2_54;
        call_guest K 0x80054D14;
        L_80052F44 G1 self
      })
   }"

definition beh_actor_tomba_proximity_combat_l638 :: "'c core_ops \<Rightarrow> u32 \<Rightarrow>
    ('a \<Rightarrow> u32 \<Rightarrow> ('c, 'b) state) \<Rightarrow> 'a \<Rightarrow> ('a
    \<Rightarrow> u32 \<Rightarrow> ('c, 'b) state) \<Rightarrow> ('c, 'b) state" where
  "beh_actor_tomba_proximity_combat_l638 K self L_80052F44 G1 L_80052F48 = do {
     savedSp \<leftarrow> reg K 29;
     setr K 29 (savedSp - 32);
     v56 \<leftarrow> r16 K (self + 100);
     setr K 2 v56;
     setr K 4 (self + 44);
     r29_57 \<leftarrow> reg K 29;
     r2_58 \<leftarrow> reg K 2;
     w16 K (r29_57 + 18) r2_58;
     v59 \<leftarrow> r16 K (self + 102);
     setr K 2 v59;
     setr K 5 (r29_57 + 16);
     r2_60 \<leftarrow> reg K 2;
     w16 K (r29_57 + 22) r2_60;
     v61 \<leftarrow> r16 K (self + 104);
     setr K 2 v61;
     setr K 6 (0 + 224);
     r2_62 \<leftarrow> reg K 2;
     w16 K (r29_57 + 26) r2_62;
     call_guest K 0x8006CEC4;
     setr K 29 savedSp;
     r2_63 \<leftarrow> reg K 2;
     let t0 = (of_bool (r2_63 = 0) :: u32);
     setr K 4 (self + 0);
     (if t0 \<noteq> 0 then L_80052F44 G1 self
      else do {
        setr K 5 (0 + 0);
        v64 \<leftarrow> r8 K (self + 5);
        setr K 2 v64;
        setr K 6 (0 + 4);
        r2_65 \<leftarrow> reg K 2;
        setr K 2 (r2_65 + 1);
        r2_66 \<leftarrow> reg K 2;
        w8 K (self + 5) r2_66;
        call_guest K 0x80041768;
        setr K 2 (0 + 1);
        L_80052F48 G1 self
      })
   }"

definition beh_actor_tomba_proximity_combat_l615 :: "'c core_ops \<Rightarrow> u32 \<Rightarrow>
    ('a \<Rightarrow> u32 \<Rightarrow> ('c, 'b) state) \<Rightarrow> 'a \<Rightarrow> ('c, 'b)
    state" where
  "beh_actor_tomba_proximity_combat_l615 K self L_80052FE8 G1 = do {
     setr K 4 (self + 0);
     call_guest K 0x80052720;
     setr K 4 (self + 0);
     call_guest K 0x80052694;
     v67 \<leftarrow> r16 K (self + 50);
     setr K 4 (as_s16 v67);
     v68 \<leftarrow> r16 K (self + 102);
     setr K 3 (as_s16 v68);
     setr K 2 (0 + 1);
     r4_69 \<leftarrow> reg K 4;
     r3_70 \<leftarrow> reg K 3;
     let t0 = (of_bool (r4_69 \<noteq> r3_70) :: u32);
     r2_71 \<leftarrow> reg K 2;
     w8 K (self + 1) r2_71;
     (if t0 \<noteq> 0 then L_80052FE8 G1 self
      else do {
        setr K 4 (self + 0);
        setr K 5 (0 + 1);
        v72 \<leftarrow> r8 K (self + 5);
        setr K 2 v72;
        setr K 6 (0 + 4);
        r2_73 \<leftarrow> reg K 2;
        r5_74 \<leftarrow> reg K 5;
        setr K 2 (r2_73 + r5_74);
        r2_75 \<leftarrow> reg K 2;
        w8 K (self + 5) r2_75;
        call_guest K 0x80041768;
        L_80052FE8 G1 self
      })
   }"

definition beh_actor_tomba_proximity_combat_l561 :: "'c core_ops \<Rightarrow> u32 \<Rightarrow>
    (u32 \<Rightarrow> u32 \<Rightarrow> ('c, 'a) state) \<Rightarrow> u32 \<Rightarrow> ('c, 'a)
    state" where
  "beh_actor_tomba_proximity_combat_l561 K self L_80052FE8 G1 = do {
     v76 \<leftarrow> r16 K (self + 64);
     setr K 2 v76;
     r2_77 \<leftarrow> reg K 2;
     setr K 2 (r2_77 + (-1));
     r2_78 \<leftarrow> reg K 2;
     w16 K (self + 64) r2_78;
     setr K 2 (shl r2_78 16);
     r2_79 \<leftarrow> reg K 2;
     let t0 = (of_bool (r2_79 \<noteq> 0) :: u32);
     setr K 17 (shl 8064 16);
     (if t0 \<noteq> 0 then L_80052FE8 G1 self
      else do {
        r17_80 \<leftarrow> reg K 17;
        setr K 17 (r17_80 + 280);
        r17_81 \<leftarrow> reg K 17;
        setr K 4 (r17_81 + 0);
        setr K 3 (shl 8064 16);
        r3_82 \<leftarrow> reg K 3;
        setr K 5 (r3_82 + 192);
        setr K 16 (shl 8064 16);
        r16_83 \<leftarrow> reg K 16;
        setr K 16 (r16_83 + 20);
        r16_84 \<leftarrow> reg K 16;
        setr K 6 (r16_84 + 0);
        setr K 2 (0 + (-1000));
        r2_85 \<leftarrow> reg K 2;
        w16 K (r3_82 + 192) r2_85;
        setr K 2 (0 + 600);
        r5_86 \<leftarrow> reg K 5;
        w16 K (r5_86 + 2) 0;
        r2_87 \<leftarrow> reg K 2;
        w16 K (r5_86 + 4) r2_87;
        call_guest K 0x80084470;
        r17_88 \<leftarrow> reg K 17;
        setr K 17 (r17_88 + (-72));
        r16_89 \<leftarrow> reg K 16;
        setr K 16 (r16_89 + (-20));
        r17_90 \<leftarrow> reg K 17;
        v91 \<leftarrow> r16 K (r17_90 + 2);
        setr K 2 v91;
        r16_92 \<leftarrow> reg K 16;
        v93 \<leftarrow> r16 K (r16_92 + 20);
        setr K 3 v93;
        r2_94 \<leftarrow> reg K 2;
        r3_95 \<leftarrow> reg K 3;
        setr K 2 (r2_94 + r3_95);
        r2_96 \<leftarrow> reg K 2;
        w16 K (self + 46) r2_96;
        v97 \<leftarrow> r16 K (r17_90 + 10);
        setr K 2 v97;
        v98 \<leftarrow> r16 K (r16_92 + 28);
        setr K 3 v98;
        setr K 4 (self + 44);
        r2_99 \<leftarrow> reg K 2;
        r3_100 \<leftarrow> reg K 3;
        setr K 2 (r2_99 + r3_100);
        r2_101 \<leftarrow> reg K 2;
        w16 K (self + 54) r2_101;
        v102 \<leftarrow> r16 K (G1 + 50);
        setr K 3 v102;
        setr K 2 (0 + 1);
        r2_103 \<leftarrow> reg K 2;
        w8 K (self + 1) r2_103;
        r3_104 \<leftarrow> reg K 3;
        w16 K (self + 50) r3_104;
        w8 K (G1 + 1) r2_103;
        v105 \<leftarrow> r16 K (self + 100);
        setr K 5 (as_s16 v105);
        v106 \<leftarrow> r16 K (self + 104);
        setr K 6 (as_s16 v106);
        setr K 2 (0 + 6144);
        w16 K (self + 74) 0;
        r2_107 \<leftarrow> reg K 2;
        w16 K (self + 68) r2_107;
        call_guest K 0x800782B0;
        r2_108 \<leftarrow> reg K 2;
        setr K 2 (r2_108 + (-512));
        v109 \<leftarrow> r8 K (self + 5);
        setr K 3 v109;
        r2_110 \<leftarrow> reg K 2;
        setr K 2 (r2_110 AND 4095);
        r2_111 \<leftarrow> reg K 2;
        w16 K (self + 86) r2_111;
        r3_112 \<leftarrow> reg K 3;
        setr K 3 (r3_112 + 1);
        r3_113 \<leftarrow> reg K 3;
        w8 K (self + 5) r3_113;
        L_80052FE8 G1 self
      })
   }"

definition beh_actor_tomba_proximity_combat_l530 :: "'c core_ops \<Rightarrow> u32 \<Rightarrow>
    ('a \<Rightarrow> u32 \<Rightarrow> ('c, unit) state) \<Rightarrow> 'a \<Rightarrow> ('a
    \<Rightarrow> u32 \<Rightarrow> ('c, unit) state) \<Rightarrow> ('a \<Rightarrow> u32
    \<Rightarrow> ('c, unit) state) \<Rightarrow> ('a \<Rightarrow> u32 \<Rightarrow> ('c, unit)
    state) \<Rightarrow> ('a \<Rightarrow> u32 \<Rightarrow> ('c, unit) state) \<Rightarrow> ('a
    \<Rightarrow> u32 \<Rightarrow> ('c, unit) state) \<Rightarrow> ('c, unit) state" where
  "beh_actor_tomba_proximity_combat_l530 K self L_80052FE8 G1 L_80052DA0 L_80052E68 L_80052EB0
      L_80052F00 L_80052F50 = do {
     v114 \<leftarrow> r8 K (self + 5);
     setr K 3 v114;
     r3_115 \<leftarrow> reg K 3;
     setr K 2 (of_bool (r3_115 < 5) :: u32);
     r2_116 \<leftarrow> reg K 2;
     let t0 = (of_bool (r2_116 = 0) :: u32);
     setr K 2 (shl 32769 16);
     (if t0 \<noteq> 0 then L_80052FE8 G1 self
      else do {
        r2_117 \<leftarrow> reg K 2;
        setr K 2 (r2_117 + 23304);
        setr K 3 (shl r3_115 2);
        r3_118 \<leftarrow> reg K 3;
        r2_119 \<leftarrow> reg K 2;
        setr K 3 (r3_118 + r2_119);
        r3_120 \<leftarrow> reg K 3;
        v121 \<leftarrow> r32 K (r3_120 + 0);
        setr K 2 v121;
        r2_122 \<leftarrow> reg K 2;
        (if r2_122 = 0x80052DA0 then L_80052DA0 G1 self
         else if r2_122 = 0x80052E68 then L_80052E68 G1 self
          else if r2_122 = 0x80052EB0 then L_80052EB0 G1 self
           else if r2_122 = 0x80052F00 then L_80052F00 G1 self
            else if r2_122 = 0x80052F50 then L_80052F50 G1 self else call_guest K r2_122)
      })
   }"

definition beh_actor_tomba_proximity_combat_l523 :: "'c core_ops \<Rightarrow> u32 \<Rightarrow>
    u32 \<Rightarrow> (u32 \<Rightarrow> ('c, 'a) state) \<Rightarrow> ('c, 'a) state" where
  "beh_actor_tomba_proximity_combat_l523 K self G1 L_80053040 = do {
     v123 \<leftarrow> r16 K (self + 54);
     setr K 2 v123;
     r2_124 \<leftarrow> reg K 2;
     w16 K (G1 + 54) r2_124;
     v125 \<leftarrow> r16 K (self + 86);
     setr K 2 v125;
     r2_126 \<leftarrow> reg K 2;
     w16 K (G1 + 86) r2_126;
     r3_127 \<leftarrow> reg K 3;
     w8 K (self + 1) r3_127;
     L_80053040 self
   }"

definition beh_actor_tomba_proximity_combat_l508 :: "'c core_ops \<Rightarrow> u32 \<Rightarrow>
    u32 \<Rightarrow> (u32 \<Rightarrow> u32 \<Rightarrow> ('c, 'a) state) \<Rightarrow> ('c, 'a)
    state" where
  "beh_actor_tomba_proximity_combat_l508 K G1 self L_80052D50 = do {
     setr K 3 (0 + 1);
     r3_128 \<leftarrow> reg K 3;
     w8 K (G1 + 378) r3_128;
     v129 \<leftarrow> r16 K (self + 46);
     setr K 2 v129;
     r2_130 \<leftarrow> reg K 2;
     w16 K (G1 + 46) r2_130;
     v131 \<leftarrow> r8 K (self + 5);
     setr K 2 v131;
     r2_132 \<leftarrow> reg K 2;
     let t0 = (of_bool (r2_132 = 0) :: u32);
     (if t0 \<noteq> 0 then L_80052D50 G1 self
      else do {
        v133 \<leftarrow> r16 K (self + 50);
        setr K 2 v133;
        r2_134 \<leftarrow> reg K 2;
        setr K 2 (r2_134 + (-100));
        r2_135 \<leftarrow> reg K 2;
        w16 K (G1 + 50) r2_135;
        L_80052D50 G1 self
      })
   }"

definition beh_actor_tomba_proximity_combat_l504 :: "'c core_ops \<Rightarrow> u32 \<Rightarrow>
    ('a \<Rightarrow> u32 \<Rightarrow> ('c, 'b) state) \<Rightarrow> 'a \<Rightarrow> ('c, 'b)
    state" where
  "beh_actor_tomba_proximity_combat_l504 K self L_80052D1C G1 = do {
     call_guest K 0x80052720;
     setr K 4 (self + 0);
     call_guest K 0x8005262C;
     L_80052D1C G1 self
   }"

definition beh_actor_tomba_proximity_combat_l473 :: "'c core_ops \<Rightarrow> u32 \<Rightarrow>
    ('a \<Rightarrow> u32 \<Rightarrow> ('c, 'b) state) \<Rightarrow> 'a \<Rightarrow> ('a
    \<Rightarrow> u32 \<Rightarrow> ('c, 'b) state) \<Rightarrow> ('c, 'b) state" where
  "beh_actor_tomba_proximity_combat_l473 K self L_80052D0C G1 L_80052D08 = do {
     setr K 2 (shl 8064 16);
     r2_136 \<leftarrow> reg K 2;
     v137 \<leftarrow> r16 K (r2_136 + 380);
     setr K 2 v137;
     r2_138 \<leftarrow> reg K 2;
     setr K 2 (r2_138 AND 7);
     r2_139 \<leftarrow> reg K 2;
     let t0 = (of_bool (r2_139 \<noteq> 0) :: u32);
     setr K 4 (self + 0);
     (if t0 \<noteq> 0 then L_80052D0C G1 self
      else do {
        setr K 4 (0 + 56);
        v140 \<leftarrow> r8s K (self + 66);
        setr K 5 v140;
        setr K 6 (0 + 0);
        call_guest K 0x80074590;
        v141 \<leftarrow> r16 K (self + 66);
        setr K 2 v141;
        r2_142 \<leftarrow> reg K 2;
        setr K 2 (r2_142 + 2);
        r2_143 \<leftarrow> reg K 2;
        w16 K (self + 66) r2_143;
        setr K 2 (shl r2_143 16);
        r2_144 \<leftarrow> reg K 2;
        setr K 2 (sar 16 r2_144);
        r2_145 \<leftarrow> reg K 2;
        setr K 2 (of_bool (r2_145 <s 27) :: u32);
        r2_146 \<leftarrow> reg K 2;
        let t0 = (of_bool (r2_146 \<noteq> 0) :: u32);
        setr K 2 (0 + 26);
        (if t0 \<noteq> 0 then L_80052D08 G1 self
         else do {
           r2_147 \<leftarrow> reg K 2;
           w16 K (self + 66) r2_147;
           L_80052D08 G1 self
         })
      })
   }"

definition beh_actor_tomba_proximity_combat_l438 :: "'c core_ops \<Rightarrow> u32 \<Rightarrow>
    ('a \<Rightarrow> u32 \<Rightarrow> ('c, 'b) state) \<Rightarrow> 'a \<Rightarrow> ('a
    \<Rightarrow> u32 \<Rightarrow> ('c, 'b) state) \<Rightarrow> ('a \<Rightarrow> u32
    \<Rightarrow> ('c, 'b) state) \<Rightarrow> ('c, 'b) state" where
  "beh_actor_tomba_proximity_combat_l438 K self L_80052CB0 G1 L_80052D1C L_80052D0C = do {
     v149 \<leftarrow> r16 K (self + 64);
     setr K 2 (as_s16 v149);
     v150 \<leftarrow> r16 K (self + 64);
     setr K 3 v150;
     r2_151 \<leftarrow> reg K 2;
     let t0 = (of_bool (r2_151 \<noteq> 0) :: u32);
     r3_152 \<leftarrow> reg K 3;
     setr K 2 (r3_152 + (-1));
     (if t0 \<noteq> 0 then L_80052CB0 G1 self
      else do {
        setr K 2 (shl 8064 16);
        r2_153 \<leftarrow> reg K 2;
        v154 \<leftarrow> r8 K (r2_153 + 634);
        setr K 3 v154;
        setr K 2 (0 + 2);
        r3_155 \<leftarrow> reg K 3;
        r2_156 \<leftarrow> reg K 2;
        let t0 = (of_bool (r3_155 = r2_156) :: u32);
        setr K 4 (shl 32780 16);
        (if t0 \<noteq> 0 then L_80052D1C G1 self
         else do {
           r4_157 \<leftarrow> reg K 4;
           setr K 4 (r4_157 + (-2040));
           setr K 5 (shl 8064 16);
           r4_158 \<leftarrow> reg K 4;
           v159 \<leftarrow> r8 K (r4_158 + 7);
           setr K 2 v159;
           setr K 3 (0 + 6);
           r5_160 \<leftarrow> reg K 5;
           r3_161 \<leftarrow> reg K 3;
           w8 K (r5_160 + 566) r3_161;
           r2_162 \<leftarrow> reg K 2;
           setr K 2 (r2_162 AND 127);
           r2_163 \<leftarrow> reg K 2;
           w8 K (r4_158 + 7) r2_163;
           v164 \<leftarrow> r8 K (self + 5);
           setr K 2 v164;
           setr K 4 (self + 0);
           r2_165 \<leftarrow> reg K 2;
           setr K 2 (r2_165 + 1);
           r2_166 \<leftarrow> reg K 2;
           w8 K (self + 5) r2_166;
           L_80052D0C G1 self
         })
      })
   }"

definition beh_actor_tomba_proximity_combat_l410 :: "'c core_ops \<Rightarrow> ('a \<Rightarrow>
    u32 \<Rightarrow> ('c, 'b) state) \<Rightarrow> 'a \<Rightarrow> u32 \<Rightarrow> ('c, 'b)
    state" where
  "beh_actor_tomba_proximity_combat_l410 K L_80052C5C G1 self = do {
     setr K 2 (shl 8064 16);
     r2_167 \<leftarrow> reg K 2;
     v168 \<leftarrow> r16 K (r2_167 + 380);
     setr K 2 v168;
     r2_169 \<leftarrow> reg K 2;
     setr K 2 (r2_169 AND 7);
     r2_170 \<leftarrow> reg K 2;
     let t0 = (of_bool (r2_170 \<noteq> 0) :: u32);
     setr K 4 (0 + 56);
     (if t0 \<noteq> 0 then L_80052C5C G1 self
      else do {
        v171 \<leftarrow> r8s K (self + 66);
        setr K 5 v171;
        setr K 6 (0 + 0);
        call_guest K 0x80074590;
        v172 \<leftarrow> r16 K (self + 66);
        setr K 2 v172;
        r2_173 \<leftarrow> reg K 2;
        setr K 2 (r2_173 + 2);
        r2_174 \<leftarrow> reg K 2;
        w16 K (self + 66) r2_174;
        setr K 2 (shl r2_174 16);
        r2_175 \<leftarrow> reg K 2;
        setr K 2 (sar 16 r2_175);
        r2_176 \<leftarrow> reg K 2;
        setr K 2 (of_bool (r2_176 <s 27) :: u32);
        r2_177 \<leftarrow> reg K 2;
        let t0 = (of_bool (r2_177 \<noteq> 0) :: u32);
        setr K 2 (0 + 26);
        (if t0 \<noteq> 0 then L_80052C5C G1 self
         else do {
           r2_178 \<leftarrow> reg K 2;
           w16 K (self + 66) r2_178;
           L_80052C5C G1 self
         })
      })
   }"

definition beh_actor_tomba_proximity_combat_l385 :: "'c core_ops \<Rightarrow> u32 \<Rightarrow>
    ('a \<Rightarrow> u32 \<Rightarrow> ('c, 'b) state) \<Rightarrow> 'a \<Rightarrow> ('c, 'b)
    state" where
  "beh_actor_tomba_proximity_combat_l385 K self L_80052D08 G1 = do {
     v179 \<leftarrow> r16 K (self + 64);
     setr K 2 v179;
     r2_180 \<leftarrow> reg K 2;
     setr K 2 (r2_180 + (-1));
     r2_181 \<leftarrow> reg K 2;
     w16 K (self + 64) r2_181;
     setr K 2 (shl r2_181 16);
     r2_182 \<leftarrow> reg K 2;
     let t0 = (of_bool (r2_182 \<noteq> 0) :: u32);
     setr K 3 (shl 32780 16);
     (if t0 \<noteq> 0 then L_80052D08 G1 self
      else do {
        r3_183 \<leftarrow> reg K 3;
        setr K 3 (r3_183 + (-2040));
        r3_184 \<leftarrow> reg K 3;
        v185 \<leftarrow> r8 K (r3_184 + 7);
        setr K 2 v185;
        r2_186 \<leftarrow> reg K 2;
        setr K 2 (r2_186 OR 128);
        r2_187 \<leftarrow> reg K 2;
        w8 K (r3_184 + 7) r2_187;
        v188 \<leftarrow> r8 K (self + 5);
        setr K 2 v188;
        setr K 3 (0 + 20);
        r3_189 \<leftarrow> reg K 3;
        w16 K (self + 64) r3_189;
        setr K 3 (shl 32783 16);
        r2_190 \<leftarrow> reg K 2;
        setr K 2 (r2_190 + 1);
        r2_191 \<leftarrow> reg K 2;
        w8 K (self + 5) r2_191;
        setr K 2 (0 + 15);
        r3_192 \<leftarrow> reg K 3;
        r2_193 \<leftarrow> reg K 2;
        w8 K (r3_192 + (-32660)) r2_193;
        L_80052D08 G1 self
      })
   }"

definition beh_actor_tomba_proximity_combat_l357 :: "'c core_ops \<Rightarrow> ('a \<Rightarrow>
    u32 \<Rightarrow> ('c, 'b) state) \<Rightarrow> 'a \<Rightarrow> u32 \<Rightarrow> ('c, 'b)
    state" where
  "beh_actor_tomba_proximity_combat_l357 K L_80052BBC G1 self = do {
     setr K 2 (shl 8064 16);
     r2_194 \<leftarrow> reg K 2;
     v195 \<leftarrow> r16 K (r2_194 + 380);
     setr K 2 v195;
     r2_196 \<leftarrow> reg K 2;
     setr K 2 (r2_196 AND 7);
     r2_197 \<leftarrow> reg K 2;
     let t0 = (of_bool (r2_197 \<noteq> 0) :: u32);
     setr K 4 (0 + 56);
     (if t0 \<noteq> 0 then L_80052BBC G1 self
      else do {
        v198 \<leftarrow> r8s K (self + 66);
        setr K 5 v198;
        setr K 6 (0 + 0);
        call_guest K 0x80074590;
        v199 \<leftarrow> r16 K (self + 66);
        setr K 2 v199;
        r2_200 \<leftarrow> reg K 2;
        setr K 2 (r2_200 + 2);
        r2_201 \<leftarrow> reg K 2;
        w16 K (self + 66) r2_201;
        setr K 2 (shl r2_201 16);
        r2_202 \<leftarrow> reg K 2;
        setr K 2 (sar 16 r2_202);
        r2_203 \<leftarrow> reg K 2;
        setr K 2 (of_bool (r2_203 <s 27) :: u32);
        r2_204 \<leftarrow> reg K 2;
        let t0 = (of_bool (r2_204 \<noteq> 0) :: u32);
        setr K 2 (0 + 26);
        (if t0 \<noteq> 0 then L_80052BBC G1 self
         else do {
           r2_205 \<leftarrow> reg K 2;
           w16 K (self + 66) r2_205;
           L_80052BBC G1 self
         })
      })
   }"

definition beh_actor_tomba_proximity_combat_l330 :: "'c core_ops \<Rightarrow> u32 \<Rightarrow>
    ('a \<Rightarrow> u32 \<Rightarrow> ('c, 'b) state) \<Rightarrow> 'a \<Rightarrow> ('c, 'b)
    state" where
  "beh_actor_tomba_proximity_combat_l330 K self L_80052D08 G1 = do {
     v206 \<leftarrow> r16 K (self + 64);
     setr K 2 v206;
     r2_207 \<leftarrow> reg K 2;
     setr K 2 (r2_207 + (-1));
     r2_208 \<leftarrow> reg K 2;
     w16 K (self + 64) r2_208;
     setr K 2 (shl r2_208 16);
     r2_209 \<leftarrow> reg K 2;
     let t0 = (of_bool (r2_209 \<noteq> 0) :: u32);
     setr K 2 (shl 32780 16);
     (if t0 \<noteq> 0 then L_80052D08 G1 self
      else do {
        r2_210 \<leftarrow> reg K 2;
        setr K 2 (r2_210 + (-2040));
        setr K 3 (0 + 4);
        r2_211 \<leftarrow> reg K 2;
        r3_212 \<leftarrow> reg K 3;
        w8 K (r2_211 + 7) r3_212;
        setr K 3 (0 + 1);
        r3_213 \<leftarrow> reg K 3;
        w8 K (r2_211 + 49) r3_213;
        setr K 2 (0 + 20);
        r2_214 \<leftarrow> reg K 2;
        w16 K (self + 64) r2_214;
        v215 \<leftarrow> r8 K (self + 5);
        setr K 2 v215;
        v216 \<leftarrow> r16 K (self + 96);
        setr K 3 v216;
        v217 \<leftarrow> r16 K (self + 98);
        setr K 4 v217;
        r2_218 \<leftarrow> reg K 2;
        setr K 2 (r2_218 + 1);
        r2_219 \<leftarrow> reg K 2;
        w8 K (self + 5) r2_219;
        r3_220 \<leftarrow> reg K 3;
        w16 K (self + 100) r3_220;
        r4_221 \<leftarrow> reg K 4;
        w16 K (self + 104) r4_221;
        L_80052D08 G1 self
      })
   }"

definition beh_actor_tomba_proximity_combat_l247 :: "'c core_ops \<Rightarrow> u32 \<Rightarrow>
    u32 \<Rightarrow> (u32 \<Rightarrow> u32 \<Rightarrow> ('c, 'a) state) \<Rightarrow> (u32
    \<Rightarrow> u32 \<Rightarrow> ('c, 'a) state) \<Rightarrow> ('c, 'a) state" where
  "beh_actor_tomba_proximity_combat_l247 K self G1 L_80052B10 L_80052D1C = do {
     v223 \<leftarrow> r16 K (self + 50);
     setr K 2 v223;
     r2_224 \<leftarrow> reg K 2;
     setr K 2 (r2_224 + (-60));
     r2_225 \<leftarrow> reg K 2;
     w16 K (G1 + 50) r2_225;
     v226 \<leftarrow> r16 K (self + 64);
     setr K 2 (as_s16 v226);
     v227 \<leftarrow> r16 K (self + 64);
     setr K 3 v227;
     r2_228 \<leftarrow> reg K 2;
     let t0 = (of_bool (r2_228 \<noteq> 0) :: u32);
     r3_229 \<leftarrow> reg K 3;
     setr K 2 (r3_229 + (-1));
     (if t0 \<noteq> 0 then L_80052B10 G1 self
      else do {
        call_guest K 0x80042728;
        r2_230 \<leftarrow> reg K 2;
        let t0 = (of_bool (r2_230 = 0) :: u32);
        setr K 4 (self + 0);
        (if t0 \<noteq> 0 then L_80052D1C G1 self
         else do {
           setr K 5 (0 + 2);
           setr K 6 (0 + 4);
           setr K 2 (0 + 256);
           r2_231 \<leftarrow> reg K 2;
           w16 K (self + 68) r2_231;
           w16 K (self + 74) 0;
           call_guest K 0x80041768;
           setr K 16 (shl 8064 16);
           r16_232 \<leftarrow> reg K 16;
           setr K 16 (r16_232 + 280);
           r16_233 \<leftarrow> reg K 16;
           setr K 4 (r16_233 + 0);
           setr K 21 (shl 8064 16);
           r21_234 \<leftarrow> reg K 21;
           setr K 20 (r21_234 + 192);
           r20_235 \<leftarrow> reg K 20;
           setr K 5 (r20_235 + 0);
           setr K 19 (shl 8064 16);
           r19_236 \<leftarrow> reg K 19;
           setr K 19 (r19_236 + 20);
           r19_237 \<leftarrow> reg K 19;
           setr K 6 (r19_237 + 0);
           setr K 2 (0 + 20);
           r2_238 \<leftarrow> reg K 2;
           w16 K (self + 64) r2_238;
           v239 \<leftarrow> r8 K (self + 5);
           setr K 2 v239;
           setr K 3 (0 + 12);
           r3_240 \<leftarrow> reg K 3;
           w16 K (self + 66) r3_240;
           r2_241 \<leftarrow> reg K 2;
           setr K 2 (r2_241 + 1);
           r2_242 \<leftarrow> reg K 2;
           w8 K (self + 5) r2_242;
           setr K 2 (0 + 400);
           r2_243 \<leftarrow> reg K 2;
           w16 K (r21_234 + 192) r2_243;
           w16 K (r20_235 + 2) 0;
           w16 K (r20_235 + 4) 0;
           call_guest K 0x80084470;
           r16_244 \<leftarrow> reg K 16;
           setr K 17 (r16_244 + (-72));
           r19_245 \<leftarrow> reg K 19;
           setr K 18 (r19_245 + (-20));
           r17_246 \<leftarrow> reg K 17;
           v247 \<leftarrow> r16 K (r17_246 + 2);
           setr K 2 v247;
           r18_248 \<leftarrow> reg K 18;
           v249 \<leftarrow> r16 K (r18_248 + 20);
           setr K 3 v249;
           setr K 4 (r16_244 + 0);
           r2_250 \<leftarrow> reg K 2;
           r3_251 \<leftarrow> reg K 3;
           setr K 2 (r2_250 + r3_251);
           r2_252 \<leftarrow> reg K 2;
           w16 K (self + 100) r2_252;
           v253 \<leftarrow> r16 K (r17_246 + 6);
           setr K 2 v253;
           v254 \<leftarrow> r16 K (r18_248 + 24);
           setr K 3 v254;
           r20_255 \<leftarrow> reg K 20;
           setr K 5 (r20_255 + 0);
           r2_256 \<leftarrow> reg K 2;
           r3_257 \<leftarrow> reg K 3;
           setr K 2 (r2_256 + r3_257);
           r2_258 \<leftarrow> reg K 2;
           w16 K (self + 102) r2_258;
           v259 \<leftarrow> r16 K (r17_246 + 10);
           setr K 2 v259;
           v260 \<leftarrow> r16 K (r18_248 + 28);
           setr K 3 v260;
           setr K 6 (r19_245 + 0);
           r2_261 \<leftarrow> reg K 2;
           r3_262 \<leftarrow> reg K 3;
           setr K 2 (r2_261 + r3_262);
           r2_263 \<leftarrow> reg K 2;
           w16 K (self + 104) r2_263;
           setr K 2 (0 + (-1000));
           r21_264 \<leftarrow> reg K 21;
           r2_265 \<leftarrow> reg K 2;
           w16 K (r21_264 + 192) r2_265;
           setr K 2 (0 + 600);
           r5_266 \<leftarrow> reg K 5;
           w16 K (r5_266 + 2) 0;
           r2_267 \<leftarrow> reg K 2;
           w16 K (r5_266 + 4) r2_267;
           call_guest K 0x80084470;
           r17_268 \<leftarrow> reg K 17;
           v269 \<leftarrow> r16 K (r17_268 + 2);
           setr K 2 v269;
           r18_270 \<leftarrow> reg K 18;
           v271 \<leftarrow> r16 K (r18_270 + 20);
           setr K 3 v271;
           r2_272 \<leftarrow> reg K 2;
           r3_273 \<leftarrow> reg K 3;
           setr K 2 (r2_272 + r3_273);
           r2_274 \<leftarrow> reg K 2;
           w16 K (self + 96) r2_274;
           v275 \<leftarrow> r16 K (r17_268 + 10);
           setr K 2 v275;
           v276 \<leftarrow> r16 K (r18_270 + 28);
           setr K 3 v276;
           r2_277 \<leftarrow> reg K 2;
           r3_278 \<leftarrow> reg K 3;
           setr K 2 (r2_277 + r3_278);
           r2_279 \<leftarrow> reg K 2;
           w16 K (self + 98) r2_279;
           L_80052D1C G1 self
         })
      })
   }"

definition beh_actor_tomba_proximity_combat_l209 :: "'c core_ops \<Rightarrow> u32 \<Rightarrow>
    ('a \<Rightarrow> u32 \<Rightarrow> ('c, unit) state) \<Rightarrow> 'a \<Rightarrow> ('a
    \<Rightarrow> u32 \<Rightarrow> ('c, unit) state) \<Rightarrow> ('a \<Rightarrow> u32
    \<Rightarrow> ('c, unit) state) \<Rightarrow> ('a \<Rightarrow> u32 \<Rightarrow> ('c, unit)
    state) \<Rightarrow> ('a \<Rightarrow> u32 \<Rightarrow> ('c, unit) state) \<Rightarrow> ('a
    \<Rightarrow> u32 \<Rightarrow> ('c, unit) state) \<Rightarrow> ('a \<Rightarrow> u32
    \<Rightarrow> ('c, unit) state) \<Rightarrow> ('c, unit) state" where
  "beh_actor_tomba_proximity_combat_l209 K self L_80052D70 G1 L_80052D1C L_800529EC L_80052B18
      L_80052B70 L_80052C10 L_80052CB8 = do {
     v280 \<leftarrow> r8 K (self + 3);
     setr K 2 v280;
     r2_281 \<leftarrow> reg K 2;
     let t0 = (of_bool (r2_281 \<noteq> 0) :: u32);
     (if t0 \<noteq> 0 then L_80052D70 G1 self
      else do {
        v282 \<leftarrow> r8 K (self + 5);
        setr K 3 v282;
        r3_283 \<leftarrow> reg K 3;
        setr K 2 (of_bool (r3_283 < 5) :: u32);
        r2_284 \<leftarrow> reg K 2;
        let t0 = (of_bool (r2_284 = 0) :: u32);
        setr K 2 (shl 32769 16);
        (if t0 \<noteq> 0 then L_80052D1C G1 self
         else do {
           r2_285 \<leftarrow> reg K 2;
           setr K 2 (r2_285 + 23280);
           setr K 3 (shl r3_283 2);
           r3_286 \<leftarrow> reg K 3;
           r2_287 \<leftarrow> reg K 2;
           setr K 3 (r3_286 + r2_287);
           r3_288 \<leftarrow> reg K 3;
           v289 \<leftarrow> r32 K (r3_288 + 0);
           setr K 2 v289;
           r2_290 \<leftarrow> reg K 2;
           (if r2_290 = 0x800529EC then L_800529EC G1 self
            else if r2_290 = 0x80052B18 then L_80052B18 G1 self
             else if r2_290 = 0x80052B70 then L_80052B70 G1 self
              else if r2_290 = 0x80052C10 then L_80052C10 G1 self
               else if r2_290 = 0x80052CB8 then L_80052CB8 G1 self else call_guest K r2_290)
         })
      })
   }"

definition beh_actor_tomba_proximity_combat_l180 :: "'c core_ops \<Rightarrow> u32 \<Rightarrow>
    u32 \<Rightarrow> ('c, 'a) state \<Rightarrow> ('c, 'a) state" where
  "beh_actor_tomba_proximity_combat_l180 K G1 self L_80053060 = do {
     v291 \<leftarrow> r16 K (G1 + 50);
     setr K 2 v291;
     r2_292 \<leftarrow> reg K 2;
     setr K 2 (r2_292 + 1000);
     r2_293 \<leftarrow> reg K 2;
     w16 K (self + 98) r2_293;
     v294 \<leftarrow> r16 K (G1 + 46);
     setr K 2 v294;
     setr K 4 (self + 0);
     r2_295 \<leftarrow> reg K 2;
     w16 K (self + 100) r2_295;
     v296 \<leftarrow> r16 K (G1 + 98);
     setr K 2 v296;
     v297 \<leftarrow> r16 K (G1 + 50);
     setr K 3 v297;
     setr K 5 (0 + 3);
     r2_298 \<leftarrow> reg K 2;
     r3_299 \<leftarrow> reg K 3;
     setr K 2 (r2_298 + r3_299);
     r2_300 \<leftarrow> reg K 2;
     setr K 2 (r2_300 + 840);
     r2_301 \<leftarrow> reg K 2;
     w16 K (self + 102) r2_301;
     v302 \<leftarrow> r16 K (G1 + 54);
     setr K 2 v302;
     setr K 6 (0 + 0);
     r2_303 \<leftarrow> reg K 2;
     w16 K (self + 104) r2_303;
     v304 \<leftarrow> r16 K (G1 + 86);
     setr K 2 v304;
     setr K 3 (0 + 20);
     r3_305 \<leftarrow> reg K 3;
     w16 K (self + 64) r3_305;
     r2_306 \<leftarrow> reg K 2;
     setr K 2 (r2_306 AND 4095);
     r2_307 \<leftarrow> reg K 2;
     w16 K (self + 96) r2_307;
     call_guest K 0x80041718;
     setr K 4 (G1 + 0);
     setr K 5 (0 + 228);
     setr K 6 (0 + 0);
     r4_308 \<leftarrow> reg K 4;
     w8 K (r4_308 + 1) 0;
     call_guest K 0x80054D14;
     w8 K (self + 1) 0;
     L_80053060
   }"

definition beh_actor_tomba_proximity_combat_l164 :: "'c core_ops \<Rightarrow> u32 \<Rightarrow>
    u32 \<Rightarrow> ('c, 'a) state \<Rightarrow> ('c, 'a) state" where
  "beh_actor_tomba_proximity_combat_l164 K self G1 L_80053060 = do {
     r2_309 \<leftarrow> reg K 2;
     w16 K (self + 86) r2_309;
     setr K 4 (G1 + 0);
     v310 \<leftarrow> r16 K (self + 50);
     setr K 2 v310;
     setr K 5 (0 + 228);
     r2_311 \<leftarrow> reg K 2;
     setr K 2 (r2_311 + (-60));
     r2_312 \<leftarrow> reg K 2;
     w16 K (G1 + 50) r2_312;
     v313 \<leftarrow> r16 K (self + 86);
     setr K 2 v313;
     setr K 6 (0 + 0);
     r2_314 \<leftarrow> reg K 2;
     w16 K (G1 + 86) r2_314;
     setr K 2 (0 + 30);
     r2_315 \<leftarrow> reg K 2;
     w16 K (self + 64) r2_315;
     call_guest K 0x80054D14;
     setr K 2 (0 + 1);
     r2_316 \<leftarrow> reg K 2;
     w8 K (G1 + 378) r2_316;
     L_80053060
   }"

definition beh_actor_tomba_proximity_combat_l157 :: "'c core_ops \<Rightarrow> u32 \<Rightarrow>
    ('a \<Rightarrow> u32 \<Rightarrow> ('c, 'b) state) \<Rightarrow> 'a \<Rightarrow> ('c, 'b)
    state" where
  "beh_actor_tomba_proximity_combat_l157 K self L_800528FC G1 = do {
     setr K 2 (shl 8064 16);
     r2_317 \<leftarrow> reg K 2;
     setr K 2 (r2_317 + 208);
     r2_318 \<leftarrow> reg K 2;
     v319 \<leftarrow> r16 K (r2_318 + 2);
     setr K 5 (as_s16 v319);
     v320 \<leftarrow> r16 K (r2_318 + 10);
     setr K 6 (as_s16 v320);
     setr K 4 (self + 44);
     call_guest K 0x800782B0;
     L_800528FC G1 self
   }"

definition beh_actor_tomba_proximity_combat_l104 :: "'c core_ops \<Rightarrow> ('c, 'a) state
    \<Rightarrow> u32 \<Rightarrow> (u32 \<Rightarrow> u32 \<Rightarrow> ('c, 'a) state)
    \<Rightarrow> u32 \<Rightarrow> (u32 \<Rightarrow> u32 \<Rightarrow> ('c, 'a) state)
    \<Rightarrow> (u32 \<Rightarrow> u32 \<Rightarrow> ('c, 'a) state) \<Rightarrow> ('c, 'a)
    state" where
  "beh_actor_tomba_proximity_combat_l104 K L_80053060 self L_80052938 G1 L_800528E4 L_800528FC =
      do {
     setr K 5 (0 + 18);
     setr K 2 (shl 32783 16);
     r2_321 \<leftarrow> reg K 2;
     setr K 16 (r2_321 + (-12456));
     r16_322 \<leftarrow> reg K 16;
     v323 \<leftarrow> r32 K (r16_322 + 20);
     setr K 6 v323;
     setr K 7 (shl 32778 16);
     r7_324 \<leftarrow> reg K 7;
     setr K 7 (r7_324 + 17384);
     call_guest K 0x800519E0;
     r2_325 \<leftarrow> reg K 2;
     let t0 = (of_bool (r2_325 \<noteq> 0) :: u32);
     setr K 5 (0 + 0);
     (if t0 \<noteq> 0 then L_80053060
      else do {
        setr K 4 (self + 0);
        r5_326 \<leftarrow> reg K 5;
        setr K 6 (r5_326 + 0);
        setr K 2 (shl 32770 16);
        r16_327 \<leftarrow> reg K 16;
        v328 \<leftarrow> r32 K (r16_327 + 24);
        setr K 3 v328;
        r2_329 \<leftarrow> reg K 2;
        setr K 2 (r2_329 + (-19628));
        r2_330 \<leftarrow> reg K 2;
        w32 K (self + 124) r2_330;
        r3_331 \<leftarrow> reg K 3;
        w32 K (self + 60) r3_331;
        call_guest K 0x80041718;
        v332 \<leftarrow> r8 K (self + 4);
        setr K 2 v332;
        v333 \<leftarrow> r8 K (self + 3);
        setr K 3 v333;
        r2_334 \<leftarrow> reg K 2;
        setr K 2 (r2_334 + 1);
        r3_335 \<leftarrow> reg K 3;
        let t0 = (of_bool (r3_335 \<noteq> 0) :: u32);
        r2_336 \<leftarrow> reg K 2;
        w8 K (self + 4) r2_336;
        (if t0 \<noteq> 0 then L_80052938 G1 self
         else do {
           v337 \<leftarrow> r16 K (G1 + 46);
           setr K 2 v337;
           r2_338 \<leftarrow> reg K 2;
           w16 K (self + 46) r2_338;
           v339 \<leftarrow> r16 K (G1 + 50);
           setr K 2 v339;
           v340 \<leftarrow> r16 K (G1 + 98);
           setr K 3 v340;
           r2_341 \<leftarrow> reg K 2;
           r3_342 \<leftarrow> reg K 3;
           setr K 2 (r2_341 + r3_342);
           r2_343 \<leftarrow> reg K 2;
           setr K 2 (r2_343 + (-160));
           r2_344 \<leftarrow> reg K 2;
           w16 K (self + 50) r2_344;
           v345 \<leftarrow> r16 K (G1 + 54);
           setr K 2 v345;
           r2_346 \<leftarrow> reg K 2;
           w16 K (self + 54) r2_346;
           v347 \<leftarrow> r8 K (G1 + 2);
           setr K 2 v347;
           r2_348 \<leftarrow> reg K 2;
           let t0 = (of_bool (r2_348 \<noteq> 0) :: u32);
           (if t0 \<noteq> 0 then L_800528E4 G1 self
            else do {
              v349 \<leftarrow> r16 K (G1 + 320);
              setr K 2 v349;
              r2_350 \<leftarrow> reg K 2;
              setr K 2 (r2_350 + 1024);
              r2_351 \<leftarrow> reg K 2;
              setr K 2 (r2_351 AND 4095);
              L_800528FC G1 self
            })
         })
      })
   }"

definition beh_actor_tomba_proximity_combat :: "'c core_ops \<Rightarrow> ('c, unit) state" where
  "beh_actor_tomba_proximity_combat K = do {
     let L_80053060 = (beh_actor_tomba_proximity_combat_l782 K);
     let L_80053058 = (\<lambda>self. do {
       setr K 4 (self + 0);
       call_guest K 0x8007A624;
       L_80053060
     });
     let L_80053040 = (\<lambda>self. beh_actor_tomba_proximity_combat_l773 K self L_80053060);
     let L_80053028 = (\<lambda>G1 self. beh_actor_tomba_proximity_combat_l768 K self G1
         L_80053040);
     let L_80052FE8 = (\<lambda>G1 self. beh_actor_tomba_proximity_combat_l747 K self L_80053040
         G1 L_80053028);
     let L_80052FD4 = (\<lambda>G1 self. beh_actor_tomba_proximity_combat_l741 K self L_80052FE8
         G1);
     let L_80052F94 = (\<lambda>G1 self. beh_actor_tomba_proximity_combat_l723 K G1 self
         L_80052FD4);
     let L_80052F50 = (\<lambda>G1 self. beh_actor_tomba_proximity_combat_l701 K self L_80052F94
         G1);
     let L_80052F48 = (\<lambda>G1 self. do {
       r2_44 \<leftarrow> reg K 2;
       w8 K (self + 1) r2_44;
       L_80052FE8 G1 self
     });
     let L_80052F44 = (\<lambda>G1 self. do { setr K 2 (0 + 1); L_80052F48 G1 self });
     let L_80052F00 = (\<lambda>G1 self. beh_actor_tomba_proximity_combat_l673 K self L_80052F48
         G1 L_80052F44);
     let L_80052EB0 = (\<lambda>G1 self. beh_actor_tomba_proximity_combat_l638 K self L_80052F44
         G1 L_80052F48);
     let L_80052E68 = (\<lambda>G1 self. beh_actor_tomba_proximity_combat_l615 K self L_80052FE8
         G1);
     let L_80052DA0 = (\<lambda>G1 self. beh_actor_tomba_proximity_combat_l561 K self L_80052FE8
         G1);
     let L_80052D70 = (\<lambda>G1 self. beh_actor_tomba_proximity_combat_l530 K self L_80052FE8
         G1 L_80052DA0 L_80052E68 L_80052EB0 L_80052F00 L_80052F50);
     let L_80052D50 = (\<lambda>G1 self. beh_actor_tomba_proximity_combat_l523 K self G1
         L_80053040);
     let L_80052D1C = (\<lambda>G1 self. beh_actor_tomba_proximity_combat_l508 K G1 self
         L_80052D50);
     let L_80052D0C = (\<lambda>G1 self. beh_actor_tomba_proximity_combat_l504 K self L_80052D1C
         G1);
     let L_80052D08 = (\<lambda>G1 self. do { setr K 4 (self + 0); L_80052D0C G1 self });
     let L_80052CB8 = (\<lambda>G1 self. beh_actor_tomba_proximity_combat_l473 K self L_80052D0C
         G1 L_80052D08);
     let L_80052CB0 = (\<lambda>G1 self. do {
       r2_148 \<leftarrow> reg K 2;
       w16 K (self + 64) r2_148;
       L_80052D08 G1 self
     });
     let L_80052C5C = (\<lambda>G1 self. beh_actor_tomba_proximity_combat_l438 K self L_80052CB0
         G1 L_80052D1C L_80052D0C);
     let L_80052C10 = (\<lambda>G1 self. beh_actor_tomba_proximity_combat_l410 K L_80052C5C G1
         self);
     let L_80052BBC = (\<lambda>G1 self. beh_actor_tomba_proximity_combat_l385 K self L_80052D08
         G1);
     let L_80052B70 = (\<lambda>G1 self. beh_actor_tomba_proximity_combat_l357 K L_80052BBC G1
         self);
     let L_80052B18 = (\<lambda>G1 self. beh_actor_tomba_proximity_combat_l330 K self L_80052D08
         G1);
     let L_80052B10 = (\<lambda>G1 self. do {
       r2_222 \<leftarrow> reg K 2;
       w16 K (self + 64) r2_222;
       L_80052D1C G1 self
     });
     let L_800529EC = (\<lambda>G1 self. beh_actor_tomba_proximity_combat_l247 K self G1
         L_80052B10 L_80052D1C);
     let L_800529AC = (\<lambda>G1 self. beh_actor_tomba_proximity_combat_l209 K self L_80052D70
         G1 L_80052D1C L_800529EC L_80052B18 L_80052B70 L_80052C10 L_80052CB8);
     let L_80052938 = (\<lambda>G1 self. beh_actor_tomba_proximity_combat_l180 K G1 self
         L_80053060);
     let L_800528FC = (\<lambda>G1 self. beh_actor_tomba_proximity_combat_l164 K self G1
         L_80053060);
     let L_800528E4 = (\<lambda>G1 self. beh_actor_tomba_proximity_combat_l157 K self L_800528FC
         G1);
     let L_80052838 = (\<lambda>G1 self. beh_actor_tomba_proximity_combat_l104 K L_80053060 self
         L_80052938 G1 L_800528E4 L_800528FC);
     let L_80052824 = (\<lambda>self. do {
       r3_352 \<leftarrow> reg K 3;
       setr K 2 (of_bool (r3_352 <s 4) :: u32);
       r2_353 \<leftarrow> reg K 2;
       let t0 = (of_bool (r2_353 = 0) :: u32);
       (if t0 \<noteq> 0 then L_80053060 else L_80053058 self)
     });
     saved \<leftarrow> fold_each (upto_u32 9) (replicate 9 (0 :: u32)) (\<lambda>i saved. do {
       v354 \<leftarrow> reg K (fst (([(22, 56), (23, 60), (31, 64), (21, 52), (20, 48), (19, 44),
           (18, 40), (17, 36), (16, 32)] :: (nat \<times> u32) list) ! unat i));
       State_Monad.return (saved[unat i := v354])
     });
     r29_355 \<leftarrow> reg K 29;
     setr K 29 (r29_355 - 72);
     for_each (upto_u32 9) (\<lambda>i. do {
       r29_356 \<leftarrow> reg K 29;
       w32 K (r29_356 + (snd (([(22, 56), (23, 60), (31, 64), (21, 52), (20, 48), (19, 44), (18,
           40), (17, 36), (16, 32)] :: (nat \<times> u32) list) ! unat i))) (saved ! (unat i))
     });
     let self = (0 :: u32);
     let G1 = (0 :: u32);
     r4_357 \<leftarrow> reg K 4;
     let self = r4_357 + 0;
     setr K 2 (shl 32782 16);
     r2_358 \<leftarrow> reg K 2;
     let G1 = r2_358 + 32384;
     setr K 22 self;
     setr K 23 G1;
     v359 \<leftarrow> r8 K (self + 4);
     setr K 3 v359;
     setr K 2 (0 + 1);
     r3_360 \<leftarrow> reg K 3;
     r2_361 \<leftarrow> reg K 2;
     let t0 = (of_bool (r3_360 = r2_361) :: u32);
     setr K 2 (of_bool (r3_360 <s 2) :: u32);
     (if t0 \<noteq> 0 then L_800529AC G1 self
      else do {
        r2_362 \<leftarrow> reg K 2;
        let t0 = (of_bool (r2_362 = 0) :: u32);
        (if t0 \<noteq> 0 then L_80052824 self
         else do {
           let t0 = (of_bool (r3_360 = 0) :: u32);
           setr K 4 (self + 0);
           (if t0 \<noteq> 0 then L_80052838 G1 self else L_80053060)
         })
      })
   }"

end
