(* ===== verification/RenderLayers.thy ===== *)
theory RenderLayers
  imports GpuLeaves
begin

text \<open>
  Layers and panels that emit packets: tile grids, gauges, sprites, backdrops, the widescreen
  margin and the walks over an object's parts.
\<close>

section \<open>Layout\<close>

definition kHudGaugeBase :: u32 where "kHudGaugeBase = 0x800BF548"
definition kFlagOff :: u32 where "kFlagOff = 1"
definition kCountOff :: u32 where "kCountOff = 8"
definition kRecordsOff :: u32 where "kRecordsOff = 12"
definition kRecordStride :: u32 where "kRecordStride = 140"
definition kPktPoolBaseReg :: u32 where "kPktPoolBaseReg = 0x800C0000"
definition kOtBaseReg :: u32 where "kOtBaseReg = 0x800F0000"
definition kHudOtBucketIndex :: u32 where "kHudOtBucketIndex = 3"
definition kDrawAreaOtWords :: u32 where "kDrawAreaOtWords = 2"
definition kDrawAreaOtTag :: u32 where "kDrawAreaOtTag = 0x2000000"
definition kDrawAreaPacketBytes :: u32 where "kDrawAreaPacketBytes = 12"
definition kFunBuildDrawArea :: u32 where "kFunBuildDrawArea = 0x80081CF8"
definition kFunSegmentLayout :: u32 where "kFunSegmentLayout = 0x8004EB94"
definition kFunLabelOrDigits :: u32 where "kFunLabelOrDigits = 0x8005019C"
definition kRaFrameTileA :: u32 where "kRaFrameTileA = 0x8004FDA8"
definition kRaFrameCallItem :: u32 where "kRaFrameCallItem = 0x8004FDE4"
definition kRaFrameTileB :: u32 where "kRaFrameTileB = 0x8004FE4C"
definition kRaItemTileA :: u32 where "kRaItemTileA = 0x8004FC08"
definition kRaItemSeg1 :: u32 where "kRaItemSeg1 = 0x8004FC44"
definition kRaItemSeg2 :: u32 where "kRaItemSeg2 = 0x8004FC74"
definition kRaItemTileB :: u32 where "kRaItemTileB = 0x8004FCB8"
definition kRaItemSegElse :: u32 where "kRaItemSegElse = 0x8004FCF4"
definition kRaItemFinal :: u32 where "kRaItemFinal = 0x8004FD08"
definition kViewportH :: u32 where "kViewportH = 0xF0"
definition kViewportW :: u32 where "kViewportW = 0x140"
definition kViewportX :: u32 where "kViewportX = 0"
definition kPanelH :: u32 where "kPanelH = 0x36"
definition kPanelW :: u32 where "kPanelW = 0x120"
definition kPanelX :: u32 where "kPanelX = 0x10"
definition kPanelYBias :: u32 where "kPanelYBias = 0x99"
definition kSegPrimaryOff :: u32 where "kSegPrimaryOff = 16"
definition kSegSecondaryOff :: u32 where "kSegSecondaryOff = 61"
definition kLabelByteOff :: u32 where "kLabelByteOff = 136"
definition kPacketTag :: u32 where "kPacketTag = 2"
definition kDrawModeCommand :: u32 where "kDrawModeCommand = 0xE1000000"
definition kTextureWindowCommand :: u32 where "kTextureWindowCommand = 0xE2000000"
definition kTexturePageMask :: u32 where "kTexturePageMask = 0x9FF"
definition kDitherBit :: u32 where "kDitherBit = 0x200"
definition kDrawOnDisplayBit :: u32 where "kDrawOnDisplayBit = 0x400"
definition ModelDepth_Average :: u32 where "ModelDepth_Average = 0"
definition ModelDepth_Farthest :: u32 where "ModelDepth_Farthest = 1"
definition ModelDepth_Nearest :: u32 where "ModelDepth_Nearest = 2"
definition kHideWord :: u32 where "kHideWord = 0x1F80009C"
definition kComposeBase :: u32 where "kComposeBase = 0x1F800000"
definition kCamRot :: u32 where "kCamRot = 0x1F8000F8"
definition kCamTrans :: u32 where "kCamTrans = 0x1F80010C"
definition kRow0 :: u32 where "kRow0 = 0"
definition kRow1 :: u32 where "kRow1 = 6"
definition kRow2 :: u32 where "kRow2 = 12"
definition kColStride :: u32 where "kColStride = 2"
definition kRotWords :: u32 where "kRotWords = 5"
definition kGteVxy0 :: u32 where "kGteVxy0 = 0"
definition kGteVz0 :: u32 where "kGteVz0 = 1"
definition kGteIr1 :: u32 where "kGteIr1 = 9"
definition kGteIr2 :: u32 where "kGteIr2 = 10"
definition kGteIr3 :: u32 where "kGteIr3 = 11"
definition kGteMac1 :: u32 where "kGteMac1 = 25"
definition kGteMac2 :: u32 where "kGteMac2 = 26"
definition kGteMac3 :: u32 where "kGteMac3 = 27"
definition kGteCrRot :: u32 where "kGteCrRot = 0"
definition kGteCrTrans :: u32 where "kGteCrTrans = 5"
definition kMvmvaRotCol :: u32 where "kMvmvaRotCol = 0x4A49E012"
definition kMvmvaWorldPos :: u32 where "kMvmvaWorldPos = 0x4A486012"
definition kFrameBytes :: u32 where "kFrameBytes = 48"
definition kLocalScaleCol0 :: u32 where "kLocalScaleCol0 = 16"
definition kLocalScaleCol1 :: u32 where "kLocalScaleCol1 = 20"
definition kLocalScaleCol2 :: u32 where "kLocalScaleCol2 = 24"
definition obj_model_view_kScaleByteShift :: u32 where "obj_model_view_kScaleByteShift = 2"
definition kRaRotMatrix :: u32 where "kRaRotMatrix = 0x800318D0"
definition kRaColScale :: u32 where "kRaColScale = 0x80031904"
definition kColour :: "u32 list" where "kColour = [4, 0x10, 0x1C, 0x28]"
definition kRecordBytes :: u32 where "kRecordBytes = 0x24"
definition kListCount :: u32 where "kListCount = 6"
definition kListBlocks :: u32 where "kListBlocks = 0xC"
definition kListIndices :: u32 where "kListIndices = 0x10"
definition sop_ground_kBlockRecords :: u32 where "sop_ground_kBlockRecords = 4"
definition kGt3 :: u32 where "kGt3 = 0x801099B4"
definition kGt4 :: u32 where "kGt4 = 0x80109C80"
definition kReturnAfterGt3 :: u32 where "kReturnAfterGt3 = 0x8010A0A0"
definition kReturnAfterGt4 :: u32 where "kReturnAfterGt4 = 0x8010A0B4"
definition SUB_TRANSFORM :: u32 where "SUB_TRANSFORM = 0x18"
definition VIEW_TRANSFORM :: u32 where "VIEW_TRANSFORM = 0x1F8000F8"
definition SUBPART_ARRAY :: u32 where "SUBPART_ARRAY = 0xC0"
definition SUB_GEOMBLK :: u32 where "SUB_GEOMBLK = 0x40"
definition NODE_LIMIT :: u32 where "NODE_LIMIT = 8"
definition NODE_COUNT :: u32 where "NODE_COUNT = 9"
definition kOtBucketBg :: u32 where "kOtBucketBg = 0x7FF"
definition kSopPaletteCycles :: u32 where "kSopPaletteCycles = 0x8010D2FC"
definition kSopPaletteCycleStride :: u32 where "kSopPaletteCycleStride = 12"
definition kSopPaletteCountdowns :: u32 where "kSopPaletteCountdowns = 0x8010D390"
definition kSopPaletteCycleCount :: u32 where "kSopPaletteCycleCount = 3"
definition kPaletteScriptLoop :: u32 where "kPaletteScriptLoop = 0xFF"
definition kClutRowBytes :: u32 where "kClutRowBytes = 32"
definition kLoadImage :: u32 where "kLoadImage = 0x80081218"
definition kLoadImageReturn :: u32 where "kLoadImageReturn = 0x8010C624"
definition kHeaderBytes :: u32 where "kHeaderBytes = 12"
definition kPktWords :: u32 where "kPktWords = 12"
definition kGteFlagScratch :: u32 where "kGteFlagScratch = 0x1F800080"
definition kComposeObjectTransform :: u32 where "kComposeObjectTransform = 0x800318A0"
definition kComposeObjectTransformRa :: u32 where "kComposeObjectTransformRa = 0x8013CE74"
definition kColorCodeTag :: u32 where "kColorCodeTag = 0x3E000000"
definition kPlanePayloadMask :: u32 where "kPlanePayloadMask = 0x007FFFFF"
definition kVtxScratch_X0 :: u32 where "kVtxScratch_X0 = 32"
definition kVtxScratch_Y0 :: u32 where "kVtxScratch_Y0 = 34"
definition kVtxScratch_Z0 :: u32 where "kVtxScratch_Z0 = 36"
definition kVtxScratch_X1 :: u32 where "kVtxScratch_X1 = 40"
definition kVtxScratch_Y1 :: u32 where "kVtxScratch_Y1 = 42"
definition kVtxScratch_Z1 :: u32 where "kVtxScratch_Z1 = 44"
definition kVtxScratch_X2 :: u32 where "kVtxScratch_X2 = 48"
definition kVtxScratch_Y2 :: u32 where "kVtxScratch_Y2 = 50"
definition kVtxScratch_Z2 :: u32 where "kVtxScratch_Z2 = 52"
definition kVtxScratch_X3 :: u32 where "kVtxScratch_X3 = 56"
definition kVtxScratch_Y3 :: u32 where "kVtxScratch_Y3 = 58"
definition kVtxScratch_Z3 :: u32 where "kVtxScratch_Z3 = 60"
definition PACKET_BYTES :: u32 where "PACKET_BYTES = 16"
definition GP0_FLAT_RECT :: u32 where "GP0_FLAT_RECT = 0x60"
definition TAG_WORD_COUNT :: u32 where "TAG_WORD_COUNT = 3"
definition PANEL_FILL_RGB :: u32 where "PANEL_FILL_RGB = 0x460000"
definition MODE_FAR_BUCKET :: u32 where "MODE_FAR_BUCKET = 0x80"
definition MODE_NO_FILL :: u32 where "MODE_NO_FILL = 0x7F"
definition OT_BUCKET_FAR :: u32 where "OT_BUCKET_FAR = 0x7FF"
definition OT_BUCKET_NEAR :: u32 where "OT_BUCKET_NEAR = 1"
definition kPacketBytes :: u32 where "kPacketBytes = 36"
definition kOtBucketNear :: u32 where "kOtBucketNear = 1"
definition kGp0PolyG4 :: u32 where "kGp0PolyG4 = 0x38"
definition options_page_kTagWordCount :: u32 where "options_page_kTagWordCount = 8"
definition kBlueBright :: u32 where "kBlueBright = 70"
definition kBlueDark :: u32 where "kBlueDark = 16"
definition kScreenW :: u32 where "kScreenW = 320"
definition kScreenH :: u32 where "kScreenH = 240"
definition STAGE :: u32 where "STAGE = 0x1F800000"
definition GP0_SPRITE :: u32 where "GP0_SPRITE = 100"
definition GP0_SPRITE_SEMI :: u32 where "GP0_SPRITE_SEMI = 102"
definition RAW_TEXTURE_BIT :: u32 where "RAW_TEXTURE_BIT = 1"
definition SPRITE_TAG_WORDS :: u32 where "SPRITE_TAG_WORDS = 4"
definition MODE_TAG_WORDS :: u32 where "MODE_TAG_WORDS = 2"
definition SPRITE_PACKET_BYTES :: u32 where "SPRITE_PACKET_BYTES = 20"
definition MODE_PACKET_BYTES :: u32 where "MODE_PACKET_BYTES = 12"

section \<open>\<open>game/render/hud_gauge_emitter.cpp\<close>\<close>

definition hud_viewport_y :: "'c core_ops \<Rightarrow> ('c, u32) state" where
  "hud_viewport_y K = do {
     v1 \<leftarrow> r8 K 0x1F800135;
     State_Monad.return (as_u16 (shl v1 8))
   }"

definition hud_gauge_item_record_kind :: "'c core_ops \<Rightarrow> u32 \<Rightarrow> ('c, u32)
    state" where
  "hud_gauge_item_record_kind K addr = r8 K (addr + 10)"

definition hud_gauge_item_record_span_base :: "'c core_ops \<Rightarrow> u32 \<Rightarrow> ('c,
    u32) state" where
  "hud_gauge_item_record_span_base K addr = r16 K (addr + 2)"

definition hud_gauge_item_record_span_bias :: "'c core_ops \<Rightarrow> u32 \<Rightarrow> ('c,
    u32) state" where
  "hud_gauge_item_record_span_bias K addr = r8 K (addr + 11)"

definition hud_gauge_item_record_label_byte :: "'c core_ops \<Rightarrow> u32 \<Rightarrow> ('c,
    u32) state" where
  "hud_gauge_item_record_label_byte K addr = r8 K (addr + kLabelByteOff)"

definition build_draw_area_rect :: "'c core_ops \<Rightarrow> u32 \<Rightarrow> u32 \<Rightarrow>
    u32 \<Rightarrow> u32 \<Rightarrow> u32 \<Rightarrow> ('c, unit) state" where
  "build_draw_area_rect K spOff x y w h = do {
     sp \<leftarrow> reg K 29;
     w16 K (sp + spOff + 0) x;
     w16 K (sp + spOff + 2) y;
     w16 K (sp + spOff + 4) w;
     w16 K (sp + spOff + 6) h
   }"

definition emit_draw_area_and_link :: "'c core_ops \<Rightarrow> u32 \<Rightarrow> u32
    \<Rightarrow> ('c, unit) state" where
  "emit_draw_area_and_link K raConst rectOff = do {
     v1 \<leftarrow> packet_pool_allocate K kDrawAreaPacketBytes;
     setr K 16 v1;
     r16_2 \<leftarrow> reg K 16;
     r29_3 \<leftarrow> reg K 29;
     _ \<leftarrow> dispatch_jal K kFunBuildDrawArea raConst [r16_2, r29_3 + rectOff];
     setr K 3 kDrawAreaOtTag;
     v4 \<leftarrow> r32 K 0x800ED8C8;
     r16_5 \<leftarrow> reg K 16;
     tagWord \<leftarrow> ordering_table_link K v4 r16_5 kDrawAreaOtWords kHudOtBucketIndex;
     setr K 2 tagWord
   }"

definition emit_segment_layout :: "'c core_ops \<Rightarrow> u32 \<Rightarrow> u32 \<Rightarrow>
    u32 \<Rightarrow> u32 \<Rightarrow> ('c, unit) state" where
  "emit_segment_layout K raConst descAddr rec bias = do {
     v1 \<leftarrow> hud_gauge_item_record_span_base K rec;
     v2 \<leftarrow> hud_gauge_item_record_span_bias K rec;
     let sum1 = as_u16 (v1 + v2 + bias);
     _ \<leftarrow> dispatch_jal K kFunSegmentLayout raConst [descAddr, as_s16 sum1];
     State_Monad.return ()
   }"

definition hud_gauge_emitter_emit_item :: "'c core_ops \<Rightarrow> ('c, unit) state" where
  "hud_gauge_emitter_emit_item K = with_frame K 64 [(17, 36), (31, 60), (22, 56), (21, 52), (20,
      48), (19, 44), (18, 40), (16, 32)] (do {
     let kWord0Off = (16 :: u32);
     let kWord1Off = (20 :: u32);
     let kRectOff = (24 :: u32);
     r4_1 \<leftarrow> reg K 4;
     setr K 17 r4_1;
     sp \<leftarrow> reg K 29;
     r17_3 \<leftarrow> reg K 17;
     v4 \<leftarrow> r32 K (r17_3 + 0);
     w32 K (sp + kWord0Off) v4;
     v5 \<leftarrow> r32 K (r17_3 + 4);
     w32 K (sp + kWord1Off) v5;
     v6 \<leftarrow> r16 K (sp + kWord0Off);
     w16 K (sp + kWord0Off) (as_s16 v6 - 4);
     v7 \<leftarrow> r16 K (sp + kWord1Off);
     w16 K (sp + kWord1Off) (as_s16 v7 + 8);
     kind \<leftarrow> hud_gauge_item_record_kind K r17_3;
     only_if (kind < 3) (setr K 20 kPktPoolBaseReg);
     (if kind < 3 \<and> kind \<noteq> 0 then do {
       setr K 21 (sp + kRectOff);
       v9 \<leftarrow> hud_viewport_y K;
       build_draw_area_rect K kRectOff kViewportX v9 kViewportW kViewportH;
       emit_draw_area_and_link K kRaItemTileA kRectOff;
       setr K 19 kOtBaseReg;
       setr K 18 kDrawAreaOtTag;
       r17_10 \<leftarrow> reg K 17;
       emit_segment_layout K kRaItemSeg1 (r17_10 + kSegPrimaryOff) r17_3 0;
       only_if (kind = 1) (do {
         r17_11 \<leftarrow> reg K 17;
         emit_segment_layout K kRaItemSeg2 (r17_11 + kSegSecondaryOff) r17_3 (-8)
       });
       itemX \<leftarrow> r16 K (sp + kWord0Off);
       itemYHigh \<leftarrow> r16 K (sp + kWord0Off + 2);
       itemW \<leftarrow> r16 K (sp + kWord1Off);
       itemH \<leftarrow> r16 K (sp + kWord1Off + 2);
       v16 \<leftarrow> hud_viewport_y K;
       build_draw_area_rect K kRectOff itemX (as_u16 (itemYHigh + v16)) itemW itemH;
       emit_draw_area_and_link K kRaItemTileB kRectOff
     }
      else do {
        r17_17 \<leftarrow> reg K 17;
        emit_segment_layout K kRaItemSegElse (r17_17 + kSegPrimaryOff) r17_3 0
      });
     v18 \<leftarrow> hud_gauge_item_record_label_byte K r17_3;
     _ \<leftarrow> dispatch_jal K kFunLabelOrDigits kRaItemFinal [sp + kWord0Off, v18, 0, 3];
     State_Monad.return ()
   })"

definition hud_gauge_emitter_emit_frame :: "'c core_ops \<Rightarrow> ('c, unit) state" where
  "hud_gauge_emitter_emit_frame K = with_frame K 40 [(18, 32), (31, 36), (17, 28), (16, 24)] (do {
     let kRectOff = (16 :: u32);
     setr K 18 kHudGaugeBase;
     count1 \<leftarrow> r16s K (kHudGaugeBase + kCountOff);
     (if count1 = 0 then setr K 2 1
      else do {
        v2 \<leftarrow> r8 K (kHudGaugeBase + kFlagOff);
        only_if (v2 = 1) (do {
          v3 \<leftarrow> hud_viewport_y K;
          build_draw_area_rect K kRectOff kViewportX v3 kViewportW kViewportH;
          emit_draw_area_and_link K kRaFrameTileA kRectOff
        });
        only_if (0 <s count1) (do {
          setr K 17 kRecordsOff;
          setr K 16 0;
          loop (\<lambda>_. do {
            r16_4 \<leftarrow> reg K 16;
            (if r16_4 <s count1 then do {
              r18_5 \<leftarrow> reg K 18;
              r17_6 \<leftarrow> reg K 17;
              setr K 4 (r18_5 + r17_6);
              setr K 31 kRaFrameCallItem;
              hud_gauge_emitter_emit_item K;
              r16_7 \<leftarrow> reg K 16;
              setr K 16 (r16_7 + 1);
              r17_8 \<leftarrow> reg K 17;
              setr K 17 (r17_8 + kRecordStride);
              State_Monad.return (Inr ())
            }
             else State_Monad.return (Inl ()))
          }) ()
        });
        flag \<leftarrow> r8 K (kHudGaugeBase + kFlagOff);
        setr K 2 1;
        setr K 3 flag;
        only_if (flag = 1) (do {
          v10 \<leftarrow> hud_viewport_y K;
          build_draw_area_rect K kRectOff kPanelX (as_u16 (v10 + kPanelYBias)) kPanelW kPanelH;
          emit_draw_area_and_link K kRaFrameTileB kRectOff
        })
      })
   })"

section \<open>\<open>game/render/libgpu_draw_mode.cpp\<close>\<close>

definition set_draw_mode :: "'c core_ops \<Rightarrow> u32 \<Rightarrow> u32 \<Rightarrow> u32
    \<Rightarrow> u32 \<Rightarrow> u32 \<Rightarrow> ('c, u32) state" where
  "set_draw_mode K packet drawOnDisplay dither texturePage window1 = do {
     w8 K (packet + 3) kPacketTag;
     let mode = kDrawModeCommand;
     let mode = (if dither \<noteq> 0 then (mode OR kDitherBit) else mode);
     let page = texturePage AND kTexturePageMask;
     let page = (if drawOnDisplay \<noteq> 0 then (page OR kDrawOnDisplayBit) else page);
     let mode = mode OR page;
     w32 K (packet + 4) mode;
     (if window1 = 0 then do { w32 K (packet + 8) 0; State_Monad.return mode }
      else do {
        let twin = kTextureWindowCommand;
        v1 \<leftarrow> r8 K (window1 + 2);
        let twin = twin OR (shl (shr v1 3) 15);
        v2 \<leftarrow> r8 K (window1 + 0);
        let twin = twin OR (shl (shr v2 3) 10);
        v3 \<leftarrow> r16s K (window1 + 6);
        let twin = twin OR ((shl (0 - v3) 2) AND 0x3E0);
        v4 \<leftarrow> r16s K (window1 + 4);
        let offsetX = sar 3 ((0 - v4) AND 0xFF);
        let twin = twin OR offsetX;
        w32 K (packet + 8) twin;
        State_Monad.return offsetX
      })
   }"

section \<open>\<open>game/render/model_packet.cpp\<close>\<close>

definition model_packet_lit_depth :: "'c core_ops \<Rightarrow> u32 \<Rightarrow> ('c, u32) state"
    where
  "model_packet_lit_depth K flags = do {
     let sw1 = flags AND 3;
     (if sw1 = 0 then State_Monad.return ModelDepth_Average
      else if sw1 = 2 then State_Monad.return ModelDepth_Nearest
       else State_Monad.return ModelDepth_Farthest)
   }"

definition model_packet_flagged_depth :: "'c core_ops \<Rightarrow> u32 \<Rightarrow> ('c, u32)
    state" where
  "model_packet_flagged_depth K flags = (if flags = 0 then State_Monad.return ModelDepth_Average
    else if flags = 1 then State_Monad.return ModelDepth_Farthest
     else State_Monad.return ModelDepth_Nearest)"

definition model_packet_depth_of :: "'c core_ops \<Rightarrow> u32 \<Rightarrow> u32 \<Rightarrow>
    ('c, u32) state" where
  "model_packet_depth_of K flags modeMask = do {
     let sw1 = flags AND modeMask;
     (if sw1 = 1 then State_Monad.return ModelDepth_Farthest
      else if sw1 = 2 then State_Monad.return ModelDepth_Nearest
       else State_Monad.return ModelDepth_Average)
   }"

definition model_packet_hidden :: "'c core_ops \<Rightarrow> u32 \<Rightarrow> u32 \<Rightarrow>
    ('c, bool) state" where
  "model_packet_hidden K flags hideFlag = do {
     v1 \<leftarrow> r32 K kHideWord;
     State_Monad.return ((flags AND hideFlag) \<noteq> 0 \<and> v1 \<noteq> 0)
   }"

section \<open>\<open>game/render/obj_model_view.cpp\<close>\<close>

definition obj_model_view_compose_into_gte :: "'c core_ops \<Rightarrow> ('c, unit) state" where
  "obj_model_view_compose_into_gte K = with_frame K kFrameBytes [(18, 40), (17, 36), (16, 32),
      (31, 44)] (do {
     r4_1 \<leftarrow> reg K 4;
     setr K 18 r4_1;
     r5_2 \<leftarrow> reg K 5;
     setr K 17 r5_2;
     setr K 16 kComposeBase;
     r6_3 \<leftarrow> reg K 6;
     setr K 4 r6_3;
     r16_4 \<leftarrow> reg K 16;
     setr K 5 r16_4;
     _ \<leftarrow> dispatch_jal K 0x80085480 kRaRotMatrix [];
     r29_5 \<leftarrow> reg K 29;
     r17_6 \<leftarrow> reg K 17;
     v7 \<leftarrow> r8 K (r17_6 + 0);
     w32 K (r29_5 + kLocalScaleCol0) (shl v7 (unat obj_model_view_kScaleByteShift));
     v8 \<leftarrow> r8 K (r17_6 + 1);
     w32 K (r29_5 + kLocalScaleCol1) (shl v8 (unat obj_model_view_kScaleByteShift));
     v9 \<leftarrow> r8 K (r17_6 + 2);
     w32 K (r29_5 + kLocalScaleCol2) (shl v9 (unat obj_model_view_kScaleByteShift));
     r16_10 \<leftarrow> reg K 16;
     setr K 4 r16_10;
     setr K 5 (r29_5 + kLocalScaleCol0);
     _ \<leftarrow> dispatch_jal K 0x80084520 kRaColScale [];
     for_each (upto_u32 (unat kRotWords)) (\<lambda>i. do {
       v11 \<leftarrow> r32 K (kCamRot + 4 * i);
       gte_set_control K (kGteCrRot + i) v11
     });
     v12 \<leftarrow> compose_area_elem K (kRow0 + 0 * kColStride);
     gte_set_data K kGteIr1 v12;
     v13 \<leftarrow> compose_area_elem K (kRow1 + 0 * kColStride);
     gte_set_data K kGteIr2 v13;
     v14 \<leftarrow> compose_area_elem K (kRow2 + 0 * kColStride);
     gte_set_data K kGteIr3 v14;
     gte_run K kMvmvaRotCol;
     g15 \<leftarrow> gte_data K kGteIr1;
     compose_area_set_elem K (kRow0 + 0 * kColStride) g15;
     g16 \<leftarrow> gte_data K kGteIr2;
     compose_area_set_elem K (kRow1 + 0 * kColStride) g16;
     g17 \<leftarrow> gte_data K kGteIr3;
     compose_area_set_elem K (kRow2 + 0 * kColStride) g17;
     v18 \<leftarrow> compose_area_elem K (kRow0 + 1 * kColStride);
     gte_set_data K kGteIr1 v18;
     v19 \<leftarrow> compose_area_elem K (kRow1 + 1 * kColStride);
     gte_set_data K kGteIr2 v19;
     v20 \<leftarrow> compose_area_elem K (kRow2 + 1 * kColStride);
     gte_set_data K kGteIr3 v20;
     gte_run K kMvmvaRotCol;
     g21 \<leftarrow> gte_data K kGteIr1;
     compose_area_set_elem K (kRow0 + 1 * kColStride) g21;
     g22 \<leftarrow> gte_data K kGteIr2;
     compose_area_set_elem K (kRow1 + 1 * kColStride) g22;
     g23 \<leftarrow> gte_data K kGteIr3;
     compose_area_set_elem K (kRow2 + 1 * kColStride) g23;
     v24 \<leftarrow> compose_area_elem K (kRow0 + 2 * kColStride);
     gte_set_data K kGteIr1 v24;
     v25 \<leftarrow> compose_area_elem K (kRow1 + 2 * kColStride);
     gte_set_data K kGteIr2 v25;
     v26 \<leftarrow> compose_area_elem K (kRow2 + 2 * kColStride);
     gte_set_data K kGteIr3 v26;
     gte_run K kMvmvaRotCol;
     g27 \<leftarrow> gte_data K kGteIr1;
     compose_area_set_elem K (kRow0 + 2 * kColStride) g27;
     g28 \<leftarrow> gte_data K kGteIr2;
     compose_area_set_elem K (kRow1 + 2 * kColStride) g28;
     g29 \<leftarrow> gte_data K kGteIr3;
     compose_area_set_elem K (kRow2 + 2 * kColStride) g29;
     r18_30 \<leftarrow> reg K 18;
     v31 \<leftarrow> r32 K (r18_30 + 0);
     gte_set_data K kGteVxy0 v31;
     r18_32 \<leftarrow> reg K 18;
     v33 \<leftarrow> r32 K (r18_32 + 4);
     gte_set_data K kGteVz0 v33;
     gte_run K kMvmvaWorldPos;
     g34 \<leftarrow> gte_data K kGteMac1;
     compose_area_set_trans K 0 g34;
     g35 \<leftarrow> gte_data K kGteMac2;
     compose_area_set_trans K 1 g35;
     g36 \<leftarrow> gte_data K kGteMac3;
     compose_area_set_trans K 2 g36;
     v37 \<leftarrow> compose_area_trans K 0;
     v38 \<leftarrow> r32 K (kCamTrans + 0);
     compose_area_set_trans K 0 (v37 + v38);
     v39 \<leftarrow> compose_area_trans K 1;
     v40 \<leftarrow> r32 K (kCamTrans + 4);
     compose_area_set_trans K 1 (v39 + v40);
     v41 \<leftarrow> compose_area_trans K 2;
     v42 \<leftarrow> r32 K (kCamTrans + 8);
     compose_area_set_trans K 2 (v41 + v42);
     for_each (upto_u32 (unat kRotWords)) (\<lambda>i. do {
       v43 \<leftarrow> compose_area_rot_word K i;
       gte_set_control K (kGteCrRot + i) v43
     });
     v44 \<leftarrow> compose_area_trans K 0;
     gte_set_control K (kGteCrTrans + 0) v44;
     v45 \<leftarrow> compose_area_trans K 1;
     gte_set_control K (kGteCrTrans + 1) v45;
     v46 \<leftarrow> compose_area_trans K 2;
     gte_set_control K (kGteCrTrans + 2) v46
   })"

section \<open>\<open>game/render/packed_mesh.cpp\<close>\<close>

definition mesh_shade :: "'c core_ops \<Rightarrow> u32 \<Rightarrow> u32 \<Rightarrow> ('c, unit)
    state" where
  "mesh_shade K record1 packet = do {
     v1 \<leftarrow> r32 K kDepthCue;
     gte_set_data K (gte_code K ''kIr0'') v1;
     v2 \<leftarrow> r32 K (record1 + 0xC);
     gte_set_data K (gte_code K ''kRgb0'') v2;
     v3 \<leftarrow> r32 K (record1 + 0x10);
     gte_set_data K (gte_code K ''kRgb1'') v3;
     v4 \<leftarrow> r32 K (record1 + 0x14);
     gte_set_data K (gte_code K ''kRgb2'') v4;
     v5 \<leftarrow> r32 K (record1 + 0x14);
     gte_set_data K (gte_code K ''kRgbc'') v5;
     gte_run K (gte_code K ''kDpct'');
     g6 \<leftarrow> gte_data K (gte_code K ''kRgb0'');
     w32 K (packet + (kColour ! 0)) g6;
     g7 \<leftarrow> gte_data K (gte_code K ''kRgb1'');
     w32 K (packet + (kColour ! 1)) g7;
     g8 \<leftarrow> gte_data K (gte_code K ''kRgb2'');
     w32 K (packet + (kColour ! 2)) g8;
     v9 \<leftarrow> r32 K (record1 + 0x18);
     gte_set_data K (gte_code K ''kRgbc'') v9;
     gte_run K (gte_code K ''kDpcs'');
     g10 \<leftarrow> gte_data K (gte_code K ''kRgb2'');
     w32 K (packet + (kColour ! 3)) g10
   }"

definition record_count :: "'c core_ops \<Rightarrow> u32 \<Rightarrow> ('c, u32) state" where
  "record_count K list = do {
     let count1 = (1 :: u32);
     loop (\<lambda>count1. do {
       v1 \<leftarrow> r32 K (list + ((count1 - 1) * kRecordBytes) + 4);
       (if 0 <s v1 then do { let count1 = count1 + 1; State_Monad.return (Inr count1) }
        else State_Monad.return (Inl count1))
     }) count1
   }"

section \<open>\<open>game/render/sop_ground.cpp\<close>\<close>

definition sop_ground_draw :: "'c core_ops \<Rightarrow> ('c, unit) state" where
  "sop_ground_draw K = with_frame K 40 [(31, 36), (20, 32), (19, 28), (18, 24), (17, 20), (16,
      16)] (do {
     list \<leftarrow> reg K 4;
     count1 \<leftarrow> r8 K (list + kListCount);
     (if count1 = 0 then State_Monad.return ()
      else do {
        orderingTable \<leftarrow> r32 K 0x800ED8C8;
        blocks \<leftarrow> r32 K (list + kListBlocks);
        for_each (upto_u32 (unat kSceneCameraWords)) (\<lambda>reg1. do {
          v5 \<leftarrow> r32 K (kSceneCamera + reg1 * 4);
          gte_set_control K reg1 v5
        });
        for_each (upto_u32 (unat count1)) (\<lambda>slot1. do {
          v6 \<leftarrow> r16 K (list + kListIndices + slot1 * 2);
          let block = blocks + v6 * 4;
          counts1 \<leftarrow> r32 K block;
          setr K 4 (block + sop_ground_kBlockRecords);
          setr K 5 orderingTable;
          setr K 6 (counts1 AND 0xFF);
          setr K 31 kReturnAfterGt3;
          call_guest K kGt3;
          r2_8 \<leftarrow> reg K 2;
          setr K 4 r2_8;
          setr K 5 orderingTable;
          setr K 6 ((shr counts1 16) AND 0xFF);
          setr K 31 kReturnAfterGt4;
          call_guest K kGt4
        })
      })
   })"

section \<open>\<open>game/render/subpart_walk.cpp\<close>\<close>

definition render_sub_part_walk :: "'c core_ops \<Rightarrow> ('c, unit) state" where
  "render_sub_part_walk K = do {
     node \<leftarrow> reg K 4;
     passThrough \<leftarrow> reg K 5;
     r29_3 \<leftarrow> reg K 29;
     setr K 29 (r29_3 - 80);
     frame1 \<leftarrow> reg K 29;
     r18_5 \<leftarrow> reg K 18;
     w32 K (frame1 + 64) r18_5;
     r31_6 \<leftarrow> reg K 31;
     w32 K (frame1 + 76) r31_6;
     r20_7 \<leftarrow> reg K 20;
     w32 K (frame1 + 72) r20_7;
     r19_8 \<leftarrow> reg K 19;
     w32 K (frame1 + 68) r19_8;
     r17_9 \<leftarrow> reg K 17;
     w32 K (frame1 + 60) r17_9;
     r16_10 \<leftarrow> reg K 16;
     w32 K (frame1 + 56) r16_10;
     setr K 18 node;
     setr K 20 passThrough;
     v11 \<leftarrow> r8 K (node + NODE_LIMIT);
     v12 \<leftarrow> r8 K (node + NODE_COUNT);
     only_if (v11 \<noteq> 0 \<and> v12 \<noteq> 0) (do {
       setr K 16 0;
       setr K 17 node;
       setr K 19 kBasePointerPage;
       loop (\<lambda>_. do {
         r16_13 \<leftarrow> reg K 16;
         v14 \<leftarrow> r8 K (node + NODE_LIMIT);
         (if v14 \<le>s r16_13 then State_Monad.return (Inl ())
          else do {
            r17_15 \<leftarrow> reg K 17;
            sub1 \<leftarrow> r32 K (r17_15 + SUBPART_ARRAY);
            let xf = sub1 + SUB_TRANSFORM;
            v17 \<leftarrow> r32 K (xf + 0);
            gte_set_control K 0 v17;
            v18 \<leftarrow> r32 K (xf + 4);
            gte_set_control K 1 v18;
            v19 \<leftarrow> r32 K (xf + 8);
            gte_set_control K 2 v19;
            v20 \<leftarrow> r32 K (xf + 12);
            gte_set_control K 3 v20;
            v21 \<leftarrow> r32 K (xf + 16);
            gte_set_control K 4 v21;
            v22 \<leftarrow> r32 K (xf + 20);
            gte_set_control K 5 v22;
            v23 \<leftarrow> r32 K (xf + 24);
            gte_set_control K 6 v23;
            v24 \<leftarrow> r32 K (xf + 28);
            gte_set_control K 7 v24;
            r17_25 \<leftarrow> reg K 17;
            setr K 17 (r17_25 + 4);
            v26 \<leftarrow> r32 K (sub1 + SUB_GEOMBLK);
            setr K 4 v26;
            v27 \<leftarrow> r32 K 0x800ED8C8;
            setr K 5 v27;
            setr K 31 0x8003F230;
            setr K 6 passThrough;
            call_guest K 0x8003F698;
            r16_28 \<leftarrow> reg K 16;
            setr K 16 (r16_28 + 1);
            r16_29 \<leftarrow> reg K 16;
            v30 \<leftarrow> r8 K (node + NODE_COUNT);
            (if r16_29 <s v30 then State_Monad.return (Inr ())
             else State_Monad.return (Inl ()))
          })
       }) ()
     });
     v31 \<leftarrow> r32 K (frame1 + 76);
     setr K 31 v31;
     v32 \<leftarrow> r32 K (frame1 + 72);
     setr K 20 v32;
     v33 \<leftarrow> r32 K (frame1 + 68);
     setr K 19 v33;
     v34 \<leftarrow> r32 K (frame1 + 64);
     setr K 18 v34;
     v35 \<leftarrow> r32 K (frame1 + 60);
     setr K 17 v35;
     v36 \<leftarrow> r32 K (frame1 + 56);
     setr K 16 v36;
     r29_37 \<leftarrow> reg K 29;
     setr K 29 (r29_37 + 80)
   }"

definition ov_subpart_walk :: "'c core_ops \<Rightarrow> ('c, unit) state" where
  "ov_subpart_walk K = render_sub_part_walk K"

section \<open>\<open>game/render/subpart_walk_shared.cpp\<close>\<close>

definition render_shared_transform_walk :: "'c core_ops \<Rightarrow> ('c, unit) state" where
  "render_shared_transform_walk K = do {
     node \<leftarrow> reg K 4;
     passThrough \<leftarrow> reg K 5;
     r29_3 \<leftarrow> reg K 29;
     setr K 29 (r29_3 - 40);
     frame1 \<leftarrow> reg K 29;
     r18_5 \<leftarrow> reg K 18;
     w32 K (frame1 + 24) r18_5;
     r31_6 \<leftarrow> reg K 31;
     w32 K (frame1 + 36) r31_6;
     r20_7 \<leftarrow> reg K 20;
     w32 K (frame1 + 32) r20_7;
     r19_8 \<leftarrow> reg K 19;
     w32 K (frame1 + 28) r19_8;
     r17_9 \<leftarrow> reg K 17;
     w32 K (frame1 + 20) r17_9;
     r16_10 \<leftarrow> reg K 16;
     w32 K (frame1 + 16) r16_10;
     v11 \<leftarrow> r8 K (node + NODE_LIMIT);
     only_if (v11 \<noteq> 0) (do {
       v12 \<leftarrow> r32 K (VIEW_TRANSFORM + 0);
       gte_set_control K 0 v12;
       v13 \<leftarrow> r32 K (VIEW_TRANSFORM + 4);
       gte_set_control K 1 v13;
       v14 \<leftarrow> r32 K (VIEW_TRANSFORM + 8);
       gte_set_control K 2 v14;
       v15 \<leftarrow> r32 K (VIEW_TRANSFORM + 12);
       gte_set_control K 3 v15;
       v16 \<leftarrow> r32 K (VIEW_TRANSFORM + 16);
       gte_set_control K 4 v16;
       v17 \<leftarrow> r32 K (VIEW_TRANSFORM + 20);
       gte_set_control K 5 v17;
       v18 \<leftarrow> r32 K (VIEW_TRANSFORM + 24);
       gte_set_control K 6 v18;
       v19 \<leftarrow> r32 K (VIEW_TRANSFORM + 28);
       gte_set_control K 7 v19;
       v20 \<leftarrow> r8 K (node + NODE_COUNT);
       only_if (v20 \<noteq> 0) (do {
         let index = (0 :: u32);
         let cursor = node;
         (index, cursor) \<leftarrow> loop (\<lambda>(index, cursor). do {
           v21 \<leftarrow> r8 K (node + NODE_LIMIT);
           (if v21 \<le>s index then State_Monad.return (Inl (index, cursor))
            else do {
              sub1 \<leftarrow> r32 K (cursor + SUBPART_ARRAY);
              v23 \<leftarrow> r32 K (sub1 + SUB_GEOMBLK);
              setr K 4 v23;
              v24 \<leftarrow> r32 K 0x800ED8C8;
              setr K 5 v24;
              setr K 31 0x8003F140;
              setr K 6 passThrough;
              call_guest K 0x8003F698;
              let index = index + 1;
              let cursor = cursor + 4;
              v25 \<leftarrow> r8 K (node + NODE_COUNT);
              (if index <s v25 then State_Monad.return (Inr (index, cursor))
               else State_Monad.return (Inl (index, cursor)))
            })
         }) (index, cursor);
         State_Monad.return ()
       })
     });
     v26 \<leftarrow> r32 K (frame1 + 36);
     setr K 31 v26;
     v27 \<leftarrow> r32 K (frame1 + 32);
     setr K 20 v27;
     v28 \<leftarrow> r32 K (frame1 + 28);
     setr K 19 v28;
     v29 \<leftarrow> r32 K (frame1 + 24);
     setr K 18 v29;
     v30 \<leftarrow> r32 K (frame1 + 20);
     setr K 17 v30;
     v31 \<leftarrow> r32 K (frame1 + 16);
     setr K 16 v31;
     r29_32 \<leftarrow> reg K 29;
     setr K 29 (r29_32 + 40)
   }"

definition ov_shared_transform_walk :: "'c core_ops \<Rightarrow> ('c, unit) state" where
  "ov_shared_transform_walk K = render_shared_transform_walk K"

section \<open>\<open>game/render/tile_grid_layer.cpp\<close>\<close>

definition tile_grid_layer_scroll_step :: "'c core_ops \<Rightarrow> ('c, unit) state" where
  "tile_grid_layer_scroll_step K = do {
     node \<leftarrow> reg K 4;
     r29_2 \<leftarrow> reg K 29;
     setr K 29 (r29_2 - 8);
     state1 \<leftarrow> r8 K (node + 0);
     (if state1 = 1 then do {
       dX \<leftarrow> r16s K 0x1F8000F2;
       kX1 \<leftarrow> r16 K (node + 0x2C);
       let wrapX = sar 1 (kX1 + 320) - (sar 12 (dX * kX1));
       pitchX \<leftarrow> r16 K (node + 0x30);
       wrapX \<leftarrow> loop (\<lambda>wrapX. (if wrapX <s 0 then do {
         let wrapX = wrapX + pitchX;
         State_Monad.return (Inr wrapX)
       }
        else State_Monad.return (Inl wrapX))) wrapX;
       wrapX \<leftarrow> loop (\<lambda>wrapX. (if pitchX \<le>s wrapX then do {
         let wrapX = wrapX - pitchX;
         State_Monad.return (Inr wrapX)
       }
        else State_Monad.return (Inl wrapX))) wrapX;
       dY \<leftarrow> r16s K 0x1F8000F0;
       kY1 \<leftarrow> r16 K (node + 0x2E);
       v9 \<leftarrow> r8 K (node + 17);
       let h8 = shl v9 3;
       let wrapY = sar 12 (dY * kY1) + h8 - 32;
       pitchY \<leftarrow> r16 K (node + 0x32);
       wrapY \<leftarrow> loop (\<lambda>wrapY. (if wrapY <s 0 then do {
         let wrapY = wrapY + pitchY;
         State_Monad.return (Inr wrapY)
       }
        else State_Monad.return (Inl wrapY))) wrapY;
       wrapY \<leftarrow> loop (\<lambda>wrapY. (if pitchY \<le>s wrapY then do {
         let wrapY = wrapY - pitchY;
         State_Monad.return (Inr wrapY)
       }
        else State_Monad.return (Inl wrapY))) wrapY;
       v11 \<leftarrow> r8 K (node + 0x38);
       let countdown = as_u8 (v11 - 1);
       w8 K (node + 0x38) countdown;
       only_if (as_s8 countdown \<le>s 0) (w8 K (node + 3) 1);
       w16 K (node + 0x28) wrapX;
       w16 K (node + 0x2A) wrapY
     }
      else only_if (state1 = 0) (do {
        src \<leftarrow> r32 K 0x800ECF84;
        w8 K (node + 0) 1;
        w8 K (node + 3) 0;
        for_each (upto_u32 6) (\<lambda>i. do {
          v13 \<leftarrow> r16 K (src + i * 2);
          w16 K (node + 4 + i * 2) v13
        });
        gridW \<leftarrow> r8 K (src + 12);
        gridH \<leftarrow> r8 K (src + 13);
        w8 K (node + 16) gridW;
        w8 K (node + 17) gridH;
        w16 K (node + 0x2C) 2304;
        w16 K (node + 0x2E) 2280;
        f14 \<leftarrow> r16 K (src + 14);
        f16 \<leftarrow> r16 K (src + 16);
        let rec18 = src + 20;
        let rec14 = rec18 + f16;
        let rec1c = rec18 + f14;
        w32 K (node + 0x14) rec14;
        w32 K (node + 0x18) rec18;
        w32 K (node + 0x1C) rec1c;
        w32 K (node + 0x34) rec1c;
        let prodW = (scast (2304 * gridW) :: 64 word) * (0x38E38E39 :: 64 word);
        let prodH = (scast (2280 * gridH) :: 64 word) * (0x38E38E39 :: 64 word);
        w16 K (node + 0x30) (sar 5 (ucast (signed_drop_bit 32 prodW) :: u32));
        w16 K (node + 0x32) (sar 5 (ucast (signed_drop_bit 32 prodH) :: u32));
        w8 K (node + 0x38) 1
      }));
     r29_18 \<leftarrow> reg K 29;
     setr K 29 (r29_18 + 8)
   }"

definition tile_grid_layer_emit_grid :: "'c core_ops \<Rightarrow> u32 \<Rightarrow> u32
    \<Rightarrow> ('c, unit) state" where
  "tile_grid_layer_emit_grid K node tileVBias = do {
     W \<leftarrow> r8 K (node + 0x10);
     H \<leftarrow> r8 K (node + 0x11);
     (if W = 0 \<or> H = 0 then State_Monad.return ()
      else do {
        let rowstride = W * 2;
        let mapbytes = rowstride * H;
        scrollX \<leftarrow> r16s K (node + 0x28);
        scrollY \<leftarrow> r16s K (node + 0x2A);
        tileTable \<leftarrow> r32 K (node + 0x14);
        clutBase \<leftarrow> r16 K (node + 0x06);
        tpage \<leftarrow> r16 K (node + 0x04);
        let cx = (160 :: u32);
        let cy = (120 :: u32);
        let slack = (32 :: u32);
        window1 \<leftarrow> draw_window K;
        let firstColumn = scrollX - cx + win_left window1;
        let rowtile = srem (sar 4 (scrollY - cy)) H;
        let rowtile = (if rowtile <s 0 then (rowtile + H) else rowtile);
        let coltile = srem (sar 4 firstColumn) W;
        let coltile = (if coltile <s 0 then (coltile + W) else coltile);
        let t2 = rowtile * rowstride;
        let coloff0 = coltile * 2;
        let xoff = as_s16 (cx - 8 - scrollX);
        let yoff = as_s16 (cy - 8 - scrollY);
        let outer_bound = as_s16 (scrollY - cy) + 0x100;
        let t5 = as_s16 (scrollX - cx) + win_right window1 + slack;
        pool \<leftarrow> packet_pool_cursor K;
        let first = pool;
        let t8 = scrollY - cy;
        (t2, pool, last1, t8) \<leftarrow> loop (\<lambda>(t2, pool, last1, t8). do {
          let Y = as_s16 ((t8 AND 0xFFF0) + yoff);
          let t6 = as_s16 t2;
          let t0 = coloff0;
          let t1 = firstColumn;
          (pool, last1, t0, t1) \<leftarrow> loop (\<lambda>(pool, last1, t0, t1). do {
            let X = as_s16 ((t1 AND 0xFFF0) + xoff);
            let cell = tileTable + (t6 + t0);
            tile \<leftarrow> r16 K cell;
            let u = shl (tile AND 0xF) 4;
            let v = (tile AND 0xF0) + tileVBias;
            let thisAddr = pool;
            w32 K (thisAddr + 4) 0x7D808080;
            w8 K (thisAddr + 7) 0x7C;
            w8 K (thisAddr + 3) 3;
            w32 K (thisAddr + 8) ((as_u16 X) OR (shl (as_u16 Y) 16));
            w16 K (thisAddr + 12) ((u AND 0xFF) OR (shl (v AND 0xFF) 8));
            w16 K (thisAddr + 14) (clutBase + (shr (tile AND 0xF00) 2));
            let pool = pool + 16;
            w32 K (thisAddr + 0) (pool OR 0x03000000);
            let last1 = thisAddr;
            let t0 = t0 + 2;
            let t0 = (if rowstride \<le>s t0 then (0 :: u32) else t0);
            let t1 = t1 + 16;
            (if \<not> (as_s16 t1 <s t5) then State_Monad.return (Inl (pool, last1, t0, t1))
             else State_Monad.return (Inr (pool, last1, t0, t1)))
          }) (pool, last1, t0, t1);
          let t2 = t2 + rowstride;
          let t2 = (if mapbytes \<le>s as_s16 t2 then (t2 - mapbytes) else t2);
          let t8 = t8 + 16;
          (if \<not> (as_s16 t8 <s outer_bound) then State_Monad.return (Inl (t2, pool, last1,
              t8))
           else State_Monad.return (Inr (t2, pool, last1, t8)))
        }) (t2, pool, (0 :: u32), t8);
        ot_base \<leftarrow> r32 K 0x800ED8C8;
        ordering_table_chain_to_head K ot_base last1 kOtBucketBg;
        let header = pool;
        _ \<leftarrow> set_draw_mode K header 0 0 tpage 0;
        w32 K (header + 0) (first OR 0x02000000);
        ordering_table_set_head K ot_base kOtBucketBg header;
        let pool = header + kHeaderBytes;
        packet_pool_set_cursor K pool
      })
   }"

definition tile_grid_layer_cycle_sop_palettes :: "'c core_ops \<Rightarrow> ('c, unit) state"
    where
  "tile_grid_layer_cycle_sop_palettes K = do {
     r29_1 \<leftarrow> reg K 29;
     let rect = r29_1 + 0x18;
     for_each (upto_u32 (unat kSopPaletteCycleCount)) (\<lambda>i. do {
       let cycle = kSopPaletteCycles + i * kSopPaletteCycleStride;
       let countdown = kSopPaletteCountdowns + i;
       v2 \<leftarrow> r8 K countdown;
       let remaining = as_u8 (v2 - 1);
       w8 K countdown remaining;
       (if 0 <s as_s8 remaining then State_Monad.return ()
        else do {
          script \<leftarrow> r32 K cycle;
          v4 \<leftarrow> r8 K script;
          script \<leftarrow> (if v4 = kPaletteScriptLoop then do {
            v5 \<leftarrow> r8 K (script + 1);
            let script = script - v5;
            w32 K cycle script;
            State_Monad.return script
          }
           else State_Monad.return script);
          frameIndex \<leftarrow> r8 K script;
          v7 \<leftarrow> r8 K (script + 1);
          w8 K countdown v7;
          v8 \<leftarrow> r16 K (cycle + 8);
          w16 K (rect + 0) v8;
          w16 K (rect + 4) 16;
          w16 K (rect + 6) 1;
          v9 \<leftarrow> r16 K (cycle + 10);
          w16 K (rect + 2) v9;
          setr K 4 rect;
          v10 \<leftarrow> r32 K (cycle + 4);
          setr K 5 (v10 + frameIndex * kClutRowBytes);
          setr K 31 kLoadImageReturn;
          call_guest K kLoadImage;
          v11 \<leftarrow> r32 K cycle;
          w32 K cycle (v11 + 2)
        })
     })
   }"

section \<open>\<open>game/render/widescreen_margin_quad.cpp\<close>\<close>

definition pack_delta :: "'c core_ops \<Rightarrow> u32 \<Rightarrow> ('c, u32) state" where
  "pack_delta K b = State_Monad.return (as_u16 (shl (as_u8 b) 8))"

definition margin_quad_record_uv0_clut_base :: "'c core_ops \<Rightarrow> u32 \<Rightarrow> ('c,
    u32) state" where
  "margin_quad_record_uv0_clut_base K addr = r32 K (addr + 0)"

definition margin_quad_record_plane_word :: "'c core_ops \<Rightarrow> u32 \<Rightarrow> ('c, u32)
    state" where
  "margin_quad_record_plane_word K addr = r32 K (addr + 4)"

definition margin_quad_record_uv2_word :: "'c core_ops \<Rightarrow> u32 \<Rightarrow> ('c, u32)
    state" where
  "margin_quad_record_uv2_word K addr = r32 K (addr + 8)"

definition margin_quad_record_color_code0_src :: "'c core_ops \<Rightarrow> u32 \<Rightarrow> ('c,
    u32) state" where
  "margin_quad_record_color_code0_src K addr = r32 K (addr + 12)"

definition margin_quad_record_rgb1_raw :: "'c core_ops \<Rightarrow> u32 \<Rightarrow> ('c, u32)
    state" where
  "margin_quad_record_rgb1_raw K addr = r32 K (addr + 16)"

definition margin_quad_record_rgb2_raw :: "'c core_ops \<Rightarrow> u32 \<Rightarrow> ('c, u32)
    state" where
  "margin_quad_record_rgb2_raw K addr = r32 K (addr + 20)"

definition margin_quad_record_rgb3_raw :: "'c core_ops \<Rightarrow> u32 \<Rightarrow> ('c, u32)
    state" where
  "margin_quad_record_rgb3_raw K addr = r32 K (addr + 24)"

definition margin_quad_record_z0 :: "'c core_ops \<Rightarrow> u32 \<Rightarrow> ('c, u32) state"
    where
  "margin_quad_record_z0 K addr = do {
     v1 \<leftarrow> r8 K (addr + 15);
     State_Monad.return (as_s8 v1)
   }"

definition margin_quad_record_z1 :: "'c core_ops \<Rightarrow> u32 \<Rightarrow> ('c, u32) state"
    where
  "margin_quad_record_z1 K addr = do {
     v1 \<leftarrow> r8 K (addr + 19);
     State_Monad.return (as_s8 v1)
   }"

definition margin_quad_record_z2 :: "'c core_ops \<Rightarrow> u32 \<Rightarrow> ('c, u32) state"
    where
  "margin_quad_record_z2 K addr = do {
     v1 \<leftarrow> r8 K (addr + 23);
     State_Monad.return (as_s8 v1)
   }"

definition margin_quad_record_z3 :: "'c core_ops \<Rightarrow> u32 \<Rightarrow> ('c, u32) state"
    where
  "margin_quad_record_z3 K addr = do {
     v1 \<leftarrow> r8 K (addr + 27);
     State_Monad.return (as_s8 v1)
   }"

definition margin_quad_record_x0 :: "'c core_ops \<Rightarrow> u32 \<Rightarrow> ('c, u32) state"
    where
  "margin_quad_record_x0 K addr = do {
     v1 \<leftarrow> r8 K (addr + 28);
     State_Monad.return (as_s8 v1)
   }"

definition margin_quad_record_x1 :: "'c core_ops \<Rightarrow> u32 \<Rightarrow> ('c, u32) state"
    where
  "margin_quad_record_x1 K addr = do {
     v1 \<leftarrow> r8 K (addr + 29);
     State_Monad.return (as_s8 v1)
   }"

definition margin_quad_record_y0_and_fog_byte :: "'c core_ops \<Rightarrow> u32 \<Rightarrow> ('c,
    u32) state" where
  "margin_quad_record_y0_and_fog_byte K addr = do {
     v1 \<leftarrow> r8 K (addr + 30);
     State_Monad.return (as_s8 v1)
   }"

definition margin_quad_record_y1 :: "'c core_ops \<Rightarrow> u32 \<Rightarrow> ('c, u32) state"
    where
  "margin_quad_record_y1 K addr = do {
     v1 \<leftarrow> r8 K (addr + 31);
     State_Monad.return (as_s8 v1)
   }"

definition margin_quad_record_x2 :: "'c core_ops \<Rightarrow> u32 \<Rightarrow> ('c, u32) state"
    where
  "margin_quad_record_x2 K addr = do {
     v1 \<leftarrow> r8 K (addr + 32);
     State_Monad.return (as_s8 v1)
   }"

definition margin_quad_record_x3 :: "'c core_ops \<Rightarrow> u32 \<Rightarrow> ('c, u32) state"
    where
  "margin_quad_record_x3 K addr = do {
     v1 \<leftarrow> r8 K (addr + 33);
     State_Monad.return (as_s8 v1)
   }"

definition margin_quad_record_y2 :: "'c core_ops \<Rightarrow> u32 \<Rightarrow> ('c, u32) state"
    where
  "margin_quad_record_y2 K addr = do {
     v1 \<leftarrow> r8 K (addr + 34);
     State_Monad.return (as_s8 v1)
   }"

definition margin_quad_record_y3 :: "'c core_ops \<Rightarrow> u32 \<Rightarrow> ('c, u32) state"
    where
  "margin_quad_record_y3 K addr = do {
     v1 \<leftarrow> r8 K (addr + 35);
     State_Monad.return (as_s8 v1)
   }"

definition margin_quad_record_continues :: "'c core_ops \<Rightarrow> u32 \<Rightarrow> ('c, bool)
    state" where
  "margin_quad_record_continues K addr = do {
     v1 \<leftarrow> margin_quad_record_plane_word K addr;
     State_Monad.return (0 <s v1)
   }"

definition fog_shade :: "'c core_ops \<Rightarrow> u32 \<Rightarrow> u32 \<Rightarrow> ('c, u32)
    state" where
  "fog_shade K base1 delta = do {
     let v = base1 - delta;
     (if v <s 0 then State_Monad.return 0
      else if 255 <s v then State_Monad.return 255 else State_Monad.return (as_u8 v))
   }"

definition margin_otz_index :: "'c core_ops \<Rightarrow> u32 \<Rightarrow> ('c, u32) state" where
  "margin_otz_index K zPlusBias = do {
     idx \<leftarrow> ordering_table_compress_depth K zPlusBias;
     v2 \<leftarrow> ordering_table_in_depth_range K idx;
     State_Monad.return (if v2 then idx else kNoBucket)
   }"

definition widescreen_margin_quad_emit_l349 :: "'c core_ops \<Rightarrow> u32 \<Rightarrow> u32
    \<Rightarrow> bool \<Rightarrow> ('c, u32 \<times> u32 + u32 \<times> u32) state" where
  "widescreen_margin_quad_emit_l349 K poolBase recAddr more1 = do {
     let kUvWordOff = ([12, 24, 36, 48] :: u32 list);
     for_each kUvWordOff (\<lambda>off. do {
       r17_90 \<leftarrow> reg K 17;
       let addr = r17_90 + off;
       v91 \<leftarrow> r8 K addr;
       r21_92 \<leftarrow> reg K 21;
       w8 K addr (v91 + r21_92)
     });
     ot_base \<leftarrow> r32 K 0x800ED8C8;
     r20_94 \<leftarrow> reg K 20;
     idx \<leftarrow> r32 K r20_94;
     setr K 3 (shl kPktWords 24);
     r17_96 \<leftarrow> reg K 17;
     _ \<leftarrow> ordering_table_link K ot_base r17_96 kPktWords idx;
     r17_97 \<leftarrow> reg K 17;
     setr K 17 (r17_97 + 52);
     let poolBase = poolBase + 52;
     let recAddr = recAddr + 36;
     (if \<not> more1 then State_Monad.return (Inl (poolBase, recAddr))
      else State_Monad.return (Inr (poolBase, recAddr)))
   }"

definition widescreen_margin_quad_emit_l249 :: "'c core_ops \<Rightarrow> u32 \<Rightarrow> u32
    \<Rightarrow> u32 \<Rightarrow> u32 \<Rightarrow> u32 \<Rightarrow> u32 \<Rightarrow> u32
    \<Rightarrow> ('c, u32 \<times> u32 + u32 \<times> u32) state" where
  "widescreen_margin_quad_emit_l249 K recAddr poolBase clutBiasHigh objZBias objRenderKind
      objRenderSubKind fogBase = do {
     more1 \<leftarrow> margin_quad_record_continues K recAddr;
     sp \<leftarrow> reg K 29;
     sharedByte30 \<leftarrow> margin_quad_record_y0_and_fog_byte K recAddr;
     v25 \<leftarrow> margin_quad_record_x0 K recAddr;
     v26 \<leftarrow> pack_delta K v25;
     w16 K (sp + kVtxScratch_X0) v26;
     v27 \<leftarrow> pack_delta K sharedByte30;
     w16 K (sp + kVtxScratch_Y0) v27;
     v28 \<leftarrow> margin_quad_record_z0 K recAddr;
     v29 \<leftarrow> pack_delta K v28;
     w16 K (sp + kVtxScratch_Z0) v29;
     v30 \<leftarrow> margin_quad_record_x1 K recAddr;
     v31 \<leftarrow> pack_delta K v30;
     w16 K (sp + kVtxScratch_X1) v31;
     v32 \<leftarrow> margin_quad_record_y1 K recAddr;
     v33 \<leftarrow> pack_delta K v32;
     w16 K (sp + kVtxScratch_Y1) v33;
     v34 \<leftarrow> margin_quad_record_z1 K recAddr;
     v35 \<leftarrow> pack_delta K v34;
     w16 K (sp + kVtxScratch_Z1) v35;
     v36 \<leftarrow> margin_quad_record_x2 K recAddr;
     v37 \<leftarrow> pack_delta K v36;
     w16 K (sp + kVtxScratch_X2) v37;
     v38 \<leftarrow> margin_quad_record_y2 K recAddr;
     v39 \<leftarrow> pack_delta K v38;
     w16 K (sp + kVtxScratch_Y2) v39;
     v40 \<leftarrow> margin_quad_record_z2 K recAddr;
     v41 \<leftarrow> pack_delta K v40;
     w16 K (sp + kVtxScratch_Z2) v41;
     v42 \<leftarrow> margin_quad_record_x3 K recAddr;
     v43 \<leftarrow> pack_delta K v42;
     w16 K (sp + kVtxScratch_X3) v43;
     v44 \<leftarrow> margin_quad_record_y3 K recAddr;
     v45 \<leftarrow> pack_delta K v44;
     w16 K (sp + kVtxScratch_Y3) v45;
     v46 \<leftarrow> margin_quad_record_z3 K recAddr;
     v47 \<leftarrow> pack_delta K v46;
     w16 K (sp + kVtxScratch_Z3) v47;
     v48 \<leftarrow> r32 K (sp + kVtxScratch_X0);
     gte_set_data K 0 v48;
     v49 \<leftarrow> r32 K (sp + kVtxScratch_Z0);
     gte_set_data K 1 v49;
     v50 \<leftarrow> r32 K (sp + kVtxScratch_X1);
     gte_set_data K 2 v50;
     v51 \<leftarrow> r32 K (sp + kVtxScratch_Z1);
     gte_set_data K 3 v51;
     v52 \<leftarrow> r32 K (sp + kVtxScratch_X2);
     gte_set_data K 4 v52;
     v53 \<leftarrow> r32 K (sp + kVtxScratch_Z2);
     gte_set_data K 5 v53;
     gte_run K 0x4A280030;
     v54 \<leftarrow> margin_quad_record_color_code0_src K recAddr;
     w32 K (poolBase - 44) ((v54 AND 0x00FFFFFF) OR kColorCodeTag);
     v55 \<leftarrow> margin_quad_record_uv0_clut_base K recAddr;
     w32 K (poolBase - 36) (v55 + clutBiasHigh);
     r20_56 \<leftarrow> reg K 20;
     g57 \<leftarrow> gte_control K 31;
     w32 K r20_56 g57;
     r20_58 \<leftarrow> reg K 20;
     v59 \<leftarrow> r32 K r20_58;
     (if v59 <s 0 then do {
       let recAddr = recAddr + 36;
       (if \<not> more1 then State_Monad.return (Inl (poolBase, recAddr))
        else State_Monad.return (Inr (poolBase, recAddr)))
     }
      else do {
        r17_60 \<leftarrow> reg K 17;
        g61 \<leftarrow> gte_data K 12;
        w32 K (r17_60 + 8) g61;
        r17_62 \<leftarrow> reg K 17;
        g63 \<leftarrow> gte_data K 13;
        w32 K (r17_62 + 20) g63;
        r17_64 \<leftarrow> reg K 17;
        g65 \<leftarrow> gte_data K 14;
        w32 K (r17_64 + 32) g65;
        v66 \<leftarrow> margin_quad_record_plane_word K recAddr;
        w32 K (poolBase - 24) (v66 AND kPlanePayloadMask);
        v67 \<leftarrow> margin_quad_record_uv2_word K recAddr;
        w32 K (poolBase - 12) v67;
        v68 \<leftarrow> margin_quad_record_uv2_word K recAddr;
        w32 K (poolBase + 0) (sar 16 v68);
        v69 \<leftarrow> r32 K (sp + kVtxScratch_X3);
        gte_set_data K 0 v69;
        v70 \<leftarrow> r32 K (sp + kVtxScratch_Z3);
        gte_set_data K 1 v70;
        v71 \<leftarrow> margin_quad_record_rgb1_raw K recAddr;
        w32 K (poolBase - 32) v71;
        gte_run K 0x4A180001;
        r22_72 \<leftarrow> reg K 22;
        g73 \<leftarrow> gte_control K 31;
        w32 K r22_72 g73;
        r22_74 \<leftarrow> reg K 22;
        v75 \<leftarrow> r32 K r22_74;
        (if v75 <s 0 then do {
          let recAddr = recAddr + 36;
          (if \<not> more1 then State_Monad.return (Inl (poolBase, recAddr))
           else State_Monad.return (Inr (poolBase, recAddr)))
        }
         else do {
           r17_76 \<leftarrow> reg K 17;
           g77 \<leftarrow> gte_data K 14;
           w32 K (r17_76 + 44) g77;
           v78 \<leftarrow> margin_quad_record_rgb2_raw K recAddr;
           w32 K (poolBase - 20) v78;
           gte_run K 0x4B68002E;
           v79 \<leftarrow> margin_quad_record_rgb3_raw K recAddr;
           w32 K (poolBase - 8) v79;
           g80 \<leftarrow> gte_data K 7;
           idx \<leftarrow> margin_otz_index K (g80 + objZBias);
           r20_82 \<leftarrow> reg K 20;
           w32 K r20_82 idx;
           (if idx <s 0 then do {
             let recAddr = recAddr + 36;
             (if \<not> more1 then State_Monad.return (Inl (poolBase, recAddr))
              else State_Monad.return (Inr (poolBase, recAddr)))
           }
            else do {
              only_if (objRenderKind \<noteq> 1 \<and> objRenderKind \<noteq> 3) (only_if ((3
                  \<le> objRenderSubKind \<and> objRenderSubKind < 6) \<or> (9 \<le>
                  objRenderSubKind \<and> objRenderSubKind < 11)) (w16 K (poolBase - 22) 46));
              let delta = sharedByte30 - fogBase;
              let delta = (if delta <s 0 then (0 :: u32) else delta);
              let kRgbWordOff = ([4, 16, 28, 40] :: u32 list);
              for_each kRgbWordOff (\<lambda>off. do {
                r17_83 \<leftarrow> reg K 17;
                let addr = r17_83 + off;
                r \<leftarrow> r8 K (addr + 0);
                g \<leftarrow> r8 K (addr + 1);
                b \<leftarrow> r8 K (addr + 2);
                v87 \<leftarrow> fog_shade K r delta;
                w8 K (addr + 0) v87;
                v88 \<leftarrow> fog_shade K g delta;
                w8 K (addr + 1) v88;
                v89 \<leftarrow> fog_shade K b delta;
                w8 K (addr + 2) v89
              });
              widescreen_margin_quad_emit_l349 K poolBase recAddr more1
            })
         })
      })
   }"

definition widescreen_margin_quad_emit :: "'c core_ops \<Rightarrow> ('c, unit) state" where
  "widescreen_margin_quad_emit K = with_frame K 104 [(18, 80), (17, 76), (20, 88), (22, 96), (19,
      84), (31, 100), (21, 92), (16, 72)] (do {
     r4_1 \<leftarrow> reg K 4;
     setr K 18 r4_1;
     v2 \<leftarrow> packet_pool_cursor K;
     setr K 17 v2;
     setr K 20 kGteFlagScratch;
     setr K 22 kGteFlagScratch;
     r18_3 \<leftarrow> reg K 18;
     setr K 19 (r18_3 + 80);
     v4 \<leftarrow> r8 K (r18_3 + 7);
     setr K 21 (shl v4 5);
     v5 \<leftarrow> r32 K (r18_3 + 60);
     setr K 16 v5;
     r16_6 \<leftarrow> reg K 16;
     (if r16_6 = 0 then do { v7 \<leftarrow> r8 K (r18_3 + 7); setr K 2 v7 }
      else do {
        r29_8 \<leftarrow> reg K 29;
        v9 \<leftarrow> r8 K (r16_6 + 0);
        w8 K (r29_8 + 64) (v9 * 10);
        v10 \<leftarrow> r8 K (r16_6 + 1);
        w8 K (r29_8 + 65) (v10 * 10);
        v11 \<leftarrow> r8 K (r16_6 + 2);
        w8 K (r29_8 + 66) (v11 * 10);
        _ \<leftarrow> dispatch_jal K kComposeObjectTransform kComposeObjectTransformRa [r18_3 +
            44, r29_8 + 64, r18_3 + 72];
        r16_12 \<leftarrow> reg K 16;
        nodeFlags \<leftarrow> r8 K (r16_12 + 3);
        let clutBiasHigh = shl (nodeFlags AND 0x0F) 22;
        r18_14 \<leftarrow> reg K 18;
        w32 K (r18_14 + 64) (if (nodeFlags AND 0x80) \<noteq> 0 then 0 else r16_12 + 4);
        objRenderKind \<leftarrow> r8 K (r18_14 + 3);
        objRenderSubKind \<leftarrow> r8 K (r18_14 + 5);
        objZBias \<leftarrow> r16s K (r18_14 + 50);
        r19_18 \<leftarrow> reg K 19;
        fogBase \<leftarrow> r16s K (r19_18 + 6);
        r17_20 \<leftarrow> reg K 17;
        let poolBase = r17_20 + 48;
        recAddr \<leftarrow> r32 K r19_18;
        (poolBase, recAddr) \<leftarrow> loop (\<lambda>(poolBase, recAddr).
            widescreen_margin_quad_emit_l249 K recAddr poolBase clutBiasHigh objZBias
            objRenderKind objRenderSubKind fogBase) (poolBase, recAddr);
        setr K 2 kCursorPage;
        r17_98 \<leftarrow> reg K 17;
        packet_pool_set_cursor K r17_98
      })
   })"

section \<open>\<open>game/ui/dialog_backdrop.cpp\<close>\<close>

definition panel_push_dialog_backdrop :: "'c core_ops \<Rightarrow> u32 \<Rightarrow> u32
    \<Rightarrow> u32 \<Rightarrow> u32 \<Rightarrow> u32 \<Rightarrow> ('c, unit) state" where
  "panel_push_dialog_backdrop K x y w h mode = do {
     let bucket = (if (mode AND MODE_FAR_BUCKET) \<noteq> 0 then OT_BUCKET_FAR else
         OT_BUCKET_NEAR);
     packet \<leftarrow> packet_pool_allocate K PACKET_BYTES;
     (if (mode AND MODE_NO_FILL) \<noteq> 0 then w32 K (packet + 4) 0
      else w32 K (packet + 4) PANEL_FILL_RGB);
     w8 K (packet + 3) TAG_WORD_COUNT;
     w8 K (packet + 7) GP0_FLAT_RECT;
     w16 K (packet + 8) x;
     w16 K (packet + 10) y;
     w16 K (packet + 12) w;
     w16 K (packet + 14) h;
     v2 \<leftarrow> r32 K 0x800ED8C8;
     _ \<leftarrow> ordering_table_link K v2 packet TAG_WORD_COUNT bucket;
     State_Monad.return ()
   }"

definition ov_push_dialog_backdrop :: "'c core_ops \<Rightarrow> ('c, unit) state" where
  "ov_push_dialog_backdrop K = do {
     r4_1 \<leftarrow> reg K 4;
     let x = as_s16 r4_1;
     r5_2 \<leftarrow> reg K 5;
     let y = as_s16 r5_2;
     r6_3 \<leftarrow> reg K 6;
     let w = as_s16 r6_3;
     r7_4 \<leftarrow> reg K 7;
     let h = as_s16 r7_4;
     r29_5 \<leftarrow> reg K 29;
     mode \<leftarrow> r32 K (r29_5 + 16);
     panel_push_dialog_backdrop K x y w h mode
   }"

section \<open>\<open>game/ui/options_page.cpp\<close>\<close>

definition options_page_push_backdrop :: "'c core_ops \<Rightarrow> ('c, unit) state" where
  "options_page_push_backdrop K = do {
     packet \<leftarrow> packet_pool_allocate K kPacketBytes;
     w8 K (packet + 7) kGp0PolyG4;
     w8 K (packet + 6) kBlueBright;
     w8 K (packet + 14) kBlueBright;
     w8 K (packet + 22) kBlueBright;
     w8 K (packet + 30) kBlueDark;
     w8 K (packet + 4) 0;
     w8 K (packet + 5) 0;
     w8 K (packet + 12) 0;
     w8 K (packet + 13) 0;
     w8 K (packet + 20) 0;
     w8 K (packet + 21) 0;
     w8 K (packet + 28) 0;
     w8 K (packet + 29) 0;
     w16 K (packet + 8) 0;
     w16 K (packet + 10) 0;
     w16 K (packet + 16) kScreenW;
     w16 K (packet + 18) 0;
     w16 K (packet + 24) 0;
     w16 K (packet + 26) kScreenH;
     w16 K (packet + 32) kScreenW;
     w16 K (packet + 34) kScreenH;
     v2 \<leftarrow> r32 K 0x800ED8C8;
     _ \<leftarrow> ordering_table_link K v2 packet options_page_kTagWordCount kOtBucketNear;
     State_Monad.return ()
   }"

definition backdrop_emit :: "'c core_ops \<Rightarrow> ('c, unit) state" where
  "backdrop_emit K = options_page_push_backdrop K"

section \<open>\<open>game/ui/ui_sprite_compose.cpp\<close>\<close>

definition ui_sprite_compose :: "'c core_ops \<Rightarrow> ('c, unit) state" where
  "ui_sprite_compose K = do {
     placement \<leftarrow> reg K 4;
     indexPtr \<leftarrow> reg K 5;
     defBase \<leftarrow> reg K 6;
     attrs \<leftarrow> reg K 7;
     r29_5 \<leftarrow> reg K 29;
     setr K 29 (r29_5 - 40);
     frame1 \<leftarrow> reg K 29;
     r16_7 \<leftarrow> reg K 16;
     w32 K (frame1 + 24) r16_7;
     r18_8 \<leftarrow> reg K 18;
     w32 K (frame1 + 32) r18_8;
     r31_9 \<leftarrow> reg K 31;
     w32 K (frame1 + 36) r31_9;
     r17_10 \<leftarrow> reg K 17;
     w32 K (frame1 + 28) r17_10;
     flags \<leftarrow> r8 K (attrs + 0);
     attrWord \<leftarrow> r16 K (attrs + 2);
     let shade = flags AND 0xF0;
     let semi = (attrWord AND 0x8000) \<noteq> 0;
     let clutOverride = attrWord AND 0x7FFF;
     w8 K (attrs + 0) (flags AND 0x0F);
     v13 \<leftarrow> r16 K indexPtr;
     let entry = defBase + ((as_s16 v13) * 4);
     v14 \<leftarrow> r16 K (entry + 0);
     let count1 = as_s16 v14;
     v15 \<leftarrow> r16 K (entry + 2);
     let piece = defBase + as_s16 v15;
     let cursor = piece + 11;
     tpage \<leftarrow> r16 K (piece + 6);
     (count1, piece, cursor) \<leftarrow> loop (\<lambda>(count1, piece, cursor). do {
       v17 \<leftarrow> r32 K placement;
       w32 K (STAGE + 8) v17;
       v18 \<leftarrow> r16 K (STAGE + 8);
       v19 \<leftarrow> r8 K (cursor + 3);
       w16 K (STAGE + 8) (v18 + as_s8 v19);
       v20 \<leftarrow> r16 K (STAGE + 10);
       v21 \<leftarrow> r8 K (cursor + 4);
       w16 K (STAGE + 10) (v20 + as_s8 v21);
       v22 \<leftarrow> r32 K piece;
       w32 K (STAGE + 12) v22;
       v23 \<leftarrow> r8 K (cursor - 1);
       w16 K (STAGE + 16) v23;
       w8 K (STAGE + 7) GP0_SPRITE;
       v24 \<leftarrow> r8 K (cursor + 0);
       w16 K (STAGE + 18) v24;
       only_if semi (w8 K (STAGE + 7) GP0_SPRITE_SEMI);
       (if shade \<noteq> 0 then do {
         w8 K (STAGE + 6) shade;
         w8 K (STAGE + 5) shade;
         w8 K (STAGE + 4) shade
       }
        else do {
          v25 \<leftarrow> r8 K (STAGE + 7);
          w8 K (STAGE + 7) (v25 OR RAW_TEXTURE_BIT)
        });
       only_if (clutOverride \<noteq> 0) (do {
         v26 \<leftarrow> r16 K (attrs + 2);
         w16 K (STAGE + 14) v26
       });
       packet \<leftarrow> packet_pool_cursor K;
       v28 \<leftarrow> r32 K 0x800ED8C8;
       v29 \<leftarrow> r8 K (attrs + 1);
       _ \<leftarrow> ordering_table_link K v28 packet SPRITE_TAG_WORDS v29;
       let cursor = cursor + 16;
       let piece = piece + 16;
       let count1 = count1 - 1;
       v30 \<leftarrow> r32 K (STAGE + 4);
       v31 \<leftarrow> r32 K (STAGE + 8);
       v32 \<leftarrow> r32 K (STAGE + 12);
       v33 \<leftarrow> r32 K (STAGE + 16);
       let command = ([v30, v31, v32, v33] :: u32 list);
       for_each (upto_u32 (unat SPRITE_TAG_WORDS)) (\<lambda>word1. w32 K (packet + 4 + word1 * 4)
           (command ! (unat word1)));
       packet_pool_set_cursor K (packet + SPRITE_PACKET_BYTES);
       (if count1 \<noteq> 0 then State_Monad.return (Inr (count1, piece, cursor))
        else State_Monad.return (Inl (count1, piece, cursor)))
     }) (count1, piece, cursor);
     modePacket \<leftarrow> packet_pool_cursor K;
     setr K 16 modePacket;
     w32 K (frame1 + 16) 0;
     setr K 4 modePacket;
     setr K 5 0;
     setr K 6 0;
     setr K 7 (as_s16 tpage);
     setr K 31 0x8007E890;
     call_guest K 0x80083DE0;
     v35 \<leftarrow> r32 K 0x800ED8C8;
     v36 \<leftarrow> r8 K (attrs + 1);
     _ \<leftarrow> ordering_table_link K v35 modePacket MODE_TAG_WORDS v36;
     v37 \<leftarrow> packet_pool_cursor K;
     packet_pool_set_cursor K (v37 + MODE_PACKET_BYTES);
     v38 \<leftarrow> r32 K (frame1 + 36);
     setr K 31 v38;
     v39 \<leftarrow> r32 K (frame1 + 32);
     setr K 18 v39;
     v40 \<leftarrow> r32 K (frame1 + 28);
     setr K 17 v40;
     v41 \<leftarrow> r32 K (frame1 + 24);
     setr K 16 v41;
     r29_42 \<leftarrow> reg K 29;
     setr K 29 (r29_42 + 40)
   }"

end
