(* ===== verification/RenderWalks.thy ===== *)
theory RenderWalks
  imports GpuLeaves
begin

text \<open>
  The walks over the render lists: the object list walk, the dispatch of an object to its
  renderer, billboards, text labels, the ground tiles of an overlay and the sprite effects. A
  walker's own stack frame is a \<open>local_frame\<close> around its body.
\<close>

section \<open>Layout\<close>

definition kDqaBase :: u32 where "kDqaBase = 6"
definition kScaleByteShift :: u32 where "kScaleByteShift = 4"
definition kRaUniformListTailResolve :: u32 where "kRaUniformListTailResolve = 0x80027E20"
definition kRaUniformSpriteWriter :: u32 where "kRaUniformSpriteWriter = 0x80027E48"
definition kRaByteListTailResolve :: u32 where "kRaByteListTailResolve = 0x80027FC8"
definition kRaByteSpriteWriter :: u32 where "kRaByteSpriteWriter = 0x80028008"
definition kOtDepthShift :: u32 where "kOtDepthShift = 2"
definition kDepthCueOff :: u32 where "kDepthCueOff = 0"
definition kSmallSizeClassTag :: u32 where "kSmallSizeClassTag = 0x21"
definition kDqaSmall :: u32 where "kDqaSmall = 4"
definition kDqaNormal :: u32 where "kDqaNormal = 6"
definition kParticleSizeShift :: u32 where "kParticleSizeShift = 8"
definition kListTailResolve :: u32 where "kListTailResolve = 0x80031780"
definition kSpriteWriter :: u32 where "kSpriteWriter = 0x80027A4C"
definition kRaListTailResolve :: u32 where "kRaListTailResolve = 0x80028318"
definition kRaSpriteWriter :: u32 where "kRaSpriteWriter = 0x8002842C"
definition kParticleStride :: u32 where "kParticleStride = 8"
definition FRAME_FRESH_FLAG :: u32 where "FRAME_FRESH_FLAG = 0x1F800136"
definition W1_PTR_A :: u32 where "W1_PTR_A = 0x1F80013C"
definition W1_CNT_A :: u32 where "W1_CNT_A = 0x1F800144"
definition W1_PTR_B :: u32 where "W1_PTR_B = 0x1F800140"
definition W1_CNT_B :: u32 where "W1_CNT_B = 0x1F800146"
definition W1_LIST_HEAD :: u32 where "W1_LIST_HEAD = 0x800F2410"
definition W1_TABLE :: u32 where "W1_TABLE = 0x80014A70"
definition W2_PTR_A :: u32 where "W2_PTR_A = 0x1F800148"
definition W2_CNT_A :: u32 where "W2_CNT_A = 0x1F800150"
definition W2_PTR_B :: u32 where "W2_PTR_B = 0x1F80014C"
definition W2_CNT_B :: u32 where "W2_CNT_B = 0x1F800152"
definition W2_LIST_HEAD :: u32 where "W2_LIST_HEAD = 0x800F26C8"
definition W2_TABLE :: u32 where "W2_TABLE = 0x80014CB0"
definition W3_PTR_A :: u32 where "W3_PTR_A = 0x1F800154"
definition W3_CNT_A :: u32 where "W3_CNT_A = 0x1F80015C"
definition W3_PTR_B :: u32 where "W3_PTR_B = 0x1F800158"
definition W3_CNT_B :: u32 where "W3_CNT_B = 0x1F80015E"
definition W3_LIST_HEAD :: u32 where "W3_LIST_HEAD = 0x800F2738"
definition W3_TABLE :: u32 where "W3_TABLE = 0x80014D38"
definition W3_MODE_BYTE :: u32 where "W3_MODE_BYTE = 0x800BF870"
definition W4_LIST_HEAD_VAR :: u32 where "W4_LIST_HEAD_VAR = 0x800F2738"
definition W4_TABLE :: u32 where "W4_TABLE = 0x80015000"
definition SCRATCH_FLAG_TMP :: u32 where "SCRATCH_FLAG_TMP = 0x1F800000"
definition SCRATCH_OTZ_TMP :: u32 where "SCRATCH_OTZ_TMP = 0x1F800004"
definition COL_MASK_STD :: u32 where "COL_MASK_STD = 0xFFF0F0F0"
definition COL_MASK_GROUND :: u32 where "COL_MASK_GROUND = 0x00F0F0F0"
definition TAG_WORDS_GT3 :: u32 where "TAG_WORDS_GT3 = 9"
definition TAG_WORDS_GT4 :: u32 where "TAG_WORDS_GT4 = 12"
definition CAMERA_GTE_CTRL :: u32 where "CAMERA_GTE_CTRL = 0x1F8000F8"
definition kModeBias :: u32 where "kModeBias = 0x64"
definition kA00Gt3 :: u32 where "kA00Gt3 = 0x8013FB88"
definition kA00Gt4 :: u32 where "kA00Gt4 = 0x8013FE58"
definition CUR_NODE_SCR :: u32 where "CUR_NODE_SCR = 0x1F80028C"
definition BUF :: u32 where "BUF = 0x1F800000"
definition MAT_A :: u32 where "MAT_A = 0x1F800000"
definition MAT_ROTZ :: u32 where "MAT_ROTZ = 0x1F800020"
definition MAT_OUT :: u32 where "MAT_OUT = 0x1F800040"
definition CAM2 :: u32 where "CAM2 = 0x1F8000F8"
definition SCR :: u32 where "SCR = 0x1F800000"
definition WORLD_POS :: u32 where "WORLD_POS = 0x1F8000C0"
definition CAM_ROT :: u32 where "CAM_ROT = 0x1F8000F8"
definition CAM_TRANS :: u32 where "CAM_TRANS = 0x1F80010C"
definition OBJ_ROT :: u32 where "OBJ_ROT = 0x1F800000"
definition MVMVA_ROTCOL :: u32 where "MVMVA_ROTCOL = 0x4A49E012"
definition MVMVA_TRANS :: u32 where "MVMVA_TRANS = 0x4A486012"
definition RENDER_LIST_HEAD :: u32 where "RENDER_LIST_HEAD = 0x800F2624"
definition render_walk_dispatch_JUMP_TABLE :: u32 where "render_walk_dispatch_JUMP_TABLE = 0x80014DB8"
definition CASE188_SCR :: u32 where "CASE188_SCR = 0x1F8000F8"
definition MODE_BYTE_188 :: u32 where "MODE_BYTE_188 = 0x800BF870"
definition kGlyphX :: "u32 list" where "kGlyphX = [- 3, 5, - 3, 5]"
definition kGlyphY :: "u32 list" where "kGlyphY = [- 7, - 7, 9, 9]"
definition kGlyphZ :: u32 where "kGlyphZ = - 1"

section \<open>\<open>game/render/fx_sprite_publish.cpp\<close>\<close>

definition fx_sprite_publish_load_scene_camera :: "'c core_ops \<Rightarrow> u32 \<Rightarrow>
    ('c, unit) state" where
  "fx_sprite_publish_load_scene_camera K dqa = do {
     for_each (upto_u32 (unat kSceneCameraWords)) (\<lambda>word1. do {
       v1 \<leftarrow> r32 K (kSceneCamera + word1 * 4);
       gte_set_control K (gte_code K ''kRotation'' + word1) v1
     });
     gte_set_control K (gte_code K ''kDqa'') dqa;
     gte_set_control K (gte_code K ''kDqb'') 0
   }"

definition fx_sprite_publish_project_anchor :: "'c core_ops \<Rightarrow> u32 \<Rightarrow> u32
    \<Rightarrow> u32 \<Rightarrow> ('c, bool) state" where
  "fx_sprite_publish_project_anchor K worldXY worldZ otBias = do {
     gte_set_data K (gte_code K ''kVxy0'') worldXY;
     gte_set_data K (gte_code K ''kVz0'') worldZ;
     gte_run K (gte_code K ''kRtps'');
     g1 \<leftarrow> gte_control K (gte_code K ''kFlag'');
     fx_sprite_publish_set_ot_key K g1;
     v2 \<leftarrow> fx_sprite_publish_ot_key K;
     (if v2 <s 0 then State_Monad.return False
      else do {
        g3 \<leftarrow> gte_data K (gte_code K ''kSz3'');
        fx_sprite_publish_set_ot_key K g3;
        depth \<leftarrow> fx_sprite_publish_ot_key K;
        (if depth \<le>s 0 then State_Monad.return False
         else do {
           fx_sprite_publish_set_ot_key K (sar (unat kOtDepthShift) depth + otBias);
           v5 \<leftarrow> fx_sprite_publish_ot_key K;
           only_if (v5 <s kNearestBucket) (fx_sprite_publish_set_ot_key K kNearestBucket);
           v6 \<leftarrow> fx_sprite_publish_ot_key K;
           v7 \<leftarrow> ordering_table_compress_depth K v6;
           fx_sprite_publish_set_ot_key K v7;
           v8 \<leftarrow> fx_sprite_publish_ot_key K;
           v9 \<leftarrow> ordering_table_in_depth_range K v8;
           only_if (\<not> v9) (fx_sprite_publish_set_ot_key K kNoBucket);
           v10 \<leftarrow> fx_sprite_publish_ot_key K;
           (if v10 <s 0 then State_Monad.return False
            else do {
              g11 \<leftarrow> gte_data K (gte_code K ''kSxy2'');
              fx_sprite_publish_set_screen_xy K g11;
              g12 \<leftarrow> gte_data K (gte_code K ''kMac0'');
              fx_sprite_publish_set_scale_x K g12;
              State_Monad.return True
            })
         })
      })
   }"

section \<open>\<open>game/render/fx_sprite_anchored.cpp\<close>\<close>

definition fx_sprite_anchored_project_node :: "'c core_ops \<Rightarrow> u32 \<Rightarrow> ('c,
    bool) state" where
  "fx_sprite_anchored_project_node K raListTailResolve = do {
     r16_1 \<leftarrow> reg K 16;
     v2 \<leftarrow> fx_anchored_node_record_head K r16_1;
     (if v2 = 0 then State_Monad.return False
      else do {
        fx_sprite_publish_load_scene_camera K kDqaBase;
        v3 \<leftarrow> fx_anchored_node_world_anchor_xy K r16_1;
        v4 \<leftarrow> fx_anchored_node_world_anchor_z K r16_1;
        v5 \<leftarrow> fx_anchored_node_ot_bias K r16_1;
        v6 \<leftarrow> fx_sprite_publish_project_anchor K v3 v4 v5;
        (if v6 then State_Monad.return True
         else do {
           r16_7 \<leftarrow> reg K 16;
           setr K 4 r16_7;
           _ \<leftarrow> dispatch_jal K kListTailResolve raListTailResolve [];
           State_Monad.return False
         })
      })
   }"

definition fx_sprite_anchored_stamp :: "'c core_ops \<Rightarrow> u32 \<Rightarrow> ('c, unit)
    state" where
  "fx_sprite_anchored_stamp K raSpriteWriter = do {
     r16_1 \<leftarrow> reg K 16;
     v2 \<leftarrow> fx_anchored_node_record_head K r16_1;
     setr K 4 v2;
     v3 \<leftarrow> fx_anchored_node_texture_page K r16_1;
     v4 \<leftarrow> fx_anchored_node_clut K r16_1;
     setr K 5 ((shl v3 16) OR v4);
     _ \<leftarrow> dispatch_jal K kSpriteWriter raSpriteWriter [];
     r2_5 \<leftarrow> reg K 2;
     fx_anchored_node_set_record_tail K r16_1 r2_5
   }"

definition fx_sprite_anchored_emit_uniform_scale :: "'c core_ops \<Rightarrow> ('c, unit) state"
    where
  "fx_sprite_anchored_emit_uniform_scale K = with_frame K 24 [(16, 16), (31, 20)] (do {
     r4_1 \<leftarrow> reg K 4;
     setr K 16 r4_1;
     v2 \<leftarrow> fx_sprite_anchored_project_node K kRaUniformListTailResolve;
     (if \<not> v2 then State_Monad.return ()
      else do {
        scale \<leftarrow> fx_sprite_publish_scale_x K;
        fx_sprite_publish_set_depth_cue K kDepthCueOff;
        fx_sprite_publish_set_scale_y K scale;
        fx_sprite_anchored_stamp K kRaUniformSpriteWriter
      })
   })"

definition fx_sprite_anchored_emit_byte_scale :: "'c core_ops \<Rightarrow> ('c, unit) state"
    where
  "fx_sprite_anchored_emit_byte_scale K = with_frame K 24 [(16, 16), (31, 20)] (do {
     r4_1 \<leftarrow> reg K 4;
     setr K 16 r4_1;
     v2 \<leftarrow> fx_sprite_anchored_project_node K kRaByteListTailResolve;
     (if \<not> v2 then State_Monad.return ()
      else do {
        r16_3 \<leftarrow> reg K 16;
        v4 \<leftarrow> fx_sprite_publish_scale_x K;
        v5 \<leftarrow> fx_anchored_node_scale_byte K r16_3;
        product1 \<leftarrow> guest_multiply K v4 v5;
        let scale = sar (unat kScaleByteShift) (ucast product1 :: u32);
        fx_sprite_publish_set_depth_cue K kDepthCueOff;
        fx_sprite_publish_set_scale_x K scale;
        fx_sprite_publish_set_scale_y K scale;
        fx_sprite_anchored_stamp K kRaByteSpriteWriter
      })
   })"

section \<open>\<open>game/render/fx_sprite_swarm.cpp\<close>\<close>

definition fx_sprite_swarm_emit_per_particle :: "'c core_ops \<Rightarrow> ('c, unit) state" where
  "fx_sprite_swarm_emit_per_particle K = with_frame K 56 [(17, 20), (21, 36), (31, 52), (30, 48),
      (23, 44), (22, 40), (20, 32), (19, 28), (18, 24), (16, 16)] (do {
     r4_1 \<leftarrow> reg K 4;
     setr K 17 r4_1;
     setr K 21 kScaleX;
     r17_2 \<leftarrow> reg K 17;
     v3 \<leftarrow> fx_swarm_node_record_head K r17_2;
     (if v3 = 0 then State_Monad.return ()
      else do {
        v4 \<leftarrow> fx_swarm_node_size_class_tag K r17_2;
        fx_sprite_publish_load_scene_camera K (if v4 = kSmallSizeClassTag then kDqaSmall else
            kDqaNormal);
        setr K 19 0;
        v5 \<leftarrow> fx_swarm_node_particle_array K r17_2;
        setr K 18 v5;
        fx_sprite_publish_set_depth_cue K kDepthCueOff;
        v6 \<leftarrow> fx_swarm_node_record_head K r17_2;
        setr K 22 v6;
        r17_7 \<leftarrow> reg K 17;
        setr K 4 r17_7;
        _ \<leftarrow> dispatch_jal K kListTailResolve kRaListTailResolve [];
        setr K 16 kScratchpadBase;
        setr K 20 kOtKey;
        setr K 30 kScaleX;
        setr K 23 kScreenXY;
        loop (\<lambda>_. do {
          r18_8 \<leftarrow> reg K 18;
          v9 \<leftarrow> fx_swarm_particle_world_xy K r18_8;
          v10 \<leftarrow> fx_swarm_particle_world_z K r18_8;
          v11 \<leftarrow> fx_swarm_node_ot_bias K r17_2;
          v12 \<leftarrow> fx_sprite_publish_project_anchor K v9 v10 v11;
          only_if v12 (do {
            v13 \<leftarrow> fx_sprite_publish_scale_x K;
            v14 \<leftarrow> fx_swarm_particle_size_mul K r18_8;
            v15 \<leftarrow> guest_multiply K v13 v14;
            r33_16 \<leftarrow> reg K 33;
            let scale = sar (unat kParticleSizeShift) r33_16;
            r22_17 \<leftarrow> reg K 22;
            setr K 4 r22_17;
            fx_sprite_publish_set_scale_x K scale;
            fx_sprite_publish_set_scale_y K scale;
            v18 \<leftarrow> fx_swarm_node_texture_page K r17_2;
            v19 \<leftarrow> fx_swarm_node_clut K r17_2;
            setr K 5 ((shl v18 16) OR v19);
            _ \<leftarrow> dispatch_jal K kSpriteWriter kRaSpriteWriter [];
            State_Monad.return ()
          });
          r19_20 \<leftarrow> reg K 19;
          setr K 19 (r19_20 + 1);
          r18_21 \<leftarrow> reg K 18;
          setr K 18 (r18_21 + kParticleStride);
          r19_22 \<leftarrow> reg K 19;
          v23 \<leftarrow> fx_swarm_node_particle_count K r17_2;
          (if as_s16 r19_22 <s v23 then State_Monad.return (Inr ())
           else State_Monad.return (Inl ()))
        }) ()
      })
   })"

section \<open>\<open>game/render/perobj_billboard.cpp\<close>\<close>

definition render_billboard_emit_l646 :: "'c core_ops \<Rightarrow> (u32 \<Rightarrow> ('c, u32)
    state) \<Rightarrow> u32 \<Rightarrow> u32 \<Rightarrow> u32 \<Rightarrow> ('c, 'a + u32
    \<times> u32 \<times> u32) state" where
  "render_billboard_emit_l646 K FR count1 particle bbIt = do {
     tail \<leftarrow> packet_pool_cursor K;
     v73 \<leftarrow> FR 56;
     bucket \<leftarrow> r32 K v73;
     v75 \<leftarrow> r32 K 0x800ED8C8;
     _ \<leftarrow> ordering_table_link K v75 tail 9 bucket;
     let tail = tail + 4;
     (tail, command) \<leftarrow> fold_each (upto_u32 9) (tail, (replicate 9 (0 :: u32)))
         (\<lambda>word1 (tail, command). do {
       v76 \<leftarrow> r32 K (BUF + 4 + word1 * 4);
       let command = command[unat word1 := v76];
       w32 K tail (command ! (unat word1));
       State_Monad.return (tail + 4, command)
     });
     packet_pool_set_cursor K tail;
     corners \<leftarrow> fold_each (upto_u32 8) (replicate 8 (0 :: u32)) (\<lambda>word1 corners.
         do {
       v77 \<leftarrow> FR 16;
       v78 \<leftarrow> r32 K (v77 + word1 * 4);
       State_Monad.return (corners[unat word1 := v78])
     });
     let count1 = count1 - 1;
     let particle = particle + 16;
     let bbIt = bbIt + 1;
     State_Monad.return (Inr (count1, particle, bbIt))
   }"

definition render_billboard_emit_l536 :: "'c core_ops \<Rightarrow> (u32 \<Rightarrow> ('c, u32)
    state) \<Rightarrow> u32 \<Rightarrow> u32 \<Rightarrow> u32 \<Rightarrow> u32 \<Rightarrow>
    u32 \<Rightarrow> u32 \<Rightarrow> ('c, (unit + 'a) + u32 \<times> u32 \<times> u32) state"
    where
  "render_billboard_emit_l536 K FR particle DEFAULT_DEPTH count1 bbIt node flag = do {
     v19 \<leftarrow> FR 16;
     setr K 4 v19;
     setr K 5 0;
     setr K 6 particle;
     call_guest K 0x8003B220;
     v20 \<leftarrow> FR 16;
     v21 \<leftarrow> r32 K (v20 + 0);
     gte_set_data K 0 v21;
     v22 \<leftarrow> FR 16;
     v23 \<leftarrow> r32 K (v22 + 4);
     gte_set_data K 1 v23;
     v24 \<leftarrow> FR 16;
     v25 \<leftarrow> r32 K (v24 + 8);
     gte_set_data K 2 v25;
     v26 \<leftarrow> FR 16;
     v27 \<leftarrow> r32 K (v26 + 12);
     gte_set_data K 3 v27;
     v28 \<leftarrow> FR 16;
     v29 \<leftarrow> r32 K (v28 + 16);
     gte_set_data K 4 v29;
     v30 \<leftarrow> FR 16;
     v31 \<leftarrow> r32 K (v30 + 20);
     gte_set_data K 5 v31;
     gte_run K 0x4A280030;
     ctrl31 \<leftarrow> gte_control K 31;
     v33 \<leftarrow> FR 48;
     w32 K v33 ctrl31;
     depth \<leftarrow> (if ctrl31 <s 0 then State_Monad.return DEFAULT_DEPTH
      else do {
        g34 \<leftarrow> gte_data K 12;
        w32 K (BUF + 8) g34;
        g35 \<leftarrow> gte_data K 13;
        w32 K (BUF + 16) g35;
        g36 \<leftarrow> gte_data K 14;
        w32 K (BUF + 24) g36;
        gte_run K 0x4B400006;
        v37 \<leftarrow> FR 48;
        g38 \<leftarrow> gte_data K 24;
        w32 K v37 g38;
        v39 \<leftarrow> FR 40;
        v40 \<leftarrow> r32 K (v39 + 0);
        gte_set_data K 0 v40;
        v41 \<leftarrow> FR 40;
        v42 \<leftarrow> r32 K (v41 + 4);
        gte_set_data K 1 v42;
        gte_run K 0x4A180001;
        ctrl31 \<leftarrow> gte_control K 31;
        v44 \<leftarrow> FR 48;
        w32 K v44 ctrl31;
        (if 0 \<le>s ctrl31 then do {
          g45 \<leftarrow> gte_data K 14;
          w32 K (BUF + 32) g45;
          gte_run K 0x4B68002E;
          v46 \<leftarrow> FR 52;
          g47 \<leftarrow> gte_data K 7;
          w32 K v46 g47;
          v48 \<leftarrow> FR 52;
          r32 K v48
        }
         else State_Monad.return DEFAULT_DEPTH)
      });
     v50 \<leftarrow> FR 56;
     w32 K v50 depth;
     v51 \<leftarrow> r16 K (BUF + 8);
     v52 \<leftarrow> r16 K (BUF + 16);
     v53 \<leftarrow> r16 K (BUF + 24);
     v54 \<leftarrow> r16 K (BUF + 32);
     let xs1 = ([v51, v52, v53, v54] :: u32 list);
     v55 \<leftarrow> for_draw_window K;
     let onX = keeps_x v55 xs1 4 Packed16;
     (if \<not> onX then do {
       let count1 = count1 - 1;
       let particle = particle + 16;
       let bbIt = bbIt + 1;
       State_Monad.return (Inr (count1, particle, bbIt))
     }
      else do {
        v56 \<leftarrow> r16 K (BUF + 10);
        v57 \<leftarrow> r16 K (BUF + 18);
        v58 \<leftarrow> r16 K (BUF + 26);
        v59 \<leftarrow> r16 K (BUF + 34);
        let onY = ((v56 < 240 \<or> v57 < 240) \<or> v58 < 240) \<or> v59 < 240;
        (if \<not> onY then do {
          let count1 = count1 - 1;
          let particle = particle + 16;
          let bbIt = bbIt + 1;
          State_Monad.return (Inr (count1, particle, bbIt))
        }
         else do {
           v60 \<leftarrow> FR 56;
           v61 \<leftarrow> r32 K v60;
           v62 \<leftarrow> r8 K (node + 8);
           let a = v61 + as_s8 v62;
           d \<leftarrow> ordering_table_compress_depth K a;
           v64 \<leftarrow> FR 56;
           w32 K v64 d;
           v65 \<leftarrow> ordering_table_in_depth_range K d;
           only_if (\<not> v65) (do { v66 \<leftarrow> FR 56; w32 K v66 DEFAULT_DEPTH });
           v67 \<leftarrow> FR 56;
           v68 \<leftarrow> r32 K v67;
           (if v68 <s 0 then do {
             let count1 = count1 - 1;
             let particle = particle + 16;
             let bbIt = bbIt + 1;
             State_Monad.return (Inr (count1, particle, bbIt))
           }
            else do {
              setr K 4 BUF;
              setr K 5 particle;
              setr K 6 flag;
              call_guest K 0x8003B054;
              v69 \<leftarrow> r16 K (node + 92);
              only_if (v69 \<noteq> 0) (do {
                v70 \<leftarrow> r16 K (node + 92);
                w16 K (BUF + 14) v70
              });
              caseSel \<leftarrow> r8 K (node + 13);
              let rest1 = (render_billboard_emit_l646 K FR count1 particle bbIt);
              (if caseSel < 33 then do {
                let CASE_TABLE = (0x80014E40 :: u32);
                caseTarget \<leftarrow> r32 K (CASE_TABLE + caseSel * 4);
                (if caseTarget = 0x8003CB60 then do { w8 K (BUF + 7) 45; rest1 }
                 else if caseTarget = 0x8003CB6C then do { w8 K (BUF + 7) 47; rest1 }
                  else if caseTarget = 0x8003CB78 then do {
                    v80 \<leftarrow> r32 K (node + 24);
                    w32 K (BUF + 4) v80;
                    w8 K (BUF + 7) 44;
                    rest1
                  }
                   else if caseTarget = 0x8003CB90 then do {
                     v81 \<leftarrow> r32 K (node + 24);
                     w32 K (BUF + 4) v81;
                     w8 K (BUF + 7) 46;
                     rest1
                   }
                    else if caseTarget = 0x8003CBA8 then do {
                      w8 K (BUF + 7) 45;
                      v82 \<leftarrow> r8 K (node + 24);
                      w16 K (BUF + 14) (if v82 \<noteq> 0 then 16507 else 16443);
                      rest1
                    }
                     else if caseTarget = 0x8003CBC8 then rest1
                      else do {
                        call_guest K caseTarget;
                        State_Monad.return (Inl (Inl ()))
                      })
              }
               else rest1)
            })
         })
      })
   }"

definition render_billboard_emit :: "'c core_ops \<Rightarrow> ('c, unit) state" where
  "render_billboard_emit K = do {
     node \<leftarrow> reg K 4;
     flag \<leftarrow> reg K 5;
     v3 \<leftarrow> r32 K (node + 56);
     (if v3 = 0 then State_Monad.return ()
      else sp_frame K 96 (do {
        sp \<leftarrow> reg K 29;
        r16_5 \<leftarrow> reg K 16;
        w32 K (sp + 64) r16_5;
        r17_6 \<leftarrow> reg K 17;
        w32 K (sp + 68) r17_6;
        r18_7 \<leftarrow> reg K 18;
        w32 K (sp + 72) r18_7;
        r19_8 \<leftarrow> reg K 19;
        w32 K (sp + 76) r19_8;
        r20_9 \<leftarrow> reg K 20;
        w32 K (sp + 80) r20_9;
        r21_10 \<leftarrow> reg K 21;
        w32 K (sp + 84) r21_10;
        r22_11 \<leftarrow> reg K 22;
        w32 K (sp + 88) r22_11;
        r31_12 \<leftarrow> reg K 31;
        w32 K (sp + 92) r31_12;
        let FR = (\<lambda>off. do {
          r29_13 \<leftarrow> reg K 29;
          State_Monad.return (r29_13 + off)
        });
        let DEFAULT_DEPTH = (-1 :: u32);
        tbl \<leftarrow> r32 K (node + 56);
        v15 \<leftarrow> r16 K (tbl + 0);
        let idx = as_s16 v15;
        listBase \<leftarrow> r32 K (node + 60);
        let entry = listBase + shl idx 2;
        v17 \<leftarrow> r16 K (entry + 2);
        let byteOff = as_s16 v17;
        v18 \<leftarrow> r16 K (entry + 0);
        let count1 = as_s16 v18;
        let particle = listBase + byteOff;
        let bbIt = (0 :: u32);
        out83 \<leftarrow> loop (\<lambda>(count1, particle, bbIt). (if count1 \<noteq> 0 then
            render_billboard_emit_l536 K FR particle DEFAULT_DEPTH count1 bbIt node flag
         else State_Monad.return (Inl (Inr (count1, particle, bbIt))))) (count1, particle, bbIt);
        (case out83 of Inl r1 \<Rightarrow> State_Monad.return r1 | Inr (count1, particle, bbIt)
            \<Rightarrow> State_Monad.return ())
      }))
   }"

definition billboard_compose_tail :: "'c core_ops \<Rightarrow> u32 \<Rightarrow> u32
    \<Rightarrow> u32 \<Rightarrow> ('c, unit) state" where
  "billboard_compose_tail K node flag outMat = do {
     v1 \<leftarrow> r16 K (node + 46);
     w16 K (WORLD_POS + 0) v1;
     v2 \<leftarrow> r16 K (node + 50);
     w16 K (WORLD_POS + 2) v2;
     v3 \<leftarrow> r16 K (node + 54);
     w16 K (WORLD_POS + 4) v3;
     v4 \<leftarrow> r32 K (CAM2 + 0);
     gte_set_control K 0 v4;
     v5 \<leftarrow> r32 K (CAM2 + 4);
     gte_set_control K 1 v5;
     v6 \<leftarrow> r32 K (CAM2 + 8);
     gte_set_control K 2 v6;
     v7 \<leftarrow> r32 K (CAM2 + 12);
     gte_set_control K 3 v7;
     v8 \<leftarrow> r32 K (CAM2 + 16);
     gte_set_control K 4 v8;
     v9 \<leftarrow> r32 K (WORLD_POS + 0);
     gte_set_data K 0 v9;
     v10 \<leftarrow> r32 K (WORLD_POS + 4);
     gte_set_data K 1 v10;
     gte_run K MVMVA_TRANS;
     g11 \<leftarrow> gte_data K 25;
     w32 K (outMat + 0x14) g11;
     g12 \<leftarrow> gte_data K 26;
     w32 K (outMat + 0x18) g12;
     g13 \<leftarrow> gte_data K 27;
     w32 K (outMat + 0x1C) g13;
     v14 \<leftarrow> r32 K (outMat + 0x14);
     v15 \<leftarrow> r32 K (CAM2 + 0x14);
     w32 K (outMat + 0x14) (v14 + v15);
     v16 \<leftarrow> r32 K (outMat + 0x18);
     v17 \<leftarrow> r32 K (CAM2 + 0x18);
     w32 K (outMat + 0x18) (v16 + v17);
     v18 \<leftarrow> r32 K (outMat + 0x1C);
     v19 \<leftarrow> r32 K (CAM2 + 0x1C);
     w32 K (outMat + 0x1C) (v18 + v19);
     v20 \<leftarrow> r32 K (outMat + 0);
     gte_set_control K 0 v20;
     v21 \<leftarrow> r32 K (outMat + 4);
     gte_set_control K 1 v21;
     v22 \<leftarrow> r32 K (outMat + 8);
     gte_set_control K 2 v22;
     v23 \<leftarrow> r32 K (outMat + 12);
     gte_set_control K 3 v23;
     v24 \<leftarrow> r32 K (outMat + 16);
     gte_set_control K 4 v24;
     v25 \<leftarrow> r32 K (outMat + 0x14);
     gte_set_control K 5 v25;
     v26 \<leftarrow> r32 K (outMat + 0x18);
     gte_set_control K 6 v26;
     v27 \<leftarrow> r32 K (outMat + 0x1C);
     gte_set_control K 7 v27;
     setr K 4 node;
     setr K 5 flag;
     render_billboard_emit K
   }"

definition render_billboard_compose1 :: "'c core_ops \<Rightarrow> ('c, unit) state" where
  "render_billboard_compose1 K = do {
     node \<leftarrow> reg K 4;
     v2 \<leftarrow> r32 K (node + 56);
     (if v2 = 0 then State_Monad.return ()
      else sp_frame K 40 (do {
        sp \<leftarrow> reg K 29;
        r16_4 \<leftarrow> reg K 16;
        w32 K (sp + 16) r16_4;
        r17_5 \<leftarrow> reg K 17;
        w32 K (sp + 20) r17_5;
        r18_6 \<leftarrow> reg K 18;
        w32 K (sp + 24) r18_6;
        r19_7 \<leftarrow> reg K 19;
        w32 K (sp + 28) r19_7;
        r31_8 \<leftarrow> reg K 31;
        w32 K (sp + 32) r31_8;
        mtx_identity K MAT_A;
        mtx_identity K MAT_ROTZ;
        v9 \<leftarrow> r16 K (node + 90);
        _ \<leftarrow> rotZ K (as_s16 v9) MAT_ROTZ;
        v10 \<leftarrow> r8 K (node + 71);
        let flag = v10 AND 1;
        _ \<leftarrow> mat_mul K MAT_ROTZ MAT_A MAT_OUT;
        setr K 16 MAT_OUT;
        setr K 17 MAT_A;
        setr K 18 flag;
        setr K 19 node;
        setr K 31 0x8003C448;
        billboard_compose_tail K node flag MAT_OUT;
        v11 \<leftarrow> r32 K (sp + 16);
        setr K 16 v11;
        v12 \<leftarrow> r32 K (sp + 20);
        setr K 17 v12;
        v13 \<leftarrow> r32 K (sp + 24);
        setr K 18 v13;
        v14 \<leftarrow> r32 K (sp + 28);
        setr K 19 v14;
        v15 \<leftarrow> r32 K (sp + 32);
        setr K 31 v15
      }))
   }"

definition render_billboard_compose2 :: "'c core_ops \<Rightarrow> ('c, unit) state" where
  "render_billboard_compose2 K = do {
     node \<leftarrow> reg K 4;
     v2 \<leftarrow> r32 K (node + 56);
     (if v2 = 0 then State_Monad.return ()
      else sp_frame K 32 (do {
        sp \<leftarrow> reg K 29;
        r16_4 \<leftarrow> reg K 16;
        w32 K (sp + 16) r16_4;
        r17_5 \<leftarrow> reg K 17;
        w32 K (sp + 20) r17_5;
        r18_6 \<leftarrow> reg K 18;
        w32 K (sp + 24) r18_6;
        r31_7 \<leftarrow> reg K 31;
        w32 K (sp + 28) r31_7;
        setr K 4 MAT_A;
        v8 \<leftarrow> r16s K (node + 122);
        setr K 5 v8;
        v9 \<leftarrow> r16s K (node + 124);
        setr K 6 v9;
        v10 \<leftarrow> r16s K (node + 126);
        setr K 7 v10;
        call_guest K 0x800517BC;
        mtx_identity K MAT_ROTZ;
        v11 \<leftarrow> r16 K (node + 90);
        _ \<leftarrow> rotZ K (as_s16 v11) MAT_ROTZ;
        v12 \<leftarrow> r8 K (node + 71);
        let flag = v12 AND 1;
        _ \<leftarrow> mat_mul K MAT_ROTZ MAT_A MAT_OUT;
        setr K 16 MAT_OUT;
        setr K 17 flag;
        setr K 18 node;
        setr K 31 0x8003C5E0;
        billboard_compose_tail K node flag MAT_OUT;
        v13 \<leftarrow> r32 K (sp + 16);
        setr K 16 v13;
        v14 \<leftarrow> r32 K (sp + 20);
        setr K 17 v14;
        v15 \<leftarrow> r32 K (sp + 24);
        setr K 18 v15;
        v16 \<leftarrow> r32 K (sp + 28);
        setr K 31 v16
      }))
   }"

section \<open>\<open>game/render/perobj_dispatch.cpp\<close>\<close>

definition render_cmd_list_dispatch :: "'c core_ops \<Rightarrow> ('c, unit) state" where
  "render_cmd_list_dispatch K = cmd_list_frame K (do {
     node \<leftarrow> reg K 4;
     flag \<leftarrow> reg K 5;
     v3 \<leftarrow> r8 K (node + 8);
     v4 \<leftarrow> r8 K (node + 9);
     (if v3 = 0 \<or> v4 = 0 then State_Monad.return ()
      else do {
        let i = (0 :: u32);
        loop (\<lambda>i. do {
          v41 \<leftarrow> r8 K (node + 8);
          (if v41 \<le>s i then State_Monad.return (Inl ())
           else do {
             cmd \<leftarrow> r32 K (node + 0xC0 + i * 4);
             geomblk \<leftarrow> r32 K (cmd + 0x40);
             only_if (geomblk \<noteq> 0) (do {
               v44 \<leftarrow> r16 K (cmd + 0x2C);
               w16 K (WORLD_POS + 0) v44;
               v45 \<leftarrow> r16 K (cmd + 0x30);
               w16 K (WORLD_POS + 2) v45;
               v46 \<leftarrow> r16 K (cmd + 0x34);
               w16 K (WORLD_POS + 4) v46;
               v47 \<leftarrow> r32 K (CAM_ROT + 0);
               gte_set_control K 0 v47;
               v48 \<leftarrow> r32 K (CAM_ROT + 4);
               gte_set_control K 1 v48;
               v49 \<leftarrow> r32 K (CAM_ROT + 8);
               gte_set_control K 2 v49;
               v50 \<leftarrow> r32 K (CAM_ROT + 12);
               gte_set_control K 3 v50;
               v51 \<leftarrow> r32 K (CAM_ROT + 16);
               gte_set_control K 4 v51;
               for_each (upto_u32 3) (\<lambda>col. do {
                 let base1 = cmd + 0x18 + col * 2;
                 v52 \<leftarrow> r16 K (base1 + 0);
                 gte_set_data K 9 v52;
                 v53 \<leftarrow> r16 K (base1 + 6);
                 gte_set_data K 10 v53;
                 v54 \<leftarrow> r16 K (base1 + 12);
                 gte_set_data K 11 v54;
                 gte_run K MVMVA_ROTCOL;
                 let dst = OBJ_ROT + col * 2;
                 g55 \<leftarrow> gte_data K 9;
                 w16 K (dst + 0) g55;
                 g56 \<leftarrow> gte_data K 10;
                 w16 K (dst + 6) g56;
                 g57 \<leftarrow> gte_data K 11;
                 w16 K (dst + 12) g57
               });
               v58 \<leftarrow> r32 K (WORLD_POS + 0);
               gte_set_data K 0 v58;
               v59 \<leftarrow> r32 K (WORLD_POS + 4);
               gte_set_data K 1 v59;
               gte_run K MVMVA_TRANS;
               g60 \<leftarrow> gte_data K 25;
               v61 \<leftarrow> r32 K (CAM_TRANS + 0);
               let tx = g60 + v61;
               g62 \<leftarrow> gte_data K 26;
               v63 \<leftarrow> r32 K (CAM_TRANS + 4);
               let ty = g62 + v63;
               g64 \<leftarrow> gte_data K 27;
               v65 \<leftarrow> r32 K (CAM_TRANS + 8);
               let tz = g64 + v65;
               w32 K (OBJ_ROT + 20) tx;
               w32 K (OBJ_ROT + 24) ty;
               w32 K (OBJ_ROT + 28) tz;
               v66 \<leftarrow> r32 K (OBJ_ROT + 0);
               gte_set_control K 0 v66;
               v67 \<leftarrow> r32 K (OBJ_ROT + 4);
               gte_set_control K 1 v67;
               v68 \<leftarrow> r32 K (OBJ_ROT + 8);
               gte_set_control K 2 v68;
               v69 \<leftarrow> r32 K (OBJ_ROT + 12);
               gte_set_control K 3 v69;
               v70 \<leftarrow> r32 K (OBJ_ROT + 16);
               gte_set_control K 4 v70;
               gte_set_control K 5 tx;
               gte_set_control K 6 ty;
               gte_set_control K 7 tz;
               ot_base \<leftarrow> r32 K 0x800ED8C8;
               otbase \<leftarrow> ordering_table_base K ot_base;
               v73 \<leftarrow> r8 K (node + 0xD);
               otbase \<leftarrow> (if (v73 AND 0xF) = 4 then do {
                 v74 \<leftarrow> r8s K (cmd + 0x3F);
                 ordering_table_slot K ot_base v74
               }
                else State_Monad.return otbase);
               setr K 4 geomblk;
               setr K 5 otbase;
               setr K 6 flag;
               setr K 16 i;
               setr K 17 SCR;
               setr K 18 node;
               setr K 19 (SCR + 0xD0);
               setr K 20 kBasePointer;
               setr K 21 WORLD_POS;
               setr K 22 flag;
               setr K 23 SCR;
               setr K 31 0x8003D07C;
               per_mode_dispatch K
             });
             let i = i + 1;
             v76 \<leftarrow> r8 K (node + 9);
             (if \<not> (i <s v76) then State_Monad.return (Inl ())
              else State_Monad.return (Inr i))
           })
        }) i
      })
   })"

section \<open>\<open>game/render/perobj_billboard.cpp\<close>\<close>

definition render_per_obj_render_dispatch :: "'c core_ops \<Rightarrow> ('c, unit) state" where
  "render_per_obj_render_dispatch K = cca4_frame K (do {
     node \<leftarrow> reg K 4;
     setr K 18 node;
     v2 \<leftarrow> r8 K (node + 11);
     let flag = (if (v2 XOR 15) < 1 then 1 else (0 :: u32));
     w32 K CUR_NODE_SCR node;
     v3 \<leftarrow> r8 K (node + 13);
     let sel = v3 AND 11;
     (if 9 \<le> sel then State_Monad.return ()
      else do {
        let TABLE = (0x80014EC8 :: u32);
        target \<leftarrow> r32 K (TABLE + sel * 4);
        (if target = 0x8003CD00 then do {
          setr K 4 node;
          setr K 5 flag;
          setr K 31 0x8003CD08;
          render_cmd_list_dispatch K
        }
         else if target = 0x8003CD10 then do {
           pre \<leftarrow> packet_pool_cursor K;
           setr K 4 node;
           setr K 5 flag;
           setr K 31 0x8003CD20;
           render_cmd_list_dispatch K;
           post \<leftarrow> packet_pool_cursor K;
           setr K 4 node;
           setr K 5 pre;
           setr K 6 post;
           setr K 31 0x8003CD30;
           run_effect_color_add K node pre post
         }
          else if target = 0x8003CD38 then do {
            pre \<leftarrow> packet_pool_cursor K;
            setr K 4 node;
            setr K 5 flag;
            setr K 31 0x8003CD48;
            render_cmd_list_dispatch K;
            post \<leftarrow> packet_pool_cursor K;
            setr K 4 node;
            setr K 5 pre;
            setr K 6 post;
            setr K 31 0x8003CD58;
            run_effect_clut_swap K node pre post
          }
           else if target = 0x8003CD60 then do {
             pre \<leftarrow> packet_pool_cursor K;
             setr K 4 node;
             setr K 5 flag;
             setr K 31 0x8003CD70;
             render_cmd_list_dispatch K;
             post \<leftarrow> packet_pool_cursor K;
             setr K 4 node;
             setr K 5 pre;
             setr K 6 post;
             v11 \<leftarrow> r8 K (node + 27);
             (if v11 = 0 then do {
               setr K 31 0x8003CD98;
               run_effect_semi_off K node pre post
             }
              else do { setr K 31 0x8003CD88; run_effect_semi_on K node pre post })
           }
            else if target = 0x8003CDA0 then do {
              pre \<leftarrow> packet_pool_cursor K;
              setr K 4 node;
              setr K 5 flag;
              setr K 31 0x8003CDB0;
              render_cmd_list_dispatch K;
              post \<leftarrow> packet_pool_cursor K;
              setr K 4 node;
              setr K 5 pre;
              setr K 6 post;
              setr K 31 0x8003CDC0;
              run_effect_flat_tint K node pre post
            }
             else if target = 0x8003CDC0 then State_Monad.return ()
              else call_guest K target)
      })
   })"

section \<open>\<open>game/render/objlist_walk.cpp\<close>\<close>

definition render_obj_list_walk1 :: "'c core_ops \<Rightarrow> ('c, unit) state" where
  "render_obj_list_walk1 K = do {
     let epilogue = (do {
       r29_1 \<leftarrow> reg K 29;
       v2 \<leftarrow> r32 K (r29_1 + 32);
       setr K 31 v2;
       v3 \<leftarrow> r32 K (r29_1 + 28);
       setr K 19 v3;
       v4 \<leftarrow> r32 K (r29_1 + 24);
       setr K 18 v4;
       v5 \<leftarrow> r32 K (r29_1 + 20);
       setr K 17 v5;
       v6 \<leftarrow> r32 K (r29_1 + 16);
       setr K 16 v6;
       setr K 29 (r29_1 + 40)
     });
     s16 \<leftarrow> reg K 16;
     s17 \<leftarrow> reg K 17;
     s18 \<leftarrow> reg K 18;
     s19 \<leftarrow> reg K 19;
     sra \<leftarrow> reg K 31;
     r29_12 \<leftarrow> reg K 29;
     setr K 29 (r29_12 - 40);
     r29_13 \<leftarrow> reg K 29;
     w32 K (r29_13 + 32) sra;
     w32 K (r29_13 + 28) s19;
     w32 K (r29_13 + 24) s18;
     w32 K (r29_13 + 20) s17;
     w32 K (r29_13 + 16) s16;
     v14 \<leftarrow> r8 K FRAME_FRESH_FLAG;
     only_if (v14 = 0) (do {
       oldCnt \<leftarrow> r16 K W1_CNT_A;
       oldPtr \<leftarrow> r32 K W1_PTR_A;
       w16 K W1_CNT_A 0;
       w32 K W1_PTR_A W1_LIST_HEAD;
       w16 K W1_CNT_B oldCnt;
       w32 K W1_PTR_B oldPtr
     });
     v17 \<leftarrow> r16 K W1_CNT_B;
     setr K 17 (as_s16 v17);
     v18 \<leftarrow> r32 K W1_PTR_B;
     setr K 18 v18;
     r17_19 \<leftarrow> reg K 17;
     (if r17_19 = 0 then epilogue
      else do {
        setr K 19 W1_TABLE;
        out35 \<leftarrow> loop (\<lambda>_. do {
          r17_20 \<leftarrow> reg K 17;
          (if r17_20 \<noteq> 0 then do {
            r18_21 \<leftarrow> reg K 18;
            v22 \<leftarrow> r32 K r18_21;
            setr K 16 v22;
            setr K 18 (r18_21 + 4);
            setr K 17 (r17_20 - 1);
            cmd \<leftarrow> reg K 16;
            v24 \<leftarrow> r8 K (cmd + 1);
            (if v24 = 0 then State_Monad.return (Inr ())
             else do {
               ty \<leftarrow> r8 K (cmd + 0xB);
               (if 144 \<le> ty then State_Monad.return (Inr ())
                else do {
                  r19_26 \<leftarrow> reg K 19;
                  target \<leftarrow> r32 K (r19_26 + ty * 4);
                  setr K 4 cmd;
                  (if target = 0x8003BC00 then do {
                    setr K 31 0x8003BC08;
                    render_per_obj_render_dispatch K;
                    attr \<leftarrow> r8 K (cmd + 0xB);
                    (if (attr AND 0x40) = 0 then (if (attr AND 0x80) = 0 then State_Monad.return
                        (Inr ())
                     else do {
                       setr K 4 cmd;
                       v29 \<leftarrow> r16s K (cmd + 0x80);
                       setr K 5 v29;
                       setr K 31 0x8003BC64;
                       setr K 6 0;
                       call_guest K 0x8002AE0C;
                       State_Monad.return (Inr ())
                     })
                     else do {
                       setr K 4 cmd;
                       setr K 5 0x50;
                       setr K 31 0x8003BC64;
                       setr K 6 0;
                       call_guest K 0x8002AE0C;
                       State_Monad.return (Inr ())
                     })
                  }
                   else if target = 0x8003BC24 then do {
                     setr K 31 0x8003BC2C;
                     call_guest K 0x80122974;
                     attr \<leftarrow> r8 K (cmd + 0xB);
                     (if (attr AND 0x40) = 0 then (if (attr AND 0x80) = 0 then State_Monad.return
                         (Inr ())
                      else do {
                        setr K 4 cmd;
                        v31 \<leftarrow> r16s K (cmd + 0x80);
                        setr K 5 v31;
                        setr K 31 0x8003BC64;
                        setr K 6 0;
                        call_guest K 0x8002AE0C;
                        State_Monad.return (Inr ())
                      })
                      else do {
                        setr K 4 cmd;
                        setr K 5 0x50;
                        setr K 31 0x8003BC64;
                        setr K 6 0;
                        call_guest K 0x8002AE0C;
                        State_Monad.return (Inr ())
                      })
                   }
                    else if target = 0x8003BC6C then do {
                      setr K 31 0x8003BC74;
                      render_billboard_compose1 K;
                      State_Monad.return (Inr ())
                    }
                     else if target = 0x8003BC7C then do {
                       setr K 31 0x8003BC84;
                       render_billboard_compose2 K;
                       State_Monad.return (Inr ())
                     }
                      else if target = 0x8003BC8C then do {
                        setr K 31 0x8003BC94;
                        call_guest K 0x8003C5F8;
                        State_Monad.return (Inr ())
                      }
                       else if target = 0x8003BC9C then do {
                         setr K 31 0x8003BCA4;
                         call_guest K 0x8003C788;
                         State_Monad.return (Inr ())
                       }
                        else if target = 0x8003BCAC then do {
                          setr K 31 0x8003BCB4;
                          render_billboard_compose1 K;
                          vt \<leftarrow> r32 K (cmd + 124);
                          setr K 31 0x8003BCD0;
                          setr K 4 cmd;
                          call_guest K vt;
                          State_Monad.return (Inr ())
                        }
                         else if target = 0x8003BCB4 then do {
                           vt \<leftarrow> r32 K (cmd + 124);
                           setr K 31 0x8003BCD0;
                           setr K 4 cmd;
                           call_guest K vt;
                           State_Monad.return (Inr ())
                         }
                          else if target = 0x8003BCC0 then do {
                            vt \<leftarrow> r32 K (cmd + 24);
                            setr K 31 0x8003BCD0;
                            setr K 4 cmd;
                            call_guest K vt;
                            State_Monad.return (Inr ())
                          }
                           else if target = 0x8003BCD0 then State_Monad.return (Inr ())
                            else do {
                              call_guest K target;
                              State_Monad.return (Inl (Inl ()))
                            })
                })
             })
          }
           else State_Monad.return (Inl (Inr ())))
        }) ();
        (case out35 of Inl r1 \<Rightarrow> State_Monad.return r1 | Inr _ \<Rightarrow> epilogue)
      })
   }"

definition render_obj_list_walk2_l391 :: "'c core_ops \<Rightarrow> ('c, unit) state" where
  "render_obj_list_walk2_l391 K = do {
     r29_1 \<leftarrow> reg K 29;
     v2 \<leftarrow> r32 K (r29_1 + 36);
     setr K 31 v2;
     v3 \<leftarrow> r32 K (r29_1 + 32);
     setr K 20 v3;
     v4 \<leftarrow> r32 K (r29_1 + 28);
     setr K 19 v4;
     v5 \<leftarrow> r32 K (r29_1 + 24);
     setr K 18 v5;
     v6 \<leftarrow> r32 K (r29_1 + 20);
     setr K 17 v6;
     v7 \<leftarrow> r32 K (r29_1 + 16);
     setr K 16 v7;
     setr K 29 (r29_1 + 40)
   }"

definition render_obj_list_walk2_l367 :: "'c core_ops \<Rightarrow> u32 \<Rightarrow> u32
    \<Rightarrow> ('c, (unit + 'a) + unit) state" where
  "render_obj_list_walk2_l367 K target cmd = (if target = 0x8003BEBC then do {
     vt \<leftarrow> r32 K (cmd + 0x7C);
     setr K 31 0x8003BED8;
     setr K 4 cmd;
     call_guest K vt;
     State_Monad.return (Inr ())
   }
    else if target = 0x8003BEC8 then do {
      vt \<leftarrow> r32 K (cmd + 0x18);
      setr K 31 0x8003BED8;
      setr K 4 cmd;
      call_guest K vt;
      State_Monad.return (Inr ())
    }
     else if target = 0x8003BED8 then State_Monad.return (Inr ())
      else do { call_guest K target; State_Monad.return (Inl (Inl ())) })"

definition render_obj_list_walk2_l274 :: "'c core_ops \<Rightarrow> u32 \<Rightarrow> ('c, (unit +
    'a) + unit) state" where
  "render_obj_list_walk2_l274 K r17_22 = do {
     r18_23 \<leftarrow> reg K 18;
     v24 \<leftarrow> r32 K r18_23;
     setr K 16 v24;
     setr K 18 (r18_23 + 4);
     setr K 17 (r17_22 - 1);
     cmd \<leftarrow> reg K 16;
     v26 \<leftarrow> r8 K (cmd + 1);
     (if v26 = 0 then State_Monad.return (Inr ())
      else do {
        ty \<leftarrow> r8 K (cmd + 0xB);
        (if 33 \<le> ty then State_Monad.return (Inr ())
         else do {
           r20_28 \<leftarrow> reg K 20;
           target \<leftarrow> r32 K (r20_28 + ty * 4);
           (if target = 0x8003BDAC then do {
             setr K 31 0x8003BDB4;
             setr K 4 cmd;
             render_per_obj_render_dispatch K;
             State_Monad.return (Inr ())
           }
            else if target = 0x8003BDBC then do {
              r19_30 \<leftarrow> reg K 19;
              mode \<leftarrow> r8 K (r19_30 - 0x790);
              (if mode = 0 then do {
                setr K 31 0x8003BDD4;
                setr K 4 cmd;
                call_guest K 0x801341E8
              }
               else only_if (mode = 6) (do {
                 setr K 31 0x8003BDEC;
                 setr K 4 cmd;
                 call_guest K 0x80123C14
               }));
              State_Monad.return (Inr ())
            }
             else if target = 0x8003BDF4 then do {
               r19_32 \<leftarrow> reg K 19;
               mode \<leftarrow> r8 K (r19_32 - 0x790);
               let leaf = (0 :: u32);
               let ra = (0 :: u32);
               (leaf, ra) \<leftarrow> (if mode = 1 then do {
                 let leaf = (0x80129114 :: u32);
                 State_Monad.return (leaf, (0x8003BE0C :: u32))
               }
                else if mode = 6 then do {
                  let leaf = (0x80120D2C :: u32);
                  State_Monad.return (leaf, (0x8003BE24 :: u32))
                }
                 else if mode = 7 then do {
                   let leaf = (0x8011AD44 :: u32);
                   State_Monad.return (leaf, (0x8003BE3C :: u32))
                 }
                  else do {
                    let (leaf, ra) = (if mode = 0xA then (let leaf = (0x80115338 :: u32) in (leaf,
                        (0x8003BE54 :: u32))) else (let (leaf, ra) = (if mode = 0xF then (let leaf
                        = (0x80117984 :: u32) in (leaf, (0x8003BE6C :: u32))) else (leaf, ra)) in
                        (leaf, ra)));
                    State_Monad.return (leaf, ra)
                  });
               only_if (leaf \<noteq> 0) (do {
                 setr K 31 ra;
                 setr K 4 cmd;
                 call_guest K leaf
               });
               State_Monad.return (Inr ())
             }
              else if target = 0x8003BE74 then do {
                setr K 31 0x8003BE7C;
                setr K 4 cmd;
                call_guest K 0x80136748;
                State_Monad.return (Inr ())
              }
               else if target = 0x8003BE84 then do {
                 setr K 31 0x8003BE8C;
                 setr K 4 cmd;
                 render_billboard_compose1 K;
                 State_Monad.return (Inr ())
               }
                else if target = 0x8003BE94 then do {
                  vt \<leftarrow> r32 K (cmd + 0x7C);
                  setr K 31 0x8003BEA4;
                  setr K 4 cmd;
                  call_guest K vt;
                  setr K 31 0x8003BEAC;
                  setr K 4 cmd;
                  render_billboard_compose2 K;
                  State_Monad.return (Inr ())
                }
                 else if target = 0x8003BEA4 then do {
                   setr K 31 0x8003BEAC;
                   setr K 4 cmd;
                   render_billboard_compose2 K;
                   State_Monad.return (Inr ())
                 }
                  else if target = 0x8003BEB4 then do {
                    setr K 31 0x8003BEBC;
                    setr K 4 cmd;
                    render_billboard_compose1 K;
                    vt \<leftarrow> r32 K (cmd + 0x7C);
                    setr K 31 0x8003BED8;
                    setr K 4 cmd;
                    call_guest K vt;
                    State_Monad.return (Inr ())
                  }
                   else render_obj_list_walk2_l367 K target cmd)
         })
      })
   }"

definition render_obj_list_walk2_l274b where
  "render_obj_list_walk2_l274b K = do {
     r17_22 \<leftarrow> reg K 17;
     (if r17_22 \<noteq> 0 then render_obj_list_walk2_l274 K r17_22
      else State_Monad.return (Inl (Inr ())))
   }"

definition render_obj_list_walk2 :: "'c core_ops \<Rightarrow> ('c, unit) state" where
  "render_obj_list_walk2 K = do {
     let epilogue = (render_obj_list_walk2_l391 K);
     s16 \<leftarrow> reg K 16;
     s17 \<leftarrow> reg K 17;
     s18 \<leftarrow> reg K 18;
     s19 \<leftarrow> reg K 19;
     s20 \<leftarrow> reg K 20;
     sra \<leftarrow> reg K 31;
     r29_14 \<leftarrow> reg K 29;
     setr K 29 (r29_14 - 40);
     r29_15 \<leftarrow> reg K 29;
     w32 K (r29_15 + 36) sra;
     w32 K (r29_15 + 32) s20;
     w32 K (r29_15 + 28) s19;
     w32 K (r29_15 + 24) s18;
     w32 K (r29_15 + 20) s17;
     w32 K (r29_15 + 16) s16;
     v16 \<leftarrow> r8 K FRAME_FRESH_FLAG;
     only_if (v16 = 0) (do {
       oldCnt \<leftarrow> r16 K W2_CNT_A;
       oldPtr \<leftarrow> r32 K W2_PTR_A;
       w16 K W2_CNT_A 0;
       w32 K W2_PTR_A W2_LIST_HEAD;
       w16 K W2_CNT_B oldCnt;
       w32 K W2_PTR_B oldPtr
     });
     v19 \<leftarrow> r16 K W2_CNT_B;
     setr K 17 (as_s16 v19);
     v20 \<leftarrow> r32 K W2_PTR_B;
     setr K 18 v20;
     r17_21 \<leftarrow> reg K 17;
     (if r17_21 = 0 then epilogue
      else do {
        setr K 19 0x800C0000;
        setr K 20 W2_TABLE;
        out38 \<leftarrow> loop (\<lambda>_. render_obj_list_walk2_l274b K) ();
        (case out38 of Inl r1 \<Rightarrow> State_Monad.return r1 | Inr _ \<Rightarrow> epilogue)
      })
   }"

definition render_obj_list_walk3 :: "'c core_ops \<Rightarrow> ('c, unit) state" where
  "render_obj_list_walk3 K = do {
     let epilogue = (do {
       r29_1 \<leftarrow> reg K 29;
       v2 \<leftarrow> r32 K (r29_1 + 28);
       setr K 31 v2;
       v3 \<leftarrow> r32 K (r29_1 + 24);
       setr K 18 v3;
       v4 \<leftarrow> r32 K (r29_1 + 20);
       setr K 17 v4;
       v5 \<leftarrow> r32 K (r29_1 + 16);
       setr K 16 v5;
       setr K 29 (r29_1 + 32)
     });
     s16 \<leftarrow> reg K 16;
     s17 \<leftarrow> reg K 17;
     s18 \<leftarrow> reg K 18;
     sra \<leftarrow> reg K 31;
     r29_10 \<leftarrow> reg K 29;
     setr K 29 (r29_10 - 32);
     r29_11 \<leftarrow> reg K 29;
     w32 K (r29_11 + 28) sra;
     w32 K (r29_11 + 24) s18;
     w32 K (r29_11 + 20) s17;
     w32 K (r29_11 + 16) s16;
     v12 \<leftarrow> r8 K FRAME_FRESH_FLAG;
     only_if (v12 = 0) (do {
       oldCnt \<leftarrow> r16 K W3_CNT_A;
       oldPtr \<leftarrow> r32 K W3_PTR_A;
       w16 K W3_CNT_A 0;
       w32 K W3_PTR_A W3_LIST_HEAD;
       w16 K W3_CNT_B oldCnt;
       w32 K W3_PTR_B oldPtr
     });
     v15 \<leftarrow> r16 K W3_CNT_B;
     setr K 16 (as_s16 v15);
     v16 \<leftarrow> r32 K W3_PTR_B;
     setr K 17 v16;
     r16_17 \<leftarrow> reg K 16;
     (if r16_17 = 0 then epilogue
      else do {
        setr K 18 W3_TABLE;
        out26 \<leftarrow> loop (\<lambda>_. do {
          r16_18 \<leftarrow> reg K 16;
          (if r16_18 \<noteq> 0 then do {
            r17_19 \<leftarrow> reg K 17;
            cmd \<leftarrow> r32 K r17_19;
            setr K 17 (r17_19 + 4);
            setr K 16 (r16_18 - 1);
            v21 \<leftarrow> r8 K (cmd + 1);
            (if v21 = 0 then State_Monad.return (Inr ())
             else do {
               ty \<leftarrow> r8 K (cmd + 0xB);
               (if 32 \<le> ty then State_Monad.return (Inr ())
                else do {
                  r18_23 \<leftarrow> reg K 18;
                  target \<leftarrow> r32 K (r18_23 + ty * 4);
                  (if target = 0x8003BFAC then do {
                    setr K 31 0x8003BFB4;
                    setr K 4 cmd;
                    render_per_obj_render_dispatch K;
                    State_Monad.return (Inr ())
                  }
                   else if target = 0x8003BFBC then do {
                     setr K 31 0x8003BFC4;
                     setr K 4 cmd;
                     render_billboard_compose1 K;
                     State_Monad.return (Inr ())
                   }
                    else if target = 0x8003BFCC then do {
                      setr K 31 0x8003BFD4;
                      setr K 4 cmd;
                      render_billboard_compose2 K;
                      State_Monad.return (Inr ())
                    }
                     else if target = 0x8003BFDC then do {
                       setr K 31 0x8003BFE4;
                       setr K 4 cmd;
                       call_guest K 0x8003C5F8;
                       State_Monad.return (Inr ())
                     }
                      else if target = 0x8003BFEC then do {
                        setr K 31 0x8003BFF4;
                        setr K 4 cmd;
                        call_guest K 0x8003C788;
                        State_Monad.return (Inr ())
                      }
                       else if target = 0x8003BFFC then do {
                         v25 \<leftarrow> r8 K W3_MODE_BYTE;
                         (if v25 = 0x14 then do {
                           setr K 31 0x8003C018;
                           setr K 4 cmd;
                           call_guest K 0x8010FC70
                         }
                          else do {
                            setr K 31 0x8003C028;
                            setr K 4 cmd;
                            call_guest K 0x8004CC88
                          });
                         State_Monad.return (Inr ())
                       }
                        else if target = 0x8003C028 then State_Monad.return (Inr ())
                         else do {
                           setr K 4 cmd;
                           call_guest K target;
                           State_Monad.return (Inl (Inl ()))
                         })
                })
             })
          }
           else State_Monad.return (Inl (Inr ())))
        }) ();
        (case out26 of Inl r1 \<Rightarrow> State_Monad.return r1 | Inr _ \<Rightarrow> epilogue)
      })
   }"

definition render_obj_list_walk4 :: "'c core_ops \<Rightarrow> ('c, unit) state" where
  "render_obj_list_walk4 K = do {
     s16 \<leftarrow> reg K 16;
     s17 \<leftarrow> reg K 17;
     s18 \<leftarrow> reg K 18;
     sra \<leftarrow> reg K 31;
     r29_5 \<leftarrow> reg K 29;
     setr K 29 (r29_5 - 32);
     r29_6 \<leftarrow> reg K 29;
     w32 K (r29_6 + 28) sra;
     w32 K (r29_6 + 24) s18;
     w32 K (r29_6 + 20) s17;
     w32 K (r29_6 + 16) s16;
     v7 \<leftarrow> r32 K W4_LIST_HEAD_VAR;
     setr K 16 v7;
     r16_8 \<leftarrow> reg K 16;
     let rest1 = (do {
       r29_9 \<leftarrow> reg K 29;
       v10 \<leftarrow> r32 K (r29_9 + 28);
       setr K 31 v10;
       v11 \<leftarrow> r32 K (r29_9 + 24);
       setr K 18 v11;
       v12 \<leftarrow> r32 K (r29_9 + 20);
       setr K 17 v12;
       v13 \<leftarrow> r32 K (r29_9 + 16);
       setr K 16 v13;
       setr K 29 (r29_9 + 32)
     });
     (if r16_8 \<noteq> 0 then do {
       setr K 18 W4_TABLE;
       out30 \<leftarrow> loop (\<lambda>_. do {
         r16_14 \<leftarrow> reg K 16;
         (if r16_14 \<noteq> 0 then do {
           let node = r16_14;
           active1 \<leftarrow> r8 K (node + 1);
           v16 \<leftarrow> r32 K (node + 0x24);
           setr K 17 v16;
           (if active1 = 0 then do {
             r17_17 \<leftarrow> reg K 17;
             setr K 16 r17_17;
             State_Monad.return (Inr ())
           }
            else do {
              ty \<leftarrow> r8 K (node + 0xB);
              (if 33 \<le> ty then do {
                r17_19 \<leftarrow> reg K 17;
                setr K 16 r17_19;
                State_Monad.return (Inr ())
              }
               else do {
                 r18_20 \<leftarrow> reg K 18;
                 target \<leftarrow> r32 K (r18_20 + ty * 4);
                 (if target = 0x8003EF20 then do {
                   setr K 31 0x8003EF28;
                   setr K 4 node;
                   render_per_obj_render_dispatch K;
                   r17_22 \<leftarrow> reg K 17;
                   setr K 16 r17_22;
                   State_Monad.return (Inr ())
                 }
                  else if target = 0x8003EF30 then do {
                    setr K 31 0x8003EF38;
                    setr K 4 node;
                    render_per_obj_render_dispatch K;
                    setr K 31 0x8003EF60;
                    setr K 4 node;
                    call_guest K 0x8003B704;
                    r17_23 \<leftarrow> reg K 17;
                    setr K 16 r17_23;
                    State_Monad.return (Inr ())
                  }
                   else if target = 0x8003EF40 then do {
                     setr K 31 0x8003EF48;
                     setr K 4 node;
                     render_billboard_compose1 K;
                     v24 \<leftarrow> r8 K (node + 2);
                     (if v24 \<noteq> 1 then do {
                       r17_25 \<leftarrow> reg K 17;
                       setr K 16 r17_25;
                       State_Monad.return (Inr ())
                     }
                      else do {
                        setr K 31 0x8003EF60;
                        setr K 4 node;
                        call_guest K 0x8003B704;
                        r17_26 \<leftarrow> reg K 17;
                        setr K 16 r17_26;
                        State_Monad.return (Inr ())
                      })
                   }
                    else if target = 0x8003EF68 then do {
                      vt \<leftarrow> r32 K (node + 24);
                      setr K 31 0x8003EF78;
                      setr K 4 node;
                      call_guest K vt;
                      r17_28 \<leftarrow> reg K 17;
                      setr K 16 r17_28;
                      State_Monad.return (Inr ())
                    }
                     else if target = 0x8003EF78 then do {
                       r17_29 \<leftarrow> reg K 17;
                       setr K 16 r17_29;
                       State_Monad.return (Inr ())
                     }
                      else do {
                        setr K 4 node;
                        call_guest K target;
                        State_Monad.return (Inl (Inl ()))
                      })
               })
            })
         }
          else State_Monad.return (Inl (Inr ())))
       }) ();
       (case out30 of Inl r1 \<Rightarrow> State_Monad.return r1 | Inr _ \<Rightarrow> rest1)
     }
      else rest1)
   }"

definition ov_obj_list_walk1 :: "'c core_ops \<Rightarrow> ('c, unit) state" where
  "ov_obj_list_walk1 K = render_obj_list_walk1 K"

definition ov_obj_list_walk2 :: "'c core_ops \<Rightarrow> ('c, unit) state" where
  "ov_obj_list_walk2 K = render_obj_list_walk2 K"

definition ov_obj_list_walk3 :: "'c core_ops \<Rightarrow> ('c, unit) state" where
  "ov_obj_list_walk3 K = render_obj_list_walk3 K"

definition ov_obj_list_walk4 :: "'c core_ops \<Rightarrow> ('c, unit) state" where
  "ov_obj_list_walk4 K = render_obj_list_walk4 K"

section \<open>\<open>game/render/overlay_ground_gt3gt4.cpp\<close>\<close>

definition ground_otz_index :: "'c core_ops \<Rightarrow> u32 \<Rightarrow> ('c, u32) state" where
  "ground_otz_index K z = do {
     idx \<leftarrow> ordering_table_compress_depth K z;
     v2 \<leftarrow> ordering_table_in_depth_range K idx;
     State_Monad.return (if v2 then idx else kNoBucket)
   }"

definition overlay_ground_gt3_gt4_emit_gt3 :: "'c core_ops \<Rightarrow> u32 \<Rightarrow> u32
    \<Rightarrow> u32 \<Rightarrow> u32 \<Rightarrow> u32 \<Rightarrow> u32 \<Rightarrow> bool
    \<Rightarrow> u32 \<Rightarrow> ('c, u32) state" where
  "overlay_ground_gt3_gt4_emit_gt3 K call_list ot call_count a3 call_sp a1 modeTwoNearest
      biasedMode = do {
     let rec = call_list;
     let count1 = call_count;
     (if count1 = 0 then State_Monad.return rec
      else do {
        pool \<leftarrow> packet_pool_cursor K;
        let sp = call_sp;
        let list = rec;
        (rec, count1, pool) \<leftarrow> loop (\<lambda>(rec, count1, pool). (if count1 \<noteq> 0
            then do {
          v2 \<leftarrow> r32 K (rec + 16);
          gte_set_data K 0 v2;
          vz01 \<leftarrow> r32 K (rec + 20);
          v4 \<leftarrow> r32 K (rec + 24);
          gte_set_data K 2 v4;
          gte_set_data K 1 vz01;
          v5 \<leftarrow> r32 K (rec + 28);
          gte_set_data K 4 v5;
          gte_set_data K 3 (shr vz01 16);
          v6 \<leftarrow> r32 K (rec + 32);
          gte_set_data K 5 v6;
          rgb0_code \<leftarrow> r32 K (rec + 0);
          w32 K (pool + 4) rgb0_code;
          gte_run K 0x4A280030;
          uv0 \<leftarrow> r32 K (rec + 8);
          uv1 \<leftarrow> r32 K (rec + 12);
          w32 K (pool + 12) uv0;
          w32 K (pool + 24) uv1;
          rgb1_src \<leftarrow> r32 K (rec + 4);
          flagreg \<leftarrow> gte_control K 31;
          w32 K SCRATCH_FLAG_TMP flagreg;
          v12 \<leftarrow> r32 K SCRATCH_FLAG_TMP;
          (if v12 <s 0 then do {
            let count1 = count1 - 1;
            let rec = rec + 36;
            State_Monad.return (Inr (rec, count1, pool))
          }
           else do {
             gte_run K 0x4B400006;
             let rgb1 = rgb1_src AND COL_MASK_GROUND;
             w32 K (pool + 16) rgb1;
             g13 \<leftarrow> gte_data K 24;
             w32 K SCRATCH_FLAG_TMP g13;
             v14 \<leftarrow> r32 K SCRATCH_FLAG_TMP;
             (if v14 \<le>s 0 then do {
               let count1 = count1 - 1;
               let rec = rec + 36;
               State_Monad.return (Inr (rec, count1, pool))
             }
              else do {
                g15 \<leftarrow> gte_data K 12;
                w32 K (pool + 8) g15;
                g16 \<leftarrow> gte_data K 13;
                w32 K (pool + 20) g16;
                g17 \<leftarrow> gte_data K 14;
                w32 K (pool + 32) g17;
                visible \<leftarrow> for_draw_window K;
                v19 \<leftarrow> r16 K (pool + 8);
                v20 \<leftarrow> r16 K (pool + 20);
                v21 \<leftarrow> r16 K (pool + 32);
                let sx = ([v19, v20, v21] :: u32 list);
                v22 \<leftarrow> r16 K (pool + 10);
                v23 \<leftarrow> r16 K (pool + 22);
                v24 \<leftarrow> r16 K (pool + 34);
                let sy = ([v22, v23, v24] :: u32 list);
                (if \<not> (keeps visible sx sy 3 Packed16) then do {
                  let count1 = count1 - 1;
                  let rec = rec + 36;
                  State_Monad.return (Inr (rec, count1, pool))
                }
                 else do {
                   let rgb2 = (shl rgb1_src 4) AND COL_MASK_GROUND;
                   w32 K (pool + 28) rgb2;
                   let flagbyte = shr rgb1_src 24;
                   let mode = flagbyte AND 3;
                   z \<leftarrow> (if mode = 1 \<or> mode = 2 then do {
                     sz1 \<leftarrow> gte_data K 17;
                     sz2 \<leftarrow> gte_data K 18;
                     sz3 \<leftarrow> gte_data K 19;
                     let base1 = (if mode = 1 then sp - 24 + 0 else sp - 24 + 12);
                     w32 K (base1 + 0) sz1;
                     w32 K (base1 + 4) sz2;
                     w32 K (base1 + 8) sz3;
                     let z = extreme_depth (mode = 1 \<or> \<not> modeTwoNearest) [sz1, sz2, sz3];
                     let z = (if mode = biasedMode then (z + kModeBias) else z);
                     w32 K SCRATCH_OTZ_TMP z;
                     State_Monad.return z
                   }
                    else do {
                      gte_run K 0x4B58002D;
                      z \<leftarrow> gte_data K 7;
                      w32 K SCRATCH_OTZ_TMP z;
                      State_Monad.return z
                    });
                   idx \<leftarrow> ground_otz_index K z;
                   w32 K SCRATCH_OTZ_TMP idx;
                   (if idx <s 0 then do {
                     let count1 = count1 - 1;
                     let rec = rec + 36;
                     State_Monad.return (Inr (rec, count1, pool))
                   }
                    else do {
                      v30 \<leftarrow> r32 K (rec + 32);
                      w16 K (pool + 36) (shr v30 16);
                      _ \<leftarrow> ordering_table_link K ot pool TAG_WORDS_GT3 idx;
                      let pool = pool + 40;
                      let count1 = count1 - 1;
                      let rec = rec + 36;
                      State_Monad.return (Inr (rec, count1, pool))
                    })
                 })
              })
           })
        }
         else State_Monad.return (Inl (rec, count1, pool)))) (rec, count1, pool);
        packet_pool_set_cursor K pool;
        State_Monad.return rec
      })
   }"

definition overlay_ground_gt3_gt4_emit_gt4 :: "'c core_ops \<Rightarrow> u32 \<Rightarrow> u32
    \<Rightarrow> u32 \<Rightarrow> u32 \<Rightarrow> u32 \<Rightarrow> u32 \<Rightarrow> bool
    \<Rightarrow> u32 \<Rightarrow> ('c, u32) state" where
  "overlay_ground_gt3_gt4_emit_gt4 K call_list ot call_count a3 call_sp a1 modeTwoNearest
      biasedMode = do {
     let rec = call_list;
     let count1 = call_count;
     (if count1 = 0 then State_Monad.return rec
      else do {
        pool \<leftarrow> packet_pool_cursor K;
        let sp = call_sp;
        let list = rec;
        (rec, count1, pool) \<leftarrow> loop (\<lambda>(rec, count1, pool). (if count1 \<noteq> 0
            then do {
          v2 \<leftarrow> r32 K (rec + 20);
          gte_set_data K 0 v2;
          vz01 \<leftarrow> r32 K (rec + 24);
          v4 \<leftarrow> r32 K (rec + 28);
          gte_set_data K 2 v4;
          gte_set_data K 1 vz01;
          v5 \<leftarrow> r32 K (rec + 32);
          gte_set_data K 4 v5;
          gte_set_data K 3 (shr vz01 16);
          vz23 \<leftarrow> r32 K (rec + 36);
          gte_set_data K 5 vz23;
          hdr0 \<leftarrow> r32 K (rec + 0);
          w32 K (pool + 4) (hdr0 AND COL_MASK_STD);
          gte_run K 0x4A280030;
          w32 K (pool + 16) ((shl hdr0 4) AND COL_MASK_GROUND);
          rec4 \<leftarrow> r32 K (rec + 4);
          flagreg \<leftarrow> gte_control K 31;
          w32 K SCRATCH_FLAG_TMP flagreg;
          v10 \<leftarrow> r32 K SCRATCH_FLAG_TMP;
          (if v10 <s 0 then do {
            let count1 = count1 - 1;
            let rec = rec + 44;
            State_Monad.return (Inr (rec, count1, pool))
          }
           else do {
             gte_run K 0x4B400006;
             uv0 \<leftarrow> r32 K (rec + 8);
             w32 K (pool + 12) uv0;
             g12 \<leftarrow> gte_data K 24;
             w32 K SCRATCH_FLAG_TMP g12;
             v13 \<leftarrow> r32 K SCRATCH_FLAG_TMP;
             (if v13 \<le>s 0 then do {
               let count1 = count1 - 1;
               let rec = rec + 44;
               State_Monad.return (Inr (rec, count1, pool))
             }
              else do {
                g14 \<leftarrow> gte_data K 12;
                w32 K (pool + 8) g14;
                g15 \<leftarrow> gte_data K 13;
                w32 K (pool + 20) g15;
                g16 \<leftarrow> gte_data K 14;
                w32 K (pool + 32) g16;
                v17 \<leftarrow> r32 K (rec + 40);
                gte_set_data K 0 v17;
                gte_set_data K 1 (shr vz23 16);
                w32 K (pool + 28) (rec4 AND COL_MASK_GROUND);
                gte_run K 0x4A180001;
                w32 K (pool + 40) ((shl rec4 4) AND COL_MASK_GROUND);
                uv1 \<leftarrow> r32 K (rec + 12);
                w32 K (pool + 24) uv1;
                flagreg2 \<leftarrow> gte_control K 31;
                w32 K SCRATCH_FLAG_TMP flagreg2;
                v20 \<leftarrow> r32 K SCRATCH_FLAG_TMP;
                (if v20 <s 0 then do {
                  let count1 = count1 - 1;
                  let rec = rec + 44;
                  State_Monad.return (Inr (rec, count1, pool))
                }
                 else do {
                   g21 \<leftarrow> gte_data K 14;
                   w32 K (pool + 44) g21;
                   visible \<leftarrow> for_draw_window K;
                   v23 \<leftarrow> r16 K (pool + 8);
                   v24 \<leftarrow> r16 K (pool + 20);
                   v25 \<leftarrow> r16 K (pool + 32);
                   v26 \<leftarrow> r16 K (pool + 44);
                   let sx = ([v23, v24, v25, v26] :: u32 list);
                   v27 \<leftarrow> r16 K (pool + 10);
                   v28 \<leftarrow> r16 K (pool + 22);
                   v29 \<leftarrow> r16 K (pool + 34);
                   v30 \<leftarrow> r16 K (pool + 46);
                   let sy = ([v27, v28, v29, v30] :: u32 list);
                   (if \<not> (keeps visible sx sy 4 Packed16) then do {
                     let count1 = count1 - 1;
                     let rec = rec + 44;
                     State_Monad.return (Inr (rec, count1, pool))
                   }
                    else do {
                      let flagbyte = shr rec4 24;
                      let mode = flagbyte AND 3;
                      z \<leftarrow> (if mode = 1 \<or> mode = 2 then do {
                        sz1 \<leftarrow> gte_data K 16;
                        sz2 \<leftarrow> gte_data K 17;
                        sz3 \<leftarrow> gte_data K 18;
                        sz4 \<leftarrow> gte_data K 19;
                        let base1 = (if mode = 1 then sp - 32 + 0 else sp - 32 + 16);
                        w32 K (base1 + 0) sz1;
                        w32 K (base1 + 4) sz2;
                        w32 K (base1 + 8) sz3;
                        w32 K (base1 + 12) sz4;
                        let z = extreme_depth (mode = 1 \<or> \<not> modeTwoNearest) [sz1, sz2,
                            sz3, sz4];
                        let z = (if mode = biasedMode then (z + kModeBias) else z);
                        w32 K SCRATCH_OTZ_TMP z;
                        State_Monad.return z
                      }
                       else do {
                         gte_run K 0x4B68002E;
                         z \<leftarrow> gte_data K 7;
                         w32 K SCRATCH_OTZ_TMP z;
                         State_Monad.return z
                       });
                      idx \<leftarrow> ground_otz_index K z;
                      w32 K SCRATCH_OTZ_TMP idx;
                      (if idx <s 0 then do {
                        let count1 = count1 - 1;
                        let rec = rec + 44;
                        State_Monad.return (Inr (rec, count1, pool))
                      }
                       else do {
                         uv23 \<leftarrow> r32 K (rec + 16);
                         w32 K (pool + 36) uv23;
                         w32 K (pool + 48) (shr uv23 16);
                         _ \<leftarrow> ordering_table_link K ot pool TAG_WORDS_GT4 idx;
                         let pool = pool + 52;
                         let count1 = count1 - 1;
                         let rec = rec + 44;
                         State_Monad.return (Inr (rec, count1, pool))
                       })
                    })
                 })
              })
           })
        }
         else State_Monad.return (Inl (rec, count1, pool)))) (rec, count1, pool);
        packet_pool_set_cursor K pool;
        State_Monad.return rec
      })
   }"

definition overlay_ground_gt3_gt4_leaf :: "'c core_ops \<Rightarrow> u32 \<Rightarrow> bool
    \<Rightarrow> bool \<Rightarrow> u32 \<Rightarrow> ('c, unit) state" where
  "overlay_ground_gt3_gt4_leaf K entry quad modeTwoNearest biasedMode = do {
     t13 \<leftarrow> (if quad then do {
       r4_1 \<leftarrow> reg K 4;
       r5_2 \<leftarrow> reg K 5;
       r6_3 \<leftarrow> reg K 6;
       r7_4 \<leftarrow> reg K 7;
       r29_5 \<leftarrow> reg K 29;
       v6 \<leftarrow> overlay_ground_gt3_gt4_emit_gt4 K r4_1 r5_2 r6_3 r7_4 r29_5 r5_2
           modeTwoNearest biasedMode;
       State_Monad.return v6
     }
      else do {
        r4_7 \<leftarrow> reg K 4;
        r5_8 \<leftarrow> reg K 5;
        r6_9 \<leftarrow> reg K 6;
        r7_10 \<leftarrow> reg K 7;
        r29_11 \<leftarrow> reg K 29;
        v12 \<leftarrow> overlay_ground_gt3_gt4_emit_gt3 K r4_7 r5_8 r6_9 r7_10 r29_11 r5_8
            modeTwoNearest biasedMode;
        State_Monad.return v12
      });
     setr K 2 t13
   }"

definition overlay_ground_gt3_gt4_entity_loop :: "'c core_ops \<Rightarrow> ('c, unit) state"
    where
  "overlay_ground_gt3_gt4_entity_loop K = do {
     list \<leftarrow> reg K 4;
     save16 \<leftarrow> reg K 16;
     save17 \<leftarrow> reg K 17;
     save18 \<leftarrow> reg K 18;
     save19 \<leftarrow> reg K 19;
     save20 \<leftarrow> reg K 20;
     saveRa \<leftarrow> reg K 31;
     r29_8 \<leftarrow> reg K 29;
     setr K 29 (r29_8 - 40);
     r29_9 \<leftarrow> reg K 29;
     w32 K (r29_9 + 36) saveRa;
     w32 K (r29_9 + 32) save20;
     w32 K (r29_9 + 28) save19;
     w32 K (r29_9 + 24) save18;
     w32 K (r29_9 + 20) save17;
     w32 K (r29_9 + 16) save16;
     count1 \<leftarrow> r8 K (list + 6);
     let idxCursor = list + 16;
     let idxEnd = idxCursor + count1 * 2;
     otBase \<leftarrow> r32 K 0x800ED8C8;
     table \<leftarrow> r32 K (list + 12);
     for_each (upto_u32 8) (\<lambda>i. do {
       v13 \<leftarrow> r32 K (CAMERA_GTE_CTRL + i * 4);
       gte_set_control K i v13
     });
     idxCursor \<leftarrow> loop (\<lambda>idxCursor. (if idxCursor < idxEnd then do {
       idx \<leftarrow> r16 K idxCursor;
       let idxCursor = idxCursor + 2;
       let tableSlot = table + idx * 4;
       counts1 \<leftarrow> r32 K tableSlot;
       let recBase = tableSlot + 4;
       setr K 4 recBase;
       setr K 5 otBase;
       setr K 6 (counts1 AND 0xFF);
       overlay_ground_gt3_gt4_leaf K kA00Gt3 False True 0;
       recBase \<leftarrow> reg K 2;
       setr K 4 recBase;
       setr K 5 otBase;
       setr K 6 ((shr counts1 16) AND 0xFF);
       overlay_ground_gt3_gt4_leaf K kA00Gt4 True True 0;
       State_Monad.return (Inr idxCursor)
     }
      else State_Monad.return (Inl idxCursor))) idxCursor;
     r29_17 \<leftarrow> reg K 29;
     v18 \<leftarrow> r32 K (r29_17 + 36);
     setr K 31 v18;
     v19 \<leftarrow> r32 K (r29_17 + 32);
     setr K 20 v19;
     v20 \<leftarrow> r32 K (r29_17 + 28);
     setr K 19 v20;
     v21 \<leftarrow> r32 K (r29_17 + 24);
     setr K 18 v21;
     v22 \<leftarrow> r32 K (r29_17 + 20);
     setr K 17 v22;
     v23 \<leftarrow> r32 K (r29_17 + 16);
     setr K 16 v23;
     setr K 29 (r29_17 + 40)
   }"

section \<open>\<open>game/render/perobj_billboard.cpp\<close>\<close>

definition render_billboard_compose3 :: "'c core_ops \<Rightarrow> ('c, unit) state" where
  "render_billboard_compose3 K = do {
     node \<leftarrow> reg K 4;
     v2 \<leftarrow> r32 K (node + 56);
     (if v2 = 0 then State_Monad.return ()
      else sp_frame K 32 (do {
        sp \<leftarrow> reg K 29;
        r16_4 \<leftarrow> reg K 16;
        w32 K (sp + 16) r16_4;
        r17_5 \<leftarrow> reg K 17;
        w32 K (sp + 20) r17_5;
        r18_6 \<leftarrow> reg K 18;
        w32 K (sp + 24) r18_6;
        r31_7 \<leftarrow> reg K 31;
        w32 K (sp + 28) r31_7;
        mtx_identity K MAT_A;
        v8 \<leftarrow> r8 K (node + 71);
        let flag = v8 AND 1;
        _ \<leftarrow> mat_mul K (node + 152) MAT_A MAT_ROTZ;
        setr K 16 MAT_ROTZ;
        setr K 17 flag;
        setr K 18 node;
        setr K 31 0x8003C8DC;
        billboard_compose_tail K node flag MAT_ROTZ;
        v9 \<leftarrow> r32 K (sp + 16);
        setr K 16 v9;
        v10 \<leftarrow> r32 K (sp + 20);
        setr K 17 v10;
        v11 \<leftarrow> r32 K (sp + 24);
        setr K 18 v11;
        v12 \<leftarrow> r32 K (sp + 28);
        setr K 31 v12
      }))
   }"

definition render_billboard_compose_c5_f8 :: "'c core_ops \<Rightarrow> ('c, unit) state" where
  "render_billboard_compose_c5_f8 K = do {
     node \<leftarrow> reg K 4;
     v2 \<leftarrow> r32 K (node + 56);
     (if v2 = 0 then State_Monad.return ()
      else sp_frame K 40 (do {
        sp \<leftarrow> reg K 29;
        r16_4 \<leftarrow> reg K 16;
        w32 K (sp + 16) r16_4;
        r17_5 \<leftarrow> reg K 17;
        w32 K (sp + 20) r17_5;
        r18_6 \<leftarrow> reg K 18;
        w32 K (sp + 24) r18_6;
        r19_7 \<leftarrow> reg K 19;
        w32 K (sp + 28) r19_7;
        r31_8 \<leftarrow> reg K 31;
        w32 K (sp + 32) r31_8;
        mtx_identity K MAT_A;
        mtx_identity K MAT_ROTZ;
        _ \<leftarrow> rot_mat_soft K (node + 84) MAT_ROTZ;
        v9 \<leftarrow> r8 K (node + 71);
        let flag = v9 AND 1;
        _ \<leftarrow> mat_mul K MAT_ROTZ MAT_A MAT_OUT;
        setr K 16 MAT_OUT;
        setr K 17 MAT_A;
        setr K 18 flag;
        setr K 19 node;
        setr K 31 0x8003C76C;
        billboard_compose_tail K node flag MAT_OUT;
        v10 \<leftarrow> r32 K (sp + 16);
        setr K 16 v10;
        v11 \<leftarrow> r32 K (sp + 20);
        setr K 17 v11;
        v12 \<leftarrow> r32 K (sp + 24);
        setr K 18 v12;
        v13 \<leftarrow> r32 K (sp + 28);
        setr K 19 v13;
        v14 \<leftarrow> r32 K (sp + 32);
        setr K 31 v14
      }))
   }"

definition ov_per_obj_render_dispatch :: "'c core_ops \<Rightarrow> ('c, unit) state" where
  "ov_per_obj_render_dispatch K = render_per_obj_render_dispatch K"

definition ov_billboard_compose1 :: "'c core_ops \<Rightarrow> ('c, unit) state" where
  "ov_billboard_compose1 K = render_billboard_compose1 K"

definition ov_billboard_compose2 :: "'c core_ops \<Rightarrow> ('c, unit) state" where
  "ov_billboard_compose2 K = render_billboard_compose2 K"

definition ov_billboard_compose3 :: "'c core_ops \<Rightarrow> ('c, unit) state" where
  "ov_billboard_compose3 K = render_billboard_compose3 K"

definition ov_billboard_compose_c5_f8 :: "'c core_ops \<Rightarrow> ('c, unit) state" where
  "ov_billboard_compose_c5_f8 K = render_billboard_compose_c5_f8 K"

definition ov_billboard_emit :: "'c core_ops \<Rightarrow> ('c, unit) state" where
  "ov_billboard_emit K = render_billboard_emit K"

section \<open>\<open>game/render/perobj_dispatch.cpp\<close>\<close>

definition ov_cmd_list_dispatch :: "'c core_ops \<Rightarrow> ('c, unit) state" where
  "ov_cmd_list_dispatch K = render_cmd_list_dispatch K"

definition ov_per_mode_dispatch :: "'c core_ops \<Rightarrow> ('c, unit) state" where
  "ov_per_mode_dispatch K = per_mode_dispatch K"

section \<open>\<open>game/render/render_walk_dispatch.cpp\<close>\<close>

definition render_walk_case188 :: "'c core_ops \<Rightarrow> ('c, unit) state" where
  "render_walk_case188 K = do {
     node \<leftarrow> reg K 16;
     sp \<leftarrow> reg K 29;
     v3 \<leftarrow> r8 K MODE_BYTE_188;
     (if v3 = 4 then do { setr K 4 node; setr K 31 0x8003C1A4; call_guest K 0x8011BE5C }
      else do {
        tbl \<leftarrow> r32 K (node + 56);
        (if tbl = 0 then State_Monad.return ()
         else do {
           v5 \<leftarrow> r16 K (tbl + 0);
           let idx = as_s16 v5;
           listBase \<leftarrow> r32 K (node + 60);
           let entry = listBase + shl idx 2;
           v7 \<leftarrow> r16 K (entry + 2);
           let byteOff = as_s16 v7;
           setr K 4 (sp + 16);
           setr K 5 (listBase + byteOff);
           setr K 6 0;
           setr K 31 0x8003C1E0;
           call_guest K 0x8003B054;
           w8 K (sp + 23) 45;
           for_each (upto_u32 11) (\<lambda>i. do {
             v8 \<leftarrow> r16 K (node + 96 + i * 2);
             w16 K (sp + 56 + i * 2) v8
           });
           r18_9 \<leftarrow> reg K 18;
           setr K 4 r18_9;
           setr K 31 0x8003C27C;
           call_guest K 0x80084660;
           r18_10 \<leftarrow> reg K 18;
           setr K 4 r18_10;
           setr K 31 0x8003C284;
           call_guest K 0x80084690;
           setr K 4 (sp + 16);
           setr K 5 (sp + 56);
           setr K 6 16;
           setr K 31 0x8003C294;
           call_guest K 0x8003B320
         })
      })
   }"

definition render_render_walk :: "'c core_ops \<Rightarrow> ('c, unit) state" where
  "render_render_walk K = walk_frame K (do {
     v1 \<leftarrow> r32 K RENDER_LIST_HEAD;
     setr K 16 v1;
     r16_2 \<leftarrow> reg K 16;
     (if r16_2 = 0 then State_Monad.return ()
      else do {
        setr K 19 render_walk_dispatch_JUMP_TABLE;
        setr K 18 CASE188_SCR;
        out46 \<leftarrow> loop (\<lambda>_. do {
          node \<leftarrow> reg K 16;
          v4 \<leftarrow> r32 K (node + 36);
          setr K 17 v4;
          v5 \<leftarrow> r8 K (node + 1);
          (if v5 \<noteq> 0 then do {
            idxByte \<leftarrow> r8 K (node + 11);
            (if idxByte < 33 then do {
              r19_7 \<leftarrow> reg K 19;
              target \<leftarrow> r32 K (r19_7 + idxByte * 4);
              (if target = 0x8003C0B4 then do {
                setr K 4 node;
                setr K 31 0x8003C0BC;
                render_per_obj_render_dispatch K;
                r17_9 \<leftarrow> reg K 17;
                setr K 16 r17_9;
                r16_10 \<leftarrow> reg K 16;
                (if r16_10 = 0 then State_Monad.return (Inl (Inr ()))
                 else State_Monad.return (Inr ()))
              }
               else if target = 0x8003C0C4 then do {
                 setr K 4 node;
                 setr K 5 0;
                 setr K 31 0x8003C0D0;
                 call_guest K 0x8003F174;
                 r17_11 \<leftarrow> reg K 17;
                 setr K 16 r17_11;
                 r16_12 \<leftarrow> reg K 16;
                 (if r16_12 = 0 then State_Monad.return (Inl (Inr ()))
                  else State_Monad.return (Inr ()))
               }
                else if target = 0x8003C0D8 then do {
                  setr K 4 node;
                  setr K 31 0x8003C0E0;
                  call_guest K 0x8003EF9C;
                  r17_13 \<leftarrow> reg K 17;
                  setr K 16 r17_13;
                  r16_14 \<leftarrow> reg K 16;
                  (if r16_14 = 0 then State_Monad.return (Inl (Inr ()))
                   else State_Monad.return (Inr ()))
                }
                 else if target = 0x8003C0E8 then do {
                   setr K 4 node;
                   setr K 31 0x8003C0F0;
                   call_guest K 0x80039F4C;
                   r17_15 \<leftarrow> reg K 17;
                   setr K 16 r17_15;
                   r16_16 \<leftarrow> reg K 16;
                   (if r16_16 = 0 then State_Monad.return (Inl (Inr ()))
                    else State_Monad.return (Inr ()))
                 }
                  else if target = 0x8003C0F8 then do {
                    setr K 4 node;
                    setr K 31 0x8003C100;
                    call_guest K 0x8012A43C;
                    r17_17 \<leftarrow> reg K 17;
                    setr K 16 r17_17;
                    r16_18 \<leftarrow> reg K 16;
                    (if r16_18 = 0 then State_Monad.return (Inl (Inr ()))
                     else State_Monad.return (Inr ()))
                  }
                   else if target = 0x8003C108 then do {
                     setr K 4 node;
                     setr K 31 0x8003C110;
                     call_guest K 0x801295B4;
                     r17_19 \<leftarrow> reg K 17;
                     setr K 16 r17_19;
                     r16_20 \<leftarrow> reg K 16;
                     (if r16_20 = 0 then State_Monad.return (Inl (Inr ()))
                      else State_Monad.return (Inr ()))
                   }
                    else if target = 0x8003C118 then do {
                      setr K 4 node;
                      setr K 31 0x8003C120;
                      call_guest K 0x80129114;
                      r17_21 \<leftarrow> reg K 17;
                      setr K 16 r17_21;
                      r16_22 \<leftarrow> reg K 16;
                      (if r16_22 = 0 then State_Monad.return (Inl (Inr ()))
                       else State_Monad.return (Inr ()))
                    }
                     else if target = 0x8003C128 then do {
                       setr K 4 node;
                       setr K 31 0x8003C130;
                       call_guest K 0x8013DD58;
                       r17_23 \<leftarrow> reg K 17;
                       setr K 16 r17_23;
                       r16_24 \<leftarrow> reg K 16;
                       (if r16_24 = 0 then State_Monad.return (Inl (Inr ()))
                        else State_Monad.return (Inr ()))
                     }
                      else if target = 0x8003C138 then do {
                        setr K 4 node;
                        setr K 31 0x8003C140;
                        call_guest K 0x800726D4;
                        r17_25 \<leftarrow> reg K 17;
                        setr K 16 r17_25;
                        r16_26 \<leftarrow> reg K 16;
                        (if r16_26 = 0 then State_Monad.return (Inl (Inr ()))
                         else State_Monad.return (Inr ()))
                      }
                       else if target = 0x8003C148 then do {
                         setr K 4 node;
                         setr K 31 0x8003C150;
                         render_billboard_compose1 K;
                         r17_27 \<leftarrow> reg K 17;
                         setr K 16 r17_27;
                         r16_28 \<leftarrow> reg K 16;
                         (if r16_28 = 0 then State_Monad.return (Inl (Inr ()))
                          else State_Monad.return (Inr ()))
                       }
                        else if target = 0x8003C158 then do {
                          setr K 4 node;
                          setr K 31 0x8003C160;
                          render_billboard_compose2 K;
                          r17_29 \<leftarrow> reg K 17;
                          setr K 16 r17_29;
                          r16_30 \<leftarrow> reg K 16;
                          (if r16_30 = 0 then State_Monad.return (Inl (Inr ()))
                           else State_Monad.return (Inr ()))
                        }
                         else if target = 0x8003C168 then do {
                           setr K 4 node;
                           setr K 31 0x8003C170;
                           call_guest K 0x8003C5F8;
                           r17_31 \<leftarrow> reg K 17;
                           setr K 16 r17_31;
                           r16_32 \<leftarrow> reg K 16;
                           (if r16_32 = 0 then State_Monad.return (Inl (Inr ()))
                            else State_Monad.return (Inr ()))
                         }
                          else if target = 0x8003C178 then do {
                            setr K 4 node;
                            setr K 31 0x8003C180;
                            call_guest K 0x8003C788;
                            r17_33 \<leftarrow> reg K 17;
                            setr K 16 r17_33;
                            r16_34 \<leftarrow> reg K 16;
                            (if r16_34 = 0 then State_Monad.return (Inl (Inr ()))
                             else State_Monad.return (Inr ()))
                          }
                           else if target = 0x8003C188 then do {
                             render_walk_case188 K;
                             r17_35 \<leftarrow> reg K 17;
                             setr K 16 r17_35;
                             r16_36 \<leftarrow> reg K 16;
                             (if r16_36 = 0 then State_Monad.return (Inl (Inr ()))
                              else State_Monad.return (Inr ()))
                           }
                            else if target = 0x8003C29C then do {
                              fn \<leftarrow> r32 K (node + 24);
                              setr K 4 node;
                              setr K 31 0x8003C2AC;
                              call_guest K fn;
                              r17_38 \<leftarrow> reg K 17;
                              setr K 16 r17_38;
                              r16_39 \<leftarrow> reg K 16;
                              (if r16_39 = 0 then State_Monad.return (Inl (Inr ()))
                               else State_Monad.return (Inr ()))
                            }
                             else if target = 0x8003C2AC then do {
                               r17_40 \<leftarrow> reg K 17;
                               setr K 16 r17_40;
                               r16_41 \<leftarrow> reg K 16;
                               (if r16_41 = 0 then State_Monad.return (Inl (Inr ()))
                                else State_Monad.return (Inr ()))
                             }
                              else do {
                                setr K 4 node;
                                call_guest K target;
                                State_Monad.return (Inl (Inl ()))
                              })
            }
             else do {
               r17_42 \<leftarrow> reg K 17;
               setr K 16 r17_42;
               r16_43 \<leftarrow> reg K 16;
               (if r16_43 = 0 then State_Monad.return (Inl (Inr ()))
                else State_Monad.return (Inr ()))
             })
          }
           else do {
             r17_44 \<leftarrow> reg K 17;
             setr K 16 r17_44;
             r16_45 \<leftarrow> reg K 16;
             (if r16_45 = 0 then State_Monad.return (Inl (Inr ()))
              else State_Monad.return (Inr ()))
           })
        }) ();
        (case out46 of Inl r1 \<Rightarrow> State_Monad.return r1 | Inr _ \<Rightarrow>
            State_Monad.return ())
      })
   })"

definition ov_render_walk :: "'c core_ops \<Rightarrow> ('c, unit) state" where
  "ov_render_walk K = render_render_walk K"

section \<open>\<open>game/render/text_label.cpp\<close>\<close>

definition text_label_body :: "'c core_ops \<Rightarrow> ('c, unit) state" where
  "text_label_body K = with_frame K 120 [(20, 104), (31, 112), (21, 108), (19, 100), (18, 96),
      (17, 92), (16, 88)] (do {
     sp \<leftarrow> reg K 29;
     node \<leftarrow> reg K 4;
     setr K 20 node;
     setr K 4 node;
     setr K 5 1;
     _ \<leftarrow> dispatch_jal K 0x8003F174 0x80039F78 [];
     for_each (upto_u32 4) (\<lambda>i. do {
       w16 K (sp + 16 + i * 8) (kGlyphX ! (unat i));
       w16 K (sp + 18 + i * 8) (kGlyphY ! (unat i));
       w16 K (sp + 20 + i * 8) kGlyphZ
     });
     v3 \<leftarrow> r8 K (node + 3);
     text1 \<leftarrow> (if v3 = 2 then do {
       setr K 4 (sp + 48);
       v4 \<leftarrow> r32 K 0x800A3A8C;
       setr K 5 v4;
       setr K 18 (sp + 48);
       _ \<leftarrow> dispatch_jal K 0x8009A5B0 0x80039FE4 [];
       r18_5 \<leftarrow> reg K 18;
       setr K 4 r18_5;
       setr K 5 0x80014A1C;
       _ \<leftarrow> dispatch_jal K 0x8009A490 0x80039FF4 [];
       reg K 18
     }
      else do {
        v7 \<leftarrow> r16 K (node + 96);
        let idx = as_s16 v7;
        r32 K (0x800A33C8 + idx * 12 + 4)
      });
     setr K 18 text1;
     v9 \<leftarrow> r8 K (node + 9);
     (if v9 = 0 then State_Monad.return ()
      else do {
        setr K 17 0;
        v10 \<leftarrow> r8 K (node + 8);
        (if v10 \<le> 0 then State_Monad.return ()
         else do {
           setr K 21 kCursorPage;
           setr K 19 node;
           loop (\<lambda>_. do {
             r18_11 \<leftarrow> reg K 18;
             ch \<leftarrow> r8 K r18_11;
             (if ch = 0 then State_Monad.return (Inl ())
              else do {
                setr K 4 r18_11;
                v13 \<leftarrow> packet_pool_cursor K;
                setr K 5 v13;
                _ \<leftarrow> dispatch_jal K 0x80039E80 0x8003A05C [];
                r2_14 \<leftarrow> reg K 2;
                only_if (r2_14 \<noteq> -1) (do {
                  r19_15 \<leftarrow> reg K 19;
                  cmd \<leftarrow> r32 K (r19_15 + 192);
                  v17 \<leftarrow> packet_pool_allocate K 40;
                  setr K 16 v17;
                  setr K 4 (cmd + 24);
                  _ \<leftarrow> dispatch_jal K 0x80084660 0x8003A080 [];
                  r19_18 \<leftarrow> reg K 19;
                  v19 \<leftarrow> r32 K (r19_18 + 192);
                  setr K 4 (v19 + 24);
                  _ \<leftarrow> dispatch_jal K 0x80084690 0x8003A08C [];
                  r16_20 \<leftarrow> reg K 16;
                  setr K 4 r16_20;
                  setr K 5 (sp + 16);
                  setr K 6 (sp + 80);
                  _ \<leftarrow> dispatch_jal K 0x8003F7D8 0x8003A09C [];
                  r2_21 \<leftarrow> reg K 2;
                  let otzm1 = r2_21 - 1;
                  only_if (0 \<le>s otzm1) (do {
                    pk \<leftarrow> reg K 16;
                    let sx = (\<lambda>off. r16 K (pk + off));
                    v25 \<leftarrow> sx 8;
                    v26 \<leftarrow> sx 16;
                    v27 \<leftarrow> sx 24;
                    v28 \<leftarrow> sx 32;
                    let xs1 = ([v25, v26, v27, v28] :: u32 list);
                    v29 \<leftarrow> for_draw_window K;
                    let xok = keeps_x v29 xs1 4 Packed16;
                    v30 \<leftarrow> sx 10;
                    b32 \<leftarrow> (if v30 < 240 then State_Monad.return True
                     else do { v31 \<leftarrow> sx 18; State_Monad.return (v31 < 240) });
                    b34 \<leftarrow> (if b32 then State_Monad.return True
                     else do { v33 \<leftarrow> sx 26; State_Monad.return (v33 < 240) });
                    b36 \<leftarrow> (if b34 then State_Monad.return True
                     else do { v35 \<leftarrow> sx 34; State_Monad.return (v35 < 240) });
                    let yok = b36;
                    only_if (xok \<and> yok) (do {
                      w8 K (pk + 7) 45;
                      w16 K (pk + 22) 31;
                      v37 \<leftarrow> r8 K (node + 3);
                      w16 K (pk + 14) (if v37 = 2 then 31871 else 32255);
                      v38 \<leftarrow> r32 K 0x800ED8C8;
                      _ \<leftarrow> ordering_table_link K v38 pk 9 otzm1;
                      State_Monad.return ()
                    })
                  })
                });
                r19_39 \<leftarrow> reg K 19;
                setr K 19 (r19_39 + 4);
                r17_40 \<leftarrow> reg K 17;
                setr K 17 (r17_40 + 1);
                r18_41 \<leftarrow> reg K 18;
                setr K 18 (r18_41 + 1);
                r17_42 \<leftarrow> reg K 17;
                v43 \<leftarrow> r8 K (node + 9);
                (if v43 \<le>s r17_42 then State_Monad.return (Inl ())
                 else do {
                   v44 \<leftarrow> r8 K (node + 8);
                   (if v44 \<le>s r17_42 then State_Monad.return (Inl ())
                    else State_Monad.return (Inr ()))
                 })
              })
           }) ()
         })
      })
   })"

end
