(* ===== verification/Polling.thy ===== *)
theory Polling
  imports Prelude
begin

text \<open>
  Operations that a caller repeats, once a frame, until they answer. The locale \<open>polled\<close> is the
  contract of such an operation: while it does not answer, a rank falls. From it follows that the
  operation answers, and within how many calls; \<open>counted\<close> adds that the rank counts the calls
  exactly.
\<close>

section \<open>Repeated calls\<close>

primrec after :: "('s \<Rightarrow> 'a \<times> 's) \<Rightarrow> nat \<Rightarrow> 's \<Rightarrow> 's" where
  "after call 0 s = s"
| "after call (Suc n) s = after call n (snd (call s))"

lemma after_1 [simp]: "after call 1 s = snd (call s)"
  by (simp add: One_nat_def)

lemma after_numeral [simp]:
  "after call (numeral n) s = after call (pred_numeral n) (snd (call s))"
  by (simp add: numeral_eq_Suc)

lemma after_Suc: "after call (Suc n) s = snd (call (after call n s))"
  by (induction n arbitrary: s) simp_all

text \<open>Two operations related by an abstraction stay related.\<close>
lemma after_abs:
  assumes "\<And>s. ok s \<Longrightarrow> ok (snd (call s)) \<and> view (snd (call s)) = snd (spec (view s))" and "ok s"
  shows "ok (after call n s) \<and> view (after call n s) = after spec n (view s)"
  using assms(2) by (induction n arbitrary: s) (simp_all add: assms(1))

section \<open>The contract\<close>

locale polled =
  fixes call :: "'s \<Rightarrow> bool \<times> 's" and ready :: "'s \<Rightarrow> bool" and rank :: "'s \<Rightarrow> nat"
  assumes progress: "ready s \<Longrightarrow> \<not> fst (call s) \<Longrightarrow>
      ready (snd (call s)) \<and> rank (snd (call s)) < rank s"
begin

lemma answers:
  assumes "ready s"
  shows "\<exists>n \<le> rank s. fst (call (after call n s)) \<and> (\<forall>m < n. \<not> fst (call (after call m s)))"
  using assms
proof (induction "rank s" arbitrary: s rule: less_induct)
  case less
  show ?case
  proof (cases "fst (call s)")
    case True
    then show ?thesis by (intro exI [of _ 0]) simp
  next
    case False
    let ?t = "snd (call s)"
    have "ready ?t" and down: "rank ?t < rank s" using progress [OF less.prems False] by simp_all
    then obtain n where n: "n \<le> rank ?t" "fst (call (after call n ?t))"
      "\<forall>m < n. \<not> fst (call (after call m ?t))"
      using less.hyps [of ?t] by blast
    have "\<not> fst (call (after call m s))" if "m < Suc n" for m
      using that n(3) False by (cases m) simp_all
    then show ?thesis
      using n(1,2) down by (intro exI [of _ "Suc n"]) simp
  qed
qed

end

locale counted = polled +
  assumes last: "ready s \<Longrightarrow> fst (call s) = (rank s = 0)"
    and falls: "ready s \<Longrightarrow> \<not> fst (call s) \<Longrightarrow> rank s = Suc (rank (snd (call s)))"
begin

lemma waits:
  assumes "ready s" "n \<le> rank s"
  shows "ready (after call n s) \<and> rank (after call n s) = rank s - n"
  using assms
proof (induction n arbitrary: s)
  case (Suc n)
  have go: "\<not> fst (call s)" using last [OF Suc.prems(1)] Suc.prems(2) by simp
  have "ready (snd (call s))" "rank s = Suc (rank (snd (call s)))"
    using progress [OF Suc.prems(1) go] falls [OF Suc.prems(1) go] by simp_all
  then show ?case using Suc.IH [of "snd (call s)"] Suc.prems(2) by simp
qed simp

lemma answers_at:
  assumes "ready s" "n \<le> rank s"
  shows "fst (call (after call n s)) = (n = rank s)"
  using waits [OF assms] last [of "after call n s"] assms(2) by auto

end

end
