(* ===== verification/ScriptProgress.thy ===== *)
theory ScriptProgress
  imports ScriptInterpreter Polling MatrixMath
begin

text \<open>
  Progress of the script opcodes that a script repeats until they answer: waiting for frames
  (\<open>op05\<close>) and turning toward an angle (\<open>stepAngleToward\<close>, under \<open>op31\<close> and \<open>op36\<close>). Each is first a
  function on the halfword it keeps in guest memory, an instance of \<open>counted\<close> or \<open>polled\<close>, and the
  operation of \<open>ScriptInterpreter\<close> is shown to be that function.
\<close>

section \<open>Waiting for frames\<close>

text \<open>\<open>op05\<close> on the counter it keeps in the script object's first argument.\<close>
definition wait_call :: "u16 \<Rightarrow> bool \<times> u16" where
  "wait_call n = (\<not> unat (n - 1) < 0x8000, n - 1)"

definition frames_left :: "u16 \<Rightarrow> nat" where
  "frames_left n = (if unat n \<le> 0x8000 then unat n else 0)"

lemma u16_pred: "(n :: u16) \<noteq> 0 \<Longrightarrow> unat n = Suc (unat (n - 1))"
  using unat_minus_one [of n] unat_gt_0 [of n] by simp

lemma wait_cases:
  "fst (wait_call n) = (frames_left n = 0)"
  "\<not> fst (wait_call n) \<Longrightarrow> frames_left n = Suc (frames_left (snd (wait_call n)))"
proof -
  have "n = 0 \<Longrightarrow> unat (n - 1) = 0xFFFF" "n \<noteq> 0 \<Longrightarrow> unat n = Suc (unat (n - 1))"
    by (simp_all add: u16_pred)
  then have "unat (n - 1) = (if unat n = 0 then 0xFFFF else unat n - 1)"
    by (cases "n = 0") simp_all
  then show "fst (wait_call n) = (frames_left n = 0)"
    "\<not> fst (wait_call n) \<Longrightarrow> frames_left n = Suc (frames_left (snd (wait_call n)))"
    by (auto simp: wait_call_def frames_left_def split: if_splits)
qed

interpretation waiting: counted wait_call "\<lambda>n. True" frames_left
  using wait_cases by unfold_locales (simp_all add: wait_cases(2))

lemma as_s16_negative: "(as_s16 (as_u16 (ucast (n :: u16) - 1)) <s (0 :: u32)) = (\<not> unat (n - 1) < 0x8000)"
proof -
  have "(ucast (as_u16 (ucast n - 1)) :: u16) = n - 1"
    by (simp add: as_u16_def ucast_u16_mask ucast_minus_u16)
  then show ?thesis by (simp add: as_s16_def scast_u16_negative)
qed

definition frames_at :: "'c core_ops \<Rightarrow> 'c \<Rightarrow> u32 \<Rightarrow> u16" where
  "frames_at K c obj = mem_r16 K c (obj + 0x72)"

context guest_core
begin

lemma wait_frames_call:
  assumes "in_ram (obj + 0x72) 2"
  shows "(result (script_interp_op05_wait_frames K obj) c \<noteq> 0) = fst (wait_call (frames_at K c obj))"
    "frames_at K (exec (script_interp_op05_wait_frames K obj) c) obj = snd (wait_call (frames_at K c obj))"
    "result (script_interp_op05_wait_frames K obj) c \<in> {0, 1}"
  using assms as_s16_negative [of "mem_r16 K c (obj + 0x72)"]
  by (simp_all add: script_interp_op05_wait_frames_def script_object_arg_a_def script_object_set_arg_a_def
      kArgA_def frames_at_def Let_def wait_call_def read_write as_u16_def ucast_u16_mask ucast_minus_u16)

lemma wait_frames_after:
  assumes "in_ram (obj + 0x72) 2"
  shows "frames_at K (after (run_state (script_interp_op05_wait_frames K obj)) n c) obj =
    after wait_call n (frames_at K c obj)"
  using after_abs [where ok = "\<lambda>c. True" and call = "run_state (script_interp_op05_wait_frames K obj)"
      and view = "\<lambda>c. frames_at K c obj" and spec = wait_call and s = c and n = n]
    wait_frames_call(2) [OF assms] by simp

end

section \<open>Turning toward an angle\<close>

text \<open>Angles count 4096 to the turn. The gap is how far the angle \<open>h\<close> is behind the target, within one turn.\<close>
definition angle_gap :: "u16 \<Rightarrow> u16 \<Rightarrow> nat" where
  "angle_gap t h = unat (t - h) mod 4096"

text \<open>One call of \<open>stepAngleToward\<close> on the angle halfword.\<close>
definition angle_call :: "u16 \<Rightarrow> u16 \<Rightarrow> u16 \<Rightarrow> bool \<times> u16" where
  "angle_call t s h =
     (if \<bar>sint t - sint h\<bar> \<le> sint s then (True, t)
      else let h' = (if 2048 \<le> angle_gap t h then h - s else h + s)
           in if int (angle_gap t h') \<le> sint s then (True, t) else (False, h'))"

definition angle_rank :: "u16 \<Rightarrow> u16 \<Rightarrow> u16 \<Rightarrow> nat" where
  "angle_rank t s h = (let g = angle_gap t h; n = unat s
     in if 2048 \<le> g then (4095 - g) div n else if g < n then 1 else g div n)"

lemma angle_gap_less: "angle_gap t h < 4096"
  by (simp add: angle_gap_def)

lemma unat_u16_plus_mod: "unat (x + y :: u16) mod 4096 = (unat x mod 4096 + unat y) mod 4096"
proof -
  have "unat (x + y) mod 4096 = (unat x + unat y) mod 65536 mod 4096"
    by (simp add: unat_word_ariths)
  also have "\<dots> = (unat x + unat y) mod 4096"
    by (rule mod_mod_cancel) simp
  finally show ?thesis by (simp add: mod_simps)
qed

lemma wrap_turn: "g < 4096 \<Longrightarrow> n < 4096 \<Longrightarrow> (g + n) mod 4096 = (if g + n < 4096 then g + n else g + n - 4096)"
  for g n :: nat
  using le_mod_geq [of 4096 "g + n"] by (cases "g + n < 4096") simp_all

lemma angle_gap_back:
  assumes "unat s < 4096"
  shows "angle_gap t (h - s) =
    (if angle_gap t h + unat s < 4096 then angle_gap t h + unat s else angle_gap t h + unat s - 4096)"
proof -
  have "t - (h - s) = t - h + s" by simp
  then have "angle_gap t (h - s) = (angle_gap t h + unat s) mod 4096"
    using unat_u16_plus_mod [of "t - h" s] by (simp only: angle_gap_def)
  then show ?thesis using wrap_turn [OF angle_gap_less assms] by simp
qed

lemma angle_gap_on: "unat s < 4096 \<Longrightarrow> angle_gap t (h + s) =
    (if unat s \<le> angle_gap t h then angle_gap t h - unat s else angle_gap t h + 4096 - unat s)"
  using angle_gap_back [of s t "h + s"] angle_gap_less [of t "h + s"] angle_gap_less [of t h]
  by (auto split: if_splits)

lemma angle_progress:
  assumes s: "0 < unat s" "unat s < 2048" and go: "\<not> fst (angle_call t s h)"
  shows "angle_rank t s (snd (angle_call t s h)) < angle_rank t s h"
proof -
  define g n where "g = angle_gap t h" and "n = unat s"
  have n: "0 < n" "n < 2048" and g: "g < 4096" and sn: "sint s = int n"
    using s angle_gap_less by (simp_all add: g_def n_def sint_u16)
  let ?h = "if 2048 \<le> g then h - s else h + s"
  have call: "angle_call t s h = (False, ?h)" and far: "n < angle_gap t ?h"
    using go sn by (auto simp: angle_call_def g_def Let_def split: if_splits)
  have "angle_gap t (h - s) = (if g + n < 4096 then g + n else g + n - 4096)"
    "angle_gap t (h + s) = (if n \<le> g then g - n else g + 4096 - n)"
    using angle_gap_back [of s t h] angle_gap_on [of s t h] n by (simp_all add: g_def n_def)
  then consider (behind) "2048 \<le> g" "g + n < 4096" "angle_gap t ?h = g + n"
    | (onward) "g < 2048" "n \<le> g" "angle_gap t ?h = g - n" "n < g - n"
    | (past) "g < n" "g < 2048" "angle_gap t ?h = g + 4096 - n"
    using far g n by (auto split: if_splits)
  then show ?thesis
  proof cases
    case behind
    have "(4095 - g) div n = Suc ((4095 - (g + n)) div n)"
      using behind n by (simp add: le_div_geq)
    then show ?thesis using behind by (simp add: call angle_rank_def g_def [symmetric] n_def [symmetric])
  next
    case onward
    have "g div n = Suc ((g - n) div n)" using onward n by (simp add: le_div_geq)
    then show ?thesis using onward by (simp add: call angle_rank_def g_def [symmetric] n_def [symmetric] Let_def)
  next
    case past
    then have "2048 \<le> g + 4096 - n" "4095 - (g + 4096 - n) < n" using n by simp_all
    then show ?thesis using past by (simp add: call angle_rank_def g_def [symmetric] n_def [symmetric] Let_def)
  qed
qed

interpretation turning: polled "angle_call t s" "\<lambda>h. 0 < unat s \<and> unat s < 2048" "angle_rank t s" for t s
  by unfold_locales (simp add: angle_progress)

lemma angle_rank_bound:
  assumes "0 < unat s" "unat s < 2048"
  shows "angle_rank t s h \<le> 2047 div unat s"
proof -
  have "1 \<le> 2047 div unat s" using assms by (simp add: Suc_le_eq div_greater_zero_iff One_nat_def)
  then show ?thesis by (auto simp: angle_rank_def Let_def intro: div_le_mono)
qed

lemma angle_call_target: "fst (angle_call t s h) \<Longrightarrow> snd (angle_call t s h) = t"
  by (auto simp: angle_call_def Let_def split: if_splits)

lemma ucast_scast_u16 [simp]: "(ucast (scast (h :: u16) :: u32) :: u16) = h"
  by (rule bit_word_eqI) (auto simp: bit_simps)

lemma ucast_as_s16 [simp]: "(ucast (as_s16 x) :: u16) = ucast x"
  by (simp add: as_s16_def)

lemma as_s16_ucast [simp]: "as_s16 (ucast (h :: u16)) = scast h"
  by (simp add: as_s16_def)

lemma as_s16_eq: "as_s16 x = scast (ucast x :: u16)"
  by (simp add: as_s16_def)

lemma masked_gap: "unat (scast t - scast h AND 0xFFF :: u32) = angle_gap t h" for t h :: u16
proof -
  have "(ucast (scast t - scast h :: u32) :: u16) = t - h"
    by (simp add: ucast_minus_u16)
  then have "(ucast (t - h) :: u32) = scast t - scast h AND 0xFFFF"
    using ucast_down_up_u16 [of "scast t - scast h"] by simp
  then have "unat (ucast (t - h) :: u32) = unat (scast t - scast h AND 0xFFFF :: u32)"
    by (simp only:)
  then have "unat (t - h) = unat (scast t - scast h :: u32) mod 65536"
    by (simp only: unat_ucast_u16 unat_mask16)
  then show ?thesis
    by (simp add: unat_mask12 angle_gap_def mod_mod_cancel)
qed

lemma sint_u16_range: "- 0x8000 \<le> sint (w :: u16)" "sint (w :: u16) < 0x8000"
  using sint_greater_eq [of w] sint_less [of w] by simp_all

lemma sint_scast_minus: "sint (scast t - scast h :: u32) = sint t - sint h" for t h :: u16
  using sint_u16_range [of t] sint_u16_range [of h] by (intro trans [OF sint_sub_small]) simp_all

lemma straight_magnitude:
  fixes t h :: u16
  defines "d \<equiv> scast t - scast h :: u32"
  shows "sint (if d <s 0 then - d else d) = \<bar>sint t - sint h\<bar>"
proof -
  have d: "sint d = sint t - sint h" by (simp add: d_def sint_scast_minus)
  have "- 0x10000 < sint d" "sint d < 0x10000"
    using sint_u16_range [of t] sint_u16_range [of h] by (simp_all add: d)
  then have "sint (- d) = - sint d"
    using sint_sub_small [of 0 d] by simp
  then show ?thesis by (simp add: word_sless_alt d)
qed

lemma gap_signed: "sint (scast t - scast h AND 0xFFF :: u32) = int (angle_gap t h)" for t h :: u16
  using sint_eq_unat [of "scast t - scast h AND 0xFFF"] angle_gap_less [of t h] by (simp add: masked_gap)

context guest_core
begin

lemma step_angle_call:
  fixes s t :: u16
  assumes "in_ram p 2"
  shows "let m = script_interp_step_angle_toward K p (scast t) (scast s) in
    (result m c \<noteq> 0) = fst (angle_call t s (mem_r16 K c p)) \<and> result m c \<in> {0, 1} \<and>
    mem_r16 K (exec m c) p = snd (angle_call t s (mem_r16 K c p))"
proof -
  define h where "h = mem_r16 K c p"
  have half: "(kHalfTurn - 1 < (scast t - scast h AND script_interp_kAngleMask)) = (2048 \<le> angle_gap t h)"
    by (simp add: kHalfTurn_def script_interp_kAngleMask_def word_less_nat_alt masked_gap Suc_le_eq less_eq_Suc_le)
  have moved: "(ucast (scast h + as_s16 (- scast s) :: u32) :: u16) = h - s"
    "(ucast (scast h + scast s :: u32) :: u16) = h + s"
    by (simp_all add: ucast_plus_u16 as_s16_eq ucast_minus_u16 [of 0, simplified])
  show ?thesis
    using assms half moved straight_magnitude [of t h]
    by (auto simp: script_interp_step_angle_toward_def Let_def angle_call_def h_def [symmetric] read_write
        word_sle_eq gap_signed as_s16_eq script_interp_kAngleMask_def)
qed

end

section \<open>Properties\<close>

lemma angle_after:
  fixes s t :: u16
  assumes "guest_core K" "in_ram p 2"
  shows "mem_r16 K (after (run_state (script_interp_step_angle_toward K p (scast t) (scast s))) n c) p =
    after (angle_call t s) n (mem_r16 K c p)"
  using after_abs [where ok = "\<lambda>c. True" and view = "\<lambda>c. mem_r16 K c p" and spec = "angle_call t s" and s = c
      and call = "run_state (script_interp_step_angle_toward K p (scast t) (scast s))" and n = n]
    guest_core.step_angle_call [OF assms(1,2)] by (simp add: Let_def)


text \<open>C21. Turning terminates: with a step of 1 to 2047 units (of 4096 to the turn) repeated calls of
  \<open>stepAngleToward\<close> answer 1 after at most \<open>2047 / step\<close> more calls, from any angle, and leave the target.\<close>
theorem turning_terminates:
  fixes s t :: u16
  assumes "guest_core K" "in_ram p 2" "0 < unat s" "unat s < 2048"
  shows "let turn = run_state (script_interp_step_angle_toward K p (scast t) (scast s)) in
    \<exists>n \<le> 2047 div unat s. fst (turn (after turn n c)) = 1 \<and> mem_r16 K (after turn (Suc n) c) p = t \<and>
      (\<forall>m < n. fst (turn (after turn m c)) = 0)"
proof -
  let ?turn = "run_state (script_interp_step_angle_toward K p (scast t) (scast s))"
  let ?h = "mem_r16 K c p"
  have same: "mem_r16 K (after ?turn n c) p = after (angle_call t s) n ?h" for n
    by (rule angle_after [OF assms(1,2)])
  have call: "(fst (?turn d) \<noteq> 0) = fst (angle_call t s (mem_r16 K d p))" "fst (?turn d) \<in> {0, 1}" for d
    using guest_core.step_angle_call [OF assms(1,2), of t s d] by (simp_all add: Let_def)
  obtain n where n: "n \<le> angle_rank t s ?h" "fst (angle_call t s (after (angle_call t s) n ?h))"
    "\<forall>m < n. \<not> fst (angle_call t s (after (angle_call t s) m ?h))"
    using turning.answers [of s t ?h] assms(3,4) by auto
  have "n \<le> 2047 div unat s" using n(1) angle_rank_bound [OF assms(3,4)] by (rule order_trans)
  moreover have "fst (?turn (after ?turn n c)) = 1" using call [of "after ?turn n c"] n(2) same by auto
  moreover have "mem_r16 K (after ?turn (Suc n) c) p = t"
    using same [of "Suc n"] angle_call_target [OF n(2)] by (simp add: after_Suc del: after.simps(2))
  moreover have "fst (?turn (after ?turn m c)) = 0" if "m < n" for m
    using call(1) [of "after ?turn m c"] n(3) that same [of m] by simp
  ultimately show ?thesis unfolding Let_def by blast
qed


theorem turning_terminates_witness:
  "\<exists>n \<le> 7. fst (run_state (script_interp_step_angle_toward idle_core 0x80100056 (scast (0x800 :: u16)) (scast (0x100 :: u16)))
      (after (run_state (script_interp_step_angle_toward idle_core 0x80100056 (scast (0x800 :: u16)) (scast (0x100 :: u16)))) n zero_flat)) = 1"
  using turning_terminates [OF flat.guest_core_axioms, of "0x80100056" "0x100" "\<lambda>c a. c" "0x800" zero_flat]
  by (auto simp: in_ram_def Let_def simp del: flat_core_sel)

lemma cdiv_4096: "cdiv a 4096 = (if a < 0 then (a + 4095) div 4096 else a div 4096)"
proof (cases "a < 0")
  case True
  define q r where "q = a div 4096" and "r = a mod 4096"
  have a: "a = 4096 * q + r" and r: "0 \<le> r" "r < 4096" by (simp_all add: q_def r_def)
  have "(a + 4095) div 4096 = (if r = 0 then q else q + 1)"
    using r by (auto simp: a intro: int_div_pos_eq)
  moreover have "- a div 4096 = (if r = 0 then - q else - q - 1)"
    using zdiv_zminus1_eq_if [of 4096 a] by (simp add: q_def r_def)
  ultimately have "- (- a div 4096) = (a + 4095) div 4096" by simp
  then show ?thesis using True by (simp add: cdiv_def sgn_if)
qed (simp add: cdiv_def sgn_if)

text \<open>C33. The interpolation of a scripted move is exact: with \<open>remaining\<close> of the 4096 parts still to go it
  answers the target less that fraction of the way, rounded towards the target; it never leaves
  the segment between start and target, answers the start when the whole way remains and the
  target itself when nothing does.\<close>
theorem interpolate_q12_exact:
  assumes "0 \<le> sint remaining" and "sint remaining \<le> 4096" and "short_val delta" and "short_val goal"
    and "- 32768 \<le> sint goal - sint delta" and "sint goal - sint delta < 32768"
    and "pos = sint (result (interpolate_q12 K remaining delta goal) c)"
  shows "pos = sint goal - cdiv (sint remaining * sint delta) 4096 \<and>
    min (sint goal) (sint goal - sint delta) \<le> pos \<and> pos \<le> max (sint goal) (sint goal - sint delta) \<and>
    (sint remaining = 0 \<longrightarrow> pos = sint goal) \<and>
    (sint remaining = 4096 \<longrightarrow> pos = sint goal - sint delta)"
proof -
  let ?r = "sint remaining" and ?d = "sint delta" and ?g = "sint goal"
  let ?q = "cdiv (?r * ?d) 4096"
  have d: "- 32768 \<le> ?d" "?d < 32768" and g: "- 32768 \<le> ?g" "?g < 32768"
    using assms(3,4) by (simp_all add: short_val_def)
  have lo: "4096 * min 0 ?d \<le> ?r * ?d" and hi: "?r * ?d \<le> 4096 * max 0 ?d"
  proof -
    show "4096 * min 0 ?d \<le> ?r * ?d"
      using mult_right_mono_neg [of ?r 4096 ?d] mult_nonneg_nonneg [of ?r ?d] assms(1,2) by (cases "?d < 0") auto
    show "?r * ?d \<le> 4096 * max 0 ?d"
      using mult_right_mono [of ?r 4096 ?d] mult_nonneg_nonpos [of ?r ?d] assms(1,2) by (cases "?d < 0") auto
  qed
  have q: "min 0 ?d \<le> ?q" "?q \<le> max 0 ?d"
    using lo hi zdiv_mono1 [of "4096 * min 0 ?d" "?r * ?d" 4096] zdiv_mono1 [of "?r * ?d" "4096 * max 0 ?d" 4096]
      zdiv_mono1 [of "?r * ?d" "?r * ?d + 4095" 4096] zdiv_mono1 [of "?r * ?d + 4095" "4095" 4096]
    by (auto simp: cdiv_4096)
  have "4096 * (- 32768) \<le> 4096 * min 0 ?d" "4096 * max 0 ?d \<le> 4096 * 32768" using d by simp_all
  then have range: "- 134217728 \<le> ?r * ?d" "?r * ?d \<le> 134217728" using lo hi by linarith+
  have prod: "sint (remaining * delta) = ?r * ?d"
    using range by (intro sint_mult_small) simp_all
  define scaled where "scaled = (if remaining * delta <s 0 then remaining * delta + kQ12RoundUp else remaining * delta)"
  have "sint scaled = (if ?r * ?d < 0 then ?r * ?d + 4095 else ?r * ?d)"
    using range prod by (auto simp: scaled_def word_sless_alt kQ12RoundUp_def sint_add_small)
  then have part: "sint (signed_drop_bit 12 scaled) = ?q"
    by (simp add: sint_sar cdiv_4096)
  then have "short_val (signed_drop_bit 12 scaled)" using q d by (auto simp: short_val_def min_def max_def split: if_splits)
  then have part16: "as_s16 (signed_drop_bit 12 scaled) = signed_drop_bit 12 scaled" by (rule as_s16_short)
  have fits: "- 32768 \<le> ?g - ?q" "?g - ?q < 32768"
    using q g assms(5,6) by (auto simp: min_def max_def split: if_splits)
  then have "sint (goal - signed_drop_bit 12 scaled) = ?g - ?q"
    using part by (subst sint_sub_small) auto
  then have pos: "pos = ?g - ?q"
    using fits part16 as_s16_short [of "goal - signed_drop_bit 12 scaled"]
    by (simp add: assms(7) interpolate_q12_def Let_def scaled_def [symmetric] short_val_def)
  then show ?thesis using q by (auto simp: cdiv_4096 min_def max_def split: if_splits)
qed

theorem interpolate_q12_exact_witness:
  "sint (result (interpolate_q12 idle_core 1024 (- 10) 100) zero_flat) = 102"
  using interpolate_q12_exact [OF _ _ _ _ _ _ refl, of 1024 "- 10" 100 idle_core zero_flat]
  by (simp add: short_val_def cdiv_4096)

end
