(* ===== verification/Sequencer.thy ===== *)
theory Sequencer
  imports ObjectViews
begin

text \<open>
  The sequencer's records: tones, voice registers and channel flags.
\<close>

section \<open>Layout\<close>

definition kHardwareVoiceActive :: u32 where "kHardwareVoiceActive = 0x800AC3F4"
definition kKeyScanPitchTable :: u32 where "kKeyScanPitchTable = 0x801054D8"
definition kVolumeSnapshotScratch :: u32 where "kVolumeSnapshotScratch = 0x80105D0C"
definition kKeyScanMatch :: u32 where "kKeyScanMatch = 0x80105D10"

section \<open>\<open>game/audio/sequencer_channel_flags.cpp\<close>\<close>

definition sequencer_channel_pitch_select_dispatch :: "'c core_ops \<Rightarrow> ('c, unit) state"
    where
  "sequencer_channel_pitch_select_dispatch K = with_frame K 24 [(31, 16)] (do {
     r4_1 \<leftarrow> reg K 4;
     v2 \<leftarrow> sext16 K r4_1;
     setr K 4 v2;
     r5_3 \<leftarrow> reg K 5;
     v4 \<leftarrow> sext16 K r5_3;
     setr K 5 v4;
     _ \<leftarrow> dispatch_jal K 0x80091120 0x8009110C [];
     State_Monad.return ()
   })"

definition sequencer_channel_volume_snapshot :: "'c core_ops \<Rightarrow> ('c, unit) state" where
  "sequencer_channel_volume_snapshot K = do {
     combined \<leftarrow> reg K 4;
     outLPtr \<leftarrow> reg K 5;
     outRPtr \<leftarrow> reg K 6;
     let seqLow = combined AND 0xFF;
     seqBasePtr \<leftarrow> r32 K (kSeqPtrArray + shl seqLow 2);
     w16 K kVolumeSnapshotScratch combined;
     let chan = sar 8 (combined AND 0xFF00);
     v5 \<leftarrow> ch_stride K chan;
     v6 \<leftarrow> channel_record_vol_l K (seqBasePtr + v5);
     w16 K outLPtr v6;
     v7 \<leftarrow> channel_record_vol_r K (seqBasePtr + v5);
     w16 K outRPtr v7
   }"

definition sequencer_channel_key_register_merge :: "'c core_ops \<Rightarrow> ('c, unit) state"
    where
  "sequencer_channel_key_register_merge K = do {
     value1 \<leftarrow> r16 K kKeyScanMatch;
     let bitLo = (0 :: u32);
     let bitHi = (0 :: u32);
     let (bitLo, bitHi) = (if value1 < 16 then (shl 1 (unat (value1 AND 31)), bitHi) else (bitLo,
         shl 1 (unat ((value1 - 16) AND 31))));
     let tableOff = shl (value1 * 7) 3;
     let tableBase = 0x80100000 + tableOff;
     w8 K (tableBase + kPerVoiceConsumedFlag) 0;
     w16 K (tableBase + 21708) 0;
     w16 K (tableBase + 21704) 0;
     v2 \<leftarrow> r16 K kKonArmedMaskLo;
     let konLo = v2 OR bitLo;
     w16 K kKonArmedMaskLo konLo;
     v3 \<leftarrow> r16 K kActiveVoiceMaskLo;
     let activeLo = v3 AND (NOT konLo);
     w16 K kActiveVoiceMaskLo activeLo;
     setr K 3 (NOT konLo);
     v4 \<leftarrow> r16 K kKonArmedMaskHi;
     let konHi = v4 OR bitHi;
     w16 K kKonArmedMaskHi konHi;
     v5 \<leftarrow> r16 K kActiveVoiceMaskHi;
     let activeHi = v5 AND (NOT konHi);
     w16 K kActiveVoiceMaskHi activeHi
   }"

definition sequencer_channel_key_event_scan :: "'c core_ops \<Rightarrow> ('c, unit) state" where
  "sequencer_channel_key_event_scan K = do {
     v1 \<leftarrow> r8 K kSpuKeyScanCount;
     let count1 = as_s8 v1;
     with_frame K 32 [(16, 16), (31, 28), (18, 24), (17, 20)] (do {
       setr K 16 0;
       only_if (0 <s count1) (do {
         r4_2 \<leftarrow> reg K 4;
         target \<leftarrow> sext16 K r4_2;
         let i = (0 :: u32);
         i \<leftarrow> loop (\<lambda>i. do {
           v5 \<leftarrow> r8s K kSpuKeyScanCount;
           (if i <s v5 then do {
             let voiceBit = shl 1 (unat (i AND 31));
             v6 \<leftarrow> r32 K kHardwareVoiceActive;
             (if (v6 AND voiceBit) \<noteq> 0 then do {
               let i = i + 1;
               State_Monad.return (Inr i)
             }
              else do {
                let tableOff = shl (i * 7) 3;
                v7 \<leftarrow> r16 K (kKeyScanPitchTable + tableOff);
                let tableVal = as_s16 v7;
                (if tableVal \<noteq> target then do {
                  let i = i + 1;
                  State_Monad.return (Inr i)
                }
                 else do {
                   w16 K kKeyScanMatch i;
                   setr K 31 0x80095C0C;
                   sequencer_channel_key_register_merge K;
                   let i = i + 1;
                   State_Monad.return (Inr i)
                 })
              })
           }
            else State_Monad.return (Inl i))
         }) i;
         State_Monad.return ()
       })
     })
   }"

definition sequencer_channel_note_init :: "'c core_ops \<Rightarrow> ('c, unit) state" where
  "sequencer_channel_note_init K = with_frame K 24 [(31, 20), (16, 16)] (do {
     r5_1 \<leftarrow> reg K 5;
     chan \<leftarrow> sext16 K r5_1;
     r4_3 \<leftarrow> reg K 4;
     v4 \<leftarrow> seq_ptr_slot K r4_3;
     v5 \<leftarrow> r32 K v4;
     v6 \<leftarrow> ch_stride K chan;
     setr K 16 (v5 + v6);
     channel_record_clear_flag_bits K (v5 + v6) 1;
     channel_record_clear_flag_bits K (v5 + v6) 2;
     channel_record_clear_flag_bits K (v5 + v6) 8;
     channel_record_clear_flag_bits K (v5 + v6) 1025;
     r4_7 \<leftarrow> reg K 4;
     r5_8 \<leftarrow> reg K 5;
     combined \<leftarrow> sext16 K (r4_7 OR (shl r5_8 8));
     v10 \<leftarrow> channel_record_flags K (v5 + v6);
     channel_record_set_flags K (v5 + v6) (v10 OR 4);
     setr K 4 combined;
     setr K 31 0x80091A38;
     sequencer_channel_key_event_scan K;
     setr K 31 0x80091A40;
     call_guest K 0x800931A0;
     f132 \<leftarrow> r32 K (v5 + v6 + 132);
     f140 \<leftarrow> r32 K (v5 + v6 + 140);
     f86 \<leftarrow> r16 K (v5 + v6 + 86);
     f4 \<leftarrow> r32 K (v5 + v6 + 4);
     channel_record_set_busy K (v5 + v6) 0;
     w32 K (v5 + v6 + 136) 0;
     w8 K (v5 + v6 + 28) 0;
     w8 K (v5 + v6 + 24) 0;
     w8 K (v5 + v6 + 25) 0;
     w8 K (v5 + v6 + 30) 0;
     w8 K (v5 + v6 + 26) 0;
     w8 K (v5 + v6 + 27) 0;
     w8 K (v5 + v6 + 31) 0;
     w8 K (v5 + v6 + 23) 0;
     w8 K (v5 + v6 + 33) 0;
     w8 K (v5 + v6 + 28) 0;
     w8 K (v5 + v6 + 29) 0;
     w8 K (v5 + v6 + 21) 0;
     w8 K (v5 + v6 + 22) 0;
     w32 K (v5 + v6 + 144) f132;
     w32 K (v5 + v6 + 148) f140;
     w16 K (v5 + v6 + 84) f86;
     w32 K (v5 + v6 + 0) f4;
     w32 K (v5 + v6 + 8) f4;
     for_each (upto_u32 16) (\<lambda>i. do {
       w8 K (v5 + v6 + 55 + i) i;
       w8 K (v5 + v6 + 39 + i) 64;
       w16 K (v5 + v6 + 96 + i * 2) 127
     });
     v15 \<leftarrow> channel_record_snapshot_target_l_ptr K (v5 + v6);
     w16 K v15 127;
     v16 \<leftarrow> channel_record_snapshot_target_r_ptr K (v5 + v6);
     w16 K v16 127
   })"

section \<open>\<open>game/audio/sequencer_tone_records.cpp\<close>\<close>

definition sequencer_channel_stream_accumulate :: "'c core_ops \<Rightarrow> ('c, unit) state"
    where
  "sequencer_channel_stream_accumulate K = loop (\<lambda>pc1. (if pc1 = ''start'' then do {
     r4_1 \<leftarrow> reg K 4;
     setr K 4 (shl r4_1 16);
     r4_2 \<leftarrow> reg K 4;
     setr K 4 (sar 14 r4_2);
     r5_3 \<leftarrow> reg K 5;
     setr K 5 (shl r5_3 16);
     r5_4 \<leftarrow> reg K 5;
     setr K 5 (sar 16 r5_4);
     r5_5 \<leftarrow> reg K 5;
     setr K 2 (shl r5_5 1);
     r2_6 \<leftarrow> reg K 2;
     setr K 2 (r2_6 + r5_5);
     r2_7 \<leftarrow> reg K 2;
     setr K 2 (shl r2_7 2);
     r2_8 \<leftarrow> reg K 2;
     setr K 2 (r2_8 - r5_5);
     setr K 3 (shl 32784 16);
     r3_9 \<leftarrow> reg K 3;
     r4_10 \<leftarrow> reg K 4;
     setr K 3 (r3_9 + r4_10);
     r3_11 \<leftarrow> reg K 3;
     v12 \<leftarrow> r32 K (r3_11 + 19504);
     setr K 3 v12;
     r2_13 \<leftarrow> reg K 2;
     setr K 2 (shl r2_13 4);
     r3_14 \<leftarrow> reg K 3;
     r2_15 \<leftarrow> reg K 2;
     setr K 5 (r3_14 + r2_15);
     r5_16 \<leftarrow> reg K 5;
     v17 \<leftarrow> r32 K (r5_16 + 0);
     setr K 2 v17;
     r2_18 \<leftarrow> reg K 2;
     v19 \<leftarrow> r8 K (r2_18 + 0);
     setr K 4 v19;
     setr K 2 (r2_18 + 1);
     r2_20 \<leftarrow> reg K 2;
     w32 K (r5_16 + 0) r2_20;
     r4_21 \<leftarrow> reg K 4;
     r0_22 \<leftarrow> reg K 0;
     let t0 = (of_bool (r4_21 = r0_22) :: u32);
     setr K 2 (r0_22 + r0_22);
     (if t0 \<noteq> 0 then State_Monad.return (Inr ''L_800901FC'')
      else do {
        setr K 2 (r4_21 AND 128);
        r2_23 \<leftarrow> reg K 2;
        let t0 = (of_bool (r2_23 = r0_22) :: u32);
        setr K 2 (shl r4_21 2);
        (if t0 \<noteq> 0 then State_Monad.return (Inr ''L_800901E8'')
         else do { setr K 4 (r4_21 AND 127); State_Monad.return (Inr ''L_800901C0'') })
      })
   }
    else if pc1 = ''L_800901C0'' then do {
      r5_24 \<leftarrow> reg K 5;
      v25 \<leftarrow> r32 K (r5_24 + 0);
      setr K 2 v25;
      r4_26 \<leftarrow> reg K 4;
      setr K 4 (shl r4_26 7);
      r2_27 \<leftarrow> reg K 2;
      v28 \<leftarrow> r8 K (r2_27 + 0);
      setr K 3 v28;
      setr K 2 (r2_27 + 1);
      r2_29 \<leftarrow> reg K 2;
      w32 K (r5_24 + 0) r2_29;
      r3_30 \<leftarrow> reg K 3;
      setr K 2 (r3_30 AND 127);
      setr K 3 (r3_30 AND 128);
      r3_31 \<leftarrow> reg K 3;
      r0_32 \<leftarrow> reg K 0;
      let t0 = (of_bool (r3_31 \<noteq> r0_32) :: u32);
      r4_33 \<leftarrow> reg K 4;
      r2_34 \<leftarrow> reg K 2;
      setr K 4 (r4_33 + r2_34);
      (if t0 \<noteq> 0 then State_Monad.return (Inr ''L_800901C0'')
       else do {
         r4_35 \<leftarrow> reg K 4;
         setr K 2 (shl r4_35 2);
         State_Monad.return (Inr ''L_800901E8'')
       })
    }
     else if pc1 = ''L_800901E8'' then do {
       r2_36 \<leftarrow> reg K 2;
       r4_37 \<leftarrow> reg K 4;
       setr K 2 (r2_36 + r4_37);
       r5_38 \<leftarrow> reg K 5;
       v39 \<leftarrow> r32 K (r5_38 + 136);
       setr K 3 v39;
       r2_40 \<leftarrow> reg K 2;
       setr K 2 (shl r2_40 1);
       r3_41 \<leftarrow> reg K 3;
       r2_42 \<leftarrow> reg K 2;
       setr K 3 (r3_41 + r2_42);
       r3_43 \<leftarrow> reg K 3;
       w32 K (r5_38 + 136) r3_43;
       State_Monad.return (Inr ''L_800901FC'')
     }
      else State_Monad.return (Inl ()))) ''start''"

section \<open>\<open>game/audio/sequencer_voice_write.cpp\<close>\<close>

definition sequencer_channel_voice_select_prep :: "'c core_ops \<Rightarrow> ('c, unit) state"
    where
  "sequencer_channel_voice_select_prep K = do {
     let L_80096368 = (State_Monad.return ());
     let L_80096300 = L_80096368;
     let L_80096308 = (do {
       r2_1 \<leftarrow> reg K 2;
       setr K 3 (0x80100000 + r2_1);
       r3_2 \<leftarrow> reg K 3;
       v3 \<leftarrow> r32 K (r3_2 + 23632);
       setr K 3 v3;
       setr K 5 (0x80100000 + r2_1);
       r5_4 \<leftarrow> reg K 5;
       v5 \<leftarrow> r32 K (r5_4 + 23568);
       setr K 5 v5;
       setr K 1 (0x80100000 + r2_1);
       r1_6 \<leftarrow> reg K 1;
       v7 \<leftarrow> r32 K (r1_6 + 23704);
       setr K 2 v7;
       setr K 4 (0x80100000 + 23801);
       r4_8 \<leftarrow> reg K 4;
       r7_9 \<leftarrow> reg K 7;
       w8 K (r4_8 + 0) r7_9;
       r8_10 \<leftarrow> reg K 8;
       w8 K (r4_8 + 5) r8_10;
       r2_11 \<leftarrow> reg K 2;
       w32 K (0x80100000 + 23784) r2_11;
       r6_12 \<leftarrow> reg K 6;
       setr K 2 (shl r6_12 4);
       r2_13 \<leftarrow> reg K 2;
       r5_14 \<leftarrow> reg K 5;
       setr K 2 (r2_13 + r5_14);
       r3_15 \<leftarrow> reg K 3;
       w32 K (0x80100000 + 23780) r3_15;
       w32 K (0x80100000 + 23772) r5_14;
       r2_16 \<leftarrow> reg K 2;
       v17 \<leftarrow> r8 K (r2_16 + 8);
       setr K 3 v17;
       r0_18 \<leftarrow> reg K 0;
       setr K 2 (r0_18 + r0_18);
       r3_19 \<leftarrow> reg K 3;
       w8 K (r4_8 + 6) r3_19;
       L_80096300
     });
     r4_20 \<leftarrow> reg K 4;
     r0_21 \<leftarrow> reg K 0;
     setr K 7 (r4_20 + r0_21);
     r7_22 \<leftarrow> reg K 7;
     setr K 2 (r7_22 AND 65535);
     r2_23 \<leftarrow> reg K 2;
     setr K 2 (of_bool (r2_23 < 16) :: u32);
     r2_24 \<leftarrow> reg K 2;
     let t0 = (of_bool (r2_24 = r0_21) :: u32);
     r5_25 \<leftarrow> reg K 5;
     setr K 8 (r5_25 + r0_21);
     (if t0 \<noteq> 0 then L_80096300
      else do {
        setr K 2 (shl r4_20 16);
        r2_26 \<leftarrow> reg K 2;
        setr K 4 (sar 16 r2_26);
        r4_27 \<leftarrow> reg K 4;
        setr K 3 (0x80100000 + r4_27);
        r3_28 \<leftarrow> reg K 3;
        v29 \<leftarrow> r8 K (r3_28 + 23832);
        setr K 3 v29;
        setr K 2 (r0_21 + 1);
        r3_30 \<leftarrow> reg K 3;
        r2_31 \<leftarrow> reg K 2;
        let t0 = (of_bool (r3_30 \<noteq> r2_31) :: u32);
        setr K 2 (-1);
        (if t0 \<noteq> 0 then L_80096368
         else do {
           setr K 3 (shl r5_25 16);
           setr K 2 0x80100000;
           r2_32 \<leftarrow> reg K 2;
           v33 \<leftarrow> r16 K (r2_32 + 23770);
           setr K 2 (as_s16 v33);
           r3_34 \<leftarrow> reg K 3;
           setr K 6 (sar 16 r3_34);
           r6_35 \<leftarrow> reg K 6;
           r2_36 \<leftarrow> reg K 2;
           setr K 2 (of_bool (r6_35 <s r2_36) :: u32);
           r2_37 \<leftarrow> reg K 2;
           let t0 = (of_bool (r2_37 \<noteq> r0_21) :: u32);
           setr K 2 (shl r4_27 2);
           (if t0 \<noteq> 0 then L_80096308 else do { setr K 2 (-1); L_80096368 })
         })
      })
   }"

section \<open>\<open>game/audio/sequencer_tone_records.cpp\<close>\<close>

definition sequencer_channel_tone_record_copy :: "'c core_ops \<Rightarrow> ('c, unit) state"
    where
  "sequencer_channel_tone_record_copy K = with_frame K 32 [(16, 16), (17, 20), (31, 24)] (do {
     let L_80092400 = (State_Monad.return ());
     let L_80092348 = (do {
       r5_1 \<leftarrow> reg K 5;
       setr K 16 (shl r5_1 16);
       r16_2 \<leftarrow> reg K 16;
       setr K 16 (sar 16 r16_2);
       setr K 31 0x80092358;
       r16_3 \<leftarrow> reg K 16;
       r0_4 \<leftarrow> reg K 0;
       setr K 5 (r16_3 + r0_4);
       sequencer_channel_voice_select_prep K;
       setr K 2 (shl 32784 16);
       r2_5 \<leftarrow> reg K 2;
       v6 \<leftarrow> r32 K (r2_5 + 23772);
       setr K 2 v6;
       r16_7 \<leftarrow> reg K 16;
       setr K 16 (shl r16_7 4);
       r16_8 \<leftarrow> reg K 16;
       r2_9 \<leftarrow> reg K 2;
       setr K 2 (r16_8 + r2_9);
       r2_10 \<leftarrow> reg K 2;
       v11 \<leftarrow> r8 K (r2_10 + 0);
       setr K 2 v11;
       r17_12 \<leftarrow> reg K 17;
       r2_13 \<leftarrow> reg K 2;
       w8 K (r17_12 + 0) r2_13;
       setr K 2 (shl 32784 16);
       r2_14 \<leftarrow> reg K 2;
       v15 \<leftarrow> r32 K (r2_14 + 23772);
       setr K 2 v15;
       r2_16 \<leftarrow> reg K 2;
       setr K 2 (r16_8 + r2_16);
       r2_17 \<leftarrow> reg K 2;
       v18 \<leftarrow> r8 K (r2_17 + 1);
       setr K 2 v18;
       r2_19 \<leftarrow> reg K 2;
       w8 K (r17_12 + 1) r2_19;
       setr K 2 (shl 32784 16);
       r2_20 \<leftarrow> reg K 2;
       v21 \<leftarrow> r32 K (r2_20 + 23772);
       setr K 2 v21;
       r2_22 \<leftarrow> reg K 2;
       setr K 2 (r16_8 + r2_22);
       r2_23 \<leftarrow> reg K 2;
       v24 \<leftarrow> r8 K (r2_23 + 2);
       setr K 2 v24;
       r2_25 \<leftarrow> reg K 2;
       w8 K (r17_12 + 2) r2_25;
       setr K 2 (shl 32784 16);
       r2_26 \<leftarrow> reg K 2;
       v27 \<leftarrow> r32 K (r2_26 + 23772);
       setr K 2 v27;
       r2_28 \<leftarrow> reg K 2;
       setr K 2 (r16_8 + r2_28);
       r2_29 \<leftarrow> reg K 2;
       v30 \<leftarrow> r8 K (r2_29 + 3);
       setr K 2 v30;
       r2_31 \<leftarrow> reg K 2;
       w8 K (r17_12 + 3) r2_31;
       setr K 2 (shl 32784 16);
       r2_32 \<leftarrow> reg K 2;
       v33 \<leftarrow> r32 K (r2_32 + 23772);
       setr K 2 v33;
       r2_34 \<leftarrow> reg K 2;
       setr K 2 (r16_8 + r2_34);
       r2_35 \<leftarrow> reg K 2;
       v36 \<leftarrow> r8 K (r2_35 + 4);
       setr K 2 v36;
       r2_37 \<leftarrow> reg K 2;
       w8 K (r17_12 + 4) r2_37;
       setr K 2 (shl 32784 16);
       r2_38 \<leftarrow> reg K 2;
       v39 \<leftarrow> r32 K (r2_38 + 23772);
       setr K 2 v39;
       r2_40 \<leftarrow> reg K 2;
       setr K 16 (r16_8 + r2_40);
       r16_41 \<leftarrow> reg K 16;
       v42 \<leftarrow> r16 K (r16_41 + 6);
       setr K 3 v42;
       r0_43 \<leftarrow> reg K 0;
       setr K 2 (r0_43 + r0_43);
       r3_44 \<leftarrow> reg K 3;
       w16 K (r17_12 + 6) r3_44;
       L_80092400
     });
     r4_45 \<leftarrow> reg K 4;
     setr K 4 (shl r4_45 16);
     r4_46 \<leftarrow> reg K 4;
     setr K 4 (sar 16 r4_46);
     setr K 3 (shl 32784 16);
     r3_47 \<leftarrow> reg K 3;
     r4_48 \<leftarrow> reg K 4;
     setr K 3 (r3_47 + r4_48);
     r3_49 \<leftarrow> reg K 3;
     v50 \<leftarrow> r8 K (r3_49 + 23832);
     setr K 3 v50;
     r0_51 \<leftarrow> reg K 0;
     setr K 2 (r0_51 + 1);
     r3_52 \<leftarrow> reg K 3;
     r2_53 \<leftarrow> reg K 2;
     let t0 = (of_bool (r3_52 = r2_53) :: u32);
     r6_54 \<leftarrow> reg K 6;
     setr K 17 (r6_54 + r0_51);
     (if t0 \<noteq> 0 then L_80092348 else do { setr K 2 (r0_51 + (-1)); L_80092400 })
   })"

definition sequencer_channel_tone_record_copy_wide :: "'c core_ops \<Rightarrow> ('c, unit) state"
    where
  "sequencer_channel_tone_record_copy_wide K = with_frame K 32 [(16, 16), (17, 20), (31, 24)] (do
      {
     let L_80092644 = (State_Monad.return ());
     let L_8009245C = (do {
       r5_1 \<leftarrow> reg K 5;
       setr K 5 (shl r5_1 16);
       setr K 31 0x80092468;
       r5_2 \<leftarrow> reg K 5;
       setr K 5 (sar 16 r5_2);
       sequencer_channel_voice_select_prep K;
       setr K 3 (shl 32784 16);
       r3_3 \<leftarrow> reg K 3;
       v4 \<leftarrow> r8s K (r3_3 + 23807);
       setr K 3 v4;
       setr K 2 (shl 32784 16);
       r2_5 \<leftarrow> reg K 2;
       v6 \<leftarrow> r32 K (r2_5 + 23784);
       setr K 2 v6;
       r3_7 \<leftarrow> reg K 3;
       setr K 3 (shl r3_7 4);
       r17_8 \<leftarrow> reg K 17;
       r3_9 \<leftarrow> reg K 3;
       setr K 3 (r17_8 + r3_9);
       r3_10 \<leftarrow> reg K 3;
       setr K 3 (shl r3_10 16);
       r3_11 \<leftarrow> reg K 3;
       setr K 3 (sar 11 r3_11);
       r3_12 \<leftarrow> reg K 3;
       r2_13 \<leftarrow> reg K 2;
       setr K 2 (r3_12 + r2_13);
       r2_14 \<leftarrow> reg K 2;
       v15 \<leftarrow> r8 K (r2_14 + 0);
       setr K 2 v15;
       r16_16 \<leftarrow> reg K 16;
       r2_17 \<leftarrow> reg K 2;
       w8 K (r16_16 + 0) r2_17;
       setr K 2 (shl 32784 16);
       r2_18 \<leftarrow> reg K 2;
       v19 \<leftarrow> r32 K (r2_18 + 23784);
       setr K 2 v19;
       r2_20 \<leftarrow> reg K 2;
       setr K 2 (r3_12 + r2_20);
       r2_21 \<leftarrow> reg K 2;
       v22 \<leftarrow> r8 K (r2_21 + 1);
       setr K 2 v22;
       r2_23 \<leftarrow> reg K 2;
       w8 K (r16_16 + 1) r2_23;
       setr K 2 (shl 32784 16);
       r2_24 \<leftarrow> reg K 2;
       v25 \<leftarrow> r32 K (r2_24 + 23784);
       setr K 2 v25;
       r2_26 \<leftarrow> reg K 2;
       setr K 2 (r3_12 + r2_26);
       r2_27 \<leftarrow> reg K 2;
       v28 \<leftarrow> r8 K (r2_27 + 2);
       setr K 2 v28;
       r2_29 \<leftarrow> reg K 2;
       w8 K (r16_16 + 2) r2_29;
       setr K 2 (shl 32784 16);
       r2_30 \<leftarrow> reg K 2;
       v31 \<leftarrow> r32 K (r2_30 + 23784);
       setr K 2 v31;
       r2_32 \<leftarrow> reg K 2;
       setr K 2 (r3_12 + r2_32);
       r2_33 \<leftarrow> reg K 2;
       v34 \<leftarrow> r8 K (r2_33 + 3);
       setr K 2 v34;
       r2_35 \<leftarrow> reg K 2;
       w8 K (r16_16 + 3) r2_35;
       setr K 2 (shl 32784 16);
       r2_36 \<leftarrow> reg K 2;
       v37 \<leftarrow> r32 K (r2_36 + 23784);
       setr K 2 v37;
       r2_38 \<leftarrow> reg K 2;
       setr K 2 (r3_12 + r2_38);
       r2_39 \<leftarrow> reg K 2;
       v40 \<leftarrow> r8 K (r2_39 + 4);
       setr K 2 v40;
       r2_41 \<leftarrow> reg K 2;
       w8 K (r16_16 + 4) r2_41;
       setr K 2 (shl 32784 16);
       r2_42 \<leftarrow> reg K 2;
       v43 \<leftarrow> r32 K (r2_42 + 23784);
       setr K 2 v43;
       r2_44 \<leftarrow> reg K 2;
       setr K 2 (r3_12 + r2_44);
       r2_45 \<leftarrow> reg K 2;
       v46 \<leftarrow> r8 K (r2_45 + 5);
       setr K 2 v46;
       r2_47 \<leftarrow> reg K 2;
       w8 K (r16_16 + 5) r2_47;
       setr K 2 (shl 32784 16);
       r2_48 \<leftarrow> reg K 2;
       v49 \<leftarrow> r32 K (r2_48 + 23784);
       setr K 2 v49;
       r2_50 \<leftarrow> reg K 2;
       setr K 2 (r3_12 + r2_50);
       r2_51 \<leftarrow> reg K 2;
       v52 \<leftarrow> r8 K (r2_51 + 7);
       setr K 2 v52;
       r2_53 \<leftarrow> reg K 2;
       w8 K (r16_16 + 7) r2_53;
       setr K 2 (shl 32784 16);
       r2_54 \<leftarrow> reg K 2;
       v55 \<leftarrow> r32 K (r2_54 + 23784);
       setr K 2 v55;
       r2_56 \<leftarrow> reg K 2;
       setr K 2 (r3_12 + r2_56);
       r2_57 \<leftarrow> reg K 2;
       v58 \<leftarrow> r8 K (r2_57 + 6);
       setr K 2 v58;
       r2_59 \<leftarrow> reg K 2;
       w8 K (r16_16 + 6) r2_59;
       setr K 2 (shl 32784 16);
       r2_60 \<leftarrow> reg K 2;
       v61 \<leftarrow> r32 K (r2_60 + 23784);
       setr K 2 v61;
       r2_62 \<leftarrow> reg K 2;
       setr K 2 (r3_12 + r2_62);
       r2_63 \<leftarrow> reg K 2;
       v64 \<leftarrow> r8 K (r2_63 + 8);
       setr K 2 v64;
       r2_65 \<leftarrow> reg K 2;
       w8 K (r16_16 + 8) r2_65;
       setr K 2 (shl 32784 16);
       r2_66 \<leftarrow> reg K 2;
       v67 \<leftarrow> r32 K (r2_66 + 23784);
       setr K 2 v67;
       r2_68 \<leftarrow> reg K 2;
       setr K 2 (r3_12 + r2_68);
       r2_69 \<leftarrow> reg K 2;
       v70 \<leftarrow> r8 K (r2_69 + 9);
       setr K 2 v70;
       r2_71 \<leftarrow> reg K 2;
       w8 K (r16_16 + 9) r2_71;
       setr K 2 (shl 32784 16);
       r2_72 \<leftarrow> reg K 2;
       v73 \<leftarrow> r32 K (r2_72 + 23784);
       setr K 2 v73;
       r2_74 \<leftarrow> reg K 2;
       setr K 2 (r3_12 + r2_74);
       r2_75 \<leftarrow> reg K 2;
       v76 \<leftarrow> r8 K (r2_75 + 10);
       setr K 2 v76;
       r2_77 \<leftarrow> reg K 2;
       w8 K (r16_16 + 10) r2_77;
       setr K 2 (shl 32784 16);
       r2_78 \<leftarrow> reg K 2;
       v79 \<leftarrow> r32 K (r2_78 + 23784);
       setr K 2 v79;
       r2_80 \<leftarrow> reg K 2;
       setr K 2 (r3_12 + r2_80);
       r2_81 \<leftarrow> reg K 2;
       v82 \<leftarrow> r8 K (r2_81 + 11);
       setr K 2 v82;
       r2_83 \<leftarrow> reg K 2;
       w8 K (r16_16 + 11) r2_83;
       setr K 2 (shl 32784 16);
       r2_84 \<leftarrow> reg K 2;
       v85 \<leftarrow> r32 K (r2_84 + 23784);
       setr K 2 v85;
       r2_86 \<leftarrow> reg K 2;
       setr K 2 (r3_12 + r2_86);
       r2_87 \<leftarrow> reg K 2;
       v88 \<leftarrow> r8 K (r2_87 + 12);
       setr K 2 v88;
       r2_89 \<leftarrow> reg K 2;
       w8 K (r16_16 + 12) r2_89;
       setr K 2 (shl 32784 16);
       r2_90 \<leftarrow> reg K 2;
       v91 \<leftarrow> r32 K (r2_90 + 23784);
       setr K 2 v91;
       r2_92 \<leftarrow> reg K 2;
       setr K 2 (r3_12 + r2_92);
       r2_93 \<leftarrow> reg K 2;
       v94 \<leftarrow> r8 K (r2_93 + 13);
       setr K 2 v94;
       r2_95 \<leftarrow> reg K 2;
       w8 K (r16_16 + 13) r2_95;
       setr K 2 (shl 32784 16);
       r2_96 \<leftarrow> reg K 2;
       v97 \<leftarrow> r32 K (r2_96 + 23784);
       setr K 2 v97;
       r2_98 \<leftarrow> reg K 2;
       setr K 3 (r3_12 + r2_98);
       r3_99 \<leftarrow> reg K 3;
       v100 \<leftarrow> r16 K (r3_99 + 16);
       setr K 2 v100;
       r2_101 \<leftarrow> reg K 2;
       w16 K (r16_16 + 16) r2_101;
       v102 \<leftarrow> r16 K (r3_99 + 18);
       setr K 2 v102;
       r2_103 \<leftarrow> reg K 2;
       w16 K (r16_16 + 18) r2_103;
       v104 \<leftarrow> r16 K (r3_99 + 20);
       setr K 2 v104;
       r2_105 \<leftarrow> reg K 2;
       w16 K (r16_16 + 20) r2_105;
       v106 \<leftarrow> r16 K (r3_99 + 22);
       setr K 3 v106;
       r0_107 \<leftarrow> reg K 0;
       setr K 2 (r0_107 + r0_107);
       r3_108 \<leftarrow> reg K 3;
       w16 K (r16_16 + 22) r3_108;
       L_80092644
     });
     r6_109 \<leftarrow> reg K 6;
     r0_110 \<leftarrow> reg K 0;
     setr K 17 (r6_109 + r0_110);
     r4_111 \<leftarrow> reg K 4;
     setr K 4 (shl r4_111 16);
     r4_112 \<leftarrow> reg K 4;
     setr K 4 (sar 16 r4_112);
     setr K 3 (shl 32784 16);
     r3_113 \<leftarrow> reg K 3;
     r4_114 \<leftarrow> reg K 4;
     setr K 3 (r3_113 + r4_114);
     r3_115 \<leftarrow> reg K 3;
     v116 \<leftarrow> r8 K (r3_115 + 23832);
     setr K 3 v116;
     setr K 2 (r0_110 + 1);
     r3_117 \<leftarrow> reg K 3;
     r2_118 \<leftarrow> reg K 2;
     let t0 = (of_bool (r3_117 = r2_118) :: u32);
     r7_119 \<leftarrow> reg K 7;
     setr K 16 (r7_119 + r0_110);
     (if t0 \<noteq> 0 then L_8009245C else do { setr K 2 (r0_110 + (-1)); L_80092644 })
   })"

definition sequencer_channel_note_period_compute :: "'c core_ops \<Rightarrow> ('c, unit) state"
    where
  "sequencer_channel_note_period_compute K = do {
     let L_8009458C = (do { r5_1 \<leftarrow> reg K 5; setr K 2 (r5_1 AND 65535) });
     let L_80094574 = (do {
       r0_2 \<leftarrow> reg K 0;
       r2_3 \<leftarrow> reg K 2;
       setr K 4 (r0_2 - r2_3);
       r4_4 \<leftarrow> reg K 4;
       setr K 3 (r4_4 + (-1));
       setr K 2 (r0_2 + 1);
       r2_5 \<leftarrow> reg K 2;
       r3_6 \<leftarrow> reg K 3;
       setr K 2 (shl r2_5 (unat (r3_6 AND 31)));
       r5_7 \<leftarrow> reg K 5;
       r2_8 \<leftarrow> reg K 2;
       setr K 5 (r5_7 + r2_8);
       r5_9 \<leftarrow> reg K 5;
       setr K 5 (shr r5_9 (unat (r4_4 AND 31)));
       L_8009458C
     });
     let L_80094528 = (do {
       r5_10 \<leftarrow> reg K 5;
       setr K 3 (shl r5_10 16);
       r3_11 \<leftarrow> reg K 3;
       setr K 3 (sar 15 r3_11);
       r8_12 \<leftarrow> reg K 8;
       setr K 2 (shl r8_12 16);
       r2_13 \<leftarrow> reg K 2;
       setr K 2 (sar 15 r2_13);
       setr K 1 (shl 32779 16);
       r1_14 \<leftarrow> reg K 1;
       r3_15 \<leftarrow> reg K 3;
       setr K 1 (r1_14 + r3_15);
       r1_16 \<leftarrow> reg K 1;
       v17 \<leftarrow> r16 K (r1_16 + (-15260));
       setr K 3 v17;
       setr K 1 (shl 32779 16);
       r1_18 \<leftarrow> reg K 1;
       r2_19 \<leftarrow> reg K 2;
       setr K 1 (r1_18 + r2_19);
       r1_20 \<leftarrow> reg K 1;
       v21 \<leftarrow> r16 K (r1_20 + (-15236));
       setr K 2 v21;
       r3_22 \<leftarrow> reg K 3;
       r2_23 \<leftarrow> reg K 2;
       let p0 = (scast r3_22 :: 64 word) * (scast r2_23 :: 64 word);
       setr K 33 (ucast p0 :: u32);
       setr K 32 (ucast (drop_bit 32 p0) :: u32);
       r6_24 \<leftarrow> reg K 6;
       setr K 2 (shl r6_24 16);
       r2_25 \<leftarrow> reg K 2;
       setr K 2 (sar 16 r2_25);
       r33_26 \<leftarrow> reg K 33;
       setr K 9 r33_26;
       r2_27 \<leftarrow> reg K 2;
       let t0 = (of_bool (r2_27 <s 0) :: u32);
       r9_28 \<leftarrow> reg K 9;
       setr K 5 (sar 16 r9_28);
       (if t0 \<noteq> 0 then L_80094574
        else do { r0_29 \<leftarrow> reg K 0; setr K 5 (r0_29 + 16383); L_8009458C })
     });
     let L_800944DC = (do {
       setr K 3 (shl 10922 16);
       r3_30 \<leftarrow> reg K 3;
       setr K 3 (r3_30 OR 43691);
       r5_31 \<leftarrow> reg K 5;
       setr K 2 (shl r5_31 16);
       r2_32 \<leftarrow> reg K 2;
       setr K 4 (sar 16 r2_32);
       r4_33 \<leftarrow> reg K 4;
       r3_34 \<leftarrow> reg K 3;
       let p0 = (scast r4_33 :: 64 word) * (scast r3_34 :: 64 word);
       setr K 33 (ucast p0 :: u32);
       setr K 32 (ucast (drop_bit 32 p0) :: u32);
       setr K 2 (sar 31 r2_32);
       r32_35 \<leftarrow> reg K 32;
       setr K 9 r32_35;
       r9_36 \<leftarrow> reg K 9;
       setr K 3 (sar 1 r9_36);
       r3_37 \<leftarrow> reg K 3;
       r2_38 \<leftarrow> reg K 2;
       setr K 3 (r3_37 - r2_38);
       r3_39 \<leftarrow> reg K 3;
       setr K 6 (r3_39 + (-2));
       setr K 2 (shl r3_39 1);
       r2_40 \<leftarrow> reg K 2;
       setr K 2 (r2_40 + r3_39);
       r2_41 \<leftarrow> reg K 2;
       setr K 2 (shl r2_41 2);
       r2_42 \<leftarrow> reg K 2;
       setr K 4 (r4_33 - r2_42);
       r4_43 \<leftarrow> reg K 4;
       setr K 2 (shl r4_43 16);
       r2_44 \<leftarrow> reg K 2;
       let t0 = (of_bool (0 \<le>s r2_44) :: u32);
       r0_45 \<leftarrow> reg K 0;
       setr K 5 (r4_43 + r0_45);
       (if t0 \<noteq> 0 then L_80094528
        else do { setr K 5 (r4_43 + 12); setr K 6 (r3_39 + (-3)); L_80094528 })
     });
     let L_800944D4 = (do {
       r2_46 \<leftarrow> reg K 2;
       setr K 2 (sar 7 r2_46);
       r4_47 \<leftarrow> reg K 4;
       r2_48 \<leftarrow> reg K 2;
       setr K 5 (r4_47 + r2_48);
       L_800944DC
     });
     let L_80094490 = (do {
       r3_49 \<leftarrow> reg K 3;
       setr K 3 (sar 7 r3_49);
       r4_50 \<leftarrow> reg K 4;
       r3_51 \<leftarrow> reg K 3;
       setr K 4 (r4_50 + r3_51);
       r6_52 \<leftarrow> reg K 6;
       setr K 2 (r6_52 AND 255);
       r4_53 \<leftarrow> reg K 4;
       r2_54 \<leftarrow> reg K 2;
       setr K 4 (r4_53 - r2_54);
       r4_55 \<leftarrow> reg K 4;
       r0_56 \<leftarrow> reg K 0;
       setr K 5 (r4_55 + r0_56);
       setr K 3 (shl r3_51 7);
       r7_57 \<leftarrow> reg K 7;
       r3_58 \<leftarrow> reg K 3;
       setr K 7 (r7_57 - r3_58);
       r7_59 \<leftarrow> reg K 7;
       setr K 2 (shl r7_59 16);
       r2_60 \<leftarrow> reg K 2;
       let t0 = (of_bool (0 \<le>s r2_60) :: u32);
       setr K 8 (r7_59 + r0_56);
       (if t0 \<noteq> 0 then L_800944DC
        else do {
          setr K 2 (r7_59 + 128);
          r2_61 \<leftarrow> reg K 2;
          setr K 8 (r2_61 + r0_56);
          setr K 2 (shl r2_61 16);
          r2_62 \<leftarrow> reg K 2;
          setr K 2 (sar 16 r2_62);
          r2_63 \<leftarrow> reg K 2;
          let t0 = (of_bool (0 \<le>s r2_63) :: u32);
          setr K 4 (r4_55 + (-1));
          (if t0 \<noteq> 0 then L_800944D4 else do { setr K 2 (r2_63 + 127); L_800944D4 })
        })
     });
     r7_64 \<leftarrow> reg K 7;
     setr K 7 (r7_64 AND 255);
     r7_65 \<leftarrow> reg K 7;
     r5_66 \<leftarrow> reg K 5;
     setr K 7 (r7_65 + r5_66);
     r7_67 \<leftarrow> reg K 7;
     setr K 7 (shl r7_67 16);
     r7_68 \<leftarrow> reg K 7;
     setr K 7 (sar 16 r7_68);
     r7_69 \<leftarrow> reg K 7;
     let t0 = (of_bool (0 \<le>s r7_69) :: u32);
     r0_70 \<leftarrow> reg K 0;
     setr K 3 (r7_69 + r0_70);
     (if t0 \<noteq> 0 then L_80094490 else do { setr K 3 (r7_69 + 127); L_80094490 })
   }"

definition nat_channel_stream_accumulate :: "'c core_ops \<Rightarrow> ('c, unit) state" where
  "nat_channel_stream_accumulate K = sequencer_channel_stream_accumulate K"

definition nat_channel_tone_record_copy :: "'c core_ops \<Rightarrow> ('c, unit) state" where
  "nat_channel_tone_record_copy K = sequencer_channel_tone_record_copy K"

definition nat_channel_tone_record_copy_wide :: "'c core_ops \<Rightarrow> ('c, unit) state" where
  "nat_channel_tone_record_copy_wide K = sequencer_channel_tone_record_copy_wide K"

definition nat_channel_note_period_compute :: "'c core_ops \<Rightarrow> ('c, unit) state" where
  "nat_channel_note_period_compute K = sequencer_channel_note_period_compute K"

section \<open>\<open>game/audio/sequencer_voice_write.cpp\<close>\<close>

definition sequencer_channel_voice_register_write_l241 :: "'c core_ops \<Rightarrow> u32
    \<Rightarrow> u32 \<Rightarrow> ('c, 'a + string) state" where
  "sequencer_channel_voice_register_write_l241 K r16_58 r17_65 = do {
     r5_99 \<leftarrow> reg K 5;
     r3_100 \<leftarrow> reg K 3;
     setr K 4 (r5_99 - r3_100);
     r4_101 \<leftarrow> reg K 4;
     r2_102 \<leftarrow> reg K 2;
     let p0 = (scast r4_101 :: 64 word) * (scast r2_102 :: 64 word);
     setr K 33 (ucast p0 :: u32);
     setr K 32 (ucast (drop_bit 32 p0) :: u32);
     setr K 6 (0x80100000 + r16_58);
     r6_103 \<leftarrow> reg K 6;
     v104 \<leftarrow> r16 K (r6_103 + 21722);
     setr K 6 (as_s16 v104);
     setr K 2 (0x80100000 + r16_58);
     r2_105 \<leftarrow> reg K 2;
     v106 \<leftarrow> r16 K (r2_105 + 21726);
     setr K 2 (as_s16 v106);
     r6_107 \<leftarrow> reg K 6;
     setr K 6 (shl r6_107 4);
     r6_108 \<leftarrow> reg K 6;
     r2_109 \<leftarrow> reg K 2;
     setr K 6 (r6_108 + r2_109);
     v110 \<leftarrow> r32 K (0x80100000 + 23784);
     setr K 2 v110;
     r6_111 \<leftarrow> reg K 6;
     setr K 6 (shl r6_111 5);
     r6_112 \<leftarrow> reg K 6;
     r2_113 \<leftarrow> reg K 2;
     setr K 6 (r6_112 + r2_113);
     r33_114 \<leftarrow> reg K 33;
     setr K 3 r33_114;
     r6_115 \<leftarrow> reg K 6;
     v116 \<leftarrow> r8 K (r6_115 + 2);
     setr K 2 v116;
     r3_117 \<leftarrow> reg K 3;
     r2_118 \<leftarrow> reg K 2;
     let p0 = (scast r3_117 :: 64 word) * (scast r2_118 :: 64 word);
     setr K 33 (ucast p0 :: u32);
     setr K 32 (ucast (drop_bit 32 p0) :: u32);
     r33_119 \<leftarrow> reg K 33;
     setr K 2 r33_119;
     setr K 3 ((shl 1036 16) OR 8273);
     r2_120 \<leftarrow> reg K 2;
     r3_121 \<leftarrow> reg K 3;
     let p0 = (ucast r2_120 :: 64 word) * (ucast r3_121 :: 64 word);
     setr K 33 (ucast p0 :: u32);
     setr K 32 (ucast (drop_bit 32 p0) :: u32);
     r32_122 \<leftarrow> reg K 32;
     setr K 3 r32_122;
     r3_123 \<leftarrow> reg K 3;
     setr K 2 (r2_120 - r3_123);
     r2_124 \<leftarrow> reg K 2;
     setr K 2 (shr r2_124 1);
     r2_125 \<leftarrow> reg K 2;
     setr K 3 (r3_123 + r2_125);
     v126 \<leftarrow> r16 K (r17_65 + 88);
     setr K 2 v126;
     r3_127 \<leftarrow> reg K 3;
     setr K 5 (shr r3_127 13);
     r5_128 \<leftarrow> reg K 5;
     r2_129 \<leftarrow> reg K 2;
     let p0 = (scast r5_128 :: 64 word) * (scast r2_129 :: 64 word);
     setr K 33 (ucast p0 :: u32);
     setr K 32 (ucast (drop_bit 32 p0) :: u32);
     r33_130 \<leftarrow> reg K 33;
     setr K 2 r33_130;
     v131 \<leftarrow> r16 K (r17_65 + 90);
     setr K 3 v131;
     r3_132 \<leftarrow> reg K 3;
     let p0 = (scast r5_128 :: 64 word) * (scast r3_132 :: 64 word);
     setr K 33 (ucast p0 :: u32);
     setr K 32 (ucast (drop_bit 32 p0) :: u32);
     r33_133 \<leftarrow> reg K 33;
     setr K 3 r33_133;
     r2_134 \<leftarrow> reg K 2;
     r21_135 \<leftarrow> reg K 21;
     let p0 = (ucast r2_134 :: 64 word) * (ucast r21_135 :: 64 word);
     setr K 33 (ucast p0 :: u32);
     setr K 32 (ucast (drop_bit 32 p0) :: u32);
     r32_136 \<leftarrow> reg K 32;
     setr K 4 r32_136;
     r3_137 \<leftarrow> reg K 3;
     let p0 = (ucast r3_137 :: 64 word) * (ucast r21_135 :: 64 word);
     setr K 33 (ucast p0 :: u32);
     setr K 32 (ucast (drop_bit 32 p0) :: u32);
     r4_138 \<leftarrow> reg K 4;
     setr K 2 (r2_134 - r4_138);
     r2_139 \<leftarrow> reg K 2;
     setr K 2 (shr r2_139 1);
     r2_140 \<leftarrow> reg K 2;
     setr K 4 (r4_138 + r2_140);
     r4_141 \<leftarrow> reg K 4;
     setr K 4 (shr r4_141 6);
     r32_142 \<leftarrow> reg K 32;
     setr K 5 r32_142;
     r5_143 \<leftarrow> reg K 5;
     setr K 3 (r3_137 - r5_143);
     r3_144 \<leftarrow> reg K 3;
     setr K 3 (shr r3_144 1);
     r3_145 \<leftarrow> reg K 3;
     setr K 5 (r5_143 + r3_145);
     v146 \<leftarrow> r8 K (r6_115 + 3);
     setr K 3 v146;
     r3_147 \<leftarrow> reg K 3;
     setr K 2 (of_bool (r3_147 < 64) :: u32);
     r2_148 \<leftarrow> reg K 2;
     r0_149 \<leftarrow> reg K 0;
     let t0 = (of_bool (r2_148 = r0_149) :: u32);
     r5_150 \<leftarrow> reg K 5;
     setr K 5 (shr r5_150 6);
     (if t0 \<noteq> 0 then State_Monad.return (Inr ''L_80095828'')
      else do {
        r5_151 \<leftarrow> reg K 5;
        let p0 = (scast r5_151 :: 64 word) * (scast r3_147 :: 64 word);
        setr K 33 (ucast p0 :: u32);
        setr K 32 (ucast (drop_bit 32 p0) :: u32);
        r33_152 \<leftarrow> reg K 33;
        setr K 2 r33_152;
        setr K 3 ((shl 1040 16) OR 16645);
        r2_153 \<leftarrow> reg K 2;
        r3_154 \<leftarrow> reg K 3;
        let p0 = (ucast r2_153 :: 64 word) * (ucast r3_154 :: 64 word);
        setr K 33 (ucast p0 :: u32);
        setr K 32 (ucast (drop_bit 32 p0) :: u32);
        r32_155 \<leftarrow> reg K 32;
        setr K 3 r32_155;
        r3_156 \<leftarrow> reg K 3;
        setr K 2 (r2_153 - r3_156);
        r2_157 \<leftarrow> reg K 2;
        setr K 2 (shr r2_157 1);
        r2_158 \<leftarrow> reg K 2;
        setr K 3 (r3_156 + r2_158);
        r3_159 \<leftarrow> reg K 3;
        setr K 5 (shr r3_159 5);
        State_Monad.return (Inr ''L_80095854'')
      })
   }"

definition sequencer_channel_voice_register_write_l151 :: "'c core_ops \<Rightarrow> ('c, 'a +
    string) state" where
  "sequencer_channel_voice_register_write_l151 K = do {
     r2_32 \<leftarrow> reg K 2;
     setr K 4 (sar 16 r2_32);
     r0_33 \<leftarrow> reg K 0;
     setr K 2 (r0_33 + 1);
     v34 \<leftarrow> r32 K kHardwareVoiceActive;
     setr K 3 v34;
     r2_35 \<leftarrow> reg K 2;
     r4_36 \<leftarrow> reg K 4;
     setr K 2 (shl r2_35 (unat (r4_36 AND 31)));
     r3_37 \<leftarrow> reg K 3;
     r2_38 \<leftarrow> reg K 2;
     setr K 3 (r3_37 AND r2_38);
     r3_39 \<leftarrow> reg K 3;
     let t0 = (of_bool (r3_39 \<noteq> r0_33) :: u32);
     r18_40 \<leftarrow> reg K 18;
     setr K 2 (r18_40 + 1);
     (if t0 \<noteq> 0 then State_Monad.return (Inr ''L_80095A44'')
      else do {
        setr K 2 (shl r4_36 3);
        r2_41 \<leftarrow> reg K 2;
        setr K 2 (r2_41 - r4_36);
        r2_42 \<leftarrow> reg K 2;
        setr K 16 (shl r2_42 3);
        r16_43 \<leftarrow> reg K 16;
        setr K 3 (0x80100000 + r16_43);
        r3_44 \<leftarrow> reg K 3;
        v45 \<leftarrow> r16 K (r3_44 + 21720);
        setr K 3 (as_s16 v45);
        r22_46 \<leftarrow> reg K 22;
        setr K 2 (shl r22_46 16);
        r2_47 \<leftarrow> reg K 2;
        setr K 2 (sar 16 r2_47);
        r3_48 \<leftarrow> reg K 3;
        r2_49 \<leftarrow> reg K 2;
        let t0 = (of_bool (r3_48 \<noteq> r2_49) :: u32);
        setr K 2 (r18_40 + 1);
        (if t0 \<noteq> 0 then State_Monad.return (Inr ''L_80095A44'')
         else do {
           setr K 4 (0x80100000 + r16_43);
           r4_50 \<leftarrow> reg K 4;
           v51 \<leftarrow> r16 K (r4_50 + 21728);
           setr K 4 (as_s16 v51);
           r17_52 \<leftarrow> reg K 17;
           v53 \<leftarrow> r8s K (r17_52 + 38);
           setr K 2 v53;
           r4_54 \<leftarrow> reg K 4;
           r2_55 \<leftarrow> reg K 2;
           let t0 = (of_bool (r4_54 \<noteq> r2_55) :: u32);
           setr K 2 (r18_40 + 1);
           (if t0 \<noteq> 0 then State_Monad.return (Inr ''L_80095A44'')
            else do {
              setr K 5 (0x80100000 + r16_43);
              r5_56 \<leftarrow> reg K 5;
              v57 \<leftarrow> r16 K (r5_56 + 21722);
              setr K 5 (as_s16 v57);
              setr K 31 0x8009567C;
              sequencer_channel_voice_select_prep K;
              r16_58 \<leftarrow> reg K 16;
              setr K 2 (0x80100000 + r16_58);
              r2_59 \<leftarrow> reg K 2;
              v60 \<leftarrow> r16 K (r2_59 + 21716);
              setr K 2 (as_s16 v60);
              setr K 3 (0x80100000 + r16_58);
              r3_61 \<leftarrow> reg K 3;
              v62 \<leftarrow> r16 K (r3_61 + 21712);
              setr K 3 (as_s16 v62);
              r2_63 \<leftarrow> reg K 2;
              setr K 2 (shl r2_63 1);
              r2_64 \<leftarrow> reg K 2;
              r17_65 \<leftarrow> reg K 17;
              setr K 2 (r2_64 + r17_65);
              r2_66 \<leftarrow> reg K 2;
              v67 \<leftarrow> r16 K (r2_66 + 96);
              setr K 2 (as_s16 v67);
              r3_68 \<leftarrow> reg K 3;
              r2_69 \<leftarrow> reg K 2;
              let p0 = (scast r3_68 :: 64 word) * (scast r2_69 :: 64 word);
              setr K 33 (ucast p0 :: u32);
              setr K 32 (ucast (drop_bit 32 p0) :: u32);
              r33_70 \<leftarrow> reg K 33;
              setr K 3 r33_70;
              setr K 2 ((shl 33026 16) OR 1033);
              r3_71 \<leftarrow> reg K 3;
              r2_72 \<leftarrow> reg K 2;
              let p0 = (scast r3_71 :: 64 word) * (scast r2_72 :: 64 word);
              setr K 33 (ucast p0 :: u32);
              setr K 32 (ucast (drop_bit 32 p0) :: u32);
              r32_73 \<leftarrow> reg K 32;
              setr K 7 r32_73;
              r7_74 \<leftarrow> reg K 7;
              setr K 4 (r7_74 + r3_71);
              r4_75 \<leftarrow> reg K 4;
              setr K 4 (sar 6 r4_75);
              setr K 3 (sar 31 r3_71);
              r4_76 \<leftarrow> reg K 4;
              r3_77 \<leftarrow> reg K 3;
              setr K 4 (r4_76 - r3_77);
              v78 \<leftarrow> r32 K (0x80100000 + 23780);
              setr K 3 v78;
              r4_79 \<leftarrow> reg K 4;
              setr K 2 (shl r4_79 14);
              r3_80 \<leftarrow> reg K 3;
              v81 \<leftarrow> r8 K (r3_80 + 24);
              setr K 3 v81;
              r2_82 \<leftarrow> reg K 2;
              setr K 2 (r2_82 - r4_79);
              r3_83 \<leftarrow> reg K 3;
              r2_84 \<leftarrow> reg K 2;
              let p0 = (scast r3_83 :: 64 word) * (scast r2_84 :: 64 word);
              setr K 33 (ucast p0 :: u32);
              setr K 32 (ucast (drop_bit 32 p0) :: u32);
              r33_85 \<leftarrow> reg K 33;
              setr K 3 r33_85;
              setr K 2 ((shl 33286 16) OR 4137);
              r3_86 \<leftarrow> reg K 3;
              r2_87 \<leftarrow> reg K 2;
              let p0 = (scast r3_86 :: 64 word) * (scast r2_87 :: 64 word);
              setr K 33 (ucast p0 :: u32);
              setr K 32 (ucast (drop_bit 32 p0) :: u32);
              setr K 2 (0x80100000 + r16_58);
              r2_88 \<leftarrow> reg K 2;
              v89 \<leftarrow> r16 K (r2_88 + 21724);
              setr K 2 (as_s16 v89);
              v90 \<leftarrow> r32 K (0x80100000 + 23772);
              setr K 4 v90;
              r2_91 \<leftarrow> reg K 2;
              setr K 2 (shl r2_91 4);
              r2_92 \<leftarrow> reg K 2;
              r4_93 \<leftarrow> reg K 4;
              setr K 2 (r2_92 + r4_93);
              r2_94 \<leftarrow> reg K 2;
              v95 \<leftarrow> r8 K (r2_94 + 1);
              setr K 2 v95;
              r32_96 \<leftarrow> reg K 32;
              setr K 7 r32_96;
              r7_97 \<leftarrow> reg K 7;
              setr K 5 (r7_97 + r3_86);
              r5_98 \<leftarrow> reg K 5;
              setr K 5 (sar 13 r5_98);
              setr K 3 (sar 31 r3_86);
              sequencer_channel_voice_register_write_l241 K r16_58 r17_65
            })
         })
      })
   }"

definition sequencer_channel_voice_register_write_l336 :: "'c core_ops \<Rightarrow> ('c, 'a +
    string) state" where
  "sequencer_channel_voice_register_write_l336 K = do {
     r23_160 \<leftarrow> reg K 23;
     r3_161 \<leftarrow> reg K 3;
     setr K 2 (r23_160 - r3_161);
     r4_162 \<leftarrow> reg K 4;
     r2_163 \<leftarrow> reg K 2;
     let p0 = (scast r4_162 :: 64 word) * (scast r2_163 :: 64 word);
     setr K 33 (ucast p0 :: u32);
     setr K 32 (ucast (drop_bit 32 p0) :: u32);
     r33_164 \<leftarrow> reg K 33;
     setr K 2 r33_164;
     setr K 3 ((shl 1040 16) OR 16645);
     r2_165 \<leftarrow> reg K 2;
     r3_166 \<leftarrow> reg K 3;
     let p0 = (ucast r2_165 :: 64 word) * (ucast r3_166 :: 64 word);
     setr K 33 (ucast p0 :: u32);
     setr K 32 (ucast (drop_bit 32 p0) :: u32);
     r32_167 \<leftarrow> reg K 32;
     setr K 3 r32_167;
     r3_168 \<leftarrow> reg K 3;
     setr K 2 (r2_165 - r3_168);
     r2_169 \<leftarrow> reg K 2;
     setr K 2 (shr r2_169 1);
     r2_170 \<leftarrow> reg K 2;
     setr K 3 (r3_168 + r2_170);
     r3_171 \<leftarrow> reg K 3;
     setr K 4 (shr r3_171 5);
     State_Monad.return (Inr ''L_80095854'')
   }"

definition sequencer_channel_voice_register_write_l355 :: "'c core_ops \<Rightarrow> ('c, 'a +
    string) state" where
  "sequencer_channel_voice_register_write_l355 K = do {
     r18_172 \<leftarrow> reg K 18;
     setr K 3 (shl r18_172 16);
     r3_173 \<leftarrow> reg K 3;
     setr K 3 (sar 16 r3_173);
     r3_174 \<leftarrow> reg K 3;
     setr K 2 (shl r3_174 3);
     r2_175 \<leftarrow> reg K 2;
     setr K 2 (r2_175 - r3_174);
     r2_176 \<leftarrow> reg K 2;
     setr K 2 (shl r2_176 3);
     r2_177 \<leftarrow> reg K 2;
     setr K 1 (0x80100000 + r2_177);
     r1_178 \<leftarrow> reg K 1;
     v179 \<leftarrow> r16 K (r1_178 + 21724);
     setr K 2 (as_s16 v179);
     v180 \<leftarrow> r32 K (0x80100000 + 23772);
     setr K 3 v180;
     r2_181 \<leftarrow> reg K 2;
     setr K 2 (shl r2_181 4);
     r2_182 \<leftarrow> reg K 2;
     r3_183 \<leftarrow> reg K 3;
     setr K 2 (r2_182 + r3_183);
     r2_184 \<leftarrow> reg K 2;
     v185 \<leftarrow> r8 K (r2_184 + 4);
     setr K 3 v185;
     r3_186 \<leftarrow> reg K 3;
     setr K 2 (of_bool (r3_186 < 64) :: u32);
     r2_187 \<leftarrow> reg K 2;
     r0_188 \<leftarrow> reg K 0;
     let t0 = (of_bool (r2_187 = r0_188) :: u32);
     r5_189 \<leftarrow> reg K 5;
     setr K 2 (r5_189 AND 65535);
     (if t0 \<noteq> 0 then State_Monad.return (Inr ''L_800958BC'')
      else do {
        r2_190 \<leftarrow> reg K 2;
        let p0 = (scast r2_190 :: 64 word) * (scast r3_186 :: 64 word);
        setr K 33 (ucast p0 :: u32);
        setr K 32 (ucast (drop_bit 32 p0) :: u32);
        r33_191 \<leftarrow> reg K 33;
        setr K 2 r33_191;
        r2_192 \<leftarrow> reg K 2;
        r19_193 \<leftarrow> reg K 19;
        let p0 = (scast r2_192 :: 64 word) * (scast r19_193 :: 64 word);
        setr K 33 (ucast p0 :: u32);
        setr K 32 (ucast (drop_bit 32 p0) :: u32);
        r32_194 \<leftarrow> reg K 32;
        setr K 8 r32_194;
        r8_195 \<leftarrow> reg K 8;
        setr K 2 (r8_195 + r2_192);
        r2_196 \<leftarrow> reg K 2;
        setr K 5 (shr r2_196 5);
        State_Monad.return (Inr ''L_800958EC'')
      })
   }"

definition sequencer_channel_voice_register_write_l390 :: "'c core_ops \<Rightarrow> ('c, 'a +
    string) state" where
  "sequencer_channel_voice_register_write_l390 K = do {
     r4_197 \<leftarrow> reg K 4;
     setr K 2 (r4_197 AND 65535);
     r23_198 \<leftarrow> reg K 23;
     r3_199 \<leftarrow> reg K 3;
     setr K 3 (r23_198 - r3_199);
     r2_200 \<leftarrow> reg K 2;
     r3_201 \<leftarrow> reg K 3;
     let p0 = (scast r2_200 :: 64 word) * (scast r3_201 :: 64 word);
     setr K 33 (ucast p0 :: u32);
     setr K 32 (ucast (drop_bit 32 p0) :: u32);
     r33_202 \<leftarrow> reg K 33;
     setr K 2 r33_202;
     r2_203 \<leftarrow> reg K 2;
     r19_204 \<leftarrow> reg K 19;
     let p0 = (scast r2_203 :: 64 word) * (scast r19_204 :: 64 word);
     setr K 33 (ucast p0 :: u32);
     setr K 32 (ucast (drop_bit 32 p0) :: u32);
     r32_205 \<leftarrow> reg K 32;
     setr K 8 r32_205;
     r8_206 \<leftarrow> reg K 8;
     setr K 3 (r8_206 + r2_203);
     r3_207 \<leftarrow> reg K 3;
     setr K 3 (sar 5 r3_207);
     setr K 2 (sar 31 r2_203);
     r3_208 \<leftarrow> reg K 3;
     r2_209 \<leftarrow> reg K 2;
     setr K 4 (r3_208 - r2_209);
     State_Monad.return (Inr ''L_800958EC'')
   }"

definition sequencer_channel_voice_register_write_l409 :: "'c core_ops \<Rightarrow> ('c, 'a +
    string) state" where
  "sequencer_channel_voice_register_write_l409 K = do {
     r18_210 \<leftarrow> reg K 18;
     setr K 2 (shl r18_210 16);
     r2_211 \<leftarrow> reg K 2;
     setr K 2 (sar 16 r2_211);
     r2_212 \<leftarrow> reg K 2;
     setr K 3 (shl r2_212 3);
     r3_213 \<leftarrow> reg K 3;
     setr K 3 (r3_213 - r2_212);
     r3_214 \<leftarrow> reg K 3;
     setr K 3 (shl r3_214 3);
     r3_215 \<leftarrow> reg K 3;
     setr K 1 (0x80100000 + r3_215);
     r1_216 \<leftarrow> reg K 1;
     v217 \<leftarrow> r8 K (r1_216 + 21714);
     setr K 3 v217;
     r3_218 \<leftarrow> reg K 3;
     setr K 2 (of_bool (r3_218 < 64) :: u32);
     r2_219 \<leftarrow> reg K 2;
     r0_220 \<leftarrow> reg K 0;
     let t0 = (of_bool (r2_219 = r0_220) :: u32);
     r5_221 \<leftarrow> reg K 5;
     setr K 2 (r5_221 AND 65535);
     (if t0 \<noteq> 0 then State_Monad.return (Inr ''L_80095940'')
      else do {
        r2_222 \<leftarrow> reg K 2;
        let p0 = (scast r2_222 :: 64 word) * (scast r3_218 :: 64 word);
        setr K 33 (ucast p0 :: u32);
        setr K 32 (ucast (drop_bit 32 p0) :: u32);
        r33_223 \<leftarrow> reg K 33;
        setr K 2 r33_223;
        r2_224 \<leftarrow> reg K 2;
        r19_225 \<leftarrow> reg K 19;
        let p0 = (scast r2_224 :: 64 word) * (scast r19_225 :: 64 word);
        setr K 33 (ucast p0 :: u32);
        setr K 32 (ucast (drop_bit 32 p0) :: u32);
        r32_226 \<leftarrow> reg K 32;
        setr K 8 r32_226;
        r8_227 \<leftarrow> reg K 8;
        setr K 2 (r8_227 + r2_224);
        r2_228 \<leftarrow> reg K 2;
        setr K 5 (shr r2_228 5);
        State_Monad.return (Inr ''L_80095970'')
      })
   }"

definition sequencer_channel_voice_register_write_l440 :: "'c core_ops \<Rightarrow> ('c, 'a +
    string) state" where
  "sequencer_channel_voice_register_write_l440 K = do {
     r4_229 \<leftarrow> reg K 4;
     setr K 2 (r4_229 AND 65535);
     r23_230 \<leftarrow> reg K 23;
     r3_231 \<leftarrow> reg K 3;
     setr K 3 (r23_230 - r3_231);
     r2_232 \<leftarrow> reg K 2;
     r3_233 \<leftarrow> reg K 3;
     let p0 = (scast r2_232 :: 64 word) * (scast r3_233 :: 64 word);
     setr K 33 (ucast p0 :: u32);
     setr K 32 (ucast (drop_bit 32 p0) :: u32);
     r33_234 \<leftarrow> reg K 33;
     setr K 2 r33_234;
     r2_235 \<leftarrow> reg K 2;
     r19_236 \<leftarrow> reg K 19;
     let p0 = (scast r2_235 :: 64 word) * (scast r19_236 :: 64 word);
     setr K 33 (ucast p0 :: u32);
     setr K 32 (ucast (drop_bit 32 p0) :: u32);
     r32_237 \<leftarrow> reg K 32;
     setr K 8 r32_237;
     r8_238 \<leftarrow> reg K 8;
     setr K 3 (r8_238 + r2_235);
     r3_239 \<leftarrow> reg K 3;
     setr K 3 (sar 5 r3_239);
     setr K 2 (sar 31 r2_235);
     r3_240 \<leftarrow> reg K 3;
     r2_241 \<leftarrow> reg K 2;
     setr K 4 (r3_240 - r2_241);
     State_Monad.return (Inr ''L_80095970'')
   }"

definition sequencer_channel_voice_register_write_l459 :: "'c core_ops \<Rightarrow> ('c, 'a +
    string) state" where
  "sequencer_channel_voice_register_write_l459 K = do {
     v242 \<leftarrow> r16 K (0x80100000 + 23768);
     setr K 3 (as_s16 v242);
     r0_243 \<leftarrow> reg K 0;
     setr K 2 (r0_243 + 1);
     r3_244 \<leftarrow> reg K 3;
     r2_245 \<leftarrow> reg K 2;
     let t0 = (of_bool (r3_244 \<noteq> r2_245) :: u32);
     r4_246 \<leftarrow> reg K 4;
     setr K 2 (r4_246 AND 65535);
     (if t0 \<noteq> 0 then State_Monad.return (Inr ''L_800959A4'')
      else do {
        r5_247 \<leftarrow> reg K 5;
        setr K 3 (r5_247 AND 65535);
        r2_248 \<leftarrow> reg K 2;
        r3_249 \<leftarrow> reg K 3;
        setr K 2 (of_bool (r2_248 < r3_249) :: u32);
        r2_250 \<leftarrow> reg K 2;
        let t0 = (of_bool (r2_250 = r0_243) :: u32);
        (if t0 \<noteq> 0 then State_Monad.return (Inr ''L_8009599C'')
         else do { setr K 4 (r5_247 + r0_243); State_Monad.return (Inr ''L_800959A0'') })
      })
   }"

definition sequencer_channel_voice_register_write_l482 :: "'c core_ops \<Rightarrow> ('c, 'a +
    string) state" where
  "sequencer_channel_voice_register_write_l482 K = do {
     r2_254 \<leftarrow> reg K 2;
     let p0 = (scast r2_254 :: 64 word) * (scast r2_254 :: 64 word);
     setr K 33 (ucast p0 :: u32);
     setr K 32 (ucast (drop_bit 32 p0) :: u32);
     r33_255 \<leftarrow> reg K 33;
     setr K 2 r33_255;
     r5_256 \<leftarrow> reg K 5;
     setr K 3 (r5_256 AND 65535);
     r3_257 \<leftarrow> reg K 3;
     let p0 = (scast r3_257 :: 64 word) * (scast r3_257 :: 64 word);
     setr K 33 (ucast p0 :: u32);
     setr K 32 (ucast (drop_bit 32 p0) :: u32);
     r33_258 \<leftarrow> reg K 33;
     setr K 3 r33_258;
     r2_259 \<leftarrow> reg K 2;
     r20_260 \<leftarrow> reg K 20;
     let p0 = (scast r2_259 :: 64 word) * (scast r20_260 :: 64 word);
     setr K 33 (ucast p0 :: u32);
     setr K 32 (ucast (drop_bit 32 p0) :: u32);
     r32_261 \<leftarrow> reg K 32;
     setr K 9 r32_261;
     r3_262 \<leftarrow> reg K 3;
     let p0 = (scast r3_262 :: 64 word) * (scast r20_260 :: 64 word);
     setr K 33 (ucast p0 :: u32);
     setr K 32 (ucast (drop_bit 32 p0) :: u32);
     r18_263 \<leftarrow> reg K 18;
     setr K 6 (shl r18_263 16);
     r6_264 \<leftarrow> reg K 6;
     setr K 6 (sar 16 r6_264);
     r6_265 \<leftarrow> reg K 6;
     setr K 5 (shl r6_265 4);
     setr K 8 (0x80100000 + 23082);
     r9_266 \<leftarrow> reg K 9;
     setr K 4 (r9_266 + r2_259);
     r4_267 \<leftarrow> reg K 4;
     setr K 4 (sar 13 r4_267);
     setr K 2 (sar 31 r2_259);
     r4_268 \<leftarrow> reg K 4;
     r2_269 \<leftarrow> reg K 2;
     setr K 4 (r4_268 - r2_269);
     r5_270 \<leftarrow> reg K 5;
     r30_271 \<leftarrow> reg K 30;
     setr K 2 (r5_270 + r30_271);
     r8_272 \<leftarrow> reg K 8;
     setr K 5 (r5_270 + r8_272);
     r2_273 \<leftarrow> reg K 2;
     r4_274 \<leftarrow> reg K 4;
     w16 K (r2_273 + 0) r4_274;
     r32_275 \<leftarrow> reg K 32;
     setr K 7 r32_275;
     r7_276 \<leftarrow> reg K 7;
     setr K 2 (r7_276 + r3_262);
     r2_277 \<leftarrow> reg K 2;
     setr K 2 (sar 13 r2_277);
     setr K 3 (sar 31 r3_262);
     r2_278 \<leftarrow> reg K 2;
     r3_279 \<leftarrow> reg K 3;
     setr K 2 (r2_278 - r3_279);
     r5_280 \<leftarrow> reg K 5;
     r2_281 \<leftarrow> reg K 2;
     w16 K (r5_280 + 0) r2_281;
     setr K 2 (0x80100000 + r6_265);
     r2_282 \<leftarrow> reg K 2;
     v283 \<leftarrow> r8 K (r2_282 + 23048);
     setr K 2 v283;
     r2_284 \<leftarrow> reg K 2;
     setr K 2 (r2_284 OR 3);
     setr K 1 (0x80100000 + r6_265);
     r1_285 \<leftarrow> reg K 1;
     r2_286 \<leftarrow> reg K 2;
     w8 K (r1_285 + 23048) r2_286;
     setr K 2 (r18_263 + 1);
     State_Monad.return (Inr ''L_80095A44'')
   }"

definition sequencer_channel_voice_register_write_l530 :: "'c core_ops \<Rightarrow> ('c, 'a +
    string) state" where
  "sequencer_channel_voice_register_write_l530 K = do {
     r2_287 \<leftarrow> reg K 2;
     r0_288 \<leftarrow> reg K 0;
     setr K 18 (r2_287 + r0_288);
     setr K 2 (shl r2_287 16);
     v289 \<leftarrow> r8s K (0x80100000 + 23788);
     setr K 3 v289;
     r2_290 \<leftarrow> reg K 2;
     setr K 2 (sar 16 r2_290);
     r2_291 \<leftarrow> reg K 2;
     r3_292 \<leftarrow> reg K 3;
     setr K 2 (of_bool (r2_291 <s r3_292) :: u32);
     r2_293 \<leftarrow> reg K 2;
     let t0 = (of_bool (r2_293 \<noteq> r0_288) :: u32);
     r18_294 \<leftarrow> reg K 18;
     setr K 2 (shl r18_294 16);
     (if t0 \<noteq> 0 then State_Monad.return (Inr ''L_80095604'')
      else State_Monad.return (Inr ''L_80095A64''))
   }"

definition sequencer_channel_voice_register_write :: "'c core_ops \<Rightarrow> ('c, unit) state"
    where
  "sequencer_channel_voice_register_write K = with_frame K 64 [(31, 60), (30, 56), (23, 52), (22,
      48), (21, 44), (20, 40), (19, 36), (18, 32), (17, 28), (16, 24)] (loop (\<lambda>pc1. (if
      pc1 = ''start'' then do {
     r4_1 \<leftarrow> reg K 4;
     setr K 7 (r4_1 AND 255);
     r7_2 \<leftarrow> reg K 7;
     setr K 7 (shl r7_2 2);
     setr K 3 (r4_1 AND 65280);
     r3_3 \<leftarrow> reg K 3;
     setr K 3 (sar 8 r3_3);
     r3_4 \<leftarrow> reg K 3;
     setr K 2 (shl r3_4 1);
     r2_5 \<leftarrow> reg K 2;
     setr K 2 (r2_5 + r3_4);
     r2_6 \<leftarrow> reg K 2;
     setr K 2 (shl r2_6 2);
     r2_7 \<leftarrow> reg K 2;
     setr K 2 (r2_7 - r3_4);
     r7_8 \<leftarrow> reg K 7;
     setr K 3 (0x80100000 + r7_8);
     r3_9 \<leftarrow> reg K 3;
     v10 \<leftarrow> r32 K (r3_9 + 19504);
     setr K 3 v10;
     r2_11 \<leftarrow> reg K 2;
     setr K 2 (shl r2_11 4);
     r3_12 \<leftarrow> reg K 3;
     r2_13 \<leftarrow> reg K 2;
     setr K 17 (r3_12 + r2_13);
     r17_14 \<leftarrow> reg K 17;
     r5_15 \<leftarrow> reg K 5;
     w16 K (r17_14 + 88) r5_15;
     v16 \<leftarrow> r16 K (r17_14 + 88);
     setr K 2 v16;
     r0_17 \<leftarrow> reg K 0;
     setr K 22 (r4_1 + r0_17);
     r2_18 \<leftarrow> reg K 2;
     setr K 2 (of_bool (r2_18 < 127) :: u32);
     r2_19 \<leftarrow> reg K 2;
     let t0 = (of_bool (r2_19 \<noteq> r0_17) :: u32);
     r6_20 \<leftarrow> reg K 6;
     w16 K (r17_14 + 90) r6_20;
     (if t0 \<noteq> 0 then State_Monad.return (Inr ''L_800955B0'')
      else do {
        setr K 2 (r0_17 + 127);
        r2_21 \<leftarrow> reg K 2;
        w16 K (r17_14 + 88) r2_21;
        State_Monad.return (Inr ''L_800955B0'')
      })
   }
    else if pc1 = ''L_800955B0'' then do {
      r17_22 \<leftarrow> reg K 17;
      v23 \<leftarrow> r16 K (r17_22 + 90);
      setr K 2 v23;
      r2_24 \<leftarrow> reg K 2;
      setr K 2 (of_bool (r2_24 < 127) :: u32);
      r2_25 \<leftarrow> reg K 2;
      r0_26 \<leftarrow> reg K 0;
      let t0 = (of_bool (r2_25 \<noteq> r0_26) :: u32);
      setr K 2 (r0_26 + 127);
      (if t0 \<noteq> 0 then State_Monad.return (Inr ''L_800955C8'')
       else do {
         r2_27 \<leftarrow> reg K 2;
         w16 K (r17_22 + 90) r2_27;
         State_Monad.return (Inr ''L_800955C8'')
       })
    }
     else if pc1 = ''L_800955C8'' then do {
       v28 \<leftarrow> r8s K (0x80100000 + 23788);
       setr K 2 v28;
       r2_29 \<leftarrow> reg K 2;
       let t0 = (of_bool (r2_29 \<le>s 0) :: u32);
       r0_30 \<leftarrow> reg K 0;
       setr K 18 (r0_30 + r0_30);
       (if t0 \<noteq> 0 then State_Monad.return (Inr ''L_80095A64'')
        else do {
          setr K 21 ((shl 516 16) OR 2065);
          setr K 23 (r0_30 + 127);
          setr K 19 ((shl 33288 16) OR 8323);
          setr K 20 ((shl 32770 16) OR 9);
          setr K 30 (0x80100000 + 23080);
          r18_31 \<leftarrow> reg K 18;
          setr K 2 (shl r18_31 16);
          State_Monad.return (Inr ''L_80095604'')
        })
     }
      else if pc1 = ''L_80095604'' then sequencer_channel_voice_register_write_l151 K
       else if pc1 = ''L_80095828'' then sequencer_channel_voice_register_write_l336 K
        else if pc1 = ''L_80095854'' then sequencer_channel_voice_register_write_l355 K
         else if pc1 = ''L_800958BC'' then sequencer_channel_voice_register_write_l390 K
          else if pc1 = ''L_800958EC'' then sequencer_channel_voice_register_write_l409 K
           else if pc1 = ''L_80095940'' then sequencer_channel_voice_register_write_l440 K
            else if pc1 = ''L_80095970'' then sequencer_channel_voice_register_write_l459 K
             else if pc1 = ''L_8009599C'' then do {
               r4_251 \<leftarrow> reg K 4;
               r0_252 \<leftarrow> reg K 0;
               setr K 5 (r4_251 + r0_252);
               State_Monad.return (Inr ''L_800959A0'')
             }
              else if pc1 = ''L_800959A0'' then do {
                r4_253 \<leftarrow> reg K 4;
                setr K 2 (r4_253 AND 65535);
                State_Monad.return (Inr ''L_800959A4'')
              }
               else if pc1 = ''L_800959A4'' then sequencer_channel_voice_register_write_l482 K
                else if pc1 = ''L_80095A44'' then sequencer_channel_voice_register_write_l530 K
                 else do {
                   r22_295 \<leftarrow> reg K 22;
                   setr K 2 (shl r22_295 16);
                   r2_296 \<leftarrow> reg K 2;
                   setr K 2 (sar 16 r2_296);
                   State_Monad.return (Inl ())
                 })) ''start'')"

definition sequencer_channel_voice_key_on :: "'c core_ops \<Rightarrow> ('c, unit) state" where
  "sequencer_channel_voice_key_on K = do {
     r4_1 \<leftarrow> reg K 4;
     setr K 4 (shl r4_1 16);
     setr K 2 (shl 32784 16);
     r2_2 \<leftarrow> reg K 2;
     setr K 2 (r2_2 + 19504);
     r4_3 \<leftarrow> reg K 4;
     setr K 4 (sar 14 r4_3);
     r4_4 \<leftarrow> reg K 4;
     r2_5 \<leftarrow> reg K 2;
     setr K 4 (r4_4 + r2_5);
     r5_6 \<leftarrow> reg K 5;
     setr K 5 (shl r5_6 16);
     r5_7 \<leftarrow> reg K 5;
     setr K 5 (sar 16 r5_7);
     r5_8 \<leftarrow> reg K 5;
     setr K 6 (shl r5_8 1);
     r6_9 \<leftarrow> reg K 6;
     setr K 6 (r6_9 + r5_8);
     r6_10 \<leftarrow> reg K 6;
     setr K 6 (shl r6_10 2);
     r6_11 \<leftarrow> reg K 6;
     setr K 6 (r6_11 - r5_8);
     r6_12 \<leftarrow> reg K 6;
     setr K 6 (shl r6_12 4);
     r4_13 \<leftarrow> reg K 4;
     v14 \<leftarrow> r32 K (r4_13 + 0);
     setr K 7 v14;
     r0_15 \<leftarrow> reg K 0;
     setr K 8 (r0_15 + 1);
     r7_16 \<leftarrow> reg K 7;
     r6_17 \<leftarrow> reg K 6;
     setr K 7 (r7_16 + r6_17);
     r7_18 \<leftarrow> reg K 7;
     r8_19 \<leftarrow> reg K 8;
     w8 K (r7_18 + 32) r8_19;
     w8 K (r7_18 + 33) r0_15;
     v20 \<leftarrow> r32 K (r4_13 + 0);
     setr K 3 v20;
     r3_21 \<leftarrow> reg K 3;
     setr K 3 (r6_17 + r3_21);
     r3_22 \<leftarrow> reg K 3;
     v23 \<leftarrow> r32 K (r3_22 + 152);
     setr K 2 v23;
     setr K 5 (r0_15 + (-257));
     r2_24 \<leftarrow> reg K 2;
     r5_25 \<leftarrow> reg K 5;
     setr K 2 (r2_24 AND r5_25);
     r2_26 \<leftarrow> reg K 2;
     w32 K (r3_22 + 152) r2_26;
     v27 \<leftarrow> r32 K (r4_13 + 0);
     setr K 3 v27;
     r3_28 \<leftarrow> reg K 3;
     setr K 3 (r6_17 + r3_28);
     r3_29 \<leftarrow> reg K 3;
     v30 \<leftarrow> r32 K (r3_29 + 152);
     setr K 2 v30;
     setr K 5 (r0_15 + (-9));
     r2_31 \<leftarrow> reg K 2;
     r5_32 \<leftarrow> reg K 5;
     setr K 2 (r2_31 AND r5_32);
     r2_33 \<leftarrow> reg K 2;
     w32 K (r3_29 + 152) r2_33;
     v34 \<leftarrow> r32 K (r4_13 + 0);
     setr K 3 v34;
     r3_35 \<leftarrow> reg K 3;
     setr K 3 (r6_17 + r3_35);
     r3_36 \<leftarrow> reg K 3;
     v37 \<leftarrow> r32 K (r3_36 + 152);
     setr K 2 v37;
     setr K 5 (r0_15 + (-3));
     r2_38 \<leftarrow> reg K 2;
     r5_39 \<leftarrow> reg K 5;
     setr K 2 (r2_38 AND r5_39);
     r2_40 \<leftarrow> reg K 2;
     w32 K (r3_36 + 152) r2_40;
     v41 \<leftarrow> r32 K (r4_13 + 0);
     setr K 3 v41;
     r3_42 \<leftarrow> reg K 3;
     setr K 3 (r6_17 + r3_42);
     r3_43 \<leftarrow> reg K 3;
     v44 \<leftarrow> r32 K (r3_43 + 152);
     setr K 2 v44;
     setr K 5 (r0_15 + (-5));
     r2_45 \<leftarrow> reg K 2;
     r5_46 \<leftarrow> reg K 5;
     setr K 2 (r2_45 AND r5_46);
     r2_47 \<leftarrow> reg K 2;
     w32 K (r3_43 + 152) r2_47;
     v48 \<leftarrow> r32 K (r4_13 + 0);
     setr K 3 v48;
     r3_49 \<leftarrow> reg K 3;
     setr K 3 (r6_17 + r3_49);
     r3_50 \<leftarrow> reg K 3;
     v51 \<leftarrow> r32 K (r3_50 + 152);
     setr K 2 v51;
     setr K 5 (r0_15 + (-513));
     r2_52 \<leftarrow> reg K 2;
     r5_53 \<leftarrow> reg K 5;
     setr K 2 (r2_52 AND r5_53);
     r2_54 \<leftarrow> reg K 2;
     w32 K (r3_50 + 152) r2_54;
     v55 \<leftarrow> r32 K (r7_18 + 4);
     setr K 2 v55;
     w8 K (r7_18 + 20) r8_19;
     r2_56 \<leftarrow> reg K 2;
     w32 K (r7_18 + 0) r2_56;
     v57 \<leftarrow> r32 K (r4_13 + 0);
     setr K 2 v57;
     r2_58 \<leftarrow> reg K 2;
     setr K 6 (r6_17 + r2_58);
     r6_59 \<leftarrow> reg K 6;
     v60 \<leftarrow> r32 K (r6_59 + 152);
     setr K 2 v60;
     r2_61 \<leftarrow> reg K 2;
     setr K 2 (r2_61 OR 1);
     r2_62 \<leftarrow> reg K 2;
     w32 K (r6_59 + 152) r2_62
   }"

definition nat_channel_voice_register_write :: "'c core_ops \<Rightarrow> ('c, unit) state" where
  "nat_channel_voice_register_write K = sequencer_channel_voice_register_write K"

definition nat_channel_voice_select_prep :: "'c core_ops \<Rightarrow> ('c, unit) state" where
  "nat_channel_voice_select_prep K = sequencer_channel_voice_select_prep K"

definition nat_channel_voice_key_on :: "'c core_ops \<Rightarrow> ('c, unit) state" where
  "nat_channel_voice_key_on K = sequencer_channel_voice_key_on K"

end
