(* ===== verification/SequencerVoices.thy ===== *)
theory SequencerVoices
  imports Sequencer
begin

text \<open>
  The sequencer at work: voice allocation and state, pitch and envelopes, and the sequence ticks
  of \<open>game/audio/sequencer.cpp\<close>.
\<close>

section \<open>Layout\<close>

definition kBase :: u32 where "kBase = 0x80100000"
definition kSeqReentryFlag :: u32 where "kSeqReentryFlag = 0x80104C24"
definition kSeqActiveMask :: u32 where "kSeqActiveMask = 0x80104C28"
definition kSeqCount :: u32 where "kSeqCount = 0x801054B0"
definition kSeqChanCount :: u32 where "kSeqChanCount = 0x801054B2"
definition kSeqPrepFn :: u32 where "kSeqPrepFn = 0x800931C0"
definition kUserCallback :: u32 where "kUserCallback = 0x800AC430"
definition kSeqTickFn :: u32 where "kSeqTickFn = 0x800AC42C"
definition kPerVoiceTable :: u32 where "kPerVoiceTable = 21710"
definition kPerVoicePitchLo :: u32 where "kPerVoicePitchLo = 21692"
definition kPerVoicePitchHi :: u32 where "kPerVoicePitchHi = 21694"
definition kPerVoiceLevelLo :: u32 where "kPerVoiceLevelLo = 21696"
definition kPerVoiceLevelHi :: u32 where "kPerVoiceLevelHi = 21698"
definition kPerVoiceDispatchLo :: u32 where "kPerVoiceDispatchLo = 21746"
definition kVoiceCursor :: u32 where "kVoiceCursor = 23468"
definition kVoiceStateTable :: u32 where "kVoiceStateTable = 23472"
definition kToneCursor :: u32 where "kToneCursor = 23848"
definition kToneBlockBase :: u32 where "kToneBlockBase = 23048"
definition kUnnamedWord23072 :: u32 where "kUnnamedWord23072 = 23072"
definition kUnnamedWord23080 :: u32 where "kUnnamedWord23080 = 23080"
definition kUnnamedWord23464 :: u32 where "kUnnamedWord23464 = 23464"
definition kUnnamedHalfword21734 :: u32 where "kUnnamedHalfword21734 = 21734"

section \<open>\<open>game/audio/sequencer.cpp\<close>\<close>

definition sequencer_frame_tick :: "'c core_ops \<Rightarrow> ('c, unit) state" where
  "sequencer_frame_tick K = with_frame K 24 [(16, 16), (31, 20)] (do {
     setr K 16 kUserCallback;
     cb \<leftarrow> r32 K kUserCallback;
     only_if (cb \<noteq> 0) (do {
       _ \<leftarrow> dispatch_jal K cb 0x800909EC [];
       State_Monad.return ()
     });
     seq \<leftarrow> r32 K kSeqTickFn;
     _ \<leftarrow> dispatch_jal K seq 0x800909FC [];
     State_Monad.return ()
   })"

definition sequencer_seq_channel_dispatch_l154 :: "'c core_ops \<Rightarrow> ('c, 'a + string)
    state" where
  "sequencer_seq_channel_dispatch_l154 K = do {
     r18_47 \<leftarrow> reg K 18;
     v48 \<leftarrow> r32 K (r18_47 + 0);
     setr K 2 v48;
     r16_49 \<leftarrow> reg K 16;
     r2_50 \<leftarrow> reg K 2;
     setr K 2 (r16_49 + r2_50);
     r2_51 \<leftarrow> reg K 2;
     v52 \<leftarrow> r32 K (r2_51 + 152);
     setr K 2 v52;
     r2_53 \<leftarrow> reg K 2;
     setr K 2 (r2_53 AND 64);
     r2_54 \<leftarrow> reg K 2;
     let t0 = (of_bool (r2_54 = 0) :: u32);
     r20_55 \<leftarrow> reg K 20;
     setr K 4 r20_55;
     (if t0 \<noteq> 0 then State_Monad.return (Inr ''L_80090D20'')
      else do {
        setr K 31 0x80090D20;
        r17_56 \<leftarrow> reg K 17;
        setr K 5 r17_56;
        call_guest K 0x80092080;
        State_Monad.return (Inr ''L_80090D20'')
      })
   }"

definition sequencer_seq_channel_dispatch_l172 :: "'c core_ops \<Rightarrow> ('c, 'a + string)
    state" where
  "sequencer_seq_channel_dispatch_l172 K = do {
     r18_57 \<leftarrow> reg K 18;
     v58 \<leftarrow> r32 K (r18_57 + 0);
     setr K 2 v58;
     r16_59 \<leftarrow> reg K 16;
     r2_60 \<leftarrow> reg K 2;
     setr K 2 (r16_59 + r2_60);
     r2_61 \<leftarrow> reg K 2;
     v62 \<leftarrow> r32 K (r2_61 + 152);
     setr K 2 v62;
     r2_63 \<leftarrow> reg K 2;
     setr K 2 (r2_63 AND 128);
     r2_64 \<leftarrow> reg K 2;
     let t0 = (of_bool (r2_64 = 0) :: u32);
     r20_65 \<leftarrow> reg K 20;
     setr K 4 r20_65;
     (if t0 \<noteq> 0 then State_Monad.return (Inr ''L_80090D48'')
      else do {
        setr K 31 0x80090D48;
        r17_66 \<leftarrow> reg K 17;
        setr K 5 r17_66;
        call_guest K 0x80092080;
        State_Monad.return (Inr ''L_80090D48'')
      })
   }"

definition sequencer_seq_channel_dispatch_l190 :: "'c core_ops \<Rightarrow> ('c, 'a + string)
    state" where
  "sequencer_seq_channel_dispatch_l190 K = do {
     r18_67 \<leftarrow> reg K 18;
     v68 \<leftarrow> r32 K (r18_67 + 0);
     setr K 2 v68;
     r16_69 \<leftarrow> reg K 16;
     r2_70 \<leftarrow> reg K 2;
     setr K 2 (r16_69 + r2_70);
     r2_71 \<leftarrow> reg K 2;
     v72 \<leftarrow> r32 K (r2_71 + 152);
     setr K 2 v72;
     r2_73 \<leftarrow> reg K 2;
     setr K 2 (r2_73 AND 2);
     r2_74 \<leftarrow> reg K 2;
     let t0 = (of_bool (r2_74 = 0) :: u32);
     r21_75 \<leftarrow> reg K 21;
     setr K 4 (sar 16 r21_75);
     (if t0 \<noteq> 0 then State_Monad.return (Inr ''L_80090D70'')
      else do {
        setr K 31 0x80090D70;
        r19_76 \<leftarrow> reg K 19;
        setr K 5 (sar 16 r19_76);
        call_guest K 0x80091050;
        State_Monad.return (Inr ''L_80090D70'')
      })
   }"

definition sequencer_seq_channel_dispatch_l208 :: "'c core_ops \<Rightarrow> ('c, 'a + string)
    state" where
  "sequencer_seq_channel_dispatch_l208 K = do {
     r18_77 \<leftarrow> reg K 18;
     v78 \<leftarrow> r32 K (r18_77 + 0);
     setr K 2 v78;
     r16_79 \<leftarrow> reg K 16;
     r2_80 \<leftarrow> reg K 2;
     setr K 2 (r16_79 + r2_80);
     r2_81 \<leftarrow> reg K 2;
     v82 \<leftarrow> r32 K (r2_81 + 152);
     setr K 2 v82;
     r2_83 \<leftarrow> reg K 2;
     setr K 2 (r2_83 AND 8);
     r2_84 \<leftarrow> reg K 2;
     let t0 = (of_bool (r2_84 = 0) :: u32);
     r21_85 \<leftarrow> reg K 21;
     setr K 4 (sar 16 r21_85);
     (if t0 \<noteq> 0 then State_Monad.return (Inr ''L_80090D98'')
      else do {
        setr K 31 0x80090D98;
        r19_86 \<leftarrow> reg K 19;
        setr K 5 (sar 16 r19_86);
        call_guest K 0x80091910;
        State_Monad.return (Inr ''L_80090D98'')
      })
   }"

definition sequencer_seq_channel_dispatch_l226 :: "'c core_ops \<Rightarrow> ('c, 'a + string)
    state" where
  "sequencer_seq_channel_dispatch_l226 K = do {
     r18_87 \<leftarrow> reg K 18;
     v88 \<leftarrow> r32 K (r18_87 + 0);
     setr K 2 v88;
     r16_89 \<leftarrow> reg K 16;
     r2_90 \<leftarrow> reg K 2;
     setr K 2 (r16_89 + r2_90);
     r2_91 \<leftarrow> reg K 2;
     v92 \<leftarrow> r32 K (r2_91 + 152);
     setr K 2 v92;
     r2_93 \<leftarrow> reg K 2;
     setr K 2 (r2_93 AND 4);
     r2_94 \<leftarrow> reg K 2;
     let t0 = (of_bool (r2_94 = 0) :: u32);
     r21_95 \<leftarrow> reg K 21;
     setr K 4 (sar 16 r21_95);
     (if t0 \<noteq> 0 then State_Monad.return (Inr ''L_80090DD0'')
      else do {
        setr K 31 0x80090DC0;
        r19_96 \<leftarrow> reg K 19;
        setr K 5 (sar 16 r19_96);
        sequencer_channel_note_init K;
        r18_97 \<leftarrow> reg K 18;
        v98 \<leftarrow> r32 K (r18_97 + 0);
        setr K 2 v98;
        r16_99 \<leftarrow> reg K 16;
        r2_100 \<leftarrow> reg K 2;
        setr K 2 (r16_99 + r2_100);
        r2_101 \<leftarrow> reg K 2;
        w32 K (r2_101 + 152) 0;
        State_Monad.return (Inr ''L_80090DD0'')
      })
   }"

definition sequencer_seq_channel_dispatch_l244 :: "'c core_ops \<Rightarrow> ('c, 'a + string)
    state" where
  "sequencer_seq_channel_dispatch_l244 K = do {
     setr K 2 (shl 1 16);
     r19_102 \<leftarrow> reg K 19;
     r2_103 \<leftarrow> reg K 2;
     setr K 19 (r19_102 + r2_103);
     v104 \<leftarrow> r16s K kSeqChanCount;
     setr K 2 v104;
     r22_105 \<leftarrow> reg K 22;
     setr K 22 (r22_105 + 1);
     r22_106 \<leftarrow> reg K 22;
     r2_107 \<leftarrow> reg K 2;
     setr K 2 (of_bool (r22_106 <s r2_107) :: u32);
     r2_108 \<leftarrow> reg K 2;
     let t0 = (of_bool (r2_108 \<noteq> 0) :: u32);
     r16_109 \<leftarrow> reg K 16;
     setr K 16 (r16_109 + 176);
     (if t0 \<noteq> 0 then State_Monad.return (Inr ''L_80090C7C'')
      else State_Monad.return (Inr ''L_80090DF0''))
   }"

definition sequencer_seq_channel_dispatch_l257 :: "'c core_ops \<Rightarrow> ('c, 'a + string)
    state" where
  "sequencer_seq_channel_dispatch_l257 K = do {
     v110 \<leftarrow> r16s K kSeqCount;
     setr K 2 v110;
     r23_111 \<leftarrow> reg K 23;
     setr K 23 (r23_111 + 1);
     r23_112 \<leftarrow> reg K 23;
     r2_113 \<leftarrow> reg K 2;
     setr K 2 (of_bool (r23_112 <s r2_113) :: u32);
     r2_114 \<leftarrow> reg K 2;
     let t0 = (of_bool (r2_114 \<noteq> 0) :: u32);
     r30_115 \<leftarrow> reg K 30;
     setr K 30 (r30_115 + 4);
     (if t0 \<noteq> 0 then State_Monad.return (Inr ''L_80090C38'')
      else State_Monad.return (Inr ''L_80090E08''))
   }"

definition sequencer_seq_channel_dispatch :: "'c core_ops \<Rightarrow> ('c, unit) state" where
  "sequencer_seq_channel_dispatch K = with_frame K 56 [(31, 52), (30, 48), (23, 44), (22, 40),
      (21, 36), (20, 32), (19, 28), (18, 24), (17, 20), (16, 16)] (loop (\<lambda>pc1. (if pc1 =
      ''start'' then do {
     v1 \<leftarrow> r32 K kSeqReentryFlag;
     setr K 2 v1;
     setr K 3 1;
     r2_2 \<leftarrow> reg K 2;
     r3_3 \<leftarrow> reg K 3;
     (if r2_2 = r3_3 then State_Monad.return (Inr ''L_80090E10'')
      else do {
        w32 K kSeqReentryFlag r3_3;
        setr K 31 0x80090C1C;
        setr K 23 0;
        call_guest K kSeqPrepFn;
        v4 \<leftarrow> r16s K kSeqCount;
        setr K 2 v4;
        r2_5 \<leftarrow> reg K 2;
        let t0 = (of_bool (r2_5 \<le>s 0) :: u32);
        (if t0 \<noteq> 0 then State_Monad.return (Inr ''L_80090E08'')
         else do { setr K 30 kSeqPtrArray; State_Monad.return (Inr ''L_80090C38'') })
      })
   }
    else if pc1 = ''L_80090C38'' then do {
      setr K 2 1;
      v6 \<leftarrow> r32 K kSeqActiveMask;
      setr K 3 v6;
      r2_7 \<leftarrow> reg K 2;
      r23_8 \<leftarrow> reg K 23;
      setr K 2 (shl r2_7 (unat (r23_8 AND 31)));
      r3_9 \<leftarrow> reg K 3;
      r2_10 \<leftarrow> reg K 2;
      setr K 3 (r3_9 AND r2_10);
      r3_11 \<leftarrow> reg K 3;
      let t0 = (of_bool (r3_11 = 0) :: u32);
      (if t0 \<noteq> 0 then State_Monad.return (Inr ''L_80090DF0'')
       else do {
         v12 \<leftarrow> r16s K kSeqChanCount;
         setr K 2 v12;
         r2_13 \<leftarrow> reg K 2;
         let t0 = (of_bool (r2_13 \<le>s 0) :: u32);
         setr K 22 0;
         (if t0 \<noteq> 0 then State_Monad.return (Inr ''L_80090DF0'')
          else do {
            r30_14 \<leftarrow> reg K 30;
            setr K 18 r30_14;
            setr K 21 (shl r23_8 16);
            r21_15 \<leftarrow> reg K 21;
            setr K 20 (sar 16 r21_15);
            setr K 19 0;
            setr K 16 0;
            State_Monad.return (Inr ''L_80090C7C'')
          })
       })
    }
     else if pc1 = ''L_80090C7C'' then do {
       r18_16 \<leftarrow> reg K 18;
       v17 \<leftarrow> r32 K (r18_16 + 0);
       setr K 2 v17;
       r16_18 \<leftarrow> reg K 16;
       r2_19 \<leftarrow> reg K 2;
       setr K 2 (r16_18 + r2_19);
       r2_20 \<leftarrow> reg K 2;
       v21 \<leftarrow> r32 K (r2_20 + 152);
       setr K 2 v21;
       r2_22 \<leftarrow> reg K 2;
       setr K 2 (r2_22 AND 1);
       r2_23 \<leftarrow> reg K 2;
       let t0 = (of_bool (r2_23 = 0) :: u32);
       r20_24 \<leftarrow> reg K 20;
       setr K 4 r20_24;
       (if t0 \<noteq> 0 then State_Monad.return (Inr ''L_80090D48'')
        else do {
          r19_25 \<leftarrow> reg K 19;
          setr K 17 (sar 16 r19_25);
          setr K 31 0x80090CA8;
          r17_26 \<leftarrow> reg K 17;
          setr K 5 r17_26;
          sequencer_channel_pitch_select_dispatch K;
          r18_27 \<leftarrow> reg K 18;
          v28 \<leftarrow> r32 K (r18_27 + 0);
          setr K 2 v28;
          r16_29 \<leftarrow> reg K 16;
          r2_30 \<leftarrow> reg K 2;
          setr K 2 (r16_29 + r2_30);
          r2_31 \<leftarrow> reg K 2;
          v32 \<leftarrow> r32 K (r2_31 + 152);
          setr K 2 v32;
          r2_33 \<leftarrow> reg K 2;
          setr K 2 (r2_33 AND 16);
          r2_34 \<leftarrow> reg K 2;
          let t0 = (of_bool (r2_34 = 0) :: u32);
          r20_35 \<leftarrow> reg K 20;
          setr K 4 r20_35;
          (if t0 \<noteq> 0 then State_Monad.return (Inr ''L_80090CD0'')
           else do {
             setr K 31 0x80090CD0;
             r17_36 \<leftarrow> reg K 17;
             setr K 5 r17_36;
             call_guest K 0x80090E40;
             State_Monad.return (Inr ''L_80090CD0'')
           })
        })
     }
      else if pc1 = ''L_80090CD0'' then do {
        r18_37 \<leftarrow> reg K 18;
        v38 \<leftarrow> r32 K (r18_37 + 0);
        setr K 2 v38;
        r16_39 \<leftarrow> reg K 16;
        r2_40 \<leftarrow> reg K 2;
        setr K 2 (r16_39 + r2_40);
        r2_41 \<leftarrow> reg K 2;
        v42 \<leftarrow> r32 K (r2_41 + 152);
        setr K 2 v42;
        r2_43 \<leftarrow> reg K 2;
        setr K 2 (r2_43 AND 32);
        r2_44 \<leftarrow> reg K 2;
        let t0 = (of_bool (r2_44 = 0) :: u32);
        r20_45 \<leftarrow> reg K 20;
        setr K 4 r20_45;
        (if t0 \<noteq> 0 then State_Monad.return (Inr ''L_80090CF8'')
         else do {
           setr K 31 0x80090CF8;
           r17_46 \<leftarrow> reg K 17;
           setr K 5 r17_46;
           call_guest K 0x80090E40;
           State_Monad.return (Inr ''L_80090CF8'')
         })
      }
       else if pc1 = ''L_80090CF8'' then sequencer_seq_channel_dispatch_l154 K
        else if pc1 = ''L_80090D20'' then sequencer_seq_channel_dispatch_l172 K
         else if pc1 = ''L_80090D48'' then sequencer_seq_channel_dispatch_l190 K
          else if pc1 = ''L_80090D70'' then sequencer_seq_channel_dispatch_l208 K
           else if pc1 = ''L_80090D98'' then sequencer_seq_channel_dispatch_l226 K
            else if pc1 = ''L_80090DD0'' then sequencer_seq_channel_dispatch_l244 K
             else if pc1 = ''L_80090DF0'' then sequencer_seq_channel_dispatch_l257 K
              else if pc1 = ''L_80090E08'' then do {
                w32 K kSeqReentryFlag 0;
                State_Monad.return (Inr ''L_80090E10'')
              }
               else State_Monad.return (Inl ()))) ''start'')"

definition nat_frame_tick :: "'c core_ops \<Rightarrow> ('c, unit) state" where
  "nat_frame_tick K = sequencer_frame_tick K"

definition nat_seq_channel_dispatch :: "'c core_ops \<Rightarrow> ('c, unit) state" where
  "nat_seq_channel_dispatch K = sequencer_seq_channel_dispatch K"

section \<open>\<open>game/audio/sequencer_pitch_envelope.cpp\<close>\<close>

definition sequencer_channel_pitch_slide_tick_l190 :: "'c core_ops \<Rightarrow> ('c, unit) state"
    where
  "sequencer_channel_pitch_slide_tick_l190 K = do {
     r4_1 \<leftarrow> reg K 4;
     setr K 4 (sar 16 (shl r4_1 16));
     r18_2 \<leftarrow> reg K 18;
     setr K 5 (r18_2 + 92);
     setr K 31 0x80091024;
     setr K 6 (r18_2 + 94);
     sequencer_channel_volume_snapshot K
   }"

definition sequencer_channel_pitch_slide_tick_l170 :: "'c core_ops \<Rightarrow> ('c, 'a) state
    \<Rightarrow> ('c, 'a) state" where
  "sequencer_channel_pitch_slide_tick_l170 K L_80090FF8 = do {
     r4_10 \<leftarrow> reg K 4;
     setr K 4 (sar 14 r4_10);
     r20_11 \<leftarrow> reg K 20;
     setr K 3 (shl r20_11 16);
     r3_12 \<leftarrow> reg K 3;
     setr K 3 (sar 16 r3_12);
     r3_13 \<leftarrow> reg K 3;
     setr K 2 (shl r3_13 1);
     r2_14 \<leftarrow> reg K 2;
     setr K 2 (r2_14 + r3_13);
     r2_15 \<leftarrow> reg K 2;
     setr K 2 (shl r2_15 2);
     r2_16 \<leftarrow> reg K 2;
     setr K 2 (r2_16 - r3_13);
     r4_17 \<leftarrow> reg K 4;
     setr K 3 (0x80100000 + r4_17);
     r3_18 \<leftarrow> reg K 3;
     v19 \<leftarrow> r32 K (r3_18 + 19504);
     setr K 3 v19;
     r2_20 \<leftarrow> reg K 2;
     setr K 2 (shl r2_20 4);
     r2_21 \<leftarrow> reg K 2;
     r3_22 \<leftarrow> reg K 3;
     setr K 2 (r2_21 + r3_22);
     L_80090FF8
   }"

definition sequencer_channel_pitch_slide_tick_l154 :: "'c core_ops \<Rightarrow> ('c, 'a) state
    \<Rightarrow> ('c, 'a) state \<Rightarrow> ('c, 'a) state \<Rightarrow> ('c, 'a) state" where
  "sequencer_channel_pitch_slide_tick_l154 K L_8009100C L_80091010 L_80090FC8 = do {
     r17_23 \<leftarrow> reg K 17;
     let t0 = (of_bool (r17_23 \<noteq> 0) :: u32);
     r20_24 \<leftarrow> reg K 20;
     setr K 4 (shl r20_24 8);
     (if t0 \<noteq> 0 then L_8009100C
      else do {
        r16_25 \<leftarrow> reg K 16;
        let t0 = (of_bool (r16_25 \<noteq> 0) :: u32);
        r21_26 \<leftarrow> reg K 21;
        r4_27 \<leftarrow> reg K 4;
        setr K 4 (r21_26 OR r4_27);
        (if t0 \<noteq> 0 then L_80091010 else do { setr K 4 (shl r21_26 16); L_80090FC8 })
      })
   }"

definition sequencer_channel_pitch_slide_tick_l135 :: "'c core_ops \<Rightarrow> ('c, 'a) state
    \<Rightarrow> ('c, 'a) state \<Rightarrow> ('c, 'a) state" where
  "sequencer_channel_pitch_slide_tick_l135 K L_80090FB4 L_80090FC8 = do {
     r17_28 \<leftarrow> reg K 17;
     setr K 5 (r17_28 AND 65535);
     r16_29 \<leftarrow> reg K 16;
     setr K 6 (r16_29 AND 65535);
     r19_30 \<leftarrow> reg K 19;
     setr K 4 r19_30;
     setr K 7 1;
     setr K 31 0x80090FA0;
     sequencer_channel_voice_register_write K;
     r17_31 \<leftarrow> reg K 17;
     let t0 = (of_bool (r17_31 \<noteq> 127) :: u32);
     (if t0 \<noteq> 0 then L_80090FB4
      else do {
        r16_32 \<leftarrow> reg K 16;
        let t0 = (of_bool (r16_32 = r17_31) :: u32);
        r21_33 \<leftarrow> reg K 21;
        setr K 4 (shl r21_33 16);
        (if t0 \<noteq> 0 then L_80090FC8 else L_80090FB4)
      })
   }"

definition sequencer_channel_pitch_slide_tick_l67 :: "'c core_ops \<Rightarrow> ('c, 'a) state
    \<Rightarrow> ('c, 'a) state \<Rightarrow> ('c, 'a) state" where
  "sequencer_channel_pitch_slide_tick_l67 K L_80091008 L_80090F5C = do {
     r18_41 \<leftarrow> reg K 18;
     v42 \<leftarrow> r16s K (r18_41 + 72);
     setr K 2 v42;
     r2_43 \<leftarrow> reg K 2;
     r6_44 \<leftarrow> reg K 6;
     let p0 = (scast r2_43 :: 64 word) * (scast r6_44 :: 64 word);
     setr K 33 (ucast p0 :: u32);
     setr K 32 (ucast (drop_bit 32 p0) :: u32);
     r33_45 \<leftarrow> reg K 33;
     setr K 2 r33_45;
     r2_46 \<leftarrow> reg K 2;
     r3_47 \<leftarrow> reg K 3;
     guest_divide K True r2_46 r3_47;
     r3_48 \<leftarrow> reg K 3;
     only_if (r3_48 = 0) (guest_break K 7168);
     r3_49 \<leftarrow> reg K 3;
     r2_50 \<leftarrow> reg K 2;
     only_if (r3_49 = 0xFFFFFFFF \<and> r2_50 = 0x80000000) (guest_break K 6144);
     r33_51 \<leftarrow> reg K 33;
     setr K 16 r33_51;
     r18_52 \<leftarrow> reg K 18;
     v53 \<leftarrow> r16s K (r18_52 + 74);
     setr K 2 v53;
     v54 \<leftarrow> r16 K (r18_52 + 74);
     setr K 3 v54;
     r16_55 \<leftarrow> reg K 16;
     r2_56 \<leftarrow> reg K 2;
     setr K 16 (r16_55 - r2_56);
     r16_57 \<leftarrow> reg K 16;
     let t0 = (of_bool (r16_57 = 0) :: u32);
     (if t0 \<noteq> 0 then L_80091008
      else do {
        r4_58 \<leftarrow> reg K 4;
        r5_59 \<leftarrow> reg K 5;
        setr K 2 (r4_58 OR (shl r5_59 8));
        r2_60 \<leftarrow> reg K 2;
        setr K 2 (shl r2_60 16);
        r2_61 \<leftarrow> reg K 2;
        setr K 19 (sar 16 r2_61);
        r19_62 \<leftarrow> reg K 19;
        setr K 4 r19_62;
        r29_63 \<leftarrow> reg K 29;
        setr K 5 (r29_63 + 16);
        setr K 6 (r29_63 + 18);
        r3_64 \<leftarrow> reg K 3;
        setr K 2 (r3_64 + r16_57);
        r2_65 \<leftarrow> reg K 2;
        w16 K (r18_52 + 74) r2_65;
        setr K 31 0x80090F40;
        sequencer_channel_volume_snapshot K;
        r29_66 \<leftarrow> reg K 29;
        v67 \<leftarrow> r16 K (r29_66 + 16);
        setr K 2 v67;
        r2_68 \<leftarrow> reg K 2;
        r16_69 \<leftarrow> reg K 16;
        setr K 17 (r2_68 + r16_69);
        r17_70 \<leftarrow> reg K 17;
        let t0 = (of_bool (r17_70 <s 128) :: u32);
        (if t0 \<noteq> 0 then L_80090F5C else do { setr K 17 127; L_80090F5C })
      })
   }"

definition sequencer_channel_pitch_slide_tick :: "'c core_ops \<Rightarrow> ('c, unit) state"
    where
  "sequencer_channel_pitch_slide_tick K = with_frame K 56 [(21, 44), (31, 48), (20, 40), (19, 36),
      (18, 32), (17, 28), (16, 24)] (do {
     let L_80091010 = (sequencer_channel_pitch_slide_tick_l190 K);
     let L_8009100C = (do {
       r21_3 \<leftarrow> reg K 21;
       r4_4 \<leftarrow> reg K 4;
       setr K 4 (r21_3 OR r4_4);
       L_80091010
     });
     let L_80091008 = (do {
       r20_5 \<leftarrow> reg K 20;
       setr K 4 (shl r20_5 8);
       L_8009100C
     });
     let L_80090FF8 = (do {
       r2_6 \<leftarrow> reg K 2;
       v7 \<leftarrow> r32 K (r2_6 + 152);
       setr K 3 v7;
       r3_8 \<leftarrow> reg K 3;
       setr K 3 (r3_8 AND (NOT 0x10));
       r3_9 \<leftarrow> reg K 3;
       w32 K (r2_6 + 152) r3_9;
       L_80091008
     });
     let L_80090FC8 = (sequencer_channel_pitch_slide_tick_l170 K L_80090FF8);
     let L_80090FB4 = (sequencer_channel_pitch_slide_tick_l154 K L_8009100C L_80091010
         L_80090FC8);
     let L_80090F90 = (sequencer_channel_pitch_slide_tick_l135 K L_80090FB4 L_80090FC8);
     let L_80090F84 = (do {
       r16_34 \<leftarrow> reg K 16;
       let t0 = (of_bool (0 \<le>s r16_34) :: u32);
       (if t0 \<noteq> 0 then L_80090F90 else do { setr K 16 0; L_80090F90 })
     });
     let L_80090F68 = (do {
       r29_35 \<leftarrow> reg K 29;
       v36 \<leftarrow> r16 K (r29_35 + 18);
       setr K 2 v36;
       r2_37 \<leftarrow> reg K 2;
       r16_38 \<leftarrow> reg K 16;
       setr K 16 (r2_37 + r16_38);
       r16_39 \<leftarrow> reg K 16;
       let t0 = (of_bool (r16_39 <s 128) :: u32);
       (if t0 \<noteq> 0 then L_80090F84 else do { setr K 16 127; L_80090F84 })
     });
     let L_80090F5C = (do {
       r17_40 \<leftarrow> reg K 17;
       let t0 = (of_bool (0 \<le>s r17_40) :: u32);
       (if t0 \<noteq> 0 then L_80090F68 else do { setr K 17 0; L_80090F68 })
     });
     let L_80090EC4 = (sequencer_channel_pitch_slide_tick_l67 K L_80091008 L_80090F5C);
     r4_71 \<leftarrow> reg K 4;
     setr K 2 (shl r4_71 16);
     setr K 3 kSeqPtrArray;
     r2_72 \<leftarrow> reg K 2;
     setr K 2 (sar 14 r2_72);
     r2_73 \<leftarrow> reg K 2;
     r3_74 \<leftarrow> reg K 3;
     setr K 8 (r2_73 + r3_74);
     r5_75 \<leftarrow> reg K 5;
     setr K 3 (shl r5_75 16);
     r3_76 \<leftarrow> reg K 3;
     setr K 3 (sar 16 r3_76);
     r3_77 \<leftarrow> reg K 3;
     setr K 2 (shl r3_77 1);
     r2_78 \<leftarrow> reg K 2;
     setr K 2 (r2_78 + r3_77);
     r2_79 \<leftarrow> reg K 2;
     setr K 2 (shl r2_79 2);
     r2_80 \<leftarrow> reg K 2;
     setr K 2 (r2_80 - r3_77);
     r2_81 \<leftarrow> reg K 2;
     setr K 7 (shl r2_81 4);
     setr K 21 r4_71;
     r8_82 \<leftarrow> reg K 8;
     v83 \<leftarrow> r32 K (r8_82 + 0);
     setr K 3 v83;
     setr K 20 r5_75;
     r3_84 \<leftarrow> reg K 3;
     r7_85 \<leftarrow> reg K 7;
     setr K 18 (r3_84 + r7_85);
     r18_86 \<leftarrow> reg K 18;
     v87 \<leftarrow> r32 K (r18_86 + 160);
     setr K 2 v87;
     v88 \<leftarrow> r32 K (r18_86 + 156);
     setr K 3 v88;
     r2_89 \<leftarrow> reg K 2;
     setr K 6 (r2_89 + 1);
     r3_90 \<leftarrow> reg K 3;
     r6_91 \<leftarrow> reg K 6;
     let t0 = (of_bool (r3_90 <s r6_91) :: u32);
     w32 K (r18_86 + 160) r6_91;
     (if \<not> (t0 \<noteq> 0) then L_80090EC4
      else do {
        v92 \<leftarrow> r32 K (r8_82 + 0);
        setr K 2 v92;
        r2_93 \<leftarrow> reg K 2;
        setr K 2 (r7_85 + r2_93);
        L_80090FF8
      })
   })"

definition sequencer_channel_envelope_ramp_tick_l388 :: "'c core_ops \<Rightarrow> ('c, unit)
    state" where
  "sequencer_channel_envelope_ramp_tick_l388 K = do {
     r3_1 \<leftarrow> reg K 3;
     v2 \<leftarrow> r32 K (r3_1 + 152);
     setr K 2 v2;
     setr K 4 (NOT 0x80);
     r2_3 \<leftarrow> reg K 2;
     r4_4 \<leftarrow> reg K 4;
     setr K 2 (r2_3 AND r4_4);
     r2_5 \<leftarrow> reg K 2;
     w32 K (r3_1 + 152) r2_5
   }"

definition sequencer_channel_envelope_ramp_tick_l368 :: "'c core_ops \<Rightarrow> ('c, 'a) state
    \<Rightarrow> ('c, 'a) state" where
  "sequencer_channel_envelope_ramp_tick_l368 K L_80092284 = do {
     r6_6 \<leftarrow> reg K 6;
     setr K 6 (shl r6_6 16);
     setr K 2 kSeqPtrArray;
     r6_7 \<leftarrow> reg K 6;
     setr K 6 (sar 14 r6_7);
     r6_8 \<leftarrow> reg K 6;
     r2_9 \<leftarrow> reg K 2;
     setr K 6 (r6_8 + r2_9);
     r5_10 \<leftarrow> reg K 5;
     setr K 2 (shl r5_10 16);
     r2_11 \<leftarrow> reg K 2;
     setr K 2 (sar 16 r2_11);
     r2_12 \<leftarrow> reg K 2;
     setr K 3 (shl r2_12 1);
     r3_13 \<leftarrow> reg K 3;
     setr K 3 (r3_13 + r2_12);
     r3_14 \<leftarrow> reg K 3;
     setr K 3 (shl r3_14 2);
     r3_15 \<leftarrow> reg K 3;
     setr K 3 (r3_15 - r2_12);
     r6_16 \<leftarrow> reg K 6;
     v17 \<leftarrow> r32 K (r6_16 + 0);
     setr K 5 v17;
     r3_18 \<leftarrow> reg K 3;
     setr K 3 (shl r3_18 4);
     r3_19 \<leftarrow> reg K 3;
     r5_20 \<leftarrow> reg K 5;
     setr K 5 (r3_19 + r5_20);
     r5_21 \<leftarrow> reg K 5;
     v22 \<leftarrow> r32 K (r5_21 + 152);
     setr K 2 v22;
     setr K 4 (NOT 0x40);
     r2_23 \<leftarrow> reg K 2;
     r4_24 \<leftarrow> reg K 4;
     setr K 2 (r2_23 AND r4_24);
     r2_25 \<leftarrow> reg K 2;
     w32 K (r5_21 + 152) r2_25;
     v26 \<leftarrow> r32 K (r6_16 + 0);
     setr K 2 v26;
     r2_27 \<leftarrow> reg K 2;
     setr K 3 (r3_19 + r2_27);
     L_80092284
   }"

definition sequencer_channel_envelope_ramp_tick_l352 :: "'c core_ops \<Rightarrow> ('c, unit)
    state \<Rightarrow> ('c, unit) state" where
  "sequencer_channel_envelope_ramp_tick_l352 K L_80092230 = do {
     r7_28 \<leftarrow> reg K 7;
     v29 \<leftarrow> r32 K (r7_28 + 168);
     setr K 2 v29;
     r2_30 \<leftarrow> reg K 2;
     let t0 = (of_bool (r2_30 = 0) :: u32);
     (if t0 \<noteq> 0 then L_80092230
      else do {
        v31 \<leftarrow> r32 K (r7_28 + 148);
        setr K 3 v31;
        v32 \<leftarrow> r32 K (r7_28 + 172);
        setr K 2 v32;
        r3_33 \<leftarrow> reg K 3;
        r2_34 \<leftarrow> reg K 2;
        let t0 = (of_bool (r3_33 \<noteq> r2_34) :: u32);
        (if t0 \<noteq> 0 then State_Monad.return () else L_80092230)
      })
   }"

definition sequencer_channel_envelope_ramp_tick_l321 :: "'c core_ops \<Rightarrow> ('c, 'a) state
    \<Rightarrow> ('c, 'a) state" where
  "sequencer_channel_envelope_ramp_tick_l321 K L_8009220C = do {
     r7_35 \<leftarrow> reg K 7;
     v36 \<leftarrow> r16s K (r7_35 + 80);
     setr K 2 v36;
     v37 \<leftarrow> r32 K (r7_35 + 148);
     setr K 3 v37;
     r2_38 \<leftarrow> reg K 2;
     r3_39 \<leftarrow> reg K 3;
     let p0 = (scast r2_38 :: 64 word) * (scast r3_39 :: 64 word);
     setr K 33 (ucast p0 :: u32);
     setr K 32 (ucast (drop_bit 32 p0) :: u32);
     v40 \<leftarrow> r32 K (0x80100000 + 19500);
     setr K 4 v40;
     r33_41 \<leftarrow> reg K 33;
     setr K 2 r33_41;
     r2_42 \<leftarrow> reg K 2;
     setr K 3 (shl r2_42 2);
     r3_43 \<leftarrow> reg K 3;
     setr K 3 (r3_43 + r2_42);
     r3_44 \<leftarrow> reg K 3;
     setr K 3 (shl r3_44 1);
     r4_45 \<leftarrow> reg K 4;
     setr K 2 (shl r4_45 4);
     r2_46 \<leftarrow> reg K 2;
     setr K 2 (r2_46 - r4_45);
     r2_47 \<leftarrow> reg K 2;
     setr K 2 (shl r2_47 2);
     r3_48 \<leftarrow> reg K 3;
     r2_49 \<leftarrow> reg K 2;
     guest_divide K False r3_48 r2_49;
     r2_50 \<leftarrow> reg K 2;
     only_if (r2_50 = 0) (guest_break K 7168);
     r33_51 \<leftarrow> reg K 33;
     setr K 3 r33_51;
     r7_52 \<leftarrow> reg K 7;
     r3_53 \<leftarrow> reg K 3;
     w16 K (r7_52 + 84) r3_53;
     setr K 3 (shl r3_53 16);
     r3_54 \<leftarrow> reg K 3;
     let t0 = (of_bool (0 <s r3_54) :: u32);
     setr K 2 1;
     (if t0 \<noteq> 0 then L_8009220C
      else do { r2_55 \<leftarrow> reg K 2; w16 K (r7_52 + 84) r2_55; L_8009220C })
   }"

definition sequencer_channel_envelope_ramp_tick_l312 :: "'c core_ops \<Rightarrow> ('c, 'a) state
    \<Rightarrow> ('c, 'a) state" where
  "sequencer_channel_envelope_ramp_tick_l312 K L_800921B0 = do {
     r2_56 \<leftarrow> reg K 2;
     let t0 = (of_bool (r2_56 = 0) :: u32);
     (if t0 \<noteq> 0 then L_800921B0
      else do {
        r7_57 \<leftarrow> reg K 7;
        r8_58 \<leftarrow> reg K 8;
        w32 K (r7_57 + 148) r8_58;
        L_800921B0
      })
   }"

definition sequencer_channel_envelope_ramp_tick :: "'c core_ops \<Rightarrow> ('c, unit) state"
    where
  "sequencer_channel_envelope_ramp_tick K = do {
     let L_80092284 = (sequencer_channel_envelope_ramp_tick_l388 K);
     let L_80092230 = (sequencer_channel_envelope_ramp_tick_l368 K L_80092284);
     let L_8009220C = (sequencer_channel_envelope_ramp_tick_l352 K L_80092230);
     let L_800921B0 = (sequencer_channel_envelope_ramp_tick_l321 K L_8009220C);
     let L_800921A4 = (sequencer_channel_envelope_ramp_tick_l312 K L_800921B0);
     let L_8009218C = (do {
       r3_59 \<leftarrow> reg K 3;
       r8_60 \<leftarrow> reg K 8;
       setr K 2 (of_bool (r3_59 < r8_60) :: u32);
       r2_61 \<leftarrow> reg K 2;
       let t0 = (of_bool (r2_61 = 0) :: u32);
       r4_62 \<leftarrow> reg K 4;
       setr K 2 (r3_59 - r4_62);
       (if t0 \<noteq> 0 then L_800921B0
        else do {
          r7_63 \<leftarrow> reg K 7;
          v64 \<leftarrow> r32 K (r7_63 + 172);
          setr K 8 v64;
          r2_65 \<leftarrow> reg K 2;
          w32 K (r7_63 + 148) r2_65;
          r8_66 \<leftarrow> reg K 8;
          setr K 2 (of_bool (r8_66 < r2_65) :: u32);
          L_800921A4
        })
     });
     let L_80092168 = (do {
       r7_67 \<leftarrow> reg K 7;
       v68 \<leftarrow> r32 K (r7_67 + 148);
       setr K 3 v68;
       v69 \<leftarrow> r32 K (r7_67 + 172);
       setr K 8 v69;
       r8_70 \<leftarrow> reg K 8;
       r3_71 \<leftarrow> reg K 3;
       setr K 2 (of_bool (r8_70 < r3_71) :: u32);
       r2_72 \<leftarrow> reg K 2;
       let t0 = (of_bool (r2_72 = 0) :: u32);
       r4_73 \<leftarrow> reg K 4;
       setr K 2 (r3_71 + r4_73);
       (if t0 \<noteq> 0 then L_8009218C
        else do {
          r2_74 \<leftarrow> reg K 2;
          w32 K (r7_67 + 148) r2_74;
          setr K 2 (of_bool (r2_74 < r8_70) :: u32);
          L_800921A4
        })
     });
     let L_80092160 = (do {
       r7_75 \<leftarrow> reg K 7;
       r2_76 \<leftarrow> reg K 2;
       w32 K (r7_75 + 148) r2_76;
       L_800921B0
     });
     let L_800920F8 = (do {
       r7_77 \<leftarrow> reg K 7;
       v78 \<leftarrow> r16s K (r7_77 + 78);
       setr K 4 v78;
       r4_79 \<leftarrow> reg K 4;
       let t0 = (of_bool (r4_79 \<le>s 0) :: u32);
       (if t0 \<noteq> 0 then L_80092168
        else do {
          r2_80 \<leftarrow> reg K 2;
          guest_divide K True r2_80 r4_79;
          r4_81 \<leftarrow> reg K 4;
          only_if (r4_81 = 0) (guest_break K 7168);
          r4_82 \<leftarrow> reg K 4;
          r2_83 \<leftarrow> reg K 2;
          only_if (r4_82 = 0xFFFFFFFF \<and> r2_83 = 0x80000000) (guest_break K 6144);
          r32_84 \<leftarrow> reg K 32;
          setr K 2 r32_84;
          r2_85 \<leftarrow> reg K 2;
          let t0 = (of_bool (r2_85 \<noteq> 0) :: u32);
          (if t0 \<noteq> 0 then State_Monad.return ()
           else do {
             r7_86 \<leftarrow> reg K 7;
             v87 \<leftarrow> r32 K (r7_86 + 148);
             setr K 3 v87;
             v88 \<leftarrow> r32 K (r7_86 + 172);
             setr K 4 v88;
             r4_89 \<leftarrow> reg K 4;
             r3_90 \<leftarrow> reg K 3;
             setr K 2 (of_bool (r4_89 < r3_90) :: u32);
             r2_91 \<leftarrow> reg K 2;
             let t0 = (of_bool (r2_91 \<noteq> 0) :: u32);
             setr K 2 (r3_90 - 1);
             (if t0 \<noteq> 0 then L_80092160
              else do {
                setr K 2 (of_bool (r3_90 < r4_89) :: u32);
                r2_92 \<leftarrow> reg K 2;
                let t0 = (of_bool (r2_92 = 0) :: u32);
                setr K 2 (r3_90 + 1);
                (if t0 \<noteq> 0 then L_800921B0 else L_80092160)
              })
           })
        })
     });
     r4_93 \<leftarrow> reg K 4;
     setr K 2 (shl r4_93 16);
     setr K 3 kSeqPtrArray;
     r2_94 \<leftarrow> reg K 2;
     setr K 2 (sar 14 r2_94);
     r2_95 \<leftarrow> reg K 2;
     r3_96 \<leftarrow> reg K 3;
     setr K 9 (r2_95 + r3_96);
     r5_97 \<leftarrow> reg K 5;
     setr K 3 (shl r5_97 16);
     r3_98 \<leftarrow> reg K 3;
     setr K 3 (sar 16 r3_98);
     r3_99 \<leftarrow> reg K 3;
     setr K 2 (shl r3_99 1);
     r2_100 \<leftarrow> reg K 2;
     setr K 2 (r2_100 + r3_99);
     r2_101 \<leftarrow> reg K 2;
     setr K 2 (shl r2_101 2);
     r2_102 \<leftarrow> reg K 2;
     setr K 2 (r2_102 - r3_99);
     r2_103 \<leftarrow> reg K 2;
     setr K 8 (shl r2_103 4);
     r9_104 \<leftarrow> reg K 9;
     v105 \<leftarrow> r32 K (r9_104 + 0);
     setr K 3 v105;
     setr K 6 r4_93;
     r3_106 \<leftarrow> reg K 3;
     r8_107 \<leftarrow> reg K 8;
     setr K 7 (r3_106 + r8_107);
     r7_108 \<leftarrow> reg K 7;
     v109 \<leftarrow> r32 K (r7_108 + 168);
     setr K 2 v109;
     r2_110 \<leftarrow> reg K 2;
     setr K 2 (r2_110 - 1);
     r2_111 \<leftarrow> reg K 2;
     let t0 = (of_bool (0 \<le>s r2_111) :: u32);
     w32 K (r7_108 + 168) r2_111;
     (if t0 \<noteq> 0 then L_800920F8
      else do {
        v112 \<leftarrow> r32 K (r9_104 + 0);
        setr K 3 v112;
        r3_113 \<leftarrow> reg K 3;
        setr K 3 (r8_107 + r3_113);
        r3_114 \<leftarrow> reg K 3;
        v115 \<leftarrow> r32 K (r3_114 + 152);
        setr K 2 v115;
        setr K 4 (NOT 0x40);
        r2_116 \<leftarrow> reg K 2;
        r4_117 \<leftarrow> reg K 4;
        setr K 2 (r2_116 AND r4_117);
        r2_118 \<leftarrow> reg K 2;
        w32 K (r3_114 + 152) r2_118;
        v119 \<leftarrow> r32 K (r9_104 + 0);
        setr K 3 v119;
        r3_120 \<leftarrow> reg K 3;
        setr K 3 (r8_107 + r3_120);
        L_80092284
      })
   }"

section \<open>\<open>game/audio/sequencer_voice_alloc.cpp\<close>\<close>

definition sequencer_voice_allocate_or_steal_l110 :: "'c core_ops \<Rightarrow> u32 \<Rightarrow>
    ('c, 'a + string) state" where
  "sequencer_voice_allocate_or_steal_l110 K t0 = (if t0 \<noteq> 0 then State_Monad.return (Inr
      ''L_800942B4'')
    else do {
      setr K 6 (shl 32784 16);
      r6_56 \<leftarrow> reg K 6;
      r3_57 \<leftarrow> reg K 3;
      setr K 6 (r6_56 + r3_57);
      r6_58 \<leftarrow> reg K 6;
      v59 \<leftarrow> r16 K (r6_58 + 21710);
      setr K 6 v59;
      r6_60 \<leftarrow> reg K 6;
      setr K 5 (r6_60 AND 65535);
      r5_61 \<leftarrow> reg K 5;
      r4_62 \<leftarrow> reg K 4;
      setr K 2 (of_bool (r5_61 < r4_62) :: u32);
      r2_63 \<leftarrow> reg K 2;
      r0_64 \<leftarrow> reg K 0;
      let t0 = (of_bool (r2_63 = r0_64) :: u32);
      r10_65 \<leftarrow> reg K 10;
      setr K 10 (r10_65 + 1);
      (if t0 \<noteq> 0 then State_Monad.return (Inr ''L_80094280'')
       else do {
         setr K 8 (shl 32784 16);
         r8_66 \<leftarrow> reg K 8;
         setr K 8 (r8_66 + r3_57);
         r8_67 \<leftarrow> reg K 8;
         v68 \<leftarrow> r16 K (r8_67 + 21706);
         setr K 8 v68;
         setr K 12 (r6_60 + r0_64);
         State_Monad.return (Inr ''L_800942B0'')
       })
    })"

definition sequencer_voice_allocate_or_steal_l130 :: "'c core_ops \<Rightarrow> ('c, 'a + string)
    state" where
  "sequencer_voice_allocate_or_steal_l130 K = do {
     r5_69 \<leftarrow> reg K 5;
     r4_70 \<leftarrow> reg K 4;
     let t0 = (of_bool (r5_69 \<noteq> r4_70) :: u32);
     (if t0 \<noteq> 0 then State_Monad.return (Inr ''L_800942B4'')
      else do {
        setr K 2 (shl 32784 16);
        r2_71 \<leftarrow> reg K 2;
        r3_72 \<leftarrow> reg K 3;
        setr K 2 (r2_71 + r3_72);
        r2_73 \<leftarrow> reg K 2;
        v74 \<leftarrow> r16 K (r2_73 + 21706);
        setr K 2 (as_s16 v74);
        setr K 1 (shl 32784 16);
        r1_75 \<leftarrow> reg K 1;
        setr K 1 (r1_75 + r3_72);
        r1_76 \<leftarrow> reg K 1;
        v77 \<leftarrow> r16 K (r1_76 + 21706);
        setr K 3 v77;
        r8_78 \<leftarrow> reg K 8;
        r2_79 \<leftarrow> reg K 2;
        setr K 2 (of_bool (r8_78 <s r2_79) :: u32);
        r2_80 \<leftarrow> reg K 2;
        r0_81 \<leftarrow> reg K 0;
        let t0 = (of_bool (r2_80 = r0_81) :: u32);
        (if t0 \<noteq> 0 then State_Monad.return (Inr ''L_800942B4'')
         else do {
           r3_82 \<leftarrow> reg K 3;
           setr K 8 (r3_82 + r0_81);
           State_Monad.return (Inr ''L_800942B0'')
         })
      })
   }"

definition sequencer_voice_allocate_or_steal_l153 :: "'c core_ops \<Rightarrow> ('c, 'a + string)
    state" where
  "sequencer_voice_allocate_or_steal_l153 K = do {
     r7_85 \<leftarrow> reg K 7;
     setr K 7 (r7_85 + 1);
     r7_86 \<leftarrow> reg K 7;
     setr K 2 (r7_86 AND 255);
     r2_87 \<leftarrow> reg K 2;
     r14_88 \<leftarrow> reg K 14;
     setr K 2 (of_bool (r2_87 <s r14_88) :: u32);
     r2_89 \<leftarrow> reg K 2;
     r0_90 \<leftarrow> reg K 0;
     let t0 = (of_bool (r2_89 \<noteq> r0_90) :: u32);
     setr K 3 (r7_86 AND 255);
     (if t0 \<noteq> 0 then State_Monad.return (Inr ''L_80094198'')
      else State_Monad.return (Inr ''L_800942C8''))
   }"

definition sequencer_voice_allocate_or_steal_l164 :: "'c core_ops \<Rightarrow> ('c, 'a + string)
    state" where
  "sequencer_voice_allocate_or_steal_l164 K = do {
     r11_91 \<leftarrow> reg K 11;
     setr K 3 (r11_91 AND 255);
     r0_92 \<leftarrow> reg K 0;
     setr K 2 (r0_92 + 99);
     r3_93 \<leftarrow> reg K 3;
     r2_94 \<leftarrow> reg K 2;
     let t0 = (of_bool (r3_93 \<noteq> r2_94) :: u32);
     r10_95 \<leftarrow> reg K 10;
     setr K 2 (r10_95 AND 255);
     (if t0 \<noteq> 0 then State_Monad.return (Inr ''L_800942E8'')
      else do {
        r2_96 \<leftarrow> reg K 2;
        let t0 = (of_bool (r2_96 \<noteq> r0_92) :: u32);
        r9_97 \<leftarrow> reg K 9;
        setr K 11 (r9_97 + r0_92);
        (if t0 \<noteq> 0 then State_Monad.return (Inr ''L_800942E8'')
         else do {
           setr K 11 (shl 32784 16);
           r11_98 \<leftarrow> reg K 11;
           v99 \<leftarrow> r8 K (r11_98 + 23788);
           setr K 11 v99;
           State_Monad.return (Inr ''L_800942E8'')
         })
      })
   }"

definition sequencer_voice_allocate_or_steal_l183 :: "'c core_ops \<Rightarrow> ('c, 'a + string)
    state" where
  "sequencer_voice_allocate_or_steal_l183 K = do {
     setr K 3 (shl 32784 16);
     r3_100 \<leftarrow> reg K 3;
     v101 \<leftarrow> r8s K (r3_100 + 23788);
     setr K 3 v101;
     r11_102 \<leftarrow> reg K 11;
     setr K 2 (r11_102 AND 255);
     r2_103 \<leftarrow> reg K 2;
     r3_104 \<leftarrow> reg K 3;
     setr K 2 (of_bool (r2_103 <s r3_104) :: u32);
     r2_105 \<leftarrow> reg K 2;
     r0_106 \<leftarrow> reg K 0;
     let t0 = (of_bool (r2_105 = r0_106) :: u32);
     (if t0 \<noteq> 0 then State_Monad.return (Inr ''L_800943B8'')
      else do {
        let t0 = (of_bool (r3_104 \<le>s 0) :: u32);
        setr K 7 (r0_106 + r0_106);
        (if t0 \<noteq> 0 then State_Monad.return (Inr ''L_80094368'')
         else do {
           setr K 8 (r0_106 + 1);
           setr K 6 (shl 32779 16);
           r6_107 \<leftarrow> reg K 6;
           v108 \<leftarrow> r32 K (r6_107 + (-15372));
           setr K 6 v108;
           setr K 5 (r3_104 + r0_106);
           r7_109 \<leftarrow> reg K 7;
           setr K 4 (r7_109 AND 255);
           State_Monad.return (Inr ''L_8009431C'')
         })
      })
   }"

definition sequencer_voice_allocate_or_steal_l206 :: "'c core_ops \<Rightarrow> ('c, 'a + string)
    state" where
  "sequencer_voice_allocate_or_steal_l206 K = do {
     r8_110 \<leftarrow> reg K 8;
     r4_111 \<leftarrow> reg K 4;
     setr K 2 (shl r8_110 (unat (r4_111 AND 31)));
     r6_112 \<leftarrow> reg K 6;
     r2_113 \<leftarrow> reg K 2;
     setr K 2 (r6_112 AND r2_113);
     r2_114 \<leftarrow> reg K 2;
     r0_115 \<leftarrow> reg K 0;
     let t0 = (of_bool (r2_114 \<noteq> r0_115) :: u32);
     setr K 3 (shl r4_111 3);
     (if t0 \<noteq> 0 then State_Monad.return (Inr ''L_80094354'')
      else do {
        r3_116 \<leftarrow> reg K 3;
        setr K 3 (r3_116 - r4_111);
        r3_117 \<leftarrow> reg K 3;
        setr K 3 (shl r3_117 3);
        setr K 2 (shl 32784 16);
        r2_118 \<leftarrow> reg K 2;
        r3_119 \<leftarrow> reg K 3;
        setr K 2 (r2_118 + r3_119);
        r2_120 \<leftarrow> reg K 2;
        v121 \<leftarrow> r16 K (r2_120 + 21706);
        setr K 2 v121;
        r2_122 \<leftarrow> reg K 2;
        setr K 2 (r2_122 + 1);
        setr K 1 (shl 32784 16);
        r1_123 \<leftarrow> reg K 1;
        setr K 1 (r1_123 + r3_119);
        r1_124 \<leftarrow> reg K 1;
        r2_125 \<leftarrow> reg K 2;
        w16 K (r1_124 + 21706) r2_125;
        State_Monad.return (Inr ''L_80094354'')
      })
   }"

definition sequencer_voice_allocate_or_steal_l225 :: "'c core_ops \<Rightarrow> ('c, 'a + string)
    state" where
  "sequencer_voice_allocate_or_steal_l225 K = do {
     r7_126 \<leftarrow> reg K 7;
     setr K 7 (r7_126 + 1);
     r7_127 \<leftarrow> reg K 7;
     setr K 2 (r7_127 AND 255);
     r2_128 \<leftarrow> reg K 2;
     r5_129 \<leftarrow> reg K 5;
     setr K 2 (of_bool (r2_128 <s r5_129) :: u32);
     r2_130 \<leftarrow> reg K 2;
     r0_131 \<leftarrow> reg K 0;
     let t0 = (of_bool (r2_130 \<noteq> r0_131) :: u32);
     setr K 4 (r7_127 AND 255);
     (if t0 \<noteq> 0 then State_Monad.return (Inr ''L_8009431C'')
      else State_Monad.return (Inr ''L_80094368''))
   }"

definition sequencer_voice_allocate_or_steal_l236 :: "'c core_ops \<Rightarrow> ('c, 'a + string)
    state" where
  "sequencer_voice_allocate_or_steal_l236 K = do {
     r11_132 \<leftarrow> reg K 11;
     setr K 2 (r11_132 AND 255);
     r2_133 \<leftarrow> reg K 2;
     setr K 3 (shl r2_133 3);
     r3_134 \<leftarrow> reg K 3;
     setr K 3 (r3_134 - r2_133);
     r3_135 \<leftarrow> reg K 3;
     setr K 3 (shl r3_135 3);
     setr K 1 (shl 32784 16);
     r1_136 \<leftarrow> reg K 1;
     r3_137 \<leftarrow> reg K 3;
     setr K 1 (r1_136 + r3_137);
     r1_138 \<leftarrow> reg K 1;
     r0_139 \<leftarrow> reg K 0;
     w16 K (r1_138 + 21706) r0_139;
     setr K 2 (shl 32784 16);
     r2_140 \<leftarrow> reg K 2;
     v141 \<leftarrow> r8 K (r2_140 + 23815);
     setr K 2 v141;
     setr K 1 (shl 32784 16);
     r1_142 \<leftarrow> reg K 1;
     setr K 1 (r1_142 + r3_137);
     r1_143 \<leftarrow> reg K 1;
     w16 K (r1_143 + 21746) r0_139;
     setr K 1 (shl 32784 16);
     r1_144 \<leftarrow> reg K 1;
     setr K 1 (r1_144 + r3_137);
     r1_145 \<leftarrow> reg K 1;
     w16 K (r1_145 + 21734) r0_139;
     r2_146 \<leftarrow> reg K 2;
     setr K 2 (shl r2_146 24);
     r2_147 \<leftarrow> reg K 2;
     setr K 2 (sar 24 r2_147);
     setr K 1 (shl 32784 16);
     r1_148 \<leftarrow> reg K 1;
     setr K 1 (r1_148 + r3_137);
     r1_149 \<leftarrow> reg K 1;
     r2_150 \<leftarrow> reg K 2;
     w16 K (r1_149 + 21730) r2_150;
     State_Monad.return (Inr ''L_800943B8'')
   }"

definition sequencer_voice_allocate_or_steal :: "'c core_ops \<Rightarrow> ('c, unit) state" where
  "sequencer_voice_allocate_or_steal K = loop (\<lambda>pc1. (if pc1 = ''start'' then do {
     r0_1 \<leftarrow> reg K 0;
     setr K 11 (r0_1 + 99);
     setr K 12 (r0_1 OR 65535);
     setr K 10 (r0_1 + r0_1);
     setr K 8 (r0_1 + r0_1);
     setr K 9 (r0_1 + 99);
     setr K 7 (r0_1 + r0_1);
     setr K 2 (shl 32784 16);
     r2_2 \<leftarrow> reg K 2;
     v3 \<leftarrow> r8 K (r2_2 + 23815);
     setr K 2 v3;
     setr K 3 (shl 32784 16);
     r3_4 \<leftarrow> reg K 3;
     v5 \<leftarrow> r8s K (r3_4 + 23788);
     setr K 3 v5;
     r2_6 \<leftarrow> reg K 2;
     setr K 2 (shl r2_6 24);
     r3_7 \<leftarrow> reg K 3;
     let t0 = (of_bool (r3_7 \<le>s 0) :: u32);
     r2_8 \<leftarrow> reg K 2;
     setr K 13 (sar 24 r2_8);
     (if t0 \<noteq> 0 then State_Monad.return (Inr ''L_800942C8'')
      else do {
        setr K 24 (r0_1 + 1);
        setr K 15 (shl 32779 16);
        r15_9 \<leftarrow> reg K 15;
        v10 \<leftarrow> r32 K (r15_9 + (-15372));
        setr K 15 v10;
        setr K 14 (r3_7 + r0_1);
        r7_11 \<leftarrow> reg K 7;
        setr K 3 (r7_11 AND 255);
        State_Monad.return (Inr ''L_80094198'')
      })
   }
    else if pc1 = ''L_80094198'' then do {
      r24_12 \<leftarrow> reg K 24;
      r3_13 \<leftarrow> reg K 3;
      setr K 2 (shl r24_12 (unat (r3_13 AND 31)));
      r15_14 \<leftarrow> reg K 15;
      r2_15 \<leftarrow> reg K 2;
      setr K 2 (r15_14 AND r2_15);
      r2_16 \<leftarrow> reg K 2;
      r0_17 \<leftarrow> reg K 0;
      let t0 = (of_bool (r2_16 \<noteq> r0_17) :: u32);
      setr K 2 (shl r3_13 3);
      (if t0 \<noteq> 0 then State_Monad.return (Inr ''L_800942B4'')
       else do {
         r2_18 \<leftarrow> reg K 2;
         setr K 2 (r2_18 - r3_13);
         r2_19 \<leftarrow> reg K 2;
         setr K 3 (shl r2_19 3);
         setr K 2 (shl 32784 16);
         r2_20 \<leftarrow> reg K 2;
         r3_21 \<leftarrow> reg K 3;
         setr K 2 (r2_20 + r3_21);
         r2_22 \<leftarrow> reg K 2;
         v23 \<leftarrow> r8s K (r2_22 + 21733);
         setr K 2 v23;
         r2_24 \<leftarrow> reg K 2;
         let t0 = (of_bool (r2_24 \<noteq> r0_17) :: u32);
         r7_25 \<leftarrow> reg K 7;
         setr K 2 (r7_25 AND 255);
         (if t0 \<noteq> 0 then State_Monad.return (Inr ''L_800941E8'')
          else do {
            setr K 2 (shl 32784 16);
            r2_26 \<leftarrow> reg K 2;
            setr K 2 (r2_26 + r3_21);
            r2_27 \<leftarrow> reg K 2;
            v28 \<leftarrow> r16 K (r2_27 + 21710);
            setr K 2 v28;
            r2_29 \<leftarrow> reg K 2;
            let t0 = (of_bool (r2_29 \<noteq> r0_17) :: u32);
            setr K 2 (r7_25 AND 255);
            (if t0 \<noteq> 0 then State_Monad.return (Inr ''L_800941E8'')
             else do { setr K 11 (r7_25 + r0_17); State_Monad.return (Inr ''L_800942C8'') })
          })
       })
    }
     else if pc1 = ''L_800941E8'' then do {
       r2_30 \<leftarrow> reg K 2;
       setr K 3 (shl r2_30 3);
       r3_31 \<leftarrow> reg K 3;
       setr K 3 (r3_31 - r2_30);
       r3_32 \<leftarrow> reg K 3;
       setr K 3 (shl r3_32 3);
       r13_33 \<leftarrow> reg K 13;
       setr K 5 (r13_33 AND 65535);
       setr K 6 (shl 32784 16);
       r6_34 \<leftarrow> reg K 6;
       r3_35 \<leftarrow> reg K 3;
       setr K 6 (r6_34 + r3_35);
       r6_36 \<leftarrow> reg K 6;
       v37 \<leftarrow> r16 K (r6_36 + 21730);
       setr K 6 (as_s16 v37);
       setr K 4 (shl 32784 16);
       r4_38 \<leftarrow> reg K 4;
       setr K 4 (r4_38 + r3_35);
       r4_39 \<leftarrow> reg K 4;
       v40 \<leftarrow> r16 K (r4_39 + 21730);
       setr K 4 v40;
       r6_41 \<leftarrow> reg K 6;
       r5_42 \<leftarrow> reg K 5;
       setr K 2 (of_bool (r6_41 <s r5_42) :: u32);
       r2_43 \<leftarrow> reg K 2;
       r0_44 \<leftarrow> reg K 0;
       let t0 = (of_bool (r2_43 = r0_44) :: u32);
       (if t0 \<noteq> 0 then State_Monad.return (Inr ''L_80094244'')
        else do {
          r4_45 \<leftarrow> reg K 4;
          setr K 13 (r4_45 + r0_44);
          r7_46 \<leftarrow> reg K 7;
          setr K 9 (r7_46 + r0_44);
          setr K 12 (shl 32784 16);
          r12_47 \<leftarrow> reg K 12;
          setr K 12 (r12_47 + r3_35);
          r12_48 \<leftarrow> reg K 12;
          v49 \<leftarrow> r16 K (r12_48 + 21710);
          setr K 12 v49;
          setr K 8 (shl 32784 16);
          r8_50 \<leftarrow> reg K 8;
          setr K 8 (r8_50 + r3_35);
          r8_51 \<leftarrow> reg K 8;
          v52 \<leftarrow> r16 K (r8_51 + 21706);
          setr K 8 v52;
          setr K 10 (r0_44 + 1);
          State_Monad.return (Inr ''L_800942B4'')
        })
     }
      else if pc1 = ''L_80094244'' then do {
        r6_53 \<leftarrow> reg K 6;
        r5_54 \<leftarrow> reg K 5;
        let t0 = (of_bool (r6_53 \<noteq> r5_54) :: u32);
        r12_55 \<leftarrow> reg K 12;
        setr K 4 (r12_55 AND 65535);
        sequencer_voice_allocate_or_steal_l110 K t0
      }
       else if pc1 = ''L_80094280'' then sequencer_voice_allocate_or_steal_l130 K
        else if pc1 = ''L_800942B0'' then do {
          r7_83 \<leftarrow> reg K 7;
          r0_84 \<leftarrow> reg K 0;
          setr K 9 (r7_83 + r0_84);
          State_Monad.return (Inr ''L_800942B4'')
        }
         else if pc1 = ''L_800942B4'' then sequencer_voice_allocate_or_steal_l153 K
          else if pc1 = ''L_800942C8'' then sequencer_voice_allocate_or_steal_l164 K
           else if pc1 = ''L_800942E8'' then sequencer_voice_allocate_or_steal_l183 K
            else if pc1 = ''L_8009431C'' then sequencer_voice_allocate_or_steal_l206 K
             else if pc1 = ''L_80094354'' then sequencer_voice_allocate_or_steal_l225 K
              else if pc1 = ''L_80094368'' then sequencer_voice_allocate_or_steal_l236 K
               else do {
                 r11_151 \<leftarrow> reg K 11;
                 setr K 2 (r11_151 AND 255);
                 State_Monad.return (Inl ())
               })) ''start''"

definition nat_voice_allocate_or_steal :: "'c core_ops \<Rightarrow> ('c, unit) state" where
  "nat_voice_allocate_or_steal K = sequencer_voice_allocate_or_steal K"

section \<open>\<open>game/audio/sequencer_voice_state.cpp\<close>\<close>

definition sequencer_voice_state_flush_l118 :: "'c core_ops \<Rightarrow> u32 \<Rightarrow> 'a
    \<Rightarrow> 'b \<Rightarrow> 'd \<Rightarrow> 'e \<Rightarrow> 'f \<Rightarrow> 'g
    \<Rightarrow> 'h \<Rightarrow> 'i \<Rightarrow> 'j \<Rightarrow> 'k \<Rightarrow> 'l
    \<Rightarrow> 'm \<Rightarrow> 'n \<Rightarrow> 'o \<Rightarrow> 'p \<Rightarrow> 'q
    \<Rightarrow> 'r \<Rightarrow> ('c, 's + string \<times> 'a \<times> 'b \<times> 'd \<times>
    'e \<times> 'f \<times> 'g \<times> 'h \<times> 'i \<times> 'j \<times> 'k \<times> 'l
    \<times> 'm \<times> 'n \<times> 'o \<times> 'p \<times> 'q \<times> 'r) state" where
  "sequencer_voice_state_flush_l118 K r3_63 kSpillRa1 kSpillS01 kSpillS11 kSpillS2 kSpillS3
      kSpillS4 kSpillS5 kSpillS6 kSpillS7 kSpillSlot0 kSpillSlot1 kSpillSlot2 kSpillSlot3
      kSpillSlot4 kSpillSlot5 kSpillSlot6 kSpillSlot7 = do {
     r16_65 \<leftarrow> reg K 16;
     setr K 16 (r16_65 + 1);
     r18_66 \<leftarrow> reg K 18;
     r2_67 \<leftarrow> reg K 2;
     setr K 18 (r18_66 AND r2_67);
     r16_68 \<leftarrow> reg K 16;
     setr K 2 (of_bool (r16_68 <s 15) :: u32);
     r2_69 \<leftarrow> reg K 2;
     r0_70 \<leftarrow> reg K 0;
     let t0 = (of_bool (r2_69 \<noteq> r0_70) :: u32);
     setr K 3 (r3_63 + 4);
     (if t0 \<noteq> 0 then State_Monad.return (Inr (''L_800932C0'', kSpillRa1, kSpillS01,
         kSpillS11, kSpillS2, kSpillS3, kSpillS4, kSpillS5, kSpillS6, kSpillS7, kSpillSlot0,
         kSpillSlot1, kSpillSlot2, kSpillSlot3, kSpillSlot4, kSpillSlot5, kSpillSlot6,
         kSpillSlot7))
      else do {
        setr K 2 kBase;
        r2_71 \<leftarrow> reg K 2;
        v72 \<leftarrow> r8s K (r2_71 + kSpuKeyScanCount);
        setr K 2 v72;
        r2_73 \<leftarrow> reg K 2;
        let t0 = (of_bool (r2_73 \<le>s 0) :: u32);
        setr K 16 (r0_70 + r0_70);
        (if t0 \<noteq> 0 then State_Monad.return (Inr (''L_80093368'', kSpillRa1, kSpillS01,
            kSpillS11, kSpillS2, kSpillS3, kSpillS4, kSpillS5, kSpillS6, kSpillS7, kSpillSlot0,
            kSpillSlot1, kSpillSlot2, kSpillSlot3, kSpillSlot4, kSpillSlot5, kSpillSlot6,
            kSpillSlot7))
         else do {
           setr K 19 (r0_70 + 1);
           setr K 20 (r0_70 + 2);
           setr K 17 kBase;
           r17_74 \<leftarrow> reg K 17;
           setr K 17 (r17_74 + kPerVoiceConsumedFlag);
           State_Monad.return (Inr (''L_800932FC'', kSpillRa1, kSpillS01, kSpillS11, kSpillS2,
               kSpillS3, kSpillS4, kSpillS5, kSpillS6, kSpillS7, kSpillSlot0, kSpillSlot1,
               kSpillSlot2, kSpillSlot3, kSpillSlot4, kSpillSlot5, kSpillSlot6, kSpillSlot7))
         })
      })
   }"

definition sequencer_voice_state_flush_l141 :: "'c core_ops \<Rightarrow> 'a \<Rightarrow> 'b
    \<Rightarrow> 'd \<Rightarrow> 'e \<Rightarrow> 'f \<Rightarrow> 'g \<Rightarrow> 'h
    \<Rightarrow> 'i \<Rightarrow> 'j \<Rightarrow> 'k \<Rightarrow> 'l \<Rightarrow> 'm
    \<Rightarrow> 'n \<Rightarrow> 'o \<Rightarrow> 'p \<Rightarrow> 'q \<Rightarrow> 'r
    \<Rightarrow> ('c, 's + string \<times> 'a \<times> 'b \<times> 'd \<times> 'e \<times> 'f
    \<times> 'g \<times> 'h \<times> 'i \<times> 'j \<times> 'k \<times> 'l \<times> 'm \<times>
    'n \<times> 'o \<times> 'p \<times> 'q \<times> 'r) state" where
  "sequencer_voice_state_flush_l141 K kSpillRa1 kSpillS01 kSpillS11 kSpillS2 kSpillS3 kSpillS4
      kSpillS5 kSpillS6 kSpillS7 kSpillSlot0 kSpillSlot1 kSpillSlot2 kSpillSlot3 kSpillSlot4
      kSpillSlot5 kSpillSlot6 kSpillSlot7 = do {
     r19_75 \<leftarrow> reg K 19;
     r16_76 \<leftarrow> reg K 16;
     setr K 5 (shl r19_75 (unat (r16_76 AND 31)));
     r18_77 \<leftarrow> reg K 18;
     r5_78 \<leftarrow> reg K 5;
     setr K 2 (r18_77 AND r5_78);
     r2_79 \<leftarrow> reg K 2;
     r0_80 \<leftarrow> reg K 0;
     let t0 = (of_bool (r2_79 = r0_80) :: u32);
     (if t0 \<noteq> 0 then State_Monad.return (Inr (''L_80093350'', kSpillRa1, kSpillS01,
         kSpillS11, kSpillS2, kSpillS3, kSpillS4, kSpillS5, kSpillS6, kSpillS7, kSpillSlot0,
         kSpillSlot1, kSpillSlot2, kSpillSlot3, kSpillSlot4, kSpillSlot5, kSpillSlot6,
         kSpillSlot7))
      else do {
        r17_81 \<leftarrow> reg K 17;
        v82 \<leftarrow> r8s K (r17_81 + 0);
        setr K 2 v82;
        r2_83 \<leftarrow> reg K 2;
        r20_84 \<leftarrow> reg K 20;
        let t0 = (of_bool (r2_83 \<noteq> r20_84) :: u32);
        setr K 2 (of_bool (r16_76 <s 16) :: u32);
        (if t0 \<noteq> 0 then State_Monad.return (Inr (''L_8009334C'', kSpillRa1, kSpillS01,
            kSpillS11, kSpillS2, kSpillS3, kSpillS4, kSpillS5, kSpillS6, kSpillS7, kSpillSlot0,
            kSpillSlot1, kSpillSlot2, kSpillSlot3, kSpillSlot4, kSpillSlot5, kSpillSlot6,
            kSpillSlot7))
         else do {
           r2_85 \<leftarrow> reg K 2;
           let t0 = (of_bool (r2_85 \<noteq> r0_80) :: u32);
           setr K 2 (r0_80 + r0_80);
           (if t0 \<noteq> 0 then State_Monad.return (Inr (''L_80093330'', kSpillRa1, kSpillS01,
               kSpillS11, kSpillS2, kSpillS3, kSpillS4, kSpillS5, kSpillS6, kSpillS7, kSpillSlot0,
               kSpillSlot1, kSpillSlot2, kSpillSlot3, kSpillSlot4, kSpillSlot5, kSpillSlot6,
               kSpillSlot7))
            else do {
              setr K 5 (r0_80 + r0_80);
              setr K 2 (r16_76 + (-16));
              r2_86 \<leftarrow> reg K 2;
              setr K 2 (shl r19_75 (unat (r2_86 AND 31)));
              State_Monad.return (Inr (''L_80093330'', kSpillRa1, kSpillS01, kSpillS11, kSpillS2,
                  kSpillS3, kSpillS4, kSpillS5, kSpillS6, kSpillS7, kSpillSlot0, kSpillSlot1,
                  kSpillSlot2, kSpillSlot3, kSpillSlot4, kSpillSlot5, kSpillSlot6, kSpillSlot7))
            })
         })
      })
   }"

definition sequencer_voice_state_flush_l168 :: "'c core_ops \<Rightarrow> 'a \<Rightarrow> 'b
    \<Rightarrow> 'd \<Rightarrow> 'e \<Rightarrow> 'f \<Rightarrow> 'g \<Rightarrow> 'h
    \<Rightarrow> 'i \<Rightarrow> 'j \<Rightarrow> 'k \<Rightarrow> 'l \<Rightarrow> 'm
    \<Rightarrow> 'n \<Rightarrow> 'o \<Rightarrow> 'p \<Rightarrow> 'q \<Rightarrow> 'r
    \<Rightarrow> ('c, 's + string \<times> 'a \<times> 'b \<times> 'd \<times> 'e \<times> 'f
    \<times> 'g \<times> 'h \<times> 'i \<times> 'j \<times> 'k \<times> 'l \<times> 'm \<times>
    'n \<times> 'o \<times> 'p \<times> 'q \<times> 'r) state" where
  "sequencer_voice_state_flush_l168 K kSpillRa1 kSpillS01 kSpillS11 kSpillS2 kSpillS3 kSpillS4
      kSpillS5 kSpillS6 kSpillS7 kSpillSlot0 kSpillSlot1 kSpillSlot2 kSpillSlot3 kSpillSlot4
      kSpillSlot5 kSpillSlot6 kSpillSlot7 = do {
     r0_87 \<leftarrow> reg K 0;
     setr K 4 (r0_87 + r0_87);
     r2_88 \<leftarrow> reg K 2;
     setr K 2 (r2_88 AND 255);
     r2_89 \<leftarrow> reg K 2;
     setr K 2 (shl r2_89 16);
     r5_90 \<leftarrow> reg K 5;
     setr K 5 (shl r5_90 16);
     r5_91 \<leftarrow> reg K 5;
     setr K 5 (sar 16 r5_91);
     setr K 31 0x8009334C;
     r2_92 \<leftarrow> reg K 2;
     r5_93 \<leftarrow> reg K 5;
     setr K 5 (r2_92 OR r5_93);
     call_guest K 0x80097E10;
     State_Monad.return (Inr (''L_8009334C'', kSpillRa1, kSpillS01, kSpillS11, kSpillS2, kSpillS3,
         kSpillS4, kSpillS5, kSpillS6, kSpillS7, kSpillSlot0, kSpillSlot1, kSpillSlot2,
         kSpillSlot3, kSpillSlot4, kSpillSlot5, kSpillSlot6, kSpillSlot7))
   }"

definition sequencer_voice_state_flush_l179 :: "'c core_ops \<Rightarrow> 'a \<Rightarrow> 'b
    \<Rightarrow> 'd \<Rightarrow> 'e \<Rightarrow> 'f \<Rightarrow> 'g \<Rightarrow> 'h
    \<Rightarrow> 'i \<Rightarrow> 'j \<Rightarrow> 'k \<Rightarrow> 'l \<Rightarrow> 'm
    \<Rightarrow> 'n \<Rightarrow> 'o \<Rightarrow> 'p \<Rightarrow> 'q \<Rightarrow> 'r
    \<Rightarrow> ('c, 's + string \<times> 'a \<times> 'b \<times> 'd \<times> 'e \<times> 'f
    \<times> 'g \<times> 'h \<times> 'i \<times> 'j \<times> 'k \<times> 'l \<times> 'm \<times>
    'n \<times> 'o \<times> 'p \<times> 'q \<times> 'r) state" where
  "sequencer_voice_state_flush_l179 K kSpillRa1 kSpillS01 kSpillS11 kSpillS2 kSpillS3 kSpillS4
      kSpillS5 kSpillS6 kSpillS7 kSpillSlot0 kSpillSlot1 kSpillSlot2 kSpillSlot3 kSpillSlot4
      kSpillSlot5 kSpillSlot6 kSpillSlot7 = do {
     setr K 2 kBase;
     r2_96 \<leftarrow> reg K 2;
     v97 \<leftarrow> r8s K (r2_96 + kSpuKeyScanCount);
     setr K 2 v97;
     r16_98 \<leftarrow> reg K 16;
     setr K 16 (r16_98 + 1);
     r16_99 \<leftarrow> reg K 16;
     r2_100 \<leftarrow> reg K 2;
     setr K 2 (of_bool (r16_99 <s r2_100) :: u32);
     r2_101 \<leftarrow> reg K 2;
     r0_102 \<leftarrow> reg K 0;
     let t0 = (of_bool (r2_101 \<noteq> r0_102) :: u32);
     r17_103 \<leftarrow> reg K 17;
     setr K 17 (r17_103 + 56);
     (if t0 \<noteq> 0 then State_Monad.return (Inr (''L_800932FC'', kSpillRa1, kSpillS01,
         kSpillS11, kSpillS2, kSpillS3, kSpillS4, kSpillS5, kSpillS6, kSpillS7, kSpillSlot0,
         kSpillSlot1, kSpillSlot2, kSpillSlot3, kSpillSlot4, kSpillSlot5, kSpillSlot6,
         kSpillSlot7))
      else State_Monad.return (Inr (''L_80093368'', kSpillRa1, kSpillS01, kSpillS11, kSpillS2,
          kSpillS3, kSpillS4, kSpillS5, kSpillS6, kSpillS7, kSpillSlot0, kSpillSlot1, kSpillSlot2,
          kSpillSlot3, kSpillSlot4, kSpillSlot5, kSpillSlot6, kSpillSlot7)))
   }"

definition sequencer_voice_state_flush_l193 :: "'c core_ops \<Rightarrow> 'a \<Rightarrow> 'b
    \<Rightarrow> 'd \<Rightarrow> 'e \<Rightarrow> 'f \<Rightarrow> 'g \<Rightarrow> 'h
    \<Rightarrow> 'i \<Rightarrow> 'j \<Rightarrow> 'k \<Rightarrow> 'l \<Rightarrow> 'm
    \<Rightarrow> 'n \<Rightarrow> 'o \<Rightarrow> 'p \<Rightarrow> 'q \<Rightarrow> 'r
    \<Rightarrow> ('c, 's + string \<times> 'a \<times> 'b \<times> 'd \<times> 'e \<times> 'f
    \<times> 'g \<times> 'h \<times> 'i \<times> 'j \<times> 'k \<times> 'l \<times> 'm \<times>
    'n \<times> 'o \<times> 'p \<times> 'q \<times> 'r) state" where
  "sequencer_voice_state_flush_l193 K kSpillRa1 kSpillS01 kSpillS11 kSpillS2 kSpillS3 kSpillS4
      kSpillS5 kSpillS6 kSpillS7 kSpillSlot0 kSpillSlot1 kSpillSlot2 kSpillSlot3 kSpillSlot4
      kSpillSlot5 kSpillSlot6 kSpillSlot7 = do {
     v105 \<leftarrow> r16 K kKonArmedMaskLo;
     setr K 2 v105;
     v106 \<leftarrow> r16 K kActiveVoiceMaskLo;
     setr K 3 v106;
     r0_107 \<leftarrow> reg K 0;
     r2_108 \<leftarrow> reg K 2;
     setr K 2 (NOT (r0_107 OR r2_108));
     r3_109 \<leftarrow> reg K 3;
     r2_110 \<leftarrow> reg K 2;
     setr K 3 (r3_109 AND r2_110);
     v111 \<leftarrow> r16 K kKonArmedMaskHi;
     setr K 2 v111;
     setr K 17 (r0_107 + r0_107);
     r3_112 \<leftarrow> reg K 3;
     w16 K kActiveVoiceMaskLo r3_112;
     v113 \<leftarrow> r16 K kActiveVoiceMaskHi;
     setr K 3 v113;
     r2_114 \<leftarrow> reg K 2;
     setr K 2 (NOT (r0_107 OR r2_114));
     r3_115 \<leftarrow> reg K 3;
     r2_116 \<leftarrow> reg K 2;
     setr K 3 (r3_115 AND r2_116);
     r3_117 \<leftarrow> reg K 3;
     w16 K kActiveVoiceMaskHi r3_117;
     State_Monad.return (Inr (''L_800933B0'', kSpillRa1, kSpillS01, kSpillS11, kSpillS2, kSpillS3,
         kSpillS4, kSpillS5, kSpillS6, kSpillS7, kSpillSlot0, kSpillSlot1, kSpillSlot2,
         kSpillSlot3, kSpillSlot4, kSpillSlot5, kSpillSlot6, kSpillSlot7))
   }"

definition sequencer_voice_state_flush_l205 :: "'c core_ops \<Rightarrow> 'a \<Rightarrow> 'b
    \<Rightarrow> 'd \<Rightarrow> 'e \<Rightarrow> 'f \<Rightarrow> 'g \<Rightarrow> 'h
    \<Rightarrow> 'i \<Rightarrow> 'j \<Rightarrow> 'k \<Rightarrow> 'l \<Rightarrow> 'm
    \<Rightarrow> 'n \<Rightarrow> 'o \<Rightarrow> 'p \<Rightarrow> 'q \<Rightarrow> 'r
    \<Rightarrow> ('c, 's + string \<times> 'a \<times> 'b \<times> 'd \<times> 'e \<times> 'f
    \<times> 'g \<times> 'h \<times> 'i \<times> 'j \<times> 'k \<times> 'l \<times> 'm \<times>
    'n \<times> 'o \<times> 'p \<times> 'q \<times> 'r) state" where
  "sequencer_voice_state_flush_l205 K kSpillRa1 kSpillS01 kSpillS11 kSpillS2 kSpillS3 kSpillS4
      kSpillS5 kSpillS6 kSpillS7 kSpillSlot0 kSpillSlot1 kSpillSlot2 kSpillSlot3 kSpillSlot4
      kSpillSlot5 kSpillSlot6 kSpillSlot7 = do {
     setr K 2 kBase;
     r2_118 \<leftarrow> reg K 2;
     r17_119 \<leftarrow> reg K 17;
     setr K 2 (r2_118 + r17_119);
     r2_120 \<leftarrow> reg K 2;
     v121 \<leftarrow> r16 K (r2_120 + kUnnamedHalfword21734);
     setr K 2 (as_s16 v121);
     r2_122 \<leftarrow> reg K 2;
     r0_123 \<leftarrow> reg K 0;
     let t0 = (of_bool (r2_122 = r0_123) :: u32);
     (if t0 \<noteq> 0 then State_Monad.return (Inr (''L_800933DC'', kSpillRa1, kSpillS01,
         kSpillS11, kSpillS2, kSpillS3, kSpillS4, kSpillS5, kSpillS6, kSpillS7, kSpillSlot0,
         kSpillSlot1, kSpillSlot2, kSpillSlot3, kSpillSlot4, kSpillSlot5, kSpillSlot6,
         kSpillSlot7))
      else do {
        setr K 2 kBase;
        r2_124 \<leftarrow> reg K 2;
        v125 \<leftarrow> r32 K (r2_124 + kUnnamedWord23464);
        setr K 2 v125;
        setr K 31 0x800933DC;
        r16_126 \<leftarrow> reg K 16;
        setr K 4 (r16_126 + r0_123);
        r2_127 \<leftarrow> reg K 2;
        call_guest K r2_127;
        State_Monad.return (Inr (''L_800933DC'', kSpillRa1, kSpillS01, kSpillS11, kSpillS2,
            kSpillS3, kSpillS4, kSpillS5, kSpillS6, kSpillS7, kSpillSlot0, kSpillSlot1,
            kSpillSlot2, kSpillSlot3, kSpillSlot4, kSpillSlot5, kSpillSlot6, kSpillSlot7))
      })
   }"

definition sequencer_voice_state_flush_l220 :: "'c core_ops \<Rightarrow> 'a \<Rightarrow> 'b
    \<Rightarrow> 'd \<Rightarrow> 'e \<Rightarrow> 'f \<Rightarrow> 'g \<Rightarrow> 'h
    \<Rightarrow> 'i \<Rightarrow> 'j \<Rightarrow> 'k \<Rightarrow> 'l \<Rightarrow> 'm
    \<Rightarrow> 'n \<Rightarrow> 'o \<Rightarrow> 'p \<Rightarrow> 'q \<Rightarrow> 'r
    \<Rightarrow> ('c, 's + string \<times> 'a \<times> 'b \<times> 'd \<times> 'e \<times> 'f
    \<times> 'g \<times> 'h \<times> 'i \<times> 'j \<times> 'k \<times> 'l \<times> 'm \<times>
    'n \<times> 'o \<times> 'p \<times> 'q \<times> 'r) state" where
  "sequencer_voice_state_flush_l220 K kSpillRa1 kSpillS01 kSpillS11 kSpillS2 kSpillS3 kSpillS4
      kSpillS5 kSpillS6 kSpillS7 kSpillSlot0 kSpillSlot1 kSpillSlot2 kSpillSlot3 kSpillSlot4
      kSpillSlot5 kSpillSlot6 kSpillSlot7 = do {
     setr K 2 kBase;
     r2_128 \<leftarrow> reg K 2;
     r17_129 \<leftarrow> reg K 17;
     setr K 2 (r2_128 + r17_129);
     r2_130 \<leftarrow> reg K 2;
     v131 \<leftarrow> r16 K (r2_130 + kPerVoiceDispatchLo);
     setr K 2 (as_s16 v131);
     r2_132 \<leftarrow> reg K 2;
     r0_133 \<leftarrow> reg K 0;
     let t0 = (of_bool (r2_132 = r0_133) :: u32);
     (if t0 \<noteq> 0 then State_Monad.return (Inr (''L_80093408'', kSpillRa1, kSpillS01,
         kSpillS11, kSpillS2, kSpillS3, kSpillS4, kSpillS5, kSpillS6, kSpillS7, kSpillSlot0,
         kSpillSlot1, kSpillSlot2, kSpillSlot3, kSpillSlot4, kSpillSlot5, kSpillSlot6,
         kSpillSlot7))
      else do {
        setr K 2 kBase;
        r2_134 \<leftarrow> reg K 2;
        v135 \<leftarrow> r32 K (r2_134 + kUnnamedWord23072);
        setr K 2 v135;
        setr K 31 0x80093408;
        r16_136 \<leftarrow> reg K 16;
        setr K 4 (r16_136 + r0_133);
        r2_137 \<leftarrow> reg K 2;
        call_guest K r2_137;
        State_Monad.return (Inr (''L_80093408'', kSpillRa1, kSpillS01, kSpillS11, kSpillS2,
            kSpillS3, kSpillS4, kSpillS5, kSpillS6, kSpillS7, kSpillSlot0, kSpillSlot1,
            kSpillSlot2, kSpillSlot3, kSpillSlot4, kSpillSlot5, kSpillSlot6, kSpillSlot7))
      })
   }"

definition sequencer_voice_state_flush_l235 :: "'c core_ops \<Rightarrow> 'a \<Rightarrow> 'b
    \<Rightarrow> 'd \<Rightarrow> 'e \<Rightarrow> 'f \<Rightarrow> 'g \<Rightarrow> 'h
    \<Rightarrow> 'i \<Rightarrow> 'j \<Rightarrow> 'k \<Rightarrow> 'l \<Rightarrow> 'm
    \<Rightarrow> 'n \<Rightarrow> 'o \<Rightarrow> 'p \<Rightarrow> 'q \<Rightarrow> 'r
    \<Rightarrow> ('c, 's + string \<times> 'a \<times> 'b \<times> 'd \<times> 'e \<times> 'f
    \<times> 'g \<times> 'h \<times> 'i \<times> 'j \<times> 'k \<times> 'l \<times> 'm \<times>
    'n \<times> 'o \<times> 'p \<times> 'q \<times> 'r) state" where
  "sequencer_voice_state_flush_l235 K kSpillRa1 kSpillS01 kSpillS11 kSpillS2 kSpillS3 kSpillS4
      kSpillS5 kSpillS6 kSpillS7 kSpillSlot0 kSpillSlot1 kSpillSlot2 kSpillSlot3 kSpillSlot4
      kSpillSlot5 kSpillSlot6 kSpillSlot7 = do {
     r16_138 \<leftarrow> reg K 16;
     setr K 16 (r16_138 + 1);
     r16_139 \<leftarrow> reg K 16;
     setr K 2 (of_bool (r16_139 <s 24) :: u32);
     r2_140 \<leftarrow> reg K 2;
     r0_141 \<leftarrow> reg K 0;
     let t0 = (of_bool (r2_140 \<noteq> r0_141) :: u32);
     r17_142 \<leftarrow> reg K 17;
     setr K 17 (r17_142 + 56);
     (if t0 \<noteq> 0 then State_Monad.return (Inr (''L_800933B0'', kSpillRa1, kSpillS01,
         kSpillS11, kSpillS2, kSpillS3, kSpillS4, kSpillS5, kSpillS6, kSpillS7, kSpillSlot0,
         kSpillSlot1, kSpillSlot2, kSpillSlot3, kSpillSlot4, kSpillSlot5, kSpillSlot6,
         kSpillSlot7))
      else do {
        setr K 16 (r0_141 + r0_141);
        setr K 17 kBase;
        r17_143 \<leftarrow> reg K 17;
        setr K 17 (r17_143 + kToneBlockBase);
        setr K 2 kBase;
        r2_144 \<leftarrow> reg K 2;
        setr K 2 (r2_144 + kUnnamedWord23080);
        r2_145 \<leftarrow> reg K 2;
        setr K 23 (r2_145 + 10);
        setr K 22 (r2_145 + 8);
        setr K 21 (r2_145 + 6);
        setr K 20 (r2_145 + 4);
        setr K 19 (r2_145 + 2);
        setr K 18 (r2_145 + r0_141);
        State_Monad.return (Inr (''L_80093444'', kSpillRa1, kSpillS01, kSpillS11, kSpillS2,
            kSpillS3, kSpillS4, kSpillS5, kSpillS6, kSpillS7, kSpillSlot0, kSpillSlot1,
            kSpillSlot2, kSpillSlot3, kSpillSlot4, kSpillSlot5, kSpillSlot6, kSpillSlot7))
      })
   }"

definition sequencer_voice_state_flush_l256 :: "'c core_ops \<Rightarrow> u32 \<Rightarrow> u32
    \<Rightarrow> 'a \<Rightarrow> 'b \<Rightarrow> 'd \<Rightarrow> 'e \<Rightarrow> 'f
    \<Rightarrow> 'g \<Rightarrow> 'h \<Rightarrow> 'i \<Rightarrow> 'j \<Rightarrow> u32
    \<Rightarrow> u32 \<Rightarrow> 'k \<Rightarrow> 'l \<Rightarrow> 'm \<Rightarrow> 'n
    \<Rightarrow> ('c, 'o + string \<times> 'a \<times> 'b \<times> 'd \<times> 'e \<times> 'f
    \<times> 'g \<times> 'h \<times> 'i \<times> 'j \<times> u32 \<times> u32 \<times> u32
    \<times> u32 \<times> 'k \<times> 'l \<times> 'm \<times> 'n) state" where
  "sequencer_voice_state_flush_l256 K kSpillSlot1 kSpillSlot0 kSpillRa1 kSpillS01 kSpillS11
      kSpillS2 kSpillS3 kSpillS4 kSpillS5 kSpillS6 kSpillS7 kSpillSlot2 kSpillSlot3 kSpillSlot4
      kSpillSlot5 kSpillSlot6 kSpillSlot7 = do {
     r0_146 \<leftarrow> reg K 0;
     setr K 2 (r0_146 + 1);
     r2_147 \<leftarrow> reg K 2;
     r16_148 \<leftarrow> reg K 16;
     setr K 2 (shl r2_147 (unat (r16_148 AND 31)));
     r29_149 \<leftarrow> reg K 29;
     w32 K (r29_149 + kSpillSlot1) r0_146;
     r2_150 \<leftarrow> reg K 2;
     w32 K (r29_149 + kSpillSlot0) r2_150;
     r17_151 \<leftarrow> reg K 17;
     v152 \<leftarrow> r8 K (r17_151 + 0);
     setr K 2 v152;
     r2_153 \<leftarrow> reg K 2;
     setr K 2 (r2_153 AND 1);
     r2_154 \<leftarrow> reg K 2;
     let t0 = (of_bool (r2_154 = r0_146) :: u32);
     setr K 2 (r0_146 + 3);
     (if t0 \<noteq> 0 then State_Monad.return (Inr (''L_80093484'', kSpillRa1, kSpillS01,
         kSpillS11, kSpillS2, kSpillS3, kSpillS4, kSpillS5, kSpillS6, kSpillS7, kSpillSlot0,
         kSpillSlot1, kSpillSlot2, kSpillSlot3, kSpillSlot4, kSpillSlot5, kSpillSlot6,
         kSpillSlot7))
      else do {
        r2_155 \<leftarrow> reg K 2;
        w32 K (r29_149 + kSpillSlot1) r2_155;
        r18_156 \<leftarrow> reg K 18;
        v157 \<leftarrow> r16 K (r18_156 + 0);
        setr K 2 v157;
        r2_158 \<leftarrow> reg K 2;
        w16 K (r29_149 + kSpillSlot2) r2_158;
        r19_159 \<leftarrow> reg K 19;
        v160 \<leftarrow> r16 K (r19_159 + 0);
        setr K 2 v160;
        r2_161 \<leftarrow> reg K 2;
        w16 K (r29_149 + kSpillSlot3) r2_161;
        State_Monad.return (Inr (''L_80093484'', kSpillRa1, kSpillS01, kSpillS11, kSpillS2,
            kSpillS3, kSpillS4, kSpillS5, kSpillS6, kSpillS7, kSpillSlot0, kSpillSlot1,
            kSpillSlot2, kSpillSlot3, kSpillSlot4, kSpillSlot5, kSpillSlot6, kSpillSlot7))
      })
   }"

definition sequencer_voice_state_flush_l275 :: "'c core_ops \<Rightarrow> 'a \<Rightarrow> 'b
    \<Rightarrow> 'd \<Rightarrow> 'e \<Rightarrow> 'f \<Rightarrow> 'g \<Rightarrow> 'h
    \<Rightarrow> 'i \<Rightarrow> 'j \<Rightarrow> 'k \<Rightarrow> u32 \<Rightarrow> 'l
    \<Rightarrow> 'm \<Rightarrow> u32 \<Rightarrow> 'n \<Rightarrow> 'o \<Rightarrow> 'p
    \<Rightarrow> ('c, 'q + string \<times> 'a \<times> 'b \<times> 'd \<times> 'e \<times> 'f
    \<times> 'g \<times> 'h \<times> 'i \<times> 'j \<times> 'k \<times> u32 \<times> 'l \<times>
    'm \<times> u32 \<times> 'n \<times> 'o \<times> 'p) state" where
  "sequencer_voice_state_flush_l275 K kSpillRa1 kSpillS01 kSpillS11 kSpillS2 kSpillS3 kSpillS4
      kSpillS5 kSpillS6 kSpillS7 kSpillSlot0 kSpillSlot1 kSpillSlot2 kSpillSlot3 kSpillSlot4
      kSpillSlot5 kSpillSlot6 kSpillSlot7 = do {
     r17_162 \<leftarrow> reg K 17;
     v163 \<leftarrow> r8 K (r17_162 + 0);
     setr K 2 v163;
     r2_164 \<leftarrow> reg K 2;
     setr K 2 (r2_164 AND 4);
     r2_165 \<leftarrow> reg K 2;
     r0_166 \<leftarrow> reg K 0;
     let t0 = (of_bool (r2_165 = r0_166) :: u32);
     (if t0 \<noteq> 0 then State_Monad.return (Inr (''L_800934B4'', kSpillRa1, kSpillS01,
         kSpillS11, kSpillS2, kSpillS3, kSpillS4, kSpillS5, kSpillS6, kSpillS7, kSpillSlot0,
         kSpillSlot1, kSpillSlot2, kSpillSlot3, kSpillSlot4, kSpillSlot5, kSpillSlot6,
         kSpillSlot7))
      else do {
        r29_167 \<leftarrow> reg K 29;
        v168 \<leftarrow> r32 K (r29_167 + kSpillSlot1);
        setr K 2 v168;
        r2_169 \<leftarrow> reg K 2;
        setr K 2 (r2_169 OR 16);
        r2_170 \<leftarrow> reg K 2;
        w32 K (r29_167 + kSpillSlot1) r2_170;
        r20_171 \<leftarrow> reg K 20;
        v172 \<leftarrow> r16 K (r20_171 + 0);
        setr K 2 v172;
        r2_173 \<leftarrow> reg K 2;
        w16 K (r29_167 + kSpillSlot4) r2_173;
        State_Monad.return (Inr (''L_800934B4'', kSpillRa1, kSpillS01, kSpillS11, kSpillS2,
            kSpillS3, kSpillS4, kSpillS5, kSpillS6, kSpillS7, kSpillSlot0, kSpillSlot1,
            kSpillSlot2, kSpillSlot3, kSpillSlot4, kSpillSlot5, kSpillSlot6, kSpillSlot7))
      })
   }"

definition sequencer_voice_state_flush_l289 :: "'c core_ops \<Rightarrow> 'a \<Rightarrow> 'b
    \<Rightarrow> 'd \<Rightarrow> 'e \<Rightarrow> 'f \<Rightarrow> 'g \<Rightarrow> 'h
    \<Rightarrow> 'i \<Rightarrow> 'j \<Rightarrow> 'k \<Rightarrow> u32 \<Rightarrow> 'l
    \<Rightarrow> 'm \<Rightarrow> 'n \<Rightarrow> u32 \<Rightarrow> 'o \<Rightarrow> 'p
    \<Rightarrow> ('c, 'q + string \<times> 'a \<times> 'b \<times> 'd \<times> 'e \<times> 'f
    \<times> 'g \<times> 'h \<times> 'i \<times> 'j \<times> 'k \<times> u32 \<times> 'l \<times>
    'm \<times> 'n \<times> u32 \<times> 'o \<times> 'p) state" where
  "sequencer_voice_state_flush_l289 K kSpillRa1 kSpillS01 kSpillS11 kSpillS2 kSpillS3 kSpillS4
      kSpillS5 kSpillS6 kSpillS7 kSpillSlot0 kSpillSlot1 kSpillSlot2 kSpillSlot3 kSpillSlot4
      kSpillSlot5 kSpillSlot6 kSpillSlot7 = do {
     r17_174 \<leftarrow> reg K 17;
     v175 \<leftarrow> r8 K (r17_174 + 0);
     setr K 2 v175;
     r2_176 \<leftarrow> reg K 2;
     setr K 2 (r2_176 AND 8);
     r2_177 \<leftarrow> reg K 2;
     r0_178 \<leftarrow> reg K 0;
     let t0 = (of_bool (r2_177 = r0_178) :: u32);
     (if t0 \<noteq> 0 then State_Monad.return (Inr (''L_800934E8'', kSpillRa1, kSpillS01,
         kSpillS11, kSpillS2, kSpillS3, kSpillS4, kSpillS5, kSpillS6, kSpillS7, kSpillSlot0,
         kSpillSlot1, kSpillSlot2, kSpillSlot3, kSpillSlot4, kSpillSlot5, kSpillSlot6,
         kSpillSlot7))
      else do {
        r29_179 \<leftarrow> reg K 29;
        v180 \<leftarrow> r32 K (r29_179 + kSpillSlot1);
        setr K 2 v180;
        r2_181 \<leftarrow> reg K 2;
        setr K 2 (r2_181 OR 128);
        r2_182 \<leftarrow> reg K 2;
        w32 K (r29_179 + kSpillSlot1) r2_182;
        r21_183 \<leftarrow> reg K 21;
        v184 \<leftarrow> r16 K (r21_183 + 0);
        setr K 2 v184;
        r2_185 \<leftarrow> reg K 2;
        setr K 2 (shl r2_185 3);
        r2_186 \<leftarrow> reg K 2;
        w32 K (r29_179 + kSpillSlot5) r2_186;
        State_Monad.return (Inr (''L_800934E8'', kSpillRa1, kSpillS01, kSpillS11, kSpillS2,
            kSpillS3, kSpillS4, kSpillS5, kSpillS6, kSpillS7, kSpillSlot0, kSpillSlot1,
            kSpillSlot2, kSpillSlot3, kSpillSlot4, kSpillSlot5, kSpillSlot6, kSpillSlot7))
      })
   }"

definition sequencer_voice_state_flush_l304 :: "'c core_ops \<Rightarrow> 'a \<Rightarrow> 'b
    \<Rightarrow> 'd \<Rightarrow> 'e \<Rightarrow> 'f \<Rightarrow> 'g \<Rightarrow> 'h
    \<Rightarrow> 'i \<Rightarrow> 'j \<Rightarrow> 'k \<Rightarrow> u32 \<Rightarrow> 'l
    \<Rightarrow> 'm \<Rightarrow> 'n \<Rightarrow> 'o \<Rightarrow> u32 \<Rightarrow> u32
    \<Rightarrow> ('c, 'p + string \<times> 'a \<times> 'b \<times> 'd \<times> 'e \<times> 'f
    \<times> 'g \<times> 'h \<times> 'i \<times> 'j \<times> 'k \<times> u32 \<times> 'l \<times>
    'm \<times> 'n \<times> 'o \<times> u32 \<times> u32) state" where
  "sequencer_voice_state_flush_l304 K kSpillRa1 kSpillS01 kSpillS11 kSpillS2 kSpillS3 kSpillS4
      kSpillS5 kSpillS6 kSpillS7 kSpillSlot0 kSpillSlot1 kSpillSlot2 kSpillSlot3 kSpillSlot4
      kSpillSlot5 kSpillSlot6 kSpillSlot7 = do {
     r17_187 \<leftarrow> reg K 17;
     v188 \<leftarrow> r8 K (r17_187 + 0);
     setr K 2 v188;
     r2_189 \<leftarrow> reg K 2;
     setr K 2 (r2_189 AND 16);
     r2_190 \<leftarrow> reg K 2;
     r0_191 \<leftarrow> reg K 0;
     let t0 = (of_bool (r2_190 = r0_191) :: u32);
     setr K 3 (shl 6 16);
     (if t0 \<noteq> 0 then State_Monad.return (Inr (''L_80093524'', kSpillRa1, kSpillS01,
         kSpillS11, kSpillS2, kSpillS3, kSpillS4, kSpillS5, kSpillS6, kSpillS7, kSpillSlot0,
         kSpillSlot1, kSpillSlot2, kSpillSlot3, kSpillSlot4, kSpillSlot5, kSpillSlot6,
         kSpillSlot7))
      else do {
        r29_192 \<leftarrow> reg K 29;
        v193 \<leftarrow> r32 K (r29_192 + kSpillSlot1);
        setr K 2 v193;
        r2_194 \<leftarrow> reg K 2;
        r3_195 \<leftarrow> reg K 3;
        setr K 2 (r2_194 OR r3_195);
        r2_196 \<leftarrow> reg K 2;
        w32 K (r29_192 + kSpillSlot1) r2_196;
        r22_197 \<leftarrow> reg K 22;
        v198 \<leftarrow> r16 K (r22_197 + 0);
        setr K 2 v198;
        r2_199 \<leftarrow> reg K 2;
        w16 K (r29_192 + kSpillSlot6) r2_199;
        r23_200 \<leftarrow> reg K 23;
        v201 \<leftarrow> r16 K (r23_200 + 0);
        setr K 2 v201;
        r2_202 \<leftarrow> reg K 2;
        w16 K (r29_192 + kSpillSlot7) r2_202;
        State_Monad.return (Inr (''L_80093524'', kSpillRa1, kSpillS01, kSpillS11, kSpillS2,
            kSpillS3, kSpillS4, kSpillS5, kSpillS6, kSpillS7, kSpillSlot0, kSpillSlot1,
            kSpillSlot2, kSpillSlot3, kSpillSlot4, kSpillSlot5, kSpillSlot6, kSpillSlot7))
      })
   }"

definition sequencer_voice_state_flush_l321 :: "'c core_ops \<Rightarrow> u32 \<Rightarrow> 'a
    \<Rightarrow> 'b \<Rightarrow> 'd \<Rightarrow> 'e \<Rightarrow> 'f \<Rightarrow> 'g
    \<Rightarrow> 'h \<Rightarrow> 'i \<Rightarrow> 'j \<Rightarrow> 'k \<Rightarrow> 'l
    \<Rightarrow> 'm \<Rightarrow> 'n \<Rightarrow> 'o \<Rightarrow> 'p \<Rightarrow> 'q
    \<Rightarrow> ('c, 'r + string \<times> 'a \<times> 'b \<times> 'd \<times> 'e \<times> 'f
    \<times> 'g \<times> 'h \<times> 'i \<times> 'j \<times> 'k \<times> u32 \<times> 'l \<times>
    'm \<times> 'n \<times> 'o \<times> 'p \<times> 'q) state" where
  "sequencer_voice_state_flush_l321 K kSpillSlot1 kSpillRa1 kSpillS01 kSpillS11 kSpillS2 kSpillS3
      kSpillS4 kSpillS5 kSpillS6 kSpillS7 kSpillSlot0 kSpillSlot2 kSpillSlot3 kSpillSlot4
      kSpillSlot5 kSpillSlot6 kSpillSlot7 = do {
     r29_203 \<leftarrow> reg K 29;
     v204 \<leftarrow> r32 K (r29_203 + kSpillSlot1);
     setr K 2 v204;
     r2_205 \<leftarrow> reg K 2;
     r0_206 \<leftarrow> reg K 0;
     let t0 = (of_bool (r2_205 = r0_206) :: u32);
     (if t0 \<noteq> 0 then State_Monad.return (Inr (''L_8009353C'', kSpillRa1, kSpillS01,
         kSpillS11, kSpillS2, kSpillS3, kSpillS4, kSpillS5, kSpillS6, kSpillS7, kSpillSlot0,
         kSpillSlot1, kSpillSlot2, kSpillSlot3, kSpillSlot4, kSpillSlot5, kSpillSlot6,
         kSpillSlot7))
      else do {
        setr K 31 0x8009353C;
        setr K 4 (r29_203 + 16);
        call_guest K 0x80099970;
        State_Monad.return (Inr (''L_8009353C'', kSpillRa1, kSpillS01, kSpillS11, kSpillS2,
            kSpillS3, kSpillS4, kSpillS5, kSpillS6, kSpillS7, kSpillSlot0, kSpillSlot1,
            kSpillSlot2, kSpillSlot3, kSpillSlot4, kSpillSlot5, kSpillSlot6, kSpillSlot7))
      })
   }"

definition sequencer_voice_state_flush_l332 :: "'c core_ops \<Rightarrow> u32 \<Rightarrow> u32
    \<Rightarrow> u32 \<Rightarrow> u32 \<Rightarrow> u32 \<Rightarrow> u32 \<Rightarrow> u32
    \<Rightarrow> u32 \<Rightarrow> u32 \<Rightarrow> 'a \<Rightarrow> 'b \<Rightarrow> 'd
    \<Rightarrow> 'e \<Rightarrow> 'f \<Rightarrow> 'g \<Rightarrow> 'h \<Rightarrow> 'i
    \<Rightarrow> ('c, unit + string \<times> u32 \<times> u32 \<times> u32 \<times> u32 \<times>
    u32 \<times> u32 \<times> u32 \<times> u32 \<times> u32 \<times> 'a \<times> 'b \<times> 'd
    \<times> 'e \<times> 'f \<times> 'g \<times> 'h \<times> 'i) state" where
  "sequencer_voice_state_flush_l332 K kSpillRa1 kSpillS01 kSpillS11 kSpillS2 kSpillS3 kSpillS4
      kSpillS5 kSpillS6 kSpillS7 kSpillSlot0 kSpillSlot1 kSpillSlot2 kSpillSlot3 kSpillSlot4
      kSpillSlot5 kSpillSlot6 kSpillSlot7 = do {
     r17_207 \<leftarrow> reg K 17;
     r0_208 \<leftarrow> reg K 0;
     w8 K (r17_207 + 0) r0_208;
     setr K 17 (r17_207 + 1);
     r23_209 \<leftarrow> reg K 23;
     setr K 23 (r23_209 + 16);
     r22_210 \<leftarrow> reg K 22;
     setr K 22 (r22_210 + 16);
     r21_211 \<leftarrow> reg K 21;
     setr K 21 (r21_211 + 16);
     r20_212 \<leftarrow> reg K 20;
     setr K 20 (r20_212 + 16);
     r19_213 \<leftarrow> reg K 19;
     setr K 19 (r19_213 + 16);
     r16_214 \<leftarrow> reg K 16;
     setr K 16 (r16_214 + 1);
     r16_215 \<leftarrow> reg K 16;
     setr K 2 (of_bool (r16_215 <s 24) :: u32);
     r2_216 \<leftarrow> reg K 2;
     let t0 = (of_bool (r2_216 \<noteq> r0_208) :: u32);
     r18_217 \<leftarrow> reg K 18;
     setr K 18 (r18_217 + 16);
     (if t0 \<noteq> 0 then State_Monad.return (Inr (''L_80093444'', kSpillRa1, kSpillS01,
         kSpillS11, kSpillS2, kSpillS3, kSpillS4, kSpillS5, kSpillS6, kSpillS7, kSpillSlot0,
         kSpillSlot1, kSpillSlot2, kSpillSlot3, kSpillSlot4, kSpillSlot5, kSpillSlot6,
         kSpillSlot7))
      else do {
        setr K 4 (r0_208 + r0_208);
        v218 \<leftarrow> r8 K kKonArmedMaskHi;
        setr K 5 v218;
        v219 \<leftarrow> r16 K kKonArmedMaskLo;
        setr K 2 v219;
        r5_220 \<leftarrow> reg K 5;
        setr K 5 (shl r5_220 16);
        setr K 31 0x80093588;
        r5_221 \<leftarrow> reg K 5;
        r2_222 \<leftarrow> reg K 2;
        setr K 5 (r5_221 OR r2_222);
        call_guest K 0x80098F90;
        r0_223 \<leftarrow> reg K 0;
        setr K 4 (r0_223 + 1);
        v224 \<leftarrow> r8 K kActiveVoiceMaskHi;
        setr K 5 v224;
        v225 \<leftarrow> r16 K kActiveVoiceMaskLo;
        setr K 2 v225;
        r5_226 \<leftarrow> reg K 5;
        setr K 5 (shl r5_226 16);
        setr K 31 0x800935A8;
        r5_227 \<leftarrow> reg K 5;
        r2_228 \<leftarrow> reg K 2;
        setr K 5 (r5_227 OR r2_228);
        call_guest K 0x80098F90;
        r0_229 \<leftarrow> reg K 0;
        setr K 4 (r0_229 + 8);
        setr K 5 kBase;
        r5_230 \<leftarrow> reg K 5;
        v231 \<leftarrow> r8 K (r5_230 + kPerVoicePitchHi);
        setr K 5 v231;
        setr K 2 kBase;
        r2_232 \<leftarrow> reg K 2;
        v233 \<leftarrow> r16 K (r2_232 + kPerVoicePitchLo);
        setr K 2 v233;
        r5_234 \<leftarrow> reg K 5;
        setr K 5 (shl r5_234 16);
        setr K 31 0x800935C8;
        r5_235 \<leftarrow> reg K 5;
        r2_236 \<leftarrow> reg K 2;
        setr K 5 (r5_235 OR r2_236);
        call_guest K 0x80098DB0;
        r0_237 \<leftarrow> reg K 0;
        setr K 4 (r0_237 + 8);
        setr K 5 kBase;
        r5_238 \<leftarrow> reg K 5;
        v239 \<leftarrow> r8 K (r5_238 + kPerVoiceLevelHi);
        setr K 5 v239;
        setr K 2 kBase;
        r2_240 \<leftarrow> reg K 2;
        v241 \<leftarrow> r16 K (r2_240 + kPerVoiceLevelLo);
        setr K 2 v241;
        r5_242 \<leftarrow> reg K 5;
        setr K 5 (shl r5_242 16);
        setr K 31 0x800935E8;
        r5_243 \<leftarrow> reg K 5;
        r2_244 \<leftarrow> reg K 2;
        setr K 5 (r5_243 OR r2_244);
        call_guest K 0x80097E10;
        r0_245 \<leftarrow> reg K 0;
        w16 K kKonArmedMaskLo r0_245;
        w16 K kKonArmedMaskHi r0_245;
        w16 K kActiveVoiceMaskLo r0_245;
        w16 K kActiveVoiceMaskHi r0_245;
        setr K 1 kBase;
        r1_246 \<leftarrow> reg K 1;
        w16 K (r1_246 + kPerVoiceLevelLo) r0_245;
        setr K 1 kBase;
        r1_247 \<leftarrow> reg K 1;
        w16 K (r1_247 + kPerVoiceLevelHi) r0_245;
        r29_248 \<leftarrow> reg K 29;
        v249 \<leftarrow> r32 K (r29_248 + kSpillRa1);
        setr K 31 v249;
        v250 \<leftarrow> r32 K (r29_248 + kSpillS7);
        setr K 23 v250;
        v251 \<leftarrow> r32 K (r29_248 + kSpillS6);
        setr K 22 v251;
        v252 \<leftarrow> r32 K (r29_248 + kSpillS5);
        setr K 21 v252;
        v253 \<leftarrow> r32 K (r29_248 + kSpillS4);
        setr K 20 v253;
        v254 \<leftarrow> r32 K (r29_248 + kSpillS3);
        setr K 19 v254;
        v255 \<leftarrow> r32 K (r29_248 + kSpillS2);
        setr K 18 v255;
        v256 \<leftarrow> r32 K (r29_248 + kSpillS11);
        setr K 17 v256;
        v257 \<leftarrow> r32 K (r29_248 + kSpillS01);
        setr K 16 v257;
        setr K 29 (r29_248 + 120);
        State_Monad.return (Inl ())
      })
   }"

definition sequencer_voice_state_flush :: "'c core_ops \<Rightarrow> ('c, unit) state" where
  "sequencer_voice_state_flush K = loop (\<lambda>(pc1, kSpillRa1, kSpillS01, kSpillS11, kSpillS2,
      kSpillS3, kSpillS4, kSpillS5, kSpillS6, kSpillS7, kSpillSlot0, kSpillSlot1, kSpillSlot2,
      kSpillSlot3, kSpillSlot4, kSpillSlot5, kSpillSlot6, kSpillSlot7). (if pc1 = ''start'' then
      do {
     let kSpillSlot0 = (16 :: u32);
     let kSpillSlot1 = (20 :: u32);
     let kSpillSlot2 = (24 :: u32);
     let kSpillSlot3 = (26 :: u32);
     let kSpillSlot4 = (36 :: u32);
     let kSpillSlot5 = (44 :: u32);
     let kSpillSlot6 = (74 :: u32);
     let kSpillSlot7 = (76 :: u32);
     let kSpillS01 = (80 :: u32);
     let kSpillS11 = (84 :: u32);
     let kSpillS2 = (88 :: u32);
     let kSpillS3 = (92 :: u32);
     let kSpillS4 = (96 :: u32);
     let kSpillS5 = (100 :: u32);
     let kSpillS6 = (104 :: u32);
     let kSpillS7 = (108 :: u32);
     let kSpillRa1 = (112 :: u32);
     setr K 2 kBase;
     r2_1 \<leftarrow> reg K 2;
     v2 \<leftarrow> r32 K (r2_1 + kVoiceCursor);
     setr K 2 v2;
     r29_3 \<leftarrow> reg K 29;
     setr K 29 (r29_3 + (-120));
     r29_4 \<leftarrow> reg K 29;
     r16_5 \<leftarrow> reg K 16;
     w32 K (r29_4 + kSpillS01) r16_5;
     r31_6 \<leftarrow> reg K 31;
     w32 K (r29_4 + kSpillRa1) r31_6;
     r23_7 \<leftarrow> reg K 23;
     w32 K (r29_4 + kSpillS7) r23_7;
     r22_8 \<leftarrow> reg K 22;
     w32 K (r29_4 + kSpillS6) r22_8;
     r21_9 \<leftarrow> reg K 21;
     w32 K (r29_4 + kSpillS5) r21_9;
     r20_10 \<leftarrow> reg K 20;
     w32 K (r29_4 + kSpillS4) r20_10;
     r19_11 \<leftarrow> reg K 19;
     w32 K (r29_4 + kSpillS3) r19_11;
     r18_12 \<leftarrow> reg K 18;
     w32 K (r29_4 + kSpillS2) r18_12;
     r17_13 \<leftarrow> reg K 17;
     w32 K (r29_4 + kSpillS11) r17_13;
     r2_14 \<leftarrow> reg K 2;
     setr K 2 (r2_14 + 1);
     r2_15 \<leftarrow> reg K 2;
     setr K 2 (r2_15 AND 15);
     setr K 1 kBase;
     r1_16 \<leftarrow> reg K 1;
     r2_17 \<leftarrow> reg K 2;
     w32 K (r1_16 + kVoiceCursor) r2_17;
     setr K 2 (shl r2_17 2);
     setr K 1 kBase;
     r1_18 \<leftarrow> reg K 1;
     r2_19 \<leftarrow> reg K 2;
     setr K 1 (r1_18 + r2_19);
     r1_20 \<leftarrow> reg K 1;
     r0_21 \<leftarrow> reg K 0;
     w32 K (r1_20 + kVoiceStateTable) r0_21;
     setr K 2 kBase;
     r2_22 \<leftarrow> reg K 2;
     v23 \<leftarrow> r8s K (r2_22 + kSpuKeyScanCount);
     setr K 2 v23;
     setr K 3 kBase;
     r3_24 \<leftarrow> reg K 3;
     setr K 3 (r3_24 + kVoiceStateTable);
     r2_25 \<leftarrow> reg K 2;
     let t0 = (of_bool (r2_25 \<le>s 0) :: u32);
     setr K 16 (r0_21 + r0_21);
     (if t0 \<noteq> 0 then State_Monad.return (Inr (''L_800932A0'', kSpillRa1, kSpillS01,
         kSpillS11, kSpillS2, kSpillS3, kSpillS4, kSpillS5, kSpillS6, kSpillS7, kSpillSlot0,
         kSpillSlot1, kSpillSlot2, kSpillSlot3, kSpillSlot4, kSpillSlot5, kSpillSlot6,
         kSpillSlot7))
      else do {
        r3_26 \<leftarrow> reg K 3;
        setr K 20 (r3_26 + r0_21);
        setr K 19 (r0_21 + 1);
        setr K 18 kBase;
        r18_27 \<leftarrow> reg K 18;
        setr K 18 (r18_27 + kPerVoiceTable);
        setr K 17 (r0_21 + r0_21);
        State_Monad.return (Inr (''L_8009323C'', kSpillRa1, kSpillS01, kSpillS11, kSpillS2,
            kSpillS3, kSpillS4, kSpillS5, kSpillS6, kSpillS7, kSpillSlot0, kSpillSlot1,
            kSpillSlot2, kSpillSlot3, kSpillSlot4, kSpillSlot5, kSpillSlot6, kSpillSlot7))
      })
   }
    else if pc1 = ''L_8009323C'' then do {
      r16_28 \<leftarrow> reg K 16;
      r0_29 \<leftarrow> reg K 0;
      setr K 4 (r16_28 + r0_29);
      setr K 31 0x80093248;
      r18_30 \<leftarrow> reg K 18;
      setr K 5 (r18_30 + r0_29);
      call_guest K 0x8009A1D0;
      setr K 2 kBase;
      r2_31 \<leftarrow> reg K 2;
      r17_32 \<leftarrow> reg K 17;
      setr K 2 (r2_31 + r17_32);
      r2_33 \<leftarrow> reg K 2;
      v34 \<leftarrow> r16 K (r2_33 + kPerVoiceTable);
      setr K 2 v34;
      r2_35 \<leftarrow> reg K 2;
      r0_36 \<leftarrow> reg K 0;
      let t0 = (of_bool (r2_35 \<noteq> r0_36) :: u32);
      r19_37 \<leftarrow> reg K 19;
      r16_38 \<leftarrow> reg K 16;
      setr K 4 (shl r19_37 (unat (r16_38 AND 31)));
      (if t0 \<noteq> 0 then State_Monad.return (Inr (''L_80093284'', kSpillRa1, kSpillS01,
          kSpillS11, kSpillS2, kSpillS3, kSpillS4, kSpillS5, kSpillS6, kSpillS7, kSpillSlot0,
          kSpillSlot1, kSpillSlot2, kSpillSlot3, kSpillSlot4, kSpillSlot5, kSpillSlot6,
          kSpillSlot7))
       else do {
         setr K 2 kBase;
         r2_39 \<leftarrow> reg K 2;
         v40 \<leftarrow> r32 K (r2_39 + kVoiceCursor);
         setr K 2 v40;
         r2_41 \<leftarrow> reg K 2;
         setr K 2 (shl r2_41 2);
         r2_42 \<leftarrow> reg K 2;
         r20_43 \<leftarrow> reg K 20;
         setr K 2 (r2_42 + r20_43);
         r2_44 \<leftarrow> reg K 2;
         v45 \<leftarrow> r32 K (r2_44 + 0);
         setr K 3 v45;
         r3_46 \<leftarrow> reg K 3;
         r4_47 \<leftarrow> reg K 4;
         setr K 3 (r3_46 OR r4_47);
         r3_48 \<leftarrow> reg K 3;
         w32 K (r2_44 + 0) r3_48;
         State_Monad.return (Inr (''L_80093284'', kSpillRa1, kSpillS01, kSpillS11, kSpillS2,
             kSpillS3, kSpillS4, kSpillS5, kSpillS6, kSpillS7, kSpillSlot0, kSpillSlot1,
             kSpillSlot2, kSpillSlot3, kSpillSlot4, kSpillSlot5, kSpillSlot6, kSpillSlot7))
       })
    }
     else if pc1 = ''L_80093284'' then do {
       r18_49 \<leftarrow> reg K 18;
       setr K 18 (r18_49 + 56);
       setr K 2 kBase;
       r2_50 \<leftarrow> reg K 2;
       v51 \<leftarrow> r8s K (r2_50 + kSpuKeyScanCount);
       setr K 2 v51;
       r16_52 \<leftarrow> reg K 16;
       setr K 16 (r16_52 + 1);
       r16_53 \<leftarrow> reg K 16;
       r2_54 \<leftarrow> reg K 2;
       setr K 2 (of_bool (r16_53 <s r2_54) :: u32);
       r2_55 \<leftarrow> reg K 2;
       r0_56 \<leftarrow> reg K 0;
       let t0 = (of_bool (r2_55 \<noteq> r0_56) :: u32);
       r17_57 \<leftarrow> reg K 17;
       setr K 17 (r17_57 + 56);
       (if t0 \<noteq> 0 then State_Monad.return (Inr (''L_8009323C'', kSpillRa1, kSpillS01,
           kSpillS11, kSpillS2, kSpillS3, kSpillS4, kSpillS5, kSpillS6, kSpillS7, kSpillSlot0,
           kSpillSlot1, kSpillSlot2, kSpillSlot3, kSpillSlot4, kSpillSlot5, kSpillSlot6,
           kSpillSlot7))
        else State_Monad.return (Inr (''L_800932A0'', kSpillRa1, kSpillS01, kSpillS11, kSpillS2,
            kSpillS3, kSpillS4, kSpillS5, kSpillS6, kSpillS7, kSpillSlot0, kSpillSlot1,
            kSpillSlot2, kSpillSlot3, kSpillSlot4, kSpillSlot5, kSpillSlot6, kSpillSlot7)))
     }
      else if pc1 = ''L_800932A0'' then do {
        setr K 2 kBase;
        r2_58 \<leftarrow> reg K 2;
        v59 \<leftarrow> r8s K (r2_58 + kToneCursor);
        setr K 2 v59;
        r2_60 \<leftarrow> reg K 2;
        r0_61 \<leftarrow> reg K 0;
        let t0 = (of_bool (r2_60 \<noteq> r0_61) :: u32);
        setr K 16 (r0_61 + r0_61);
        (if t0 \<noteq> 0 then State_Monad.return (Inr (''L_8009336C'', kSpillRa1, kSpillS01,
            kSpillS11, kSpillS2, kSpillS3, kSpillS4, kSpillS5, kSpillS6, kSpillS7, kSpillSlot0,
            kSpillSlot1, kSpillSlot2, kSpillSlot3, kSpillSlot4, kSpillSlot5, kSpillSlot6,
            kSpillSlot7))
         else do {
           setr K 18 (r0_61 + (-1));
           setr K 3 kBase;
           r3_62 \<leftarrow> reg K 3;
           setr K 3 (r3_62 + kVoiceStateTable);
           State_Monad.return (Inr (''L_800932C0'', kSpillRa1, kSpillS01, kSpillS11, kSpillS2,
               kSpillS3, kSpillS4, kSpillS5, kSpillS6, kSpillS7, kSpillSlot0, kSpillSlot1,
               kSpillSlot2, kSpillSlot3, kSpillSlot4, kSpillSlot5, kSpillSlot6, kSpillSlot7))
         })
      }
       else if pc1 = ''L_800932C0'' then do {
         r3_63 \<leftarrow> reg K 3;
         v64 \<leftarrow> r32 K (r3_63 + 0);
         setr K 2 v64;
         sequencer_voice_state_flush_l118 K r3_63 kSpillRa1 kSpillS01 kSpillS11 kSpillS2 kSpillS3
             kSpillS4 kSpillS5 kSpillS6 kSpillS7 kSpillSlot0 kSpillSlot1 kSpillSlot2 kSpillSlot3
             kSpillSlot4 kSpillSlot5 kSpillSlot6 kSpillSlot7
       }
        else if pc1 = ''L_800932FC'' then sequencer_voice_state_flush_l141 K kSpillRa1 kSpillS01
            kSpillS11 kSpillS2 kSpillS3 kSpillS4 kSpillS5 kSpillS6 kSpillS7 kSpillSlot0
            kSpillSlot1 kSpillSlot2 kSpillSlot3 kSpillSlot4 kSpillSlot5 kSpillSlot6 kSpillSlot7
         else if pc1 = ''L_80093330'' then sequencer_voice_state_flush_l168 K kSpillRa1 kSpillS01
             kSpillS11 kSpillS2 kSpillS3 kSpillS4 kSpillS5 kSpillS6 kSpillS7 kSpillSlot0
             kSpillSlot1 kSpillSlot2 kSpillSlot3 kSpillSlot4 kSpillSlot5 kSpillSlot6 kSpillSlot7
          else if pc1 = ''L_8009334C'' then do {
            r17_94 \<leftarrow> reg K 17;
            r0_95 \<leftarrow> reg K 0;
            w8 K (r17_94 + 0) r0_95;
            State_Monad.return (Inr (''L_80093350'', kSpillRa1, kSpillS01, kSpillS11, kSpillS2,
                kSpillS3, kSpillS4, kSpillS5, kSpillS6, kSpillS7, kSpillSlot0, kSpillSlot1,
                kSpillSlot2, kSpillSlot3, kSpillSlot4, kSpillSlot5, kSpillSlot6, kSpillSlot7))
          }
           else if pc1 = ''L_80093350'' then sequencer_voice_state_flush_l179 K kSpillRa1
               kSpillS01 kSpillS11 kSpillS2 kSpillS3 kSpillS4 kSpillS5 kSpillS6 kSpillS7
               kSpillSlot0 kSpillSlot1 kSpillSlot2 kSpillSlot3 kSpillSlot4 kSpillSlot5 kSpillSlot6
               kSpillSlot7
            else if pc1 = ''L_80093368'' then do {
              r0_104 \<leftarrow> reg K 0;
              setr K 16 (r0_104 + r0_104);
              State_Monad.return (Inr (''L_8009336C'', kSpillRa1, kSpillS01, kSpillS11, kSpillS2,
                  kSpillS3, kSpillS4, kSpillS5, kSpillS6, kSpillS7, kSpillSlot0, kSpillSlot1,
                  kSpillSlot2, kSpillSlot3, kSpillSlot4, kSpillSlot5, kSpillSlot6, kSpillSlot7))
            }
             else if pc1 = ''L_8009336C'' then sequencer_voice_state_flush_l193 K kSpillRa1
                 kSpillS01 kSpillS11 kSpillS2 kSpillS3 kSpillS4 kSpillS5 kSpillS6 kSpillS7
                 kSpillSlot0 kSpillSlot1 kSpillSlot2 kSpillSlot3 kSpillSlot4 kSpillSlot5
                 kSpillSlot6 kSpillSlot7
              else if pc1 = ''L_800933B0'' then sequencer_voice_state_flush_l205 K kSpillRa1
                  kSpillS01 kSpillS11 kSpillS2 kSpillS3 kSpillS4 kSpillS5 kSpillS6 kSpillS7
                  kSpillSlot0 kSpillSlot1 kSpillSlot2 kSpillSlot3 kSpillSlot4 kSpillSlot5
                  kSpillSlot6 kSpillSlot7
               else if pc1 = ''L_800933DC'' then sequencer_voice_state_flush_l220 K kSpillRa1
                   kSpillS01 kSpillS11 kSpillS2 kSpillS3 kSpillS4 kSpillS5 kSpillS6 kSpillS7
                   kSpillSlot0 kSpillSlot1 kSpillSlot2 kSpillSlot3 kSpillSlot4 kSpillSlot5
                   kSpillSlot6 kSpillSlot7
                else if pc1 = ''L_80093408'' then sequencer_voice_state_flush_l235 K kSpillRa1
                    kSpillS01 kSpillS11 kSpillS2 kSpillS3 kSpillS4 kSpillS5 kSpillS6 kSpillS7
                    kSpillSlot0 kSpillSlot1 kSpillSlot2 kSpillSlot3 kSpillSlot4 kSpillSlot5
                    kSpillSlot6 kSpillSlot7
                 else if pc1 = ''L_80093444'' then sequencer_voice_state_flush_l256 K kSpillSlot1
                     kSpillSlot0 kSpillRa1 kSpillS01 kSpillS11 kSpillS2 kSpillS3 kSpillS4 kSpillS5
                     kSpillS6 kSpillS7 kSpillSlot2 kSpillSlot3 kSpillSlot4 kSpillSlot5 kSpillSlot6
                     kSpillSlot7
                  else if pc1 = ''L_80093484'' then sequencer_voice_state_flush_l275 K kSpillRa1
                      kSpillS01 kSpillS11 kSpillS2 kSpillS3 kSpillS4 kSpillS5 kSpillS6 kSpillS7
                      kSpillSlot0 kSpillSlot1 kSpillSlot2 kSpillSlot3 kSpillSlot4 kSpillSlot5
                      kSpillSlot6 kSpillSlot7
                   else if pc1 = ''L_800934B4'' then sequencer_voice_state_flush_l289 K kSpillRa1
                       kSpillS01 kSpillS11 kSpillS2 kSpillS3 kSpillS4 kSpillS5 kSpillS6 kSpillS7
                       kSpillSlot0 kSpillSlot1 kSpillSlot2 kSpillSlot3 kSpillSlot4 kSpillSlot5
                       kSpillSlot6 kSpillSlot7
                    else if pc1 = ''L_800934E8'' then sequencer_voice_state_flush_l304 K kSpillRa1
                        kSpillS01 kSpillS11 kSpillS2 kSpillS3 kSpillS4 kSpillS5 kSpillS6 kSpillS7
                        kSpillSlot0 kSpillSlot1 kSpillSlot2 kSpillSlot3 kSpillSlot4 kSpillSlot5
                        kSpillSlot6 kSpillSlot7
                     else if pc1 = ''L_80093524'' then sequencer_voice_state_flush_l321 K
                         kSpillSlot1 kSpillRa1 kSpillS01 kSpillS11 kSpillS2 kSpillS3 kSpillS4
                         kSpillS5 kSpillS6 kSpillS7 kSpillSlot0 kSpillSlot2 kSpillSlot3
                         kSpillSlot4 kSpillSlot5 kSpillSlot6 kSpillSlot7
                      else sequencer_voice_state_flush_l332 K kSpillRa1 kSpillS01 kSpillS11
                          kSpillS2 kSpillS3 kSpillS4 kSpillS5 kSpillS6 kSpillS7 kSpillSlot0
                          kSpillSlot1 kSpillSlot2 kSpillSlot3 kSpillSlot4 kSpillSlot5 kSpillSlot6
                          kSpillSlot7)) (''start'', (0 :: u32), (0 :: u32), (0 :: u32), (0 ::
                          u32), (0 :: u32), (0 :: u32), (0 :: u32), (0 :: u32), (0 :: u32), (0 ::
                          u32), (0 :: u32), (0 :: u32), (0 :: u32), (0 :: u32), (0 :: u32), (0 ::
                          u32), (0 :: u32))"

definition nat_voice_state_flush :: "'c core_ops \<Rightarrow> ('c, unit) state" where
  "nat_voice_state_flush K = sequencer_voice_state_flush K"

end
