(* ===== verification/SopScene.thy ===== *)
theory SopScene
  imports CameraRig ObjectLists WorldTables
begin

text \<open>
  The field stage: the gathering of grid cells under a triangle, its prepass, and the parallax
  background.
\<close>

section \<open>Layout\<close>

definition BG_PARAMS_PTR :: u32 where "BG_PARAMS_PTR = 0x800ECF84"
definition YAW_ADDR :: u32 where "YAW_ADDR = 0x1F8000F2"
definition PITCH_ADDR :: u32 where "PITCH_ADDR = 0x1F8000F0"
definition ANIM_COUNTER_0 :: u32 where "ANIM_COUNTER_0 = 0x8010D390"
definition ANIM_COUNTER_1 :: u32 where "ANIM_COUNTER_1 = 0x8010D391"
definition ANIM_COUNTER_2 :: u32 where "ANIM_COUNTER_2 = 0x8010D392"
definition SM_ADDR :: u32 where "SM_ADDR = 0x800ED018"
definition SCROLL_MOD_X_OFF :: u32 where "SCROLL_MOD_X_OFF = 0x30"
definition SCROLL_MOD_Y_OFF :: u32 where "SCROLL_MOD_Y_OFF = 0x32"
definition TASK_SM_PTR :: u32 where "TASK_SM_PTR = 0x1F800138"
definition IN_FIELD_UPDATE :: u32 where "IN_FIELD_UPDATE = 0x1F800234"
definition SCENE_ENT_TABLE :: u32 where "SCENE_ENT_TABLE = 0x800F2418"
definition BG_LAYER_STATE :: u32 where "BG_LAYER_STATE = 0x800E8008"
definition BG_LAYER_SUB :: u32 where "BG_LAYER_SUB = 0x800E806C"
definition BG_LAYER_TARGET :: u32 where "BG_LAYER_TARGET = 0x800E8040"
definition PARALLAX_BG_SM :: u32 where "PARALLAX_BG_SM = 0x800ED018"

section \<open>\<open>game/scene/parallax_bg.cpp\<close>\<close>

definition parallax_bg_scroll_mod_x :: "'c core_ops \<Rightarrow> ('c, u32) state" where
  "parallax_bg_scroll_mod_x K = r16 K (SM_ADDR + SCROLL_MOD_X_OFF)"

definition parallax_bg_scroll_mod_y :: "'c core_ops \<Rightarrow> ('c, u32) state" where
  "parallax_bg_scroll_mod_y K = r16 K (SM_ADDR + SCROLL_MOD_Y_OFF)"

definition parallax_bg_step :: "'c core_ops \<Rightarrow> ('c, unit) state" where
  "parallax_bg_step K = do {
     let sm = SM_ADDR;
     state1 \<leftarrow> r8 K (sm + 0);
     (if state1 = 1 then do {
       yaw \<leftarrow> r16s K YAW_ADDR;
       pitch \<leftarrow> r16s K PITCH_ADDR;
       sX \<leftarrow> r16 K (sm + 0x2C);
       sY \<leftarrow> r16 K (sm + 0x2E);
       tileH \<leftarrow> r8 K (sm + 0x11);
       v7 \<leftarrow> r16 K (sm + 0x2C);
       let tileW = as_s16 v7;
       let x = sar 1 (tileW + 0x140) - (sar 12 (yaw * sX));
       let y = sar 12 (pitch * sY) + tileH * 8 - 0x20;
       v8 \<leftarrow> parallax_bg_scroll_mod_x K;
       x \<leftarrow> guest_reduce K x v8;
       v10 \<leftarrow> parallax_bg_scroll_mod_y K;
       y \<leftarrow> guest_reduce K y v10;
       v12 \<leftarrow> r8 K (sm + 0x38);
       let cnt1 = as_u8 (v12 - 1);
       w8 K (sm + 0x38) cnt1;
       only_if (as_s8 cnt1 \<le>s 0) (w8 K (sm + 3) 1);
       w16 K (sm + 0x28) x;
       w16 K (sm + 0x2A) y
     }
      else if state1 = 0 then do {
        P1 \<leftarrow> r32 K BG_PARAMS_PTR;
        w8 K (sm + 0) 1;
        w8 K (sm + 3) 0;
        for_each (upto_u32 6) (\<lambda>i. do {
          v14 \<leftarrow> r16 K (P1 + i * 2);
          w16 K (sm + 4 + i * 2) v14
        });
        grid_w \<leftarrow> r8 K (P1 + 12);
        grid_h \<leftarrow> r8 K (P1 + 13);
        w8 K (sm + 0x10) grid_w;
        w8 K (sm + 0x11) grid_h;
        size0 \<leftarrow> r16 K (P1 + 14);
        size1 \<leftarrow> r16 K (P1 + 16);
        w8 K (sm + 0x2C) 0x00;
        w8 K (sm + 0x2D) 0x09;
        w8 K (sm + 0x2E) 0xE8;
        w8 K (sm + 0x2F) 0x08;
        let base1 = P1 + 20;
        let buf1 = base1 + size1;
        let buf2 = buf1 + size0;
        w32 K (sm + 0x14) buf1;
        w32 K (sm + 0x18) base1;
        w32 K (sm + 0x1C) buf2;
        w32 K (sm + 0x34) buf2;
        w16 K (sm + 0x30) ((grid_w * 0x900) div 0x90);
        w16 K (sm + 0x32) ((grid_h * 0x8E8) div 0x90);
        w8 K (sm + 0x38) 1;
        w8 K ANIM_COUNTER_2 0;
        w8 K ANIM_COUNTER_1 0;
        w8 K ANIM_COUNTER_0 0
      }
       else State_Monad.return ())
   }"

section \<open>\<open>game/scene/sop.cpp\<close>\<close>

definition sop_scene_grid_gather :: "'c core_ops \<Rightarrow> u32 \<Rightarrow> u32 \<Rightarrow>
    u32 \<Rightarrow> u32 \<Rightarrow> u32 \<Rightarrow> u32 \<Rightarrow> u32 \<Rightarrow> ('c,
    unit) state" where
  "sop_scene_grid_gather K table x0 y0 x1 y1 x2 y2 = do {
     let v0x = x0;
     let v0y = y0;
     let v1x = x1;
     let v1y = y1;
     let v2x = x2;
     let v2y = y2;
     let (v0x, v0y, v1x, v1y) = (if v1y <s v0y then (v1x, v1y, v0x, v0y) else (v0x, v0y, v1x,
         v1y));
     let (v0x, v0y, v2x, v2y) = (if v2y <s v0y then (v2x, v2y, v0x, v0y) else (v0x, v0y, v2x,
         v2y));
     let (v1x, v1y, v2x, v2y) = (if v2y <s v1y then (v2x, v2y, v1x, v1y) else (v1x, v1y, v2x,
         v2y));
     let dy01 = v1y - v0y;
     let dy02 = v2y - v0y;
     (if dy02 = 0 then State_Monad.return ()
      else do {
        let (edgeA, edgeB, stepA) = (if dy01 = 0 then (let edgeA = shl (if v0x <s v1x then v1x
            else v0x) 16; edgeB = shl (if v1x <s v0x then v1x else v0x) 16 in (edgeA, edgeB, (0 ::
            u32))) else (let edgeA = shl v0x 16; edgeB = edgeA in (edgeA, edgeB, sdiv (shl (v1x -
            v0x) 16) dy01)));
        let edgeA = edgeA + 0x10000;
        let dy12 = v2y - v1y;
        let stepC = (if dy12 = 0 then (0 :: u32) else (sdiv (shl (v2x - v1x) 16) dy12));
        let stepB = sdiv (shl (v2x - v0x) 16) dy02;
        let cross = (- dy02) * (v1x - v0x) + ((v2x - v0x) * dy01);
        let crossNegOrZero = cross <s 1;
        v1 \<leftarrow> r16 K (table + 8);
        let xLimit = as_s16 v1;
        v2 \<leftarrow> r16 K (table + 10);
        let yLimit = as_s16 v2;
        v3 \<leftarrow> r32 K (table + 0xC);
        let grid = v3 + 4;
        let gatherRow = (\<lambda>row edgesRight edgesLeft. (if row <s 0 \<or> yLimit \<le>s row
            then State_Monad.return ()
         else do {
           let rightX = sar 16 edgesRight;
           let leftX = sar 16 edgesLeft;
           let rightX = (if xLimit \<le>s rightX then (xLimit - 1) else rightX);
           let leftX = (if leftX <s 0 then (0 :: u32) else leftX);
           let cellPtr = grid + (2 * (leftX * yLimit + row));
           let x = leftX;
           (cellPtr, x) \<leftarrow> loop (\<lambda>(cellPtr, x). (if x \<le>s rightX then do {
             cell \<leftarrow> r16 K cellPtr;
             only_if (cell \<noteq> 0xFFFF) (do {
               cnt \<leftarrow> r8 K (table + 6);
               only_if (cnt < 0xFE) (do {
                 w8 K (table + 6) (cnt + 1);
                 w16 K (table + 0x10 + cnt * 2) cell
               })
             });
             let cellPtr = cellPtr + 2 * yLimit;
             let x = x + 1;
             State_Monad.return (Inr (cellPtr, x))
           }
            else State_Monad.return (Inl (cellPtr, x)))) (cellPtr, x);
           State_Monad.return ()
         }));
        let y = v0y;
        (if crossNegOrZero then do {
          (edgeA, edgeB, y) \<leftarrow> loop (\<lambda>(edgeA, edgeB, y). (if y <s v1y then do {
            gatherRow y edgeA edgeB;
            let edgeA = edgeA + stepA;
            let edgeB = edgeB + stepB;
            let y = y + 1;
            State_Monad.return (Inr (edgeA, edgeB, y))
          }
           else State_Monad.return (Inl (edgeA, edgeB, y)))) (edgeA, edgeB, y);
          (edgeA, edgeB, y) \<leftarrow> loop (\<lambda>(edgeA, edgeB, y). (if y \<le>s v2y then
              do {
            gatherRow y edgeA edgeB;
            let edgeB = edgeB + stepB;
            let edgeA = edgeA + stepC;
            let y = y + 1;
            State_Monad.return (Inr (edgeA, edgeB, y))
          }
           else State_Monad.return (Inl (edgeA, edgeB, y)))) (edgeA, edgeB, y);
          State_Monad.return ()
        }
         else do {
           (edgeA, edgeB, y) \<leftarrow> loop (\<lambda>(edgeA, edgeB, y). (if y <s v1y then do {
             gatherRow y edgeA edgeB;
             let edgeB = edgeB + stepA;
             let edgeA = edgeA + stepB;
             let y = y + 1;
             State_Monad.return (Inr (edgeA, edgeB, y))
           }
            else State_Monad.return (Inl (edgeA, edgeB, y)))) (edgeA, edgeB, y);
           (edgeA, edgeB, y) \<leftarrow> loop (\<lambda>(edgeA, edgeB, y). (if y \<le>s v2y then
               do {
             gatherRow y edgeA edgeB;
             let edgeB = edgeB + stepC;
             let edgeA = edgeA + stepB;
             let y = y + 1;
             State_Monad.return (Inr (edgeA, edgeB, y))
           }
            else State_Monad.return (Inl (edgeA, edgeB, y)))) (edgeA, edgeB, y);
           State_Monad.return ()
         })
      })
   }"

definition sop_scene_prepass :: "'c core_ops \<Rightarrow> u32 \<Rightarrow> ('c, unit) state"
    where
  "sop_scene_prepass K table = do {
     hdrPtr \<leftarrow> r32 K (table + 0xC);
     v2 \<leftarrow> r16 K (hdrPtr + 0);
     w16 K (table + 8) v2;
     w32 K 0x800A3F90 0x5780;
     v3 \<leftarrow> r16 K (hdrPtr + 2);
     w16 K (table + 0xA) v3;
     w32 K 0x800A3F94 0x1C7;
     camX \<leftarrow> r16s K 0x1F8000D2;
     camZ \<leftarrow> r16s K 0x1F8000DA;
     yaw \<leftarrow> r16s K 0x1F8000F2;
     pitch \<leftarrow> r16s K 0x1F8000F0;
     D5780 \<leftarrow> r32 K 0x800A3F90;
     D1C7 \<leftarrow> r32 K 0x800A3F94;
     let trig = (\<lambda>fn arg. do {
       setr K 4 arg;
       call_guest K fn;
       reg K 2
     });
     let yA = (- yaw - D1C7) AND 0xFFF;
     sinA \<leftarrow> trig 0x80083E80 yA;
     let X1 = camX + (sar 12 (sinA * D5780));
     cosA \<leftarrow> trig 0x80083F50 yA;
     let Z1 = camZ + (sar 12 (cosA * D5780));
     let yB = (D1C7 - yaw) AND 0xFFF;
     sinB \<leftarrow> trig 0x80083E80 yB;
     let X2 = camX + (sar 12 (sinB * D5780));
     cosB \<leftarrow> trig 0x80083F50 yB;
     let Z2 = camZ + (sar 12 (cosB * D5780));
     pAbs \<leftarrow> trig 0x80083E80 pitch;
     let pAbs = (if pAbs <s 0 then (- pAbs) else pAbs);
     s2 \<leftarrow> trig 0x80083E80 (- yaw);
     c2 \<leftarrow> trig 0x80083F50 (- yaw);
     let ry = sar 16 (((sar 12 (s2 * pAbs)) * D5780) * 5);
     let rx = sar 16 (((sar 12 (c2 * pAbs)) * D5780) * 5);
     let X0d = sdiv (camX - ry) 0x280;
     let X1d = sdiv (X1 - ry) 0x280;
     let X2d = sdiv (X2 - ry) 0x280;
     let Z0d = sdiv (camZ - rx) 0x280;
     let Z1d = sdiv (Z1 - rx) 0x280;
     let Z2d = sdiv (Z2 - rx) 0x280;
     w8 K (table + 6) 0;
     sop_scene_grid_gather K table X0d Z0d X1d Z1d X2d Z2d
   }"

definition sop_field_update :: "'c core_ops \<Rightarrow> ('c, unit) state" where
  "sop_field_update K = do {
     sm \<leftarrow> r32 K TASK_SM_PTR;
     v2 \<leftarrow> r16 K (sm + 0x60);
     let delay = as_s16 v2;
     (if delay \<noteq> 0 then w16 K (sm + 0x60) (delay - 1)
      else do {
        bg_scene_transition_sm_step K;
        sop_scene_prepass K SCENE_ENT_TABLE;
        object_list_walk_list2 K;
        w8 K IN_FIELD_UPDATE 1;
        bg \<leftarrow> r8 K BG_LAYER_STATE;
        (if bg = 0 then do { w8 K BG_LAYER_STATE 1; w8 K BG_LAYER_SUB 0 }
         else only_if (bg = 1) (do {
           sub1 \<leftarrow> r8 K BG_LAYER_SUB;
           (if sub1 = 0 then cutscene_camera_snap_follow K BG_LAYER_STATE BG_LAYER_TARGET
            else only_if (sub1 = 1) (w8 K BG_LAYER_SUB 0))
         }));
        area_slots_update_tail K;
        v5 \<leftarrow> r8 K SCENE_BEAT;
        let bgVisible = v5 \<noteq> 5;
        only_if bgVisible (parallax_bg_step K);
        _ \<leftarrow> guest_call K 0x80109FE0 [0x800F2418];
        _ \<leftarrow> guest_call K 0x8003C048 [];
        only_if bgVisible (do {
          _ \<leftarrow> guest_call K 0x8010C26C [PARALLAX_BG_SM];
          State_Monad.return ()
        });
        w8 K IN_FIELD_UPDATE 0
      });
     sm \<leftarrow> r32 K TASK_SM_PTR;
     s52 \<leftarrow> r16 K (sm + 0x52);
     (if s52 = 1 then do {
       _ \<leftarrow> guest_call K 0x8010C79C [];
       r2_8 \<leftarrow> reg K 2;
       (if r2_8 = 0 then State_Monad.return ()
        else do { v9 \<leftarrow> r16 K (sm + 0x52); w16 K (sm + 0x52) (v9 + 1) })
     }
      else if s52 \<noteq> 0 then State_Monad.return ()
       else do {
         w16 K (sm + 0x62) 0;
         audio_dispatch_zone_transition_setup K 0xE;
         v10 \<leftarrow> r16 K (sm + 0x52);
         w16 K (sm + 0x52) (v10 + 1)
       })
   }"

end
