(* ===== verification/SteeredValues.thy ===== *)
theory SteeredValues
  imports LookupLeaves MatrixMath
begin

text \<open>
  The value a pair of records is steered by (\<open>clamp_step\<close> of \<open>game/ai/beh_twin_record_steer.cpp\<close>),
  frame after frame: where it stands after any number of frames.
\<close>

lemma as_s16_u16 [simp]: "as_s16 (as_u16 x) = as_s16 x"
  by (simp add: as_s16_def)

lemma clamp_step_value:
  assumes cur: "short_val cur" and t: "t = sint (as_s16 snap)"
    and step: "0 < sint step" "- 32768 + sint step \<le> t" "t \<le> 32767 - sint step"
  shows "clamp_step cur snap step = None \<longleftrightarrow> sint cur = t"
    and "clamp_step cur snap step = Some v \<Longrightarrow>
      sint (as_s16 v) = (if sint cur < t then min t (sint cur + sint step) else max t (sint cur - sint step))"
proof -
  have s: "short_val (as_s16 snap)" by simp
  have d: "cur = as_s16 snap \<longleftrightarrow> sint cur = t" by (auto simp: t intro: signed_word_eqI)
  then show "clamp_step cur snap step = None \<longleftrightarrow> sint cur = t"
    by (simp add: clamp_step_def Let_def)
  have up: "sint (cur + step) = sint cur + sint step" "as_s16 (cur + step) = cur + step" if "sint cur < t"
  proof -
    show "sint (cur + step) = sint cur + sint step"
      using cur that step by (intro sint_add_small) (auto simp: short_val_def)
    then show "as_s16 (cur + step) = cur + step"
      using cur that step by (intro as_s16_short) (auto simp: short_val_def)
  qed
  have down: "sint (cur - step) = sint cur - sint step" "as_s16 (cur - step) = cur - step" if "t < sint cur"
  proof -
    show "sint (cur - step) = sint cur - sint step"
      using cur that step by (intro sint_sub_small) (auto simp: short_val_def)
    then show "as_s16 (cur - step) = cur - step"
      using cur that step by (intro as_s16_short) (auto simp: short_val_def)
  qed
  assume "clamp_step cur snap step = Some v"
  then show "sint (as_s16 v) = (if sint cur < t then min t (sint cur + sint step) else max t (sint cur - sint step))"
    using d up down by (auto simp: clamp_step_def Let_def word_sless_alt t [symmetric] split: if_splits)
qed

text \<open>A frame stores the answer, when there is one, and reads it back sign extended.\<close>
fun steered :: "nat \<Rightarrow> u32 \<Rightarrow> u32 \<Rightarrow> u32 \<Rightarrow> u32" where
  "steered 0 cur snap step = cur"
| "steered (Suc n) cur snap step =
     (case clamp_step cur snap step of None \<Rightarrow> cur | Some v \<Rightarrow> steered n (as_s16 v) snap step)"

text \<open>C40. A steered value moves towards its target by the step a frame and never past it: after \<open>n\<close>
  frames it stands \<open>n\<close> steps nearer or, when that reaches the target, exactly on it, where it stays,
  for every 16-bit start and every target at least a step from the ends of the 16-bit range.\<close>
theorem steered_position:
  assumes "short_val cur" "0 < sint step" "- 32768 + sint step \<le> sint (as_s16 snap)"
    "sint (as_s16 snap) \<le> 32767 - sint step"
  shows "sint (steered n cur snap step) =
     (if sint cur < sint (as_s16 snap) then min (sint (as_s16 snap)) (sint cur + int n * sint step)
      else max (sint (as_s16 snap)) (sint cur - int n * sint step))"
  using assms(1)
proof (induction n arbitrary: cur)
  case (Suc n)
  note v = clamp_step_value [OF Suc.prems refl assms(2-4)]
  obtain k where k: "int n * sint step = k" and pos: "0 \<le> k" using assms(2) by simp
  show ?case
  proof (cases "clamp_step cur snap step")
    case None
    then show ?thesis using v(1) pos assms(2) by (simp add: distrib_right k)
  next
    case (Some x)
    then have "sint cur \<noteq> sint (as_s16 snap)" using v(1) by auto
    then show ?thesis
      using Suc.IH [of "as_s16 x"] v(2) [OF Some] Some pos assms(2) by (auto simp: distrib_right k)
  qed
qed simp

theorem steered_position_witness: "sint (steered 4 (- 17) 0 5) = 0 \<and> sint (steered 3 (- 17) 0 5) = - 2"
  using steered_position [of "- 17" 5 0 4] steered_position [of "- 17" 5 0 3]
  by (simp add: short_val_def as_s16_def)

end
