(* ===== verification/TaskScheduling.thy ===== *)
theory TaskScheduling
  imports ObjectViews
begin

text \<open>
  Operations of the cooperative scheduler on its task table (spawn, close, sleep countdown), the
  interrupt mask and the frame driver's packet buffers. The host fibers behind the tasks are not
  modelled.
\<close>

section \<open>Layout\<close>

definition kBufferParityAddress :: u32 where "kBufferParityAddress = 0x1F800135"
definition kPutDispEnv :: u32 where "kPutDispEnv = 0x8008179C"
definition kClearOTagR :: u32 where "kClearOTagR = 0x80081458"
definition kDisplayBufferBase :: u32 where "kDisplayBufferBase = 0x800E80A8"
definition kDisplayBufferStride :: u32 where "kDisplayBufferStride = 0x2070"
definition kOtEntries :: u32 where "kOtEntries = 0x800"
definition kDispEnvOffset :: u32 where "kDispEnvOffset = 0x2000"
definition kLibapiHwPtrTable :: u32 where "kLibapiHwPtrTable = 0x800ABDA8"
definition kLibapiDataBase :: u32 where "kLibapiDataBase = 0x800B0000"
definition kVsyncCallbackTable :: u32 where "kVsyncCallbackTable = 0x800ABDC0"
definition kVsyncCallbackSlots :: u32 where "kVsyncCallbackSlots = 8"
definition kVblankTickCount :: u32 where "kVblankTickCount = 0x800ABDE0"
definition kTimer1ModePtrSlot :: u32 where "kTimer1ModePtrSlot = 0x800ABDE4"
definition kTimer1ModeHblankSource :: u32 where "kTimer1ModeHblankSource = 0x100"
definition kVblankHandler :: u32 where "kVblankHandler = 0x80086288"
definition kIrqVblank :: u32 where "kIrqVblank = 0"
definition kInitVblankRetValue :: u32 where "kInitVblankRetValue = 0x800862F4"
definition kRaClearWords :: u32 where "kRaClearWords = 0x80086260"
definition kRaInterruptCallback :: u32 where "kRaInterruptCallback = 0x80086270"
definition kRaCallbackSlot :: u32 where "kRaCallbackSlot = 0x800862D0"
definition kEnterCriticalSection :: u32 where "kEnterCriticalSection = 0x80080890"
definition kExitCriticalSection :: u32 where "kExitCriticalSection = 0x800808A0"
definition kOpenThread :: u32 where "kOpenThread = 0x80080860"
definition kCloseThread :: u32 where "kCloseThread = 0x80080870"
definition kBiosThreadHandle :: u32 where "kBiosThreadHandle = 0xFF000000"
definition kTaskSlotCount :: u32 where "kTaskSlotCount = 3"
definition kTaskState :: u32 where "kTaskState = 0x00"
definition kTaskCountdown :: u32 where "kTaskCountdown = 0x02"
definition kTaskHandle :: u32 where "kTaskHandle = 0x04"
definition kTaskStack :: u32 where "kTaskStack = 0x08"
definition kTaskEntry :: u32 where "kTaskEntry = 0x0C"
definition kTaskGp :: u32 where "kTaskGp = 0x10"
definition kSyncWaitStamp :: u32 where "kSyncWaitStamp = 0x56"
definition kTaskRunFlag :: u32 where "kTaskRunFlag = 0x6C"
definition kTaskSwitchFlag :: u32 where "kTaskSwitchFlag = 0x6F"
definition TaskState_Ended :: u32 where "TaskState_Ended = 0"
definition TaskState_Yielded :: u32 where "TaskState_Yielded = 1"
definition TaskState_Runnable :: u32 where "TaskState_Runnable = 2"
definition kStageStartEntry :: u32 where "kStageStartEntry = 0x8010649C"
definition kStageDemoEntry :: u32 where "kStageDemoEntry = 0x801062E4"
definition kStageGameEntry :: u32 where "kStageGameEntry = 0x8010637C"
definition kSopAreaLoadEntry :: u32 where "kSopAreaLoadEntry = 0x80109164"
definition guest_ordering_table_kBase :: u32 where "guest_ordering_table_kBase = 0x800BFE68"
definition kStride :: u32 where "kStride = 0x14000"
definition kLastCursor :: u32 where "kLastCursor = 0x800BF4F4"

section \<open>\<open>game/core/frame/frame_driver.cpp\<close>\<close>

definition buffer_parity :: "'c core_ops \<Rightarrow> ('c, u32) state" where
  "buffer_parity K = r8 K kBufferParityAddress"

definition current_env :: "'c core_ops \<Rightarrow> ('c, u32) state" where
  "current_env K = r32 K kBasePointer"

definition clear_ordering_table :: "'c core_ops \<Rightarrow> u32 \<Rightarrow> ('c, unit) state"
    where
  "clear_ordering_table K env = do {
     _ \<leftarrow> guest_call K kClearOTagR [env, kOtEntries];
     State_Monad.return ()
   }"

definition put_disp_env :: "'c core_ops \<Rightarrow> u32 \<Rightarrow> ('c, unit) state" where
  "put_disp_env K env = do {
     _ \<leftarrow> guest_call K kPutDispEnv [env + kDispEnvOffset];
     State_Monad.return ()
   }"

definition flip_buffer :: "'c core_ops \<Rightarrow> ('c, u32) state" where
  "flip_buffer K = do {
     v1 \<leftarrow> buffer_parity K;
     let parity = as_u8 (1 - v1);
     w8 K kBufferParityAddress parity;
     let env = kDisplayBufferBase + parity * kDisplayBufferStride;
     w32 K kBasePointer env;
     State_Monad.return env
   }"

definition rotate_packet_pool :: "'c core_ops \<Rightarrow> ('c, unit) state" where
  "rotate_packet_pool K = do {
     v1 \<leftarrow> r32 K kCursor;
     w32 K kLastCursor v1;
     v2 \<leftarrow> buffer_parity K;
     w32 K kCursor ((guest_ordering_table_kBase + v2 * kStride) AND 0xFFFFFF)
   }"

section \<open>\<open>game/core/hle/libapi_intr.cpp\<close>\<close>

definition libapi_intr_mirror_host_vblank :: "'c core_ops \<Rightarrow> u32 \<Rightarrow> ('c,
    unit) state" where
  "libapi_intr_mirror_host_vblank K hostCount = w32 K kVblankTickCount hostCount"

definition libapi_intr_set_intr_mask :: "'c core_ops \<Rightarrow> ('c, unit) state" where
  "libapi_intr_set_intr_mask K = do {
     imaskPtr \<leftarrow> r32 K kLibapiHwPtrTable;
     previous \<leftarrow> r16 K imaskPtr;
     r4_3 \<leftarrow> reg K 4;
     w16 K imaskPtr r4_3;
     setr K 2 previous
   }"

definition libapi_intr_init_vblank_callbacks :: "'c core_ops \<Rightarrow> ('c, unit) state" where
  "libapi_intr_init_vblank_callbacks K = with_frame K 24 [(31, 16)] (do {
     setr K 4 kVsyncCallbackTable;
     v1 \<leftarrow> r32 K kTimer1ModePtrSlot;
     w32 K v1 kTimer1ModeHblankSource;
     setr K 1 kLibapiDataBase;
     w32 K kVblankTickCount 0;
     setr K 5 kVsyncCallbackSlots;
     _ \<leftarrow> dispatch_jal K 0x80086320 kRaClearWords [];
     setr K 5 kVblankHandler;
     setr K 4 kIrqVblank;
     _ \<leftarrow> dispatch_jal K 0x80085B50 kRaInterruptCallback [];
     setr K 2 kInitVblankRetValue
   })"

definition libapi_intr_run_vblank_callbacks :: "'c core_ops \<Rightarrow> ('c, unit) state" where
  "libapi_intr_run_vblank_callbacks K = do {
     ticks \<leftarrow> r32 K kVblankTickCount;
     with_frame K 32 [(17, 20), (16, 16), (31, 24)] (do {
       setr K 17 0;
       setr K 16 kVsyncCallbackTable;
       setr K 1 kLibapiDataBase;
       w32 K kVblankTickCount (ticks + 1);
       loop (\<lambda>_. do {
         r16_2 \<leftarrow> reg K 16;
         v3 \<leftarrow> r32 K r16_2;
         setr K 2 v3;
         r2_4 \<leftarrow> reg K 2;
         only_if (r2_4 \<noteq> 0) (do {
           _ \<leftarrow> dispatch_jal K r2_4 kRaCallbackSlot [];
           State_Monad.return ()
         });
         r17_5 \<leftarrow> reg K 17;
         setr K 17 (r17_5 + 1);
         r17_6 \<leftarrow> reg K 17;
         setr K 2 (of_bool (r17_6 <s kVsyncCallbackSlots) :: u32);
         r16_7 \<leftarrow> reg K 16;
         setr K 16 (r16_7 + 4);
         r2_8 \<leftarrow> reg K 2;
         (if r2_8 \<noteq> 0 then State_Monad.return (Inr ())
          else State_Monad.return (Inl ()))
       }) ()
     })
   }"

definition libapi_intr_clear_words :: "'c core_ops \<Rightarrow> ('c, unit) state" where
  "libapi_intr_clear_words K = loop (\<lambda>pc1. (if pc1 = ''start'' then do {
     r5_1 \<leftarrow> reg K 5;
     r0_2 \<leftarrow> reg K 0;
     let t0 = (of_bool (r5_1 = r0_2) :: u32);
     setr K 2 (r5_1 + (-1));
     (if t0 \<noteq> 0 then State_Monad.return (Inr ''L_8008633C'')
      else do { setr K 3 (r0_2 + (-1)); State_Monad.return (Inr ''L_8008632C'') })
   }
    else if pc1 = ''L_8008632C'' then do {
      r4_3 \<leftarrow> reg K 4;
      r0_4 \<leftarrow> reg K 0;
      w32 K (r4_3 + 0) r0_4;
      r2_5 \<leftarrow> reg K 2;
      setr K 2 (r2_5 + (-1));
      r2_6 \<leftarrow> reg K 2;
      r3_7 \<leftarrow> reg K 3;
      let t0 = (of_bool (r2_6 \<noteq> r3_7) :: u32);
      setr K 4 (r4_3 + 4);
      (if t0 \<noteq> 0 then State_Monad.return (Inr ''L_8008632C'')
       else State_Monad.return (Inr ''L_8008633C''))
    }
     else State_Monad.return (Inl ()))) ''start''"

section \<open>\<open>game/core/sched/scheduler.cpp\<close>\<close>

definition scheduler_call_guest :: "'c core_ops \<Rightarrow> u32 \<Rightarrow> ('c, unit) state"
    where
  "scheduler_call_guest K address = call_guest K address"

definition scheduler_is_native_entry :: "'c core_ops \<Rightarrow> u32 \<Rightarrow> ('c, bool)
    state" where
  "scheduler_is_native_entry K entry = State_Monad.return (((entry = kStageDemoEntry \<or> entry =
      kStageGameEntry) \<or> entry = kStageStartEntry) \<or> entry = kSopAreaLoadEntry)"

definition scheduler_spawn_prim :: "'c core_ops \<Rightarrow> u32 \<Rightarrow> u32 \<Rightarrow>
    ('c, unit) state" where
  "scheduler_spawn_prim K slot1 entry = do {
     r29_1 \<leftarrow> reg K 29;
     setr K 29 (r29_1 - 24);
     base1 \<leftarrow> task_slot_base K slot1;
     r29_3 \<leftarrow> reg K 29;
     r16_4 \<leftarrow> reg K 16;
     w32 K (r29_3 + 16) r16_4;
     setr K 16 base1;
     r31_5 \<leftarrow> reg K 31;
     w32 K (r29_3 + 20) r31_5;
     w32 K (base1 + kTaskEntry) entry;
     setr K 31 0x80051F40;
     r28_6 \<leftarrow> reg K 28;
     w32 K (base1 + kTaskGp) r28_6;
     w16 K (base1 + kTaskState) TaskState_Runnable;
     setr K 31 0x80051F54;
     w8 K (base1 + kTaskSwitchFlag) 0;
     scheduler_call_guest K kEnterCriticalSection;
     v7 \<leftarrow> r32 K (base1 + kTaskEntry);
     setr K 4 v7;
     v8 \<leftarrow> r32 K (base1 + kTaskStack);
     setr K 5 v8;
     v9 \<leftarrow> r32 K (base1 + kTaskGp);
     setr K 6 v9;
     setr K 31 0x80051F68;
     scheduler_call_guest K kOpenThread;
     setr K 31 0x80051F70;
     r2_10 \<leftarrow> reg K 2;
     w32 K (base1 + kTaskHandle) r2_10;
     scheduler_call_guest K kExitCriticalSection;
     r29_11 \<leftarrow> reg K 29;
     v12 \<leftarrow> r32 K (r29_11 + 20);
     setr K 31 v12;
     v13 \<leftarrow> r32 K (r29_11 + 16);
     setr K 16 v13;
     setr K 29 (r29_11 + 24)
   }"

definition scheduler_force_close :: "'c core_ops \<Rightarrow> u32 \<Rightarrow> ('c, unit) state"
    where
  "scheduler_force_close K slot1 = do {
     r29_1 \<leftarrow> reg K 29;
     setr K 29 (r29_1 - 24);
     base1 \<leftarrow> task_slot_base K slot1;
     r29_3 \<leftarrow> reg K 29;
     r16_4 \<leftarrow> reg K 16;
     w32 K (r29_3 + 16) r16_4;
     setr K 16 base1;
     r31_5 \<leftarrow> reg K 31;
     w32 K (r29_3 + 20) r31_5;
     v6 \<leftarrow> r16 K (base1 + kTaskState);
     only_if (v6 \<noteq> TaskState_Ended) (do {
       w16 K (base1 + kTaskState) TaskState_Ended;
       w8 K (base1 + kTaskRunFlag) 0;
       setr K 31 0x80052054;
       w8 K (base1 + kTaskSwitchFlag) 0;
       scheduler_call_guest K kEnterCriticalSection;
       v7 \<leftarrow> r32 K (base1 + kTaskHandle);
       setr K 4 v7;
       setr K 31 0x80052060;
       scheduler_call_guest K kCloseThread;
       setr K 31 0x80052068;
       scheduler_call_guest K kExitCriticalSection
     });
     r29_8 \<leftarrow> reg K 29;
     v9 \<leftarrow> r32 K (r29_8 + 20);
     setr K 31 v9;
     v10 \<leftarrow> r32 K (r29_8 + 16);
     setr K 16 v10;
     setr K 29 (r29_8 + 24)
   }"

definition scheduler_spawn :: "'c core_ops \<Rightarrow> u32 \<Rightarrow> u32 \<Rightarrow> ('c,
    unit) state" where
  "scheduler_spawn K slot1 entry = do {
     base1 \<leftarrow> task_slot_base K slot1;
     w32 K (base1 + kTaskEntry) entry;
     r28_2 \<leftarrow> reg K 28;
     w32 K (base1 + kTaskGp) r28_2;
     w16 K (base1 + kTaskState) TaskState_Runnable;
     w8 K (base1 + kTaskSwitchFlag) 0;
     w32 K (base1 + kTaskHandle) kBiosThreadHandle
   }"

definition scheduler_tick_sleep_countdown :: "'c core_ops \<Rightarrow> ('c, unit) state" where
  "scheduler_tick_sleep_countdown K = for_each (upto_u32 (nat (sint kTaskSlotCount)))
      (\<lambda>slot1. do {
     base1 \<leftarrow> task_slot_base K slot1;
     v2 \<leftarrow> r16 K (base1 + kTaskState);
     (if v2 \<noteq> TaskState_Yielded then State_Monad.return ()
      else do {
        v3 \<leftarrow> r16 K (base1 + kTaskCountdown);
        let countdown = as_u16 (v3 - 1);
        w16 K (base1 + kTaskCountdown) countdown;
        only_if (countdown = 0) (w16 K (base1 + kTaskState) TaskState_Runnable)
      })
   })"

section \<open>\<open>game/core/sched/synchronous_task_wait.cpp\<close>\<close>

definition scheduler_complete_sync_wait :: "'c core_ops \<Rightarrow> u32 \<Rightarrow> u32
    \<Rightarrow> ('c, unit) state" where
  "scheduler_complete_sync_wait K taskBase flag = only_if (flag \<noteq> 1) (do {
     v1 \<leftarrow> rng_next K;
     let stamp = as_u16 v1;
     w16 K (taskBase + kSyncWaitStamp) stamp
   })"

end
