(* ===== verification/TaskTable.thy ===== *)
theory TaskTable
  imports TaskScheduling Polling
begin

text \<open>
  The contract of the cooperative scheduler. The operations of \<open>TaskScheduling\<close> read the task
  table at \<open>0x801FE000\<close>; here the table is a list of three slots, the moves of the scheduler form a
  labelled transition system (\<open>sched_step\<close>, \<open>sched_run\<close>), and each move is shown to be the function
  \<open>task_move\<close> on that list. Typing of the states and the waking of sleeping tasks follow on the
  list; the countdown of a slot is an instance of the locale \<open>counted\<close>.
\<close>

section \<open>The task table as a list\<close>

text \<open>A slot as the scheduler's contract sees it: the state halfword and the sleep countdown.\<close>
record tcb =
  tcb_state :: u16
  tcb_sleep :: u16

definition slot_address :: "nat \<Rightarrow> u32" where
  "slot_address i = 0x801FE000 + of_nat i * 0x70"

definition tcb_at :: "'c core_ops \<Rightarrow> 'c \<Rightarrow> u32 \<Rightarrow> tcb" where
  "tcb_at K c a = \<lparr>tcb_state = mem_r16 K c a, tcb_sleep = mem_r16 K c (a + 2)\<rparr>"

definition task_table :: "'c core_ops \<Rightarrow> 'c \<Rightarrow> tcb list" where
  "task_table K c = map (\<lambda>i. tcb_at K c (slot_address i)) [0..<3]"

text \<open>One tick of the sleep countdown: a yielded task counts down, modulo \<open>2^16\<close>, and runs at zero.\<close>
definition tick_task :: "tcb \<Rightarrow> tcb" where
  "tick_task t = (if tcb_state t \<noteq> 1 then t
     else \<lparr>tcb_state = (if tcb_sleep t = 1 then 2 else 1), tcb_sleep = tcb_sleep t - 1\<rparr>)"

definition tick_slot :: "'c core_ops \<Rightarrow> u32 \<Rightarrow> ('c, unit) state" where
  "tick_slot K slot = do {
     base \<leftarrow> task_slot_base K slot;
     v2 \<leftarrow> r16 K (base + kTaskState);
     (if v2 \<noteq> TaskState_Yielded then State_Monad.return ()
      else do {
        v3 \<leftarrow> r16 K (base + kTaskCountdown);
        let countdown = as_u16 (v3 - 1);
        w16 K (base + kTaskCountdown) countdown;
        only_if (countdown = 0) (w16 K (base + kTaskState) TaskState_Runnable)
      })
   }"

lemma tick_slots: "scheduler_tick_sleep_countdown K = for_each (upto_u32 3) (tick_slot K)"
  by (simp add: scheduler_tick_sleep_countdown_def tick_slot_def [abs_def] kTaskSlotCount_def)

lemmas task_layout = kTaskTableBase_def kTaskSlotStride_def kTaskState_def kTaskCountdown_def
  TaskState_Yielded_def TaskState_Runnable_def TaskState_Ended_def task_slot_base_def

lemma ucast_u16_one: "((ucast (x :: u16) :: u32) = 1) = (x = 1)"
proof -
  have "((ucast x :: u32) = ucast (1 :: u16)) = (x = 1)" by (metis ucast_u16_u32)
  then show ?thesis by simp
qed

lemma countdown_halfword: "(ucast (as_u16 (ucast (n :: u16) - 1)) :: u16) = n - 1"
  "(as_u16 (ucast (n :: u16) - 1 :: u32) = 0) = (n = 1)"
proof -
  show half: "(ucast (as_u16 (ucast n - 1)) :: u16) = n - 1" for n :: u16
    by (simp add: as_u16_def ucast_u16_mask ucast_minus_u16)
  have "as_u16 (ucast n - 1) = ucast (n - 1)"
    by (simp only: half [of n, symmetric]) (simp add: as_u16_def ucast_down_up_u16 and.assoc)
  then show "(as_u16 (ucast n - 1 :: u32) = 0) = (n = 1)"
    by simp
qed

lemma as_u16_zero: "as_u16 0 = 0"
  by (simp add: as_u16_def)

lemma three_slots:
  "[x, y, z] ! 0 = x" "[x, y, z] ! 1 = y" "[x, y, z] ! 2 = z"
  "[x, y, z][0 := w] = [w, y, z]" "[x, y, z][1 := w] = [x, w, z]" "[x, y, z][2 := w] = [x, y, w]"
  by (simp_all add: One_nat_def numeral_2_eq_2)

lemma task_table_slots:
  "task_table K c = [tcb_at K c 0x801FE000, tcb_at K c 0x801FE070, tcb_at K c 0x801FE0E0]"
  by (simp add: task_table_def slot_address_def upt_rec)

context guest_core
begin

lemma slot_word: "i < 3 \<Longrightarrow> kTaskTableBase + of_nat i * kTaskSlotStride = slot_address i"
  by (simp add: task_layout slot_address_def)

lemma tick_slot_effect:
  assumes "i < 3"
  shows "task_table K (exec (tick_slot K (of_nat i)) c) =
    (task_table K c)[i := tick_task (task_table K c ! i)]"
  using below_three [OF assms]
  by (elim disjE)
    (simp_all add: tick_slot_def task_layout Let_def task_table_slots three_slots tcb_at_def tick_task_def
      countdown_halfword ucast_minus_u16 ucast_u16_one as_u16_zero read_write address_simps
      del: list_update.simps)

lemma tick_refines: "task_table K (exec (scheduler_tick_sleep_countdown K) c) = map tick_task (task_table K c)"
proof -
  have "exec (scheduler_tick_sleep_countdown K) c =
      exec (tick_slot K 2) (exec (tick_slot K 1) (exec (tick_slot K 0) c))"
    by (simp add: tick_slots upto_u32_def upt_rec split_beta)
  moreover have "task_table K (exec (tick_slot K 0) c) = (task_table K c)[0 := tick_task (task_table K c ! 0)]"
    "task_table K (exec (tick_slot K 1) c) = (task_table K c)[1 := tick_task (task_table K c ! 1)]"
    "task_table K (exec (tick_slot K 2) c) = (task_table K c)[2 := tick_task (task_table K c ! 2)]" for c
    using tick_slot_effect [of 0 c] tick_slot_effect [of 1 c] tick_slot_effect [of 2 c]
    by (simp_all del: list_update.simps nth_Cons_numeral)
  ultimately show ?thesis
    by (simp only: three_slots) (simp only: task_table_slots three_slots list.map)
qed

end

section \<open>The other operations on the table\<close>

lemmas task_calls = kEnterCriticalSection_def kExitCriticalSection_def kOpenThread_def kCloseThread_def
lemmas task_fields = kTaskEntry_def kTaskGp_def kTaskSwitchFlag_def kTaskHandle_def kTaskStack_def kTaskRunFlag_def

text \<open>The BIOS calls of the scheduler (\<open>EnterCriticalSection\<close>, \<open>ExitCriticalSection\<close>,
  \<open>OpenThread\<close>, \<open>CloseThread\<close>) keep their own tables; they leave the game's as it is.\<close>
definition bios_keeps_tasks :: "'c core_ops \<Rightarrow> bool" where
  "bios_keeps_tasks K \<longleftrightarrow> (\<forall>c. \<forall>a \<in> {kEnterCriticalSection, kExitCriticalSection, kOpenThread, kCloseThread}.
     task_table K (dispatch K c a) = task_table K c)"

lemma bios_calls:
  assumes "bios_keeps_tasks K"
  shows "task_table K (dispatch K c kEnterCriticalSection) = task_table K c"
    "task_table K (dispatch K c kExitCriticalSection) = task_table K c"
    "task_table K (dispatch K c kOpenThread) = task_table K c"
    "task_table K (dispatch K c kCloseThread) = task_table K c"
  using assms by (simp_all add: bios_keeps_tasks_def)

text \<open>The frame of a guest-shaped entry, 24 bytes below the stack pointer, misses the table.\<close>
definition stack_clear :: "'c core_ops \<Rightarrow> 'c \<Rightarrow> bool" where
  "stack_clear K c \<longleftrightarrow> in_ram (get_reg K c 29 - 8) 8 \<and> apart (get_reg K c 29 - 8) 8 0x801FE000 0x150"

context guest_core
begin

lemma table_set_reg: "task_table K (set_reg K c i v) = task_table K c"
  by (simp add: task_table_slots tcb_at_def read_write address_simps)

lemma table_w32_apart:
  assumes "in_ram a 4" "apart a 4 0x801FE000 0x150"
  shows "task_table K (mem_w32 K c a v) = task_table K c"
proof -
  have "mem_r16 K (mem_w32 K c a v) b = mem_r16 K c b"
    if "b \<in> {0x801FE000, 0x801FE002, 0x801FE070, 0x801FE072, 0x801FE0E0, 0x801FE0E2}" for b
  proof -
    have "apart a 4 b 2"
      using that apart_parts [OF assms(2), of 0 4 "b - 0x801FE000" 2] by auto
    then show ?thesis using that assms(1) by (intro r16_apart) (auto simp: in_ram_def)
  qed
  then show ?thesis by (simp add: task_table_slots tcb_at_def)
qed

lemma table_stack:
  assumes "stack_clear K c"
  shows "task_table K (mem_w32 K d (get_reg K c 29 - 24 + 16) v) = task_table K d"
    "task_table K (mem_w32 K d (get_reg K c 29 - 24 + 20) v) = task_table K d"
proof -
  have ram: "in_ram (get_reg K c 29 - 8) 8" and far: "apart (get_reg K c 29 - 8) 8 0x801FE000 0x150"
    using assms by (simp_all add: stack_clear_def)
  show "task_table K (mem_w32 K d (get_reg K c 29 - 24 + 16) v) = task_table K d"
    "task_table K (mem_w32 K d (get_reg K c 29 - 24 + 20) v) = task_table K d"
    using in_ram_offset [OF ram, where off = 0 and m = 4] in_ram_offset [OF ram, where off = 4 and m = 4]
      apart_parts [OF far, where i = 0 and k = 4 and j = 0 and l = "0x150"]
      apart_parts [OF far, where i = 4 and k = 4 and j = 0 and l = "0x150"]
    by (auto intro!: table_w32_apart simp: algebra_simps)
qed

text \<open>Fields of a slot other than the state and the countdown.\<close>
lemma table_fields:
  assumes "i < 3"
  shows "task_table K (mem_w32 K c (slot_address i + 0xC) v) = task_table K c"
    "task_table K (mem_w32 K c (slot_address i + 0x10) v) = task_table K c"
    "task_table K (mem_w32 K c (slot_address i + 4) v) = task_table K c"
    "task_table K (mem_w8 K c (slot_address i + 0x6F) b) = task_table K c"
    "task_table K (mem_w8 K c (slot_address i + 0x6C) b) = task_table K c"
    "task_table K (mem_w16 K c (slot_address i) h) =
      (task_table K c)[i := (task_table K c ! i)\<lparr>tcb_state := h\<rparr>]"
  using below_three [OF assms]
  by (elim disjE; simp add: slot_address_def task_table_slots three_slots tcb_at_def read_write
      address_simps del: list_update.simps)+

lemma spawn_effect:
  assumes "i < 3"
  shows "task_table K (exec (scheduler_spawn K (of_nat i) e) c) =
    (task_table K c)[i := (task_table K c ! i)\<lparr>tcb_state := 2\<rparr>]"
  using table_fields [OF assms]
  by (simp add: scheduler_spawn_def task_slot_base_def slot_word [OF assms] task_fields
      kTaskState_def TaskState_Runnable_def)

lemma spawn_prim_effect:
  assumes "i < 3" "bios_keeps_tasks K" "stack_clear K c"
  shows "task_table K (exec (scheduler_spawn_prim K (of_nat i) e) c) =
    (task_table K c)[i := (task_table K c ! i)\<lparr>tcb_state := 2\<rparr>]"
  using table_fields [OF assms(1)] bios_calls [OF assms(2)] table_stack [OF assms(3)]
  by (simp add: scheduler_spawn_prim_def scheduler_call_guest_def task_slot_base_def
      slot_word [OF assms(1)] task_fields kTaskState_def TaskState_Runnable_def table_set_reg reg_set_reg reg_w32)

lemma close_effect:
  assumes "i < 3" "bios_keeps_tasks K" "stack_clear K c"
  shows "task_table K (exec (scheduler_force_close K (of_nat i)) c) =
    (task_table K c)[i := (task_table K c ! i)\<lparr>tcb_state := 0\<rparr>]"
proof -
  let ?c = "mem_w32 K (set_reg K (mem_w32 K (set_reg K c 29 (get_reg K c 29 - 24))
    (get_reg K c 29 - 24 + 16) (get_reg K c 16)) 16 (slot_address i)) (get_reg K c 29 - 24 + 20) (get_reg K c 31)"
  have same: "task_table K ?c = task_table K c"
    using table_stack [OF assms(3)] by (simp add: table_set_reg)
  have state: "tcb_state (task_table K c ! i) = mem_r16 K c (slot_address i)" for c
    using below_three [OF assms(1)]
    by (elim disjE) (simp_all add: task_table_slots three_slots tcb_at_def slot_address_def)
  have closed: "(task_table K c)[i := (task_table K c ! i)\<lparr>tcb_state := 0\<rparr>] = task_table K c"
    if "mem_r16 K ?c (slot_address i) = 0"
    using that state [of ?c] same by (simp add: list_update_same_conv task_table_def assms(1) tcb.splits)
  show ?thesis
    using table_fields [OF assms(1)] bios_calls [OF assms(2)] same closed
    by (simp add: scheduler_force_close_def scheduler_call_guest_def task_slot_base_def
        slot_word [OF assms(1)] task_fields kTaskState_def TaskState_Ended_def table_set_reg reg_set_reg reg_w32)
qed

end

section \<open>The scheduler as a transition system\<close>

text \<open>The moves of the scheduler; a slot is 0, 1 or 2 and an entry the address of a task body.\<close>
datatype sched_op = Tick | Spawn nat u32 | Spawn_Prim nat u32 | Close nat

fun op_slot :: "sched_op \<Rightarrow> nat option" where
  "op_slot Tick = None"
| "op_slot (Spawn i e) = Some i"
| "op_slot (Spawn_Prim i e) = Some i"
| "op_slot (Close i) = Some i"

inductive sched_step :: "'c core_ops \<Rightarrow> 'c \<Rightarrow> sched_op \<Rightarrow> 'c \<Rightarrow> bool" for K where
  tick: "sched_step K c Tick (exec (scheduler_tick_sleep_countdown K) c)"
| spawn: "i < 3 \<Longrightarrow> sched_step K c (Spawn i e) (exec (scheduler_spawn K (of_nat i) e) c)"
| spawn_prim: "i < 3 \<Longrightarrow> stack_clear K c \<Longrightarrow>
    sched_step K c (Spawn_Prim i e) (exec (scheduler_spawn_prim K (of_nat i) e) c)"
| close: "i < 3 \<Longrightarrow> stack_clear K c \<Longrightarrow>
    sched_step K c (Close i) (exec (scheduler_force_close K (of_nat i)) c)"

inductive sched_run :: "'c core_ops \<Rightarrow> 'c \<Rightarrow> sched_op list \<Rightarrow> 'c \<Rightarrow> bool" for K where
  stay: "sched_run K c [] c"
| move: "sched_step K c p c' \<Longrightarrow> sched_run K c' ps c'' \<Longrightarrow> sched_run K c (p # ps) c''"

inductive_cases sched_run_stayE: "sched_run K c [] c'"
inductive_cases sched_run_moveE: "sched_run K c (p # ps) c''"

text \<open>The moves on the table as a list.\<close>
fun task_move :: "sched_op \<Rightarrow> tcb list \<Rightarrow> tcb list" where
  "task_move Tick ts = map tick_task ts"
| "task_move (Spawn i e) ts = ts[i := (ts ! i)\<lparr>tcb_state := 2\<rparr>]"
| "task_move (Spawn_Prim i e) ts = ts[i := (ts ! i)\<lparr>tcb_state := 2\<rparr>]"
| "task_move (Close i) ts = ts[i := (ts ! i)\<lparr>tcb_state := 0\<rparr>]"

text \<open>Every state is one of the enumeration \<open>TaskState\<close>.\<close>
definition tasks_typed :: "tcb list \<Rightarrow> bool" where
  "tasks_typed ts \<longleftrightarrow> (\<forall>t \<in> set ts. unat (tcb_state t) \<le> 4)"

lemma task_move_length [simp]: "length (task_move p ts) = length ts"
  by (cases p) simp_all

lemma task_moves_length [simp]: "length (fold task_move ps ts) = length ts"
  by (induction ps arbitrary: ts) simp_all

lemma set_update_in: "t \<in> set (ts[i := x]) \<Longrightarrow> t = x \<or> t \<in> set ts"
  using set_update_subset_insert [of ts i x] by auto

lemma task_move_typed: "tasks_typed ts \<Longrightarrow> tasks_typed (task_move p ts)"
  by (cases p) (auto simp: tasks_typed_def tick_task_def dest!: set_update_in)

lemma task_moves_typed: "tasks_typed ts \<Longrightarrow> tasks_typed (fold task_move ps ts)"
  by (induction ps arbitrary: ts) (simp_all add: task_move_typed)

context guest_core
begin

lemma sched_step_table:
  "bios_keeps_tasks K \<Longrightarrow> sched_step K c p c' \<Longrightarrow> task_table K c' = task_move p (task_table K c)"
  by (erule sched_step.cases) (simp_all add: tick_refines spawn_effect spawn_prim_effect close_effect)

lemma sched_run_table:
  assumes "bios_keeps_tasks K" and "sched_run K c ps c'"
  shows "task_table K c' = fold task_move ps (task_table K c)"
  using assms(2) by induction (simp_all add: sched_step_table [OF assms(1)])

end

section \<open>Sleeping\<close>

text \<open>The ticks a yielded task sleeps: its countdown, where 0 stands for \<open>2^16\<close>.\<close>
definition sleep_ticks :: "u16 \<Rightarrow> nat" where
  "sleep_ticks n = Suc (unat (n - 1))"

definition tick_call :: "tcb \<Rightarrow> bool \<times> tcb" where
  "tick_call t = (tcb_state (tick_task t) \<noteq> 1, tick_task t)"

definition ticks_left :: "tcb \<Rightarrow> nat" where
  "ticks_left t = (if tcb_state t = 1 then unat (tcb_sleep t - 1) else 0)"

lemma unat_u16_pred: "(n :: u16) \<noteq> 0 \<Longrightarrow> unat n = Suc (unat (n - 1))"
  using unat_minus_one [of n] unat_gt_0 [of n] by simp

text \<open>The countdown of one task keeps the contract of a counted operation.\<close>
interpretation sleeping: counted tick_call "\<lambda>t. True" ticks_left
proof
  fix t :: tcb
  show "True \<and> ticks_left (snd (tick_call t)) < ticks_left t" if "\<not> fst (tick_call t)"
    using that unat_u16_pred [of "tcb_sleep t - 1"]
    by (auto simp: tick_call_def tick_task_def ticks_left_def split: if_splits)
  show "fst (tick_call t) = (ticks_left t = 0)"
    by (auto simp: tick_call_def tick_task_def ticks_left_def unat_eq_0)
  show "ticks_left t = Suc (ticks_left (snd (tick_call t)))" if "\<not> fst (tick_call t)"
    using that unat_u16_pred [of "tcb_sleep t - 1"]
    by (auto simp: tick_call_def tick_task_def ticks_left_def split: if_splits)
qed

lemma tick_call_runs: "fst (tick_call t) \<Longrightarrow> tcb_state t = 1 \<Longrightarrow> tcb_state (tick_task t) = 2"
  by (simp add: tick_call_def tick_task_def split: if_splits)

lemma sleeping_task:
  assumes "tcb_state t = 1" "k \<le> sleep_ticks (tcb_sleep t)"
  shows "tcb_state (after tick_call k t) = (if k = sleep_ticks (tcb_sleep t) then 2 else 1)"
proof -
  have left: "sleep_ticks (tcb_sleep t) = Suc (ticks_left t)"
    using assms(1) by (simp add: sleep_ticks_def ticks_left_def)
  have asleep: "tcb_state (after tick_call n t) = 1" if "n \<le> ticks_left t" for n
  proof (cases n)
    case (Suc m)
    then have "\<not> fst (tick_call (after tick_call m t))"
      using that sleeping.answers_at [where s = t and n = m] by simp
    then show ?thesis using Suc by (simp add: after_Suc tick_call_def del: after.simps(2))
  qed (simp add: assms(1))
  show ?thesis
  proof (cases "k = Suc (ticks_left t)")
    case True
    then show ?thesis
      using sleeping.answers_at [where s = t and n = "ticks_left t"] asleep [of "ticks_left t"] tick_call_runs left
      by (simp add: after_Suc tick_call_def del: after.simps(2))
  next
    case False
    then show ?thesis using asleep [of k] assms(2) left by simp
  qed
qed

definition ticks_in :: "sched_op list \<Rightarrow> nat" where
  "ticks_in ps = length [p \<leftarrow> ps. p = Tick]"

lemma slot_after:
  assumes "i < length ts" "\<forall>p \<in> set ps. op_slot p \<noteq> Some i"
  shows "fold task_move ps ts ! i = after tick_call (ticks_in ps) (ts ! i)"
  using assms
proof (induction ps arbitrary: ts)
  case (Cons p ps)
  then show ?case by (cases p) (auto simp: ticks_in_def tick_call_def)
qed (simp add: ticks_in_def)

section \<open>Properties\<close>

text \<open>C17. The scheduler implements its contract on the task table: over any run of ticks, spawns (the native
  one and the guest-shaped one) and closes, the three slots move as the list of states and countdowns does.\<close>
theorem scheduler_refines:
  assumes "guest_core K" "bios_keeps_tasks K" "sched_run K c ps c'"
  shows "task_table K c' = fold task_move ps (task_table K c)"
  by (rule guest_core.sched_run_table [OF assms])


text \<open>C19. A sleeping task wakes: whatever the scheduler does to the other slots meanwhile, a task that yielded
  with countdown \<open>n\<close> is runnable at the \<open>n\<close>-th tick (the \<open>2^16\<close>-th for 0), and not before.\<close>
theorem sleeping_task_wakes:
  assumes "guest_core K" "bios_keeps_tasks K" "sched_run K c ps c'"
    and "i < 3" "task_table K c ! i = \<lparr>tcb_state = 1, tcb_sleep = n\<rparr>"
    and "\<forall>p \<in> set ps. op_slot p \<noteq> Some i" "ticks_in ps \<le> sleep_ticks n"
  shows "tcb_state (task_table K c' ! i) = (if ticks_in ps = sleep_ticks n then 2 else 1)"
proof -
  have "task_table K c' ! i = after tick_call (ticks_in ps) (task_table K c ! i)"
    using guest_core.sched_run_table [OF assms(1-3)] slot_after [OF _ assms(6)] assms(4)
    by (simp add: task_table_def)
  then show ?thesis using sleeping_task [of "task_table K c ! i" "ticks_in ps"] assms(5,7) by simp
qed

section \<open>A concrete run\<close>

text \<open>Slot 1 has yielded for two ticks.\<close>
definition yielded_frame :: flat where
  "yielded_frame = mem_w16 idle_core (mem_w16 idle_core zero_flat 0x801FE070 1) 0x801FE072 2"

lemma yielded_table: "task_table idle_core yielded_frame =
    [\<lparr>tcb_state = 0, tcb_sleep = 0\<rparr>, \<lparr>tcb_state = 1, tcb_sleep = 2\<rparr>, \<lparr>tcb_state = 0, tcb_sleep = 0\<rparr>]"
  by (simp add: task_table_slots tcb_at_def yielded_frame_def flat.read_write zero_reads address_simps
      del: flat_core_sel)

lemma idle_bios: "bios_keeps_tasks idle_core"
  by (simp add: bios_keeps_tasks_def)

lemma yielded_run:
  "\<exists>c'. sched_run idle_core yielded_frame [Tick, Spawn 0 0x801062E4, Tick] c'"
  by (intro exI, rule sched_run.move, rule sched_step.tick, rule sched_run.move, rule sched_step.spawn, simp,
      rule sched_run.move, rule sched_step.tick, rule sched_run.stay)

lemma yielded_moves: "fold task_move [Tick, Spawn 0 e, Tick] (task_table idle_core yielded_frame) =
    [\<lparr>tcb_state = 2, tcb_sleep = 0\<rparr>, \<lparr>tcb_state = 2, tcb_sleep = 0\<rparr>, \<lparr>tcb_state = 0, tcb_sleep = 0\<rparr>]"
  by (simp add: yielded_table tick_task_def del: flat_core_sel)

theorem scheduler_refines_witness:
  "\<exists>c'. sched_run idle_core yielded_frame [Tick, Spawn 0 0x801062E4, Tick] c' \<and>
    task_table idle_core c' = [\<lparr>tcb_state = 2, tcb_sleep = 0\<rparr>, \<lparr>tcb_state = 2, tcb_sleep = 0\<rparr>,
      \<lparr>tcb_state = 0, tcb_sleep = 0\<rparr>]"
proof -
  obtain c' where c': "sched_run idle_core yielded_frame [Tick, Spawn 0 0x801062E4, Tick] c'"
    using yielded_run by blast
  then show ?thesis
    using scheduler_refines [OF flat.guest_core_axioms idle_bios c'] by (metis yielded_moves)
qed


theorem sleeping_task_wakes_witness:
  "\<exists>c'. sched_run idle_core yielded_frame [Tick, Spawn 0 0x801062E4, Tick] c' \<and>
    tcb_state (task_table idle_core c' ! 1) = 2"
proof -
  obtain c' where c': "sched_run idle_core yielded_frame [Tick, Spawn 0 0x801062E4, Tick] c'"
    using yielded_run by blast
  have "tcb_state (task_table idle_core c' ! 1) =
      (if ticks_in [Tick, Spawn 0 0x801062E4, Tick] = sleep_ticks 2 then 2 else 1)"
    by (rule sleeping_task_wakes [OF flat.guest_core_axioms idle_bios c'])
      (simp_all add: yielded_table three_slots ticks_in_def sleep_ticks_def del: flat_core_sel)
  then show ?thesis using c' by (auto simp: ticks_in_def sleep_ticks_def)
qed

end
