(* ===== verification/ZonedAttacker.thy ===== *)
theory ZonedAttacker
  imports ObjectViews
begin

text \<open>
  The zoned attacker: its idle states and its sixteen-armed substate machine. The labels that the
  machine jumps to are the values of a program counter of the loop that runs them.
\<close>

section \<open>Layout\<close>

definition kAnimationStep :: u32 where "kAnimationStep = 0x80076D68"
definition kLeaf_80142788 :: u32 where "kLeaf_80142788 = 0x80142788"
definition kLeaf_801425F0 :: u32 where "kLeaf_801425F0 = 0x801425F0"
definition kLeaf_80141AC4 :: u32 where "kLeaf_80141AC4 = 0x80141AC4"
definition kLeaf_801422B4 :: u32 where "kLeaf_801422B4 = 0x801422B4"
definition kLeaf_8014213C :: u32 where "kLeaf_8014213C = 0x8014213C"
definition kLeaf_80141C20 :: u32 where "kLeaf_80141C20 = 0x80141C20"
definition kLeaf_80140AF4 :: u32 where "kLeaf_80140AF4 = 0x80140AF4"
definition kLeaf_8014243C :: u32 where "kLeaf_8014243C = 0x8014243C"
definition kLeaf_801436C4 :: u32 where "kLeaf_801436C4 = 0x801436C4"
definition kLeaf_801431C4 :: u32 where "kLeaf_801431C4 = 0x801431C4"
definition kLeaf_801408AC :: u32 where "kLeaf_801408AC = 0x801408AC"
definition kLeaf_8014103C :: u32 where "kLeaf_8014103C = 0x8014103C"
definition kLeaf_80141438 :: u32 where "kLeaf_80141438 = 0x80141438"
definition kLeaf_8014181C :: u32 where "kLeaf_8014181C = 0x8014181C"
definition kLeaf_80142A94 :: u32 where "kLeaf_80142A94 = 0x80142A94"
definition kLeaf_80142CF4 :: u32 where "kLeaf_80142CF4 = 0x80142CF4"
definition kLeaf_80026100 :: u32 where "kLeaf_80026100 = 0x80026100"
definition kSfxTrigger :: u32 where "kSfxTrigger = 0x80074590"
definition kPaletteSideEffect :: u32 where "kPaletteSideEffect = 0x80077E20"
definition kLeaf_80080750 :: u32 where "kLeaf_80080750 = 0x80080750"
definition kLeaf_801280E8 :: u32 where "kLeaf_801280E8 = 0x801280E8"
definition kLeaf_80077768 :: u32 where "kLeaf_80077768 = 0x80077768"
definition kCullWrapperFlag2 :: u32 where "kCullWrapperFlag2 = 0x800777FC"
definition kObjMatrixCompose :: u32 where "kObjMatrixCompose = 0x800518FC"
definition kLeaf_800495DC :: u32 where "kLeaf_800495DC = 0x800495DC"
definition kLeaf_800315D4 :: u32 where "kLeaf_800315D4 = 0x800315D4"
definition kGateCheck :: u32 where "kGateCheck = 0x8014047C"
definition kPickAttackByRange :: u32 where "kPickAttackByRange = 0x801409C0"
definition kS_1F800137 :: u32 where "kS_1F800137 = 0x1F800137"
definition kS_800BF89C :: u32 where "kS_800BF89C = 0x800BF89C"
definition kS_800BF809 :: u32 where "kS_800BF809 = 0x800BF809"
definition kCountdown :: u32 where "kCountdown = 0x8014BF5E"
definition kS_800E7E80 :: u32 where "kS_800E7E80 = 0x800E7E80"

section \<open>\<open>game/ai/actor_zoned_attacker_idle.cpp\<close>\<close>

definition actor_zoned_attacker_idle_tick_l179 :: "'c core_ops \<Rightarrow> u32 \<Rightarrow> 'a
    \<Rightarrow> 'b \<Rightarrow> 'd \<Rightarrow> ('c, 'e + string \<times> 'a \<times> 'b
    \<times> u32 \<times> 'd) state" where
  "actor_zoned_attacker_idle_tick_l179 K node diff inc1 v = do {
     _ \<leftarrow> guest_call K kLeaf_801280E8 [node];
     v8 \<leftarrow> reg K (unat R_V0);
     let sVar4 = as_s16 v8;
     (if sVar4 \<noteq> 0 then State_Monad.return (Inr (''LAB_801451b0'', diff, inc1, node, v))
      else do {
        w8 K (node + 5) 2;
        State_Monad.return (Inr (''switchD_caseD_8'', diff, inc1, node, v))
      })
   }"

definition actor_zoned_attacker_idle_tick_l188 :: "'c core_ops \<Rightarrow> u32 \<Rightarrow> 'a
    \<Rightarrow> 'b \<Rightarrow> 'd \<Rightarrow> ('c, 'e + string \<times> 'a \<times> 'b
    \<times> u32 \<times> 'd) state" where
  "actor_zoned_attacker_idle_tick_l188 K node diff inc1 v = do {
     setr K (unat R_A0) node;
     v9 \<leftarrow> r32 K (node + 0xC0);
     setr K (unat R_A1) v9;
     setr K (unat R_A2) 1;
     call_guest K kLeaf_80080750;
     iVar5 \<leftarrow> reg K (unat R_V0);
     (if iVar5 \<noteq> 0 then State_Monad.return (Inr (''LAB_801451b0'', diff, inc1, node, v))
      else do {
        w8 K (node + 5) 2;
        State_Monad.return (Inr (''after5'', diff, inc1, node, v))
      })
   }"

definition actor_zoned_attacker_idle_tick_l203 :: "'c core_ops \<Rightarrow> u32 \<Rightarrow> 'a
    \<Rightarrow> 'b \<Rightarrow> 'd \<Rightarrow> ('c, unit + string \<times> 'a \<times> 'b
    \<times> u32 \<times> 'd) state" where
  "actor_zoned_attacker_idle_tick_l203 K node diff inc1 v = do {
     v11 \<leftarrow> r8 K (node + 6);
     (if v11 = 0 then do {
       _ \<leftarrow> guest_call K kSetAnimStateCue [node, 2, 4];
       v12 \<leftarrow> actor_interact_state K node;
       setr K (unat R_A0) (shl v12 4);
       v13 \<leftarrow> actor_trigger_param K node;
       setr K (unat R_A1) v13;
       setr K (unat R_A2) 0;
       call_guest K kLeaf_80077768;
       v62 \<leftarrow> actor_state_echo_u K node;
       v15 \<leftarrow> reg K (unat R_V0);
       let v62 = (if v15 = 0 then as_u16 (v62 OR 1) else as_u16 (v62 AND 0xFFFE));
       actor_set_state_echo K node v62;
       w16 K (node + 0x4E) 0xE000;
       actor_set_accel_y K node 0xFFD8;
       w8 K (node + 0x29) 0;
       w8 K (node + 6) 1;
       setr K (unat R_A0) 0x88;
       setr K (unat R_A1) 0;
       setr K (unat R_A2) 0;
       call_guest K kSfxTrigger;
       State_Monad.return (Inr (''switchD_caseD_3'', diff, inc1, node, v))
     }
      else do {
        v16 \<leftarrow> r8 K (node + 6);
        (if v16 \<noteq> 1 then do { w8 K (node + 4) 3; State_Monad.return (Inl ()) }
         else do {
           v17 \<leftarrow> actor_vel_x K node;
           v18 \<leftarrow> r16s K (node + 0x4E);
           let iVar5 = v17 * v18;
           v19 \<leftarrow> actor_vel_z K node;
           v20 \<leftarrow> r16s K (node + 0x4E);
           let iVar7 = v19 * v20;
           v21 \<leftarrow> actor_state_echo_u K node;
           (iVar5, iVar7) \<leftarrow> (if (v21 AND 1) = 0 then do {
             v22 \<leftarrow> actor_pos_x_fixed K node;
             let iVar5 = v22 + iVar5;
             v23 \<leftarrow> actor_pos_z_fixed K node;
             State_Monad.return (iVar5, v23 + iVar7)
           }
            else do {
              v24 \<leftarrow> actor_pos_x_fixed K node;
              let iVar5 = v24 - iVar5;
              v25 \<leftarrow> actor_pos_z_fixed K node;
              State_Monad.return (iVar5, v25 - iVar7)
            });
           actor_set_pos_x_fixed K node iVar5;
           actor_set_pos_z_fixed K node iVar7;
           v26 \<leftarrow> actor_pos_y K node;
           v27 \<leftarrow> actor_accel_y K node;
           actor_set_pos_y K node (as_u16 (v26 + v27));
           v28 \<leftarrow> actor_rot_z K node;
           actor_set_rot_z K node (as_u16 (v28 + 0xCC));
           v29 \<leftarrow> r8 K (node + 0x29);
           let despawnNow = v29 \<noteq> 0;
           despawnNow \<leftarrow> (if \<not> despawnNow then do {
             setr K (unat R_A0) node;
             setr K (unat R_A1) 0;
             setr K (unat R_A2) 0;
             call_guest K kLeaf_800495DC;
             v30 \<leftarrow> reg K (unat R_V0);
             State_Monad.return (v30 \<noteq> 0)
           }
            else State_Monad.return despawnNow);
           (if despawnNow then do {
             setr K (unat R_A0) (node + 0x2C);
             call_guest K kLeaf_800315D4;
             setr K (unat R_A0) 0x1B;
             setr K (unat R_A1) 0;
             setr K (unat R_A2) 0;
             call_guest K kSfxTrigger;
             State_Monad.return (Inr (''LAB_801451b0'', diff, inc1, node, v))
           }
            else do {
              sVar4 \<leftarrow> actor_accel_y K node;
              actor_set_accel_y K node (as_u16 (sVar4 + 4));
              only_if (0x3C <s as_s16 (sVar4 + 4)) (actor_set_accel_y K node 0x3C);
              State_Monad.return (Inr (''LAB_801451a0'', diff, inc1, node, v))
            })
         })
      })
   }"

definition actor_zoned_attacker_idle_tick_l273 :: "'c core_ops \<Rightarrow> u32 \<Rightarrow>
    ('c, unit + 'a) state" where
  "actor_zoned_attacker_idle_tick_l273 K node = do {
     _ \<leftarrow> guest_call K kGateCheck [node];
     iVar5 \<leftarrow> reg K (unat R_V0);
     only_if (iVar5 = 0) (do {
       _ \<leftarrow> guest_call K kCullWrapperFlag2 [node];
       v33 \<leftarrow> reg K (unat R_V0);
       only_if (v33 \<noteq> 0) (do {
         _ \<leftarrow> guest_call K kObjMatrixCompose [node];
         v34 \<leftarrow> r8 K (node + 0x29);
         bVar6 \<leftarrow> (if v34 = 0 then do {
           v35 \<leftarrow> r8 K (node + 0xB);
           State_Monad.return (as_u8 (v35 AND 0x3F))
         }
          else do {
            v36 \<leftarrow> r8 K (node + 0xB);
            State_Monad.return (as_u8 ((v36 AND 0xC0) OR 0x80))
          });
         w8 K (node + 0xB) bVar6
       })
     });
     w8 K (node + 0x29) 0;
     State_Monad.return (Inl ())
   }"

definition actor_zoned_attacker_idle_tick_l295 :: "'c core_ops \<Rightarrow> u32 \<Rightarrow> 'a
    \<Rightarrow> 'b \<Rightarrow> 'd \<Rightarrow> ('c, 'e + string \<times> 'a \<times> 'b
    \<times> u32 \<times> 'd) state" where
  "actor_zoned_attacker_idle_tick_l295 K node diff inc1 v = do {
     v37 \<leftarrow> r32 K (node + 4);
     (if (v37 AND 0xFFFF00) = 0x800 then do {
       setr K (unat R_A0) node;
       setr K (unat R_A1) 0xFF;
       setr K (unat R_A2) 0x30;
       setr K (unat R_A3) 0x30;
       call_guest K kPaletteSideEffect;
       State_Monad.return (Inr (''switchD_caseD_7'', diff, inc1, node, v))
     }
      else State_Monad.return (Inr (''after6'', diff, inc1, node, v)))
   }"

definition actor_zoned_attacker_idle_tick_l303 :: "'c core_ops \<Rightarrow> u32 \<Rightarrow> 'a
    \<Rightarrow> 'b \<Rightarrow> 'd \<Rightarrow> ('c, 'e + string \<times> 'a \<times> 'b
    \<times> u32 \<times> 'd) state" where
  "actor_zoned_attacker_idle_tick_l303 K node diff inc1 v = do {
     v38 \<leftarrow> r32 K (node + 4);
     only_if ((v38 AND 0xFFFF00) = 0x700) (do {
       setr K (unat R_A0) node;
       setr K (unat R_A1) 0x20;
       setr K (unat R_A2) 0x30;
       setr K (unat R_A3) 0xFF;
       call_guest K kPaletteSideEffect
     });
     State_Monad.return (Inr (''switchD_caseD_2'', diff, inc1, node, v))
   }"

definition actor_zoned_attacker_idle_tick_l136 :: "'c core_ops \<Rightarrow> u32 \<Rightarrow> 'a
    \<Rightarrow> 'b \<Rightarrow> 'd \<Rightarrow> ('c, 'e + string \<times> 'a \<times> 'b
    \<times> u32 \<times> 'd) state" where
  "actor_zoned_attacker_idle_tick_l136 K node diff inc1 v = do {
     _ \<leftarrow> guest_call K kLeaf_80140AF4 [node];
     v39 \<leftarrow> reg K (unat R_V0);
     let sVar4 = as_s16 v39;
     v40 \<leftarrow> r8 K (node + 5);
     (if v40 = 4 then only_if (sVar4 \<noteq> 0) (do {
       w16 K (node + 6) 2;
       w16 K (node + 0x42) 0x5A
     })
      else do {
        _ \<leftarrow> guest_call K kAnimationStep [node];
        only_if (sVar4 \<noteq> 0) (w16 K (node + 6) 3)
      });
     cd \<leftarrow> r8 K kCountdown;
     w8 K kCountdown (cd - 1);
     only_if (as_s8 cd <s 0) (do {
       v42 \<leftarrow> r16 K (node + 0x68);
       let kind = (shr v42 8) AND 0xF;
       v43 \<leftarrow> r16s K (node + 0x4E);
       only_if (kind = 1 \<or> (kind = 2 \<and> 0x500 <s v43)) (do {
         gsp \<leftarrow> reg K 29;
         v45 \<leftarrow> actor_pos_x_u K node;
         w16 K (gsp + 0x12) v45;
         v46 \<leftarrow> r16 K (node + 0x6A);
         w16 K (gsp + 0x16) v46;
         v47 \<leftarrow> actor_pos_z_u K node;
         w16 K (gsp + 0x1A) v47;
         _ \<leftarrow> spawn_and_init K 8 (gsp + 0x10) (- 0x50);
         w8 K kCountdown 10
       });
       w16 K (node + 0x68) 0
     });
     State_Monad.return (Inr (''after3'', diff, inc1, node, v))
   }"

definition actor_zoned_attacker_idle_tick_l85 :: "'c core_ops \<Rightarrow> u32 \<Rightarrow> 'a
    \<Rightarrow> 'b \<Rightarrow> 'd \<Rightarrow> ('c, 'e + string \<times> 'a \<times> 'b
    \<times> u32 \<times> 'd) state" where
  "actor_zoned_attacker_idle_tick_l85 K node diff inc1 v = do {
     bVar6 \<leftarrow> r8 K (node + 6);
     (if bVar6 = 1 then State_Monad.return (Inr (''LAB_80144d20'', diff, inc1, node, v))
      else if bVar6 < 2 then (if bVar6 = 0 then do {
        v57 \<leftarrow> actor_interact_state K node;
        let lhs = (v57 * 0x10 - 0x800) AND 0xFFF;
        v58 \<leftarrow> actor_trigger_param K node;
        let val = (lhs - v58 + 0x400) AND 0xFFF;
        v62 \<leftarrow> actor_state_echo_u K node;
        let v62 = (if val < 0x801 then as_u16 (v62 OR 1) else as_u16 (v62 AND 0xFFFE));
        actor_set_state_echo K node v62;
        setr K (unat R_A0) 0x88;
        setr K (unat R_A1) 0;
        setr K (unat R_A2) 0;
        call_guest K kSfxTrigger;
        w16 K (node + 6) 1;
        State_Monad.return (Inr (''LAB_80144d20'', diff, inc1, node, v))
      }
       else State_Monad.return (Inr (''idle_after_substate'', diff, inc1, node, v)))
       else do {
         (if bVar6 = 2 then do {
           v60 \<leftarrow> actor_pos_y K node;
           actor_set_pos_y K node (as_u16 (v60 + 0x10));
           _ \<leftarrow> guest_call K kMotionAnimStep [node];
           v42 \<leftarrow> r16 K (node + 0x42);
           w16 K (node + 0x42) (v42 - 1);
           only_if (as_s16 v42 <s 1) (w16 K (node + 6) 3)
         }
          else only_if (bVar6 = 3) (do {
            v62 \<leftarrow> r8 K (node + 0xD);
            only_if ((v62 AND 2) \<noteq> 0) (do {
              let lerp = (\<lambda>off. do {
                v \<leftarrow> r8 K (node + off);
                let diff = 0x80 - v;
                let inc1 = as_s8 (sar 3 diff);
                w8 K (node + off) (v + as_u8 inc1)
              });
              lerp 0x18;
              lerp 0x19;
              lerp 0x1A
            });
            _ \<leftarrow> guest_call K kLeaf_8014243C [node];
            v64 \<leftarrow> reg K (unat R_V0);
            let sVar4 = as_s16 v64;
            _ \<leftarrow> guest_call K kAnimationStep [node];
            only_if (sVar4 \<noteq> 0) (do {
              w8 K (node + 0) 1;
              v65 \<leftarrow> r8 K (node + 0xD);
              w8 K (node + 0xD) (v65 AND 0xFD);
              v66 \<leftarrow> r8 K (node + 0x1B);
              w8 K (node + 0x1B) (v66 AND 0xBF);
              actor_set_interact_state K node 0;
              w8 K (node + 3) 0;
              w32 K (node + 4) 1
            })
          }));
         State_Monad.return (Inr (''idle_after_substate'', diff, inc1, node, v))
       })
   }"

definition actor_zoned_attacker_idle_tick_l69 :: "'c core_ops \<Rightarrow> u32 \<Rightarrow> 'a
    \<Rightarrow> 'b \<Rightarrow> 'd \<Rightarrow> ('c, 'e + string \<times> 'a \<times> 'b
    \<times> u32 \<times> 'd) state" where
  "actor_zoned_attacker_idle_tick_l69 K node diff inc1 v = do {
     v49 \<leftarrow> actor_pos_y K node;
     bVar1 \<leftarrow> (if v49 <s 1 then do {
       v50 \<leftarrow> r8 K (node + 0x66);
       bVar1 \<leftarrow> (if as_s8 v50 = as_s8 0x81 then do {
         v51 \<leftarrow> actor_pos_y K node;
         State_Monad.return (v51 <s - 0x81)
       }
        else do { v52 \<leftarrow> r8 K kGateTimer; State_Monad.return (v52 < 0xC) });
       State_Monad.return (\<not> bVar1)
     }
      else State_Monad.return True);
     (if bVar1 then do {
       w8 K (node + 4) 3;
       State_Monad.return (Inr (''switchD_caseD_3'', diff, inc1, node, v))
     }
      else do {
        v53 \<leftarrow> r8 K kS_1F800137;
        v54 \<leftarrow> r8 K kS_800BF89C;
        v55 \<leftarrow> r8 K kS_800BF809;
        (if (v53 = 0 \<or> v54 = 2) \<and> v55 = 0 then actor_zoned_attacker_idle_tick_l85 K node
            diff inc1 v
         else State_Monad.return (Inr (''after3'', diff, inc1, node, v)))
      })
   }"

definition actor_zoned_attacker_idle_tick_l169 :: "'c core_ops \<Rightarrow> u32 \<Rightarrow> 'a
    \<Rightarrow> 'b \<Rightarrow> 'd \<Rightarrow> ('c, 'e + string \<times> 'a \<times> 'b
    \<times> u32 \<times> 'd) state" where
  "actor_zoned_attacker_idle_tick_l169 K node diff inc1 v = do {
     v67 \<leftarrow> r8 K (node + 0x2A);
     b69 \<leftarrow> (if v67 = 1 then do {
       v68 \<leftarrow> actor_pos_x K node;
       State_Monad.return (0x31A8 <s v68)
     }
      else State_Monad.return False);
     only_if b69 (actor_set_pos_x K node 0x31A8);
     State_Monad.return (Inr (''switchD_caseD_3'', diff, inc1, node, v))
   }"

definition actor_zoned_attacker_idle_tick :: "'c core_ops \<Rightarrow> ('c, unit) state" where
  "actor_zoned_attacker_idle_tick K = with_frame K 48 [(16, 32), (31, 44), (18, 40), (17, 36)]
      (loop (\<lambda>(pc1, diff, inc1, node, v). (if pc1 = ''start'' then do {
     node \<leftarrow> reg K (unat R_A0);
     state5 \<leftarrow> r8 K (node + 5);
     (if state5 = 0 \<or> state5 = 6 then State_Monad.return (Inr (''switchD_caseD_0'', diff,
         inc1, node, v))
      else if state5 = 1 then do {
        v3 \<leftarrow> r8 K (node + 6);
        (if v3 = 0 then do {
          setr K (unat R_A0) 4;
          call_guest K kLeaf_80026100;
          _ \<leftarrow> guest_call K kSetAnimStateCue [node, 2, 4];
          w16 K (node + 0x84) 0x14;
          w16 K (node + 0x86) 100;
          setr K (unat R_A0) 0x89;
          setr K (unat R_A1) 0;
          setr K (unat R_A2) 0;
          call_guest K kSfxTrigger;
          v4 \<leftarrow> r8 K (node + 0x1B);
          w8 K (node + 0x1B) (v4 AND 0xBF);
          v5 \<leftarrow> r8 K (node + 0xD);
          w8 K (node + 0xD) (v5 AND 0xFD);
          w8 K (node + 6) 1;
          State_Monad.return (Inr (''LAB_801451a0'', diff, inc1, node, v))
        }
         else do {
           v6 \<leftarrow> r8 K (node + 6);
           (if v6 \<noteq> 1 then State_Monad.return (Inr (''switchD_caseD_3'', diff, inc1, node,
               v))
            else State_Monad.return (Inr (''LAB_801451a0'', diff, inc1, node, v)))
         })
      }
       else if state5 = 2 then State_Monad.return (Inr (''after5'', diff, inc1, node, v))
        else if state5 = 4 then do {
          v7 \<leftarrow> r32 K (node + 4);
          (if (v7 AND 0xFFFF00) = 0x400 then do {
            setr K (unat R_A0) node;
            setr K (unat R_A1) 0x20;
            setr K (unat R_A2) 0x30;
            setr K (unat R_A3) 0xFF;
            call_guest K kPaletteSideEffect;
            State_Monad.return (Inr (''LAB_80144bd0'', diff, inc1, node, v))
          }
           else State_Monad.return (Inr (''LAB_80144bd0'', diff, inc1, node, v)))
        }
         else if state5 = 5 then State_Monad.return (Inr (''LAB_80144bd0'', diff, inc1, node, v))
          else if state5 = 7 then State_Monad.return (Inr (''switchD_caseD_7'', diff, inc1, node,
              v))
           else if state5 = 8 then State_Monad.return (Inr (''switchD_caseD_8'', diff, inc1, node,
               v))
            else if state5 = 10 then actor_zoned_attacker_idle_tick_l179 K node diff inc1 v
             else if state5 = 0xB then actor_zoned_attacker_idle_tick_l188 K node diff inc1 v
              else State_Monad.return (Inr (''switchD_caseD_3'', diff, inc1, node, v)))
   }
    else if pc1 = ''after5'' then State_Monad.return (Inr (''switchD_caseD_2'', diff, inc1, node,
        v))
     else if pc1 = ''switchD_caseD_2'' then actor_zoned_attacker_idle_tick_l203 K node diff inc1 v
      else if pc1 = ''LAB_801451b0'' then do {
        w8 K (node + 4) 3;
        State_Monad.return (Inl ())
      }
       else if pc1 = ''LAB_801451a0'' then do {
         _ \<leftarrow> guest_call K kAnimationStep [node];
         State_Monad.return (Inr (''switchD_caseD_3'', diff, inc1, node, v))
       }
        else if pc1 = ''switchD_caseD_3'' then actor_zoned_attacker_idle_tick_l273 K node
         else if pc1 = ''switchD_caseD_8'' then actor_zoned_attacker_idle_tick_l295 K node diff
             inc1 v
          else if pc1 = ''after6'' then actor_zoned_attacker_idle_tick_l303 K node diff inc1 v
           else if pc1 = ''LAB_80144d20'' then actor_zoned_attacker_idle_tick_l136 K node diff
               inc1 v
            else if pc1 = ''LAB_80144bd0'' then do {
              v48 \<leftarrow> r32 K (node + 4);
              only_if ((v48 AND 0xFFFF00) = 0x500) (do {
                setr K (unat R_A0) node;
                setr K (unat R_A1) 0xFF;
                setr K (unat R_A2) 0x30;
                setr K (unat R_A3) 0x30;
                call_guest K kPaletteSideEffect
              });
              State_Monad.return (Inr (''switchD_caseD_0'', diff, inc1, node, v))
            }
             else if pc1 = ''switchD_caseD_0'' then actor_zoned_attacker_idle_tick_l69 K node diff
                 inc1 v
              else if pc1 = ''after3'' then State_Monad.return (Inr (''idle_after_substate'',
                  diff, inc1, node, v))
               else if pc1 = ''idle_after_substate'' then actor_zoned_attacker_idle_tick_l169 K
                   node diff inc1 v
                else State_Monad.return (Inr (''after6'', diff, inc1, node, v)))) (''start'', (0
                    :: u32), (0 :: u32), (0 :: u32), (0 :: u32)))"

section \<open>\<open>game/ai/actor_zoned_attacker_substate.cpp\<close>\<close>

definition actor_zoned_attacker_default_sub_state_machine_l56 :: "'c core_ops \<Rightarrow> u32
    \<Rightarrow> 'a \<Rightarrow> 'b \<Rightarrow> 'd \<Rightarrow> ('c, unit + string \<times>
    'a \<times> u32 \<times> 'b \<times> 'd \<times> u32) state" where
  "actor_zoned_attacker_default_sub_state_machine_l56 K node iVar5 sharedBVar2 uVar6 = do {
     _ \<leftarrow> guest_call K kLeaf_80142788 [node];
     v5 \<leftarrow> reg K (unat R_V0);
     let sVar4 = as_s16 v5;
     (if sVar4 = 2 then do {
       let uVar7 = (0x501 :: u32);
       State_Monad.return (Inr (''LAB_80144908'', iVar5, node, sharedBVar2, uVar6, uVar7))
     }
      else if sVar4 <s 3 then (if sVar4 \<noteq> 1 then State_Monad.return (Inl ())
       else do {
         v6 \<leftarrow> r8 K (node + 100);
         let bVar2 = as_u8 (v6 - 1);
         w8 K (node + 100) bVar2;
         let uVar7 = (0x201 :: u32);
         (if shl bVar2 24 <s 1 then do {
           w32 K (node + 4) 0x301;
           call_guest K kRngRead;
           v7 \<leftarrow> reg K (unat R_V0);
           w8 K (node + 100) (v7 AND 3);
           State_Monad.return (Inl ())
         }
          else State_Monad.return (Inr (''LAB_80144908'', iVar5, node, sharedBVar2, uVar6,
              uVar7)))
       })
       else if sVar4 = 3 then do {
         let uVar7 = (0x401 :: u32);
         State_Monad.return (Inr (''LAB_80144908'', iVar5, node, sharedBVar2, uVar6, uVar7))
       }
        else if sVar4 \<noteq> 4 then State_Monad.return (Inl ())
         else do {
           nx1 \<leftarrow> actor_pos_x K node;
           tx \<leftarrow> r16s K kS_1F800160;
           nz \<leftarrow> actor_pos_z K node;
           tz \<leftarrow> r16s K kS_1F800164;
           setr K (unat R_A0) (as_s16 (nx1 - tx));
           setr K (unat R_A1) (as_s16 (nz - tz));
           call_guest K kDist2D;
           v12 \<leftarrow> reg K (unat R_V0);
           let d = as_s16 v12;
           v13 \<leftarrow> r16 K kS_800E7FFE;
           let zone = (if (v13 AND 0x8200) = 0 \<and> d <s 0x641 then (if d <s 0x44D then (if d <s
               0x259 then 2 else (1 :: u32)) else (0 :: u32)) else (-1 :: u32));
           setr K (unat R_A0) node;
           setr K (unat R_A1) zone;
           call_guest K kPickAttackByRange;
           v14 \<leftarrow> reg K (unat R_V0);
           let r = as_s16 v14;
           let uVar7 = (0x301 :: u32);
           (if r \<noteq> 0 then do {
             w8 K (node + 5) r;
             w8 K (node + 6) 0;
             State_Monad.return (Inl ())
           }
            else State_Monad.return (Inr (''LAB_80144908'', iVar5, node, sharedBVar2, uVar6,
                uVar7)))
         })
   }"

definition actor_zoned_attacker_default_sub_state_machine_l45 :: "'c core_ops \<Rightarrow> u32
    \<Rightarrow> 'a \<Rightarrow> 'b \<Rightarrow> 'd \<Rightarrow> ('c, unit + string \<times>
    'a \<times> u32 \<times> 'b \<times> 'd \<times> u32) state" where
  "actor_zoned_attacker_default_sub_state_machine_l45 K node iVar5 sharedBVar2 uVar6 = do {
     v3 \<leftarrow> actor_state_echo_u K node;
     actor_set_state_echo K node (as_u16 (v3 AND 0xFFFB));
     w32 K (node + 4) 0x101;
     n6 \<leftarrow> r8 K (node + 6);
     let rest1 = (actor_zoned_attacker_default_sub_state_machine_l56 K node iVar5 sharedBVar2
         uVar6);
     (if n6 = 0 then do { w16 K (node + 6) 1; rest1 }
      else if n6 \<noteq> 1 then State_Monad.return (Inl ()) else rest1)
   }"

definition actor_zoned_attacker_default_sub_state_machine_l56b where
  "actor_zoned_attacker_default_sub_state_machine_l56b K node iVar5 sharedBVar2 uVar6 = do {
     _ \<leftarrow> guest_call K kLeaf_80142788 [node];
     v16 \<leftarrow> reg K (unat R_V0);
     let sVar4 = as_s16 v16;
     (if sVar4 = 2 then do {
       let uVar7 = (0x501 :: u32);
       State_Monad.return (Inr (''LAB_80144908'', iVar5, node, sharedBVar2, uVar6, uVar7))
     }
      else if sVar4 <s 3 then (if sVar4 \<noteq> 1 then State_Monad.return (Inl ())
       else do {
         v17 \<leftarrow> r8 K (node + 100);
         let bVar2 = as_u8 (v17 - 1);
         w8 K (node + 100) bVar2;
         let uVar7 = (0x201 :: u32);
         (if shl bVar2 24 <s 1 then do {
           w32 K (node + 4) 0x301;
           call_guest K kRngRead;
           v18 \<leftarrow> reg K (unat R_V0);
           w8 K (node + 100) (v18 AND 3);
           State_Monad.return (Inl ())
         }
          else State_Monad.return (Inr (''LAB_80144908'', iVar5, node, sharedBVar2, uVar6,
              uVar7)))
       })
       else if sVar4 = 3 then do {
         let uVar7 = (0x401 :: u32);
         State_Monad.return (Inr (''LAB_80144908'', iVar5, node, sharedBVar2, uVar6, uVar7))
       }
        else if sVar4 \<noteq> 4 then State_Monad.return (Inl ())
         else do {
           nx1 \<leftarrow> actor_pos_x K node;
           tx \<leftarrow> r16s K kS_1F800160;
           nz \<leftarrow> actor_pos_z K node;
           tz \<leftarrow> r16s K kS_1F800164;
           setr K (unat R_A0) (as_s16 (nx1 - tx));
           setr K (unat R_A1) (as_s16 (nz - tz));
           call_guest K kDist2D;
           v23 \<leftarrow> reg K (unat R_V0);
           let d = as_s16 v23;
           v24 \<leftarrow> r16 K kS_800E7FFE;
           let zone = (if (v24 AND 0x8200) = 0 \<and> d <s 0x641 then (if d <s 0x44D then (if d <s
               0x259 then 2 else (1 :: u32)) else (0 :: u32)) else (-1 :: u32));
           setr K (unat R_A0) node;
           setr K (unat R_A1) zone;
           call_guest K kPickAttackByRange;
           v25 \<leftarrow> reg K (unat R_V0);
           let r = as_s16 v25;
           let uVar7 = (0x301 :: u32);
           (if r \<noteq> 0 then do {
             w8 K (node + 5) r;
             w8 K (node + 6) 0;
             State_Monad.return (Inl ())
           }
            else State_Monad.return (Inr (''LAB_80144908'', iVar5, node, sharedBVar2, uVar6,
                uVar7)))
         })
   }"

definition actor_zoned_attacker_default_sub_state_machine_l49 :: "'c core_ops \<Rightarrow> u32
    \<Rightarrow> 'a \<Rightarrow> 'b \<Rightarrow> 'd \<Rightarrow> ('c, unit + string \<times>
    'a \<times> u32 \<times> 'b \<times> 'd \<times> u32) state" where
  "actor_zoned_attacker_default_sub_state_machine_l49 K node iVar5 sharedBVar2 uVar6 = do {
     n6 \<leftarrow> r8 K (node + 6);
     let rest2 = (actor_zoned_attacker_default_sub_state_machine_l56b K node iVar5 sharedBVar2
         uVar6);
     (if n6 = 0 then do { w16 K (node + 6) 1; rest2 }
      else if n6 \<noteq> 1 then State_Monad.return (Inl ()) else rest2)
   }"

definition actor_zoned_attacker_default_sub_state_machine_l126 :: "'c core_ops \<Rightarrow> u32
    \<Rightarrow> u32 \<Rightarrow> 'a \<Rightarrow> 'b \<Rightarrow> 'd \<Rightarrow> ('e
    \<Rightarrow> ('c, unit + string \<times> 'a \<times> u32 \<times> 'b \<times> u32 \<times>
    'd) state) \<Rightarrow> 'e \<Rightarrow> ('c, unit + string \<times> 'a \<times> u32 \<times>
    'b \<times> u32 \<times> 'd) state" where
  "actor_zoned_attacker_default_sub_state_machine_l126 K bVar2 node iVar5 sharedBVar2 uVar7 rest3
      uVar6 = (if 1 < bVar2 then do {
     let uVar6 = (0 :: u32);
     (if bVar2 \<noteq> 2 then State_Monad.return (Inl ())
      else do {
        v35 \<leftarrow> r8 K (node + 7);
        (if v35 = 0 then do {
          v36 \<leftarrow> actor_state_echo_u K node;
          actor_set_state_echo K node (as_u16 (v36 AND 0xFFFB));
          _ \<leftarrow> guest_call K kSetAnimStateCue [node, 0x1A, 8];
          w16 K (node + 0x4E) 0;
          w8 K (node + 7) 1;
          State_Monad.return (Inr (''LAB_80143ea0_a'', iVar5, node, sharedBVar2, uVar6, uVar7))
        }
         else do {
           v37 \<leftarrow> r8 K (node + 7);
           (if v37 = 1 then State_Monad.return (Inr (''LAB_80143ea0_a'', iVar5, node, sharedBVar2,
               uVar6, uVar7))
            else do {
              v38 \<leftarrow> r8 K (node + 7);
              (if v38 < 0x14 then do {
                v39 \<leftarrow> r8 K (node + 7);
                let cVar3 = as_s8 (v39 + 1);
                w8 K (node + 7) cVar3;
                State_Monad.return (Inr (''LAB_80143ea0_tail_skip'', iVar5, node, sharedBVar2,
                    uVar6, uVar7))
              }
               else do {
                 let uVar6 = (1 :: u32);
                 State_Monad.return (Inr (''LAB_80143ea0_tail_skip'', iVar5, node, sharedBVar2,
                     uVar6, uVar7))
               })
            })
         })
      })
   }
    else if bVar2 \<noteq> 0 then State_Monad.return (Inl ())
     else do { w16 K (node + 6) 1; rest3 uVar6 })"

definition actor_zoned_attacker_default_sub_state_machine_l124 :: "'c core_ops \<Rightarrow> u32
    \<Rightarrow> 'a \<Rightarrow> 'b \<Rightarrow> u32 \<Rightarrow> 'd \<Rightarrow> ('c, unit +
    string \<times> 'a \<times> u32 \<times> 'b \<times> u32 \<times> u32) state" where
  "actor_zoned_attacker_default_sub_state_machine_l124 K node iVar5 sharedBVar2 uVar7 uVar6 = do {
     bVar2 \<leftarrow> r8 K (node + 6);
     let rest3 = (\<lambda>uVar6. do {
       v30 \<leftarrow> r8 K (node + 7);
       only_if (v30 = 0) (do {
         v31 \<leftarrow> actor_state_echo_u K node;
         actor_set_state_echo K node (as_u16 (v31 AND 0xFFFB));
         _ \<leftarrow> guest_call K kSetAnimStateCue [node, 5, 8];
         w8 K (node + 7) 0x2D;
         w16 K (node + 0x4E) 0
       });
       bv \<leftarrow> r8 K (node + 7);
       only_if (1 < bv) (w8 K (node + 7) (bv - 1));
       v33 \<leftarrow> actor_pos_y K node;
       actor_set_pos_y K node (as_u16 (v33 + 0x10));
       _ \<leftarrow> guest_call K kMotionAnimStep [node];
       (if 1 < bv then State_Monad.return (Inl ())
        else do {
          call_guest K kRngRead;
          uVar6 \<leftarrow> reg K (unat R_V0);
          let uVar7 = (0x101 :: u32);
          (if (uVar6 AND 0x8000) = 0 then State_Monad.return (Inr (''LAB_801448e8'', iVar5, node,
              sharedBVar2, uVar6, uVar7))
           else State_Monad.return (Inr (''LAB_80144908'', iVar5, node, sharedBVar2, uVar6,
               uVar7)))
        })
     });
     (if bVar2 \<noteq> 1 then actor_zoned_attacker_default_sub_state_machine_l126 K bVar2 node
         iVar5 sharedBVar2 uVar7 rest3 uVar6
      else rest3 uVar6)
   }"

definition actor_zoned_attacker_default_sub_state_machine_l196 :: "'c core_ops \<Rightarrow> u32
    \<Rightarrow> u32 \<Rightarrow> 'a \<Rightarrow> 'b \<Rightarrow> 'd \<Rightarrow> u32
    \<Rightarrow> ('c, unit + string \<times> 'a \<times> u32 \<times> 'b \<times> u32 \<times>
    'd) state" where
  "actor_zoned_attacker_default_sub_state_machine_l196 K bVar2 node iVar5 sharedBVar2 uVar7 uVar6
      = (if 1 < bVar2 then do {
     let uVar6 = (0 :: u32);
     (if bVar2 \<noteq> 2 then State_Monad.return (Inl ())
      else do {
        v41 \<leftarrow> r8 K (node + 7);
        (if v41 = 0 then do {
          v42 \<leftarrow> actor_state_echo_u K node;
          actor_set_state_echo K node (as_u16 (v42 AND 0xFFFB));
          _ \<leftarrow> guest_call K kSetAnimStateCue [node, 0x1A, 8];
          w16 K (node + 0x4E) 0;
          w8 K (node + 7) 1;
          State_Monad.return (Inr (''LAB_80143d00_a'', iVar5, node, sharedBVar2, uVar6, uVar7))
        }
         else do {
           v43 \<leftarrow> r8 K (node + 7);
           (if v43 = 1 then State_Monad.return (Inr (''LAB_80143d00_a'', iVar5, node, sharedBVar2,
               uVar6, uVar7))
            else do {
              v44 \<leftarrow> r8 K (node + 7);
              (if v44 < 0x14 then do {
                v45 \<leftarrow> r8 K (node + 7);
                let cVar3 = as_s8 (v45 + 1);
                w8 K (node + 7) cVar3;
                State_Monad.return (Inr (''LAB_80143d00_tail_skip'', iVar5, node, sharedBVar2,
                    uVar6, uVar7))
              }
               else do {
                 let uVar6 = (1 :: u32);
                 State_Monad.return (Inr (''LAB_80143d00_tail_skip'', iVar5, node, sharedBVar2,
                     uVar6, uVar7))
               })
            })
         })
      })
   }
    else if bVar2 \<noteq> 0 then State_Monad.return (Inl ())
     else do {
       w16 K (node + 6) 1;
       State_Monad.return (Inr (''LAB_80143c48'', iVar5, node, sharedBVar2, uVar6, uVar7))
     })"

definition actor_zoned_attacker_default_sub_state_machine_l194 :: "'c core_ops \<Rightarrow> u32
    \<Rightarrow> 'a \<Rightarrow> 'b \<Rightarrow> 'd \<Rightarrow> u32 \<Rightarrow> ('c, unit +
    string \<times> 'a \<times> u32 \<times> 'b \<times> u32 \<times> 'd) state" where
  "actor_zoned_attacker_default_sub_state_machine_l194 K node iVar5 sharedBVar2 uVar7 uVar6 = do {
     bVar2 \<leftarrow> r8 K (node + 6);
     (if bVar2 \<noteq> 1 then actor_zoned_attacker_default_sub_state_machine_l196 K bVar2 node
         iVar5 sharedBVar2 uVar7 uVar6
      else State_Monad.return (Inr (''LAB_80143c48'', iVar5, node, sharedBVar2, uVar6, uVar7)))
   }"

definition actor_zoned_attacker_default_sub_state_machine_l271 :: "'c core_ops \<Rightarrow> u32
    \<Rightarrow> 'a \<Rightarrow> u32 \<Rightarrow> 'b \<Rightarrow> u32 \<Rightarrow> ('c, unit
    + string \<times> u32 \<times> u32 \<times> 'a \<times> u32 \<times> 'b) state" where
  "actor_zoned_attacker_default_sub_state_machine_l271 K node sharedBVar2 uVar6 uVar7 iVar5 = do {
     sub6 \<leftarrow> r8 K (node + 6);
     (if sub6 = 0 \<or> sub6 = 1 then do {
       _ \<leftarrow> guest_call K kLeaf_801408AC [node];
       State_Monad.return (Inl ())
     }
      else if sub6 = 2 then do {
        _ \<leftarrow> guest_call K kLeaf_80141AC4 [node, 0x20, 0x500];
        v50 \<leftarrow> reg K (unat R_V0);
        let iVar5 = shl v50 16;
        State_Monad.return (Inr (''LAB_80144550'', iVar5, node, sharedBVar2, uVar6, uVar7))
      }
       else if sub6 = 3 then do {
         setr K (unat R_A0) node;
         setr K (unat R_A1) 0;
         setr K (unat R_A2) 0x1900;
         call_guest K kLeaf_80141AC4;
         v51 \<leftarrow> reg K (unat R_V0);
         let sVar4 = as_s16 v51;
         only_if (sVar4 \<noteq> 0) (w16 K (node + 6) 3);
         n5f \<leftarrow> r8 K (node + 0x5F);
         spawn5f \<leftarrow> (if n5f = 0 then State_Monad.return False
          else if n5f = 3 then do {
            v53 \<leftarrow> actor_state_echo_u K node;
            State_Monad.return ((v53 AND 1) \<noteq> 0)
          }
           else do {
             v54 \<leftarrow> actor_state_echo_u K node;
             State_Monad.return ((v54 AND 1) = 0)
           });
         (if \<not> spawn5f then State_Monad.return (Inl ())
          else do { w32 K (node + 4) 0xA01; State_Monad.return (Inl ()) })
       }
        else if sub6 = 4 then do {
          _ \<leftarrow> guest_call K kLeaf_80141C20 [node];
          v55 \<leftarrow> reg K (unat R_V0);
          let sVar4 = as_s16 v55;
          only_if (sVar4 \<noteq> 0) (w16 K (node + 6) 4);
          n5f \<leftarrow> r8 K (node + 0x5F);
          spawn5f \<leftarrow> (if n5f = 0 then State_Monad.return False
           else if n5f = 3 then do {
             v57 \<leftarrow> actor_state_echo_u K node;
             State_Monad.return ((v57 AND 1) \<noteq> 0)
           }
            else do {
              v58 \<leftarrow> actor_state_echo_u K node;
              State_Monad.return ((v58 AND 1) = 0)
            });
          (if \<not> spawn5f then State_Monad.return (Inl ())
           else do { w32 K (node + 4) 0xA01; State_Monad.return (Inl ()) })
        }
         else if sub6 = 5 then do {
           v59 \<leftarrow> r8 K (node + 7);
           only_if (v59 = 0) (do {
             v60 \<leftarrow> actor_state_echo_u K node;
             actor_set_state_echo K node (as_u16 (v60 AND 0xFFFB));
             _ \<leftarrow> guest_call K kSetAnimStateCue [node, 10, 8];
             w8 K (node + 7) 0x5A;
             w16 K (node + 0x4E) 0
           });
           bv \<leftarrow> r8 K (node + 7);
           only_if (1 < bv) (w8 K (node + 7) (bv - 1));
           let uVar6 = (of_bool (bv \<le> 1) :: u32);
           v62 \<leftarrow> actor_pos_y K node;
           actor_set_pos_y K node (as_u16 (v62 + 0x10));
           _ \<leftarrow> guest_call K kMotionAnimStep [node];
           State_Monad.return (Inr (''after8'', iVar5, node, sharedBVar2, uVar6, uVar7))
         }
          else State_Monad.return (Inl ()))
   }"

definition actor_zoned_attacker_default_sub_state_machine_l377 :: "'c core_ops \<Rightarrow> u32
    \<Rightarrow> 'a \<Rightarrow> u32 \<Rightarrow> 'b \<Rightarrow> u32 \<Rightarrow> ('c, unit
    + string \<times> u32 \<times> u32 \<times> 'a \<times> u32 \<times> 'b) state" where
  "actor_zoned_attacker_default_sub_state_machine_l377 K node sharedBVar2 uVar6 uVar7 iVar5 = do {
     sub8 \<leftarrow> r8 K (node + 6);
     (if sub8 = 0 \<or> sub8 = 1 then do {
       _ \<leftarrow> guest_call K kLeaf_801408AC [node];
       State_Monad.return (Inl ())
     }
      else if sub8 = 2 then do {
        _ \<leftarrow> guest_call K kLeaf_8014103C [node];
        v70 \<leftarrow> reg K (unat R_V0);
        let iVar5 = shl v70 16;
        State_Monad.return (Inr (''LAB_80144550'', iVar5, node, sharedBVar2, uVar6, uVar7))
      }
       else if sub8 = 3 then do {
         _ \<leftarrow> guest_call K kLeaf_80141AC4 [node, 0x20, 0x500];
         v71 \<leftarrow> reg K (unat R_V0);
         let sVar4 = as_s16 v71;
         (if sVar4 = 0 then State_Monad.return (Inl ())
          else do { w16 K (node + 6) 4; State_Monad.return (Inl ()) })
       }
        else if sub8 = 4 then do {
          _ \<leftarrow> guest_call K kLeaf_80141438 [node];
          v72 \<leftarrow> reg K (unat R_V0);
          let sVar4 = as_s16 v72;
          only_if (sVar4 \<noteq> 0) (w16 K (node + 6) 5);
          n5f \<leftarrow> r8 K (node + 0x5F);
          spawn5f \<leftarrow> (if n5f = 0 then State_Monad.return False
           else if n5f = 3 then do {
             v74 \<leftarrow> actor_state_echo_u K node;
             State_Monad.return ((v74 AND 1) \<noteq> 0)
           }
            else do {
              v75 \<leftarrow> actor_state_echo_u K node;
              State_Monad.return ((v75 AND 1) = 0)
            });
          (if \<not> spawn5f then State_Monad.return (Inl ())
           else do { w32 K (node + 4) 0xA01; State_Monad.return (Inl ()) })
        }
         else if sub8 = 5 then do {
           v76 \<leftarrow> r8 K (node + 7);
           only_if (v76 = 0) (do {
             v77 \<leftarrow> actor_state_echo_u K node;
             actor_set_state_echo K node (as_u16 (v77 AND 0xFFFB));
             _ \<leftarrow> guest_call K kSetAnimStateCue [node, 0x1F, 8];
             w8 K (node + 7) 0x32;
             w16 K (node + 0x4E) 0
           });
           bv \<leftarrow> r8 K (node + 7);
           only_if (1 < bv) (w8 K (node + 7) (bv - 1));
           v79 \<leftarrow> actor_pos_y K node;
           actor_set_pos_y K node (as_u16 (v79 + 0x10));
           _ \<leftarrow> guest_call K kMotionAnimStep [node];
           (if 1 < bv then State_Monad.return (Inl ())
            else do { w16 K (node + 6) 6; State_Monad.return (Inl ()) })
         }
          else if sub8 = 6 then do {
            v80 \<leftarrow> r8 K (node + 7);
            only_if (v80 = 0) (do {
              v81 \<leftarrow> actor_state_echo_u K node;
              actor_set_state_echo K node (as_u16 (v81 AND 0xFFFB));
              _ \<leftarrow> guest_call K kSetAnimStateCue [node, 5, 8];
              w8 K (node + 7) 0x2D;
              w16 K (node + 0x4E) 0
            });
            bv \<leftarrow> r8 K (node + 7);
            only_if (1 < bv) (w8 K (node + 7) (bv - 1));
            let uVar6 = (of_bool (bv \<le> 1) :: u32);
            v83 \<leftarrow> actor_pos_y K node;
            actor_set_pos_y K node (as_u16 (v83 + 0x10));
            _ \<leftarrow> guest_call K kMotionAnimStep [node];
            State_Monad.return (Inr (''after8'', iVar5, node, sharedBVar2, uVar6, uVar7))
          }
           else State_Monad.return (Inl ()))
   }"

definition actor_zoned_attacker_default_sub_state_machine_l496 :: "'c core_ops \<Rightarrow> u32
    \<Rightarrow> 'a \<Rightarrow> 'b \<Rightarrow> u32 \<Rightarrow> u32 \<Rightarrow> ('c, unit
    + string \<times> 'a \<times> u32 \<times> 'b \<times> u32 \<times> u32) state" where
  "actor_zoned_attacker_default_sub_state_machine_l496 K node iVar5 sharedBVar2 uVar6 uVar7 = do {
     sub_b1 \<leftarrow> r8 K (node + 6);
     (if sub_b1 = 0 \<or> sub_b1 = 1 then do {
       _ \<leftarrow> guest_call K kLeaf_801408AC [node];
       State_Monad.return (Inl ())
     }
      else if sub_b1 = 2 then do {
        _ \<leftarrow> guest_call K kLeaf_80142A94 [node, 0x300, 0x1E00];
        v93 \<leftarrow> reg K (unat R_V0);
        let sVar4 = as_s16 v93;
        let uVar7 = (0xA01 :: u32);
        (if sVar4 \<noteq> -1 then (if sVar4 = 0 then do {
          n5f \<leftarrow> r8 K (node + 0x5F);
          spawn5f \<leftarrow> (if n5f = 0 then State_Monad.return False
           else if n5f = 3 then do {
             v95 \<leftarrow> actor_state_echo_u K node;
             State_Monad.return ((v95 AND 1) \<noteq> 0)
           }
            else do {
              v96 \<leftarrow> actor_state_echo_u K node;
              State_Monad.return ((v96 AND 1) = 0)
            });
          (if \<not> spawn5f then State_Monad.return (Inl ())
           else do { w32 K (node + 4) 0xA01; State_Monad.return (Inl ()) })
        }
         else do { w16 K (node + 6) 4; State_Monad.return (Inl ()) })
         else State_Monad.return (Inr (''LAB_80144908'', iVar5, node, sharedBVar2, uVar6, uVar7)))
      }
       else if sub_b1 = 3 then do {
         _ \<leftarrow> guest_call K kLeaf_80142CF4 [node];
         v97 \<leftarrow> reg K (unat R_V0);
         let sVar4 = as_s16 v97;
         let uVar7 = (0xA01 :: u32);
         (if sVar4 \<noteq> -1 then (if sVar4 = 0 then do {
           n5f \<leftarrow> r8 K (node + 0x5F);
           spawn5f \<leftarrow> (if n5f = 0 then State_Monad.return False
            else if n5f = 3 then do {
              v99 \<leftarrow> actor_state_echo_u K node;
              State_Monad.return ((v99 AND 1) \<noteq> 0)
            }
             else do {
               v100 \<leftarrow> actor_state_echo_u K node;
               State_Monad.return ((v100 AND 1) = 0)
             });
           (if \<not> spawn5f then State_Monad.return (Inl ())
            else do { w32 K (node + 4) 0xA01; State_Monad.return (Inl ()) })
         }
          else do { w16 K (node + 6) 3; State_Monad.return (Inl ()) })
          else State_Monad.return (Inr (''LAB_80144908'', iVar5, node, sharedBVar2, uVar6,
              uVar7)))
       }
        else if sub_b1 = 4 then do {
          v101 \<leftarrow> r8 K (node + 7);
          only_if (v101 = 0) (do {
            v102 \<leftarrow> actor_state_echo_u K node;
            actor_set_state_echo K node (as_u16 (v102 AND 0xFFFB));
            _ \<leftarrow> guest_call K kSetAnimStateCue [node, 10, 8];
            w8 K (node + 7) 0x3C;
            w16 K (node + 0x4E) 0
          });
          bv \<leftarrow> r8 K (node + 7);
          only_if (1 < bv) (w8 K (node + 7) (bv - 1));
          let uVar6 = (of_bool (bv \<le> 1) :: u32);
          v104 \<leftarrow> actor_pos_y K node;
          actor_set_pos_y K node (as_u16 (v104 + 0x10));
          _ \<leftarrow> guest_call K kMotionAnimStep [node];
          State_Monad.return (Inr (''LAB_801448fc'', iVar5, node, sharedBVar2, uVar6, uVar7))
        }
         else State_Monad.return (Inl ()))
   }"

definition actor_zoned_attacker_default_sub_state_machine_l576 :: "'c core_ops \<Rightarrow> u32
    \<Rightarrow> 'a \<Rightarrow> 'b \<Rightarrow> 'd \<Rightarrow> ('c, unit + string \<times>
    'a \<times> u32 \<times> 'b \<times> 'd \<times> u32) state" where
  "actor_zoned_attacker_default_sub_state_machine_l576 K node iVar5 sharedBVar2 uVar6 = do {
     bVar2 \<leftarrow> r8 K (node + 6);
     (if bVar2 = 2 then do {
       nx1 \<leftarrow> actor_pos_x K node;
       tx \<leftarrow> r16s K kS_1F800160;
       nz \<leftarrow> actor_pos_z K node;
       tz \<leftarrow> r16s K kS_1F800164;
       setr K (unat R_A0) (as_s16 (nx1 - tx));
       setr K (unat R_A1) (as_s16 (nz - tz));
       call_guest K kDist2D;
       v110 \<leftarrow> reg K (unat R_V0);
       (if v110 <s 800 then do { w16 K (node + 6) 3; State_Monad.return (Inl ()) }
        else do {
          _ \<leftarrow> guest_call K kLeaf_80142A94 [node, 800, 0x1E00];
          v111 \<leftarrow> reg K (unat R_V0);
          let sVar4 = as_s16 v111;
          let uVar7 = (0xA01 :: u32);
          (if sVar4 \<noteq> -1 then (if sVar4 = 0 then State_Monad.return (Inl ())
           else do { w16 K (node + 6) 3; State_Monad.return (Inl ()) })
           else State_Monad.return (Inr (''LAB_80144908'', iVar5, node, sharedBVar2, uVar6,
               uVar7)))
        })
     }
      else if bVar2 < 3 then do {
        _ \<leftarrow> guest_call K kLeaf_801408AC [node];
        State_Monad.return (Inl ())
      }
       else if bVar2 \<noteq> 3 then State_Monad.return (Inl ())
        else do {
          _ \<leftarrow> guest_call K kLeaf_801436C4 [node];
          v112 \<leftarrow> reg K (unat R_V0);
          let sVar4 = as_s16 v112;
          let uVar7 = (0xA01 :: u32);
          (if sVar4 = -1 then State_Monad.return (Inr (''LAB_80144908'', iVar5, node, sharedBVar2,
              uVar6, uVar7))
           else if sVar4 = 0 then State_Monad.return (Inl ())
            else do {
              v113 \<leftarrow> r8 K kS_800E7E80;
              (if (v113 AND 2) \<noteq> 0 then do {
                w32 K (node + 4) 0xF01;
                State_Monad.return (Inl ())
              }
               else State_Monad.return (Inr (''LAB_80144904'', iVar5, node, sharedBVar2, uVar6,
                   uVar7)))
            })
        })
   }"

definition actor_zoned_attacker_default_sub_state_machine_l669 :: "'c core_ops \<Rightarrow> u32
    \<Rightarrow> u32 \<Rightarrow> 'a \<Rightarrow> 'b \<Rightarrow> 'd \<Rightarrow> ('c, unit +
    string \<times> 'a \<times> u32 \<times> 'b \<times> u32 \<times> 'd) state" where
  "actor_zoned_attacker_default_sub_state_machine_l669 K state5 node iVar5 sharedBVar2 uVar7 = (if
      state5 = 0xE then do {
     n6 \<leftarrow> r8 K (node + 6);
     let rest4 = (do {
       v121 \<leftarrow> r8 K (node + 7);
       only_if (v121 = 0) (do {
         v122 \<leftarrow> actor_state_echo_u K node;
         actor_set_state_echo K node (as_u16 (v122 AND 0xFFFB));
         _ \<leftarrow> guest_call K kSetAnimStateCue [node, 0x2F, 8];
         w8 K (node + 7) 0x1E;
         w16 K (node + 0x4E) 0
       });
       bv \<leftarrow> r8 K (node + 7);
       only_if (1 < bv) (w8 K (node + 7) (bv - 1));
       let uVar6 = (of_bool (bv \<le> 1) :: u32);
       v124 \<leftarrow> actor_pos_y K node;
       actor_set_pos_y K node (as_u16 (v124 + 0x10));
       _ \<leftarrow> guest_call K kMotionAnimStep [node];
       State_Monad.return (Inr (''after8'', iVar5, node, sharedBVar2, uVar6, uVar7))
     });
     (if n6 = 0 then do { w16 K (node + 6) 1; rest4 }
      else if n6 \<noteq> 1 then State_Monad.return (Inl ()) else rest4)
   }
    else if state5 = 0xF then do {
      n6 \<leftarrow> r8 K (node + 6);
      let rest5 = (do {
        v126 \<leftarrow> r8 K (node + 7);
        only_if (v126 = 0) (do {
          v127 \<leftarrow> actor_state_echo_u K node;
          actor_set_state_echo K node (as_u16 (v127 AND 0xFFFB));
          _ \<leftarrow> guest_call K kSetAnimStateCue [node, 0x30, 8];
          w8 K (node + 7) 0x1E;
          w16 K (node + 0x4E) 0
        });
        bv \<leftarrow> r8 K (node + 7);
        only_if (1 < bv) (w8 K (node + 7) (bv - 1));
        let uVar6 = (of_bool (bv \<le> 1) :: u32);
        v129 \<leftarrow> actor_pos_y K node;
        actor_set_pos_y K node (as_u16 (v129 + 0x10));
        _ \<leftarrow> guest_call K kMotionAnimStep [node];
        State_Monad.return (Inr (''after8'', iVar5, node, sharedBVar2, uVar6, uVar7))
      });
      (if n6 = 0 then do { w16 K (node + 6) 1; rest5 }
       else if n6 \<noteq> 1 then State_Monad.return (Inl ()) else rest5)
    }
     else State_Monad.return (Inl ()))"

definition actor_zoned_attacker_default_sub_state_machine_l576b where
  "actor_zoned_attacker_default_sub_state_machine_l576b K state5 node iVar5 sharedBVar2 uVar6
      uVar7 = (if state5 = 0xC then actor_zoned_attacker_default_sub_state_machine_l576 K node
      iVar5 sharedBVar2 uVar6
    else if state5 = 0xD then do {
      bVar2 \<leftarrow> r8 K (node + 6);
      (if bVar2 = 2 then do {
        _ \<leftarrow> guest_call K kLeaf_801431C4 [node];
        v115 \<leftarrow> reg K (unat R_V0);
        let sVar4 = as_s16 v115;
        let uVar7 = (0xA01 :: u32);
        (if sVar4 \<noteq> -1 then (if sVar4 = 0 then State_Monad.return (Inl ())
         else do { w16 K (node + 6) 3; State_Monad.return (Inl ()) })
         else State_Monad.return (Inr (''LAB_80144908'', iVar5, node, sharedBVar2, uVar6, uVar7)))
      }
       else if bVar2 < 3 then do {
         _ \<leftarrow> guest_call K kLeaf_801408AC [node];
         State_Monad.return (Inl ())
       }
        else if bVar2 \<noteq> 3 then State_Monad.return (Inl ())
         else do {
           v116 \<leftarrow> r8 K (node + 7);
           only_if (v116 = 0) (do {
             v117 \<leftarrow> actor_state_echo_u K node;
             actor_set_state_echo K node (as_u16 (v117 AND 0xFFFB));
             _ \<leftarrow> guest_call K kSetAnimStateCue [node, 5, 8];
             w8 K (node + 7) 0x2D;
             w16 K (node + 0x4E) 0
           });
           bv \<leftarrow> r8 K (node + 7);
           only_if (1 < bv) (w8 K (node + 7) (bv - 1));
           let uVar6 = (of_bool (bv \<le> 1) :: u32);
           v119 \<leftarrow> actor_pos_y K node;
           actor_set_pos_y K node (as_u16 (v119 + 0x10));
           _ \<leftarrow> guest_call K kMotionAnimStep [node];
           State_Monad.return (Inr (''after8'', iVar5, node, sharedBVar2, uVar6, uVar7))
         })
    }
     else actor_zoned_attacker_default_sub_state_machine_l669 K state5 node iVar5 sharedBVar2
         uVar7)"

definition actor_zoned_attacker_default_sub_state_machine_l458 :: "'c core_ops \<Rightarrow> u32
    \<Rightarrow> u32 \<Rightarrow> u32 \<Rightarrow> u32 \<Rightarrow> u32 \<Rightarrow> u32
    \<Rightarrow> ('c, unit + string \<times> u32 \<times> u32 \<times> u32 \<times> u32 \<times>
    u32) state" where
  "actor_zoned_attacker_default_sub_state_machine_l458 K state5 node iVar5 uVar6 uVar7 sharedBVar2
      = (if state5 = 9 then do {
     bVar2 \<leftarrow> r8 K (node + 6);
     (if bVar2 \<noteq> 1 then (if 1 < bVar2 then do {
       let sharedBVar2 = bVar2;
       State_Monad.return (Inr (''LAB_801448a8'', iVar5, node, sharedBVar2, uVar6, uVar7))
     }
      else if bVar2 \<noteq> 0 then State_Monad.return (Inl ())
       else do {
         w16 K (node + 6) 1;
         _ \<leftarrow> guest_call K kLeaf_80140AF4 [node];
         v85 \<leftarrow> reg K (unat R_V0);
         let iVar5 = shl v85 16;
         State_Monad.return (Inr (''LAB_801448e0'', iVar5, node, sharedBVar2, uVar6, uVar7))
       })
      else do {
        _ \<leftarrow> guest_call K kLeaf_80140AF4 [node];
        v86 \<leftarrow> reg K (unat R_V0);
        let iVar5 = shl v86 16;
        State_Monad.return (Inr (''LAB_801448e0'', iVar5, node, sharedBVar2, uVar6, uVar7))
      })
   }
    else if state5 = 10 then do {
      bVar2 \<leftarrow> r8 K (node + 6);
      (if bVar2 \<noteq> 1 then (if 1 < bVar2 then do {
        let sharedBVar2 = bVar2;
        State_Monad.return (Inr (''LAB_801448a8'', iVar5, node, sharedBVar2, uVar6, uVar7))
      }
       else if bVar2 \<noteq> 0 then State_Monad.return (Inl ())
        else do {
          w16 K (node + 6) 1;
          _ \<leftarrow> guest_call K kLeaf_80140AF4 [node];
          v88 \<leftarrow> reg K (unat R_V0);
          let v0copy = as_s16 v88;
          v89 \<leftarrow> r8 K (node + 7);
          only_if (v89 < 3) (actor_set_rot_z K node 0);
          let iVar5 = shl v0copy 16;
          State_Monad.return (Inr (''LAB_801448e0'', iVar5, node, sharedBVar2, uVar6, uVar7))
        })
       else do {
         _ \<leftarrow> guest_call K kLeaf_80140AF4 [node];
         v90 \<leftarrow> reg K (unat R_V0);
         let v0copy = as_s16 v90;
         v91 \<leftarrow> r8 K (node + 7);
         only_if (v91 < 3) (actor_set_rot_z K node 0);
         let iVar5 = shl v0copy 16;
         State_Monad.return (Inr (''LAB_801448e0'', iVar5, node, sharedBVar2, uVar6, uVar7))
       })
    }
     else if state5 = 0xB then actor_zoned_attacker_default_sub_state_machine_l496 K node iVar5
         sharedBVar2 uVar6 uVar7
      else actor_zoned_attacker_default_sub_state_machine_l576b K state5 node iVar5 sharedBVar2
          uVar6 uVar7)"

definition actor_zoned_attacker_default_sub_state_machine_l348 :: "'c core_ops \<Rightarrow> u32
    \<Rightarrow> u32 \<Rightarrow> u32 \<Rightarrow> u32 \<Rightarrow> u32 \<Rightarrow> u32
    \<Rightarrow> ('c, unit + string \<times> u32 \<times> u32 \<times> u32 \<times> u32 \<times>
    u32) state" where
  "actor_zoned_attacker_default_sub_state_machine_l348 K state5 node sharedBVar2 uVar6 uVar7 iVar5
      = (if state5 = 7 then do {
     bVar2 \<leftarrow> r8 K (node + 6);
     (if bVar2 = 2 then do {
       _ \<leftarrow> guest_call K kLeaf_8014181C [node];
       v64 \<leftarrow> reg K (unat R_V0);
       let iVar5 = shl v64 16;
       State_Monad.return (Inr (''LAB_80144550'', iVar5, node, sharedBVar2, uVar6, uVar7))
     }
      else if bVar2 < 3 then do {
        _ \<leftarrow> guest_call K kLeaf_801408AC [node];
        State_Monad.return (Inl ())
      }
       else if bVar2 \<noteq> 3 then State_Monad.return (Inl ())
        else do {
          v65 \<leftarrow> r8 K (node + 7);
          only_if (v65 = 0) (do {
            v66 \<leftarrow> actor_state_echo_u K node;
            actor_set_state_echo K node (as_u16 (v66 AND 0xFFFB));
            _ \<leftarrow> guest_call K kSetAnimStateCue [node, 5, 8];
            w8 K (node + 7) 0x2D;
            w16 K (node + 0x4E) 0
          });
          bv \<leftarrow> r8 K (node + 7);
          only_if (1 < bv) (w8 K (node + 7) (bv - 1));
          let uVar6 = (of_bool (bv \<le> 1) :: u32);
          v68 \<leftarrow> actor_pos_y K node;
          actor_set_pos_y K node (as_u16 (v68 + 0x10));
          _ \<leftarrow> guest_call K kMotionAnimStep [node];
          State_Monad.return (Inr (''after8'', iVar5, node, sharedBVar2, uVar6, uVar7))
        })
   }
    else if state5 = 8 then actor_zoned_attacker_default_sub_state_machine_l377 K node sharedBVar2
        uVar6 uVar7 iVar5
     else actor_zoned_attacker_default_sub_state_machine_l458 K state5 node iVar5 uVar6 uVar7
         sharedBVar2)"

definition actor_zoned_attacker_default_sub_state_machine_l241 :: "'c core_ops \<Rightarrow> u32
    \<Rightarrow> u32 \<Rightarrow> u32 \<Rightarrow> u32 \<Rightarrow> u32 \<Rightarrow> u32
    \<Rightarrow> ('c, unit + string \<times> u32 \<times> u32 \<times> u32 \<times> u32 \<times>
    u32) state" where
  "actor_zoned_attacker_default_sub_state_machine_l241 K state5 node sharedBVar2 uVar6 uVar7 iVar5
      = (if state5 = 5 then do {
     bVar2 \<leftarrow> r8 K (node + 6);
     (if bVar2 \<noteq> 1 then (if 1 < bVar2 then (if bVar2 = 2 then do {
       _ \<leftarrow> guest_call K kLeaf_8014213C [node];
       v47 \<leftarrow> reg K (unat R_V0);
       let iVar5 = shl v47 16;
       State_Monad.return (Inr (''LAB_80144550'', iVar5, node, sharedBVar2, uVar6, uVar7))
     }
      else if bVar2 \<noteq> 3 then State_Monad.return (Inl ())
       else do {
         _ \<leftarrow> guest_call K kLeaf_801422B4 [node];
         v48 \<leftarrow> reg K (unat R_V0);
         let uVar6 = shl v48 16;
         State_Monad.return (Inr (''after1'', iVar5, node, sharedBVar2, uVar6, uVar7))
       })
      else if bVar2 \<noteq> 0 then State_Monad.return (Inl ())
       else do {
         w16 K (node + 6) 1;
         State_Monad.return (Inr (''LAB_80143c48'', iVar5, node, sharedBVar2, uVar6, uVar7))
       })
      else State_Monad.return (Inr (''LAB_80143c48'', iVar5, node, sharedBVar2, uVar6, uVar7)))
   }
    else if state5 = 6 then actor_zoned_attacker_default_sub_state_machine_l271 K node sharedBVar2
        uVar6 uVar7 iVar5
     else actor_zoned_attacker_default_sub_state_machine_l348 K state5 node sharedBVar2 uVar6
         uVar7 iVar5)"

definition actor_zoned_attacker_default_sub_state_machine_l113 :: "'c core_ops \<Rightarrow> u32
    \<Rightarrow> u32 \<Rightarrow> u32 \<Rightarrow> u32 \<Rightarrow> u32 \<Rightarrow> u32
    \<Rightarrow> ('c, unit + string \<times> u32 \<times> u32 \<times> u32 \<times> u32 \<times>
    u32) state" where
  "actor_zoned_attacker_default_sub_state_machine_l113 K state5 node iVar5 sharedBVar2 uVar7 uVar6
      = (if state5 = 2 then do {
     n6 \<leftarrow> r8 K (node + 6);
     (if n6 = 0 then do {
       w16 K (node + 6) 1;
       _ \<leftarrow> guest_call K kLeaf_801425F0 [node];
       v27 \<leftarrow> reg K (unat R_V0);
       let uVar6 = shl v27 16;
       State_Monad.return (Inr (''after8'', iVar5, node, sharedBVar2, uVar6, uVar7))
     }
      else if n6 \<noteq> 1 then State_Monad.return (Inl ())
       else do {
         _ \<leftarrow> guest_call K kLeaf_801425F0 [node];
         v28 \<leftarrow> reg K (unat R_V0);
         let uVar6 = shl v28 16;
         State_Monad.return (Inr (''after8'', iVar5, node, sharedBVar2, uVar6, uVar7))
       })
   }
    else if state5 = 3 then actor_zoned_attacker_default_sub_state_machine_l124 K node iVar5
        sharedBVar2 uVar7 uVar6
     else if state5 = 4 then actor_zoned_attacker_default_sub_state_machine_l194 K node iVar5
         sharedBVar2 uVar7 uVar6
      else actor_zoned_attacker_default_sub_state_machine_l241 K state5 node sharedBVar2 uVar6
          uVar7 iVar5)"

definition actor_zoned_attacker_default_sub_state_machine_l719 :: "'c core_ops \<Rightarrow> u32
    \<Rightarrow> u32 \<Rightarrow> 'a \<Rightarrow> 'b \<Rightarrow> ('c, unit + string \<times>
    'a \<times> u32 \<times> u32 \<times> u32 \<times> 'b) state" where
  "actor_zoned_attacker_default_sub_state_machine_l719 K sharedBVar2 node iVar5 uVar7 = (if
      sharedBVar2 \<noteq> 2 then State_Monad.return (Inl ())
    else do {
      _ \<leftarrow> guest_call K kLeaf_8014243C [node];
      v130 \<leftarrow> reg K (unat R_V0);
      let uVar6 = shl v130 16;
      State_Monad.return (Inr (''LAB_801448fc'', iVar5, node, sharedBVar2, uVar6, uVar7))
    })"

definition actor_zoned_attacker_default_sub_state_machine_l735 :: "'c core_ops \<Rightarrow> u32
    \<Rightarrow> u32 \<Rightarrow> ('c, unit + 'a) state" where
  "actor_zoned_attacker_default_sub_state_machine_l735 K iVar5 node = (if iVar5 = 0 then
      State_Monad.return (Inl ())
    else do { w16 K (node + 6) 3; State_Monad.return (Inl ()) })"

definition actor_zoned_attacker_default_sub_state_machine_l149 :: "'c core_ops \<Rightarrow> u32
    \<Rightarrow> 'a \<Rightarrow> 'b \<Rightarrow> 'd \<Rightarrow> 'e \<Rightarrow> ('c, 'f +
    string \<times> 'a \<times> u32 \<times> 'b \<times> 'd \<times> 'e) state" where
  "actor_zoned_attacker_default_sub_state_machine_l149 K node iVar5 sharedBVar2 uVar6 uVar7 = do {
     p38 \<leftarrow> r32 K (node + 0x38);
     v132 \<leftarrow> r16s K (p38 + 4);
     only_if (v132 \<noteq> 0) (do {
       v133 \<leftarrow> actor_state_echo_u K node;
       actor_set_state_echo K node (as_u16 (v133 XOR 1));
       v134 \<leftarrow> actor_rot_y_u K node;
       actor_set_rot_y K node (as_u16 (v134 + 0x800));
       _ \<leftarrow> guest_call K kSetAnimStateCue [node, 7, 0];
       w8 K (node + 7) 2
     });
     State_Monad.return (Inr (''LAB_80143ea0_tail_skip'', iVar5, node, sharedBVar2, uVar6, uVar7))
   }"

definition actor_zoned_attacker_default_sub_state_machine_l219 :: "'c core_ops \<Rightarrow> u32
    \<Rightarrow> 'a \<Rightarrow> 'b \<Rightarrow> 'd \<Rightarrow> 'e \<Rightarrow> ('c, 'f +
    string \<times> 'a \<times> u32 \<times> 'b \<times> 'd \<times> 'e) state" where
  "actor_zoned_attacker_default_sub_state_machine_l219 K node iVar5 sharedBVar2 uVar6 uVar7 = do {
     p38 \<leftarrow> r32 K (node + 0x38);
     v137 \<leftarrow> r16s K (p38 + 4);
     only_if (v137 \<noteq> 0) (do {
       v138 \<leftarrow> actor_state_echo_u K node;
       actor_set_state_echo K node (as_u16 (v138 XOR 1));
       v139 \<leftarrow> actor_rot_y_u K node;
       actor_set_rot_y K node (as_u16 (v139 + 0x800));
       _ \<leftarrow> guest_call K kSetAnimStateCue [node, 7, 0];
       w8 K (node + 7) 2
     });
     State_Monad.return (Inr (''LAB_80143d00_tail_skip'', iVar5, node, sharedBVar2, uVar6, uVar7))
   }"

definition actor_zoned_attacker_default_sub_state_machine :: "'c core_ops \<Rightarrow> ('c, unit)
    state" where
  "actor_zoned_attacker_default_sub_state_machine K = with_frame K 40 [(16, 16), (31, 32), (19,
      28), (18, 24), (17, 20)] (loop (\<lambda>(pc1, iVar5, node, sharedBVar2, uVar6, uVar7). (if
      pc1 = ''start'' then do {
     node \<leftarrow> reg K (unat R_A0);
     let uVar6 = (0 :: u32);
     let uVar7 = (0 :: u32);
     let iVar5 = (0 :: u32);
     let sharedBVar2 = (0 :: u32);
     state5 \<leftarrow> r8 K (node + 5);
     (if state5 = 0 then actor_zoned_attacker_default_sub_state_machine_l45 K node iVar5
         sharedBVar2 uVar6
      else if state5 = 1 then actor_zoned_attacker_default_sub_state_machine_l49 K node iVar5
          sharedBVar2 uVar6
       else actor_zoned_attacker_default_sub_state_machine_l113 K state5 node iVar5 sharedBVar2
           uVar7 uVar6)
   }
    else if pc1 = ''after8'' then State_Monad.return (Inr (''after1'', iVar5, node, sharedBVar2,
        uVar6, uVar7))
     else if pc1 = ''after1'' then State_Monad.return (Inr (''LAB_801448fc'', iVar5, node,
         sharedBVar2, uVar6, uVar7))
      else if pc1 = ''LAB_801448a8'' then actor_zoned_attacker_default_sub_state_machine_l719 K
          sharedBVar2 node iVar5 uVar7
       else if pc1 = ''LAB_801448fc'' then (if uVar6 \<noteq> 0 then State_Monad.return (Inr
           (''LAB_80144904'', iVar5, node, sharedBVar2, uVar6, uVar7))
        else State_Monad.return (Inr (''after9'', iVar5, node, sharedBVar2, uVar6, uVar7)))
        else if pc1 = ''after9'' then State_Monad.return (Inl ())
         else if pc1 = ''LAB_80144550'' then actor_zoned_attacker_default_sub_state_machine_l735 K
             iVar5 node
          else if pc1 = ''LAB_801448e0'' then (if iVar5 = 0 then State_Monad.return (Inl ())
           else State_Monad.return (Inr (''LAB_801448e8'', iVar5, node, sharedBVar2, uVar6,
               uVar7)))
           else if pc1 = ''LAB_801448e8'' then do {
             w16 K (node + 6) 2;
             State_Monad.return (Inl ())
           }
            else if pc1 = ''LAB_80143ea0_a'' then
                actor_zoned_attacker_default_sub_state_machine_l149 K node iVar5 sharedBVar2 uVar6
                uVar7
             else if pc1 = ''LAB_80143ea0_tail_skip'' then do {
               v135 \<leftarrow> actor_pos_y K node;
               actor_set_pos_y K node (as_u16 (v135 + 0x10));
               _ \<leftarrow> guest_call K kMotionAnimStep [node];
               State_Monad.return (Inr (''after1'', iVar5, node, sharedBVar2, uVar6, uVar7))
             }
              else if pc1 = ''LAB_80143d00_a'' then
                  actor_zoned_attacker_default_sub_state_machine_l219 K node iVar5 sharedBVar2
                  uVar6 uVar7
               else if pc1 = ''LAB_80143d00_tail_skip'' then do {
                 v140 \<leftarrow> actor_pos_y K node;
                 actor_set_pos_y K node (as_u16 (v140 + 0x10));
                 _ \<leftarrow> guest_call K kMotionAnimStep [node];
                 State_Monad.return (Inr (''after1'', iVar5, node, sharedBVar2, uVar6, uVar7))
               }
                else if pc1 = ''LAB_80143c48'' then do {
                  _ \<leftarrow> guest_call K kLeaf_801425F0 [node];
                  v141 \<leftarrow> reg K (unat R_V0);
                  let iVar5 = shl v141 16;
                  State_Monad.return (Inr (''LAB_801448e0'', iVar5, node, sharedBVar2, uVar6,
                      uVar7))
                }
                 else if pc1 = ''LAB_80144904'' then do {
                   let uVar7 = (0x101 :: u32);
                   State_Monad.return (Inr (''LAB_80144908'', iVar5, node, sharedBVar2, uVar6,
                       uVar7))
                 }
                  else do {
                    w32 K (node + 4) uVar7;
                    State_Monad.return (Inr (''after9'', iVar5, node, sharedBVar2, uVar6, uVar7))
                  })) (''start'', (0 :: u32), (0 :: u32), (0 :: u32), (0 :: u32), (0 :: u32)))"

end
