(* ===== verification/Spec2Isabelle.thy ===== *)
theory Spec2Isabelle
  imports ActorReward AssemblyRiders AssetRefinement BehaviorTable CollisionResolve DemoScene
    EngineFrame GpuQueue GroundActors GteWrappers ObjectWalk PadFence ProximityCombat
    RenderLayers RenderWalks ScriptProgress SequencerVoices SopScene SteeredValues TaskTable
    ZonedAttacker
begin

text \<open>
  A verification library for the native engine layer of a PlayStation game port: the C++ under
  \<open>src/game\<close> (and \<open>src/titles\<close>) that re-implements, byte for byte,
  routines of the original game over the memory of an emulated guest machine.

  \<^bold>\<open>The program.\<close> The guest machine (\<open>Core\<close>: main RAM, scratchpad,
  registers, coprocessor, dispatch into translated guest code, stack frames) is the shared runtime,
  which is not part of this repository. The game layer reads and writes it: object handlers run once
  a frame over intrusive lists of fixed-size objects, spawn and despawn them from typed pools, ask
  the cull whether an object is visible, trigger sounds, and step scripts, scenes and tasks whose
  state lives in guest memory; packet leaves transform models and write drawing packets for the GPU.
  Most functions mirror one guest function each, named in the source by its address.

  \<^bold>\<open>The model.\<close> The machine is the parameter \<open>K :: 'c core_ops\<close> of
  every definition (\<open>GuestCore\<close>); what the code relies on is the locale
  \<open>guest_core\<close>, with \<open>guest_gte\<close> for the coprocessor, both interpreted by
  \<open>flat_core\<close>, on which the witnesses run. An operation is a computation of the state
  monad over the machine, with the source's reads, writes and calls in its order;
  \<open>uint32_t\<close> and \<open>int32_t\<close> are \<open>32 word\<close>, narrower integers
  are kept extended to 32 bits (\<open>Prelude\<close>). A \<open>switch\<close> is a chain of
  conditionals in the order of its cases, a label reached by \<open>goto\<close> a local function,
  an early return the end of its branch, a counted loop \<open>for_each\<close>,
  \<open>fold_each\<close> or \<open>each_until\<close>; any other loop, and a label jumped to
  backwards, is \<open>loop\<close>, whose \<open>loop_run\<close> is \<open>None\<close> when it
  does not return, so that an equation for the run of such an operation says that it returns. No
  definition needs fuel. A call of \<open>abort()\<close> is the result \<open>False\<close>, or
  \<open>or_abort\<close> at the entry that ends the process. A function of more than 150 lines is
  split into parts: \<open><name>_l<line>\<close> is the block of the source that starts at that
  line, over the variables live there. A class that views a guest object stores its base address;
  its methods take that address first. A local that shadows another, or is assigned, is bound again
  under its name.

  Calls into guest code are the parameters \<open>call_guest\<close>, \<open>guest_call\<close> and
  \<open>dispatch_jal\<close>; the coprocessor's registers and commands, the multiplier and the
  margin of the host's display are parameters too. A handler that looks up another native handler
  takes the lookup from the machine (\<open>native_behavior\<close>), and
  \<open>BehaviorTable\<close> builds the table over all of them and puts it in. Logging leaves no
  trace, and the diagnostic channels that re-run guest code to compare
  (\<open>lucent::channel_on\<close>) are off.

  \<^bold>\<open>The theories.\<close>
  \<^item> \<open>Prelude\<close> (C operators, loops, word lemmas), \<open>GuestCore\<close> (the
    machine, read-after-write rules, footprints, the flat machine), \<open>Polling\<close>
    (operations repeated until they answer) and \<open>StackFrames\<close> (the scoped frames
    functions declare for themselves).
  \<^item> \<open>GuestMath\<close>: \<open>game/math\<close>, random numbers, trigonometry, flag
    bits; \<open>MatrixMath\<close> and \<open>GteWrappers\<close>: matrices, rotations and the
    transforms of \<open>gte_math.cpp\<close>. \<open>Inventory\<close>: \<open>game/items\<close>,
    with an abstract inventory it refines.
  \<^item> \<open>LinkedLists\<close>, \<open>ObjectPools\<close>, \<open>Spawn\<close>,
    \<open>ObjectWorld\<close>, \<open>PoolStart\<close>: pools, spawning and despawning of
    \<open>game/world\<close>, refining an abstract world of free lists and active lists.
    \<open>WorldTables\<close>, \<open>ModelBinding\<close>, \<open>CollisionResolve\<close>: the
    tables, model bindings and contacts of \<open>game/world\<close>.
  \<^item> \<open>ObjectLists\<close>, \<open>BehaviorTable\<close>: the behaviour pass and the
    table of native handlers (\<open>game/object\<close>); \<open>ObjectWalk\<close>, the pass over
    the object world.
  \<^item> \<open>VisibilityCull\<close>, \<open>CullWrappers\<close>:
    \<open>game/render/cull.cpp\<close>, with the render queues as bounded lists;
    \<open>HorizontalCull\<close>: the draw window and the horizontal cull.
  \<^item> \<open>TaskScheduling\<close>: \<open>game/core/sched\<close>, and
    \<open>TaskTable\<close>, its contract as a transition system; \<open>EngineFrame\<close>:
    \<open>game/core/engine\<close>; \<open>AssetDecoding\<close>: \<open>game/core/assets\<close>,
    and \<open>AssetRefinement\<close>, the decoder it implements.
  \<^item> \<open>ScriptInterpreter\<close>: \<open>game/scene/script_interp*.cpp\<close>, and
    \<open>ScriptProgress\<close>, the progress of its repeated opcodes;
    \<open>SceneControl\<close>, \<open>DemoScene\<close>, \<open>SopScene\<close>: the other
    scenes.
  \<^item> \<open>ObjectViews\<close> (the views of guest objects all of these share) and the
    behaviour theories of \<open>game/object\<close> and \<open>game/ai\<close>:
    \<open>ActorReward\<close>, \<open>AreaSixActors\<close>, \<open>SeasideProximity\<close>,
    \<open>MeleeCombat\<close>, \<open>ReleaseTriggers\<close>, \<open>GroundActors\<close>,
    \<open>SopIntro\<close>, \<open>RoutedBehaviors\<close>, \<open>ProximityCombat\<close>,
    \<open>ZonedAttacker\<close>, \<open>PadChildren\<close>, \<open>TableActors\<close>,
    \<open>RecordActors\<close>, \<open>MotionActors\<close>, \<open>SceneTriggers\<close>,
    \<open>AssemblyRiders\<close>. \<open>LookupLeaves\<close> (leaves that answer a pair, an
    optional or a table row) and \<open>SteeredValues\<close>, one of them over many frames.
  \<^item> \<open>PlayerActor\<close>, \<open>PlayerCollision\<close>: \<open>game/player\<close>;
    \<open>CameraRig\<close>: \<open>game/camera\<close>; \<open>GameAudio\<close>,
    \<open>Sequencer\<close>, \<open>SequencerVoices\<close>: \<open>game/audio\<close>;
    \<open>UiText\<close>: \<open>game/ui\<close>; \<open>PadFence\<close>:
    \<open>game/input\<close>.
  \<^item> \<open>GpuLeaves\<close>, \<open>GpuQueue\<close>, \<open>PacketEffects\<close>,
    \<open>RenderLayers\<close>, \<open>RenderWalks\<close>: packets, transfers, effects, layers and
    the walks over the render lists of \<open>game/render\<close>.

  \<^bold>\<open>What is shown.\<close> The mathematics against its specification (C1 to C5, C13,
  C14, C22 to C25); the inventory, the object world, the render queues and the task table as
  refinements of abstract data (C6, C9, C10, C15, C17) with their invariants, round trips and types
  (C7, C8, C11, C12, C18); errors (C16, C29); that repeated operations answer, within how many calls
  (C19 to C21, C40); the walk over packets and its passes (C26 to C30); the decompressor against a
  reference decoder, strings and interpolation (C31 to C33); the horizontal cull (C34, C35); and
  what holds the handlers together: the behaviour pass over the object world (C36), the table they
  are looked up in and its counters (C37, C38), and the frames that give registers back (C39).

  \<^bold>\<open>Not modelled.\<close> Host code: windowing, audio output, the host's own renderers,
  disc access, sessions and settings, the catalog of overrides and the debug tools, and the loaders
  that wait on the host (coroutines of the scheduler, disc turns). Code behind these keeps no guest
  state; the manifest lists it by component. In modelled files, functions that call such code or
  types of the runtime the repository does not hold are left out, and named in the manifest.
\<close>

end
